(* ===== verification/Prelude.thy ===== *)
theory Prelude
  imports Main
begin

text \<open>
  Shared vocabulary of the development. A Go function that returns a value and an error is a
  function into \<open>'e + 'a\<close> (\<open>Inl\<close> is the early return with the error, \<open>Inr\<close> the value with a
  nil error); a Go function that returns only an error is a function into \<open>'e option\<close>
  (\<open>None\<close> is nil). The combinators below are the early-return idioms
  \<open>if err := f(); err != nil { return err }\<close>; each comes with the equation that says exactly
  when it succeeds (collection \<open>success_iff\<close>), so the success condition of a whole
  constructor is computed by \<open>simp\<close>.

  The second half runs a fallible step function over a list of operations, in the two ways the
  program does, and states how invariants of single steps carry over to runs.
\<close>

named_theorems success_iff \<open>when an operation returns a value\<close>
named_theorems frame_rules \<open>what an operation leaves unchanged\<close>

subsection \<open>Early returns\<close>

definition check_then :: "'e option \<Rightarrow> ('e + 'a) \<Rightarrow> 'e + 'a" where
  "check_then c k = (case c of Some e \<Rightarrow> Inl e | None \<Rightarrow> k)"

definition and_then :: "('e + 'a) \<Rightarrow> ('a \<Rightarrow> 'e + 'b) \<Rightarrow> 'e + 'b" where
  "and_then m k = (case m of Inl e \<Rightarrow> Inl e | Inr x \<Rightarrow> k x)"

definition or_else_err :: "'e option \<Rightarrow> 'e option \<Rightarrow> 'e option" where
  "or_else_err c d = (case c of Some e \<Rightarrow> Some e | None \<Rightarrow> d)"

definition err_of :: "('e + 'a) \<Rightarrow> 'e option" where
  "err_of m = (case m of Inl e \<Rightarrow> Some e | Inr _ \<Rightarrow> None)"

lemma check_then_simps [simp]:
  "check_then (Some e) k = Inl e"
  "check_then None k = k"
  by (simp_all add: check_then_def)

lemma and_then_simps [simp]:
  "and_then (Inl e) f = Inl e"
  "and_then (Inr x) f = f x"
  by (simp_all add: and_then_def)

lemma or_else_err_simps [simp]:
  "or_else_err (Some e) d = Some e"
  "or_else_err None d = d"
  by (simp_all add: or_else_err_def)

lemma err_of_simps [simp]:
  "err_of (Inl e) = Some e"
  "err_of (Inr x) = None"
  by (simp_all add: err_of_def)

lemma check_then_Inr [success_iff]: "check_then c k = Inr x \<longleftrightarrow> c = None \<and> k = Inr x"
  by (cases c) simp_all

lemma and_then_Inr [success_iff]: "and_then m f = Inr y \<longleftrightarrow> (\<exists>x. m = Inr x \<and> f x = Inr y)"
  by (cases m) simp_all

lemma or_else_err_None [success_iff]: "or_else_err c d = None \<longleftrightarrow> c = None \<and> d = None"
  by (cases c) simp_all

lemma err_of_None [success_iff]: "err_of m = None \<longleftrightarrow> (\<exists>x. m = Inr x)"
  by (cases m) simp_all

lemma if_Inl_Inr [success_iff]: "(if b then Inl e else k) = Inr x \<longleftrightarrow> \<not> b \<and> k = Inr x"
  by simp

lemma if_Some_None [success_iff]: "(if b then Some e else k) = None \<longleftrightarrow> \<not> b \<and> k = None"
  by simp

lemma not_Inl_iff: "(\<forall>e. m \<noteq> Inl e) \<longleftrightarrow> (\<exists>x. m = Inr x)"
  by (cases m) simp_all

text \<open>A computable form of \<open>m = Inr x\<close>, for evaluating an operation on a concrete input
  without comparing errors.\<close>

definition returns :: "'e + 'a \<Rightarrow> 'a \<Rightarrow> bool" where
  "returns m x = (case m of Inl _ \<Rightarrow> False | Inr y \<Rightarrow> y = x)"

lemma returnsD: "returns m x \<Longrightarrow> m = Inr x"
  by (simp add: returns_def split: sum.splits)

subsection \<open>Runs of a fallible step function\<close>

text \<open>
  A run applies operations one after the other and, as a caller that propagates errors does,
  stops at the first one that is refused. \<open>run_keep\<close> is the other way a sequence of
  operations meets an aggregate: each request is tried on the stored state, and a refused one
  leaves the store as it was (a rolled-back transaction).
\<close>

fun run_all :: "('s \<Rightarrow> 'op \<Rightarrow> 'e + 's) \<Rightarrow> 's \<Rightarrow> 'op list \<Rightarrow> 'e + 's" where
  "run_all step s [] = Inr s"
| "run_all step s (x # xs) = and_then (step s x) (\<lambda>s'. run_all step s' xs)"

definition keep_step :: "('s \<Rightarrow> 'op \<Rightarrow> 'e + 's) \<Rightarrow> 's \<Rightarrow> 'op \<Rightarrow> 's" where
  "keep_step step s x = (case step s x of Inl _ \<Rightarrow> s | Inr s' \<Rightarrow> s')"

fun run_keep :: "('s \<Rightarrow> 'op \<Rightarrow> 'e + 's) \<Rightarrow> 's \<Rightarrow> 'op list \<Rightarrow> 's" where
  "run_keep step s [] = s"
| "run_keep step s (x # xs) = run_keep step (keep_step step s x) xs"

lemma run_all_append: "run_all step s (xs @ ys) = and_then (run_all step s xs) (\<lambda>t. run_all step t ys)"
proof (induction xs arbitrary: s)
  case Nil
  show ?case by simp
next
  case (Cons x xs)
  then show ?case by (cases "step s x") simp_all
qed

lemma keep_step_cases: "keep_step step s x = s \<or> step s x = Inr (keep_step step s x)"
  by (simp add: keep_step_def split: sum.split)

lemma run_keep_append: "run_keep step s (xs @ ys) = run_keep step (run_keep step s xs) ys"
  by (induction xs arbitrary: s) simp_all

text \<open>An invariant of single steps is an invariant of both kinds of run.\<close>

lemma run_all_invariant:
  assumes "\<And>s x s'. I s \<Longrightarrow> step s x = Inr s' \<Longrightarrow> I s'"
    and "I s" and "run_all step s xs = Inr t"
  shows "I t"
  using assms(2,3)
proof (induction xs arbitrary: s)
  case Nil
  then show ?case by simp
next
  case (Cons x xs)
  from Cons.prems(2) obtain s' where s': "step s x = Inr s'" "run_all step s' xs = Inr t"
    by (auto simp: success_iff)
  from assms(1) [OF Cons.prems(1) s'(1)] s'(2) show ?case by (rule Cons.IH)
qed

lemma run_keep_invariant:
  assumes step: "\<And>s x s'. I s \<Longrightarrow> step s x = Inr s' \<Longrightarrow> I s'" and "I s"
  shows "I (run_keep step s xs)"
  using assms(2)
proof (induction xs arbitrary: s)
  case Nil
  then show ?case by simp
next
  case (Cons x xs)
  have "I (keep_step step s x)"
    using keep_step_cases [of step s x] step [OF Cons.prems] Cons.prems by metis
  then show ?case by (simp add: Cons.IH)
qed

text \<open>A reflexive, transitive relation that single steps respect relates the ends of a run.\<close>

lemma run_keep_relates:
  assumes refl: "\<And>s. R s s" and trans: "\<And>a b c. R a b \<Longrightarrow> R b c \<Longrightarrow> R a c"
    and step: "\<And>s x s'. step s x = Inr s' \<Longrightarrow> R s s'"
  shows "R s (run_keep step s xs)"
proof (induction xs arbitrary: s)
  case Nil
  show ?case by (simp add: refl)
next
  case (Cons x xs)
  have "R s (keep_step step s x)"
    using keep_step_cases [of step s x] step refl by metis
  moreover have "R (keep_step step s x) (run_keep step (keep_step step s x) xs)"
    by (rule Cons.IH)
  ultimately show ?case by (simp add: trans)
qed

end
