(* ===== verification/Go_Int.thy ===== *)
theory Go_Int
  imports Prelude
begin

text \<open>
  Go's \<open>int64\<close> (and \<open>int\<close>, which is 64 bits wide on the platforms the program ships for) as HOL
  integers with the two's complement wrap-around written out: every addition, subtraction or
  multiplication of the source goes through \<open>wrap64\<close>, and inside the representable range
  \<open>wrap64\<close> is the identity. Division and remainder truncate towards zero, as Go's do.
\<close>

type_synonym int64 = int

definition min_int64 :: int where "min_int64 = - 9223372036854775808"
definition max_int64 :: int where "max_int64 = 9223372036854775807"

definition wrap64 :: "int \<Rightarrow> int64" where
  "wrap64 x = (x + 9223372036854775808) mod 18446744073709551616 - 9223372036854775808"

definition in_int64 :: "int \<Rightarrow> bool" where
  "in_int64 x \<longleftrightarrow> min_int64 \<le> x \<and> x \<le> max_int64"

lemmas int64_bounds = min_int64_def max_int64_def in_int64_def

lemma wrap64_id: "in_int64 x \<Longrightarrow> wrap64 x = x"
  by (simp add: wrap64_def int64_bounds)

lemma wrap64_range [simp]: "in_int64 (wrap64 x)"
  by (simp add: wrap64_def int64_bounds)

lemma wrap64_wrap64 [simp]: "wrap64 (wrap64 x) = wrap64 x"
  by (rule wrap64_id) simp

lemma wrap64_add_left: "wrap64 (wrap64 x + y) = wrap64 (x + y)"
proof -
  have "(wrap64 x + y + 9223372036854775808) = ((x + 9223372036854775808) mod 18446744073709551616 + y)"
    by (simp add: wrap64_def)
  then show ?thesis
    by (simp add: wrap64_def mod_simps ac_simps)
qed

lemma wrap64_add_right: "wrap64 (x + wrap64 y) = wrap64 (x + y)"
  using wrap64_add_left [of y x] by (simp add: add.commute)

lemma wrap64_eq_iff: "wrap64 x = wrap64 y \<longleftrightarrow> (x - y) mod 18446744073709551616 = 0"
proof -
  have "wrap64 x = wrap64 y \<longleftrightarrow>
    (x + 9223372036854775808) mod 18446744073709551616 = (y + 9223372036854775808) mod 18446744073709551616"
    by (simp add: wrap64_def)
  also have "\<dots> \<longleftrightarrow> ((x + 9223372036854775808) - (y + 9223372036854775808)) mod 18446744073709551616 = 0"
    by (simp add: mod_eq_dvd_iff dvd_eq_mod_eq_0 [symmetric])
  finally show ?thesis by simp
qed

text \<open>Incrementing a non-negative counter stays visible until the counter reaches the top.\<close>

lemma wrap64_inc_fresh: "0 < k \<Longrightarrow> k < 18446744073709551616 \<Longrightarrow> wrap64 (v + k) \<noteq> wrap64 v"
  by (simp add: wrap64_eq_iff)

subsection \<open>Truncating division\<close>

definition go_div :: "int \<Rightarrow> int \<Rightarrow> int" where
  "go_div a b = (if 0 \<le> a then a div b else - ((- a) div b))"

definition go_mod :: "int \<Rightarrow> int \<Rightarrow> int" where
  "go_mod a b = a - b * go_div a b"

lemma go_div_mod: "b * go_div a b + go_mod a b = a"
  by (simp add: go_mod_def)

lemma go_div_nonneg: "0 \<le> a \<Longrightarrow> go_div a b = a div b"
  by (simp add: go_div_def)

lemma go_mod_nonneg: "0 \<le> a \<Longrightarrow> go_mod a b = a mod b"
  by (simp add: go_mod_def go_div_def minus_mult_div_eq_mod)

lemma go_mod_neg: "a < 0 \<Longrightarrow> go_mod a b = - ((- a) mod b)"
proof -
  assume "a < 0"
  then have "go_mod a b = a + b * ((- a) div b)"
    by (simp add: go_mod_def go_div_def)
  moreover have "(- a) mod b = (- a) - b * ((- a) div b)"
    by (simp add: minus_mult_div_eq_mod)
  ultimately show ?thesis by simp
qed

end
