(* ===== verification/Go_Bytes.thy ===== *)
theory Go_Bytes
  imports Go_Int "HOL-Library.Char_ord"
begin

text \<open>
  Go strings are byte sequences; here they are HOL strings (one \<open>char\<close> per byte), so \<open>len(s)\<close>
  is \<open>length s\<close> and \<open>s[i]\<close> is a byte. This theory holds what the source uses of the standard
  library on them: hexadecimal text of unbounded integers (\<open>big.Int.Text(16)\<close>, \<open>SetString\<close>),
  \<open>strings.TrimSpace\<close>, \<open>strings.Split\<close> on one byte, \<open>strings.ToLower\<close> on ASCII.
\<close>

subsection \<open>Hexadecimal digits\<close>

definition isLowerHexDigit :: "char \<Rightarrow> bool" where
  "isLowerHexDigit c \<longleftrightarrow>
     (CHR ''0'' \<le> c \<and> c \<le> CHR ''9'') \<or> (CHR ''a'' \<le> c \<and> c \<le> CHR ''f'')"

definition hex_digit :: "nat \<Rightarrow> char" where
  "hex_digit n = (if n < 10 then char_of (48 + n) else char_of (87 + n))"

definition hex_val :: "char \<Rightarrow> nat" where
  "hex_val c = (if of_char c < (58::nat) then of_char c - 48 else of_char c - 87)"

lemma isLowerHexDigit_iff:
  "isLowerHexDigit c \<longleftrightarrow>
     (48 \<le> (of_char c :: nat) \<and> of_char c \<le> (57::nat)) \<or> (97 \<le> (of_char c :: nat) \<and> of_char c \<le> (102::nat))"
  by (simp add: isLowerHexDigit_def less_eq_char_def)

lemma of_char_hex_digit: "n < 16 \<Longrightarrow> (of_char (hex_digit n) :: nat) = (if n < 10 then 48 + n else 87 + n)"
  by (simp add: hex_digit_def)

lemma hex_val_hex_digit [simp]: "n < 16 \<Longrightarrow> hex_val (hex_digit n) = n"
  by (simp add: hex_val_def of_char_hex_digit)

lemma isLowerHexDigit_hex_digit [simp]: "n < 16 \<Longrightarrow> isLowerHexDigit (hex_digit n)"
  by (simp add: isLowerHexDigit_iff of_char_hex_digit)

lemma hex_val_bound: "isLowerHexDigit c \<Longrightarrow> hex_val c < 16"
  by (auto simp: isLowerHexDigit_iff hex_val_def)

lemma hex_digit_hex_val [simp]:
  assumes "isLowerHexDigit c"
  shows "hex_digit (hex_val c) = c"
proof -
  have "(if hex_val c < 10 then 48 + hex_val c else 87 + hex_val c) = of_char c"
    using assms by (auto simp: isLowerHexDigit_iff hex_val_def)
  then have "hex_digit (hex_val c) = char_of (of_char c :: nat)"
    by (simp add: hex_digit_def split: if_splits)
  then show ?thesis by simp
qed

lemma hex_digit_0: "hex_digit 0 = CHR ''0''"
  by code_simp

lemma hex_val_0 [simp]: "hex_val (CHR ''0'') = 0"
  using hex_val_hex_digit [of 0] by (simp add: hex_digit_0)

lemma hex_digit_eq_zero: "n < 16 \<Longrightarrow> hex_digit n = CHR ''0'' \<longleftrightarrow> n = 0"
  by (metis hex_val_hex_digit hex_digit_0 zero_less_numeral)

subsection \<open>Hexadecimal text of unbounded integers\<close>

fun hex_text :: "nat \<Rightarrow> string" where
  "hex_text n = (if n < 16 then [hex_digit n] else hex_text (n div 16) @ [hex_digit (n mod 16)])"

declare hex_text.simps [simp del]

definition hex_value :: "string \<Rightarrow> nat" where
  "hex_value s = foldl (\<lambda>a c. 16 * a + hex_val c) 0 s"

definition all_hex :: "string \<Rightarrow> bool" where
  "all_hex s = list_all isLowerHexDigit s"

lemma hex_value_snoc [simp]: "hex_value (s @ [c]) = 16 * hex_value s + hex_val c"
  by (simp add: hex_value_def)

lemma hex_value_Nil [simp]: "hex_value [] = 0"
  by (simp add: hex_value_def)

lemma hex_value_single [simp]: "hex_value [c] = hex_val c"
  by (simp add: hex_value_def)

lemma all_hex_simps [simp]:
  "all_hex []"
  "all_hex (c # s) \<longleftrightarrow> isLowerHexDigit c \<and> all_hex s"
  "all_hex (s @ t) \<longleftrightarrow> all_hex s \<and> all_hex t"
  by (simp_all add: all_hex_def)

lemma all_hex_hex_text [simp]: "all_hex (hex_text n)"
proof (induction n rule: hex_text.induct)
  case (1 n)
  then show ?case by (simp add: hex_text.simps [of n])
qed

lemma hex_text_not_Nil [simp]: "hex_text n \<noteq> []"
  by (simp add: hex_text.simps [of n])

text \<open>\<open>SetString (Text n) = n\<close>.\<close>

lemma hex_value_hex_text [simp]: "hex_value (hex_text n) = n"
proof (induction n rule: hex_text.induct)
  case (1 n)
  then show ?case by (simp add: hex_text.simps [of n])
qed

lemma hd_hex_text: "hd (hex_text n) = CHR ''0'' \<longleftrightarrow> n = 0"
proof (induction n rule: hex_text.induct)
  case (1 n)
  show ?case
  proof (cases "n < 16")
    case True
    then show ?thesis by (simp add: hex_text.simps [of n] hex_digit_eq_zero)
  next
    case False
    then have "hd (hex_text n) = hd (hex_text (n div 16))"
      by (simp add: hex_text.simps [of n])
    moreover have "n div 16 \<noteq> 0" and "n \<noteq> 0" using False by auto
    ultimately show ?thesis using "1.IH" [OF False] by simp
  qed
qed

lemma hex_value_bound: "all_hex s \<Longrightarrow> hex_value s < 16 ^ length s"
proof (induction s rule: rev_induct)
  case Nil
  show ?case by simp
next
  case (snoc c s)
  then have "hex_value s < 16 ^ length s" and "hex_val c < 16"
    by (simp_all add: hex_val_bound)
  then show ?case by simp
qed

lemma length_hex_text: "0 < k \<Longrightarrow> length (hex_text n) \<le> k \<longleftrightarrow> n < 16 ^ k"
proof (induction n arbitrary: k rule: hex_text.induct)
  case (1 n)
  show ?case
  proof (cases "n < 16")
    case True
    have "(16::nat) ^ 1 \<le> 16 ^ k" using "1.prems" by (intro power_increasing) auto
    with True "1.prems" show ?thesis by (simp add: hex_text.simps [of n] Suc_le_eq)
  next
    case False
    show ?thesis
    proof (cases "k = 1")
      case True
      have "length (hex_text (n div 16)) > 0" by simp
      with True False show ?thesis by (simp add: hex_text.simps [of n])
    next
      case False2: False
      then obtain j where j: "k = Suc j" "0 < j" using "1.prems" by (cases k) auto
      have "length (hex_text (n div 16)) \<le> j \<longleftrightarrow> n div 16 < 16 ^ j"
        by (rule "1.IH" [OF False j(2)])
      moreover have "n div 16 < 16 ^ j \<longleftrightarrow> n < 16 ^ k"
        by (simp add: j(1) less_mult_imp_div_less div_less_iff_less_mult mult.commute)
      ultimately show ?thesis using False by (simp add: hex_text.simps [of n] j(1))
    qed
  qed
qed

text \<open>The minimal form: no leading zero unless the text is one digit long.\<close>

definition minimal_hex :: "string \<Rightarrow> bool" where
  "minimal_hex s \<longleftrightarrow> s \<noteq> [] \<and> all_hex s \<and> (length s > 1 \<longrightarrow> hd s \<noteq> CHR ''0'')"

lemma minimal_hex_hex_text [simp]: "minimal_hex (hex_text n)"
proof (cases "n = 0")
  case True
  then show ?thesis by (simp add: minimal_hex_def hex_text.simps [of 0])
next
  case False
  then show ?thesis by (simp add: minimal_hex_def hd_hex_text)
qed

lemma hex_value_pos: "all_hex s \<Longrightarrow> s \<noteq> [] \<Longrightarrow> hd s \<noteq> CHR ''0'' \<Longrightarrow> 0 < hex_value s"
proof (induction s rule: rev_induct)
  case Nil
  then show ?case by simp
next
  case (snoc c s)
  show ?case
  proof (cases "s = []")
    case True
    with snoc.prems have "hex_digit (hex_val c) \<noteq> hex_digit 0" by (simp add: hex_digit_0)
    with True show ?thesis by (cases "hex_val c") simp_all
  next
    case False
    with snoc show ?thesis by simp
  qed
qed

text \<open>\<open>Text (SetString s) = s\<close> for minimal \<open>s\<close>: the text form is canonical.\<close>

lemma hex_text_hex_value: "minimal_hex s \<Longrightarrow> hex_text (hex_value s) = s"
proof (induction s rule: rev_induct)
  case Nil
  then show ?case by (simp add: minimal_hex_def)
next
  case (snoc c s)
  have c: "isLowerHexDigit c" using snoc.prems by (simp add: minimal_hex_def)
  show ?case
  proof (cases "s = []")
    case True
    with c show ?thesis by (simp add: hex_text.simps hex_val_bound)
  next
    case False
    with snoc.prems have s: "minimal_hex s" "hd s \<noteq> CHR ''0''" "all_hex s"
      by (auto simp: minimal_hex_def)
    with False have "0 < hex_value s" by (intro hex_value_pos)
    then have "\<not> 16 * hex_value s + hex_val c < 16" by simp
    with snoc.IH [OF s(1)] c show ?thesis
      by (simp add: hex_text.simps [of "16 * hex_value s + hex_val c"] hex_val_bound)
  qed
qed

subsection \<open>\<open>strings.TrimSpace\<close>\<close>

text \<open>
  The UTF-8 encodings of the code points \<open>unicode.IsSpace\<close> accepts: the six ASCII spaces,
  U+0085, U+00A0, U+1680, U+2000 to U+200A, U+2028, U+2029, U+202F, U+205F and U+3000.
\<close>

definition space_encodings :: "string list" where
  "space_encodings =
     map (\<lambda>n. [char_of (n::nat)]) [9, 10, 11, 12, 13, 32]
     @ [[CHR 0xC2, CHR 0x85], [CHR 0xC2, CHR 0xA0], [CHR 0xE1, CHR 0x9A, CHR 0x80]]
     @ map (\<lambda>n. [CHR 0xE2, CHR 0x80, char_of (n::nat)])
         [128, 129, 130, 131, 132, 133, 134, 135, 136, 137, 138, 168, 169, 175]
     @ [[CHR 0xE2, CHR 0x81, CHR 0x9F], [CHR 0xE3, CHR 0x80, CHR 0x80]]"

lemma matched_prefix_shorter:
  assumes "find (\<lambda>e. e \<noteq> [] \<and> take (length e) s = e) encs = Some e"
  shows "length (drop (length e) s) < length s"
proof -
  from assms have e: "e \<noteq> []" "take (length e) s = e" by (auto simp: find_Some_iff)
  then have "length e \<le> length s" by (metis length_take min.cobounded1)
  with e(1) show ?thesis by (cases e) auto
qed

function trim_front :: "string list \<Rightarrow> string \<Rightarrow> string" where
  "trim_front encs s =
     (case find (\<lambda>e. e \<noteq> [] \<and> take (length e) s = e) encs of
        None \<Rightarrow> s
      | Some e \<Rightarrow> trim_front encs (drop (length e) s))"
  by pat_completeness auto
termination
  by (relation "measure (\<lambda>(encs, s). length s)") (simp_all add: matched_prefix_shorter del: length_drop)

declare trim_front.simps [simp del]

definition TrimSpace :: "string \<Rightarrow> string" where
  "TrimSpace s = rev (trim_front (map rev space_encodings) (rev (trim_front space_encodings s)))"

lemma trim_front_Nil [simp]: "trim_front encs [] = []"
proof -
  have "find (\<lambda>e. e \<noteq> [] \<and> take (length e) [] = e) encs = (None :: string option)"
    by (auto simp: find_None_iff)
  then show ?thesis by (simp add: trim_front.simps [of encs "[]"])
qed

lemma trim_front_suffix: "\<exists>p. s = p @ trim_front encs s"
proof (induction encs s rule: trim_front.induct)
  case (1 encs s)
  show ?case
  proof (cases "find (\<lambda>e. e \<noteq> [] \<and> take (length e) s = e) encs")
    case None
    then show ?thesis by (simp add: trim_front.simps [of encs s])
  next
    case (Some e)
    then have e: "take (length e) s = e" by (auto simp: find_Some_iff)
    from "1.IH" [OF Some] obtain p where "drop (length e) s = p @ trim_front encs (drop (length e) s)"
      by blast
    then have "s = (take (length e) s @ p) @ trim_front encs (drop (length e) s)"
      by (metis append.assoc append_take_drop_id)
    moreover from Some have "trim_front encs s = trim_front encs (drop (length e) s)"
      by (simp add: trim_front.simps [of encs s])
    ultimately show ?thesis by metis
  qed
qed

text \<open>The result is a contiguous part of the input, so trimming never lengthens a string.\<close>

lemma TrimSpace_infix: "\<exists>p q. s = p @ TrimSpace s @ q"
proof -
  obtain p where p: "s = p @ trim_front space_encodings s"
    using trim_front_suffix by blast
  obtain r where r: "rev (trim_front space_encodings s) = r @ rev (TrimSpace s)"
    using trim_front_suffix [of "rev (trim_front space_encodings s)" "map rev space_encodings"]
    by (auto simp: TrimSpace_def)
  have "trim_front space_encodings s = TrimSpace s @ rev r"
    using arg_cong [OF r, of rev] by simp
  with p show ?thesis by metis
qed

lemma length_TrimSpace: "length (TrimSpace s) \<le> length s"
  using TrimSpace_infix [of s] by (metis length_append le_add1 le_add2 order_trans)

lemma TrimSpace_Nil [simp]: "TrimSpace [] = []"
  by (simp add: TrimSpace_def)

subsection \<open>\<open>strings.Split\<close> and ASCII lower case\<close>

fun split_byte :: "char \<Rightarrow> string \<Rightarrow> string list" where
  "split_byte d [] = [[]]"
| "split_byte d (c # s) =
     (if c = d then [] # split_byte d s
      else (case split_byte d s of [] \<Rightarrow> [[c]] | p # ps \<Rightarrow> (c # p) # ps))"

fun join_byte :: "char \<Rightarrow> string list \<Rightarrow> string" where
  "join_byte d [] = []"
| "join_byte d [p] = p"
| "join_byte d (p # q # ps) = p @ d # join_byte d (q # ps)"

lemma split_byte_not_Nil [simp]: "split_byte d s \<noteq> []"
  by (induction s) (auto split: list.split)

lemma join_split_byte: "join_byte d (split_byte d s) = s"
proof (induction s)
  case Nil
  show ?case by simp
next
  case (Cons c s)
  obtain p ps where sp: "split_byte d s = p # ps"
    by (cases "split_byte d s") auto
  with Cons show ?case by (cases ps) auto
qed

lemma split_byte_sep_free: "p \<in> set (split_byte d s) \<Longrightarrow> d \<notin> set p"
proof (induction s arbitrary: p)
  case Nil
  then show ?case by simp
next
  case (Cons c s)
  obtain q qs where sp: "split_byte d s = q # qs"
    by (cases "split_byte d s") auto
  with Cons show ?case by (auto split: if_splits)
qed

lemma split_byte_no_sep: "d \<notin> set p \<Longrightarrow> split_byte d p = [p]"
  by (induction p) auto

lemma split_byte_append: "d \<notin> set p \<Longrightarrow> split_byte d (p @ d # s) = p # split_byte d s"
  by (induction p) auto

lemma split_join_byte:
  assumes "ps \<noteq> []" and "\<And>p. p \<in> set ps \<Longrightarrow> d \<notin> set p"
  shows "split_byte d (join_byte d ps) = ps"
  using assms by (induction d ps rule: join_byte.induct) (simp_all add: split_byte_no_sep split_byte_append)

definition ascii_lower :: "char \<Rightarrow> char" where
  "ascii_lower c =
     (if CHR ''A'' \<le> c \<and> c \<le> CHR ''Z'' then char_of ((of_char c :: nat) + 32) else c)"

lemma ascii_lower_idem [simp]: "ascii_lower (ascii_lower c) = ascii_lower c"
  by (auto simp: ascii_lower_def less_eq_char_def)

end
