(* ===== verification/Domain_Errors.thy ===== *)
theory Domain_Errors
  imports Go_Bytes
begin

text \<open>
  \<open>internal/domain/errors.go\<close>. The seven sentinel errors, the \<open>PolicyError\<close> that carries a
  stable code, a detail text and public fields, and the two shapes a domain function returns:
  \<open>fmt.Errorf("%w: ...", sentinel)\<close> is \<open>Wrapped\<close>, a \<open>*PolicyError\<close> is \<open>Policy\<close>.
  Details are kept as the source spells them, with \<open>%s\<close> and \<open>%d\<close> operands interpolated; the
  quoted operand of \<open>%q\<close> (the rejected raw string) is left out of the text.
\<close>

datatype sentinel =
    ErrInvalidValue
  | ErrPolicyViolation
  | ErrInvalidTransition
  | ErrExpired
  | ErrAlreadyConsumed
  | ErrConflict
  | ErrNotPermitted

primrec sentinel_text :: "sentinel \<Rightarrow> string" where
  "sentinel_text ErrInvalidValue = ''invalid value''"
| "sentinel_text ErrPolicyViolation = ''policy violation''"
| "sentinel_text ErrInvalidTransition = ''invalid transition''"
| "sentinel_text ErrExpired = ''expired''"
| "sentinel_text ErrAlreadyConsumed = ''already consumed''"
| "sentinel_text ErrConflict = ''conflict''"
| "sentinel_text ErrNotPermitted = ''not permitted''"

record PolicyError =
  pe_Code :: string
  pe_Detail :: string
  pe_base :: sentinel
  pe_fields :: "string \<rightharpoonup> string"

definition NewPolicyError :: "sentinel \<Rightarrow> string \<Rightarrow> string \<Rightarrow> PolicyError" where
  "NewPolicyError base code detail =
     \<lparr>pe_Code = code, pe_Detail = detail, pe_base = base, pe_fields = Map.empty\<rparr>"

definition WithField :: "PolicyError \<Rightarrow> string \<Rightarrow> string \<Rightarrow> PolicyError" where
  "WithField e name val = e\<lparr>pe_fields := (pe_fields e)(name \<mapsto> val)\<rparr>"

definition Fields :: "PolicyError \<Rightarrow> string \<rightharpoonup> string" where
  "Fields e = pe_fields e"

definition PolicyError_Error :: "PolicyError \<Rightarrow> string" where
  "PolicyError_Error e =
     (if pe_Detail e = [] then pe_Code e @ '': '' @ sentinel_text (pe_base e)
      else pe_Code e @ '': '' @ pe_Detail e)"

definition Unwrap :: "PolicyError \<Rightarrow> sentinel" where
  "Unwrap e = pe_base e"

datatype domain_error = Wrapped sentinel string | Policy PolicyError

text \<open>\<open>errors.Is\<close> follows \<open>Unwrap\<close> down to the sentinel.\<close>

fun errors_Is :: "domain_error \<Rightarrow> sentinel \<Rightarrow> bool" where
  "errors_Is (Wrapped b _) s \<longleftrightarrow> b = s"
| "errors_Is (Policy e) s \<longleftrightarrow> Unwrap e = s"

definition policy :: "sentinel \<Rightarrow> string \<Rightarrow> string \<Rightarrow> domain_error" where
  "policy base code detail = Policy (NewPolicyError base code detail)"

definition policy_with :: "sentinel \<Rightarrow> string \<Rightarrow> string \<Rightarrow> string \<Rightarrow> string \<Rightarrow> domain_error" where
  "policy_with base code detail name val = Policy (WithField (NewPolicyError base code detail) name val)"

lemma errors_Is_policy [simp]:
  "errors_Is (policy b c d) s \<longleftrightarrow> b = s"
  "errors_Is (policy_with b c d n v) s \<longleftrightarrow> b = s"
  by (simp_all add: policy_def policy_with_def NewPolicyError_def WithField_def Unwrap_def)

text \<open>Decorating an error never changes what \<open>errors.Is\<close> answers, and the last value wins.\<close>

lemma WithField_base [simp]: "Unwrap (WithField e n v) = Unwrap e"
  by (simp add: WithField_def Unwrap_def)

lemma Fields_WithField [simp]: "Fields (WithField e n v) = (Fields e)(n \<mapsto> v)"
  by (simp add: WithField_def Fields_def)

text \<open>The code of a policy error, as adapters read it with \<open>errors.As\<close>.\<close>

fun error_code :: "domain_error \<Rightarrow> string option" where
  "error_code (Wrapped _ _) = None"
| "error_code (Policy e) = Some (pe_Code e)"

lemma error_code_policy [simp]:
  "error_code (policy b c d) = Some c"
  "error_code (policy_with b c d n v) = Some c"
  by (simp_all add: policy_def policy_with_def NewPolicyError_def WithField_def)

end
