(* ===== verification/SHA256.thy ===== *)
theory SHA256
  imports Go_Bytes "HOL-Library.Word"
begin

unbundle bit_operations_syntax

text \<open>
  The standard library's \<open>crypto/sha256\<close> as FIPS 180-4 defines it: message padding, the message
  schedule and the compression function on 32-bit words (so addition wraps modulo 2^32), and
  \<open>hex.EncodeToString\<close> of the 32 digest bytes. \<open>domain.NewFingerprint\<close> is
  \<open>sha256_hex\<close>. What the program relies on is that the digest is 64 lower-case hexadecimal
  characters, proved below for every input. Bytes are integers from 0 to 255.
\<close>

type_synonym u32 = "32 word"

definition rotr :: "nat \<Rightarrow> u32 \<Rightarrow> u32" where
  "rotr n x = drop_bit n x OR push_bit (32 - n) x"

definition big_sigma0 :: "u32 \<Rightarrow> u32" where
  "big_sigma0 x = rotr 2 x XOR rotr 13 x XOR rotr 22 x"

definition big_sigma1 :: "u32 \<Rightarrow> u32" where
  "big_sigma1 x = rotr 6 x XOR rotr 11 x XOR rotr 25 x"

definition small_sigma0 :: "u32 \<Rightarrow> u32" where
  "small_sigma0 x = rotr 7 x XOR rotr 18 x XOR drop_bit 3 x"

definition small_sigma1 :: "u32 \<Rightarrow> u32" where
  "small_sigma1 x = rotr 17 x XOR rotr 19 x XOR drop_bit 10 x"

text \<open>
  The constants are the first 32 bits of the fractional parts of square and cube roots of the first
  primes; \<open>digit_root k n i r\<close> finds the remaining \<open>i\<close> bits of the integer \<open>k\<close>-th root of \<open>n\<close>.
\<close>

fun digit_root :: "nat \<Rightarrow> int \<Rightarrow> nat \<Rightarrow> int \<Rightarrow> int" where
  "digit_root k n 0 r = r"
| "digit_root k n (Suc i) r = digit_root k n i (if (r + 2 ^ i) ^ k \<le> n then r + 2 ^ i else r)"

definition root_fraction :: "nat \<Rightarrow> int \<Rightarrow> u32" where
  "root_fraction k p = word_of_int (digit_root k (p * 2 ^ (32 * k)) 40 0)"

definition primes_upto :: "int \<Rightarrow> int list" where
  "primes_upto n = filter (\<lambda>p. list_all (\<lambda>d. p mod d \<noteq> 0) [2..p - 1]) [2..n]"

definition round_constants :: "u32 list" where
  "round_constants = map (root_fraction 3) (primes_upto 311)"

definition initial_hash :: "u32 list" where
  "initial_hash = map (root_fraction 2) (primes_upto 19)"

lemma length_initial_hash [simp]: "length initial_hash = 8"
proof -
  have "length (primes_upto 19) = 8" by code_simp
  then show ?thesis by (simp add: initial_hash_def)
qed

subsection \<open>Padding and words\<close>

definition bytes_of_int :: "nat \<Rightarrow> int \<Rightarrow> int list" where
  "bytes_of_int k n = map (\<lambda>i. n div 256 ^ i mod 256) (rev [0..<k])"

definition pad_message :: "int list \<Rightarrow> int list" where
  "pad_message bs =
     bs @ 128 # replicate ((119 - length bs mod 64) mod 64) 0 @ bytes_of_int 8 (8 * int (length bs))"

fun words_of_bytes :: "int list \<Rightarrow> u32 list" where
  "words_of_bytes (a # b # c # d # bs) =
     word_of_int (((a * 256 + b) * 256 + c) * 256 + d) # words_of_bytes bs"
| "words_of_bytes bs = []"

subsection \<open>Schedule and compression\<close>

text \<open>The schedule is built newest word first.\<close>

fun extend_schedule :: "nat \<Rightarrow> u32 list \<Rightarrow> u32 list" where
  "extend_schedule 0 ws = ws"
| "extend_schedule (Suc n) ws =
     extend_schedule n
       ((small_sigma1 (ws ! 1) + ws ! 6 + small_sigma0 (ws ! 14) + ws ! 15) # ws)"

definition message_schedule :: "u32 list \<Rightarrow> u32 list" where
  "message_schedule block = rev (extend_schedule 48 (rev block))"

definition sha_round ::
  "u32 \<times> u32 \<times> u32 \<times> u32 \<times> u32 \<times> u32 \<times> u32 \<times> u32 \<Rightarrow> u32 \<times> u32
     \<Rightarrow> u32 \<times> u32 \<times> u32 \<times> u32 \<times> u32 \<times> u32 \<times> u32 \<times> u32" where
  "sha_round st kw = (case st of (a, b, c, d, e, f, g, h) \<Rightarrow>
     (case kw of (k, w) \<Rightarrow>
       (let t1 = h + big_sigma1 e + ((e AND f) XOR (NOT e AND g)) + k + w;
            t2 = big_sigma0 a + ((a AND b) XOR (a AND c) XOR (b AND c))
        in (t1 + t2, a, b, c, d + t1, e, f, g))))"

definition compress :: "u32 list \<Rightarrow> u32 list \<Rightarrow> u32 list" where
  "compress hs block =
     (case foldl sha_round (hs ! 0, hs ! 1, hs ! 2, hs ! 3, hs ! 4, hs ! 5, hs ! 6, hs ! 7)
            (zip round_constants (message_schedule block)) of
        (a, b, c, d, e, f, g, h) \<Rightarrow>
          [hs ! 0 + a, hs ! 1 + b, hs ! 2 + c, hs ! 3 + d,
           hs ! 4 + e, hs ! 5 + f, hs ! 6 + g, hs ! 7 + h])"

fun process_blocks :: "nat \<Rightarrow> u32 list \<Rightarrow> u32 list \<Rightarrow> u32 list" where
  "process_blocks 0 hs ws = hs"
| "process_blocks (Suc n) hs ws = process_blocks n (compress hs (take 16 ws)) (drop 16 ws)"

definition sha256_words :: "int list \<Rightarrow> u32 list" where
  "sha256_words bs =
     (let ws = words_of_bytes (pad_message bs) in process_blocks (length ws div 16) initial_hash ws)"

definition sha256_sum :: "string \<Rightarrow> int list" where
  "sha256_sum s = concat (map (\<lambda>w. bytes_of_int 4 (uint w)) (sha256_words (map of_char s)))"

definition hex_of_byte :: "int \<Rightarrow> string" where
  "hex_of_byte b = [hex_digit (nat (b div 16 mod 16)), hex_digit (nat (b mod 16))]"

definition EncodeToString :: "int list \<Rightarrow> string" where
  "EncodeToString bs = concat (map hex_of_byte bs)"

definition sha256_hex :: "string \<Rightarrow> string" where
  "sha256_hex s = EncodeToString (sha256_sum s)"

subsection \<open>Shape of the digest\<close>

lemma length_bytes_of_int [simp]: "length (bytes_of_int k n) = k"
  by (simp add: bytes_of_int_def)

lemma length_compress [simp]: "length (compress hs block) = 8"
  by (simp add: compress_def split: prod.split)

lemma length_process_blocks: "length hs = 8 \<Longrightarrow> length (process_blocks n hs ws) = 8"
  by (induction n arbitrary: hs ws) simp_all

lemma length_sha256_words [simp]: "length (sha256_words bs) = 8"
  by (simp add: sha256_words_def Let_def length_process_blocks)

lemma length_concat_const:
  "(\<And>x. x \<in> set xs \<Longrightarrow> length (f x) = k) \<Longrightarrow> length (concat (map f xs)) = k * length xs"
  by (induction xs) simp_all

lemma length_sha256_sum [simp]: "length (sha256_sum s) = 32"
  by (simp add: sha256_sum_def length_concat_const [of _ _ 4])

lemma length_sha256_hex [simp]: "length (sha256_hex s) = 64"
  by (simp add: sha256_hex_def EncodeToString_def length_concat_const [of _ _ 2] hex_of_byte_def)

lemma all_hex_EncodeToString [simp]: "all_hex (EncodeToString bs)"
  by (induction bs) (simp_all add: EncodeToString_def hex_of_byte_def nat_less_iff)

lemma all_hex_sha256_hex [simp]: "all_hex (sha256_hex s)"
  by (simp add: sha256_hex_def)

end
