(* ===== verification/Values.thy ===== *)
theory Values
  imports Domain_Errors SHA256
begin

text \<open>
  \<open>internal/domain/values.go\<close>: identifiers (canonical lower-case UUID text), the optimistic-lock
  version, fingerprints, certificate serials and CRL numbers in minimal hexadecimal, microsecond
  instants and durations, validity windows, public keys, encrypted secrets and token hashes.
  Byte slices are HOL strings; HOL values are immutable, so the source's defensive copies
  (\<open>cloneBytes\<close>, \<open>cloneStrings\<close>) are the identity and getters are the record selectors.
\<close>

subsection \<open>Identifiers\<close>

type_synonym AuthorityID = string
type_synonym CAKeyGenerationID = string
type_synonym CertificateID = string
type_synonym SeriesID = string
type_synonym LeafKeyGenerationID = string
type_synonym KeyMaterialID = string
type_synonym DeliveryID = string
type_synonym GrantID = string
type_synonym RevocationID = string
type_synonym AccountID = string
type_synonym SessionID = string
type_synonym TransitionID = string
type_synonym TLSVersionID = string
type_synonym JobID = string
type_synonym ResetTokenID = string
type_synonym CRLDocumentID = string
type_synonym ImportBatchID = string
type_synonym TakeoverID = string

definition uuidLength :: nat where "uuidLength = 36"

definition separator_index :: "nat \<Rightarrow> bool" where
  "separator_index i \<longleftrightarrow> i = 8 \<or> i = 13 \<or> i = 18 \<or> i = 23"

text \<open>The byte loop of \<open>parseUUID\<close>, from index \<open>i\<close> on.\<close>

fun uuid_scan :: "string \<Rightarrow> nat \<Rightarrow> string \<Rightarrow> domain_error option" where
  "uuid_scan kind i [] = None"
| "uuid_scan kind i (c # cs) =
     (if separator_index i then
        (if c \<noteq> CHR ''-'' then Some (Wrapped ErrInvalidValue (kind @ '' has a misplaced separator''))
         else uuid_scan kind (Suc i) cs)
      else if \<not> isLowerHexDigit c
        then Some (Wrapped ErrInvalidValue (kind @ '' must use lowercase hex digits''))
      else uuid_scan kind (Suc i) cs)"

definition parseUUID :: "string \<Rightarrow> string \<Rightarrow> domain_error + string" where
  "parseUUID kind raw =
     (if length raw \<noteq> uuidLength
        then Inl (Wrapped ErrInvalidValue (kind @ '' must be a 36 character uuid''))
      else check_then (uuid_scan kind 0 raw) (Inr raw))"

definition ParseAuthorityID :: "string \<Rightarrow> domain_error + AuthorityID" where
  "ParseAuthorityID raw = parseUUID ''authority id'' raw"

definition ParseCAKeyGenerationID :: "string \<Rightarrow> domain_error + CAKeyGenerationID" where
  "ParseCAKeyGenerationID raw = parseUUID ''ca key generation id'' raw"

definition ParseCertificateID :: "string \<Rightarrow> domain_error + CertificateID" where
  "ParseCertificateID raw = parseUUID ''certificate id'' raw"

definition ParseSeriesID :: "string \<Rightarrow> domain_error + SeriesID" where
  "ParseSeriesID raw = parseUUID ''series id'' raw"

definition ParseLeafKeyGenerationID :: "string \<Rightarrow> domain_error + LeafKeyGenerationID" where
  "ParseLeafKeyGenerationID raw = parseUUID ''leaf key generation id'' raw"

definition ParseKeyMaterialID :: "string \<Rightarrow> domain_error + KeyMaterialID" where
  "ParseKeyMaterialID raw = parseUUID ''key material id'' raw"

definition ParseDeliveryID :: "string \<Rightarrow> domain_error + DeliveryID" where
  "ParseDeliveryID raw = parseUUID ''delivery id'' raw"

definition ParseGrantID :: "string \<Rightarrow> domain_error + GrantID" where
  "ParseGrantID raw = parseUUID ''grant id'' raw"

definition ParseRevocationID :: "string \<Rightarrow> domain_error + RevocationID" where
  "ParseRevocationID raw = parseUUID ''revocation id'' raw"

definition ParseAccountID :: "string \<Rightarrow> domain_error + AccountID" where
  "ParseAccountID raw = parseUUID ''account id'' raw"

definition ParseSessionID :: "string \<Rightarrow> domain_error + SessionID" where
  "ParseSessionID raw = parseUUID ''session id'' raw"

definition ParseTransitionID :: "string \<Rightarrow> domain_error + TransitionID" where
  "ParseTransitionID raw = parseUUID ''transition id'' raw"

definition ParseTLSVersionID :: "string \<Rightarrow> domain_error + TLSVersionID" where
  "ParseTLSVersionID raw = parseUUID ''tls version id'' raw"

definition ParseJobID :: "string \<Rightarrow> domain_error + JobID" where
  "ParseJobID raw = parseUUID ''job id'' raw"

definition ParseResetTokenID :: "string \<Rightarrow> domain_error + ResetTokenID" where
  "ParseResetTokenID raw = parseUUID ''reset token id'' raw"

definition ParseCRLDocumentID :: "string \<Rightarrow> domain_error + CRLDocumentID" where
  "ParseCRLDocumentID raw = parseUUID ''crl document id'' raw"

definition ParseImportBatchID :: "string \<Rightarrow> domain_error + ImportBatchID" where
  "ParseImportBatchID raw = parseUUID ''import batch id'' raw"

definition ParseTakeoverID :: "string \<Rightarrow> domain_error + TakeoverID" where
  "ParseTakeoverID raw = parseUUID ''takeover id'' raw"

lemmas Parse_ID_defs =
  ParseAuthorityID_def ParseCAKeyGenerationID_def ParseCertificateID_def ParseSeriesID_def
  ParseLeafKeyGenerationID_def ParseKeyMaterialID_def ParseDeliveryID_def ParseGrantID_def
  ParseRevocationID_def ParseAccountID_def ParseSessionID_def ParseTransitionID_def
  ParseTLSVersionID_def ParseJobID_def ParseResetTokenID_def ParseCRLDocumentID_def
  ParseImportBatchID_def ParseTakeoverID_def

text \<open>The specification of the parsers: the canonical 8-4-4-4-12 form, as a predicate.\<close>

definition canonical_uuid :: "string \<Rightarrow> bool" where
  "canonical_uuid raw \<longleftrightarrow> length raw = 36 \<and>
     (\<forall>i < 36. if separator_index i then raw ! i = CHR ''-'' else isLowerHexDigit (raw ! i))"

lemma uuid_scan_None:
  "uuid_scan kind i s = None \<longleftrightarrow>
     (\<forall>j < length s. if separator_index (i + j) then s ! j = CHR ''-'' else isLowerHexDigit (s ! j))"
proof (induction s arbitrary: i)
  case Nil
  show ?case by simp
next
  case (Cons c s)
  show ?case by (simp add: Cons.IH All_less_Suc2)
qed

lemma parseUUID_Inr [success_iff]: "parseUUID kind raw = Inr v \<longleftrightarrow> canonical_uuid raw \<and> v = raw"
  by (auto simp: parseUUID_def uuidLength_def canonical_uuid_def uuid_scan_None success_iff)

lemma parseUUID_error: "parseUUID kind raw = Inl e \<Longrightarrow> errors_Is e ErrInvalidValue"
proof -
  have "uuid_scan kind i s = Some e \<Longrightarrow> errors_Is e ErrInvalidValue" for i s
    by (induction kind i s rule: uuid_scan.induct) (auto split: if_splits)
  then show "parseUUID kind raw = Inl e \<Longrightarrow> errors_Is e ErrInvalidValue"
    by (auto simp: parseUUID_def check_then_def split: if_splits option.splits)
qed

lemma ParseID_Inr [success_iff]:
  "ParseAuthorityID r = Inr v \<longleftrightarrow> canonical_uuid r \<and> v = r"
  "ParseCAKeyGenerationID r = Inr v \<longleftrightarrow> canonical_uuid r \<and> v = r"
  "ParseCertificateID r = Inr v \<longleftrightarrow> canonical_uuid r \<and> v = r"
  "ParseSeriesID r = Inr v \<longleftrightarrow> canonical_uuid r \<and> v = r"
  "ParseLeafKeyGenerationID r = Inr v \<longleftrightarrow> canonical_uuid r \<and> v = r"
  "ParseKeyMaterialID r = Inr v \<longleftrightarrow> canonical_uuid r \<and> v = r"
  "ParseDeliveryID r = Inr v \<longleftrightarrow> canonical_uuid r \<and> v = r"
  "ParseGrantID r = Inr v \<longleftrightarrow> canonical_uuid r \<and> v = r"
  "ParseRevocationID r = Inr v \<longleftrightarrow> canonical_uuid r \<and> v = r"
  "ParseAccountID r = Inr v \<longleftrightarrow> canonical_uuid r \<and> v = r"
  "ParseSessionID r = Inr v \<longleftrightarrow> canonical_uuid r \<and> v = r"
  "ParseTransitionID r = Inr v \<longleftrightarrow> canonical_uuid r \<and> v = r"
  "ParseTLSVersionID r = Inr v \<longleftrightarrow> canonical_uuid r \<and> v = r"
  "ParseJobID r = Inr v \<longleftrightarrow> canonical_uuid r \<and> v = r"
  "ParseResetTokenID r = Inr v \<longleftrightarrow> canonical_uuid r \<and> v = r"
  "ParseCRLDocumentID r = Inr v \<longleftrightarrow> canonical_uuid r \<and> v = r"
  "ParseImportBatchID r = Inr v \<longleftrightarrow> canonical_uuid r \<and> v = r"
  "ParseTakeoverID r = Inr v \<longleftrightarrow> canonical_uuid r \<and> v = r"
  by (simp_all add: Parse_ID_defs success_iff)

lemma canonical_uuid_not_Nil: "canonical_uuid r \<Longrightarrow> r \<noteq> []"
  by (auto simp: canonical_uuid_def)

text \<open>A concrete identifier for witnesses: every hexadecimal group filled with one digit.\<close>

definition sample_uuid :: "char \<Rightarrow> string" where
  "sample_uuid c = replicate 8 c @ ''-'' @ replicate 4 c @ ''-'' @ replicate 4 c @ ''-''
     @ replicate 4 c @ ''-'' @ replicate 12 c"

lemma canonical_sample_uuid [simp]: "isLowerHexDigit c \<Longrightarrow> canonical_uuid (sample_uuid c)"
proof -
  assume c: "isLowerHexDigit c"
  then have "uuid_scan k 0 (sample_uuid c) = None" for k
    by (simp add: sample_uuid_def separator_index_def numeral_eq_Suc)
  moreover have "length (sample_uuid c) = 36" by (simp add: sample_uuid_def)
  ultimately show ?thesis by (simp add: uuid_scan_None canonical_uuid_def)
qed

lemma sample_digits [simp]:
  "isLowerHexDigit CHR ''1''" "isLowerHexDigit CHR ''2''" "isLowerHexDigit CHR ''3''"
  "isLowerHexDigit CHR ''4''" "isLowerHexDigit CHR ''5''" "isLowerHexDigit CHR ''6''"
  "isLowerHexDigit CHR ''a''" "isLowerHexDigit CHR ''b''" "isLowerHexDigit CHR ''c''"
  "isLowerHexDigit CHR ''d''" "isLowerHexDigit CHR ''e''" "isLowerHexDigit CHR ''f''"
  by code_simp+

subsection \<open>Versions\<close>

type_synonym Version = int64

definition ParseVersion :: "int64 \<Rightarrow> domain_error + Version" where
  "ParseVersion raw =
     (if raw < 0 then Inl (Wrapped ErrInvalidValue ''version must not be negative'') else Inr raw)"

definition Version_Next :: "Version \<Rightarrow> Version" where
  "Version_Next v = wrap64 (v + 1)"

lemma Version_Next_small: "0 \<le> v \<Longrightarrow> v < max_int64 \<Longrightarrow> Version_Next v = v + 1"
  by (simp add: Version_Next_def wrap64_id int64_bounds)

lemma Version_Next_fresh [simp]: "in_int64 v \<Longrightarrow> Version_Next v \<noteq> v"
  using wrap64_inc_fresh [of 1 v] by (simp add: Version_Next_def wrap64_id)

lemma Version_Next_neq: "Version_Next v \<noteq> v"
  using Version_Next_fresh [of v] wrap64_range [of "v + 1"] unfolding Version_Next_def by metis

subsection \<open>Fingerprints\<close>

datatype Fingerprint = Fingerprint (fp_hex: string)

definition fingerprintHexLength :: nat where "fingerprintHexLength = 64"

definition NewFingerprint :: "string \<Rightarrow> Fingerprint" where
  "NewFingerprint data = Fingerprint (sha256_hex data)"

definition ParseFingerprint :: "string \<Rightarrow> domain_error + Fingerprint" where
  "ParseFingerprint raw =
     (if length raw \<noteq> fingerprintHexLength
        then Inl (Wrapped ErrInvalidValue ''fingerprint must be 64 hex characters'')
      else if \<not> all_hex raw
        then Inl (Wrapped ErrInvalidValue ''fingerprint must use lowercase hex digits'')
      else Inr (Fingerprint raw))"

definition Fingerprint_IsZero :: "Fingerprint \<Rightarrow> bool" where
  "Fingerprint_IsZero f \<longleftrightarrow> fp_hex f = []"

definition Fingerprint_Equal :: "Fingerprint \<Rightarrow> Fingerprint \<Rightarrow> bool" where
  "Fingerprint_Equal f g \<longleftrightarrow> fp_hex f = fp_hex g"

definition Fingerprint_String :: "Fingerprint \<Rightarrow> string" where
  "Fingerprint_String f = (if fp_hex f = [] then ''<empty fingerprint>'' else fp_hex f)"

lemma Fingerprint_Equal_iff [simp]: "Fingerprint_Equal f g \<longleftrightarrow> f = g"
  by (cases f; cases g) (simp add: Fingerprint_Equal_def)

lemma ParseFingerprint_Inr [success_iff]:
  "ParseFingerprint raw = Inr f \<longleftrightarrow> length raw = 64 \<and> all_hex raw \<and> f = Fingerprint raw"
  by (auto simp: ParseFingerprint_def fingerprintHexLength_def)

lemma NewFingerprint_parses: "ParseFingerprint (fp_hex (NewFingerprint data)) = Inr (NewFingerprint data)"
  by (simp add: success_iff NewFingerprint_def)

subsection \<open>Serial and CRL numbers\<close>

definition maxSerialHexLength :: nat where "maxSerialHexLength = 40"

definition validateMinimalHex :: "string \<Rightarrow> string \<Rightarrow> nat \<Rightarrow> domain_error option" where
  "validateMinimalHex kind raw maxLen =
     (if raw = [] then Some (Wrapped ErrInvalidValue (kind @ '' must not be empty''))
      else if length raw > maxLen
        then Some (Wrapped ErrInvalidValue (kind @ '' must be at most 40 hex characters''))
      else if length raw > 1 \<and> hd raw = CHR ''0''
        then Some (Wrapped ErrInvalidValue (kind @ '' must not have a leading zero''))
      else if \<not> all_hex raw
        then Some (Wrapped ErrInvalidValue (kind @ '' must use lowercase hex digits''))
      else None)"

lemma validateMinimalHex_None [success_iff]:
  "validateMinimalHex kind raw n = None \<longleftrightarrow> minimal_hex raw \<and> length raw \<le> n"
  by (auto simp: validateMinimalHex_def minimal_hex_def)

datatype SerialNumber = SerialNumber (sn_hex: string)

definition ParseSerialNumber :: "string \<Rightarrow> domain_error + SerialNumber" where
  "ParseSerialNumber raw =
     check_then (validateMinimalHex ''serial number'' raw maxSerialHexLength)
      (if raw = ''0'' then Inl (Wrapped ErrInvalidValue ''serial number must be positive'')
       else Inr (SerialNumber raw))"

text \<open>A \<open>*big.Int\<close> argument is an optional integer: \<open>None\<close> is the nil pointer.\<close>

definition NewSerialNumberFromBig :: "int option \<Rightarrow> domain_error + SerialNumber" where
  "NewSerialNumberFromBig n =
     (case n of
        None \<Rightarrow> Inl (Wrapped ErrInvalidValue ''serial number must be positive'')
      | Some k \<Rightarrow>
          if k \<le> 0 then Inl (Wrapped ErrInvalidValue ''serial number must be positive'')
          else ParseSerialNumber (hex_text (nat k)))"

definition SerialNumber_IsZero :: "SerialNumber \<Rightarrow> bool" where
  "SerialNumber_IsZero s \<longleftrightarrow> sn_hex s = []"

definition SerialNumber_Big :: "SerialNumber \<Rightarrow> int" where
  "SerialNumber_Big s = (if sn_hex s = [] then 0 else int (hex_value (sn_hex s)))"

definition SerialNumber_Equal :: "SerialNumber \<Rightarrow> SerialNumber \<Rightarrow> bool" where
  "SerialNumber_Equal s t \<longleftrightarrow> sn_hex s = sn_hex t"

text \<open>\<open>big.Int.Cmp\<close>.\<close>

definition int_Cmp :: "int \<Rightarrow> int \<Rightarrow> int" where
  "int_Cmp a b = (if a < b then -1 else if a > b then 1 else 0)"

definition SerialNumber_Compare :: "SerialNumber \<Rightarrow> SerialNumber \<Rightarrow> int" where
  "SerialNumber_Compare s t = int_Cmp (SerialNumber_Big s) (SerialNumber_Big t)"

lemma SerialNumber_Equal_iff [simp]: "SerialNumber_Equal s t \<longleftrightarrow> s = t"
  by (cases s; cases t) (simp add: SerialNumber_Equal_def)

lemma int_Cmp_simps [simp]:
  "int_Cmp a b \<le> 0 \<longleftrightarrow> a \<le> b"
  "int_Cmp a b = 0 \<longleftrightarrow> a = b"
  "int_Cmp a b = 1 \<longleftrightarrow> b < a"
  "int_Cmp a b = -1 \<longleftrightarrow> a < b"
  by (auto simp: int_Cmp_def)

definition valid_serial :: "SerialNumber \<Rightarrow> bool" where
  "valid_serial s \<longleftrightarrow> minimal_hex (sn_hex s) \<and> length (sn_hex s) \<le> 40 \<and> sn_hex s \<noteq> ''0''"

lemma ParseSerialNumber_Inr [success_iff]:
  "ParseSerialNumber raw = Inr s \<longleftrightarrow> valid_serial (SerialNumber raw) \<and> s = SerialNumber raw"
  by (auto simp: ParseSerialNumber_def valid_serial_def maxSerialHexLength_def success_iff)

lemma hex_text_eq_0: "hex_text n = ''0'' \<longleftrightarrow> n = 0"
  using hd_hex_text [of n] hex_value_hex_text [of n]
  by (metis hex_val_0 hex_value_single list.sel(1) hex_digit_0 hex_text.simps zero_less_numeral)

lemma length_hex_text_40: "length (hex_text n) \<le> 40 \<longleftrightarrow> n < 16 ^ 40"
  by (rule length_hex_text) simp

datatype CRLNumber = CRLNumber (cn_hex: string)

definition ParseCRLNumber :: "string \<Rightarrow> domain_error + CRLNumber" where
  "ParseCRLNumber raw =
     check_then (validateMinimalHex ''crl number'' raw maxSerialHexLength) (Inr (CRLNumber raw))"

definition NewCRLNumberFromBig :: "int option \<Rightarrow> domain_error + CRLNumber" where
  "NewCRLNumberFromBig n =
     (case n of
        None \<Rightarrow> Inl (Wrapped ErrInvalidValue ''crl number must not be negative'')
      | Some k \<Rightarrow>
          if k < 0 then Inl (Wrapped ErrInvalidValue ''crl number must not be negative'')
          else ParseCRLNumber (hex_text (nat k)))"

definition CRLNumber_IsZero :: "CRLNumber \<Rightarrow> bool" where
  "CRLNumber_IsZero c \<longleftrightarrow> cn_hex c = []"

definition CRLNumber_Big :: "CRLNumber \<Rightarrow> int" where
  "CRLNumber_Big c = (if cn_hex c = [] then 0 else int (hex_value (cn_hex c)))"

definition CRLNumber_Compare :: "CRLNumber \<Rightarrow> CRLNumber \<Rightarrow> int" where
  "CRLNumber_Compare c d = int_Cmp (CRLNumber_Big c) (CRLNumber_Big d)"

definition CRLNumber_Increment :: "CRLNumber \<Rightarrow> CRLNumber" where
  "CRLNumber_Increment c = CRLNumber (hex_text (nat (CRLNumber_Big c + 1)))"

lemma CRLNumber_Big_nonneg [simp]: "0 \<le> CRLNumber_Big c"
  by (simp add: CRLNumber_Big_def)

lemma CRLNumber_Big_hex_text [simp]: "CRLNumber_Big (CRLNumber (hex_text n)) = int n"
  by (simp add: CRLNumber_Big_def)

lemma CRLNumber_Big_Increment [simp]: "CRLNumber_Big (CRLNumber_Increment c) = CRLNumber_Big c + 1"
  by (simp add: CRLNumber_Increment_def)

lemma CRLNumber_Increment_not_zero [simp]: "\<not> CRLNumber_IsZero (CRLNumber_Increment c)"
  by (simp add: CRLNumber_IsZero_def CRLNumber_Increment_def)

lemma ParseCRLNumber_Inr [success_iff]:
  "ParseCRLNumber raw = Inr c \<longleftrightarrow> minimal_hex raw \<and> length raw \<le> 40 \<and> c = CRLNumber raw"
  by (auto simp: ParseCRLNumber_def maxSerialHexLength_def success_iff)

end
