(* ===== verification/Instants.thy ===== *)
theory Instants
  imports Values
begin

text \<open>
  The time half of \<open>internal/domain/values.go\<close>: \<open>Instant\<close> and \<open>Duration\<close> in microseconds and
  \<open>ValidityWindow\<close>. A \<open>time.Time\<close> in UTC is the number of nanoseconds since the Unix epoch, an
  unbounded integer (\<open>gotime\<close>); a \<open>time.Duration\<close> is an \<open>int64\<close> of nanoseconds. The zero
  \<open>time.Time\<close> is 0001-01-01T00:00:00Z, the zero \<open>Instant\<close> is the Unix epoch.
\<close>

subsection \<open>Go times\<close>

type_synonym gotime = int

definition zero_gotime :: gotime where "zero_gotime = -62135596800000000000"

definition UnixMicro :: "gotime \<Rightarrow> int64" where
  "UnixMicro t = wrap64 (t div 1000)"

subsection \<open>Instants\<close>

datatype Instant = Instant (micros: int64)

definition zero_instant :: Instant where "zero_instant = Instant 0"

definition NewInstant :: "gotime \<Rightarrow> Instant" where
  "NewInstant t = (if t = zero_gotime then zero_instant else Instant (UnixMicro t))"

definition InstantFromUnixMicro :: "int64 \<Rightarrow> Instant" where
  "InstantFromUnixMicro m = Instant m"

definition Instant_Time :: "Instant \<Rightarrow> gotime" where
  "Instant_Time i = micros i * 1000"

definition Instant_IsZero :: "Instant \<Rightarrow> bool" where
  "Instant_IsZero i \<longleftrightarrow> micros i = 0"

definition Before :: "Instant \<Rightarrow> Instant \<Rightarrow> bool" where
  "Before i other \<longleftrightarrow> micros i < micros other"

definition After :: "Instant \<Rightarrow> Instant \<Rightarrow> bool" where
  "After i other \<longleftrightarrow> micros i > micros other"

definition Instant_Equal :: "Instant \<Rightarrow> Instant \<Rightarrow> bool" where
  "Instant_Equal i other \<longleftrightarrow> micros i = micros other"

datatype Duration = Duration (d_micros: int64)

definition Instant_Add :: "Instant \<Rightarrow> Duration \<Rightarrow> Instant" where
  "Instant_Add i d = Instant (wrap64 (micros i + d_micros d))"

definition Instant_Sub :: "Instant \<Rightarrow> Instant \<Rightarrow> Duration" where
  "Instant_Sub i other = Duration (wrap64 (micros i - micros other))"

definition IsExpiredAt :: "Instant \<Rightarrow> Instant \<Rightarrow> bool" where
  "IsExpiredAt i now \<longleftrightarrow> \<not> Before now i"

instantiation Instant :: linorder
begin

definition less_eq_Instant :: "Instant \<Rightarrow> Instant \<Rightarrow> bool" where
  "less_eq_Instant i j \<longleftrightarrow> micros i \<le> micros j"

definition less_Instant :: "Instant \<Rightarrow> Instant \<Rightarrow> bool" where
  "less_Instant i j \<longleftrightarrow> micros i < micros j"

instance
  by standard (auto simp: less_eq_Instant_def less_Instant_def Instant.expand)

end

text \<open>The comparison methods are the linear order; expiry is \<open>expiresAt \<le> now\<close>.\<close>

lemma instant_order [simp]:
  "Before i j \<longleftrightarrow> i < j"
  "After i j \<longleftrightarrow> j < i"
  "Instant_Equal i j \<longleftrightarrow> i = j"
  by (auto simp: Before_def After_def Instant_Equal_def less_Instant_def Instant.expand)

lemma IsExpiredAt_iff [simp]: "IsExpiredAt i now \<longleftrightarrow> i \<le> now"
  by (simp add: IsExpiredAt_def not_less)

lemma Instant_IsZero_iff: "Instant_IsZero i \<longleftrightarrow> i = zero_instant"
  by (cases i) (simp add: Instant_IsZero_def zero_instant_def)

text \<open>Expiry is permanent: once an instant has passed, it has passed at every later time.\<close>

lemma IsExpiredAt_mono: "IsExpiredAt i now \<Longrightarrow> now \<le> later \<Longrightarrow> IsExpiredAt i later"
  by simp

lemma NewInstant_Time:
  assumes "in_int64 (micros i)" and "micros i \<noteq> -62135596800000000"
  shows "NewInstant (Instant_Time i) = i"
  using assms by (cases i) (simp add: NewInstant_def Instant_Time_def UnixMicro_def zero_gotime_def wrap64_id)

subsection \<open>Durations\<close>

definition NewDuration :: "int64 \<Rightarrow> Duration" where
  "NewDuration d = Duration (go_div d 1000)"

definition DurationFromMicros :: "int64 \<Rightarrow> Duration" where
  "DurationFromMicros m = Duration m"

definition ParsePositiveDuration :: "string \<Rightarrow> int64 \<Rightarrow> domain_error + Duration" where
  "ParsePositiveDuration kind d =
     (if d \<le> 0 then Inl (Wrapped ErrInvalidValue (kind @ '' must be positive'')) else Inr (NewDuration d))"

definition StdDuration :: "Duration \<Rightarrow> int64" where
  "StdDuration d = wrap64 (d_micros d * 1000)"

definition Duration_IsZero :: "Duration \<Rightarrow> bool" where
  "Duration_IsZero d \<longleftrightarrow> d_micros d = 0"

definition Duration_IsPositive :: "Duration \<Rightarrow> bool" where
  "Duration_IsPositive d \<longleftrightarrow> d_micros d > 0"

definition Duration_Compare :: "Duration \<Rightarrow> Duration \<Rightarrow> int" where
  "Duration_Compare d other =
     (if d_micros d < d_micros other then -1 else if d_micros d > d_micros other then 1 else 0)"

text \<open>\<open>time.Second\<close>, \<open>time.Minute\<close> and \<open>time.Hour\<close> in nanoseconds.\<close>

definition go_second :: int64 where "go_second = 1000000000"
definition go_minute :: int64 where "go_minute = 60000000000"
definition go_hour :: int64 where "go_hour = 3600000000000"

lemmas go_units = go_second_def go_minute_def go_hour_def

lemma Instant_Add_small:
  "in_int64 (micros i + d_micros d) \<Longrightarrow> Instant_Add i d = Instant (micros i + d_micros d)"
  by (simp add: Instant_Add_def wrap64_id)

lemma Instant_Add_Sub:
  "in_int64 (micros i) \<Longrightarrow> Instant_Add j (Instant_Sub i j) = i"
  by (cases i) (simp add: Instant_Add_def Instant_Sub_def wrap64_add_right wrap64_id)

subsection \<open>Validity windows\<close>

record ValidityWindow =
  notBefore :: Instant
  notAfter :: Instant

definition zero_window :: ValidityWindow where
  "zero_window = \<lparr>notBefore = zero_instant, notAfter = zero_instant\<rparr>"

definition NewValidityWindow :: "Instant \<Rightarrow> Instant \<Rightarrow> domain_error + ValidityWindow" where
  "NewValidityWindow nb na =
     (if \<not> After na nb then Inl (Wrapped ErrInvalidValue ''not_after must be after not_before'')
      else Inr \<lparr>notBefore = nb, notAfter = na\<rparr>)"

definition Window_Duration :: "ValidityWindow \<Rightarrow> Duration" where
  "Window_Duration w = Instant_Sub (notAfter w) (notBefore w)"

definition ContainsAt :: "ValidityWindow \<Rightarrow> Instant \<Rightarrow> bool" where
  "ContainsAt w now \<longleftrightarrow> \<not> Before now (notBefore w) \<and> Before now (notAfter w)"

definition Covers :: "ValidityWindow \<Rightarrow> ValidityWindow \<Rightarrow> bool" where
  "Covers w inner \<longleftrightarrow>
     \<not> Before (notBefore inner) (notBefore w) \<and> \<not> After (notAfter inner) (notAfter w)"

definition Window_IsZero :: "ValidityWindow \<Rightarrow> bool" where
  "Window_IsZero w \<longleftrightarrow> Instant_IsZero (notBefore w) \<and> Instant_IsZero (notAfter w)"

lemma Window_IsZero_iff: "Window_IsZero w \<longleftrightarrow> w = zero_window"
  by (cases w) (simp add: Window_IsZero_def Instant_IsZero_iff zero_window_def)

lemma NewValidityWindow_Inr [success_iff]:
  "NewValidityWindow nb na = Inr w \<longleftrightarrow> nb < na \<and> w = \<lparr>notBefore = nb, notAfter = na\<rparr>"
  by (auto simp: NewValidityWindow_def)

lemma ContainsAt_iff: "ContainsAt w now \<longleftrightarrow> notBefore w \<le> now \<and> now < notAfter w"
  by (auto simp: ContainsAt_def)

lemma Covers_iff: "Covers w v \<longleftrightarrow> notBefore w \<le> notBefore v \<and> notAfter v \<le> notAfter w"
  by (auto simp: Covers_def)

lemma Covers_trans: "Covers u v \<Longrightarrow> Covers v w \<Longrightarrow> Covers u w"
  by (auto simp: Covers_iff)

lemma Covers_refl [simp]: "Covers w w"
  by (simp add: Covers_iff)

lemma Covers_antisym: "Covers v w \<Longrightarrow> Covers w v \<Longrightarrow> v = w"
  by (cases v; cases w) (auto simp: Covers_iff)

text \<open>Covering is what containment at every moment means, for a window that has a moment.\<close>

lemma Covers_iff_contains:
  assumes "notBefore v < notAfter v"
  shows "Covers w v \<longleftrightarrow> (\<forall>t. ContainsAt v t \<longrightarrow> ContainsAt w t)"
proof
  assume "Covers w v"
  then show "\<forall>t. ContainsAt v t \<longrightarrow> ContainsAt w t" by (auto simp: Covers_iff ContainsAt_iff)
next
  assume all: "\<forall>t. ContainsAt v t \<longrightarrow> ContainsAt w t"
  define last where "last = Instant (micros (notAfter v) - 1)"
  have "ContainsAt v (notBefore v)" and l: "ContainsAt v last"
    using assms by (auto simp: ContainsAt_iff less_Instant_def less_eq_Instant_def last_def)
  with all have "notBefore w \<le> notBefore v" and "last < notAfter w"
    by (auto simp: ContainsAt_iff)
  then show "Covers w v"
    by (simp add: Covers_iff less_Instant_def less_eq_Instant_def last_def)
qed

end
