(* ===== verification/Secrets.thy ===== *)
theory Secrets
  imports Instants
begin

text \<open>
  The key and secret half of \<open>internal/domain/values.go\<close>: key algorithms, public keys, secret
  purposes, encrypted secrets and token hashes. A Go string type with a fixed set of constants
  is a datatype with one constructor per constant and \<open>...Other s\<close> for every other string.
\<close>

datatype KeyAlgorithm =
    KeyAlgorithmECDSAP256
  | KeyAlgorithmECDSAP384
  | KeyAlgorithmRSA2048
  | KeyAlgorithmRSA3072
  | KeyAlgorithmRSA4096
  | KeyAlgorithmOther string

definition DefaultKeyAlgorithm :: KeyAlgorithm where
  "DefaultKeyAlgorithm = KeyAlgorithmECDSAP256"

definition DefaultCARSAAlgorithm :: KeyAlgorithm where
  "DefaultCARSAAlgorithm = KeyAlgorithmRSA3072"

definition DefaultLeafRSAAlgorithm :: KeyAlgorithm where
  "DefaultLeafRSAAlgorithm = KeyAlgorithmRSA2048"

fun KeyAlgorithm_Validate :: "KeyAlgorithm \<Rightarrow> domain_error option" where
  "KeyAlgorithm_Validate (KeyAlgorithmOther _) = Some (Wrapped ErrInvalidValue ''unsupported key algorithm'')"
| "KeyAlgorithm_Validate _ = None"

record PublicKey =
  pk_algorithm :: KeyAlgorithm
  pk_spki :: string

definition NewPublicKey :: "KeyAlgorithm \<Rightarrow> string \<Rightarrow> domain_error + PublicKey" where
  "NewPublicKey alg spkiDER =
     check_then (KeyAlgorithm_Validate alg)
      (if spkiDER = [] then Inl (Wrapped ErrInvalidValue ''public key spki must not be empty'')
       else Inr \<lparr>pk_algorithm = alg, pk_spki = spkiDER\<rparr>)"

definition PublicKey_Fingerprint :: "PublicKey \<Rightarrow> Fingerprint" where
  "PublicKey_Fingerprint k = NewFingerprint (pk_spki k)"

definition PublicKey_IsZero :: "PublicKey \<Rightarrow> bool" where
  "PublicKey_IsZero k \<longleftrightarrow> pk_spki k = []"

definition PublicKey_Equal :: "PublicKey \<Rightarrow> PublicKey \<Rightarrow> bool" where
  "PublicKey_Equal k other \<longleftrightarrow> pk_algorithm k = pk_algorithm other
     \<and> Fingerprint_Equal (PublicKey_Fingerprint k) (PublicKey_Fingerprint other)"

datatype SecretPurpose =
    SecretPurposeCASigning
  | SecretPurposeBootstrapCA
  | SecretPurposeLeafDelivery
  | SecretPurposeInternalTLS
  | SecretPurposeStoreVerifier
  | SecretPurposeOther string

fun SecretPurpose_String :: "SecretPurpose \<Rightarrow> string" where
  "SecretPurpose_String SecretPurposeCASigning = ''ca_signing''"
| "SecretPurpose_String SecretPurposeBootstrapCA = ''bootstrap_ca''"
| "SecretPurpose_String SecretPurposeLeafDelivery = ''leaf_delivery''"
| "SecretPurpose_String SecretPurposeInternalTLS = ''internal_tls''"
| "SecretPurpose_String SecretPurposeStoreVerifier = ''store_verifier''"
| "SecretPurpose_String (SecretPurposeOther s) = s"

definition StoreVerifierOwnerKeyID :: KeyMaterialID where
  "StoreVerifierOwnerKeyID = ''00000000-0000-4000-8000-000000000001''"

fun SecretPurpose_Validate :: "SecretPurpose \<Rightarrow> domain_error option" where
  "SecretPurpose_Validate (SecretPurposeOther _) = Some (Wrapped ErrInvalidValue ''unsupported secret purpose'')"
| "SecretPurpose_Validate _ = None"

record EncryptedSecret =
  es_ownerKeyID :: KeyMaterialID
  es_purpose :: SecretPurpose
  es_formatVersion :: int64
  es_encryptionGenerationID :: string
  es_nonce :: string
  es_ciphertext :: string

record EncryptedSecretFacts =
  esf_OwnerKeyID :: KeyMaterialID
  esf_Purpose :: SecretPurpose
  esf_FormatVersion :: int64
  esf_EncryptionGenerationID :: string
  esf_Nonce :: string
  esf_Ciphertext :: string

definition NewEncryptedSecret :: "EncryptedSecretFacts \<Rightarrow> domain_error + EncryptedSecret" where
  "NewEncryptedSecret facts =
     check_then (err_of (ParseKeyMaterialID (esf_OwnerKeyID facts)))
     (check_then (SecretPurpose_Validate (esf_Purpose facts))
     (if esf_FormatVersion facts \<le> 0
        then Inl (Wrapped ErrInvalidValue ''encrypted secret format version must be positive'')
      else if TrimSpace (esf_EncryptionGenerationID facts) = []
        then Inl (Wrapped ErrInvalidValue ''encryption generation id must not be empty'')
      else if esf_Nonce facts = []
        then Inl (Wrapped ErrInvalidValue ''encrypted secret nonce must not be empty'')
      else if esf_Ciphertext facts = []
        then Inl (Wrapped ErrInvalidValue ''encrypted secret ciphertext must not be empty'')
      else Inr \<lparr>es_ownerKeyID = esf_OwnerKeyID facts, es_purpose = esf_Purpose facts,
        es_formatVersion = esf_FormatVersion facts,
        es_encryptionGenerationID = esf_EncryptionGenerationID facts,
        es_nonce = esf_Nonce facts, es_ciphertext = esf_Ciphertext facts\<rparr>))"

definition EncryptedSecret_IsZero :: "EncryptedSecret \<Rightarrow> bool" where
  "EncryptedSecret_IsZero s \<longleftrightarrow> es_ciphertext s = []"

definition EncryptedSecret_String :: "EncryptedSecret \<Rightarrow> string" where
  "EncryptedSecret_String s =
     ''EncryptedSecret{owner:'' @ es_ownerKeyID s @ '' purpose:''
       @ SecretPurpose_String (es_purpose s) @ ''}''"

datatype TokenHash = TokenHash (th_fingerprint: Fingerprint)

definition NewTokenHash :: "Fingerprint \<Rightarrow> domain_error + TokenHash" where
  "NewTokenHash digest =
     (if Fingerprint_IsZero digest then Inl (Wrapped ErrInvalidValue ''token hash must not be empty'')
      else Inr (TokenHash digest))"

definition ParseTokenHash :: "string \<Rightarrow> domain_error + TokenHash" where
  "ParseTokenHash raw = and_then (ParseFingerprint raw) (\<lambda>digest. Inr (TokenHash digest))"

definition TokenHash_Hex :: "TokenHash \<Rightarrow> string" where
  "TokenHash_Hex h = fp_hex (th_fingerprint h)"

definition TokenHash_IsZero :: "TokenHash \<Rightarrow> bool" where
  "TokenHash_IsZero h \<longleftrightarrow> Fingerprint_IsZero (th_fingerprint h)"

definition TokenHash_Equal :: "TokenHash \<Rightarrow> TokenHash \<Rightarrow> bool" where
  "TokenHash_Equal h other \<longleftrightarrow> Fingerprint_Equal (th_fingerprint h) (th_fingerprint other)"

definition TokenHash_String :: "TokenHash \<Rightarrow> string" where
  "TokenHash_String h = ''<token hash>''"

subsection \<open>Lemmas\<close>

lemma KeyAlgorithm_Validate_None [success_iff]:
  "KeyAlgorithm_Validate a = None \<longleftrightarrow> (\<forall>s. a \<noteq> KeyAlgorithmOther s)"
  by (cases a) simp_all

lemma SecretPurpose_Validate_None [success_iff]:
  "SecretPurpose_Validate p = None \<longleftrightarrow> (\<forall>s. p \<noteq> SecretPurposeOther s)"
  by (cases p) simp_all

lemma ParseTokenHash_not_zero: "ParseTokenHash raw = Inr h \<Longrightarrow> \<not> TokenHash_IsZero h"
  by (auto simp: ParseTokenHash_def success_iff TokenHash_IsZero_def Fingerprint_IsZero_def)

lemma ParseTokenHash_Hex: "ParseTokenHash raw = Inr h \<Longrightarrow> TokenHash_Hex h = raw"
  by (auto simp: ParseTokenHash_def success_iff TokenHash_Hex_def)

lemma TokenHash_Equal_iff [simp]: "TokenHash_Equal h g \<longleftrightarrow> h = g"
  by (cases h; cases g) (simp add: TokenHash_Equal_def)

definition sample_token :: TokenHash where
  "sample_token = TokenHash (Fingerprint (replicate 64 (CHR ''a'')))"

lemma sample_token_not_zero [simp]: "\<not> TokenHash_IsZero sample_token"
  by (simp add: sample_token_def TokenHash_IsZero_def Fingerprint_IsZero_def)

text \<open>What an encrypted secret prints depends on its binding alone, never on the secret bytes.\<close>

lemma EncryptedSecret_String_redacts:
  "EncryptedSecret_String (s\<lparr>es_nonce := n, es_ciphertext := c\<rparr>) = EncryptedSecret_String s"
  by (simp add: EncryptedSecret_String_def)

lemma NewEncryptedSecret_Inr [success_iff]:
  "NewEncryptedSecret f = Inr s \<longleftrightarrow>
     canonical_uuid (esf_OwnerKeyID f) \<and> (\<forall>p. esf_Purpose f \<noteq> SecretPurposeOther p)
     \<and> 0 < esf_FormatVersion f \<and> TrimSpace (esf_EncryptionGenerationID f) \<noteq> []
     \<and> esf_Nonce f \<noteq> [] \<and> esf_Ciphertext f \<noteq> []
     \<and> s = \<lparr>es_ownerKeyID = esf_OwnerKeyID f, es_purpose = esf_Purpose f,
        es_formatVersion = esf_FormatVersion f,
        es_encryptionGenerationID = esf_EncryptionGenerationID f,
        es_nonce = esf_Nonce f, es_ciphertext = esf_Ciphertext f\<rparr>"
  by (auto simp: NewEncryptedSecret_def success_iff)

end
