(* ===== verification/Machines.thy ===== *)
theory Machines
  imports Values
begin

text \<open>
  The contract every stored aggregate of the program keeps. Its operations return a new value
  or refuse; a value that differs from the old one carries the next optimistic-lock version and
  the same identity (\<open>versioned_machine\<close>). A lifecycle moreover only moves forward in a rank
  (\<open>lifecycle_machine\<close>), so it can change only finitely often. The locales are interpreted on
  each aggregate's own step function where the aggregate is defined.
\<close>

text \<open>How many operations of a run changed the stored value.\<close>

fun changes :: "('s \<Rightarrow> 'op \<Rightarrow> 'e + 's) \<Rightarrow> 's \<Rightarrow> 'op list \<Rightarrow> nat" where
  "changes step s [] = 0"
| "changes step s (x # xs) =
     (if keep_step step s x = s then 0 else 1) + changes step (keep_step step s x) xs"

lemma changes_le_length: "changes step s xs \<le> length xs"
proof (induction xs arbitrary: s)
  case Nil
  show ?case by simp
next
  case (Cons x xs)
  from Cons [of "keep_step step s x"]
  show ?case by (cases "keep_step step s x = s") simp_all
qed

lemma no_changes: "changes step s xs = 0 \<Longrightarrow> run_keep step s xs = s"
proof (induction xs arbitrary: s)
  case Nil
  show ?case by simp
next
  case (Cons x xs)
  then have eq: "keep_step step s x = s" by (simp split: if_splits)
  with Cons.prems have "changes step s xs = 0" by simp
  then have "run_keep step s xs = s" by (rule Cons.IH)
  with eq show ?case by simp
qed

locale versioned_machine =
  fixes step :: "'s \<Rightarrow> 'op \<Rightarrow> 'e + 's"
    and ver :: "'s \<Rightarrow> Version"
    and ident :: "'s \<Rightarrow> 'k"
  assumes step_version: "step s x = Inr s' \<Longrightarrow> s' \<noteq> s \<Longrightarrow> ver s' = Version_Next (ver s)"
    and step_ident: "step s x = Inr s' \<Longrightarrow> ident s' = ident s"
begin

lemma keep_ident: "ident (keep_step step s x) = ident s"
  using keep_step_cases [of step s x] step_ident by metis

lemma run_ident: "ident (run_keep step s xs) = ident s"
  by (induction xs arbitrary: s) (simp_all add: keep_ident)

lemma keep_version:
  "ver (keep_step step s x) = (if keep_step step s x = s then ver s else Version_Next (ver s))"
  using keep_step_cases [of step s x] step_version by metis

text \<open>The version counts the changes, modulo the width of the counter.\<close>

lemma version_counts_changes:
  "in_int64 (ver s) \<Longrightarrow> ver (run_keep step s xs) = wrap64 (ver s + int (changes step s xs))"
proof (induction xs arbitrary: s)
  case Nil
  then show ?case by (simp add: wrap64_id)
next
  case (Cons x xs)
  let ?t = "keep_step step s x"
  have "in_int64 (ver ?t)"
    using Cons.prems by (simp add: keep_version Version_Next_def)
  then have "ver (run_keep step ?t xs) = wrap64 (ver ?t + int (changes step ?t xs))"
    by (rule Cons.IH)
  also have "\<dots> = wrap64 (ver s + int (changes step s (x # xs)))"
    by (simp add: keep_version Version_Next_def wrap64_add_left ac_simps)
  finally show ?case by simp
qed

text \<open>
  So an unchanged version means an unchanged row: comparing versions detects every intermediate
  write, as long as fewer than 2^64 writes happened in between.
\<close>

lemma changed_version_differs:
  assumes "in_int64 (ver s)" and "length xs < 18446744073709551616" and "0 < changes step s xs"
  shows "ver (run_keep step s xs) \<noteq> ver s"
proof -
  let ?n = "int (changes step s xs)"
  have "?n < 18446744073709551616"
    using changes_le_length [of step s xs] assms(2) by linarith
  then have "wrap64 (ver s + ?n) \<noteq> wrap64 (ver s)" using assms(3) by (intro wrap64_inc_fresh) simp_all
  then show ?thesis
    using version_counts_changes [OF assms(1), of xs] assms(1) by (simp add: wrap64_id)
qed

lemma same_version_same_state:
  assumes "in_int64 (ver s)" and "length xs < 18446744073709551616"
    and "ver (run_keep step s xs) = ver s"
  shows "run_keep step s xs = s"
  using changed_version_differs [OF assms(1,2)] assms(3) no_changes [of step s xs] by blast

lemma version_grows:
  assumes "0 \<le> ver s" and "ver s + int (length xs) \<le> max_int64"
  shows "ver (run_keep step s xs) = ver s + int (changes step s xs)"
proof -
  have "int (changes step s xs) \<le> int (length xs)"
    using changes_le_length [of step s xs] by simp
  with assms have "in_int64 (ver s + int (changes step s xs))" and "in_int64 (ver s)"
    by (simp_all add: int64_bounds)
  then show ?thesis by (simp add: version_counts_changes wrap64_id)
qed

end

locale lifecycle_machine = versioned_machine +
  fixes rank :: "'a \<Rightarrow> nat" and admissible :: "'b \<Rightarrow> bool"
  assumes step_rank: "step s x = Inr s' \<Longrightarrow> admissible x \<Longrightarrow> s' \<noteq> s \<Longrightarrow> rank s < rank s'"
begin

lemma keep_rank: "admissible x \<Longrightarrow> keep_step step s x \<noteq> s \<Longrightarrow> rank s < rank (keep_step step s x)"
  using keep_step_cases [of step s x] step_rank by metis

text \<open>Every change costs rank, so the rank bounds the number of changes of any run.\<close>

lemma changes_bounded:
  "list_all admissible xs \<Longrightarrow> rank s + changes step s xs \<le> rank (run_keep step s xs)"
proof (induction xs arbitrary: s)
  case Nil
  show ?case by simp
next
  case (Cons x xs)
  let ?t = "keep_step step s x"
  have IH: "rank ?t + changes step ?t xs \<le> rank (run_keep step ?t xs)"
    using Cons by simp
  show ?case
  proof (cases "?t = s")
    case True
    with IH show ?thesis by simp
  next
    case False
    with Cons.prems have "rank s < rank ?t" by (simp add: keep_rank)
    with IH False show ?thesis by simp
  qed
qed

lemma rank_mono: "list_all admissible xs \<Longrightarrow> rank s \<le> rank (run_keep step s xs)"
  using changes_bounded [of xs s] by simp

text \<open>No state is ever revisited: a run that returns to a state has not left it.\<close>

lemma no_return:
  assumes "list_all admissible xs" and "list_all admissible ys"
    and "run_keep step s (xs @ ys) = s"
  shows "run_keep step s xs = s"
proof -
  have "rank s + changes step s xs \<le> rank (run_keep step s xs)"
    using assms(1) by (rule changes_bounded)
  also have "\<dots> \<le> rank (run_keep step (run_keep step s xs) ys)"
    using assms(2) by (rule rank_mono)
  also have "\<dots> = rank s" using assms(3) by (simp add: run_keep_append)
  finally have "changes step s xs = 0" by simp
  then show ?thesis by (rule no_changes)
qed

end

subsection \<open>One-shot permissions\<close>

text \<open>
  A permission that is spent by its use: a private-key delivery, a download link, a password reset
  token. \<open>uses\<close> counts the successful uses of a run.
\<close>

fun uses :: "('s \<Rightarrow> 'op \<Rightarrow> 'e + 's) \<Rightarrow> ('op \<Rightarrow> bool) \<Rightarrow> 's \<Rightarrow> 'op list \<Rightarrow> nat" where
  "uses step is_use s [] = 0"
| "uses step is_use s (x # xs) =
     (if is_use x then case step s x of Inl _ \<Rightarrow> 0 | Inr _ \<Rightarrow> 1 else 0)
     + uses step is_use (keep_step step s x) xs"

locale one_shot =
  fixes step :: "'s \<Rightarrow> 'op \<Rightarrow> 'e + 's"
    and is_use :: "'op \<Rightarrow> bool"
    and spent :: "'s \<Rightarrow> bool"
    and admissible :: "'op \<Rightarrow> bool"
  assumes use_unspent: "is_use x \<Longrightarrow> step s x = Inr s' \<Longrightarrow> \<not> spent s"
    and use_spends: "is_use x \<Longrightarrow> admissible x \<Longrightarrow> step s x = Inr s' \<Longrightarrow> spent s'"
    and spent_stays: "spent s \<Longrightarrow> step s x = Inr s' \<Longrightarrow> spent s'"
begin

lemma keep_spent: "spent s \<Longrightarrow> spent (keep_step step s x)"
  using keep_step_cases [of step s x] spent_stays by metis

lemma run_spent: "spent s \<Longrightarrow> spent (run_keep step s xs)"
  by (induction xs arbitrary: s) (simp_all add: keep_spent)

lemma spent_no_use: "spent s \<Longrightarrow> uses step is_use s xs = 0"
proof (induction xs arbitrary: s)
  case Nil
  show ?case by simp
next
  case (Cons x xs)
  then have "is_use x \<Longrightarrow> \<exists>e. step s x = Inl e"
    using use_unspent [of x s] by (cases "step s x") auto
  then have "(if is_use x then case step s x of Inl _ \<Rightarrow> 0 | Inr _ \<Rightarrow> 1 else 0) = (0::nat)" by auto
  with Cons show ?case by (simp only: uses.simps keep_spent)
qed

lemma at_most_one_use:
  "list_all admissible xs \<Longrightarrow> uses step is_use s xs + (if spent s then 1 else 0) \<le> 1"
proof (induction xs arbitrary: s)
  case Nil
  show ?case by simp
next
  case (Cons x xs)
  let ?t = "keep_step step s x"
  have IH: "uses step is_use ?t xs + (if spent ?t then 1 else 0) \<le> 1" using Cons by simp
  show ?case
  proof (cases "spent s \<or> \<not> is_use x")
    case True
    then show ?thesis using IH spent_no_use [of s "x # xs"] by (auto split: if_splits)
  next
    case False
    show ?thesis
    proof (cases "step s x")
      case (Inl e)
      with False IH show ?thesis by simp
    next
      case (Inr s')
      with False Cons.prems have "spent ?t" using use_spends [of x s s'] by (simp add: keep_step_def)
      then show ?thesis using False Inr by (simp add: spent_no_use)
    qed
  qed
qed

end

end
