(* ===== verification/Authority.thy ===== *)
theory Authority
  imports Machines Secrets
begin

text \<open>
  \<open>internal/domain/authority.go\<close>: the management unit of a CA key. \<open>CanIssue\<close> and
  \<open>CanSignCRL\<close> are the gates every signature goes through; \<open>StopIssuance\<close>, \<open>Enable\<close>,
  \<open>DestroyKey\<close>, \<open>Archive\<close>, \<open>AttachSigningKey\<close>, \<open>ConfirmTakeover\<close> and \<open>Rename\<close> are the
  transitions. The step function \<open>authority_step\<close> collects the transitions and interprets the
  versioned-machine contract.
\<close>

subsection \<open>Data\<close>

datatype AuthorityKind =
    AuthorityKindRoot
  | AuthorityKindIntermediate
  | AuthorityKindBootstrap
  | AuthorityKindOther string

fun AuthorityKind_Validate :: "AuthorityKind \<Rightarrow> domain_error option" where
  "AuthorityKind_Validate (AuthorityKindOther _) =
     Some (Wrapped ErrInvalidValue ''unsupported authority kind'')"
| "AuthorityKind_Validate _ = None"

fun AuthorityKind_text :: "AuthorityKind \<Rightarrow> string" where
  "AuthorityKind_text AuthorityKindRoot = ''root''"
| "AuthorityKind_text AuthorityKindIntermediate = ''intermediate''"
| "AuthorityKind_text AuthorityKindBootstrap = ''bootstrap''"
| "AuthorityKind_text (AuthorityKindOther s) = s"

datatype IssuanceState =
    IssuanceStateInventory
  | IssuanceStateEnabled
  | IssuanceStateStopped
  | IssuanceStateOther string

fun IssuanceState_Validate :: "IssuanceState \<Rightarrow> domain_error option" where
  "IssuanceState_Validate (IssuanceStateOther _) =
     Some (Wrapped ErrInvalidValue ''unsupported issuance state'')"
| "IssuanceState_Validate _ = None"

fun IssuanceState_text :: "IssuanceState \<Rightarrow> string" where
  "IssuanceState_text IssuanceStateInventory = ''inventory''"
| "IssuanceState_text IssuanceStateEnabled = ''enabled''"
| "IssuanceState_text IssuanceStateStopped = ''stopped''"
| "IssuanceState_text (IssuanceStateOther s) = s"

record Authority =
  au_id :: AuthorityID
  au_kind :: AuthorityKind
  au_name :: string
  au_managementParentID :: AuthorityID
  au_issuanceState :: IssuanceState
  au_issuanceCertificateID :: CertificateID
  au_keyGenerationID :: CAKeyGenerationID
  au_keyAvailable :: bool
  au_affected :: bool
  au_pendingTakeover :: bool
  au_certificateWindow :: ValidityWindow
  au_archivedAt :: Instant
  au_version :: Version

record AuthorityFacts =
  auf_ID :: AuthorityID
  auf_Kind :: AuthorityKind
  auf_Name :: string
  auf_ManagementParentID :: AuthorityID
  auf_IssuanceState :: IssuanceState
  auf_IssuanceCertificateID :: CertificateID
  auf_KeyGenerationID :: CAKeyGenerationID
  auf_KeyAvailable :: bool
  auf_Affected :: bool
  auf_PendingTakeover :: bool
  auf_CertificateWindow :: ValidityWindow
  auf_ArchivedAt :: Instant
  auf_Version :: Version

definition maxAuthorityNameLength :: nat where "maxAuthorityNameLength = 255"

definition NewAuthority :: "AuthorityFacts \<Rightarrow> domain_error + Authority" where
  "NewAuthority facts =
     check_then (err_of (ParseAuthorityID (auf_ID facts)))
     (check_then (AuthorityKind_Validate (auf_Kind facts))
     (if auf_Name facts = [] \<or> length (auf_Name facts) > maxAuthorityNameLength
        then Inl (Wrapped ErrInvalidValue ''authority name must be 1..255 characters'')
      else if auf_Kind facts = AuthorityKindIntermediate \<and> auf_ManagementParentID facts = []
        then Inl (Wrapped ErrInvalidValue ''intermediate authority requires a management parent'')
      else if auf_Kind facts = AuthorityKindRoot \<and> auf_ManagementParentID facts \<noteq> []
        then Inl (Wrapped ErrInvalidValue ''root authority must not have a management parent'')
      else check_then (IssuanceState_Validate (auf_IssuanceState facts))
          (check_then (err_of (ParseCAKeyGenerationID (auf_KeyGenerationID facts)))
           (Inr \<lparr>au_id = auf_ID facts, au_kind = auf_Kind facts, au_name = auf_Name facts,
              au_managementParentID = auf_ManagementParentID facts,
              au_issuanceState = auf_IssuanceState facts,
              au_issuanceCertificateID = auf_IssuanceCertificateID facts,
              au_keyGenerationID = auf_KeyGenerationID facts,
              au_keyAvailable = auf_KeyAvailable facts, au_affected = auf_Affected facts,
              au_pendingTakeover = auf_PendingTakeover facts,
              au_certificateWindow = auf_CertificateWindow facts,
              au_archivedAt = auf_ArchivedAt facts, au_version = auf_Version facts\<rparr>))))"

definition Authority_IsArchived :: "Authority \<Rightarrow> bool" where
  "Authority_IsArchived a \<longleftrightarrow> \<not> Instant_IsZero (au_archivedAt a)"

definition Authority_IsExpired :: "Authority \<Rightarrow> Instant \<Rightarrow> bool" where
  "Authority_IsExpired a now =
     (if Window_IsZero (au_certificateWindow a) then False
      else IsExpiredAt (notAfter (au_certificateWindow a)) now)"

definition hasValidCertificateWindowAt :: "Authority \<Rightarrow> Instant \<Rightarrow> bool" where
  "hasValidCertificateWindowAt a now \<longleftrightarrow>
     \<not> Window_IsZero (au_certificateWindow a) \<and> ContainsAt (au_certificateWindow a) now"

subsection \<open>Issuing and CRL signing\<close>

text \<open>The ordinary Leaf intent is the empty string in the source, so it is the zero value.\<close>

datatype IssuanceIntent =
    IssuanceIntentLeaf
  | IssuanceIntentBootstrapTLS
  | IssuanceIntentSubordinateCA
  | IssuanceIntentOther string

fun requiredIssuerKind :: "IssuanceIntent \<Rightarrow> domain_error + AuthorityKind" where
  "requiredIssuerKind IssuanceIntentLeaf = Inr AuthorityKindIntermediate"
| "requiredIssuerKind IssuanceIntentBootstrapTLS = Inr AuthorityKindBootstrap"
| "requiredIssuerKind IssuanceIntentSubordinateCA = Inr AuthorityKindRoot"
| "requiredIssuerKind (IssuanceIntentOther _) =
     Inl (Wrapped ErrInvalidValue ''unsupported issuance intent'')"

fun IssuanceIntent_describe :: "IssuanceIntent \<Rightarrow> string" where
  "IssuanceIntent_describe IssuanceIntentLeaf = ''ordinary leaf''"
| "IssuanceIntent_describe IssuanceIntentBootstrapTLS = ''bootstrap_tls''"
| "IssuanceIntent_describe IssuanceIntentSubordinateCA = ''subordinate ca''"
| "IssuanceIntent_describe (IssuanceIntentOther s) = s"

record IssuerContext =
  ic_RequestedWindow :: ValidityWindow
  ic_TakeoverConfirmed :: bool
  ic_Intent :: IssuanceIntent

definition CanIssue :: "Authority \<Rightarrow> IssuerContext \<Rightarrow> Instant \<Rightarrow> domain_error option" where
  "CanIssue a ctx now =
     (if Authority_IsArchived a then Some (Wrapped ErrNotPermitted ''authority is archived'')
      else case requiredIssuerKind (ic_Intent ctx) of
        Inl e \<Rightarrow> Some e
      | Inr requiredKind \<Rightarrow>
          if au_kind a \<noteq> requiredKind
            then Some (Wrapped ErrNotPermitted
              (IssuanceIntent_describe (ic_Intent ctx) @ '' issuance requires a ''
                @ AuthorityKind_text requiredKind @ '' issuer, not '' @ AuthorityKind_text (au_kind a)))
          else if au_issuanceState a \<noteq> IssuanceStateEnabled
            then Some (Wrapped ErrNotPermitted
              (''authority issuance state is '' @ IssuanceState_text (au_issuanceState a)))
          else if \<not> au_keyAvailable a
            then Some (Wrapped ErrNotPermitted ''authority signing key is not available'')
          else if au_affected a
            then Some (Wrapped ErrNotPermitted ''authority carries an unresolved compromise impact'')
          else if au_pendingTakeover a \<and> \<not> ic_TakeoverConfirmed ctx
            then Some (Wrapped ErrNotPermitted ''imported authority takeover is not confirmed'')
          else if \<not> hasValidCertificateWindowAt a now
            then Some (Wrapped ErrNotPermitted ''authority certificate is not within its validity window'')
          else if \<not> Window_IsZero (ic_RequestedWindow ctx) \<and> \<not> Window_IsZero (au_certificateWindow a)
                \<and> \<not> Covers (au_certificateWindow a) (ic_RequestedWindow ctx)
            then Some (Wrapped ErrPolicyViolation ''requested validity exceeds issuer certificate period'')
          else None)"

definition CanSignCRL :: "Authority \<Rightarrow> Instant \<Rightarrow> domain_error option" where
  "CanSignCRL a now =
     (if Authority_IsArchived a then Some (Wrapped ErrNotPermitted ''authority is archived'')
      else if \<not> au_keyAvailable a
        then Some (Wrapped ErrNotPermitted ''authority signing key has been destroyed'')
      else if \<not> hasValidCertificateWindowAt a now
        then Some (Wrapped ErrNotPermitted ''authority certificate is not within its validity window'')
      else None)"

subsection \<open>Transitions\<close>

definition StopIssuance :: "Authority \<Rightarrow> domain_error + Authority" where
  "StopIssuance a =
     (if Authority_IsArchived a then Inl (Wrapped ErrInvalidTransition ''authority is archived'')
      else if au_issuanceState a \<noteq> IssuanceStateEnabled
        then Inl (Wrapped ErrInvalidTransition
          (''authority issuance state is already '' @ IssuanceState_text (au_issuanceState a)))
      else Inr (a\<lparr>au_issuanceState := IssuanceStateStopped,
                  au_version := Version_Next (au_version a)\<rparr>))"

definition Enable :: "Authority \<Rightarrow> domain_error + Authority" where
  "Enable a =
     (if Authority_IsArchived a then Inl (Wrapped ErrInvalidTransition ''authority is archived'')
      else if au_issuanceState a = IssuanceStateEnabled
        then Inl (Wrapped ErrInvalidTransition ''authority issuance state is already enabled'')
      else Inr (a\<lparr>au_issuanceState := IssuanceStateEnabled,
                  au_version := Version_Next (au_version a)\<rparr>))"

record ClosureFacts =
  cf_AllDependentCertificatesExpired :: bool
  cf_RequiredCRLsPublished :: bool

definition CanDestroyKey :: "Authority \<Rightarrow> ClosureFacts \<Rightarrow> Instant \<Rightarrow> domain_error option" where
  "CanDestroyKey a facts now =
     (if \<not> au_keyAvailable a
        then Some (Wrapped ErrAlreadyConsumed ''authority signing key is already destroyed'')
      else if au_issuanceState a = IssuanceStateEnabled
        then Some (Wrapped ErrNotPermitted ''authority must stop issuance before key destruction'')
      else if \<not> cf_AllDependentCertificatesExpired facts
        then Some (Wrapped ErrNotPermitted ''dependent certificates have not all expired'')
      else if \<not> cf_RequiredCRLsPublished facts
        then Some (Wrapped ErrNotPermitted ''required crl publications are not complete'')
      else None)"

definition DestroyKey :: "Authority \<Rightarrow> ClosureFacts \<Rightarrow> Instant \<Rightarrow> domain_error + Authority" where
  "DestroyKey a facts now =
     check_then (CanDestroyKey a facts now)
      (Inr (a\<lparr>au_keyAvailable := False, au_version := Version_Next (au_version a)\<rparr>))"

definition Archive :: "Authority \<Rightarrow> ClosureFacts \<Rightarrow> Instant \<Rightarrow> domain_error + Authority" where
  "Archive a facts now =
     (if Authority_IsArchived a then Inl (Wrapped ErrInvalidTransition ''authority is already archived'')
      else if au_issuanceState a = IssuanceStateEnabled
        then Inl (Wrapped ErrNotPermitted ''authority must stop issuance before archival'')
      else if \<not> cf_AllDependentCertificatesExpired facts
        then Inl (Wrapped ErrNotPermitted ''dependent certificates have not all expired'')
      else if \<not> cf_RequiredCRLsPublished facts
        then Inl (Wrapped ErrNotPermitted ''required crl publications are not complete'')
      else Inr (a\<lparr>au_archivedAt := now, au_version := Version_Next (au_version a)\<rparr>))"

definition AttachSigningKey :: "Authority \<Rightarrow> domain_error + Authority" where
  "AttachSigningKey a =
     (if Authority_IsArchived a then Inl (Wrapped ErrInvalidTransition ''authority is archived'')
      else if au_keyAvailable a
        then Inl (Wrapped ErrConflict ''authority signing key is already available'')
      else Inr (a\<lparr>au_keyAvailable := True, au_version := Version_Next (au_version a)\<rparr>))"

definition ConfirmTakeover :: "Authority \<Rightarrow> domain_error + Authority" where
  "ConfirmTakeover a =
     (if \<not> au_pendingTakeover a
        then Inl (Wrapped ErrInvalidTransition ''authority takeover is not pending'')
      else Inr (a\<lparr>au_pendingTakeover := False, au_version := Version_Next (au_version a)\<rparr>))"

datatype AuthorityPolicy = AuthorityPolicy (ap_Name: string)

definition Rename :: "Authority \<Rightarrow> AuthorityPolicy \<Rightarrow> domain_error + Authority" where
  "Rename a pol =
     (if Authority_IsArchived a then Inl (Wrapped ErrInvalidTransition ''authority is archived'')
      else if ap_Name pol = [] \<or> length (ap_Name pol) > maxAuthorityNameLength
        then Inl (Wrapped ErrInvalidValue ''authority name must be 1..255 characters'')
      else Inr (a\<lparr>au_name := ap_Name pol, au_version := Version_Next (au_version a)\<rparr>))"

subsection \<open>The authority as a versioned machine\<close>

datatype authority_op =
    OpStopIssuance
  | OpEnable
  | OpDestroyKey ClosureFacts Instant
  | OpArchive ClosureFacts Instant
  | OpAttachSigningKey
  | OpConfirmTakeover
  | OpRename AuthorityPolicy

fun authority_step :: "Authority \<Rightarrow> authority_op \<Rightarrow> domain_error + Authority" where
  "authority_step a OpStopIssuance = StopIssuance a"
| "authority_step a OpEnable = Enable a"
| "authority_step a (OpDestroyKey f now) = DestroyKey a f now"
| "authority_step a (OpArchive f now) = Archive a f now"
| "authority_step a OpAttachSigningKey = AttachSigningKey a"
| "authority_step a OpConfirmTakeover = ConfirmTakeover a"
| "authority_step a (OpRename p) = Rename a p"

lemmas authority_op_defs =
  StopIssuance_def Enable_def DestroyKey_def CanDestroyKey_def Archive_def AttachSigningKey_def
  ConfirmTakeover_def Rename_def

text \<open>Identity: what no transition touches.\<close>

definition authority_identity ::
  "Authority \<Rightarrow> AuthorityID \<times> AuthorityKind \<times> AuthorityID \<times> CertificateID \<times> CAKeyGenerationID
     \<times> bool \<times> ValidityWindow" where
  "authority_identity a =
     (au_id a, au_kind a, au_managementParentID a, au_issuanceCertificateID a, au_keyGenerationID a,
      au_affected a, au_certificateWindow a)"

lemma authority_step_version:
  "authority_step a x = Inr a' \<Longrightarrow> au_version a' = Version_Next (au_version a)"
  by (cases x) (auto simp: authority_op_defs success_iff)

lemma authority_step_identity [frame_rules]:
  "authority_step a x = Inr a' \<Longrightarrow> authority_identity a' = authority_identity a"
  by (cases x) (auto simp: authority_op_defs authority_identity_def success_iff)

interpretation am: versioned_machine authority_step au_version authority_identity
  by unfold_locales (auto dest: authority_step_version authority_step_identity)

lemma authority_step_archived:
  "authority_step a x = Inr a' \<Longrightarrow> Authority_IsArchived a \<Longrightarrow> Authority_IsArchived a'"
  by (cases x) (auto simp: authority_op_defs Authority_IsArchived_def success_iff)

subsection \<open>Success conditions\<close>

text \<open>What the constructor checks, as one predicate of the stored row.\<close>

definition authority_ok :: "Authority \<Rightarrow> bool" where
  "authority_ok a \<longleftrightarrow> canonical_uuid (au_id a) \<and> (\<forall>s. au_kind a \<noteq> AuthorityKindOther s)
     \<and> au_name a \<noteq> [] \<and> length (au_name a) \<le> 255
     \<and> (au_kind a = AuthorityKindIntermediate \<longrightarrow> au_managementParentID a \<noteq> [])
     \<and> (au_kind a = AuthorityKindRoot \<longrightarrow> au_managementParentID a = [])
     \<and> (\<forall>s. au_issuanceState a \<noteq> IssuanceStateOther s) \<and> canonical_uuid (au_keyGenerationID a)"

definition authority_of_facts :: "AuthorityFacts \<Rightarrow> Authority" where
  "authority_of_facts facts =
     \<lparr>au_id = auf_ID facts, au_kind = auf_Kind facts, au_name = auf_Name facts,
      au_managementParentID = auf_ManagementParentID facts,
      au_issuanceState = auf_IssuanceState facts,
      au_issuanceCertificateID = auf_IssuanceCertificateID facts,
      au_keyGenerationID = auf_KeyGenerationID facts,
      au_keyAvailable = auf_KeyAvailable facts, au_affected = auf_Affected facts,
      au_pendingTakeover = auf_PendingTakeover facts,
      au_certificateWindow = auf_CertificateWindow facts,
      au_archivedAt = auf_ArchivedAt facts, au_version = auf_Version facts\<rparr>"

lemma Kind_Validate_None [success_iff]:
  "AuthorityKind_Validate k = None \<longleftrightarrow> (\<forall>s. k \<noteq> AuthorityKindOther s)"
  by (cases k) simp_all

lemma IssuanceState_Validate_None [success_iff]:
  "IssuanceState_Validate k = None \<longleftrightarrow> (\<forall>s. k \<noteq> IssuanceStateOther s)"
  by (cases k) simp_all

lemma NewAuthority_Inr [success_iff]:
  "NewAuthority f = Inr a \<longleftrightarrow> authority_ok (authority_of_facts f) \<and> a = authority_of_facts f"
  by (auto simp: NewAuthority_def authority_ok_def authority_of_facts_def maxAuthorityNameLength_def
      success_iff not_less)

lemma authority_step_ok: "authority_ok a \<Longrightarrow> authority_step a x = Inr a' \<Longrightarrow> authority_ok a'"
  by (cases x) (auto simp: authority_op_defs authority_ok_def maxAuthorityNameLength_def success_iff)

lemma hasValidCertificateWindowAt_iff:
  "hasValidCertificateWindowAt a now \<longleftrightarrow> au_certificateWindow a \<noteq> zero_window
     \<and> notBefore (au_certificateWindow a) \<le> now \<and> now < notAfter (au_certificateWindow a)"
  by (auto simp: hasValidCertificateWindowAt_def Window_IsZero_iff ContainsAt_iff)

lemma CanSignCRL_None [success_iff]:
  "CanSignCRL a now = None \<longleftrightarrow>
     \<not> Authority_IsArchived a \<and> au_keyAvailable a \<and> hasValidCertificateWindowAt a now"
  by (simp add: CanSignCRL_def)

lemma CanIssue_None [success_iff]:
  "CanIssue a ctx now = None \<longleftrightarrow>
     \<not> Authority_IsArchived a \<and> requiredIssuerKind (ic_Intent ctx) = Inr (au_kind a)
     \<and> au_issuanceState a = IssuanceStateEnabled \<and> au_keyAvailable a \<and> \<not> au_affected a
     \<and> (au_pendingTakeover a \<longrightarrow> ic_TakeoverConfirmed ctx) \<and> hasValidCertificateWindowAt a now
     \<and> (ic_RequestedWindow ctx \<noteq> zero_window \<longrightarrow>
          Covers (au_certificateWindow a) (ic_RequestedWindow ctx))"
  by (cases "requiredIssuerKind (ic_Intent ctx)")
    (auto simp: CanIssue_def Window_IsZero_iff hasValidCertificateWindowAt_iff)

text \<open>Whoever may issue may also sign the CRL that would revoke what it issued.\<close>

lemma CanIssue_CanSignCRL: "CanIssue a ctx now = None \<Longrightarrow> CanSignCRL a now = None"
  by (simp add: success_iff)

subsection \<open>Properties\<close>

text \<open>Stopping issuance for a CA replacement never stops revocation: in every reachable
  situation the CRL-signing gate answers the same before and after \<open>StopIssuance\<close>, while the
  issuing gate refuses every request from then on until the authority is enabled again.\<close>

theorem stop_issuance_keeps_crl_signing:
  assumes "StopIssuance a = Inr a'"
  shows "CanSignCRL a' now = CanSignCRL a now \<and> CanIssue a' ctx later \<noteq> None
     \<and> authority_step a' OpStopIssuance \<noteq> Inr b"
proof -
  from assms have a': "a' = a\<lparr>au_issuanceState := IssuanceStateStopped,
      au_version := Version_Next (au_version a)\<rparr>"
    by (auto simp: StopIssuance_def success_iff)
  then have "CanSignCRL a' now = CanSignCRL a now"
    by (simp add: CanSignCRL_def Authority_IsArchived_def hasValidCertificateWindowAt_def)
  moreover have "CanIssue a' ctx later \<noteq> None" by (simp add: a' success_iff)
  moreover have "authority_step a' OpStopIssuance \<noteq> Inr b" by (simp add: a' StopIssuance_def)
  ultimately show ?thesis by simp
qed

definition sample_window :: ValidityWindow where
  "sample_window = \<lparr>notBefore = Instant 10, notAfter = Instant 1000\<rparr>"

definition sample_authority :: Authority where
  "sample_authority =
     \<lparr>au_id = sample_uuid (CHR ''a''), au_kind = AuthorityKindIntermediate, au_name = ''ca'',
      au_managementParentID = sample_uuid (CHR ''b''), au_issuanceState = IssuanceStateEnabled,
      au_issuanceCertificateID = sample_uuid (CHR ''c''), au_keyGenerationID = sample_uuid (CHR ''d''),
      au_keyAvailable = True, au_affected = False, au_pendingTakeover = False,
      au_certificateWindow = sample_window, au_archivedAt = zero_instant, au_version = 1\<rparr>"

lemma sample_authority_not_archived [simp]: "\<not> Authority_IsArchived sample_authority"
  by (simp add: Authority_IsArchived_def sample_authority_def Instant_IsZero_iff)

theorem stop_issuance_keeps_crl_signing_witness:
  "\<exists>a'. StopIssuance sample_authority = Inr a' \<and> CanSignCRL a' (Instant 20) = None
     \<and> CanIssue a' \<lparr>ic_RequestedWindow = zero_window, ic_TakeoverConfirmed = True,
          ic_Intent = IssuanceIntentLeaf\<rparr> (Instant 20) \<noteq> None"
proof -
  obtain a' where a': "StopIssuance sample_authority = Inr a'"
    by (simp add: StopIssuance_def sample_authority_def Authority_IsArchived_def Instant_IsZero_iff)
  have "CanSignCRL sample_authority (Instant 20) = None"
    by (simp add: success_iff hasValidCertificateWindowAt_iff sample_window_def zero_window_def
        zero_instant_def less_eq_Instant_def less_Instant_def)
      (simp add: sample_authority_def sample_window_def less_eq_Instant_def less_Instant_def)
  with stop_issuance_keeps_crl_signing [OF a'] a' show ?thesis by auto
qed

text \<open>Archival is final: whatever transitions are attempted afterwards, in any order, an
  archived authority never issues a certificate and never signs a CRL again.\<close>

theorem archived_authority_never_signs:
  assumes "Authority_IsArchived a"
  shows "CanIssue (run_keep authority_step a xs) ctx now \<noteq> None
     \<and> CanSignCRL (run_keep authority_step a xs) now \<noteq> None"
proof -
  have "Authority_IsArchived (run_keep authority_step a xs)"
    by (rule run_keep_invariant [of Authority_IsArchived authority_step a xs])
      (use assms authority_step_archived in auto)
  then show ?thesis by (auto simp: success_iff)
qed

theorem archived_authority_never_signs_witness:
  "CanSignCRL (run_keep authority_step (sample_authority\<lparr>au_archivedAt := Instant 5\<rparr>)
      [OpEnable, OpAttachSigningKey]) (Instant 20) \<noteq> None"
  by (rule archived_authority_never_signs [THEN conjunct2])
    (simp add: Authority_IsArchived_def Instant_IsZero_iff zero_instant_def)

text \<open>C23. A compromise flag cannot be worked around: no sequence of management transitions clears
  it, changes the key generation or the CA period, or moves the unit under another parent, so an
  affected authority stays unable to issue on every path.\<close>

theorem affected_authority_never_issues:
  assumes "au_affected a"
  shows "CanIssue (run_keep authority_step a xs) ctx now \<noteq> None
     \<and> authority_identity (run_keep authority_step a xs) = authority_identity a"
proof -
  have id: "authority_identity (run_keep authority_step a xs) = authority_identity a"
    by (rule am.run_ident)
  with assms have "au_affected (run_keep authority_step a xs)"
    by (simp add: authority_identity_def)
  with id show ?thesis by (simp add: success_iff)
qed

theorem affected_authority_never_issues_witness:
  "CanIssue (run_keep authority_step (sample_authority\<lparr>au_affected := True\<rparr>)
      [OpStopIssuance, OpEnable, OpConfirmTakeover])
      \<lparr>ic_RequestedWindow = zero_window, ic_TakeoverConfirmed = True, ic_Intent = IssuanceIntentLeaf\<rparr>
      (Instant 20) \<noteq> None"
  by (rule affected_authority_never_issues [THEN conjunct1]) simp

end
