(* ===== verification/Calendar.thy ===== *)
theory Calendar
  imports Instants
begin

text \<open>
  What \<open>internal/domain/series.go\<close> uses of Go's \<open>time\<close> package: the proleptic Gregorian
  calendar in UTC. \<open>civil\<close> is \<open>Time.Date\<close> (year, month, day of a day number), \<open>day_number\<close> its
  inverse, \<open>go_Date\<close> is \<open>time.Date\<close> with its normalisation of months outside 1..12 and of days
  outside the month. A time of day is kept as one number of nanoseconds (hour, minute, second
  and nanosecond are only ever read and written back together). Years are unbounded integers:
  inside the range where \<open>UnixMicro\<close> is defined the package computes the same values.
\<close>

subsection \<open>Years\<close>

definition is_leap :: "int \<Rightarrow> bool" where
  "is_leap y \<longleftrightarrow> y mod 4 = 0 \<and> (y mod 100 \<noteq> 0 \<or> y mod 400 = 0)"

definition year_length :: "int \<Rightarrow> int" where
  "year_length y = (if is_leap y then 366 else 365)"

text \<open>Days from 0001-01-01 to the first day of the year.\<close>

definition days_before_year :: "int \<Rightarrow> int" where
  "days_before_year y = 365 * (y - 1) + (y - 1) div 4 - (y - 1) div 100 + (y - 1) div 400"

definition year_of_day :: "int \<Rightarrow> int \<times> int" where
  "year_of_day n =
     (let a = n div 146097; r = n mod 146097;
          b = min (r div 36524) 3; r1 = r - 36524 * b;
          c = r1 div 1461; r2 = r1 - 1461 * c;
          e = min (r2 div 365) 3
      in (400 * a + 100 * b + 4 * c + e + 1, r2 - 365 * e))"

lemma days_before_year_cycles:
  assumes "0 \<le> b" "b \<le> 3" "0 \<le> c" "c \<le> 24" "0 \<le> e" "e \<le> 3"
  shows "days_before_year (400 * a + 100 * b + 4 * c + e + 1)
           = 146097 * a + 36524 * b + 1461 * c + 365 * e"
proof -
  let ?p = "400 * a + 100 * b + 4 * c + e"
  have p4: "?p div 4 = 100 * a + 25 * b + c" using assms by linarith
  have p100: "?p div 100 = 4 * a + b" using assms by linarith
  have p400: "?p div 400 = a" using assms by linarith
  show ?thesis by (simp add: days_before_year_def p4 p100 p400)
qed

lemma is_leap_cycles:
  assumes "0 \<le> b" "b \<le> 3" "0 \<le> c" "c \<le> 24" "0 \<le> e" "e \<le> 3"
  shows "is_leap (400 * a + 100 * b + 4 * c + e + 1) \<longleftrightarrow> e = 3 \<and> (c \<noteq> 24 \<or> b = 3)"
proof -
  let ?y = "400 * a + 100 * b + 4 * c + e + 1"
  have y4: "?y mod 4 = 0 \<longleftrightarrow> e = 3"
  proof -
    have "?y = (e + 1) + (100 * a + 25 * b + c) * 4" by simp
    then have "?y mod 4 = (e + 1) mod 4" by (metis mod_mult_self1)
    then show ?thesis using assms by (cases "e = 3") auto
  qed
  have y100: "?y mod 100 = 0 \<longleftrightarrow> c = 24" if "e = 3"
  proof -
    have "?y = 4 * (c + 1) + (4 * a + b) * 100" using that by simp
    then have "?y mod 100 = (4 * (c + 1)) mod 100" by (metis mod_mult_self1)
    then show ?thesis using assms by (cases "c = 24") auto
  qed
  have y400: "?y mod 400 = 0 \<longleftrightarrow> b = 3" if "e = 3" "c = 24"
  proof -
    have "?y = 100 * (b + 1) + a * 400" using that by simp
    then have "?y mod 400 = (100 * (b + 1)) mod 400" by (metis mod_mult_self1)
    then show ?thesis using assms by (cases "b = 3") auto
  qed
  show ?thesis using y4 y100 y400 by (auto simp: is_leap_def)
qed

text \<open>A quotient capped at 3, as the day count of a short cycle needs it.\<close>

lemma capped_quotient:
  fixes r q :: int
  assumes "0 \<le> r" "0 < q"
  shows "0 \<le> min (r div q) 3" and "0 \<le> r - q * min (r div q) 3"
    and "min (r div q) 3 < 3 \<Longrightarrow> r - q * min (r div q) 3 < q"
proof -
  show "0 \<le> min (r div q) 3" using assms by (simp add: pos_imp_zdiv_nonneg_iff)
  have "q * min (r div q) 3 \<le> q * (r div q)" using assms(2) by (intro mult_left_mono) auto
  moreover have "q * (r div q) + r mod q = r" by simp
  moreover have "0 \<le> r mod q" "r mod q < q" using assms(2) by simp_all
  ultimately show "0 \<le> r - q * min (r div q) 3"
    and "min (r div q) 3 < 3 \<Longrightarrow> r - q * min (r div q) 3 < q"
    by (linarith, simp add: min_def minus_mult_div_eq_mod split: if_splits)
qed

lemma year_of_day_correct:
  assumes "year_of_day n = (y, k)"
  shows "days_before_year y + k = n" and "0 \<le> k" and "k < year_length y"
proof -
  define a r where "a = n div 146097" and "r = n mod 146097"
  define b r1 where "b = min (r div 36524) 3" and "r1 = r - 36524 * b"
  define c r2 where "c = r1 div 1461" and "r2 = r1 - 1461 * c"
  define e where "e = min (r2 div 365) 3"
  have "year_of_day n = (400 * a + 100 * b + 4 * c + e + 1, r2 - 365 * e)"
    by (simp only: year_of_day_def Let_def a_def r_def b_def r1_def c_def r2_def e_def)
  with assms have y: "y = 400 * a + 100 * b + 4 * c + e + 1" and k: "k = r2 - 365 * e"
    by simp_all
  have n: "n = 146097 * a + r" and r: "0 \<le> r" "r < 146097" by (simp_all add: a_def r_def)
  have b: "0 \<le> b" "b \<le> 3" and r1: "0 \<le> r1" "b < 3 \<Longrightarrow> r1 < 36524"
    using capped_quotient [OF r(1), of 36524] by (simp_all add: b_def r1_def)
  have r1': "r1 < 36525" using r1(2) r(2) b(2) by (cases "b = 3") (simp_all add: r1_def)
  have c: "0 \<le> c" using r1(1) by (simp add: c_def)
  have r2_mod: "r2 = r1 mod 1461" by (simp add: r2_def c_def minus_mult_div_eq_mod)
  then have r2: "0 \<le> r2" "r2 < 1461" by simp_all
  have "1461 * c \<le> r1" using r2(1) by (simp add: r2_def)
  then have c24: "c \<le> 24" using r1' by simp
  have r2': "c = 24 \<Longrightarrow> b < 3 \<Longrightarrow> r2 < 1460" using r1(2) by (simp add: r2_def)
  have e: "0 \<le> e" "e \<le> 3" and k_bounds: "0 \<le> k" "e < 3 \<Longrightarrow> k < 365"
    using capped_quotient [OF r2(1), of 365] by (simp_all add: e_def k)
  show "days_before_year y + k = n"
    using days_before_year_cycles [OF b c c24 e, of a] by (simp add: y k n r1_def r2_def)
  show "0 \<le> k" by (rule k_bounds(1))
  have "e = 3 \<Longrightarrow> k < 366" using r2(2) by (simp add: k)
  moreover have "e = 3 \<Longrightarrow> c = 24 \<Longrightarrow> b < 3 \<Longrightarrow> k < 365" using r2' by (simp add: k)
  ultimately show "k < year_length y"
    using is_leap_cycles [OF b c c24 e, of a] b e k_bounds(2)
    by (cases "e = 3") (auto simp: year_length_def y)
qed

lemma days_before_year_Suc: "days_before_year (y + 1) = days_before_year y + year_length y"
proof -
  define a p where "a = (y - 1) div 400" and "p = (y - 1) mod 400"
  define b q where "b = p div 100" and "q = p mod 100"
  define c e where "c = q div 4" and "e = q mod 4"
  have p: "0 \<le> p" "p < 400" by (simp_all add: p_def)
  have b: "0 \<le> b" "b \<le> 3" and q: "0 \<le> q" "q < 100"
    using p unfolding b_def q_def by linarith+
  have c: "0 \<le> c" "c \<le> 24" and e: "0 \<le> e" "e \<le> 3"
    using q unfolding c_def e_def by linarith+
  have y: "y = 400 * a + 100 * b + 4 * c + e + 1"
    unfolding a_def p_def b_def q_def c_def e_def by (simp add: algebra_simps)
  note leap = is_leap_cycles [OF b c e, of a] and dby = days_before_year_cycles [OF b c e, of a]
  consider "e < 3" | "e = 3" "c < 24" | "e = 3" "c = 24" "b < 3" | "e = 3" "c = 24" "b = 3"
    using b c e by linarith
  then show ?thesis
  proof cases
    case 1
    then show ?thesis using days_before_year_cycles [OF b c, of "e + 1" a] leap dby e
      by (simp add: y year_length_def ac_simps)
  next
    case 2
    then show ?thesis using days_before_year_cycles [OF b, of "c + 1" 0 a] leap dby c
      by (simp add: y year_length_def ac_simps)
  next
    case 3
    then show ?thesis using days_before_year_cycles [of "b + 1" 0 0 a] leap dby b
      by (simp add: y year_length_def ac_simps)
  next
    case 4
    then show ?thesis using days_before_year_cycles [of 0 0 0 "a + 1"] leap dby
      by (simp add: y year_length_def ac_simps)
  qed
qed

lemma year_length_bounds: "365 \<le> year_length y" "year_length y \<le> 366"
  by (simp_all add: year_length_def)

lemma days_before_year_mono: "y < z \<Longrightarrow> days_before_year y + year_length y \<le> days_before_year z"
proof (induction z rule: int_gr_induct [of y])
  case base
  then show ?case by (simp add: days_before_year_Suc)
next
  case (step i)
  then show ?case
    using days_before_year_Suc [of i] year_length_bounds(1) [of i] by simp
qed

text \<open>A day belongs to one year only.\<close>

lemma year_unique:
  assumes "days_before_year y + k = days_before_year z + l"
    and "0 \<le> k" "k < year_length y" "0 \<le> l" "l < year_length z"
  shows "y = z \<and> k = l"
proof -
  have "\<not> y < z" and "\<not> z < y"
    using days_before_year_mono [of y z] days_before_year_mono [of z y] assms by linarith+
  with assms(1) show ?thesis by auto
qed

lemma year_of_day_eq:
  assumes "0 \<le> k" and "k < year_length y"
  shows "year_of_day (days_before_year y + k) = (y, k)"
proof (cases "year_of_day (days_before_year y + k)")
  case (Pair z l)
  note zl = year_of_day_correct [OF Pair]
  from year_unique [OF zl(1) zl(2,3) assms] Pair show ?thesis by simp
qed

subsection \<open>Months\<close>

definition days_in_month :: "int \<Rightarrow> int \<Rightarrow> int" where
  "days_in_month y m =
     (if m = 2 then (if is_leap y then 29 else 28)
      else if m = 4 \<or> m = 6 \<or> m = 9 \<or> m = 11 then 30 else 31)"

definition days_before_month :: "int \<Rightarrow> int \<Rightarrow> int" where
  "days_before_month y m = sum_list (map (\<lambda>i. days_in_month y (int i)) [1..<nat m])"

definition day_number :: "int \<Rightarrow> int \<Rightarrow> int \<Rightarrow> int" where
  "day_number y m d = days_before_year y + days_before_month y m + (d - 1)"

text \<open>Walk through the months of the year, \<open>fuel\<close> of them, to the one that holds day \<open>k\<close>.\<close>

fun month_of_day :: "nat \<Rightarrow> int \<Rightarrow> int \<Rightarrow> int \<Rightarrow> int \<times> int" where
  "month_of_day 0 y m k = (m, k + 1)"
| "month_of_day (Suc fuel) y m k =
     (if k < days_in_month y m then (m, k + 1)
      else month_of_day fuel y (m + 1) (k - days_in_month y m))"

definition civil :: "int \<Rightarrow> int \<times> int \<times> int" where
  "civil n = (case year_of_day n of (y, k) \<Rightarrow> (case month_of_day 11 y 1 k of (m, d) \<Rightarrow> (y, m, d)))"

definition valid_date :: "int \<Rightarrow> int \<Rightarrow> int \<Rightarrow> bool" where
  "valid_date y m d \<longleftrightarrow> 1 \<le> m \<and> m \<le> 12 \<and> 1 \<le> d \<and> d \<le> days_in_month y m"

lemma days_in_month_bounds: "28 \<le> days_in_month y m" "days_in_month y m \<le> 31"
  by (simp_all add: days_in_month_def)

lemma days_before_month_1 [simp]: "days_before_month y 1 = 0"
  by (simp add: days_before_month_def)

lemma days_before_month_Suc:
  "1 \<le> m \<Longrightarrow> days_before_month y (m + 1) = days_before_month y m + days_in_month y m"
proof -
  assume m: "1 \<le> m"
  then have "nat (m + 1) = Suc (nat m)" and "1 \<le> nat m" by simp_all
  then have "[1..<nat (m + 1)] = [1..<nat m] @ [nat m]" by simp
  then show ?thesis using m by (simp add: days_before_month_def)
qed

lemma days_before_month_13: "days_before_month y 13 = year_length y"
proof -
  have "[1..<nat 13] = [1, 2, 3, 4, 5, 6, 7, 8, 9, 10, 11, 12]" by code_simp
  then show ?thesis by (simp add: days_before_month_def days_in_month_def year_length_def)
qed

lemma days_before_month_mono:
  assumes "1 \<le> m" and "m < m'"
  shows "days_before_month y m + days_in_month y m \<le> days_before_month y m'"
  using assms(2)
proof (induction m' rule: int_gr_induct [of m])
  case base
  then show ?case using assms(1) by (simp add: days_before_month_Suc)
next
  case (step i)
  then show ?case
    using assms(1) days_before_month_Suc [of i y] days_in_month_bounds(1) [of y i] by simp
qed

lemma month_of_day_correct:
  assumes "1 \<le> m" "0 \<le> k" "m + int fuel = 12" "days_before_month y m + k < year_length y"
    and "month_of_day fuel y m k = (m', d)"
  shows "valid_date y m' d \<and> days_before_month y m' + (d - 1) = days_before_month y m + k"
  using assms
proof (induction fuel arbitrary: m k)
  case 0
  then have "m = 12" by simp
  with 0 days_before_month_Suc [of 12 y] days_before_month_13 [of y] show ?case
    by (auto simp: valid_date_def)
next
  case (Suc fuel)
  show ?case
  proof (cases "k < days_in_month y m")
    case True
    with Suc.prems show ?thesis by (auto simp: valid_date_def)
  next
    case False
    with Suc.prems have "month_of_day fuel y (m + 1) (k - days_in_month y m) = (m', d)" by simp
    moreover have "days_before_month y (m + 1) + (k - days_in_month y m) = days_before_month y m + k"
      using Suc.prems(1) by (simp add: days_before_month_Suc)
    ultimately show ?thesis using Suc.IH [of "m + 1" "k - days_in_month y m"] Suc.prems False by auto
  qed
qed

lemma civil_correct:
  assumes "civil n = (y, m, d)"
  shows "valid_date y m d" and "day_number y m d = n"
proof -
  obtain k where yk: "year_of_day n = (y, k)" and md: "month_of_day 11 y 1 k = (m, d)"
    using assms by (auto simp: civil_def split: prod.splits)
  note y = year_of_day_correct [OF yk]
  have "valid_date y m d \<and> days_before_month y m + (d - 1) = days_before_month y 1 + k"
    by (rule month_of_day_correct [OF _ y(2) _ _ md]) (use y(3) in simp_all)
  then show "valid_date y m d" and "day_number y m d = n"
    using y(1) by (simp_all add: day_number_def)
qed

text \<open>\<open>Date\<close> then \<open>time.Date\<close>, and back: the calendar is a bijection on valid dates.\<close>

lemma day_number_year_part:
  assumes "valid_date y m d"
  shows "0 \<le> days_before_month y m + (d - 1)"
    and "days_before_month y m + (d - 1) < year_length y"
proof -
  from assms have m: "1 \<le> m" "m \<le> 12" and d: "1 \<le> d" "d \<le> days_in_month y m"
    by (simp_all add: valid_date_def)
  have "0 \<le> days_before_month y m"
    using days_before_month_mono [of 1 m y] days_in_month_bounds(1) [of y 1] m
    by (cases "m = 1") simp_all
  with d show "0 \<le> days_before_month y m + (d - 1)" by simp
  show "days_before_month y m + (d - 1) < year_length y"
    using days_before_month_mono [of m 13 y] days_before_month_13 [of y] m d by simp
qed

lemma civil_day_number:
  assumes "valid_date y m d"
  shows "civil (day_number y m d) = (y, m, d)"
proof -
  obtain y' m' d' where c: "civil (day_number y m d) = (y', m', d')"
    using prod_cases3 by blast
  note v = civil_correct [OF c]
  have "days_before_year y' + (days_before_month y' m' + (d' - 1))
          = days_before_year y + (days_before_month y m + (d - 1))"
    using v(2) by (simp add: day_number_def)
  from year_unique [OF this day_number_year_part [OF v(1)] day_number_year_part [OF assms]]
  have y: "y' = y" and eq: "days_before_month y m' + (d' - 1) = days_before_month y m + (d - 1)"
    by auto
  have "\<not> m' < m" and "\<not> m < m'"
    using days_before_month_mono [of m' m y] days_before_month_mono [of m m' y] v(1) assms eq y
    by (auto simp: valid_date_def)
  then have "m' = m" by simp
  with y eq c show ?thesis by simp
qed

lemma day_number_strict_mono:
  assumes "valid_date y m d" "valid_date y' m' d'" "12 * y + m < 12 * y' + m'"
  shows "day_number y m d < day_number y' m' d'"
proof (cases "y < y'")
  case True
  then show ?thesis
    using days_before_year_mono [of y y'] day_number_year_part [OF assms(1)]
      day_number_year_part [OF assms(2)] by (simp add: day_number_def)
next
  case False
  with assms have "y = y'" and "m < m'" by (auto simp: valid_date_def)
  then show ?thesis
    using days_before_month_mono [of m m' y] assms by (auto simp: day_number_def valid_date_def)
qed

subsection \<open>\<open>time.Time\<close> in UTC\<close>

definition ns_per_day :: int where "ns_per_day = 86400000000000"

text \<open>1970-01-01 as a day number.\<close>

definition epoch_day :: int where "epoch_day = 719162"

definition Time_Date :: "gotime \<Rightarrow> int \<times> int \<times> int" where
  "Time_Date t = civil (t div ns_per_day + epoch_day)"

definition Time_Clock :: "gotime \<Rightarrow> int" where
  "Time_Clock t = t mod ns_per_day"

definition go_Date :: "int \<Rightarrow> int \<Rightarrow> int \<Rightarrow> int \<Rightarrow> gotime" where
  "go_Date y m d clock =
     (day_number (y + (m - 1) div 12) ((m - 1) mod 12 + 1) 1 + (d - 1) - epoch_day) * ns_per_day + clock"

definition AddDate_days :: "gotime \<Rightarrow> int \<Rightarrow> gotime" where
  "AddDate_days t days = (case Time_Date t of (y, m, d) \<Rightarrow> go_Date y m (d + days) (Time_Clock t))"

lemma Time_Clock_range [simp]: "0 \<le> Time_Clock t" "Time_Clock t < ns_per_day"
  by (simp_all add: Time_Clock_def ns_per_day_def)

lemma go_Date_in_range:
  "1 \<le> m \<Longrightarrow> m \<le> 12 \<Longrightarrow> go_Date y m d clock = (day_number y m d - epoch_day) * ns_per_day + clock"
  by (simp add: go_Date_def day_number_def)

lemma Time_Date_Clock_split: "t = (t div ns_per_day) * ns_per_day + Time_Clock t"
  by (simp add: Time_Clock_def)

lemma Time_Date_valid:
  assumes "Time_Date t = (y, m, d)"
  shows "valid_date y m d" and "t = (day_number y m d - epoch_day) * ns_per_day + Time_Clock t"
proof -
  from civil_correct [OF assms [unfolded Time_Date_def]]
  show "valid_date y m d" and "t = (day_number y m d - epoch_day) * ns_per_day + Time_Clock t"
    using Time_Date_Clock_split [of t] by auto
qed

lemma days_and_clock:
  assumes "0 \<le> c" "c < ns_per_day"
  shows "(n * ns_per_day + c) div ns_per_day = n" and "Time_Clock (n * ns_per_day + c) = c"
  using assms by (simp_all add: Time_Clock_def ns_per_day_def)

text \<open>Reading back what \<open>time.Date\<close> built from a valid date.\<close>

lemma Time_Date_go_Date:
  assumes "valid_date y m d" and "0 \<le> c" "c < ns_per_day"
  shows "Time_Date (go_Date y m d c) = (y, m, d)" and "Time_Clock (go_Date y m d c) = c"
proof -
  have "go_Date y m d c = (day_number y m d - epoch_day) * ns_per_day + c"
    using assms(1) by (intro go_Date_in_range) (simp_all add: valid_date_def)
  then show "Time_Date (go_Date y m d c) = (y, m, d)" and "Time_Clock (go_Date y m d c) = c"
    using days_and_clock [OF assms(2,3)] civil_day_number [OF assms(1)] by (simp_all add: Time_Date_def)
qed

lemma AddDate_days_eq: "AddDate_days t k = t + k * ns_per_day"
proof -
  obtain y m d where ymd: "Time_Date t = (y, m, d)" using prod_cases3 by blast
  note v = Time_Date_valid [OF ymd]
  have "AddDate_days t k = (day_number y m (d + k) - epoch_day) * ns_per_day + Time_Clock t"
    using v(1) by (simp add: AddDate_days_def ymd go_Date_in_range valid_date_def)
  also have "\<dots> = t + k * ns_per_day"
    using v(2) by (simp add: day_number_def algebra_simps)
  finally show ?thesis .
qed

end
