(* ===== verification/Series.thy ===== *)
theory Series
  imports Calendar Authority
begin

text \<open>
  \<open>internal/domain/series.go\<close>: the leaf series (a logical certificate that is renewed for
  years), its calendar validity policy, its key generations, and \<open>PlanRenewal\<close>, which decides
  whether the next renewal reuses the key or rotates it. Go's \<open>int\<close> is 64 bits wide; the source's
  own additions and multiplications are wrapped.
\<close>

subsection \<open>Purpose and calendar validity\<close>

datatype SeriesPurpose =
    SeriesPurposeDistributed
  | SeriesPurposeInternalTLS
  | SeriesPurposeBootstrapTLS
  | SeriesPurposeOther string

fun SeriesPurpose_Validate :: "SeriesPurpose \<Rightarrow> domain_error option" where
  "SeriesPurpose_Validate (SeriesPurposeOther _) =
     Some (Wrapped ErrInvalidValue ''unsupported series purpose'')"
| "SeriesPurpose_Validate _ = None"

definition minRotateEvery :: int where "minRotateEvery = 1"
definition maxRotateEvery :: int where "maxRotateEvery = 100"

datatype ValidityUnit =
    ValidityUnitYears
  | ValidityUnitMonths
  | ValidityUnitDays
  | ValidityUnitOther string

fun ValidityUnit_Validate :: "ValidityUnit \<Rightarrow> domain_error option" where
  "ValidityUnit_Validate (ValidityUnitOther _) =
     Some (Wrapped ErrInvalidValue ''unsupported validity unit'')"
| "ValidityUnit_Validate _ = None"

record CalendarValidity =
  cv_value :: int64
  cv_unit :: ValidityUnit

definition NewCalendarValidity :: "int64 \<Rightarrow> ValidityUnit \<Rightarrow> domain_error + CalendarValidity" where
  "NewCalendarValidity val u =
     check_then (ValidityUnit_Validate u)
      (if val \<le> 0 then Inl (Wrapped ErrInvalidValue ''validity value must be positive'')
       else Inr \<lparr>cv_value = val, cv_unit = u\<rparr>)"

definition CalendarValidity_IsZero :: "CalendarValidity \<Rightarrow> bool" where
  "CalendarValidity_IsZero v \<longleftrightarrow> cv_value v = 0"

definition CalendarValidity_IsPositive :: "CalendarValidity \<Rightarrow> bool" where
  "CalendarValidity_IsPositive v \<longleftrightarrow> cv_value v > 0"

text \<open>Day 0 of the following month is the last day of this one.\<close>

definition lastDayOfMonth :: "int \<Rightarrow> int \<Rightarrow> int" where
  "lastDayOfMonth year month = (case Time_Date (go_Date year (month + 1) 0 0) of (_, _, d) \<Rightarrow> d)"

definition addCalendarMonths :: "gotime \<Rightarrow> int64 \<Rightarrow> gotime" where
  "addCalendarMonths t months =
     (case Time_Date t of (y, m, d) \<Rightarrow>
       let totalMonths = wrap64 ((m - 1) + months);
           ny0 = wrap64 (y + go_div totalMonths 12);
           nm0 = go_mod totalMonths 12;
           (nm, ny) = (if nm0 < 0 then (nm0 + 12, wrap64 (ny0 - 1)) else (nm0, ny0));
           targetMonth = nm + 1;
           last = lastDayOfMonth ny targetMonth;
           d' = (if d > last then last else d)
       in go_Date ny targetMonth d' (Time_Clock t))"

definition Window :: "CalendarValidity \<Rightarrow> Instant \<Rightarrow> domain_error + ValidityWindow" where
  "Window v nb =
     (let base = Instant_Time nb in
      case cv_unit v of
        ValidityUnitYears \<Rightarrow>
          NewValidityWindow nb (NewInstant (addCalendarMonths base (wrap64 (cv_value v * 12))))
      | ValidityUnitMonths \<Rightarrow>
          NewValidityWindow nb (NewInstant (addCalendarMonths base (cv_value v)))
      | ValidityUnitDays \<Rightarrow>
          NewValidityWindow nb (NewInstant (AddDate_days base (cv_value v)))
      | ValidityUnitOther _ \<Rightarrow> Inl (Wrapped ErrInvalidValue ''unsupported validity unit''))"

subsection \<open>Policy, series and key generations\<close>

record SeriesPolicy =
  sp_RotateEvery :: int64
  sp_CertificateValidity :: CalendarValidity

definition SeriesPolicy_Validate :: "SeriesPolicy \<Rightarrow> domain_error option" where
  "SeriesPolicy_Validate p =
     (if sp_RotateEvery p < minRotateEvery \<or> sp_RotateEvery p > maxRotateEvery
        then Some (Wrapped ErrInvalidValue ''rotate_every must be 1..100'')
      else if \<not> CalendarValidity_IsPositive (sp_CertificateValidity p)
        then Some (Wrapped ErrInvalidValue ''series certificate validity must be positive'')
      else None)"

definition PlanWindow :: "SeriesPolicy \<Rightarrow> Instant \<Rightarrow> domain_error + ValidityWindow" where
  "PlanWindow p nb = Window (sp_CertificateValidity p) nb"

record LeafSeries =
  ls_id :: SeriesID
  ls_name :: string
  ls_purpose :: SeriesPurpose
  ls_managementAuthorityID :: AuthorityID
  ls_currentCertificateID :: CertificateID
  ls_currentKeyGenerationID :: LeafKeyGenerationID
  ls_policy :: SeriesPolicy
  ls_version :: Version
  ls_archivedAt :: Instant

record LeafSeriesFacts =
  lsf_ID :: SeriesID
  lsf_Name :: string
  lsf_Purpose :: SeriesPurpose
  lsf_ManagementAuthorityID :: AuthorityID
  lsf_CurrentCertificateID :: CertificateID
  lsf_CurrentKeyGenerationID :: LeafKeyGenerationID
  lsf_Policy :: SeriesPolicy
  lsf_Version :: Version
  lsf_ArchivedAt :: Instant

definition maxSeriesNameLength :: nat where "maxSeriesNameLength = 255"

definition NewLeafSeries :: "LeafSeriesFacts \<Rightarrow> domain_error + LeafSeries" where
  "NewLeafSeries facts =
     check_then (err_of (ParseSeriesID (lsf_ID facts)))
     (if lsf_Name facts = [] \<or> length (lsf_Name facts) > maxSeriesNameLength
        then Inl (Wrapped ErrInvalidValue ''series name must be 1..255 characters'')
      else check_then (SeriesPurpose_Validate (lsf_Purpose facts))
          (check_then (err_of (ParseAuthorityID (lsf_ManagementAuthorityID facts)))
          (check_then (SeriesPolicy_Validate (lsf_Policy facts))
           (Inr \<lparr>ls_id = lsf_ID facts, ls_name = lsf_Name facts, ls_purpose = lsf_Purpose facts,
              ls_managementAuthorityID = lsf_ManagementAuthorityID facts,
              ls_currentCertificateID = lsf_CurrentCertificateID facts,
              ls_currentKeyGenerationID = lsf_CurrentKeyGenerationID facts,
              ls_policy = lsf_Policy facts, ls_version = lsf_Version facts,
              ls_archivedAt = lsf_ArchivedAt facts\<rparr>))))"

definition LeafSeries_IsArchived :: "LeafSeries \<Rightarrow> bool" where
  "LeafSeries_IsArchived s \<longleftrightarrow> \<not> Instant_IsZero (ls_archivedAt s)"

definition ChangePolicy :: "LeafSeries \<Rightarrow> SeriesPolicy \<Rightarrow> domain_error + LeafSeries" where
  "ChangePolicy s pol =
     (if LeafSeries_IsArchived s then Inl (Wrapped ErrInvalidTransition ''series is archived'')
      else check_then (SeriesPolicy_Validate pol)
        (Inr (s\<lparr>ls_policy := pol, ls_version := Version_Next (ls_version s)\<rparr>)))"

datatype KeyCustody =
    KeyCustodyPendingDelivery
  | KeyCustodyClientHeld
  | KeyCustodyInternal
  | KeyCustodyOther string

fun KeyCustody_Validate :: "KeyCustody \<Rightarrow> domain_error option" where
  "KeyCustody_Validate (KeyCustodyOther _) =
     Some (Wrapped ErrInvalidValue ''unsupported key custody'')"
| "KeyCustody_Validate _ = None"

record LeafKeyGeneration =
  kg_id :: LeafKeyGenerationID
  kg_seriesID :: SeriesID
  kg_keyMaterialID :: KeyMaterialID
  kg_generationNo :: int64
  kg_renewalCount :: int64
  kg_priorHistoryUnknown :: bool
  kg_custody :: KeyCustody

record LeafKeyGenerationFacts =
  kgf_ID :: LeafKeyGenerationID
  kgf_SeriesID :: SeriesID
  kgf_KeyMaterialID :: KeyMaterialID
  kgf_GenerationNo :: int64
  kgf_RenewalCount :: int64
  kgf_PriorHistoryUnknown :: bool
  kgf_Custody :: KeyCustody

definition NewLeafKeyGeneration :: "LeafKeyGenerationFacts \<Rightarrow> domain_error + LeafKeyGeneration" where
  "NewLeafKeyGeneration facts =
     check_then (err_of (ParseLeafKeyGenerationID (kgf_ID facts)))
     (check_then (err_of (ParseSeriesID (kgf_SeriesID facts)))
     (check_then (err_of (ParseKeyMaterialID (kgf_KeyMaterialID facts)))
     (if kgf_GenerationNo facts < 1
        then Inl (Wrapped ErrInvalidValue ''leaf key generation_no must be positive'')
      else if kgf_RenewalCount facts < 0
        then Inl (Wrapped ErrInvalidValue ''leaf key renewal_count must not be negative'')
      else check_then (KeyCustody_Validate (kgf_Custody facts))
        (Inr \<lparr>kg_id = kgf_ID facts, kg_seriesID = kgf_SeriesID facts,
           kg_keyMaterialID = kgf_KeyMaterialID facts, kg_generationNo = kgf_GenerationNo facts,
           kg_renewalCount = kgf_RenewalCount facts,
           kg_priorHistoryUnknown = kgf_PriorHistoryUnknown facts,
           kg_custody = kgf_Custody facts\<rparr>))))"

subsection \<open>Renewal planning\<close>

datatype RenewalAction = RenewalActionReuseKey | RenewalActionRotateKey

record RenewalFacts =
  rf_CurrentGeneration :: LeafKeyGeneration
  rf_TargetIssuerID :: AuthorityID
  rf_TargetIssuerWindow :: ValidityWindow
  rf_RequestedWindow :: ValidityWindow
  rf_KeyReadyForRenewal :: bool
  rf_IsEmergencyReissue :: bool
  rf_NextKeyGenerationNo :: int64

text \<open>The zero values of the fields a branch leaves unset are the empty string and 0.\<close>

record RenewalPlan =
  rp_Action :: RenewalAction
  rp_NextRenewalCount :: int64
  rp_KeyGenerationID :: LeafKeyGenerationID
  rp_NextKeyGenerationNo :: int64
  rp_TargetIssuerID :: AuthorityID
  rp_Window :: ValidityWindow

definition PlanRenewal :: "LeafSeries \<Rightarrow> RenewalFacts \<Rightarrow> Instant \<Rightarrow> domain_error + RenewalPlan" where
  "PlanRenewal s facts now =
     (if LeafSeries_IsArchived s then Inl (Wrapped ErrInvalidTransition ''series is archived'')
      else if kg_seriesID (rf_CurrentGeneration facts) \<noteq> ls_id s
        then Inl (Wrapped ErrInvalidValue ''key generation does not belong to this series'')
      else if kg_id (rf_CurrentGeneration facts) \<noteq> ls_currentKeyGenerationID s
        then Inl (Wrapped ErrPolicyViolation ''key generation is not the series' current generation'')
      else check_then (err_of (ParseAuthorityID (rf_TargetIssuerID facts)))
       (if Window_IsZero (rf_RequestedWindow facts)
          then Inl (Wrapped ErrInvalidValue ''renewal requested window must be set'')
        else and_then (PlanWindow (ls_policy s) (notBefore (rf_RequestedWindow facts)))
         (\<lambda>policyWindow.
          if \<not> Instant_Equal (notAfter (rf_RequestedWindow facts)) (notAfter policyWindow)
            then Inl (Wrapped ErrPolicyViolation
              ''requested window does not match the series' calendar validity policy'')
          else if \<not> Window_IsZero (rf_TargetIssuerWindow facts)
                \<and> \<not> Covers (rf_TargetIssuerWindow facts) policyWindow
            then Inl (Wrapped ErrPolicyViolation ''requested validity exceeds issuer certificate period'')
          else if rf_IsEmergencyReissue facts then
            (if rf_NextKeyGenerationNo facts \<le> kg_generationNo (rf_CurrentGeneration facts)
               then Inl (Wrapped ErrInvalidValue ''emergency reissue requires a new key generation number'')
             else Inr \<lparr>rp_Action = RenewalActionRotateKey, rp_NextRenewalCount = 0,
                    rp_KeyGenerationID = [], rp_NextKeyGenerationNo = rf_NextKeyGenerationNo facts,
                    rp_TargetIssuerID = rf_TargetIssuerID facts, rp_Window = policyWindow\<rparr>)
          else if \<not> rf_KeyReadyForRenewal facts
            then Inl (Wrapped ErrNotPermitted ''current key is not eligible for a normal renewal'')
          else
            (let nextOrdinal = wrap64 (kg_renewalCount (rf_CurrentGeneration facts) + 1) in
             if nextOrdinal \<ge> sp_RotateEvery (ls_policy s) then
               (if rf_NextKeyGenerationNo facts \<le> kg_generationNo (rf_CurrentGeneration facts)
                  then Inl (Wrapped ErrInvalidValue ''rotation requires a new key generation number'')
                else Inr \<lparr>rp_Action = RenewalActionRotateKey, rp_NextRenewalCount = 0,
                       rp_KeyGenerationID = [], rp_NextKeyGenerationNo = rf_NextKeyGenerationNo facts,
                       rp_TargetIssuerID = rf_TargetIssuerID facts, rp_Window = policyWindow\<rparr>)
             else Inr \<lparr>rp_Action = RenewalActionReuseKey, rp_NextRenewalCount = nextOrdinal,
                    rp_KeyGenerationID = kg_id (rf_CurrentGeneration facts),
                    rp_NextKeyGenerationNo = 0,
                    rp_TargetIssuerID = rf_TargetIssuerID facts, rp_Window = policyWindow\<rparr>))))"

subsection \<open>Calendar lemmas\<close>

lemma day_number_last:
  assumes "1 \<le> m" "m \<le> 12"
  shows "day_number (y + m div 12) (m mod 12 + 1) 1 - 1 = day_number y m (days_in_month y m)"
proof (cases "m = 12")
  case True
  then show ?thesis
    using days_before_month_Suc [of 12 y] days_before_month_13 [of y] days_before_year_Suc [of y]
    by (simp add: day_number_def)
next
  case False
  with assms have "m div 12 = 0" and "m mod 12 = m" by simp_all
  then show ?thesis using days_before_month_Suc [OF assms(1), of y] by (simp add: day_number_def)
qed

lemma valid_last_day: "1 \<le> m \<Longrightarrow> m \<le> 12 \<Longrightarrow> valid_date y m (days_in_month y m)"
  using days_in_month_bounds(1) [of y m] by (simp add: valid_date_def)

lemma lastDayOfMonth_eq:
  assumes "1 \<le> m" "m \<le> 12"
  shows "lastDayOfMonth y m = days_in_month y m"
proof -
  have "go_Date y (m + 1) 0 0 = (day_number y m (days_in_month y m) - epoch_day) * ns_per_day + 0"
    using day_number_last [OF assms, of y] by (simp add: go_Date_def)
  also have "\<dots> = go_Date y m (days_in_month y m) 0"
    using assms by (simp add: go_Date_in_range)
  finally have "Time_Date (go_Date y (m + 1) 0 0) = (y, m, days_in_month y m)"
    using Time_Date_go_Date(1) [OF valid_last_day [OF assms], of 0 y] by (simp add: ns_per_day_def)
  then show ?thesis by (simp add: lastDayOfMonth_def)
qed

text \<open>Truncating division with the source's correction for a negative remainder is floor division.\<close>

lemma go_divmod_floor:
  "(if go_mod t 12 < 0 then (go_mod t 12 + 12, go_div t 12 - 1) else (go_mod t 12, go_div t 12))
     = (t mod 12, t div 12)"
proof (cases "0 \<le> t")
  case True
  then show ?thesis by (simp add: go_mod_nonneg go_div_nonneg)
next
  case False
  define u where "u = - t"
  have u: "0 < u" "t = - u" using False by (simp_all add: u_def)
  have gm: "go_mod t 12 = - (u mod 12)" and gd: "go_div t 12 = - (u div 12)"
    using False by (simp_all add: go_mod_neg go_div_def u_def)
  show ?thesis
  proof (cases "u mod 12 = 0")
    case True
    then have "t mod 12 = 0" and "t div 12 = - (u div 12)"
      by (simp_all add: u(2) zmod_zminus1_eq_if zdiv_zminus1_eq_if)
    with True show ?thesis by (simp add: gm gd)
  next
    case False
    moreover have "0 \<le> u mod 12" by simp
    ultimately have "- (u mod 12) < 0" by linarith
    moreover have "t mod 12 = 12 - u mod 12" and "t div 12 = - (u div 12) - 1"
      using False by (simp_all add: u(2) zmod_zminus1_eq_if zdiv_zminus1_eq_if)
    ultimately show ?thesis by (simp add: gm gd)
  qed
qed

definition months_later :: "int \<times> int \<times> int \<Rightarrow> int \<Rightarrow> int \<times> int \<times> int" where
  "months_later ymd k = (case ymd of (y, m, d) \<Rightarrow>
     (let y' = y + (m - 1 + k) div 12; m' = (m - 1 + k) mod 12 + 1
      in (y', m', min d (days_in_month y' m'))))"

lemma addCalendarMonths_fields:
  assumes t: "Time_Date t = (y, m, d)"
    and y: "- 1000000000000 \<le> y" "y \<le> 1000000000000"
    and k: "- 1000000000000 \<le> k" "k \<le> 1000000000000"
  shows "Time_Date (addCalendarMonths t k) = months_later (y, m, d) k"
    and "Time_Clock (addCalendarMonths t k) = Time_Clock t"
proof -
  from Time_Date_valid(1) [OF t] have v: "1 \<le> m" "m \<le> 12" "1 \<le> d"
    by (simp_all add: valid_date_def)
  define tm where "tm = m - 1 + k"
  define y' m' where "y' = y + tm div 12" and "m' = tm mod 12 + 1"
  define d' where "d' = min d (days_in_month y' m')"
  have tm: "wrap64 (m - 1 + k) = tm"
    unfolding tm_def using v k by (intro wrap64_id) (simp add: int64_bounds)
  have tmb: "- 1000000000001 \<le> tm" "tm \<le> 1000000000012" using v k by (simp_all add: tm_def)
  have gd: "- 1000000000001 \<le> go_div tm 12" "go_div tm 12 \<le> 1000000000012"
    using tmb by (auto simp: go_div_def)
  have w1: "wrap64 (y + go_div tm 12) = y + go_div tm 12"
    and w2: "wrap64 (y + go_div tm 12 - 1) = y + go_div tm 12 - 1"
    using gd y by (auto intro!: wrap64_id simp: int64_bounds)
  have m': "1 \<le> m'" "m' \<le> 12" by (simp_all add: m'_def)
  have nmny: "(if go_mod tm 12 < 0 then (go_mod tm 12 + 12, wrap64 (wrap64 (y + go_div tm 12) - 1))
      else (go_mod tm 12, wrap64 (y + go_div tm 12))) = (tm mod 12, y')"
    using go_divmod_floor [of tm] by (auto simp: w1 w2 y'_def split: if_splits)
  have eq: "addCalendarMonths t k = go_Date y' m' d' (Time_Clock t)"
    unfolding addCalendarMonths_def t Let_def prod.case tm nmny
    using lastDayOfMonth_eq [OF m', of y'] by (simp add: m'_def d'_def min_def)
  have "valid_date y' m' d'"
    using m' v days_in_month_bounds(1) [of y' m'] by (auto simp: valid_date_def d'_def)
  then show "Time_Date (addCalendarMonths t k) = months_later (y, m, d) k"
    and "Time_Clock (addCalendarMonths t k) = Time_Clock t"
    using Time_Date_go_Date [of y' m' d' "Time_Clock t"]
    by (simp_all add: eq months_later_def Let_def tm_def [symmetric] y'_def [symmetric]
        m'_def [symmetric] d'_def)
qed

lemma months_later_valid:
  assumes "valid_date y m d" and "months_later (y, m, d) k = (y', m', d')"
  shows "valid_date y' m' d'" and "12 * y' + m' = 12 * y + m + k"
proof -
  have y': "y' = y + (m - 1 + k) div 12" and m': "m' = (m - 1 + k) mod 12 + 1"
    and d': "d' = min d (days_in_month y' m')"
    using assms(2) by (auto simp: months_later_def Let_def)
  show "valid_date y' m' d'"
    using assms(1) days_in_month_bounds(1) [of y' m'] by (auto simp: valid_date_def m' d')
  show "12 * y' + m' = 12 * y + m + k"
    using div_mult_mod_eq [of "m - 1 + k" 12] by (simp add: y' m')
qed

text \<open>A later month is a later time: the clamp never turns the clock back.\<close>

lemma later_date_later_time:
  assumes "Time_Date t = (y, m, d)" "Time_Date u = (y', m', d')" "12 * y + m < 12 * y' + m'"
  shows "t < u"
proof -
  note t = Time_Date_valid [OF assms(1)] and u = Time_Date_valid [OF assms(2)]
  have "day_number y m d < day_number y' m' d'"
    by (rule day_number_strict_mono [OF t(1) u(1) assms(3)])
  then have "(day_number y m d - epoch_day) * ns_per_day + ns_per_day
      \<le> (day_number y' m' d' - epoch_day) * ns_per_day"
    by (simp add: ns_per_day_def algebra_simps)
  moreover have "Time_Clock t < ns_per_day" and "0 \<le> Time_Clock u" by simp_all
  ultimately show ?thesis using t(2) u(2) by linarith
qed

subsection \<open>Bounds of the calendar window\<close>

text \<open>Instants of the years 1 to 9999, the range of every timestamp an X.509 certificate can hold.\<close>

definition x509_instant :: "Instant \<Rightarrow> bool" where
  "x509_instant i \<longleftrightarrow> - 62135596800000000 \<le> micros i \<and> micros i \<le> 253402300799999999"

lemma x509_year:
  assumes "x509_instant i" and "Time_Date (Instant_Time i) = (y, m, d)"
  shows "1 \<le> y" and "y \<le> 9999"
proof -
  define n where "n = Instant_Time i div ns_per_day + epoch_day"
  have n: "0 \<le> n" "n < 3652059"
    using assms(1) unfolding n_def x509_instant_def Instant_Time_def ns_per_day_def epoch_day_def
    by linarith+
  have c: "civil n = (y, m, d)" using assms(2) by (simp add: Time_Date_def n_def)
  note v = civil_correct [OF c]
  have k: "n = days_before_year y + (days_before_month y m + (d - 1))"
    using v(2) by (simp add: day_number_def)
  have "days_before_year 1 = 0" and "days_before_year 10000 = 3652059"
    by (simp_all add: days_before_year_def)
  then show "1 \<le> y" and "y \<le> 9999"
    using days_before_year_mono [of y 1] days_before_year_mono [of 9999 y] days_before_year_Suc [of 9999]
      days_before_year_mono [of 10000 y] day_number_year_part [OF v(1)] n k
    by (linarith, smt)
qed

lemma days_before_year_upper: "1 \<le> y \<Longrightarrow> days_before_year y \<le> 366 * (y - 1)"
proof (induction y rule: int_ge_induct)
  case base
  show ?case by (simp add: days_before_year_def)
next
  case (step i)
  then show ?case using days_before_year_Suc [of i] year_length_bounds(2) [of i] by simp
qed

text \<open>Any date of the years up to 120000 fits the microsecond counter and survives the round trip.\<close>

lemma NewInstant_whole_micros:
  assumes "Time_Date t = (y, m, d)" "1 \<le> y" "y \<le> 120000" "Time_Clock t mod 1000 = 0" "t \<noteq> zero_gotime"
  shows "Instant_Time (NewInstant t) = t"
proof -
  note v = Time_Date_valid [OF assms(1)]
  have "0 \<le> days_before_year y"
    using days_before_year_mono [of 1 y] assms(2) year_length_bounds(1) [of 1]
    by (cases "y = 1") (simp_all add: days_before_year_def)
  then have n: "0 \<le> day_number y m d" "day_number y m d \<le> 44000000"
    using days_before_year_upper [OF assms(2)] assms(3) day_number_year_part [OF v(1)]
      year_length_bounds(2) [of y] by (simp_all add: day_number_def)
  have t: "t = (day_number y m d - epoch_day) * ns_per_day + Time_Clock t" by (rule v(2))
  have "t mod 1000 = 0"
  proof -
    have "1000 dvd (day_number y m d - epoch_day) * ns_per_day" by (rule dvd_mult) (simp add: ns_per_day_def)
    moreover have "1000 dvd Time_Clock t" using assms(4) by (simp add: dvd_eq_mod_eq_0)
    ultimately have "1000 dvd (day_number y m d - epoch_day) * ns_per_day + Time_Clock t" by (rule dvd_add)
    then show ?thesis using t by (simp add: dvd_eq_mod_eq_0)
  qed
  then have mult: "t div 1000 * 1000 = t" using div_mult_mod_eq [of t 1000] by linarith
  have "- 100000000000000000000 \<le> t" "t \<le> 4000000000000000000000"
    using n Time_Clock_range [of t] unfolding ns_per_day_def
    by (subst t; simp add: epoch_day_def ns_per_day_def)+
  then have "in_int64 (t div 1000)" using mult by (simp add: int64_bounds)
  then show ?thesis
    using assms(5) mult by (simp add: NewInstant_def UnixMicro_def Instant_Time_def wrap64_id)
qed

lemma Instant_Time_clock_micros: "Time_Clock (Instant_Time i) mod 1000 = 0"
proof -
  have "Instant_Time i mod ns_per_day mod 1000 = Instant_Time i mod 1000"
    by (rule mod_mod_cancel) (simp add: ns_per_day_def)
  then show ?thesis by (simp add: Time_Clock_def Instant_Time_def)
qed

lemma Instant_Time_less: "Instant_Time i < Instant_Time j \<longleftrightarrow> i < j"
  by (simp add: Instant_Time_def less_Instant_def)

lemma zero_gotime_date: "Time_Date zero_gotime = (1, 1, 1)"
  by code_simp

lemma calendar_months_window:
  assumes "x509_instant nb" and k: "0 < k" "k \<le> 1200000"
    and u: "u = NewInstant (addCalendarMonths (Instant_Time nb) k)"
  shows "nb < u" and "Time_Date (Instant_Time u) = months_later (Time_Date (Instant_Time nb)) k"
    and "Time_Clock (Instant_Time u) = Time_Clock (Instant_Time nb)"
proof -
  obtain y m d where ymd: "Time_Date (Instant_Time nb) = (y, m, d)" using prod_cases3 by blast
  obtain y' m' d' where ymd': "months_later (y, m, d) k = (y', m', d')" using prod_cases3 by blast
  let ?t = "addCalendarMonths (Instant_Time nb) k"
  note yb = x509_year [OF assms(1) ymd] and v = Time_Date_valid(1) [OF ymd]
  note add = addCalendarMonths_fields [OF ymd, of k]
  have date: "Time_Date ?t = (y', m', d')" and clock: "Time_Clock ?t = Time_Clock (Instant_Time nb)"
    using add yb k ymd' by simp_all
  note v' = months_later_valid [OF v ymd']
  have later: "12 * y + m < 12 * y' + m'" using v'(2) k(1) by simp
  have "y \<le> y'" and "y' \<le> 120000"
    using v'(2) k yb v v'(1) by (auto simp: valid_date_def)
  with yb have y': "1 \<le> y'" "y' \<le> 120000" by simp_all
  have lt: "Instant_Time nb < ?t" by (rule later_date_later_time [OF ymd date later])
  have "?t \<noteq> zero_gotime"
    using assms(1) lt by (auto simp: x509_instant_def zero_gotime_def Instant_Time_def)
  then have "Instant_Time u = ?t"
    using NewInstant_whole_micros [OF date y'] clock Instant_Time_clock_micros [of nb] by (simp add: u)
  then show "nb < u" and "Time_Date (Instant_Time u) = months_later (Time_Date (Instant_Time nb)) k"
    and "Time_Clock (Instant_Time u) = Time_Clock (Instant_Time nb)"
    using lt date clock ymd ymd' by (simp_all add: Instant_Time_less [symmetric])
qed

text \<open>Calendar validity: for a start in the years 1 to 9999 and a validity of up to 100000
  years or months, \<open>Window\<close> succeeds; the end is after the start, lies exactly the requested
  number of calendar months later at the same time of day, and a day that does not exist in the
  target month is clamped to that month's last day.\<close>

theorem calendar_window_months:
  assumes "x509_instant nb" and "0 < n" and "n \<le> 100000"
    and "(u, k) \<in> {(ValidityUnitYears, 12 * n), (ValidityUnitMonths, n)}"
  shows "\<exists>w. Window \<lparr>cv_value = n, cv_unit = u\<rparr> nb = Inr w \<and> notBefore w = nb \<and> nb < notAfter w
     \<and> Time_Date (Instant_Time (notAfter w)) = months_later (Time_Date (Instant_Time nb)) k
     \<and> Time_Clock (Instant_Time (notAfter w)) = Time_Clock (Instant_Time nb)"
proof -
  let ?e = "NewInstant (addCalendarMonths (Instant_Time nb) k)"
  have "wrap64 (n * 12) = n * 12" using assms by (intro wrap64_id) (simp add: int64_bounds)
  then have "Window \<lparr>cv_value = n, cv_unit = u\<rparr> nb = NewValidityWindow nb ?e"
    using assms(4) by (auto simp: Window_def Let_def mult.commute)
  moreover have "0 < k" "k \<le> 1200000" using assms by auto
  note cal = calendar_months_window [OF assms(1) this refl]
  ultimately show ?thesis using cal by (auto simp: success_iff)
qed

text \<open>31 January 2024 at midnight plus one month ends on 29 February 2024.\<close>

theorem calendar_window_months_witness:
  "\<exists>w. Window \<lparr>cv_value = 1, cv_unit = ValidityUnitMonths\<rparr> (Instant 1706659200000000) = Inr w
     \<and> Time_Date (Instant_Time (notAfter w)) = (2024, 2, 29)"
proof -
  have d: "Time_Date (Instant_Time (Instant 1706659200000000)) = (2024, 1, 31)" by code_simp
  have m: "months_later (2024, 1, 31) 1 = (2024, 2, 29)" by code_simp
  show ?thesis
    using calendar_window_months [of "Instant 1706659200000000" 1 ValidityUnitMonths 1] d m
    by (auto simp: x509_instant_def)
qed

subsection \<open>What a renewal plan promises\<close>

lemma Window_notBefore: "Window v nb = Inr w \<Longrightarrow> notBefore w = nb"
  by (auto simp: Window_def Let_def success_iff split: ValidityUnit.splits)

definition plan_in_policy :: "LeafSeries \<Rightarrow> RenewalFacts \<Rightarrow> RenewalPlan \<Rightarrow> bool" where
  "plan_in_policy s f p \<longleftrightarrow>
     PlanWindow (ls_policy s) (notBefore (rf_RequestedWindow f)) = Inr (rp_Window p)
     \<and> (Window_IsZero (rf_TargetIssuerWindow f) \<or> Covers (rf_TargetIssuerWindow f) (rp_Window p))"

text \<open>The reuse test of the source, on the current generation's counter.\<close>

definition reuse_due :: "LeafSeries \<Rightarrow> RenewalFacts \<Rightarrow> bool" where
  "reuse_due s f \<longleftrightarrow> \<not> rf_IsEmergencyReissue f
     \<and> wrap64 (kg_renewalCount (rf_CurrentGeneration f) + 1) < sp_RotateEvery (ls_policy s)"

lemma PlanWindow_notBefore: "PlanWindow p nb = Inr w \<Longrightarrow> notBefore w = nb"
  by (simp add: PlanWindow_def Window_notBefore)

lemma PlanRenewal_common:
  assumes "PlanRenewal s f now = Inr p"
  shows "\<not> LeafSeries_IsArchived s"
    and "kg_id (rf_CurrentGeneration f) = ls_currentKeyGenerationID s"
    and "plan_in_policy s f p" and "rp_Window p = rf_RequestedWindow f"
    and "rp_TargetIssuerID p = rf_TargetIssuerID f"
    and "\<not> rf_IsEmergencyReissue f \<Longrightarrow> rf_KeyReadyForRenewal f"
proof -
  have *: "\<not> LeafSeries_IsArchived s \<and> kg_id (rf_CurrentGeneration f) = ls_currentKeyGenerationID s
     \<and> plan_in_policy s f p \<and> notAfter (rp_Window p) = notAfter (rf_RequestedWindow f)
     \<and> rp_TargetIssuerID p = rf_TargetIssuerID f
     \<and> (\<not> rf_IsEmergencyReissue f \<longrightarrow> rf_KeyReadyForRenewal f)"
    using assms by (auto simp: PlanRenewal_def Let_def success_iff plan_in_policy_def split: if_splits)
  then have "notBefore (rp_Window p) = notBefore (rf_RequestedWindow f)"
    unfolding plan_in_policy_def by (blast dest: PlanWindow_notBefore)
  with * show "rp_Window p = rf_RequestedWindow f" by simp
qed (use assms in \<open>auto simp: PlanRenewal_def Let_def success_iff plan_in_policy_def split: if_splits\<close>)

lemma PlanRenewal_action:
  assumes "PlanRenewal s f now = Inr p"
  shows "if reuse_due s f
         then rp_Action p = RenewalActionReuseKey
           \<and> rp_KeyGenerationID p = ls_currentKeyGenerationID s
           \<and> rp_NextRenewalCount p = wrap64 (kg_renewalCount (rf_CurrentGeneration f) + 1)
         else rp_Action p = RenewalActionRotateKey \<and> rp_NextRenewalCount p = 0
           \<and> kg_generationNo (rf_CurrentGeneration f) < rp_NextKeyGenerationNo p"
  using assms
  by (auto simp: PlanRenewal_def Let_def success_iff reuse_due_def split: if_splits)

text \<open>C37. Renewal planning: a plan exists only for a live series and its current key generation;
  its window is exactly the requested one, the policy's calendar window, inside a known issuer
  period; and it keeps the key (with the counter advanced by one) exactly when the renewal is not
  an emergency and the counter stays below the rotation limit. Every other plan takes a strictly
  newer key generation and restarts the counter.\<close>

theorem plan_renewal_decision:
  assumes "PlanRenewal s f now = Inr p"
  shows "\<not> LeafSeries_IsArchived s \<and> kg_id (rf_CurrentGeneration f) = ls_currentKeyGenerationID s
    \<and> rp_Window p = rf_RequestedWindow f \<and> plan_in_policy s f p
    \<and> (rp_Action p = RenewalActionReuseKey \<longleftrightarrow> reuse_due s f)
    \<and> (reuse_due s f \<longrightarrow> rp_KeyGenerationID p = ls_currentKeyGenerationID s
         \<and> rp_NextRenewalCount p = wrap64 (kg_renewalCount (rf_CurrentGeneration f) + 1))
    \<and> (\<not> reuse_due s f \<longrightarrow> rp_NextRenewalCount p = 0
         \<and> kg_generationNo (rf_CurrentGeneration f) < rp_NextKeyGenerationNo p)"
  using PlanRenewal_common [OF assms] PlanRenewal_action [OF assms]
  by (cases "reuse_due s f") simp_all

definition sample_policy :: SeriesPolicy where
  "sample_policy = \<lparr>sp_RotateEvery = 2, sp_CertificateValidity = \<lparr>cv_value = 1, cv_unit = ValidityUnitDays\<rparr>\<rparr>"

definition sample_series :: LeafSeries where
  "sample_series = \<lparr>ls_id = sample_uuid CHR ''1'', ls_name = ''web'', ls_purpose = SeriesPurposeDistributed,
     ls_managementAuthorityID = sample_uuid CHR ''2'', ls_currentCertificateID = [],
     ls_currentKeyGenerationID = sample_uuid CHR ''3'', ls_policy = sample_policy, ls_version = 0,
     ls_archivedAt = zero_instant\<rparr>"

definition sample_generation :: LeafKeyGeneration where
  "sample_generation = \<lparr>kg_id = sample_uuid CHR ''3'', kg_seriesID = sample_uuid CHR ''1'',
     kg_keyMaterialID = sample_uuid CHR ''4'', kg_generationNo = 1, kg_renewalCount = 0,
     kg_priorHistoryUnknown = False, kg_custody = KeyCustodyClientHeld\<rparr>"

definition sample_renewal :: RenewalFacts where
  "sample_renewal = \<lparr>rf_CurrentGeneration = sample_generation, rf_TargetIssuerID = sample_uuid CHR ''2'',
     rf_TargetIssuerWindow = zero_window,
     rf_RequestedWindow = \<lparr>notBefore = Instant 86400000000, notAfter = Instant 172800000000\<rparr>,
     rf_KeyReadyForRenewal = True, rf_IsEmergencyReissue = False, rf_NextKeyGenerationNo = 0\<rparr>"

definition sample_plan :: RenewalPlan where
  "sample_plan = \<lparr>rp_Action = RenewalActionReuseKey, rp_NextRenewalCount = 1,
     rp_KeyGenerationID = sample_uuid CHR ''3'', rp_NextKeyGenerationNo = 0,
     rp_TargetIssuerID = sample_uuid CHR ''2'', rp_Window = rf_RequestedWindow sample_renewal\<rparr>"

lemma sample_plan: "PlanRenewal sample_series sample_renewal (Instant 1) = Inr sample_plan"
  by (rule returnsD) code_simp

theorem plan_renewal_decision_witness:
  "reuse_due sample_series sample_renewal \<and> plan_in_policy sample_series sample_renewal sample_plan"
proof -
  have "rp_Action sample_plan = RenewalActionReuseKey" by (simp add: sample_plan_def)
  then show ?thesis using plan_renewal_decision [OF sample_plan] by blast
qed

subsection \<open>Key reuse is bounded\<close>

text \<open>
  A renewal that keeps the key rebuilds the current generation with the plan's counter
  (\<open>internal/app/service/issuance.go\<close>). Between two reuses the policy, the series row and the
  request may change in any way that keeps the policy valid.
\<close>

definition updatedGen :: "LeafKeyGeneration \<Rightarrow> RenewalPlan \<Rightarrow> domain_error + LeafKeyGeneration" where
  "updatedGen g plan =
     NewLeafKeyGeneration \<lparr>kgf_ID = kg_id g, kgf_SeriesID = kg_seriesID g,
       kgf_KeyMaterialID = kg_keyMaterialID g, kgf_GenerationNo = kg_generationNo g,
       kgf_RenewalCount = rp_NextRenewalCount plan,
       kgf_PriorHistoryUnknown = kg_priorHistoryUnknown g, kgf_Custody = kg_custody g\<rparr>"

inductive reuse_chain :: "LeafKeyGeneration \<Rightarrow> nat \<Rightarrow> LeafKeyGeneration \<Rightarrow> bool" where
  no_reuse: "reuse_chain g 0 g"
| one_more: "reuse_chain g n h \<Longrightarrow> SeriesPolicy_Validate (ls_policy s) = None \<Longrightarrow>
    rf_CurrentGeneration f = h \<Longrightarrow> PlanRenewal s f now = Inr p \<Longrightarrow>
    rp_Action p = RenewalActionReuseKey \<Longrightarrow> updatedGen h p = Inr h' \<Longrightarrow>
    reuse_chain g (Suc n) h'"

lemma SeriesPolicy_Validate_None [success_iff]:
  "SeriesPolicy_Validate p = None \<longleftrightarrow>
     1 \<le> sp_RotateEvery p \<and> sp_RotateEvery p \<le> 100 \<and> 0 < cv_value (sp_CertificateValidity p)"
  by (auto simp: SeriesPolicy_Validate_def CalendarValidity_IsPositive_def minRotateEvery_def
      maxRotateEvery_def)

lemma updatedGen_Inr:
  "updatedGen g p = Inr h \<Longrightarrow> h = g\<lparr>kg_renewalCount := rp_NextRenewalCount p\<rparr> \<and> 0 \<le> rp_NextRenewalCount p"
  by (auto simp: updatedGen_def NewLeafKeyGeneration_def success_iff intro!: LeafKeyGeneration.equality)

lemma wrap64_inc_nonneg:
  assumes "in_int64 x" and "0 \<le> x" and "0 \<le> wrap64 (x + 1)"
  shows "wrap64 (x + 1) = x + 1"
proof (cases "x = max_int64")
  case True
  with assms(3) show ?thesis by (simp add: wrap64_def max_int64_def)
next
  case False
  with assms show ?thesis by (intro wrap64_id) (simp add: int64_bounds)
qed

text \<open>Key reuse is bounded: \<open>n\<close> reuses of one leaf key in a row advance its counter by
  exactly \<open>n\<close> and leave it below the largest rotation limit, whatever valid policies were in
  force in between and even for a counter at the edge of the 64-bit range. So no key serves more
  than 99 renewals.\<close>

theorem key_reuse_bounded:
  assumes "reuse_chain g n h" and "0 \<le> kg_renewalCount g" and "in_int64 (kg_renewalCount g)"
  shows "kg_renewalCount h = kg_renewalCount g + int n \<and> (0 < n \<longrightarrow> kg_renewalCount h < 100)"
  using assms
proof induction
  case (no_reuse g)
  then show ?case by simp
next
  case (one_more g n h s f now p h')
  let ?next = "wrap64 (kg_renewalCount h + 1)"
  have step: "rp_NextRenewalCount p = ?next" "?next < sp_RotateEvery (ls_policy s)"
    using PlanRenewal_action [OF one_more.hyps(4)] one_more.hyps(3,5)
    by (auto simp: reuse_due_def split: if_splits)
  have h': "kg_renewalCount h' = ?next" "0 \<le> ?next"
    using updatedGen_Inr [OF one_more.hyps(6)] step(1) by simp_all
  have h: "kg_renewalCount h = kg_renewalCount g + int n" "in_int64 (kg_renewalCount h)"
    using one_more.IH one_more.prems by (cases n; simp add: int64_bounds)+
  have "?next = kg_renewalCount h + 1"
    by (rule wrap64_inc_nonneg) (use h one_more.prems h'(2) in simp_all)
  with h h'(1) step(2) one_more.hyps(2) show ?case by (simp add: success_iff)
qed

lemma sample_reuse: "reuse_chain sample_generation 1 (sample_generation\<lparr>kg_renewalCount := 1\<rparr>)"
proof -
  have "updatedGen sample_generation sample_plan = Inr (sample_generation\<lparr>kg_renewalCount := 1\<rparr>)"
    by (rule returnsD) code_simp
  moreover have "SeriesPolicy_Validate (ls_policy sample_series) = None"
    by (simp add: success_iff sample_series_def sample_policy_def)
  ultimately show ?thesis
    using one_more [OF no_reuse _ _ sample_plan] by (simp add: sample_renewal_def sample_plan_def)
qed

theorem key_reuse_bounded_witness:
  "kg_renewalCount (sample_generation\<lparr>kg_renewalCount := 1\<rparr>) = 0 + int 1"
  using key_reuse_bounded [OF sample_reuse] by (simp add: sample_generation_def int64_bounds)

subsection \<open>The series as a versioned machine\<close>

interpretation sm: versioned_machine ChangePolicy ls_version
    "\<lambda>s. (ls_id s, ls_name s, ls_purpose s, ls_managementAuthorityID s, ls_currentCertificateID s,
           ls_currentKeyGenerationID s, ls_archivedAt s)"
  by unfold_locales (auto simp: ChangePolicy_def success_iff)

lemma ChangePolicy_keeps_valid:
  "ChangePolicy s pol = Inr s' \<Longrightarrow> SeriesPolicy_Validate (ls_policy s') = None"
  by (auto simp: ChangePolicy_def success_iff)

lemma archived_series_frozen: "LeafSeries_IsArchived s \<Longrightarrow> run_keep ChangePolicy s xs = s"
proof (induction xs)
  case Nil
  show ?case by simp
next
  case (Cons x xs)
  then show ?case by (simp add: keep_step_def ChangePolicy_def)
qed

end
