(* ===== verification/Go_Format.thy ===== *)
theory Go_Format
  imports Go_Bytes
begin

text \<open>
  Decimal text of integers, as \<open>strconv.Itoa\<close>, \<open>fmt.Sprintf("%d")\<close> and \<open>encoding/json\<close> write it and
  \<open>strconv.ParseInt\<close> reads it. Main lemma: every 64-bit integer is read back.
\<close>

definition is_digit :: "char \<Rightarrow> bool" where
  "is_digit c \<longleftrightarrow> CHR ''0'' \<le> c \<and> c \<le> CHR ''9''"

definition digit_val :: "char \<Rightarrow> nat" where "digit_val c = of_char c - 48"

definition decimal_value :: "string \<Rightarrow> nat" where
  "decimal_value s = foldl (\<lambda>n c. 10 * n + digit_val c) 0 s"

definition digit_of :: "nat \<Rightarrow> char" where "digit_of n = char_of (48 + n)"

fun decimal_text :: "nat \<Rightarrow> string" where
  "decimal_text n = (if n < 10 then [digit_of n] else decimal_text (n div 10) @ [digit_of (n mod 10)])"

declare decimal_text.simps [simp del]

definition int_text :: "int \<Rightarrow> string" where
  "int_text i = (if i < 0 then ''-'' @ decimal_text (nat (- i)) else decimal_text (nat i))"

text \<open>\<open>strconv.ParseInt(s, 10, 64)\<close> on a literal of the JSON number grammar, where no plus sign and
  no underscore can occur.\<close>

definition parse_int64 :: "string \<Rightarrow> int64 option" where
  "parse_int64 s =
     (let neg = (s \<noteq> [] \<and> hd s = CHR ''-''); ds = (if neg then tl s else s);
          v = (if neg then - int (decimal_value ds) else int (decimal_value ds))
      in if ds = [] \<or> \<not> list_all is_digit ds \<or> \<not> in_int64 v then None else Some v)"

lemma of_char_digit_of: "d < 10 \<Longrightarrow> (of_char (digit_of d) :: nat) = 48 + d"
  by (simp add: digit_of_def)

lemma digit_of_facts [simp]:
  assumes "d < 10"
  shows "is_digit (digit_of d)" and "digit_val (digit_of d) = d"
  using of_char_digit_of [OF assms] assms
  by (simp_all add: is_digit_def digit_val_def less_eq_char_def)

lemma digit_of_nonzero: "d < 10 \<Longrightarrow> d \<noteq> 0 \<Longrightarrow> digit_of d \<noteq> CHR ''0''"
  using of_char_digit_of [of d] by auto

lemma decimal_value_snoc [simp]: "decimal_value (s @ [c]) = 10 * decimal_value s + digit_val c"
  by (simp add: decimal_value_def)

lemma decimal_value_Nil [simp]: "decimal_value [] = 0"
  by (simp add: decimal_value_def)

lemma decimal_value_single [simp]: "decimal_value [c] = digit_val c"
  by (simp add: decimal_value_def)

lemma decimal_text_value [simp]: "decimal_value (decimal_text n) = n"
proof (induction n rule: decimal_text.induct)
  case (1 n)
  then show ?case by (cases "n < 10") (simp_all add: decimal_text.simps [of n])
qed

lemma decimal_text_digits [simp]: "list_all is_digit (decimal_text n)"
proof (induction n rule: decimal_text.induct)
  case (1 n)
  then show ?case by (cases "n < 10") (simp_all add: decimal_text.simps [of n])
qed

lemma decimal_text_nonempty [simp]: "decimal_text n \<noteq> []"
  by (simp add: decimal_text.simps [of n])

lemma decimal_text_single: "length (decimal_text n) = 1 \<longleftrightarrow> n < 10"
  by (simp add: decimal_text.simps [of n])

lemma decimal_text_no_leading_zero: "n \<noteq> 0 \<Longrightarrow> hd (decimal_text n) \<noteq> CHR ''0''"
proof (induction n rule: decimal_text.induct)
  case (1 n)
  show ?case
  proof (cases "n < 10")
    case True
    then show ?thesis using 1(2) digit_of_nonzero by (simp add: decimal_text.simps [of n])
  next
    case False
    moreover from False have "n div 10 \<noteq> 0" by auto
    ultimately show ?thesis using 1(1) by (simp add: decimal_text.simps [of n])
  qed
qed

lemma not_digit_minus [simp]: "\<not> is_digit CHR ''-''"
  by code_simp

lemma decimal_text_hd: "is_digit (hd (decimal_text n))"
  using decimal_text_digits [of n] by (cases "decimal_text n") auto

lemma decimal_text_not_minus: "hd (decimal_text n) \<noteq> CHR ''-''"
  using decimal_text_hd [of n] by auto

lemma parse_int64_text: "in_int64 i \<Longrightarrow> parse_int64 (int_text i) = Some i"
  by (auto simp: parse_int64_def int_text_def Let_def decimal_text_not_minus)

end
