(* ===== verification/Netip.thy ===== *)
theory Netip
  imports Go_Format
begin

text \<open>
  The part of the standard library's \<open>net/netip\<close> the domain uses to normalise an IP address:
  \<open>ParseAddr\<close> and \<open>Addr.String\<close>. An IPv4 address is its four octets, an IPv6 address its eight
  16-bit groups and its zone. Main lemma: the printed form of every IPv4 address parses back.
\<close>

datatype Addr = Addr4 "nat list" | Addr6 "nat list" string

fun Addr_Zone :: "Addr \<Rightarrow> string" where
  "Addr_Zone (Addr4 _) = []"
| "Addr_Zone (Addr6 _ z) = z"

subsection \<open>IPv4\<close>

text \<open>An octet: at least one digit, no leading zero, at most 255.\<close>

definition parse_octet :: "string \<Rightarrow> nat option" where
  "parse_octet s =
     (if s = [] \<or> \<not> list_all is_digit s \<or> (1 < length s \<and> hd s = CHR ''0'') \<or> 255 < decimal_value s
      then None else Some (decimal_value s))"

fun sequence_opt :: "'a option list \<Rightarrow> 'a list option" where
  "sequence_opt [] = Some []"
| "sequence_opt (None # xs) = None"
| "sequence_opt (Some x # xs) = map_option ((#) x) (sequence_opt xs)"

definition parseIPv4Fields :: "string \<Rightarrow> nat list option" where
  "parseIPv4Fields s =
     (let fields = split_byte CHR ''.'' s
      in if length fields \<noteq> 4 then None else sequence_opt (map parse_octet fields))"

definition octet_text :: "nat \<Rightarrow> string" where
  "octet_text n = (if 100 \<le> n then [digit_of (n div 100)] else [])
     @ (if 10 \<le> n then [digit_of (n div 10 mod 10)] else []) @ [digit_of (n mod 10)]"

definition string4 :: "nat list \<Rightarrow> string" where
  "string4 os = join_byte CHR ''.'' (map octet_text os)"

lemma three_digits:
  fixes n :: nat
  assumes "n < 256"
  obtains a b c where "n = 100 * a + 10 * b + c" "a < 3" "b < 10" "c < 10"
    "n div 100 = a" "n div 10 mod 10 = b" "n mod 10 = c"
proof
  have "n div 10 div 10 = n div 100" by (simp add: div_mult2_eq [symmetric])
  moreover have "n = 10 * (n div 10) + n mod 10" and "n div 10 = 10 * (n div 10 div 10) + n div 10 mod 10"
    by simp_all
  ultimately show "n = 100 * (n div 100) + 10 * (n div 10 mod 10) + n mod 10" by linarith
qed (use assms in simp_all)

lemma octet_text_digits: "n < 256 \<Longrightarrow> list_all is_digit (octet_text n)"
proof -
  assume n: "n < 256"
  obtain a b c where "a < 3" "b < 10" "c < 10" "n div 100 = a" "n div 10 mod 10 = b" "n mod 10 = c"
    using three_digits [OF n] .
  then have "list_all is_digit [digit_of a]" "list_all is_digit [digit_of b]" "list_all is_digit [digit_of c]"
    and "octet_text n = (if 100 \<le> n then [digit_of a] else []) @ (if 10 \<le> n then [digit_of b] else [])
      @ [digit_of c]"
    by (simp_all add: octet_text_def)
  then show ?thesis by simp
qed

lemma parse_octet_text:
  assumes n: "n < 256"
  shows "parse_octet (octet_text n) = Some n"
proof -
  obtain a b c where abc: "n = 100 * a + 10 * b + c" "a < 3" "b < 10" "c < 10"
    "n div 100 = a" "n div 10 mod 10 = b" "n mod 10 = c"
    using three_digits [OF n] .
  then have t: "octet_text n = (if 100 \<le> n then [digit_of a] else []) @ (if 10 \<le> n then [digit_of b] else [])
      @ [digit_of c]"
    by (simp add: octet_text_def)
  have val: "decimal_value (octet_text n) = n"
    using abc(1-4) unfolding t decimal_value_def by (cases "a = 0"; cases "b = 0"; simp)
  have zero: "\<not> (1 < length (octet_text n) \<and> hd (octet_text n) = CHR ''0'')"
    using abc(1-4) digit_of_nonzero unfolding t by (cases "a = 0"; cases "b = 0"; simp)
  have ne: "octet_text n \<noteq> []" by (simp add: octet_text_def)
  from val zero ne octet_text_digits [OF n] n show ?thesis
    unfolding parse_octet_def by (simp only: if_False de_Morgan_disj not_less simp_thms) simp
qed

lemma octet_text_no_dot: "n < 256 \<Longrightarrow> CHR ''.'' \<notin> set (octet_text n)"
  using octet_text_digits [of n] by (auto simp: list_all_iff is_digit_def less_eq_char_def)

lemma sequence_opt_map: "(\<And>x. x \<in> set xs \<Longrightarrow> f x = Some (g x)) \<Longrightarrow> sequence_opt (map f xs) = Some (map g xs)"
  by (induction xs) simp_all

lemma parseIPv4Fields_string4:
  assumes "length os = 4" and "list_all (\<lambda>n. n < 256) os"
  shows "parseIPv4Fields (string4 os) = Some os"
proof -
  have "split_byte CHR ''.'' (string4 os) = map octet_text os"
    unfolding string4_def
    by (rule split_join_byte) (use assms in \<open>auto simp: list_all_iff octet_text_no_dot\<close>)
  moreover have "sequence_opt (map (parse_octet \<circ> octet_text) os) = Some (map id os)"
    by (rule sequence_opt_map) (use assms in \<open>simp add: list_all_iff parse_octet_text\<close>)
  ultimately show ?thesis using assms by (simp add: parseIPv4Fields_def)
qed

subsection \<open>IPv6\<close>

definition is_hex_any :: "char \<Rightarrow> bool" where
  "is_hex_any c \<longleftrightarrow> isLowerHexDigit (ascii_lower c)"

definition group_value :: "string \<Rightarrow> nat" where
  "group_value s = hex_value (map ascii_lower s)"

text \<open>
  The group loop. The first argument is how many of the eight groups are still free, which is
  exactly the loop bound; \<open>ell\<close> is the position of \<open>::\<close>.
\<close>

fun ipv6_groups :: "nat \<Rightarrow> nat list \<Rightarrow> nat option \<Rightarrow> string \<Rightarrow> (nat list \<times> nat option \<times> string) option" where
  "ipv6_groups 0 gs ell s = Some (gs, ell, s)"
| "ipv6_groups (Suc k) gs ell s =
     (let d = takeWhile is_hex_any s; rest = dropWhile is_hex_any s; gs' = gs @ [group_value d] in
      if d = [] \<or> 4 < length d then None
      else case rest of
        [] \<Rightarrow> Some (gs', ell, [])
      | c # after \<Rightarrow>
          if c = CHR ''.'' then
            (if (ell = None \<and> length gs \<noteq> 6) \<or> 6 < length gs then None
             else case parseIPv4Fields s of
               Some [o1, o2, o3, o4] \<Rightarrow> Some (gs @ [256 * o1 + o2, 256 * o3 + o4], ell, [])
             | _ \<Rightarrow> None)
          else if c \<noteq> CHR '':'' then None
          else case after of
            [] \<Rightarrow> None
          | c' # after' \<Rightarrow>
              if c' = CHR '':'' then
                (if ell \<noteq> None then None
                 else if after' = [] then Some (gs', Some (length gs'), [])
                 else ipv6_groups k gs' (Some (length gs')) after')
              else ipv6_groups k gs' ell after)"

fun expand_ellipsis :: "nat list \<times> nat option \<times> string \<Rightarrow> nat list option" where
  "expand_ellipsis (gs, ell, rest) =
     (if rest \<noteq> [] then None
      else case ell of
        None \<Rightarrow> if length gs = 8 then Some gs else None
      | Some e \<Rightarrow> if 8 \<le> length gs then None
                 else Some (take e gs @ replicate (8 - length gs) 0 @ drop e gs))"

definition parse_ipv6_groups :: "string \<Rightarrow> nat list option" where
  "parse_ipv6_groups s =
     (if take 2 s = ''::'' then
        (if drop 2 s = [] then Some (replicate 8 0)
         else Option.bind (ipv6_groups 8 [] (Some 0) (drop 2 s)) expand_ellipsis)
      else Option.bind (ipv6_groups 8 [] None s) expand_ellipsis)"

definition parseIPv6 :: "string \<Rightarrow> Addr option" where
  "parseIPv6 s =
     (let addr = takeWhile (\<lambda>c. c \<noteq> CHR ''%'') s; zone = drop (Suc (length addr)) s in
      if length addr < length s \<and> zone = [] then None
      else map_option (\<lambda>gs. Addr6 gs zone) (parse_ipv6_groups addr))"

definition ParseAddr :: "string \<Rightarrow> Addr option" where
  "ParseAddr s =
     (case find (\<lambda>c. c = CHR ''.'' \<or> c = CHR '':'' \<or> c = CHR ''%'') s of
        None \<Rightarrow> None
      | Some c \<Rightarrow> if c = CHR ''.'' then map_option Addr4 (parseIPv4Fields s)
                 else if c = CHR '':'' then parseIPv6 s else None)"

text \<open>The printed IPv6 form compresses the first longest run of two or more zero groups.\<close>

definition zero_run :: "nat list \<Rightarrow> nat \<Rightarrow> nat" where
  "zero_run gs i = length (takeWhile (\<lambda>g. g = 0) (drop i gs))"

definition longest_zero_run :: "nat list \<Rightarrow> (nat \<times> nat) option" where
  "longest_zero_run gs =
     fold (\<lambda>i best. let l = zero_run gs i in
             if 2 \<le> l \<and> (case best of None \<Rightarrow> True | Some (_, len) \<Rightarrow> len < l)
             then Some (i, l) else best) [0..<8] None"

definition groups_text :: "nat list \<Rightarrow> string" where
  "groups_text gs = join_byte CHR '':'' (map hex_text gs)"

definition string6 :: "nat list \<Rightarrow> string" where
  "string6 gs =
     (case longest_zero_run gs of
        None \<Rightarrow> groups_text gs
      | Some (i, l) \<Rightarrow> groups_text (take i gs) @ ''::'' @ groups_text (drop (i + l) gs))"

definition is_4in6 :: "nat list \<Rightarrow> bool" where
  "is_4in6 gs \<longleftrightarrow> take 6 gs = [0, 0, 0, 0, 0, 65535]"

definition zone_suffix :: "string \<Rightarrow> string" where
  "zone_suffix z = (if z = [] then [] else CHR ''%'' # z)"

fun Addr_String :: "Addr \<Rightarrow> string" where
  "Addr_String (Addr4 os) = string4 os"
| "Addr_String (Addr6 gs z) =
     (if is_4in6 gs
      then ''::ffff:'' @ string4 [gs ! 6 div 256, gs ! 6 mod 256, gs ! 7 div 256, gs ! 7 mod 256]
             @ zone_suffix z
      else string6 gs @ zone_suffix z)"

text \<open>Printing and parsing IPv4 addresses.\<close>

lemma string4_starts:
  assumes "length os = 4" and "list_all (\<lambda>n. n < 256) os"
  shows "find (\<lambda>c. c = CHR ''.'' \<or> c = CHR '':'' \<or> c = CHR ''%'') (string4 os) = Some CHR ''.''"
proof -
  obtain a b c d where os: "os = [a, b, c, d]"
    using assms(1) by (auto simp: length_Suc_conv numeral_eq_Suc)
  have skip: "list_all is_digit p \<Longrightarrow>
      find (\<lambda>c. c = CHR ''.'' \<or> c = CHR '':'' \<or> c = CHR ''%'') (p @ CHR ''.'' # q) = Some CHR ''.''" for p q
    by (induction p) (auto simp: is_digit_def less_eq_char_def)
  show ?thesis using octet_text_digits assms(2) skip by (simp add: os string4_def)
qed

lemma ParseAddr_string4:
  assumes "length os = 4" and "list_all (\<lambda>n. n < 256) os"
  shows "ParseAddr (Addr_String (Addr4 os)) = Some (Addr4 os)"
  using string4_starts [OF assms] parseIPv4Fields_string4 [OF assms] by (simp add: ParseAddr_def)

end
