(* ===== verification/Certificate.thy ===== *)
theory Certificate
  imports Series Netip
begin

text \<open>
  \<open>internal/domain/certificate.go\<close>: subjects, subject alternative names with the DNS label
  grammar and the IP normal form, profiles, the certificate record, the issuance request and the
  three issuance paths (ordinary leaf, bootstrap TLS, subordinate CA). \<open>net/url\<close>'s \<open>Parse\<close> is
  an argument: it gives the scheme of the text it accepts and \<open>None\<close> for a parse error.
\<close>

subsection \<open>Subject\<close>

record Subject =
  su_commonName :: string
  su_organization :: string
  su_organizationalUnit :: string
  su_country :: string

record SubjectFacts =
  suf_CommonName :: string
  suf_Organization :: string
  suf_OrganizationalUnit :: string
  suf_Country :: string

definition maxSubjectFieldLength :: nat where "maxSubjectFieldLength = 255"

definition isUppercaseASCIILetters :: "string \<Rightarrow> bool" where
  "isUppercaseASCIILetters s \<longleftrightarrow> list_all (\<lambda>c. \<not> (c < CHR ''A'' \<or> c > CHR ''Z'')) s"

definition NewSubject :: "SubjectFacts \<Rightarrow> domain_error + Subject" where
  "NewSubject facts =
     (let cn = TrimSpace (suf_CommonName facts) in
      if cn = [] then Inl (Wrapped ErrInvalidValue ''subject common_name must not be empty'')
      else if length cn > maxSubjectFieldLength
        then Inl (Wrapped ErrInvalidValue ''subject common_name too long'')
      else if length (suf_Organization facts) > maxSubjectFieldLength
        then Inl (Wrapped ErrInvalidValue ''subject organization too long'')
      else if length (suf_OrganizationalUnit facts) > maxSubjectFieldLength
        then Inl (Wrapped ErrInvalidValue ''subject organizational_unit too long'')
      else if suf_Country facts \<noteq> []
            \<and> (length (suf_Country facts) \<noteq> 2 \<or> \<not> isUppercaseASCIILetters (suf_Country facts))
        then Inl (Wrapped ErrInvalidValue ''subject country must be a 2 letter uppercase code'')
      else Inr \<lparr>su_commonName = cn, su_organization = suf_Organization facts,
             su_organizationalUnit = suf_OrganizationalUnit facts, su_country = suf_Country facts\<rparr>)"

subsection \<open>Subject alternative names\<close>

datatype SANType = SANTypeDNS | SANTypeIP | SANTypeURI | SANTypeOther string

fun SANType_Validate :: "SANType \<Rightarrow> domain_error option" where
  "SANType_Validate (SANTypeOther _) = Some (Wrapped ErrInvalidValue ''unsupported san type'')"
| "SANType_Validate _ = None"

fun SANType_text :: "SANType \<Rightarrow> string" where
  "SANType_text SANTypeDNS = ''dns''"
| "SANType_text SANTypeIP = ''ip''"
| "SANType_text SANTypeURI = ''uri''"
| "SANType_text (SANTypeOther s) = s"

record SAN =
  san_kind :: SANType
  san_value :: string

definition maxSANValueLength :: nat where "maxSANValueLength = 2048"
definition maxDNSSANLength :: nat where "maxDNSSANLength = 253"
definition maxDNSLabelLength :: nat where "maxDNSLabelLength = 63"

definition dns_char :: "char \<Rightarrow> bool" where
  "dns_char c \<longleftrightarrow> (CHR ''a'' \<le> c \<and> c \<le> CHR ''z'') \<or> (CHR ''A'' \<le> c \<and> c \<le> CHR ''Z'')
     \<or> (CHR ''0'' \<le> c \<and> c \<le> CHR ''9'') \<or> c = CHR ''-''"

definition isValidDNSLabel :: "string \<Rightarrow> bool" where
  "isValidDNSLabel label \<longleftrightarrow>
     (if length label < 1 \<or> length label > maxDNSLabelLength then False
      else if hd label = CHR ''-'' \<or> last label = CHR ''-'' then False
      else list_all dns_char label)"

text \<open>The label loop, with the index of the label at hand.\<close>

fun dns_label_scan :: "nat \<Rightarrow> string list \<Rightarrow> domain_error option" where
  "dns_label_scan i [] = None"
| "dns_label_scan i (label # labels) =
     (if label = [] then Some (Wrapped ErrInvalidValue ''dns san must not contain empty labels'')
      else if label = ''*'' then
        (if i \<noteq> 0 then Some (Wrapped ErrInvalidValue ''wildcard must be the leftmost dns label'')
         else dns_label_scan (Suc i) labels)
      else if CHR ''*'' \<in> set label
        then Some (Wrapped ErrInvalidValue ''wildcard may only replace the entire leftmost label'')
      else if \<not> isValidDNSLabel label
        then Some (Wrapped ErrInvalidValue ''dns san label is not a valid dns label'')
      else dns_label_scan (Suc i) labels)"

definition validateDNSSANValue :: "string \<Rightarrow> domain_error option" where
  "validateDNSSANValue v =
     (if length v > maxDNSSANLength
        then Some (Wrapped ErrInvalidValue ''dns san must be at most 253 characters'')
      else let labels = split_byte CHR ''.'' v in
        or_else_err (dns_label_scan 0 labels)
          (if length labels < 2
             then Some (Wrapped ErrInvalidValue ''dns san must contain at least one dot'') else None))"

definition normalizeIPSANValue :: "string \<Rightarrow> domain_error + string" where
  "normalizeIPSANValue v =
     (case ParseAddr v of
        None \<Rightarrow> Inl (Wrapped ErrInvalidValue ''ip san must be a valid ipv4 or ipv6 address'')
      | Some addr \<Rightarrow>
          if Addr_Zone addr \<noteq> []
            then Inl (Wrapped ErrInvalidValue ''ip san must not carry an ipv6 zone identifier'')
          else Inr (Addr_String addr))"

definition NewSAN :: "(string \<Rightarrow> string option) \<Rightarrow> SANType \<Rightarrow> string \<Rightarrow> domain_error + SAN" where
  "NewSAN url_Parse kind value =
     check_then (SANType_Validate kind)
     (let v = TrimSpace value in
      if v = [] then Inl (Wrapped ErrInvalidValue ''san value must not be empty'')
      else if length v > maxSANValueLength then Inl (Wrapped ErrInvalidValue ''san value too long'')
      else case kind of
        SANTypeDNS \<Rightarrow> check_then (validateDNSSANValue v) (Inr \<lparr>san_kind = kind, san_value = v\<rparr>)
      | SANTypeIP \<Rightarrow> and_then (normalizeIPSANValue v)
          (\<lambda>normalized. Inr \<lparr>san_kind = kind, san_value = normalized\<rparr>)
      | SANTypeURI \<Rightarrow>
          (case url_Parse v of
             None \<Rightarrow> Inl (Wrapped ErrInvalidValue ''uri san must be an absolute uri'')
           | Some scheme \<Rightarrow>
               if scheme = [] then Inl (Wrapped ErrInvalidValue ''uri san must be an absolute uri'')
               else Inr \<lparr>san_kind = kind, san_value = v\<rparr>)
      | SANTypeOther _ \<Rightarrow> Inr \<lparr>san_kind = kind, san_value = v\<rparr>)"

definition NewBootstrapDNSNameSAN :: SAN where
  "NewBootstrapDNSNameSAN = \<lparr>san_kind = SANTypeDNS, san_value = ''cert-me''\<rparr>"

definition SAN_String :: "SAN \<Rightarrow> string" where
  "SAN_String s = SANType_text (san_kind s) @ '':'' @ san_value s"

subsection \<open>Profiles, origins and kinds\<close>

datatype CertificateProfile =
    CertificateProfileServerTLS
  | CertificateProfileClientMTLS
  | CertificateProfileDual
  | CertificateProfileOther string

text \<open>The zero value of a Go string type.\<close>

abbreviation no_profile :: CertificateProfile where
  "no_profile \<equiv> CertificateProfileOther []"

fun CertificateProfile_Validate :: "CertificateProfile \<Rightarrow> domain_error option" where
  "CertificateProfile_Validate (CertificateProfileOther _) =
     Some (Wrapped ErrInvalidValue ''unsupported certificate profile'')"
| "CertificateProfile_Validate _ = None"

fun CertificateProfile_text :: "CertificateProfile \<Rightarrow> string" where
  "CertificateProfile_text CertificateProfileServerTLS = ''server_tls''"
| "CertificateProfile_text CertificateProfileClientMTLS = ''client_mtls''"
| "CertificateProfile_text CertificateProfileDual = ''dual''"
| "CertificateProfile_text (CertificateProfileOther s) = s"

definition RequiresServerSAN :: "CertificateProfile \<Rightarrow> bool" where
  "RequiresServerSAN p \<longleftrightarrow> p = CertificateProfileServerTLS \<or> p = CertificateProfileDual"

definition ValidateSANsForProfile :: "CertificateProfile \<Rightarrow> SAN list \<Rightarrow> domain_error option" where
  "ValidateSANsForProfile profile sans =
     or_else_err (CertificateProfile_Validate profile)
      (if \<not> RequiresServerSAN profile then None
       else if list_ex (\<lambda>s. san_kind s = SANTypeDNS \<or> san_kind s = SANTypeIP) sans then None
       else Some (Wrapped ErrPolicyViolation
         (CertificateProfile_text profile @ '' profile requires at least one dns or ip san'')))"

datatype CertificateOrigin =
    CertificateOriginGenerated | CertificateOriginImported | CertificateOriginOther string

fun CertificateOrigin_Validate :: "CertificateOrigin \<Rightarrow> domain_error option" where
  "CertificateOrigin_Validate (CertificateOriginOther _) =
     Some (Wrapped ErrInvalidValue ''unsupported certificate origin'')"
| "CertificateOrigin_Validate _ = None"

datatype CertificateKind = CertificateKindCA | CertificateKindLeaf | CertificateKindOther string

fun CertificateKind_Validate :: "CertificateKind \<Rightarrow> domain_error option" where
  "CertificateKind_Validate (CertificateKindOther _) =
     Some (Wrapped ErrInvalidValue ''unsupported certificate kind'')"
| "CertificateKind_Validate _ = None"

subsection \<open>The certificate record\<close>

record Certificate =
  ce_id :: CertificateID
  ce_der :: string
  ce_keyMaterialID :: KeyMaterialID
  ce_issuerCAKeyGenerationID :: CAKeyGenerationID
  ce_serial :: SerialNumber
  ce_validity :: ValidityWindow
  ce_subject :: Subject
  ce_sans :: "SAN list"
  ce_kind :: CertificateKind
  ce_profile :: CertificateProfile
  ce_keyAlgorithm :: KeyAlgorithm
  ce_origin :: CertificateOrigin
  ce_createdByAccountID :: AccountID
  ce_version :: Version

record CertificateFacts =
  cef_ID :: CertificateID
  cef_DER :: string
  cef_KeyMaterialID :: KeyMaterialID
  cef_IssuerCAKeyGenerationID :: CAKeyGenerationID
  cef_Serial :: SerialNumber
  cef_Validity :: ValidityWindow
  cef_Subject :: Subject
  cef_SANs :: "SAN list"
  cef_Kind :: CertificateKind
  cef_Profile :: CertificateProfile
  cef_KeyAlgorithm :: KeyAlgorithm
  cef_Origin :: CertificateOrigin
  cef_CreatedByAccountID :: AccountID
  cef_Version :: Version

definition NewCertificate :: "CertificateFacts \<Rightarrow> domain_error + Certificate" where
  "NewCertificate facts =
     check_then (err_of (ParseCertificateID (cef_ID facts)))
     (if cef_DER facts = [] then Inl (Wrapped ErrInvalidValue ''certificate der must not be empty'')
      else check_then (err_of (ParseKeyMaterialID (cef_KeyMaterialID facts)))
      (check_then (err_of (ParseCAKeyGenerationID (cef_IssuerCAKeyGenerationID facts)))
      (if SerialNumber_IsZero (cef_Serial facts)
         then Inl (Wrapped ErrInvalidValue ''certificate serial must be set'')
       else if Window_IsZero (cef_Validity facts)
         then Inl (Wrapped ErrInvalidValue ''certificate validity window must be set'')
       else if su_commonName (cef_Subject facts) = []
         then Inl (Wrapped ErrInvalidValue ''certificate subject must be set'')
       else check_then (CertificateKind_Validate (cef_Kind facts))
       (check_then
         (case cef_Kind facts of
            CertificateKindLeaf \<Rightarrow> ValidateSANsForProfile (cef_Profile facts) (cef_SANs facts)
          | CertificateKindCA \<Rightarrow>
              if cef_Profile facts \<noteq> no_profile
                then Some (Wrapped ErrInvalidValue ''ca certificate must not carry a leaf issuance profile'')
              else None
          | CertificateKindOther _ \<Rightarrow> None)
       (check_then (KeyAlgorithm_Validate (cef_KeyAlgorithm facts))
       (check_then (CertificateOrigin_Validate (cef_Origin facts))
        (Inr \<lparr>ce_id = cef_ID facts, ce_der = cef_DER facts,
           ce_keyMaterialID = cef_KeyMaterialID facts,
           ce_issuerCAKeyGenerationID = cef_IssuerCAKeyGenerationID facts,
           ce_serial = cef_Serial facts, ce_validity = cef_Validity facts,
           ce_subject = cef_Subject facts, ce_sans = cef_SANs facts, ce_kind = cef_Kind facts,
           ce_profile = cef_Profile facts, ce_keyAlgorithm = cef_KeyAlgorithm facts,
           ce_origin = cef_Origin facts, ce_createdByAccountID = cef_CreatedByAccountID facts,
           ce_version = cef_Version facts\<rparr>)))))))"

definition Certificate_IsValidAt :: "Certificate \<Rightarrow> Instant \<Rightarrow> bool" where
  "Certificate_IsValidAt c now \<longleftrightarrow> ContainsAt (ce_validity c) now"

definition Certificate_IsExpiredAt :: "Certificate \<Rightarrow> Instant \<Rightarrow> bool" where
  "Certificate_IsExpiredAt c now \<longleftrightarrow> IsExpiredAt (notAfter (ce_validity c)) now"

subsection \<open>Issuance\<close>

record IssuanceRequest =
  ir_Profile :: CertificateProfile
  ir_Subject :: Subject
  ir_SANs :: "SAN list"
  ir_KeyAlgorithm :: KeyAlgorithm
  ir_Window :: ValidityWindow

definition ValidateFor :: "IssuanceRequest \<Rightarrow> IssuanceIntent \<Rightarrow> domain_error option" where
  "ValidateFor r intent =
     or_else_err (err_of (requiredIssuerKind intent))
     (if su_commonName (ir_Subject r) = []
        then Some (Wrapped ErrInvalidValue ''issuance request subject must be set'')
      else or_else_err
        (if intent = IssuanceIntentSubordinateCA then
           (if ir_Profile r \<noteq> no_profile
              then Some (Wrapped ErrInvalidValue ''a subordinate ca request must not carry a leaf profile'')
            else if length (ir_SANs r) > 0
              then Some (Wrapped ErrInvalidValue ''a subordinate ca request must not carry leaf sans'')
            else None)
         else or_else_err (CertificateProfile_Validate (ir_Profile r))
           (ValidateSANsForProfile (ir_Profile r) (ir_SANs r)))
      (or_else_err (KeyAlgorithm_Validate (ir_KeyAlgorithm r))
       (if Window_IsZero (ir_Window r)
          then Some (Wrapped ErrInvalidValue ''issuance request validity window must be set'')
        else None)))"

definition IssuanceRequest_Validate :: "IssuanceRequest \<Rightarrow> domain_error option" where
  "IssuanceRequest_Validate r = ValidateFor r IssuanceIntentLeaf"

record IssuancePlan =
  ip_Profile :: CertificateProfile
  ip_Subject :: Subject
  ip_SANs :: "SAN list"
  ip_KeyAlgorithm :: KeyAlgorithm
  ip_Window :: ValidityWindow
  ip_IssuerAuthorityID :: AuthorityID
  ip_IssuerKeyGenerationID :: CAKeyGenerationID

definition planIssuance ::
  "Authority \<Rightarrow> IssuanceRequest \<Rightarrow> Instant \<Rightarrow> IssuerContext \<Rightarrow> domain_error + IssuancePlan" where
  "planIssuance issuer req now ctx =
     check_then (ValidateFor req (ic_Intent ctx))
     (check_then (CanIssue issuer (ctx\<lparr>ic_RequestedWindow := ir_Window req\<rparr>) now)
      (Inr \<lparr>ip_Profile = ir_Profile req, ip_Subject = ir_Subject req, ip_SANs = ir_SANs req,
         ip_KeyAlgorithm = ir_KeyAlgorithm req, ip_Window = ir_Window req,
         ip_IssuerAuthorityID = au_id issuer,
         ip_IssuerKeyGenerationID = au_keyGenerationID issuer\<rparr>))"

definition intent_context :: "IssuanceIntent \<Rightarrow> IssuerContext" where
  "intent_context intent =
     \<lparr>ic_RequestedWindow = zero_window, ic_TakeoverConfirmed = False, ic_Intent = intent\<rparr>"

definition PlanIssuance :: "Authority \<Rightarrow> IssuanceRequest \<Rightarrow> Instant \<Rightarrow> domain_error + IssuancePlan" where
  "PlanIssuance issuer req now = planIssuance issuer req now (intent_context IssuanceIntentLeaf)"

definition PlanBootstrapIssuance :: "Authority \<Rightarrow> IssuanceRequest \<Rightarrow> Instant \<Rightarrow> domain_error + IssuancePlan" where
  "PlanBootstrapIssuance issuer req now =
     planIssuance issuer req now (intent_context IssuanceIntentBootstrapTLS)"

definition PlanSubordinateCAIssuance :: "Authority \<Rightarrow> IssuanceRequest \<Rightarrow> Instant \<Rightarrow> domain_error + IssuancePlan" where
  "PlanSubordinateCAIssuance issuer req now =
     planIssuance issuer req now (intent_context IssuanceIntentSubordinateCA)"

definition PlanLeafWindow :: "SeriesPolicy \<Rightarrow> Instant \<Rightarrow> domain_error + ValidityWindow" where
  "PlanLeafWindow pol nb = check_then (SeriesPolicy_Validate pol) (PlanWindow pol nb)"

subsection \<open>Success conditions\<close>

lemma SANType_Validate_None [success_iff]: "SANType_Validate k = None \<longleftrightarrow> (\<forall>s. k \<noteq> SANTypeOther s)"
  by (cases k) simp_all

lemma CertificateProfile_Validate_None [success_iff]:
  "CertificateProfile_Validate p = None \<longleftrightarrow> (\<forall>s. p \<noteq> CertificateProfileOther s)"
  by (cases p) simp_all

lemma CertificateOrigin_Validate_None [success_iff]:
  "CertificateOrigin_Validate p = None \<longleftrightarrow> (\<forall>s. p \<noteq> CertificateOriginOther s)"
  by (cases p) simp_all

lemma CertificateKind_Validate_None [success_iff]:
  "CertificateKind_Validate p = None \<longleftrightarrow> (\<forall>s. p \<noteq> CertificateKindOther s)"
  by (cases p) simp_all

definition server_san :: "SAN \<Rightarrow> bool" where
  "server_san s \<longleftrightarrow> san_kind s = SANTypeDNS \<or> san_kind s = SANTypeIP"

lemma ValidateSANsForProfile_None [success_iff]:
  "ValidateSANsForProfile p sans = None \<longleftrightarrow>
     p = CertificateProfileClientMTLS
     \<or> (p \<in> {CertificateProfileServerTLS, CertificateProfileDual} \<and> (\<exists>s\<in>set sans. server_san s))"
  by (cases p) (auto simp: ValidateSANsForProfile_def RequiresServerSAN_def list_ex_iff server_san_def)

text \<open>What a request must carry on each path.\<close>

lemma ValidateFor_None [success_iff]:
  "ValidateFor r intent = None \<longleftrightarrow>
     su_commonName (ir_Subject r) \<noteq> [] \<and> KeyAlgorithm_Validate (ir_KeyAlgorithm r) = None
     \<and> ir_Window r \<noteq> zero_window
     \<and> (intent = IssuanceIntentSubordinateCA \<and> ir_Profile r = no_profile \<and> ir_SANs r = []
        \<or> intent \<in> {IssuanceIntentLeaf, IssuanceIntentBootstrapTLS}
           \<and> ValidateSANsForProfile (ir_Profile r) (ir_SANs r) = None)"
  by (cases intent) (auto simp: ValidateFor_def success_iff Window_IsZero_iff)

lemma planIssuance_Inr [success_iff]:
  "planIssuance issuer req now ctx = Inr plan \<longleftrightarrow>
     ValidateFor req (ic_Intent ctx) = None
     \<and> CanIssue issuer (ctx\<lparr>ic_RequestedWindow := ir_Window req\<rparr>) now = None
     \<and> plan = \<lparr>ip_Profile = ir_Profile req, ip_Subject = ir_Subject req, ip_SANs = ir_SANs req,
         ip_KeyAlgorithm = ir_KeyAlgorithm req, ip_Window = ir_Window req,
         ip_IssuerAuthorityID = au_id issuer, ip_IssuerKeyGenerationID = au_keyGenerationID issuer\<rparr>"
  by (auto simp: planIssuance_def check_then_Inr)

lemmas issuance_paths = PlanIssuance_def PlanBootstrapIssuance_def PlanSubordinateCAIssuance_def
  intent_context_def

subsection \<open>DNS names\<close>

lemma dns_label_scan_Suc:
  "dns_label_scan (Suc i) labels = None \<longleftrightarrow> list_all isValidDNSLabel labels"
proof (induction labels arbitrary: i)
  case Nil
  show ?case by simp
next
  case (Cons l ls)
  have "isValidDNSLabel l \<Longrightarrow> l \<noteq> [] \<and> CHR ''*'' \<notin> set l"
    by (auto simp: isValidDNSLabel_def list_all_iff dns_char_def less_eq_char_def split: if_splits)
  then show ?case using Cons by (auto split: if_splits)
qed

lemma dns_label_scan_0:
  "dns_label_scan 0 (l # ls) = None \<longleftrightarrow> (l = ''*'' \<or> isValidDNSLabel l) \<and> list_all isValidDNSLabel ls"
proof -
  have "isValidDNSLabel l \<Longrightarrow> l \<noteq> [] \<and> CHR ''*'' \<notin> set l"
    by (auto simp: isValidDNSLabel_def list_all_iff dns_char_def less_eq_char_def split: if_splits)
  then show ?thesis by (auto simp: dns_label_scan_Suc)
qed

text \<open>The grammar the source documents: dotted labels, a wildcard only as the whole first label.\<close>

definition dns_name :: "string \<Rightarrow> bool" where
  "dns_name v \<longleftrightarrow> length v \<le> 253 \<and>
     (case split_byte CHR ''.'' v of
        l # l' # ls \<Rightarrow> (l = ''*'' \<or> isValidDNSLabel l) \<and> list_all isValidDNSLabel (l' # ls)
      | _ \<Rightarrow> False)"

lemma validateDNSSANValue_None [success_iff]: "validateDNSSANValue v = None \<longleftrightarrow> dns_name v"
proof -
  obtain l ls where "split_byte CHR ''.'' v = l # ls" by (cases "split_byte CHR ''.'' v") auto
  then show ?thesis
    by (cases ls) (auto simp: validateDNSSANValue_def dns_name_def maxDNSSANLength_def success_iff
        dns_label_scan_0 simp del: dns_label_scan.simps)
qed

lemma dns_name_not_empty: "dns_name v \<Longrightarrow> v \<noteq> []"
  by (auto simp: dns_name_def)

text \<open>DNS names: \<open>NewSAN\<close> accepts a DNS value exactly when, after trimming, it is a dotted
  name of at most 253 bytes whose labels obey the RFC 1123 grammar, with a wildcard only as the
  entire leftmost label; the stored value is the trimmed text.\<close>

theorem dns_san_grammar:
  "NewSAN url_Parse SANTypeDNS value = Inr s \<longleftrightarrow>
     dns_name (TrimSpace value) \<and> s = \<lparr>san_kind = SANTypeDNS, san_value = TrimSpace value\<rparr>"
proof -
  have "dns_name v \<Longrightarrow> v \<noteq> [] \<and> length v \<le> 2048" for v
    using dns_name_not_empty [of v] by (auto simp: dns_name_def)
  then show ?thesis
    by (auto simp: NewSAN_def Let_def success_iff maxSANValueLength_def not_less)
qed

text \<open>The documented bootstrap identity is outside that grammar, so it needs its own constructor.\<close>

lemma bootstrap_san_not_ordinary: "\<not> dns_name (san_value NewBootstrapDNSNameSAN)"
  by (simp add: dns_name_def NewBootstrapDNSNameSAN_def)

subsection \<open>IP addresses\<close>

text \<open>An accepted IPv4 value is stored in a form that the same check accepts unchanged.\<close>

lemma sequence_opt_Some: "sequence_opt xs = Some ys \<Longrightarrow> length ys = length xs \<and> (\<forall>y\<in>set ys. Some y \<in> set xs)"
  by (induction xs arbitrary: ys rule: sequence_opt.induct) (auto simp: map_option_case split: option.splits)

lemma parseIPv4Fields_range: "parseIPv4Fields s = Some os \<Longrightarrow> length os = 4 \<and> list_all (\<lambda>n. n < 256) os"
proof -
  assume "parseIPv4Fields s = Some os"
  then have fields: "length (split_byte CHR ''.'' s) = 4"
    and "sequence_opt (map parse_octet (split_byte CHR ''.'' s)) = Some os"
    by (auto simp: parseIPv4Fields_def Let_def split: if_splits)
  then have os: "length os = length (split_byte CHR ''.'' s)"
    and mem: "\<forall>y\<in>set os. Some y \<in> parse_octet ` set (split_byte CHR ''.'' s)"
    by (auto dest!: sequence_opt_Some)
  have "parse_octet f = Some y \<Longrightarrow> y < 256" for f y by (auto simp: parse_octet_def split: if_splits)
  then have "Some y \<in> parse_octet ` A \<Longrightarrow> y < 256" for y A by (metis imageE)
  with os fields mem show ?thesis by (auto simp: list_all_iff)
qed

lemma normalize_ipv4_idempotent:
  assumes "ParseAddr v = Some (Addr4 os)" and "normalizeIPSANValue v = Inr w"
  shows "normalizeIPSANValue w = Inr w"
proof -
  from assms(1) have "parseIPv4Fields v = Some os"
    by (auto simp: ParseAddr_def parseIPv6_def Let_def split: option.splits if_splits)
  then have "ParseAddr (Addr_String (Addr4 os)) = Some (Addr4 os)"
    using parseIPv4Fields_range [of v os] by (intro ParseAddr_string4) simp_all
  with assms show ?thesis by (auto simp: normalizeIPSANValue_def)
qed

subsection \<open>Properties of the issuance paths\<close>

text \<open>A certificate is planned only by an issuer entitled to it: on every path, a plan carries
  the request unchanged and names an issuer that is live, enabled, unaffected, without a pending
  takeover, valid now and covering the whole requested period, of the kind the path demands; the
  leaf profile and its required names are present exactly on the leaf paths.\<close>

theorem issuance_plan_sound:
  assumes "planIssuance issuer req now (intent_context intent) = Inr plan"
  shows "ip_IssuerAuthorityID plan = au_id issuer
    \<and> ip_IssuerKeyGenerationID plan = au_keyGenerationID issuer
    \<and> ip_Window plan = ir_Window req \<and> Covers (au_certificateWindow issuer) (ip_Window plan)
    \<and> ContainsAt (au_certificateWindow issuer) now
    \<and> \<not> Authority_IsArchived issuer \<and> au_issuanceState issuer = IssuanceStateEnabled
    \<and> au_keyAvailable issuer \<and> \<not> au_affected issuer \<and> \<not> au_pendingTakeover issuer
    \<and> requiredIssuerKind intent = Inr (au_kind issuer)
    \<and> (if intent = IssuanceIntentSubordinateCA then ip_Profile plan = no_profile \<and> ip_SANs plan = []
       else ip_Profile plan \<noteq> no_profile
         \<and> (RequiresServerSAN (ip_Profile plan) \<longrightarrow> (\<exists>s\<in>set (ip_SANs plan). server_san s)))"
  using assms
  by (auto simp: success_iff intent_context_def RequiresServerSAN_def hasValidCertificateWindowAt_def)

definition sample_request :: IssuanceRequest where
  "sample_request =
     \<lparr>ir_Profile = CertificateProfileServerTLS,
      ir_Subject = \<lparr>su_commonName = ''web'', su_organization = [], su_organizationalUnit = [], su_country = []\<rparr>,
      ir_SANs = [\<lparr>san_kind = SANTypeDNS, san_value = ''web.lan''\<rparr>],
      ir_KeyAlgorithm = KeyAlgorithmECDSAP256,
      ir_Window = \<lparr>notBefore = Instant 20, notAfter = Instant 500\<rparr>\<rparr>"

lemma sample_issuance: "\<exists>plan. PlanIssuance sample_authority sample_request (Instant 20) = Inr plan"
proof -
  have "Covers sample_window (ir_Window sample_request)" and "ContainsAt sample_window (Instant 20)"
    and "ir_Window sample_request \<noteq> zero_window" and "sample_window \<noteq> zero_window"
    by (simp_all add: Covers_iff ContainsAt_iff sample_window_def sample_request_def zero_window_def
        zero_instant_def less_eq_Instant_def less_Instant_def)
  then have "CanIssue sample_authority ((intent_context IssuanceIntentLeaf)\<lparr>ic_RequestedWindow :=
       ir_Window sample_request\<rparr>) (Instant 20) = None"
    by (simp add: success_iff intent_context_def hasValidCertificateWindowAt_def Window_IsZero_iff)
      (simp add: sample_authority_def)
  moreover have "ValidateFor sample_request IssuanceIntentLeaf = None"
    by (simp add: success_iff sample_request_def server_san_def zero_window_def zero_instant_def)
  ultimately show ?thesis by (simp add: PlanIssuance_def success_iff) (simp add: intent_context_def)
qed

theorem issuance_plan_sound_witness:
  "\<exists>plan. PlanIssuance sample_authority sample_request (Instant 20) = Inr plan
     \<and> Covers sample_window (ip_Window plan)"
proof -
  obtain plan where "PlanIssuance sample_authority sample_request (Instant 20) = Inr plan"
    using sample_issuance by blast
  moreover from issuance_plan_sound [OF this [unfolded PlanIssuance_def]]
  have "Covers (au_certificateWindow sample_authority) (ip_Window plan)" by blast
  ultimately show ?thesis by (auto simp: sample_authority_def)
qed

text \<open>The three issuance paths exclude each other: an authority that can serve one of them
  refuses every request on the other two, so an ordinary leaf is never signed by a root or
  bootstrap key and a CA certificate only by a root.\<close>

theorem issuance_paths_disjoint:
  assumes "planIssuance issuer req now (intent_context i) = Inr plan"
    and "planIssuance issuer req' later (intent_context j) = Inr plan'"
  shows "i = j"
  using assms by (cases i; cases j) (auto simp: success_iff intent_context_def)

theorem issuance_paths_disjoint_witness:
  "\<forall>plan. PlanSubordinateCAIssuance sample_authority sample_request (Instant 20) \<noteq> Inr plan"
proof -
  obtain p where "PlanIssuance sample_authority sample_request (Instant 20) = Inr p"
    using sample_issuance by blast
  then show ?thesis
    using issuance_paths_disjoint [of sample_authority sample_request "Instant 20" IssuanceIntentLeaf p
        sample_request "Instant 20" IssuanceIntentSubordinateCA]
    by (auto simp: PlanIssuance_def PlanSubordinateCAIssuance_def)
qed

end
