(* ===== verification/Revocation.thy ===== *)
theory Revocation
  imports Machines Instants
begin

text \<open>
  The revocation ledger half of \<open>internal/domain/revocation.go\<close>: a row per issuer key and serial.
  \<open>Merge\<close> reconciles a further assertion about a revoked certificate, \<open>Correct\<close> is the
  administrator's correction, \<open>StampChangeGeneration\<close> numbers a changed row for the CRL. There is
  no operation that removes a revocation.
\<close>

subsection \<open>Data\<close>

datatype RevocationReason =
    RevocationReasonUnspecified
  | RevocationReasonKeyCompromise
  | RevocationReasonCACompromise
  | RevocationReasonAffiliationChanged
  | RevocationReasonSuperseded
  | RevocationReasonCessationOfOperation
  | RevocationReasonPrivilegeWithdrawn
  | RevocationReasonAACompromise
  | RevocationReasonOther string

fun RevocationReason_Validate :: "RevocationReason \<Rightarrow> domain_error option" where
  "RevocationReason_Validate (RevocationReasonOther _) =
     Some (Wrapped ErrInvalidValue ''unsupported revocation reason'')"
| "RevocationReason_Validate _ = None"

fun RevocationReason_String :: "RevocationReason \<Rightarrow> string" where
  "RevocationReason_String RevocationReasonUnspecified = ''unspecified''"
| "RevocationReason_String RevocationReasonKeyCompromise = ''key_compromise''"
| "RevocationReason_String RevocationReasonCACompromise = ''ca_compromise''"
| "RevocationReason_String RevocationReasonAffiliationChanged = ''affiliation_changed''"
| "RevocationReason_String RevocationReasonSuperseded = ''superseded''"
| "RevocationReason_String RevocationReasonCessationOfOperation = ''cessation_of_operation''"
| "RevocationReason_String RevocationReasonPrivilegeWithdrawn = ''privilege_withdrawn''"
| "RevocationReason_String RevocationReasonAACompromise = ''aa_compromise''"
| "RevocationReason_String (RevocationReasonOther s) = s"

datatype RevocationSource =
    RevocationSourceManual
  | RevocationSourceImport
  | RevocationSourceCascade
  | RevocationSourceOther string

fun RevocationSource_Validate :: "RevocationSource \<Rightarrow> domain_error option" where
  "RevocationSource_Validate (RevocationSourceOther _) =
     Some (Wrapped ErrInvalidValue ''unsupported revocation source'')"
| "RevocationSource_Validate _ = None"

record Revocation =
  rv_id :: RevocationID
  rv_issuerID :: CAKeyGenerationID
  rv_serial :: SerialNumber
  rv_certificateID :: CertificateID
  rv_revokedAt :: Instant
  rv_reason :: RevocationReason
  rv_source :: RevocationSource
  rv_changeGeneration :: int64
  rv_needsReview :: bool
  rv_version :: Version

record RevocationFacts =
  rvf_ID :: RevocationID
  rvf_IssuerID :: CAKeyGenerationID
  rvf_Serial :: SerialNumber
  rvf_CertificateID :: CertificateID
  rvf_RevokedAt :: Instant
  rvf_Reason :: RevocationReason
  rvf_Source :: RevocationSource
  rvf_ChangeGeneration :: int64
  rvf_NeedsReview :: bool
  rvf_Version :: Version

definition NewRevocation :: "RevocationFacts \<Rightarrow> domain_error + Revocation" where
  "NewRevocation facts =
     check_then (err_of (ParseRevocationID (rvf_ID facts)))
     (check_then (err_of (ParseCAKeyGenerationID (rvf_IssuerID facts)))
     (if SerialNumber_IsZero (rvf_Serial facts)
        then Inl (Wrapped ErrInvalidValue ''revocation serial must be set'')
      else if Instant_IsZero (rvf_RevokedAt facts)
        then Inl (Wrapped ErrInvalidValue ''revocation revoked_at must be set'')
      else check_then (RevocationReason_Validate (rvf_Reason facts))
      (check_then (RevocationSource_Validate (rvf_Source facts))
       (Inr \<lparr>rv_id = rvf_ID facts, rv_issuerID = rvf_IssuerID facts, rv_serial = rvf_Serial facts,
          rv_certificateID = rvf_CertificateID facts, rv_revokedAt = rvf_RevokedAt facts,
          rv_reason = rvf_Reason facts, rv_source = rvf_Source facts,
          rv_changeGeneration = rvf_ChangeGeneration facts,
          rv_needsReview = rvf_NeedsReview facts, rv_version = rvf_Version facts\<rparr>))))"

subsection \<open>Operations\<close>

definition sameKey :: "Revocation \<Rightarrow> CAKeyGenerationID \<Rightarrow> SerialNumber \<Rightarrow> bool" where
  "sameKey r issuerID serial \<longleftrightarrow> rv_issuerID r = issuerID \<and> SerialNumber_Equal (rv_serial r) serial"

definition Merge :: "Revocation \<Rightarrow> RevocationFacts \<Rightarrow> domain_error + Revocation \<times> bool" where
  "Merge r incoming =
     check_then (RevocationReason_Validate (rvf_Reason incoming))
     (check_then (RevocationSource_Validate (rvf_Source incoming))
     (if SerialNumber_IsZero (rvf_Serial incoming) \<or> Instant_IsZero (rvf_RevokedAt incoming)
        then Inl (Wrapped ErrInvalidValue ''incoming revocation must carry serial and revoked_at'')
      else if \<not> sameKey r (rvf_IssuerID incoming) (rvf_Serial incoming)
        then Inl (Wrapped ErrInvalidValue ''merge target issuer/serial does not match existing revocation'')
      else if rv_reason r = rvf_Reason incoming \<and> Instant_Equal (rv_revokedAt r) (rvf_RevokedAt incoming)
        then (if rv_certificateID r = [] \<and> rvf_CertificateID incoming \<noteq> []
              then Inr (r\<lparr>rv_certificateID := rvf_CertificateID incoming,
                         rv_version := Version_Next (rv_version r)\<rparr>, True)
              else Inr (r, False))
      else if rv_needsReview r then Inr (r, False)
      else Inr (r\<lparr>rv_needsReview := True, rv_version := Version_Next (rv_version r)\<rparr>, True)))"

definition MaxCorrectClockSkew :: int64 where "MaxCorrectClockSkew = 5 * go_minute"

definition Correct ::
  "Revocation \<Rightarrow> RevocationReason \<Rightarrow> Instant \<Rightarrow> string \<Rightarrow> Instant \<Rightarrow> domain_error + Revocation" where
  "Correct r reason revokedAt justification now =
     check_then (RevocationReason_Validate reason)
     (if Instant_IsZero revokedAt
        then Inl (Wrapped ErrInvalidValue ''corrected revoked_at must be set'')
      else if justification = []
        then Inl (Wrapped ErrInvalidValue ''correction requires a justification'')
      else if Instant_IsZero now
        then Inl (Wrapped ErrInvalidValue ''correction requires now to be set'')
      else if After revokedAt (Instant_Add now (NewDuration MaxCorrectClockSkew))
        then Inl (policy ErrPolicyViolation ''revocation_correct_future_revoked_at''
          ''corrected revoked_at is further than the allowed clock-skew tolerance in the future'')
      else Inr (r\<lparr>rv_reason := reason, rv_revokedAt := revokedAt, rv_needsReview := False,
                 rv_version := Version_Next (rv_version r)\<rparr>))"

definition StampChangeGeneration :: "Revocation \<Rightarrow> int64 \<Rightarrow> domain_error + Revocation" where
  "StampChangeGeneration r generation =
     (if generation \<le> 0 then Inl (Wrapped ErrInvalidValue ''change generation must be positive'')
      else if generation \<le> rv_changeGeneration r
        then Inl (Wrapped ErrInvalidValue ''change generation must advance past the current value'')
      else Inr (r\<lparr>rv_changeGeneration := generation, rv_version := Version_Next (rv_version r)\<rparr>))"

subsection \<open>The revocation row as a machine\<close>

datatype revocation_op =
    OpMerge RevocationFacts
  | OpCorrect RevocationReason Instant string Instant
  | OpStamp int64

fun revocation_step :: "Revocation \<Rightarrow> revocation_op \<Rightarrow> domain_error + Revocation" where
  "revocation_step r (OpMerge f) = map_sum id fst (Merge r f)"
| "revocation_step r (OpCorrect reason at j now) = Correct r reason at j now"
| "revocation_step r (OpStamp g) = StampChangeGeneration r g"

lemma map_sum_Inr [success_iff]: "map_sum f g m = Inr y \<longleftrightarrow> (\<exists>x. m = Inr x \<and> y = g x)"
  by (cases m) auto

lemma RevocationReason_Validate_None [success_iff]:
  "RevocationReason_Validate x = None \<longleftrightarrow> (\<forall>s. x \<noteq> RevocationReasonOther s)"
  by (cases x) simp_all

lemma RevocationSource_Validate_None [success_iff]:
  "RevocationSource_Validate x = None \<longleftrightarrow> (\<forall>s. x \<noteq> RevocationSourceOther s)"
  by (cases x) simp_all

text \<open>An assertion that concerns this row, and whether it agrees with what the row says.\<close>

definition assertion_ok :: "Revocation \<Rightarrow> RevocationFacts \<Rightarrow> bool" where
  "assertion_ok r f \<longleftrightarrow> RevocationReason_Validate (rvf_Reason f) = None
     \<and> RevocationSource_Validate (rvf_Source f) = None
     \<and> \<not> SerialNumber_IsZero (rvf_Serial f) \<and> \<not> Instant_IsZero (rvf_RevokedAt f)
     \<and> rvf_IssuerID f = rv_issuerID r \<and> rvf_Serial f = rv_serial r"

definition agrees :: "Revocation \<Rightarrow> RevocationFacts \<Rightarrow> bool" where
  "agrees r f \<longleftrightarrow> rvf_Reason f = rv_reason r \<and> rvf_RevokedAt f = rv_revokedAt r"

definition merged :: "Revocation \<Rightarrow> RevocationFacts \<Rightarrow> Revocation" where
  "merged r f =
     (if agrees r f
      then (if rv_certificateID r = [] \<and> rvf_CertificateID f \<noteq> []
            then r\<lparr>rv_certificateID := rvf_CertificateID f, rv_version := Version_Next (rv_version r)\<rparr>
            else r)
      else if rv_needsReview r then r
      else r\<lparr>rv_needsReview := True, rv_version := Version_Next (rv_version r)\<rparr>)"

text \<open>\<open>Merge\<close> reports a change exactly when the row changed.\<close>

lemma record_changes [simp]:
  "c \<noteq> [] \<Longrightarrow> rv_certificateID r = [] \<Longrightarrow> r\<lparr>rv_certificateID := c, rv_version := v\<rparr> \<noteq> r"
  "\<not> rv_needsReview r \<Longrightarrow> r\<lparr>rv_needsReview := True, rv_version := v\<rparr> \<noteq> r"
proof -
  have "r\<lparr>rv_certificateID := c, rv_version := v\<rparr> = r \<Longrightarrow> rv_certificateID r = c"
    by (drule arg_cong [where f = rv_certificateID]) simp
  then show "c \<noteq> [] \<Longrightarrow> rv_certificateID r = [] \<Longrightarrow> r\<lparr>rv_certificateID := c, rv_version := v\<rparr> \<noteq> r"
    by auto
  have "r\<lparr>rv_needsReview := True, rv_version := v\<rparr> = r \<Longrightarrow> rv_needsReview r"
    by (drule arg_cong [where f = rv_needsReview]) simp
  then show "\<not> rv_needsReview r \<Longrightarrow> r\<lparr>rv_needsReview := True, rv_version := v\<rparr> \<noteq> r" by auto
qed

lemma Merge_Inr [success_iff]:
  "Merge r f = Inr x \<longleftrightarrow> assertion_ok r f \<and> x = (merged r f, merged r f \<noteq> r)"
proof -
  have same: "rv_reason r = rvf_Reason f \<and> Instant_Equal (rv_revokedAt r) (rvf_RevokedAt f) \<longleftrightarrow> agrees r f"
    by (auto simp: agrees_def)
  have outcome: "(if agrees r f
      then (if rv_certificateID r = [] \<and> rvf_CertificateID f \<noteq> []
            then Inr (r\<lparr>rv_certificateID := rvf_CertificateID f, rv_version := Version_Next (rv_version r)\<rparr>, True)
            else Inr (r, False))
      else if rv_needsReview r then Inr (r, False)
      else Inr (r\<lparr>rv_needsReview := True, rv_version := Version_Next (rv_version r)\<rparr>, True))
      = (Inr (merged r f, merged r f \<noteq> r) :: domain_error + Revocation \<times> bool)"
    by (simp add: merged_def)
  show ?thesis
    unfolding Merge_def same outcome
    by (auto simp: check_then_Inr assertion_ok_def sameKey_def)
qed

lemma Correct_Inr [success_iff]:
  "Correct r reason at j now = Inr r' \<longleftrightarrow>
     RevocationReason_Validate reason = None \<and> at \<noteq> zero_instant \<and> j \<noteq> [] \<and> now \<noteq> zero_instant
     \<and> at \<le> Instant_Add now (NewDuration MaxCorrectClockSkew)
     \<and> r' = r\<lparr>rv_reason := reason, rv_revokedAt := at, rv_needsReview := False,
              rv_version := Version_Next (rv_version r)\<rparr>"
  by (auto simp: Correct_def check_then_Inr Instant_IsZero_iff not_less)

lemma Stamp_Inr [success_iff]:
  "StampChangeGeneration r g = Inr r' \<longleftrightarrow> 0 < g \<and> rv_changeGeneration r < g
     \<and> r' = r\<lparr>rv_changeGeneration := g, rv_version := Version_Next (rv_version r)\<rparr>"
  by (auto simp: StampChangeGeneration_def)

definition revocation_identity ::
  "Revocation \<Rightarrow> RevocationID \<times> CAKeyGenerationID \<times> SerialNumber \<times> RevocationSource" where
  "revocation_identity r = (rv_id r, rv_issuerID r, rv_serial r, rv_source r)"

interpretation rm: versioned_machine revocation_step rv_version revocation_identity
proof
  fix s x s'
  assume step: "revocation_step s x = Inr s'"
  show "revocation_identity s' = revocation_identity s"
    using step by (cases x) (auto simp: success_iff revocation_identity_def merged_def)
  assume "s' \<noteq> s"
  with step show "rv_version s' = Version_Next (rv_version s)"
    by (cases x) (auto simp: success_iff merged_def split: if_splits)
qed

text \<open>What restores from storage is a valid row, and stays one.\<close>

definition revocation_ok :: "Revocation \<Rightarrow> bool" where
  "revocation_ok r \<longleftrightarrow> canonical_uuid (rv_id r) \<and> canonical_uuid (rv_issuerID r)
     \<and> \<not> SerialNumber_IsZero (rv_serial r) \<and> rv_revokedAt r \<noteq> zero_instant
     \<and> RevocationReason_Validate (rv_reason r) = None
     \<and> RevocationSource_Validate (rv_source r) = None"

lemma NewRevocation_ok: "NewRevocation f = Inr r \<Longrightarrow> revocation_ok r"
  by (auto simp: NewRevocation_def revocation_ok_def check_then_Inr success_iff Instant_IsZero_iff)

lemma revocation_step_ok: "revocation_ok r \<Longrightarrow> revocation_step r x = Inr r' \<Longrightarrow> revocation_ok r'"
  by (cases x) (auto simp: success_iff revocation_ok_def merged_def)

lemma revocation_step_generation:
  "revocation_step r x = Inr r' \<Longrightarrow> rv_changeGeneration r \<le> rv_changeGeneration r'"
  by (cases x) (auto simp: success_iff merged_def)

subsection \<open>Properties\<close>

text \<open>A batch of assertions about one row, each tried on the row as it then is.\<close>

definition merge_all :: "Revocation \<Rightarrow> RevocationFacts list \<Rightarrow> Revocation" where
  "merge_all r fs = run_keep revocation_step r (map OpMerge fs)"

lemma keep_merge: "keep_step revocation_step r (OpMerge f) = (if assertion_ok r f then merged r f else r)"
proof (cases "assertion_ok r f")
  case True
  then have "Merge r f = Inr (merged r f, merged r f \<noteq> r)" by (simp add: Merge_Inr)
  with True show ?thesis by (simp add: keep_step_def)
next
  case False
  then have "\<not> (\<exists>x. Merge r f = Inr x)" by (simp add: Merge_Inr)
  then have "\<exists>e. Merge r f = Inl e" by (cases "Merge r f") auto
  with False show ?thesis by (auto simp: keep_step_def)
qed

lemma merged_same_assertions [simp]:
  "assertion_ok (merged r f) g = assertion_ok r g" "agrees (merged r f) g = agrees r g"
  by (simp_all add: merged_def assertion_ok_def agrees_def)

lemma merge_all_facts:
  "rv_reason (merge_all r fs) = rv_reason r \<and> rv_revokedAt (merge_all r fs) = rv_revokedAt r
   \<and> rv_changeGeneration (merge_all r fs) = rv_changeGeneration r
   \<and> (rv_needsReview (merge_all r fs) \<longleftrightarrow>
        rv_needsReview r \<or> (\<exists>f\<in>set fs. assertion_ok r f \<and> \<not> agrees r f))"
proof (induction fs arbitrary: r)
  case Nil
  show ?case by (simp add: merge_all_def)
next
  case (Cons f fs)
  have *: "merge_all r (f # fs) = merge_all (if assertion_ok r f then merged r f else r) fs"
    by (simp add: merge_all_def keep_merge)
  show ?case
  proof (cases "assertion_ok r f")
    case True
    have m: "rv_reason (merged r f) = rv_reason r" "rv_revokedAt (merged r f) = rv_revokedAt r"
      "rv_changeGeneration (merged r f) = rv_changeGeneration r"
      "rv_needsReview (merged r f) \<longleftrightarrow> rv_needsReview r \<or> \<not> agrees r f"
      by (simp_all add: merged_def)
    from True Cons [of "merged r f"] show ?thesis by (auto simp: * m)
  next
    case False
    with Cons [of r] show ?thesis by (auto simp: *)
  qed
qed

text \<open>C35. Merging never overwrites a revocation and does not depend on order: whatever assertions
  arrive, in whatever order, the recorded reason, time and identity stay as first stored, and the
  row ends up flagged for review exactly when it was already flagged or some well-formed assertion
  about it disagreed.\<close>

theorem merge_preserves_and_flags:
  "revocation_identity (merge_all r fs) = revocation_identity r
   \<and> rv_reason (merge_all r fs) = rv_reason r \<and> rv_revokedAt (merge_all r fs) = rv_revokedAt r
   \<and> (rv_needsReview (merge_all r fs) \<longleftrightarrow>
        rv_needsReview r \<or> (\<exists>f\<in>set fs. assertion_ok r f \<and> \<not> agrees r f))"
  using merge_all_facts [of r fs] rm.run_ident [of r "map OpMerge fs"] by (simp add: merge_all_def)

definition sample_revocation :: Revocation where
  "sample_revocation = \<lparr>rv_id = sample_uuid CHR ''1'', rv_issuerID = sample_uuid CHR ''2'',
     rv_serial = SerialNumber ''ab'', rv_certificateID = [], rv_revokedAt = Instant 50,
     rv_reason = RevocationReasonSuperseded, rv_source = RevocationSourceManual,
     rv_changeGeneration = 1, rv_needsReview = False, rv_version = 1\<rparr>"

definition sample_assertion :: RevocationFacts where
  "sample_assertion = \<lparr>rvf_ID = sample_uuid CHR ''3'', rvf_IssuerID = sample_uuid CHR ''2'',
     rvf_Serial = SerialNumber ''ab'', rvf_CertificateID = [], rvf_RevokedAt = Instant 60,
     rvf_Reason = RevocationReasonKeyCompromise, rvf_Source = RevocationSourceImport,
     rvf_ChangeGeneration = 0, rvf_NeedsReview = False, rvf_Version = 0\<rparr>"

lemma sample_assertion_ok: "assertion_ok sample_revocation sample_assertion"
  by (simp add: assertion_ok_def sample_revocation_def sample_assertion_def SerialNumber_IsZero_def
      Instant_IsZero_iff zero_instant_def)

theorem merge_preserves_and_flags_witness:
  "rv_needsReview (merge_all sample_revocation [sample_assertion])"
proof -
  have "\<not> agrees sample_revocation sample_assertion"
    by (simp add: agrees_def sample_revocation_def sample_assertion_def)
  with sample_assertion_ok show ?thesis
    using merge_preserves_and_flags [of sample_revocation "[sample_assertion]"] by simp
qed

text \<open>Merging is idempotent and its change report is exact: the flag returned by \<open>Merge\<close> says
  whether the row changed, and repeating the same assertion right away never changes it again, so
  a replayed import stamps nothing.\<close>

theorem merge_idempotent:
  assumes "Merge r f = Inr (r', changed)"
  shows "changed = (r' \<noteq> r) \<and> Merge r' f = Inr (r', False)"
proof -
  from assms have ok: "assertion_ok r f" and r': "r' = merged r f" and ch: "changed = (r' \<noteq> r)"
    by (simp_all add: Merge_Inr)
  have "merged r' f = r'"
    by (simp add: r' merged_def agrees_def)
  with ok r' have "Merge r' f = Inr (r', False)" by (simp add: Merge_Inr)
  with ch show ?thesis by simp
qed

theorem merge_idempotent_witness:
  "\<exists>r'. Merge sample_revocation sample_assertion = Inr (r', r' \<noteq> sample_revocation)
     \<and> Merge r' sample_assertion = Inr (r', False)"
proof -
  let ?r = "merged sample_revocation sample_assertion"
  have m: "Merge sample_revocation sample_assertion = Inr (?r, ?r \<noteq> sample_revocation)"
    using sample_assertion_ok by (simp add: Merge_Inr)
  with merge_idempotent [OF m] show ?thesis by blast
qed

text \<open>A revocation is permanent: under any run of merges, corrections and stamps the row keeps
  its issuer, serial and source, still carries a revocation time and a supported reason, and its
  change generation never goes back; a correction never places the revocation more than five
  minutes after the time it was made.\<close>

theorem revocation_permanent:
  assumes "revocation_ok r"
  shows "revocation_ok (run_keep revocation_step r xs)
    \<and> revocation_identity (run_keep revocation_step r xs) = revocation_identity r
    \<and> rv_changeGeneration r \<le> rv_changeGeneration (run_keep revocation_step r xs)
    \<and> (Correct r reason at j now = Inr r' \<longrightarrow>
         rv_revokedAt r' \<le> Instant_Add now (Duration 300000000) \<and> \<not> rv_needsReview r')"
proof -
  have "revocation_ok (run_keep revocation_step r xs)"
    by (rule run_keep_invariant [of revocation_ok revocation_step r xs])
      (use assms revocation_step_ok in auto)
  moreover have "rv_changeGeneration r \<le> rv_changeGeneration (run_keep revocation_step r xs)"
    by (rule run_keep_relates [where R = "\<lambda>a b. rv_changeGeneration a \<le> rv_changeGeneration b"])
      (auto dest: revocation_step_generation)
  moreover have "NewDuration MaxCorrectClockSkew = Duration 300000000"
    by (simp add: NewDuration_def MaxCorrectClockSkew_def go_minute_def go_div_nonneg)
  ultimately show ?thesis using rm.run_ident [of r xs] by (auto simp: success_iff)
qed

theorem revocation_permanent_witness:
  "revocation_ok (run_keep revocation_step sample_revocation [OpMerge sample_assertion, OpStamp 7])"
proof -
  have "revocation_ok sample_revocation"
    by (simp add: revocation_ok_def sample_revocation_def SerialNumber_IsZero_def zero_instant_def)
  then show ?thesis by (rule revocation_permanent [THEN conjunct1])
qed

end
