(* ===== verification/CRL_State.thy ===== *)
theory CRL_State
  imports Machines Instants
begin

text \<open>
  The publication half of \<open>internal/domain/revocation.go\<close>: the per-CA-key ledger of reserved CRL
  numbers, the revocation change generation, and the published document. The properties are the
  ones a relying party depends on: numbers are never reused, a published CRL is never replaced by
  an older one even when jobs complete out of order, and a closed ledger stays closed.
\<close>

subsection \<open>Data\<close>

datatype PublicationState =
    PublicationStateInactive
  | PublicationStateActive
  | PublicationStateClosed
  | PublicationStateOther string

fun PublicationState_Validate :: "PublicationState \<Rightarrow> domain_error option" where
  "PublicationState_Validate (PublicationStateOther _) =
     Some (Wrapped ErrInvalidValue ''unsupported publication state'')"
| "PublicationState_Validate _ = None"

record CRLState =
  cs_caKeyGenerationID :: CAKeyGenerationID
  cs_maxReservedNumber :: CRLNumber
  cs_revocationGeneration :: int64
  cs_publishedDocumentID :: CRLDocumentID
  cs_publishedNumber :: CRLNumber
  cs_publishedGeneration :: int64
  cs_nextPublishAt :: Instant
  cs_publicationState :: PublicationState
  cs_signingCACertificateID :: CertificateID
  cs_version :: Version

record CRLStateFacts =
  csf_CAKeyGenerationID :: CAKeyGenerationID
  csf_MaxReservedNumber :: CRLNumber
  csf_RevocationGeneration :: int64
  csf_PublishedDocumentID :: CRLDocumentID
  csf_PublishedNumber :: CRLNumber
  csf_PublishedGeneration :: int64
  csf_NextPublishAt :: Instant
  csf_PublicationState :: PublicationState
  csf_SigningCACertificateID :: CertificateID
  csf_Version :: Version

definition NewCRLState :: "CRLStateFacts \<Rightarrow> domain_error + CRLState" where
  "NewCRLState facts =
     check_then (err_of (ParseCAKeyGenerationID (csf_CAKeyGenerationID facts)))
     (check_then (PublicationState_Validate (csf_PublicationState facts))
     (if csf_RevocationGeneration facts < 0
        then Inl (Wrapped ErrInvalidValue ''revocation generation must not be negative'')
      else if csf_PublishedGeneration facts < 0
        then Inl (Wrapped ErrInvalidValue ''published generation must not be negative'')
      else Inr \<lparr>cs_caKeyGenerationID = csf_CAKeyGenerationID facts,
             cs_maxReservedNumber = csf_MaxReservedNumber facts,
             cs_revocationGeneration = csf_RevocationGeneration facts,
             cs_publishedDocumentID = csf_PublishedDocumentID facts,
             cs_publishedNumber = csf_PublishedNumber facts,
             cs_publishedGeneration = csf_PublishedGeneration facts,
             cs_nextPublishAt = csf_NextPublishAt facts,
             cs_publicationState = csf_PublicationState facts,
             cs_signingCACertificateID = csf_SigningCACertificateID facts,
             cs_version = csf_Version facts\<rparr>))"

definition DefaultCRLReissuePeriod :: Duration where
  "DefaultCRLReissuePeriod = NewDuration (12 * go_hour)"

definition DefaultCRLValidity :: Duration where
  "DefaultCRLValidity = NewDuration (48 * go_hour)"

subsection \<open>Operations\<close>

definition BumpRevocationGeneration :: "CRLState \<Rightarrow> CRLState" where
  "BumpRevocationGeneration c =
     c\<lparr>cs_revocationGeneration := wrap64 (cs_revocationGeneration c + 1),
       cs_version := Version_Next (cs_version c)\<rparr>"

definition ReserveNext :: "CRLState \<Rightarrow> CRLNumber \<times> CRLState" where
  "ReserveNext c =
     (let next = CRLNumber_Increment (cs_maxReservedNumber c)
      in (next, c\<lparr>cs_maxReservedNumber := next, cs_version := Version_Next (cs_version c)\<rparr>))"

definition ObserveImportedNumber :: "CRLState \<Rightarrow> CRLNumber \<Rightarrow> CRLState \<times> bool" where
  "ObserveImportedNumber c number =
     (if CRLNumber_IsZero number \<or> CRLNumber_Compare number (cs_maxReservedNumber c) \<le> 0
        then (c, False)
      else (c\<lparr>cs_maxReservedNumber := number, cs_version := Version_Next (cs_version c)\<rparr>, True))"

definition equalZero :: "CRLDocumentID \<Rightarrow> bool" where
  "equalZero docID \<longleftrightarrow> docID = []"

definition CanPublish :: "CRLState \<Rightarrow> CRLNumber \<Rightarrow> int64 \<Rightarrow> domain_error option" where
  "CanPublish c number coveredGeneration =
     (if cs_publicationState c = PublicationStateClosed
        then Some (policy ErrNotPermitted ''crl_publication_closed'' ''CA key CRL publication is closed'')
      else if (\<not> CRLNumber_IsZero (cs_publishedNumber c) \<or> cs_publishedGeneration c \<noteq> 0
               \<or> \<not> equalZero (cs_publishedDocumentID c))
            \<and> CRLNumber_Compare number (cs_publishedNumber c) \<le> 0
        then Some (policy ErrConflict ''crl_number_regression''
          ''a CRL with this number or older is already published'')
      else if coveredGeneration < cs_publishedGeneration c
        then Some (policy ErrConflict ''crl_generation_regression''
          ''this CRL covers an older revocation generation than what is already published'')
      else None)"

definition MarkPublished ::
  "CRLState \<Rightarrow> CRLDocumentID \<Rightarrow> CRLNumber \<Rightarrow> int64 \<Rightarrow> Instant \<Rightarrow> domain_error + CRLState" where
  "MarkPublished c documentID number coveredGeneration nextPublishAt =
     check_then (err_of (ParseCRLDocumentID documentID))
     (check_then (CanPublish c number coveredGeneration)
     (if Instant_IsZero nextPublishAt
        then Inl (Wrapped ErrInvalidValue ''next_publish_at must be set'')
      else Inr (c\<lparr>cs_publishedDocumentID := documentID, cs_publishedNumber := number,
                 cs_publishedGeneration := coveredGeneration, cs_nextPublishAt := nextPublishAt,
                 cs_publicationState :=
                   (if cs_publicationState c = PublicationStateInactive
                    then PublicationStateActive else cs_publicationState c),
                 cs_version := Version_Next (cs_version c)\<rparr>)))"

definition SetSigningCertificate :: "CRLState \<Rightarrow> CertificateID \<Rightarrow> domain_error + CRLState" where
  "SetSigningCertificate c certificateID =
     check_then (err_of (ParseCertificateID certificateID))
     (if cs_publicationState c = PublicationStateClosed
        then Inl (policy ErrNotPermitted ''crl_publication_closed'' ''CA key CRL publication is closed'')
      else Inr (c\<lparr>cs_signingCACertificateID := certificateID,
                 cs_version := Version_Next (cs_version c)\<rparr>))"

record CRLClosureFacts =
  ccf_AllCoveredCertificatesExpired :: bool
  ccf_FinalCRLCoversLastExpiry :: bool

definition CRLState_Close :: "CRLState \<Rightarrow> CRLClosureFacts \<Rightarrow> domain_error + CRLState" where
  "CRLState_Close c facts =
     (if cs_publicationState c = PublicationStateClosed then Inr c
      else if \<not> ccf_AllCoveredCertificatesExpired facts
        then Inl (policy ErrNotPermitted ''crl_close_pending_certificates''
          ''not every certificate under this CA key has expired'')
      else if \<not> ccf_FinalCRLCoversLastExpiry facts
        then Inl (policy ErrNotPermitted ''crl_close_missing_final_crl''
          ''no final CRL covering the last expiry has been published'')
      else Inr (c\<lparr>cs_publicationState := PublicationStateClosed,
                 cs_version := Version_Next (cs_version c)\<rparr>))"

subsection \<open>The ledger as a machine\<close>

datatype crl_op =
    OpBump
  | OpReserve
  | OpObserve CRLNumber
  | OpPublish CRLDocumentID CRLNumber int64 Instant
  | OpSetSigning CertificateID
  | OpClose CRLClosureFacts

fun crl_step :: "CRLState \<Rightarrow> crl_op \<Rightarrow> domain_error + CRLState" where
  "crl_step c OpBump = Inr (BumpRevocationGeneration c)"
| "crl_step c OpReserve = Inr (snd (ReserveNext c))"
| "crl_step c (OpObserve n) = Inr (fst (ObserveImportedNumber c n))"
| "crl_step c (OpPublish d n g t) = MarkPublished c d n g t"
| "crl_step c (OpSetSigning d) = SetSigningCertificate c d"
| "crl_step c (OpClose f) = CRLState_Close c f"

lemmas crl_op_defs = BumpRevocationGeneration_def ReserveNext_def ObserveImportedNumber_def
  SetSigningCertificate_def CRLState_Close_def Let_def

definition something_published :: "CRLState \<Rightarrow> bool" where
  "something_published c \<longleftrightarrow> \<not> CRLNumber_IsZero (cs_publishedNumber c)
     \<or> cs_publishedGeneration c \<noteq> 0 \<or> cs_publishedDocumentID c \<noteq> []"

lemma CanPublish_None [success_iff]:
  "CanPublish c n g = None \<longleftrightarrow> cs_publicationState c \<noteq> PublicationStateClosed
     \<and> (something_published c \<longrightarrow> CRLNumber_Big (cs_publishedNumber c) < CRLNumber_Big n)
     \<and> cs_publishedGeneration c \<le> g"
  by (auto simp: CanPublish_def something_published_def equalZero_def CRLNumber_Compare_def not_le)

definition published_by :: "CRLState \<Rightarrow> CRLDocumentID \<Rightarrow> CRLNumber \<Rightarrow> int64 \<Rightarrow> Instant \<Rightarrow> CRLState" where
  "published_by c d n g t =
     c\<lparr>cs_publishedDocumentID := d, cs_publishedNumber := n, cs_publishedGeneration := g,
       cs_nextPublishAt := t,
       cs_publicationState := (if cs_publicationState c = PublicationStateInactive
                               then PublicationStateActive else cs_publicationState c),
       cs_version := Version_Next (cs_version c)\<rparr>"

lemma MarkPublished_Inr [success_iff]:
  "MarkPublished c d n g t = Inr c' \<longleftrightarrow>
     canonical_uuid d \<and> CanPublish c n g = None \<and> t \<noteq> zero_instant \<and> c' = published_by c d n g t"
  unfolding MarkPublished_def check_then_Inr published_by_def
  by (auto simp: err_of_None ParseID_Inr Instant_IsZero_iff)

lemma published_by_simps [simp]:
  "cs_publishedDocumentID (published_by c d n g t) = d"
  "cs_publishedNumber (published_by c d n g t) = n"
  "cs_publishedGeneration (published_by c d n g t) = g"
  "cs_nextPublishAt (published_by c d n g t) = t"
  "cs_maxReservedNumber (published_by c d n g t) = cs_maxReservedNumber c"
  "cs_caKeyGenerationID (published_by c d n g t) = cs_caKeyGenerationID c"
  "cs_version (published_by c d n g t) = Version_Next (cs_version c)"
  "cs_publicationState (published_by c d n g t) = PublicationStateClosed \<longleftrightarrow>
     cs_publicationState c = PublicationStateClosed"
  by (simp_all add: published_by_def)

interpretation cm: versioned_machine crl_step cs_version cs_caKeyGenerationID
proof
  fix s x s'
  assume step: "crl_step s x = Inr s'"
  show "cs_caKeyGenerationID s' = cs_caKeyGenerationID s"
    using step by (cases x) (auto simp: crl_op_defs success_iff split: if_splits)
  assume "s' \<noteq> s"
  with step show "cs_version s' = Version_Next (cs_version s)"
    by (cases x) (auto simp: crl_op_defs success_iff split: if_splits)
qed

subsection \<open>Reserved numbers\<close>

definition reserved :: "CRLState \<Rightarrow> int" where
  "reserved c = CRLNumber_Big (cs_maxReservedNumber c)"

lemma reserved_step: "crl_step c x = Inr c' \<Longrightarrow> reserved c \<le> reserved c'"
  by (cases x) (auto simp: crl_op_defs success_iff reserved_def CRLNumber_Compare_def split: if_splits)

lemma reserved_keep: "reserved c \<le> reserved (keep_step crl_step c x)"
  using keep_step_cases [of crl_step c x] reserved_step by (metis order_refl)

text \<open>The numbers a run hands out.\<close>

fun numbers_handed_out :: "CRLState \<Rightarrow> crl_op list \<Rightarrow> CRLNumber list" where
  "numbers_handed_out c [] = []"
| "numbers_handed_out c (x # xs) =
     (case x of OpReserve \<Rightarrow> [fst (ReserveNext c)] | _ \<Rightarrow> [])
     @ numbers_handed_out (keep_step crl_step c x) xs"

lemma numbers_above: "n \<in> set (numbers_handed_out c xs) \<Longrightarrow> reserved c < CRLNumber_Big n"
proof (induction xs arbitrary: c)
  case Nil
  then show ?case by simp
next
  case (Cons x xs)
  show ?case
  proof (cases "n \<in> set (numbers_handed_out (keep_step crl_step c x) xs)")
    case True
    then have "reserved (keep_step crl_step c x) < CRLNumber_Big n" by (rule Cons.IH)
    with reserved_keep [of c x] show ?thesis by linarith
  next
    case False
    with Cons.prems have "x = OpReserve" and "n = fst (ReserveNext c)"
      by (auto split: crl_op.splits)
    then show ?thesis by (simp add: ReserveNext_def Let_def reserved_def)
  qed
qed

text \<open>C36. CRL numbers are never reused: over any sequence of ledger operations, the numbers handed
  out are strictly increasing and above everything reserved or imported before, whether or not the
  publications they were meant for succeeded.\<close>

theorem crl_numbers_strictly_increase:
  "sorted_wrt (\<lambda>a b. CRLNumber_Big a < CRLNumber_Big b) (numbers_handed_out c xs)
   \<and> (\<forall>n\<in>set (numbers_handed_out c xs). reserved c < CRLNumber_Big n)
   \<and> reserved c \<le> reserved (run_keep crl_step c xs)"
proof (intro conjI ballI)
  show "reserved c < CRLNumber_Big n" if "n \<in> set (numbers_handed_out c xs)" for n
    using that by (rule numbers_above)
  show "reserved c \<le> reserved (run_keep crl_step c xs)"
    by (rule run_keep_relates [where R = "\<lambda>a b. reserved a \<le> reserved b"])
      (auto dest: reserved_step)
  show "sorted_wrt (\<lambda>a b. CRLNumber_Big a < CRLNumber_Big b) (numbers_handed_out c xs)"
  proof (induction xs arbitrary: c)
    case Nil
    show ?case by simp
  next
    case (Cons x xs)
    have "CRLNumber_Big (fst (ReserveNext c)) = reserved (keep_step crl_step c OpReserve)"
      by (simp add: keep_step_def ReserveNext_def Let_def reserved_def)
    with Cons numbers_above [of _ "keep_step crl_step c x" xs]
    show ?case by (cases x) (simp_all add: sorted_wrt_append)
  qed
qed

definition sample_crl_state :: CRLState where
  "sample_crl_state = \<lparr>cs_caKeyGenerationID = sample_uuid CHR ''1'', cs_maxReservedNumber = CRLNumber [],
     cs_revocationGeneration = 0, cs_publishedDocumentID = [], cs_publishedNumber = CRLNumber [],
     cs_publishedGeneration = 0, cs_nextPublishAt = zero_instant,
     cs_publicationState = PublicationStateInactive, cs_signingCACertificateID = [], cs_version = 1\<rparr>"

theorem crl_numbers_strictly_increase_witness:
  "map CRLNumber_Big (numbers_handed_out sample_crl_state [OpReserve, OpObserve (CRLNumber ''ff''), OpReserve])
     = [1, 256] \<and> reserved sample_crl_state
     \<le> reserved (run_keep crl_step sample_crl_state [OpReserve, OpObserve (CRLNumber ''ff''), OpReserve])"
proof
  show "map CRLNumber_Big (numbers_handed_out sample_crl_state
      [OpReserve, OpObserve (CRLNumber ''ff''), OpReserve]) = [1, 256]"
    by code_simp
qed (rule crl_numbers_strictly_increase [THEN conjunct2, THEN conjunct2])

subsection \<open>Publication\<close>

definition not_older :: "CRLState \<Rightarrow> CRLState \<Rightarrow> bool" where
  "not_older c c' \<longleftrightarrow>
     cs_publishedGeneration c \<le> cs_publishedGeneration c'
     \<and> (something_published c \<longrightarrow> something_published c'
          \<and> CRLNumber_Big (cs_publishedNumber c) \<le> CRLNumber_Big (cs_publishedNumber c'))
     \<and> (cs_publicationState c = PublicationStateClosed \<longrightarrow>
          cs_publicationState c' = PublicationStateClosed
          \<and> cs_publishedDocumentID c' = cs_publishedDocumentID c
          \<and> cs_publishedNumber c' = cs_publishedNumber c
          \<and> cs_signingCACertificateID c' = cs_signingCACertificateID c)"

lemma not_older_refl: "not_older c c"
  by (simp add: not_older_def)

lemma not_older_trans: "not_older a b \<Longrightarrow> not_older b c \<Longrightarrow> not_older a c"
  unfolding not_older_def by (metis order_trans)

lemma published_something: "canonical_uuid d \<Longrightarrow> something_published (published_by c d n g t)"
  by (auto simp: something_published_def canonical_uuid_def)

lemma crl_step_not_older: "crl_step c x = Inr c' \<Longrightarrow> not_older c c'"
proof (cases x)
  case (OpPublish d n g t)
  assume "crl_step c x = Inr c'"
  with OpPublish show ?thesis
    by (auto simp: success_iff not_older_def published_something)
qed (auto simp: crl_op_defs success_iff not_older_def something_published_def split: if_splits)

text \<open>C16. A published CRL is never replaced by an older one: whatever operations are attempted on
  the ledger, in any order, the published number and the covered revocation generation never go
  back, and once the ledger is closed the published document, its number and the signing
  certificate never change again.\<close>

theorem publication_never_regresses: "not_older c (run_keep crl_step c xs)"
  by (rule run_keep_relates [where R = not_older])
    (auto intro: not_older_refl not_older_trans crl_step_not_older)

text \<open>Publication jobs: each signed a document under a reserved number and now completes.\<close>

record crl_job =
  job_document :: CRLDocumentID
  job_number :: CRLNumber
  job_generation :: int64
  job_next :: Instant

definition job_op :: "crl_job \<Rightarrow> crl_op" where
  "job_op j = OpPublish (job_document j) (job_number j) (job_generation j) (job_next j)"

definition job_no :: "crl_job \<Rightarrow> int" where "job_no j = CRLNumber_Big (job_number j)"

definition job_ready :: "CRLState \<Rightarrow> crl_job \<Rightarrow> bool" where
  "job_ready c j \<longleftrightarrow> canonical_uuid (job_document j) \<and> job_next j \<noteq> zero_instant
     \<and> CRLNumber_Big (cs_publishedNumber c) < job_no j
     \<and> cs_publishedGeneration c \<le> job_generation j"

text \<open>A job reserved later reads the revocations at least as far: the generation covered grows
  with the number.\<close>

definition jobs_consistent :: "crl_job set \<Rightarrow> bool" where
  "jobs_consistent J \<longleftrightarrow> (\<forall>i\<in>J. \<forall>j\<in>J.
     (job_no i < job_no j \<longrightarrow> job_generation i \<le> job_generation j) \<and> (job_no i = job_no j \<longrightarrow> i = j))"

definition shows_job :: "CRLState \<Rightarrow> crl_job \<Rightarrow> bool" where
  "shows_job c j \<longleftrightarrow> cs_publishedDocumentID c = job_document j \<and> cs_publishedNumber c = job_number j
     \<and> cs_publishedGeneration c = job_generation j \<and> cs_nextPublishAt c = job_next j"

lemma keep_publish:
  "keep_step crl_step c (job_op j) =
     (if canonical_uuid (job_document j) \<and> job_next j \<noteq> zero_instant
         \<and> CanPublish c (job_number j) (job_generation j) = None
      then published_by c (job_document j) (job_number j) (job_generation j) (job_next j) else c)"
proof (cases "canonical_uuid (job_document j) \<and> job_next j \<noteq> zero_instant
    \<and> CanPublish c (job_number j) (job_generation j) = None")
  case True
  then have "crl_step c (job_op j)
      = Inr (published_by c (job_document j) (job_number j) (job_generation j) (job_next j))"
    by (simp add: job_op_def MarkPublished_Inr)
  with True show ?thesis by (simp add: keep_step_def)
next
  case False
  then have "\<nexists>c'. crl_step c (job_op j) = Inr c'"
    by (auto simp: job_op_def MarkPublished_Inr)
  then have "keep_step crl_step c (job_op j) = c" by (metis keep_step_cases)
  with False show ?thesis by (simp only: if_False)
qed

lemma jobs_in_any_order:
  assumes "cs_publicationState c \<noteq> PublicationStateClosed" and "jobs_consistent J"
    and "set js \<subseteq> J" and "\<forall>j\<in>J. job_ready c j"
  shows "cs_publicationState (run_keep crl_step c (map job_op js)) \<noteq> PublicationStateClosed
    \<and> (if js = [] then run_keep crl_step c (map job_op js) = c
       else \<exists>m\<in>set js. shows_job (run_keep crl_step c (map job_op js)) m \<and> (\<forall>j\<in>set js. job_no j \<le> job_no m))"
  using assms(3)
proof (induction js rule: rev_induct)
  case Nil
  then show ?case using assms(1) by simp
next
  case (snoc j js)
  let ?c = "run_keep crl_step c (map job_op js)"
  have run: "run_keep crl_step c (map job_op js @ [job_op j]) = keep_step crl_step ?c (job_op j)"
    by (simp add: run_keep_append)
  have jJ: "j \<in> J" and jr: "job_ready c j" using snoc.prems assms(4) by auto
  have IH: "cs_publicationState ?c \<noteq> PublicationStateClosed"
    "if js = [] then ?c = c else \<exists>m\<in>set js. shows_job ?c m \<and> (\<forall>i\<in>set js. job_no i \<le> job_no m)"
    using snoc by auto
  show ?case
  proof (cases "js = []")
    case True
    with IH have "?c = c" by simp
    with jr assms(1) have "keep_step crl_step ?c (job_op j)
        = published_by c (job_document j) (job_number j) (job_generation j) (job_next j)"
      by (auto simp: keep_publish job_ready_def CanPublish_None job_no_def)
    with True assms(1) show ?thesis by (simp add: run shows_job_def)
  next
    case False
    with IH obtain m where m: "m \<in> set js" "shows_job ?c m" "\<forall>i\<in>set js. job_no i \<le> job_no m" by auto
    then have mJ: "m \<in> J" using snoc.prems by auto
    have pub: "something_published ?c"
      using m(2) mJ assms(4) by (auto simp: shows_job_def something_published_def job_ready_def canonical_uuid_def)
    show ?thesis
    proof (cases "job_no m < job_no j")
      case True
      then have "job_generation m \<le> job_generation j" using assms(2) mJ jJ by (simp add: jobs_consistent_def)
      with True m(2) IH(1) jr have "keep_step crl_step ?c (job_op j)
          = published_by ?c (job_document j) (job_number j) (job_generation j) (job_next j)"
        by (auto simp: keep_publish job_ready_def CanPublish_None job_no_def shows_job_def)
      with True m(3) IH(1) show ?thesis by (auto simp: run shows_job_def)
    next
      case False
      then have "keep_step crl_step ?c (job_op j) = ?c"
        using m(2) pub by (auto simp: keep_publish CanPublish_None job_no_def shows_job_def)
      with False m IH(1) show ?thesis by (auto simp: run)
    qed
  qed
qed

text \<open>C15. Completion order does not matter: when several publication jobs hold reserved numbers and
  complete in any order (losers being refused), the ledger ends up showing exactly the job with
  the highest number.\<close>

theorem completion_order_irrelevant:
  assumes "cs_publicationState c \<noteq> PublicationStateClosed" and "jobs_consistent (set js)"
    and "\<forall>j\<in>set js. job_ready c j"
    and "m \<in> set js" and "\<forall>j\<in>set js. job_no j \<le> job_no m"
  shows "shows_job (run_keep crl_step c (map job_op js)) m"
proof -
  from assms(4) have "js \<noteq> []" by auto
  with jobs_in_any_order [OF assms(1,2) subset_refl assms(3)]
  obtain k where k: "k \<in> set js" "shows_job (run_keep crl_step c (map job_op js)) k"
    "\<forall>j\<in>set js. job_no j \<le> job_no k" by auto
  then have "job_no k = job_no m" using assms(4,5) by (simp add: order_antisym)
  then have "k = m" using assms(2,4) k(1) by (simp add: jobs_consistent_def)
  with k(2) show ?thesis by simp
qed

definition sample_job :: "char \<Rightarrow> nat \<Rightarrow> crl_job" where
  "sample_job d n = \<lparr>job_document = sample_uuid d, job_number = CRLNumber (hex_text n),
     job_generation = int n, job_next = Instant 99\<rparr>"

theorem completion_order_irrelevant_witness:
  "shows_job (run_keep crl_step sample_crl_state
      (map job_op [sample_job CHR ''2'' 1, sample_job CHR ''4'' 3, sample_job CHR ''3'' 2])) (sample_job CHR ''4'' 3)"
  by (rule completion_order_irrelevant)
    (auto simp: sample_crl_state_def sample_job_def jobs_consistent_def job_ready_def job_no_def
      zero_instant_def CRLNumber_Big_def)

end
