(* ===== verification/Delivery.thy ===== *)
theory Delivery
  imports Machines Secrets
begin

text \<open>
  \<open>internal/domain/delivery.go\<close>: the one-shot hand-over of a leaf private key (\<open>Delivery\<close>) and
  the short-lived download links (\<open>DownloadGrant\<close>). Both are lifecycle machines and
  one-shot permissions: a key is handed over at most once and a link is spent at most once.
\<close>

subsection \<open>Deliveries\<close>

datatype DeliveryState =
    DeliveryStatePending
  | DeliveryStateTransferring
  | DeliveryStateServerCompleted
  | DeliveryStateFailed
  | DeliveryStateExpired
  | DeliveryStateOther string

fun DeliveryState_Validate :: "DeliveryState \<Rightarrow> domain_error option" where
  "DeliveryState_Validate (DeliveryStateOther _) =
     Some (Wrapped ErrInvalidValue ''unsupported delivery state'')"
| "DeliveryState_Validate _ = None"

fun DeliveryState_text :: "DeliveryState \<Rightarrow> string" where
  "DeliveryState_text DeliveryStatePending = ''pending''"
| "DeliveryState_text DeliveryStateTransferring = ''transferring''"
| "DeliveryState_text DeliveryStateServerCompleted = ''server_completed''"
| "DeliveryState_text DeliveryStateFailed = ''failed''"
| "DeliveryState_text DeliveryStateExpired = ''expired''"
| "DeliveryState_text (DeliveryStateOther s) = s"

fun DeliveryState_IsTerminal :: "DeliveryState \<Rightarrow> bool" where
  "DeliveryState_IsTerminal DeliveryStateServerCompleted = True"
| "DeliveryState_IsTerminal DeliveryStateFailed = True"
| "DeliveryState_IsTerminal DeliveryStateExpired = True"
| "DeliveryState_IsTerminal _ = False"

record Delivery =
  de_id :: DeliveryID
  de_leafKeyGenerationID :: LeafKeyGenerationID
  de_certificateID :: CertificateID
  de_expiresAt :: Instant
  de_state :: DeliveryState
  de_consumedAt :: Instant
  de_finishedAt :: Instant
  de_failureCode :: string
  de_version :: Version

record DeliveryFacts =
  def_ID :: DeliveryID
  def_LeafKeyGenerationID :: LeafKeyGenerationID
  def_CertificateID :: CertificateID
  def_ExpiresAt :: Instant
  def_State :: DeliveryState
  def_ConsumedAt :: Instant
  def_FinishedAt :: Instant
  def_FailureCode :: string
  def_Version :: Version

definition NewDelivery :: "DeliveryFacts \<Rightarrow> domain_error + Delivery" where
  "NewDelivery facts =
     check_then (err_of (ParseDeliveryID (def_ID facts)))
     (check_then (err_of (ParseLeafKeyGenerationID (def_LeafKeyGenerationID facts)))
     (check_then (err_of (ParseCertificateID (def_CertificateID facts)))
     (if Instant_IsZero (def_ExpiresAt facts)
        then Inl (Wrapped ErrInvalidValue ''delivery expires_at must be set'')
      else check_then (DeliveryState_Validate (def_State facts))
       (Inr \<lparr>de_id = def_ID facts, de_leafKeyGenerationID = def_LeafKeyGenerationID facts,
          de_certificateID = def_CertificateID facts, de_expiresAt = def_ExpiresAt facts,
          de_state = def_State facts, de_consumedAt = def_ConsumedAt facts,
          de_finishedAt = def_FinishedAt facts, de_failureCode = def_FailureCode facts,
          de_version = def_Version facts\<rparr>))))"

definition delivery_state_error :: "string \<Rightarrow> string \<Rightarrow> Delivery \<Rightarrow> domain_error" where
  "delivery_state_error code expected d = policy ErrInvalidTransition code
     (''delivery is '' @ DeliveryState_text (de_state d) @ '', not '' @ expected)"

definition Delivery_CanConsume :: "Delivery \<Rightarrow> Instant \<Rightarrow> domain_error option" where
  "Delivery_CanConsume d now =
     (if de_state d \<noteq> DeliveryStatePending
        then Some (delivery_state_error ''delivery_not_pending'' ''pending'' d)
      else if IsExpiredAt (de_expiresAt d) now
        then Some (policy ErrExpired ''delivery_expired'' ''delivery receipt window has passed'')
      else None)"

definition Delivery_Consume :: "Delivery \<Rightarrow> Instant \<Rightarrow> domain_error + Delivery" where
  "Delivery_Consume d now =
     check_then (Delivery_CanConsume d now)
      (Inr (d\<lparr>de_state := DeliveryStateTransferring, de_consumedAt := now,
              de_version := Version_Next (de_version d)\<rparr>))"

definition Delivery_Complete :: "Delivery \<Rightarrow> Instant \<Rightarrow> domain_error + Delivery" where
  "Delivery_Complete d now =
     (if de_state d \<noteq> DeliveryStateTransferring
        then Inl (delivery_state_error ''delivery_not_transferring'' ''transferring'' d)
      else Inr (d\<lparr>de_state := DeliveryStateServerCompleted, de_finishedAt := now,
                 de_version := Version_Next (de_version d)\<rparr>))"

definition Delivery_Fail :: "Delivery \<Rightarrow> string \<Rightarrow> Instant \<Rightarrow> domain_error + Delivery" where
  "Delivery_Fail d code now =
     (if de_state d = DeliveryStateFailed \<or> de_state d = DeliveryStateExpired
        then Inl (policy ErrInvalidTransition ''delivery_terminal''
          (''delivery is already terminal ('' @ DeliveryState_text (de_state d) @ '')''))
      else if code = [] then Inl (Wrapped ErrInvalidValue ''failure code must not be empty'')
      else Inr (d\<lparr>de_state := DeliveryStateFailed, de_failureCode := code, de_finishedAt := now,
                 de_version := Version_Next (de_version d)\<rparr>))"

definition Delivery_Expire :: "Delivery \<Rightarrow> Instant \<Rightarrow> domain_error + Delivery" where
  "Delivery_Expire d now =
     (if de_state d \<noteq> DeliveryStatePending
        then Inl (delivery_state_error ''delivery_not_pending'' ''pending'' d)
      else if \<not> IsExpiredAt (de_expiresAt d) now
        then Inl (policy ErrInvalidTransition ''delivery_not_expired'' ''delivery deadline has not passed yet'')
      else Inr (d\<lparr>de_state := DeliveryStateExpired, de_finishedAt := now,
                 de_version := Version_Next (de_version d)\<rparr>))"

datatype delivery_op =
    OpConsume Instant | OpComplete Instant | OpFail string Instant | OpExpire Instant

fun delivery_step :: "Delivery \<Rightarrow> delivery_op \<Rightarrow> domain_error + Delivery" where
  "delivery_step d (OpConsume now) = Delivery_Consume d now"
| "delivery_step d (OpComplete now) = Delivery_Complete d now"
| "delivery_step d (OpFail code now) = Delivery_Fail d code now"
| "delivery_step d (OpExpire now) = Delivery_Expire d now"

lemmas delivery_op_defs = Delivery_Consume_def Delivery_CanConsume_def Delivery_Complete_def
  Delivery_Fail_def Delivery_Expire_def

definition delivery_identity ::
  "Delivery \<Rightarrow> DeliveryID \<times> LeafKeyGenerationID \<times> CertificateID \<times> Instant" where
  "delivery_identity d = (de_id d, de_leafKeyGenerationID d, de_certificateID d, de_expiresAt d)"

fun delivery_rank :: "DeliveryState \<Rightarrow> nat" where
  "delivery_rank DeliveryStateTransferring = 1"
| "delivery_rank DeliveryStateServerCompleted = 2"
| "delivery_rank DeliveryStateFailed = 3"
| "delivery_rank DeliveryStateExpired = 3"
| "delivery_rank _ = 0"

lemma delivery_step_Inr:
  "delivery_step d x = Inr d' \<Longrightarrow>
     de_version d' = Version_Next (de_version d) \<and> delivery_identity d' = delivery_identity d
     \<and> delivery_rank (de_state d) < delivery_rank (de_state d')"
  by (cases x; cases "de_state d") (auto simp: delivery_op_defs delivery_identity_def success_iff)

interpretation dm: lifecycle_machine delivery_step de_version delivery_identity
    "\<lambda>d. delivery_rank (de_state d)" "\<lambda>_. True"
  by unfold_locales (auto dest: delivery_step_Inr)

lemma delivery_rank_le_3: "delivery_rank s \<le> 3"
  by (cases s) simp_all

fun is_consume :: "delivery_op \<Rightarrow> bool" where
  "is_consume (OpConsume _) = True"
| "is_consume _ = False"

text \<open>A handed-over delivery is one that left the pending state.\<close>

interpretation ds: one_shot delivery_step is_consume "\<lambda>d. de_state d \<noteq> DeliveryStatePending" "\<lambda>_. True"
proof
  show "\<not> de_state s \<noteq> DeliveryStatePending" if "is_consume x" "delivery_step s x = Inr s'" for x s s'
    using that by (cases x) (auto simp: delivery_op_defs success_iff)
  show "de_state s' \<noteq> DeliveryStatePending" if "is_consume x" "delivery_step s x = Inr s'" for x s s'
    using that by (cases x) (auto simp: delivery_op_defs success_iff)
  show "de_state s' \<noteq> DeliveryStatePending"
    if "de_state s \<noteq> DeliveryStatePending" "delivery_step s x = Inr s'" for s x s'
    using that by (cases x) (auto simp: delivery_op_defs success_iff)
qed

text \<open>A private key is handed over at most once: in any sequence of delivery operations at most
  one \<open>Consume\<close> succeeds, and none once the delivery has left the pending state; the delivery
  changes at most three times, never returns to an earlier state, and keeps its key, certificate
  and deadline.\<close>

theorem delivery_one_shot:
  "uses delivery_step is_consume d xs + (if de_state d \<noteq> DeliveryStatePending then 1 else 0) \<le> 1
   \<and> changes delivery_step d xs \<le> 3
   \<and> delivery_rank (de_state d) \<le> delivery_rank (de_state (run_keep delivery_step d xs))
   \<and> delivery_identity (run_keep delivery_step d xs) = delivery_identity d"
proof -
  have "list_all (\<lambda>_. True) xs" by (simp add: list_all_iff)
  then show ?thesis
    using ds.at_most_one_use [of xs d] dm.changes_bounded [of xs d] dm.run_ident [of d xs]
      delivery_rank_le_3 [of "de_state (run_keep delivery_step d xs)"] by simp
qed

definition sample_delivery :: Delivery where
  "sample_delivery = \<lparr>de_id = sample_uuid CHR ''1'', de_leafKeyGenerationID = sample_uuid CHR ''2'',
     de_certificateID = sample_uuid CHR ''3'', de_expiresAt = Instant 100, de_state = DeliveryStatePending,
     de_consumedAt = zero_instant, de_finishedAt = zero_instant, de_failureCode = [], de_version = 1\<rparr>"

theorem delivery_one_shot_witness:
  "uses delivery_step is_consume sample_delivery [OpConsume (Instant 10), OpConsume (Instant 20)] \<le> 1
   \<and> uses delivery_step is_consume sample_delivery [OpConsume (Instant 10)] = 1"
proof
  show "uses delivery_step is_consume sample_delivery [OpConsume (Instant 10), OpConsume (Instant 20)] \<le> 1"
    using delivery_one_shot [of sample_delivery "[OpConsume (Instant 10), OpConsume (Instant 20)]"]
    by linarith
  show "uses delivery_step is_consume sample_delivery [OpConsume (Instant 10)] = 1"
    by (simp add: sample_delivery_def Delivery_Consume_def Delivery_CanConsume_def less_eq_Instant_def)
qed

text \<open>The states \<open>IsTerminal\<close> calls final, against what the operations accept: a completed transfer
  can still be reported failed, the two others accept nothing.\<close>

lemma terminal_but_failable:
  "DeliveryState_IsTerminal DeliveryStateServerCompleted
   \<and> (\<exists>d'. delivery_step (d\<lparr>de_state := DeliveryStateServerCompleted\<rparr>) (OpFail ''x'' now) = Inr d')"
  by (simp add: Delivery_Fail_def)

lemma failed_or_expired_final:
  "de_state d \<in> {DeliveryStateFailed, DeliveryStateExpired} \<Longrightarrow> run_keep delivery_step d xs = d"
proof (induction xs)
  case Nil
  show ?case by simp
next
  case (Cons x xs)
  then have "keep_step delivery_step d x = d"
    by (cases x) (auto simp: keep_step_def delivery_op_defs)
  with Cons show ?case by simp
qed

subsection \<open>Download grants\<close>

datatype GrantPurpose = GrantPurposeLeafPublic | GrantPurposeLeafPrivate | GrantPurposeOther string

fun GrantPurpose_Validate :: "GrantPurpose \<Rightarrow> domain_error option" where
  "GrantPurpose_Validate (GrantPurposeOther _) =
     Some (Wrapped ErrInvalidValue ''unsupported grant purpose'')"
| "GrantPurpose_Validate _ = None"

record DownloadGrant =
  dg_id :: GrantID
  dg_tokenHash :: TokenHash
  dg_purpose :: GrantPurpose
  dg_certificateID :: CertificateID
  dg_deliveryID :: DeliveryID
  dg_createdBy :: AccountID
  dg_expiresAt :: Instant
  dg_consumedAt :: Instant
  dg_invalidatedAt :: Instant
  dg_version :: Version

record DownloadGrantFacts =
  dgf_ID :: GrantID
  dgf_TokenHash :: TokenHash
  dgf_Purpose :: GrantPurpose
  dgf_CertificateID :: CertificateID
  dgf_DeliveryID :: DeliveryID
  dgf_CreatedBy :: AccountID
  dgf_ExpiresAt :: Instant
  dgf_ConsumedAt :: Instant
  dgf_InvalidatedAt :: Instant
  dgf_Version :: Version

definition NewDownloadGrant :: "DownloadGrantFacts \<Rightarrow> domain_error + DownloadGrant" where
  "NewDownloadGrant facts =
     check_then (err_of (ParseGrantID (dgf_ID facts)))
     (if TokenHash_IsZero (dgf_TokenHash facts)
        then Inl (Wrapped ErrInvalidValue ''grant token hash must not be empty'')
      else check_then (GrantPurpose_Validate (dgf_Purpose facts))
      (check_then (err_of (ParseCertificateID (dgf_CertificateID facts)))
      (check_then (err_of (ParseAccountID (dgf_CreatedBy facts)))
      (check_then
        (case dgf_Purpose facts of
           GrantPurposeLeafPrivate \<Rightarrow>
             if dgf_DeliveryID facts = []
               then Some (Wrapped ErrInvalidValue ''private download grant requires a delivery id'')
             else err_of (ParseDeliveryID (dgf_DeliveryID facts))
         | GrantPurposeLeafPublic \<Rightarrow>
             if dgf_DeliveryID facts \<noteq> []
               then Some (Wrapped ErrInvalidValue ''public download grant must not carry a delivery id'')
             else None
         | GrantPurposeOther _ \<Rightarrow> None)
      (if Instant_IsZero (dgf_ExpiresAt facts)
         then Inl (Wrapped ErrInvalidValue ''grant expires_at must be set'')
       else Inr \<lparr>dg_id = dgf_ID facts, dg_tokenHash = dgf_TokenHash facts,
              dg_purpose = dgf_Purpose facts, dg_certificateID = dgf_CertificateID facts,
              dg_deliveryID = dgf_DeliveryID facts, dg_createdBy = dgf_CreatedBy facts,
              dg_expiresAt = dgf_ExpiresAt facts, dg_consumedAt = dgf_ConsumedAt facts,
              dg_invalidatedAt = dgf_InvalidatedAt facts, dg_version = dgf_Version facts\<rparr>)))))"

definition Grant_isConsumed :: "DownloadGrant \<Rightarrow> bool" where
  "Grant_isConsumed g \<longleftrightarrow> \<not> Instant_IsZero (dg_consumedAt g)"

definition Grant_isInvalidated :: "DownloadGrant \<Rightarrow> bool" where
  "Grant_isInvalidated g \<longleftrightarrow> \<not> Instant_IsZero (dg_invalidatedAt g)"

definition Grant_Validate ::
  "DownloadGrant \<Rightarrow> GrantPurpose \<Rightarrow> CertificateID \<Rightarrow> DeliveryID \<Rightarrow> Instant \<Rightarrow> domain_error option" where
  "Grant_Validate g purpose certificateID deliveryID now =
     (if Grant_isInvalidated g
        then Some (policy ErrAlreadyConsumed ''grant_invalidated'' ''download link was replaced or superseded'')
      else if Grant_isConsumed g
        then Some (policy ErrAlreadyConsumed ''grant_consumed'' ''download link was already used'')
      else if IsExpiredAt (dg_expiresAt g) now
        then Some (policy ErrExpired ''grant_expired'' ''download link has expired'')
      else if dg_purpose g \<noteq> purpose
        then Some (policy ErrPolicyViolation ''grant_purpose_mismatch''
          ''download link purpose does not match request'')
      else if dg_certificateID g \<noteq> certificateID
        then Some (policy ErrPolicyViolation ''grant_certificate_mismatch''
          ''download link does not match certificate'')
      else if dg_purpose g = GrantPurposeLeafPrivate \<and> dg_deliveryID g \<noteq> deliveryID
        then Some (policy ErrPolicyViolation ''grant_delivery_mismatch''
          ''download link does not match delivery'')
      else None)"

definition Grant_Consume :: "DownloadGrant \<Rightarrow> Instant \<Rightarrow> domain_error + DownloadGrant" where
  "Grant_Consume g now =
     check_then (Grant_Validate g (dg_purpose g) (dg_certificateID g) (dg_deliveryID g) now)
      (Inr (g\<lparr>dg_consumedAt := now, dg_version := Version_Next (dg_version g)\<rparr>))"

definition Grant_Invalidate :: "DownloadGrant \<Rightarrow> Instant \<Rightarrow> domain_error + DownloadGrant" where
  "Grant_Invalidate g now =
     (if Grant_isConsumed g
        then Inl (policy ErrAlreadyConsumed ''grant_consumed'' ''a consumed download link cannot be invalidated'')
      else if Grant_isInvalidated g then Inr g
      else Inr (g\<lparr>dg_invalidatedAt := now, dg_version := Version_Next (dg_version g)\<rparr>))"

datatype grant_op = OpGrantConsume Instant | OpGrantInvalidate Instant

fun grant_step :: "DownloadGrant \<Rightarrow> grant_op \<Rightarrow> domain_error + DownloadGrant" where
  "grant_step g (OpGrantConsume now) = Grant_Consume g now"
| "grant_step g (OpGrantInvalidate now) = Grant_Invalidate g now"

text \<open>The clock of an operation is set.\<close>

fun clocked :: "grant_op \<Rightarrow> bool" where
  "clocked (OpGrantConsume now) \<longleftrightarrow> now \<noteq> zero_instant"
| "clocked (OpGrantInvalidate now) \<longleftrightarrow> now \<noteq> zero_instant"

definition grant_identity ::
  "DownloadGrant \<Rightarrow> GrantID \<times> TokenHash \<times> GrantPurpose \<times> CertificateID \<times> DeliveryID \<times> AccountID \<times> Instant" where
  "grant_identity g = (dg_id g, dg_tokenHash g, dg_purpose g, dg_certificateID g, dg_deliveryID g,
     dg_createdBy g, dg_expiresAt g)"

definition grant_spent :: "DownloadGrant \<Rightarrow> bool" where
  "grant_spent g \<longleftrightarrow> Grant_isConsumed g \<or> Grant_isInvalidated g"

lemmas grant_op_defs = Grant_Consume_def Grant_Invalidate_def Grant_isConsumed_def
  Grant_isInvalidated_def grant_spent_def

lemma Grant_Validate_None [success_iff]:
  "Grant_Validate g p c d now = None \<longleftrightarrow> \<not> grant_spent g \<and> now < dg_expiresAt g \<and> dg_purpose g = p
     \<and> dg_certificateID g = c \<and> (dg_purpose g = GrantPurposeLeafPrivate \<longrightarrow> dg_deliveryID g = d)"
  by (auto simp: Grant_Validate_def grant_spent_def not_le)

interpretation gm: lifecycle_machine grant_step dg_version grant_identity
    "\<lambda>g. if grant_spent g then 1 else 0" clocked
proof
  fix s x s'
  assume step: "grant_step s x = Inr s'"
  show "grant_identity s' = grant_identity s"
    using step by (cases x) (auto simp: Grant_Consume_def Grant_Invalidate_def success_iff grant_identity_def split: if_splits)
  assume changed: "s' \<noteq> s"
  with step show "dg_version s' = Version_Next (dg_version s)"
    by (cases x) (auto simp: Grant_Consume_def Grant_Invalidate_def success_iff split: if_splits)
  assume "clocked x"
  with step changed show "(if grant_spent s then 1 else 0) < (if grant_spent s' then 1 else (0::nat))"
    by (cases x) (auto simp: Grant_Consume_def Grant_Invalidate_def success_iff grant_spent_def
        Grant_isConsumed_def Grant_isInvalidated_def Instant_IsZero_iff split: if_splits)
qed

fun is_grant_use :: "grant_op \<Rightarrow> bool" where
  "is_grant_use (OpGrantConsume _) = True"
| "is_grant_use (OpGrantInvalidate _) = False"

interpretation gs: one_shot grant_step is_grant_use grant_spent clocked
proof
  show "\<not> grant_spent s" if "is_grant_use x" "grant_step s x = Inr s'" for x s s'
    using that by (cases x) (auto simp: Grant_Consume_def success_iff)
  show "grant_spent s'" if "is_grant_use x" "clocked x" "grant_step s x = Inr s'" for x s s'
    using that by (cases x) (auto simp: grant_op_defs check_then_Inr Instant_IsZero_iff)
  show "grant_spent s'" if "grant_spent s" "grant_step s x = Inr s'" for s x s'
    using that by (cases x) (auto simp: Grant_Consume_def Grant_Invalidate_def success_iff grant_spent_def
        split: if_splits)
qed

text \<open>A download link works at most once: under any sequence of uses and invalidations made with
  a set clock, at most one use succeeds, none does once the link was spent or replaced, the row
  changes at most once, and the link stays bound to its token, purpose, certificate, delivery and
  deadline.\<close>

theorem grant_one_shot:
  assumes "list_all clocked xs"
  shows "uses grant_step is_grant_use g xs + (if grant_spent g then 1 else 0) \<le> 1
    \<and> changes grant_step g xs \<le> 1
    \<and> grant_identity (run_keep grant_step g xs) = grant_identity g"
  using gs.at_most_one_use [OF assms, of g] gm.changes_bounded [OF assms, of g] gm.run_ident [of g xs]
  by (auto split: if_splits)

definition sample_grant :: DownloadGrant where
  "sample_grant = \<lparr>dg_id = sample_uuid CHR ''1'', dg_tokenHash = sample_token,
     dg_purpose = GrantPurposeLeafPublic, dg_certificateID = sample_uuid CHR ''3'', dg_deliveryID = [],
     dg_createdBy = sample_uuid CHR ''4'', dg_expiresAt = Instant 100, dg_consumedAt = zero_instant,
     dg_invalidatedAt = zero_instant, dg_version = 1\<rparr>"

theorem grant_one_shot_witness:
  "uses grant_step is_grant_use sample_grant [OpGrantConsume (Instant 10), OpGrantConsume (Instant 20)] \<le> 1
   \<and> uses grant_step is_grant_use sample_grant [OpGrantConsume (Instant 10)] = 1"
proof
  show "uses grant_step is_grant_use sample_grant [OpGrantConsume (Instant 10), OpGrantConsume (Instant 20)] \<le> 1"
    using grant_one_shot [of "[OpGrantConsume (Instant 10), OpGrantConsume (Instant 20)]" sample_grant]
    by (simp add: zero_instant_def del: uses.simps)
  have "Grant_Validate sample_grant (dg_purpose sample_grant) (dg_certificateID sample_grant)
      (dg_deliveryID sample_grant) (Instant 10) = None"
    by (simp add: success_iff) (simp add: sample_grant_def grant_spent_def Grant_isConsumed_def
      Grant_isInvalidated_def Instant_IsZero_iff less_Instant_def)
  then show "uses grant_step is_grant_use sample_grant [OpGrantConsume (Instant 10)] = 1"
    by (simp add: Grant_Consume_def)
qed

text \<open>The clock must be set: with the zero instant as \<open>now\<close> a use succeeds and leaves the link
  unspent, because "not consumed" is encoded as the zero instant.\<close>

lemma zero_clock_leaves_grant_unspent:
  assumes "\<not> grant_spent g" and "zero_instant < dg_expiresAt g"
  shows "\<exists>g'. Grant_Consume g zero_instant = Inr g' \<and> \<not> grant_spent g'"
  using assms
  by (auto simp: Grant_Consume_def success_iff grant_spent_def Grant_isConsumed_def
      Grant_isInvalidated_def Instant_IsZero_iff)

text \<open>A link opens only what it was issued for: validation succeeds exactly for an unspent,
  unexpired link asked with its own purpose and certificate, and a private-key link also only for
  its own delivery.\<close>

theorem grant_bound_to_target:
  "Grant_Validate g purpose cert delivery now = None \<longleftrightarrow>
     Instant_IsZero (dg_consumedAt g) \<and> Instant_IsZero (dg_invalidatedAt g) \<and> now < dg_expiresAt g
     \<and> purpose = dg_purpose g \<and> cert = dg_certificateID g
     \<and> (dg_purpose g = GrantPurposeLeafPrivate \<longrightarrow> delivery = dg_deliveryID g)"
  by (auto simp: success_iff grant_spent_def Grant_isConsumed_def Grant_isInvalidated_def)

theorem grant_bound_to_target_witness:
  "Grant_Validate sample_grant GrantPurposeLeafPublic (sample_uuid CHR ''3'') [] (Instant 10) = None
   \<and> Grant_Validate sample_grant GrantPurposeLeafPublic (sample_uuid CHR ''5'') [] (Instant 10) \<noteq> None"
proof
  show "Grant_Validate sample_grant GrantPurposeLeafPublic (sample_uuid CHR ''3'') [] (Instant 10) = None"
    by (subst grant_bound_to_target) (simp add: sample_grant_def less_Instant_def Instant_IsZero_iff)
  show "Grant_Validate sample_grant GrantPurposeLeafPublic (sample_uuid CHR ''5'') [] (Instant 10) \<noteq> None"
    by (subst grant_bound_to_target) (simp add: sample_grant_def sample_uuid_def numeral_eq_Suc)
qed

end
