(* ===== verification/Transition.thy ===== *)
theory Transition
  imports Machines Instants
begin

text \<open>
  \<open>internal/domain/transition.go\<close>: the replacement of one CA by another (in progress, externally
  completed, closed), the per-certificate impact ledger, and the manual deployment confirmations.
  The operations take a \<open>now\<close> they do not use; the model drops it where the source discards it.
\<close>

subsection \<open>Data\<close>

datatype TransitionMode = TransitionModeNormal | TransitionModeEmergency | TransitionModeOther string

fun TransitionMode_Validate :: "TransitionMode \<Rightarrow> domain_error option" where
  "TransitionMode_Validate (TransitionModeOther _) =
     Some (Wrapped ErrInvalidValue ''unsupported transition mode'')"
| "TransitionMode_Validate _ = None"

datatype TransitionState =
    TransitionStateInProgress
  | TransitionStateExternallyCompleted
  | TransitionStateClosed
  | TransitionStateOther string

fun TransitionState_Validate :: "TransitionState \<Rightarrow> domain_error option" where
  "TransitionState_Validate (TransitionStateOther _) =
     Some (Wrapped ErrInvalidValue ''unsupported transition state'')"
| "TransitionState_Validate _ = None"

record Transition =
  tr_id :: TransitionID
  tr_sourceAuthorityID :: AuthorityID
  tr_targetAuthorityID :: AuthorityID
  tr_mode :: TransitionMode
  tr_state :: TransitionState
  tr_reportedBy :: AccountID
  tr_reportedAt :: Instant
  tr_reason :: string
  tr_version :: Version

record TransitionFacts =
  trf_ID :: TransitionID
  trf_SourceAuthorityID :: AuthorityID
  trf_TargetAuthorityID :: AuthorityID
  trf_Mode :: TransitionMode
  trf_State :: TransitionState
  trf_ReportedBy :: AccountID
  trf_ReportedAt :: Instant
  trf_Reason :: string
  trf_Version :: Version

definition NewTransition :: "TransitionFacts \<Rightarrow> domain_error + Transition" where
  "NewTransition facts =
     check_then (err_of (ParseTransitionID (trf_ID facts)))
     (check_then (err_of (ParseAuthorityID (trf_SourceAuthorityID facts)))
     (check_then (if trf_TargetAuthorityID facts \<noteq> []
                  then err_of (ParseAuthorityID (trf_TargetAuthorityID facts)) else None)
     (check_then (TransitionMode_Validate (trf_Mode facts))
     (check_then (TransitionState_Validate (trf_State facts))
     (check_then (err_of (ParseAccountID (trf_ReportedBy facts)))
     (if Instant_IsZero (trf_ReportedAt facts)
        then Inl (Wrapped ErrInvalidValue ''transition reported_at must be set'')
      else Inr \<lparr>tr_id = trf_ID facts, tr_sourceAuthorityID = trf_SourceAuthorityID facts,
             tr_targetAuthorityID = trf_TargetAuthorityID facts, tr_mode = trf_Mode facts,
             tr_state = trf_State facts, tr_reportedBy = trf_ReportedBy facts,
             tr_reportedAt = trf_ReportedAt facts, tr_reason = trf_Reason facts,
             tr_version = trf_Version facts\<rparr>))))))"

definition IsInProgress :: "Transition \<Rightarrow> bool" where
  "IsInProgress t \<longleftrightarrow> tr_state t = TransitionStateInProgress"

definition IsExternallyCompleted :: "Transition \<Rightarrow> bool" where
  "IsExternallyCompleted t \<longleftrightarrow> tr_state t = TransitionStateExternallyCompleted"

definition IsClosed :: "Transition \<Rightarrow> bool" where
  "IsClosed t \<longleftrightarrow> tr_state t = TransitionStateClosed"

subsection \<open>Operations\<close>

definition not_in_progress :: domain_error where
  "not_in_progress = policy ErrInvalidTransition ''transition_not_in_progress''
     ''transition is no longer in_progress''"

definition SetTarget :: "Transition \<Rightarrow> AuthorityID \<Rightarrow> domain_error + Transition" where
  "SetTarget t targetAuthorityID =
     (if \<not> IsInProgress t then Inl not_in_progress
      else check_then (err_of (ParseAuthorityID targetAuthorityID))
        (Inr (t\<lparr>tr_targetAuthorityID := targetAuthorityID, tr_version := Version_Next (tr_version t)\<rparr>)))"

definition ConfirmDeployment :: "Transition \<Rightarrow> domain_error option" where
  "ConfirmDeployment t = (if \<not> IsInProgress t then Some not_in_progress else None)"

record TransitionClosureFacts =
  tcf_AllImpactsAddressed :: bool
  tcf_ManualDeploymentConfirmed :: bool

definition Transition_Complete :: "Transition \<Rightarrow> TransitionClosureFacts \<Rightarrow> domain_error + Transition" where
  "Transition_Complete t facts =
     (if \<not> IsInProgress t then Inl not_in_progress
      else if tr_targetAuthorityID t = []
        then Inl (policy ErrNotPermitted ''transition_no_target'' ''transition has no successor authority'')
      else if \<not> tcf_AllImpactsAddressed facts
        then Inl (policy ErrNotPermitted ''transition_impacts_pending''
          ''not every affected certificate has been reissued or explicitly resolved'')
      else if \<not> tcf_ManualDeploymentConfirmed facts
        then Inl (policy ErrNotPermitted ''transition_deployment_unconfirmed''
          ''external deployment has not been confirmed'')
      else Inr (t\<lparr>tr_state := TransitionStateExternallyCompleted,
                 tr_version := Version_Next (tr_version t)\<rparr>))"

datatype TransitionTerminationFacts = TransitionTerminationFacts (ttf_SourceCAPublicationEnded: bool)

definition Transition_Close :: "Transition \<Rightarrow> TransitionTerminationFacts \<Rightarrow> domain_error + Transition" where
  "Transition_Close t facts =
     (if IsInProgress t
        then Inl (policy ErrInvalidTransition ''transition_not_externally_completed''
          ''transition must be externally_completed before it can be closed'')
      else if IsClosed t
        then Inl (policy ErrInvalidTransition ''transition_closed'' ''transition is already closed'')
      else if \<not> ttf_SourceCAPublicationEnded facts
        then Inl (policy ErrNotPermitted ''transition_publication_not_ended''
          ''source authority has not finished ending its publication of revocation status'')
      else Inr (t\<lparr>tr_state := TransitionStateClosed, tr_version := Version_Next (tr_version t)\<rparr>))"

datatype transition_op =
    OpSetTarget AuthorityID
  | OpCompleteTransition TransitionClosureFacts
  | OpCloseTransition TransitionTerminationFacts

fun transition_step :: "Transition \<Rightarrow> transition_op \<Rightarrow> domain_error + Transition" where
  "transition_step t (OpSetTarget a) = SetTarget t a"
| "transition_step t (OpCompleteTransition f) = Transition_Complete t f"
| "transition_step t (OpCloseTransition f) = Transition_Close t f"

lemmas transition_op_defs = SetTarget_def Transition_Complete_def Transition_Close_def
  IsInProgress_def IsClosed_def

definition transition_identity ::
  "Transition \<Rightarrow> TransitionID \<times> AuthorityID \<times> TransitionMode \<times> AccountID \<times> Instant \<times> string" where
  "transition_identity t = (tr_id t, tr_sourceAuthorityID t, tr_mode t, tr_reportedBy t,
     tr_reportedAt t, tr_reason t)"

fun transition_rank :: "TransitionState \<Rightarrow> nat" where
  "transition_rank TransitionStateExternallyCompleted = 1"
| "transition_rank TransitionStateClosed = 2"
| "transition_rank _ = 0"

text \<open>Choosing a target may be repeated while the transition is open; it is the only operation
  that does not advance the state.\<close>

fun advances :: "transition_op \<Rightarrow> bool" where
  "advances (OpSetTarget _) = False"
| "advances _ = True"

lemma transition_step_facts:
  assumes "transition_step t x = Inr t'"
  shows "tr_version t' = Version_Next (tr_version t)"
    and "transition_identity t' = transition_identity t"
    and "advances x \<Longrightarrow> transition_rank (tr_state t) < transition_rank (tr_state t')"
    and "\<not> advances x \<Longrightarrow> tr_state t' = tr_state t"
  using assms
  by (cases x; cases "tr_state t"; auto simp: transition_op_defs transition_identity_def success_iff)+

interpretation tm: lifecycle_machine transition_step tr_version transition_identity
    "\<lambda>t. transition_rank (tr_state t)" advances
  by unfold_locales (simp_all add: transition_step_facts)

subsection \<open>What it takes to close a transition\<close>

lemma in_progress_stays:
  assumes "IsInProgress t" and "\<not> IsInProgress (keep_step transition_step t x)"
  shows "\<exists>f. x = OpCompleteTransition f \<and> tcf_AllImpactsAddressed f \<and> tcf_ManualDeploymentConfirmed f
    \<and> tr_targetAuthorityID t \<noteq> [] \<and> IsExternallyCompleted (keep_step transition_step t x)"
  using assms
  by (cases x) (auto simp: keep_step_def transition_op_defs IsExternallyCompleted_def check_then_def
      split: if_splits option.splits)

lemma completed_stays:
  assumes "IsExternallyCompleted t" and "keep_step transition_step t x \<noteq> t"
  shows "x = OpCloseTransition (TransitionTerminationFacts True) \<and> IsClosed (keep_step transition_step t x)"
proof (cases x)
  case (OpCloseTransition f)
  with assms show ?thesis
    by (cases f) (auto simp: keep_step_def transition_op_defs IsExternallyCompleted_def split: if_splits)
qed (use assms in \<open>auto simp: keep_step_def transition_op_defs IsExternallyCompleted_def split: if_splits\<close>)

lemma closing_needs_termination:
  assumes "IsExternallyCompleted t" and "IsClosed (run_keep transition_step t xs)"
  shows "OpCloseTransition (TransitionTerminationFacts True) \<in> set xs"
  using assms
proof (induction xs)
  case Nil
  then show ?case by (simp add: IsExternallyCompleted_def IsClosed_def)
next
  case (Cons x xs)
  show ?case
  proof (cases "keep_step transition_step t x = t")
    case True
    with Cons show ?thesis by simp
  next
    case False
    with completed_stays [OF Cons.prems(1) this] show ?thesis by simp
  qed
qed

text \<open>C39. A transition is closed only on evidence: if a run that starts in progress ends closed, it
  contains a completion with every impact addressed and the deployment manually confirmed, made
  while a successor authority was recorded, and after it a closing with the source CA's
  publication ended. Completion alone never closes.\<close>

theorem closing_needs_evidence:
  assumes "IsInProgress t" and "IsClosed (run_keep transition_step t xs)"
  shows "\<exists>before f after. xs = before @ OpCompleteTransition f # after
    \<and> tcf_AllImpactsAddressed f \<and> tcf_ManualDeploymentConfirmed f
    \<and> tr_targetAuthorityID (run_keep transition_step t before) \<noteq> []
    \<and> OpCloseTransition (TransitionTerminationFacts True) \<in> set after"
  using assms
proof (induction xs arbitrary: t)
  case Nil
  then show ?case by (simp add: IsInProgress_def IsClosed_def)
next
  case (Cons x xs)
  let ?t = "keep_step transition_step t x"
  have closed: "IsClosed (run_keep transition_step ?t xs)" using Cons.prems by simp
  show ?case
  proof (cases "IsInProgress ?t")
    case True
    from Cons.IH [OF True closed] obtain bef f aft where
      "xs = bef @ OpCompleteTransition f # aft" and
      "tcf_AllImpactsAddressed f \<and> tcf_ManualDeploymentConfirmed f
       \<and> tr_targetAuthorityID (run_keep transition_step ?t bef) \<noteq> []
       \<and> OpCloseTransition (TransitionTerminationFacts True) \<in> set aft" by blast
    then show ?thesis by (intro exI [of _ "x # bef"] exI [of _ f] exI [of _ aft]) simp
  next
    case False
    from in_progress_stays [OF Cons.prems(1) False] obtain f where
      f: "x = OpCompleteTransition f" "tcf_AllImpactsAddressed f" "tcf_ManualDeploymentConfirmed f"
        "tr_targetAuthorityID t \<noteq> []" and ext: "IsExternallyCompleted ?t" by blast
    from closing_needs_termination [OF ext closed] f show ?thesis
      by (intro exI [of _ "[]"] exI [of _ f] exI [of _ xs]) simp
  qed
qed

definition sample_transition :: Transition where
  "sample_transition = \<lparr>tr_id = sample_uuid CHR ''1'', tr_sourceAuthorityID = sample_uuid CHR ''2'',
     tr_targetAuthorityID = sample_uuid CHR ''3'', tr_mode = TransitionModeNormal,
     tr_state = TransitionStateInProgress, tr_reportedBy = sample_uuid CHR ''4'',
     tr_reportedAt = Instant 5, tr_reason = ''rollover'', tr_version = 1\<rparr>"

definition full_evidence :: TransitionClosureFacts where
  "full_evidence = \<lparr>tcf_AllImpactsAddressed = True, tcf_ManualDeploymentConfirmed = True\<rparr>"

theorem closing_needs_evidence_witness:
  "IsInProgress sample_transition
   \<and> IsClosed (run_keep transition_step sample_transition
        [OpCompleteTransition full_evidence, OpCloseTransition (TransitionTerminationFacts True)])
   \<and> (\<exists>before f after. [OpCompleteTransition full_evidence, OpCloseTransition (TransitionTerminationFacts True)]
         = before @ OpCompleteTransition f # after
       \<and> tcf_AllImpactsAddressed f \<and> tcf_ManualDeploymentConfirmed f
       \<and> tr_targetAuthorityID (run_keep transition_step sample_transition before) \<noteq> []
       \<and> OpCloseTransition (TransitionTerminationFacts True) \<in> set after)"
proof -
  have "IsInProgress sample_transition" by (simp add: IsInProgress_def sample_transition_def)
  moreover have "IsClosed (run_keep transition_step sample_transition
      [OpCompleteTransition full_evidence, OpCloseTransition (TransitionTerminationFacts True)])"
    by (simp add: keep_step_def transition_op_defs sample_transition_def full_evidence_def sample_uuid_def)
  ultimately show ?thesis using closing_needs_evidence by (intro conjI) blast+
qed

text \<open>The transition only moves forward: over any run without target changes the state changes at
  most twice, the source, mode, reporter and reason never change, and with or without target
  changes the state never goes back.\<close>

theorem transition_forward_only:
  "transition_rank (tr_state t) \<le> transition_rank (tr_state (run_keep transition_step t xs))
   \<and> transition_identity (run_keep transition_step t xs) = transition_identity t
   \<and> changes transition_step t (filter advances xs) \<le> 2"
proof -
  have "transition_rank (tr_state t) \<le> transition_rank (tr_state (run_keep transition_step t xs))"
  proof (rule run_keep_relates [where R = "\<lambda>a b. transition_rank (tr_state a) \<le> transition_rank (tr_state b)"])
    fix s x s'
    assume "transition_step s x = Inr s'"
    then show "transition_rank (tr_state s) \<le> transition_rank (tr_state s')"
      using transition_step_facts(3,4) [of s x s'] by (cases "advances x") auto
  qed auto
  moreover have "transition_rank s \<le> 2" for s by (cases s) simp_all
  then have "changes transition_step t (filter advances xs) \<le> 2"
    using tm.changes_bounded [of "filter advances xs" t] by (simp add: list_all_iff) (meson le_trans add_leD2)
  ultimately show ?thesis using tm.run_ident [of t xs] by simp
qed

theorem transition_forward_only_witness:
  "changes transition_step sample_transition (filter advances
     [OpCompleteTransition full_evidence, OpSetTarget [], OpCloseTransition (TransitionTerminationFacts True)]) \<le> 2"
  by (rule transition_forward_only [THEN conjunct2, THEN conjunct2])

subsection \<open>Impacts and confirmations\<close>

record TransitionImpact =
  ti_transitionID :: TransitionID
  ti_certificateID :: CertificateID
  ti_replacementCertificateID :: CertificateID
  ti_reissuedAt :: Instant

record TransitionImpactFacts =
  tif_TransitionID :: TransitionID
  tif_CertificateID :: CertificateID
  tif_ReplacementCertificateID :: CertificateID
  tif_ReissuedAt :: Instant

definition NewTransitionImpact :: "TransitionImpactFacts \<Rightarrow> domain_error + TransitionImpact" where
  "NewTransitionImpact facts =
     check_then (err_of (ParseTransitionID (tif_TransitionID facts)))
     (check_then (err_of (ParseCertificateID (tif_CertificateID facts)))
     (check_then
       (if tif_ReplacementCertificateID facts \<noteq> []
        then or_else_err (err_of (ParseCertificateID (tif_ReplacementCertificateID facts)))
          (if Instant_IsZero (tif_ReissuedAt facts)
             then Some (Wrapped ErrInvalidValue ''an impact with a replacement needs reissued_at'')
           else None)
        else None)
      (Inr \<lparr>ti_transitionID = tif_TransitionID facts, ti_certificateID = tif_CertificateID facts,
         ti_replacementCertificateID = tif_ReplacementCertificateID facts,
         ti_reissuedAt = tif_ReissuedAt facts\<rparr>)))"

definition Impact_IsResolved :: "TransitionImpact \<Rightarrow> bool" where
  "Impact_IsResolved i \<longleftrightarrow> ti_replacementCertificateID i \<noteq> []"

definition RecordReplacement ::
  "TransitionImpact \<Rightarrow> CertificateID \<Rightarrow> Instant \<Rightarrow> domain_error + TransitionImpact" where
  "RecordReplacement i replacementCertificateID now =
     (if Impact_IsResolved i
        then Inl (policy ErrInvalidTransition ''impact_already_resolved''
          ''this impact already has a replacement certificate'')
      else check_then (err_of (ParseCertificateID replacementCertificateID))
       (if Instant_IsZero now then Inl (Wrapped ErrInvalidValue ''reissued_at must be set'')
        else Inr (i\<lparr>ti_replacementCertificateID := replacementCertificateID, ti_reissuedAt := now\<rparr>)))"

datatype DeploymentAction =
    DeploymentActionTrustAdded
  | DeploymentActionCertificateInstalled
  | DeploymentActionTrustRemoved
  | DeploymentActionOther string

fun DeploymentAction_Validate :: "DeploymentAction \<Rightarrow> domain_error option" where
  "DeploymentAction_Validate (DeploymentActionOther _) =
     Some (Wrapped ErrInvalidValue ''unsupported deployment action'')"
| "DeploymentAction_Validate _ = None"

record DeploymentConfirmation =
  dc_transitionID :: TransitionID
  dc_certificateID :: CertificateID
  dc_targetLabel :: string
  dc_action :: DeploymentAction
  dc_confirmedBy :: AccountID
  dc_confirmedAt :: Instant

record DeploymentConfirmationFacts =
  dcf_TransitionID :: TransitionID
  dcf_CertificateID :: CertificateID
  dcf_TargetLabel :: string
  dcf_Action :: DeploymentAction
  dcf_ConfirmedBy :: AccountID
  dcf_ConfirmedAt :: Instant

definition NewDeploymentConfirmation ::
  "DeploymentConfirmationFacts \<Rightarrow> domain_error + DeploymentConfirmation" where
  "NewDeploymentConfirmation facts =
     check_then (err_of (ParseTransitionID (dcf_TransitionID facts)))
     (check_then (if dcf_CertificateID facts \<noteq> []
                  then err_of (ParseCertificateID (dcf_CertificateID facts)) else None)
     (if dcf_TargetLabel facts = []
        then Inl (Wrapped ErrInvalidValue ''deployment confirmation needs a target label'')
      else check_then (DeploymentAction_Validate (dcf_Action facts))
      (check_then (err_of (ParseAccountID (dcf_ConfirmedBy facts)))
      (if Instant_IsZero (dcf_ConfirmedAt facts)
         then Inl (Wrapped ErrInvalidValue ''deployment confirmation needs confirmed_at'')
       else Inr \<lparr>dc_transitionID = dcf_TransitionID facts, dc_certificateID = dcf_CertificateID facts,
              dc_targetLabel = dcf_TargetLabel facts, dc_action = dcf_Action facts,
              dc_confirmedBy = dcf_ConfirmedBy facts, dc_confirmedAt = dcf_ConfirmedAt facts\<rparr>))))"

text \<open>An impact is resolved once: after a recorded replacement every further one is refused.\<close>

definition impact_ok :: "TransitionImpact \<Rightarrow> bool" where
  "impact_ok i \<longleftrightarrow> canonical_uuid (ti_transitionID i) \<and> canonical_uuid (ti_certificateID i)
     \<and> (Impact_IsResolved i \<longrightarrow> canonical_uuid (ti_replacementCertificateID i) \<and> ti_reissuedAt i \<noteq> zero_instant)"

lemma NewTransitionImpact_ok: "NewTransitionImpact f = Inr i \<Longrightarrow> impact_ok i"
  by (auto simp: NewTransitionImpact_def success_iff impact_ok_def Impact_IsResolved_def
      Instant_IsZero_iff split: if_splits)

lemma replacement_once:
  assumes "impact_ok i" and "RecordReplacement i c now = Inr i'"
  shows "impact_ok i' \<and> Impact_IsResolved i' \<and> ti_certificateID i' = ti_certificateID i
    \<and> (\<forall>c' later. \<exists>e. RecordReplacement i' c' later = Inl e)"
  using assms
  by (auto simp: RecordReplacement_def success_iff impact_ok_def Impact_IsResolved_def canonical_uuid_def
      Instant_IsZero_iff)

end
