(* ===== verification/TLS_Change.thy ===== *)
theory TLS_Change
  imports Machines Instants
begin

text \<open>
  \<open>internal/domain/tls.go\<close>: HTTPS certificate snapshots (\<open>TLSVersion\<close>) and the journey of one
  replacement candidate (\<open>TLSChange\<close>) from preparation over validation, commit and apply to
  rollback or recovery. \<open>Reconcile\<close> may return both a value and an error, so its result is the
  pair the source returns; the zero \<open>TLSChange\<close> of the other error returns is \<open>zero_change\<close>.
  The operations take a \<open>now\<close> the source discards; the model drops it.
\<close>

subsection \<open>Versions\<close>

datatype TLSSource = TLSSourceBootstrap | TLSSourceManaged | TLSSourceExternal | TLSSourceOther string

fun TLSSource_Validate :: "TLSSource \<Rightarrow> domain_error option" where
  "TLSSource_Validate (TLSSourceOther _) = Some (Wrapped ErrInvalidValue ''unsupported tls source'')"
| "TLSSource_Validate _ = None"

record TLSVersion =
  tv_id :: TLSVersionID
  tv_source :: TLSSource
  tv_keyMaterialID :: KeyMaterialID
  tv_managedCertificateID :: CertificateID
  tv_leafDER :: string
  tv_chainBundle :: string
  tv_validatedServiceURL :: string
  tv_notAfter :: Instant

record TLSVersionFacts =
  tvf_ID :: TLSVersionID
  tvf_Source :: TLSSource
  tvf_KeyMaterialID :: KeyMaterialID
  tvf_ManagedCertificateID :: CertificateID
  tvf_LeafDER :: string
  tvf_ChainBundle :: string
  tvf_ValidatedServiceURL :: string
  tvf_NotAfter :: Instant

definition NewTLSVersion :: "TLSVersionFacts \<Rightarrow> domain_error + TLSVersion" where
  "NewTLSVersion facts =
     check_then (err_of (ParseTLSVersionID (tvf_ID facts)))
     (check_then (TLSSource_Validate (tvf_Source facts))
     (check_then (err_of (ParseKeyMaterialID (tvf_KeyMaterialID facts)))
     (if tvf_Source facts = TLSSourceManaged \<and> tvf_ManagedCertificateID facts = []
        then Inl (Wrapped ErrInvalidValue ''a managed tls version must reference its certificate'')
      else check_then (if tvf_ManagedCertificateID facts \<noteq> []
                       then err_of (ParseCertificateID (tvf_ManagedCertificateID facts)) else None)
      (if tvf_LeafDER facts = []
         then Inl (Wrapped ErrInvalidValue ''tls version leaf der must not be empty'')
       else if tvf_Source facts \<noteq> TLSSourceBootstrap \<and> tvf_ValidatedServiceURL facts = []
         then Inl (Wrapped ErrInvalidValue ''tls version needs a validated service url'')
       else if Instant_IsZero (tvf_NotAfter facts)
         then Inl (Wrapped ErrInvalidValue ''tls version not_after must be set'')
       else Inr \<lparr>tv_id = tvf_ID facts, tv_source = tvf_Source facts,
              tv_keyMaterialID = tvf_KeyMaterialID facts,
              tv_managedCertificateID = tvf_ManagedCertificateID facts,
              tv_leafDER = tvf_LeafDER facts, tv_chainBundle = tvf_ChainBundle facts,
              tv_validatedServiceURL = tvf_ValidatedServiceURL facts,
              tv_notAfter = tvf_NotAfter facts\<rparr>))))"

definition TLSVersion_IsExpiredAt :: "TLSVersion \<Rightarrow> Instant \<Rightarrow> bool" where
  "TLSVersion_IsExpiredAt v now \<longleftrightarrow> IsExpiredAt (tv_notAfter v) now"

subsection \<open>Changes\<close>

datatype TLSChangePhase =
    TLSChangePhasePrepared
  | TLSChangePhaseCommitted
  | TLSChangePhaseApplied
  | TLSChangePhaseRolledBack
  | TLSChangePhaseRecoveryRequired
  | TLSChangePhaseOther string

fun TLSChangePhase_Validate :: "TLSChangePhase \<Rightarrow> domain_error option" where
  "TLSChangePhase_Validate (TLSChangePhaseOther _) =
     Some (Wrapped ErrInvalidValue ''unsupported tls change phase'')"
| "TLSChangePhase_Validate _ = None"

fun TLSChangePhase_text :: "TLSChangePhase \<Rightarrow> string" where
  "TLSChangePhase_text TLSChangePhasePrepared = ''prepared''"
| "TLSChangePhase_text TLSChangePhaseCommitted = ''committed''"
| "TLSChangePhase_text TLSChangePhaseApplied = ''applied''"
| "TLSChangePhase_text TLSChangePhaseRolledBack = ''rolled_back''"
| "TLSChangePhase_text TLSChangePhaseRecoveryRequired = ''recovery_required''"
| "TLSChangePhase_text (TLSChangePhaseOther s) = s"

fun TLSChangePhase_IsTerminal :: "TLSChangePhase \<Rightarrow> bool" where
  "TLSChangePhase_IsTerminal TLSChangePhaseApplied = True"
| "TLSChangePhase_IsTerminal TLSChangePhaseRolledBack = True"
| "TLSChangePhase_IsTerminal _ = False"

record TLSChange =
  tc_previousVersionID :: TLSVersionID
  tc_candidateVersionID :: TLSVersionID
  tc_phase :: TLSChangePhase
  tc_validated :: bool
  tc_errorCode :: string
  tc_version :: Version

record TLSChangeFacts =
  tlcf_PreviousVersionID :: TLSVersionID
  tlcf_CandidateVersionID :: TLSVersionID
  tlcf_Phase :: TLSChangePhase
  tlcf_Validated :: bool
  tlcf_ErrorCode :: string
  tlcf_Version :: Version

definition NewTLSChange :: "TLSChangeFacts \<Rightarrow> domain_error + TLSChange" where
  "NewTLSChange facts =
     check_then (err_of (ParseTLSVersionID (tlcf_CandidateVersionID facts)))
     (check_then (if tlcf_PreviousVersionID facts \<noteq> []
                  then err_of (ParseTLSVersionID (tlcf_PreviousVersionID facts)) else None)
     (check_then (TLSChangePhase_Validate (tlcf_Phase facts))
      (Inr \<lparr>tc_previousVersionID = tlcf_PreviousVersionID facts,
         tc_candidateVersionID = tlcf_CandidateVersionID facts, tc_phase = tlcf_Phase facts,
         tc_validated = tlcf_Validated facts, tc_errorCode = tlcf_ErrorCode facts,
         tc_version = tlcf_Version facts\<rparr>)))"

definition NewCandidateTLSChange :: "TLSVersionID \<Rightarrow> TLSVersionID \<Rightarrow> domain_error + TLSChange" where
  "NewCandidateTLSChange previousVersionID candidateVersionID =
     NewTLSChange \<lparr>tlcf_PreviousVersionID = previousVersionID, tlcf_CandidateVersionID = candidateVersionID,
       tlcf_Phase = TLSChangePhasePrepared, tlcf_Validated = False, tlcf_ErrorCode = [], tlcf_Version = 0\<rparr>"

definition zero_change :: TLSChange where
  "zero_change = \<lparr>tc_previousVersionID = [], tc_candidateVersionID = [], tc_phase = TLSChangePhaseOther [],
     tc_validated = False, tc_errorCode = [], tc_version = 0\<rparr>"

record TLSValidationFacts =
  vf_CandidateSource :: TLSSource
  vf_KeyMatchesCertificate :: bool
  vf_WithinValidityPeriod :: bool
  vf_PurposeMatchesServerAuth :: bool
  vf_ServiceAddressMatches :: bool
  vf_ChainVerified :: bool

definition requiresServiceAddress :: "TLSValidationFacts \<Rightarrow> bool" where
  "requiresServiceAddress f \<longleftrightarrow> vf_CandidateSource f \<noteq> TLSSourceBootstrap"

definition allPass :: "TLSValidationFacts \<Rightarrow> bool" where
  "allPass f \<longleftrightarrow> vf_KeyMatchesCertificate f \<and> vf_WithinValidityPeriod f \<and> vf_PurposeMatchesServerAuth f
     \<and> (vf_ServiceAddressMatches f \<or> \<not> requiresServiceAddress f) \<and> vf_ChainVerified f"

definition firstFailure :: "TLSValidationFacts \<Rightarrow> string" where
  "firstFailure f =
     (if \<not> vf_KeyMatchesCertificate f then ''tls_candidate_key_mismatch''
      else if \<not> vf_WithinValidityPeriod f then ''tls_candidate_out_of_validity''
      else if \<not> vf_PurposeMatchesServerAuth f then ''tls_candidate_wrong_purpose''
      else if \<not> vf_ServiceAddressMatches f \<and> requiresServiceAddress f then ''tls_candidate_address_mismatch''
      else ''tls_candidate_chain_invalid'')"

definition phase_error :: "string \<Rightarrow> string \<Rightarrow> TLSChange \<Rightarrow> domain_error" where
  "phase_error code expected c = policy ErrInvalidTransition code
     (''tls change is '' @ TLSChangePhase_text (tc_phase c) @ '', not '' @ expected)"

definition ValidateCandidate :: "TLSChange \<Rightarrow> TLSValidationFacts \<Rightarrow> domain_error + TLSChange" where
  "ValidateCandidate c facts =
     (if tc_phase c \<noteq> TLSChangePhasePrepared
        then Inl (phase_error ''tls_change_not_prepared'' ''prepared'' c)
      else if \<not> allPass facts
        then Inr (c\<lparr>tc_version := Version_Next (tc_version c), tc_validated := False,
                   tc_errorCode := firstFailure facts\<rparr>)
      else Inr (c\<lparr>tc_version := Version_Next (tc_version c), tc_validated := True,
                 tc_errorCode := []\<rparr>))"

definition TLSChange_Commit :: "TLSChange \<Rightarrow> domain_error + TLSChange" where
  "TLSChange_Commit c =
     (if tc_phase c \<noteq> TLSChangePhasePrepared
        then Inl (phase_error ''tls_change_not_prepared'' ''prepared'' c)
      else if \<not> tc_validated c
        then Inl (policy ErrNotPermitted ''tls_candidate_not_validated'' ''candidate has not passed validation'')
      else Inr (c\<lparr>tc_phase := TLSChangePhaseCommitted, tc_version := Version_Next (tc_version c)\<rparr>))"

definition TLSChange_Apply :: "TLSChange \<Rightarrow> domain_error + TLSChange" where
  "TLSChange_Apply c =
     (if tc_phase c \<noteq> TLSChangePhaseCommitted
        then Inl (phase_error ''tls_change_not_committed'' ''committed'' c)
      else Inr (c\<lparr>tc_phase := TLSChangePhaseApplied, tc_version := Version_Next (tc_version c)\<rparr>))"

definition RollbackApply :: "TLSChange \<Rightarrow> string \<Rightarrow> domain_error + TLSChange" where
  "RollbackApply c errorCode =
     (if tc_phase c \<noteq> TLSChangePhaseCommitted
        then Inl (phase_error ''tls_change_not_committed'' ''committed'' c)
      else if errorCode = [] then Inl (Wrapped ErrInvalidValue ''rollback requires an error code'')
      else Inr (c\<lparr>tc_phase := TLSChangePhaseRolledBack, tc_errorCode := errorCode,
                 tc_version := Version_Next (tc_version c)\<rparr>))"

definition MarkRecoveryRequired :: "TLSChange \<Rightarrow> string \<Rightarrow> domain_error + TLSChange" where
  "MarkRecoveryRequired c errorCode =
     (if tc_phase c \<noteq> TLSChangePhaseCommitted
        then Inl (phase_error ''tls_change_not_committed'' ''committed'' c)
      else if errorCode = [] then Inl (Wrapped ErrInvalidValue ''recovery marker requires an error code'')
      else Inr (c\<lparr>tc_phase := TLSChangePhaseRecoveryRequired, tc_errorCode := errorCode,
                 tc_version := Version_Next (tc_version c)\<rparr>))"

record TLSReconcileFacts =
  rcf_CandidateVersionID :: TLSVersionID
  rcf_CandidateFacts :: TLSValidationFacts
  rcf_PreviousVersionID :: TLSVersionID
  rcf_PreviousFacts :: TLSValidationFacts

definition Reconcile :: "TLSChange \<Rightarrow> TLSReconcileFacts \<Rightarrow> TLSChange \<times> domain_error option" where
  "Reconcile c facts =
     (if tc_phase c \<noteq> TLSChangePhaseRecoveryRequired
        then (zero_change, Some (phase_error ''tls_change_not_recovery_required'' ''recovery_required'' c))
      else if rcf_CandidateVersionID facts \<noteq> [] \<and> rcf_CandidateVersionID facts \<noteq> tc_candidateVersionID c
        then (zero_change, Some (policy ErrInvalidValue ''tls_recovery_target_mismatch''
          ''reconciled candidate version does not match this change's own candidate''))
      else if rcf_PreviousVersionID facts \<noteq> [] \<and> rcf_PreviousVersionID facts \<noteq> tc_previousVersionID c
        then (zero_change, Some (policy ErrInvalidValue ''tls_recovery_target_mismatch''
          ''reconciled previous version does not match this change's own previous version''))
      else if rcf_CandidateVersionID facts \<noteq> [] \<and> rcf_CandidateVersionID facts = tc_candidateVersionID c
            \<and> allPass (rcf_CandidateFacts facts)
        then (c\<lparr>tc_validated := True, tc_errorCode := [], tc_phase := TLSChangePhaseApplied,
                tc_version := Version_Next (tc_version c)\<rparr>, None)
      else if rcf_PreviousVersionID facts \<noteq> [] \<and> rcf_PreviousVersionID facts = tc_previousVersionID c
            \<and> allPass (rcf_PreviousFacts facts)
        then (c\<lparr>tc_phase := TLSChangePhaseRolledBack,
                tc_errorCode := ''tls_recovery_rolled_back_to_previous'',
                tc_version := Version_Next (tc_version c)\<rparr>, None)
      else (c, Some (policy ErrPolicyViolation ''tls_recovery_unresolved''
          ''neither the candidate nor the previous version could be re-validated; change stays recovery_required'')))"

definition CanActivate :: "TLSChange \<Rightarrow> bool" where
  "CanActivate c \<longleftrightarrow> tc_phase c = TLSChangePhaseCommitted"

definition TLSChange_IsActive :: "TLSChange \<Rightarrow> bool" where
  "TLSChange_IsActive c \<longleftrightarrow> tc_phase c = TLSChangePhaseApplied"

subsection \<open>The change as a machine\<close>

datatype tls_op =
    OpValidate TLSValidationFacts
  | OpCommit
  | OpApply
  | OpRollback string
  | OpMarkRecovery string
  | OpReconcile TLSReconcileFacts

fun tls_step :: "TLSChange \<Rightarrow> tls_op \<Rightarrow> domain_error + TLSChange" where
  "tls_step c (OpValidate f) = ValidateCandidate c f"
| "tls_step c OpCommit = TLSChange_Commit c"
| "tls_step c OpApply = TLSChange_Apply c"
| "tls_step c (OpRollback e) = RollbackApply c e"
| "tls_step c (OpMarkRecovery e) = MarkRecoveryRequired c e"
| "tls_step c (OpReconcile f) = (case Reconcile c f of (c', None) \<Rightarrow> Inr c' | (_, Some e) \<Rightarrow> Inl e)"

lemmas tls_op_defs = ValidateCandidate_def TLSChange_Commit_def TLSChange_Apply_def RollbackApply_def
  MarkRecoveryRequired_def Reconcile_def

fun tls_rank :: "TLSChangePhase \<Rightarrow> nat" where
  "tls_rank TLSChangePhaseCommitted = 1"
| "tls_rank TLSChangePhaseRecoveryRequired = 2"
| "tls_rank TLSChangePhaseApplied = 3"
| "tls_rank TLSChangePhaseRolledBack = 3"
| "tls_rank _ = 0"

fun activates :: "tls_op \<Rightarrow> bool" where
  "activates (OpValidate _) = False"
| "activates _ = True"

definition tls_identity :: "TLSChange \<Rightarrow> TLSVersionID \<times> TLSVersionID" where
  "tls_identity c = (tc_previousVersionID c, tc_candidateVersionID c)"

lemma tls_step_facts:
  assumes "tls_step c x = Inr c'"
  shows "tc_version c' = Version_Next (tc_version c)" and "tls_identity c' = tls_identity c"
    and "activates x \<Longrightarrow> tls_rank (tc_phase c) < tls_rank (tc_phase c')"
    and "\<not> activates x \<Longrightarrow> tc_phase c = TLSChangePhasePrepared \<and> tc_phase c' = TLSChangePhasePrepared"
  using assms by (cases x; auto simp: tls_op_defs tls_identity_def split: if_splits)+

interpretation lm: lifecycle_machine tls_step tc_version tls_identity
    "\<lambda>c. tls_rank (tc_phase c)" activates
  by unfold_locales (simp_all add: tls_step_facts)

subsection \<open>Properties\<close>

text \<open>Whoever left the prepared phase had passed validation.\<close>

definition tls_validated_inv :: "TLSChange \<Rightarrow> bool" where
  "tls_validated_inv c \<longleftrightarrow> tc_phase c = TLSChangePhasePrepared \<or> tc_validated c"

lemma tls_validated_step: "tls_validated_inv c \<Longrightarrow> tls_step c x = Inr c' \<Longrightarrow> tls_validated_inv c'"
  by (cases x) (auto simp: tls_op_defs tls_validated_inv_def split: if_splits)

lemma NewCandidate_prepared:
  "NewCandidateTLSChange p c = Inr t \<Longrightarrow> tc_phase t = TLSChangePhasePrepared \<and> \<not> tc_validated t
     \<and> tls_identity t = (p, c)"
  by (auto simp: NewCandidateTLSChange_def NewTLSChange_def success_iff tls_identity_def)

lemma validation_in_history:
  assumes "tc_phase c = TLSChangePhasePrepared" "\<not> tc_validated c"
    and "tc_phase (run_keep tls_step c xs) \<noteq> TLSChangePhasePrepared"
  shows "\<exists>f. OpValidate f \<in> set xs \<and> allPass f"
  using assms
proof (induction xs arbitrary: c)
  case Nil
  then show ?case by simp
next
  case (Cons x xs)
  show ?case
  proof (cases "\<exists>f. x = OpValidate f \<and> allPass f")
    case True
    then show ?thesis by auto
  next
    case False
    have "tc_phase (keep_step tls_step c x) = TLSChangePhasePrepared \<and> \<not> tc_validated (keep_step tls_step c x)"
      using False Cons.prems(1,2)
      by (cases x) (auto simp: keep_step_def ValidateCandidate_def TLSChange_Commit_def TLSChange_Apply_def
          RollbackApply_def MarkRecoveryRequired_def Reconcile_def)
    with Cons show ?thesis by auto
  qed
qed

text \<open>C38. No HTTPS certificate is activated unchecked: a fresh candidate that any run of operations
  took past preparation (committed, applied, rolled back or in recovery) passed a full validation
  somewhere in that run, carries the validated mark, and is still the same candidate over the same
  previous version.\<close>

theorem tls_activation_needs_validation:
  assumes "NewCandidateTLSChange prev cand = Inr c"
    and "tc_phase (run_keep tls_step c xs) \<noteq> TLSChangePhasePrepared"
  shows "(\<exists>f. OpValidate f \<in> set xs \<and> allPass f) \<and> tc_validated (run_keep tls_step c xs)
    \<and> tls_identity (run_keep tls_step c xs) = (prev, cand)"
proof -
  note c = NewCandidate_prepared [OF assms(1)]
  have "tls_validated_inv (run_keep tls_step c xs)"
    by (rule run_keep_invariant [of tls_validated_inv tls_step c xs])
      (use c tls_validated_step in \<open>auto simp: tls_validated_inv_def\<close>)
  with assms(2) c validation_in_history [of c xs] lm.run_ident [of c xs] show ?thesis
    by (simp add: tls_validated_inv_def)
qed

definition good_facts :: TLSValidationFacts where
  "good_facts = \<lparr>vf_CandidateSource = TLSSourceManaged, vf_KeyMatchesCertificate = True,
     vf_WithinValidityPeriod = True, vf_PurposeMatchesServerAuth = True,
     vf_ServiceAddressMatches = True, vf_ChainVerified = True\<rparr>"

definition sample_change :: TLSChange where
  "sample_change = \<lparr>tc_previousVersionID = [], tc_candidateVersionID = sample_uuid CHR ''1'',
     tc_phase = TLSChangePhasePrepared, tc_validated = False, tc_errorCode = [], tc_version = 0\<rparr>"

lemma sample_change: "NewCandidateTLSChange [] (sample_uuid CHR ''1'') = Inr sample_change"
  by (simp add: NewCandidateTLSChange_def NewTLSChange_def check_then_Inr success_iff sample_change_def)

theorem tls_activation_needs_validation_witness:
  "tc_validated (run_keep tls_step sample_change [OpValidate good_facts, OpCommit, OpApply])
   \<and> TLSChange_IsActive (run_keep tls_step sample_change [OpValidate good_facts, OpCommit, OpApply])"
proof -
  have "tc_phase (run_keep tls_step sample_change [OpValidate good_facts, OpCommit, OpApply])
      = TLSChangePhaseApplied"
    by (simp add: keep_step_def tls_op_defs sample_change_def good_facts_def allPass_def)
  with tls_activation_needs_validation [OF sample_change, of "[OpValidate good_facts, OpCommit, OpApply]"]
  show ?thesis by (simp add: TLSChange_IsActive_def)
qed

text \<open>Recovery decides only on re-validated evidence about this very change: a reconcile that
  reports success applied the change's own candidate after a full re-validation, or rolled back to
  its own previous version after a full re-validation of that one while the candidate did not
  pass; an unresolved reconcile leaves the change exactly as it was, in maintenance.\<close>

theorem reconcile_outcomes:
  assumes "tc_phase c = TLSChangePhaseRecoveryRequired" and "Reconcile c facts = (c', err)"
  shows "case err of
      None \<Rightarrow>
        (tc_phase c' = TLSChangePhaseApplied \<and> rcf_CandidateVersionID facts = tc_candidateVersionID c
           \<and> allPass (rcf_CandidateFacts facts))
        \<or> (tc_phase c' = TLSChangePhaseRolledBack \<and> rcf_PreviousVersionID facts = tc_previousVersionID c
           \<and> tc_previousVersionID c \<noteq> [] \<and> allPass (rcf_PreviousFacts facts)
           \<and> (rcf_CandidateVersionID facts = [] \<or> \<not> allPass (rcf_CandidateFacts facts)))
    | Some e \<Rightarrow> error_code e = Some ''tls_recovery_unresolved'' \<and> c' = c
        \<or> error_code e = Some ''tls_recovery_target_mismatch'' \<and> c' = zero_change"
  using assms by (auto simp: Reconcile_def split: if_splits)

theorem reconcile_outcomes_witness:
  "\<exists>c'. Reconcile (sample_change\<lparr>tc_phase := TLSChangePhaseRecoveryRequired\<rparr>)
      \<lparr>rcf_CandidateVersionID = [], rcf_CandidateFacts = good_facts, rcf_PreviousVersionID = [],
       rcf_PreviousFacts = good_facts\<rparr> = (c', Some (policy ErrPolicyViolation ''tls_recovery_unresolved''
         ''neither the candidate nor the previous version could be re-validated; change stays recovery_required''))
     \<and> c' = sample_change\<lparr>tc_phase := TLSChangePhaseRecoveryRequired\<rparr>"
proof -
  let ?c = "sample_change\<lparr>tc_phase := TLSChangePhaseRecoveryRequired\<rparr>"
  let ?f = "\<lparr>rcf_CandidateVersionID = [], rcf_CandidateFacts = good_facts, rcf_PreviousVersionID = [],
       rcf_PreviousFacts = good_facts\<rparr>"
  obtain c' e where r: "Reconcile ?c ?f = (c', e)" by (cases "Reconcile ?c ?f")
  have e: "e = Some (policy ErrPolicyViolation ''tls_recovery_unresolved''
         ''neither the candidate nor the previous version could be re-validated; change stays recovery_required'')"
    using r by (simp add: Reconcile_def)
  from reconcile_outcomes [OF _ r] e r show ?thesis by simp
qed

text \<open>Every activation step moves forward, so at most three of them ever succeed.\<close>

lemma tls_activation_bounded: "changes tls_step c (filter activates xs) \<le> 3"
proof -
  have "tls_rank s \<le> 3" for s by (cases s) simp_all
  then show ?thesis
    using lm.changes_bounded [of "filter activates xs" c] by (simp add: list_all_iff) (meson le_trans add_leD2)
qed

end
