(* ===== verification/Identity.thy ===== *)
theory Identity
  imports Machines Secrets
begin

text \<open>
  \<open>internal/domain/identity.go\<close>: administrator accounts, sessions, and the password reset run from
  the command line. The account's \<open>authEpoch\<close> is a second counter beside the version: every
  reset step advances it, and credentials issued under an older epoch are refused. So the account
  is a versioned machine in two ways.
\<close>

subsection \<open>Accounts\<close>

type_synonym AuthEpoch = int64

definition ParseAuthEpoch :: "int64 \<Rightarrow> domain_error + AuthEpoch" where
  "ParseAuthEpoch raw =
     (if raw < 0 then Inl (policy ErrInvalidValue ''invalid_auth_epoch'' ''auth epoch must not be negative'')
      else Inr raw)"

definition AuthEpoch_Next :: "AuthEpoch \<Rightarrow> AuthEpoch" where
  "AuthEpoch_Next e = wrap64 (e + 1)"

datatype AccountState =
    AccountStateActive | AccountStateResetPending | AccountStateDisabled | AccountStateOther string

fun AccountState_text :: "AccountState \<Rightarrow> string" where
  "AccountState_text AccountStateActive = ''active''"
| "AccountState_text AccountStateResetPending = ''reset_pending''"
| "AccountState_text AccountStateDisabled = ''disabled''"
| "AccountState_text (AccountStateOther s) = s"

fun AccountState_Validate :: "AccountState \<Rightarrow> domain_error option" where
  "AccountState_Validate (AccountStateOther s) =
     Some (policy_with ErrInvalidValue ''invalid_account_state'' ''unsupported account state'' ''state'' s)"
| "AccountState_Validate _ = None"

datatype PasswordHash = PasswordHash (ph_encoded: string)

definition NewPasswordHash :: "string \<Rightarrow> domain_error + PasswordHash" where
  "NewPasswordHash encoded =
     (if TrimSpace encoded = []
        then Inl (policy ErrInvalidValue ''invalid_password_hash'' ''password hash must not be empty'')
      else Inr (PasswordHash encoded))"

definition PasswordHash_IsZero :: "PasswordHash \<Rightarrow> bool" where
  "PasswordHash_IsZero h \<longleftrightarrow> ph_encoded h = []"

definition PasswordHash_Equal :: "PasswordHash \<Rightarrow> PasswordHash \<Rightarrow> bool" where
  "PasswordHash_Equal h other \<longleftrightarrow> ph_encoded h = ph_encoded other"

definition PasswordHash_String :: "PasswordHash \<Rightarrow> string" where
  "PasswordHash_String h = ''<password hash>''"

record Account =
  ac_id :: AccountID
  ac_normalizedLoginName :: string
  ac_passwordHash :: PasswordHash
  ac_state :: AccountState
  ac_authEpoch :: AuthEpoch
  ac_isGlobalAdmin :: bool
  ac_version :: Version

record AccountFacts =
  acf_ID :: AccountID
  acf_NormalizedLoginName :: string
  acf_PasswordHash :: PasswordHash
  acf_State :: AccountState
  acf_AuthEpoch :: AuthEpoch
  acf_IsGlobalAdmin :: bool
  acf_Version :: Version

definition NormalizeLoginName :: "string \<Rightarrow> string" where
  "NormalizeLoginName raw = map ascii_lower raw"

definition NewAccount :: "AccountFacts \<Rightarrow> domain_error + Account" where
  "NewAccount facts =
     check_then (err_of (ParseAccountID (acf_ID facts)))
     (if TrimSpace (acf_NormalizedLoginName facts) = []
        then Inl (policy ErrInvalidValue ''invalid_login_name'' ''normalized login name must not be empty'')
      else if acf_NormalizedLoginName facts \<noteq> NormalizeLoginName (acf_NormalizedLoginName facts)
        then Inl (policy ErrInvalidValue ''login_name_not_normalized''
          ''normalized login name must already be normalized with NormalizeLoginName'')
      else if PasswordHash_IsZero (acf_PasswordHash facts)
        then Inl (policy ErrInvalidValue ''invalid_password_hash'' ''account must have a password hash'')
      else check_then (AccountState_Validate (acf_State facts))
       (Inr \<lparr>ac_id = acf_ID facts, ac_normalizedLoginName = acf_NormalizedLoginName facts,
          ac_passwordHash = acf_PasswordHash facts, ac_state = acf_State facts,
          ac_authEpoch = acf_AuthEpoch facts, ac_isGlobalAdmin = acf_IsGlobalAdmin facts,
          ac_version = acf_Version facts\<rparr>))"

definition CanLogin :: "Account \<Rightarrow> domain_error option" where
  "CanLogin a =
     (case ac_state a of
        AccountStateActive \<Rightarrow> None
      | AccountStateResetPending \<Rightarrow>
          Some (policy_with ErrNotPermitted ''account_reset_pending'' ''account is pending a password reset''
            ''account_id'' (ac_id a))
      | AccountStateDisabled \<Rightarrow>
          Some (policy_with ErrNotPermitted ''account_disabled'' ''account is disabled'' ''account_id'' (ac_id a))
      | AccountStateOther _ \<Rightarrow>
          Some (policy ErrInvalidValue ''invalid_account_state'' ''unsupported account state''))"

record AccountResetOutcome =
  aro_Account :: Account
  aro_SessionsInvalidated :: bool

definition BeginReset :: "Account \<Rightarrow> domain_error + AccountResetOutcome" where
  "BeginReset a =
     (if ac_state a = AccountStateDisabled
        then Inl (policy_with ErrInvalidTransition ''account_disabled''
          ''cannot begin a reset for a disabled account'' ''account_id'' (ac_id a))
      else Inr \<lparr>aro_Account = a\<lparr>ac_state := AccountStateResetPending,
               ac_authEpoch := AuthEpoch_Next (ac_authEpoch a),
               ac_version := Version_Next (ac_version a)\<rparr>,
             aro_SessionsInvalidated = True\<rparr>)"

definition CompleteReset :: "Account \<Rightarrow> PasswordHash \<Rightarrow> domain_error + AccountResetOutcome" where
  "CompleteReset a hash =
     (if ac_state a \<noteq> AccountStateResetPending
        then Inl (policy_with ErrInvalidTransition ''account_not_reset_pending''
          ''account is not pending a password reset'' ''account_id'' (ac_id a))
      else if PasswordHash_IsZero hash
        then Inl (policy ErrInvalidValue ''invalid_password_hash'' ''completed reset requires a new password hash'')
      else Inr \<lparr>aro_Account = a\<lparr>ac_state := AccountStateActive, ac_passwordHash := hash,
               ac_authEpoch := AuthEpoch_Next (ac_authEpoch a),
               ac_version := Version_Next (ac_version a)\<rparr>,
             aro_SessionsInvalidated = True\<rparr>)"

datatype account_op = OpBeginReset | OpCompleteReset PasswordHash

fun account_step :: "Account \<Rightarrow> account_op \<Rightarrow> domain_error + Account" where
  "account_step a OpBeginReset = map_sum id aro_Account (BeginReset a)"
| "account_step a (OpCompleteReset h) = map_sum id aro_Account (CompleteReset a h)"

definition account_identity :: "Account \<Rightarrow> AccountID \<times> string \<times> bool" where
  "account_identity a = (ac_id a, ac_normalizedLoginName a, ac_isGlobalAdmin a)"

lemma account_step_facts:
  assumes "account_step a x = Inr a'"
  shows "ac_version a' = Version_Next (ac_version a)" and "account_identity a' = account_identity a"
    and "ac_authEpoch a' = Version_Next (ac_authEpoch a)" and "ac_state a \<noteq> AccountStateDisabled"
  using assms
  by (cases x; auto simp: BeginReset_def CompleteReset_def account_identity_def AuthEpoch_Next_def
      Version_Next_def split: if_splits)+

interpretation vm: versioned_machine account_step ac_version account_identity
  by unfold_locales (simp_all add: account_step_facts)

interpretation em: versioned_machine account_step ac_authEpoch account_identity
  by unfold_locales (simp_all add: account_step_facts)

lemma disabled_account_frozen: "ac_state a = AccountStateDisabled \<Longrightarrow> run_keep account_step a xs = a"
proof (induction xs)
  case Nil
  show ?case by simp
next
  case (Cons x xs)
  have "keep_step account_step a x = a"
    using keep_step_cases [of account_step a x] account_step_facts(4) [of a x] Cons.prems by metis
  with Cons show ?case by simp
qed

subsection \<open>Login names\<close>

lemma NormalizeLoginName_idem: "NormalizeLoginName (NormalizeLoginName s) = NormalizeLoginName s"
  by (simp add: NormalizeLoginName_def)

text \<open>A stored name is its own normal form, so lookup by any spelling of it hits the stored row.\<close>

lemma NewAccount_name: "NewAccount f = Inr a \<Longrightarrow> NormalizeLoginName (ac_normalizedLoginName a) = ac_normalizedLoginName a"
  by (auto simp: NewAccount_def check_then_Inr split: if_splits)

lemma length_NormalizeLoginName [simp]: "length (NormalizeLoginName s) = length s"
  by (simp add: NormalizeLoginName_def)

subsection \<open>Sessions\<close>

record SessionState =
  ss_id :: SessionID
  ss_accountID :: AccountID
  ss_tokenHash :: TokenHash
  ss_csrfSecretHash :: TokenHash
  ss_authEpoch :: AuthEpoch
  ss_lastSeenAt :: Instant
  ss_absoluteExpiresAt :: Instant

record SessionStateFacts =
  ssf_ID :: SessionID
  ssf_AccountID :: AccountID
  ssf_TokenHash :: TokenHash
  ssf_CSRFSecretHash :: TokenHash
  ssf_AuthEpoch :: AuthEpoch
  ssf_LastSeenAt :: Instant
  ssf_AbsoluteExpiresAt :: Instant

definition NewSessionState :: "SessionStateFacts \<Rightarrow> domain_error + SessionState" where
  "NewSessionState facts =
     check_then (err_of (ParseSessionID (ssf_ID facts)))
     (check_then (err_of (ParseAccountID (ssf_AccountID facts)))
     (if TokenHash_IsZero (ssf_TokenHash facts)
        then Inl (policy ErrInvalidValue ''invalid_session_token_hash'' ''session must have a token hash'')
      else if Instant_IsZero (ssf_LastSeenAt facts)
        then Inl (policy ErrInvalidValue ''invalid_session_last_seen'' ''session must have a last seen time'')
      else if Instant_IsZero (ssf_AbsoluteExpiresAt facts)
        then Inl (policy ErrInvalidValue ''invalid_session_absolute_expiry'' ''session must have an absolute expiry'')
      else if Before (ssf_AbsoluteExpiresAt facts) (ssf_LastSeenAt facts)
        then Inl (policy ErrInvalidValue ''invalid_session_absolute_expiry''
          ''absolute expiry must not be before last seen'')
      else Inr \<lparr>ss_id = ssf_ID facts, ss_accountID = ssf_AccountID facts,
             ss_tokenHash = ssf_TokenHash facts, ss_csrfSecretHash = ssf_CSRFSecretHash facts,
             ss_authEpoch = ssf_AuthEpoch facts, ss_lastSeenAt = ssf_LastSeenAt facts,
             ss_absoluteExpiresAt = ssf_AbsoluteExpiresAt facts\<rparr>))"

definition WithCSRFSecretHash :: "SessionState \<Rightarrow> TokenHash \<Rightarrow> domain_error + SessionState" where
  "WithCSRFSecretHash s hash =
     (if TokenHash_IsZero hash
        then Inl (policy ErrInvalidValue ''invalid_session_csrf_hash'' ''session must have a CSRF secret hash'')
      else Inr (s\<lparr>ss_csrfSecretHash := hash\<rparr>))"

record SessionAccountFacts =
  saf_AccountID :: AccountID
  saf_State :: AccountState
  saf_AuthEpoch :: AuthEpoch

definition ValidateAt :: "SessionState \<Rightarrow> Instant \<Rightarrow> Duration \<Rightarrow> SessionAccountFacts \<Rightarrow> domain_error option" where
  "ValidateAt s now idleTimeout account =
     (if saf_AccountID account \<noteq> ss_accountID s
        then Some (policy_with ErrConflict ''session_account_mismatch''
          ''session does not belong to the given account'' ''session_id'' (ss_id s))
      else if saf_State account \<noteq> AccountStateActive
        then Some (policy_with ErrNotPermitted ''account_not_active'' ''account is not active''
          ''account_id'' (ss_accountID s))
      else if saf_AuthEpoch account \<noteq> ss_authEpoch s
        then Some (policy_with ErrConflict ''session_epoch_mismatch''
          ''session was issued under a superseded auth epoch'' ''session_id'' (ss_id s))
      else if IsExpiredAt (Instant_Add (ss_lastSeenAt s) idleTimeout) now
        then Some (policy_with ErrExpired ''session_idle_expired'' ''session idle timeout has elapsed''
          ''session_id'' (ss_id s))
      else if IsExpiredAt (ss_absoluteExpiresAt s) now
        then Some (policy_with ErrExpired ''session_absolute_expired''
          ''session absolute lifetime has elapsed'' ''session_id'' (ss_id s))
      else None)"

definition Touch :: "SessionState \<Rightarrow> Instant \<Rightarrow> SessionState" where
  "Touch s now = s\<lparr>ss_lastSeenAt := now\<rparr>"

record SessionPolicy =
  spo_idleTimeout :: Duration
  spo_absoluteLifetime :: Duration

definition NewSessionPolicy :: "Duration \<Rightarrow> Duration \<Rightarrow> domain_error + SessionPolicy" where
  "NewSessionPolicy idleTimeout absoluteLifetime =
     (if \<not> Duration_IsPositive idleTimeout
        then Inl (policy ErrInvalidValue ''invalid_session_idle_timeout'' ''session idle timeout must be positive'')
      else if \<not> Duration_IsPositive absoluteLifetime
        then Inl (policy ErrInvalidValue ''invalid_session_absolute_lifetime''
          ''session absolute lifetime must be positive'')
      else Inr \<lparr>spo_idleTimeout = idleTimeout, spo_absoluteLifetime = absoluteLifetime\<rparr>)"

text \<open>The panic of the two default policies is the \<open>Inl\<close> branch, which \<open>DefaultPolicies\<close> rules out.\<close>

definition DefaultSessionPolicy :: "domain_error + SessionPolicy" where
  "DefaultSessionPolicy = NewSessionPolicy (NewDuration go_hour) (NewDuration (24 * go_hour))"

definition AbsoluteExpiresAt :: "SessionPolicy \<Rightarrow> Instant \<Rightarrow> Instant" where
  "AbsoluteExpiresAt p loginAt = Instant_Add loginAt (spo_absoluteLifetime p)"

datatype ResetPolicy = ResetPolicy (linkValidity: Duration)

definition NewResetPolicy :: "Duration \<Rightarrow> domain_error + ResetPolicy" where
  "NewResetPolicy d =
     (if \<not> Duration_IsPositive d
        then Inl (policy ErrInvalidValue ''invalid_reset_link_validity'' ''reset link validity must be positive'')
      else Inr (ResetPolicy d))"

definition DefaultResetPolicy :: "domain_error + ResetPolicy" where
  "DefaultResetPolicy = NewResetPolicy (NewDuration (3 * go_hour))"

definition ResetPolicy_ExpiresAt :: "ResetPolicy \<Rightarrow> Instant \<Rightarrow> Instant" where
  "ResetPolicy_ExpiresAt p issuedAt = Instant_Add issuedAt (linkValidity p)"

lemma DefaultPolicies:
  "DefaultSessionPolicy = Inr \<lparr>spo_idleTimeout = Duration 3600000000, spo_absoluteLifetime = Duration 86400000000\<rparr>"
  "DefaultResetPolicy = Inr (ResetPolicy (Duration 10800000000))"
  by (simp_all add: DefaultSessionPolicy_def NewSessionPolicy_def DefaultResetPolicy_def NewResetPolicy_def
      NewDuration_def Duration_IsPositive_def go_hour_def go_div_nonneg)

subsection \<open>Reset tokens\<close>

record AdminResetToken =
  rt_id :: ResetTokenID
  rt_accountID :: AccountID
  rt_tokenHash :: TokenHash
  rt_authEpoch :: AuthEpoch
  rt_issuedAt :: Instant
  rt_expiresAt :: Instant
  rt_consumedAt :: Instant
  rt_invalidatedAt :: Instant

record AdminResetTokenFacts =
  rtf_ID :: ResetTokenID
  rtf_AccountID :: AccountID
  rtf_TokenHash :: TokenHash
  rtf_AuthEpoch :: AuthEpoch
  rtf_IssuedAt :: Instant
  rtf_ExpiresAt :: Instant
  rtf_ConsumedAt :: Instant
  rtf_InvalidatedAt :: Instant

definition NewAdminResetToken :: "AdminResetTokenFacts \<Rightarrow> domain_error + AdminResetToken" where
  "NewAdminResetToken facts =
     check_then (err_of (ParseResetTokenID (rtf_ID facts)))
     (check_then (err_of (ParseAccountID (rtf_AccountID facts)))
     (if TokenHash_IsZero (rtf_TokenHash facts)
        then Inl (policy ErrInvalidValue ''invalid_reset_token_hash'' ''reset token must have a token hash'')
      else if Instant_IsZero (rtf_IssuedAt facts)
        then Inl (policy ErrInvalidValue ''invalid_reset_token_issued_at'' ''reset token must have an issued time'')
      else if Instant_IsZero (rtf_ExpiresAt facts) \<or> \<not> After (rtf_ExpiresAt facts) (rtf_IssuedAt facts)
        then Inl (policy ErrInvalidValue ''invalid_reset_token_expiry''
          ''reset token expiry must be after it was issued'')
      else Inr \<lparr>rt_id = rtf_ID facts, rt_accountID = rtf_AccountID facts,
             rt_tokenHash = rtf_TokenHash facts, rt_authEpoch = rtf_AuthEpoch facts,
             rt_issuedAt = rtf_IssuedAt facts, rt_expiresAt = rtf_ExpiresAt facts,
             rt_consumedAt = rtf_ConsumedAt facts, rt_invalidatedAt = rtf_InvalidatedAt facts\<rparr>))"

definition IssueAdminResetToken ::
  "ResetTokenID \<Rightarrow> AccountID \<Rightarrow> TokenHash \<Rightarrow> AuthEpoch \<Rightarrow> Instant \<Rightarrow> ResetPolicy
     \<Rightarrow> domain_error + AdminResetToken" where
  "IssueAdminResetToken tokenID accountID tokenHash authEpoch now pol =
     NewAdminResetToken \<lparr>rtf_ID = tokenID, rtf_AccountID = accountID, rtf_TokenHash = tokenHash,
       rtf_AuthEpoch = authEpoch, rtf_IssuedAt = now, rtf_ExpiresAt = ResetPolicy_ExpiresAt pol now,
       rtf_ConsumedAt = zero_instant, rtf_InvalidatedAt = zero_instant\<rparr>"

definition Token_IsConsumed :: "AdminResetToken \<Rightarrow> bool" where
  "Token_IsConsumed t \<longleftrightarrow> \<not> Instant_IsZero (rt_consumedAt t)"

definition Token_IsInvalidated :: "AdminResetToken \<Rightarrow> bool" where
  "Token_IsInvalidated t \<longleftrightarrow> \<not> Instant_IsZero (rt_invalidatedAt t)"

definition Token_IsExpiredAt :: "AdminResetToken \<Rightarrow> Instant \<Rightarrow> bool" where
  "Token_IsExpiredAt t now \<longleftrightarrow> IsExpiredAt (rt_expiresAt t) now"

record ResetTokenAccountFacts =
  raf_AccountID :: AccountID
  raf_State :: AccountState
  raf_AuthEpoch :: AuthEpoch

definition token_error :: "sentinel \<Rightarrow> string \<Rightarrow> string \<Rightarrow> AdminResetToken \<Rightarrow> domain_error" where
  "token_error base code detail t = policy_with base code detail ''reset_token_id'' (rt_id t)"

definition Token_CanConsume :: "AdminResetToken \<Rightarrow> Instant \<Rightarrow> ResetTokenAccountFacts \<Rightarrow> domain_error option" where
  "Token_CanConsume t now account =
     (if Token_IsConsumed t
        then Some (token_error ErrAlreadyConsumed ''reset_token_consumed'' ''reset token has already been used'' t)
      else if Token_IsInvalidated t
        then Some (token_error ErrNotPermitted ''reset_token_invalidated'' ''reset token has been superseded'' t)
      else if Token_IsExpiredAt t now
        then Some (token_error ErrExpired ''reset_token_expired'' ''reset token has expired'' t)
      else if raf_AccountID account \<noteq> rt_accountID t
        then Some (token_error ErrConflict ''reset_token_account_mismatch''
          ''reset token does not belong to the given account'' t)
      else if raf_AuthEpoch account \<noteq> rt_authEpoch t
        then Some (token_error ErrConflict ''reset_token_epoch_mismatch''
          ''reset token was issued under a superseded auth epoch'' t)
      else if raf_State account \<noteq> AccountStateResetPending
        then Some (policy_with ErrNotPermitted ''account_not_reset_pending''
          ''account is not pending a password reset'' ''account_id'' (raf_AccountID account))
      else None)"

definition Token_Consume ::
  "AdminResetToken \<Rightarrow> Instant \<Rightarrow> ResetTokenAccountFacts \<Rightarrow> domain_error + AdminResetToken" where
  "Token_Consume t now account =
     check_then (Token_CanConsume t now account) (Inr (t\<lparr>rt_consumedAt := now\<rparr>))"

definition Token_Invalidate :: "AdminResetToken \<Rightarrow> Instant \<Rightarrow> domain_error + AdminResetToken" where
  "Token_Invalidate t now =
     (if Token_IsConsumed t
        then Inl (token_error ErrInvalidTransition ''reset_token_consumed''
          ''cannot invalidate an already consumed reset token'' t)
      else if Token_IsInvalidated t then Inr t
      else Inr (t\<lparr>rt_invalidatedAt := now\<rparr>))"

datatype token_op = OpTokenConsume Instant ResetTokenAccountFacts | OpTokenInvalidate Instant

fun token_step :: "AdminResetToken \<Rightarrow> token_op \<Rightarrow> domain_error + AdminResetToken" where
  "token_step t (OpTokenConsume now account) = Token_Consume t now account"
| "token_step t (OpTokenInvalidate now) = Token_Invalidate t now"

fun is_token_use :: "token_op \<Rightarrow> bool" where
  "is_token_use (OpTokenConsume _ _) = True"
| "is_token_use (OpTokenInvalidate _) = False"

fun token_clocked :: "token_op \<Rightarrow> bool" where
  "token_clocked (OpTokenConsume now _) \<longleftrightarrow> now \<noteq> zero_instant"
| "token_clocked (OpTokenInvalidate now) \<longleftrightarrow> now \<noteq> zero_instant"

definition token_spent :: "AdminResetToken \<Rightarrow> bool" where
  "token_spent t \<longleftrightarrow> Token_IsConsumed t \<or> Token_IsInvalidated t"

lemma Token_CanConsume_None [success_iff]:
  "Token_CanConsume t now account = None \<longleftrightarrow> \<not> token_spent t \<and> now < rt_expiresAt t
     \<and> raf_AccountID account = rt_accountID t \<and> raf_AuthEpoch account = rt_authEpoch t
     \<and> raf_State account = AccountStateResetPending"
  by (auto simp: Token_CanConsume_def token_spent_def Token_IsExpiredAt_def not_le)

interpretation ts: one_shot token_step is_token_use token_spent token_clocked
proof
  show "\<not> token_spent s" if "is_token_use x" "token_step s x = Inr s'" for x s s'
    using that by (cases x) (auto simp: Token_Consume_def success_iff)
  show "token_spent s'" if "is_token_use x" "token_clocked x" "token_step s x = Inr s'" for x s s'
    using that by (cases x) (auto simp: Token_Consume_def check_then_Inr token_spent_def Token_IsConsumed_def
        Instant_IsZero_iff)
  show "token_spent s'" if "token_spent s" "token_step s x = Inr s'" for s x s'
    using that by (cases x) (auto simp: Token_Consume_def Token_Invalidate_def success_iff token_spent_def
        split: if_splits)
qed

subsection \<open>Properties\<close>

text \<open>The facts a service reads about an account in its transaction.\<close>

definition session_facts :: "Account \<Rightarrow> SessionAccountFacts" where
  "session_facts a = \<lparr>saf_AccountID = ac_id a, saf_State = ac_state a, saf_AuthEpoch = ac_authEpoch a\<rparr>"

definition token_facts :: "Account \<Rightarrow> ResetTokenAccountFacts" where
  "token_facts a = \<lparr>raf_AccountID = ac_id a, raf_State = ac_state a, raf_AuthEpoch = ac_authEpoch a\<rparr>"

lemma ValidateAt_None [success_iff]:
  "ValidateAt s now idle account = None \<longleftrightarrow> saf_AccountID account = ss_accountID s
     \<and> saf_State account = AccountStateActive \<and> saf_AuthEpoch account = ss_authEpoch s
     \<and> now < Instant_Add (ss_lastSeenAt s) idle \<and> now < ss_absoluteExpiresAt s"
  by (auto simp: ValidateAt_def not_le)

text \<open>A password reset cuts off everything issued before it: once any reset step has succeeded on
  an account (fewer than 2^64 of them), no session and no reset token that carries an epoch the
  account had before is accepted, at any time and under any idle timeout.\<close>

theorem reset_revokes_credentials:
  assumes "in_int64 (ac_authEpoch a)" and "length xs < 18446744073709551616"
    and "0 < changes account_step a xs"
    and "ss_authEpoch s = ac_authEpoch a" and "rt_authEpoch t = ac_authEpoch a"
  shows "ValidateAt s now idle (session_facts (run_keep account_step a xs)) \<noteq> None
    \<and> Token_CanConsume t now (token_facts (run_keep account_step a xs)) \<noteq> None"
  using em.changed_version_differs [OF assms(1-3)] assms(4,5)
  by (simp add: success_iff session_facts_def token_facts_def)

definition sample_account :: Account where
  "sample_account = \<lparr>ac_id = sample_uuid CHR ''1'', ac_normalizedLoginName = ''admin'',
     ac_passwordHash = PasswordHash ''h'', ac_state = AccountStateActive, ac_authEpoch = 3,
     ac_isGlobalAdmin = True, ac_version = 1\<rparr>"

definition sample_session :: SessionState where
  "sample_session = \<lparr>ss_id = sample_uuid CHR ''2'', ss_accountID = sample_uuid CHR ''1'',
     ss_tokenHash = sample_token, ss_csrfSecretHash = sample_token, ss_authEpoch = 3,
     ss_lastSeenAt = Instant 10, ss_absoluteExpiresAt = Instant 1000\<rparr>"

definition sample_reset_token :: AdminResetToken where
  "sample_reset_token = \<lparr>rt_id = sample_uuid CHR ''3'', rt_accountID = sample_uuid CHR ''1'',
     rt_tokenHash = sample_token, rt_authEpoch = 3, rt_issuedAt = Instant 10, rt_expiresAt = Instant 100,
     rt_consumedAt = zero_instant, rt_invalidatedAt = zero_instant\<rparr>"

lemma sample_reset_changes: "0 < changes account_step sample_account [OpBeginReset]"
proof -
  have "keep_step account_step sample_account OpBeginReset \<noteq> sample_account"
    by (simp add: keep_step_def BeginReset_def sample_account_def)
  then show ?thesis by simp
qed

theorem reset_revokes_credentials_witness:
  "ValidateAt sample_session (Instant 11) (Duration 50) (session_facts sample_account) = None
   \<and> ValidateAt sample_session (Instant 11) (Duration 50)
       (session_facts (run_keep account_step sample_account [OpBeginReset])) \<noteq> None"
proof
  have "Instant_Add (Instant 10) (Duration 50) = Instant 60"
    by (simp add: Instant_Add_def wrap64_id int64_bounds)
  then show "ValidateAt sample_session (Instant 11) (Duration 50) (session_facts sample_account) = None"
    by (simp add: success_iff session_facts_def sample_session_def sample_account_def less_Instant_def)
  show "ValidateAt sample_session (Instant 11) (Duration 50)
      (session_facts (run_keep account_step sample_account [OpBeginReset])) \<noteq> None"
    using reset_revokes_credentials [OF _ _ sample_reset_changes, of sample_session sample_reset_token]
    by (simp add: sample_account_def sample_session_def sample_reset_token_def int64_bounds)
qed

text \<open>What a request does to its session: extend the idle deadline or renew the CSRF secret.\<close>

datatype session_op = OpTouch Instant | OpNewCSRF TokenHash

fun session_step :: "SessionState \<Rightarrow> session_op \<Rightarrow> domain_error + SessionState" where
  "session_step s (OpTouch now) = Inr (Touch s now)"
| "session_step s (OpNewCSRF h) = WithCSRFSecretHash s h"

lemma session_run_fixed:
  "ss_absoluteExpiresAt (run_keep session_step s xs) = ss_absoluteExpiresAt s
   \<and> ss_accountID (run_keep session_step s xs) = ss_accountID s
   \<and> ss_authEpoch (run_keep session_step s xs) = ss_authEpoch s"
proof (induction xs arbitrary: s)
  case Nil
  show ?case by simp
next
  case (Cons x xs)
  have "ss_absoluteExpiresAt (keep_step session_step s x) = ss_absoluteExpiresAt s
     \<and> ss_accountID (keep_step session_step s x) = ss_accountID s
     \<and> ss_authEpoch (keep_step session_step s x) = ss_authEpoch s"
    by (cases x) (auto simp: keep_step_def Touch_def WithCSRFSecretHash_def)
  with Cons [of "keep_step session_step s x"] show ?case by simp
qed

text \<open>Session lifetime: a session is accepted only for its own active account, under the
  account's current epoch, within the idle timeout of its last use, and no amount of activity
  carries it past the absolute deadline fixed at login.\<close>

theorem session_lifetime:
  assumes "ValidateAt (run_keep session_step s xs) now idle account = None"
  shows "now < ss_absoluteExpiresAt s
    \<and> now < Instant_Add (ss_lastSeenAt (run_keep session_step s xs)) idle
    \<and> saf_AccountID account = ss_accountID s \<and> saf_State account = AccountStateActive
    \<and> saf_AuthEpoch account = ss_authEpoch s"
  using assms session_run_fixed [of s xs] by (simp add: success_iff)

theorem session_lifetime_witness:
  "Instant 900 < ss_absoluteExpiresAt sample_session"
proof -
  have "Instant_Add (Instant 890) (Duration 50) = Instant 940"
    by (simp add: Instant_Add_def wrap64_id int64_bounds)
  then have "ValidateAt (run_keep session_step sample_session [OpTouch (Instant 890)]) (Instant 900) (Duration 50)
      (session_facts sample_account) = None"
    by (simp add: success_iff keep_step_def Touch_def session_facts_def sample_session_def sample_account_def
        less_Instant_def)
  then show ?thesis by (rule session_lifetime [THEN conjunct1])
qed

text \<open>A reset link works at most once: whatever sequence of consumptions and invalidations is
  attempted with a set clock, at most one consumption succeeds, and none after the link was
  superseded; a consumption needs the account it was issued for, still pending a reset, in the
  token's own epoch.\<close>

theorem reset_token_one_shot:
  assumes "list_all token_clocked xs"
  shows "uses token_step is_token_use t xs + (if token_spent t then 1 else 0) \<le> 1
    \<and> (Token_Consume t now account = Inr t' \<longrightarrow> now < rt_expiresAt t
         \<and> raf_AccountID account = rt_accountID t \<and> raf_AuthEpoch account = rt_authEpoch t
         \<and> raf_State account = AccountStateResetPending)"
  using ts.at_most_one_use [OF assms, of t] by (auto simp: Token_Consume_def success_iff)

definition sample_token_run :: "token_op list" where
  "sample_token_run =
     [OpTokenConsume (Instant 20) (token_facts (sample_account\<lparr>ac_state := AccountStateResetPending\<rparr>)),
      OpTokenConsume (Instant 30) (token_facts (sample_account\<lparr>ac_state := AccountStateResetPending\<rparr>))]"

theorem reset_token_one_shot_witness:
  "uses token_step is_token_use sample_reset_token sample_token_run \<le> 1"
proof -
  have "list_all token_clocked sample_token_run" by (simp add: sample_token_run_def zero_instant_def)
  from reset_token_one_shot [OF this, THEN conjunct1] show ?thesis by (rule add_leD1)
qed

end
