(* ===== verification/App_Errors.thy ===== *)
theory App_Errors
  imports Domain_Errors Prelude
begin

text \<open>
  The error contract between services and adapters: \<open>internal/app/contract/errors.go\<close>
  (\<open>AppError\<close>, \<open>FromDomainError\<close>), \<open>internal/app/port/errors.go\<close> (the store's sentinels and their
  classification), \<open>storeError\<close> of \<open>internal/app/service/revocations.go\<close>, and the preparation
  retry of \<open>internal/app/service/retry.go\<close>. A Go \<open>error\<close> value is a chain: \<open>errors.Is\<close> and
  \<open>errors.As\<close> walk it.
\<close>

subsection \<open>Error values\<close>

datatype ErrorKind =
    ErrorKindValidation
  | ErrorKindAuth
  | ErrorKindForbidden
  | ErrorKindConflict
  | ErrorKindUnavailable
  | ErrorKindCommitUnknown
  | ErrorKindOther string

fun ErrorKind_Validate :: "ErrorKind \<Rightarrow> domain_error option" where
  "ErrorKind_Validate (ErrorKindOther _) = Some (Wrapped ErrInvalidValue ''unsupported error kind'')"
| "ErrorKind_Validate _ = None"

fun ErrorKind_String :: "ErrorKind \<Rightarrow> string" where
  "ErrorKind_String ErrorKindValidation = ''validation''"
| "ErrorKind_String ErrorKindAuth = ''auth''"
| "ErrorKind_String ErrorKindForbidden = ''forbidden''"
| "ErrorKind_String ErrorKindConflict = ''conflict''"
| "ErrorKind_String ErrorKindUnavailable = ''unavailable''"
| "ErrorKind_String ErrorKindCommitUnknown = ''commit_unknown''"
| "ErrorKind_String (ErrorKindOther s) = s"

text \<open>The four sentinels of \<open>port/errors.go\<close>.\<close>

datatype port_sentinel = ErrNotFound | ErrVersionConflict | ErrDuplicate | ErrCommitUnknown

text \<open>
  The errors a service meets: a store sentinel, a domain error, an \<open>AppError\<close> with its cause, a
  \<open>fmt.Errorf\<close> wrapper, and any other error of the standard library or an adapter.
\<close>

datatype go_error =
    Port port_sentinel
  | Domain domain_error
  | App AppError
  | Wrap string go_error
  | Opaque string
and AppError =
  AppError (ae_kind: ErrorKind) (ae_code: string) (ae_detail: string)
    (ae_fields: "string \<rightharpoonup> string") (ae_cause: "go_error option")

definition NewAppError :: "ErrorKind \<Rightarrow> string \<Rightarrow> string \<Rightarrow> AppError" where
  "NewAppError kind code detail = AppError kind code detail Map.empty None"

definition WrapAppError :: "ErrorKind \<Rightarrow> string \<Rightarrow> string \<Rightarrow> go_error \<Rightarrow> AppError" where
  "WrapAppError kind code detail cause = AppError kind code detail Map.empty (Some cause)"

definition AppError_WithField :: "AppError \<Rightarrow> string \<Rightarrow> string \<Rightarrow> AppError" where
  "AppError_WithField e key val =
     AppError (ae_kind e) (ae_code e) (ae_detail e) ((ae_fields e)(key \<mapsto> val)) (ae_cause e)"

definition PublicFields :: "AppError \<Rightarrow> string \<rightharpoonup> string" where
  "PublicFields e = ae_fields e"

definition AppError_Error :: "AppError \<Rightarrow> string" where
  "AppError_Error e = ErrorKind_String (ae_kind e) @ '': '' @ ae_code e
     @ (if ae_detail e \<noteq> [] then '': '' @ ae_detail e else [])"

definition AppError_Unwrap :: "AppError \<Rightarrow> go_error option" where
  "AppError_Unwrap e = ae_cause e"

text \<open>The receiver may be a nil pointer.\<close>

definition IsRetryable :: "AppError option \<Rightarrow> bool" where
  "IsRetryable e = (case e of None \<Rightarrow> False | Some a \<Rightarrow> ae_kind a = ErrorKindUnavailable)"

fun AsAppError :: "go_error \<Rightarrow> AppError option" where
  "AsAppError (App a) = Some a"
| "AsAppError (Wrap _ e) = AsAppError e"
| "AsAppError _ = None"

text \<open>\<open>errors.Is\<close> with a store sentinel, and with a domain sentinel.\<close>

fun Is_port :: "go_error \<Rightarrow> port_sentinel \<Rightarrow> bool" where
  "Is_port (Port p) s \<longleftrightarrow> p = s"
| "Is_port (Wrap _ e) s \<longleftrightarrow> Is_port e s"
| "Is_port (App (AppError _ _ _ _ (Some e))) s \<longleftrightarrow> Is_port e s"
| "Is_port _ s \<longleftrightarrow> False"

fun Is_domain :: "go_error \<Rightarrow> sentinel \<Rightarrow> bool" where
  "Is_domain (Domain d) s \<longleftrightarrow> errors_Is d s"
| "Is_domain (Wrap _ e) s \<longleftrightarrow> Is_domain e s"
| "Is_domain (App (AppError _ _ _ _ (Some e))) s \<longleftrightarrow> Is_domain e s"
| "Is_domain _ s \<longleftrightarrow> False"

text \<open>\<open>errors.As\<close> with a \<open>*PolicyError\<close> target.\<close>

fun As_policy :: "go_error \<Rightarrow> PolicyError option" where
  "As_policy (Domain (Policy p)) = Some p"
| "As_policy (Wrap _ e) = As_policy e"
| "As_policy (App (AppError _ _ _ _ (Some e))) = As_policy e"
| "As_policy _ = None"

subsection \<open>Classification\<close>

text \<open>
  The loop over the policy error's fields adds each of them to an empty map, in the map's
  unspecified order; the result is the field map itself.
\<close>

definition FromDomainError :: "go_error option \<Rightarrow> go_error option" where
  "FromDomainError err =
     (case err of
        None \<Rightarrow> None
      | Some e \<Rightarrow>
          (case AsAppError e of
             Some a \<Rightarrow> Some (App a)
           | None \<Rightarrow>
               let kind = (if Is_domain e ErrConflict then ErrorKindConflict
                           else if Is_domain e ErrNotPermitted then ErrorKindForbidden
                           else ErrorKindValidation);
                   policyErr = As_policy e;
                   code = (case policyErr of
                       Some p \<Rightarrow> if pe_Code p \<noteq> [] then pe_Code p else ''invalid_request''
                     | None \<Rightarrow> ''invalid_request'');
                   detail = (case policyErr of Some p \<Rightarrow> pe_Detail p | None \<Rightarrow> []);
                   fields = (case policyErr of Some p \<Rightarrow> Fields p | None \<Rightarrow> Map.empty)
               in Some (App (AppError kind code detail fields (Some e)))))"

definition ClassifyStoreError :: "go_error \<Rightarrow> ErrorKind option" where
  "ClassifyStoreError e =
     (if Is_port e ErrVersionConflict \<or> Is_port e ErrDuplicate then Some ErrorKindConflict
      else if Is_port e ErrCommitUnknown then Some ErrorKindCommitUnknown
      else None)"

definition storeError :: "go_error \<Rightarrow> string \<Rightarrow> string \<Rightarrow> go_error" where
  "storeError e code detail =
     (case ClassifyStoreError e of
        Some kind \<Rightarrow> App (WrapAppError kind code detail e)
      | None \<Rightarrow> App (WrapAppError ErrorKindUnavailable code detail e))"

lemma AsAppError_cause:
  "AsAppError e = None \<Longrightarrow> \<forall>a. e \<noteq> App a"
  by (cases e) auto

text \<open>Domain errors reach the client faithfully: no error stays no error, an error that already
  is (or wraps) an \<open>AppError\<close> is handed on as that \<open>AppError\<close>, and any other error becomes one
  whose kind is conflict or forbidden exactly for the two matching sentinels, whose code and
  fields are the policy's own, and whose cause is the original error.\<close>

theorem from_domain_error_classifies:
  "FromDomainError None = None
   \<and> (\<forall>e a. AsAppError e = Some a \<longrightarrow> FromDomainError (Some e) = Some (App a))
   \<and> (\<forall>d. \<exists>a. FromDomainError (Some (Domain d)) = Some (App a) \<and> ae_cause a = Some (Domain d)
        \<and> (ae_kind a = ErrorKindConflict \<longleftrightarrow> errors_Is d ErrConflict)
        \<and> (ae_kind a = ErrorKindForbidden \<longleftrightarrow> errors_Is d ErrNotPermitted)
        \<and> (ae_kind a \<in> {ErrorKindValidation, ErrorKindConflict, ErrorKindForbidden})
        \<and> (\<forall>c. error_code d = Some c \<and> c \<noteq> [] \<longrightarrow> ae_code a = c)
        \<and> \<not> IsRetryable (Some a))
   \<and> (\<forall>e. FromDomainError (FromDomainError e) = FromDomainError e)"
proof (intro conjI allI)
  show "FromDomainError None = None" by (simp add: FromDomainError_def)
  show "AsAppError e = Some a \<longrightarrow> FromDomainError (Some e) = Some (App a)" for e a
    by (simp add: FromDomainError_def)
  show "\<exists>a. FromDomainError (Some (Domain d)) = Some (App a) \<and> ae_cause a = Some (Domain d)
        \<and> (ae_kind a = ErrorKindConflict \<longleftrightarrow> errors_Is d ErrConflict)
        \<and> (ae_kind a = ErrorKindForbidden \<longleftrightarrow> errors_Is d ErrNotPermitted)
        \<and> (ae_kind a \<in> {ErrorKindValidation, ErrorKindConflict, ErrorKindForbidden})
        \<and> (\<forall>c. error_code d = Some c \<and> c \<noteq> [] \<longrightarrow> ae_code a = c)
        \<and> \<not> IsRetryable (Some a)" for d
    by (cases d) (auto simp: FromDomainError_def Let_def IsRetryable_def)
  show "FromDomainError (FromDomainError e) = FromDomainError e" for e
    by (cases e) (auto simp: FromDomainError_def Let_def split: option.splits)
qed

theorem from_domain_error_classifies_witness:
  "\<exists>a. FromDomainError (Some (Domain (policy ErrNotPermitted ''account_disabled'' []))) = Some (App a)
     \<and> ae_kind a = ErrorKindForbidden \<and> ae_code a = ''account_disabled''"
proof -
  let ?d = "policy ErrNotPermitted ''account_disabled'' []"
  from from_domain_error_classifies obtain a where
    "FromDomainError (Some (Domain ?d)) = Some (App a)"
    "ae_kind a = ErrorKindForbidden \<longleftrightarrow> errors_Is ?d ErrNotPermitted"
    "\<forall>c. error_code ?d = Some c \<and> c \<noteq> [] \<longrightarrow> ae_code a = c" by blast
  then show ?thesis by auto
qed

text \<open>An undetermined commit is never reported as a conflict or as retryable.\<close>

lemma store_error_commit_unknown:
  "storeError (Port ErrCommitUnknown) code detail
     = App (WrapAppError ErrorKindCommitUnknown code detail (Port ErrCommitUnknown))"
  by (simp add: storeError_def ClassifyStoreError_def)

subsection \<open>Redoing a preparation\<close>

definition maxPreparationAttempts :: nat where "maxPreparationAttempts = 3"

definition retryablePreparation :: "go_error \<Rightarrow> bool" where
  "retryablePreparation e \<longleftrightarrow>
     (if Is_port e ErrCommitUnknown \<or> Is_port e ErrDuplicate then False
      else Is_port e ErrVersionConflict)"

text \<open>
  The attempt is a state transformer on the world \<open>'s\<close>; \<open>ctx_Err\<close> reads the request context in it.
  The first argument is the number of iterations left, the fourth is \<open>lastErr\<close>.
\<close>

fun retry_loop ::
  "nat \<Rightarrow> ('s \<Rightarrow> go_error option) \<Rightarrow> ('s \<Rightarrow> go_error option \<times> 's) \<Rightarrow> go_error option \<Rightarrow> 's
     \<Rightarrow> go_error option \<times> 's" where
  "retry_loop 0 ctx_Err attempt lastErr s =
     (Some (App (AppError ErrorKindConflict ''store_contention''
        ''the request lost a version race repeatedly'' Map.empty lastErr)), s)"
| "retry_loop (Suc n) ctx_Err attempt lastErr s =
     (case ctx_Err s of
        Some e \<Rightarrow> (Some (App (WrapAppError ErrorKindUnavailable ''request_canceled''
             ''the request was canceled before it completed'' e)), s)
      | None \<Rightarrow>
          (case attempt s of
             (None, s') \<Rightarrow> (None, s')
           | (Some e, s') \<Rightarrow>
               if \<not> retryablePreparation e then (Some e, s')
               else retry_loop n ctx_Err attempt (Some e) s'))"

definition RunWithRetry ::
  "('s \<Rightarrow> go_error option) \<Rightarrow> ('s \<Rightarrow> go_error option \<times> 's) \<Rightarrow> 's \<Rightarrow> go_error option \<times> 's" where
  "RunWithRetry ctx_Err attempt s = retry_loop maxPreparationAttempts ctx_Err attempt None s"

text \<open>An attempt instrumented with the outcomes of all attempts so far.\<close>

definition logged :: "('s \<Rightarrow> go_error option \<times> 's) \<Rightarrow> 's \<times> go_error option list
    \<Rightarrow> go_error option \<times> 's \<times> go_error option list" where
  "logged attempt w = (case attempt (fst w) of (r, s') \<Rightarrow> (r, s', snd w @ [r]))"

definition retryable_outcome :: "go_error option \<Rightarrow> bool" where
  "retryable_outcome r = (case r of None \<Rightarrow> False | Some e \<Rightarrow> retryablePreparation e)"

lemma logged_run: "attempt s = (r, s') \<Longrightarrow> logged attempt (s, log) = (r, s', log @ [r])"
  by (simp add: logged_def)

lemma retry_loop_log:
  assumes "retry_loop n ctx (logged attempt) le (s, log) = (r, s', log')"
    and "list_all retryable_outcome log"
  shows "\<exists>new. log' = log @ new \<and> length new \<le> n \<and> list_all retryable_outcome (butlast log')
    \<and> (r = None \<longleftrightarrow> new \<noteq> [] \<and> last new = None)
    \<and> (new \<noteq> [] \<and> \<not> retryable_outcome (last new) \<longrightarrow> r = last new)"
  using assms
proof (induction n arbitrary: s log le)
  case 0
  then have "list_all retryable_outcome (butlast log)"
    by (auto simp: list_all_iff dest: in_set_butlastD)
  with 0 show ?case by auto
next
  case (Suc n)
  show ?case
  proof (cases "ctx (s, log)")
    case (Some e)
    with Suc.prems have "log' = log" "r \<noteq> None" by auto
    moreover have "list_all retryable_outcome (butlast log)"
      using Suc.prems(2) by (auto simp: list_all_iff dest: in_set_butlastD)
    ultimately show ?thesis by auto
  next
    case None
    obtain o1 s1 where att: "attempt s = (o1, s1)" by (cases "attempt s")
    show ?thesis
    proof (cases "retryable_outcome o1")
      case True
      then obtain e where o1: "o1 = Some e" "retryablePreparation e"
        by (auto simp: retryable_outcome_def split: option.splits)
      have loop: "retry_loop n ctx (logged attempt) (Some e) (s1, log @ [o1]) = (r, s', log')"
        using Suc.prems(1) None o1 by (simp add: logged_run [of attempt, OF att])
      have "list_all retryable_outcome (log @ [o1])" using Suc.prems(2) True by simp
      from Suc.IH [OF loop this] obtain new where
        "log' = (log @ [o1]) @ new" "length new \<le> n" "list_all retryable_outcome (butlast log')"
        "r = None \<longleftrightarrow> new \<noteq> [] \<and> last new = None"
        "new \<noteq> [] \<and> \<not> retryable_outcome (last new) \<longrightarrow> r = last new" by blast
      with True o1 show ?thesis by (intro exI [of _ "o1 # new"]) auto
    next
      case False
      have "log' = log @ [o1]" "r = o1"
        using Suc.prems(1) None False
        by (auto simp: logged_run [of attempt, OF att] retryable_outcome_def split: option.splits if_splits)
      with Suc.prems(2) False show ?thesis by (intro exI [of _ "[o1]"]) auto
    qed
  qed
qed

text \<open>C40. The retry is safe: the preparation runs at most three times, it runs again only after an
  attempt that definitely lost a version race, and success is reported exactly when the last
  attempt succeeded. So an undetermined commit, a duplicate key or any other outcome is never
  attempted again and is reported as it is.\<close>

theorem retry_only_after_version_race:
  assumes "RunWithRetry ctx (logged attempt) (s, []) = (r, s', log)"
  shows "length log \<le> 3 \<and> list_all retryable_outcome (butlast log)
    \<and> (r = None \<longleftrightarrow> log \<noteq> [] \<and> last log = None)
    \<and> (log \<noteq> [] \<and> \<not> retryable_outcome (last log) \<longrightarrow> r = last log)
    \<and> (\<forall>e\<in>{Port ErrCommitUnknown, Port ErrDuplicate}. Some e \<notin> set (butlast log))"
proof -
  from retry_loop_log [of 3 ctx attempt None s "[]" r s' log] assms
  have *: "length log \<le> 3 \<and> list_all retryable_outcome (butlast log)
    \<and> (r = None \<longleftrightarrow> log \<noteq> [] \<and> last log = None)
    \<and> (log \<noteq> [] \<and> \<not> retryable_outcome (last log) \<longrightarrow> r = last log)"
    by (simp add: RunWithRetry_def maxPreparationAttempts_def)
  moreover have "\<not> retryable_outcome (Some (Port ErrCommitUnknown))" "\<not> retryable_outcome (Some (Port ErrDuplicate))"
    by (simp_all add: retryable_outcome_def retryablePreparation_def)
  ultimately show ?thesis by (auto simp: list_all_iff)
qed

text \<open>An attempt that loses the race twice and then succeeds.\<close>

definition third_time_lucky :: "nat \<Rightarrow> go_error option \<times> nat" where
  "third_time_lucky n = (if n < 2 then Some (Port ErrVersionConflict) else None, Suc n)"

theorem retry_only_after_version_race_witness:
  "fst (RunWithRetry (\<lambda>_. None) (logged third_time_lucky) (0, [])) = None"
proof -
  let ?log = "[Some (Port ErrVersionConflict), Some (Port ErrVersionConflict), None]"
  have run: "RunWithRetry (\<lambda>_. None) (logged third_time_lucky) (0, []) = (None, 3, ?log)"
    by (simp add: RunWithRetry_def maxPreparationAttempts_def numeral_eq_Suc logged_def
        third_time_lucky_def retryablePreparation_def)
  from retry_only_after_version_race [OF run] show ?thesis by (simp add: run)
qed

end
