(* ===== verification/Issuer_Chain.thy ===== *)
theory Issuer_Chain
  imports Certificate App_Errors
begin

text \<open>
  \<open>internal/app/service/chain.go\<close> and \<open>scope.go\<close>: reading a certificate's issuer chain and its
  management authority from stored relations. The store's three lookups (the records of
  \<open>internal/app/port/pki.go\<close>) are arguments that return an error or a row; the theorems hold for
  every store. The main property is exact: the walk returns a chain if and only if the stored
  links form an acyclic path of consistent issuers up to a self-signed root.
\<close>

subsection \<open>The store\<close>

record LeafCertificateRecord =
  lr_CertificateID :: CertificateID
  lr_SeriesID :: SeriesID
  lr_LeafKeyGenerationID :: LeafKeyGenerationID
  lr_IssuerCACertificateID :: CertificateID
  lr_PreviousCertificateID :: CertificateID
  lr_Operation :: string
  lr_RenewalCountAtIssue :: int64
  lr_PolicySnapshotJSON :: string

record CACertificateRecord =
  cr_CertificateID :: CertificateID
  cr_CAKeyGenerationID :: CAKeyGenerationID
  cr_IssuerCACertificateID :: CertificateID

record SeriesSnapshot =
  sn_Series :: LeafSeries
  sn_CurrentKeyGeneration :: LeafKeyGeneration

record pki_store =
  GetLeafCertificateRecord :: "CertificateID \<Rightarrow> go_error + LeafCertificateRecord"
  GetCACertificateRecord :: "CertificateID \<Rightarrow> go_error + CACertificateRecord"
  GetCertificate :: "CertificateID \<Rightarrow> go_error + Certificate"
  GetSeriesForUpdate :: "SeriesID \<Rightarrow> go_error + SeriesSnapshot"

subsection \<open>Building the chain\<close>

definition maxChainDepth :: nat where "maxChainDepth = 16"

definition chainError :: "string \<Rightarrow> string \<Rightarrow> CertificateID \<Rightarrow> go_error" where
  "chainError code detail certificateID =
     App (AppError_WithField (NewAppError ErrorKindUnavailable code detail) ''certificate_id'' certificateID)"


text \<open>
  The loop of \<open>buildChainDER\<close>: the first argument counts the iterations left, \<open>target\<close> is the
  certificate the walk started from, \<open>seen\<close> the visited set, \<open>chain\<close> the DER collected so far.
\<close>

fun chain_loop ::
  "nat \<Rightarrow> pki_store \<Rightarrow> CertificateID \<Rightarrow> CertificateID set \<Rightarrow> CAKeyGenerationID \<Rightarrow> CertificateID
     \<Rightarrow> string list \<Rightarrow> go_error + string list" where
  "chain_loop 0 tx target seen expected next chain =
     Inl (chainError ''chain_too_deep'' ''the stored issuer chain is longer than supported'' target)"
| "chain_loop (Suc depth) tx target seen expected next chain =
     (if next \<in> seen then Inl (chainError ''chain_cycle'' ''the stored issuer chain is cyclic'' next)
      else
        (case GetCACertificateRecord tx next of
           Inl e \<Rightarrow>
             if Is_port e ErrNotFound
               then Inl (chainError ''chain_ca_record_missing''
                 ''a certificate in the stored issuer chain has no CA record'' next)
             else Inl (storeError e ''chain_ca_record_read_failed'' ''could not read a CA certificate record'')
         | Inr rec \<Rightarrow>
             if cr_CAKeyGenerationID rec \<noteq> expected
               then Inl (chainError ''chain_issuer_key_mismatch''
                 ''the stored issuer certificate does not certify the signing key generation'' next)
             else
               (case GetCertificate tx next of
                  Inl e \<Rightarrow>
                    if Is_port e ErrNotFound
                      then Inl (chainError ''chain_certificate_missing''
                        ''a certificate in the stored issuer chain is missing'' next)
                    else Inl (storeError e ''chain_certificate_read_failed'' ''could not read a chain certificate'')
                | Inr caCertificate \<Rightarrow>
                    let chain' = chain @ [ce_der caCertificate] in
                    if cr_IssuerCACertificateID rec = [] then Inr chain'
                    else chain_loop depth tx target (insert next seen)
                           (ce_issuerCAKeyGenerationID caCertificate)
                           (cr_IssuerCACertificateID rec) chain')))"

definition buildChainDER :: "pki_store \<Rightarrow> CertificateID \<Rightarrow> go_error + string list" where
  "buildChainDER tx certificateID =
     (case GetLeafCertificateRecord tx certificateID of
        Inl e \<Rightarrow>
          if Is_port e ErrNotFound
            then Inl (chainError ''chain_leaf_record_missing''
              ''this certificate has no stored issuance record to resolve a chain from'' certificateID)
          else Inl (storeError e ''chain_leaf_record_read_failed''
            ''could not read the certificate's issuance record'')
      | Inr leaf \<Rightarrow>
          if lr_IssuerCACertificateID leaf = []
            then Inl (chainError ''chain_issuer_missing''
              ''this certificate records no issuing CA certificate'' certificateID)
          else
            (case GetCertificate tx certificateID of
               Inl e \<Rightarrow> Inl (storeError e ''chain_certificate_read_failed'' ''could not read the certificate'')
             | Inr certificate \<Rightarrow>
                 chain_loop maxChainDepth tx certificateID {certificateID}
                   (ce_issuerCAKeyGenerationID certificate) (lr_IssuerCACertificateID leaf) []))"

subsection \<open>What a chain is\<close>

text \<open>
  The specification, without loop, visited set or bound: a stored path starts at a CA certificate
  whose record certifies the expected key generation, and follows issuer links to a root, which
  records no issuer.
\<close>

inductive issuer_path :: "pki_store \<Rightarrow> CAKeyGenerationID \<Rightarrow> CertificateID \<Rightarrow> (CertificateID \<times> Certificate) list \<Rightarrow> bool"
  for tx :: pki_store where
  root: "GetCACertificateRecord tx i = Inr rec \<Longrightarrow> cr_CAKeyGenerationID rec = g \<Longrightarrow>
    GetCertificate tx i = Inr c \<Longrightarrow> cr_IssuerCACertificateID rec = [] \<Longrightarrow> issuer_path tx g i [(i, c)]"
| link: "GetCACertificateRecord tx i = Inr rec \<Longrightarrow> cr_CAKeyGenerationID rec = g \<Longrightarrow>
    GetCertificate tx i = Inr c \<Longrightarrow> cr_IssuerCACertificateID rec \<noteq> [] \<Longrightarrow>
    issuer_path tx (ce_issuerCAKeyGenerationID c) (cr_IssuerCACertificateID rec) p \<Longrightarrow>
    issuer_path tx g i ((i, c) # p)"

inductive_cases issuer_path_NilE: "issuer_path tx g i []"
inductive_cases issuer_path_ConsE: "issuer_path tx g i (x # p)"

lemma issuer_path_not_empty: "\<not> issuer_path tx g i []"
  by (auto elim: issuer_path_NilE)

lemma chain_loop_sound:
  "chain_loop n tx target seen g i chain = Inr ders \<Longrightarrow>
     \<exists>p. issuer_path tx g i p \<and> length p \<le> n \<and> distinct (map fst p) \<and> set (map fst p) \<inter> seen = {}
       \<and> ders = chain @ map (ce_der \<circ> snd) p"
proof (induction n arbitrary: seen g i chain)
  case 0
  then show ?case by simp
next
  case (Suc n)
  from Suc.prems obtain rec c where
    new: "i \<notin> seen" and rec: "GetCACertificateRecord tx i = Inr rec" "cr_CAKeyGenerationID rec = g"
    and c: "GetCertificate tx i = Inr c"
    by (auto split: if_splits sum.splits)
  show ?case
  proof (cases "cr_IssuerCACertificateID rec = []")
    case True
    with Suc.prems new rec c have "ders = chain @ [ce_der c]" by simp
    with issuer_path.root [OF rec c True] new show ?thesis
      by (intro exI [of _ "[(i, c)]"]) simp
  next
    case False
    with Suc.prems new rec c have "chain_loop n tx target (insert i seen) (ce_issuerCAKeyGenerationID c)
        (cr_IssuerCACertificateID rec) (chain @ [ce_der c]) = Inr ders"
      by (simp add: Let_def)
    from Suc.IH [OF this] obtain p where
      "issuer_path tx (ce_issuerCAKeyGenerationID c) (cr_IssuerCACertificateID rec) p"
      "length p \<le> n" "distinct (map fst p)" "set (map fst p) \<inter> insert i seen = {}"
      "ders = (chain @ [ce_der c]) @ map (ce_der \<circ> snd) p" by blast
    with issuer_path.link [OF rec c False] new show ?thesis
      by (intro exI [of _ "(i, c) # p"]) auto
  qed
qed

lemma chain_loop_complete:
  "issuer_path tx g i p \<Longrightarrow> length p \<le> n \<Longrightarrow> distinct (map fst p) \<Longrightarrow> set (map fst p) \<inter> seen = {} \<Longrightarrow>
     chain_loop n tx target seen g i chain = Inr (chain @ map (ce_der \<circ> snd) p)"
proof (induction arbitrary: n seen chain rule: issuer_path.induct)
  case (root i rec g c)
  then obtain m where "n = Suc m" by (cases n) auto
  with root show ?case by simp
next
  case (link i rec g c p)
  then obtain m where n: "n = Suc m" by (cases n) auto
  have "chain_loop m tx target (insert i seen) (ce_issuerCAKeyGenerationID c)
      (cr_IssuerCACertificateID rec) (chain @ [ce_der c]) = Inr ((chain @ [ce_der c]) @ map (ce_der \<circ> snd) p)"
    by (rule link.IH) (use link.prems n in auto)
  with link n show ?case by (simp add: Let_def)
qed

text \<open>C24. The issuer chain is exactly what was recorded at issuance: \<open>buildChainDER\<close> returns a chain
  if and only if the leaf's record names an issuing CA certificate, the stored links from there
  form a path of at most 16 CA certificates, each certifying the key generation that signed the
  one below, without repetition and without the leaf itself, up to a root; and then it returns the
  DER of exactly those certificates, issuer first. So missing rows, cycles and key mismatches
  never yield a chain, and a chain is never empty.\<close>

theorem chain_iff_stored_path:
  "buildChainDER tx certID = Inr ders \<longleftrightarrow>
     (\<exists>leaf cert p. GetLeafCertificateRecord tx certID = Inr leaf \<and> GetCertificate tx certID = Inr cert
       \<and> lr_IssuerCACertificateID leaf \<noteq> []
       \<and> issuer_path tx (ce_issuerCAKeyGenerationID cert) (lr_IssuerCACertificateID leaf) p
       \<and> length p \<le> 16 \<and> distinct (certID # map fst p)
       \<and> ders = map (ce_der \<circ> snd) p \<and> ders \<noteq> [])"
proof
  assume "buildChainDER tx certID = Inr ders"
  then obtain leaf cert where *: "GetLeafCertificateRecord tx certID = Inr leaf"
    "GetCertificate tx certID = Inr cert" "lr_IssuerCACertificateID leaf \<noteq> []"
    and loop: "chain_loop maxChainDepth tx certID {certID} (ce_issuerCAKeyGenerationID cert)
      (lr_IssuerCACertificateID leaf) [] = Inr ders"
    by (auto simp: buildChainDER_def split: sum.splits if_splits)
  from chain_loop_sound [OF loop] obtain p where p:
    "issuer_path tx (ce_issuerCAKeyGenerationID cert) (lr_IssuerCACertificateID leaf) p"
    "length p \<le> maxChainDepth" "distinct (map fst p)" "set (map fst p) \<inter> {certID} = {}"
    "ders = [] @ map (ce_der \<circ> snd) p" by blast
  moreover have "p \<noteq> []" using p(1) issuer_path_not_empty by blast
  ultimately show "\<exists>leaf cert p. GetLeafCertificateRecord tx certID = Inr leaf \<and> GetCertificate tx certID = Inr cert
       \<and> lr_IssuerCACertificateID leaf \<noteq> []
       \<and> issuer_path tx (ce_issuerCAKeyGenerationID cert) (lr_IssuerCACertificateID leaf) p
       \<and> length p \<le> 16 \<and> distinct (certID # map fst p)
       \<and> ders = map (ce_der \<circ> snd) p \<and> ders \<noteq> []"
    using * by (intro exI [of _ leaf] exI [of _ cert] exI [of _ p]) (simp add: maxChainDepth_def)
next
  assume "\<exists>leaf cert p. GetLeafCertificateRecord tx certID = Inr leaf \<and> GetCertificate tx certID = Inr cert
       \<and> lr_IssuerCACertificateID leaf \<noteq> []
       \<and> issuer_path tx (ce_issuerCAKeyGenerationID cert) (lr_IssuerCACertificateID leaf) p
       \<and> length p \<le> 16 \<and> distinct (certID # map fst p)
       \<and> ders = map (ce_der \<circ> snd) p \<and> ders \<noteq> []"
  then obtain leaf cert p where *: "GetLeafCertificateRecord tx certID = Inr leaf"
    "GetCertificate tx certID = Inr cert" "lr_IssuerCACertificateID leaf \<noteq> []"
    and p: "issuer_path tx (ce_issuerCAKeyGenerationID cert) (lr_IssuerCACertificateID leaf) p"
      "length p \<le> 16" "distinct (certID # map fst p)" "ders = map (ce_der \<circ> snd) p" by blast
  have "chain_loop maxChainDepth tx certID {certID} (ce_issuerCAKeyGenerationID cert)
      (lr_IssuerCACertificateID leaf) [] = Inr ([] @ map (ce_der \<circ> snd) p)"
    by (rule chain_loop_complete [OF p(1)]) (use p in \<open>simp_all add: maxChainDepth_def\<close>)
  with * p(4) show "buildChainDER tx certID = Inr ders" by (simp add: buildChainDER_def)
qed

text \<open>A store with one root, one intermediate and one leaf.\<close>

definition sample_cert :: "char \<Rightarrow> char \<Rightarrow> Certificate" where
  "sample_cert i g = \<lparr>ce_id = sample_uuid i, ce_der = [i], ce_keyMaterialID = sample_uuid i,
     ce_issuerCAKeyGenerationID = sample_uuid g, ce_serial = SerialNumber ''1'', ce_validity = sample_window,
     ce_subject = ir_Subject sample_request, ce_sans = [], ce_kind = CertificateKindCA,
     ce_profile = no_profile, ce_keyAlgorithm = KeyAlgorithmECDSAP256,
     ce_origin = CertificateOriginGenerated, ce_createdByAccountID = [], ce_version = 0\<rparr>"

definition sample_store :: pki_store where
  "sample_store = \<lparr>
     GetLeafCertificateRecord = (\<lambda>i. if i = ''leaf'' then Inr \<lparr>lr_CertificateID = i, lr_SeriesID = [],
        lr_LeafKeyGenerationID = [], lr_IssuerCACertificateID = ''inter'', lr_PreviousCertificateID = [],
        lr_Operation = ''initial'', lr_RenewalCountAtIssue = 0, lr_PolicySnapshotJSON = []\<rparr>
        else Inl (Port ErrNotFound)),
     GetCACertificateRecord = (\<lambda>i.
        if i = ''inter'' then Inr \<lparr>cr_CertificateID = i, cr_CAKeyGenerationID = sample_uuid CHR ''2'',
          cr_IssuerCACertificateID = ''root''\<rparr>
        else if i = ''root'' then Inr \<lparr>cr_CertificateID = i, cr_CAKeyGenerationID = sample_uuid CHR ''3'',
          cr_IssuerCACertificateID = []\<rparr>
        else Inl (Port ErrNotFound)),
     GetCertificate = (\<lambda>i.
        if i = ''leaf'' then Inr (sample_cert CHR ''1'' CHR ''2'')
        else if i = ''inter'' then Inr (sample_cert CHR ''2'' CHR ''3'')
        else if i = ''root'' then Inr (sample_cert CHR ''3'' CHR ''3'')
        else Inl (Port ErrNotFound)),
     GetSeriesForUpdate = (\<lambda>_. Inl (Port ErrNotFound))\<rparr>"

theorem chain_iff_stored_path_witness:
  "\<exists>p. issuer_path sample_store (sample_uuid CHR ''2'') ''inter'' p \<and> map (ce_der \<circ> snd) p = [''2'', ''3'']"
proof -
  have "buildChainDER sample_store ''leaf'' = Inr [''2'', ''3'']"
    by (simp add: buildChainDER_def maxChainDepth_def numeral_eq_Suc sample_store_def sample_cert_def Let_def)
  from this [unfolded chain_iff_stored_path] obtain leaf cert p where
    "GetLeafCertificateRecord sample_store ''leaf'' = Inr leaf" "GetCertificate sample_store ''leaf'' = Inr cert"
    "issuer_path sample_store (ce_issuerCAKeyGenerationID cert) (lr_IssuerCACertificateID leaf) p"
    "[''2'', ''3''] = map (ce_der \<circ> snd) p" by (elim exE conjE) (rule that)
  then show ?thesis by (intro exI [of _ p]) (auto simp: sample_store_def sample_cert_def)
qed

subsection \<open>Management scope\<close>

definition leafManagementAuthority :: "pki_store \<Rightarrow> CertificateID \<Rightarrow> go_error + AuthorityID" where
  "leafManagementAuthority tx certificateID =
     (case GetLeafCertificateRecord tx certificateID of
        Inl e \<Rightarrow>
          if Is_port e ErrNotFound
            then Inl (chainError ''distribution_scope_leaf_record_missing''
              ''this certificate has no stored issuance record to scope the audit to'' certificateID)
          else Inl (storeError e ''distribution_scope_leaf_record_read_failed''
            ''could not read the certificate's issuance record'')
      | Inr leaf \<Rightarrow>
          (case GetSeriesForUpdate tx (lr_SeriesID leaf) of
             Inl e \<Rightarrow>
               if Is_port e ErrNotFound
                 then Inl (chainError ''distribution_scope_series_missing''
                   ''this certificate's series record is missing'' certificateID)
               else Inl (storeError e ''distribution_scope_series_read_failed''
                 ''could not read the certificate's series'')
           | Inr snapshot \<Rightarrow>
               let authorityID = ls_managementAuthorityID (sn_Series snapshot) in
               if authorityID = []
                 then Inl (chainError ''distribution_scope_empty''
                   ''could not resolve a management authority for this certificate'' certificateID)
               else Inr authorityID))"

definition authorityScopeFromRow :: "Authority \<Rightarrow> go_error + AuthorityID" where
  "authorityScopeFromRow authority =
     (let i = au_id authority in
      if i = [] then Inl (App (NewAppError ErrorKindUnavailable ''authority_scope_empty''
        ''could not resolve an authority scope for this event''))
      else Inr i)"

text \<open>A scope is never empty and always comes from the stored rows.\<close>

lemma leafManagementAuthority_Inr:
  "leafManagementAuthority tx certID = Inr a \<longleftrightarrow>
     (\<exists>leaf snap. GetLeafCertificateRecord tx certID = Inr leaf
       \<and> GetSeriesForUpdate tx (lr_SeriesID leaf) = Inr snap
       \<and> a = ls_managementAuthorityID (sn_Series snap) \<and> a \<noteq> [])"
  by (auto simp: leafManagementAuthority_def Let_def split: sum.split)

end
