(* ===== verification/Principals.thy ===== *)
theory Principals
  imports Identity App_Errors Netip
begin

text \<open>
  \<open>internal/app/contract/meta.go\<close> and \<open>parse.go\<close>: who a request acts as, and the metadata of a
  mutation. A principal is obtained only from the two constructors; an internal one carries the
  single operation it was minted for.
\<close>

subsection \<open>Principals\<close>

datatype PrincipalKind =
    PrincipalKindAnonymous | PrincipalKindAdmin | PrincipalKindInternal | PrincipalKindOther string

datatype InternalOperation =
    InternalOperationCRLPublish
  | InternalOperationDeliveryExpiry
  | InternalOperationAuditPrune
  | InternalOperationTLSReconcile
  | InternalOperationTLSBootstrap
  | InternalOperationSecretRotate
  | InternalOperationRestoreFinalize
  | InternalOperationTransferRecovery
  | InternalOperationResetBegin
  | InternalOperationOther string

fun InternalOperation_Validate :: "InternalOperation \<Rightarrow> domain_error option" where
  "InternalOperation_Validate (InternalOperationOther _) =
     Some (Wrapped ErrInvalidValue ''unsupported internal operation'')"
| "InternalOperation_Validate _ = None"

text \<open>The empty kind of the zero value is \<open>PrincipalKindOther []\<close>.\<close>

record Principal =
  pr_kind :: PrincipalKind
  pr_accountID :: AccountID
  pr_sessionID :: SessionID
  pr_authEpoch :: AuthEpoch
  pr_operations :: "InternalOperation list"

definition zero_principal :: Principal where
  "zero_principal = \<lparr>pr_kind = PrincipalKindOther [], pr_accountID = [], pr_sessionID = [],
     pr_authEpoch = 0, pr_operations = []\<rparr>"

record AdminPrincipalFacts =
  apf_AccountID :: AccountID
  apf_SessionID :: SessionID
  apf_AuthEpoch :: AuthEpoch

definition NewAdminPrincipal :: "AdminPrincipalFacts \<Rightarrow> domain_error + Principal" where
  "NewAdminPrincipal facts =
     check_then (err_of (ParseAccountID (apf_AccountID facts)))
     (check_then (err_of (ParseSessionID (apf_SessionID facts)))
     (check_then (err_of (ParseAuthEpoch (apf_AuthEpoch facts)))
      (Inr \<lparr>pr_kind = PrincipalKindAdmin, pr_accountID = apf_AccountID facts,
         pr_sessionID = apf_SessionID facts, pr_authEpoch = apf_AuthEpoch facts, pr_operations = []\<rparr>)))"

definition AnonymousPrincipal :: Principal where
  "AnonymousPrincipal = zero_principal\<lparr>pr_kind := PrincipalKindAnonymous\<rparr>"

datatype InternalPrincipalFactory = InternalPrincipalFactory (pf_allowed: "InternalOperation list")

text \<open>The loop of the constructor, with the operations collected so far (its \<open>seen\<close> set).\<close>

fun collect_operations ::
  "InternalOperation list \<Rightarrow> InternalOperation list \<Rightarrow> domain_error + InternalOperation list" where
  "collect_operations list [] = Inr list"
| "collect_operations list (op # ops) =
     check_then (InternalOperation_Validate op)
      (if op \<in> set list then collect_operations list ops
       else collect_operations (list @ [op]) ops)"

definition NewInternalPrincipalFactory ::
  "InternalOperation list \<Rightarrow> domain_error + InternalPrincipalFactory" where
  "NewInternalPrincipalFactory allowed =
     (if allowed = []
        then Inl (Wrapped ErrInvalidValue ''internal principal factory needs at least one operation'')
      else and_then (collect_operations [] allowed) (\<lambda>l. Inr (InternalPrincipalFactory l)))"

text \<open>The receiver may be nil.\<close>

definition Factory_Principal ::
  "InternalPrincipalFactory option \<Rightarrow> InternalOperation \<Rightarrow> domain_error + Principal" where
  "Factory_Principal f op =
     (case f of
        None \<Rightarrow> Inl (Wrapped ErrInvalidValue ''internal principal factory is not configured'')
      | Some fac \<Rightarrow>
          if op \<in> set (pf_allowed fac)
            then Inr (zero_principal\<lparr>pr_kind := PrincipalKindInternal, pr_operations := [op]\<rparr>)
          else Inl (Wrapped ErrNotPermitted ''internal principal may not perform the operation''))"

definition Principal_Kind :: "Principal \<Rightarrow> PrincipalKind" where
  "Principal_Kind p = (if pr_kind p = PrincipalKindOther [] then PrincipalKindAnonymous else pr_kind p)"

definition IsAdmin :: "Principal \<Rightarrow> bool" where "IsAdmin p \<longleftrightarrow> Principal_Kind p = PrincipalKindAdmin"
definition IsInternal :: "Principal \<Rightarrow> bool" where "IsInternal p \<longleftrightarrow> Principal_Kind p = PrincipalKindInternal"
definition IsAnonymous :: "Principal \<Rightarrow> bool" where "IsAnonymous p \<longleftrightarrow> Principal_Kind p = PrincipalKindAnonymous"

definition Principal_AccountID :: "Principal \<Rightarrow> AccountID" where
  "Principal_AccountID p = (if \<not> IsAdmin p then [] else pr_accountID p)"

definition Principal_SessionID :: "Principal \<Rightarrow> SessionID" where
  "Principal_SessionID p = (if \<not> IsAdmin p then [] else pr_sessionID p)"

definition Principal_AuthEpoch :: "Principal \<Rightarrow> AuthEpoch" where
  "Principal_AuthEpoch p = (if \<not> IsAdmin p then 0 else pr_authEpoch p)"

definition Can :: "Principal \<Rightarrow> InternalOperation \<Rightarrow> bool" where
  "Can p op \<longleftrightarrow> (if \<not> IsInternal p then False else op \<in> set (pr_operations p))"

definition Operations :: "Principal \<Rightarrow> InternalOperation list" where
  "Operations p = pr_operations p"

text \<open>Internal permissions are exactly what assembly granted: a factory mints a principal only for
  a supported operation it was constructed with, the principal can run that operation and no
  other, and neither an admin, an anonymous nor a zero principal can run any internal operation;
  conversely an internal principal is never an admin and carries no account.\<close>

theorem principal_least_privilege:
  assumes "NewInternalPrincipalFactory allowed = Inr f" and "Factory_Principal (Some f) op = Inr p"
  shows "op \<in> set allowed \<and> InternalOperation_Validate op = None \<and> (\<forall>x. Can p x \<longleftrightarrow> x = op)
    \<and> \<not> IsAdmin p \<and> Principal_AccountID p = [] \<and> Principal_SessionID p = []
    \<and> (NewAdminPrincipal facts = Inr q \<longrightarrow> IsAdmin q \<and> \<not> Can q x)
    \<and> \<not> Can AnonymousPrincipal x \<and> \<not> Can zero_principal x"
proof -
  have coll: "collect_operations l ops = Inr r \<Longrightarrow> set r \<subseteq> set l \<union> set ops
      \<and> (\<forall>x\<in>set ops. InternalOperation_Validate x = None)" for l ops r
    by (induction l ops arbitrary: r rule: collect_operations.induct)
      (fastforce simp: check_then_Inr split: if_splits)+
  from assms(1) have "collect_operations [] allowed = Inr (pf_allowed f)"
    by (auto simp: NewInternalPrincipalFactory_def and_then_Inr split: if_splits)
  from coll [OF this] have allowed: "set (pf_allowed f) \<subseteq> set allowed"
    "\<forall>x\<in>set allowed. InternalOperation_Validate x = None" by auto
  from assms(2) have p: "op \<in> set (pf_allowed f)"
    "p = zero_principal\<lparr>pr_kind := PrincipalKindInternal, pr_operations := [op]\<rparr>"
    by (auto simp: Factory_Principal_def split: if_splits)
  have admin: "NewAdminPrincipal facts = Inr q \<Longrightarrow> pr_kind q = PrincipalKindAdmin"
    by (auto simp: NewAdminPrincipal_def check_then_Inr)
  show ?thesis
    using allowed p admin
    by (auto simp: Can_def IsInternal_def IsAdmin_def Principal_Kind_def Principal_AccountID_def
        Principal_SessionID_def AnonymousPrincipal_def zero_principal_def)
qed

theorem principal_least_privilege_witness:
  "\<exists>f p. NewInternalPrincipalFactory [InternalOperationCRLPublish, InternalOperationCRLPublish] = Inr f
     \<and> Factory_Principal (Some f) InternalOperationCRLPublish = Inr p
     \<and> (\<forall>x. Can p x \<longleftrightarrow> x = InternalOperationCRLPublish)"
proof -
  have f: "NewInternalPrincipalFactory [InternalOperationCRLPublish, InternalOperationCRLPublish]
      = Inr (InternalPrincipalFactory [InternalOperationCRLPublish])"
    by (simp add: NewInternalPrincipalFactory_def)
  obtain p where p: "Factory_Principal (Some (InternalPrincipalFactory [InternalOperationCRLPublish]))
      InternalOperationCRLPublish = Inr p"
    by (simp add: Factory_Principal_def)
  from f p principal_least_privilege [OF f p] show ?thesis by blast
qed

subsection \<open>Request metadata\<close>

record RequestMeta =
  rq_Principal :: Principal
  rq_RequestID :: string
  rq_ClientIP :: "Addr option"

record MutationMeta = RequestMeta +
  mm_ExpectedVersion :: "Version option"
  mm_IdempotencyKey :: string

definition RequireExpectedVersion :: "MutationMeta \<Rightarrow> go_error + Version" where
  "RequireExpectedVersion m =
     (case mm_ExpectedVersion m of
        None \<Rightarrow> Inl (App (NewAppError ErrorKindConflict ''version_required''
          ''this request requires the current version''))
      | Some v \<Rightarrow> Inr v)"

definition idempotencyKeyLength :: nat where "idempotencyKeyLength = 36"

fun key_scan :: "nat \<Rightarrow> string \<Rightarrow> domain_error option" where
  "key_scan i [] = None"
| "key_scan i (c # cs) =
     (if i = 8 \<or> i = 13 \<or> i = 18 \<or> i = 23 then
        (if c \<noteq> CHR ''-'' then Some (Wrapped ErrInvalidValue ''idempotency key must be a uuid'')
         else key_scan (Suc i) cs)
      else if \<not> (CHR ''0'' \<le> c \<and> c \<le> CHR ''9'') \<and> \<not> (CHR ''a'' \<le> c \<and> c \<le> CHR ''f'')
        then Some (Wrapped ErrInvalidValue ''idempotency key must be a lowercase uuid'')
      else key_scan (Suc i) cs)"

definition parseIdempotencyKey :: "string \<Rightarrow> domain_error + string" where
  "parseIdempotencyKey raw =
     (if length raw \<noteq> idempotencyKeyLength
        then Inl (Wrapped ErrInvalidValue ''idempotency key must be a uuid'')
      else check_then (key_scan 0 raw) (Inr raw))"

definition RequireIdempotencyKey :: "MutationMeta \<Rightarrow> go_error + string" where
  "RequireIdempotencyKey m =
     (case parseIdempotencyKey (mm_IdempotencyKey m) of
        Inl _ \<Rightarrow> Inl (App (NewAppError ErrorKindValidation ''idempotency_key_invalid''
          ''this request requires a UUID idempotency key''))
      | Inr key \<Rightarrow> Inr key)"

text \<open>Idempotency keys and identifiers have the same shape.\<close>

lemma key_scan_uuid: "key_scan i s = None \<longleftrightarrow> uuid_scan k i s = None"
  by (induction k i s rule: uuid_scan.induct)
    (auto simp: separator_index_def isLowerHexDigit_def)

lemma parseIdempotencyKey_Inr [success_iff]:
  "parseIdempotencyKey raw = Inr k \<longleftrightarrow> canonical_uuid raw \<and> k = raw"
  by (auto simp: parseIdempotencyKey_def idempotencyKeyLength_def check_then_Inr canonical_uuid_def
      key_scan_uuid [where k = "[]"] uuid_scan_None)

end
