(* ===== verification/Tx.thy ===== *)
theory Tx
  imports App_Errors
begin

text \<open>
  Code that runs inside a store transaction: a state transformer that may fail. The state is the
  one the transaction sees; \<open>atomically\<close> is \<open>UnitOfWork.Write\<close> of
  \<open>internal/app/port/unitofwork.go\<close>, which rolls every change back when the callback returns an
  error.
\<close>

type_synonym ('w, 'a) tx = "'w \<Rightarrow> (go_error + 'a) \<times> 'w"

definition tx_return :: "'a \<Rightarrow> ('w, 'a) tx" where
  "tx_return x w = (Inr x, w)"

definition tx_fail :: "go_error \<Rightarrow> ('w, 'a) tx" where
  "tx_fail e w = (Inl e, w)"

definition tx_bind :: "('w, 'a) tx \<Rightarrow> ('a \<Rightarrow> ('w, 'b) tx) \<Rightarrow> ('w, 'b) tx" where
  "tx_bind m k w = (case m w of (Inl e, w') \<Rightarrow> (Inl e, w') | (Inr x, w') \<Rightarrow> k x w')"

text \<open>The outcome of an operation as a value, for code that inspects its error.\<close>

definition tx_try :: "('w, 'a) tx \<Rightarrow> ('w, go_error + 'a) tx" where
  "tx_try m w = (case m w of (r, w') \<Rightarrow> (Inr r, w'))"

text \<open>An operation whose error is replaced before it is returned.\<close>

definition tx_or :: "('w, 'a) tx \<Rightarrow> (go_error \<Rightarrow> go_error) \<Rightarrow> ('w, 'a) tx" where
  "tx_or m f w = (case m w of (Inl e, w') \<Rightarrow> (Inl (f e), w') | (Inr x, w') \<Rightarrow> (Inr x, w'))"

text \<open>A read whose not-found error has its own answer:
  \<open>if errors.Is(err, port.ErrNotFound) ... else if err != nil ...\<close>\<close>

definition tx_read :: "('w, 'a) tx \<Rightarrow> go_error \<Rightarrow> string \<Rightarrow> string \<Rightarrow> ('w, 'a) tx" where
  "tx_read m absent code detail =
     tx_or m (\<lambda>e. if Is_port e ErrNotFound then absent else storeError e code detail)"

text \<open>A check without a result, and an error that is already in the application's own form.\<close>

definition tx_guard :: "go_error option \<Rightarrow> ('w, unit) tx" where
  "tx_guard c = (case c of Some e \<Rightarrow> tx_fail e | None \<Rightarrow> tx_return ())"

definition tx_lift :: "go_error + 'a \<Rightarrow> ('w, 'a) tx" where
  "tx_lift m = (case m of Inl e \<Rightarrow> tx_fail e | Inr x \<Rightarrow> tx_return x)"

definition tx_domain :: "domain_error + 'a \<Rightarrow> ('w, 'a) tx" where
  "tx_domain m =
     (case m of
        Inl d \<Rightarrow> (case FromDomainError (Some (Domain d)) of Some e \<Rightarrow> tx_fail e | None \<Rightarrow> tx_fail (Domain d))
      | Inr x \<Rightarrow> tx_return x)"

fun tx_list :: "('a \<Rightarrow> ('w, 'b) tx) \<Rightarrow> 'a list \<Rightarrow> ('w, 'b list) tx" where
  "tx_list f [] = tx_return []"
| "tx_list f (x # xs) = tx_bind (f x) (\<lambda>y. tx_bind (tx_list f xs) (\<lambda>ys. tx_return (y # ys)))"

definition atomically :: "('w, 'a) tx \<Rightarrow> ('w, 'a) tx" where
  "atomically m w = (case m w of (Inl e, _) \<Rightarrow> (Inl e, w) | (Inr x, w') \<Rightarrow> (Inr x, w'))"

named_theorems tx_iff \<open>when a transaction step succeeds, and with what\<close>

lemma tx_return_iff [tx_iff]: "tx_return x w = (Inr y, w') \<longleftrightarrow> y = x \<and> w' = w"
  by (auto simp: tx_return_def)

lemma tx_fail_iff [tx_iff]: "tx_fail e w = (Inr y, w') \<longleftrightarrow> False"
  by (simp add: tx_fail_def)

lemma tx_bind_iff [tx_iff]:
  "tx_bind m k w = (Inr y, w'') \<longleftrightarrow> (\<exists>x w'. m w = (Inr x, w') \<and> k x w' = (Inr y, w''))"
  by (auto simp: tx_bind_def split: prod.splits sum.splits)

lemma tx_or_iff [tx_iff]: "tx_or m f w = (Inr y, w') \<longleftrightarrow> m w = (Inr y, w')"
  by (auto simp: tx_or_def split: prod.splits sum.splits)

lemma tx_try_iff [tx_iff]: "tx_try m w = (Inr r, w') \<longleftrightarrow> m w = (r, w')"
  by (auto simp: tx_try_def split: prod.splits)

lemma tx_domain_iff [tx_iff]: "tx_domain m w = (Inr y, w') \<longleftrightarrow> m = Inr y \<and> w' = w"
  by (cases m) (auto simp: tx_domain_def tx_fail_def tx_return_def split: option.splits)

lemma tx_read_iff [tx_iff]: "tx_read m a c d w = (Inr y, w') \<longleftrightarrow> m w = (Inr y, w')"
  by (simp add: tx_read_def tx_or_iff)

lemma tx_guard_iff [tx_iff]: "tx_guard c w = (Inr y, w') \<longleftrightarrow> c = None \<and> w' = w"
  by (cases c) (auto simp: tx_guard_def tx_fail_def tx_return_def)

lemma tx_lift_iff [tx_iff]: "tx_lift m w = (Inr y, w') \<longleftrightarrow> m = Inr y \<and> w' = w"
  by (cases m) (auto simp: tx_lift_def tx_fail_def tx_return_def)

text \<open>A failed transaction leaves the store as it was.\<close>

lemma atomically_rolls_back: "atomically m w = (Inl e, w') \<Longrightarrow> w' = w"
  by (auto simp: atomically_def split: prod.splits sum.splits)

lemma atomically_iff [tx_iff]: "atomically m w = (Inr y, w') \<longleftrightarrow> m w = (Inr y, w')"
  by (auto simp: atomically_def split: prod.splits sum.splits)

text \<open>Failures propagate.\<close>

lemma tx_bind_fails: "fst (m w) = Inl e \<Longrightarrow> fst (tx_bind m k w) = Inl e"
  by (auto simp: tx_bind_def split: prod.splits sum.splits)

end
