(* ===== verification/Go_JSON.thy ===== *)
theory Go_JSON
  imports Go_Format
begin

text \<open>
  The part of the standard library's \<open>encoding/json\<close> the services use: the text of a value
  (\<open>Marshal\<close>, with the HTML-safe string escapes), the scanner (\<open>Unmarshal\<close>'s syntax check), and the
  assignment of members to struct fields (names matched up to letter case, unknown members
  skipped, \<open>null\<close> ignored, a later member overwriting an earlier one). Strings are bytes; a byte
  sequence that is not UTF-8 is replaced by U+FFFD in both directions. Main lemma: a value whose
  strings are UTF-8 is read back from its text.
\<close>

subsection \<open>UTF-8\<close>

definition byte_in :: "nat \<Rightarrow> nat \<Rightarrow> char \<Rightarrow> bool" where
  "byte_in lo hi c \<longleftrightarrow> lo \<le> of_char c \<and> of_char c \<le> hi"

definition tail_byte :: "char \<Rightarrow> bool" where
  "tail_byte = byte_in 128 191"

text \<open>The length of the encoding a nonempty string starts with, zero when it is not one
  (\<open>utf8.DecodeRuneInString\<close> then answers \<open>RuneError\<close> and size 1).\<close>

definition continued :: "nat \<Rightarrow> nat \<Rightarrow> nat \<Rightarrow> string \<Rightarrow> bool" where
  "continued n lo hi r \<longleftrightarrow> n \<le> length r \<and> byte_in lo hi (hd r) \<and> list_all tail_byte (take n r)"

text \<open>For a leading byte: the length of its encodings (0 when there are none) and the range of the
  second byte.\<close>

definition lead :: "char \<Rightarrow> nat \<times> nat \<times> nat" where
  "lead a =
     (if byte_in 0 127 a then (1, 0, 0)
      else if byte_in 194 223 a then (2, 128, 191)
      else if byte_in 224 239 a
        then (3, if of_char a = (224::nat) then 160 else 128, if of_char a = (237::nat) then 159 else 191)
      else if byte_in 240 244 a
        then (4, if of_char a = (240::nat) then 144 else 128, if of_char a = (244::nat) then 143 else 191)
      else (0, 0, 0))"

definition rune_size :: "string \<Rightarrow> nat" where
  "rune_size s =
     (case s of
        [] \<Rightarrow> 0
      | a # r \<Rightarrow>
          (case lead a of (n, lo, hi) \<Rightarrow>
             if n \<le> 1 then n else if continued (n - 1) lo hi r then n else 0))"

lemma rune_size_le: "rune_size s \<le> length s"
  by (cases s) (auto simp: rune_size_def continued_def split: prod.splits)

lemma continued_append: "continued n lo hi r \<Longrightarrow> 0 < n \<Longrightarrow> continued n lo hi (r @ t)"
  by (auto simp: continued_def hd_append)

lemma continued_take: "continued n lo hi r \<Longrightarrow> 0 < n \<Longrightarrow> continued n lo hi (take n r)"
  by (simp add: continued_def)

lemma rune_size_prefix: "rune_size s \<noteq> 0 \<Longrightarrow> rune_size (take (rune_size s) s @ t) = rune_size s"
  by (cases s)
    (auto simp: rune_size_def continued_append continued_take take_Cons' split: prod.splits if_splits)

lemma lead_ascii: "byte_in 0 127 a \<Longrightarrow> lead a = (1, 0, 0)"
  by (simp add: lead_def)

lemma rune_size_ascii: "byte_in 0 127 c \<Longrightarrow> rune_size (c # s) = 1"
  by (simp add: rune_size_def lead_ascii)

definition replacement :: string where
  "replacement = map char_of [239, 191, 189 :: nat]"

text \<open>The first rune of a nonempty string with the rest: an encoding as it stands, and an invalid
  byte on its own as no rune.\<close>

definition next_rune :: "string \<Rightarrow> string option \<times> string" where
  "next_rune s = (if rune_size s = 0 then (None, tl s) else (Some (take (rune_size s) s), drop (rune_size s) s))"

lemma next_rune_shorter: "s \<noteq> [] \<Longrightarrow> length (snd (next_rune s)) < length s"
  by (auto simp: next_rune_def)

function runes :: "string \<Rightarrow> string option list" where
  "runes s = (if s = [] then [] else fst (next_rune s) # runes (snd (next_rune s)))"
  by pat_completeness auto
termination
  by (relation "measure length") (use next_rune_shorter in auto)

declare runes.simps [simp del]

lemma runes_Nil [simp]: "runes [] = []"
  by (simp add: runes.simps)

definition valid_utf8 :: "string \<Rightarrow> bool" where
  "valid_utf8 s = (None \<notin> set (runes s))"

subsection \<open>String literals\<close>

definition hex4 :: "nat \<Rightarrow> string" where
  "hex4 n = [hex_digit (n div 4096 mod 16), hex_digit (n div 256 mod 16), hex_digit (n div 16 mod 16),
     hex_digit (n mod 16)]"

definition needs_u_escape :: "char \<Rightarrow> bool" where
  "needs_u_escape c \<longleftrightarrow> of_char c < (32::nat) \<or> c = CHR ''<'' \<or> c = CHR ''>'' \<or> c = CHR ''&''"

definition escape_byte :: "char \<Rightarrow> string" where
  "escape_byte c =
     (if c = CHR 0x22 then [CHR 0x5C, CHR 0x22]
      else if c = CHR 0x5C then [CHR 0x5C, CHR 0x5C]
      else if c = CHR 0x08 then [CHR 0x5C, CHR ''b'']
      else if c = CHR 0x0C then [CHR 0x5C, CHR ''f'']
      else if c = CHR 0x0A then [CHR 0x5C, CHR ''n'']
      else if c = CHR 0x0D then [CHR 0x5C, CHR ''r'']
      else if c = CHR 0x09 then [CHR 0x5C, CHR ''t'']
      else if needs_u_escape c then [CHR 0x5C, CHR ''u''] @ hex4 (of_char c)
      else [c])"

definition line_separator :: string where "line_separator = map char_of [226, 128, 168 :: nat]"
definition paragraph_separator :: string where "paragraph_separator = map char_of [226, 128, 169 :: nat]"

fun escape_rune :: "string option \<Rightarrow> string" where
  "escape_rune None = [CHR 0x5C, CHR ''u''] @ ''fffd''"
| "escape_rune (Some r) =
     (if length r = 1 then escape_byte (hd r)
      else if r = line_separator then [CHR 0x5C, CHR ''u''] @ ''2028''
      else if r = paragraph_separator then [CHR 0x5C, CHR ''u''] @ ''2029''
      else r)"

definition quote_json :: "string \<Rightarrow> string" where
  "quote_json s = CHR 0x22 # concat (map escape_rune (runes s)) @ [CHR 0x22]"

text \<open>Reading: \<open>utf8.EncodeRune\<close> of a code point, four hexadecimal digits of either case, and the
  body of a literal up to its closing quote.\<close>

definition utf8_encode :: "nat \<Rightarrow> string" where
  "utf8_encode n =
     (if n < 128 then [char_of n]
      else if n < 2048 then map char_of [192 + n div 64, 128 + n mod 64]
      else if n < 65536 then map char_of [224 + n div 4096, 128 + n div 64 mod 64, 128 + n mod 64]
      else map char_of [240 + n div 262144, 128 + n div 4096 mod 64, 128 + n div 64 mod 64, 128 + n mod 64])"

definition read_hex4 :: "string \<Rightarrow> nat option" where
  "read_hex4 s =
     (let ds = map ascii_lower (take 4 s)
      in if length ds = 4 \<and> all_hex ds then Some (hex_value ds) else None)"

definition surrogate :: "nat \<Rightarrow> bool" where "surrogate n \<longleftrightarrow> 55296 \<le> n \<and> n < 57344"

text \<open>After \<open>\u\<close>: the text of the escaped code point and the input after it. A high surrogate
  followed by an escaped low one is one code point; a lone surrogate is replaced.\<close>

definition read_escape :: "string \<Rightarrow> (string \<times> string) option" where
  "read_escape s =
     (case read_hex4 s of None \<Rightarrow> None
      | Some n \<Rightarrow>
          let s' = drop 4 s in
          if \<not> surrogate n then Some (utf8_encode n, s')
          else
            (case (if take 2 s' = [CHR 0x5C, CHR ''u''] then read_hex4 (drop 2 s') else None) of
               Some m \<Rightarrow>
                 if n < 56320 \<and> 56320 \<le> m \<and> m < 57344
                   then Some (utf8_encode (65536 + (n - 55296) * 1024 + (m - 56320)), drop 6 s')
                 else Some (replacement, s')
             | None \<Rightarrow> Some (replacement, s')))"

definition simple_escape :: "char \<Rightarrow> char option" where
  "simple_escape e =
     map_of [(CHR 0x22, CHR 0x22), (CHR 0x5C, CHR 0x5C), (CHR 0x2F, CHR 0x2F), (CHR ''b'', CHR 0x08),
       (CHR ''f'', CHR 0x0C), (CHR ''n'', CHR 0x0A), (CHR ''r'', CHR 0x0D), (CHR ''t'', CHR 0x09)] e"

text \<open>One unit of the body of a literal, which does not start with the closing quote.\<close>

definition read_unit :: "string \<Rightarrow> (string \<times> string) option" where
  "read_unit s =
     (case s of
        [] \<Rightarrow> None
      | c # cs \<Rightarrow>
          if c = CHR 0x5C then
            (case cs of
               [] \<Rightarrow> None
             | e # cs' \<Rightarrow>
                 if e = CHR ''u'' then read_escape cs'
                 else (case simple_escape e of Some x \<Rightarrow> Some ([x], cs') | None \<Rightarrow> None))
          else if of_char c < (32::nat) then None
          else (case fst (next_rune s) of None \<Rightarrow> Some (replacement, cs) | Some r \<Rightarrow> Some (r, snd (next_rune s))))"

fun read_body :: "nat \<Rightarrow> string \<Rightarrow> (string \<times> string) option" where
  "read_body 0 s = None"
| "read_body (Suc f) s =
     (if s \<noteq> [] \<and> hd s = CHR 0x22 then Some ([], tl s)
      else
        (case read_unit s of None \<Rightarrow> None
         | Some (x, s') \<Rightarrow> (case read_body f s' of None \<Rightarrow> None | Some (b, s'') \<Rightarrow> Some (x @ b, s''))))"


definition is_rune :: "string \<Rightarrow> bool" where
  "is_rune r \<longleftrightarrow> r \<noteq> [] \<and> rune_size r = length r"

lemma is_rune_append: "is_rune r \<Longrightarrow> rune_size (r @ t) = length r"
  using rune_size_prefix [of r t] by (simp add: is_rune_def)

lemma next_rune_is_rune: "fst (next_rune s) = Some r \<Longrightarrow> is_rune r"
  using rune_size_prefix [of s "[]"] rune_size_le [of s]
  by (auto simp: next_rune_def is_rune_def split: if_splits)

lemma next_rune_append: "is_rune r \<Longrightarrow> next_rune (r @ t) = (Some r, t)"
  using is_rune_append [of r t] by (auto simp: next_rune_def is_rune_def)

lemma runes_are_runes: "Some r \<in> set (runes s) \<Longrightarrow> is_rune r"
proof (induction s rule: runes.induct)
  case (1 s)
  then show ?case
    by (cases "s = []") (auto simp: runes.simps [of s] dest: next_rune_is_rune [OF sym])
qed

lemma runes_concat: "None \<notin> set (runes s) \<Longrightarrow> concat (map the (runes s)) = s"
proof (induction s rule: runes.induct)
  case (1 s)
  show ?case
  proof (cases "s = []")
    case False
    with 1(2) have "next_rune s = (Some (take (rune_size s) s), drop (rune_size s) s)"
      by (auto simp: runes.simps [of s] next_rune_def split: if_splits)
    with 1 False show ?thesis by (simp add: runes.simps [of s])
  qed (simp add: runes.simps)
qed

lemma ascii_lower_hex_digit: "n < 16 \<Longrightarrow> ascii_lower (hex_digit n) = hex_digit n"
  by (auto simp: ascii_lower_def less_eq_char_def of_char_hex_digit)

lemma read_hex4_text: "n < 65536 \<Longrightarrow> read_hex4 (hex4 n @ t) = Some n"
proof -
  assume n: "n < 65536"
  have "hex_value (hex4 n) = 4096 * (n div 4096 mod 16) + 256 * (n div 256 mod 16) + 16 * (n div 16 mod 16) + n mod 16"
    by (simp add: hex_value_def hex4_def)
  also have "\<dots> = n"
  proof -
    have "n div 16 div 16 = n div 256" "n div 256 div 16 = n div 4096" "n div 4096 mod 16 = n div 4096"
      using n by (simp_all add: div_mult2_eq [symmetric])
    moreover have "n = 16 * (n div 16) + n mod 16" "n div 16 = 16 * (n div 16 div 16) + n div 16 mod 16"
      "n div 256 = 16 * (n div 256 div 16) + n div 256 mod 16" by simp_all
    ultimately show ?thesis by linarith
  qed
  finally show ?thesis
    by (simp add: read_hex4_def hex4_def ascii_lower_hex_digit all_hex_def)
qed

lemma drop_hex4: "drop 4 (hex4 n @ t) = t"
  by (simp add: hex4_def)

lemma read_unit_escape_byte:
  assumes "byte_in 0 127 c"
  shows "read_unit (escape_byte c @ t) = Some ([c], t)"
proof -
  have small: "(of_char c :: nat) < 65536" "\<not> surrogate (of_char c)" "utf8_encode (of_char c) = [c]"
    using assms by (simp_all add: byte_in_def surrogate_def utf8_encode_def)
  have u: "read_escape (hex4 (of_char c) @ t) = Some ([c], t)"
    using small by (simp add: read_escape_def read_hex4_text drop_hex4 del: drop_append)
  have r: "next_rune (c # t) = (Some [c], t)"
    using next_rune_append [of "[c]" t] assms by (simp add: is_rune_def rune_size_ascii)
  show ?thesis
  proof (cases "needs_u_escape c")
    case True
    then show ?thesis using u r
      by (auto simp: escape_byte_def read_unit_def simple_escape_def)
  next
    case False
    then show ?thesis using r
      by (auto simp: escape_byte_def read_unit_def simple_escape_def needs_u_escape_def)
  qed
qed

lemma lead_cases:
  "lead c = (n, lo, hi) \<Longrightarrow> n \<le> 1 \<Longrightarrow> n = 1 \<and> byte_in 0 127 c \<or> n = 0"
  "lead c = (n, lo, hi) \<Longrightarrow> 1 < n \<Longrightarrow> 194 \<le> (of_char c :: nat)"
  by (auto simp: lead_def byte_in_def split: if_splits)

lemma short_rune: "is_rune [c] \<Longrightarrow> byte_in 0 127 c"
  using lead_cases(1) [of c] by (auto simp: is_rune_def rune_size_def continued_def split: prod.splits if_splits)

lemma long_rune: "is_rune (c # cs) \<Longrightarrow> cs \<noteq> [] \<Longrightarrow> 194 \<le> (of_char c :: nat)"
  using lead_cases(2) [of c] by (auto simp: is_rune_def rune_size_def split: prod.splits if_splits)

lemma read_unit_u:
  "read_hex4 ds = Some n \<Longrightarrow> length ds = 4 \<Longrightarrow> \<not> surrogate n \<Longrightarrow>
     read_unit ([CHR 0x5C, CHR ''u''] @ ds @ t) = Some (utf8_encode n, t)"
proof -
  assume n: "read_hex4 ds = Some n" "length ds = 4" "\<not> surrogate n"
  then have "read_hex4 (ds @ t) = Some n" by (simp add: read_hex4_def)
  with n show ?thesis by (simp add: read_unit_def read_escape_def)
qed

lemma separator_facts:
  "length line_separator = 3" "length paragraph_separator = 3" "line_separator \<noteq> paragraph_separator"
  "utf8_encode 8232 = line_separator" "utf8_encode 8233 = paragraph_separator"
  "read_hex4 ''2028'' = Some 8232" "read_hex4 ''2029'' = Some 8233"
  by (simp_all add: line_separator_def paragraph_separator_def utf8_encode_def read_hex4_def all_hex_def
      hex_value_def hex_val_def ascii_lower_def isLowerHexDigit_iff less_eq_char_def)

lemma read_unit_separators:
  "read_unit ([CHR 0x5C, CHR ''u''] @ ''2028'' @ t) = Some (line_separator, t)"
  "read_unit ([CHR 0x5C, CHR ''u''] @ ''2029'' @ t) = Some (paragraph_separator, t)"
  using read_unit_u [of "''2028''"] read_unit_u [of "''2029''"]
  by (simp_all add: separator_facts surrogate_def)

lemma read_unit_escape_rune:
  assumes "is_rune r"
  shows "read_unit (escape_rune (Some r) @ t) = Some (r, t)"
proof -
  obtain c cs where r: "r = c # cs" using assms by (auto simp: is_rune_def neq_Nil_conv)
  consider "cs = []" | "cs \<noteq> []" "r = line_separator \<or> r = paragraph_separator"
    | "cs \<noteq> []" "r \<noteq> line_separator" "r \<noteq> paragraph_separator" by blast
  then show ?thesis
  proof cases
    case 1
    with assms r have "byte_in 0 127 c" by (simp add: short_rune)
    with 1 r show ?thesis by (simp add: read_unit_escape_byte)
  next
    case 2
    with read_unit_separators [of t] separator_facts show ?thesis by auto
  next
    case 3
    with r assms have "194 \<le> (of_char c :: nat)" by (simp add: long_rune)
    then have "\<not> (of_char c :: nat) < 32" "c \<noteq> CHR 0x5C" by auto
    with 3 r next_rune_append [OF assms, of t] show ?thesis
      by (simp add: read_unit_def)
  qed
qed

lemma escape_byte_no_quote: "hd (escape_byte c) \<noteq> CHR 0x22" "escape_byte c \<noteq> []"
  by (simp_all add: escape_byte_def)

lemma escape_rune_no_quote:
  assumes "is_rune r"
  shows "escape_rune (Some r) \<noteq> []" "hd (escape_rune (Some r)) \<noteq> CHR 0x22"
proof -
  obtain c cs where r: "r = c # cs" using assms by (auto simp: is_rune_def neq_Nil_conv)
  have "c \<noteq> CHR 0x22" if "cs \<noteq> []" using long_rune [of c cs] assms r that by auto
  then show "escape_rune (Some r) \<noteq> []" "hd (escape_rune (Some r)) \<noteq> CHR 0x22"
    using r escape_byte_no_quote by auto
qed

lemma read_body_escaped:
  "list_all (\<lambda>x. \<exists>r. x = Some r \<and> is_rune r) rs \<Longrightarrow> length rs < f \<Longrightarrow>
     read_body f (concat (map escape_rune rs) @ CHR 0x22 # t) = Some (concat (map the rs), t)"
proof (induction rs arbitrary: f)
  case Nil
  then show ?case by (cases f) simp_all
next
  case (Cons x rs)
  from Cons.prems obtain r f' where x: "x = Some r" "is_rune r" and f: "f = Suc f'" "length rs < f'"
    by (cases f) auto
  have q: "escape_rune (Some r) \<noteq> []" "hd (escape_rune (Some r)) \<noteq> CHR 0x22"
    using escape_rune_no_quote [OF x(2)] by simp_all
  have "read_unit (escape_rune (Some r) @ (concat (map escape_rune rs) @ CHR 0x22 # t))
      = Some (r, concat (map escape_rune rs) @ CHR 0x22 # t)"
    by (rule read_unit_escape_rune [OF x(2)])
  with q Cons.IH [OF _ f(2)] Cons.prems(1) show ?case
    by (simp add: x f hd_append del: escape_rune.simps)
qed

lemma runes_length: "length (runes s) \<le> length s"
proof (induction s rule: runes.induct)
  case (1 s)
  then show ?case
    using next_rune_shorter [of s] by (cases "s = []") (simp_all add: runes.simps [of s])
qed


lemma read_body_quoted:
  assumes "valid_utf8 s"
  shows "length (concat (map escape_rune (runes s))) < f \<Longrightarrow>
    read_body f (concat (map escape_rune (runes s)) @ CHR 0x22 # t) = Some (s, t)"
proof -
  assume f: "length (concat (map escape_rune (runes s))) < f"
  have "\<exists>r. x = Some r \<and> is_rune r" if "x \<in> set (runes s)" for x
    using assms(1) runes_are_runes [of _ s] that by (cases x) (auto simp: valid_utf8_def)
  then have all: "list_all (\<lambda>x. \<exists>r. x = Some r \<and> is_rune r) (runes s)" by (auto simp: list_all_iff)
  have "length rs \<le> length (concat (map escape_rune rs))"
    if "list_all (\<lambda>x. \<exists>r. x = Some r \<and> is_rune r) rs" for rs
    using that
  proof (induction rs)
    case (Cons x rs)
    then obtain r where "x = Some r" "is_rune r" by auto
    with Cons escape_rune_no_quote(1) [of r] show ?case by (cases "escape_rune x") auto
  qed simp
  with all f have "length (runes s) < f" by fastforce
  moreover have "concat (map the (runes s)) = s" using assms(1) runes_concat by (simp add: valid_utf8_def)
  ultimately show ?thesis using read_body_escaped [OF all, of f t] by simp
qed

subsection \<open>Values\<close>

text \<open>A number is kept as its literal, members and elements in order.\<close>

datatype json =
    JNull | JBool bool | JNumber string | JString string
  | JArray "json list" | JObject "(string \<times> json) list"

fun comma_join :: "string list \<Rightarrow> string" where
  "comma_join [] = []"
| "comma_join [x] = x"
| "comma_join (x # y # zs) = x @ CHR '','' # comma_join (y # zs)"

text \<open>\<open>Marshal\<close>: no insignificant space, members in the given order.\<close>

fun json_text :: "json \<Rightarrow> string" where
  "json_text JNull = ''null''"
| "json_text (JBool b) = (if b then ''true'' else ''false'')"
| "json_text (JNumber n) = n"
| "json_text (JString s) = quote_json s"
| "json_text (JArray vs) = ''['' @ comma_join (map json_text vs) @ '']''"
| "json_text (JObject ms) = ''{'' @ comma_join (map (\<lambda>(k, v). quote_json k @ CHR '':'' # json_text v) ms) @ ''}''"

subsection \<open>The scanner\<close>

definition is_space :: "char \<Rightarrow> bool" where
  "is_space c \<longleftrightarrow> c = CHR '' '' \<or> c = CHR 0x09 \<or> c = CHR 0x0D \<or> c = CHR 0x0A"

definition skip_space :: "string \<Rightarrow> string" where "skip_space = dropWhile is_space"

text \<open>A number literal: sign, integer part without leading zeros, fraction, exponent.\<close>

definition read_fraction :: "string \<Rightarrow> (string \<times> string) option" where
  "read_fraction s =
     (case s of
        [] \<Rightarrow> Some ([], [])
      | c # r \<Rightarrow>
          if c \<noteq> CHR ''.'' then Some ([], s)
          else if takeWhile is_digit r = [] then None
          else Some (c # takeWhile is_digit r, dropWhile is_digit r))"

definition read_exponent :: "string \<Rightarrow> (string \<times> string) option" where
  "read_exponent s =
     (case s of
        [] \<Rightarrow> Some ([], [])
      | c # r \<Rightarrow>
          if c \<noteq> CHR ''e'' \<and> c \<noteq> CHR ''E'' then Some ([], s)
          else
            let sign = (if r \<noteq> [] \<and> (hd r = CHR ''+'' \<or> hd r = CHR ''-'') then [hd r] else []);
                r' = drop (length sign) r
            in if takeWhile is_digit r' = [] then None
               else Some (c # sign @ takeWhile is_digit r', dropWhile is_digit r'))"

definition read_number :: "string \<Rightarrow> (string \<times> string) option" where
  "read_number s =
     (let sign = (if s \<noteq> [] \<and> hd s = CHR ''-'' then ''-'' else []);
          r = drop (length sign) s; ds = takeWhile is_digit r
      in if ds = [] \<or> (hd ds = CHR ''0'' \<and> 1 < length ds) then None
         else
           (case read_fraction (dropWhile is_digit r) of None \<Rightarrow> None
            | Some (frac, r1) \<Rightarrow>
                (case read_exponent r1 of None \<Rightarrow> None
                 | Some (ex, r2) \<Rightarrow> Some (sign @ ds @ frac @ ex, r2))))"

definition read_keyword :: "string \<Rightarrow> json \<Rightarrow> string \<Rightarrow> (json \<times> string) option" where
  "read_keyword w v s = (if take (length w) s = w then Some (v, drop (length w) s) else None)"

text \<open>Values, elements and members. The first argument bounds the steps, the second the nesting
  (\<open>maxNestingDepth\<close>, beyond which the scanner reports an error).\<close>

fun read_value :: "nat \<Rightarrow> nat \<Rightarrow> string \<Rightarrow> (json \<times> string) option"
  and read_elements :: "nat \<Rightarrow> nat \<Rightarrow> json list \<Rightarrow> string \<Rightarrow> (json \<times> string) option"
  and read_members :: "nat \<Rightarrow> nat \<Rightarrow> (string \<times> json) list \<Rightarrow> string \<Rightarrow> (json \<times> string) option" where
  "read_value 0 d s = None"
| "read_value (Suc f) d s =
     (case skip_space s of
        [] \<Rightarrow> None
      | c # r \<Rightarrow>
          if c = CHR 0x22 then (case read_body (Suc (length r)) r of None \<Rightarrow> None | Some (x, r') \<Rightarrow> Some (JString x, r'))
          else if c = CHR ''{'' then
            (if d = 0 then None
             else if skip_space r \<noteq> [] \<and> hd (skip_space r) = CHR ''}'' then Some (JObject [], tl (skip_space r))
             else read_members f (d - 1) [] r)
          else if c = CHR ''['' then
            (if d = 0 then None
             else if skip_space r \<noteq> [] \<and> hd (skip_space r) = CHR '']'' then Some (JArray [], tl (skip_space r))
             else read_elements f (d - 1) [] r)
          else if c = CHR ''t'' then read_keyword ''true'' (JBool True) (c # r)
          else if c = CHR ''f'' then read_keyword ''false'' (JBool False) (c # r)
          else if c = CHR ''n'' then read_keyword ''null'' JNull (c # r)
          else (case read_number (c # r) of None \<Rightarrow> None | Some (n, r') \<Rightarrow> Some (JNumber n, r')))"
| "read_elements 0 d vs s = None"
| "read_elements (Suc f) d vs s =
     (case read_value f d s of
        None \<Rightarrow> None
      | Some (v, r) \<Rightarrow>
          (case skip_space r of
             [] \<Rightarrow> None
           | c # r' \<Rightarrow>
               if c = CHR '','' then read_elements f d (vs @ [v]) r'
               else if c = CHR '']'' then Some (JArray (vs @ [v]), r') else None))"
| "read_members 0 d ms s = None"
| "read_members (Suc f) d ms s =
     (case skip_space s of
        [] \<Rightarrow> None
      | q # r \<Rightarrow>
          if q \<noteq> CHR 0x22 then None
          else
            (case read_body (Suc (length r)) r of
               None \<Rightarrow> None
             | Some (k, r1) \<Rightarrow>
                 if skip_space r1 = [] \<or> hd (skip_space r1) \<noteq> CHR '':'' then None
                 else
                   (case read_value f d (tl (skip_space r1)) of
                      None \<Rightarrow> None
                    | Some (v, r2) \<Rightarrow>
                        (case skip_space r2 of
                           [] \<Rightarrow> None
                         | c # r3 \<Rightarrow>
                             if c = CHR '','' then read_members f d (ms @ [(k, v)]) r3
                             else if c = CHR ''}'' then Some (JObject (ms @ [(k, v)]), r3) else None))))"

definition maxNestingDepth :: nat where "maxNestingDepth = 10000"

definition json_parse :: "string \<Rightarrow> json option" where
  "json_parse s =
     (case read_value (Suc (length s)) maxNestingDepth s of
        None \<Rightarrow> None
      | Some (v, r) \<Rightarrow> if skip_space r = [] then Some v else None)"


subsection \<open>Texts are read back\<close>

text \<open>Values with UTF-8 strings and integer literals, and their nesting.\<close>

fun clean_json :: "json \<Rightarrow> bool" where
  "clean_json (JNumber n) \<longleftrightarrow> (\<exists>i. n = int_text i)"
| "clean_json (JString s) \<longleftrightarrow> valid_utf8 s"
| "clean_json (JArray vs) \<longleftrightarrow> (\<forall>v\<in>set vs. clean_json v)"
| "clean_json (JObject ms) \<longleftrightarrow> (\<forall>(k, v)\<in>set ms. valid_utf8 k \<and> clean_json v)"
| "clean_json _ \<longleftrightarrow> True"

fun json_depth :: "json \<Rightarrow> nat" where
  "json_depth (JArray vs) = Suc (foldr (\<lambda>v m. max (json_depth v) m) vs 0)"
| "json_depth (JObject ms) = Suc (foldr (\<lambda>(k, v) m. max (json_depth v) m) ms 0)"
| "json_depth _ = 0"

definition ends_value :: "string \<Rightarrow> bool" where
  "ends_value t \<longleftrightarrow> t = [] \<or> hd t \<in> {CHR '','', CHR '']'', CHR ''}''}"

lemma ends_value_facts:
  assumes "ends_value t"
  shows "takeWhile is_digit t = []" and "dropWhile is_digit t = t" and "read_fraction t = Some ([], t)"
    and "read_exponent t = Some ([], t)"
  using assms
  by (cases t; auto simp: ends_value_def is_digit_def less_eq_char_def read_fraction_def read_exponent_def)+

lemma digits_then:
  assumes "list_all is_digit ds" and "ends_value t"
  shows "takeWhile is_digit (ds @ t) = ds" and "dropWhile is_digit (ds @ t) = t"
  using assms ends_value_facts(1,2) [OF assms(2)]
  by (auto simp: list_all_iff takeWhile_append2 dropWhile_append2)

lemma read_number_decimal:
  assumes "ends_value t"
  shows "read_number (decimal_text n @ t) = Some (decimal_text n, t)"
    and "read_number (''-'' @ decimal_text n @ t) = Some (''-'' @ decimal_text n, t)"
proof -
  note d = digits_then [OF decimal_text_digits [of n] assms] ends_value_facts [OF assms]
  have z: "\<not> (hd (decimal_text n) = CHR ''0'' \<and> 1 < length (decimal_text n))"
    using decimal_text_single [of n] decimal_text_no_leading_zero [of n] by (cases "n = 0") auto
  have m: "hd (decimal_text n @ t) \<noteq> CHR ''-''" by (simp add: decimal_text_not_minus)
  show "read_number (decimal_text n @ t) = Some (decimal_text n, t)"
    using z m by (simp add: read_number_def Let_def d decimal_text_not_minus)
  show "read_number (''-'' @ decimal_text n @ t) = Some (''-'' @ decimal_text n, t)"
    using z by (simp add: read_number_def Let_def d)
qed

lemma read_number_int: "ends_value t \<Longrightarrow> read_number (int_text i @ t) = Some (int_text i, t)"
  using read_number_decimal [of t] by (simp add: int_text_def)

lemma int_text_hd: "int_text i \<noteq> [] \<and> (hd (int_text i) = CHR ''-'' \<or> is_digit (hd (int_text i)))"
  by (simp add: int_text_def decimal_text_hd)

lemma digit_start:
  assumes "c = CHR ''-'' \<or> is_digit c"
  shows "\<not> is_space c"
    and "c \<notin> {CHR 0x22, CHR ''{'', CHR ''['', CHR ''}'', CHR '']'', CHR ''t'', CHR ''f'', CHR ''n''}"
  using assms by (auto simp: is_digit_def is_space_def less_eq_char_def)

lemma json_text_start: "clean_json v \<Longrightarrow> json_text v \<noteq> [] \<and> \<not> is_space (hd (json_text v)) \<and> hd (json_text v) \<notin> {CHR ''}'', CHR '']''}"
proof (cases v)
  case (JNumber n)
  moreover assume "clean_json v"
  ultimately obtain i where "json_text v = int_text i" by auto
  with int_text_hd [of i] digit_start [of "hd (int_text i)"] show ?thesis by simp
qed (auto simp: is_space_def quote_json_def)

lemma skip_space_start: "s \<noteq> [] \<Longrightarrow> \<not> is_space (hd s) \<Longrightarrow> skip_space s = s"
  by (cases s) (simp_all add: skip_space_def)

lemma skip_space_Cons: "\<not> is_space c \<Longrightarrow> skip_space (c # s) = c # s"
  by (simp add: skip_space_def)

lemma punctuation_not_space [simp]:
  "\<not> is_space CHR 0x22" "\<not> is_space CHR ''{''" "\<not> is_space CHR ''}''" "\<not> is_space CHR ''[''"
  "\<not> is_space CHR '']''" "\<not> is_space CHR '':''" "\<not> is_space CHR '',''"
  by (simp_all add: is_space_def)

lemma read_quoted:
  assumes "valid_utf8 s"
  obtains r where "quote_json s @ t = CHR 0x22 # r" and "read_body (Suc (length r)) r = Some (s, t)"
    and "length t < length r"
proof
  show "quote_json s @ t = CHR 0x22 # (concat (map escape_rune (runes s)) @ CHR 0x22 # t)"
    by (simp add: quote_json_def)
  show "read_body (Suc (length (concat (map escape_rune (runes s)) @ CHR 0x22 # t)))
      (concat (map escape_rune (runes s)) @ CHR 0x22 # t) = Some (s, t)"
    by (rule read_body_quoted [OF assms]) simp
qed simp

definition member_text :: "string \<times> json \<Rightarrow> string" where
  "member_text m = quote_json (fst m) @ CHR '':'' # json_text (snd m)"

lemma json_text_object: "json_text (JObject ms) = ''{'' @ comma_join (map member_text ms) @ ''}''"
  by (simp add: member_text_def [abs_def] case_prod_unfold)

definition reads_back :: "json \<Rightarrow> bool" where
  "reads_back v \<longleftrightarrow> (\<forall>f d t. json_depth v \<le> d \<longrightarrow> length (json_text v) \<le> f \<longrightarrow> ends_value t \<longrightarrow>
     read_value f d (json_text v @ t) = Some (v, t))"

lemma ends_value_Cons [simp]:
  "ends_value (CHR '','' # t)" "ends_value (CHR '']'' # t)" "ends_value (CHR ''}'' # t)"
  by (simp_all add: ends_value_def)

lemma read_elements_back:
  assumes "vs \<noteq> []" and "\<forall>v\<in>set vs. clean_json v \<and> reads_back v \<and> json_depth v \<le> d"
    and "length (comma_join (map json_text vs)) < f"
  shows "read_elements f d acc (comma_join (map json_text vs) @ CHR '']'' # t) = Some (JArray (acc @ vs), t)"
  using assms
proof (induction vs arbitrary: f acc rule: induct_list012 [case_names Nil one more])
  case (one v)
  then obtain f' where "f = Suc f'" by (cases f) auto
  with one show ?case by (simp add: reads_back_def skip_space_Cons)
next
  case (more v w vs)
  then obtain f' where f: "f = Suc f'" by (cases f) auto
  have "read_value f' d (json_text v @ CHR '','' # comma_join (map json_text (w # vs)) @ CHR '']'' # t)
      = Some (v, CHR '','' # comma_join (map json_text (w # vs)) @ CHR '']'' # t)"
    using more.prems f by (simp add: reads_back_def)
  moreover have "read_elements f' d (acc @ [v]) (comma_join (map json_text (w # vs)) @ CHR '']'' # t)
      = Some (JArray ((acc @ [v]) @ w # vs), t)"
    using more.prems f by (intro more.IH(2)) auto
  ultimately show ?case by (simp add: f skip_space_Cons)
qed simp

lemma read_members_back:
  assumes "ms \<noteq> []"
    and "\<forall>m\<in>set ms. valid_utf8 (fst m) \<and> clean_json (snd m) \<and> reads_back (snd m) \<and> json_depth (snd m) \<le> d"
    and "length (comma_join (map member_text ms)) < f"
  shows "read_members f d acc (comma_join (map member_text ms) @ CHR ''}'' # t) = Some (JObject (acc @ ms), t)"
  using assms
proof (induction ms arbitrary: f acc rule: induct_list012 [case_names Nil one more])
  case (one m)
  then obtain f' where f: "f = Suc f'" by (cases f) auto
  obtain r where r: "quote_json (fst m) @ CHR '':'' # json_text (snd m) @ CHR ''}'' # t = CHR 0x22 # r"
    "read_body (Suc (length r)) r = Some (fst m, CHR '':'' # json_text (snd m) @ CHR ''}'' # t)"
    using read_quoted [of "fst m" "CHR '':'' # json_text (snd m) @ CHR ''}'' # t"] one.prems by auto
  have "length (json_text (snd m)) \<le> f'" using one.prems f by (simp add: member_text_def)
  with one.prems have "read_value f' d (json_text (snd m) @ CHR ''}'' # t) = Some (snd m, CHR ''}'' # t)"
    by (simp add: reads_back_def)
  with r show ?case by (simp add: f member_text_def skip_space_Cons)
next
  case (more m m' ms)
  then obtain f' where f: "f = Suc f'" by (cases f) auto
  define t' where "t' = CHR '','' # comma_join (map member_text (m' # ms)) @ CHR ''}'' # t"
  obtain r where r: "quote_json (fst m) @ CHR '':'' # json_text (snd m) @ t' = CHR 0x22 # r"
    "read_body (Suc (length r)) r = Some (fst m, CHR '':'' # json_text (snd m) @ t')"
    using read_quoted [of "fst m" "CHR '':'' # json_text (snd m) @ t'"] more.prems by auto
  have "length (json_text (snd m)) \<le> f'" using more.prems f by (simp add: member_text_def)
  with more.prems have v: "read_value f' d (json_text (snd m) @ t') = Some (snd m, t')"
    by (simp add: reads_back_def t'_def)
  have rest: "read_members f' d (acc @ [m]) (comma_join (map member_text (m' # ms)) @ CHR ''}'' # t)
      = Some (JObject ((acc @ [m]) @ m' # ms), t)"
    using more.prems f by (intro more.IH(2)) (auto simp: member_text_def)
  have whole: "comma_join (map member_text (m # m' # ms)) @ CHR ''}'' # t = CHR 0x22 # r"
    using r(1) by (simp add: member_text_def t'_def)
  show ?case unfolding whole f using r(2) v rest
    by (simp add: skip_space_Cons t'_def)
qed simp


lemma foldr_max_bound:
  "foldr (\<lambda>v m. max (h v) m) vs (0::nat) \<le> d \<longleftrightarrow> (\<forall>v\<in>set vs. h v \<le> d)"
  by (induction vs) auto

lemma depth_array: "json_depth (JArray vs) \<le> d \<longleftrightarrow> 0 < d \<and> (\<forall>v\<in>set vs. json_depth v \<le> d - 1)"
  by (cases d) (simp_all add: foldr_max_bound)

lemma depth_object: "json_depth (JObject ms) \<le> d \<longleftrightarrow> 0 < d \<and> (\<forall>m\<in>set ms. json_depth (snd m) \<le> d - 1)"
  by (cases d) (simp_all add: foldr_max_bound [of "\<lambda>m. json_depth (snd m)"] case_prod_unfold)

lemma comma_join_start: "xs \<noteq> [] \<Longrightarrow> hd xs \<noteq> [] \<Longrightarrow> comma_join xs \<noteq> [] \<and> hd (comma_join xs) = hd (hd xs)"
  by (induction xs rule: comma_join.induct) auto

lemma clean_reads_back: "clean_json v \<Longrightarrow> reads_back v"
proof (induction v)
  case JNull
  show ?case
  proof (unfold reads_back_def, intro allI impI)
    fix f d :: nat and t
    assume "length (json_text JNull) \<le> f"
    then show "read_value f d (json_text JNull @ t) = Some (JNull, t)"
      by (cases f) (simp_all add: skip_space_Cons is_space_def read_keyword_def)
  qed
next
  case (JBool b)
  show ?case
  proof (unfold reads_back_def, intro allI impI)
    fix f d :: nat and t
    assume "length (json_text (JBool b)) \<le> f"
    then show "read_value f d (json_text (JBool b) @ t) = Some (JBool b, t)"
      by (cases f; cases b) (simp_all add: skip_space_Cons is_space_def read_keyword_def)
  qed
next
  case (JNumber n)
  then obtain i where i: "n = int_text i" by auto
  show ?case
  proof (unfold reads_back_def, intro allI impI)
    fix f d :: nat and t
    assume f: "length (json_text (JNumber n)) \<le> f" and t: "ends_value t"
    have "n \<noteq> []" using int_text_hd [of i] i by simp
    then obtain c r where c: "n = c # r" by (cases n) simp_all
    then have "hd (int_text i) = c" using i by (metis list.sel(1))
    with int_text_hd [of i] have "c = CHR ''-'' \<or> is_digit c" by simp
    note start = digit_start [OF this]
    from f c obtain f' where "f = Suc f'" by (cases f) auto
    with start c read_number_int [OF t, of i] i
    show "read_value f d (json_text (JNumber n) @ t) = Some (JNumber n, t)"
      by (simp add: skip_space_Cons)
  qed
next
  case (JString s)
  show ?case
  proof (unfold reads_back_def, intro allI impI)
    fix f d :: nat and t
    assume f: "length (json_text (JString s)) \<le> f"
    obtain r where r: "quote_json s @ t = CHR 0x22 # r" "read_body (Suc (length r)) r = Some (s, t)"
      using read_quoted [of s t] JString by auto
    from f obtain f' where "f = Suc f'" by (cases f) (auto simp: quote_json_def)
    with r show "read_value f d (json_text (JString s) @ t) = Some (JString s, t)"
      by (simp add: skip_space_Cons)
  qed
next
  case (JArray vs)
  show ?case
  proof (unfold reads_back_def, intro allI impI)
    fix f d :: nat and t
    assume d: "json_depth (JArray vs) \<le> d" and f: "length (json_text (JArray vs)) \<le> f"
    from d have dd: "0 < d" "\<forall>v\<in>set vs. json_depth v \<le> d - 1" using depth_array by blast+
    from f obtain f' where f': "f = Suc f'" by (cases f) auto
    show "read_value f d (json_text (JArray vs) @ t) = Some (JArray vs, t)"
    proof (cases "vs = []")
      case True
      with d f' show ?thesis by (simp add: skip_space_Cons)
    next
      case False
      let ?body = "comma_join (map json_text vs) @ CHR '']'' # t"
      have "clean_json (hd vs)" using JArray.prems False by simp
      from json_text_start [OF this] False comma_join_start [of "map json_text vs"]
      have "comma_join (map json_text vs) \<noteq> []" "\<not> is_space (hd (comma_join (map json_text vs)))"
        "hd (comma_join (map json_text vs)) \<noteq> CHR '']''" by (simp_all add: hd_map)
      then have "skip_space ?body = ?body" "hd ?body \<noteq> CHR '']''" by (simp_all add: skip_space_start)
      moreover have "read_elements f' (d - 1) [] ?body = Some (JArray ([] @ vs), t)"
        using JArray False dd f f' by (intro read_elements_back) auto
      ultimately show ?thesis using dd(1) by (simp add: f' skip_space_Cons)
    qed
  qed
next
  case (JObject ms)
  show ?case
  proof (unfold reads_back_def, intro allI impI)
    fix f d :: nat and t
    assume d: "json_depth (JObject ms) \<le> d" and f: "length (json_text (JObject ms)) \<le> f"
    from d have dd: "0 < d" "\<forall>m\<in>set ms. json_depth (snd m) \<le> d - 1" using depth_object by blast+
    from f obtain f' where f': "f = Suc f'" by (cases f) auto
    show "read_value f d (json_text (JObject ms) @ t) = Some (JObject ms, t)"
    proof (cases "ms = []")
      case True
      with d f' show ?thesis by (simp add: skip_space_Cons)
    next
      case False
      let ?body = "comma_join (map member_text ms) @ CHR ''}'' # t"
      have "hd (map member_text ms) \<noteq> []" "hd (hd (map member_text ms)) = CHR 0x22"
        using False by (simp_all add: hd_map member_text_def quote_json_def)
      with False comma_join_start [of "map member_text ms"]
      have "comma_join (map member_text ms) \<noteq> []" "hd (comma_join (map member_text ms)) = CHR 0x22" by auto
      then have "skip_space ?body = ?body" "hd ?body \<noteq> CHR ''}''" by (simp_all add: skip_space_start)
      moreover have "read_members f' (d - 1) [] ?body = Some (JObject ([] @ ms), t)"
      proof (rule read_members_back [OF False])
        show "\<forall>m\<in>set ms. valid_utf8 (fst m) \<and> clean_json (snd m) \<and> reads_back (snd m) \<and> json_depth (snd m) \<le> d - 1"
          using JObject dd(2) by fastforce
        show "length (comma_join (map member_text ms)) < f'"
          using f f' by (simp add: json_text_object del: json_text.simps)
      qed
      ultimately show ?thesis using dd(1) by (simp add: f' skip_space_Cons json_text_object del: json_text.simps)
    qed
  qed
qed

text \<open>What \<open>Marshal\<close> writes, \<open>Unmarshal\<close>'s scanner reads back.\<close>

lemma json_parse_text:
  assumes "clean_json v" and "json_depth v \<le> maxNestingDepth"
  shows "json_parse (json_text v) = Some v"
proof -
  have "read_value (Suc (length (json_text v))) maxNestingDepth (json_text v @ []) = Some (v, [])"
    using clean_reads_back [OF assms(1)] assms(2) unfolding reads_back_def by (simp add: ends_value_def del: read_value.simps)
  then show ?thesis by (simp add: json_parse_def skip_space_def)
qed


subsection \<open>Assigning members to a struct\<close>

text \<open>\<open>foldName\<close>: letters without case. Of the runes outside ASCII only the long s and the Kelvin
  sign fold to ASCII letters.\<close>

definition ascii_upper :: "char \<Rightarrow> char" where
  "ascii_upper c = (if CHR ''a'' \<le> c \<and> c \<le> CHR ''z'' then char_of ((of_char c :: nat) - 32) else c)"

definition fold_rune :: "string option \<Rightarrow> string" where
  "fold_rune x =
     (case x of
        None \<Rightarrow> replacement
      | Some r \<Rightarrow>
          if r = map char_of [197, 191 :: nat] then ''S''
          else if r = map char_of [226, 132, 170 :: nat] then ''K''
          else if length r = 1 then map ascii_upper r else r)"

definition fold_name :: "string \<Rightarrow> string" where "fold_name s = concat (map fold_rune (runes s))"

text \<open>A destination that cannot hold a value is an error of the whole call, \<open>null\<close> leaves it as it
  is. \<open>put k v x\<close> assigns \<open>v\<close> to the field of \<open>x\<close> whose folded name is \<open>k\<close>.\<close>

definition decode_string :: "json \<Rightarrow> string \<Rightarrow> string option" where
  "decode_string v old = (case v of JString s \<Rightarrow> Some s | JNull \<Rightarrow> Some old | _ \<Rightarrow> None)"

definition decode_int :: "json \<Rightarrow> int64 \<Rightarrow> int64 option" where
  "decode_int v old = (case v of JNumber n \<Rightarrow> parse_int64 n | JNull \<Rightarrow> Some old | _ \<Rightarrow> None)"

fun assign_members :: "(string \<Rightarrow> json \<Rightarrow> 'a \<Rightarrow> 'a option) \<Rightarrow> (string \<times> json) list \<Rightarrow> 'a \<Rightarrow> 'a option" where
  "assign_members put [] x = Some x"
| "assign_members put ((k, v) # ms) x =
     (case put (fold_name k) v x of None \<Rightarrow> None | Some y \<Rightarrow> assign_members put ms y)"

definition decode_struct :: "(string \<Rightarrow> json \<Rightarrow> 'a \<Rightarrow> 'a option) \<Rightarrow> json \<Rightarrow> 'a \<Rightarrow> 'a option" where
  "decode_struct put v old =
     (case v of JObject ms \<Rightarrow> assign_members put ms old | JNull \<Rightarrow> Some old | _ \<Rightarrow> None)"

definition json_unmarshal :: "(json \<Rightarrow> 'a \<Rightarrow> 'a option) \<Rightarrow> string \<Rightarrow> 'a \<Rightarrow> 'a option" where
  "json_unmarshal decode s x = (case json_parse s of None \<Rightarrow> None | Some v \<Rightarrow> decode v x)"

lemma decode_simps [simp]:
  "decode_string (JString s) old = Some s"
  "decode_struct put (JObject ms) x = assign_members put ms x"
  by (simp_all add: decode_string_def decode_struct_def)

lemma decode_int_text [simp]: "in_int64 i \<Longrightarrow> decode_int (JNumber (int_text i)) old = Some i"
  by (simp add: decode_int_def parse_int64_text)

text \<open>Runes and folding of ASCII names.\<close>

lemma runes_ascii: "list_all (byte_in 0 127) s \<Longrightarrow> runes s = map (\<lambda>c. Some [c]) s"
proof (induction s)
  case (Cons c s)
  then have "next_rune (c # s) = (Some [c], s)" by (simp add: next_rune_def rune_size_ascii)
  with Cons show ?case by (simp add: runes.simps [of "c # s"])
qed simp

lemma valid_utf8_ascii: "list_all (byte_in 0 127) s \<Longrightarrow> valid_utf8 s"
  by (auto simp: valid_utf8_def runes_ascii)

lemma fold_name_ascii: "list_all (byte_in 0 127) s \<Longrightarrow> fold_name s = map ascii_upper s"
  by (simp add: fold_name_def runes_ascii fold_rune_def comp_def)

end
