(* ===== verification/Ledger_Store.thy ===== *)
theory Ledger_Store
  imports Tx Revocation CRL_State Principals Issuer_Chain Delivery Transition TLS_Change "HOL-Library.AList"
begin

text \<open>
  The state of the transactional store, as the in-memory store of \<open>internal/app/porttest\<close> holds it
  (\<open>state.go\<close>), and the repositories the revocation and request services use (\<open>revocations.go\<close>,
  \<open>crl.go\<close>, \<open>jobs.go\<close>, \<open>audit.go\<close>, \<open>requests.go\<close>, \<open>pki.go\<close>): optimistic locking by version, unique
  keys, and not-found as an error. A Go map that the code only looks up and updates by key is a
  HOL map; one that the code also ranges over is an association list. The counter \<open>lg_uuids\<close> is the
  number of identifiers drawn from the caller's generator. It is a field of the store only to thread it through the
  steps: a write that is rolled back takes it back too and draws the same identifiers again, where the code's
  generator, which is no part of its store, would go on to new ones. No theorem assumes that two draws differ, and none
  compares the identifiers of two attempts. \<open>internal/app/port/audit.go\<close> gives the
  audit scopes.
\<close>

subsection \<open>Rows\<close>

record CAKeyGeneration =
  cg_ID :: CAKeyGenerationID
  cg_AuthorityID :: AuthorityID
  cg_KeyMaterialID :: KeyMaterialID
  cg_GenerationNo :: int64
  cg_KeyDestroyedAt :: Instant

datatype JobState = JobStatePending | JobStateRunning | JobStateSucceeded | JobStateFailed | JobStateOther string

record Job =
  jb_ID :: JobID
  jb_Kind :: string
  jb_DedupKey :: string
  jb_PayloadVersion :: int64
  jb_Payload :: string
  jb_State :: JobState
  jb_AvailableAt :: Instant
  jb_LeaseUntil :: Instant
  jb_AttemptCount :: int64
  jb_LastErrorCode :: string
  jb_Version :: Version

record AuditDetails =
  ad_SchemaVersion :: int64
  ad_Fields :: "string \<rightharpoonup> string"

record AuditEvent =
  ae_ID :: string
  ae_OccurredAt :: Instant
  ae_ActorKind :: string
  ae_ActorID :: string
  ae_TokenID :: string
  ae_Action :: string
  ae_TargetType :: string
  ae_TargetID :: string
  ae_ClientIP :: string
  ae_Result :: string
  ae_Details :: AuditDetails

datatype AuditScopeKind = AuditScopeInstallation | AuditScopeAuthorities | AuditScopeOther string

record AuditScope =
  as_kind :: AuditScopeKind
  as_authorityIDs :: "AuthorityID list"

definition NewInstallationAuditScope :: AuditScope where
  "NewInstallationAuditScope = \<lparr>as_kind = AuditScopeInstallation, as_authorityIDs = []\<rparr>"

text \<open>First occurrences only, in order.\<close>

fun unique_ids :: "AuthorityID list \<Rightarrow> AuthorityID list \<Rightarrow> AuthorityID list" where
  "unique_ids acc [] = acc"
| "unique_ids acc (i # is) = (if i \<in> set acc then unique_ids acc is else unique_ids (acc @ [i]) is)"

definition NewAuthoritiesAuditScope :: "AuthorityID list \<Rightarrow> AuditScope" where
  "NewAuthoritiesAuditScope ids =
     \<lparr>as_kind = AuditScopeAuthorities, as_authorityIDs = unique_ids [] ids\<rparr>"

fun scope_ids_scan :: "AuthorityID list \<Rightarrow> AuthorityID list \<Rightarrow> go_error option" where
  "scope_ids_scan seen [] = None"
| "scope_ids_scan seen (i # is) =
     (if i = [] then Some (Opaque ''authority audit scope must not contain an empty authority id'')
      else if i \<in> set seen
        then Some (Opaque ''authority audit scope must not contain duplicate authority ids'')
      else scope_ids_scan (i # seen) is)"

definition AuditScope_Validate :: "AuditScope \<Rightarrow> go_error option" where
  "AuditScope_Validate s =
     (case as_kind s of
        AuditScopeInstallation \<Rightarrow>
          if as_authorityIDs s \<noteq> []
            then Some (Opaque ''installation audit scope must not contain authority ids'') else None
      | AuditScopeAuthorities \<Rightarrow>
          if as_authorityIDs s = []
            then Some (Opaque ''authority audit scope must contain at least one authority id'')
          else scope_ids_scan [] (as_authorityIDs s)
      | AuditScopeOther _ \<Rightarrow> Some (Opaque ''audit scope kind is not supported''))"

record OperationRequestKey =
  ok_ActorKey :: string
  ok_Operation :: string
  ok_RequestID :: string

record OperationRequestResult =
  or_InputHash :: string
  or_ResultCertificateID :: CertificateID
  or_ResultJSON :: string

record KeyMaterial =
  km_ID :: KeyMaterialID
  km_PublicKey :: PublicKey
  km_Origin :: string
  km_CompromisedAt :: Instant

record CRLDocument =
  cd_ID :: CRLDocumentID
  cd_CAKeyGenerationID :: CAKeyGenerationID
  cd_NumberHex :: CRLNumber
  cd_DERSHA256 :: Fingerprint
  cd_DER :: string
  cd_ThisUpdate :: Instant
  cd_NextUpdate :: Instant
  cd_CoveredGeneration :: int64
  cd_Origin :: string
  cd_SourceImportID :: string

record RateLimitRecord =
  rl_Kind :: string
  rl_SubjectHash :: Fingerprint
  rl_WindowStart :: Instant
  rl_FailureCount :: int64
  rl_BlockedUntil :: Instant

datatype SetupStage =
    SetupStageAccountRequired | SetupStagePKIRequired | SetupStageComplete | SetupStageOther string

record Installation =
  in_SetupStage :: SetupStage
  in_FirstAdminID :: AccountID
  in_ActiveEncryptionGenerationID :: string
  in_ActiveTLSVersionID :: TLSVersionID
  in_ServiceMode :: string
  in_Version :: Version

record Settings =
  se_SchemaVersion :: int64
  se_SettingsJSON :: string
  se_Version :: Version
  se_UpdatedBy :: AccountID

text \<open>One snapshot of every table. Rate limit windows are keyed by kind, subject hash and window start,
  transition impacts by transition and certificate, TLS changes by candidate version.\<close>

record ledger =
  lg_accounts :: "(AccountID \<times> Account) list"
  lg_sessions :: "(SessionID \<times> SessionState) list"
  lg_sessionsByHash :: "string \<rightharpoonup> SessionID"
  lg_resetTokens :: "ResetTokenID \<rightharpoonup> AdminResetToken"
  lg_resetTokensByHash :: "string \<rightharpoonup> ResetTokenID"
  lg_rateLimits :: "string \<times> string \<times> int64 \<rightharpoonup> RateLimitRecord"
  lg_installation :: "Installation option"
  lg_settings :: "Settings option"
  lg_keyMaterials :: "KeyMaterialID \<rightharpoonup> KeyMaterial"
  lg_keyMaterialsBySPKI :: "string \<rightharpoonup> KeyMaterialID"
  lg_caKeyGenerations :: "CAKeyGenerationID \<rightharpoonup> CAKeyGeneration"
  lg_authorities :: "(AuthorityID \<times> Authority) list"
  lg_certificates :: "(CertificateID \<times> Certificate) list"
  lg_certificatesByDER :: "string \<rightharpoonup> CertificateID"
  lg_leafCertRecords :: "CertificateID \<rightharpoonup> LeafCertificateRecord"
  lg_caCertRecords :: "(CertificateID \<times> CACertificateRecord) list"
  lg_seriesRows :: "(SeriesID \<times> LeafSeries) list"
  lg_leafKeyGenerations :: "LeafKeyGenerationID \<rightharpoonup> LeafKeyGeneration"
  lg_deliveries :: "(DeliveryID \<times> Delivery) list"
  lg_grants :: "GrantID \<rightharpoonup> DownloadGrant"
  lg_grantsByHash :: "string \<rightharpoonup> GrantID"
  lg_revocationRows :: "((CAKeyGenerationID \<times> string) \<times> Revocation) list"
  lg_crlStates :: "CAKeyGenerationID \<rightharpoonup> CRLState"
  lg_crlDocuments :: "CRLDocumentID \<rightharpoonup> CRLDocument"
  lg_crlDocumentsByDER :: "string \<rightharpoonup> CRLDocumentID"
  lg_transitionRows :: "(TransitionID \<times> Transition) list"
  lg_impacts :: "((TransitionID \<times> CertificateID) \<times> TransitionImpact) list"
  lg_deploymentConfirmations :: "DeploymentConfirmation list"
  lg_tlsVersions :: "(TLSVersionID \<times> TLSVersion) list"
  lg_tlsChanges :: "TLSVersionID \<rightharpoonup> TLSChange"
  lg_requestResults :: "OperationRequestKey \<rightharpoonup> OperationRequestResult"
  lg_secrets :: "((KeyMaterialID \<times> SecretPurpose) \<times> EncryptedSecret) list"
  lg_verifier :: "EncryptedSecret option"
  lg_jobs :: "(JobID \<times> Job) list"
  lg_jobByDedup :: "string \<rightharpoonup> JobID"
  lg_auditEvents :: "(AuditEvent \<times> AuditScope) list"
  lg_uuids :: nat

text \<open>The revocation ledger is looked up by issuer and serial, and listed by issuer.\<close>

abbreviation lg_revocations :: "ledger \<Rightarrow> CAKeyGenerationID \<times> string \<rightharpoonup> Revocation" where
  "lg_revocations w \<equiv> map_of (lg_revocationRows w)"

text \<open>So are series and transitions, by their identifiers.\<close>

abbreviation lg_series :: "ledger \<Rightarrow> SeriesID \<rightharpoonup> LeafSeries" where
  "lg_series w \<equiv> map_of (lg_seriesRows w)"

abbreviation lg_transitions :: "ledger \<Rightarrow> TransitionID \<rightharpoonup> Transition" where
  "lg_transitions w \<equiv> map_of (lg_transitionRows w)"

definition newState :: ledger where
  "newState = \<lparr>lg_accounts = [], lg_sessions = [], lg_sessionsByHash = Map.empty,
     lg_resetTokens = Map.empty, lg_resetTokensByHash = Map.empty, lg_rateLimits = Map.empty,
     lg_installation = None, lg_settings = None, lg_keyMaterials = Map.empty,
     lg_keyMaterialsBySPKI = Map.empty, lg_caKeyGenerations = Map.empty, lg_authorities = [],
     lg_certificates = [], lg_certificatesByDER = Map.empty, lg_leafCertRecords = Map.empty,
     lg_caCertRecords = [], lg_seriesRows = [], lg_leafKeyGenerations = Map.empty,
     lg_deliveries = [], lg_grants = Map.empty, lg_grantsByHash = Map.empty,
     lg_revocationRows = [], lg_crlStates = Map.empty, lg_crlDocuments = Map.empty,
     lg_crlDocumentsByDER = Map.empty, lg_transitionRows = [], lg_impacts = [],
     lg_deploymentConfirmations = [], lg_tlsVersions = [], lg_tlsChanges = Map.empty,
     lg_requestResults = Map.empty, lg_secrets = [], lg_verifier = None, lg_jobs = [],
     lg_jobByDedup = Map.empty, lg_auditEvents = [], lg_uuids = 0\<rparr>"

lemmas table_simps [simp] = update_conv' delete_conv'

subsection \<open>Repositories\<close>

definition found :: "'a option \<Rightarrow> (ledger, 'a) tx" where
  "found m = (case m of None \<Rightarrow> tx_fail (Port ErrNotFound) | Some x \<Rightarrow> tx_return x)"

text \<open>The two shapes of a write: insert under unique keys (\<open>taken\<close> when one of them is in use), and
  replace the stored row under its optimistic lock. \<open>w'\<close> is the store with the row written.\<close>

definition insert_row :: "bool \<Rightarrow> ledger \<Rightarrow> (ledger, unit) tx" where
  "insert_row taken w' w = (if taken then tx_fail (Port ErrDuplicate) w else tx_return () w')"

definition save_row :: "'v option \<Rightarrow> ('v \<Rightarrow> Version) \<Rightarrow> Version \<Rightarrow> ledger \<Rightarrow> (ledger, unit) tx" where
  "save_row stored version_of expectedVersion w' w =
     (case stored of
        None \<Rightarrow> tx_fail (Port ErrNotFound) w
      | Some existing \<Rightarrow>
          if version_of existing \<noteq> expectedVersion then tx_fail (Port ErrVersionConflict) w
          else tx_return () w')"

text \<open>A row without a version column is replaced when it exists.\<close>

definition replace_row :: "'v option \<Rightarrow> ledger \<Rightarrow> (ledger, unit) tx" where
  "replace_row stored w' w = (if stored = None then tx_fail (Port ErrNotFound) w else tx_return () w')"

text \<open>An upsert under the lock: the first save of a key expects version 0.\<close>

definition upsert_row :: "'v option \<Rightarrow> ('v \<Rightarrow> Version) \<Rightarrow> Version \<Rightarrow> ledger \<Rightarrow> (ledger, unit) tx" where
  "upsert_row stored version_of expectedVersion w' w =
     (case stored of
        None \<Rightarrow> if expectedVersion \<noteq> 0 then tx_fail (Port ErrNotFound) w else tx_return () w'
      | Some existing \<Rightarrow>
          if version_of existing \<noteq> expectedVersion then tx_fail (Port ErrVersionConflict) w
          else tx_return () w')"

definition row_key :: "Revocation \<Rightarrow> CAKeyGenerationID \<times> string" where
  "row_key r = (rv_issuerID r, sn_hex (rv_serial r))"

definition FindForUpdate :: "CAKeyGenerationID \<Rightarrow> SerialNumber \<Rightarrow> (ledger, Revocation) tx" where
  "FindForUpdate issuer serial w = found (lg_revocations w (issuer, sn_hex serial)) w"

definition Revocations_Insert :: "Revocation \<Rightarrow> (ledger, unit) tx" where
  "Revocations_Insert r w =
     (case lg_revocations w (row_key r) of
        Some _ \<Rightarrow> tx_fail (Port ErrDuplicate) w
      | None \<Rightarrow> tx_return () (w\<lparr>lg_revocationRows := AList.update (row_key r) r (lg_revocationRows w)\<rparr>))"

definition Revocations_Save :: "Revocation \<Rightarrow> Version \<Rightarrow> (ledger, unit) tx" where
  "Revocations_Save r expectedVersion w =
     (case lg_revocations w (row_key r) of
        None \<Rightarrow> tx_fail (Port ErrNotFound) w
      | Some existing \<Rightarrow>
          if rv_version existing \<noteq> expectedVersion then tx_fail (Port ErrVersionConflict) w
          else tx_return () (w\<lparr>lg_revocationRows := AList.update (row_key r) r (lg_revocationRows w)\<rparr>))"

definition GetStateForUpdate :: "CAKeyGenerationID \<Rightarrow> (ledger, CRLState) tx" where
  "GetStateForUpdate issuer w = found (lg_crlStates w issuer) w"

definition SaveState :: "CRLState \<Rightarrow> Version \<Rightarrow> (ledger, unit) tx" where
  "SaveState st expectedVersion w =
     (let stored = w\<lparr>lg_crlStates := (lg_crlStates w)(cs_caKeyGenerationID st \<mapsto> st)\<rparr> in
      case lg_crlStates w (cs_caKeyGenerationID st) of
        None \<Rightarrow> if expectedVersion \<noteq> 0 then tx_fail (Port ErrNotFound) w else tx_return () stored
      | Some existing \<Rightarrow>
          if cs_version existing \<noteq> expectedVersion then tx_fail (Port ErrVersionConflict) w
          else tx_return () stored)"

definition GetCAKeyGeneration :: "CAKeyGenerationID \<Rightarrow> (ledger, CAKeyGeneration) tx" where
  "GetCAKeyGeneration i w = found (lg_caKeyGenerations w i) w"

text \<open>Identifiers the store itself mints: 32 hexadecimal digits of \<open>n\<close>, with the UUID version
  and variant digits overwritten and the separators inserted.\<close>

fun low_digits :: "nat \<Rightarrow> nat \<Rightarrow> string" where
  "low_digits 0 n = []"
| "low_digits (Suc k) n = low_digits k (n div 16) @ [hex_digit (n mod 16)]"

definition syntheticUUID :: "nat \<Rightarrow> string" where
  "syntheticUUID n =
     (let buf = (low_digits 32 n)[12 := CHR ''4'', 16 := CHR ''8''] in
      take 8 buf @ ''-'' @ take 4 (drop 8 buf) @ ''-'' @ take 4 (drop 12 buf) @ ''-''
        @ take 4 (drop 16 buf) @ ''-'' @ drop 20 buf)"

definition merged_job :: "string \<Rightarrow> int64 \<Rightarrow> string \<Rightarrow> Job \<Rightarrow> Job" where
  "merged_job kind payloadVersion payload existing =
     (let j = existing\<lparr>jb_Kind := kind, jb_PayloadVersion := payloadVersion, jb_Payload := payload\<rparr>;
          j' = (if jb_State existing = JobStateSucceeded \<or> jb_State existing = JobStateFailed
                then j\<lparr>jb_State := JobStatePending, jb_LeaseUntil := zero_instant,
                       jb_AvailableAt := zero_instant, jb_AttemptCount := 0, jb_LastErrorCode := []\<rparr>
                else j)
      in j'\<lparr>jb_Version := Version_Next (jb_Version existing)\<rparr>)"

definition zero_job :: Job where
  "zero_job = \<lparr>jb_ID = [], jb_Kind = [], jb_DedupKey = [], jb_PayloadVersion = 0, jb_Payload = [],
     jb_State = JobStateOther [], jb_AvailableAt = zero_instant, jb_LeaseUntil = zero_instant,
     jb_AttemptCount = 0, jb_LastErrorCode = [], jb_Version = 0\<rparr>"

definition UpsertDemand :: "string \<Rightarrow> string \<Rightarrow> int64 \<Rightarrow> string \<Rightarrow> (ledger, unit) tx" where
  "UpsertDemand dedupKey kind payloadVersion payload w =
     (case lg_jobByDedup w dedupKey of
        Some i \<Rightarrow>
          let existing = (case map_of (lg_jobs w) i of Some j \<Rightarrow> j | None \<Rightarrow> zero_job) in
          tx_return () (w\<lparr>lg_jobs := AList.update i (merged_job kind payloadVersion payload existing) (lg_jobs w)\<rparr>)
      | None \<Rightarrow>
          let i = syntheticUUID (length (lg_jobs w) + 1);
              j = zero_job\<lparr>jb_ID := i, jb_Kind := kind, jb_DedupKey := dedupKey,
                    jb_PayloadVersion := payloadVersion, jb_Payload := payload, jb_State := JobStatePending\<rparr>
          in tx_return () (w\<lparr>lg_jobs := AList.update i j (lg_jobs w),
                            lg_jobByDedup := (lg_jobByDedup w)(dedupKey \<mapsto> i)\<rparr>))"

definition Audit_Append :: "AuditEvent \<Rightarrow> AuditScope \<Rightarrow> (ledger, unit) tx" where
  "Audit_Append event scope w =
     (case AuditScope_Validate scope of
        Some e \<Rightarrow> tx_fail e w
      | None \<Rightarrow> tx_return () (w\<lparr>lg_auditEvents := lg_auditEvents w @ [(event, scope)]\<rparr>))"

definition Requests_Find :: "OperationRequestKey \<Rightarrow> (ledger, OperationRequestResult) tx" where
  "Requests_Find key w = found (lg_requestResults w key) w"

definition InsertResult :: "OperationRequestKey \<Rightarrow> string \<Rightarrow> string \<Rightarrow> (ledger, unit) tx" where
  "InsertResult key inputHash publicResult w =
     (case lg_requestResults w key of
        Some _ \<Rightarrow> tx_fail (Port ErrDuplicate) w
      | None \<Rightarrow> tx_return () (w\<lparr>lg_requestResults := (lg_requestResults w)(key \<mapsto>
          \<lparr>or_InputHash = inputHash, or_ResultCertificateID = [], or_ResultJSON = publicResult\<rparr>)\<rparr>))"

definition NewUUID :: "(nat \<Rightarrow> string) \<Rightarrow> (ledger, string) tx" where
  "NewUUID ids w = tx_return (ids (lg_uuids w)) (w\<lparr>lg_uuids := Suc (lg_uuids w)\<rparr>)"

subsection \<open>What the repositories do\<close>

lemma found_iff [tx_iff]: "found m w = (Inr x, w') \<longleftrightarrow> m = Some x \<and> w' = w"
  by (cases m) (auto simp: found_def tx_return_def tx_fail_def)

lemma found_fails: "found m w = (Inl e, w') \<longleftrightarrow> m = None \<and> e = Port ErrNotFound \<and> w' = w"
  by (cases m) (auto simp: found_def tx_return_def tx_fail_def)

lemma insert_row_iff [tx_iff]: "insert_row taken w2 w = (Inr u, w') \<longleftrightarrow> \<not> taken \<and> w' = w2"
  by (auto simp: insert_row_def tx_return_def tx_fail_def)

lemma save_row_iff [tx_iff]:
  "save_row stored ver v w2 w = (Inr u, w') \<longleftrightarrow> (\<exists>e. stored = Some e \<and> ver e = v) \<and> w' = w2"
  by (auto simp: save_row_def tx_return_def tx_fail_def split: option.splits)

lemma replace_row_iff [tx_iff]: "replace_row stored w2 w = (Inr u, w') \<longleftrightarrow> stored \<noteq> None \<and> w' = w2"
  by (auto simp: replace_row_def tx_return_def tx_fail_def)

lemma upsert_row_iff [tx_iff]:
  "upsert_row stored ver v w2 w = (Inr u, w') \<longleftrightarrow>
     (case stored of None \<Rightarrow> v = 0 | Some e \<Rightarrow> ver e = v) \<and> w' = w2"
  by (auto simp: upsert_row_def tx_return_def tx_fail_def split: option.splits)

lemmas read_defs [tx_iff] = FindForUpdate_def GetStateForUpdate_def GetCAKeyGeneration_def Requests_Find_def

lemma Insert_iff [tx_iff]:
  "Revocations_Insert r w = (Inr u, w') \<longleftrightarrow> lg_revocations w (row_key r) = None
     \<and> w' = w\<lparr>lg_revocationRows := AList.update (row_key r) r (lg_revocationRows w)\<rparr>"
  by (auto simp: Revocations_Insert_def tx_return_def tx_fail_def split: option.splits)

lemma Save_iff [tx_iff]:
  "Revocations_Save r v w = (Inr u, w') \<longleftrightarrow>
     (\<exists>existing. lg_revocations w (row_key r) = Some existing \<and> rv_version existing = v)
     \<and> w' = w\<lparr>lg_revocationRows := AList.update (row_key r) r (lg_revocationRows w)\<rparr>"
  by (auto simp: Revocations_Save_def tx_return_def tx_fail_def split: option.splits if_splits)

lemma SaveState_iff [tx_iff]:
  "SaveState st v w = (Inr u, w') \<longleftrightarrow>
     (case lg_crlStates w (cs_caKeyGenerationID st) of None \<Rightarrow> v = 0 | Some e \<Rightarrow> cs_version e = v)
     \<and> w' = w\<lparr>lg_crlStates := (lg_crlStates w)(cs_caKeyGenerationID st \<mapsto> st)\<rparr>"
  by (auto simp: SaveState_def tx_return_def tx_fail_def Let_def split: option.splits if_splits)

lemma UpsertDemand_frame:
  "UpsertDemand k kind pv pl w = (r, w') \<Longrightarrow> r = Inr () \<and> lg_revocations w' = lg_revocations w
     \<and> lg_crlStates w' = lg_crlStates w \<and> lg_auditEvents w' = lg_auditEvents w
     \<and> lg_caKeyGenerations w' = lg_caKeyGenerations w \<and> lg_requestResults w' = lg_requestResults w
     \<and> lg_uuids w' = lg_uuids w"
  by (auto simp: UpsertDemand_def tx_return_def Let_def split: option.splits)

lemma Audit_Append_iff [tx_iff]:
  "Audit_Append ev sc w = (Inr u, w') \<longleftrightarrow> AuditScope_Validate sc = None
     \<and> w' = w\<lparr>lg_auditEvents := lg_auditEvents w @ [(ev, sc)]\<rparr>"
  by (auto simp: Audit_Append_def tx_return_def tx_fail_def split: option.splits)

lemma NewUUID_iff [tx_iff]:
  "NewUUID ids w = (Inr i, w') \<longleftrightarrow> i = ids (lg_uuids w) \<and> w' = w\<lparr>lg_uuids := Suc (lg_uuids w)\<rparr>"
  by (auto simp: NewUUID_def tx_return_def)

text \<open>A demand always ends up pending or running under its key, with the new payload, and a
  repeated demand is merged into the one row of that key.\<close>

lemma merged_job_simps:
  "jb_Payload (merged_job kind pv pl e) = pl"
  "jb_State (merged_job kind pv pl e) \<notin> {JobStateSucceeded, JobStateFailed}"
  "jb_Version (merged_job kind pv pl e) = Version_Next (jb_Version e)"
  by (auto simp: merged_job_def Let_def)

lemma UpsertDemand_recorded:
  assumes "UpsertDemand k kind pv pl w = (Inr u, w')"
  shows "\<exists>i j. lg_jobByDedup w' k = Some i \<and> map_of (lg_jobs w') i = Some j \<and> jb_Payload j = pl
    \<and> jb_State j \<notin> {JobStateSucceeded, JobStateFailed}
    \<and> (\<forall>i0. lg_jobByDedup w k = Some i0 \<longrightarrow> i = i0)"
proof (cases "lg_jobByDedup w k")
  case None
  from assms have "w' = w\<lparr>lg_jobs := AList.update (syntheticUUID (length (lg_jobs w) + 1))
        (zero_job\<lparr>jb_ID := syntheticUUID (length (lg_jobs w) + 1), jb_Kind := kind, jb_DedupKey := k,
           jb_PayloadVersion := pv, jb_Payload := pl, jb_State := JobStatePending\<rparr>) (lg_jobs w),
      lg_jobByDedup := (lg_jobByDedup w)(k \<mapsto> syntheticUUID (length (lg_jobs w) + 1))\<rparr>"
    by (simp add: UpsertDemand_def None tx_return_def Let_def)
  then show ?thesis by (simp add: None update_conv')
next
  case (Some i)
  obtain e where e: "e = (case map_of (lg_jobs w) i of Some j \<Rightarrow> j | None \<Rightarrow> zero_job)" by simp
  from assms have w': "w' = w\<lparr>lg_jobs := AList.update i (merged_job kind pv pl e) (lg_jobs w)\<rparr>"
    by (simp add: UpsertDemand_def Some tx_return_def Let_def e)
  have "lg_jobByDedup w' k = Some i" and "map_of (lg_jobs w') i = Some (merged_job kind pv pl e)"
    by (simp_all add: w' Some update_conv')
  then show ?thesis using merged_job_simps(1,2) Some by fastforce
qed

text \<open>The validator accepts every scope the constructor builds from nonempty identifiers.\<close>

lemma unique_ids_set: "set (unique_ids acc is) = set acc \<union> set is"
  by (induction acc "is" rule: unique_ids.induct) auto

lemma unique_ids_distinct: "distinct acc \<Longrightarrow> distinct (unique_ids acc is)"
  by (induction acc "is" rule: unique_ids.induct) auto

lemma scope_ids_scan_None:
  "scope_ids_scan seen is = None \<longleftrightarrow> [] \<notin> set is \<and> distinct is \<and> set seen \<inter> set is = {}"
  by (induction seen "is" rule: scope_ids_scan.induct) auto

lemma NewAuthoritiesAuditScope_valid:
  "AuditScope_Validate (NewAuthoritiesAuditScope ids) = None \<longleftrightarrow> ids \<noteq> [] \<and> [] \<notin> set ids"
proof -
  have s: "set (unique_ids [] ids) = set ids" and d: "distinct (unique_ids [] ids)"
    by (simp_all add: unique_ids_set unique_ids_distinct)
  have e: "unique_ids [] ids = [] \<longleftrightarrow> ids = []" using s by (metis set_empty)
  show ?thesis
    by (simp add: AuditScope_Validate_def NewAuthoritiesAuditScope_def scope_ids_scan_None s d e)
qed

end
