(* ===== verification/PKI_Store.thy ===== *)
theory PKI_Store
  imports Ledger_Store "HOL-Library.List_Lexorder"
begin

text \<open>
  The PKI, secret, CRL document and job tables of the store (\<open>internal/app/porttest\<close>: \<open>pki.go\<close>,
  \<open>secrets.go\<close>, \<open>crl.go\<close>, \<open>jobs.go\<close>, \<open>revocations.go\<close>). Results the code sorts by identifier are
  sorted here by the same bytewise order. The locale \<open>versioned_table\<close> is the optimistic lock every
  versioned table promises to the services; it is interpreted on each of them.
\<close>

subsection \<open>The optimistic lock\<close>

text \<open>
  \<open>row w k\<close> is the stored row of key \<open>k\<close>. A save against the version that is stored replaces
  exactly that row, a save against any other version is refused.
\<close>

locale versioned_table =
  fixes row :: "ledger \<Rightarrow> 'k \<Rightarrow> 'v option" and key :: "'v \<Rightarrow> 'k" and version_of :: "'v \<Rightarrow> Version"
    and save :: "'v \<Rightarrow> Version \<Rightarrow> (ledger, unit) tx"
  assumes save_matching: "row w (key x) = Some old \<Longrightarrow> version_of old = v \<Longrightarrow>
      \<exists>w'. save x v w = (Inr (), w') \<and> row w' = (row w)(key x \<mapsto> x)"
    and save_stale: "row w (key x) = Some old \<Longrightarrow> version_of old \<noteq> v \<Longrightarrow>
      save x v w = (Inl (Port ErrVersionConflict), w)"
begin

text \<open>Of two saves prepared from the same version of a row, the second is refused as soon as the
  first has moved the version; nothing of the second is stored.\<close>

lemma second_save_refused:
  assumes "row w (key x) = Some old" and "key y = key x" and "version_of x \<noteq> version_of old"
  shows "\<exists>w'. save x (version_of old) w = (Inr (), w') \<and> row w' (key x) = Some x
    \<and> save y (version_of old) w' = (Inl (Port ErrVersionConflict), w')"
proof -
  from save_matching [OF assms(1) refl] obtain w' where w': "save x (version_of old) w = (Inr (), w')"
    "row w' = (row w)(key x \<mapsto> x)" by blast
  then have "row w' (key y) = Some x" using assms(2) by simp
  from save_stale [OF this assms(3)] w' show ?thesis by simp
qed

lemma saves_are_local:
  assumes "save x v w = (Inr u, w')" and "row w (key x) = Some old" and "k \<noteq> key x"
  shows "row w' k = row w k" and "version_of old = v"
proof -
  show "version_of old = v"
    using save_stale [OF assms(2), of v] assms(1) by (cases "version_of old = v") auto
  from save_matching [OF assms(2) this] assms(1,3) show "row w' k = row w k" by auto
qed

end

lemma save_row_matching:
  "stored = Some old \<Longrightarrow> ver old = v \<Longrightarrow> save_row stored ver v w' w = (Inr (), w')"
  by (simp add: save_row_def tx_return_def)

lemma save_row_stale:
  "stored = Some old \<Longrightarrow> ver old \<noteq> v \<Longrightarrow> save_row stored ver v w' w = (Inl (Port ErrVersionConflict), w)"
  by (simp add: save_row_def tx_fail_def)

lemma upsert_row_matching:
  "stored = Some old \<Longrightarrow> ver old = v \<Longrightarrow> upsert_row stored ver v w' w = (Inr (), w')"
  by (simp add: upsert_row_def tx_return_def)

lemma upsert_row_stale:
  "stored = Some old \<Longrightarrow> ver old \<noteq> v \<Longrightarrow> upsert_row stored ver v w' w = (Inl (Port ErrVersionConflict), w)"
  by (simp add: upsert_row_def tx_fail_def)

lemmas lock_simps = save_row_matching save_row_stale upsert_row_matching upsert_row_stale

subsection \<open>PKI rows\<close>

definition GetIssuerForUpdate :: "AuthorityID \<Rightarrow> (ledger, Authority) tx" where
  "GetIssuerForUpdate i w = found (map_of (lg_authorities w) i) w"

definition zero_key_generation :: LeafKeyGeneration where
  "zero_key_generation = \<lparr>kg_id = [], kg_seriesID = [], kg_keyMaterialID = [], kg_generationNo = 0,
     kg_renewalCount = 0, kg_priorHistoryUnknown = False, kg_custody = KeyCustodyOther []\<rparr>"

definition PKI_GetSeriesForUpdate :: "SeriesID \<Rightarrow> (ledger, SeriesSnapshot) tx" where
  "PKI_GetSeriesForUpdate i w =
     (case lg_series w i of
        None \<Rightarrow> tx_fail (Port ErrNotFound) w
      | Some s \<Rightarrow>
          if ls_currentKeyGenerationID s = []
            then tx_return \<lparr>sn_Series = s, sn_CurrentKeyGeneration = zero_key_generation\<rparr> w
          else
            (case lg_leafKeyGenerations w (ls_currentKeyGenerationID s) of
               None \<Rightarrow> tx_fail (Port ErrNotFound) w
             | Some g \<Rightarrow> tx_return \<lparr>sn_Series = s, sn_CurrentKeyGeneration = g\<rparr> w))"

text \<open>An index hit whose row is missing reads the map's zero value in Go; the insert operations
  below never leave such an index behind, and the model answers not-found there.\<close>

definition FindCertificateByDER :: "Fingerprint \<Rightarrow> (ledger, Certificate) tx" where
  "FindCertificateByDER derSHA256 w =
     found (Option.bind (lg_certificatesByDER w (fp_hex derSHA256)) (map_of (lg_certificates w))) w"

definition issued_by :: "CAKeyGenerationID \<Rightarrow> SerialNumber \<Rightarrow> Certificate \<Rightarrow> bool" where
  "issued_by issuer serial c \<longleftrightarrow> ce_issuerCAKeyGenerationID c = issuer \<and> SerialNumber_Equal (ce_serial c) serial"

definition FindCertificateByIssuerSerial :: "CAKeyGenerationID \<Rightarrow> SerialNumber \<Rightarrow> (ledger, Certificate) tx" where
  "FindCertificateByIssuerSerial issuer serial w =
     found (find (issued_by issuer serial) (map snd (lg_certificates w))) w"

definition PKI_GetCertificate :: "CertificateID \<Rightarrow> (ledger, Certificate) tx" where
  "PKI_GetCertificate i w = found (map_of (lg_certificates w) i) w"

definition FindKeyBySPKI :: "Fingerprint \<Rightarrow> (ledger, KeyMaterial) tx" where
  "FindKeyBySPKI spki w =
     found (Option.bind (lg_keyMaterialsBySPKI w (fp_hex spki)) (lg_keyMaterials w)) w"

definition SerialExists :: "CAKeyGenerationID \<Rightarrow> SerialNumber \<Rightarrow> (ledger, bool) tx" where
  "SerialExists issuer serial w =
     tx_return (list_ex (issued_by issuer serial) (map snd (lg_certificates w))
       \<or> lg_revocations w (issuer, sn_hex serial) \<noteq> None) w"

definition InsertAuthority :: "Authority \<Rightarrow> (ledger, unit) tx" where
  "InsertAuthority a w =
     insert_row (map_of (lg_authorities w) (au_id a) \<noteq> None)
       (w\<lparr>lg_authorities := AList.update (au_id a) a (lg_authorities w)\<rparr>) w"

definition InsertKeyGeneration :: "CAKeyGeneration \<Rightarrow> (ledger, unit) tx" where
  "InsertKeyGeneration g w =
     insert_row (lg_caKeyGenerations w (cg_ID g) \<noteq> None)
       (w\<lparr>lg_caKeyGenerations := (lg_caKeyGenerations w)(cg_ID g \<mapsto> g)\<rparr>) w"

definition InsertKeyMaterial :: "KeyMaterial \<Rightarrow> (ledger, unit) tx" where
  "InsertKeyMaterial m w =
     (let spki = fp_hex (PublicKey_Fingerprint (km_PublicKey m)) in
      insert_row (lg_keyMaterials w (km_ID m) \<noteq> None \<or> lg_keyMaterialsBySPKI w spki \<noteq> None)
        (w\<lparr>lg_keyMaterials := (lg_keyMaterials w)(km_ID m \<mapsto> m),
           lg_keyMaterialsBySPKI := (lg_keyMaterialsBySPKI w)(spki \<mapsto> km_ID m)\<rparr>) w)"

definition InsertLeafKeyGeneration :: "LeafKeyGeneration \<Rightarrow> (ledger, unit) tx" where
  "InsertLeafKeyGeneration g w =
     insert_row (lg_leafKeyGenerations w (kg_id g) \<noteq> None)
       (w\<lparr>lg_leafKeyGenerations := (lg_leafKeyGenerations w)(kg_id g \<mapsto> g)\<rparr>) w"

definition SaveLeafKeyGeneration :: "LeafKeyGeneration \<Rightarrow> (ledger, unit) tx" where
  "SaveLeafKeyGeneration g w =
     replace_row (lg_leafKeyGenerations w (kg_id g))
       (w\<lparr>lg_leafKeyGenerations := (lg_leafKeyGenerations w)(kg_id g \<mapsto> g)\<rparr>) w"

definition InsertCertificate :: "Certificate \<Rightarrow> (ledger, unit) tx" where
  "InsertCertificate c w =
     (let fingerprint = fp_hex (NewFingerprint (ce_der c)) in
      insert_row (map_of (lg_certificates w) (ce_id c) \<noteq> None \<or> lg_certificatesByDER w fingerprint \<noteq> None)
        (w\<lparr>lg_certificates := AList.update (ce_id c) c (lg_certificates w),
           lg_certificatesByDER := (lg_certificatesByDER w)(fingerprint \<mapsto> ce_id c)\<rparr>) w)"

definition InsertSeries :: "LeafSeries \<Rightarrow> (ledger, unit) tx" where
  "InsertSeries s w =
     insert_row (lg_series w (ls_id s) \<noteq> None) (w\<lparr>lg_seriesRows := AList.update (ls_id s) s (lg_seriesRows w)\<rparr>) w"

definition SaveSeries :: "LeafSeries \<Rightarrow> Version \<Rightarrow> (ledger, unit) tx" where
  "SaveSeries s expectedVersion w =
     save_row (lg_series w (ls_id s)) ls_version expectedVersion
       (w\<lparr>lg_seriesRows := AList.update (ls_id s) s (lg_seriesRows w)\<rparr>) w"

definition SaveAuthority :: "Authority \<Rightarrow> Version \<Rightarrow> (ledger, unit) tx" where
  "SaveAuthority a expectedVersion w =
     save_row (map_of (lg_authorities w) (au_id a)) au_version expectedVersion
       (w\<lparr>lg_authorities := AList.update (au_id a) a (lg_authorities w)\<rparr>) w"

definition SaveCAKeyGeneration :: "CAKeyGeneration \<Rightarrow> (ledger, unit) tx" where
  "SaveCAKeyGeneration g w =
     (case lg_caKeyGenerations w (cg_ID g) of
        None \<Rightarrow> tx_fail (Port ErrNotFound) w
      | Some existing \<Rightarrow>
          if \<not> Instant_IsZero (cg_KeyDestroyedAt existing) \<and> Instant_IsZero (cg_KeyDestroyedAt g)
            then tx_fail (Domain (Wrapped ErrConflict (sentinel_text ErrConflict))) w
          else tx_return () (w\<lparr>lg_caKeyGenerations := (lg_caKeyGenerations w)(cg_ID g \<mapsto> g)\<rparr>))"

text \<open>Listings, sorted by identifier.\<close>

definition ListCertificatesByIssuer :: "CAKeyGenerationID \<Rightarrow> (ledger, Certificate list) tx" where
  "ListCertificatesByIssuer issuer w =
     tx_return (sort_key ce_id (filter (\<lambda>c. ce_issuerCAKeyGenerationID c = issuer) (map snd (lg_certificates w)))) w"

definition ListCACertificates :: "(ledger, Certificate list) tx" where
  "ListCACertificates w =
     tx_return (sort_key ce_id (filter (\<lambda>c. ce_kind c = CertificateKindCA)
       (List.map_filter (\<lambda>r. map_of (lg_certificates w) (fst r)) (lg_caCertRecords w)))) w"

definition GetKeyMaterial :: "KeyMaterialID \<Rightarrow> (ledger, KeyMaterial) tx" where
  "GetKeyMaterial i w = found (lg_keyMaterials w i) w"

text \<open>The earliest report of a compromise is kept.\<close>

definition MarkCompromised :: "KeyMaterialID \<Rightarrow> Instant \<Rightarrow> (ledger, unit) tx" where
  "MarkCompromised i compromisedAt w =
     (case lg_keyMaterials w i of
        None \<Rightarrow> tx_fail (Port ErrNotFound) w
      | Some m \<Rightarrow>
          if Instant_IsZero (km_CompromisedAt m) \<or> Before compromisedAt (km_CompromisedAt m)
            then tx_return () (w\<lparr>lg_keyMaterials := (lg_keyMaterials w)(i \<mapsto> m\<lparr>km_CompromisedAt := compromisedAt\<rparr>)\<rparr>)
          else tx_return () w)"

definition ListCertificatesUsingKey :: "KeyMaterialID \<Rightarrow> (ledger, Certificate list) tx" where
  "ListCertificatesUsingKey i w =
     tx_return (sort_key ce_id (filter (\<lambda>c. ce_keyMaterialID c = i) (map snd (lg_certificates w)))) w"

definition PKI_GetLeafCertificateRecord :: "CertificateID \<Rightarrow> (ledger, LeafCertificateRecord) tx" where
  "PKI_GetLeafCertificateRecord i w = found (lg_leafCertRecords w i) w"

definition PKI_GetCACertificateRecord :: "CertificateID \<Rightarrow> (ledger, CACertificateRecord) tx" where
  "PKI_GetCACertificateRecord i w = found (map_of (lg_caCertRecords w) i) w"

definition InsertLeafCertificateRecord :: "LeafCertificateRecord \<Rightarrow> (ledger, unit) tx" where
  "InsertLeafCertificateRecord r w =
     insert_row (lg_leafCertRecords w (lr_CertificateID r) \<noteq> None)
       (w\<lparr>lg_leafCertRecords := (lg_leafCertRecords w)(lr_CertificateID r \<mapsto> r)\<rparr>) w"

definition InsertCACertificateRecord :: "CACertificateRecord \<Rightarrow> (ledger, unit) tx" where
  "InsertCACertificateRecord r w =
     insert_row (map_of (lg_caCertRecords w) (cr_CertificateID r) \<noteq> None)
       (w\<lparr>lg_caCertRecords := AList.update (cr_CertificateID r) r (lg_caCertRecords w)\<rparr>) w"

text \<open>The lookups of \<open>Issuer_Chain\<close> as this store answers them.\<close>

definition pki_of :: "ledger \<Rightarrow> pki_store" where
  "pki_of w = \<lparr>GetLeafCertificateRecord = (\<lambda>i. fst (PKI_GetLeafCertificateRecord i w)),
     GetCACertificateRecord = (\<lambda>i. fst (PKI_GetCACertificateRecord i w)),
     GetCertificate = (\<lambda>i. fst (PKI_GetCertificate i w)),
     GetSeriesForUpdate = (\<lambda>i. fst (PKI_GetSeriesForUpdate i w))\<rparr>"


text \<open>
  \<open>ListAffectedDescendants\<close>: the first loop visits the authorities whose parent is the head of the
  frontier, adding each new one to \<open>seen\<close>, to the result and to the end of the frontier.
\<close>

fun visit_children ::
  "AuthorityID \<Rightarrow> Authority list \<Rightarrow> AuthorityID set \<times> Authority list \<Rightarrow> AuthorityID set \<times> Authority list" where
  "visit_children parent [] acc = acc"
| "visit_children parent (a # as) (seen, new) =
     (if au_managementParentID a \<noteq> parent \<or> au_id a \<in> seen then visit_children parent as (seen, new)
      else visit_children parent as (insert (au_id a) seen, new @ [a]))"

lemma visit_children_spec:
  "visit_children parent as (seen, new) = (seen', new') \<Longrightarrow>
     \<exists>more. new' = new @ more \<and> seen' = seen \<union> au_id ` set more \<and> distinct (map au_id more)
       \<and> au_id ` set more \<inter> seen = {} \<and> set more \<subseteq> {a \<in> set as. au_managementParentID a = parent}
       \<and> (\<forall>a\<in>set as. au_managementParentID a = parent \<longrightarrow> au_id a \<in> seen')"
proof (induction as arbitrary: seen new)
  case (Cons a as)
  show ?case
  proof (cases "au_managementParentID a \<noteq> parent \<or> au_id a \<in> seen")
    case True
    with Cons show ?thesis by fastforce
  next
    case False
    with Cons.prems have "visit_children parent as (insert (au_id a) seen, new @ [a]) = (seen', new')" by simp
    from Cons.IH [OF this] obtain more where
      "new' = (new @ [a]) @ more" "seen' = insert (au_id a) seen \<union> au_id ` set more" "distinct (map au_id more)"
      "au_id ` set more \<inter> insert (au_id a) seen = {}" "set more \<subseteq> {b \<in> set as. au_managementParentID b = parent}"
      "\<forall>b\<in>set as. au_managementParentID b = parent \<longrightarrow> au_id b \<in> seen'"
      by blast
    with False show ?thesis by (intro exI [of _ "a # more"]) auto
  qed
qed simp

lemma unseen_decreases:
  assumes "visit_children parent as (seen, []) = (seen', new)"
  shows "card (au_id ` set as - seen') + length new = card (au_id ` set as - seen)"
proof -
  from visit_children_spec [OF assms] have n: "seen' = seen \<union> au_id ` set new" "distinct (map au_id new)"
    "au_id ` set new \<inter> seen = {}" "set new \<subseteq> set as" by auto
  then have sub: "au_id ` set new \<subseteq> au_id ` set as - seen" by auto
  have "au_id ` set as - seen' = (au_id ` set as - seen) - au_id ` set new" using n(1) by auto
  moreover have "card (au_id ` set new) = length new"
    using n(2) distinct_card [of "map au_id new"] by simp
  ultimately show ?thesis using sub card_mono [OF _ sub] by (simp add: card_Diff_subset)
qed

function descend :: "Authority list \<Rightarrow> AuthorityID list \<Rightarrow> AuthorityID set \<Rightarrow> Authority list \<Rightarrow> Authority list" where
  "descend as [] seen out = out"
| "descend as (parent # frontier) seen out =
     (case visit_children parent as (seen, []) of
        (seen', new) \<Rightarrow> descend as (frontier @ map au_id new) seen' (out @ new))"
  by pat_completeness auto
termination
proof (relation "measure (\<lambda>(as, frontier, seen, out). 2 * card (au_id ` set as - seen) + length frontier)", goal_cases)
  case (2 as parent frontier seen out seen' new)
  then have "visit_children parent as (seen, []) = (seen', new)" by simp
  from unseen_decreases [OF this] show ?case by simp
qed simp

definition ListAffectedDescendants :: "AuthorityID \<Rightarrow> (ledger, Authority list) tx" where
  "ListAffectedDescendants i w =
     tx_return (sort_key au_id (descend (map snd (lg_authorities w)) [i] {i} [])) w"

subsection \<open>Secrets\<close>

definition GetEncrypted :: "KeyMaterialID \<Rightarrow> SecretPurpose \<Rightarrow> (ledger, EncryptedSecret) tx" where
  "GetEncrypted i purpose w = found (map_of (lg_secrets w) (i, purpose)) w"

definition secret_key :: "EncryptedSecret \<Rightarrow> KeyMaterialID \<times> SecretPurpose" where
  "secret_key e = (es_ownerKeyID e, es_purpose e)"

definition InsertEncrypted :: "EncryptedSecret \<Rightarrow> (ledger, unit) tx" where
  "InsertEncrypted e w =
     insert_row (map_of (lg_secrets w) (secret_key e) \<noteq> None)
       (w\<lparr>lg_secrets := AList.update (secret_key e) e (lg_secrets w)\<rparr>) w"

definition Secrets_Delete :: "KeyMaterialID \<Rightarrow> SecretPurpose \<Rightarrow> (ledger, unit) tx" where
  "Secrets_Delete i purpose w = tx_return () (w\<lparr>lg_secrets := AList.delete (i, purpose) (lg_secrets w)\<rparr>)"

definition ListEncrypted :: "(ledger, EncryptedSecret list) tx" where
  "ListEncrypted w =
     tx_return (map snd (sort_key (fst \<circ> fst) (sort_key (SecretPurpose_String \<circ> snd \<circ> fst) (lg_secrets w)))) w"

definition ReplaceEncrypted :: "EncryptedSecret \<Rightarrow> (ledger, unit) tx" where
  "ReplaceEncrypted e w =
     replace_row (map_of (lg_secrets w) (secret_key e))
       (w\<lparr>lg_secrets := AList.update (secret_key e) e (lg_secrets w)\<rparr>) w"

definition GetVerifier :: "(ledger, EncryptedSecret) tx" where
  "GetVerifier w = found (lg_verifier w) w"

definition SaveVerifier :: "EncryptedSecret \<Rightarrow> (ledger, unit) tx" where
  "SaveVerifier v w = tx_return () (w\<lparr>lg_verifier := Some v\<rparr>)"

subsection \<open>CRL documents and the revocation listing\<close>

definition crlDocumentUniqueKey :: "CRLDocument \<Rightarrow> string" where
  "crlDocumentUniqueKey d =
     (if \<not> Fingerprint_IsZero (cd_DERSHA256 d) then fp_hex (cd_DERSHA256 d)
      else if cd_DER d = [] then [] else fp_hex (NewFingerprint (cd_DER d)))"

definition InsertDocument :: "CRLDocument \<Rightarrow> (ledger, unit) tx" where
  "InsertDocument d w =
     (let derKey = crlDocumentUniqueKey d in
      insert_row (lg_crlDocuments w (cd_ID d) \<noteq> None \<or> (derKey \<noteq> [] \<and> lg_crlDocumentsByDER w derKey \<noteq> None))
        (w\<lparr>lg_crlDocuments := (lg_crlDocuments w)(cd_ID d \<mapsto> d),
           lg_crlDocumentsByDER := (if derKey \<noteq> [] then (lg_crlDocumentsByDER w)(derKey \<mapsto> cd_ID d)
             else lg_crlDocumentsByDER w)\<rparr>) w)"

definition GetDocument :: "CRLDocumentID \<Rightarrow> (ledger, CRLDocument) tx" where
  "GetDocument i w = found (lg_crlDocuments w i) w"

definition ListByIssuer :: "CAKeyGenerationID \<Rightarrow> (ledger, Revocation list) tx" where
  "ListByIssuer issuer w =
     tx_return (sort_key (SerialNumber_Big \<circ> rv_serial)
       (map snd (filter (\<lambda>((i, _), _). i = issuer) (lg_revocationRows w)))) w"

subsection \<open>Jobs\<close>

definition job_due :: "Instant \<Rightarrow> Job \<Rightarrow> bool" where
  "job_due now j =
     (case jb_State j of
        JobStatePending \<Rightarrow> Instant_IsZero (jb_AvailableAt j) \<or> IsExpiredAt (jb_AvailableAt j) now
      | JobStateRunning \<Rightarrow> IsExpiredAt (jb_LeaseUntil j) now
      | _ \<Rightarrow> False)"

definition leased :: "Instant \<Rightarrow> Job \<Rightarrow> Job" where
  "leased leaseUntil j = j\<lparr>jb_State := JobStateRunning, jb_LeaseUntil := leaseUntil,
     jb_AttemptCount := wrap64 (jb_AttemptCount j + 1), jb_Version := Version_Next (jb_Version j)\<rparr>"

definition store_jobs :: "Job list \<Rightarrow> (JobID \<times> Job) list \<Rightarrow> (JobID \<times> Job) list" where
  "store_jobs js rows = foldl (\<lambda>rs j. AList.update (jb_ID j) j rs) rows js"

definition ClaimDue :: "Instant \<Rightarrow> Instant \<Rightarrow> int64 \<Rightarrow> (ledger, Job list) tx" where
  "ClaimDue now leaseUntil limit w =
     (let due = sort_key jb_ID (filter (job_due now) (map snd (lg_jobs w)));
          due' = (if 0 < limit \<and> limit < int (length due) then take (nat limit) due else due);
          claimed = map (leased leaseUntil) due'
      in tx_return claimed (w\<lparr>lg_jobs := store_jobs claimed (lg_jobs w)\<rparr>))"

definition Jobs_Save :: "Job \<Rightarrow> Version \<Rightarrow> (ledger, unit) tx" where
  "Jobs_Save j expectedVersion w =
     save_row (map_of (lg_jobs w) (jb_ID j)) jb_Version expectedVersion
       (w\<lparr>lg_jobs := AList.update (jb_ID j) j (lg_jobs w),
          lg_jobByDedup := (if jb_State j = JobStatePending then (lg_jobByDedup w)(jb_DedupKey j \<mapsto> jb_ID j)
            else lg_jobByDedup w)\<rparr>) w"

definition Jobs_GetForUpdate :: "JobID \<Rightarrow> (ledger, Job) tx" where
  "Jobs_GetForUpdate i w = found (map_of (lg_jobs w) i) w"

definition ListRecoveryRequired :: "(ledger, Job list) tx" where
  "ListRecoveryRequired w =
     tx_return (sort_key jb_ID (filter (\<lambda>j. jb_State j = JobStateRunning) (map snd (lg_jobs w)))) w"

definition GetByDedupKey :: "string \<Rightarrow> (ledger, Job) tx" where
  "GetByDedupKey k w = found (Option.bind (lg_jobByDedup w k) (map_of (lg_jobs w))) w"

lemmas pki_read_defs [tx_iff] = GetIssuerForUpdate_def PKI_GetCertificate_def GetKeyMaterial_def
  PKI_GetLeafCertificateRecord_def PKI_GetCACertificateRecord_def GetEncrypted_def GetVerifier_def GetDocument_def
  Jobs_GetForUpdate_def GetByDedupKey_def FindCertificateByDER_def FindCertificateByIssuerSerial_def
  FindKeyBySPKI_def

lemmas pki_write_defs [tx_iff] = InsertAuthority_def InsertKeyGeneration_def InsertKeyMaterial_def
  InsertLeafKeyGeneration_def SaveLeafKeyGeneration_def InsertCertificate_def InsertSeries_def SaveSeries_def
  SaveAuthority_def InsertLeafCertificateRecord_def InsertCACertificateRecord_def InsertEncrypted_def
  ReplaceEncrypted_def InsertDocument_def Jobs_Save_def SaveVerifier_def Secrets_Delete_def Let_def

subsection \<open>Every versioned table keeps the lock\<close>

interpretation authority_rows: versioned_table "\<lambda>w. map_of (lg_authorities w)" au_id au_version SaveAuthority
  by unfold_locales (simp_all add: SaveAuthority_def lock_simps)

interpretation series_rows: versioned_table lg_series ls_id ls_version SaveSeries
  by unfold_locales (simp_all add: SaveSeries_def lock_simps)

interpretation job_rows: versioned_table "\<lambda>w. map_of (lg_jobs w)" jb_ID jb_Version Jobs_Save
  by unfold_locales (simp_all add: Jobs_Save_def lock_simps)

interpretation revocation_rows: versioned_table lg_revocations row_key rv_version Revocations_Save
  by unfold_locales (simp_all add: Revocations_Save_def tx_return_def tx_fail_def)

interpretation crl_rows: versioned_table lg_crlStates cs_caKeyGenerationID cs_version SaveState
  by unfold_locales (simp_all add: SaveState_def tx_return_def tx_fail_def Let_def)


subsection \<open>Descendants are exactly the transitive children\<close>

inductive descends_from :: "Authority list \<Rightarrow> AuthorityID \<Rightarrow> Authority \<Rightarrow> bool" for as root where
  child: "a \<in> set as \<Longrightarrow> au_managementParentID a = root \<Longrightarrow> descends_from as root a"
| below: "descends_from as root b \<Longrightarrow> a \<in> set as \<Longrightarrow> au_managementParentID a = au_id b \<Longrightarrow> descends_from as root a"

lemma descends_from_row: "descends_from as root a \<Longrightarrow> a \<in> set as"
  by (induction rule: descends_from.induct) auto

text \<open>What is known when the frontier has been reached: everything found descends from the root, and
  an identifier that has been seen and left the frontier has all its children seen.\<close>

definition descent_ok ::
  "Authority list \<Rightarrow> AuthorityID \<Rightarrow> AuthorityID list \<Rightarrow> AuthorityID set \<Rightarrow> Authority list \<Rightarrow> bool" where
  "descent_ok as root frontier seen out \<longleftrightarrow>
     seen = insert root (au_id ` set out) \<and> distinct (map au_id out) \<and> root \<notin> au_id ` set out
     \<and> (\<forall>a\<in>set out. descends_from as root a) \<and> set frontier \<subseteq> seen
     \<and> (\<forall>a\<in>set as. au_managementParentID a \<in> seen - set frontier \<longrightarrow> au_id a \<in> seen)"

lemma descend_result:
  "descent_ok as root frontier seen out \<Longrightarrow>
     \<exists>seen'. descent_ok as root [] seen' (descend as frontier seen out)"
proof (induction as frontier seen out rule: descend.induct)
  case (2 as parent frontier seen out)
  obtain seen' new where v: "visit_children parent as (seen, []) = (seen', new)" by fastforce
  from visit_children_spec [OF v] have n: "seen' = seen \<union> au_id ` set new" "distinct (map au_id new)"
    "au_id ` set new \<inter> seen = {}" "set new \<subseteq> {a \<in> set as. au_managementParentID a = parent}"
    "\<forall>a\<in>set as. au_managementParentID a = parent \<longrightarrow> au_id a \<in> seen'" by auto
  note ok = 2(2) [unfolded descent_ok_def]
  have desc: "descends_from as root a" if "a \<in> set new" for a
  proof -
    from that n(4) have a: "a \<in> set as" "au_managementParentID a = parent" by auto
    from ok have "parent = root \<or> (\<exists>b\<in>set out. parent = au_id b)" by auto
    with a ok show ?thesis by (metis descends_from.child descends_from.below)
  qed
  have "descent_ok as root (frontier @ map au_id new) seen' (out @ new)"
    unfolding descent_ok_def
  proof (intro conjI)
    show "seen' = insert root (au_id ` set (out @ new))" using ok n(1) by auto
    show "distinct (map au_id (out @ new))" using ok n(2,3) by auto
    show "root \<notin> au_id ` set (out @ new)" using ok n(3) by auto
    show "\<forall>a\<in>set (out @ new). descends_from as root a" using ok desc by auto
    show "set (frontier @ map au_id new) \<subseteq> seen'" using ok n(1) by auto
    show "\<forall>a\<in>set as. au_managementParentID a \<in> seen' - set (frontier @ map au_id new) \<longrightarrow> au_id a \<in> seen'"
      using ok n(1,5) by auto
  qed
  from 2(1) [OF v [symmetric] this] show ?case by (simp add: v)
qed auto

lemma descendants_exact_rows:
  assumes "distinct (map au_id as)" and "out = descend as [root] {root} []"
  shows "distinct (map au_id out) \<and> (\<forall>a. a \<in> set out \<longleftrightarrow> descends_from as root a \<and> au_id a \<noteq> root)"
proof -
  have "descent_ok as root [root] {root} []" by (simp add: descent_ok_def)
  from descend_result [OF this] assms(2) obtain seen where ok: "descent_ok as root [] seen out" by auto
  have seen: "au_id a \<in> seen" if "descends_from as root a" for a
    using that by induction (use ok in \<open>auto simp: descent_ok_def\<close>)
  have "a \<in> set out" if "descends_from as root a" "au_id a \<noteq> root" for a
  proof -
    from seen [OF that(1)] that(2) ok obtain b where b: "b \<in> set out" "au_id b = au_id a"
      by (auto simp: descent_ok_def)
    with ok have "b \<in> set as" by (auto simp: descent_ok_def dest: descends_from_row)
    with b assms(1) descends_from_row [OF that(1)] have "b = a" by (meson eq_key_imp_eq_value inj_onD distinct_map)
    with b show ?thesis by simp
  qed
  with ok show ?thesis by (auto simp: descent_ok_def)
qed

text \<open>C33. \<open>ListAffectedDescendants\<close> returns, sorted by identifier and without repetition, exactly the
  authorities below the given one in the management hierarchy: every stored authority whose chain of
  management parents reaches it, and no other, whatever the stored parent links are (cycles and
  dangling parents included).\<close>

theorem descendants_exact:
  assumes "distinct (map au_id (map snd (lg_authorities w)))"
  shows "\<exists>out. ListAffectedDescendants root w = (Inr out, w) \<and> sorted (map au_id out) \<and> distinct (map au_id out)
    \<and> (\<forall>a. a \<in> set out \<longleftrightarrow> descends_from (map snd (lg_authorities w)) root a \<and> au_id a \<noteq> root)"
proof -
  let ?d = "descend (map snd (lg_authorities w)) [root] {root} []"
  note exact = descendants_exact_rows [OF assms refl, of root]
  have "ListAffectedDescendants root w = (Inr (sort_key au_id ?d), w)"
    by (simp add: ListAffectedDescendants_def tx_return_def)
  moreover have "distinct (map au_id (sort_key au_id ?d))" using exact by (simp add: distinct_map del: descend.simps)
  ultimately show ?thesis using exact by (simp del: descend.simps)
qed

text \<open>A root with a child and a grandchild, and two authorities that name each other as parent.\<close>

definition sample_family :: ledger where
  "sample_family =
     (let member = (\<lambda>i parent. (i, sample_authority\<lparr>au_id := i, au_managementParentID := parent\<rparr>)) in
      newState\<lparr>lg_authorities := [member ''c'' ''b'', member ''a'' [], member ''b'' ''a'',
        member ''x'' ''y'', member ''y'' ''x'']\<rparr>)"

theorem descendants_exact_witness:
  "\<exists>out. ListAffectedDescendants ''a'' sample_family = (Inr out, sample_family) \<and> sorted (map au_id out)
     \<and> ''c'' \<in> au_id ` set out"
proof -
  have rows: "map snd (lg_authorities sample_family) = [sample_authority\<lparr>au_id := ''c'', au_managementParentID := ''b''\<rparr>,
      sample_authority\<lparr>au_id := ''a'', au_managementParentID := []\<rparr>,
      sample_authority\<lparr>au_id := ''b'', au_managementParentID := ''a''\<rparr>,
      sample_authority\<lparr>au_id := ''x'', au_managementParentID := ''y''\<rparr>,
      sample_authority\<lparr>au_id := ''y'', au_managementParentID := ''x''\<rparr>]" (is "_ = ?rows")
    by (simp add: sample_family_def Let_def)
  have "descends_from ?rows ''a'' (sample_authority\<lparr>au_id := ''b'', au_managementParentID := ''a''\<rparr>)"
    by (rule descends_from.child) simp_all
  then have "descends_from ?rows ''a'' (sample_authority\<lparr>au_id := ''c'', au_managementParentID := ''b''\<rparr>)"
    by (rule descends_from.below) simp_all
  moreover have "distinct (map au_id ?rows)" by simp
  ultimately show ?thesis using descendants_exact [of sample_family "''a''"] unfolding rows by force
qed

end
