(* ===== verification/Workflow_Store.thy ===== *)
theory Workflow_Store
  imports PKI_Store
begin

text \<open>
  The remaining tables of the store (\<open>internal/app/porttest\<close>: \<open>accounts.go\<close>, \<open>delivery.go\<close>,
  \<open>transitions.go\<close>, \<open>tls.go\<close>, \<open>installation.go\<close>): accounts, sessions, reset tokens and rate
  limits; deliveries and download grants; transitions with their impacts and confirmations; TLS
  versions and changes; the installation and settings rows.
\<close>

subsection \<open>Accounts and sessions\<close>

definition GetAccountForUpdate :: "AccountID \<Rightarrow> (ledger, Account) tx" where
  "GetAccountForUpdate i w = found (map_of (lg_accounts w) i) w"

definition FindAccountByLoginName :: "string \<Rightarrow> (ledger, Account) tx" where
  "FindAccountByLoginName name w =
     found (find (\<lambda>a. ac_normalizedLoginName a = name) (map snd (lg_accounts w))) w"

definition FindSessionByHash :: "TokenHash \<Rightarrow> (ledger, SessionState) tx" where
  "FindSessionByHash h w = found (Option.bind (lg_sessionsByHash w (TokenHash_Hex h)) (map_of (lg_sessions w))) w"

definition GetSessionForUpdate :: "SessionID \<Rightarrow> (ledger, SessionState) tx" where
  "GetSessionForUpdate i w = found (map_of (lg_sessions w) i) w"

definition InsertAccount :: "Account \<Rightarrow> (ledger, unit) tx" where
  "InsertAccount a w =
     insert_row (map_of (lg_accounts w) (ac_id a) \<noteq> None
         \<or> list_ex (\<lambda>e. ac_normalizedLoginName e = ac_normalizedLoginName a) (map snd (lg_accounts w)))
       (w\<lparr>lg_accounts := AList.update (ac_id a) a (lg_accounts w)\<rparr>) w"

definition SaveAccount :: "Account \<Rightarrow> Version \<Rightarrow> (ledger, unit) tx" where
  "SaveAccount a expectedVersion w =
     save_row (map_of (lg_accounts w) (ac_id a)) ac_version expectedVersion
       (w\<lparr>lg_accounts := AList.update (ac_id a) a (lg_accounts w)\<rparr>) w"

definition put_session :: "SessionState \<Rightarrow> ledger \<Rightarrow> ledger" where
  "put_session s w = w\<lparr>lg_sessions := AList.update (ss_id s) s (lg_sessions w),
     lg_sessionsByHash := (lg_sessionsByHash w)(TokenHash_Hex (ss_tokenHash s) \<mapsto> ss_id s)\<rparr>"

definition InsertSession :: "SessionState \<Rightarrow> (ledger, unit) tx" where
  "InsertSession s w = tx_return () (put_session s w)"

definition DeleteSession :: "SessionID \<Rightarrow> (ledger, unit) tx" where
  "DeleteSession i w =
     (case map_of (lg_sessions w) i of
        None \<Rightarrow> tx_return () w
      | Some s \<Rightarrow> tx_return () (w\<lparr>lg_sessions := AList.delete i (lg_sessions w),
          lg_sessionsByHash := (lg_sessionsByHash w)(TokenHash_Hex (ss_tokenHash s) := None)\<rparr>))"

text \<open>Every session of the account goes, with the index entries of the hashes of those sessions.\<close>

definition DeleteAllSessions :: "AccountID \<Rightarrow> (ledger, unit) tx" where
  "DeleteAllSessions account w =
     (let gone = (\<lambda>h. list_ex (\<lambda>(_, s). ss_accountID s = account \<and> TokenHash_Hex (ss_tokenHash s) = h) (lg_sessions w))
      in tx_return () (w\<lparr>lg_sessions := filter (\<lambda>(_, s). ss_accountID s \<noteq> account) (lg_sessions w),
           lg_sessionsByHash := (\<lambda>h. if gone h then None else lg_sessionsByHash w h)\<rparr>))"

definition GetResetToken :: "TokenHash \<Rightarrow> (ledger, AdminResetToken) tx" where
  "GetResetToken h w = found (Option.bind (lg_resetTokensByHash w (TokenHash_Hex h)) (lg_resetTokens w)) w"

definition put_reset_token :: "AdminResetToken \<Rightarrow> ledger \<Rightarrow> ledger" where
  "put_reset_token t w = w\<lparr>lg_resetTokens := (lg_resetTokens w)(rt_id t \<mapsto> t),
     lg_resetTokensByHash := (lg_resetTokensByHash w)(TokenHash_Hex (rt_tokenHash t) \<mapsto> rt_id t)\<rparr>"

definition InsertResetToken :: "AdminResetToken \<Rightarrow> (ledger, unit) tx" where
  "InsertResetToken t w = tx_return () (put_reset_token t w)"

text \<open>A token the domain refuses to invalidate is left as it is.\<close>

definition InvalidateResetTokens :: "AccountID \<Rightarrow> Instant \<Rightarrow> (ledger, unit) tx" where
  "InvalidateResetTokens account now w =
     tx_return () (w\<lparr>lg_resetTokens := (\<lambda>i. case lg_resetTokens w i of
         None \<Rightarrow> None
       | Some t \<Rightarrow>
           if rt_accountID t \<noteq> account then Some t
           else (case Token_Invalidate t now of Inl _ \<Rightarrow> Some t | Inr t' \<Rightarrow> Some t'))\<rparr>)"

definition rate_key :: "string \<Rightarrow> Fingerprint \<Rightarrow> Instant \<Rightarrow> string \<times> string \<times> int64" where
  "rate_key kind subjectHash windowStart = (kind, fp_hex subjectHash, micros windowStart)"

definition GetRateLimit :: "string \<Rightarrow> Fingerprint \<Rightarrow> Instant \<Rightarrow> (ledger, RateLimitRecord) tx" where
  "GetRateLimit kind subjectHash windowStart w = found (lg_rateLimits w (rate_key kind subjectHash windowStart)) w"

definition SaveRateLimit :: "RateLimitRecord \<Rightarrow> (ledger, unit) tx" where
  "SaveRateLimit r w =
     tx_return () (w\<lparr>lg_rateLimits := (lg_rateLimits w)(rate_key (rl_Kind r) (rl_SubjectHash r) (rl_WindowStart r) \<mapsto> r)\<rparr>)"

definition SaveSession :: "SessionState \<Rightarrow> (ledger, unit) tx" where
  "SaveSession s w = replace_row (map_of (lg_sessions w) (ss_id s)) (put_session s w) w"

definition SaveResetToken :: "AdminResetToken \<Rightarrow> (ledger, unit) tx" where
  "SaveResetToken t w = replace_row (lg_resetTokens w (rt_id t)) (put_reset_token t w) w"

subsection \<open>Deliveries and grants\<close>

definition GetDeliveryForUpdate :: "DeliveryID \<Rightarrow> (ledger, Delivery) tx" where
  "GetDeliveryForUpdate i w = found (map_of (lg_deliveries w) i) w"

definition GetGrantForUpdate :: "TokenHash \<Rightarrow> (ledger, DownloadGrant) tx" where
  "GetGrantForUpdate h w = found (Option.bind (lg_grantsByHash w (TokenHash_Hex h)) (lg_grants w)) w"

definition InsertDelivery :: "Delivery \<Rightarrow> (ledger, unit) tx" where
  "InsertDelivery d w =
     insert_row (map_of (lg_deliveries w) (de_id d) \<noteq> None)
       (w\<lparr>lg_deliveries := AList.update (de_id d) d (lg_deliveries w)\<rparr>) w"

definition InsertGrant :: "DownloadGrant \<Rightarrow> (ledger, unit) tx" where
  "InsertGrant g w =
     insert_row (lg_grants w (dg_id g) \<noteq> None \<or> lg_grantsByHash w (TokenHash_Hex (dg_tokenHash g)) \<noteq> None)
       (w\<lparr>lg_grants := (lg_grants w)(dg_id g \<mapsto> g),
          lg_grantsByHash := (lg_grantsByHash w)(TokenHash_Hex (dg_tokenHash g) \<mapsto> dg_id g)\<rparr>) w"

definition SaveDelivery :: "Delivery \<Rightarrow> Version \<Rightarrow> (ledger, unit) tx" where
  "SaveDelivery d expectedVersion w =
     save_row (map_of (lg_deliveries w) (de_id d)) de_version expectedVersion
       (w\<lparr>lg_deliveries := AList.update (de_id d) d (lg_deliveries w)\<rparr>) w"

definition SaveGrant :: "DownloadGrant \<Rightarrow> Version \<Rightarrow> (ledger, unit) tx" where
  "SaveGrant g expectedVersion w =
     save_row (lg_grants w (dg_id g)) dg_version expectedVersion
       (w\<lparr>lg_grants := (lg_grants w)(dg_id g \<mapsto> g)\<rparr>) w"

text \<open>The three invalidation loops differ in the grants they select; a grant the domain refuses to
  invalidate is left as it is.\<close>

definition invalidate_where :: "(DownloadGrant \<Rightarrow> bool) \<Rightarrow> Instant \<Rightarrow> ledger \<Rightarrow> ledger" where
  "invalidate_where P now w = w\<lparr>lg_grants := (\<lambda>i. case lg_grants w i of
       None \<Rightarrow> None
     | Some g \<Rightarrow> if \<not> P g then Some g else (case Grant_Invalidate g now of Inl _ \<Rightarrow> Some g | Inr g' \<Rightarrow> Some g'))\<rparr>"

definition InvalidatePrivateGrants :: "DeliveryID \<Rightarrow> Instant \<Rightarrow> (ledger, unit) tx" where
  "InvalidatePrivateGrants delivery now w =
     tx_return () (invalidate_where (\<lambda>g. dg_deliveryID g = delivery \<and> dg_purpose g = GrantPurposeLeafPrivate) now w)"

definition InvalidatePublicGrants :: "CertificateID \<Rightarrow> Instant \<Rightarrow> (ledger, unit) tx" where
  "InvalidatePublicGrants certificate now w =
     tx_return () (invalidate_where (\<lambda>g. dg_certificateID g = certificate \<and> dg_purpose g = GrantPurposeLeafPublic) now w)"

definition InvalidateAllPublicGrants :: "Instant \<Rightarrow> (ledger, unit) tx" where
  "InvalidateAllPublicGrants now w =
     tx_return () (invalidate_where (\<lambda>g. dg_purpose g = GrantPurposeLeafPublic) now w)"

definition limitDeliveries :: "Delivery list \<Rightarrow> int64 \<Rightarrow> Delivery list" where
  "limitDeliveries list limit =
     (let sorted = sort_key de_id list in
      if 0 < limit \<and> limit < int (length sorted) then take (nat limit) sorted else sorted)"

definition ListExpired :: "Instant \<Rightarrow> int64 \<Rightarrow> (ledger, Delivery list) tx" where
  "ListExpired now limit w =
     tx_return (limitDeliveries (filter (\<lambda>d. de_state d = DeliveryStatePending \<and> IsExpiredAt (de_expiresAt d) now)
       (map snd (lg_deliveries w))) limit) w"

definition ListPending :: "int64 \<Rightarrow> (ledger, Delivery list) tx" where
  "ListPending limit w =
     tx_return (limitDeliveries (filter (\<lambda>d. de_state d = DeliveryStatePending) (map snd (lg_deliveries w))) limit) w"

definition ListTransferring :: "int64 \<Rightarrow> (ledger, Delivery list) tx" where
  "ListTransferring limit w =
     tx_return (limitDeliveries (filter (\<lambda>d. de_state d = DeliveryStateTransferring) (map snd (lg_deliveries w))) limit) w"

subsection \<open>Transitions\<close>

definition Transitions_GetForUpdate :: "TransitionID \<Rightarrow> (ledger, Transition) tx" where
  "Transitions_GetForUpdate i w = found (lg_transitions w i) w"

definition Transitions_Insert :: "Transition \<Rightarrow> (ledger, unit) tx" where
  "Transitions_Insert t w =
     insert_row (lg_transitions w (tr_id t) \<noteq> None)
       (w\<lparr>lg_transitionRows := AList.update (tr_id t) t (lg_transitionRows w)\<rparr>) w"

definition Transitions_Save :: "Transition \<Rightarrow> Version \<Rightarrow> (ledger, unit) tx" where
  "Transitions_Save t expectedVersion w =
     save_row (lg_transitions w (tr_id t)) tr_version expectedVersion
       (w\<lparr>lg_transitionRows := AList.update (tr_id t) t (lg_transitionRows w)\<rparr>) w"

definition impact_key :: "TransitionImpact \<Rightarrow> TransitionID \<times> CertificateID" where
  "impact_key m = (ti_transitionID m, ti_certificateID m)"

definition AddImpact :: "TransitionImpact \<Rightarrow> (ledger, unit) tx" where
  "AddImpact m w =
     insert_row (map_of (lg_impacts w) (impact_key m) \<noteq> None)
       (w\<lparr>lg_impacts := AList.update (impact_key m) m (lg_impacts w)\<rparr>) w"

definition LinkReplacement :: "TransitionImpact \<Rightarrow> (ledger, unit) tx" where
  "LinkReplacement m w =
     replace_row (map_of (lg_impacts w) (impact_key m))
       (w\<lparr>lg_impacts := AList.update (impact_key m) m (lg_impacts w)\<rparr>) w"

definition AddDeploymentConfirmation :: "DeploymentConfirmation \<Rightarrow> (ledger, unit) tx" where
  "AddDeploymentConfirmation c w =
     tx_return () (w\<lparr>lg_deploymentConfirmations := lg_deploymentConfirmations w @ [c]\<rparr>)"

definition ListImpacts :: "TransitionID \<Rightarrow> (ledger, TransitionImpact list) tx" where
  "ListImpacts i w =
     tx_return (sort_key ti_certificateID (map snd (filter (\<lambda>((t, _), _). t = i) (lg_impacts w)))) w"

definition ListDeploymentConfirmations :: "TransitionID \<Rightarrow> (ledger, DeploymentConfirmation list) tx" where
  "ListDeploymentConfirmations i w =
     tx_return (filter (\<lambda>c. dc_transitionID c = i) (lg_deploymentConfirmations w)) w"

subsection \<open>Installation, settings and TLS\<close>

definition Installation_GetForUpdate :: "(ledger, Installation) tx" where
  "Installation_GetForUpdate w = found (lg_installation w) w"

definition Installation_Save :: "Installation \<Rightarrow> Version \<Rightarrow> (ledger, unit) tx" where
  "Installation_Save i expectedVersion w =
     upsert_row (lg_installation w) in_Version expectedVersion (w\<lparr>lg_installation := Some i\<rparr>) w"

definition GetSettings :: "(ledger, Settings) tx" where
  "GetSettings w = found (lg_settings w) w"

definition SaveSettings :: "Settings \<Rightarrow> Version \<Rightarrow> (ledger, unit) tx" where
  "SaveSettings s expectedVersion w =
     upsert_row (lg_settings w) se_Version expectedVersion (w\<lparr>lg_settings := Some s\<rparr>) w"

definition GetActiveForUpdate :: "(ledger, TLSChange) tx" where
  "GetActiveForUpdate w =
     (case lg_installation w of
        None \<Rightarrow> tx_fail (Port ErrNotFound) w
      | Some i \<Rightarrow>
          if in_ActiveTLSVersionID i = [] then tx_fail (Port ErrNotFound) w
          else found (lg_tlsChanges w (in_ActiveTLSVersionID i)) w)"

definition InsertVersion :: "TLSVersion \<Rightarrow> (ledger, unit) tx" where
  "InsertVersion v w =
     insert_row (map_of (lg_tlsVersions w) (tv_id v) \<noteq> None)
       (w\<lparr>lg_tlsVersions := AList.update (tv_id v) v (lg_tlsVersions w)\<rparr>) w"

definition GetVersion :: "TLSVersionID \<Rightarrow> (ledger, TLSVersion) tx" where
  "GetVersion i w = found (map_of (lg_tlsVersions w) i) w"

definition ListVersions :: "(ledger, TLSVersion list) tx" where
  "ListVersions w = tx_return (sort_key tv_id (map snd (lg_tlsVersions w))) w"

definition SaveChange :: "TLSChange \<Rightarrow> Version \<Rightarrow> (ledger, unit) tx" where
  "SaveChange c expectedVersion w =
     upsert_row (lg_tlsChanges w (tc_candidateVersionID c)) tc_version expectedVersion
       (w\<lparr>lg_tlsChanges := (lg_tlsChanges w)(tc_candidateVersionID c \<mapsto> c)\<rparr>) w"

definition pointed_at :: "TLSVersionID \<Rightarrow> Installation \<Rightarrow> Installation" where
  "pointed_at v i = i\<lparr>in_ActiveTLSVersionID := v, in_Version := Version_Next (in_Version i)\<rparr>"

definition ClearActive :: "Version \<Rightarrow> TLSVersionID \<Rightarrow> (ledger, unit) tx" where
  "ClearActive expectedVersion versionID w =
     (case lg_installation w of
        None \<Rightarrow> tx_fail (Port ErrNotFound) w
      | Some i \<Rightarrow>
          if in_Version i \<noteq> expectedVersion then tx_fail (Port ErrVersionConflict) w
          else if in_ActiveTLSVersionID i \<noteq> versionID then tx_fail (Port ErrVersionConflict) w
          else tx_return () (w\<lparr>lg_installation := Some (pointed_at [] i)\<rparr>))"

definition SetActive :: "Version \<Rightarrow> TLSVersionID \<Rightarrow> (ledger, unit) tx" where
  "SetActive expectedVersion versionID w =
     (if map_of (lg_tlsVersions w) versionID = None then tx_fail (Port ErrNotFound) w
      else if lg_tlsChanges w versionID = None then tx_fail (Port ErrNotFound) w
      else
        (case lg_installation w of
           None \<Rightarrow> tx_fail (Port ErrNotFound) w
         | Some i \<Rightarrow>
             if in_Version i \<noteq> expectedVersion then tx_fail (Port ErrVersionConflict) w
             else tx_return () (w\<lparr>lg_installation := Some (pointed_at versionID i)\<rparr>)))"

lemmas workflow_read_defs [tx_iff] = GetAccountForUpdate_def FindAccountByLoginName_def FindSessionByHash_def
  GetSessionForUpdate_def GetResetToken_def GetRateLimit_def GetDeliveryForUpdate_def GetGrantForUpdate_def
  Transitions_GetForUpdate_def Installation_GetForUpdate_def GetSettings_def GetVersion_def

lemmas workflow_write_defs [tx_iff] = InsertAccount_def SaveAccount_def InsertSession_def DeleteAllSessions_def
  InsertResetToken_def InvalidateResetTokens_def SaveRateLimit_def SaveSession_def SaveResetToken_def
  InsertDelivery_def InsertGrant_def SaveDelivery_def SaveGrant_def InvalidatePrivateGrants_def
  InvalidatePublicGrants_def InvalidateAllPublicGrants_def Transitions_Insert_def Transitions_Save_def
  AddImpact_def LinkReplacement_def AddDeploymentConfirmation_def Installation_Save_def SaveSettings_def
  InsertVersion_def SaveChange_def

subsection \<open>Every versioned table keeps the lock\<close>

interpretation account_rows: versioned_table "\<lambda>w. map_of (lg_accounts w)" ac_id ac_version SaveAccount
  by unfold_locales (simp_all add: SaveAccount_def lock_simps)

interpretation delivery_rows: versioned_table "\<lambda>w. map_of (lg_deliveries w)" de_id de_version SaveDelivery
  by unfold_locales (simp_all add: SaveDelivery_def lock_simps)

interpretation grant_rows: versioned_table lg_grants dg_id dg_version SaveGrant
  by unfold_locales (simp_all add: SaveGrant_def lock_simps)

interpretation transition_rows: versioned_table lg_transitions tr_id tr_version Transitions_Save
  by unfold_locales (simp_all add: Transitions_Save_def lock_simps)

interpretation tls_rows: versioned_table lg_tlsChanges tc_candidateVersionID tc_version SaveChange
  by unfold_locales (simp_all add: SaveChange_def lock_simps)

interpretation installation_row: versioned_table "\<lambda>w. (\<lambda>_::unit. lg_installation w)" "\<lambda>_. ()" in_Version Installation_Save
  by unfold_locales (auto simp: Installation_Save_def lock_simps)

interpretation settings_row: versioned_table "\<lambda>w. (\<lambda>_::unit. lg_settings w)" "\<lambda>_. ()" se_Version SaveSettings
  by unfold_locales (auto simp: SaveSettings_def lock_simps)


text \<open>Two administrators who decide on the same stored version of an authority cannot both succeed:
  whatever the two accepted transitions are, once the first is saved the second save is refused with
  a version conflict and stores nothing, so no decision is silently overwritten.\<close>

theorem no_lost_authority_update:
  assumes "map_of (lg_authorities w) (au_id a) = Some a"
    and "authority_step a x = Inr b" and "authority_step a y = Inr c"
  shows "\<exists>w'. SaveAuthority b (au_version a) w = (Inr (), w') \<and> map_of (lg_authorities w') (au_id a) = Some b
    \<and> SaveAuthority c (au_version a) w' = (Inl (Port ErrVersionConflict), w')"
proof -
  have ids: "au_id b = au_id a" "au_id c = au_id a"
    using assms(2,3) authority_step_identity by (auto simp: authority_identity_def)
  have "au_version b \<noteq> au_version a"
    using authority_step_version [OF assms(2)] by (simp add: Version_Next_neq)
  with assms(1) ids authority_rows.second_save_refused [of w b a c] show ?thesis by simp
qed


theorem no_lost_authority_update_witness:
  "\<exists>b c w'. authority_step sample_authority OpStopIssuance = Inr b
     \<and> authority_step sample_authority (OpRename (AuthorityPolicy ''new'')) = Inr c
     \<and> SaveAuthority b 1 (newState\<lparr>lg_authorities := [(au_id sample_authority, sample_authority)]\<rparr>) = (Inr (), w')
     \<and> SaveAuthority c 1 w' = (Inl (Port ErrVersionConflict), w')"
proof -
  obtain b where b: "authority_step sample_authority OpStopIssuance = Inr b"
    by (simp add: StopIssuance_def sample_authority_def Authority_IsArchived_def Instant_IsZero_iff)
  obtain c where c: "authority_step sample_authority (OpRename (AuthorityPolicy ''new'')) = Inr c"
    by (simp add: Rename_def maxAuthorityNameLength_def)
  have "map_of (lg_authorities (newState\<lparr>lg_authorities := [(au_id sample_authority, sample_authority)]\<rparr>))
      (au_id sample_authority) = Some sample_authority" by simp
  from no_lost_authority_update [OF this b c] b c show ?thesis by (auto simp: sample_authority_def)
qed

end
