(* ===== verification/Requests.thy ===== *)
theory Requests
  imports Ledger_Store Go_JSON Calendar "HOL-Library.List_Lexorder"
begin

text \<open>
  \<open>internal/app/service/request.go\<close>: idempotent requests. The key of a stored result is the actor,
  the operation and the caller's idempotency key; the input hash is the SHA-256 of a JSON envelope.
  A request's input is the value its DTO encodes to, or the error \<open>Marshal\<close> reports for it.
  Main property: a stored result is replayed to a repeated request and to nobody else, and a
  second result is never stored under the same key.
\<close>

subsection \<open>Normal forms\<close>

text \<open>Identifiers and fingerprints are ASCII, where \<open>strings.ToLower\<close> works byte by byte.\<close>

definition NormalizeUUID :: "string \<Rightarrow> string" where "NormalizeUUID raw = map ascii_lower raw"

definition NormalizeFingerprint :: "string \<Rightarrow> string" where "NormalizeFingerprint raw = map ascii_lower raw"

definition zero_pad :: "nat \<Rightarrow> int \<Rightarrow> string" where
  "zero_pad width i =
     (let ds = decimal_text (nat \<bar>i\<bar>) in (if i < 0 then ''-'' else []) @ replicate (width - length ds) CHR ''0'' @ ds)"

text \<open>The layout \<open>2006-01-02T15:04:05.000000Z\<close>.\<close>

definition NormalizeInstant :: "Instant \<Rightarrow> string" where
  "NormalizeInstant at =
     (if Instant_IsZero at then []
      else
        let t = Instant_Time at; us = Time_Clock t div 1000 in
        (case Time_Date t of (y, m, d) \<Rightarrow>
           zero_pad 4 y @ ''-'' @ zero_pad 2 m @ ''-'' @ zero_pad 2 d @ ''T''
             @ zero_pad 2 (us div 3600000000) @ '':'' @ zero_pad 2 (us div 60000000 mod 60) @ '':''
             @ zero_pad 2 (us div 1000000 mod 60) @ ''.'' @ zero_pad 6 (us mod 1000000) @ ''Z''))"

subsection \<open>The input hash\<close>

definition inputHashSchemaVersion :: int64 where "inputHashSchemaVersion = 1"

text \<open>The envelope as it is marshalled: members in declaration order, the target map by sorted key.\<close>

definition requestEnvelope :: "string \<Rightarrow> (string \<times> string) list \<Rightarrow> json \<Rightarrow> json" where
  "requestEnvelope operation target input =
     JObject [(''schema_version'', JNumber (int_text inputHashSchemaVersion)),
       (''operation'', JString operation),
       (''target'', JObject (map (\<lambda>(k, v). (k, JString v)) (sort_key fst target))),
       (''input'', input)]"

definition InputHash :: "string \<Rightarrow> (string \<times> string) list \<Rightarrow> go_error + json \<Rightarrow> go_error + string" where
  "InputHash operation target input =
     (if operation = []
        then Inl (App (NewAppError ErrorKindValidation ''request_operation_missing''
          ''an idempotent operation must name itself in its input hash''))
      else
        (case input of
           Inl err \<Rightarrow> Inl (App (WrapAppError ErrorKindValidation ''request_input_hash_failed''
             ''could not normalize the request input'' err))
         | Inr v \<Rightarrow> Inr (sha256_hex (json_text (requestEnvelope operation target v)))))"

subsection \<open>The request key\<close>

definition ActorKey :: "Principal \<Rightarrow> string" where
  "ActorKey p =
     (if IsAdmin p then ''account:'' @ NormalizeUUID (Principal_AccountID p)
      else if IsInternal p then ''internal''
      else ''anonymous'')"

definition RequestKey :: "MutationMeta \<Rightarrow> string \<Rightarrow> go_error + OperationRequestKey" where
  "RequestKey meta operation =
     and_then (RequireIdempotencyKey meta) (\<lambda>key.
       Inr \<lparr>ok_ActorKey = ActorKey (rq_Principal meta), ok_Operation = operation, ok_RequestID = key\<rparr>)"

subsection \<open>Replay and storage\<close>

definition ReplayStoredResult ::
  "OperationRequestKey \<Rightarrow> string \<Rightarrow> (ledger, OperationRequestResult option) tx" where
  "ReplayStoredResult key inputHash =
     (if inputHash = []
        then tx_fail (App (NewAppError ErrorKindValidation ''request_input_hash_missing''
          ''an idempotent operation requires an input hash''))
      else
        tx_bind (tx_try (Requests_Find key)) (\<lambda>found_result.
          case found_result of
            Inl e \<Rightarrow>
              if Is_port e ErrNotFound then tx_return None
              else tx_fail (storeError e ''request_lookup_failed'' ''could not check for an existing request result'')
          | Inr stored \<Rightarrow>
              if or_InputHash stored \<noteq> inputHash
                then tx_fail (App (NewAppError ErrorKindConflict ''idempotency_key_reused''
                  ''this idempotency key was already used with different input''))
              else tx_return (Some stored)))"

definition StoreRequestResult :: "OperationRequestKey \<Rightarrow> string \<Rightarrow> go_error + json \<Rightarrow> (ledger, unit) tx" where
  "StoreRequestResult key inputHash publicResult =
     (case publicResult of
        Inl err \<Rightarrow> tx_fail (App (WrapAppError ErrorKindValidation ''request_result_encode_failed''
          ''could not encode the request result'' err))
      | Inr v \<Rightarrow>
          tx_or (InsertResult key inputHash (json_text v))
            (\<lambda>e. storeError e ''request_result_store_failed'' ''could not record the request result''))"

definition DecodeStoredResult :: "(json \<Rightarrow> 'a \<Rightarrow> 'a option) \<Rightarrow> OperationRequestResult \<Rightarrow> 'a \<Rightarrow> go_error + 'a" where
  "DecodeStoredResult decode stored into =
     (case json_unmarshal decode (or_ResultJSON stored) into of
        None \<Rightarrow> Inl (App (WrapAppError ErrorKindUnavailable ''request_result_decode_failed''
          ''a stored result could not be replayed'' (Opaque ''json'')))
      | Some x \<Rightarrow> Inr x)"

subsection \<open>What is replayed, and to whom\<close>

lemma InsertResult_iff [tx_iff]:
  "InsertResult key h r w = (Inr u, w') \<longleftrightarrow> lg_requestResults w key = None
     \<and> w' = w\<lparr>lg_requestResults := (lg_requestResults w)(key \<mapsto>
         \<lparr>or_InputHash = h, or_ResultCertificateID = [], or_ResultJSON = r\<rparr>)\<rparr>"
  by (auto simp: InsertResult_def tx_return_def tx_fail_def split: option.splits)

lemma Replay_result:
  "h \<noteq> [] \<Longrightarrow> ReplayStoredResult key h w =
     (case lg_requestResults w key of
        None \<Rightarrow> (Inr None, w)
      | Some r \<Rightarrow>
          if or_InputHash r = h then (Inr (Some r), w)
          else (Inl (App (NewAppError ErrorKindConflict ''idempotency_key_reused''
            ''this idempotency key was already used with different input'')), w))"
  by (auto simp: ReplayStoredResult_def Requests_Find_def found_def tx_bind_def tx_try_def tx_return_def tx_fail_def
      split: option.splits)

lemma admin_key_injective:
  assumes "RequestKey m op = Inr k" and "RequestKey m' op' = Inr k"
    and "IsAdmin (rq_Principal m)"
  shows "op' = op \<and> mm_IdempotencyKey m' = mm_IdempotencyKey m \<and> IsAdmin (rq_Principal m')
    \<and> NormalizeUUID (Principal_AccountID (rq_Principal m')) = NormalizeUUID (Principal_AccountID (rq_Principal m))"
proof -
  from assms(1,2) have keys: "parseIdempotencyKey (mm_IdempotencyKey m) = Inr (ok_RequestID k)"
    "parseIdempotencyKey (mm_IdempotencyKey m') = Inr (ok_RequestID k)"
    "ok_Operation k = op" "ok_Operation k = op'"
    "ok_ActorKey k = ActorKey (rq_Principal m)" "ok_ActorKey k = ActorKey (rq_Principal m')"
    by (auto simp: RequestKey_def RequireIdempotencyKey_def and_then_Inr split: sum.splits)
  then show ?thesis using assms(3)
    by (auto simp: parseIdempotencyKey_Inr ActorKey_def split: if_splits)
qed

text \<open>C31. Once an administrator's request has stored its result, repeating the request (same
  idempotency key, same input hash) replays exactly that result without changing the store, reusing
  the key with other input is a conflict, a second result cannot be stored under the key, and a
  request by any other account, for another operation or with another idempotency key does not see
  the result: its lookup answers what it answered before.\<close>

theorem stored_result_replayed_to_its_actor_only:
  assumes key: "RequestKey m op = Inr k" and admin: "IsAdmin (rq_Principal m)" and h: "h \<noteq> []"
    and stored: "StoreRequestResult k h (Inr result) w = (Inr u, w')"
  shows "(\<exists>r. ReplayStoredResult k h w' = (Inr (Some r), w') \<and> or_ResultJSON r = json_text result)
    \<and> (\<forall>h'. h' \<noteq> [] \<and> h' \<noteq> h \<longrightarrow> (\<exists>a. ReplayStoredResult k h' w' = (Inl (App a), w')
         \<and> ae_kind a = ErrorKindConflict \<and> ae_code a = ''idempotency_key_reused''))
    \<and> (\<forall>h' again v w''. StoreRequestResult k h' again w' \<noteq> (Inr v, w''))
    \<and> (\<forall>m2 op2 k2 h2. RequestKey m2 op2 = Inr k2 \<and> h2 \<noteq> []
         \<and> (op2 \<noteq> op \<or> mm_IdempotencyKey m2 \<noteq> mm_IdempotencyKey m \<or> \<not> IsAdmin (rq_Principal m2)
            \<or> NormalizeUUID (Principal_AccountID (rq_Principal m2)) \<noteq> NormalizeUUID (Principal_AccountID (rq_Principal m)))
         \<longrightarrow> fst (ReplayStoredResult k2 h2 w') = fst (ReplayStoredResult k2 h2 w))"
proof (intro conjI allI impI)
  from stored have w': "w' = w\<lparr>lg_requestResults := (lg_requestResults w)(k \<mapsto>
      \<lparr>or_InputHash = h, or_ResultCertificateID = [], or_ResultJSON = json_text result\<rparr>)\<rparr>"
    by (auto simp: StoreRequestResult_def tx_iff)
  show "\<exists>r. ReplayStoredResult k h w' = (Inr (Some r), w') \<and> or_ResultJSON r = json_text result"
    using h by (simp add: Replay_result w')
  show "\<exists>a. ReplayStoredResult k h' w' = (Inl (App a), w') \<and> ae_kind a = ErrorKindConflict
      \<and> ae_code a = ''idempotency_key_reused''" if "h' \<noteq> [] \<and> h' \<noteq> h" for h'
    using that by (auto simp: Replay_result w' NewAppError_def)
  show "StoreRequestResult k h' again w' \<noteq> (Inr v, w'')" for h' again v w''
    by (cases again) (auto simp: StoreRequestResult_def tx_iff w')
  fix m2 op2 k2 and h2 :: string
  assume other: "RequestKey m2 op2 = Inr k2 \<and> h2 \<noteq> []
    \<and> (op2 \<noteq> op \<or> mm_IdempotencyKey m2 \<noteq> mm_IdempotencyKey m \<or> \<not> IsAdmin (rq_Principal m2)
       \<or> NormalizeUUID (Principal_AccountID (rq_Principal m2)) \<noteq> NormalizeUUID (Principal_AccountID (rq_Principal m)))"
  with admin_key_injective [OF key _ admin, of m2 op2] have "k2 \<noteq> k" by auto
  then show "fst (ReplayStoredResult k2 h2 w') = fst (ReplayStoredResult k2 h2 w)"
    using other by (simp add: Replay_result w' split: option.splits)
qed

definition sample_admin :: "char \<Rightarrow> Principal" where
  "sample_admin c = \<lparr>pr_kind = PrincipalKindAdmin, pr_accountID = sample_uuid c, pr_sessionID = sample_uuid CHR ''5'',
     pr_authEpoch = 1, pr_operations = []\<rparr>"

definition sample_mutation :: "char \<Rightarrow> MutationMeta" where
  "sample_mutation c = \<lparr>rq_Principal = sample_admin c, rq_RequestID = [], rq_ClientIP = None,
     mm_ExpectedVersion = Some 1, mm_IdempotencyKey = sample_uuid CHR ''9''\<rparr>"

lemma sample_request_key:
  "RequestKey (sample_mutation c) op = Inr \<lparr>ok_ActorKey = ''account:'' @ NormalizeUUID (sample_uuid c),
     ok_Operation = op, ok_RequestID = sample_uuid CHR ''9''\<rparr>"
proof -
  have "canonical_uuid (sample_uuid CHR ''9'')" by code_simp
  then have "parseIdempotencyKey (sample_uuid CHR ''9'') = Inr (sample_uuid CHR ''9'')"
    by (simp add: parseIdempotencyKey_Inr)
  then show ?thesis
    by (simp add: RequestKey_def RequireIdempotencyKey_def sample_mutation_def sample_admin_def ActorKey_def
        IsAdmin_def Principal_Kind_def Principal_AccountID_def)
qed

theorem stored_result_replayed_to_its_actor_only_witness:
  "\<exists>k u w' r. RequestKey (sample_mutation CHR ''1'') ''certificate.issue'' = Inr k
     \<and> StoreRequestResult k ''hash'' (Inr (JString ''result'')) newState = (Inr u, w')
     \<and> ReplayStoredResult k ''hash'' w' = (Inr (Some r), w') \<and> or_ResultJSON r = json_text (JString ''result'')"
proof -
  have admin: "IsAdmin (rq_Principal (sample_mutation CHR ''1''))"
    by (simp add: sample_mutation_def sample_admin_def IsAdmin_def Principal_Kind_def)
  have h: "''hash'' \<noteq> []" by simp
  obtain w' where st: "StoreRequestResult \<lparr>ok_ActorKey = ''account:'' @ NormalizeUUID (sample_uuid CHR ''1''),
     ok_Operation = ''certificate.issue'', ok_RequestID = sample_uuid CHR ''9''\<rparr> ''hash'' (Inr (JString ''result'')) newState
      = (Inr (), w')"
    by (simp add: StoreRequestResult_def InsertResult_def tx_or_def newState_def tx_return_def)
  from stored_result_replayed_to_its_actor_only [OF sample_request_key admin h st, THEN conjunct1]
  obtain r where r: "ReplayStoredResult \<lparr>ok_ActorKey = ''account:'' @ NormalizeUUID (sample_uuid CHR ''1''),
     ok_Operation = ''certificate.issue'', ok_RequestID = sample_uuid CHR ''9''\<rparr> ''hash'' w' = (Inr (Some r), w')"
    "or_ResultJSON r = json_text (JString ''result'')" by blast
  show ?thesis by (intro exI conjI) (rule sample_request_key, rule st, rule r, rule r)
qed

end
