(* ===== verification/Settings_Codec.thy ===== *)
theory Settings_Codec
  imports Ledger_Store Go_JSON
begin

text \<open>
  \<open>internal/app/service/settings.go\<close>: the stored form of the installation settings. \<open>EncodeSettingsV1\<close>
  validates and marshals, \<open>DecodeSettingsV1\<close> unmarshals and validates again. Main properties: the
  two are inverse to each other on every valid snapshot, and nothing out of range is ever decoded.
\<close>

definition settingsSchemaVersionV1 :: int64 where "settingsSchemaVersionV1 = 1"

record SettingsV1 =
  sv_ServiceURL :: string
  sv_LeafValidity :: CalendarValidity
  sv_RootValidity :: CalendarValidity
  sv_IntermediateValidity :: CalendarValidity
  sv_RotateEvery :: int64
  sv_PrivateDeliverySeconds :: int64
  sv_PublicLinkSeconds :: int64
  sv_CRLIntervalSeconds :: int64
  sv_CRLValiditySeconds :: int64
  sv_AuditRetentionDays :: int64

definition minValidityValue :: int64 where "minValidityValue = 1"
definition maxValidityValue :: int64 where "maxValidityValue = 36500"
definition minRotateEverySetting :: int64 where "minRotateEverySetting = 1"
definition maxRotateEverySetting :: int64 where "maxRotateEverySetting = 100"
definition minPrivateDeliverySeconds :: int64 where "minPrivateDeliverySeconds = 300"
definition maxPrivateDeliverySeconds :: int64 where "maxPrivateDeliverySeconds = 86400"
definition minPublicLinkSeconds :: int64 where "minPublicLinkSeconds = 60"
definition maxPublicLinkSeconds :: int64 where "maxPublicLinkSeconds = 10800"
definition minCRLIntervalSeconds :: int64 where "minCRLIntervalSeconds = 300"
definition maxCRLIntervalSeconds :: int64 where "maxCRLIntervalSeconds = 86400"
definition minCRLValiditySeconds :: int64 where "minCRLValiditySeconds = 600"
definition maxCRLValiditySeconds :: int64 where "maxCRLValiditySeconds = 604800"
definition minAuditRetentionDays :: int64 where "minAuditRetentionDays = 30"
definition maxAuditRetentionDays :: int64 where "maxAuditRetentionDays = 3650"

lemmas settings_limits = minValidityValue_def maxValidityValue_def minRotateEverySetting_def
  maxRotateEverySetting_def minPrivateDeliverySeconds_def maxPrivateDeliverySeconds_def
  minPublicLinkSeconds_def maxPublicLinkSeconds_def minCRLIntervalSeconds_def maxCRLIntervalSeconds_def
  minCRLValiditySeconds_def maxCRLValiditySeconds_def minAuditRetentionDays_def maxAuditRetentionDays_def

subsection \<open>The wire form\<close>

record settingsValidityWireV1 =
  vw_Value :: int64
  vw_Unit :: string

record settingsWireV1 =
  sw_ServiceURL :: string
  sw_LeafValidity :: settingsValidityWireV1
  sw_RootValidity :: settingsValidityWireV1
  sw_IntermediateValidity :: settingsValidityWireV1
  sw_RotateEvery :: int64
  sw_PrivateDeliverySeconds :: int64
  sw_PublicLinkSeconds :: int64
  sw_CRLIntervalSeconds :: int64
  sw_CRLValiditySeconds :: int64
  sw_AuditRetentionDays :: int64

definition zero_validity_wire :: settingsValidityWireV1 where
  "zero_validity_wire = \<lparr>vw_Value = 0, vw_Unit = []\<rparr>"

definition zero_wire :: settingsWireV1 where
  "zero_wire = \<lparr>sw_ServiceURL = [], sw_LeafValidity = zero_validity_wire, sw_RootValidity = zero_validity_wire,
     sw_IntermediateValidity = zero_validity_wire, sw_RotateEvery = 0, sw_PrivateDeliverySeconds = 0,
     sw_PublicLinkSeconds = 0, sw_CRLIntervalSeconds = 0, sw_CRLValiditySeconds = 0, sw_AuditRetentionDays = 0\<rparr>"

text \<open>What \<open>Marshal\<close> makes of the structs: the member names of their JSON tags.\<close>

definition validity_json :: "settingsValidityWireV1 \<Rightarrow> json" where
  "validity_json v = JObject [(''value'', JNumber (int_text (vw_Value v))), (''unit'', JString (vw_Unit v))]"

definition wire_json :: "settingsWireV1 \<Rightarrow> json" where
  "wire_json s = JObject [
     (''service_url'', JString (sw_ServiceURL s)),
     (''leaf_validity'', validity_json (sw_LeafValidity s)),
     (''root_validity'', validity_json (sw_RootValidity s)),
     (''intermediate_validity'', validity_json (sw_IntermediateValidity s)),
     (''rotate_every'', JNumber (int_text (sw_RotateEvery s))),
     (''private_delivery_seconds'', JNumber (int_text (sw_PrivateDeliverySeconds s))),
     (''public_link_seconds'', JNumber (int_text (sw_PublicLinkSeconds s))),
     (''crl_interval_seconds'', JNumber (int_text (sw_CRLIntervalSeconds s))),
     (''crl_validity_seconds'', JNumber (int_text (sw_CRLValiditySeconds s))),
     (''audit_retention_days'', JNumber (int_text (sw_AuditRetentionDays s)))]"

text \<open>What \<open>Unmarshal\<close> does with a member, its name folded.\<close>

definition validity_field :: "string \<Rightarrow> json \<Rightarrow> settingsValidityWireV1 \<Rightarrow> settingsValidityWireV1 option" where
  "validity_field k v x =
     (if k = ''VALUE'' then map_option (\<lambda>n. x\<lparr>vw_Value := n\<rparr>) (decode_int v (vw_Value x))
      else if k = ''UNIT'' then map_option (\<lambda>u. x\<lparr>vw_Unit := u\<rparr>) (decode_string v (vw_Unit x))
      else Some x)"

definition wire_field :: "string \<Rightarrow> json \<Rightarrow> settingsWireV1 \<Rightarrow> settingsWireV1 option" where
  "wire_field k v x =
     (if k = ''SERVICE_URL'' then map_option (\<lambda>u. x\<lparr>sw_ServiceURL := u\<rparr>) (decode_string v (sw_ServiceURL x))
      else if k = ''LEAF_VALIDITY''
        then map_option (\<lambda>c. x\<lparr>sw_LeafValidity := c\<rparr>) (decode_struct validity_field v (sw_LeafValidity x))
      else if k = ''ROOT_VALIDITY''
        then map_option (\<lambda>c. x\<lparr>sw_RootValidity := c\<rparr>) (decode_struct validity_field v (sw_RootValidity x))
      else if k = ''INTERMEDIATE_VALIDITY''
        then map_option (\<lambda>c. x\<lparr>sw_IntermediateValidity := c\<rparr>) (decode_struct validity_field v (sw_IntermediateValidity x))
      else if k = ''ROTATE_EVERY'' then map_option (\<lambda>n. x\<lparr>sw_RotateEvery := n\<rparr>) (decode_int v (sw_RotateEvery x))
      else if k = ''PRIVATE_DELIVERY_SECONDS''
        then map_option (\<lambda>n. x\<lparr>sw_PrivateDeliverySeconds := n\<rparr>) (decode_int v (sw_PrivateDeliverySeconds x))
      else if k = ''PUBLIC_LINK_SECONDS''
        then map_option (\<lambda>n. x\<lparr>sw_PublicLinkSeconds := n\<rparr>) (decode_int v (sw_PublicLinkSeconds x))
      else if k = ''CRL_INTERVAL_SECONDS''
        then map_option (\<lambda>n. x\<lparr>sw_CRLIntervalSeconds := n\<rparr>) (decode_int v (sw_CRLIntervalSeconds x))
      else if k = ''CRL_VALIDITY_SECONDS''
        then map_option (\<lambda>n. x\<lparr>sw_CRLValiditySeconds := n\<rparr>) (decode_int v (sw_CRLValiditySeconds x))
      else if k = ''AUDIT_RETENTION_DAYS''
        then map_option (\<lambda>n. x\<lparr>sw_AuditRetentionDays := n\<rparr>) (decode_int v (sw_AuditRetentionDays x))
      else Some x)"

definition unmarshal_wire :: "string \<Rightarrow> settingsWireV1 option" where
  "unmarshal_wire s = json_unmarshal (decode_struct wire_field) s zero_wire"

fun unit_text :: "ValidityUnit \<Rightarrow> string" where
  "unit_text ValidityUnitYears = ''years''"
| "unit_text ValidityUnitMonths = ''months''"
| "unit_text ValidityUnitDays = ''days''"
| "unit_text (ValidityUnitOther s) = s"

definition unit_of_text :: "string \<Rightarrow> ValidityUnit" where
  "unit_of_text s =
     (if s = ''years'' then ValidityUnitYears else if s = ''months'' then ValidityUnitMonths
      else if s = ''days'' then ValidityUnitDays else ValidityUnitOther s)"

subsection \<open>Validation\<close>

definition out_of_range :: "ErrorKind \<Rightarrow> string \<Rightarrow> string \<Rightarrow> go_error" where
  "out_of_range kind field detail =
     App (AppError_WithField (NewAppError kind ''settings_field_out_of_range'' detail) ''field'' field)"

definition range_detail :: "string \<Rightarrow> int64 \<Rightarrow> int64 \<Rightarrow> string" where
  "range_detail name lo hi = name @ '' must be '' @ int_text lo @ ''..'' @ int_text hi"

definition check_range :: "ErrorKind \<Rightarrow> string \<Rightarrow> int64 \<Rightarrow> int64 \<Rightarrow> int64 \<Rightarrow> go_error option" where
  "check_range kind field v lo hi =
     (if v < lo \<or> v > hi then Some (out_of_range kind field (range_detail field lo hi)) else None)"

definition check_validity_value :: "ErrorKind \<Rightarrow> string \<Rightarrow> CalendarValidity \<Rightarrow> go_error option" where
  "check_validity_value kind field v =
     (if cv_value v < minValidityValue \<or> cv_value v > maxValidityValue
        then Some (out_of_range kind field (range_detail (field @ ''.value'') minValidityValue maxValidityValue))
      else None)"

text \<open>The source ranges over the three validities in the unspecified order of a Go map; the order
  only decides which of several bad fields the error names. Here it is leaf, root, intermediate.\<close>

definition validateSettingsV1 :: "SettingsV1 \<Rightarrow> ErrorKind \<Rightarrow> go_error option" where
  "validateSettingsV1 v kind =
     or_else_err (if take 8 (sv_ServiceURL v) \<noteq> ''https://''
        then Some (out_of_range kind ''service_url'' ''service_url must be an https:// URL'') else None)
     (or_else_err (check_validity_value kind ''leaf_validity'' (sv_LeafValidity v))
     (or_else_err (check_validity_value kind ''root_validity'' (sv_RootValidity v))
     (or_else_err (check_validity_value kind ''intermediate_validity'' (sv_IntermediateValidity v))
     (or_else_err (check_range kind ''rotate_every'' (sv_RotateEvery v) minRotateEverySetting maxRotateEverySetting)
     (or_else_err (check_range kind ''private_delivery_seconds'' (sv_PrivateDeliverySeconds v)
        minPrivateDeliverySeconds maxPrivateDeliverySeconds)
     (or_else_err (check_range kind ''public_link_seconds'' (sv_PublicLinkSeconds v)
        minPublicLinkSeconds maxPublicLinkSeconds)
     (or_else_err (check_range kind ''crl_interval_seconds'' (sv_CRLIntervalSeconds v)
        minCRLIntervalSeconds maxCRLIntervalSeconds)
     (or_else_err (check_range kind ''crl_validity_seconds'' (sv_CRLValiditySeconds v)
        minCRLValiditySeconds maxCRLValiditySeconds)
     (or_else_err (if sv_CRLValiditySeconds v < wrap64 (2 * sv_CRLIntervalSeconds v)
        then Some (out_of_range kind ''crl_validity_seconds''
          ''crl_validity_seconds must be at least twice crl_interval_seconds'') else None)
      (check_range kind ''audit_retention_days'' (sv_AuditRetentionDays v)
        minAuditRetentionDays maxAuditRetentionDays))))))))))"

definition decodeValidity :: "settingsValidityWireV1 \<Rightarrow> string \<Rightarrow> go_error + CalendarValidity" where
  "decodeValidity w field =
     (case NewCalendarValidity (vw_Value w) (unit_of_text (vw_Unit w)) of
        Inl err \<Rightarrow> Inl (App (AppError_WithField (WrapAppError ErrorKindUnavailable ''settings_field_invalid''
          ''stored settings field is invalid'' (Domain err)) ''field'' field))
      | Inr v \<Rightarrow> Inr v)"

definition DecodeSettingsV1 :: "Settings \<Rightarrow> go_error + SettingsV1" where
  "DecodeSettingsV1 settings =
     (if se_SchemaVersion settings \<noteq> settingsSchemaVersionV1
        then Inl (App (AppError_WithField (NewAppError ErrorKindUnavailable ''settings_schema_version_unsupported''
          ''the stored settings schema version is not supported'')
          ''schema_version'' (int_text (se_SchemaVersion settings))))
      else
        (case unmarshal_wire (se_SettingsJSON settings) of
           None \<Rightarrow> Inl (App (WrapAppError ErrorKindUnavailable ''settings_json_malformed''
             ''stored settings_json could not be parsed'' (Opaque ''json'')))
         | Some wire \<Rightarrow>
             and_then (decodeValidity (sw_LeafValidity wire) ''leaf_validity'') (\<lambda>leaf.
             and_then (decodeValidity (sw_RootValidity wire) ''root_validity'') (\<lambda>root.
             and_then (decodeValidity (sw_IntermediateValidity wire) ''intermediate_validity'') (\<lambda>intermediate.
               let out = \<lparr>sv_ServiceURL = sw_ServiceURL wire, sv_LeafValidity = leaf, sv_RootValidity = root,
                     sv_IntermediateValidity = intermediate, sv_RotateEvery = sw_RotateEvery wire,
                     sv_PrivateDeliverySeconds = sw_PrivateDeliverySeconds wire,
                     sv_PublicLinkSeconds = sw_PublicLinkSeconds wire,
                     sv_CRLIntervalSeconds = sw_CRLIntervalSeconds wire,
                     sv_CRLValiditySeconds = sw_CRLValiditySeconds wire,
                     sv_AuditRetentionDays = sw_AuditRetentionDays wire\<rparr>
               in check_then (validateSettingsV1 out ErrorKindUnavailable) (Inr out))))))"

definition validity_wire :: "CalendarValidity \<Rightarrow> settingsValidityWireV1" where
  "validity_wire v = \<lparr>vw_Value = cv_value v, vw_Unit = unit_text (cv_unit v)\<rparr>"

definition wire_of :: "SettingsV1 \<Rightarrow> settingsWireV1" where
  "wire_of v = \<lparr>sw_ServiceURL = sv_ServiceURL v, sw_LeafValidity = validity_wire (sv_LeafValidity v),
     sw_RootValidity = validity_wire (sv_RootValidity v),
     sw_IntermediateValidity = validity_wire (sv_IntermediateValidity v), sw_RotateEvery = sv_RotateEvery v,
     sw_PrivateDeliverySeconds = sv_PrivateDeliverySeconds v, sw_PublicLinkSeconds = sv_PublicLinkSeconds v,
     sw_CRLIntervalSeconds = sv_CRLIntervalSeconds v, sw_CRLValiditySeconds = sv_CRLValiditySeconds v,
     sw_AuditRetentionDays = sv_AuditRetentionDays v\<rparr>"

text \<open>Marshalling a struct of strings and integers cannot fail, so the source's error branch after
  \<open>json.Marshal\<close> has no counterpart.\<close>

definition EncodeSettingsV1 :: "SettingsV1 \<Rightarrow> go_error + string" where
  "EncodeSettingsV1 v =
     check_then (validateSettingsV1 v ErrorKindValidation) (Inr (json_text (wire_json (wire_of v))))"


subsection \<open>What is accepted\<close>

definition settings_in_range :: "SettingsV1 \<Rightarrow> bool" where
  "settings_in_range v \<longleftrightarrow>
     take 8 (sv_ServiceURL v) = ''https://''
     \<and> (\<forall>c\<in>{sv_LeafValidity v, sv_RootValidity v, sv_IntermediateValidity v}. 1 \<le> cv_value c \<and> cv_value c \<le> 36500)
     \<and> 1 \<le> sv_RotateEvery v \<and> sv_RotateEvery v \<le> 100
     \<and> 300 \<le> sv_PrivateDeliverySeconds v \<and> sv_PrivateDeliverySeconds v \<le> 86400
     \<and> 60 \<le> sv_PublicLinkSeconds v \<and> sv_PublicLinkSeconds v \<le> 10800
     \<and> 300 \<le> sv_CRLIntervalSeconds v \<and> sv_CRLIntervalSeconds v \<le> 86400
     \<and> 600 \<le> sv_CRLValiditySeconds v \<and> sv_CRLValiditySeconds v \<le> 604800
     \<and> 2 * sv_CRLIntervalSeconds v \<le> sv_CRLValiditySeconds v
     \<and> 30 \<le> sv_AuditRetentionDays v \<and> sv_AuditRetentionDays v \<le> 3650"

lemma check_range_None: "check_range kind field v lo hi = None \<longleftrightarrow> lo \<le> v \<and> v \<le> hi"
  by (auto simp: check_range_def)

lemma check_validity_value_None:
  "check_validity_value kind field v = None \<longleftrightarrow> 1 \<le> cv_value v \<and> cv_value v \<le> 36500"
  by (auto simp: check_validity_value_def settings_limits)

lemma validateSettingsV1_None: "validateSettingsV1 v kind = None \<longleftrightarrow> settings_in_range v"
proof -
  have "wrap64 (2 * sv_CRLIntervalSeconds v) = 2 * sv_CRLIntervalSeconds v"
    if "300 \<le> sv_CRLIntervalSeconds v" "sv_CRLIntervalSeconds v \<le> 86400"
    using that by (simp add: wrap64_id int64_bounds)
  then show ?thesis
    unfolding validateSettingsV1_def settings_in_range_def or_else_err_None check_range_None
      check_validity_value_None settings_limits if_Some_None
    by auto
qed

lemma decodeValidity_Inr: "decodeValidity w field = Inr v \<longleftrightarrow> NewCalendarValidity (vw_Value w) (unit_of_text (vw_Unit w)) = Inr v"
  by (auto simp: decodeValidity_def split: sum.splits)

lemma DecodeSettingsV1_in_range: "DecodeSettingsV1 st = Inr v \<Longrightarrow> settings_in_range v"
  by (auto simp: DecodeSettingsV1_def and_then_Inr check_then_Inr Let_def validateSettingsV1_None
      split: if_splits option.splits)

subsection \<open>Round trip\<close>

lemma upper_names:
  "map ascii_upper ''value'' = ''VALUE''"
  "map ascii_upper ''unit'' = ''UNIT''"
  "map ascii_upper ''service_url'' = ''SERVICE_URL''"
  "map ascii_upper ''leaf_validity'' = ''LEAF_VALIDITY''"
  "map ascii_upper ''root_validity'' = ''ROOT_VALIDITY''"
  "map ascii_upper ''intermediate_validity'' = ''INTERMEDIATE_VALIDITY''"
  "map ascii_upper ''rotate_every'' = ''ROTATE_EVERY''"
  "map ascii_upper ''private_delivery_seconds'' = ''PRIVATE_DELIVERY_SECONDS''"
  "map ascii_upper ''public_link_seconds'' = ''PUBLIC_LINK_SECONDS''"
  "map ascii_upper ''crl_interval_seconds'' = ''CRL_INTERVAL_SECONDS''"
  "map ascii_upper ''crl_validity_seconds'' = ''CRL_VALIDITY_SECONDS''"
  "map ascii_upper ''audit_retention_days'' = ''AUDIT_RETENTION_DAYS''"
  by code_simp+

lemma folded_names:
  "fold_name ''value'' = ''VALUE''" "fold_name ''unit'' = ''UNIT''" "fold_name ''service_url'' = ''SERVICE_URL''"
  "fold_name ''leaf_validity'' = ''LEAF_VALIDITY''" "fold_name ''root_validity'' = ''ROOT_VALIDITY''"
  "fold_name ''intermediate_validity'' = ''INTERMEDIATE_VALIDITY''" "fold_name ''rotate_every'' = ''ROTATE_EVERY''"
  "fold_name ''private_delivery_seconds'' = ''PRIVATE_DELIVERY_SECONDS''"
  "fold_name ''public_link_seconds'' = ''PUBLIC_LINK_SECONDS''"
  "fold_name ''crl_interval_seconds'' = ''CRL_INTERVAL_SECONDS''"
  "fold_name ''crl_validity_seconds'' = ''CRL_VALIDITY_SECONDS''"
  "fold_name ''audit_retention_days'' = ''AUDIT_RETENTION_DAYS''"
  by (subst fold_name_ascii; simp add: byte_in_def upper_names del: list.map)+

lemma decode_validity_json:
  "in_int64 (vw_Value w) \<Longrightarrow> decode_struct validity_field (validity_json w) old = Some w"
  by (simp add: validity_json_def folded_names validity_field_def)

definition wire_ints :: "settingsWireV1 \<Rightarrow> int64 list" where
  "wire_ints s = [vw_Value (sw_LeafValidity s), vw_Value (sw_RootValidity s), vw_Value (sw_IntermediateValidity s),
     sw_RotateEvery s, sw_PrivateDeliverySeconds s, sw_PublicLinkSeconds s, sw_CRLIntervalSeconds s,
     sw_CRLValiditySeconds s, sw_AuditRetentionDays s]"

lemma decode_wire_json: "\<forall>i\<in>set (wire_ints w). in_int64 i \<Longrightarrow> decode_struct wire_field (wire_json w) zero_wire = Some w"
  by (simp add: wire_json_def folded_names wire_field_def decode_validity_json wire_ints_def zero_wire_def)

lemma ascii_utf8:
  "valid_utf8 ''value''" "valid_utf8 ''unit''" "valid_utf8 ''service_url''" "valid_utf8 ''leaf_validity''"
  "valid_utf8 ''root_validity''" "valid_utf8 ''intermediate_validity''" "valid_utf8 ''rotate_every''"
  "valid_utf8 ''private_delivery_seconds''" "valid_utf8 ''public_link_seconds''" "valid_utf8 ''crl_interval_seconds''"
  "valid_utf8 ''crl_validity_seconds''" "valid_utf8 ''audit_retention_days''"
  "valid_utf8 ''years''" "valid_utf8 ''months''" "valid_utf8 ''days''"
  by (rule valid_utf8_ascii, simp add: byte_in_def)+

lemma clean_validity_json: "valid_utf8 (vw_Unit w) \<Longrightarrow> clean_json (validity_json w)"
  by (auto simp: validity_json_def ascii_utf8)

lemma clean_wire_json:
  assumes "valid_utf8 (sw_ServiceURL w)"
    and "\<forall>v\<in>{sw_LeafValidity w, sw_RootValidity w, sw_IntermediateValidity w}. valid_utf8 (vw_Unit v)"
  shows "clean_json (wire_json w)" and "json_depth (wire_json w) = 2"
  using assms clean_validity_json
  by (auto simp: wire_json_def ascii_utf8) (simp_all add: validity_json_def)

lemma unmarshal_marshal:
  assumes "\<forall>i\<in>set (wire_ints w). in_int64 i" and "valid_utf8 (sw_ServiceURL w)"
    and "\<forall>v\<in>{sw_LeafValidity w, sw_RootValidity w, sw_IntermediateValidity w}. valid_utf8 (vw_Unit v)"
  shows "unmarshal_wire (json_text (wire_json w)) = Some w"
  using json_parse_text [OF clean_wire_json(1) [OF assms(2,3)]] clean_wire_json(2) [OF assms(2,3)]
    decode_wire_json [OF assms(1)]
  by (simp add: unmarshal_wire_def json_unmarshal_def maxNestingDepth_def)

lemma supported_unit:
  assumes "ValidityUnit_Validate u = None"
  shows "unit_of_text (unit_text u) = u" and "valid_utf8 (unit_text u)"
  using assms by (cases u; simp add: unit_of_text_def ascii_utf8)+

lemma decode_encoded:
  assumes "EncodeSettingsV1 v = Inr stored" and "valid_utf8 (sv_ServiceURL v)"
    and "ValidityUnit_Validate (cv_unit (sv_LeafValidity v)) = None"
    and "ValidityUnit_Validate (cv_unit (sv_RootValidity v)) = None"
    and "ValidityUnit_Validate (cv_unit (sv_IntermediateValidity v)) = None"
  shows "DecodeSettingsV1 \<lparr>se_SchemaVersion = settingsSchemaVersionV1, se_SettingsJSON = stored,
      se_Version = ver, se_UpdatedBy = by\<rparr> = Inr v"
proof -
  from assms(1) have range: "settings_in_range v" and s: "stored = json_text (wire_json (wire_of v))"
    by (auto simp: EncodeSettingsV1_def check_then_Inr validateSettingsV1_None)
  have new: "NewCalendarValidity (cv_value c) (cv_unit c) = Inr c"
    if "ValidityUnit_Validate (cv_unit c) = None" "1 \<le> cv_value c" for c
    using that by (simp add: NewCalendarValidity_def)
  have "unmarshal_wire stored = Some (wire_of v)"
    unfolding s
  proof (rule unmarshal_marshal)
    show "\<forall>i\<in>set (wire_ints (wire_of v)). in_int64 i"
      using range by (auto simp: wire_ints_def wire_of_def validity_wire_def settings_in_range_def int64_bounds)
    show "valid_utf8 (sw_ServiceURL (wire_of v))" using assms(2) by (simp add: wire_of_def)
    show "\<forall>c\<in>{sw_LeafValidity (wire_of v), sw_RootValidity (wire_of v), sw_IntermediateValidity (wire_of v)}.
        valid_utf8 (vw_Unit c)"
      using assms(3-5) supported_unit(2) by (auto simp: wire_of_def validity_wire_def)
  qed
  then show ?thesis
    using range new assms(3-5)
    by (simp add: DecodeSettingsV1_def and_then_Inr check_then_Inr decodeValidity_Inr wire_of_def
        validity_wire_def supported_unit validateSettingsV1_None settings_in_range_def Let_def)
qed

text \<open>C32. Settings survive storage: a snapshot \<open>EncodeSettingsV1\<close> accepts, whose validities carry a
  supported unit and whose service URL is UTF-8, is decoded from its stored JSON to the same
  snapshot; and whatever row is decoded, every setting is in its documented range, with a CRL
  validity of at least two publication intervals.\<close>

theorem settings_roundtrip:
  assumes "EncodeSettingsV1 v = Inr stored" and "valid_utf8 (sv_ServiceURL v)"
    and "ValidityUnit_Validate (cv_unit (sv_LeafValidity v)) = None"
    and "ValidityUnit_Validate (cv_unit (sv_RootValidity v)) = None"
    and "ValidityUnit_Validate (cv_unit (sv_IntermediateValidity v)) = None"
  shows "DecodeSettingsV1 \<lparr>se_SchemaVersion = settingsSchemaVersionV1, se_SettingsJSON = stored,
      se_Version = ver, se_UpdatedBy = by\<rparr> = Inr v
    \<and> (\<forall>row u. DecodeSettingsV1 row = Inr u \<longrightarrow> settings_in_range u)"
  using decode_encoded [OF assms] DecodeSettingsV1_in_range by blast

definition sample_settings :: SettingsV1 where
  "sample_settings = \<lparr>sv_ServiceURL = ''https://ca.example'', sv_LeafValidity = \<lparr>cv_value = 90, cv_unit = ValidityUnitDays\<rparr>,
     sv_RootValidity = \<lparr>cv_value = 10, cv_unit = ValidityUnitYears\<rparr>,
     sv_IntermediateValidity = \<lparr>cv_value = 36, cv_unit = ValidityUnitMonths\<rparr>, sv_RotateEvery = 3,
     sv_PrivateDeliverySeconds = 3600, sv_PublicLinkSeconds = 600, sv_CRLIntervalSeconds = 3600,
     sv_CRLValiditySeconds = 7200, sv_AuditRetentionDays = 365\<rparr>"

lemma sample_settings_in_range: "settings_in_range sample_settings"
  by (simp add: settings_in_range_def sample_settings_def)

lemma sample_settings_encoded:
  "EncodeSettingsV1 sample_settings = Inr (json_text (wire_json (wire_of sample_settings)))"
  using sample_settings_in_range by (simp add: EncodeSettingsV1_def check_then_Inr validateSettingsV1_None)

lemma sample_url_utf8: "valid_utf8 (sv_ServiceURL sample_settings)"
  by (rule valid_utf8_ascii) (simp add: sample_settings_def byte_in_def)

lemma sample_settings_decoded:
  "DecodeSettingsV1 \<lparr>se_SchemaVersion = settingsSchemaVersionV1,
     se_SettingsJSON = json_text (wire_json (wire_of sample_settings)), se_Version = ver, se_UpdatedBy = by\<rparr>
   = Inr sample_settings"
  by (rule decode_encoded [OF sample_settings_encoded sample_url_utf8]) (simp_all add: sample_settings_def)

theorem settings_roundtrip_witness:
  "\<exists>stored. EncodeSettingsV1 sample_settings = Inr stored
     \<and> DecodeSettingsV1 \<lparr>se_SchemaVersion = settingsSchemaVersionV1, se_SettingsJSON = stored,
         se_Version = 1, se_UpdatedBy = []\<rparr> = Inr sample_settings"
  using settings_roundtrip [OF sample_settings_encoded sample_url_utf8, of 1 "[]"] sample_settings_encoded
  by (simp add: sample_settings_def)

end
