(* ===== verification/Secret_Input.thy ===== *)
theory Secret_Input
  imports App_Errors Go_JSON
begin

text \<open>
  \<open>internal/secret/input.go\<close>: the holder of secret bytes that readers borrow through \<open>Use\<close> and the
  owner wipes with \<open>Close\<close>. A pointer that may be nil is an option. The mutex makes each of
  \<open>Use\<close>'s entry, its deferred \<open>release\<close> and \<open>Close\<close> one atomic step, so concurrent use is an
  interleaving of these three. \<open>si_bytes\<close> is the backing array, which a reader keeps seeing after
  the holder dropped it; \<open>si_live\<close> says that \<open>buf\<close> is not nil.
\<close>

record Input =
  si_bytes :: string
  si_live :: bool
  si_closed :: bool
  si_inUse :: int

definition ErrClosed :: go_error where "ErrClosed = Opaque ''secret: input is closed''"

definition ErrNotSerializable :: go_error where
  "ErrNotSerializable = Opaque ''secret: refusing to serialize secret input''"

definition Input_New :: "string option \<Rightarrow> Input" where
  "Input_New buf = \<lparr>si_bytes = (case buf of None \<Rightarrow> [] | Some b \<Rightarrow> b), si_live = (buf \<noteq> None),
     si_closed = False, si_inUse = 0\<rparr>"

definition Input_FromString :: "string \<Rightarrow> Input" where
  "Input_FromString s = Input_New (Some s)"

text \<open>A reader is the list of its results: the bytes of each \<open>Read\<close> and the error it reported, after
  the last of them end of file.\<close>

fun read_chunks :: "int64 \<Rightarrow> string \<Rightarrow> (string \<times> go_error option) list \<Rightarrow> go_error + string" where
  "read_chunks limit buf [] = Inr buf"
| "read_chunks limit buf ((chunk, err) # rs) =
     (if 0 < length chunk \<and> limit < int (length buf + length chunk)
        then Inl (Opaque (''secret: input exceeds '' @ int_text limit @ '' bytes''))
      else (case err of Some e \<Rightarrow> Inl e | None \<Rightarrow> read_chunks limit (buf @ chunk) rs))"

definition Input_ReadAll :: "(string \<times> go_error option) list \<Rightarrow> int64 \<Rightarrow> go_error + Input" where
  "Input_ReadAll r limit =
     (if limit \<le> 0 then Inl (Opaque ''secret: read limit must be positive'')
      else map_sum id (\<lambda>buf. Input_New (Some buf)) (read_chunks limit [] r))"

definition wiped :: "string \<Rightarrow> string" where
  "wiped b = map (\<lambda>_. CHR 0x00) b"

text \<open>The first half of \<open>Use\<close>: the reader gets the backing array.\<close>

definition Input_acquire :: "Input \<Rightarrow> go_error + Input" where
  "Input_acquire i =
     (if si_closed i \<or> \<not> si_live i then Inl ErrClosed else Inr (i\<lparr>si_inUse := si_inUse i + 1\<rparr>))"

definition Input_release :: "Input \<Rightarrow> Input" where
  "Input_release i =
     (let i' = i\<lparr>si_inUse := si_inUse i - 1\<rparr> in
      if si_inUse i' = 0 \<and> si_closed i' \<and> si_live i'
        then i'\<lparr>si_bytes := wiped (si_bytes i'), si_live := False\<rparr> else i')"

definition Input_Close :: "Input \<Rightarrow> Input" where
  "Input_Close i =
     (if si_closed i then i
      else if 0 < si_inUse i then i\<lparr>si_closed := True\<rparr>
      else i\<lparr>si_closed := True, si_bytes := wiped (si_bytes i), si_live := False\<rparr>)"

text \<open>A whole \<open>Use\<close> of a holder nobody closes meanwhile: the callback sees the bytes, the holder is
  as before.\<close>

definition Input_Use :: "Input option \<Rightarrow> (string \<Rightarrow> go_error + 'a) \<Rightarrow> go_error + 'a" where
  "Input_Use i fn =
     (case i of
        None \<Rightarrow> Inl ErrClosed
      | Some i \<Rightarrow> and_then (Input_acquire i) (\<lambda>i'. fn (si_bytes i')))"

definition Input_Len :: "Input option \<Rightarrow> nat" where
  "Input_Len i =
     (case i of None \<Rightarrow> 0 | Some i \<Rightarrow> if si_closed i then 0 else if si_live i then length (si_bytes i) else 0)"

definition Input_IsEmpty :: "Input option \<Rightarrow> bool" where
  "Input_IsEmpty i \<longleftrightarrow> Input_Len i = 0"

definition Input_String :: "Input option \<Rightarrow> string" where
  "Input_String i = ''<redacted>''"

definition Input_MarshalJSON :: "Input option \<Rightarrow> go_error + string" where
  "Input_MarshalJSON i = Inl ErrNotSerializable"

text \<open>\<open>secretCharacterLen\<close> of \<open>internal/app/contract/setup.go\<close>.\<close>

definition secretCharacterLen :: "Input option \<Rightarrow> go_error + nat" where
  "secretCharacterLen i =
     (if i = None then Inl ErrClosed
      else Input_Use i (\<lambda>b. if \<not> valid_utf8 b
        then Inl (Domain (Wrapped ErrInvalidValue ''secret is not valid utf-8''))
        else Inr (length (runes b))))"

subsection \<open>Interleavings of readers and the owner\<close>

inductive input_step :: "Input \<Rightarrow> Input \<Rightarrow> bool" where
  step_acquire: "Input_acquire i = Inr i' \<Longrightarrow> input_step i i'"
| step_release: "0 < si_inUse i \<Longrightarrow> input_step i (Input_release i)"
| step_close: "input_step i (Input_Close i)"

inductive_cases input_stepE: "input_step i i'"

definition input_ok :: "string \<Rightarrow> Input \<Rightarrow> bool" where
  "input_ok b i \<longleftrightarrow> 0 \<le> si_inUse i
     \<and> (if si_live i then si_bytes i = b \<and> (si_closed i \<longrightarrow> 0 < si_inUse i)
        else si_closed i \<and> si_inUse i = 0 \<and> si_bytes i = wiped b)"

lemma input_step_ok: "input_step i i' \<Longrightarrow> input_ok b i \<Longrightarrow> input_ok b i'"
  by (erule input_stepE)
    (auto simp: input_ok_def Input_acquire_def Input_release_def Input_Close_def Let_def split: if_splits)

lemma input_reachable_ok: "input_step\<^sup>*\<^sup>* i i' \<Longrightarrow> input_ok b i \<Longrightarrow> input_ok b i'"
  by (induction rule: rtranclp_induct) (blast intro: input_step_ok)+

lemma input_closed_stays: "input_step\<^sup>*\<^sup>* i i' \<Longrightarrow> si_closed i \<Longrightarrow> si_closed i'"
  by (induction rule: rtranclp_induct)
    (auto elim!: input_stepE simp: Input_acquire_def Input_release_def Input_Close_def Let_def split: if_splits)

text \<open>C28. Secret bytes live exactly as long as they are needed: in every interleaving of readers and
  the owner, a reader inside \<open>Use\<close> sees the original bytes, however often the holder is closed
  meanwhile; once it is closed and the last reader has left, every byte is zero; and a closed
  holder admits no new reader and reports length 0, for ever.\<close>

theorem secret_wiped_after_last_use:
  assumes "input_step\<^sup>*\<^sup>* (Input_New (Some b)) i"
  shows "(0 < si_inUse i \<longrightarrow> si_bytes i = b)
    \<and> (si_closed i \<and> si_inUse i = 0 \<longrightarrow> si_bytes i = replicate (length b) (CHR 0x00) \<and> \<not> si_live i)
    \<and> (si_closed i \<and> input_step\<^sup>*\<^sup>* i i' \<longrightarrow> Input_acquire i' = Inl ErrClosed \<and> Input_Len (Some i') = 0)"
proof -
  have "input_ok b (Input_New (Some b))" by (simp add: input_ok_def Input_New_def)
  from input_reachable_ok [OF assms this] have ok: "input_ok b i" .
  then have "0 < si_inUse i \<longrightarrow> si_bytes i = b" by (auto simp: input_ok_def split: if_splits)
  moreover have "si_closed i \<and> si_inUse i = 0 \<longrightarrow> si_bytes i = replicate (length b) (CHR 0x00) \<and> \<not> si_live i"
    using ok by (auto simp: input_ok_def wiped_def map_replicate_const split: if_splits)
  moreover have "si_closed i \<and> input_step\<^sup>*\<^sup>* i i' \<longrightarrow> Input_acquire i' = Inl ErrClosed \<and> Input_Len (Some i') = 0"
    using input_closed_stays by (auto simp: Input_acquire_def Input_Len_def)
  ultimately show ?thesis by blast
qed

text \<open>A reader enters, the owner closes, the reader still sees the password; then it leaves.\<close>

definition sample_secret_read :: Input where
  "sample_secret_read = \<lparr>si_bytes = ''pw'', si_live = True, si_closed = True, si_inUse = 1\<rparr>"

theorem secret_wiped_after_last_use_witness:
  "si_bytes sample_secret_read = ''pw'' \<and> si_bytes (Input_release sample_secret_read) = [CHR 0x00, CHR 0x00]"
proof -
  let ?a = "\<lparr>si_bytes = ''pw'', si_live = True, si_closed = False, si_inUse = 1\<rparr>"
  have "input_step (Input_New (Some ''pw'')) ?a"
    by (rule step_acquire) (simp add: Input_acquire_def Input_New_def)
  moreover have "input_step ?a sample_secret_read"
    using step_close [of ?a] by (simp add: Input_Close_def sample_secret_read_def)
  ultimately have r: "input_step\<^sup>*\<^sup>* (Input_New (Some ''pw'')) sample_secret_read" by (meson r_into_rtranclp rtranclp_trans)
  have "input_step sample_secret_read (Input_release sample_secret_read)"
    by (rule step_release) (simp add: sample_secret_read_def)
  with r have r': "input_step\<^sup>*\<^sup>* (Input_New (Some ''pw'')) (Input_release sample_secret_read)" by simp
  have *: "si_closed (Input_release sample_secret_read)" "si_inUse (Input_release sample_secret_read) = 0"
    "0 < si_inUse sample_secret_read"
    by (simp_all add: sample_secret_read_def Input_release_def)
  from secret_wiped_after_last_use [OF r, THEN conjunct1] *(3)
    and secret_wiped_after_last_use [OF r', THEN conjunct2, THEN conjunct1] *(1,2)
  show ?thesis by (simp add: numeral_2_eq_2)
qed

end
