(* ===== verification/Access.thy ===== *)
theory Access
  imports Principals Ledger_Store
begin

text \<open>
  What services hand to the \<open>Authorizer\<close> (\<open>internal/app/port/services.go\<close>: the actions and their
  scopes), and the check of a service's dependencies at construction
  (\<open>internal/app/service/deps.go\<close>). The \<open>Authorizer\<close> itself is an interface: it is an argument of
  the services that call it.
\<close>

subsection \<open>Actions\<close>

type_synonym Action = string

definition ActionSetupStatus :: Action where "ActionSetupStatus = ''Setup.Status''"
definition ActionSetupCreateAdmin :: Action where "ActionSetupCreateAdmin = ''Setup.CreateAdmin''"
definition ActionSetupComplete :: Action where "ActionSetupComplete = ''Setup.Complete''"
definition ActionIdentityLogin :: Action where "ActionIdentityLogin = ''Identity.Login''"
definition ActionIdentityLogout :: Action where "ActionIdentityLogout = ''Identity.Logout''"
definition ActionIdentityAuthenticate :: Action where "ActionIdentityAuthenticate = ''Identity.Authenticate''"
definition ActionIdentityBeginReset :: Action where "ActionIdentityBeginReset = ''Identity.BeginReset''"
definition ActionIdentityCompleteReset :: Action where "ActionIdentityCompleteReset = ''Identity.CompleteReset''"
definition ActionIdentityIssueCSRF :: Action where "ActionIdentityIssueCSRF = ''Identity.IssueCSRF''"
definition ActionSettingsGet :: Action where "ActionSettingsGet = ''Settings.Get''"
definition ActionSettingsUpdate :: Action where "ActionSettingsUpdate = ''Settings.Update''"
definition ActionAuthorityCreate :: Action where "ActionAuthorityCreate = ''Authority.Create''"
definition ActionAuthorityRename :: Action where "ActionAuthorityRename = ''Authority.Rename''"
definition ActionAuthoritySetIssuanceState :: Action where "ActionAuthoritySetIssuanceState = ''Authority.SetIssuanceState''"
definition ActionAuthorityDestroyKey :: Action where "ActionAuthorityDestroyKey = ''Authority.DestroyKey''"
definition ActionAuthorityArchive :: Action where "ActionAuthorityArchive = ''Authority.Archive''"
definition ActionIssuanceIssue :: Action where "ActionIssuanceIssue = ''Issuance.Issue''"
definition ActionIssuanceRenew :: Action where "ActionIssuanceRenew = ''Issuance.Renew''"
definition ActionIssuanceReissue :: Action where "ActionIssuanceReissue = ''Issuance.Reissue''"
definition ActionIssuanceUpdateSeries :: Action where "ActionIssuanceUpdateSeries = ''Issuance.UpdateSeries''"
definition ActionIssuanceArchiveSeries :: Action where "ActionIssuanceArchiveSeries = ''Issuance.ArchiveSeries''"
definition ActionDistributionCreateLink :: Action where "ActionDistributionCreateLink = ''Distribution.CreateLink''"
definition ActionDistributionDeliver :: Action where "ActionDistributionDeliver = ''Distribution.Deliver''"
definition ActionDistributionReportFailure :: Action where "ActionDistributionReportFailure = ''Distribution.ReportFailure''"
definition ActionRevocationRevoke :: Action where "ActionRevocationRevoke = ''Revocation.Revoke''"
definition ActionRevocationCompromise :: Action where "ActionRevocationCompromise = ''Revocation.Compromise''"
definition ActionRevocationCorrect :: Action where "ActionRevocationCorrect = ''Revocation.Correct''"
definition ActionImportPreview :: Action where "ActionImportPreview = ''Import.Preview''"
definition ActionImportCommit :: Action where "ActionImportCommit = ''Import.Commit''"
definition ActionImportAttachSigningKey :: Action where "ActionImportAttachSigningKey = ''Import.AttachSigningKey''"
definition ActionImportConfirmTakeover :: Action where "ActionImportConfirmTakeover = ''Import.ConfirmTakeover''"
definition ActionTransitionCreate :: Action where "ActionTransitionCreate = ''Transition.Create''"
definition ActionTransitionSetTarget :: Action where "ActionTransitionSetTarget = ''Transition.SetTarget''"
definition ActionTransitionConfirmDeployment :: Action where "ActionTransitionConfirmDeployment = ''Transition.ConfirmDeployment''"
definition ActionTransitionComplete :: Action where "ActionTransitionComplete = ''Transition.Complete''"
definition ActionTransitionClose :: Action where "ActionTransitionClose = ''Transition.Close''"
definition ActionCRLRequestPublication :: Action where "ActionCRLRequestPublication = ''CRL.RequestPublication''"
definition ActionCRLPublish :: Action where "ActionCRLPublish = ''CRL.Publish''"
definition ActionTLSStatus :: Action where "ActionTLSStatus = ''TLS.Status''"
definition ActionTLSUploadCandidate :: Action where "ActionTLSUploadCandidate = ''TLS.UploadCandidate''"
definition ActionTLSIssueCandidate :: Action where "ActionTLSIssueCandidate = ''TLS.IssueCandidate''"
definition ActionTLSReload :: Action where "ActionTLSReload = ''TLS.Reload''"
definition ActionTLSActivate :: Action where "ActionTLSActivate = ''TLS.Activate''"
definition ActionMaintenanceRotate :: Action where "ActionMaintenanceRotate = ''Maintenance.Rotate''"
definition ActionMaintenanceFinalizeRestore :: Action where "ActionMaintenanceFinalizeRestore = ''Maintenance.FinalizeRestore''"
definition ActionMaintenanceRecoverTransfers :: Action where "ActionMaintenanceRecoverTransfers = ''Maintenance.RecoverTransfers''"
definition ActionMaintenancePruneAudit :: Action where "ActionMaintenancePruneAudit = ''Maintenance.PruneAudit''"
definition ActionTLSBootstrap :: Action where "ActionTLSBootstrap = ''TLS.Bootstrap''"
definition ActionTLSReconcile :: Action where "ActionTLSReconcile = ''TLS.Reconcile''"
definition ActionQueryListAuthority :: Action where "ActionQueryListAuthority = ''Query.ListAuthority''"
definition ActionQueryGetAuthority :: Action where "ActionQueryGetAuthority = ''Query.GetAuthority''"
definition ActionQueryListSeries :: Action where "ActionQueryListSeries = ''Query.ListSeries''"
definition ActionQueryGetSeries :: Action where "ActionQueryGetSeries = ''Query.GetSeries''"
definition ActionQueryListCertificate :: Action where "ActionQueryListCertificate = ''Query.ListCertificate''"
definition ActionQueryGetCertificate :: Action where "ActionQueryGetCertificate = ''Query.GetCertificate''"
definition ActionQueryListRevocation :: Action where "ActionQueryListRevocation = ''Query.ListRevocation''"
definition ActionQueryGetRevocation :: Action where "ActionQueryGetRevocation = ''Query.GetRevocation''"
definition ActionQueryListTransition :: Action where "ActionQueryListTransition = ''Query.ListTransition''"
definition ActionQueryGetTransition :: Action where "ActionQueryGetTransition = ''Query.GetTransition''"
definition ActionQueryListImport :: Action where "ActionQueryListImport = ''Query.ListImport''"
definition ActionQueryGetImport :: Action where "ActionQueryGetImport = ''Query.GetImport''"
definition ActionQueryListJob :: Action where "ActionQueryListJob = ''Query.ListJob''"
definition ActionQueryGetJob :: Action where "ActionQueryGetJob = ''Query.GetJob''"
definition ActionQueryListAudit :: Action where "ActionQueryListAudit = ''Query.ListAudit''"
definition ActionQueryExportAudit :: Action where "ActionQueryExportAudit = ''Query.ExportAudit''"
definition ActionQueryGetCRLStatus :: Action where "ActionQueryGetCRLStatus = ''Query.GetCRLStatus''"
definition ActionQueryReadPublicCA :: Action where "ActionQueryReadPublicCA = ''Query.ReadPublicCA''"

definition definedActions :: "Action list" where
  "definedActions = [
    ActionSetupStatus, ActionSetupCreateAdmin, ActionSetupComplete, ActionIdentityLogin,
    ActionIdentityLogout, ActionIdentityAuthenticate, ActionIdentityBeginReset,
    ActionIdentityCompleteReset, ActionIdentityIssueCSRF, ActionSettingsGet,
    ActionSettingsUpdate, ActionAuthorityCreate, ActionAuthorityRename,
    ActionAuthoritySetIssuanceState, ActionAuthorityDestroyKey, ActionAuthorityArchive,
    ActionIssuanceIssue, ActionIssuanceRenew, ActionIssuanceReissue, ActionIssuanceUpdateSeries,
    ActionIssuanceArchiveSeries, ActionDistributionCreateLink, ActionDistributionDeliver,
    ActionDistributionReportFailure, ActionRevocationRevoke, ActionRevocationCompromise,
    ActionRevocationCorrect, ActionImportPreview, ActionImportCommit,
    ActionImportAttachSigningKey, ActionImportConfirmTakeover, ActionTransitionCreate,
    ActionTransitionSetTarget, ActionTransitionConfirmDeployment, ActionTransitionComplete,
    ActionTransitionClose, ActionCRLRequestPublication, ActionCRLPublish, ActionTLSStatus,
    ActionTLSUploadCandidate, ActionTLSIssueCandidate, ActionTLSReload, ActionTLSActivate,
    ActionTLSBootstrap, ActionTLSReconcile, ActionMaintenanceRotate,
    ActionMaintenanceFinalizeRestore, ActionMaintenanceRecoverTransfers,
    ActionMaintenancePruneAudit, ActionQueryListAuthority, ActionQueryGetAuthority,
    ActionQueryListSeries, ActionQueryGetSeries, ActionQueryListCertificate,
    ActionQueryGetCertificate, ActionQueryListRevocation, ActionQueryGetRevocation,
    ActionQueryListTransition, ActionQueryGetTransition, ActionQueryListImport,
    ActionQueryGetImport, ActionQueryListJob, ActionQueryGetJob, ActionQueryListAudit,
    ActionQueryExportAudit, ActionQueryGetCRLStatus, ActionQueryReadPublicCA]"

text \<open>The two actions only an internal principal may be authorized for, with the operation it needs.\<close>

definition RequiredInternalOperation :: "Action \<Rightarrow> InternalOperation option" where
  "RequiredInternalOperation a =
     (if a = ActionTLSBootstrap then Some InternalOperationTLSBootstrap
      else if a = ActionTLSReconcile then Some InternalOperationTLSReconcile
      else None)"

definition Action_Validate :: "Action \<Rightarrow> go_error option" where
  "Action_Validate a =
     (if a \<notin> set definedActions then Some (Opaque (''port: invalid action '' @ a)) else None)"

subsection \<open>Scopes\<close>

datatype AuthorizationScopeKind =
    AuthorizationScopeInstallation | AuthorizationScopeAuthorities | AuthorizationScopeOther string

record AuthorizationScope =
  az_kind :: AuthorizationScopeKind
  az_authorityIDs :: "AuthorityID list"

definition NewInstallationAuthorizationScope :: AuthorizationScope where
  "NewInstallationAuthorizationScope = \<lparr>az_kind = AuthorizationScopeInstallation, az_authorityIDs = []\<rparr>"

definition NewAuthoritiesAuthorizationScope :: "AuthorityID list \<Rightarrow> AuthorizationScope" where
  "NewAuthoritiesAuthorizationScope ids =
     \<lparr>az_kind = AuthorizationScopeAuthorities, az_authorityIDs = unique_ids [] ids\<rparr>"

definition NewAuthorizationScope :: "AuthorityID list \<Rightarrow> AuthorizationScope" where
  "NewAuthorizationScope authorityIDs =
     (if authorityIDs = [] then NewInstallationAuthorizationScope
      else NewAuthoritiesAuthorizationScope authorityIDs)"

fun authorization_ids_scan :: "AuthorityID list \<Rightarrow> AuthorityID list \<Rightarrow> go_error option" where
  "authorization_ids_scan seen [] = None"
| "authorization_ids_scan seen (i # is) =
     (if i = [] then Some (Opaque ''authority authorization scope must not contain an empty authority id'')
      else if i \<in> set seen
        then Some (Opaque ''authority authorization scope must not contain duplicate authority ids'')
      else authorization_ids_scan (i # seen) is)"

definition AuthorizationScope_Validate :: "AuthorizationScope \<Rightarrow> go_error option" where
  "AuthorizationScope_Validate s =
     (case az_kind s of
        AuthorizationScopeInstallation \<Rightarrow>
          if az_authorityIDs s \<noteq> []
            then Some (Opaque ''installation authorization scope must not contain authority ids'') else None
      | AuthorizationScopeAuthorities \<Rightarrow>
          if az_authorityIDs s = []
            then Some (Opaque ''authority authorization scope must contain at least one authority id'')
          else authorization_ids_scan [] (az_authorityIDs s)
      | AuthorizationScopeOther k \<Rightarrow> Some (Opaque (''port: invalid authorization scope kind '' @ k)))"

text \<open>An authorizer answers for a principal, an action and a scope; \<open>None\<close> is permission.\<close>

type_synonym Authorizer = "Principal \<Rightarrow> Action \<Rightarrow> AuthorizationScope \<Rightarrow> go_error option"

text \<open>Every scope a service builds from nonempty identifiers is valid.\<close>

lemma authorization_ids_scan_None:
  "authorization_ids_scan seen is = None \<longleftrightarrow> [] \<notin> set is \<and> distinct is \<and> set seen \<inter> set is = {}"
  by (induction seen "is" rule: authorization_ids_scan.induct) auto

lemma NewAuthorizationScope_valid:
  "AuthorizationScope_Validate (NewAuthorizationScope ids) = None \<longleftrightarrow> [] \<notin> set ids"
proof -
  have s: "set (unique_ids [] ids) = set ids" and d: "distinct (unique_ids [] ids)"
    by (simp_all add: unique_ids_set unique_ids_distinct)
  have e: "unique_ids [] ids = [] \<longleftrightarrow> ids = []" using s by (metis set_empty)
  show ?thesis
    by (simp add: AuthorizationScope_Validate_def NewAuthorizationScope_def NewInstallationAuthorizationScope_def
        NewAuthoritiesAuthorizationScope_def authorization_ids_scan_None s d e)
qed

subsection \<open>Dependencies\<close>

record required =
  rd_Name :: string
  rd_Missing :: bool

fun firstMissing :: "required list \<Rightarrow> go_error option" where
  "firstMissing [] = None"
| "firstMissing (dep # deps) =
     (if rd_Missing dep
        then Some (App (AppError_WithField (NewAppError ErrorKindValidation ''service_dependency_missing''
          ''a required service dependency is not configured'') ''dependency'' (rd_Name dep)))
      else firstMissing deps)"

text \<open>Which of the common dependencies are present.\<close>

record CommonDeps =
  dp_UnitOfWork :: bool
  dp_ReadStore :: bool
  dp_Authorizer :: bool
  dp_Clock :: bool
  dp_IDs :: bool

definition CommonDeps_Validate :: "CommonDeps \<Rightarrow> go_error option" where
  "CommonDeps_Validate d = firstMissing
     [\<lparr>rd_Name = ''UnitOfWork'', rd_Missing = \<not> dp_UnitOfWork d\<rparr>,
      \<lparr>rd_Name = ''ReadStore'', rd_Missing = \<not> dp_ReadStore d\<rparr>,
      \<lparr>rd_Name = ''Authorizer'', rd_Missing = \<not> dp_Authorizer d\<rparr>,
      \<lparr>rd_Name = ''Clock'', rd_Missing = \<not> dp_Clock d\<rparr>,
      \<lparr>rd_Name = ''IDs'', rd_Missing = \<not> dp_IDs d\<rparr>]"

lemma firstMissing_None [success_iff]: "firstMissing ds = None \<longleftrightarrow> list_all (\<lambda>d. \<not> rd_Missing d) ds"
  by (induction ds) auto

end
