(* ===== verification/Revocation_Batch.thy ===== *)
theory Revocation_Batch
  imports Ledger_Store "HOL-Library.List_Lexorder"
begin

text \<open>
  \<open>internal/app/service/revocations.go\<close>: \<open>applyRevocations\<close>, the one place the services record
  revocations. A batch is grouped by issuer key; each issuer's changes are resolved against the
  ledger before anything is written, and if any of them alters a row the issuer's generation is
  advanced once, stamped on every altered row, and a CRL demand is recorded. The functions run
  inside the caller's transaction over the store of \<open>Ledger_Store\<close>.
\<close>

subsection \<open>Requests\<close>

definition JobKindCRLPublish :: string where "JobKindCRLPublish = ''crl_publish''"

definition crlPublishPayloadVersion :: int64 where "crlPublishPayloadVersion = 1"

text \<open>Decimal text of an integer: \<open>%d\<close>, and what \<open>json.Marshal\<close> writes for an \<open>int64\<close>.\<close>

definition crlPublishPayload :: "int64 \<Rightarrow> string" where
  "crlPublishPayload g = ''{\"required_generation\":'' @ int_text g @ ''}''"

definition CRLDedupKey :: "CAKeyGenerationID \<Rightarrow> string" where
  "CRLDedupKey issuer = JobKindCRLPublish @ '':'' @ issuer"

record RevocationChange =
  rc_IssuerID :: CAKeyGenerationID
  rc_Serial :: SerialNumber
  rc_CertificateID :: CertificateID
  rc_RevokedAt :: Instant
  rc_Reason :: RevocationReason
  rc_Source :: RevocationSource
  rc_AuthorityID :: AuthorityID
  rc_NeedsReview :: bool

record RevocationMeta =
  rm_Request :: RequestMeta
  rm_ActorKind :: string
  rm_ActorID :: string
  rm_TokenID :: string
  rm_Action :: string
  rm_Now :: Instant
  rm_IDs :: "(nat \<Rightarrow> string) option"

definition RevocationMeta_validate :: "RevocationMeta \<Rightarrow> go_error option" where
  "RevocationMeta_validate m =
     (if rm_Action m = []
        then Some (App (NewAppError ErrorKindValidation ''revocation_audit_action_missing''
          ''an applyRevocations batch must name the action it is recorded under''))
      else if Instant_IsZero (rm_Now m)
        then Some (App (NewAppError ErrorKindValidation ''revocation_now_missing''
          ''an applyRevocations batch requires the current time''))
      else if rm_IDs m = None
        then Some (App (NewAppError ErrorKindValidation ''revocation_ids_missing''
          ''an applyRevocations batch requires an id generator''))
      else None)"

record RevocationOutcome =
  ro_Changed :: nat
  ro_Generations :: "CAKeyGenerationID \<rightharpoonup> int64"

definition no_outcome :: RevocationOutcome where
  "no_outcome = \<lparr>ro_Changed = 0, ro_Generations = Map.empty\<rparr>"

subsection \<open>Grouping\<close>

fun check_changes :: "RevocationChange list \<Rightarrow> go_error option" where
  "check_changes [] = None"
| "check_changes (c # cs) =
     (case ParseCAKeyGenerationID (rc_IssuerID c) of
        Inl e \<Rightarrow> FromDomainError (Some (Domain e))
      | Inr _ \<Rightarrow>
          if SerialNumber_IsZero (rc_Serial c)
            then Some (App (NewAppError ErrorKindValidation ''revocation_serial_missing''
              ''a revocation change must carry a serial''))
          else check_changes cs)"

definition changes_of :: "RevocationChange list \<Rightarrow> CAKeyGenerationID \<Rightarrow> RevocationChange list" where
  "changes_of chs issuer = filter (\<lambda>c. rc_IssuerID c = issuer) chs"

definition groupByIssuer ::
  "RevocationChange list \<Rightarrow>
     go_error + (CAKeyGenerationID \<Rightarrow> RevocationChange list) \<times> CAKeyGenerationID list" where
  "groupByIssuer chs =
     check_then (check_changes chs)
       (Inr (changes_of chs, sort (remdups (map rc_IssuerID chs))))"

subsection \<open>One issuer\<close>

record pendingRevocation =
  pd_change :: RevocationChange
  pd_revocation :: Revocation
  pd_expectedVersion :: Version
  pd_isNew :: bool

definition change_facts :: "RevocationChange \<Rightarrow> RevocationFacts" where
  "change_facts c = \<lparr>rvf_ID = [], rvf_IssuerID = rc_IssuerID c, rvf_Serial = rc_Serial c,
     rvf_CertificateID = rc_CertificateID c, rvf_RevokedAt = rc_RevokedAt c,
     rvf_Reason = rc_Reason c, rvf_Source = rc_Source c, rvf_ChangeGeneration = 0,
     rvf_NeedsReview = rc_NeedsReview c, rvf_Version = 0\<rparr>"

definition resolveChange ::
  "(nat \<Rightarrow> string) \<Rightarrow> RevocationChange \<Rightarrow> (ledger, pendingRevocation option) tx" where
  "resolveChange ids c =
     tx_bind (tx_try (FindForUpdate (rc_IssuerID c) (rc_Serial c))) (\<lambda>r. case r of
       Inr existing \<Rightarrow>
         tx_bind (tx_domain (Merge existing (change_facts c))) (\<lambda>(m, changed).
           if \<not> changed then tx_return None
           else tx_return (Some \<lparr>pd_change = c, pd_revocation = m,
                  pd_expectedVersion = rv_version existing, pd_isNew = False\<rparr>))
     | Inl e \<Rightarrow>
         if Is_port e ErrNotFound then
           tx_bind (NewUUID ids) (\<lambda>raw.
           tx_bind (tx_domain (ParseRevocationID raw)) (\<lambda>i.
           tx_bind (tx_domain (NewRevocation ((change_facts c)\<lparr>rvf_ID := i\<rparr>))) (\<lambda>created.
           tx_return (Some \<lparr>pd_change = c, pd_revocation = created, pd_expectedVersion = 0,
             pd_isNew = True\<rparr>))))
         else tx_fail (storeError e ''revocation_read_failed'' ''could not read the revocation ledger''))"

fun source_text :: "RevocationSource \<Rightarrow> string" where
  "source_text RevocationSourceManual = ''manual''"
| "source_text RevocationSourceImport = ''import''"
| "source_text RevocationSourceCascade = ''cascade''"
| "source_text (RevocationSourceOther s) = s"

definition clientIP :: "RequestMeta \<Rightarrow> string" where
  "clientIP m = (case rq_ClientIP m of None \<Rightarrow> [] | Some a \<Rightarrow> Addr_String a)"

definition revocation_event :: "RevocationMeta \<Rightarrow> string \<Rightarrow> Revocation \<Rightarrow> AuditEvent" where
  "revocation_event m i r =
     \<lparr>ae_ID = i, ae_OccurredAt = rm_Now m, ae_ActorKind = rm_ActorKind m, ae_ActorID = rm_ActorID m,
      ae_TokenID = rm_TokenID m, ae_Action = rm_Action m, ae_TargetType = ''revocation'',
      ae_TargetID = rv_id r, ae_ClientIP = clientIP (rm_Request m), ae_Result = ''success'',
      ae_Details = \<lparr>ad_SchemaVersion = 1,
        ad_Fields = [''issuer'' \<mapsto> rv_issuerID r, ''serial'' \<mapsto> sn_hex (rv_serial r),
          ''reason'' \<mapsto> RevocationReason_String (rv_reason r),
          ''source'' \<mapsto> source_text (rv_source r),
          ''change_generation'' \<mapsto> int_text (rv_changeGeneration r)]\<rparr>\<rparr>"

definition scope_missing :: go_error where
  "scope_missing = App (NewAppError ErrorKindUnavailable ''revocation_audit_scope_missing''
     ''could not resolve the issuer authority for the revocation audit event'')"

definition appendRevocationAudit ::
  "(nat \<Rightarrow> string) \<Rightarrow> Revocation \<Rightarrow> RevocationChange \<Rightarrow> RevocationMeta \<Rightarrow> (ledger, unit) tx" where
  "appendRevocationAudit ids r c m =
     tx_bind (NewUUID ids) (\<lambda>i.
     tx_bind (if rc_AuthorityID c = []
              then tx_or (tx_bind (GetCAKeyGeneration (rv_issuerID r)) (\<lambda>g. tx_return (cg_AuthorityID g)))
                     (\<lambda>e. if Is_port e ErrNotFound then scope_missing
                          else storeError e ''revocation_audit_scope_read_failed''
                            ''could not read the issuer authority for the revocation audit event'')
              else tx_return (rc_AuthorityID c)) (\<lambda>authorityID.
     if authorityID = []
       then tx_fail (App (NewAppError ErrorKindUnavailable ''revocation_audit_scope_missing''
         ''could not resolve an authority scope for the revocation audit event''))
     else tx_or (Audit_Append (revocation_event m i r) (NewAuthoritiesAuditScope [authorityID]))
            (\<lambda>e. storeError e ''revocation_audit_failed''
              ''could not record the revocation audit event'')))"

definition recordCRLDemand :: "CAKeyGenerationID \<Rightarrow> int64 \<Rightarrow> (ledger, unit) tx" where
  "recordCRLDemand issuer g =
     tx_or (UpsertDemand (CRLDedupKey issuer) JobKindCRLPublish crlPublishPayloadVersion
              (crlPublishPayload g))
       (\<lambda>e. storeError e ''crl_demand_failed'' ''could not record the CRL publication demand'')"

definition write_pending ::
  "(nat \<Rightarrow> string) \<Rightarrow> RevocationMeta \<Rightarrow> int64 \<Rightarrow> pendingRevocation \<Rightarrow> (ledger, unit) tx" where
  "write_pending ids m g p =
     tx_bind (tx_domain (StampChangeGeneration (pd_revocation p) g)) (\<lambda>stamped.
     tx_bind (if pd_isNew p
              then tx_or (Revocations_Insert stamped)
                     (\<lambda>e. storeError e ''revocation_insert_failed'' ''could not record the revocation'')
              else tx_or (Revocations_Save stamped (pd_expectedVersion p))
                     (\<lambda>e. storeError e ''revocation_save_failed'' ''could not update the revocation''))
       (\<lambda>_. appendRevocationAudit ids stamped (pd_change p) m))"

fun somes :: "'a option list \<Rightarrow> 'a list" where
  "somes [] = []"
| "somes (None # xs) = somes xs"
| "somes (Some x # xs) = x # somes xs"

definition applyIssuerBatch ::
  "(nat \<Rightarrow> string) \<Rightarrow> CAKeyGenerationID \<Rightarrow> RevocationChange list \<Rightarrow> RevocationMeta
     \<Rightarrow> (ledger, nat \<times> int64) tx" where
  "applyIssuerBatch ids issuer chs m =
     tx_bind (tx_or (GetStateForUpdate issuer)
                (\<lambda>e. if Is_port e ErrNotFound
                     then App (AppError_WithField (WrapAppError ErrorKindValidation
                       ''revocation_issuer_unknown'' ''the issuing CA key has no CRL state'' e)
                       ''issuer'' issuer)
                     else storeError e ''revocation_crl_state_read_failed''
                       ''could not read the issuer CRL state'')) (\<lambda>state.
     tx_bind (tx_list (resolveChange ids) chs) (\<lambda>resolved.
     let pending = somes resolved in
     if pending = [] then tx_return (0, 0)
     else
       let state' = BumpRevocationGeneration state; generation = cs_revocationGeneration state' in
       tx_bind (tx_list (write_pending ids m generation) pending) (\<lambda>_.
       tx_bind (tx_or (SaveState state' (cs_version state))
                  (\<lambda>e. storeError e ''revocation_crl_state_save_failed''
                    ''could not update the issuer CRL state'')) (\<lambda>_.
       tx_bind (recordCRLDemand issuer generation) (\<lambda>_.
       tx_return (length pending, generation))))))"

subsection \<open>The batch\<close>

fun apply_issuers ::
  "(nat \<Rightarrow> string) \<Rightarrow> (CAKeyGenerationID \<Rightarrow> RevocationChange list) \<Rightarrow> RevocationMeta
     \<Rightarrow> RevocationOutcome \<Rightarrow> CAKeyGenerationID list \<Rightarrow> (ledger, RevocationOutcome) tx" where
  "apply_issuers ids byIssuer m out [] = tx_return out"
| "apply_issuers ids byIssuer m out (issuer # order) =
     tx_bind (applyIssuerBatch ids issuer (byIssuer issuer) m) (\<lambda>(changed, generation).
       apply_issuers ids byIssuer m
         (if changed = 0 then out
          else \<lparr>ro_Changed = ro_Changed out + changed,
                ro_Generations = (ro_Generations out)(issuer \<mapsto> generation)\<rparr>) order)"

definition applyRevocations ::
  "RevocationChange list \<Rightarrow> RevocationMeta \<Rightarrow> (ledger, RevocationOutcome) tx" where
  "applyRevocations chs m =
     (if chs = [] then tx_return no_outcome
      else case RevocationMeta_validate m of
        Some e \<Rightarrow> tx_fail e
      | None \<Rightarrow>
          (case groupByIssuer chs of
             Inl e \<Rightarrow> tx_fail e
           | Inr (byIssuer, order) \<Rightarrow>
               apply_issuers (the (rm_IDs m)) byIssuer m no_outcome order))"

subsection \<open>Resolving\<close>

definition change_key :: "RevocationChange \<Rightarrow> CAKeyGenerationID \<times> string" where
  "change_key c = (rc_IssuerID c, sn_hex (rc_Serial c))"

text \<open>A change alters the ledger when its row is missing or \<open>Merge\<close> would report a change.\<close>

definition alters :: "ledger \<Rightarrow> RevocationChange \<Rightarrow> bool" where
  "alters w c = (case lg_revocations w (change_key c) of
     None \<Rightarrow> True | Some r \<Rightarrow> merged r (change_facts c) \<noteq> r)"

definition resolved_from :: "ledger \<Rightarrow> pendingRevocation \<Rightarrow> bool" where
  "resolved_from w p \<longleftrightarrow> row_key (pd_revocation p) = change_key (pd_change p)
     \<and> (case lg_revocations w (change_key (pd_change p)) of
          None \<Rightarrow> pd_isNew p \<and> rv_reason (pd_revocation p) = rc_Reason (pd_change p)
            \<and> rv_revokedAt (pd_revocation p) = rc_RevokedAt (pd_change p)
        | Some r \<Rightarrow> \<not> pd_isNew p \<and> pd_expectedVersion p = rv_version r
            \<and> pd_revocation p = merged r (change_facts (pd_change p)) \<and> pd_revocation p \<noteq> r)"

lemma uuids_irrelevant [simp]:
  "alters (w\<lparr>lg_uuids := n\<rparr>) = alters w" "resolved_from (w\<lparr>lg_uuids := n\<rparr>) = resolved_from w"
  by (simp_all add: fun_eq_iff alters_def resolved_from_def)

lemma same_uuids [simp]: "\<exists>n. w = w\<lparr>lg_uuids := n\<rparr>"
  by (rule exI [of _ "lg_uuids w"]) simp

lemma merged_keeps_key [simp]: "row_key (merged r f) = row_key r"
  by (simp add: merged_def row_key_def)

lemma stamped_key [simp]:
  "row_key (r\<lparr>rv_changeGeneration := g, rv_version := v\<rparr>) = row_key r"
  by (simp add: row_key_def)

lemma found_key:
  assumes "assertion_ok r (change_facts c)"
  shows "row_key r = change_key c"
  using assms by (simp add: assertion_ok_def change_facts_def row_key_def change_key_def)

lemma created_key:
  assumes "NewRevocation ((change_facts c)\<lparr>rvf_ID := i\<rparr>) = Inr r"
  shows "row_key r = change_key c \<and> rv_reason r = rc_Reason c \<and> rv_revokedAt r = rc_RevokedAt c"
proof -
  have "rv_issuerID r = rvf_IssuerID f \<and> rv_serial r = rvf_Serial f \<and> rv_reason r = rvf_Reason f
    \<and> rv_revokedAt r = rvf_RevokedAt f" if "NewRevocation f = Inr r" for f
    using that by (auto simp: NewRevocation_def success_iff split: if_splits)
  from this [OF assms] show ?thesis by (simp add: change_facts_def row_key_def change_key_def)
qed

lemma resolveChange_result:
  assumes "resolveChange ids c w = (Inr q, w')"
  shows "(\<exists>n. w' = w\<lparr>lg_uuids := n\<rparr>)
    \<and> (case q of None \<Rightarrow> \<not> alters w c
       | Some p \<Rightarrow> pd_change p = c \<and> alters w c \<and> resolved_from w p)"
proof (cases "lg_revocations w (change_key c)")
  case None
  then have find: "FindForUpdate (rc_IssuerID c) (rc_Serial c) w = (Inl (Port ErrNotFound), w)"
    by (simp add: FindForUpdate_def found_def tx_fail_def change_key_def)
  from assms obtain i r where "q = Some \<lparr>pd_change = c, pd_revocation = r, pd_expectedVersion = 0,
      pd_isNew = True\<rparr>" "NewRevocation ((change_facts c)\<lparr>rvf_ID := i\<rparr>) = Inr r"
    "w' = w\<lparr>lg_uuids := Suc (lg_uuids w)\<rparr>"
    unfolding resolveChange_def by (auto simp: tx_bind_iff tx_try_iff find tx_return_iff NewUUID_iff tx_domain_iff)
  then show ?thesis by (auto simp: None alters_def resolved_from_def dest!: created_key)
next
  case (Some r)
  then have find: "FindForUpdate (rc_IssuerID c) (rc_Serial c) w = (Inr r, w)"
    by (simp add: FindForUpdate_def found_def tx_return_def change_key_def)
  from assms have ok: "assertion_ok r (change_facts c)" and w': "w' = w"
    and q: "q = (if merged r (change_facts c) = r then None
      else Some \<lparr>pd_change = c, pd_revocation = merged r (change_facts c),
        pd_expectedVersion = rv_version r, pd_isNew = False\<rparr>)"
    unfolding resolveChange_def
    by (auto simp: tx_bind_iff tx_try_iff find tx_return_iff tx_domain_iff Merge_Inr split: if_splits)
  from q w' found_key [OF ok] Some show ?thesis by (auto simp: alters_def resolved_from_def)
qed

lemma resolve_all:
  assumes "tx_list (resolveChange ids) cs w = (Inr qs, w')"
  shows "(\<exists>n. w' = w\<lparr>lg_uuids := n\<rparr>) \<and> map pd_change (somes qs) = filter (alters w) cs
    \<and> (\<forall>p\<in>set (somes qs). resolved_from w p)"
  using assms
proof (induction cs arbitrary: w qs)
  case Nil
  from Nil show ?case by (auto simp: tx_return_iff)
next
  case (Cons c cs)
  from Cons.prems obtain q w1 rest where 1: "resolveChange ids c w = (Inr q, w1)"
    and 2: "tx_list (resolveChange ids) cs w1 = (Inr rest, w')" and qs: "qs = q # rest"
    by (auto simp: tx_bind_iff tx_return_iff)
  from resolveChange_result [OF 1] obtain n where w1: "w1 = w\<lparr>lg_uuids := n\<rparr>" by blast
  from Cons.IH [OF 2] obtain k where "w' = w\<lparr>lg_uuids := k\<rparr>"
    and "map pd_change (somes rest) = filter (alters w) cs" "\<forall>p\<in>set (somes rest). resolved_from w p"
    by (auto simp: w1)
  with resolveChange_result [OF 1] show ?case by (cases q) (auto simp: qs)
qed

subsection \<open>Writing\<close>

definition stamped :: "int64 \<Rightarrow> pendingRevocation \<Rightarrow> Revocation" where
  "stamped g p = (pd_revocation p)\<lparr>rv_changeGeneration := g,
     rv_version := Version_Next (rv_version (pd_revocation p))\<rparr>"

lemma Version_Next_twice: "Version_Next (Version_Next v) \<noteq> v"
proof
  assume eq: "Version_Next (Version_Next v) = v"
  have w: "Version_Next (Version_Next v) = wrap64 (v + 2)"
    by (simp add: Version_Next_def wrap64_add_left add.assoc)
  with eq have "wrap64 v = v" by (metis wrap64_wrap64)
  with eq w wrap64_inc_fresh [of 2 v] show False by simp
qed

definition rest_of :: "ledger \<Rightarrow> (CAKeyGenerationID \<rightharpoonup> CRLState) \<times> (CAKeyGenerationID \<rightharpoonup> CAKeyGeneration)
    \<times> (JobID \<times> Job) list \<times> (string \<rightharpoonup> JobID) \<times> (OperationRequestKey \<rightharpoonup> OperationRequestResult)" where
  "rest_of w = (lg_crlStates w, lg_caKeyGenerations w, lg_jobs w, lg_jobByDedup w, lg_requestResults w)"

lemma appendRevocationAudit_effect:
  assumes "appendRevocationAudit ids r c m w = (Inr u, w')"
  shows "lg_revocations w' = lg_revocations w \<and> rest_of w' = rest_of w
    \<and> (\<exists>i sc. lg_auditEvents w' = lg_auditEvents w @ [(revocation_event m i r, sc)])"
  using assms unfolding appendRevocationAudit_def
  by (auto simp: tx_bind_iff tx_or_iff NewUUID_iff tx_return_iff tx_fail_iff Audit_Append_iff
      GetCAKeyGeneration_def found_iff rest_of_def split: if_splits)

lemma write_pending_effect:
  assumes "write_pending ids m g p w = (Inr u, w')"
  shows "lg_revocations w' = (lg_revocations w)(row_key (pd_revocation p) \<mapsto> stamped g p)
    \<and> rest_of w' = rest_of w \<and> 0 < g \<and> rv_changeGeneration (pd_revocation p) < g
    \<and> length (lg_auditEvents w') = Suc (length (lg_auditEvents w))
    \<and> (case lg_revocations w (row_key (pd_revocation p)) of
         None \<Rightarrow> pd_isNew p | Some e \<Rightarrow> \<not> pd_isNew p \<and> rv_version e = pd_expectedVersion p)"
proof -
  from assms obtain w1 where g: "0 < g" "rv_changeGeneration (pd_revocation p) < g"
    and store: "(if pd_isNew p then lg_revocations w (row_key (pd_revocation p)) = None
       else \<exists>e. lg_revocations w (row_key (pd_revocation p)) = Some e \<and> rv_version e = pd_expectedVersion p)"
    and w1: "w1 = w\<lparr>lg_revocationRows := AList.update (row_key (pd_revocation p)) (stamped g p) (lg_revocationRows w)\<rparr>"
    and audit: "appendRevocationAudit ids (stamped g p) (pd_change p) m w1 = (Inr u, w')"
    unfolding write_pending_def stamped_def
    by (auto simp: tx_bind_iff tx_or_iff tx_domain_iff Stamp_Inr Insert_iff Save_iff split: if_splits)
  from appendRevocationAudit_effect [OF audit] w1 g store show ?thesis
    by (auto simp: rest_of_def split: if_splits option.splits)
qed

text \<open>Once a row has been written by a batch, no later item of that batch can touch it.\<close>

lemma blocked:
  assumes "tx_list (write_pending ids m g) ps w = (Inr us, w')" and "lg_revocations w k = Some s"
    and "\<forall>p\<in>set ps. row_key (pd_revocation p) = k \<longrightarrow> pd_isNew p \<or> pd_expectedVersion p \<noteq> rv_version s"
  shows "\<forall>p\<in>set ps. row_key (pd_revocation p) \<noteq> k"
  using assms
proof (induction ps arbitrary: w us)
  case (Cons p ps)
  from Cons.prems(1) obtain w1 rest where 1: "write_pending ids m g p w = (Inr (), w1)"
    and 2: "tx_list (write_pending ids m g) ps w1 = (Inr rest, w')"
    by (auto simp: tx_bind_iff tx_return_iff)
  have key: "row_key (pd_revocation p) \<noteq> k"
    using write_pending_effect [OF 1] Cons.prems(2,3) by (auto split: option.splits)
  with write_pending_effect [OF 1] Cons.prems(2) have "lg_revocations w1 k = Some s" by auto
  with Cons.IH [OF 2] Cons.prems(3) key show ?case by auto
qed simp

lemma resolved_from_frame:
  "lg_revocations w' (change_key (pd_change p)) = lg_revocations w (change_key (pd_change p)) \<Longrightarrow>
     resolved_from w' p = resolved_from w p"
  by (simp add: resolved_from_def)

lemma resolved_key: "resolved_from w p \<Longrightarrow> row_key (pd_revocation p) = change_key (pd_change p)"
  by (simp add: resolved_from_def)

text \<open>So the items that are written concern pairwise different rows, and the ledger ends up as the
  old one with exactly those rows replaced.\<close>

lemma write_all:
  assumes "tx_list (write_pending ids m g) ps w = (Inr us, w')" and "\<forall>p\<in>set ps. resolved_from w p"
  shows "distinct (map (change_key \<circ> pd_change) ps)
    \<and> lg_revocations w' = lg_revocations w ++ map_of (map (\<lambda>p. (change_key (pd_change p), stamped g p)) ps)
    \<and> rest_of w' = rest_of w
    \<and> length (lg_auditEvents w') = length (lg_auditEvents w) + length ps
    \<and> (\<forall>p\<in>set ps. 0 < g \<and> rv_changeGeneration (pd_revocation p) < g)"
  using assms
proof (induction ps arbitrary: w us)
  case Nil
  then show ?case by (simp add: tx_return_iff)
next
  case (Cons p ps)
  let ?key = "\<lambda>p. change_key (pd_change p)"
  from Cons.prems(1) obtain w1 rest where 1: "write_pending ids m g p w = (Inr (), w1)"
    and 2: "tx_list (write_pending ids m g) ps w1 = (Inr rest, w')"
    by (auto simp: tx_bind_iff tx_return_iff)
  from Cons.prems(2) have rp: "resolved_from w p" by simp
  note effect = write_pending_effect [OF 1, unfolded resolved_key [OF rp]]
  have nb: "pd_isNew q \<or> pd_expectedVersion q \<noteq> rv_version (stamped g p)"
    if q: "resolved_from w q" "?key q = ?key p" for q
  proof (cases "lg_revocations w (?key p)")
    case None
    with q show ?thesis by (simp add: resolved_from_def)
  next
    case (Some r)
    with q rp have "pd_expectedVersion q = rv_version r \<and> pd_revocation p = merged r (change_facts (pd_change p))
      \<and> pd_revocation p \<noteq> r" unfolding resolved_from_def by auto
    moreover from this have "rv_version (pd_revocation p) = Version_Next (rv_version r)"
      by (auto simp: merged_def split: if_splits)
    ultimately show ?thesis by (simp add: stamped_def Version_Next_twice [THEN not_sym])
  qed
  have "row_key (pd_revocation q) = ?key p \<longrightarrow> pd_isNew q \<or> pd_expectedVersion q \<noteq> rv_version (stamped g p)"
    if "q \<in> set ps" for q
  proof -
    from that Cons.prems(2) have "resolved_from w q" by simp
    from nb [OF this] resolved_key [OF this] show ?thesis by simp
  qed
  with effect have "\<forall>q\<in>set ps. row_key (pd_revocation q) \<noteq> ?key p"
    by (intro blocked [OF 2, where s = "stamped g p"]) simp_all
  with Cons.prems(2) have fresh: "\<forall>q\<in>set ps. ?key q \<noteq> ?key p"
    using resolved_key by (metis list.set_intros(2))
  with Cons.prems(2) effect have "\<forall>q\<in>set ps. resolved_from w1 q"
    using resolved_from_frame [of w1 _ w] by auto
  note IH = Cons.IH [OF 2 this]
  let ?m = "map_of (map (\<lambda>p. (?key p, stamped g p)) ps)"
  have "?key p \<notin> dom ?m"
    using fresh by (auto simp: domIff map_of_eq_None_iff)
  then have rows: "(lg_revocations w)(?key p \<mapsto> stamped g p) ++ ?m
      = lg_revocations w ++ map_of (map (\<lambda>p. (?key p, stamped g p)) (p # ps))"
    by (simp add: map_add_upd_left)
  with IH effect have "lg_revocations w' = lg_revocations w ++ map_of (map (\<lambda>p. (?key p, stamped g p)) (p # ps))"
    by (simp only:)
  moreover have "distinct (map (change_key \<circ> pd_change) (p # ps))"
    using IH fresh by (auto simp: comp_def)
  moreover have "rest_of w' = rest_of w" using IH effect by simp
  moreover have "length (lg_auditEvents w') = length (lg_auditEvents w) + length (p # ps)"
    using IH effect by simp
  moreover have "\<forall>q\<in>set (p # ps). 0 < g \<and> rv_changeGeneration (pd_revocation q) < g"
    using IH effect by simp
  ultimately show ?case by blast
qed

subsection \<open>What a batch does to one issuer\<close>

definition crl_keyed :: "ledger \<Rightarrow> bool" where
  "crl_keyed w \<longleftrightarrow> (\<forall>i st. lg_crlStates w i = Some st \<longrightarrow> cs_caKeyGenerationID st = i)"

text \<open>How an altered row relates to the row it replaces: nothing of the first report is lost.\<close>

definition supersedes :: "int64 \<Rightarrow> Revocation \<Rightarrow> Revocation \<Rightarrow> bool" where
  "supersedes g r e \<longleftrightarrow> revocation_identity r = revocation_identity e \<and> rv_reason r = rv_reason e
     \<and> rv_revokedAt r = rv_revokedAt e \<and> (rv_needsReview e \<longrightarrow> rv_needsReview r)
     \<and> rv_changeGeneration e < g"

definition written :: "ledger \<Rightarrow> ledger \<Rightarrow> int64 \<Rightarrow> RevocationChange \<Rightarrow> bool" where
  "written w w' g c \<longleftrightarrow> (\<exists>r. lg_revocations w' (change_key c) = Some r \<and> row_key r = change_key c
     \<and> rv_changeGeneration r = g
     \<and> (case lg_revocations w (change_key c) of
          None \<Rightarrow> rv_reason r = rc_Reason c \<and> rv_revokedAt r = rc_RevokedAt c
        | Some e \<Rightarrow> supersedes g r e))"

definition issuer_effect ::
  "ledger \<Rightarrow> ledger \<Rightarrow> CAKeyGenerationID \<Rightarrow> RevocationChange list \<Rightarrow> nat \<Rightarrow> int64 \<Rightarrow> bool" where
  "issuer_effect w w' i cs n g \<longleftrightarrow>
     n = length (filter (alters w) cs) \<and> distinct (map change_key (filter (alters w) cs))
     \<and> (\<forall>s. (i, s) \<notin> change_key ` set (filter (alters w) cs) \<longrightarrow>
          lg_revocations w' (i, s) = lg_revocations w (i, s))
     \<and> (\<forall>c\<in>set (filter (alters w) cs). written w w' g c)
     \<and> (if n = 0 then lg_crlStates w' i = lg_crlStates w i
        else 0 < g \<and> (\<exists>st. lg_crlStates w i = Some st
          \<and> lg_crlStates w' i = Some (BumpRevocationGeneration st)
          \<and> g = cs_revocationGeneration (BumpRevocationGeneration st)))"

definition agree :: "ledger \<Rightarrow> ledger \<Rightarrow> CAKeyGenerationID \<Rightarrow> bool" where
  "agree w w' i \<longleftrightarrow> (\<forall>s. lg_revocations w' (i, s) = lg_revocations w (i, s))
     \<and> lg_crlStates w' i = lg_crlStates w i"

lemma Bump_key [simp]: "cs_caKeyGenerationID (BumpRevocationGeneration st) = cs_caKeyGenerationID st"
  by (simp add: BumpRevocationGeneration_def)

lemma written_all:
  assumes rows: "lg_revocations w' = lg_revocations w
      ++ map_of (map (\<lambda>p. (change_key (pd_change p), stamped g p)) ps)"
    and dist: "distinct (map (change_key \<circ> pd_change) ps)"
    and res: "\<forall>p\<in>set ps. resolved_from w p"
    and gen: "\<forall>p\<in>set ps. rv_changeGeneration (pd_revocation p) < g"
  shows "\<forall>c\<in>set (map pd_change ps). written w w' g c"
    and "k \<notin> change_key ` set (map pd_change ps) \<Longrightarrow> lg_revocations w' k = lg_revocations w k"
proof -
  let ?m = "map_of (map (\<lambda>p. (change_key (pd_change p), stamped g p)) ps)"
  have dom: "?m k = None" if "k \<notin> change_key ` set (map pd_change ps)" for k
    using that by (auto simp: map_of_eq_None_iff image_image)
  show "k \<notin> change_key ` set (map pd_change ps) \<Longrightarrow> lg_revocations w' k = lg_revocations w k"
    by (simp add: rows map_add_def dom)
  show "\<forall>c\<in>set (map pd_change ps). written w w' g c"
  proof
    fix c assume "c \<in> set (map pd_change ps)"
    then obtain p where p: "p \<in> set ps" "c = pd_change p" by auto
    have "?m (change_key c) = Some (stamped g p)"
      using p dist by (subst map_of_eq_Some_iff) (auto simp: comp_def)
    then have row: "lg_revocations w' (change_key c) = Some (stamped g p)"
      by (simp add: rows map_add_def)
    from res p have r: "resolved_from w p" by blast
    from gen p have lt: "rv_changeGeneration (pd_revocation p) < g" by blast
    have kept: "supersedes g (stamped g p) e" if "lg_revocations w (change_key c) = Some e" for e
      using r that lt by (auto simp: resolved_from_def p supersedes_def stamped_def merged_def
          revocation_identity_def split: if_splits)
    show "written w w' g c"
      unfolding written_def using row r kept
      by (auto simp: p resolved_from_def stamped_def split: option.splits)
  qed
qed

lemma applyIssuerBatch_effect:
  assumes run: "applyIssuerBatch ids i cs m w = (Inr (n, g), w')" and keyed: "crl_keyed w"
    and cs: "\<forall>c\<in>set cs. rc_IssuerID c = i"
  shows "issuer_effect w w' i cs n g \<and> (\<forall>j. j \<noteq> i \<longrightarrow> agree w w' j)
    \<and> length (lg_auditEvents w') = length (lg_auditEvents w) + n"
proof -
  from run obtain st qs w1 where st: "lg_crlStates w i = Some st"
    and res: "tx_list (resolveChange ids) cs w = (Inr qs, w1)"
    and cont: "(let pending = somes qs in
     if pending = [] then tx_return (0, 0)
     else
       let state' = BumpRevocationGeneration st; generation = cs_revocationGeneration state' in
       tx_bind (tx_list (write_pending ids m generation) pending) (\<lambda>_.
       tx_bind (tx_or (SaveState state' (cs_version st))
                  (\<lambda>e. storeError e ''revocation_crl_state_save_failed''
                    ''could not update the issuer CRL state'')) (\<lambda>_.
       tx_bind (recordCRLDemand i generation) (\<lambda>_.
       tx_return (length pending, generation))))) w1 = (Inr (n, g), w')"
    unfolding applyIssuerBatch_def
    by (auto simp: tx_bind_iff tx_or_iff GetStateForUpdate_def found_iff)
  from resolve_all [OF res] obtain k where w1: "w1 = w\<lparr>lg_uuids := k\<rparr>"
    and sel: "map pd_change (somes qs) = filter (alters w) cs"
    and from_w: "\<forall>p\<in>set (somes qs). resolved_from w p" by blast
  have len: "length (somes qs) = length (filter (alters w) cs)"
    using arg_cong [OF sel, of length] by simp
  show ?thesis
  proof (cases "somes qs = []")
    case True
    with cont have "n = 0" "w' = w1" by (auto simp: tx_return_iff)
    with True sel show ?thesis by (simp add: w1 issuer_effect_def agree_def)
  next
    case False
    let ?g = "cs_revocationGeneration (BumpRevocationGeneration st)"
    from cont False obtain us w2 w3 where g: "g = ?g" "n = length (somes qs)"
      and wr: "tx_list (write_pending ids m ?g) (somes qs) w1 = (Inr us, w2)"
      and w3: "w3 = w2\<lparr>lg_crlStates := (lg_crlStates w2)(i \<mapsto> BumpRevocationGeneration st)\<rparr>"
      and dem: "recordCRLDemand i ?g w3 = (Inr (), w')"
      using keyed st
      by (auto simp: Let_def tx_bind_iff tx_or_iff tx_return_iff SaveState_iff crl_keyed_def)
    from from_w have "\<forall>p\<in>set (somes qs). resolved_from w1 p" by (simp add: w1)
    note eff = write_all [OF wr this]
    from dem have "UpsertDemand (CRLDedupKey i) JobKindCRLPublish crlPublishPayloadVersion
        (crlPublishPayload ?g) w3 = (Inr (), w')"
      by (simp add: recordCRLDemand_def tx_or_iff)
    from UpsertDemand_frame [OF this] have fr: "lg_revocations w' = lg_revocations w2"
      "lg_crlStates w' = (lg_crlStates w2)(i \<mapsto> BumpRevocationGeneration st)"
      "lg_auditEvents w' = lg_auditEvents w2" by (simp_all add: w3)
    have crl: "lg_crlStates w2 = lg_crlStates w" using eff by (simp add: rest_of_def w1)
    have dist: "distinct (map (change_key \<circ> pd_change) (somes qs))" using eff by blast
    have rows: "lg_revocations w' = lg_revocations w
        ++ map_of (map (\<lambda>p. (change_key (pd_change p), stamped ?g p)) (somes qs))"
      using eff fr by (simp add: w1)
    have gen: "\<forall>p\<in>set (somes qs). rv_changeGeneration (pd_revocation p) < ?g" using eff by blast
    have pos: "0 < ?g" using eff False by (cases "somes qs") auto
    note wrt = written_all [OF rows dist from_w gen, unfolded sel]
    have dist': "distinct (map change_key (filter (alters w) cs))"
      using dist by (simp add: sel [symmetric])
    have other: "agree w w' j" if "j \<noteq> i" for j
    proof -
      have "(j, s) \<notin> change_key ` set (filter (alters w) cs)" for s
        using cs that by (auto simp: change_key_def)
      from wrt(2) [OF this] that show ?thesis by (simp add: agree_def fr crl)
    qed
    have "length (lg_auditEvents w') = length (lg_auditEvents w) + n"
      using eff fr by (simp add: g w1)
    moreover have "issuer_effect w w' i cs n g"
      unfolding issuer_effect_def using wrt dist' pos len False st
      by (auto simp: g fr)
    ultimately show ?thesis using other by blast
  qed
qed

subsection \<open>What a batch does to the ledger\<close>

lemma agree_refl [simp]: "agree w w i"
  by (simp add: agree_def)

lemma agree_trans: "agree a b i \<Longrightarrow> agree b c i \<Longrightarrow> agree a c i"
  by (simp add: agree_def)

text \<open>The effect on one issuer only depends on that issuer's part of the ledger.\<close>

lemma issuer_effect_agree:
  assumes before: "agree w v i" and after: "agree w' v' i" and cs: "\<forall>c\<in>set cs. rc_IssuerID c = i"
    and eff: "issuer_effect w w' i cs n g"
  shows "issuer_effect v v' i cs n g"
proof -
  have rows: "lg_revocations v (change_key c) = lg_revocations w (change_key c)"
    "lg_revocations v' (change_key c) = lg_revocations w' (change_key c)" if "c \<in> set cs" for c
    using cs that before after by (auto simp: change_key_def agree_def)
  have alt: "filter (alters v) cs = filter (alters w) cs"
    by (rule filter_cong) (simp_all add: alters_def rows)
  have wr: "written v v' g c \<longleftrightarrow> written w w' g c" if "c \<in> set cs" for c
    by (simp add: written_def rows that)
  show ?thesis
    using eff before after unfolding issuer_effect_def alt
    by (auto simp: wr agree_def split: if_splits)
qed

lemma issuer_effect_keyed:
  assumes "issuer_effect w w' i cs n g" and "\<And>j. j \<noteq> i \<Longrightarrow> agree w w' j" and "crl_keyed w"
  shows "crl_keyed w'"
proof -
  have "cs_caKeyGenerationID st = j" if "lg_crlStates w' j = Some st" for j st
  proof (cases "j = i")
    case True
    with assms(1) that have "lg_crlStates w i = Some st \<or>
        (\<exists>s. lg_crlStates w i = Some s \<and> st = BumpRevocationGeneration s)"
      by (auto simp: issuer_effect_def split: if_splits)
    with True assms(3) show ?thesis by (auto simp: crl_keyed_def)
  next
    case False
    with assms(2) [OF False] that assms(3) show ?thesis by (auto simp: crl_keyed_def agree_def)
  qed
  then show ?thesis by (simp add: crl_keyed_def)
qed

lemma apply_issuers_effect:
  assumes "apply_issuers ids (changes_of cs) m out order w = (Inr out', w')"
    and "distinct order" and "crl_keyed w"
  shows "crl_keyed w' \<and> (\<forall>i. i \<notin> set order \<longrightarrow> agree w w' i \<and> ro_Generations out' i = ro_Generations out i)
    \<and> (\<forall>i\<in>set order. \<exists>n g. issuer_effect w w' i (changes_of cs i) n g
         \<and> ro_Generations out' i = (if n = 0 then ro_Generations out i else Some g))
    \<and> length (lg_auditEvents w') + ro_Changed out = length (lg_auditEvents w) + ro_Changed out'"
  using assms
proof (induction order arbitrary: out w)
  case Nil
  then show ?case by (simp add: tx_return_iff)
next
  case (Cons i order)
  let ?out = "\<lambda>n g. if n = 0 then out else \<lparr>ro_Changed = ro_Changed out + n,
                ro_Generations = (ro_Generations out)(i \<mapsto> g)\<rparr>"
  from Cons.prems(1) obtain n g w1 where
    1: "applyIssuerBatch ids i (changes_of cs i) m w = (Inr (n, g), w1)"
    and 2: "apply_issuers ids (changes_of cs) m (?out n g) order w1 = (Inr out', w')"
    by (auto simp: tx_bind_iff)
  have cs: "\<forall>c\<in>set (changes_of cs j). rc_IssuerID c = j" for j
    by (simp add: changes_of_def)
  note eff = applyIssuerBatch_effect [OF 1 Cons.prems(3) cs]
  have "crl_keyed w1" using eff issuer_effect_keyed [OF _ _ Cons.prems(3), of w1 i "changes_of cs i" n g] by blast
  note IH = Cons.IH [OF 2 _ this]
  from Cons.prems(2) have dist: "distinct order" "i \<notin> set order" by simp_all
  note IH = IH [OF dist(1)]
  have out_i: "ro_Generations (?out n g) i = (if n = 0 then ro_Generations out i else Some g)"
    "j \<noteq> i \<Longrightarrow> ro_Generations (?out n g) j = ro_Generations out j" for j by simp_all
  have "issuer_effect w w' i (changes_of cs i) n g"
    by (rule issuer_effect_agree [OF agree_refl _ cs]) (use IH eff dist in auto)
  moreover from IH dist(2) out_i(1)
  have "ro_Generations out' i = (if n = 0 then ro_Generations out i else Some g)" by simp
  ultimately have head: "\<exists>n g. issuer_effect w w' i (changes_of cs i) n g
      \<and> ro_Generations out' i = (if n = 0 then ro_Generations out i else Some g)" by blast
  have tail: "\<exists>n g. issuer_effect w w' j (changes_of cs j) n g
      \<and> ro_Generations out' j = (if n = 0 then ro_Generations out j else Some g)" if j: "j \<in> set order" for j
  proof -
    from j dist(2) have ne: "j \<noteq> i" by auto
    from IH j obtain n' g' where ih: "issuer_effect w1 w' j (changes_of cs j) n' g'"
      "ro_Generations out' j = (if n' = 0 then ro_Generations (?out n g) j else Some g')" by blast
    from eff ne have "agree w1 w j" by (simp add: agree_def)
    from issuer_effect_agree [OF this agree_refl cs ih(1)] ih(2) out_i(2) [OF ne] show ?thesis by metis
  qed
  moreover have "agree w w' j \<and> ro_Generations out' j = ro_Generations out j" if "j \<notin> set (i # order)" for j
    using IH eff that out_i(2) [of j] agree_trans [of w w1 j w'] by auto
  moreover have "length (lg_auditEvents w') + ro_Changed out = length (lg_auditEvents w) + ro_Changed out'"
    using IH eff by (simp split: if_splits)
  ultimately show ?case using IH head tail by simp
qed

lemma applyRevocations_effect:
  assumes "applyRevocations cs m w = (Inr out, w')" and "crl_keyed w"
  shows "(\<forall>i. \<exists>n g. issuer_effect w w' i (changes_of cs i) n g
         \<and> ro_Generations out i = (if n = 0 then None else Some g))
    \<and> length (lg_auditEvents w') = length (lg_auditEvents w) + ro_Changed out"
proof (cases "cs = []")
  case True
  have "issuer_effect w w i [] 0 0" for i by (simp add: issuer_effect_def)
  with True assms(1) show ?thesis
    by (auto simp: applyRevocations_def tx_return_iff no_outcome_def changes_of_def)
next
  case False
  let ?order = "sort (remdups (map rc_IssuerID cs))"
  from assms(1) False have run: "apply_issuers (the (rm_IDs m)) (changes_of cs) m no_outcome ?order w = (Inr out, w')"
    by (auto simp: applyRevocations_def groupByIssuer_def tx_fail_iff split: option.splits sum.splits
        elim!: check_then_Inr [THEN iffD1, elim_format])
  note eff = apply_issuers_effect [OF run _ assms(2)]
  have "\<exists>n g. issuer_effect w w' i (changes_of cs i) n g
      \<and> ro_Generations out i = (if n = 0 then None else Some g)" for i
  proof (cases "i \<in> set ?order")
    case True
    with eff obtain n g where "issuer_effect w w' i (changes_of cs i) n g"
      "ro_Generations out i = (if n = 0 then ro_Generations no_outcome i else Some g)" by auto
    moreover have "ro_Generations no_outcome i = None" by (simp add: no_outcome_def)
    ultimately show ?thesis by metis
  next
    case False
    then have "changes_of cs i = []" by (auto simp: changes_of_def filter_empty_conv)
    moreover from eff False have "agree w w' i" "ro_Generations out i = None" by (auto simp: no_outcome_def)
    ultimately have "issuer_effect w w' i (changes_of cs i) 0 0" by (auto simp: issuer_effect_def agree_def)
    with \<open>ro_Generations out i = None\<close> show ?thesis by auto
  qed
  with eff show ?thesis by (auto simp: no_outcome_def)
qed

lemma batch_rows_distinct:
  assumes "applyRevocations cs m w = (Inr out, w')" and "crl_keyed w"
  shows "distinct (map change_key (filter (alters w) (changes_of cs i)))"
  using applyRevocations_effect [OF assms] by (auto simp: issuer_effect_def)

subsection \<open>Properties\<close>

text \<open>C14. One generation per issuer and batch: an issuer the batch did not alter keeps its rows and
  its CRL state; for every other issuer the generation is advanced exactly once, each altered row
  carries exactly that generation, and at least one row was altered. One audit event is appended
  for each altered row.\<close>

theorem one_generation_per_batch:
  assumes "applyRevocations cs m w = (Inr out, w')" and "crl_keyed w"
  shows "(\<forall>i. ro_Generations out i = None \<longrightarrow>
        lg_crlStates w' i = lg_crlStates w i \<and> (\<forall>s. lg_revocations w' (i, s) = lg_revocations w (i, s)))
    \<and> (\<forall>i g. ro_Generations out i = Some g \<longrightarrow>
        (\<exists>st. lg_crlStates w i = Some st \<and> lg_crlStates w' i = Some (BumpRevocationGeneration st)
           \<and> g = cs_revocationGeneration (BumpRevocationGeneration st))
        \<and> (\<exists>s. lg_revocations w' (i, s) \<noteq> lg_revocations w (i, s))
        \<and> (\<forall>s r. lg_revocations w' (i, s) = Some r \<and> lg_revocations w (i, s) \<noteq> Some r
             \<longrightarrow> rv_changeGeneration r = g))
    \<and> length (lg_auditEvents w') = length (lg_auditEvents w) + ro_Changed out"
proof (intro conjI allI impI)
  note all = applyRevocations_effect [OF assms]
  have eff: "\<exists>n g. issuer_effect w w' i (changes_of cs i) n g
      \<and> ro_Generations out i = (if n = 0 then None else Some g)" for i using all by blast
  show "length (lg_auditEvents w') = length (lg_auditEvents w) + ro_Changed out" using all by blast
  fix i
  {
    assume "ro_Generations out i = None"
    with eff [of i] obtain g where e: "issuer_effect w w' i (changes_of cs i) 0 g"
      by (auto split: if_splits)
    then show "lg_crlStates w' i = lg_crlStates w i" by (simp add: issuer_effect_def)
    from e have none: "filter (alters w) (changes_of cs i) = []" by (simp add: issuer_effect_def)
    show "lg_revocations w' (i, s) = lg_revocations w (i, s)" for s
      using e unfolding issuer_effect_def none by simp
  }
  fix g
  assume "ro_Generations out i = Some g"
  with eff [of i] obtain n where n: "n \<noteq> 0" and e: "issuer_effect w w' i (changes_of cs i) n g"
    by (auto split: if_splits)
  let ?cs = "filter (alters w) (changes_of cs i)"
  from e n show "\<exists>st. lg_crlStates w i = Some st \<and> lg_crlStates w' i = Some (BumpRevocationGeneration st)
      \<and> g = cs_revocationGeneration (BumpRevocationGeneration st)" by (simp add: issuer_effect_def)
  have key: "change_key c = (i, sn_hex (rc_Serial c))" if "c \<in> set ?cs" for c
    using that by (simp add: change_key_def changes_of_def)
  have wr: "written w w' g c" if "c \<in> set ?cs" for c using e that unfolding issuer_effect_def by blast
  from e n have "?cs \<noteq> []" by (auto simp: issuer_effect_def)
  then obtain c where c: "c \<in> set ?cs" using last_in_set by blast
  from wr [OF c] have "lg_revocations w' (change_key c) \<noteq> lg_revocations w (change_key c)"
    by (cases "lg_revocations w (change_key c)") (auto simp: written_def supersedes_def)
  with key [OF c] show "\<exists>s. lg_revocations w' (i, s) \<noteq> lg_revocations w (i, s)" by auto
  show "rv_changeGeneration r = g"
    if r: "lg_revocations w' (i, s) = Some r \<and> lg_revocations w (i, s) \<noteq> Some r" for s r
  proof -
    from e r have "(i, s) \<in> change_key ` set ?cs" unfolding issuer_effect_def by fastforce
    then obtain c where c: "c \<in> set ?cs" "change_key c = (i, s)" by fastforce
    from wr [OF c(1)] r show ?thesis by (auto simp: written_def c(2))
  qed
qed

text \<open>C13. A recorded revocation is never lost or rewritten by a later batch: every row is still there
  afterwards with the same identity, reason and time and is at most additionally flagged for
  review, and every certificate the batch asserts to be revoked is revoked afterwards.\<close>

theorem batch_never_unrevokes:
  assumes "applyRevocations cs m w = (Inr out, w')" and "crl_keyed w"
  shows "(\<forall>k e. lg_revocations w k = Some e \<longrightarrow>
        (\<exists>r. lg_revocations w' k = Some r \<and> revocation_identity r = revocation_identity e
           \<and> rv_reason r = rv_reason e \<and> rv_revokedAt r = rv_revokedAt e
           \<and> (rv_needsReview e \<longrightarrow> rv_needsReview r)
           \<and> rv_changeGeneration e \<le> rv_changeGeneration r))
    \<and> (\<forall>c\<in>set cs. lg_revocations w' (change_key c) \<noteq> None)"
proof -
  have eff: "\<exists>n g. issuer_effect w w' i (changes_of cs i) n g" for i
    using applyRevocations_effect [OF assms] by blast
  have keep: "\<exists>r. lg_revocations w' k = Some r \<and> revocation_identity r = revocation_identity e
      \<and> rv_reason r = rv_reason e \<and> rv_revokedAt r = rv_revokedAt e
      \<and> (rv_needsReview e \<longrightarrow> rv_needsReview r) \<and> rv_changeGeneration e \<le> rv_changeGeneration r"
    if row: "lg_revocations w k = Some e" for k e
  proof -
    obtain i s where k: "k = (i, s)" by (cases k)
    from eff obtain n g where e: "issuer_effect w w' i (changes_of cs i) n g" by blast
    show ?thesis
    proof (cases "k \<in> change_key ` set (filter (alters w) (changes_of cs i))")
      case True
      then obtain c where c: "c \<in> set (filter (alters w) (changes_of cs i))" "k = change_key c" by blast
      with e have "written w w' g c" unfolding issuer_effect_def by blast
      with row c(2) show ?thesis by (auto simp: written_def supersedes_def)
    next
      case False
      with e k have "lg_revocations w' k = lg_revocations w k" unfolding issuer_effect_def by blast
      with row show ?thesis by simp
    qed
  qed
  have "lg_revocations w' (change_key c) \<noteq> None" if c: "c \<in> set cs" for c
  proof (cases "lg_revocations w (change_key c)")
    case None
    let ?i = "rc_IssuerID c"
    from eff obtain n g where e: "issuer_effect w w' ?i (changes_of cs ?i) n g" by blast
    have "c \<in> set (filter (alters w) (changes_of cs ?i))"
      using c None by (simp add: alters_def changes_of_def)
    with e have "written w w' g c" unfolding issuer_effect_def by blast
    then show ?thesis by (auto simp: written_def)
  next
    case (Some e)
    from keep [OF this] show ?thesis by auto
  qed
  with keep show ?thesis by blast
qed

lemma two_alterations_fail:
  assumes "crl_keyed w" and "a < b" and "b < length cs" and "change_key (cs ! a) = change_key (cs ! b)"
    and "alters w (cs ! a)" and "alters w (cs ! b)"
  shows "\<exists>e. atomically (applyRevocations cs m) w = (Inl e, w)"
proof (cases "applyRevocations cs m w")
  case (Pair r w')
  show ?thesis
  proof (cases r)
    case (Inl e)
    with Pair show ?thesis by (simp add: atomically_def)
  next
    case (Inr out)
    let ?i = "rc_IssuerID (cs ! a)" and ?P = "\<lambda>c. rc_IssuerID c = rc_IssuerID (cs ! a) \<and> alters w c"
    from batch_rows_distinct [of cs m w out w'] Pair Inr assms(1)
    have "distinct (map change_key (filter (alters w) (changes_of cs ?i)))" by simp
    moreover have "filter (alters w) (changes_of cs ?i) = filter ?P cs"
      by (simp add: changes_of_def conj_commute)
    moreover have cs: "cs = take b cs @ cs ! b # drop (Suc b) cs"
      using assms(3) by (simp add: id_take_nth_drop)
    moreover have Pb: "?P (cs ! b)" using assms(4,6) by (simp add: change_key_def)
    ultimately have "distinct (map change_key (filter ?P (take b cs @ cs ! b # drop (Suc b) cs)))"
      by simp
    with Pb have "change_key (cs ! b) \<notin> change_key ` set (filter ?P (take b cs))" by auto
    moreover have "cs ! a \<in> set (filter ?P (take b cs))"
      using assms(2,3,5) by (auto simp: in_set_conv_nth intro!: exI [of _ a])
    ultimately have False using assms(4) by (metis image_eqI)
    then show ?thesis ..
  qed
qed

text \<open>No batch may alter one ledger row twice: when two of its changes name the same issuer and
  serial and each of them would alter the row as it stands before the batch (because it is missing,
  or because both assertions change it), the whole batch fails and the caller's transaction is
  rolled back. The second insert meets the first one's row, the second save its version.\<close>

theorem same_row_twice_fails:
  assumes "crl_keyed w" and "a < b" and "b < length cs" and "change_key (cs ! a) = change_key (cs ! b)"
    and "alters w (cs ! a)" and "alters w (cs ! b)"
  shows "\<exists>e. atomically (applyRevocations cs m) w = (Inl e, w)"
  using assms by (rule two_alterations_fail)

text \<open>The relation between rows and generations that a CRL relies on: rows are filed under their own
  key, and no row carries a generation beyond its issuer's current one.\<close>

definition ledger_ok :: "ledger \<Rightarrow> bool" where
  "ledger_ok w \<longleftrightarrow> crl_keyed w
     \<and> (\<forall>i st. lg_crlStates w i = Some st \<longrightarrow> in_int64 (cs_revocationGeneration st))
     \<and> (\<forall>k r. lg_revocations w k = Some r \<longrightarrow> row_key r = k
          \<and> (\<exists>st. lg_crlStates w (fst k) = Some st \<and> rv_changeGeneration r \<le> cs_revocationGeneration st))"

lemma Bump_positive:
  assumes "in_int64 (cs_revocationGeneration st)"
    and "0 < cs_revocationGeneration (BumpRevocationGeneration st)"
  shows "cs_revocationGeneration (BumpRevocationGeneration st) = cs_revocationGeneration st + 1"
proof (cases "in_int64 (cs_revocationGeneration st + 1)")
  case True
  then show ?thesis by (simp add: BumpRevocationGeneration_def wrap64_id)
next
  case False
  with assms(1) have "cs_revocationGeneration st = max_int64" by (auto simp: int64_bounds)
  with assms(2) show ?thesis by (simp add: BumpRevocationGeneration_def wrap64_def int64_bounds)
qed

lemma issuer_effect_ok:
  assumes eff: "issuer_effect w w' i cs n g" and ok: "ledger_ok w" and row: "lg_revocations w' (i, s) = Some r"
    and cs: "\<forall>c\<in>set cs. rc_IssuerID c = i"
  shows "row_key r = (i, s) \<and> (\<exists>st. lg_crlStates w' i = Some st \<and> rv_changeGeneration r \<le> cs_revocationGeneration st)"
proof (cases "n = 0")
  case True
  with eff have "filter (alters w) cs = []" "lg_crlStates w' i = lg_crlStates w i"
    by (simp_all add: issuer_effect_def)
  with eff row have "lg_revocations w (i, s) = Some r" unfolding issuer_effect_def by simp
  with ok \<open>lg_crlStates w' i = _\<close> show ?thesis by (fastforce simp: ledger_ok_def)
next
  case False
  with eff obtain st where st: "lg_crlStates w i = Some st"
    "lg_crlStates w' i = Some (BumpRevocationGeneration st)"
    and g: "g = cs_revocationGeneration (BumpRevocationGeneration st)" "0 < g"
    by (auto simp: issuer_effect_def)
  from ok st(1) have "in_int64 (cs_revocationGeneration st)" by (auto simp: ledger_ok_def)
  with g have inc: "g = cs_revocationGeneration st + 1" using Bump_positive by simp
  show ?thesis
  proof (cases "(i, s) \<in> change_key ` set (filter (alters w) cs)")
    case True
    then obtain c where "c \<in> set (filter (alters w) cs)" "change_key c = (i, s)" by fastforce
    with eff have "written w w' g c" "change_key c = (i, s)" unfolding issuer_effect_def by blast+
    with row st(2) g(1) show ?thesis by (auto simp: written_def)
  next
    case False
    with eff row have "lg_revocations w (i, s) = Some r" unfolding issuer_effect_def by simp
    with ok have "row_key r = (i, s)" "\<exists>st. lg_crlStates w i = Some st \<and> rv_changeGeneration r \<le> cs_revocationGeneration st"
      by (fastforce simp: ledger_ok_def)+
    with st inc g show ?thesis by auto
  qed
qed

text \<open>C25. A batch keeps the ledger consistent: if rows are filed under their own issuer and serial and
  no row's change generation is ahead of its issuer's generation, the same holds afterwards, so a
  CRL that covers the issuer's current generation covers every recorded revocation.\<close>

theorem batch_keeps_ledger_ok:
  assumes "applyRevocations cs m w = (Inr out, w')" and "ledger_ok w"
  shows "ledger_ok w'"
proof -
  have keyed: "crl_keyed w" using assms(2) by (simp add: ledger_ok_def)
  have eff: "\<exists>n g. issuer_effect w w' i (changes_of cs i) n g" for i
    using applyRevocations_effect [OF assms(1) keyed] by blast
  have crl: "cs_caKeyGenerationID st = i \<and> in_int64 (cs_revocationGeneration st)"
    if "lg_crlStates w' i = Some st" for i st
  proof -
    from eff obtain n g where "issuer_effect w w' i (changes_of cs i) n g" by blast
    with that obtain s where "lg_crlStates w i = Some s" "st = s \<or> st = BumpRevocationGeneration s"
      by (auto simp: issuer_effect_def split: if_splits)
    moreover have "in_int64 (cs_revocationGeneration (BumpRevocationGeneration s))"
      by (simp add: BumpRevocationGeneration_def)
    ultimately show ?thesis using assms(2) by (auto simp: ledger_ok_def crl_keyed_def)
  qed
  have "row_key r = (i, s) \<and> (\<exists>st. lg_crlStates w' i = Some st \<and> rv_changeGeneration r \<le> cs_revocationGeneration st)"
    if row: "lg_revocations w' (i, s) = Some r" for i s r
  proof -
    from eff obtain n g where "issuer_effect w w' i (changes_of cs i) n g" by blast
    from issuer_effect_ok [OF this assms(2) row] show ?thesis by (simp add: changes_of_def)
  qed
  with crl show ?thesis unfolding ledger_ok_def crl_keyed_def by auto
qed

subsection \<open>Concrete batches\<close>

definition sample_ledger :: ledger where
  "sample_ledger = newState\<lparr>lg_crlStates :=
     [sample_uuid CHR ''2'' \<mapsto> \<lparr>cs_caKeyGenerationID = sample_uuid CHR ''2'',
       cs_maxReservedNumber = CRLNumber [], cs_revocationGeneration = 0, cs_publishedDocumentID = [],
       cs_publishedNumber = CRLNumber [], cs_publishedGeneration = 0, cs_nextPublishAt = zero_instant,
       cs_publicationState = PublicationStateInactive,
       cs_signingCACertificateID = sample_uuid CHR ''4'', cs_version = 1\<rparr>]\<rparr>"

definition sample_change_of :: "RevocationReason \<Rightarrow> RevocationChange" where
  "sample_change_of reason = \<lparr>rc_IssuerID = sample_uuid CHR ''2'', rc_Serial = SerialNumber ''ab'',
     rc_CertificateID = [], rc_RevokedAt = Instant 50, rc_Reason = reason,
     rc_Source = RevocationSourceManual, rc_AuthorityID = sample_uuid CHR ''5'', rc_NeedsReview = False\<rparr>"

definition sample_meta :: RevocationMeta where
  "sample_meta = \<lparr>rm_Request = \<lparr>rq_Principal = zero_principal, rq_RequestID = [], rq_ClientIP = None\<rparr>,
     rm_ActorKind = ''account'', rm_ActorID = [], rm_TokenID = [], rm_Action = ''revocation.revoke'',
     rm_Now = Instant 60, rm_IDs = Some (\<lambda>n. sample_uuid CHR ''3'')\<rparr>"

lemma sample_ledger_ok: "ledger_ok sample_ledger"
  by (simp add: ledger_ok_def crl_keyed_def sample_ledger_def newState_def int64_bounds)

definition sample_batch_changes :: "RevocationChange list \<Rightarrow> nat option" where
  "sample_batch_changes cs = (case applyRevocations cs sample_meta sample_ledger of
     (Inl _, _) \<Rightarrow> None | (Inr out, _) \<Rightarrow> Some (ro_Changed out))"

lemma sample_batch_runs:
  "\<exists>out w'. applyRevocations [sample_change_of RevocationReasonSuperseded] sample_meta sample_ledger = (Inr out, w')
     \<and> ro_Changed out = 1"
proof -
  have "sample_batch_changes [sample_change_of RevocationReasonSuperseded] = Some 1" by code_simp
  then show ?thesis by (auto simp: sample_batch_changes_def split: prod.splits sum.splits)
qed

theorem one_generation_per_batch_witness:
  "\<exists>out w'. applyRevocations [sample_change_of RevocationReasonSuperseded] sample_meta sample_ledger = (Inr out, w')
     \<and> length (lg_auditEvents w') = 1"
proof -
  obtain out w' where run: "applyRevocations [sample_change_of RevocationReasonSuperseded] sample_meta sample_ledger
      = (Inr out, w')" "ro_Changed out = 1" using sample_batch_runs by blast
  have "crl_keyed sample_ledger" using sample_ledger_ok by (simp add: ledger_ok_def)
  from one_generation_per_batch [OF run(1) this] run have "length (lg_auditEvents w') = 1"
    by (simp add: sample_ledger_def newState_def)
  with run(1) show ?thesis by blast
qed

theorem batch_never_unrevokes_witness:
  "\<exists>out w'. applyRevocations [sample_change_of RevocationReasonSuperseded] sample_meta sample_ledger = (Inr out, w')
     \<and> lg_revocations w' (sample_uuid CHR ''2'', ''ab'') \<noteq> None"
proof -
  obtain out w' where run: "applyRevocations [sample_change_of RevocationReasonSuperseded] sample_meta sample_ledger
      = (Inr out, w')" using sample_batch_runs by blast
  have "crl_keyed sample_ledger" using sample_ledger_ok by (simp add: ledger_ok_def)
  from batch_never_unrevokes [OF run this]
  have "lg_revocations w' (sample_uuid CHR ''2'', ''ab'') \<noteq> None"
    by (simp add: change_key_def sample_change_of_def)
  with run show ?thesis by blast
qed

theorem same_row_twice_fails_witness:
  "\<exists>e. atomically (applyRevocations [sample_change_of RevocationReasonKeyCompromise,
       sample_change_of RevocationReasonSuperseded] sample_meta) sample_ledger = (Inl e, sample_ledger)"
proof -
  have "crl_keyed sample_ledger" using sample_ledger_ok by (simp add: ledger_ok_def)
  then show ?thesis
    by (rule same_row_twice_fails [where a = 0 and b = 1])
      (simp_all add: change_key_def sample_change_of_def alters_def sample_ledger_def newState_def)
qed

theorem batch_keeps_ledger_ok_witness:
  "\<exists>out w'. applyRevocations [sample_change_of RevocationReasonSuperseded] sample_meta sample_ledger = (Inr out, w')
     \<and> ledger_ok w'"
  using sample_batch_runs batch_keeps_ledger_ok sample_ledger_ok by blast

end
