(* ===== verification/Auth_Service.thy ===== *)
theory Auth_Service
  imports Workflow_Store Requests Revocation_Batch
begin

text \<open>
  The two credential checks every service shares. \<open>internal/app/service/auth.go\<close>: the re-check, inside
  the transaction, that an administrator's session is still live. \<open>internal/app/service/preauth.go\<close>:
  the throttle in front of logins and password resets, counted per account and per client address
  in fixed windows of fifteen minutes. A reading of the clock is an argument of the function that
  reads it.
\<close>

subsection \<open>Live sessions\<close>

definition SessionIdleTimeout :: Duration where
  "SessionIdleTimeout = NewDuration go_hour"

definition authError :: "domain_error \<Rightarrow> go_error" where
  "authError err =
     (case As_policy (Domain err) of
        Some p \<Rightarrow> App (WrapAppError ErrorKindAuth (pe_Code p) (pe_Detail p) (Domain err))
      | None \<Rightarrow> App (WrapAppError ErrorKindAuth ''session_invalid'' ''this session is no longer valid''
          (Domain err)))"

definition requireCurrentAuth :: "Principal \<Rightarrow> Instant \<Rightarrow> (ledger, unit) tx" where
  "requireCurrentAuth p now =
     (if \<not> IsAdmin p then tx_return ()
      else
        tx_bind (tx_read (GetAccountForUpdate (Principal_AccountID p))
          (App (NewAppError ErrorKindAuth ''account_not_found''
            ''the account this session belongs to no longer exists''))
          ''account_read_failed'' ''could not read the account'') (\<lambda>account.
        if ac_authEpoch account \<noteq> Principal_AuthEpoch p
          then tx_fail (App (NewAppError ErrorKindAuth ''auth_epoch_superseded''
            ''this session was issued under a superseded auth epoch''))
        else
          tx_bind (tx_read (GetSessionForUpdate (Principal_SessionID p))
            (App (NewAppError ErrorKindAuth ''session_not_found'' ''this session no longer exists''))
            ''session_read_failed'' ''could not read the session'') (\<lambda>session.
          tx_guard (map_option authError (ValidateAt session now SessionIdleTimeout
            \<lparr>saf_AccountID = ac_id account, saf_State = ac_state account,
              saf_AuthEpoch = ac_authEpoch account\<rparr>)))))"

subsection \<open>The throttle\<close>

definition PreAuthFailureWindow :: Duration where
  "PreAuthFailureWindow = NewDuration (15 * go_minute)"

definition PreAuthFailureThreshold :: int64 where "PreAuthFailureThreshold = 10"

definition rateLimitKindLoginAccount :: string where "rateLimitKindLoginAccount = ''login_account''"
definition rateLimitKindLoginIP :: string where "rateLimitKindLoginIP = ''login_ip''"
definition rateLimitKindResetAccount :: string where "rateLimitKindResetAccount = ''reset_account''"
definition rateLimitKindResetIP :: string where "rateLimitKindResetIP = ''reset_ip''"

record preAuthSubject =
  ps_Kind :: string
  ps_Hash :: Fingerprint

definition loginSubjects :: "string \<Rightarrow> RequestMeta \<Rightarrow> preAuthSubject list" where
  "loginSubjects normalizedLoginName meta =
     [\<lparr>ps_Kind = rateLimitKindLoginAccount, ps_Hash = NewFingerprint normalizedLoginName\<rparr>,
      \<lparr>ps_Kind = rateLimitKindLoginIP, ps_Hash = NewFingerprint (clientIP meta)\<rparr>]"

definition resetSubjects :: "AccountID \<Rightarrow> RequestMeta \<Rightarrow> preAuthSubject list" where
  "resetSubjects accountID meta =
     [\<lparr>ps_Kind = rateLimitKindResetAccount, ps_Hash = NewFingerprint accountID\<rparr>,
      \<lparr>ps_Kind = rateLimitKindResetIP, ps_Hash = NewFingerprint (clientIP meta)\<rparr>]"

definition currentWindowStart :: "Instant \<Rightarrow> Instant" where
  "currentWindowStart now =
     (let width = d_micros PreAuthFailureWindow in
      if width \<le> 0 then now
      else NewInstant (wrap64 (micros now - go_mod (go_mod (micros now) width + width) width) * 1000))"

definition rateLimitedError :: "Instant \<Rightarrow> go_error" where
  "rateLimitedError until =
     App (AppError_WithField (NewAppError ErrorKindAuth ''rate_limited'' ''too many attempts; try again later'')
       ''retry_after_unix_micro'' (int_text (micros until)))"

fun admission_scan :: "preAuthSubject list \<Rightarrow> Instant \<Rightarrow> Instant \<Rightarrow> (ledger, unit) tx" where
  "admission_scan [] now windowStart = tx_return ()"
| "admission_scan (subject # subjects) now windowStart =
     tx_bind (tx_try (GetRateLimit (ps_Kind subject) (ps_Hash subject) windowStart)) (\<lambda>r.
       (case r of
          Inl err \<Rightarrow>
            if Is_port err ErrNotFound then admission_scan subjects now windowStart
            else tx_fail (storeError err ''rate_limit_read_failed'' ''could not read the attempt counter'')
        | Inr record \<Rightarrow>
            if \<not> Instant_IsZero (rl_BlockedUntil record) \<and> Before now (rl_BlockedUntil record)
              then tx_fail (rateLimitedError (rl_BlockedUntil record))
            else if PreAuthFailureThreshold \<le> rl_FailureCount record
              then tx_fail (rateLimitedError (Instant_Add windowStart PreAuthFailureWindow))
            else admission_scan subjects now windowStart))"

definition requirePreAuthAdmission :: "preAuthSubject list \<Rightarrow> Instant \<Rightarrow> (ledger, unit) tx" where
  "requirePreAuthAdmission subjects now = admission_scan subjects now (currentWindowStart now)"

text \<open>One more failure on a counter, stamped with the block at the threshold.\<close>

definition counted :: "preAuthSubject \<Rightarrow> Instant \<Rightarrow> RateLimitRecord \<Rightarrow> RateLimitRecord" where
  "counted subject windowStart r =
     (let r' = r\<lparr>rl_Kind := ps_Kind subject, rl_SubjectHash := ps_Hash subject, rl_WindowStart := windowStart,
            rl_FailureCount := wrap64 (rl_FailureCount r + 1)\<rparr> in
      if PreAuthFailureThreshold \<le> rl_FailureCount r'
        then r'\<lparr>rl_BlockedUntil := Instant_Add windowStart PreAuthFailureWindow\<rparr> else r')"

definition fresh_counter :: "preAuthSubject \<Rightarrow> Instant \<Rightarrow> RateLimitRecord" where
  "fresh_counter subject windowStart = \<lparr>rl_Kind = ps_Kind subject, rl_SubjectHash = ps_Hash subject,
     rl_WindowStart = windowStart, rl_FailureCount = 0, rl_BlockedUntil = zero_instant\<rparr>"

fun failure_scan :: "preAuthSubject list \<Rightarrow> Instant \<Rightarrow> (ledger, unit) tx" where
  "failure_scan [] windowStart = tx_return ()"
| "failure_scan (subject # subjects) windowStart =
     tx_bind (tx_try (GetRateLimit (ps_Kind subject) (ps_Hash subject) windowStart)) (\<lambda>r.
     tx_bind (case r of
          Inl err \<Rightarrow>
            if Is_port err ErrNotFound then tx_return (fresh_counter subject windowStart)
            else tx_fail (storeError err ''rate_limit_read_failed'' ''could not read the attempt counter'')
        | Inr record \<Rightarrow> tx_return record) (\<lambda>record.
     tx_bind (tx_or (SaveRateLimit (counted subject windowStart record))
        (\<lambda>e. storeError e ''rate_limit_write_failed'' ''could not record the failed attempt'')) (\<lambda>_.
     failure_scan subjects windowStart)))"

definition recordPreAuthFailure :: "preAuthSubject list \<Rightarrow> Instant \<Rightarrow> (ledger, unit) tx" where
  "recordPreAuthFailure subjects now = failure_scan subjects (currentWindowStart now)"

definition lockAccountByLoginName :: "string \<Rightarrow> (ledger, Account option) tx" where
  "lockAccountByLoginName normalizedLoginName =
     tx_bind (tx_try (FindAccountByLoginName normalizedLoginName)) (\<lambda>r.
       (case r of
          Inl err \<Rightarrow>
            if Is_port err ErrNotFound then tx_return None
            else tx_fail (storeError err ''account_lookup_failed'' ''could not look up the account'')
        | Inr found_account \<Rightarrow>
            tx_bind (tx_try (GetAccountForUpdate (ac_id found_account))) (\<lambda>r.
              (case r of
                 Inl err \<Rightarrow>
                   if Is_port err ErrNotFound then tx_return None
                   else tx_fail (storeError err ''account_read_failed'' ''could not read the account'')
               | Inr locked \<Rightarrow> tx_return (Some locked)))))"

subsection \<open>What the checks decide\<close>

lemma requireCurrentAuth_iff [tx_iff]:
  "requireCurrentAuth p now w = (Inr u, w') \<longleftrightarrow> w' = w \<and> (IsAdmin p \<longrightarrow>
     (\<exists>a s. map_of (lg_accounts w) (Principal_AccountID p) = Some a
        \<and> map_of (lg_sessions w) (Principal_SessionID p) = Some s
        \<and> ac_authEpoch a = Principal_AuthEpoch p
        \<and> ValidateAt s now SessionIdleTimeout (session_facts a) = None))"
  by (auto simp: requireCurrentAuth_def tx_iff GetAccountForUpdate_def GetSessionForUpdate_def session_facts_def)

lemma requireCurrentAuth_fails:
  assumes "requireCurrentAuth p now w = (Inl e, w')"
  shows "w' = w \<and> (\<exists>a. e = App a \<and> ae_kind a = ErrorKindAuth)"
  using assms
  by (auto simp: requireCurrentAuth_def tx_read_def tx_or_def tx_bind_def found_def tx_fail_def tx_return_def
      GetAccountForUpdate_def GetSessionForUpdate_def tx_guard_def authError_def NewAppError_def WrapAppError_def
      split: option.splits prod.splits sum.splits if_splits)

text \<open>C27. Every administrative change re-checks the credential as it is now: the check passes exactly
  for a request that is not an administrator's, or whose account row still has the principal's
  epoch, is active, and whose session row belongs to that account and epoch, was used less than an
  hour ago and is within its absolute lifetime. It writes nothing, and every refusal is an
  authentication error, never a conflict or a permission error.\<close>

theorem current_auth_exactly:
  "(fst (requireCurrentAuth p now w) = Inr () \<longleftrightarrow> (IsAdmin p \<longrightarrow>
     (\<exists>a s. map_of (lg_accounts w) (Principal_AccountID p) = Some a
        \<and> map_of (lg_sessions w) (Principal_SessionID p) = Some s
        \<and> ac_authEpoch a = Principal_AuthEpoch p \<and> ss_authEpoch s = Principal_AuthEpoch p
        \<and> ac_state a = AccountStateActive \<and> ss_accountID s = ac_id a
        \<and> now < Instant_Add (ss_lastSeenAt s) (Duration 3600000000) \<and> now < ss_absoluteExpiresAt s)))
   \<and> snd (requireCurrentAuth p now w) = w
   \<and> (\<forall>e. fst (requireCurrentAuth p now w) = Inl e \<longrightarrow> (\<exists>a. e = App a \<and> ae_kind a = ErrorKindAuth))"
proof -
  have idle: "SessionIdleTimeout = Duration 3600000000"
    by (simp add: SessionIdleTimeout_def NewDuration_def go_hour_def go_div_nonneg)
  have writes: "requireCurrentAuth p now w = (r, w') \<Longrightarrow> w' = w" for r w'
    by (cases r) (simp_all add: requireCurrentAuth_iff requireCurrentAuth_fails)
  obtain r where run: "requireCurrentAuth p now w = (r, w)" using writes by (metis surj_pair)
  have "(r = Inr ()) = (requireCurrentAuth p now w = (Inr (), w))" by (simp add: run)
  also have "\<dots> = (IsAdmin p \<longrightarrow>
     (\<exists>a s. map_of (lg_accounts w) (Principal_AccountID p) = Some a
        \<and> map_of (lg_sessions w) (Principal_SessionID p) = Some s
        \<and> ac_authEpoch a = Principal_AuthEpoch p \<and> ss_authEpoch s = Principal_AuthEpoch p
        \<and> ac_state a = AccountStateActive \<and> ss_accountID s = ac_id a
        \<and> now < Instant_Add (ss_lastSeenAt s) (Duration 3600000000) \<and> now < ss_absoluteExpiresAt s))"
    unfolding requireCurrentAuth_iff session_facts_def idle ValidateAt_None by auto
  finally have ok: "(r = Inr ()) = \<dots>" .
  have "(\<exists>a. e = App a \<and> ae_kind a = ErrorKindAuth)" if "r = Inl e" for e
    using requireCurrentAuth_fails [of p now w e w] run that by simp
  with ok show ?thesis by (simp add: run)
qed

definition sample_operator :: Principal where
  "sample_operator = zero_principal\<lparr>pr_kind := PrincipalKindAdmin, pr_accountID := sample_uuid CHR ''1'',
     pr_sessionID := sample_uuid CHR ''2'', pr_authEpoch := 3\<rparr>"

definition sample_login_store :: ledger where
  "sample_login_store = newState\<lparr>lg_accounts := [(sample_uuid CHR ''1'', sample_account)],
     lg_sessions := [(sample_uuid CHR ''2'', sample_session)]\<rparr>"

lemma sample_operator_simps [simp]:
  "IsAdmin sample_operator" "Principal_AccountID sample_operator = sample_uuid CHR ''1''"
  "Principal_SessionID sample_operator = sample_uuid CHR ''2''" "Principal_AuthEpoch sample_operator = 3"
  by (simp_all add: sample_operator_def IsAdmin_def Principal_Kind_def Principal_AccountID_def
      Principal_SessionID_def Principal_AuthEpoch_def)

theorem current_auth_exactly_witness:
  "fst (requireCurrentAuth sample_operator (Instant 900) sample_login_store) = Inr ()
   \<and> fst (requireCurrentAuth sample_operator (Instant 1000) sample_login_store) \<noteq> Inr ()"
proof -
  have add: "Instant_Add (Instant 10) (Duration 3600000000) = Instant 3600000010"
    by (simp add: Instant_Add_def wrap64_id int64_bounds)
  have row: "map_of (lg_accounts sample_login_store) (sample_uuid CHR ''1'') = Some sample_account"
    "map_of (lg_sessions sample_login_store) (sample_uuid CHR ''2'') = Some sample_session"
    by (simp_all add: sample_login_store_def)
  show ?thesis
    using current_auth_exactly [of sample_operator "Instant 900" sample_login_store, THEN conjunct1]
      current_auth_exactly [of sample_operator "Instant 1000" sample_login_store, THEN conjunct1]
    by (simp add: row add sample_account_def sample_session_def less_Instant_def)
qed

subsection \<open>What the throttle counts\<close>

definition subject_key :: "preAuthSubject \<Rightarrow> Instant \<Rightarrow> string \<times> string \<times> int64" where
  "subject_key s windowStart = rate_key (ps_Kind s) (ps_Hash s) windowStart"

definition bump :: "preAuthSubject \<Rightarrow> Instant \<Rightarrow> (string \<times> string \<times> int64 \<rightharpoonup> RateLimitRecord)
    \<Rightarrow> (string \<times> string \<times> int64 \<rightharpoonup> RateLimitRecord)" where
  "bump s ws m = m(subject_key s ws \<mapsto> counted s ws (case m (subject_key s ws) of None \<Rightarrow> fresh_counter s ws | Some r \<Rightarrow> r))"

lemma failure_scan_eq:
  "failure_scan ss ws w = (Inr (), w\<lparr>lg_rateLimits := fold (\<lambda>s. bump s ws) ss (lg_rateLimits w)\<rparr>)"
proof (induction ss arbitrary: w)
  case Nil
  show ?case by (simp add: tx_return_def)
next
  case (Cons s ss)
  have key: "rate_key (rl_Kind (counted s ws r)) (rl_SubjectHash (counted s ws r)) (rl_WindowStart (counted s ws r))
      = subject_key s ws" for r
    by (simp add: counted_def subject_key_def Let_def)
  have upd: "m(subject_key s ws \<mapsto> counted s ws (case m (subject_key s ws) of None \<Rightarrow> fresh_counter s ws | Some r \<Rightarrow> r))
      = bump s ws m" for m by (simp add: bump_def)
  show ?case
    by (cases "lg_rateLimits w (subject_key s ws)")
      (simp_all add: tx_bind_def tx_try_def GetRateLimit_def found_def tx_fail_def tx_return_def tx_or_def
        SaveRateLimit_def Cons key upd [symmetric] subject_key_def [symmetric])
qed

lemma bump_other: "k \<noteq> subject_key s ws \<Longrightarrow> bump s ws m k = m k"
  by (simp add: bump_def)

lemma bump_same:
  "bump s ws m (subject_key s ws)
     = Some (counted s ws (case m (subject_key s ws) of None \<Rightarrow> fresh_counter s ws | Some r \<Rightarrow> r))"
  by (simp add: bump_def)

lemma fold_bump_other:
  "k \<notin> (\<lambda>s. subject_key s ws) ` set ss \<Longrightarrow> fold (\<lambda>s. bump s ws) ss m k = m k"
  by (induction ss arbitrary: m) (auto simp: bump_other)

lemma subject_key_inj: "subject_key s ws = subject_key t vs \<Longrightarrow> ps_Kind s = ps_Kind t \<and> micros ws = micros vs"
  by (simp add: subject_key_def rate_key_def)

lemma fold_bump_subject:
  assumes "distinct (map ps_Kind ss)" and "s \<in> set ss"
  shows "fold (\<lambda>s. bump s ws) ss m (subject_key s ws)
    = Some (counted s ws (case m (subject_key s ws) of None \<Rightarrow> fresh_counter s ws | Some r \<Rightarrow> r))"
  using assms
proof (induction ss arbitrary: m)
  case Nil
  then show ?case by simp
next
  case (Cons t ss)
  show ?case
  proof (cases "s = t")
    case True
    then have kind: "ps_Kind s \<notin> ps_Kind ` set ss" using Cons.prems(1) by simp
    have "subject_key s ws \<noteq> subject_key u ws" if "u \<in> set ss" for u
      using subject_key_inj [of s ws u ws] that kind by (metis imageI)
    then have "subject_key s ws \<notin> (\<lambda>s. subject_key s ws) ` set ss" by blast
    then show ?thesis by (simp add: fold_bump_other True [symmetric] bump_same)
  next
    case False
    with Cons.prems have "s \<in> set ss" "ps_Kind s \<noteq> ps_Kind t" by (auto simp: image_iff)
    then have "subject_key s ws \<noteq> subject_key t ws" using subject_key_inj by blast
    with Cons \<open>s \<in> set ss\<close> show ?thesis by (simp add: bump_other)
  qed
qed

text \<open>The counter of a subject after \<open>n\<close> failures in a fresh window.\<close>

definition counter_after :: "nat \<Rightarrow> preAuthSubject \<Rightarrow> Instant \<Rightarrow> RateLimitRecord option" where
  "counter_after n s ws = (if n = 0 then None else Some
     \<lparr>rl_Kind = ps_Kind s, rl_SubjectHash = ps_Hash s, rl_WindowStart = ws, rl_FailureCount = int n,
      rl_BlockedUntil = (if PreAuthFailureThreshold \<le> int n then Instant_Add ws PreAuthFailureWindow
                         else zero_instant)\<rparr>)"

lemma counter_after_Suc:
  assumes "int (Suc n) \<le> max_int64"
  shows "Some (counted s ws (case counter_after n s ws of None \<Rightarrow> fresh_counter s ws | Some r \<Rightarrow> r))
    = counter_after (Suc n) s ws"
proof -
  have "wrap64 (int n + 1) = int n + 1" using assms by (simp add: wrap64_id int64_bounds)
  then show ?thesis
    by (auto simp: counter_after_def counted_def fresh_counter_def Let_def PreAuthFailureThreshold_def wrap64_id int64_bounds)
qed

lemma failures_counted:
  assumes "distinct (map ps_Kind ss)" and "\<forall>t\<in>set ts. currentWindowStart t = ws"
    and "\<forall>s\<in>set ss. lg_rateLimits w (subject_key s ws) = counter_after n s ws"
    and "int (n + length ts) \<le> max_int64"
  shows "\<exists>us. tx_list (recordPreAuthFailure ss) ts w = (Inr us, w\<lparr>lg_rateLimits := (fold (\<lambda>s. bump s ws) ss ^^ length ts) (lg_rateLimits w)\<rparr>)
    \<and> (\<forall>s\<in>set ss. (fold (\<lambda>s. bump s ws) ss ^^ length ts) (lg_rateLimits w) (subject_key s ws)
         = counter_after (n + length ts) s ws)"
  using assms(2-4)
proof (induction ts arbitrary: w n)
  case Nil
  then show ?case by (simp add: tx_return_def)
next
  case (Cons t ts)
  let ?w = "w\<lparr>lg_rateLimits := fold (\<lambda>s. bump s ws) ss (lg_rateLimits w)\<rparr>"
  have step: "recordPreAuthFailure ss t w = (Inr (), ?w)"
    using Cons.prems(1) by (simp add: recordPreAuthFailure_def failure_scan_eq)
  have small: "int (Suc n) \<le> max_int64" "int (Suc n + length ts) \<le> max_int64" using Cons.prems(3) by simp_all
  have "\<forall>s\<in>set ss. lg_rateLimits ?w (subject_key s ws) = counter_after (Suc n) s ws"
    using Cons.prems(2) by (simp add: fold_bump_subject [OF assms(1)] counter_after_Suc [OF small(1)])
  from Cons.IH [OF _ this small(2)] Cons.prems(1) obtain us where
    "tx_list (recordPreAuthFailure ss) ts ?w = (Inr us, ?w\<lparr>lg_rateLimits := (fold (\<lambda>s. bump s ws) ss ^^ length ts) (lg_rateLimits ?w)\<rparr>)"
    "\<forall>s\<in>set ss. (fold (\<lambda>s. bump s ws) ss ^^ length ts) (lg_rateLimits ?w) (subject_key s ws)
         = counter_after (Suc n + length ts) s ws" by auto
  then show ?case by (auto simp: tx_bind_def step tx_return_def funpow_swap1)
qed

lemma admission_scan_counted:
  assumes "\<forall>s\<in>set ss. lg_rateLimits w (subject_key s ws) = counter_after n s ws"
  shows "fst (admission_scan ss now ws w) = (if ss \<noteq> [] \<and> PreAuthFailureThreshold \<le> int n
    then Inl (rateLimitedError (Instant_Add ws PreAuthFailureWindow)) else Inr ())"
  using assms
proof (induction ss)
  case Nil
  show ?case by (simp add: tx_return_def)
next
  case (Cons s ss)
  then show ?case
    by (auto simp: tx_bind_def tx_try_def GetRateLimit_def found_def tx_fail_def tx_return_def
        subject_key_def [symmetric] counter_after_def PreAuthFailureThreshold_def Instant_IsZero_def zero_instant_def)
qed

lemma admission_scan_cong:
  assumes "\<forall>s\<in>set ss. lg_rateLimits w (subject_key s ws) = lg_rateLimits v (subject_key s ws)"
  shows "fst (admission_scan ss now ws w) = fst (admission_scan ss now ws v)"
  using assms
  by (induction ss) (auto simp: tx_bind_def tx_try_def GetRateLimit_def found_def tx_fail_def tx_return_def
      subject_key_def [symmetric] split: option.splits)

lemma funpow_bump_other:
  "k \<notin> (\<lambda>s. subject_key s ws) ` set ss \<Longrightarrow> (fold (\<lambda>s. bump s ws) ss ^^ n) m k = m k"
  by (induction n) (simp_all add: fold_bump_other)

text \<open>C21. The throttle is exact: starting from a window without failures, recording \<open>n\<close> of them for the
  same subjects (whatever the order of the readings inside the window) leaves them admitted when
  \<open>n < 10\<close> and refuses them with the end of the window as the time to retry when \<open>10 \<le> n\<close>. Asking
  counts nothing, and in any other window the outcome is what it was, so no block outlives its
  window.\<close>

theorem throttle_exact:
  assumes "distinct (map ps_Kind ss)" and "ss \<noteq> []"
    and "\<forall>t\<in>set ts. currentWindowStart t = currentWindowStart now"
    and "\<forall>s\<in>set ss. lg_rateLimits w (subject_key s (currentWindowStart now)) = None"
    and "int (length ts) \<le> max_int64"
  shows "\<exists>us w'. tx_list (recordPreAuthFailure ss) ts w = (Inr us, w')
    \<and> requirePreAuthAdmission ss now w' = (if length ts < 10 then Inr ()
        else Inl (rateLimitedError (Instant_Add (currentWindowStart now) PreAuthFailureWindow)), w')
    \<and> (\<forall>later. currentWindowStart later \<noteq> currentWindowStart now \<longrightarrow>
         fst (requirePreAuthAdmission ss later w') = fst (requirePreAuthAdmission ss later w))
    \<and> w'\<lparr>lg_rateLimits := lg_rateLimits w\<rparr> = w"
proof -
  let ?ws = "currentWindowStart now"
  let ?w' = "w\<lparr>lg_rateLimits := (fold (\<lambda>s. bump s ?ws) ss ^^ length ts) (lg_rateLimits w)\<rparr>"
  have "\<forall>s\<in>set ss. lg_rateLimits w (subject_key s ?ws) = counter_after 0 s ?ws"
    using assms(4) by (simp add: counter_after_def)
  from failures_counted [OF assms(1,3) this] assms(5) obtain us where
    run: "tx_list (recordPreAuthFailure ss) ts w = (Inr us, ?w')"
    and counts: "\<forall>s\<in>set ss. lg_rateLimits ?w' (subject_key s ?ws) = counter_after (length ts) s ?ws" by auto
  have frame: "snd (admission_scan ss now ws v) = v" for ws v
    by (induction ss) (auto simp: tx_bind_def tx_try_def GetRateLimit_def found_def tx_fail_def tx_return_def
        split: option.splits)
  have "requirePreAuthAdmission ss now ?w' = (if length ts < 10 then Inr ()
      else Inl (rateLimitedError (Instant_Add ?ws PreAuthFailureWindow)), ?w')"
    using admission_scan_counted [OF counts, of now] frame [of ?ws ?w'] assms(2)
    by (auto simp: requirePreAuthAdmission_def PreAuthFailureThreshold_def prod_eq_iff)
  moreover have "fst (requirePreAuthAdmission ss later ?w') = fst (requirePreAuthAdmission ss later w)"
    if "currentWindowStart later \<noteq> ?ws" for later
  proof -
    have "subject_key s (currentWindowStart later) \<notin> (\<lambda>s. subject_key s ?ws) ` set ss" for s
      using that subject_key_inj Instant.expand by blast
    then show ?thesis unfolding requirePreAuthAdmission_def
      by (intro admission_scan_cong) (simp add: funpow_bump_other)
  qed
  ultimately show ?thesis using run by (intro exI [of _ us] exI [of _ ?w']) simp
qed

definition sample_visitor :: RequestMeta where
  "sample_visitor = \<lparr>rq_Principal = AnonymousPrincipal, rq_RequestID = ''r'', rq_ClientIP = None\<rparr>"

lemma login_subjects_distinct [simp]: "distinct (map ps_Kind (loginSubjects name meta))"
  by (simp add: loginSubjects_def rateLimitKindLoginAccount_def rateLimitKindLoginIP_def)

lemma reset_subjects_distinct [simp]: "distinct (map ps_Kind (resetSubjects account meta))"
  by (simp add: resetSubjects_def rateLimitKindResetAccount_def rateLimitKindResetIP_def)

lemma window_width [simp]: "d_micros PreAuthFailureWindow = 900000000"
  by (simp add: PreAuthFailureWindow_def NewDuration_def go_minute_def go_div_nonneg)

text \<open>The window of an instant is the multiple of the width at or below it, also before the epoch.\<close>

lemma currentWindowStart_micros:
  assumes "in_int64 (micros now)" and "in_int64 (micros now - 900000000)" and "micros now - micros now mod 900000000 \<noteq> -62135596800000000"
  shows "micros (currentWindowStart now) = micros now - micros now mod 900000000"
proof -
  have "go_mod (go_mod (micros now) 900000000 + 900000000) 900000000 = micros now mod 900000000"
  proof (cases "0 \<le> micros now")
    case True
    then show ?thesis by (simp add: go_mod_nonneg)
  next
    case False
    have "(- micros now) mod 900000000 < 900000000" by simp
    then have "go_mod (micros now) 900000000 + 900000000 = 900000000 - (- micros now) mod 900000000"
      and "0 \<le> 900000000 - (- micros now) mod 900000000"
      using False by (simp_all add: go_mod_neg)
    then show ?thesis by (simp add: go_mod_nonneg) (metis mod_diff_right_eq mod_self diff_0 minus_minus mod_diff_left_eq)
  qed
  moreover have "wrap64 (micros now - micros now mod 900000000) = micros now - micros now mod 900000000"
  proof (rule wrap64_id)
    have "0 \<le> micros now mod 900000000" "micros now mod 900000000 < 900000000" by simp_all
    then show "in_int64 (micros now - micros now mod 900000000)" using assms(1,2) unfolding int64_bounds by linarith
  qed
  ultimately show ?thesis using assms(3)
    by (simp add: currentWindowStart_def NewInstant_def zero_gotime_def UnixMicro_def)
qed

lemma sample_windows:
  "currentWindowStart (Instant 5) = Instant 0" "currentWindowStart (Instant 6) = Instant 0"
  using currentWindowStart_micros [of "Instant 5"] currentWindowStart_micros [of "Instant 6"]
  by (auto simp: int64_bounds intro: Instant.expand)

theorem throttle_exact_witness:
  "\<exists>us w'. tx_list (recordPreAuthFailure (loginSubjects ''admin'' sample_visitor)) (replicate 10 (Instant 5)) newState = (Inr us, w')
     \<and> fst (requirePreAuthAdmission (loginSubjects ''admin'' sample_visitor) (Instant 6) w') \<noteq> Inr ()"
proof -
  have "loginSubjects ''admin'' sample_visitor \<noteq> []" by (simp add: loginSubjects_def)
  from throttle_exact [OF login_subjects_distinct this, of "replicate 10 (Instant 5)" "Instant 6" newState]
  show ?thesis by (auto simp: sample_windows newState_def int64_bounds)
qed

end
