(* ===== verification/Identity_Service.thy ===== *)
theory Identity_Service
  imports Auth_Service Settings_Codec Secret_Input Access
begin

text \<open>
  \<open>internal/app/service/identity.go\<close> and the commands of \<open>internal/app/contract/identity.go\<close> and
  \<open>setup.go\<close>: login, logout, authentication of a session cookie, the password reset and CSRF
  tokens. A request works in two phases: preparation reads snapshots of the store outside any
  transaction, hashing or verifying a password takes its time, and the commit runs in one
  transaction on whatever the store has become. So an operation takes the snapshots its reads saw
  and the store its transaction starts from; other requests may have committed in between. The
  password hasher, the token codec, the authorizer, the clock and the identifier generator are
  interfaces, collected in \<open>identity_env\<close>; the clock and the token codec are numbered by the order
  in which the request asks them.
\<close>

record identity_env =
  ie_Hash :: "Input option \<Rightarrow> go_error + PasswordHash"
  ie_Verify :: "Input option \<Rightarrow> PasswordHash \<Rightarrow> go_error + bool"
  ie_NewToken :: "nat \<Rightarrow> go_error + (Input \<times> TokenHash)"
  ie_TokenHash :: "Input option \<Rightarrow> go_error + TokenHash"
  ie_authorize :: Authorizer
  ie_clock :: "nat \<Rightarrow> Instant"
  ie_ids :: "nat \<Rightarrow> string"
  ie_ctxErr :: "go_error option"

text \<open>Which of the service's dependencies are present.\<close>

record IdentityDeps = CommonDeps +
  dp_PasswordHasher :: bool
  dp_TokenCodec :: bool

definition IdentityDeps_Validate :: "IdentityDeps \<Rightarrow> go_error option" where
  "IdentityDeps_Validate d =
     or_else_err (CommonDeps_Validate (CommonDeps.truncate d))
       (firstMissing [\<lparr>rd_Name = ''PasswordHasher'', rd_Missing = \<not> dp_PasswordHasher d\<rparr>,
          \<lparr>rd_Name = ''TokenCodec'', rd_Missing = \<not> dp_TokenCodec d\<rparr>])"

subsection \<open>Commands\<close>

definition loginNameMinLength :: nat where "loginNameMinLength = 3"
definition loginNameMaxLength :: nat where "loginNameMaxLength = 64"
definition passwordMinLength :: nat where "passwordMinLength = 12"
definition passwordMaxLength :: nat where "passwordMaxLength = 128"
definition tokenMinLength :: nat where "tokenMinLength = 32"
definition tokenMaxLength :: nat where "tokenMaxLength = 256"

definition isLoginNameChar :: "char \<Rightarrow> bool" where
  "isLoginNameChar c \<longleftrightarrow>
     CHR ''A'' \<le> c \<and> c \<le> CHR ''Z'' \<or> CHR ''a'' \<le> c \<and> c \<le> CHR ''z'' \<or> CHR ''0'' \<le> c \<and> c \<le> CHR ''9''
     \<or> c = CHR ''.'' \<or> c = CHR ''_'' \<or> c = CHR ''-''"

definition invalid :: "string \<Rightarrow> string \<Rightarrow> go_error" where
  "invalid code detail = App (NewAppError ErrorKindValidation code detail)"

text \<open>The login name and password checks that \<open>IdentityLoginCommand.Validate\<close> and
  \<open>SetupCreateAdminCommand.Validate\<close> share.\<close>

definition check_login_name :: "string \<Rightarrow> go_error option" where
  "check_login_name name =
     (if length name < loginNameMinLength \<or> loginNameMaxLength < length name
        then Some (App (AppError_WithField (NewAppError ErrorKindValidation ''invalid_login_name''
          ''login_name must be 3..64 characters'') ''login_name'' name))
      else if \<not> list_all isLoginNameChar name
        then Some (App (AppError_WithField (NewAppError ErrorKindValidation ''invalid_login_name''
          ''login_name must match [A-Za-z0-9._-]'') ''login_name'' name))
      else None)"

definition check_secret :: "Input option \<Rightarrow> nat \<Rightarrow> nat \<Rightarrow> go_error \<Rightarrow> string \<Rightarrow> string \<Rightarrow> string \<Rightarrow> go_error option" where
  "check_secret secret low high absent code unreadable bad_length =
     (if secret = None then Some absent
      else
        (case secretCharacterLen secret of
           Inl err \<Rightarrow> Some (App (WrapAppError ErrorKindValidation code unreadable err))
         | Inr n \<Rightarrow> if n < low \<or> high < n then Some (invalid code bad_length) else None))"

record IdentityLoginCommand =
  il_LoginName :: string
  il_Password :: "Input option"

definition IdentityLoginCommand_Validate :: "IdentityLoginCommand \<Rightarrow> go_error option" where
  "IdentityLoginCommand_Validate c =
     or_else_err (check_login_name (il_LoginName c))
       (check_secret (il_Password c) passwordMinLength passwordMaxLength
         (invalid ''invalid_password'' ''password is required'') ''invalid_password''
         ''password could not be read'' ''password must be 12..128 characters'')"

record SetupCreateAdminCommand =
  sc_LoginName :: string
  sc_Password :: "Input option"

definition SetupCreateAdminCommand_Validate :: "SetupCreateAdminCommand \<Rightarrow> go_error option" where
  "SetupCreateAdminCommand_Validate c =
     or_else_err (check_login_name (sc_LoginName c))
       (check_secret (sc_Password c) passwordMinLength passwordMaxLength
         (invalid ''invalid_password'' ''password is required'') ''invalid_password''
         ''password could not be read'' ''password must be 12..128 characters'')"

definition IdentityAuthenticateCommand_Validate :: "Input option \<Rightarrow> go_error option" where
  "IdentityAuthenticateCommand_Validate sessionToken =
     (if sessionToken = None
        then Some (App (NewAppError ErrorKindAuth ''session_token_required'' ''a session token is required''))
      else if Input_Len sessionToken < tokenMinLength \<or> tokenMaxLength < Input_Len sessionToken
        then Some (App (NewAppError ErrorKindAuth ''invalid_session_token'' ''session token has an invalid length''))
      else None)"

definition IdentityBeginResetCommand_Validate :: "AccountID \<Rightarrow> go_error option" where
  "IdentityBeginResetCommand_Validate accountID =
     (case ParseAccountID accountID of
        Inl err \<Rightarrow> Some (App (WrapAppError ErrorKindValidation ''invalid_account_id''
          ''account_id must be a uuid'' (Domain err)))
      | Inr _ \<Rightarrow> None)"

record IdentityCompleteResetCommand =
  ir_ResetToken :: "Input option"
  ir_NewPassword :: "Input option"

definition IdentityCompleteResetCommand_Validate :: "IdentityCompleteResetCommand \<Rightarrow> go_error option" where
  "IdentityCompleteResetCommand_Validate c =
     or_else_err
       (check_secret (ir_ResetToken c) tokenMinLength tokenMaxLength
         (invalid ''reset_token_required'' ''reset_token is required'') ''invalid_reset_token''
         ''reset_token could not be read'' ''reset_token has an invalid length'')
       (check_secret (ir_NewPassword c) passwordMinLength passwordMaxLength
         (invalid ''new_password_required'' ''new_password is required'') ''invalid_new_password''
         ''new_password could not be read'' ''new_password must be 12..128 characters'')"

definition check_context :: "identity_env \<Rightarrow> go_error option" where
  "check_context env = map_option (\<lambda>e. App (WrapAppError ErrorKindUnavailable ''request_canceled''
     ''the request was canceled before it completed'' e)) (ie_ctxErr env)"

subsection \<open>Shared steps\<close>

record AccountView =
  av_ID :: AccountID
  av_LoginName :: string
  av_State :: AccountState
  av_IsGlobalAdmin :: bool
  av_Version :: Version

definition toAccountView :: "Account \<Rightarrow> AccountView" where
  "toAccountView a = \<lparr>av_ID = ac_id a, av_LoginName = ac_normalizedLoginName a, av_State = ac_state a,
     av_IsGlobalAdmin = ac_isGlobalAdmin a, av_Version = ac_version a\<rparr>"

definition account_event ::
  "string \<Rightarrow> Instant \<Rightarrow> RequestMeta \<Rightarrow> string \<Rightarrow> string \<Rightarrow> string \<Rightarrow> string \<Rightarrow> string \<Rightarrow> AuditEvent" where
  "account_event i now meta actorKind actorID action targetType targetID =
     \<lparr>ae_ID = i, ae_OccurredAt = now, ae_ActorKind = actorKind, ae_ActorID = actorID, ae_TokenID = [],
      ae_Action = action, ae_TargetType = targetType, ae_TargetID = targetID, ae_ClientIP = clientIP meta,
      ae_Result = ''success'', ae_Details = \<lparr>ad_SchemaVersion = 1, ad_Fields = Map.empty\<rparr>\<rparr>"

definition appendAccountAudit ::
  "(nat \<Rightarrow> string) \<Rightarrow> Instant \<Rightarrow> RequestMeta \<Rightarrow> string \<Rightarrow> string \<Rightarrow> string \<Rightarrow> string \<Rightarrow> string \<Rightarrow> (ledger, unit) tx" where
  "appendAccountAudit ids now meta actorKind actorID action targetType targetID =
     tx_bind (NewUUID ids) (\<lambda>i.
     tx_or (Audit_Append (account_event i now meta actorKind actorID action targetType targetID)
              NewInstallationAuditScope)
       (\<lambda>e. storeError e ''identity_audit_failed'' ''could not record the audit event''))"

text \<open>A rejection that keeps what the transaction wrote: the callback returns nil and hands the
  rejection over as a value. \<open>tx_finish\<close> returns it once the commit is done.\<close>

definition tx_finish :: "('w, go_error + 'a) tx \<Rightarrow> ('w, 'a) tx" where
  "tx_finish m w = (case m w of (Inl e, w') \<Rightarrow> (Inl e, w') | (Inr r, w') \<Rightarrow> (r, w'))"

lemma tx_finish_iff: "tx_finish m w = (Inr y, w') \<longleftrightarrow> m w = (Inr (Inr y), w')"
  by (auto simp: tx_finish_def split: prod.splits sum.splits)

subsection \<open>Login\<close>

definition invalidCredentialsError :: go_error where
  "invalidCredentialsError =
     App (NewAppError ErrorKindAuth ''invalid_credentials'' ''login name or password is incorrect'')"

definition dummyPasswordHash :: PasswordHash where
  "dummyPasswordHash = PasswordHash
     ''$argon2id$v=19$m=65536,t=3,p=1$AAAAAAAAAAAAAAAAAAAAAA$AAAAAAAAAAAAAAAAAAAAAAAAAAAAAAAAAAAAAAAAAAA''"

record loginAttemptFacts =
  lf_found :: bool
  lf_accountID :: AccountID
  lf_preparedVersion :: Version
  lf_hashToVerify :: PasswordHash

definition resolveLoginAttempt :: "string \<Rightarrow> (ledger, loginAttemptFacts) tx" where
  "resolveLoginAttempt normalized =
     tx_bind (tx_try (FindAccountByLoginName normalized)) (\<lambda>r.
       (case r of
          Inl err \<Rightarrow>
            if Is_port err ErrNotFound
              then tx_return \<lparr>lf_found = False, lf_accountID = [], lf_preparedVersion = 0,
                     lf_hashToVerify = dummyPasswordHash\<rparr>
            else tx_fail (storeError err ''identity_login_account_lookup_failed'' ''could not look up the account'')
        | Inr account \<Rightarrow>
            tx_return \<lparr>lf_found = True, lf_accountID = ac_id account, lf_preparedVersion = ac_version account,
              lf_hashToVerify = ac_passwordHash account\<rparr>))"

text \<open>What the preparation of a login carries into its transaction; the tokens are absent when the
  attempt is already known to fail.\<close>

record login_preparation =
  lp_normalized :: string
  lp_subjects :: "preAuthSubject list"
  lp_facts :: loginAttemptFacts
  lp_verified :: bool
  lp_tokens :: "((Input \<times> TokenHash) \<times> Input \<times> TokenHash) option"

definition mint_token :: "identity_env \<Rightarrow> nat \<Rightarrow> string \<Rightarrow> string \<Rightarrow> go_error + (Input \<times> TokenHash)" where
  "mint_token env k code detail =
     (case ie_NewToken env k of Inl e \<Rightarrow> Inl (storeError e code detail) | Inr t \<Rightarrow> Inr t)"

text \<open>\<open>s0\<close> and \<open>s1\<close> are the stores its two reads see.\<close>

definition login_prepare ::
  "identity_env \<Rightarrow> RequestMeta \<Rightarrow> IdentityLoginCommand \<Rightarrow> ledger \<Rightarrow> ledger \<Rightarrow> go_error + login_preparation" where
  "login_prepare env meta cmd s0 s1 =
     check_then (IdentityLoginCommand_Validate cmd)
     (check_then (check_context env)
     (let normalized = NormalizeLoginName (il_LoginName cmd); subjects = loginSubjects normalized meta in
      and_then (fst (requirePreAuthAdmission subjects (ie_clock env 0) s0)) (\<lambda>_.
      and_then (fst (resolveLoginAttempt normalized s1)) (\<lambda>facts.
      and_then (case ie_Verify env (il_Password cmd) (lf_hashToVerify facts) of
                  Inl e \<Rightarrow> Inl (storeError e ''identity_password_verify_failed'' ''could not verify the password'')
                | Inr v \<Rightarrow> Inr v) (\<lambda>verified.
      and_then (if lf_found facts \<and> verified
                then and_then (mint_token env 0 ''identity_session_token_failed'' ''could not mint a session token'')
                  (\<lambda>session. and_then (mint_token env 1 ''identity_csrf_token_failed'' ''could not mint a csrf token'')
                  (\<lambda>csrf. Inr (Some (session, csrf))))
                else Inr None) (\<lambda>tokens.
      Inr \<lparr>lp_normalized = normalized, lp_subjects = subjects, lp_facts = facts, lp_verified = verified,
        lp_tokens = tokens\<rparr>))))))"

record LoginView =
  lv_Account :: AccountView
  lv_IdleExpiresAt :: Instant
  lv_AbsoluteExpiresAt :: Instant
  lv_SessionToken :: "Input option"
  lv_CSRFToken :: "Input option"

definition zero_token_hash :: TokenHash where "zero_token_hash = TokenHash (Fingerprint [])"

text \<open>Starting the session: what follows the checks of the commit.\<close>

definition start_session ::
  "identity_env \<Rightarrow> RequestMeta \<Rightarrow> Account \<Rightarrow> Instant \<Rightarrow> ((Input \<times> TokenHash) \<times> Input \<times> TokenHash) option
     \<Rightarrow> (ledger, LoginView) tx" where
  "start_session env meta account now tokens =
     tx_bind (tx_domain (check_then (CanLogin account) (Inr ()))) (\<lambda>_.
     tx_bind (NewUUID (ie_ids env)) (\<lambda>u.
     tx_bind (tx_domain (ParseSessionID u)) (\<lambda>sessionID.
     tx_bind (tx_domain DefaultSessionPolicy) (\<lambda>pol.
     tx_bind (tx_domain (NewSessionState
       \<lparr>ssf_ID = sessionID, ssf_AccountID = ac_id account,
        ssf_TokenHash = (case tokens of None \<Rightarrow> zero_token_hash | Some (t, _) \<Rightarrow> snd t),
        ssf_CSRFSecretHash = (case tokens of None \<Rightarrow> zero_token_hash | Some (_, c) \<Rightarrow> snd c),
        ssf_AuthEpoch = ac_authEpoch account, ssf_LastSeenAt = now,
        ssf_AbsoluteExpiresAt = AbsoluteExpiresAt pol now\<rparr>)) (\<lambda>session.
     tx_bind (tx_or (InsertSession session)
        (\<lambda>e. storeError e ''identity_session_store_failed'' ''could not store the new session'')) (\<lambda>_.
     tx_bind (appendAccountAudit (ie_ids env) now meta ''account'' (ac_id account) ''identity.login''
        ''account'' (ac_id account)) (\<lambda>_.
     tx_return \<lparr>lv_Account = toAccountView account,
       lv_IdleExpiresAt = Instant_Add now (spo_idleTimeout pol),
       lv_AbsoluteExpiresAt = ss_absoluteExpiresAt session,
       lv_SessionToken = map_option (\<lambda>(t, _). fst t) tokens,
       lv_CSRFToken = map_option (\<lambda>(_, c). fst c) tokens\<rparr>)))))))"

definition login_commit ::
  "identity_env \<Rightarrow> RequestMeta \<Rightarrow> login_preparation \<Rightarrow> (ledger, go_error + LoginView) tx" where
  "login_commit env meta p =
     tx_bind (requirePreAuthAdmission (lp_subjects p) (ie_clock env 1)) (\<lambda>_.
     tx_bind (lockAccountByLoginName (lp_normalized p)) (\<lambda>locked.
       let now = ie_clock env 2;
           stale = (case locked of
               None \<Rightarrow> True
             | Some account \<Rightarrow> ac_id account \<noteq> lf_accountID (lp_facts p)
                 \<or> ac_version account \<noteq> lf_preparedVersion (lp_facts p) \<or> \<not> lp_verified p) in
       if stale
         then tx_bind (recordPreAuthFailure (lp_subjects p) (ie_clock env 3)) (\<lambda>_.
              tx_return (Inl invalidCredentialsError))
       else tx_bind (start_session env meta (the locked) now (lp_tokens p)) (\<lambda>view. tx_return (Inr view))))"

definition Login ::
  "identity_env \<Rightarrow> RequestMeta \<Rightarrow> IdentityLoginCommand \<Rightarrow> ledger \<Rightarrow> ledger \<Rightarrow> (ledger, LoginView) tx" where
  "Login env meta cmd s0 s1 w =
     (case login_prepare env meta cmd s0 s1 of
        Inl e \<Rightarrow> (Inl e, w)
      | Inr p \<Rightarrow> tx_finish (atomically (login_commit env meta p)) w)"

subsection \<open>Logout and authentication\<close>

definition Logout :: "identity_env \<Rightarrow> RequestMeta \<Rightarrow> (ledger, unit) tx" where
  "Logout env meta =
     (if \<not> IsAdmin (rq_Principal meta)
        then tx_fail (App (NewAppError ErrorKindForbidden ''identity_logout_requires_admin''
          ''logging out requires an administrator session''))
      else tx_bind (tx_guard (check_context env)) (\<lambda>_.
        atomically
         (tx_bind (requireCurrentAuth (rq_Principal meta) (ie_clock env 0)) (\<lambda>_.
          tx_bind (tx_guard (ie_authorize env (rq_Principal meta) ActionIdentityLogout (NewAuthorizationScope []))) (\<lambda>_.
          tx_bind (tx_or (DeleteSession (Principal_SessionID (rq_Principal meta)))
             (\<lambda>e. storeError e ''identity_logout_session_delete_failed'' ''could not end the session'')) (\<lambda>_.
          appendAccountAudit (ie_ids env) (ie_clock env 1) meta ''account''
            (Principal_AccountID (rq_Principal meta)) ''identity.logout'' ''account''
            (Principal_AccountID (rq_Principal meta))))))))"

record SessionView =
  vs_Account :: AccountView
  vs_IdleExpiresAt :: Instant
  vs_AbsoluteExpiresAt :: Instant

definition session_gone :: go_error where
  "session_gone = App (NewAppError ErrorKindAuth ''session_not_found'' ''this session no longer exists'')"

definition Authenticate ::
  "identity_env \<Rightarrow> Input option \<Rightarrow> (ledger, Principal \<times> SessionView) tx" where
  "Authenticate env sessionToken =
     tx_bind (tx_guard (IdentityAuthenticateCommand_Validate sessionToken)) (\<lambda>_.
     atomically
      (tx_bind (tx_lift (case ie_TokenHash env sessionToken of
          Inl e \<Rightarrow> Inl (storeError e ''identity_session_token_hash_failed'' ''could not hash the session token'')
        | Inr h \<Rightarrow> Inr h)) (\<lambda>hash.
       tx_bind (tx_read (FindSessionByHash hash) session_gone
          ''identity_session_lookup_failed'' ''could not look up the session'') (\<lambda>found_session.
       tx_bind (tx_read (GetSessionForUpdate (ss_id found_session)) session_gone
          ''identity_session_lookup_failed'' ''could not look up the session'') (\<lambda>locked.
       tx_bind (tx_read (GetAccountForUpdate (ss_accountID locked))
          (App (NewAppError ErrorKindAuth ''account_not_found''
            ''the account this session belongs to no longer exists''))
          ''identity_account_read_failed'' ''could not read the account'') (\<lambda>account.
       let now = ie_clock env 0 in
       tx_bind (tx_guard (map_option authError (ValidateAt locked now SessionIdleTimeout
          \<lparr>saf_AccountID = ac_id account, saf_State = ac_state account, saf_AuthEpoch = ac_authEpoch account\<rparr>))) (\<lambda>_.
       let touched = Touch locked now in
       tx_bind (tx_or (SaveSession touched)
          (\<lambda>e. storeError e ''identity_session_touch_failed'' ''could not extend the session'')) (\<lambda>_.
       tx_bind (tx_domain (NewAdminPrincipal \<lparr>apf_AccountID = ac_id account, apf_SessionID = ss_id touched,
          apf_AuthEpoch = ac_authEpoch account\<rparr>)) (\<lambda>p.
       tx_bind (tx_domain DefaultSessionPolicy) (\<lambda>pol.
       tx_return (p, \<lparr>vs_Account = toAccountView account,
         vs_IdleExpiresAt = Instant_Add now (spo_idleTimeout pol),
         vs_AbsoluteExpiresAt = ss_absoluteExpiresAt touched\<rparr>)))))))))))"

definition IssueCSRF :: "identity_env \<Rightarrow> RequestMeta \<Rightarrow> (ledger, Input) tx" where
  "IssueCSRF env meta =
     tx_bind (tx_lift (mint_token env 0 ''identity_csrf_token_failed'' ''could not mint a csrf token''))
     (\<lambda>(raw, hash).
       if \<not> IsAdmin (rq_Principal meta) then tx_return raw
       else atomically
        (tx_bind (requireCurrentAuth (rq_Principal meta) (ie_clock env 0)) (\<lambda>_.
         tx_bind (tx_or (GetSessionForUpdate (Principal_SessionID (rq_Principal meta)))
            (\<lambda>e. storeError e ''identity_session_read_failed'' ''could not read the current session'')) (\<lambda>session.
         tx_bind (tx_domain (WithCSRFSecretHash session hash)) (\<lambda>next_session.
         tx_bind (tx_or (SaveSession next_session)
            (\<lambda>e. storeError e ''identity_csrf_store_failed'' ''could not store the new CSRF credential'')) (\<lambda>_.
         tx_return raw))))))"

subsection \<open>Password reset\<close>

definition resetLinkPath :: string where "resetLinkPath = ''/reset-password/''"

definition service_url_missing :: go_error where
  "service_url_missing = App (NewAppError ErrorKindConflict ''identity_reset_link_service_url_not_configured''
     ''service settings must be configured before a reset link can be built'')"

definition buildResetLinkURL :: "string \<Rightarrow> Input option \<Rightarrow> go_error + Input" where
  "buildResetLinkURL serviceURL raw =
     (let base = rev (dropWhile (\<lambda>c. c = CHR ''/'') (rev serviceURL)) in
      if base = [] then Inl service_url_missing
      else
        (case Input_Use raw (\<lambda>b. Inr (Input_New (Some (base @ resetLinkPath @ b)))) of
           Inl e \<Rightarrow> Inl (storeError e ''identity_reset_token_read_failed''
             ''could not read the freshly minted reset token'')
         | Inr built \<Rightarrow> Inr built))"

record ResetLinkView =
  lk_URL :: Input
  lk_ExpiresAt :: Instant
  lk_TokenID :: ResetTokenID
  lk_AccountID :: AccountID

text \<open>The writes both halves of a reset make on the account: the new row, its sessions gone, its
  outstanding links invalidated.\<close>

definition save_reset_outcome :: "AccountResetOutcome \<Rightarrow> AccountID \<Rightarrow> Version \<Rightarrow> Instant \<Rightarrow> (ledger, unit) tx" where
  "save_reset_outcome outcome accountID originalVersion now =
     tx_bind (tx_or (SaveAccount (aro_Account outcome) originalVersion)
        (\<lambda>e. storeError e ''identity_reset_account_save_failed'' ''could not update the account'')) (\<lambda>_.
     tx_bind (if aro_SessionsInvalidated outcome
              then tx_or (DeleteAllSessions accountID)
                (\<lambda>e. storeError e ''identity_reset_sessions_invalidate_failed'' ''could not invalidate existing sessions'')
              else tx_return ()) (\<lambda>_.
     tx_or (InvalidateResetTokens accountID now)
       (\<lambda>e. storeError e ''identity_reset_tokens_invalidate_failed'' ''could not invalidate outstanding reset links'')))"

definition begin_reset_commit ::
  "identity_env \<Rightarrow> RequestMeta \<Rightarrow> AccountID \<Rightarrow> Input \<Rightarrow> TokenHash \<Rightarrow> (ledger, ResetLinkView) tx" where
  "begin_reset_commit env meta accountID rawToken tokenHash =
     tx_bind (tx_read GetSettings service_url_missing
        ''identity_reset_settings_read_failed'' ''could not read the service settings'') (\<lambda>settings.
     tx_bind (tx_lift (DecodeSettingsV1 settings)) (\<lambda>snap.
     tx_bind (tx_read (GetAccountForUpdate accountID)
        (App (AppError_WithField (NewAppError ErrorKindValidation ''identity_reset_account_not_found''
          ''account does not exist'') ''account_id'' accountID))
        ''identity_reset_account_read_failed'' ''could not read the account'') (\<lambda>account.
     tx_bind (tx_domain (BeginReset account)) (\<lambda>outcome.
     let now = ie_clock env 0 in
     tx_bind (save_reset_outcome outcome (ac_id account) (ac_version account) now) (\<lambda>_.
     tx_bind (NewUUID (ie_ids env)) (\<lambda>u.
     tx_bind (tx_domain (ParseResetTokenID u)) (\<lambda>resetTokenID.
     tx_bind (tx_domain DefaultResetPolicy) (\<lambda>pol.
     tx_bind (tx_domain (IssueAdminResetToken resetTokenID (ac_id account) tokenHash
        (ac_authEpoch (aro_Account outcome)) now pol)) (\<lambda>token.
     tx_bind (tx_or (InsertResetToken token)
        (\<lambda>e. storeError e ''identity_reset_token_store_failed'' ''could not store the reset token'')) (\<lambda>_.
     tx_bind (tx_lift (buildResetLinkURL (sv_ServiceURL snap) (Some rawToken))) (\<lambda>url.
     tx_bind (appendAccountAudit (ie_ids env) now meta ''cli'' [] ''identity.begin_reset'' ''account''
        (ac_id account)) (\<lambda>_.
     tx_return \<lparr>lk_URL = url, lk_ExpiresAt = rt_expiresAt token, lk_TokenID = resetTokenID,
       lk_AccountID = ac_id account\<rparr>))))))))))))"

definition Identity_BeginReset ::
  "identity_env \<Rightarrow> RequestMeta \<Rightarrow> AccountID \<Rightarrow> (ledger, ResetLinkView) tx" where
  "Identity_BeginReset env meta accountID =
     tx_bind (tx_guard (IdentityBeginResetCommand_Validate accountID)) (\<lambda>_.
     if \<not> IsInternal (rq_Principal meta) \<or> \<not> Can (rq_Principal meta) InternalOperationResetBegin
       then tx_fail (App (NewAppError ErrorKindForbidden ''identity_begin_reset_requires_internal_operation''
         ''beginning a password reset requires the local reset_begin operation''))
     else
       tx_bind (tx_guard (check_context env)) (\<lambda>_.
       tx_bind (tx_lift (mint_token env 0 ''identity_reset_token_mint_failed'' ''could not mint a reset token''))
       (\<lambda>(rawToken, tokenHash). atomically (begin_reset_commit env meta accountID rawToken tokenHash))))"

definition resetIPOnlySubject :: "RequestMeta \<Rightarrow> preAuthSubject list" where
  "resetIPOnlySubject meta = [\<lparr>ps_Kind = rateLimitKindResetIP, ps_Hash = NewFingerprint (clientIP meta)\<rparr>]"

definition resolveResetSubjects :: "TokenHash \<Rightarrow> RequestMeta \<Rightarrow> (ledger, preAuthSubject list \<times> bool) tx" where
  "resolveResetSubjects tokenHash meta =
     tx_bind (tx_try (GetResetToken tokenHash)) (\<lambda>r.
       (case r of
          Inl err \<Rightarrow>
            if Is_port err ErrNotFound then tx_return (resetIPOnlySubject meta, False)
            else tx_fail (storeError err ''identity_reset_token_lookup_failed'' ''could not look up the reset token'')
        | Inr tokenRow \<Rightarrow> tx_return (resetSubjects (rt_accountID tokenRow) meta, True)))"

definition authErrorFromPolicy :: "domain_error \<Rightarrow> go_error" where
  "authErrorFromPolicy err =
     (case As_policy (Domain err) of
        Some p \<Rightarrow> App (WrapAppError ErrorKindAuth (pe_Code p) (pe_Detail p) (Domain err))
      | None \<Rightarrow> App (WrapAppError ErrorKindAuth ''reset_rejected''
          ''this reset request could not be completed'' (Domain err)))"

definition rejectReset :: "preAuthSubject list \<Rightarrow> Instant \<Rightarrow> (ledger, go_error + unit) tx" where
  "rejectReset subjects now =
     tx_bind (recordPreAuthFailure subjects now) (\<lambda>_.
     tx_return (Inl (App (NewAppError ErrorKindAuth ''invalid_reset_token''
       ''reset token is invalid or has expired''))))"

definition rejectResetWithCause :: "preAuthSubject list \<Rightarrow> Instant \<Rightarrow> domain_error \<Rightarrow> (ledger, go_error + unit) tx" where
  "rejectResetWithCause subjects now cause =
     tx_bind (recordPreAuthFailure subjects now) (\<lambda>_. tx_return (Inl (authErrorFromPolicy cause)))"

text \<open>The writes of a completed reset.\<close>

definition finish_reset ::
  "identity_env \<Rightarrow> RequestMeta \<Rightarrow> Account \<Rightarrow> AdminResetToken \<Rightarrow> AccountResetOutcome \<Rightarrow> Instant
     \<Rightarrow> (ledger, go_error + unit) tx" where
  "finish_reset env meta account consumedToken outcome now =
     tx_bind (tx_or (SaveResetToken consumedToken)
       (\<lambda>e. storeError e ''identity_reset_token_save_failed'' ''could not record the token consumption'')) (\<lambda>_.
     tx_bind (save_reset_outcome outcome (ac_id account) (ac_version account) now) (\<lambda>_.
     tx_bind (appendAccountAudit (ie_ids env) now meta ''account'' (ac_id account)
       ''identity.complete_reset'' ''account'' (ac_id account)) (\<lambda>_.
     tx_return (Inr ()))))"

text \<open>The preparation gives the subjects of the throttle, whether the token named an account, and the
  hash of the new password when it did; the commit reads the token and the account again.\<close>

definition complete_reset_commit ::
  "identity_env \<Rightarrow> RequestMeta \<Rightarrow> TokenHash \<Rightarrow> preAuthSubject list \<Rightarrow> bool \<Rightarrow> PasswordHash
     \<Rightarrow> (ledger, go_error + unit) tx" where
  "complete_reset_commit env meta tokenHash subjects accountKnown newHash =
     tx_bind (requirePreAuthAdmission subjects (ie_clock env 1)) (\<lambda>_.
     tx_bind (tx_try (GetResetToken tokenHash)) (\<lambda>r.
       (case r of
          Inl err \<Rightarrow>
            if Is_port err ErrNotFound then rejectReset subjects (ie_clock env 2)
            else tx_fail (storeError err ''identity_reset_token_read_failed'' ''could not read the reset token'')
        | Inr tokenRow \<Rightarrow>
            if \<not> accountKnown then rejectReset subjects (ie_clock env 2)
            else tx_bind (tx_try (GetAccountForUpdate (rt_accountID tokenRow))) (\<lambda>r.
              (case r of
                 Inl err \<Rightarrow>
                   if Is_port err ErrNotFound then rejectReset subjects (ie_clock env 2)
                   else tx_fail (storeError err ''identity_reset_account_read_failed'' ''could not read the account'')
               | Inr account \<Rightarrow>
                   let now = ie_clock env 2 in
                   (case Token_Consume tokenRow now
                       \<lparr>raf_AccountID = ac_id account, raf_State = ac_state account, raf_AuthEpoch = ac_authEpoch account\<rparr> of
                      Inl err \<Rightarrow> rejectResetWithCause subjects (ie_clock env 3) err
                    | Inr consumedToken \<Rightarrow>
                        (case CompleteReset account newHash of
                           Inl err \<Rightarrow> rejectResetWithCause subjects (ie_clock env 3) err
                         | Inr outcome \<Rightarrow>
                             finish_reset env meta account consumedToken outcome now)))))))"

text \<open>\<open>s0\<close> and \<open>s1\<close> are the stores the two reads of the preparation see.\<close>

definition Identity_CompleteReset ::
  "identity_env \<Rightarrow> RequestMeta \<Rightarrow> IdentityCompleteResetCommand \<Rightarrow> ledger \<Rightarrow> ledger \<Rightarrow> (ledger, unit) tx" where
  "Identity_CompleteReset env meta cmd s0 s1 =
     tx_bind (tx_guard (IdentityCompleteResetCommand_Validate cmd)) (\<lambda>_.
     tx_bind (tx_guard (check_context env)) (\<lambda>_.
     tx_bind (tx_lift (case ie_TokenHash env (ir_ResetToken cmd) of
         Inl e \<Rightarrow> Inl (storeError e ''identity_reset_token_hash_failed'' ''could not hash the reset token'')
       | Inr h \<Rightarrow> Inr h)) (\<lambda>tokenHash.
     tx_bind (tx_lift (fst (resolveResetSubjects tokenHash meta s0))) (\<lambda>(subjects, accountKnown).
     tx_bind (tx_lift (fst (requirePreAuthAdmission subjects (ie_clock env 0) s1))) (\<lambda>_.
     tx_bind (tx_lift (if accountKnown
         then (case ie_Hash env (ir_NewPassword cmd) of
             Inl e \<Rightarrow> Inl (storeError e ''identity_new_password_hash_failed'' ''could not hash the new password'')
           | Inr h \<Rightarrow> Inr h)
         else Inr (PasswordHash []))) (\<lambda>newHash.
     tx_finish (atomically (complete_reset_commit env meta tokenHash subjects accountKnown newHash))))))))"

subsection \<open>What the operations do to the store\<close>

lemmas account_reads [tx_iff] = GetAccountForUpdate_def GetSessionForUpdate_def FindSessionByHash_def
  FindAccountByLoginName_def GetResetToken_def GetSettings_def
lemmas account_writes [tx_iff] = InsertSession_def DeleteSession_def DeleteAllSessions_def InsertResetToken_def
  InvalidateResetTokens_def SaveSession_def SaveResetToken_def SaveAccount_def

lemma appendAccountAudit_iff [tx_iff]:
  "appendAccountAudit ids now meta k ai ac tt ti w = (Inr u, w') \<longleftrightarrow>
     w' = w\<lparr>lg_uuids := Suc (lg_uuids w), lg_auditEvents := lg_auditEvents w
       @ [(account_event (ids (lg_uuids w)) now meta k ai ac tt ti, NewInstallationAuditScope)]\<rparr>"
  by (auto simp: appendAccountAudit_def tx_iff AuditScope_Validate_def NewInstallationAuditScope_def)

lemma admission_scan_frame: "snd (admission_scan ss now ws w) = w"
  by (induction ss) (auto simp: tx_bind_def tx_try_def GetRateLimit_def found_def tx_fail_def tx_return_def
      split: option.splits)

lemma admission_iff [tx_iff]:
  "requirePreAuthAdmission ss now w = (Inr u, w') \<longleftrightarrow> fst (requirePreAuthAdmission ss now w) = Inr u \<and> w' = w"
  using admission_scan_frame [of ss now "currentWindowStart now" w]
  by (auto simp: requirePreAuthAdmission_def prod_eq_iff)

lemma recordPreAuthFailure_iff [tx_iff]:
  "recordPreAuthFailure ss now w = (Inr u, w') \<longleftrightarrow>
     w' = w\<lparr>lg_rateLimits := fold (\<lambda>s. bump s (currentWindowStart now)) ss (lg_rateLimits w)\<rparr>"
  by (auto simp: recordPreAuthFailure_def failure_scan_eq)

lemma try_read [tx_iff]:
  "tx_try (GetResetToken h) w = (Inr r, w') \<longleftrightarrow> w' = w
     \<and> r = (case Option.bind (lg_resetTokensByHash w (TokenHash_Hex h)) (lg_resetTokens w) of
           None \<Rightarrow> Inl (Port ErrNotFound) | Some x \<Rightarrow> Inr x)"
  "tx_try (GetAccountForUpdate i) w = (Inr r', w') \<longleftrightarrow> w' = w
     \<and> r' = (case map_of (lg_accounts w) i of None \<Rightarrow> Inl (Port ErrNotFound) | Some x \<Rightarrow> Inr x)"
  by (auto simp: tx_try_def found_def tx_return_def tx_fail_def account_reads split: option.splits)

text \<open>The row a login locks: by name, then by identifier.\<close>

definition login_row :: "string \<Rightarrow> ledger \<Rightarrow> Account option" where
  "login_row name w =
     Option.bind (find (\<lambda>a. ac_normalizedLoginName a = name) (map snd (lg_accounts w)))
       (\<lambda>a. map_of (lg_accounts w) (ac_id a))"

lemma lockAccount_eq: "lockAccountByLoginName name w = (Inr (login_row name w), w)"
  by (auto simp: lockAccountByLoginName_def login_row_def tx_bind_def tx_try_def account_reads found_def tx_fail_def
      tx_return_def split: option.splits)

lemma start_session_effect:
  assumes "start_session env meta a now tokens w = (Inr view, w')"
  shows "\<exists>sid. ac_state a = AccountStateActive \<and> canonical_uuid (ac_id a)
    \<and> (let s = \<lparr>ss_id = sid, ss_accountID = ac_id a,
         ss_tokenHash = (case tokens of None \<Rightarrow> zero_token_hash | Some (t, _) \<Rightarrow> snd t),
         ss_csrfSecretHash = (case tokens of None \<Rightarrow> zero_token_hash | Some (_, c) \<Rightarrow> snd c),
         ss_authEpoch = ac_authEpoch a, ss_lastSeenAt = now,
         ss_absoluteExpiresAt = Instant_Add now (Duration 86400000000)\<rparr>
       in w' = (put_session s w)\<lparr>lg_uuids := Suc (Suc (lg_uuids w)), lg_auditEvents := lg_auditEvents w
            @ [(account_event (ie_ids env (Suc (lg_uuids w))) now meta ''account'' (ac_id a) ''identity.login''
                 ''account'' (ac_id a), NewInstallationAuditScope)]\<rparr>)"
proof -
  have "CanLogin a = None \<longleftrightarrow> ac_state a = AccountStateActive"
    by (simp add: CanLogin_def split: AccountState.splits)
  then show ?thesis using assms unfolding start_session_def
    by (auto simp: tx_iff InsertSession_def DefaultPolicies NewSessionState_def check_then_Inr AbsoluteExpiresAt_def
        put_session_def err_of_None ParseID_Inr Let_def if_Inl_Inr split: if_splits)
qed

lemma login_prepare_Inr:
  assumes "login_prepare env meta cmd s0 s1 = Inr p"
  shows "lp_normalized p = NormalizeLoginName (il_LoginName cmd)
    \<and> lp_subjects p = loginSubjects (NormalizeLoginName (il_LoginName cmd)) meta
    \<and> (case find (\<lambda>a. ac_normalizedLoginName a = NormalizeLoginName (il_LoginName cmd)) (map snd (lg_accounts s1)) of
         None \<Rightarrow> \<not> lf_found (lp_facts p)
       | Some a0 \<Rightarrow> lf_found (lp_facts p) \<and> lf_accountID (lp_facts p) = ac_id a0
           \<and> lf_preparedVersion (lp_facts p) = ac_version a0
           \<and> ie_Verify env (il_Password cmd) (ac_passwordHash a0) = Inr (lp_verified p))
    \<and> ((lf_accountID (lp_facts p), lf_preparedVersion (lp_facts p)) = ([], 0) \<or> lf_found (lp_facts p))
    \<and> (lp_verified p \<and> lf_found (lp_facts p) \<longrightarrow> lp_tokens p \<noteq> None)"
  using assms
  by (auto simp: login_prepare_def success_iff Let_def resolveLoginAttempt_def tx_bind_def tx_try_def
      account_reads found_def tx_fail_def tx_return_def split: option.splits sum.splits if_splits)

lemma login_commit_Inr:
  "login_commit env meta p w = (Inr r, w') \<longleftrightarrow>
     fst (requirePreAuthAdmission (lp_subjects p) (ie_clock env 1) w) = Inr ()
     \<and> (if (case login_row (lp_normalized p) w of None \<Rightarrow> True
           | Some a \<Rightarrow> ac_id a \<noteq> lf_accountID (lp_facts p) \<or> ac_version a \<noteq> lf_preparedVersion (lp_facts p)
               \<or> \<not> lp_verified p)
        then r = Inl invalidCredentialsError \<and> w' = w\<lparr>lg_rateLimits :=
               fold (\<lambda>s. bump s (currentWindowStart (ie_clock env 3))) (lp_subjects p) (lg_rateLimits w)\<rparr>
        else \<exists>view. r = Inr view
          \<and> start_session env meta (the (login_row (lp_normalized p) w)) (ie_clock env 2) (lp_tokens p) w = (Inr view, w'))"
  by (auto simp: login_commit_def tx_iff lockAccount_eq Let_def)

lemma login_locked_row:
  assumes "Login env meta cmd s0 s1 w = (Inr view, w')"
  shows "\<exists>p a. login_prepare env meta cmd s0 s1 = Inr p \<and> login_row (lp_normalized p) w = Some a
    \<and> ac_id a = lf_accountID (lp_facts p) \<and> ac_version a = lf_preparedVersion (lp_facts p) \<and> lp_verified p
    \<and> fst (requirePreAuthAdmission (lp_subjects p) (ie_clock env 1) w) = Inr ()
    \<and> start_session env meta a (ie_clock env 2) (lp_tokens p) w = (Inr view, w')"
proof -
  from assms obtain p where p: "login_prepare env meta cmd s0 s1 = Inr p"
    and c: "login_commit env meta p w = (Inr (Inr view), w')"
    by (auto simp: Login_def tx_finish_iff tx_iff split: sum.splits)
  from p c [unfolded login_commit_Inr] show ?thesis by (auto split: option.splits if_splits)
qed

text \<open>C20. A login that succeeds is one the stores justify, whatever other requests committed between
  its preparation and its transaction: the password was checked against the hash of the row the
  name had in the preparation's snapshot, the row the transaction locked has that identifier and
  still that version, it is active and not throttled; and the effect is exactly one new session
  for that account, under its current epoch, that ends 24 hours later, with one audit event.\<close>

theorem login_sound:
  assumes "Login env meta cmd s0 s1 w = (Inr view, w')"
  shows "\<exists>a0 a sid h c.
    find (\<lambda>a. ac_normalizedLoginName a = NormalizeLoginName (il_LoginName cmd)) (map snd (lg_accounts s1)) = Some a0
    \<and> ie_Verify env (il_Password cmd) (ac_passwordHash a0) = Inr True
    \<and> login_row (NormalizeLoginName (il_LoginName cmd)) w = Some a
    \<and> ac_id a = ac_id a0 \<and> ac_version a = ac_version a0 \<and> ac_state a = AccountStateActive
    \<and> fst (requirePreAuthAdmission (loginSubjects (NormalizeLoginName (il_LoginName cmd)) meta) (ie_clock env 1) w) = Inr ()
    \<and> lg_sessions w' = AList.update sid \<lparr>ss_id = sid, ss_accountID = ac_id a, ss_tokenHash = h,
         ss_csrfSecretHash = c, ss_authEpoch = ac_authEpoch a, ss_lastSeenAt = ie_clock env 2,
         ss_absoluteExpiresAt = Instant_Add (ie_clock env 2) (Duration 86400000000)\<rparr> (lg_sessions w)
    \<and> lg_accounts w' = lg_accounts w \<and> lg_rateLimits w' = lg_rateLimits w
    \<and> length (lg_auditEvents w') = Suc (length (lg_auditEvents w))"
proof -
  from login_locked_row [OF assms] obtain p a where p: "login_prepare env meta cmd s0 s1 = Inr p"
    and a: "login_row (lp_normalized p) w = Some a"
      "ac_id a = lf_accountID (lp_facts p)" "ac_version a = lf_preparedVersion (lp_facts p)" "lp_verified p"
    and adm: "fst (requirePreAuthAdmission (lp_subjects p) (ie_clock env 1) w) = Inr ()"
    and st: "start_session env meta a (ie_clock env 2) (lp_tokens p) w = (Inr view, w')" by blast
  have "lf_found (lp_facts p)"
  proof (rule ccontr)
    assume "\<not> lf_found (lp_facts p)"
    with login_prepare_Inr [OF p] a have "ac_id a = []" by auto
    moreover have "ac_id a \<noteq> []"
      using start_session_effect [OF st] canonical_uuid_not_Nil by auto
    ultimately show False by simp
  qed
  with login_prepare_Inr [OF p] a obtain a0 where a0:
    "find (\<lambda>a. ac_normalizedLoginName a = NormalizeLoginName (il_LoginName cmd)) (map snd (lg_accounts s1)) = Some a0"
    "ac_id a = ac_id a0" "ac_version a = ac_version a0"
    "ie_Verify env (il_Password cmd) (ac_passwordHash a0) = Inr True"
    by (auto split: option.splits)
  from start_session_effect [OF st] login_prepare_Inr [OF p] a(1) a0 adm show ?thesis
    unfolding Let_def put_session_def by fastforce
qed

text \<open>A login that fails writes nothing, except that a wrong password, an unknown name or a row
  that changed since the preparation count one failure for the name and for the client address.
  These three give one and the same error, so the answer does not tell whether the account exists.\<close>

theorem login_failure_counted:
  assumes "Login env meta cmd s0 s1 w = (Inl e, w')"
  shows "w' = w \<or> e = invalidCredentialsError
    \<and> w' = w\<lparr>lg_rateLimits := fold (\<lambda>s. bump s (currentWindowStart (ie_clock env 3)))
         (loginSubjects (NormalizeLoginName (il_LoginName cmd)) meta) (lg_rateLimits w)\<rparr>
    \<and> (login_row (NormalizeLoginName (il_LoginName cmd)) w = None
       \<or> (\<forall>a0. find (\<lambda>a. ac_normalizedLoginName a = NormalizeLoginName (il_LoginName cmd)) (map snd (lg_accounts s1)) = Some a0
            \<longrightarrow> ie_Verify env (il_Password cmd) (ac_passwordHash a0) = Inr False
              \<or> (\<forall>a. login_row (NormalizeLoginName (il_LoginName cmd)) w = Some a
                   \<longrightarrow> (ac_id a, ac_version a) \<noteq> (ac_id a0, ac_version a0))))"
proof (cases "login_prepare env meta cmd s0 s1")
  case (Inl e')
  with assms show ?thesis by (simp add: Login_def)
next
  case (Inr p)
  show ?thesis
  proof (cases "login_commit env meta p w")
    case (Pair r w1)
    show ?thesis
    proof (cases r)
      case Inl
      with assms Inr Pair show ?thesis by (auto simp: Login_def tx_finish_def atomically_def)
    next
      case (Inr r')
      with assms \<open>login_prepare env meta cmd s0 s1 = Inr p\<close> Pair
      have "r' = Inl e" "w1 = w'" by (auto simp: Login_def tx_finish_def atomically_def)
      with Pair Inr have "login_commit env meta p w = (Inr (Inl e), w')" by simp
      from this [unfolded login_commit_Inr] login_prepare_Inr [OF \<open>login_prepare env meta cmd s0 s1 = Inr p\<close>]
      show ?thesis by (auto split: if_splits option.splits)
    qed
  qed
qed

subsection \<open>What a reset does to the store\<close>

definition invalidated_for :: "AccountID \<Rightarrow> Instant \<Rightarrow> AdminResetToken \<Rightarrow> AdminResetToken" where
  "invalidated_for account now t =
     (if rt_accountID t \<noteq> account then t
      else case Token_Invalidate t now of Inl _ \<Rightarrow> t | Inr t' \<Rightarrow> t')"

lemma invalidated_for_spent:
  "now \<noteq> zero_instant \<Longrightarrow> rt_accountID t = account \<Longrightarrow> token_spent (invalidated_for account now t)"
  by (auto simp: invalidated_for_def Token_Invalidate_def token_spent_def Token_IsConsumed_def
      Token_IsInvalidated_def Instant_IsZero_iff)

lemma invalidated_for_account [simp]: "rt_accountID (invalidated_for account now t) = rt_accountID t"
  by (auto simp: invalidated_for_def Token_Invalidate_def)

lemma save_reset_outcome_effect:
  assumes "save_reset_outcome out acc v now w = (Inr u, w')" and "aro_SessionsInvalidated out"
  shows "(\<exists>e. map_of (lg_accounts w) (ac_id (aro_Account out)) = Some e \<and> ac_version e = v)
    \<and> lg_accounts w' = AList.update (ac_id (aro_Account out)) (aro_Account out) (lg_accounts w)
    \<and> lg_sessions w' = filter (\<lambda>(_, s). ss_accountID s \<noteq> acc) (lg_sessions w)
    \<and> lg_resetTokens w' = (\<lambda>i. map_option (invalidated_for acc now) (lg_resetTokens w i))
    \<and> lg_resetTokensByHash w' = lg_resetTokensByHash w \<and> lg_rateLimits w' = lg_rateLimits w
    \<and> lg_uuids w' = lg_uuids w \<and> lg_auditEvents w' = lg_auditEvents w"
  using assms unfolding save_reset_outcome_def
  by (auto simp: tx_iff Let_def invalidated_for_def fun_eq_iff split: option.splits sum.splits)

text \<open>Every reset link the store can resolve for the account has been used or superseded.\<close>

definition links_dead :: "AccountID \<Rightarrow> ledger \<Rightarrow> bool" where
  "links_dead account w \<longleftrightarrow> (\<forall>i t. lg_resetTokens w i = Some t \<and> rt_accountID t = account \<longrightarrow> token_spent t)"

definition no_session_of :: "AccountID \<Rightarrow> ledger \<Rightarrow> bool" where
  "no_session_of account w \<longleftrightarrow> (\<forall>(_, s)\<in>set (lg_sessions w). ss_accountID s \<noteq> account)"

text \<open>The rows of both tables carry their own keys.\<close>

definition reset_keyed :: "ledger \<Rightarrow> bool" where
  "reset_keyed w \<longleftrightarrow> (\<forall>(i, a)\<in>set (lg_accounts w). ac_id a = i)
     \<and> (\<forall>i t. lg_resetTokens w i = Some t \<longrightarrow> rt_id t = i)"

lemma reject_results:
  "rejectReset subjects now w = (Inr (Inr u), w') \<longleftrightarrow> False"
  "rejectResetWithCause subjects now err w = (Inr (Inr u), w') \<longleftrightarrow> False"
  by (simp_all add: rejectReset_def rejectResetWithCause_def tx_iff)

lemma complete_reset_commit_success:
  assumes "complete_reset_commit env meta th subjects known nh w = (Inr (Inr u), w')"
  shows "fst (requirePreAuthAdmission subjects (ie_clock env 1) w) = Inr () \<and> known \<and> (\<exists>t a t' out.
     Option.bind (lg_resetTokensByHash w (TokenHash_Hex th)) (lg_resetTokens w) = Some t
     \<and> map_of (lg_accounts w) (rt_accountID t) = Some a
     \<and> Token_Consume t (ie_clock env 2) (token_facts a) = Inr t' \<and> CompleteReset a nh = Inr out
     \<and> finish_reset env meta a t' out (ie_clock env 2) w = (Inr (Inr ()), w'))"
proof -
  let ?tok = "Option.bind (lg_resetTokensByHash w (TokenHash_Hex th)) (lg_resetTokens w)"
  from assms have adm: "fst (requirePreAuthAdmission subjects (ie_clock env 1) w) = Inr ()"
    unfolding complete_reset_commit_def by (auto simp: tx_bind_iff admission_iff)
  obtain t where t: "?tok = Some t"
    using assms unfolding complete_reset_commit_def
    by (cases ?tok) (simp_all add: tx_bind_iff admission_iff try_read reject_results)
  have known: known
    using assms unfolding complete_reset_commit_def
    by (cases known) (simp_all add: tx_bind_iff admission_iff try_read reject_results t)
  obtain a where a: "map_of (lg_accounts w) (rt_accountID t) = Some a"
    using assms unfolding complete_reset_commit_def
    by (cases "map_of (lg_accounts w) (rt_accountID t)")
      (simp_all add: tx_bind_iff admission_iff try_read reject_results t known)
  have "(case Token_Consume t (ie_clock env 2) (token_facts a) of
      Inl err \<Rightarrow> rejectResetWithCause subjects (ie_clock env 3) err
    | Inr t' \<Rightarrow> (case CompleteReset a nh of
        Inl err \<Rightarrow> rejectResetWithCause subjects (ie_clock env 3) err
      | Inr out \<Rightarrow> finish_reset env meta a t' out (ie_clock env 2))) w = (Inr (Inr ()), w')"
    using assms unfolding complete_reset_commit_def token_facts_def
    by (simp add: tx_bind_iff admission_iff try_read t known a adm Let_def)
  with adm t known a show ?thesis by (simp add: reject_results split: sum.splits)
qed

lemma finish_reset_effect:
  assumes "finish_reset env meta a t' out now w = (Inr r, w')" and "aro_SessionsInvalidated out"
    and "ac_id (aro_Account out) = ac_id a"
  shows "lg_accounts w' = AList.update (ac_id a) (aro_Account out) (lg_accounts w)
    \<and> lg_sessions w' = filter (\<lambda>(_, s). ss_accountID s \<noteq> ac_id a) (lg_sessions w)
    \<and> lg_resetTokens w' = (\<lambda>i. map_option (invalidated_for (ac_id a) now) (((lg_resetTokens w)(rt_id t' \<mapsto> t')) i))
    \<and> lg_resetTokensByHash w' = (lg_resetTokensByHash w)(TokenHash_Hex (rt_tokenHash t') \<mapsto> rt_id t')"
proof -
  from assms(1) obtain w1 w2 where w1: "w1 = put_reset_token t' w"
    and w2: "save_reset_outcome out (ac_id a) (ac_version a) now w1 = (Inr (), w2)"
    and w': "w' = w2\<lparr>lg_uuids := Suc (lg_uuids w2), lg_auditEvents := lg_auditEvents w2
       @ [(account_event (ie_ids env (lg_uuids w2)) now meta ''account'' (ac_id a) ''identity.complete_reset''
            ''account'' (ac_id a), NewInstallationAuditScope)]\<rparr>"
    unfolding finish_reset_def by (auto simp: tx_iff)
  from save_reset_outcome_effect [OF w2 assms(2)] show ?thesis
    by (simp add: w' w1 put_reset_token_def assms(3))
qed

lemma links_dead_invalidated:
  assumes "now \<noteq> zero_instant" and "lg_resetTokens w' = (\<lambda>i. map_option (invalidated_for acc now) (m i))"
  shows "links_dead acc w'"
  unfolding links_dead_def
proof (intro allI impI, elim conjE)
  fix i t
  assume "lg_resetTokens w' i = Some t" and acc: "rt_accountID t = acc"
  then obtain z where z: "t = invalidated_for acc now z" unfolding assms(2) by blast
  then have "rt_accountID z = acc" using acc by simp
  with z show "token_spent t" using invalidated_for_spent assms(1) by simp
qed

lemma no_session_filtered:
  "lg_sessions w' = filter (\<lambda>(_, s). ss_accountID s \<noteq> acc) l \<Longrightarrow> no_session_of acc w'"
  by (auto simp: no_session_of_def)

lemma spent_not_consumed: "token_spent t \<Longrightarrow> Token_Consume t now f \<noteq> Inr t'"
  by (auto simp: Token_Consume_def check_then_Inr Token_CanConsume_None)

text \<open>A link whose account has only dead links completes nothing.\<close>

lemma complete_reset_needs_live_link:
  assumes "Identity_CompleteReset env meta cmd s0 s1 w = (Inr u, w')"
  shows "\<exists>th t a nh out t'. ie_TokenHash env (ir_ResetToken cmd) = Inr th
    \<and> Option.bind (lg_resetTokensByHash w (TokenHash_Hex th)) (lg_resetTokens w) = Some t \<and> \<not> token_spent t
    \<and> map_of (lg_accounts w) (rt_accountID t) = Some a
    \<and> Token_Consume t (ie_clock env 2) (token_facts a) = Inr t' \<and> CompleteReset a nh = Inr out
    \<and> ie_Hash env (ir_NewPassword cmd) = Inr nh
    \<and> finish_reset env meta a t' out (ie_clock env 2) w = (Inr (Inr ()), w')"
proof -
  from assms obtain th subjects known nh where th: "ie_TokenHash env (ir_ResetToken cmd) = Inr th"
    and nh: "known \<longrightarrow> ie_Hash env (ir_NewPassword cmd) = Inr nh"
    and c: "complete_reset_commit env meta th subjects known nh w = (Inr (Inr u), w')"
    unfolding Identity_CompleteReset_def
    by (auto simp: tx_iff tx_finish_iff split: prod.splits sum.splits if_splits)
  from complete_reset_commit_success [OF c] th nh spent_not_consumed show ?thesis by metis
qed

text \<open>C19. A reset link completes at most one reset: a completion that succeeds used the very link the store
  holds for the presented token, unspent and unexpired, of an account pending a reset, under the epoch the link was
  issued for; it leaves the
  account active with the new password and the next epoch, no session of the account, and every
  link of the account spent; so that no later completion with any link of the account, the same
  link included, succeeds, whatever snapshots its preparation read.\<close>

theorem reset_completes_once:
  assumes "Identity_CompleteReset env meta cmd s0 s1 w = (Inr u, w')" and "reset_keyed w"
    and "ie_clock env 2 \<noteq> zero_instant"
  shows "\<exists>a t h th. map_of (lg_accounts w) (ac_id a) = Some a \<and> ac_state a = AccountStateResetPending
    \<and> ie_TokenHash env (ir_ResetToken cmd) = Inr th
    \<and> Option.bind (lg_resetTokensByHash w (TokenHash_Hex th)) (lg_resetTokens w) = Some t
    \<and> rt_accountID t = ac_id a \<and> \<not> token_spent t \<and> ie_clock env 2 < rt_expiresAt t
    \<and> rt_authEpoch t = ac_authEpoch a
    \<and> map_of (lg_accounts w') (ac_id a) = Some (a\<lparr>ac_state := AccountStateActive, ac_passwordHash := h,
         ac_authEpoch := AuthEpoch_Next (ac_authEpoch a), ac_version := Version_Next (ac_version a)\<rparr>)
    \<and> ie_Hash env (ir_NewPassword cmd) = Inr h
    \<and> no_session_of (ac_id a) w' \<and> links_dead (ac_id a) w'
    \<and> (\<forall>env' meta' cmd' r0 r1. ie_TokenHash env' (ir_ResetToken cmd') = ie_TokenHash env (ir_ResetToken cmd)
           \<or> (\<exists>th2 t2. ie_TokenHash env' (ir_ResetToken cmd') = Inr th2 \<and> rt_accountID t2 = ac_id a
               \<and> Option.bind (lg_resetTokensByHash w' (TokenHash_Hex th2)) (lg_resetTokens w') = Some t2)
         \<longrightarrow> fst (Identity_CompleteReset env' meta' cmd' r0 r1 w') \<noteq> Inr ())"
proof -
  from complete_reset_needs_live_link [OF assms(1)] obtain th t a nh out t' where
    th: "ie_TokenHash env (ir_ResetToken cmd) = Inr th"
    and t: "Option.bind (lg_resetTokensByHash w (TokenHash_Hex th)) (lg_resetTokens w) = Some t" "\<not> token_spent t"
    and a: "map_of (lg_accounts w) (rt_accountID t) = Some a"
    and t': "Token_Consume t (ie_clock env 2) (token_facts a) = Inr t'" and out: "CompleteReset a nh = Inr out"
    and nh: "ie_Hash env (ir_NewPassword cmd) = Inr nh"
    and fin: "finish_reset env meta a t' out (ie_clock env 2) w = (Inr (Inr ()), w')" by blast
  have id: "ac_id a = rt_accountID t" using assms(2) map_of_SomeD [OF a] by (auto simp: reset_keyed_def)
  have tf: "ie_clock env 2 < rt_expiresAt t" "rt_authEpoch t = ac_authEpoch a" "ac_state a = AccountStateResetPending"
    "t' = t\<lparr>rt_consumedAt := ie_clock env 2\<rparr>"
    using t' by (auto simp: Token_Consume_def check_then_Inr Token_CanConsume_None token_facts_def)
  have out': "aro_SessionsInvalidated out" "aro_Account out = a\<lparr>ac_state := AccountStateActive, ac_passwordHash := nh,
      ac_authEpoch := AuthEpoch_Next (ac_authEpoch a), ac_version := Version_Next (ac_version a)\<rparr>"
    using out by (auto simp: CompleteReset_def if_Inl_Inr)
  note eff = finish_reset_effect [OF fin out'(1)]
  have dead: "links_dead (ac_id a) w'" using eff links_dead_invalidated assms(3) out'(2) by simp
  obtain i where i: "lg_resetTokensByHash w (TokenHash_Hex th) = Some i" "lg_resetTokens w i = Some t"
    using t(1) by (auto simp: Option.bind_eq_Some_conv)
  then have "rt_id t = i" using assms(2) by (auto simp: reset_keyed_def)
  with i eff tf(4) out'(2) have link: "Option.bind (lg_resetTokensByHash w' (TokenHash_Hex th)) (lg_resetTokens w')
      = Some (invalidated_for (ac_id a) (ie_clock env 2) t')" by auto
  have again: "fst (Identity_CompleteReset env' meta' cmd' r0 r1 w') \<noteq> Inr ()"
    if "ie_TokenHash env' (ir_ResetToken cmd') = ie_TokenHash env (ir_ResetToken cmd)
      \<or> (\<exists>th2 t2. ie_TokenHash env' (ir_ResetToken cmd') = Inr th2 \<and> rt_accountID t2 = ac_id a
          \<and> Option.bind (lg_resetTokensByHash w' (TokenHash_Hex th2)) (lg_resetTokens w') = Some t2)"
    for env' meta' cmd' r0 r1
  proof
    assume "fst (Identity_CompleteReset env' meta' cmd' r0 r1 w') = Inr ()"
    then obtain w2 where "Identity_CompleteReset env' meta' cmd' r0 r1 w' = (Inr (), w2)" by (metis prod.collapse)
    from complete_reset_needs_live_link [OF this] obtain th3 t3 where
      used: "ie_TokenHash env' (ir_ResetToken cmd') = Inr th3" "\<not> token_spent t3"
        "Option.bind (lg_resetTokensByHash w' (TokenHash_Hex th3)) (lg_resetTokens w') = Some t3" by blast
    from that show False
    proof
      assume "ie_TokenHash env' (ir_ResetToken cmd') = ie_TokenHash env (ir_ResetToken cmd)"
      with used th link have "\<not> token_spent (invalidated_for (ac_id a) (ie_clock env 2) t')" by auto
      with invalidated_for_spent assms(3) id tf(4) show False by simp
    next
      assume "\<exists>th2 t2. ie_TokenHash env' (ir_ResetToken cmd') = Inr th2 \<and> rt_accountID t2 = ac_id a
          \<and> Option.bind (lg_resetTokensByHash w' (TokenHash_Hex th2)) (lg_resetTokens w') = Some t2"
      with used have "rt_accountID t3 = ac_id a" "\<exists>i. lg_resetTokens w' i = Some t3"
        by (auto simp: Option.bind_eq_Some_conv)
      with dead used(2) show False by (auto simp: links_dead_def)
    qed
  qed
  have "map_of (lg_accounts w') (ac_id a) = Some (aro_Account out)" "no_session_of (ac_id a) w'"
    using eff out'(2) no_session_filtered by auto
  with a id t th tf dead nh again out'(2) show ?thesis
    by (intro exI [of _ a] exI [of _ t] exI [of _ nh] exI [of _ th]) simp
qed

lemma begin_reset_success:
  assumes "Identity_BeginReset env meta acc w = (Inr link, w')"
  shows "IsInternal (rq_Principal meta) \<and> Can (rq_Principal meta) InternalOperationResetBegin
    \<and> (\<exists>a out w1 t. map_of (lg_accounts w) acc = Some a \<and> BeginReset a = Inr out
         \<and> save_reset_outcome out (ac_id a) (ac_version a) (ie_clock env 0) w = (Inr (), w1)
         \<and> rt_id t = lk_TokenID link \<and> rt_accountID t = ac_id a \<and> rt_authEpoch t = ac_authEpoch (aro_Account out)
         \<and> rt_expiresAt t = Instant_Add (ie_clock env 0) (Duration 10800000000) \<and> \<not> token_spent t
         \<and> lk_ExpiresAt link = rt_expiresAt t
         \<and> lg_accounts w' = lg_accounts w1 \<and> lg_sessions w' = lg_sessions w1
         \<and> lg_resetTokens w' = (lg_resetTokens w1)(rt_id t \<mapsto> t))"
proof -
  from assms have perm: "IsInternal (rq_Principal meta)" "Can (rq_Principal meta) InternalOperationResetBegin"
    unfolding Identity_BeginReset_def by (auto simp: tx_iff split: if_splits)
  with assms obtain raw th where c: "begin_reset_commit env meta acc raw th w = (Inr link, w')"
    unfolding Identity_BeginReset_def by (auto simp: tx_iff split: if_splits prod.splits)
  then obtain a out w1 u t pol where a: "map_of (lg_accounts w) acc = Some a" "BeginReset a = Inr out"
    and w1: "save_reset_outcome out (ac_id a) (ac_version a) (ie_clock env 0) w = (Inr (), w1)"
    and pol: "DefaultResetPolicy = Inr pol"
    and t: "IssueAdminResetToken u (ac_id a) th (ac_authEpoch (aro_Account out)) (ie_clock env 0) pol = Inr t"
    and link: "lk_ExpiresAt link = rt_expiresAt t" "lk_TokenID link = u"
    and w': "lg_accounts w' = lg_accounts w1" "lg_sessions w' = lg_sessions w1"
      "lg_resetTokens w' = (lg_resetTokens w1)(rt_id t \<mapsto> t)"
    unfolding begin_reset_commit_def Let_def by (auto simp: tx_iff put_reset_token_def)
  have "t = \<lparr>rt_id = u, rt_accountID = ac_id a, rt_tokenHash = th,
      rt_authEpoch = ac_authEpoch (aro_Account out), rt_issuedAt = ie_clock env 0,
      rt_expiresAt = Instant_Add (ie_clock env 0) (Duration 10800000000),
      rt_consumedAt = zero_instant, rt_invalidatedAt = zero_instant\<rparr>"
    using t pol by (auto simp: IssueAdminResetToken_def NewAdminResetToken_def check_then_Inr if_Inl_Inr
        ResetPolicy_ExpiresAt_def DefaultPolicies)
  then have "rt_id t = lk_TokenID link" "rt_accountID t = ac_id a" "rt_authEpoch t = ac_authEpoch (aro_Account out)"
    "rt_expiresAt t = Instant_Add (ie_clock env 0) (Duration 10800000000)" "\<not> token_spent t"
    using link by (simp_all add: token_spent_def Token_IsConsumed_def Token_IsInvalidated_def Instant_IsZero_iff)
  with perm a w1 link w' show ?thesis by blast
qed

text \<open>C26. Beginning a reset takes the local operation's own principal and cuts the account off at once: it
  becomes pending under a new epoch, it has no session left, no login for it succeeds whatever its
  preparation had seen, and of all its reset links only the new one is unspent, for three hours.\<close>

theorem begin_reset_cuts_off:
  assumes "Identity_BeginReset env meta acc w = (Inr link, w')" and "reset_keyed w"
    and "ie_clock env 0 \<noteq> zero_instant"
  shows "Can (rq_Principal meta) InternalOperationResetBegin
    \<and> (\<exists>a t. map_of (lg_accounts w) acc = Some a \<and> ac_state a \<noteq> AccountStateDisabled
      \<and> map_of (lg_accounts w') acc = Some (a\<lparr>ac_state := AccountStateResetPending,
           ac_authEpoch := AuthEpoch_Next (ac_authEpoch a), ac_version := Version_Next (ac_version a)\<rparr>)
      \<and> no_session_of acc w'
      \<and> lg_resetTokens w' (lk_TokenID link) = Some t \<and> \<not> token_spent t \<and> rt_accountID t = acc
      \<and> rt_authEpoch t = AuthEpoch_Next (ac_authEpoch a)
      \<and> rt_expiresAt t = Instant_Add (ie_clock env 0) (Duration 10800000000)
      \<and> (\<forall>i t'. lg_resetTokens w' i = Some t' \<and> rt_accountID t' = acc \<and> \<not> token_spent t' \<longrightarrow> i = lk_TokenID link)
      \<and> (\<forall>env' meta' cmd s0 s1 b v. login_row (NormalizeLoginName (il_LoginName cmd)) w' = Some b \<and> ac_id b = acc
           \<longrightarrow> fst (Login env' meta' cmd s0 s1 w') \<noteq> Inr v))"
proof -
  from begin_reset_success [OF assms(1)] obtain a out w1 t where
    a: "map_of (lg_accounts w) acc = Some a" "BeginReset a = Inr out"
    and w1: "save_reset_outcome out (ac_id a) (ac_version a) (ie_clock env 0) w = (Inr (), w1)"
    and t: "rt_id t = lk_TokenID link" "rt_accountID t = ac_id a" "rt_authEpoch t = ac_authEpoch (aro_Account out)"
      "rt_expiresAt t = Instant_Add (ie_clock env 0) (Duration 10800000000)" "\<not> token_spent t"
    and w': "lg_accounts w' = lg_accounts w1" "lg_sessions w' = lg_sessions w1"
      "lg_resetTokens w' = (lg_resetTokens w1)(rt_id t \<mapsto> t)"
    by blast
  have id: "ac_id a = acc" using assms(2) map_of_SomeD [OF a(1)] by (auto simp: reset_keyed_def)
  have out: "ac_state a \<noteq> AccountStateDisabled" "aro_SessionsInvalidated out"
    "aro_Account out = a\<lparr>ac_state := AccountStateResetPending,
       ac_authEpoch := AuthEpoch_Next (ac_authEpoch a), ac_version := Version_Next (ac_version a)\<rparr>"
    using a(2) by (auto simp: BeginReset_def if_Inl_Inr)
  note eff = save_reset_outcome_effect [OF w1 out(2)]
  have acc: "lg_accounts w' = AList.update acc (aro_Account out) (lg_accounts w)" using eff w' out(3) id by simp
  have "links_dead acc w1" using eff assms(3) id links_dead_invalidated [of "ie_clock env 0" w1 acc "lg_resetTokens w"] by simp
  then have only: "i = lk_TokenID link"
    if "lg_resetTokens w' i = Some t'" "rt_accountID t' = acc" "\<not> token_spent t'" for i t'
    using that w'(3) t(1) by (auto simp: links_dead_def split: if_splits)
  have out_id: "ac_id (aro_Account out) = acc" using out(3) id by simp
  have keyed: "ac_id b = i" if "map_of (lg_accounts w') i = Some b" for i b
    using that assms(2) out_id map_of_SomeD [of "lg_accounts w" i b]
    by (auto simp: acc reset_keyed_def split: if_splits)
  have nologin: "fst (Login env' meta' cmd s0 s1 w') \<noteq> Inr v"
    if row: "login_row (NormalizeLoginName (il_LoginName cmd)) w' = Some b" "ac_id b = acc"
    for env' meta' cmd s0 s1 b v
  proof
    assume "fst (Login env' meta' cmd s0 s1 w') = Inr v"
    then obtain w2 where "Login env' meta' cmd s0 s1 w' = (Inr v, w2)" by (metis prod.collapse)
    from login_locked_row [OF this] login_prepare_Inr row(1) start_session_effect
    have "ac_state b = AccountStateActive" by (metis option.inject)
    moreover have "map_of (lg_accounts w') (ac_id b) = Some b"
      using row(1) keyed by (auto simp: login_row_def Option.bind_eq_Some_conv)
    moreover have "ac_state (aro_Account out) = AccountStateResetPending" using out(3) by simp
    ultimately show False using row(2) acc by auto
  qed
  have row: "map_of (lg_accounts w') acc = Some (a\<lparr>ac_state := AccountStateResetPending,
      ac_authEpoch := AuthEpoch_Next (ac_authEpoch a), ac_version := Version_Next (ac_version a)\<rparr>)"
    by (simp add: acc out(3))
  have gone: "no_session_of acc w'" using eff w'(2) id no_session_filtered by simp
  have link: "lg_resetTokens w' (lk_TokenID link) = Some t" using w'(3) t(1) by simp
  have tf: "rt_accountID t = acc" "rt_authEpoch t = AuthEpoch_Next (ac_authEpoch a)" using t(2,3) id out(3) by simp_all
  have only': "\<forall>i t'. lg_resetTokens w' i = Some t' \<and> rt_accountID t' = acc \<and> \<not> token_spent t' \<longrightarrow> i = lk_TokenID link"
    using only by blast
  have nologin': "\<forall>env' meta' cmd s0 s1 b v. login_row (NormalizeLoginName (il_LoginName cmd)) w' = Some b
      \<and> ac_id b = acc \<longrightarrow> fst (Login env' meta' cmd s0 s1 w') \<noteq> Inr v"
    using nologin by blast
  show ?thesis using begin_reset_success [OF assms(1), THEN conjunct2, THEN conjunct1]
      a(1) out(1) row gone link t(5) tf t(4) only' nologin'
    by (intro conjI exI [of _ a] exI [of _ t]) assumption+
qed

subsection \<open>Concrete runs\<close>

definition sample_identity_env :: identity_env where
  "sample_identity_env = \<lparr>ie_Hash = (\<lambda>_. Inr (PasswordHash ''new'')), ie_Verify = (\<lambda>_ h. Inr (h = PasswordHash ''h'')),
     ie_NewToken = (\<lambda>_. Inr (Input_FromString (replicate 40 CHR ''t''), sample_token)),
     ie_TokenHash = (\<lambda>_. Inr sample_token), ie_authorize = (\<lambda>_ _ _. None), ie_clock = (\<lambda>_. Instant 20),
     ie_ids = (\<lambda>_. sample_uuid CHR ''5''), ie_ctxErr = None\<rparr>"

definition sample_login :: IdentityLoginCommand where
  "sample_login = \<lparr>il_LoginName = ''admin'', il_Password = Some (Input_FromString (replicate 12 CHR ''p''))\<rparr>"

definition sample_reset_store :: ledger where
  "sample_reset_store = sample_login_store\<lparr>lg_settings := Some \<lparr>se_SchemaVersion = settingsSchemaVersionV1,
     se_SettingsJSON = json_text (wire_json (wire_of sample_settings)), se_Version = 1, se_UpdatedBy = []\<rparr>,
     lg_accounts := [(sample_uuid CHR ''1'', sample_account\<lparr>ac_state := AccountStateResetPending\<rparr>)],
     lg_resetTokens := [sample_uuid CHR ''3'' \<mapsto> sample_reset_token],
     lg_resetTokensByHash := [TokenHash_Hex sample_token \<mapsto> sample_uuid CHR ''3'']\<rparr>"

definition sample_reset_command :: IdentityCompleteResetCommand where
  "sample_reset_command = \<lparr>ir_ResetToken = Some (Input_FromString (replicate 40 CHR ''t'')),
     ir_NewPassword = Some (Input_FromString (replicate 12 CHR ''p''))\<rparr>"

definition sample_cli_meta :: RequestMeta where
  "sample_cli_meta = sample_visitor\<lparr>rq_Principal := zero_principal\<lparr>pr_kind := PrincipalKindInternal,
     pr_operations := [InternalOperationResetBegin]\<rparr>\<rparr>"

lemma admitted_without_failures:
  "lg_rateLimits w = Map.empty \<Longrightarrow> requirePreAuthAdmission ss now w = (Inr (), w)"
proof -
  have "lg_rateLimits w = Map.empty \<Longrightarrow> admission_scan ss now ws w = (Inr (), w)" for ws
    by (induction ss) (simp_all add: tx_bind_def tx_try_def GetRateLimit_def found_def tx_fail_def tx_return_def)
  then show "lg_rateLimits w = Map.empty \<Longrightarrow> requirePreAuthAdmission ss now w = (Inr (), w)"
    by (simp add: requirePreAuthAdmission_def)
qed

lemma ascii_secret_length:
  "list_all (byte_in 0 127) s \<Longrightarrow> secretCharacterLen (Some (Input_FromString s)) = Inr (length s)"
  by (simp add: secretCharacterLen_def Input_Use_def Input_FromString_def Input_New_def Input_acquire_def
      valid_utf8_ascii runes_ascii)

lemma sample_commands_valid:
  "IdentityLoginCommand_Validate sample_login = None"
  "IdentityCompleteResetCommand_Validate sample_reset_command = None"
  by (simp_all add: IdentityLoginCommand_Validate_def IdentityCompleteResetCommand_Validate_def sample_login_def
      sample_reset_command_def check_login_name_def check_secret_def ascii_secret_length byte_in_def list_all_iff
      isLoginNameChar_def loginNameMinLength_def loginNameMaxLength_def passwordMinLength_def passwordMaxLength_def
      tokenMinLength_def tokenMaxLength_def)

lemma sample_day: "Instant_Add (Instant 20) (Duration 86400000000) = Instant 86400000020"
  by (simp add: Instant_Add_def wrap64_id int64_bounds)

lemma sample_name: "NormalizeLoginName ''admin'' = ''admin''"
  by (simp add: NormalizeLoginName_def ascii_lower_def)

lemma sample_env_simps [simp]:
  "ie_clock sample_identity_env k = Instant 20" "ie_ids sample_identity_env n = sample_uuid CHR ''5''"
  "ie_ctxErr sample_identity_env = None" "ie_TokenHash sample_identity_env i = Inr sample_token"
  "ie_NewToken sample_identity_env k = Inr (Input_FromString (replicate 40 CHR ''t''), sample_token)"
  "ie_Verify sample_identity_env i h = Inr (h = PasswordHash ''h'')"
  "ie_Hash sample_identity_env i = Inr (PasswordHash ''new'')"
  by (simp_all add: sample_identity_env_def)

lemma sample_store_simps [simp]:
  "lg_accounts sample_login_store = [(sample_uuid CHR ''1'', sample_account)]"
  "lg_rateLimits sample_login_store = Map.empty" "lg_rateLimits sample_reset_store = Map.empty"
  "lg_accounts sample_reset_store = [(sample_uuid CHR ''1'', sample_account\<lparr>ac_state := AccountStateResetPending\<rparr>)]"
  by (simp_all add: sample_login_store_def sample_reset_store_def newState_def)

lemma sample_account_simps [simp]:
  "ac_id sample_account = sample_uuid CHR ''1''" "ac_normalizedLoginName sample_account = ''admin''"
  "ac_passwordHash sample_account = PasswordHash ''h''" "ac_state sample_account = AccountStateActive"
  "ac_authEpoch sample_account = 3" "ac_version sample_account = 1"
  by (simp_all add: sample_account_def)

lemma sample_login_name: "il_LoginName sample_login = ''admin''"
  by (simp add: sample_login_def)

definition sample_preparation :: "bool \<Rightarrow> login_preparation" where
  "sample_preparation ok = \<lparr>lp_normalized = ''admin'', lp_subjects = loginSubjects ''admin'' sample_visitor,
     lp_facts = \<lparr>lf_found = True, lf_accountID = sample_uuid CHR ''1'', lf_preparedVersion = 1,
       lf_hashToVerify = PasswordHash ''h''\<rparr>, lp_verified = ok,
     lp_tokens = (if ok then Some ((Input_FromString (replicate 40 CHR ''t''), sample_token),
       Input_FromString (replicate 40 CHR ''t''), sample_token) else None)\<rparr>"

lemma sample_login_prepared:
  "login_prepare sample_identity_env sample_visitor sample_login sample_login_store sample_login_store
     = Inr (sample_preparation True)"
  "login_prepare (sample_identity_env\<lparr>ie_Verify := \<lambda>_ _. Inr False\<rparr>) sample_visitor sample_login sample_login_store
     sample_login_store = Inr (sample_preparation False)"
  by (simp_all add: login_prepare_def sample_commands_valid check_context_def sample_preparation_def Let_def
      admitted_without_failures resolveLoginAttempt_def tx_bind_def tx_try_def FindAccountByLoginName_def found_def
      tx_return_def mint_token_def sample_login_name sample_name)

lemma sample_row: "login_row ''admin'' sample_login_store = Some sample_account"
  by (simp add: login_row_def)

lemma sample_login_runs:
  "\<exists>view w'. Login sample_identity_env sample_visitor sample_login sample_login_store sample_login_store sample_login_store
     = (Inr view, w')"
proof -
  have "CanLogin sample_account = None" by (simp add: CanLogin_def)
  then have "\<exists>view w'. start_session sample_identity_env sample_visitor sample_account (Instant 20)
      (lp_tokens (sample_preparation True)) sample_login_store = (Inr view, w')"
    by (simp add: start_session_def tx_iff DefaultPolicies NewSessionState_def check_then_Inr if_Inl_Inr err_of_None
        ParseID_Inr AbsoluteExpiresAt_def sample_day Instant_IsZero_def less_Instant_def sample_preparation_def)
  then have "\<exists>view w'. login_commit sample_identity_env sample_visitor (sample_preparation True) sample_login_store
      = (Inr (Inr view), w')"
    by (simp add: login_commit_Inr admitted_without_failures sample_row) (simp add: sample_preparation_def sample_row)
  then show ?thesis
    by (auto simp: Login_def sample_login_prepared tx_finish_iff tx_iff)
qed

theorem login_sound_witness:
  "\<exists>view w'. Login sample_identity_env sample_visitor sample_login sample_login_store sample_login_store
       sample_login_store = (Inr view, w')
     \<and> lg_accounts w' = lg_accounts sample_login_store"
  using sample_login_runs login_sound by blast

theorem login_failure_counted_witness:
  "\<exists>e w'. Login (sample_identity_env\<lparr>ie_Verify := \<lambda>_ _. Inr False\<rparr>) sample_visitor sample_login sample_login_store
       sample_login_store sample_login_store = (Inl e, w')
     \<and> (w' = sample_login_store \<or> e = invalidCredentialsError)"
proof -
  let ?env = "sample_identity_env\<lparr>ie_Verify := \<lambda>_ _. Inr False\<rparr>"
  have "\<exists>w'. login_commit ?env sample_visitor (sample_preparation False) sample_login_store
      = (Inr (Inl invalidCredentialsError), w')"
    by (simp add: login_commit_Inr admitted_without_failures) (simp add: sample_preparation_def sample_row)
  then obtain w' where "Login ?env sample_visitor sample_login sample_login_store sample_login_store sample_login_store
      = (Inl invalidCredentialsError, w')"
    by (auto simp: Login_def sample_login_prepared tx_finish_def atomically_def)
  from login_failure_counted [OF this] this show ?thesis by blast
qed

lemma sample_reset_admitted:
  "GetResetToken sample_token sample_reset_store = (Inr sample_reset_token, sample_reset_store)"
  by (simp add: GetResetToken_def sample_reset_store_def found_def tx_return_def)

lemma sample_reset_runs:
  "\<exists>w'. Identity_CompleteReset sample_identity_env sample_visitor sample_reset_command sample_reset_store
     sample_reset_store sample_reset_store = (Inr (), w')"
proof -
  let ?a = "sample_account\<lparr>ac_state := AccountStateResetPending\<rparr>"
  have consume: "Token_Consume sample_reset_token (Instant 20) (token_facts ?a)
      = Inr (sample_reset_token\<lparr>rt_consumedAt := Instant 20\<rparr>)"
    by (simp add: Token_Consume_def check_then_Inr Token_CanConsume_None token_facts_def sample_reset_token_def
        token_spent_def Token_IsConsumed_def Token_IsInvalidated_def zero_instant_def Instant_IsZero_def less_Instant_def)
  have tok: "rt_accountID sample_reset_token = sample_uuid CHR ''1''" "rt_id sample_reset_token = sample_uuid CHR ''3''"
    by (simp_all add: sample_reset_token_def)
  obtain out where out: "CompleteReset ?a (PasswordHash ''new'') = Inr out" "ac_id (aro_Account out) = sample_uuid CHR ''1''"
    by (simp add: CompleteReset_def PasswordHash_IsZero_def)
  have "\<exists>w'. finish_reset sample_identity_env sample_visitor ?a (sample_reset_token\<lparr>rt_consumedAt := Instant 20\<rparr>) out
      (Instant 20) sample_reset_store = (Inr (Inr ()), w')"
    by (simp add: finish_reset_def save_reset_outcome_def tx_iff put_reset_token_def out tok)
      (simp add: sample_reset_store_def tok)
  with consume out have "\<exists>w'. complete_reset_commit sample_identity_env sample_visitor sample_token
      (resetSubjects (sample_uuid CHR ''1'') sample_visitor) True (PasswordHash ''new'') sample_reset_store = (Inr (Inr ()), w')"
    by (simp add: complete_reset_commit_def tx_bind_def tx_try_def admitted_without_failures sample_reset_admitted tok
        GetAccountForUpdate_def found_def tx_return_def token_facts_def Let_def)
  moreover have "fst (resolveResetSubjects sample_token sample_visitor sample_reset_store)
      = Inr (resetSubjects (sample_uuid CHR ''1'') sample_visitor, True)"
    by (simp add: resolveResetSubjects_def tx_bind_def tx_try_def sample_reset_admitted tx_return_def tok)
  ultimately show ?thesis
    by (simp add: Identity_CompleteReset_def tx_bind_iff tx_guard_iff tx_lift_iff tx_finish_iff atomically_iff
        sample_commands_valid check_context_def admitted_without_failures) blast
qed

lemma sample_reset_keyed: "reset_keyed sample_reset_store"
  by (simp add: reset_keyed_def) (simp add: sample_reset_store_def sample_reset_token_def)

theorem reset_completes_once_witness:
  "\<exists>w'. Identity_CompleteReset sample_identity_env sample_visitor sample_reset_command sample_reset_store
       sample_reset_store sample_reset_store = (Inr (), w')
     \<and> fst (Identity_CompleteReset sample_identity_env sample_visitor sample_reset_command w' w' w') \<noteq> Inr ()"
proof -
  from sample_reset_runs obtain w' where run: "Identity_CompleteReset sample_identity_env sample_visitor
      sample_reset_command sample_reset_store sample_reset_store sample_reset_store = (Inr (), w')" by blast
  have "ie_clock sample_identity_env 2 \<noteq> zero_instant" by (simp add: zero_instant_def)
  from reset_completes_once [OF run sample_reset_keyed this] run show ?thesis by blast
qed

lemma sample_begin_reset_runs:
  "\<exists>link w'. Identity_BeginReset sample_identity_env sample_cli_meta (sample_uuid CHR ''1'') sample_reset_store
     = (Inr link, w')"
proof -
  let ?a = "sample_account\<lparr>ac_state := AccountStateResetPending\<rparr>"
  obtain out where out: "BeginReset ?a = Inr out" "ac_id (aro_Account out) = sample_uuid CHR ''1''"
    by (simp add: BeginReset_def)
  have add: "Instant_Add (Instant 20) (Duration 10800000000) = Instant 10800000020"
    by (simp add: Instant_Add_def wrap64_id int64_bounds)
  have settings: "lg_settings sample_reset_store = Some \<lparr>se_SchemaVersion = settingsSchemaVersionV1,
      se_SettingsJSON = json_text (wire_json (wire_of sample_settings)), se_Version = 1, se_UpdatedBy = []\<rparr>"
    by (simp add: sample_reset_store_def)
  have issue: "\<exists>t. IssueAdminResetToken (sample_uuid CHR ''5'') (sample_uuid CHR ''1'') sample_token e (Instant 20)
      (ResetPolicy (Duration 10800000000)) = Inr t" for e
    by (simp add: IssueAdminResetToken_def NewAdminResetToken_def check_then_Inr if_Inl_Inr err_of_None ParseID_Inr
        ResetPolicy_ExpiresAt_def add Instant_IsZero_def less_Instant_def)
  have url: "\<exists>u. buildResetLinkURL (sv_ServiceURL sample_settings) (Some (Input_FromString s)) = Inr u" for s
    by (simp add: buildResetLinkURL_def sample_settings_def Input_Use_def Input_FromString_def Input_New_def Input_acquire_def)
  have "\<exists>w1. save_reset_outcome out (sample_uuid CHR ''1'') 1 (Instant 20) sample_reset_store = (Inr (), w1)"
    by (simp add: save_reset_outcome_def tx_iff out)
  then have "\<exists>link w'. begin_reset_commit sample_identity_env sample_cli_meta (sample_uuid CHR ''1'')
      (Input_FromString (replicate 40 CHR ''t'')) sample_token sample_reset_store = (Inr link, w')"
    using out(1) issue url
    by (simp add: begin_reset_commit_def tx_iff settings sample_settings_decoded DefaultPolicies ParseID_Inr Let_def)
      blast
  moreover have "IsInternal (rq_Principal sample_cli_meta)" "Can (rq_Principal sample_cli_meta) InternalOperationResetBegin"
    by (simp_all add: sample_cli_meta_def IsInternal_def Can_def Principal_Kind_def)
  moreover have "ParseAccountID (sample_uuid CHR ''1'') = Inr (sample_uuid CHR ''1'')" by (simp add: ParseID_Inr)
  ultimately show ?thesis
    by (simp add: Identity_BeginReset_def tx_bind_iff tx_guard_iff tx_lift_iff atomically_iff mint_token_def
        IdentityBeginResetCommand_Validate_def check_context_def)
qed

theorem begin_reset_cuts_off_witness:
  "\<exists>link w'. Identity_BeginReset sample_identity_env sample_cli_meta (sample_uuid CHR ''1'') sample_reset_store
       = (Inr link, w')
     \<and> (\<exists>a. map_of (lg_accounts w') (sample_uuid CHR ''1'') = Some a \<and> ac_state a = AccountStateResetPending)"
proof -
  from sample_begin_reset_runs obtain link w' where run: "Identity_BeginReset sample_identity_env sample_cli_meta
      (sample_uuid CHR ''1'') sample_reset_store = (Inr link, w')" by blast
  have "ie_clock sample_identity_env 0 \<noteq> zero_instant" by (simp add: zero_instant_def)
  from begin_reset_cuts_off [OF run sample_reset_keyed this] run show ?thesis by fastforce
qed

end
