(* ===== verification/Import_Order.thy ===== *)
theory Import_Order
  imports App_Errors
begin

text \<open>
  \<open>topologicalOrder\<close> of \<open>internal/app/service/importing.go\<close>: the order in which the files of one
  import are stored. A file that depends on another file of the same import (its issuer's
  certificate, or the certificate a CA key belongs to) has to come after it.
\<close>

datatype ImportFileKind =
    ImportFileKindCertificate | ImportFileKindCAKey | ImportFileKindCRL | ImportFileKindOther string

datatype ImportItemStatus =
    ImportItemStatusNew | ImportItemStatusDuplicate | ImportItemStatusConflict | ImportItemStatusOther string

text \<open>The fields of \<open>importResolution\<close> the ordering reads.\<close>

record importResolution =
  ri_FileName :: string
  ri_Kind :: ImportFileKind
  ri_Status :: ImportItemStatus
  ri_IssuerBatchFileName :: string
  ri_KeyTargetBatchFileName :: string

text \<open>Index of a file name; of two files with one name, the later wins.\<close>

definition byName :: "string list \<Rightarrow> string \<Rightarrow> nat option" where
  "byName names = map_of (rev (zip names [0..<length names]))"

definition dependency :: "importResolution \<Rightarrow> string" where
  "dependency r = (if ri_Kind r = ImportFileKindCAKey then ri_KeyTargetBatchFileName r
     else ri_IssuerBatchFileName r)"

text \<open>The body of the inner loop, up to whether the item is appended. \<open>order\<close> doubles as the set of
  indices that are done.\<close>

definition item_ready :: "string list \<Rightarrow> nat list \<Rightarrow> importResolution \<Rightarrow> bool" where
  "item_ready names order r \<longleftrightarrow>
     (ri_Status r = ImportItemStatusNew \<and> dependency r \<noteq> [] \<longrightarrow>
        (case byName names (dependency r) of None \<Rightarrow> False | Some d \<Rightarrow> d \<in> set order))
     \<and> (ri_Status r \<noteq> ImportItemStatusNew \<or> ri_IssuerBatchFileName r = []
        \<or> (case byName names (ri_IssuerBatchFileName r) of None \<Rightarrow> False | Some d \<Rightarrow> d \<in> set order))"

fun order_pass :: "string list \<Rightarrow> nat \<Rightarrow> importResolution list \<Rightarrow> nat list \<Rightarrow> nat list" where
  "order_pass names i [] order = order"
| "order_pass names i (r # rs) order =
     (if i \<in> set order then order_pass names (Suc i) rs order
      else if item_ready names order r then order_pass names (Suc i) rs (order @ [i])
      else order_pass names (Suc i) rs order)"

fun order_passes :: "nat \<Rightarrow> string list \<Rightarrow> importResolution list \<Rightarrow> nat list \<Rightarrow> nat list" where
  "order_passes 0 names resolved order = order"
| "order_passes (Suc k) names resolved order =
     (let order' = order_pass names 0 resolved order in
      if length order' = length order then order' else order_passes k names resolved order')"

definition topologicalOrder :: "string list \<Rightarrow> importResolution list \<Rightarrow> go_error + nat list" where
  "topologicalOrder names resolved =
     (let order = order_passes (length names + 1) names resolved [] in
      if length order \<noteq> length names
        then Inl (App (NewAppError ErrorKindUnavailable ''import_dependency_unresolved''
          ''could not order the import batch by issuer dependency''))
      else Inr order)"

subsection \<open>One pass\<close>

text \<open>An order is sound when it lists indices of the import once each, every item after what it
  needs.\<close>

definition sound_order :: "string list \<Rightarrow> importResolution list \<Rightarrow> nat list \<Rightarrow> bool" where
  "sound_order names rs order \<longleftrightarrow> distinct order \<and> set order \<subseteq> {..<length rs}
     \<and> (\<forall>k<length order. item_ready names (take k order) (rs ! (order ! k)))"

lemma item_ready_mono: "item_ready names order r \<Longrightarrow> set order \<subseteq> set order' \<Longrightarrow> item_ready names order' r"
  by (fastforce simp: item_ready_def split: option.splits)

lemma sound_snoc:
  assumes "sound_order names rs order" and "i < length rs" and "i \<notin> set order"
    and "item_ready names order (rs ! i)"
  shows "sound_order names rs (order @ [i])"
  using assms by (auto simp: sound_order_def nth_append less_Suc_eq)

lemma order_pass_sound:
  assumes "sound_order names all order" and "rs = drop i all"
  shows "sound_order names all (order_pass names i rs order)
    \<and> (\<exists>ys. order_pass names i rs order = order @ ys)"
  using assms
proof (induction names i rs order rule: order_pass.induct)
  case (1 names i order)
  then show ?case by simp
next
  case (2 names i r rs order)
  have i: "i < length all" "all ! i = r" "rs = drop (Suc i) all"
    using 2(5) by (metis drop_eq_Nil list.distinct(1) not_less, metis hd_drop_conv_nth list.sel(1)
        drop_eq_Nil list.distinct(1) not_less, metis drop_Suc list.sel(3) tl_drop)
  show ?case
    using 2(1-4) i sound_snoc [OF 2(4) i(1)] by auto
qed

text \<open>A pass that appends nothing proves that nothing is ready.\<close>

lemma order_pass_stuck:
  assumes "order_pass names i rs order = order" and "j < length rs" and "i + j \<notin> set order"
  shows "\<not> item_ready names order (rs ! j)"
  using assms
proof (induction names i rs order arbitrary: j rule: order_pass.induct)
  case (1 names i order)
  then show ?case by simp
next
  case (2 names i r rs order)
  have ext: "\<exists>ys. order_pass names k rs o' = o' @ ys" for k rs o'
    by (induction names k rs o' rule: order_pass.induct) auto
  have ready: "\<not> (i \<notin> set order \<and> item_ready names order r)"
  proof
    assume "i \<notin> set order \<and> item_ready names order r"
    with 2(4) have "order_pass names (Suc i) rs (order @ [i]) = order" by simp
    with ext [of "Suc i" rs "order @ [i]"] show False by auto
  qed
  with 2(4) have rest: "order_pass names (Suc i) rs order = order" by (auto split: if_splits)
  show ?case
  proof (cases j)
    case 0
    with ready 2(6) show ?thesis by simp
  next
    case (Suc j')
    show ?thesis
      using 2 ready rest Suc by (cases "i \<in> set order") auto
  qed
qed

lemma order_passes_sound:
  assumes "sound_order names rs order"
  shows "sound_order names rs (order_passes k names rs order)"
  using assms
proof (induction k arbitrary: order)
  case (Suc k)
  have "sound_order names rs (order_pass names 0 rs order)"
    using order_pass_sound [of names rs order rs 0] Suc.prems by simp
  with Suc.IH show ?case by (simp add: Let_def)
qed simp

text \<open>Every pass but the last appends an item, so one pass more than there are items always ends in
  a pass that appends nothing.\<close>

lemma order_passes_stuck:
  assumes "sound_order names rs order" and "length rs < k + length order"
  shows "order_pass names 0 rs (order_passes k names rs order) = order_passes k names rs order"
  using assms
proof (induction k arbitrary: order)
  case 0
  then have "length order \<le> length rs"
    unfolding sound_order_def using card_mono [of "{..<length rs}" "set order"]
    by (simp add: distinct_card)
  with 0 show ?case by simp
next
  case (Suc k)
  let ?o = "order_pass names 0 rs order"
  from order_pass_sound [of names rs order rs 0] Suc.prems(1) obtain ys
    where so: "sound_order names rs ?o" and ys: "?o = order @ ys" by auto
  show ?case
  proof (cases "ys = []")
    case True
    with ys show ?thesis by (simp add: Let_def)
  next
    case False
    with ys Suc.prems(2) have "length rs < k + length ?o" by (cases ys) simp_all
    from Suc.IH [OF so this] False ys show ?thesis by (simp add: Let_def)
  qed
qed

declare order_passes.simps [simp del]

subsection \<open>What a file needs\<close>

text \<open>The names a new file has to come after: its issuer's certificate file, and for a CA key also the certificate it
  belongs to. A name stands for the last file of the import that carries it.\<close>

definition needs :: "importResolution \<Rightarrow> string set" where
  "needs r = (if ri_Status r \<noteq> ImportItemStatusNew then {}
     else ({ri_IssuerBatchFileName r} \<union> (if ri_Kind r = ImportFileKindCAKey then {ri_KeyTargetBatchFileName r} else {})) - {[]})"

definition file_named :: "string list \<Rightarrow> string \<Rightarrow> nat \<Rightarrow> bool" where
  "file_named names d j \<longleftrightarrow> j < length names \<and> names ! j = d \<and> (\<forall>i<length names. j < i \<longrightarrow> names ! i \<noteq> d)"

lemma file_named_snoc:
  "file_named (names @ [x]) d j \<longleftrightarrow> (if d = x then j = length names else file_named names d j)"
  by (auto simp: file_named_def nth_append less_Suc_eq)

lemma byName_iff: "byName names d = Some j \<longleftrightarrow> file_named names d j"
proof (induction names rule: rev_induct)
  case Nil
  show ?case by (simp add: byName_def file_named_def)
next
  case (snoc x names)
  have "byName (names @ [x]) = (byName names)(x \<mapsto> length names)" by (simp add: byName_def)
  with snoc show ?case by (auto simp: file_named_snoc)
qed

lemma item_ready_iff: "item_ready names order r \<longleftrightarrow> (\<forall>d\<in>needs r. \<exists>j\<in>set order. file_named names d j)"
proof -
  have found: "(case q of None \<Rightarrow> False | Some j \<Rightarrow> j \<in> S) \<longleftrightarrow> (\<exists>j\<in>S. q = Some j)" for q :: "nat option" and S
    by (cases q) auto
  show ?thesis unfolding item_ready_def needs_def dependency_def byName_iff [symmetric] found by auto
qed

lemma ready_earlier:
  assumes "item_ready names (take k order) r" and "d \<in> needs r" and "k < length order"
  shows "\<exists>m<k. file_named names d (order ! m)"
  using assms by (fastforce simp: item_ready_iff in_set_conv_nth)

text \<open>C34. The import order is right and complete: when an order is returned it lists every file exactly once,
  and every file the import stores anew comes after the file each of the names it needs stands for; and it is
  refused only when some files are stuck, each of them new and needing a name that is not in the import or that
  stands for a file of that same set.\<close>

theorem topological_order_correct:
  assumes "length resolved = length names"
  shows "(\<forall>order. topologicalOrder names resolved = Inr order \<longrightarrow>
        distinct order \<and> set order = {..<length resolved}
        \<and> (\<forall>k<length order. \<forall>d\<in>needs (resolved ! (order ! k)). \<exists>m<k. file_named names d (order ! m)))
    \<and> (\<forall>e. topologicalOrder names resolved = Inl e \<longrightarrow>
        (\<exists>stuck. stuck \<noteq> {} \<and> stuck \<subseteq> {..<length resolved}
          \<and> (\<forall>i\<in>stuck. \<exists>d\<in>needs (resolved ! i). \<forall>j. file_named names d j \<longrightarrow> j \<in> stuck)))"
proof -
  let ?o = "order_passes (length names + 1) names resolved []"
  have "sound_order names resolved []" by (simp add: sound_order_def)
  then have so: "sound_order names resolved ?o"
    and stop: "order_pass names 0 resolved ?o = ?o"
    using order_passes_sound [of names resolved "[]"] order_passes_stuck [of names resolved "[]"] assms
    by auto
  have full: "length ?o = length names \<longleftrightarrow> set ?o = {..<length resolved}"
    using so assms card_subset_eq [of "{..<length resolved}" "set ?o"]
    by (auto simp: sound_order_def distinct_card [symmetric])
  let ?stuck = "{..<length resolved} - set ?o"
  have stuck: "\<exists>d\<in>needs (resolved ! i). \<forall>j. file_named names d j \<longrightarrow> j \<in> ?stuck" if i: "i \<in> ?stuck" for i
    using order_pass_stuck [OF stop, of i] i assms by (auto simp: item_ready_iff file_named_def)
  have ok: "topologicalOrder names resolved = (if length ?o \<noteq> length names
      then Inl (App (NewAppError ErrorKindUnavailable ''import_dependency_unresolved''
        ''could not order the import batch by issuer dependency'')) else Inr ?o)"
    by (simp add: topologicalOrder_def Let_def)
  have "?stuck \<noteq> {}" if "length ?o \<noteq> length names"
    using that full so by (auto simp: sound_order_def)
  moreover have "\<exists>m<k. file_named names d (?o ! m)" if "k < length ?o" "d \<in> needs (resolved ! (?o ! k))" for k d
    using so that by (auto simp: sound_order_def intro: ready_earlier)
  ultimately show ?thesis using stuck so full
    unfolding ok
    by (intro conjI allI impI exI [of _ ?stuck]) (auto simp: sound_order_def split: if_splits)
qed

definition sample_item :: "string \<Rightarrow> string \<Rightarrow> importResolution" where
  "sample_item name issuer = \<lparr>ri_FileName = name, ri_Kind = ImportFileKindCertificate,
     ri_Status = ImportItemStatusNew, ri_IssuerBatchFileName = issuer, ri_KeyTargetBatchFileName = []\<rparr>"

text \<open>A leaf listed before its issuer is stored after it.\<close>

theorem topological_order_correct_witness:
  "\<exists>order. topologicalOrder [''leaf'', ''root''] [sample_item ''leaf'' ''root'', sample_item ''root'' []] = Inr order
     \<and> set order = {..<2}"
proof -
  let ?rs = "[sample_item ''leaf'' ''root'', sample_item ''root'' []]"
  have "topologicalOrder [''leaf'', ''root''] ?rs = Inr [1, 0]"
    by (rule returnsD) code_simp
  then show ?thesis
    using topological_order_correct [of ?rs "[''leaf'', ''root'']"] by (auto simp: numeral_2_eq_2)
qed

end
