(* ===== verification/Import_History.thy ===== *)
theory Import_History
  imports Issuer_Chain Revocation_Batch
begin

text \<open>
  The revocation part of an import (\<open>internal/app/service/importing.go\<close>): which changes a freshly
  stored certificate adds to the batch that \<open>applyRevocations\<close> then records. One comes from a
  compromised key, one from a revocation that was known before the certificate was.
\<close>

definition empty_change :: RevocationChange where
  "empty_change = \<lparr>rc_IssuerID = [], rc_Serial = SerialNumber [], rc_CertificateID = [],
     rc_RevokedAt = zero_instant, rc_Reason = RevocationReasonOther [],
     rc_Source = RevocationSourceOther [], rc_AuthorityID = [], rc_NeedsReview = False\<rparr>"

text \<open>Of the file's resolution only the time of the compromise is read.\<close>

definition compromiseCascadeChange ::
  "pki_store \<Rightarrow> CertificateID \<Rightarrow> AuthorityID \<Rightarrow> Instant \<Rightarrow> RevocationChange" where
  "compromiseCascadeChange tx certificateID authorityID compromisedAt =
     (case GetCertificate tx certificateID of
        Inl _ \<Rightarrow> empty_change
      | Inr cert \<Rightarrow>
          \<lparr>rc_IssuerID = ce_issuerCAKeyGenerationID cert, rc_Serial = ce_serial cert,
           rc_CertificateID = certificateID, rc_RevokedAt = compromisedAt,
           rc_Reason = RevocationReasonKeyCompromise, rc_Source = RevocationSourceCascade,
           rc_AuthorityID = authorityID, rc_NeedsReview = False\<rparr>)"

definition existingRevocationHistoryChange ::
  "pki_store \<Rightarrow> CertificateID \<Rightarrow> AuthorityID \<Rightarrow> (ledger, RevocationChange option) tx" where
  "existingRevocationHistoryChange tx certificateID authorityID =
     (case GetCertificate tx certificateID of
        Inl e \<Rightarrow> tx_fail (storeError e ''import_certificate_reread_failed''
          ''could not re-read the imported certificate'')
      | Inr cert \<Rightarrow>
          tx_bind (tx_try (FindForUpdate (ce_issuerCAKeyGenerationID cert) (ce_serial cert))) (\<lambda>r. case r of
            Inl e \<Rightarrow>
              if Is_port e ErrNotFound then tx_return None
              else tx_fail (storeError e ''import_revocation_history_read_failed''
                ''could not check for existing revocation history'')
          | Inr existing \<Rightarrow>
              if rv_certificateID existing \<noteq> [] then tx_return None
              else tx_return (Some
                \<lparr>rc_IssuerID = rv_issuerID existing, rc_Serial = rv_serial existing,
                 rc_CertificateID = certificateID, rc_RevokedAt = rv_revokedAt existing,
                 rc_Reason = rv_reason existing, rc_Source = rv_source existing,
                 rc_AuthorityID = authorityID, rc_NeedsReview = False\<rparr>)))"

text \<open>The tail of the branch for a new certificate: \<open>compromised\<close> is the time of the compromise when
  the file resolved to a compromised key.\<close>

definition new_item_changes ::
  "pki_store \<Rightarrow> CertificateID \<Rightarrow> AuthorityID \<Rightarrow> Instant option \<Rightarrow> RevocationChange list
     \<Rightarrow> (ledger, RevocationChange list) tx" where
  "new_item_changes tx certID authID compromised revocationChanges =
     (let cascade = (case compromised of None \<Rightarrow> revocationChanges
        | Some t \<Rightarrow> revocationChanges @ [compromiseCascadeChange tx certID authID t]) in
      tx_bind (existingRevocationHistoryChange tx certID authID) (\<lambda>h. case h of
        None \<Rightarrow> tx_return cascade
      | Some change \<Rightarrow> tx_return (cascade @ [change])))"

text \<open>Importing a new certificate and recording what it adds, as one transaction.\<close>

definition import_new_item ::
  "pki_store \<Rightarrow> CertificateID \<Rightarrow> AuthorityID \<Rightarrow> Instant option \<Rightarrow> RevocationMeta
     \<Rightarrow> (ledger, RevocationOutcome) tx" where
  "import_new_item tx certID authID compromised m =
     tx_bind (new_item_changes tx certID authID compromised []) (\<lambda>cs.
       if cs \<noteq> [] then applyRevocations cs m else tx_return no_outcome)"

text \<open>A revocation that was known before its certificate is linked to it, and keeps its facts.\<close>

lemma history_links:
  assumes "GetCertificate tx certID = Inr cert"
    and "lg_revocations w (ce_issuerCAKeyGenerationID cert, sn_hex (ce_serial cert)) = Some r"
    and "rv_certificateID r = []"
  shows "existingRevocationHistoryChange tx certID authID w = (Inr (Some
      \<lparr>rc_IssuerID = rv_issuerID r, rc_Serial = rv_serial r, rc_CertificateID = certID,
       rc_RevokedAt = rv_revokedAt r, rc_Reason = rv_reason r, rc_Source = rv_source r,
       rc_AuthorityID = authID, rc_NeedsReview = False\<rparr>), w)"
  using assms by (simp add: existingRevocationHistoryChange_def tx_bind_def tx_try_def
      FindForUpdate_def found_def tx_return_def)

text \<open>C29. A certificate whose key is compromised and whose revocation was already on record without a
  certificate cannot be imported: the import adds the cascade change and the history change for
  the same ledger row to one batch, each of them alters the row, and the batch is refused. Only a
  row that is already flagged for review and disagrees with the compromise escapes this.\<close>

theorem compromised_import_of_known_revocation_fails:
  assumes "ledger_ok w" and cert: "GetCertificate tx certID = Inr cert" and "certID \<noteq> []"
    and row: "lg_revocations w (ce_issuerCAKeyGenerationID cert, sn_hex (ce_serial cert)) = Some r"
    and unlinked: "rv_certificateID r = []"
    and "rv_needsReview r \<longrightarrow> rv_reason r = RevocationReasonKeyCompromise \<and> rv_revokedAt r = t"
  shows "\<exists>e. atomically (import_new_item tx certID authID (Some t) m) w = (Inl e, w)"
proof -
  let ?h = "\<lparr>rc_IssuerID = rv_issuerID r, rc_Serial = rv_serial r, rc_CertificateID = certID,
       rc_RevokedAt = rv_revokedAt r, rc_Reason = rv_reason r, rc_Source = rv_source r,
       rc_AuthorityID = authID, rc_NeedsReview = False\<rparr>"
  let ?c = "compromiseCascadeChange tx certID authID t"
  from assms(1) row have key: "row_key r = (ce_issuerCAKeyGenerationID cert, sn_hex (ce_serial cert))"
    by (auto simp: ledger_ok_def)
  have keys: "change_key ?c = row_key r" "change_key ?h = row_key r"
    using cert key by (simp_all add: compromiseCascadeChange_def change_key_def row_key_def)
  have "merged r (change_facts ?h) \<noteq> r"
    using unlinked assms(3) by (simp add: merged_def agrees_def change_facts_def)
  then have h: "alters w ?h" using row key by (simp add: alters_def keys)
  have "merged r (change_facts ?c) \<noteq> r"
    using unlinked assms(3,6) cert
    by (auto simp: merged_def agrees_def change_facts_def compromiseCascadeChange_def)
  then have c: "alters w ?c" using row key by (simp add: alters_def keys)
  have "import_new_item tx certID authID (Some t) m w = applyRevocations [?c, ?h] m w"
    using history_links [OF cert row unlinked]
    by (simp add: import_new_item_def new_item_changes_def tx_bind_def tx_return_def)
  then have "atomically (import_new_item tx certID authID (Some t) m) w
      = atomically (applyRevocations [?c, ?h] m) w" by (simp add: atomically_def)
  moreover have "\<exists>e. atomically (applyRevocations [?c, ?h] m) w = (Inl e, w)"
    using assms(1) c h keys
    by (intro two_alterations_fail [where a = 0 and b = 1]) (simp_all add: ledger_ok_def)
  ultimately show ?thesis by simp
qed

definition known_revocation_ledger :: ledger where
  "known_revocation_ledger = sample_ledger\<lparr>lg_revocationRows :=
     [((sample_uuid CHR ''2'', ''ab''), sample_revocation\<lparr>rv_changeGeneration := 0\<rparr>)]\<rparr>"

definition imported_store :: pki_store where
  "imported_store = \<lparr>GetLeafCertificateRecord = (\<lambda>_. Inl (Port ErrNotFound)),
     GetCACertificateRecord = (\<lambda>_. Inl (Port ErrNotFound)),
     GetCertificate = (\<lambda>_. Inr ((sample_cert CHR ''6'' CHR ''2'')\<lparr>ce_serial := SerialNumber ''ab''\<rparr>)),
     GetSeriesForUpdate = (\<lambda>_. Inl (Port ErrNotFound))\<rparr>"

theorem compromised_import_of_known_revocation_fails_witness:
  "\<exists>e. atomically (import_new_item imported_store (sample_uuid CHR ''6'') (sample_uuid CHR ''5'')
       (Some (Instant 40)) sample_meta) known_revocation_ledger = (Inl e, known_revocation_ledger)"
proof (rule compromised_import_of_known_revocation_fails
    [where cert = "(sample_cert CHR ''6'' CHR ''2'')\<lparr>ce_serial := SerialNumber ''ab''\<rparr>"
      and r = "sample_revocation\<lparr>rv_changeGeneration := 0\<rparr>"])
  show "ledger_ok known_revocation_ledger"
    by (simp add: known_revocation_ledger_def ledger_ok_def crl_keyed_def sample_ledger_def newState_def int64_bounds
        sample_revocation_def row_key_def)
qed (simp_all add: imported_store_def known_revocation_ledger_def sample_revocation_def sample_cert_def
    sample_uuid_def)

subsection \<open>Imported CRLs\<close>

record RevokedEntryFacts =
  re_Serial :: SerialNumber
  re_RevokedAt :: Instant
  re_Reason :: RevocationReason

text \<open>The changes \<open>insertImportedCRL\<close> returns for the entries of a CRL, with the certificate lookup
  by issuer and serial as an argument.\<close>

fun crl_changes ::
  "(SerialNumber \<Rightarrow> go_error + Certificate) \<Rightarrow> CAKeyGenerationID \<Rightarrow> AuthorityID \<Rightarrow> bool
     \<Rightarrow> RevokedEntryFacts list \<Rightarrow> go_error + RevocationChange list" where
  "crl_changes lookup issuer authorityID needsReview [] = Inr []"
| "crl_changes lookup issuer authorityID needsReview (entry # entries) =
     and_then
       (case lookup (re_Serial entry) of
          Inr certificate \<Rightarrow> Inr (ce_id certificate)
        | Inl e \<Rightarrow>
            if \<not> Is_port e ErrNotFound
              then Inl (storeError e ''import_crl_certificate_lookup_failed''
                ''could not link an imported CRL entry'')
            else Inr [])
       (\<lambda>certificateID.
          and_then (crl_changes lookup issuer authorityID needsReview entries) (\<lambda>cs.
            Inr (\<lparr>rc_IssuerID = issuer, rc_Serial = re_Serial entry, rc_CertificateID = certificateID,
                  rc_RevokedAt = re_RevokedAt entry, rc_Reason = re_Reason entry,
                  rc_Source = RevocationSourceImport, rc_AuthorityID = authorityID,
                  rc_NeedsReview = needsReview\<rparr> # cs)))"

lemma crl_changes_entry:
  assumes "crl_changes lookup issuer authorityID needsReview entries = Inr cs" and "entry \<in> set entries"
  shows "\<exists>c\<in>set cs. change_key c = (issuer, sn_hex (re_Serial entry))"
  using assms
  by (induction entries arbitrary: cs) (auto simp: and_then_Inr change_key_def)

text \<open>C30. Two CRLs of one issuer that both list a certificate the ledger does not know yet cannot be
  imported together: wherever their changes stand in the batch, the second of them inserts a row
  the first one already inserted, and the import is refused and rolled back.\<close>

theorem overlapping_crls_fail:
  assumes "ledger_ok w"
    and first: "crl_changes lookup issuer authorityID nr entries = Inr cs" "entry \<in> set entries"
    and second: "crl_changes lookup' issuer authorityID' nr' entries' = Inr cs'" "entry' \<in> set entries'"
    and same: "re_Serial entry' = re_Serial entry"
    and unknown: "lg_revocations w (issuer, sn_hex (re_Serial entry)) = None"
  shows "\<exists>e. atomically (applyRevocations (before @ cs @ between @ cs' @ after) m) w = (Inl e, w)"
proof -
  let ?all = "before @ cs @ between @ cs' @ after"
  from crl_changes_entry [OF first] obtain a where a: "a < length cs"
    "change_key (cs ! a) = (issuer, sn_hex (re_Serial entry))" by (auto simp: in_set_conv_nth)
  from crl_changes_entry [OF second] obtain b where b: "b < length cs'"
    "change_key (cs' ! b) = (issuer, sn_hex (re_Serial entry))" by (auto simp: in_set_conv_nth same)
  let ?a = "length before + a" and ?b = "length before + length cs + length between + b"
  have "?all ! ?a = cs ! a" "?all ! ?b = cs' ! b" using a b by (simp_all add: nth_append)
  with a b unknown show ?thesis
    using assms(1)
    by (intro two_alterations_fail [where a = ?a and b = ?b]) (simp_all add: ledger_ok_def alters_def)
qed

definition sample_entry :: "Instant \<Rightarrow> RevokedEntryFacts" where
  "sample_entry t = \<lparr>re_Serial = SerialNumber ''ab'', re_RevokedAt = t,
     re_Reason = RevocationReasonSuperseded\<rparr>"

theorem overlapping_crls_fail_witness:
  "\<exists>cs e. crl_changes (\<lambda>_. Inl (Port ErrNotFound)) (sample_uuid CHR ''2'') (sample_uuid CHR ''5'') False
       [sample_entry (Instant 50)] = Inr cs
     \<and> atomically (applyRevocations (cs @ cs) sample_meta) sample_ledger = (Inl e, sample_ledger)"
proof -
  let ?lk = "\<lambda>_. Inl (Port ErrNotFound) :: go_error + Certificate"
  obtain cs where cs: "crl_changes ?lk (sample_uuid CHR ''2'') (sample_uuid CHR ''5'') False
      [sample_entry (Instant 50)] = Inr cs" by simp
  from overlapping_crls_fail [OF sample_ledger_ok cs _ cs, of "sample_entry (Instant 50)"
      "sample_entry (Instant 50)" "[]" "[]" "[]" sample_meta]
  have "\<exists>e. atomically (applyRevocations (cs @ cs) sample_meta) sample_ledger = (Inl e, sample_ledger)"
    by (simp add: sample_ledger_def newState_def)
  with cs show ?thesis by blast
qed

end
