(* ===== verification/Service_Base.thy ===== *)
theory Service_Base
  imports Auth_Service Settings_Codec Access
begin

text \<open>
  What every service method is written with (\<open>internal/app/service/deps.go\<close>): the interfaces each
  service has (\<open>service_env\<close>: authorizer, clock numbered by the order of its readings, identifier
  generator, request context), the error idioms of the code as transaction steps, the reads of the
  PKI relations, and \<open>UnitOfWork.Write\<close> with the three ways a commit can end.
\<close>

record service_env =
  en_authorize :: Authorizer
  en_clock :: "nat \<Rightarrow> Instant"
  en_ids :: "nat \<Rightarrow> string"
  en_ctxErr :: "go_error option"

definition request_canceled :: "service_env \<Rightarrow> go_error option" where
  "request_canceled env = map_option (\<lambda>e. App (WrapAppError ErrorKindUnavailable ''request_canceled''
     ''the request was canceled before it completed'' e)) (en_ctxErr env)"

definition app_error :: "ErrorKind \<Rightarrow> string \<Rightarrow> string \<Rightarrow> go_error" where
  "app_error kind code detail = App (NewAppError kind code detail)"

definition app_error_with :: "ErrorKind \<Rightarrow> string \<Rightarrow> string \<Rightarrow> string \<Rightarrow> string \<Rightarrow> go_error" where
  "app_error_with kind code detail field val = App (AppError_WithField (NewAppError kind code detail) field val)"

definition from_domain :: "domain_error \<Rightarrow> go_error" where
  "from_domain d = the (FromDomainError (Some (Domain d)))"

text \<open>\<open>if err := f(); err != nil { return contract.FromDomainError(err) }\<close>\<close>

definition tx_domain_check :: "domain_error option \<Rightarrow> ('w, unit) tx" where
  "tx_domain_check c = tx_guard (map_option from_domain c)"

text \<open>\<open>if err != nil { return storeError(err, code, detail) }\<close>\<close>

definition tx_store :: "('w, 'a) tx \<Rightarrow> string \<Rightarrow> string \<Rightarrow> ('w, 'a) tx" where
  "tx_store m code detail = tx_or m (\<lambda>e. storeError e code detail)"

lemma tx_domain_check_iff [tx_iff]: "tx_domain_check c w = (Inr u, w') \<longleftrightarrow> c = None \<and> w' = w"
  by (auto simp: tx_domain_check_def tx_guard_iff)

lemma tx_store_iff [tx_iff]: "tx_store m code detail w = (Inr y, w') \<longleftrightarrow> m w = (Inr y, w')"
  by (simp add: tx_store_def tx_or_iff)

text \<open>\<open>time.Truncate(time.Second)\<close>: whole seconds at or below the instant.\<close>

definition truncate_second :: "Instant \<Rightarrow> Instant" where
  "truncate_second i = NewInstant (Instant_Time i div go_second * go_second)"

definition seconds_duration :: "int64 \<Rightarrow> Duration" where
  "seconds_duration n = NewDuration (wrap64 (n * go_second))"

subsection \<open>Reading relations and committing\<close>

text \<open>A walk over stored relations (\<open>buildChainDER\<close>, \<open>leafManagementAuthority\<close>) inside a transaction.\<close>

definition tx_pki :: "(pki_store \<Rightarrow> go_error + 'a) \<Rightarrow> (ledger, 'a) tx" where
  "tx_pki f w = tx_lift (f (pki_of w)) w"

lemma tx_pki_iff [tx_iff]: "tx_pki f w = (Inr y, w') \<longleftrightarrow> f (pki_of w) = Inr y \<and> w' = w"
  by (simp add: tx_pki_def tx_lift_iff)

text \<open>The commit of a transaction whose body succeeded: it holds, it is refused and rolled back, or its
  outcome is unknown to the caller, in which case the changes may or may not be there.\<close>

datatype commit_fate = Committed | Refused go_error | Unknown bool

definition uow_write :: "commit_fate \<Rightarrow> ('w, 'a) tx \<Rightarrow> ('w, 'a) tx" where
  "uow_write fate m w =
     (case m w of
        (Inl e, _) \<Rightarrow> (Inl e, w)
      | (Inr x, w') \<Rightarrow>
          (case fate of
             Committed \<Rightarrow> (Inr x, w')
           | Refused e \<Rightarrow> (Inl e, w)
           | Unknown applied \<Rightarrow> (Inl (Port ErrCommitUnknown), if applied then w' else w)))"

lemma uow_write_iff [tx_iff]: "uow_write fate m w = (Inr y, w') \<longleftrightarrow> fate = Committed \<and> m w = (Inr y, w')"
  by (auto simp: uow_write_def split: prod.splits sum.splits commit_fate.splits)

lemma uow_write_store:
  "uow_write fate m w = (r, w') \<Longrightarrow> w' = w \<or> (\<exists>x. m w = (Inr x, w') \<and> (r = Inr x \<or> r = Inl (Port ErrCommitUnknown)))"
  by (auto simp: uow_write_def split: prod.splits sum.splits commit_fate.splits if_splits)

end
