(* ===== verification/CRL_Service.thy ===== *)
theory CRL_Service
  imports Service_Base
begin

text \<open>
  \<open>internal/app/service/crl.go\<close>: requesting and publishing a CRL, with the commands of
  \<open>internal/app/contract/crl.go\<close> and the signing input of \<open>internal/app/port/crypto.go\<close>. A
  publication runs in two transactions with the signature in between: the first reserves a number
  and captures the revocation list under the lock of the CRL state, the second stores the document
  and marks it published if nothing newer is. Whatever other requests commit between the two is
  the argument \<open>meanwhile\<close>.
\<close>

record CRLDeps = CommonDeps +
  dp_CRLSigner :: bool

definition CRLDeps_Validate :: "CRLDeps \<Rightarrow> go_error option" where
  "CRLDeps_Validate d =
     or_else_err (CommonDeps_Validate (CommonDeps.truncate d))
       (firstMissing [\<lparr>rd_Name = ''CRLSigner'', rd_Missing = \<not> dp_CRLSigner d\<rparr>])"

subsection \<open>Requesting a publication\<close>

definition CRLRequestPublicationCommand_Validate :: "AuthorityID \<Rightarrow> go_error option" where
  "CRLRequestPublicationCommand_Validate authorityID =
     (case ParseAuthorityID authorityID of Inl err \<Rightarrow> FromDomainError (Some (Domain err)) | Inr _ \<Rightarrow> None)"

definition crl_event ::
  "string \<Rightarrow> Instant \<Rightarrow> RequestMeta \<Rightarrow> string \<Rightarrow> string \<Rightarrow> string \<Rightarrow> CAKeyGenerationID \<Rightarrow> (string \<rightharpoonup> string) \<Rightarrow> AuditEvent" where
  "crl_event i now meta actorKind actorID action target details =
     \<lparr>ae_ID = i, ae_OccurredAt = now, ae_ActorKind = actorKind, ae_ActorID = actorID, ae_TokenID = [],
      ae_Action = action, ae_TargetType = ''ca_key_generation'', ae_TargetID = target,
      ae_ClientIP = clientIP meta, ae_Result = ''success'',
      ae_Details = \<lparr>ad_SchemaVersion = 1, ad_Fields = details\<rparr>\<rparr>"

definition RequestPublication :: "service_env \<Rightarrow> RequestMeta \<Rightarrow> AuthorityID \<Rightarrow> (ledger, JobID) tx" where
  "RequestPublication env meta authorityID =
     tx_bind (tx_guard (CRLRequestPublicationCommand_Validate authorityID)) (\<lambda>_.
     if \<not> IsAdmin (rq_Principal meta)
       then tx_fail (app_error ErrorKindForbidden ''crl_requires_admin''
         ''requesting CRL publication requires an administrator session'')
     else atomically
      (tx_bind (requireCurrentAuth (rq_Principal meta) (en_clock env 0)) (\<lambda>_.
       tx_bind (tx_read (GetIssuerForUpdate authorityID)
          (app_error_with ErrorKindValidation ''crl_authority_not_found'' ''authority does not exist''
            ''authority_id'' authorityID)
          ''crl_authority_read_failed'' ''could not read the authority'') (\<lambda>authority.
       tx_bind (tx_lift (authorityScopeFromRow authority)) (\<lambda>scope.
       tx_bind (tx_guard (en_authorize env (rq_Principal meta) ActionCRLRequestPublication
          (NewAuthorizationScope [scope]))) (\<lambda>_.
       tx_bind (tx_read (GetStateForUpdate (au_keyGenerationID authority))
          (app_error_with ErrorKindUnavailable ''crl_state_missing'' ''this authority has no CRL state to publish''
            ''authority_id'' authorityID)
          ''crl_state_read_failed'' ''could not read the authority's CRL state'') (\<lambda>state.
       tx_bind (tx_store (UpsertDemand (CRLDedupKey (au_keyGenerationID authority)) JobKindCRLPublish
            crlPublishPayloadVersion (crlPublishPayload (cs_revocationGeneration state)))
          ''crl_demand_failed'' ''could not record the CRL publication demand'') (\<lambda>_.
       tx_bind (tx_store (GetByDedupKey (CRLDedupKey (au_keyGenerationID authority)))
          ''crl_demand_read_failed'' ''could not read back the recorded CRL publication demand'') (\<lambda>job.
       tx_bind (NewUUID (en_ids env)) (\<lambda>i.
       tx_bind (tx_store (Audit_Append (crl_event i (en_clock env 1) meta ''account''
            (Principal_AccountID (rq_Principal meta)) ''crl.request_publication'' (au_keyGenerationID authority)
            Map.empty) (NewAuthoritiesAuditScope [scope]))
          ''crl_audit_failed'' ''could not record the CRL request audit event'') (\<lambda>_.
       tx_return (jb_ID job))))))))))))"

subsection \<open>The first transaction: reserve and capture\<close>

record CRLSnapshot =
  cn_CAKeyGenerationID :: CAKeyGenerationID
  cn_CAKeyMaterialID :: KeyMaterialID
  cn_IssuerCertificate :: Certificate
  cn_Number :: CRLNumber
  cn_ThisUpdate :: Instant
  cn_NextUpdate :: Instant
  cn_CoveredGeneration :: int64
  cn_Revoked :: "Revocation list"

record SignedCRL =
  sg_DER :: string
  sg_DERSHA256 :: Fingerprint

type_synonym CRLSigner = "CRLSnapshot \<Rightarrow> EncryptedSecret \<Rightarrow> go_error + SignedCRL"

record crlReservation =
  cv_snapshot :: CRLSnapshot
  cv_caKey :: EncryptedSecret
  cv_nextPublishAt :: Instant

definition loadCRLSigningAuthority ::
  "CAKeyGenerationID \<Rightarrow> (ledger, Authority \<times> CAKeyGeneration) tx" where
  "loadCRLSigningAuthority caKeyGenerationID =
     tx_bind (tx_read (GetCAKeyGeneration caKeyGenerationID)
        (app_error_with ErrorKindUnavailable ''crl_ca_key_generation_missing''
          ''the CA key generation could not be found'' ''ca_key_generation_id'' caKeyGenerationID)
        ''crl_ca_key_generation_read_failed'' ''could not read the CA key generation'') (\<lambda>generation.
     if \<not> Instant_IsZero (cg_KeyDestroyedAt generation)
       then tx_fail (app_error ErrorKindForbidden ''crl_signing_key_destroyed''
         ''this CA key has been destroyed and can no longer sign a CRL'')
     else
       tx_bind (tx_read (GetIssuerForUpdate (cg_AuthorityID generation))
          (app_error ErrorKindUnavailable ''crl_authority_missing''
            ''the authority owning this CA key generation could not be found'')
          ''crl_authority_read_failed'' ''could not read the authority'') (\<lambda>authority.
       tx_return (authority, generation)))"

definition readCRLSigningSecret :: "Authority \<Rightarrow> CAKeyGeneration \<Rightarrow> (ledger, EncryptedSecret) tx" where
  "readCRLSigningSecret authority generation =
     (let purpose = (if au_kind authority = AuthorityKindBootstrap then SecretPurposeBootstrapCA
                     else SecretPurposeCASigning) in
      tx_store (GetEncrypted (cg_KeyMaterialID generation) purpose)
        ''crl_signing_secret_read_failed'' ''could not read the CA signing key'')"

definition crl_signing_certificate ::
  "CRLState \<Rightarrow> CAKeyGeneration \<Rightarrow> (ledger, Certificate) tx" where
  "crl_signing_certificate state generation =
     (if cs_signingCACertificateID state = []
        then tx_fail (app_error ErrorKindUnavailable ''crl_signing_certificate_missing''
          ''the CA certificate required to sign a CRL is not configured'')
      else
        tx_bind (tx_read (PKI_GetCertificate (cs_signingCACertificateID state))
          (app_error ErrorKindUnavailable ''crl_signing_certificate_missing''
            ''the CA certificate required to sign a CRL could not be found'')
          ''crl_signing_certificate_read_failed''
          ''could not read the CA certificate required to sign a CRL'') (\<lambda>issuerCertificate.
        if ce_kind issuerCertificate \<noteq> CertificateKindCA
           \<or> ce_keyMaterialID issuerCertificate \<noteq> cg_KeyMaterialID generation
          then tx_fail (app_error ErrorKindUnavailable ''crl_signing_certificate_mismatch''
            ''the configured CA certificate does not match the signing key generation'')
        else tx_return issuerCertificate))"

definition crl_settings :: "(ledger, SettingsV1) tx" where
  "crl_settings =
     tx_bind (tx_read GetSettings
        (app_error ErrorKindConflict ''crl_settings_not_configured''
          ''installation settings have not been initialized; complete Setup before publishing a CRL'')
        ''crl_settings_read_failed'' ''could not read installation settings'') (\<lambda>settings.
     tx_lift (DecodeSettingsV1 settings))"

definition reserve_commit :: "Instant \<Rightarrow> CAKeyGenerationID \<Rightarrow> (ledger, crlReservation) tx" where
  "reserve_commit now caKeyGenerationID =
     tx_bind (tx_read (GetStateForUpdate caKeyGenerationID)
        (app_error_with ErrorKindValidation ''crl_state_missing'' ''no CRL state exists for this CA key generation''
          ''ca_key_generation_id'' caKeyGenerationID)
        ''crl_state_read_failed'' ''could not read the CRL state'') (\<lambda>state.
     tx_bind (loadCRLSigningAuthority caKeyGenerationID) (\<lambda>(authority, generation).
     tx_bind (tx_domain_check (CanSignCRL authority now)) (\<lambda>_.
     tx_bind (readCRLSigningSecret authority generation) (\<lambda>secret.
     tx_bind (crl_signing_certificate state generation) (\<lambda>issuerCertificate.
     tx_bind crl_settings (\<lambda>settingsV1.
     tx_bind (tx_store (ListByIssuer caKeyGenerationID)
        ''crl_revocation_list_failed'' ''could not read the revocation ledger'') (\<lambda>revoked.
     let (number, reserved) = ReserveNext state in
     tx_bind (tx_store (SaveState reserved (cs_version state))
        ''crl_state_reserve_failed'' ''could not reserve the next CRL number'') (\<lambda>_.
     let thisUpdate = truncate_second now in
     tx_return \<lparr>cv_snapshot =
         \<lparr>cn_CAKeyGenerationID = caKeyGenerationID, cn_CAKeyMaterialID = cg_KeyMaterialID generation,
          cn_IssuerCertificate = issuerCertificate, cn_Number = number, cn_ThisUpdate = thisUpdate,
          cn_NextUpdate = Instant_Add thisUpdate (seconds_duration (sv_CRLValiditySeconds settingsV1)),
          cn_CoveredGeneration = cs_revocationGeneration reserved, cn_Revoked = revoked\<rparr>,
       cv_caKey = secret,
       cv_nextPublishAt = Instant_Add now (seconds_duration (sv_CRLIntervalSeconds settingsV1))\<rparr>))))))))"

definition reserveSnapshot :: "service_env \<Rightarrow> CAKeyGenerationID \<Rightarrow> (ledger, crlReservation) tx" where
  "reserveSnapshot env caKeyGenerationID = atomically (reserve_commit (en_clock env 0) caKeyGenerationID)"

subsection \<open>The second transaction: store and publish\<close>

record PublicationResult =
  pb_CAKeyGenerationID :: CAKeyGenerationID
  pb_DocumentID :: CRLDocumentID
  pb_Number :: CRLNumber
  pb_CoveredGeneration :: int64
  pb_Published :: bool
  pb_FollowupRequired :: bool

text \<open>The outcome for the CRL state: published under the lock, or left alone because something newer is
  published already; any other refusal is an error.\<close>

definition publish_state ::
  "CRLState \<Rightarrow> crlReservation \<Rightarrow> CRLDocumentID \<Rightarrow> (ledger, CRLState \<times> bool) tx" where
  "publish_state state reservation documentID =
     (let snapshot = cv_snapshot reservation in
      case CanPublish state (cn_Number snapshot) (cn_CoveredGeneration snapshot) of
        None \<Rightarrow>
          tx_bind (tx_domain (MarkPublished state documentID (cn_Number snapshot) (cn_CoveredGeneration snapshot)
            (cv_nextPublishAt reservation))) (\<lambda>marked.
          tx_bind (tx_store (SaveState marked (cs_version state))
             ''crl_state_publish_failed'' ''could not record the published CRL'') (\<lambda>_.
          tx_return (marked, True)))
      | Some canErr \<Rightarrow>
          if \<not> errors_Is canErr ErrConflict then tx_fail (from_domain canErr) else tx_return (state, False))"

definition finished_job :: "bool \<Rightarrow> Instant \<Rightarrow> Job \<Rightarrow> Job" where
  "finished_job followupRequired now job =
     (if followupRequired then job\<lparr>jb_State := JobStatePending, jb_AvailableAt := now\<rparr>
      else job\<lparr>jb_State := JobStateSucceeded, jb_LastErrorCode := []\<rparr>)"

definition bool_text :: "bool \<Rightarrow> string" where
  "bool_text b = (if b then ''true'' else ''false'')"

definition finalize_commit ::
  "service_env \<Rightarrow> RequestMeta \<Rightarrow> JobID \<Rightarrow> crlReservation \<Rightarrow> SignedCRL \<Rightarrow> (ledger, PublicationResult) tx" where
  "finalize_commit env meta jobID reservation document =
     (let snapshot = cv_snapshot reservation; issuer = cn_CAKeyGenerationID snapshot; now = en_clock env 1 in
     tx_bind (tx_store (GetStateForUpdate issuer) ''crl_state_read_failed'' ''could not read the CRL state'') (\<lambda>state.
     tx_bind (loadCRLSigningAuthority issuer) (\<lambda>(authority, generation).
     tx_bind (tx_domain_check (CanSignCRL authority now)) (\<lambda>_.
     tx_bind (tx_read (Jobs_GetForUpdate jobID)
        (app_error_with ErrorKindValidation ''crl_job_not_found'' ''job does not exist'' ''job_id'' jobID)
        ''crl_job_read_failed'' ''could not read the CRL publication job'') (\<lambda>job.
     if jb_DedupKey job \<noteq> CRLDedupKey issuer
       then tx_fail (app_error ErrorKindValidation ''crl_job_mismatch''
         ''job does not belong to this CA key generation'')
     else
       tx_bind (NewUUID (en_ids env)) (\<lambda>u.
       tx_bind (tx_domain (ParseCRLDocumentID u)) (\<lambda>documentID.
       tx_bind (tx_store (InsertDocument
          \<lparr>cd_ID = documentID, cd_CAKeyGenerationID = issuer, cd_NumberHex = cn_Number snapshot,
           cd_DERSHA256 = sg_DERSHA256 document, cd_DER = sg_DER document, cd_ThisUpdate = cn_ThisUpdate snapshot,
           cd_NextUpdate = cn_NextUpdate snapshot, cd_CoveredGeneration = cn_CoveredGeneration snapshot,
           cd_Origin = ''generated'', cd_SourceImportID = []\<rparr>)
          ''crl_document_store_failed'' ''could not store the signed CRL document'') (\<lambda>_.
       tx_bind (publish_state state reservation documentID) (\<lambda>(state', published).
       let followupRequired = cs_publishedGeneration state' < cs_revocationGeneration state' in
       tx_bind (if jb_State job = JobStateRunning
                then tx_store (Jobs_Save (finished_job followupRequired now job) (jb_Version job))
                  ''crl_job_save_failed'' ''could not record the CRL job outcome''
                else tx_return ()) (\<lambda>_.
       tx_bind (NewUUID (en_ids env)) (\<lambda>i.
       tx_bind (tx_store (Audit_Append (crl_event i now meta ''system'' [] ''crl.publish'' issuer
            [''number'' \<mapsto> cn_hex (cn_Number snapshot),
             ''covered_generation'' \<mapsto> int_text (cn_CoveredGeneration snapshot),
             ''published'' \<mapsto> bool_text published])
            (NewAuthoritiesAuditScope [cg_AuthorityID generation]))
          ''crl_audit_failed'' ''could not record the CRL publish audit event'') (\<lambda>_.
       tx_return \<lparr>pb_CAKeyGenerationID = issuer, pb_DocumentID = documentID, pb_Number = cn_Number snapshot,
         pb_CoveredGeneration = cn_CoveredGeneration snapshot, pb_Published = published,
         pb_FollowupRequired = followupRequired\<rparr>))))))))))))"

definition finalizePublish ::
  "service_env \<Rightarrow> RequestMeta \<Rightarrow> JobID \<Rightarrow> crlReservation \<Rightarrow> SignedCRL \<Rightarrow> (ledger, PublicationResult) tx" where
  "finalizePublish env meta jobID reservation document =
     atomically (finalize_commit env meta jobID reservation document)"

record CRLPublishCommand =
  cp_JobID :: JobID
  cp_CAKeyGenerationID :: CAKeyGenerationID

definition CRLPublishCommand_Validate :: "CRLPublishCommand \<Rightarrow> go_error option" where
  "CRLPublishCommand_Validate c =
     (case ParseJobID (cp_JobID c) of
        Inl err \<Rightarrow> FromDomainError (Some (Domain err))
      | Inr _ \<Rightarrow>
          (case ParseCAKeyGenerationID (cp_CAKeyGenerationID c) of
             Inl err \<Rightarrow> FromDomainError (Some (Domain err)) | Inr _ \<Rightarrow> None))"

text \<open>\<open>meanwhile\<close> is what other requests do to the store while the CRL is signed.\<close>

definition Publish ::
  "service_env \<Rightarrow> CRLSigner \<Rightarrow> RequestMeta \<Rightarrow> CRLPublishCommand \<Rightarrow> (ledger \<Rightarrow> ledger)
     \<Rightarrow> (ledger, PublicationResult) tx" where
  "Publish env sign meta cmd meanwhile =
     tx_bind (tx_guard (CRLPublishCommand_Validate cmd)) (\<lambda>_.
     if \<not> IsInternal (rq_Principal meta) \<or> \<not> Can (rq_Principal meta) InternalOperationCRLPublish
       then tx_fail (app_error ErrorKindForbidden ''crl_publish_requires_internal_operation''
         ''publishing a CRL requires the internal crl_publish operation'')
     else
       tx_bind (tx_guard (request_canceled env)) (\<lambda>_.
       tx_bind (reserveSnapshot env (cp_CAKeyGenerationID cmd)) (\<lambda>reservation.
       tx_bind (\<lambda>w. (Inr (), meanwhile w)) (\<lambda>_.
       tx_bind (tx_lift (case sign (cv_snapshot reservation) (cv_caKey reservation) of
           Inl err \<Rightarrow> Inl (App (WrapAppError ErrorKindUnavailable ''crl_sign_failed'' ''could not sign the CRL'' err))
         | Inr s \<Rightarrow> Inr s)) (\<lambda>document.
       finalizePublish env meta (cp_JobID cmd) reservation document)))))"

end
