(* ===== verification/CRL_Demand.thy ===== *)
theory CRL_Demand
  imports CRL_Service
begin

text \<open>
  No CRL publication is forgotten. Whatever requests do, in whatever order, a CA key whose revocation
  list is ahead of its published CRL has an open job. The job table is read through \<open>job_of\<close>, the
  map from deduplication keys to jobs it represents; each repository operation on jobs refines an
  update of that map.
\<close>

subsection \<open>The job table as a map\<close>

definition job_of :: "ledger \<Rightarrow> string \<rightharpoonup> Job" where
  "job_of w k = Option.bind (lg_jobByDedup w k) (map_of (lg_jobs w))"

definition open_job :: "Job \<Rightarrow> bool" where
  "open_job j \<longleftrightarrow> jb_State j = JobStatePending \<or> jb_State j = JobStateRunning"

definition job_state_ok :: "Job \<Rightarrow> bool" where
  "job_state_ok j \<longleftrightarrow> jb_State j \<in> {JobStatePending, JobStateRunning, JobStateSucceeded, JobStateFailed}"

definition jobs_ok :: "ledger \<Rightarrow> bool" where
  "jobs_ok w \<longleftrightarrow> map fst (lg_jobs w) = map syntheticUUID [1..<Suc (length (lg_jobs w))] \<and> distinct (map fst (lg_jobs w))
     \<and> (\<forall>i j. map_of (lg_jobs w) i = Some j \<longrightarrow>
          jb_ID j = i \<and> lg_jobByDedup w (jb_DedupKey j) = Some i \<and> job_state_ok j)
     \<and> (\<forall>k i. lg_jobByDedup w k = Some i \<longrightarrow> (\<exists>j. map_of (lg_jobs w) i = Some j \<and> jb_DedupKey j = k))"

lemma low_digits_length [simp]: "length (low_digits k n) = k"
  by (induction k arbitrary: n) simp_all

lemma length_update_le: "length xs \<le> length (AList.update k v xs)"
  by (induction xs) auto

lemma hex_digit_inject: "m < 16 \<Longrightarrow> n < 16 \<Longrightarrow> hex_digit m = hex_digit n \<Longrightarrow> m = n"
  using hex_val_hex_digit by metis

lemma low_digits_inject: "m < 16 ^ k \<Longrightarrow> n < 16 ^ k \<Longrightarrow> low_digits k m = low_digits k n \<Longrightarrow> m = n"
proof (induction k arbitrary: m n)
  case 0
  then show ?case by simp
next
  case (Suc k)
  from Suc.prems(3) have "low_digits k (m div 16) = low_digits k (n div 16)" "hex_digit (m mod 16) = hex_digit (n mod 16)"
    by simp_all
  with Suc have "m div 16 = n div 16" by (simp add: less_mult_imp_div_less mult.commute)
  moreover have "m mod 16 = n mod 16" using \<open>hex_digit (m mod 16) = hex_digit (n mod 16)\<close> hex_digit_inject by simp
  ultimately show ?case by (metis mult_div_mod_eq)
qed

lemma drop_low_digits: "drop j (low_digits (j + k) n) = low_digits k n"
  by (induction k arbitrary: n) simp_all

text \<open>Twelve digits of the number survive in the identifier.\<close>

lemma syntheticUUID_inject:
  assumes "m < 16 ^ 12" and "n < 16 ^ 12" and "syntheticUUID m = syntheticUUID n"
  shows "m = n"
proof -
  have tail: "drop 24 (syntheticUUID k) = low_digits 12 k" for k
  proof -
    let ?b = "(low_digits 32 k)[12 := CHR ''4'', 16 := CHR ''8'']"
    have "drop 24 (syntheticUUID k) = drop 20 ?b"
      by (simp add: syntheticUUID_def Let_def)
    also have "\<dots> = drop 20 (low_digits (20 + 12) k)" by (simp add: drop_update_cancel)
    finally show ?thesis by (simp only: drop_low_digits)
  qed
  from assms(3) have "low_digits 12 m = low_digits 12 n" by (metis tail)
  with low_digits_inject assms(1,2) show ?thesis by blast
qed

definition jobs_bound :: nat where "jobs_bound = 16 ^ 12 - 1"

lemma jobs_okD:
  assumes "jobs_ok w"
  shows "map_of (lg_jobs w) i = Some j \<Longrightarrow> jb_ID j = i"
    and "map_of (lg_jobs w) i = Some j \<Longrightarrow> lg_jobByDedup w (jb_DedupKey j) = Some i"
    and "map_of (lg_jobs w) i = Some j \<Longrightarrow> job_state_ok j"
    and "lg_jobByDedup w k = Some i \<Longrightarrow> \<exists>j. map_of (lg_jobs w) i = Some j \<and> jb_DedupKey j = k"
  using assms unfolding jobs_ok_def by blast+

lemma jobs_ok_lookup:
  assumes "jobs_ok w"
  shows "job_of w k = Some j \<longleftrightarrow> map_of (lg_jobs w) (jb_ID j) = Some j \<and> jb_DedupKey j = k"
proof
  assume "job_of w k = Some j"
  then obtain i where i: "lg_jobByDedup w k = Some i" "map_of (lg_jobs w) i = Some j"
    by (auto simp: job_of_def Option.bind_eq_Some_conv)
  with jobs_okD(1,4) [OF assms] show "map_of (lg_jobs w) (jb_ID j) = Some j \<and> jb_DedupKey j = k" by fastforce
next
  assume "map_of (lg_jobs w) (jb_ID j) = Some j \<and> jb_DedupKey j = k"
  with jobs_okD(2) [OF assms] show "job_of w k = Some j" by (auto simp: job_of_def)
qed

lemma fresh_job_id:
  assumes "jobs_ok w" and "length (lg_jobs w) < jobs_bound"
  shows "syntheticUUID (length (lg_jobs w) + 1) \<notin> fst ` set (lg_jobs w)"
proof
  assume "syntheticUUID (length (lg_jobs w) + 1) \<in> fst ` set (lg_jobs w)"
  then have "syntheticUUID (length (lg_jobs w) + 1) \<in> set (map syntheticUUID [1..<Suc (length (lg_jobs w))])"
    using assms(1) by (metis jobs_ok_def set_map)
  then obtain m where "m \<in> set [1..<Suc (length (lg_jobs w))]" "syntheticUUID (length (lg_jobs w) + 1) = syntheticUUID m"
    by (metis imageE set_map)
  then have "m < Suc (length (lg_jobs w))" "syntheticUUID (length (lg_jobs w) + 1) = syntheticUUID m" by auto
  with syntheticUUID_inject [of "length (lg_jobs w) + 1" m] assms(2) show False
    by (simp add: jobs_bound_def)
qed

text \<open>Replacing a row by one with the same identifier and key.\<close>

lemma replace_job:
  assumes "jobs_ok w" and "map_of (lg_jobs w) (jb_ID j) = Some j0" and "jb_DedupKey j = jb_DedupKey j0"
    and "job_state_ok j" and "lg_jobs w' = AList.update (jb_ID j) j (lg_jobs w)" and "lg_jobByDedup w' = lg_jobByDedup w"
  shows "jobs_ok w' \<and> job_of w' = (job_of w)(jb_DedupKey j \<mapsto> j)"
proof -
  have rows: "map_of (lg_jobs w') = (map_of (lg_jobs w))(jb_ID j \<mapsto> j)" by (simp add: assms(5) update_conv')
  have "jb_ID j \<in> fst ` set (lg_jobs w)" using assms(2) by (metis domI dom_map_of_conv_image_fst)
  then have keys: "map fst (lg_jobs w') = map fst (lg_jobs w)" by (simp add: assms(5) update_keys)
  then have len: "length (lg_jobs w') = length (lg_jobs w)" by (metis length_map)
  note ok = jobs_okD [OF assms(1)]
  have index: "lg_jobByDedup w (jb_DedupKey j) = Some (jb_ID j)" using ok(2) assms(2,3) by simp
  have "jobs_ok w'"
    unfolding jobs_ok_def keys len rows assms(6)
  proof (intro conjI allI impI)
    show "map fst (lg_jobs w) = map syntheticUUID [1..<Suc (length (lg_jobs w))]" "distinct (map fst (lg_jobs w))"
      using assms(1) unfolding jobs_ok_def by blast+
    fix i b
    assume b: "((map_of (lg_jobs w))(jb_ID j \<mapsto> j)) i = Some b"
    then show "jb_ID b = i" "lg_jobByDedup w (jb_DedupKey b) = Some i" "job_state_ok b"
      using ok(1-3) assms(4) index by (auto split: if_splits)
  next
    fix k i
    assume "lg_jobByDedup w k = Some i"
    then show "\<exists>b. ((map_of (lg_jobs w))(jb_ID j \<mapsto> j)) i = Some b \<and> jb_DedupKey b = k"
      using ok(4) [of k i] assms(2,3) by auto
  qed
  moreover have "job_of w' k = ((job_of w)(jb_DedupKey j \<mapsto> j)) k" for k
  proof (cases "k = jb_DedupKey j")
    case True
    then show ?thesis by (simp add: job_of_def assms(6) index rows)
  next
    case False
    then have "lg_jobByDedup w k \<noteq> Some (jb_ID j)" using ok(4) [of k "jb_ID j"] assms(2,3) by auto
    with False show ?thesis by (cases "lg_jobByDedup w k") (auto simp: job_of_def assms(6) rows)
  qed
  ultimately show ?thesis by auto
qed

text \<open>A demand is an update of the map with an open job.\<close>

lemma UpsertDemand_job_of:
  assumes "jobs_ok w" and "length (lg_jobs w) < jobs_bound" and "UpsertDemand k kind pv pl w = (Inr u, w')"
  shows "jobs_ok w' \<and> length (lg_jobs w) \<le> length (lg_jobs w')
    \<and> (\<exists>j. open_job j \<and> jb_Payload j = pl \<and> job_of w' = (job_of w)(k \<mapsto> j))"
proof (cases "lg_jobByDedup w k")
  case (Some i)
  from jobs_okD(4) [OF assms(1) Some] obtain e where e: "map_of (lg_jobs w) i = Some e" "jb_DedupKey e = k" by blast
  note e = e jobs_okD(1,3) [OF assms(1) e(1)]
  let ?j = "merged_job kind pv pl e"
  have j: "jb_ID ?j = i" "jb_DedupKey ?j = k" "job_state_ok ?j" "open_job ?j" "jb_Payload ?j = pl"
    using e by (auto simp: merged_job_def Let_def job_state_ok_def open_job_def)
  have w': "lg_jobs w' = AList.update i ?j (lg_jobs w)" "lg_jobByDedup w' = lg_jobByDedup w"
    using assms(3) Some e by (auto simp: UpsertDemand_def tx_return_def)
  have "length (lg_jobs w) \<le> length (lg_jobs w')"
    by (simp add: w'(1) length_update_le)
  moreover have "jobs_ok w' \<and> job_of w' = (job_of w)(k \<mapsto> ?j)"
    using replace_job [OF assms(1), of ?j e w'] j e w' by simp
  ultimately show ?thesis using j by blast
next
  case None
  let ?n = "length (lg_jobs w)" let ?i = "syntheticUUID (?n + 1)"
  let ?j = "zero_job\<lparr>jb_ID := ?i, jb_Kind := kind, jb_DedupKey := k, jb_PayloadVersion := pv, jb_Payload := pl,
    jb_State := JobStatePending\<rparr>"
  have w': "lg_jobs w' = AList.update ?i ?j (lg_jobs w)" "lg_jobByDedup w' = (lg_jobByDedup w)(k \<mapsto> ?i)"
    using assms(3) None by (auto simp: UpsertDemand_def tx_return_def Let_def)
  have fresh: "?i \<notin> fst ` set (lg_jobs w)" using fresh_job_id assms(1,2) by blast
  then have new: "map_of (lg_jobs w) ?i = None" by (simp add: map_of_eq_None_iff)
  have rows: "map_of (lg_jobs w') = (map_of (lg_jobs w))(?i \<mapsto> ?j)" by (simp add: w'(1) update_conv')
  have keys: "map fst (lg_jobs w') = map fst (lg_jobs w) @ [?i]" using fresh by (simp add: w'(1) update_keys)
  then have len: "length (lg_jobs w') = Suc ?n" by (metis length_map length_append_singleton)
  note ok = jobs_okD [OF assms(1)]
  have "jobs_ok w'"
    unfolding jobs_ok_def keys len rows
  proof (intro conjI allI impI)
    show "map fst (lg_jobs w) @ [?i] = map syntheticUUID [1..<Suc (Suc ?n)]" "distinct (map fst (lg_jobs w) @ [?i])"
    proof -
      have d: "map fst (lg_jobs w) = map syntheticUUID [1..<Suc ?n]" "distinct (map fst (lg_jobs w))"
        using assms(1) unfolding jobs_ok_def by blast+
      show "map fst (lg_jobs w) @ [?i] = map syntheticUUID [1..<Suc (Suc ?n)]" by (simp add: d(1))
      show "distinct (map fst (lg_jobs w) @ [?i])" using d(2) fresh by auto
    qed
    fix i b
    assume "((map_of (lg_jobs w))(?i \<mapsto> ?j)) i = Some b"
    then show "jb_ID b = i" "lg_jobByDedup w' (jb_DedupKey b) = Some i" "job_state_ok b"
      using ok(1-3) None by (auto simp: w'(2) job_state_ok_def split: if_splits)
  next
    fix k' i
    assume "lg_jobByDedup w' k' = Some i"
    then show "\<exists>b. ((map_of (lg_jobs w))(?i \<mapsto> ?j)) i = Some b \<and> jb_DedupKey b = k'"
      using ok(4) [of k' i] new by (auto simp: w'(2) split: if_splits)
  qed
  moreover have "job_of w' k' = ((job_of w)(k \<mapsto> ?j)) k'" for k'
    using ok(4) [of k' ?i] new by (cases "lg_jobByDedup w k'") (auto simp: job_of_def w'(2) rows)
  moreover have "open_job ?j" by (simp add: open_job_def)
  ultimately show ?thesis using len by (intro conjI exI [of _ ?j]) auto
qed

subsection \<open>Leases and outcomes\<close>

lemma Jobs_Save_job_of:
  assumes "jobs_ok w" and "Jobs_Save j v w = (Inr u, w')" and "map_of (lg_jobs w) (jb_ID j) = Some j0"
    and "jb_DedupKey j = jb_DedupKey j0" and "job_state_ok j"
  shows "jobs_ok w' \<and> job_of w' = (job_of w)(jb_DedupKey j \<mapsto> j) \<and> lg_crlStates w' = lg_crlStates w
    \<and> length (lg_jobs w) \<le> length (lg_jobs w')"
proof -
  have index: "lg_jobByDedup w (jb_DedupKey j) = Some (jb_ID j)" using jobs_okD(2) [OF assms(1,3)] assms(4) by simp
  have w': "lg_jobs w' = AList.update (jb_ID j) j (lg_jobs w)" "lg_crlStates w' = lg_crlStates w"
    "lg_jobByDedup w' = (if jb_State j = JobStatePending then (lg_jobByDedup w)(jb_DedupKey j \<mapsto> jb_ID j)
       else lg_jobByDedup w)"
    using assms(2,3) by (auto simp: Jobs_Save_def save_row_iff)
  then have "lg_jobByDedup w' = lg_jobByDedup w" using index by (simp add: fun_upd_idem)
  from replace_job [OF assms(1,3,4,5) w'(1) this] w' show ?thesis by (simp add: length_update_le)
qed

text \<open>A row list that differs from another only in open rows that stay open.\<close>

definition reopened :: "Job \<Rightarrow> Job \<Rightarrow> bool" where
  "reopened j b \<longleftrightarrow> jb_ID b = jb_ID j \<and> jb_DedupKey b = jb_DedupKey j \<and> open_job j \<and> open_job b"

lemma store_jobs_ok:
  assumes "jobs_ok w" and "\<forall>b\<in>set bs. \<exists>j. map_of (lg_jobs w) (jb_ID b) = Some j \<and> reopened j b"
  shows "jobs_ok (w\<lparr>lg_jobs := store_jobs bs (lg_jobs w)\<rparr>)
    \<and> (\<forall>k j. job_of w k = Some j \<longrightarrow> open_job j \<longrightarrow>
        (\<exists>b. job_of (w\<lparr>lg_jobs := store_jobs bs (lg_jobs w)\<rparr>) k = Some b \<and> open_job b))
    \<and> length (lg_jobs w) \<le> length (store_jobs bs (lg_jobs w))"
  using assms
proof (induction bs arbitrary: w)
  case Nil
  then show ?case by (simp add: store_jobs_def)
next
  case (Cons b bs)
  let ?w1 = "w\<lparr>lg_jobs := AList.update (jb_ID b) b (lg_jobs w)\<rparr>"
  from Cons.prems(2) obtain j where j: "map_of (lg_jobs w) (jb_ID b) = Some j" "reopened j b" by auto
  then have ok: "job_state_ok b" by (auto simp: reopened_def open_job_def job_state_ok_def)
  have step: "jobs_ok ?w1 \<and> job_of ?w1 = (job_of w)(jb_DedupKey b \<mapsto> b)"
    using replace_job [OF Cons.prems(1) j(1) _ ok, of ?w1] j(2) by (simp add: reopened_def)
  have "\<exists>j'. map_of (lg_jobs ?w1) (jb_ID c) = Some j' \<and> reopened j' c" if "c \<in> set bs" for c
  proof -
    from Cons.prems(2) that obtain j' where "map_of (lg_jobs w) (jb_ID c) = Some j'" "reopened j' c" by auto
    then show ?thesis using j by (cases "jb_ID c = jb_ID b") (simp_all add: update_conv' reopened_def)
  qed
  with Cons.IH [of ?w1] step have IH: "jobs_ok (?w1\<lparr>lg_jobs := store_jobs bs (lg_jobs ?w1)\<rparr>)"
    "\<forall>k j. job_of ?w1 k = Some j \<longrightarrow> open_job j \<longrightarrow>
        (\<exists>b. job_of (?w1\<lparr>lg_jobs := store_jobs bs (lg_jobs ?w1)\<rparr>) k = Some b \<and> open_job b)"
    "length (lg_jobs ?w1) \<le> length (store_jobs bs (lg_jobs ?w1))" by auto
  have same: "?w1\<lparr>lg_jobs := store_jobs bs (lg_jobs ?w1)\<rparr> = w\<lparr>lg_jobs := store_jobs (b # bs) (lg_jobs w)\<rparr>"
    by (simp add: store_jobs_def)
  have "open_job b" using j by (simp add: reopened_def)
  then have mono: "job_of w k = Some j \<Longrightarrow> open_job j \<Longrightarrow> \<exists>b. job_of ?w1 k = Some b \<and> open_job b" for k j
    using step by auto
  have len: "length (lg_jobs w) \<le> length (store_jobs (b # bs) (lg_jobs w))"
    using IH(3) length_update_le [of "lg_jobs w" "jb_ID b" b] by (simp add: store_jobs_def)
  show ?case
  proof (intro conjI allI impI)
    fix k j
    assume "job_of w k = Some j" "open_job j"
    with mono obtain c where "job_of ?w1 k = Some c" "open_job c" by blast
    with IH(2) show "\<exists>b'. job_of (w\<lparr>lg_jobs := store_jobs (b # bs) (lg_jobs w)\<rparr>) k = Some b' \<and> open_job b'"
      unfolding same by blast
  qed (use IH(1) len in \<open>simp_all only: same\<close>)
qed

lemma job_due_open: "job_due now j \<Longrightarrow> open_job j"
  by (auto simp: job_due_def open_job_def split: JobState.splits)

lemma ClaimDue_keeps_open:
  assumes "jobs_ok w" and "ClaimDue now until limit w = (Inr js, w')"
  shows "jobs_ok w' \<and> lg_crlStates w' = lg_crlStates w \<and> length (lg_jobs w) \<le> length (lg_jobs w')
    \<and> (\<forall>k j. job_of w k = Some j \<longrightarrow> open_job j \<longrightarrow> (\<exists>b. job_of w' k = Some b \<and> open_job b))"
proof -
  from assms(2) have w': "w' = w\<lparr>lg_jobs := store_jobs js (lg_jobs w)\<rparr>"
    by (auto simp: ClaimDue_def Let_def tx_return_def)
  have "\<exists>j. map_of (lg_jobs w) (jb_ID b) = Some j \<and> reopened j b" if mem: "b \<in> set js" for b
  proof -
    let ?due = "sort_key jb_ID (filter (job_due now) (map snd (lg_jobs w)))"
    let ?c = "0 < limit \<and> limit < int (length ?due)"
    have js: "js = map (leased until) (if ?c then take (nat limit) ?due else ?due)"
      using assms(2) unfolding ClaimDue_def Let_def tx_return_def by (metis prod.inject sum.inject(2))
    moreover have "set (if ?c then take (nat limit) ?due else ?due) \<subseteq> set ?due"
      by (simp only: set_take_subset order_refl split: if_split) blast
    moreover have "b \<in> leased until ` set (if ?c then take (nat limit) ?due else ?due)"
      using mem by (simp only: js set_map)
    then obtain j where "b = leased until j" "j \<in> set (if ?c then take (nat limit) ?due else ?due)" by (rule imageE)
    ultimately have j: "j \<in> set ?due" "b = leased until j" by blast+
    then have j: "j \<in> snd ` set (lg_jobs w)" "job_due now j" "b = leased until j" by simp_all
    from j(1) obtain i where "(i, j) \<in> set (lg_jobs w)" by auto
    moreover have "distinct (map fst (lg_jobs w))" using assms(1) unfolding jobs_ok_def by blast
    ultimately have "map_of (lg_jobs w) i = Some j" by simp
    moreover from jobs_okD(1) [OF assms(1) this] have "jb_ID b = i" by (simp add: j leased_def)
    ultimately show ?thesis using job_due_open [OF j(2)] by (auto simp: j reopened_def leased_def open_job_def)
  qed
  from store_jobs_ok [OF assms(1)] this show ?thesis by (simp add: w')
qed

subsection \<open>Every CA key that is behind has an open job\<close>

definition behind :: "CRLState \<Rightarrow> bool" where
  "behind st \<longleftrightarrow> cs_publishedGeneration st < cs_revocationGeneration st"

definition demanded :: "ledger \<Rightarrow> CAKeyGenerationID \<Rightarrow> bool" where
  "demanded w i \<longleftrightarrow> (\<forall>st. lg_crlStates w i = Some st \<longrightarrow> behind st \<longrightarrow>
     (\<exists>j. job_of w (CRLDedupKey i) = Some j \<and> open_job j))"

definition demand_inv :: "ledger \<Rightarrow> bool" where
  "demand_inv w \<longleftrightarrow> crl_keyed w \<and> jobs_ok w \<and> (\<forall>i. demanded w i)"

text \<open>The invariant only reads three tables; a step that leaves them alone keeps it.\<close>

definition crl_core :: "ledger \<Rightarrow> (CAKeyGenerationID \<rightharpoonup> CRLState) \<times> (JobID \<times> Job) list \<times> (string \<rightharpoonup> JobID)" where
  "crl_core w = (lg_crlStates w, lg_jobs w, lg_jobByDedup w)"

definition keeps_demand :: "ledger \<Rightarrow> ledger \<Rightarrow> bool" where
  "keeps_demand w w' \<longleftrightarrow> length (lg_jobs w) \<le> length (lg_jobs w')
     \<and> (length (lg_jobs w') < jobs_bound \<longrightarrow> demand_inv w \<longrightarrow> demand_inv w')"

lemma keeps_demand_trans: "keeps_demand a b \<Longrightarrow> keeps_demand b c \<Longrightarrow> keeps_demand a c"
  by (auto simp: keeps_demand_def)

lemma job_of_core: "crl_core w' = crl_core w \<Longrightarrow> job_of w' = job_of w"
  by (simp add: crl_core_def job_of_def fun_eq_iff)

lemma demand_inv_core: "crl_core w' = crl_core w \<Longrightarrow> demand_inv w' = demand_inv w"
  using job_of_core [of w' w]
  by (simp add: demand_inv_def crl_core_def demanded_def crl_keyed_def jobs_ok_def)

lemma keeps_demand_core: "crl_core w' = crl_core w \<Longrightarrow> keeps_demand w w'"
  using demand_inv_core [of w' w] by (simp add: keeps_demand_def crl_core_def)

lemma CRLDedupKey_inject [simp]: "CRLDedupKey i = CRLDedupKey k \<longleftrightarrow> i = k"
  by (simp add: CRLDedupKey_def)

lemma UpsertDemand_length:
  "UpsertDemand k kind pv pl w = (r, w') \<Longrightarrow> length (lg_jobs w) \<le> length (lg_jobs w')"
  by (auto simp: UpsertDemand_def tx_return_def Let_def length_update_le split: option.splits)

lemma demand_recorded:
  assumes "crl_keyed w" and "jobs_ok w" and others: "\<And>k. k \<noteq> i \<Longrightarrow> demanded w k"
    and "length (lg_jobs w') < jobs_bound" and up: "UpsertDemand (CRLDedupKey i) kind pv pl w = (Inr u, w')"
  shows "demand_inv w'"
proof -
  from UpsertDemand_length [OF up] assms(4) have "length (lg_jobs w) < jobs_bound" by simp
  from UpsertDemand_job_of [OF assms(2) this up] obtain j where ok: "jobs_ok w'" and "open_job j"
    and jobs: "job_of w' = (job_of w)(CRLDedupKey i \<mapsto> j)" by blast
  moreover have crl: "lg_crlStates w' = lg_crlStates w" using UpsertDemand_frame [OF up] by simp
  ultimately have "demanded w' k" for k
    using others [of k] by (cases "k = i") (auto simp: demanded_def)
  with ok assms(1) crl show ?thesis by (simp add: demand_inv_def crl_keyed_def)
qed

lemma keeps_demand_upsert:
  assumes "UpsertDemand (CRLDedupKey i) kind pv pl w = (Inr u, w')"
  shows "keeps_demand w w'"
  using demand_recorded [OF _ _ _ _ assms] UpsertDemand_length [OF assms]
  by (auto simp: keeps_demand_def demand_inv_def)

text \<open>Replacing a CRL state by one that is not newly behind.\<close>

lemma keeps_demand_state:
  assumes "lg_crlStates w (cs_caKeyGenerationID st) = Some old" and "behind st \<Longrightarrow> behind old"
    and "crl_core w' = ((lg_crlStates w)(cs_caKeyGenerationID st \<mapsto> st), lg_jobs w, lg_jobByDedup w)"
  shows "keeps_demand w w'"
proof -
  have same: "lg_crlStates w' = (lg_crlStates w)(cs_caKeyGenerationID st \<mapsto> st)" "lg_jobs w' = lg_jobs w"
    "lg_jobByDedup w' = lg_jobByDedup w" using assms(3) by (simp_all add: crl_core_def)
  then have jobs: "job_of w' = job_of w" by (simp add: job_of_def fun_eq_iff)
  have "demanded w' k" if "demand_inv w" for k
    using that assms(1,2) by (cases "k = cs_caKeyGenerationID st") (auto simp: demand_inv_def demanded_def same jobs)
  then show ?thesis
    by (auto simp: keeps_demand_def demand_inv_def crl_keyed_def jobs_ok_def same)
qed

subsection \<open>The operations\<close>

lemma rest_of_core: "rest_of w' = rest_of w \<Longrightarrow> crl_core w' = crl_core w"
  by (simp add: rest_of_def crl_core_def)

lemma bump_then_demand:
  assumes "demand_inv w" and "lg_crlStates w i = Some st"
    and "crl_core v = ((lg_crlStates w)(i \<mapsto> BumpRevocationGeneration st), lg_jobs w, lg_jobByDedup w)"
    and "UpsertDemand (CRLDedupKey i) kind pv pl v = (Inr u, w')" and "length (lg_jobs w') < jobs_bound"
  shows "demand_inv w'"
proof (rule demand_recorded [OF _ _ _ assms(5,4)])
  have same: "lg_crlStates v = (lg_crlStates w)(i \<mapsto> BumpRevocationGeneration st)" "lg_jobs v = lg_jobs w"
    "lg_jobByDedup v = lg_jobByDedup w" using assms(3) by (simp_all add: crl_core_def)
  show "crl_keyed v" "jobs_ok v"
    using assms(1,2) by (auto simp: demand_inv_def crl_keyed_def jobs_ok_def same)
  have "job_of v = job_of w" by (simp add: job_of_def fun_eq_iff same)
  then show "demanded v k" if "k \<noteq> i" for k
    using assms(1) that by (simp add: demand_inv_def demanded_def same)
qed

lemma applyIssuerBatch_keeps_demand:
  assumes run: "applyIssuerBatch ids i cs m w = (Inr (n, g), w')" and keyed: "crl_keyed w"
  shows "keeps_demand w w'"
proof -
  from run obtain st qs w1 where st: "lg_crlStates w i = Some st"
    and res: "tx_list (resolveChange ids) cs w = (Inr qs, w1)"
    and cont: "(let pending = somes qs in
     if pending = [] then tx_return (0, 0)
     else
       let state' = BumpRevocationGeneration st; generation = cs_revocationGeneration state' in
       tx_bind (tx_list (write_pending ids m generation) pending) (\<lambda>_.
       tx_bind (tx_or (SaveState state' (cs_version st))
                  (\<lambda>e. storeError e ''revocation_crl_state_save_failed''
                    ''could not update the issuer CRL state'')) (\<lambda>_.
       tx_bind (recordCRLDemand i generation) (\<lambda>_.
       tx_return (length pending, generation))))) w1 = (Inr (n, g), w')"
    unfolding applyIssuerBatch_def
    by (auto simp: tx_bind_iff tx_or_iff GetStateForUpdate_def found_iff)
  from resolve_all [OF res] obtain k where w1: "w1 = w\<lparr>lg_uuids := k\<rparr>"
    and from_w: "\<forall>p\<in>set (somes qs). resolved_from w p" by blast
  show ?thesis
  proof (cases "somes qs = []")
    case True
    with cont have "w' = w1" by (auto simp: tx_return_iff)
    then show ?thesis by (simp add: keeps_demand_core crl_core_def w1)
  next
    case False
    let ?g = "cs_revocationGeneration (BumpRevocationGeneration st)"
    from cont False obtain us w2 w3 where
      wr: "tx_list (write_pending ids m ?g) (somes qs) w1 = (Inr us, w2)"
      and w3: "w3 = w2\<lparr>lg_crlStates := (lg_crlStates w2)(i \<mapsto> BumpRevocationGeneration st)\<rparr>"
      and dem: "recordCRLDemand i ?g w3 = (Inr (), w')"
      using keyed st
      by (auto simp: Let_def tx_bind_iff tx_or_iff tx_return_iff SaveState_iff crl_keyed_def)
    from dem have up: "UpsertDemand (CRLDedupKey i) JobKindCRLPublish crlPublishPayloadVersion
        (crlPublishPayload ?g) w3 = (Inr (), w')"
      by (simp add: recordCRLDemand_def tx_or_iff)
    from from_w have "\<forall>p\<in>set (somes qs). resolved_from w1 p" by (simp add: w1)
    from write_all [OF wr this] have "rest_of w2 = rest_of w" by (simp add: rest_of_def w1)
    then have core: "crl_core w3 = ((lg_crlStates w)(i \<mapsto> BumpRevocationGeneration st), lg_jobs w, lg_jobByDedup w)"
      by (simp add: rest_of_def crl_core_def w3)
    then have "length (lg_jobs w) \<le> length (lg_jobs w')"
      using UpsertDemand_length [OF up] by (simp add: crl_core_def)
    with bump_then_demand [OF _ st core up] show ?thesis by (simp add: keeps_demand_def)
  qed
qed

lemma apply_issuers_keeps_demand:
  assumes "apply_issuers ids by_issuer m out order w = (Inr out', w')" and "crl_keyed w"
    and "\<And>i. \<forall>c\<in>set (by_issuer i). rc_IssuerID c = i"
  shows "keeps_demand w w'"
  using assms(1,2)
proof (induction order arbitrary: out w)
  case Nil
  then show ?case by (simp add: tx_return_iff keeps_demand_core)
next
  case (Cons i order)
  from Cons.prems(1) obtain n g w1 out1 where
    1: "applyIssuerBatch ids i (by_issuer i) m w = (Inr (n, g), w1)"
    and 2: "apply_issuers ids by_issuer m out1 order w1 = (Inr out', w')"
    by (auto simp: tx_bind_iff)
  have "crl_keyed w1"
    using applyIssuerBatch_effect [OF 1 Cons.prems(2) assms(3)] Cons.prems(2)
    by (intro issuer_effect_keyed [of w w1 i]) auto
  from keeps_demand_trans [OF applyIssuerBatch_keeps_demand [OF 1 Cons.prems(2)] Cons.IH [OF 2 this]]
  show ?case .
qed

lemma applyRevocations_keeps_demand:
  assumes "applyRevocations cs m w = (Inr out, w')" and "crl_keyed w"
  shows "keeps_demand w w'"
proof (cases "cs = []")
  case True
  with assms(1) show ?thesis by (simp add: applyRevocations_def tx_return_iff keeps_demand_core)
next
  case False
  with assms(1) have "apply_issuers (the (rm_IDs m)) (changes_of cs) m no_outcome
      (sort (remdups (map rc_IssuerID cs))) w = (Inr out, w')"
    by (auto simp: applyRevocations_def groupByIssuer_def tx_fail_iff split: option.splits sum.splits
        elim!: check_then_Inr [THEN iffD1, elim_format])
  then show ?thesis by (rule apply_issuers_keeps_demand) (simp_all add: assms(2) changes_of_def)
qed

lemma RequestPublication_keeps_demand:
  assumes "RequestPublication env meta a w = (Inr j, w')"
  shows "keeps_demand w w'"
proof -
  from assms obtain i pl w1 where up: "UpsertDemand (CRLDedupKey i) JobKindCRLPublish crlPublishPayloadVersion pl w = (Inr (), w1)"
    and "crl_core w' = crl_core w1"
    unfolding RequestPublication_def
    by (auto simp: tx_iff crl_core_def split: if_splits)
  with keeps_demand_upsert [OF up] keeps_demand_core show ?thesis using keeps_demand_trans by blast
qed

text \<open>Neither reserving a number nor publishing a document moves the revocation generation, and publishing
  never moves the published one back, so neither leaves a CA key newly behind.\<close>

lemma ReserveNext_behind:
  "ReserveNext st = (n, st') \<Longrightarrow> behind st' = behind st \<and> cs_caKeyGenerationID st' = cs_caKeyGenerationID st"
  by (auto simp: ReserveNext_def behind_def Let_def)

lemma MarkPublished_behind:
  "MarkPublished st d n g at = Inr st' \<Longrightarrow> (behind st' \<longrightarrow> behind st)
     \<and> cs_caKeyGenerationID st' = cs_caKeyGenerationID st \<and> cs_publishedGeneration st' = g
     \<and> cs_revocationGeneration st' = cs_revocationGeneration st"
  by (auto simp: MarkPublished_def CanPublish_def behind_def success_iff split: if_splits)

lemma keeps_demand_SaveState:
  assumes "SaveState st' v w = (Inr u, w')" and "lg_crlStates w i = Some st" and "crl_keyed w"
    and "behind st' \<Longrightarrow> behind st" and "cs_caKeyGenerationID st' = cs_caKeyGenerationID st"
  shows "keeps_demand w w' \<and> lg_crlStates w' i = Some st' \<and> lg_jobs w' = lg_jobs w
    \<and> lg_jobByDedup w' = lg_jobByDedup w"
proof -
  have key: "cs_caKeyGenerationID st = i" using assms(2,3) by (simp add: crl_keyed_def)
  have w': "w' = w\<lparr>lg_crlStates := (lg_crlStates w)(i \<mapsto> st')\<rparr>"
    using assms(1) by (auto simp: SaveState_iff assms(5) key)
  with keeps_demand_state [of w st' st w'] assms(2,4,5) key show ?thesis by (simp add: crl_core_def)
qed

lemma loadCRLSigningAuthority_reads: "loadCRLSigningAuthority i w = (Inr p, w') \<Longrightarrow> w' = w"
  by (auto simp: loadCRLSigningAuthority_def tx_iff split: if_splits)

lemma readCRLSigningSecret_reads: "readCRLSigningSecret a g w = (Inr p, w') \<Longrightarrow> w' = w"
  by (auto simp: readCRLSigningSecret_def tx_iff GetEncrypted_def Let_def)

lemma crl_signing_certificate_reads: "crl_signing_certificate st g w = (Inr p, w') \<Longrightarrow> w' = w"
  by (auto simp: crl_signing_certificate_def tx_iff split: if_splits)

lemma crl_settings_reads: "crl_settings w = (Inr p, w') \<Longrightarrow> w' = w"
  by (auto simp: crl_settings_def tx_iff GetSettings_def)

lemmas crl_service_reads = loadCRLSigningAuthority_reads readCRLSigningSecret_reads crl_signing_certificate_reads
  crl_settings_reads

lemma reserve_commit_steps:
  assumes "reserve_commit now i w = (Inr r, w')"
  shows "\<exists>st n st'. lg_crlStates w i = Some st \<and> ReserveNext st = (n, st')
    \<and> SaveState st' (cs_version st) w = (Inr (), w') \<and> cn_Number (cv_snapshot r) = n
    \<and> cn_CAKeyGenerationID (cv_snapshot r) = i
    \<and> cn_CoveredGeneration (cv_snapshot r) = cs_revocationGeneration st
    \<and> ListByIssuer i w = (Inr (cn_Revoked (cv_snapshot r)), w)"
proof -
  from assms obtain st where "lg_crlStates w i = Some st"
    and "SaveState (snd (ReserveNext st)) (cs_version st) w = (Inr (), w')"
    and "cn_Number (cv_snapshot r) = fst (ReserveNext st)" "cn_CAKeyGenerationID (cv_snapshot r) = i"
    and "ListByIssuer i w = (Inr (cn_Revoked (cv_snapshot r)), w)"
    and "cn_CoveredGeneration (cv_snapshot r) = cs_revocationGeneration (snd (ReserveNext st))"
    unfolding reserve_commit_def
    by (auto simp: tx_iff ListByIssuer_def prod.case_eq_if dest!: crl_service_reads)
  moreover have "cs_revocationGeneration (snd (ReserveNext st)) = cs_revocationGeneration st"
    by (simp add: ReserveNext_def Let_def)
  ultimately show ?thesis by (metis prod.collapse)
qed

lemma reserveSnapshot_keeps_demand:
  assumes "reserveSnapshot env i w = (Inr r, w')" and "crl_keyed w"
  shows "keeps_demand w w'"
proof -
  from assms(1) have "reserve_commit (en_clock env 0) i w = (Inr r, w')"
    by (simp add: reserveSnapshot_def atomically_iff)
  from reserve_commit_steps [OF this] obtain st n st' where "lg_crlStates w i = Some st" "ReserveNext st = (n, st')"
    "SaveState st' (cs_version st) w = (Inr (), w')" by blast
  with keeps_demand_SaveState [OF _ _ assms(2)] ReserveNext_behind [of st n st'] show ?thesis by blast
qed

lemma publish_state_keeps_demand:
  assumes "publish_state st rv d w = (Inr (st', published), w')" and "lg_crlStates w i = Some st" and "crl_keyed w"
  shows "keeps_demand w w' \<and> lg_crlStates w' i = Some st' \<and> lg_jobs w' = lg_jobs w
    \<and> lg_jobByDedup w' = lg_jobByDedup w \<and> (behind st' \<longrightarrow> behind st)"
proof (cases "CanPublish st (cn_Number (cv_snapshot rv)) (cn_CoveredGeneration (cv_snapshot rv))")
  case None
  with assms(1) obtain n at where marked: "MarkPublished st d n (cn_CoveredGeneration (cv_snapshot rv)) at = Inr st'"
    and save: "SaveState st' (cs_version st) w = (Inr (), w')"
    by (auto simp: publish_state_def tx_iff)
  from keeps_demand_SaveState [OF save assms(2,3)] MarkPublished_behind [OF marked] show ?thesis by blast
next
  case (Some e)
  with assms(1,2) show ?thesis by (auto simp: publish_state_def tx_iff keeps_demand_core split: if_splits)
qed

definition published_document :: "crlReservation \<Rightarrow> SignedCRL \<Rightarrow> CRLDocumentID \<Rightarrow> CRLDocument" where
  "published_document rv doc d =
     \<lparr>cd_ID = d, cd_CAKeyGenerationID = cn_CAKeyGenerationID (cv_snapshot rv),
      cd_NumberHex = cn_Number (cv_snapshot rv), cd_DERSHA256 = sg_DERSHA256 doc, cd_DER = sg_DER doc,
      cd_ThisUpdate = cn_ThisUpdate (cv_snapshot rv), cd_NextUpdate = cn_NextUpdate (cv_snapshot rv),
      cd_CoveredGeneration = cn_CoveredGeneration (cv_snapshot rv), cd_Origin = ''generated'', cd_SourceImportID = []\<rparr>"

definition save_outcome :: "Job \<Rightarrow> bool \<Rightarrow> Instant \<Rightarrow> (ledger, unit) tx" where
  "save_outcome job followup now =
     (if jb_State job = JobStateRunning
      then tx_store (Jobs_Save (finished_job followup now job) (jb_Version job))
        ''crl_job_save_failed'' ''could not record the CRL job outcome''
      else tx_return ())"

lemma finalize_commit_steps:
  assumes "finalize_commit env meta jobID rv doc w = (Inr r, w')"
  shows "\<exists>st job v n w1 w2 st'.
      lg_crlStates w (cn_CAKeyGenerationID (cv_snapshot rv)) = Some st
    \<and> map_of (lg_jobs w) jobID = Some job \<and> jb_DedupKey job = CRLDedupKey (cn_CAKeyGenerationID (cv_snapshot rv))
    \<and> v = w\<lparr>lg_uuids := n\<rparr> \<and> InsertDocument (published_document rv doc (pb_DocumentID r)) v = (Inr (), w1)
    \<and> publish_state st rv (pb_DocumentID r) w1 = (Inr (st', pb_Published r), w2)
    \<and> pb_FollowupRequired r = behind st'
    \<and> (\<exists>w3 n es. save_outcome job (behind st') (en_clock env 1) w2 = (Inr (), w3)
         \<and> w' = w3\<lparr>lg_uuids := n, lg_auditEvents := es\<rparr>)"
  using assms unfolding finalize_commit_def Let_def
  by (clarsimp simp: tx_iff save_outcome_def [symmetric] behind_def [symmetric] published_document_def [symmetric]
      simp del: InsertDocument_def Jobs_Save_def split: if_splits dest!: loadCRLSigningAuthority_reads) blast

lemma finished_job_shape:
  assumes "jb_State job = JobStateRunning" and "job_state_ok job"
  shows "jb_ID (finished_job f now job) = jb_ID job" "jb_DedupKey (finished_job f now job) = jb_DedupKey job"
    "job_state_ok (finished_job f now job)" "open_job (finished_job f now job) \<longleftrightarrow> f"
  using assms by (simp_all add: finished_job_def job_state_ok_def open_job_def)

lemma save_outcome_keeps_demand:
  assumes "save_outcome job (behind st) now w = (Inr (), w')" and "map_of (lg_jobs w) (jb_ID job) = Some job"
    and "jb_DedupKey job = CRLDedupKey i" and "lg_crlStates w i = Some st"
  shows "keeps_demand w w'"
proof (cases "jb_State job = JobStateRunning")
  case False
  with assms(1) show ?thesis by (simp add: save_outcome_def tx_return_iff keeps_demand_core)
next
  case True
  let ?j = "finished_job (behind st) now job"
  from True assms(1) have save: "Jobs_Save ?j (jb_Version job) w = (Inr (), w')"
    by (simp add: save_outcome_def tx_store_iff)
  have id: "jb_ID ?j = jb_ID job" "jb_DedupKey ?j = jb_DedupKey job" by (simp_all add: finished_job_def)
  have len: "length (lg_jobs w) \<le> length (lg_jobs w')"
    using save by (auto simp: Jobs_Save_def save_row_iff length_update_le)
  have "demand_inv w'" if inv: "demand_inv w"
  proof -
    have ok: "jobs_ok w" using inv by (simp add: demand_inv_def)
    note shape = finished_job_shape [OF True jobs_okD(3) [OF ok assms(2)]]
    from Jobs_Save_job_of [OF ok save _ _ shape(3), of job] assms(2) id
    have w': "jobs_ok w'" "job_of w' = (job_of w)(CRLDedupKey i \<mapsto> ?j)" "lg_crlStates w' = lg_crlStates w"
      by (simp_all add: assms(3))
    have "demanded w' k" for k
      using inv assms(4) shape(4) [of "behind st" now] w' by (cases "k = i") (auto simp: demand_inv_def demanded_def)
    with inv w' show ?thesis by (simp add: demand_inv_def crl_keyed_def)
  qed
  with len show ?thesis by (simp add: keeps_demand_def)
qed

lemma finalizePublish_keeps_demand:
  assumes "finalizePublish env meta jobID rv doc w = (Inr r, w')" and inv: "demand_inv w"
  shows "keeps_demand w w'"
proof -
  let ?i = "cn_CAKeyGenerationID (cv_snapshot rv)"
  from assms(1) have "finalize_commit env meta jobID rv doc w = (Inr r, w')"
    by (simp add: finalizePublish_def atomically_iff)
  from finalize_commit_steps [OF this] obtain st job v n w1 w2 st' w3 m es where
    st: "lg_crlStates w ?i = Some st" and job: "map_of (lg_jobs w) jobID = Some job" "jb_DedupKey job = CRLDedupKey ?i"
    and v: "v = w\<lparr>lg_uuids := n\<rparr>" and ins: "InsertDocument (published_document rv doc (pb_DocumentID r)) v = (Inr (), w1)"
    and pub: "publish_state st rv (pb_DocumentID r) w1 = (Inr (st', pb_Published r), w2)"
    and save: "save_outcome job (behind st') (en_clock env 1) w2 = (Inr (), w3)"
    and w': "w' = w3\<lparr>lg_uuids := m, lg_auditEvents := es\<rparr>" by blast
  have core1: "crl_core w1 = crl_core w"
    using ins by (auto simp: InsertDocument_def insert_row_iff Let_def crl_core_def v)
  then have same: "lg_crlStates w1 = lg_crlStates w" "lg_jobs w1 = lg_jobs w" by (simp_all add: crl_core_def)
  have "crl_keyed w1" using inv by (simp add: demand_inv_def crl_keyed_def same)
  from publish_state_keeps_demand [OF pub, of ?i] this st have pub': "keeps_demand w1 w2" "lg_crlStates w2 ?i = Some st'"
    "lg_jobs w2 = lg_jobs w" by (simp_all add: same)
  have "jb_ID job = jobID" using jobs_okD(1) job(1) inv by (auto simp: demand_inv_def)
  with job pub'(3) have "map_of (lg_jobs w2) (jb_ID job) = Some job" by simp
  from save_outcome_keeps_demand [OF save this job(2) pub'(2)] have "keeps_demand w2 w3" .
  moreover have "keeps_demand w w1" "keeps_demand w3 w'"
    using core1 by (auto intro: keeps_demand_core simp: crl_core_def w')
  ultimately show ?thesis using pub'(1) keeps_demand_trans by blast
qed

lemma ClaimDue_keeps_demand:
  assumes "ClaimDue now until limit w = (Inr js, w')" and inv: "demand_inv w"
  shows "keeps_demand w w'"
proof -
  have "jobs_ok w" using inv by (simp add: demand_inv_def)
  from ClaimDue_keeps_open [OF this assms(1)] have c: "jobs_ok w'" "lg_crlStates w' = lg_crlStates w"
    "length (lg_jobs w) \<le> length (lg_jobs w')"
    "\<And>k j. job_of w k = Some j \<Longrightarrow> open_job j \<Longrightarrow> \<exists>b. job_of w' k = Some b \<and> open_job b" by auto
  have "demanded w' k" for k
    unfolding demanded_def
  proof (intro allI impI)
    fix st assume "lg_crlStates w' k = Some st" "behind st"
    with inv c(2) obtain j where "job_of w (CRLDedupKey k) = Some j" "open_job j"
      by (auto simp: demand_inv_def demanded_def)
    with c(4) show "\<exists>j. job_of w' (CRLDedupKey k) = Some j \<and> open_job j" by blast
  qed
  with c inv show ?thesis by (simp add: keeps_demand_def demand_inv_def crl_keyed_def)
qed

subsection \<open>Any interleaving of requests\<close>

text \<open>A step is one committed transaction of the revocation and publication services, or one claim of
  due jobs by the worker. A finalization may come with any reservation, however old.\<close>

inductive demand_step :: "ledger \<Rightarrow> ledger \<Rightarrow> bool" where
  revoke: "applyRevocations cs m w = (Inr out, w') \<Longrightarrow> demand_step w w'"
| request: "RequestPublication env meta a w = (Inr j, w') \<Longrightarrow> demand_step w w'"
| reserve: "reserveSnapshot env i w = (Inr rv, w') \<Longrightarrow> demand_step w w'"
| finalize: "finalizePublish env meta jobID rv doc w = (Inr r, w') \<Longrightarrow> demand_step w w'"
| claim: "ClaimDue now until limit w = (Inr js, w') \<Longrightarrow> demand_step w w'"

lemma demand_step_keeps: "demand_step w w' \<Longrightarrow> demand_inv w \<Longrightarrow> keeps_demand w w'"
proof (induction rule: demand_step.induct)
  case (revoke cs m w out w')
  then show ?case using applyRevocations_keeps_demand by (simp add: demand_inv_def)
next
  case (request env meta a w j w')
  then show ?case using RequestPublication_keeps_demand by blast
next
  case (reserve env i w rv w')
  then show ?case using reserveSnapshot_keeps_demand by (simp add: demand_inv_def)
next
  case (finalize env meta jobID rv doc w r w')
  then show ?case using finalizePublish_keeps_demand by blast
next
  case (claim now until limit w js w')
  then show ?case using ClaimDue_keeps_demand by blast
qed

text \<open>The store's job identifiers carry a 48-bit counter; the runs considered stay below it.\<close>

definition bounded_step :: "ledger \<Rightarrow> ledger \<Rightarrow> bool" where
  "bounded_step w w' \<longleftrightarrow> demand_step w w' \<and> length (lg_jobs w') < jobs_bound"

lemma demand_steps_keep:
  assumes "bounded_step\<^sup>*\<^sup>* w w'" and "demand_inv w"
  shows "demand_inv w'"
  using assms
proof (induction rule: rtranclp_induct)
  case (step v u)
  then show ?case using demand_step_keeps [of v u] by (auto simp: bounded_step_def keeps_demand_def)
qed

text \<open>C17. No publication demand is ever lost: after any sequence of revocation batches, publication requests,
  reservations, finalizations (of any reservation, in any order) and claims, a CA key whose published CRL
  is behind its revocation list has a job, found under its deduplication key, that is pending or running.\<close>

theorem demand_never_lost:
  assumes "bounded_step\<^sup>*\<^sup>* w w'" and "demand_inv w"
    and "lg_crlStates w' i = Some st" and "cs_publishedGeneration st < cs_revocationGeneration st"
  shows "\<exists>j. GetByDedupKey (CRLDedupKey i) w' = (Inr j, w') \<and> jb_State j \<in> {JobStatePending, JobStateRunning}"
proof -
  from demand_steps_keep [OF assms(1,2)] assms(3,4) obtain j where "job_of w' (CRLDedupKey i) = Some j" "open_job j"
    by (auto simp: demand_inv_def demanded_def behind_def)
  then show ?thesis by (auto simp: GetByDedupKey_def found_iff job_of_def open_job_def)
qed

subsection \<open>A publication catches up\<close>

text \<open>With the number after the largest reserved one and the current generation, the publication state
  machine has nothing to object except that publication is closed, which ends the request.\<close>

lemma fresh_number_publishes:
  assumes pub: "publish_state st1 rv d w = (Inr (st', published), w')" and reserved: "ReserveNext st = (cn_Number (cv_snapshot rv), st1)"
    and number: "CRLNumber_Big (cs_publishedNumber st) \<le> CRLNumber_Big (cs_maxReservedNumber st)"
    and generation: "cs_publishedGeneration st \<le> cn_CoveredGeneration (cv_snapshot rv)"
  shows "published \<and> SaveState st' (cs_version st1) w = (Inr (), w') \<and> cs_publishedDocumentID st' = d
    \<and> cs_publishedGeneration st' = cn_CoveredGeneration (cv_snapshot rv)
    \<and> cs_revocationGeneration st' = cs_revocationGeneration st
    \<and> cs_caKeyGenerationID st' = cs_caKeyGenerationID st"
proof -
  let ?n = "cn_Number (cv_snapshot rv)" and ?g = "cn_CoveredGeneration (cv_snapshot rv)"
  have can: "CanPublish st1 ?n ?g = (if cs_publicationState st1 = PublicationStateClosed
      then Some (policy ErrNotPermitted ''crl_publication_closed'' ''CA key CRL publication is closed'') else None)"
  proof -
    have n: "?n = CRLNumber_Increment (cs_maxReservedNumber st)" "cs_publishedNumber st1 = cs_publishedNumber st"
      "cs_publishedGeneration st1 = cs_publishedGeneration st"
      using reserved by (auto simp: ReserveNext_def Let_def)
    have "CRLNumber_Big ?n = CRLNumber_Big (cs_maxReservedNumber st) + 1" unfolding n(1) by simp
    note n = this n(2,3)
    from n number generation show ?thesis by (simp add: CanPublish_def CRLNumber_Compare_def int_Cmp_def)
  qed
  have "cs_publicationState st1 \<noteq> PublicationStateClosed"
  proof
    assume "cs_publicationState st1 = PublicationStateClosed"
    with can pub show False by (auto simp: publish_state_def policy_def NewPolicyError_def Unwrap_def tx_iff split: if_splits)
  qed
  with can have "CanPublish st1 ?n ?g = None" by simp
  with pub obtain at where "MarkPublished st1 d ?n ?g at = Inr st'" "published"
    "SaveState st' (cs_version st1) w = (Inr (), w')"
    by (auto simp: publish_state_def tx_iff simp del: SaveState_iff)
  then show ?thesis using reserved by (auto simp: MarkPublished_def ReserveNext_def Let_def success_iff split: if_splits)
qed

lemma lifted_sign [tx_iff]:
  "(case m of Inl e \<Rightarrow> Inl (f e) | Inr s \<Rightarrow> Inr s) = Inr y \<longleftrightarrow> m = Inr y"
  by (cases m) simp_all

lemma Publish_steps:
  assumes "Publish env sign meta cmd meanwhile w = (Inr r, w')"
  shows "\<exists>rv w1 doc. reserve_commit (en_clock env 0) (cp_CAKeyGenerationID cmd) w = (Inr rv, w1)
    \<and> sign (cv_snapshot rv) (cv_caKey rv) = Inr doc
    \<and> finalize_commit env meta (cp_JobID cmd) rv doc (meanwhile w1) = (Inr r, w')"
  using assms unfolding Publish_def reserveSnapshot_def finalizePublish_def
  by (auto simp: tx_iff split: if_splits)

lemma finalize_commit_publishes:
  assumes fin: "finalize_commit env meta jobID rv doc w = (Inr r, w')"
    and reserved: "ReserveNext st = (cn_Number (cv_snapshot rv), st1)"
    and st1: "lg_crlStates w (cn_CAKeyGenerationID (cv_snapshot rv)) = Some st1"
    and key: "cs_caKeyGenerationID st = cn_CAKeyGenerationID (cv_snapshot rv)"
    and number: "CRLNumber_Big (cs_publishedNumber st) \<le> CRLNumber_Big (cs_maxReservedNumber st)"
    and generation: "cs_publishedGeneration st \<le> cn_CoveredGeneration (cv_snapshot rv)"
  shows "\<exists>st'. pb_Published r \<and> pb_FollowupRequired r = behind st'
    \<and> lg_crlDocuments w' (pb_DocumentID r) = Some (published_document rv doc (pb_DocumentID r))
    \<and> lg_crlStates w' (cn_CAKeyGenerationID (cv_snapshot rv)) = Some st'
    \<and> cs_publishedDocumentID st' = pb_DocumentID r
    \<and> cs_publishedGeneration st' = cn_CoveredGeneration (cv_snapshot rv)
    \<and> cs_revocationGeneration st' = cs_revocationGeneration st"
proof -
  from finalize_commit_steps [OF fin] st1 obtain job v n w1 w2 st' w3 m es where
    v: "v = w\<lparr>lg_uuids := n\<rparr>" and ins: "InsertDocument (published_document rv doc (pb_DocumentID r)) v = (Inr (), w1)"
    and pub: "publish_state st1 rv (pb_DocumentID r) w1 = (Inr (st', pb_Published r), w2)"
    and follow: "pb_FollowupRequired r = behind st'" and out: "save_outcome job (behind st') (en_clock env 1) w2 = (Inr (), w3)"
    and w': "w' = w3\<lparr>lg_uuids := m, lg_auditEvents := es\<rparr>" by auto
  note fresh = fresh_number_publishes [OF pub reserved number generation]
  from fresh key have w2: "w2 = w1\<lparr>lg_crlStates := (lg_crlStates w1)(cn_CAKeyGenerationID (cv_snapshot rv) \<mapsto> st')\<rparr>"
    by (auto simp: SaveState_iff)
  have w3: "lg_crlDocuments w3 = lg_crlDocuments w2" "lg_crlStates w3 = lg_crlStates w2"
    using out by (auto simp: save_outcome_def tx_iff split: if_splits)
  have "lg_crlDocuments w1 (pb_DocumentID r) = Some (published_document rv doc (pb_DocumentID r))"
    using ins by (auto simp: tx_iff published_document_def)
  with fresh follow show ?thesis by (intro exI [of _ st']) (simp add: w' w3 w2)
qed

text \<open>C18. A publication catches up: when nobody else writes the CRL state while the CRL is signed, a \<open>Publish\<close>
  that returns has published. The CRL that was signed lists exactly the issuer's recorded revocations and
  covers their generation, it is stored under the reported identifier, its number is the one after
  the largest reserved, and the published generation is the revocation generation, so no
  follow-up is required.\<close>

theorem publish_catches_up:
  assumes run: "Publish env sign meta cmd meanwhile w = (Inr r, w')"
    and st: "lg_crlStates w (cp_CAKeyGenerationID cmd) = Some st" and keyed: "crl_keyed w"
    and number: "CRLNumber_Big (cs_publishedNumber st) \<le> CRLNumber_Big (cs_maxReservedNumber st)"
    and generation: "cs_publishedGeneration st \<le> cs_revocationGeneration st"
    and quiet: "\<And>v. lg_crlStates (meanwhile v) = lg_crlStates v"
  shows "pb_Published r \<and> \<not> pb_FollowupRequired r
    \<and> (\<exists>snap key doc. sign snap key = Inr doc
         \<and> cn_CAKeyGenerationID snap = cp_CAKeyGenerationID cmd
         \<and> set (cn_Revoked snap) = {x. \<exists>s. ((cp_CAKeyGenerationID cmd, s), x) \<in> set (lg_revocationRows w)}
         \<and> cn_CoveredGeneration snap = cs_revocationGeneration st
         \<and> cn_Number snap = CRLNumber_Increment (cs_maxReservedNumber st)
         \<and> map_option cd_DER (lg_crlDocuments w' (pb_DocumentID r)) = Some (sg_DER doc))
    \<and> (\<exists>st'. lg_crlStates w' (cp_CAKeyGenerationID cmd) = Some st'
         \<and> cs_publishedDocumentID st' = pb_DocumentID r
         \<and> cs_publishedGeneration st' = cs_revocationGeneration st
         \<and> cs_revocationGeneration st' = cs_revocationGeneration st)"
proof -
  let ?i = "cp_CAKeyGenerationID cmd"
  from Publish_steps [OF run] obtain rv w1 doc where res: "reserve_commit (en_clock env 0) ?i w = (Inr rv, w1)"
    and doc: "sign (cv_snapshot rv) (cv_caKey rv) = Inr doc"
    and fin: "finalize_commit env meta (cp_JobID cmd) rv doc (meanwhile w1) = (Inr r, w')" by blast
  from reserve_commit_steps [OF res] obtain st1 where reserved: "ReserveNext st = (cn_Number (cv_snapshot rv), st1)"
    and save: "SaveState st1 (cs_version st) w = (Inr (), w1)"
    and snap: "cn_CAKeyGenerationID (cv_snapshot rv) = ?i"
      "cn_CoveredGeneration (cv_snapshot rv) = cs_revocationGeneration st"
      "ListByIssuer ?i w = (Inr (cn_Revoked (cv_snapshot rv)), w)" using st by auto
  have key: "cs_caKeyGenerationID st = ?i" using st keyed by (simp add: crl_keyed_def)
  with reserved have "cs_caKeyGenerationID st1 = ?i" by (auto simp: ReserveNext_def Let_def)
  with save have st1: "lg_crlStates (meanwhile w1) ?i = Some st1" by (auto simp: SaveState_iff quiet)
  from finalize_commit_publishes [OF fin reserved] st1 key number generation
  obtain st' where effect: "pb_Published r" "pb_FollowupRequired r = behind st'"
    "lg_crlDocuments w' (pb_DocumentID r) = Some (published_document rv doc (pb_DocumentID r))"
    "lg_crlStates w' ?i = Some st'" "cs_publishedDocumentID st' = pb_DocumentID r"
    "cs_publishedGeneration st' = cs_revocationGeneration st"
    "cs_revocationGeneration st' = cs_revocationGeneration st" by (auto simp: snap)
  have "\<not> pb_FollowupRequired r" using effect by (simp add: behind_def)
  moreover have "set (cn_Revoked (cv_snapshot rv)) = {x. \<exists>s. ((?i, s), x) \<in> set (lg_revocationRows w)}"
  proof -
    have list: "cn_Revoked (cv_snapshot rv) = sort_key (SerialNumber_Big \<circ> rv_serial)
        (map snd (filter (\<lambda>((k, _), _). k = ?i) (lg_revocationRows w)))"
      using snap(3) by (simp add: ListByIssuer_def tx_return_def)
    show ?thesis unfolding list by (auto simp: image_iff)
  qed
  moreover have "cn_Number (cv_snapshot rv) = CRLNumber_Increment (cs_maxReservedNumber st)"
    using reserved by (simp add: ReserveNext_def Let_def)
  ultimately show ?thesis using effect doc snap(1,2) by (auto simp: published_document_def)
qed

subsection \<open>A concrete publication\<close>

definition sample_publish_job :: Job where
  "sample_publish_job = zero_job\<lparr>jb_ID := sample_uuid CHR ''6'', jb_Kind := JobKindCRLPublish,
     jb_DedupKey := CRLDedupKey (sample_uuid CHR ''2''), jb_State := JobStateRunning, jb_Version := 1\<rparr>"

definition sample_publish_store :: ledger where
  "sample_publish_store = sample_ledger\<lparr>
     lg_caKeyGenerations := [sample_uuid CHR ''2'' \<mapsto> \<lparr>cg_ID = sample_uuid CHR ''2'', cg_AuthorityID = sample_uuid CHR ''a'',
       cg_KeyMaterialID = sample_uuid CHR ''4'', cg_GenerationNo = 1, cg_KeyDestroyedAt = zero_instant\<rparr>],
     lg_authorities := [(sample_uuid CHR ''a'', sample_authority)],
     lg_certificates := [(sample_uuid CHR ''4'', sample_cert CHR ''4'' CHR ''b'')],
     lg_secrets := [((sample_uuid CHR ''4'', SecretPurposeCASigning), \<lparr>es_ownerKeyID = sample_uuid CHR ''4'',
       es_purpose = SecretPurposeCASigning, es_formatVersion = 1, es_encryptionGenerationID = [], es_nonce = [],
       es_ciphertext = []\<rparr>)],
     lg_settings := Some \<lparr>se_SchemaVersion = settingsSchemaVersionV1,
       se_SettingsJSON = json_text (wire_json (wire_of sample_settings)), se_Version = 1, se_UpdatedBy = []\<rparr>,
     lg_revocationRows := [((sample_uuid CHR ''2'', ''ab''), sample_revocation)],
     lg_jobs := [(sample_uuid CHR ''6'', sample_publish_job)],
     lg_jobByDedup := [CRLDedupKey (sample_uuid CHR ''2'') \<mapsto> sample_uuid CHR ''6'']\<rparr>"

definition sample_service_env :: service_env where
  "sample_service_env = \<lparr>en_authorize = (\<lambda>_ _ _. None), en_clock = (\<lambda>_. Instant 20),
     en_ids = (\<lambda>_. sample_uuid CHR ''5''), en_ctxErr = None\<rparr>"

definition sample_signer :: CRLSigner where
  "sample_signer snap key = Inr \<lparr>sg_DER = ''crl'', sg_DERSHA256 = NewFingerprint ''crl''\<rparr>"

definition sample_publisher :: RequestMeta where
  "sample_publisher = sample_visitor\<lparr>rq_Principal := zero_principal\<lparr>pr_kind := PrincipalKindInternal,
     pr_operations := [InternalOperationCRLPublish]\<rparr>\<rparr>"

definition sample_publish :: CRLPublishCommand where
  "sample_publish = \<lparr>cp_JobID = sample_uuid CHR ''6'', cp_CAKeyGenerationID = sample_uuid CHR ''2''\<rparr>"

definition sample_reserved_from :: CRLState where
  "sample_reserved_from = the (lg_crlStates sample_ledger (sample_uuid CHR ''2''))"

lemma sample_authority_signs: "CanSignCRL sample_authority (Instant 20) = None"
  by (simp add: success_iff hasValidCertificateWindowAt_iff sample_window_def zero_window_def
      zero_instant_def less_eq_Instant_def less_Instant_def)
    (simp add: sample_authority_def sample_window_def less_eq_Instant_def less_Instant_def)

lemma sample_publish_simps:
  "sample_uuid c \<noteq> []" "au_kind sample_authority = AuthorityKindIntermediate" "Instant_IsZero zero_instant"
  "ce_kind (sample_cert c d) = CertificateKindCA" "ce_keyMaterialID (sample_cert c d) = sample_uuid c"
  "en_clock sample_service_env k = Instant 20" "en_ids sample_service_env k = sample_uuid CHR ''5''"
  "en_ctxErr sample_service_env = None"
  by (simp_all add: sample_uuid_def sample_authority_def Instant_IsZero_def zero_instant_def sample_cert_def sample_service_env_def)

lemma sample_reserve:
  "\<exists>rv w' st. reserve_commit (Instant 20) (sample_uuid CHR ''2'') sample_publish_store = (Inr rv, w')
     \<and> w' = sample_publish_store\<lparr>lg_crlStates := [sample_uuid CHR ''2'' \<mapsto> st]\<rparr>
     \<and> st = snd (ReserveNext sample_reserved_from)
     \<and> cn_Number (cv_snapshot rv) = CRLNumber_Increment (CRLNumber []) \<and> cn_CoveredGeneration (cv_snapshot rv) = 0
     \<and> cv_nextPublishAt rv = Instant_Add (Instant 20) (seconds_duration (sv_CRLIntervalSeconds sample_settings))
     \<and> cn_CAKeyGenerationID (cv_snapshot rv) = sample_uuid CHR ''2''"
  by (simp add: reserve_commit_def tx_iff loadCRLSigningAuthority_def readCRLSigningSecret_def
      crl_signing_certificate_def crl_settings_def prod.case_eq_if sample_publish_store_def sample_ledger_def
      newState_def found_iff sample_settings_decoded ListByIssuer_def GetSettings_def sample_publish_simps
      sample_authority_signs ReserveNext_def sample_reserved_from_def sample_ledger_def)

definition sample_marked :: "crlReservation \<Rightarrow> CRLState" where
  "sample_marked rv = (case MarkPublished (snd (ReserveNext sample_reserved_from)) (sample_uuid CHR ''5'')
     (cn_Number (cv_snapshot rv)) (cn_CoveredGeneration (cv_snapshot rv)) (cv_nextPublishAt rv) of Inr st \<Rightarrow> st)"

lemma sample_published:
  assumes "lg_crlStates v (sample_uuid CHR ''2'') = Some (snd (ReserveNext sample_reserved_from))"
    and "cn_Number (cv_snapshot rv) = CRLNumber_Increment (CRLNumber [])" "cn_CoveredGeneration (cv_snapshot rv) = 0"
    and "cv_nextPublishAt rv = Instant_Add (Instant 20) (seconds_duration (sv_CRLIntervalSeconds sample_settings))"
  shows "publish_state (snd (ReserveNext sample_reserved_from)) rv (sample_uuid CHR ''5'') v
      = (Inr (sample_marked rv, True), v\<lparr>lg_crlStates := (lg_crlStates v)(sample_uuid CHR ''2'' \<mapsto> sample_marked rv)\<rparr>)"
    and "\<not> cs_publishedGeneration (sample_marked rv) < cs_revocationGeneration (sample_marked rv)"
proof -
  let ?st = "snd (ReserveNext sample_reserved_from)"
  let ?n = "cn_Number (cv_snapshot rv)" and ?g = "cn_CoveredGeneration (cv_snapshot rv)"
  have at: "\<not> Instant_IsZero (cv_nextPublishAt rv)"
    by (simp add: assms(4) sample_settings_def seconds_duration_def Instant_Add_def Instant_IsZero_def wrap64_id
        int64_bounds NewDuration_def go_second_def go_div_def)
  have can: "CanPublish ?st ?n ?g = None"
    by (simp add: assms(2,3) CanPublish_def ReserveNext_def sample_reserved_from_def sample_ledger_def Let_def
        CRLNumber_IsZero_def equalZero_def)
  with at obtain st' where mark: "MarkPublished ?st (sample_uuid CHR ''5'') ?n ?g (cv_nextPublishAt rv) = Inr st'"
    by (simp add: MarkPublished_def check_then_Inr success_iff)
  from MarkPublished_behind [OF mark] have marked: "cs_caKeyGenerationID st' = sample_uuid CHR ''2''"
    "cs_publishedGeneration st' = 0" "cs_revocationGeneration st' = 0"
    by (simp_all add: ReserveNext_def sample_reserved_from_def sample_ledger_def Let_def assms(3))
  have st': "sample_marked rv = st'" by (simp add: sample_marked_def mark)
  then show "\<not> cs_publishedGeneration (sample_marked rv) < cs_revocationGeneration (sample_marked rv)"
    by (simp add: marked)
  show "publish_state ?st rv (sample_uuid CHR ''5'') v
      = (Inr (sample_marked rv, True), v\<lparr>lg_crlStates := (lg_crlStates v)(sample_uuid CHR ''2'' \<mapsto> sample_marked rv)\<rparr>)"
    using can mark marked assms(1) by (simp add: publish_state_def tx_iff st')
qed

lemma sample_publish_runs:
  "\<exists>r w'. Publish sample_service_env sample_signer sample_publisher sample_publish (\<lambda>v. v) sample_publish_store = (Inr r, w')"
proof -
  obtain rv w1 where res: "reserve_commit (Instant 20) (sample_uuid CHR ''2'') sample_publish_store = (Inr rv, w1)"
    and w1: "w1 = sample_publish_store\<lparr>lg_crlStates := [sample_uuid CHR ''2'' \<mapsto> snd (ReserveNext sample_reserved_from)]\<rparr>"
    and rv: "cn_Number (cv_snapshot rv) = CRLNumber_Increment (CRLNumber [])" "cn_CoveredGeneration (cv_snapshot rv) = 0"
    "cv_nextPublishAt rv = Instant_Add (Instant 20) (seconds_duration (sv_CRLIntervalSeconds sample_settings))"
    and i: "cn_CAKeyGenerationID (cv_snapshot rv) = sample_uuid CHR ''2''" using sample_reserve by blast
  let ?doc = "\<lparr>sg_DER = ''crl'', sg_DERSHA256 = NewFingerprint ''crl''\<rparr>"
  have "\<exists>r w'. finalize_commit sample_service_env sample_publisher (sample_uuid CHR ''6'') rv ?doc w1 = (Inr r, w')"
    by (simp add: finalize_commit_def w1 i Let_def tx_iff loadCRLSigningAuthority_def prod.case_eq_if
        sample_published [OF _ rv] sample_publish_store_def sample_ledger_def newState_def sample_publish_simps
        sample_authority_signs sample_publish_job_def finished_job_def ParseID_Inr AuditScope_Validate_def
        NewAuthoritiesAuditScope_def) blast
  moreover have "ParseJobID (sample_uuid CHR ''6'') = Inr (sample_uuid CHR ''6'')"
    "ParseCAKeyGenerationID (sample_uuid CHR ''2'') = Inr (sample_uuid CHR ''2'')" by (simp_all add: ParseID_Inr)
  ultimately show ?thesis using res
    by (simp add: Publish_def tx_iff reserveSnapshot_def finalizePublish_def sample_publish_def sample_publisher_def
        CRLPublishCommand_Validate_def request_canceled_def sample_publish_simps IsInternal_def
        Principal_Kind_def Can_def zero_principal_def sample_signer_def)
qed

theorem publish_catches_up_witness:
  "\<exists>r w'. Publish sample_service_env sample_signer sample_publisher sample_publish (\<lambda>v. v) sample_publish_store = (Inr r, w')
     \<and> pb_Published r \<and> \<not> pb_FollowupRequired r"
proof -
  obtain r w' where run: "Publish sample_service_env sample_signer sample_publisher sample_publish (\<lambda>v. v)
      sample_publish_store = (Inr r, w')" using sample_publish_runs by blast
  have "lg_crlStates sample_publish_store (cp_CAKeyGenerationID sample_publish) = Some sample_reserved_from"
    "crl_keyed sample_publish_store"
    by (simp_all add: sample_publish_store_def sample_publish_def sample_reserved_from_def sample_ledger_def crl_keyed_def)
  from publish_catches_up [OF run this] run show ?thesis by (simp add: sample_reserved_from_def sample_ledger_def)
qed

lemma sample_demand_inv: "demand_inv sample_ledger"
  by (simp add: demand_inv_def demanded_def jobs_ok_def crl_keyed_def sample_ledger_def newState_def behind_def)

definition sample_demand_run :: "RevocationChange list \<Rightarrow> (int64 \<times> int64 \<times> nat) option" where
  "sample_demand_run cs = (case applyRevocations cs sample_meta sample_ledger of
     (Inl _, _) \<Rightarrow> None
   | (Inr out, w') \<Rightarrow> map_option (\<lambda>st. (cs_publishedGeneration st, cs_revocationGeneration st, length (lg_jobs w')))
       (lg_crlStates w' (sample_uuid CHR ''2'')))"

theorem demand_never_lost_witness:
  "\<exists>w' j. bounded_step sample_ledger w'
     \<and> GetByDedupKey (CRLDedupKey (sample_uuid CHR ''2'')) w' = (Inr j, w')
     \<and> jb_State j \<in> {JobStatePending, JobStateRunning}"
proof -
  have "sample_demand_run [sample_change_of RevocationReasonSuperseded] = Some (0, 1, 1)" by code_simp
  then obtain out w' st where run: "applyRevocations [sample_change_of RevocationReasonSuperseded] sample_meta
      sample_ledger = (Inr out, w')" and st: "lg_crlStates w' (sample_uuid CHR ''2'') = Some st"
    "cs_publishedGeneration st < cs_revocationGeneration st" and len: "length (lg_jobs w') = 1"
    by (auto simp: sample_demand_run_def split: prod.splits sum.splits)
  have step: "bounded_step sample_ledger w'"
    using demand_step.revoke [OF run] len by (simp add: bounded_step_def jobs_bound_def)
  from demand_never_lost [OF _ sample_demand_inv st] step show ?thesis by blast
qed

end
