(* ===== verification/Distribution_Service.thy ===== *)
theory Distribution_Service
  imports Service_Base Secret_Input Workflow_Store Revocation_Batch
begin

text \<open>
  \<open>internal/app/service/distribution.go\<close>, \<open>deliver_postprocess.go\<close> and \<open>recovery.go\<close>: handing a
  certificate or a private key to the holder of a download link, and the restart path that resolves
  interrupted transfers. \<open>Deliver\<close> prepares the payload outside any transaction, consumes the link
  (and for a private key the delivery, its ciphertext and every other private link) in one commit, and
  only then calls the sink. What the sink received, the payload holders that were closed, the
  operational log and the fail-closed signals are part of the state, next to the store. The token
  codec, the two encoders and the sink are parameters.
\<close>

subsection \<open>Formats and commands\<close>

datatype DeliveryFormat = DeliveryFormatPEM | DeliveryFormatZIP | DeliveryFormatPKCS12 | DeliveryFormatOther string

datatype DownloadFormat = DownloadFormatPEM | DownloadFormatZIP | DownloadFormatPKCS12 | DownloadFormatOther string

datatype DownloadPart =
    DownloadPartUnspecified
  | DownloadPartCertificate
  | DownloadPartChain
  | DownloadPartPrivateKey
  | DownloadPartOther string

fun DownloadFormat_Validate :: "DownloadFormat \<Rightarrow> domain_error option" where
  "DownloadFormat_Validate (DownloadFormatOther _) = Some (Wrapped ErrInvalidValue ''unsupported download format'')"
| "DownloadFormat_Validate _ = None"

fun DownloadPart_Validate :: "DownloadPart \<Rightarrow> domain_error option" where
  "DownloadPart_Validate (DownloadPartOther _) = Some (Wrapped ErrInvalidValue ''unsupported download part'')"
| "DownloadPart_Validate _ = None"

fun toDeliveryFormat :: "DownloadFormat \<Rightarrow> go_error + DeliveryFormat" where
  "toDeliveryFormat DownloadFormatPEM = Inr DeliveryFormatPEM"
| "toDeliveryFormat DownloadFormatZIP = Inr DeliveryFormatZIP"
| "toDeliveryFormat DownloadFormatPKCS12 = Inr DeliveryFormatPKCS12"
| "toDeliveryFormat (DownloadFormatOther _) =
     Inl (app_error ErrorKindValidation ''download_format_invalid'' ''unsupported download format'')"

fun part_text :: "DownloadPart \<Rightarrow> string" where
  "part_text DownloadPartUnspecified = []"
| "part_text DownloadPartCertificate = ''certificate''"
| "part_text DownloadPartChain = ''chain''"
| "part_text DownloadPartPrivateKey = ''private_key''"
| "part_text (DownloadPartOther s) = s"

definition fixedFilename :: "GrantPurpose \<Rightarrow> DeliveryFormat \<Rightarrow> string" where
  "fixedFilename purpose format =
     (let base = (if purpose = GrantPurposeLeafPrivate then ''private-key'' else ''certificate'') in
      case format of
        DeliveryFormatZIP \<Rightarrow> base @ ''.zip''
      | DeliveryFormatPKCS12 \<Rightarrow> base @ ''.p12''
      | _ \<Rightarrow> base @ ''.pem'')"

definition validatePublicFormat :: "DeliveryFormat \<Rightarrow> DownloadPart \<Rightarrow> go_error option" where
  "validatePublicFormat format pemPart =
     (if format = DeliveryFormatPKCS12
        then Some (app_error ErrorKindValidation ''public_pkcs12_undefined''
          ''pkcs12 is not defined for a public certificate download'')
      else if pemPart = DownloadPartPrivateKey
        then Some (app_error ErrorKindValidation ''public_download_no_private_key''
          ''a public download cannot include the private key'')
      else None)"

record DownloadCommand =
  dc_RawToken :: "Input option"
  dc_Format :: DownloadFormat
  dc_PEMPart :: DownloadPart
  dc_PKCS12Password :: "Input option"

definition rawTokenMinLength :: nat where "rawTokenMinLength = 32"
definition rawTokenMaxLength :: nat where "rawTokenMaxLength = 256"

definition validateSecretRuneLength :: "Input option \<Rightarrow> nat \<Rightarrow> nat \<Rightarrow> domain_error option" where
  "validateSecretRuneLength i low high =
     (if Input_IsEmpty i then Some (Wrapped ErrInvalidValue ''value must not be empty'')
      else case Input_Use i Inr of
        Inl _ \<Rightarrow> Some (Wrapped ErrInvalidValue ''value is unavailable'')
      | Inr b \<Rightarrow>
          if \<not> valid_utf8 b then Some (Wrapped ErrInvalidValue ''value must be valid UTF-8'')
          else if length (runes b) < low \<or> high < length (runes b)
            then Some (Wrapped ErrInvalidValue
              (''value must be '' @ int_text (int low) @ ''..'' @ int_text (int high) @ '' characters''))
          else None)"

definition DownloadCommand_Validate :: "DownloadCommand \<Rightarrow> go_error option" where
  "DownloadCommand_Validate c =
     (if validateSecretRuneLength (dc_RawToken c) rawTokenMinLength rawTokenMaxLength \<noteq> None
        then Some (app_error ErrorKindValidation ''raw_token_invalid'' ''a download token must be 32..256 characters'')
      else case DownloadFormat_Validate (dc_Format c) of
        Some err \<Rightarrow> FromDomainError (Some (Domain err))
      | None \<Rightarrow>
          (case DownloadPart_Validate (dc_PEMPart c) of
             Some err \<Rightarrow> FromDomainError (Some (Domain err))
           | None \<Rightarrow>
               if dc_Format c \<noteq> DownloadFormatPKCS12 \<and> dc_PKCS12Password c \<noteq> None
                  \<and> \<not> Input_IsEmpty (dc_PKCS12Password c)
                 then Some (app_error ErrorKindValidation ''pkcs12_password_not_applicable''
                   ''a pkcs12 password is only accepted for the pkcs12 format'')
               else None))"

subsection \<open>Encoders, the sink and the state around the store\<close>

record DeliveryEncodeInput =
  di_Certificate :: Certificate
  di_ChainDER :: "string list"
  di_LeafSecret :: EncryptedSecret
  di_Format :: DeliveryFormat
  di_PEMPart :: string
  di_PKCS12Password :: "Input option"

record PublicEncodeInput =
  pi_Certificate :: Certificate
  pi_ChainDER :: "string list"
  pi_Format :: DeliveryFormat
  pi_PEMPart :: string

record EncodedBundle =
  eb_payload :: "Input option"
  eb_ContentType :: string

definition NewEncodedBundle :: "string \<Rightarrow> string \<Rightarrow> EncodedBundle" where
  "NewEncodedBundle data contentType = \<lparr>eb_payload = Some (Input_New (Some data)), eb_ContentType = contentType\<rparr>"

record FileDescriptor =
  fd_ContentType :: string
  fd_Filename :: string
  fd_Size :: int64

record TransferOutcome =
  to_BytesWritten :: int64
  to_FinishedAt :: Instant
  to_Completed :: bool

text \<open>What one call of the sink does: it returns an outcome and perhaps an error, or it panics.\<close>

datatype sink_behaviour = Returns TransferOutcome "go_error option" | Panics string

record sendResult =
  sr_outcome :: TransferOutcome
  sr_sendErr :: "go_error option"
  sr_panicked :: bool
  sr_panicVal :: string

definition no_result :: sendResult where
  "no_result = \<lparr>sr_outcome = \<lparr>to_BytesWritten = 0, to_FinishedAt = zero_instant, to_Completed = False\<rparr>,
     sr_sendErr = None, sr_panicked = False, sr_panicVal = []\<rparr>"

definition sendResult_failed :: "sendResult \<Rightarrow> bool" where
  "sendResult_failed r \<longleftrightarrow> sr_panicked r \<or> sr_sendErr r \<noteq> None \<or> \<not> to_Completed (sr_outcome r)"

record OperationalEvent =
  oe_Code :: string
  oe_RequestID :: string
  oe_Stage :: string
  oe_GrantID :: GrantID
  oe_DeliveryID :: DeliveryID
  oe_CertificateID :: CertificateID

record delivery_world =
  dw_store :: ledger
  dw_sent :: "(FileDescriptor \<times> string) list"
  dw_closed :: "Input option list"
  dw_failClosed :: "string list"
  dw_log :: "OperationalEvent list"

record distribution_env =
  dn_Hash :: "Input option \<Rightarrow> go_error + TokenHash"
  dn_Encode :: "DeliveryEncodeInput \<Rightarrow> EncodedBundle \<times> go_error option"
  dn_PublicEncode :: "PublicEncodeInput \<Rightarrow> EncodedBundle \<times> go_error option"
  dn_Send :: "FileDescriptor \<Rightarrow> string \<Rightarrow> sink_behaviour"
  dn_clock :: "nat \<Rightarrow> Instant"
  dn_ids :: "nat \<Rightarrow> string"
  dn_fate :: "nat \<Rightarrow> commit_fate"

definition on_store :: "(ledger, 'a) tx \<Rightarrow> (delivery_world, 'a) tx" where
  "on_store m d = (case m (dw_store d) of (r, w) \<Rightarrow> (r, d\<lparr>dw_store := w\<rparr>))"

definition FailClosed :: "string \<Rightarrow> (delivery_world, unit) tx" where
  "FailClosed code d = tx_return () (d\<lparr>dw_failClosed := dw_failClosed d @ [code]\<rparr>)"

definition OperationalRecord :: "OperationalEvent \<Rightarrow> (delivery_world, unit) tx" where
  "OperationalRecord e d = tx_return () (d\<lparr>dw_log := dw_log d @ [e]\<rparr>)"

definition close_bundle :: "EncodedBundle \<Rightarrow> (delivery_world, unit) tx" where
  "close_bundle b d = tx_return () (d\<lparr>dw_closed := dw_closed d @ [map_option Input_Close (eb_payload b)]\<rparr>)"

lemma on_store_iff [tx_iff]:
  "on_store m d = (Inr y, d') \<longleftrightarrow> (\<exists>w. m (dw_store d) = (Inr y, w) \<and> d' = d\<lparr>dw_store := w\<rparr>)"
  by (auto simp: on_store_def split: prod.splits)

subsection \<open>Preparing the payload\<close>

record preparedDelivery =
  pp_tokenHash :: TokenHash
  pp_purpose :: GrantPurpose
  pp_certificate :: Certificate
  pp_bundle :: EncodedBundle
  pp_contentType :: string
  pp_filename :: string

record prepare_rows =
  px_grant :: DownloadGrant
  px_certificate :: Certificate
  px_leafSecret :: "EncryptedSecret option"
  px_chainDER :: "string list"

definition download_token_invalid :: go_error where
  "download_token_invalid = app_error ErrorKindValidation ''download_token_invalid'' ''download link is invalid''"

definition delivery_not_found :: go_error where
  "delivery_not_found = app_error ErrorKindValidation ''delivery_not_found'' ''delivery record is missing''"

text \<open>The read transaction. A public link has no ciphertext to read.\<close>

definition prepare_read ::
  "TokenHash \<Rightarrow> DownloadPart \<Rightarrow> DeliveryFormat \<Rightarrow> Instant \<Rightarrow> (ledger, prepare_rows) tx" where
  "prepare_read tokenHash pemPart format now =
     tx_bind (tx_read (GetGrantForUpdate tokenHash) download_token_invalid
        ''download_grant_read_failed'' ''could not read the download link'') (\<lambda>g.
     tx_bind (tx_domain_check (Grant_Validate g (dg_purpose g) (dg_certificateID g) (dg_deliveryID g) now)) (\<lambda>_.
     tx_bind (tx_read (PKI_GetCertificate (dg_certificateID g))
        (app_error ErrorKindValidation ''certificate_not_found''
          ''the certificate for this download link is missing'')
        ''certificate_read_failed'' ''could not read the certificate'') (\<lambda>cert.
     tx_bind (tx_pki (\<lambda>p. buildChainDER p (ce_id cert))) (\<lambda>chain.
     if dg_purpose g \<noteq> GrantPurposeLeafPrivate then
       tx_bind (tx_guard (validatePublicFormat format pemPart)) (\<lambda>_.
       tx_return \<lparr>px_grant = g, px_certificate = cert, px_leafSecret = None, px_chainDER = chain\<rparr>)
     else if format = DeliveryFormatPEM \<and> (pemPart = DownloadPartCertificate \<or> pemPart = DownloadPartChain)
       then tx_fail (app_error ErrorKindValidation ''download_purpose_mismatch''
         ''this download link only provides the private key bundle'')
     else
       tx_bind (tx_read (GetDeliveryForUpdate (dg_deliveryID g)) delivery_not_found
          ''delivery_read_failed'' ''could not read the delivery record'') (\<lambda>d.
       tx_bind (tx_domain_check (Delivery_CanConsume d now)) (\<lambda>_.
       tx_bind (tx_read (GetEncrypted (ce_keyMaterialID cert) SecretPurposeLeafDelivery)
          (app_error ErrorKindConflict ''delivery_secret_missing'' ''the delivery ciphertext is no longer available'')
          ''delivery_secret_read_failed'' ''could not read the delivery ciphertext'') (\<lambda>secret.
       tx_return \<lparr>px_grant = g, px_certificate = cert, px_leafSecret = Some secret, px_chainDER = chain\<rparr>)))))))"

definition encode_payload ::
  "distribution_env \<Rightarrow> DownloadCommand \<Rightarrow> DeliveryFormat \<Rightarrow> prepare_rows \<Rightarrow> EncodedBundle \<times> go_error option" where
  "encode_payload env cmd format r =
     (case px_leafSecret r of
        Some leafSecret \<Rightarrow> dn_Encode env \<lparr>di_Certificate = px_certificate r, di_ChainDER = px_chainDER r,
          di_LeafSecret = leafSecret, di_Format = format, di_PEMPart = part_text (dc_PEMPart cmd),
          di_PKCS12Password = dc_PKCS12Password cmd\<rparr>
      | None \<Rightarrow> dn_PublicEncode env \<lparr>pi_Certificate = px_certificate r, pi_ChainDER = px_chainDER r,
          pi_Format = format, pi_PEMPart = part_text (dc_PEMPart cmd)\<rparr>)"

definition prepare ::
  "distribution_env \<Rightarrow> DownloadCommand \<Rightarrow> DeliveryFormat \<Rightarrow> Instant \<Rightarrow> (delivery_world, preparedDelivery) tx" where
  "prepare env cmd format now =
     tx_bind (tx_lift (case dn_Hash env (dc_RawToken cmd) of
         Inl err \<Rightarrow> Inl (App (WrapAppError ErrorKindValidation ''raw_token_hash_failed''
           ''could not process the download token'' err))
       | Inr h \<Rightarrow> Inr h)) (\<lambda>tokenHash.
     tx_bind (on_store (prepare_read tokenHash (dc_PEMPart cmd) format now)) (\<lambda>r.
     case encode_payload env cmd format r of
       (bundle, Some encErr) \<Rightarrow> tx_bind (close_bundle bundle) (\<lambda>_. tx_fail encErr)
     | (bundle, None) \<Rightarrow>
         tx_return \<lparr>pp_tokenHash = tokenHash, pp_purpose = dg_purpose (px_grant r), pp_certificate = px_certificate r,
           pp_bundle = bundle, pp_contentType = eb_ContentType bundle,
           pp_filename = fixedFilename (dg_purpose (px_grant r)) format\<rparr>))"

subsection \<open>The consuming commit\<close>

record consumedTransfer =
  ct_grant :: DownloadGrant
  ct_delivery :: "Delivery option"

definition distribution_event ::
  "string \<Rightarrow> Instant \<Rightarrow> RequestMeta \<Rightarrow> string \<Rightarrow> GrantID \<Rightarrow> string \<Rightarrow> AuditEvent" where
  "distribution_event i now meta action grantID result =
     \<lparr>ae_ID = i, ae_OccurredAt = now, ae_ActorKind = ''download_token'', ae_ActorID = grantID, ae_TokenID = grantID,
      ae_Action = action, ae_TargetType = ''download_grant'', ae_TargetID = grantID,
      ae_ClientIP = clientIP meta, ae_Result = result,
      ae_Details = \<lparr>ad_SchemaVersion = 1, ad_Fields = Map.empty\<rparr>\<rparr>"

definition appendDistributionAudit ::
  "(nat \<Rightarrow> string) \<Rightarrow> Instant \<Rightarrow> RequestMeta \<Rightarrow> string \<Rightarrow> GrantID \<Rightarrow> string \<Rightarrow> AuthorityID \<Rightarrow> (ledger, unit) tx" where
  "appendDistributionAudit ids now meta action grantID result scope =
     tx_bind (NewUUID ids) (\<lambda>i.
     tx_store (Audit_Append (distribution_event i now meta action grantID result) (NewAuthoritiesAuditScope [scope]))
       ''distribution_audit_failed'' ''could not record the download audit event'')"

definition consume_public ::
  "distribution_env \<Rightarrow> RequestMeta \<Rightarrow> DownloadGrant \<Rightarrow> Instant \<Rightarrow> AuthorityID \<Rightarrow> (ledger, consumedTransfer) tx" where
  "consume_public env meta grant now scope =
     tx_bind (tx_domain (Grant_Consume grant now)) (\<lambda>consumedGrant.
     tx_bind (tx_store (SaveGrant consumedGrant (dg_version grant))
        ''download_grant_save_failed'' ''could not consume the download link'') (\<lambda>_.
     tx_bind (appendDistributionAudit (dn_ids env) now meta ''distribution.deliver.public.start''
        (dg_id consumedGrant) ''success'' scope) (\<lambda>_.
     tx_return \<lparr>ct_grant = consumedGrant, ct_delivery = None\<rparr>)))"

definition consume_private ::
  "distribution_env \<Rightarrow> RequestMeta \<Rightarrow> preparedDelivery \<Rightarrow> DownloadGrant \<Rightarrow> Instant \<Rightarrow> AuthorityID
     \<Rightarrow> (ledger, consumedTransfer) tx" where
  "consume_private env meta prep grant now scope =
     tx_bind (tx_read (GetDeliveryForUpdate (dg_deliveryID grant)) delivery_not_found
        ''delivery_read_failed'' ''could not read the delivery record'') (\<lambda>delivery.
     tx_bind (tx_domain_check (Delivery_CanConsume delivery now)) (\<lambda>_.
     tx_bind (tx_domain (Grant_Consume grant now)) (\<lambda>consumedGrant.
     tx_bind (tx_domain (Delivery_Consume delivery now)) (\<lambda>consumedDelivery.
     tx_bind (tx_store (SaveGrant consumedGrant (dg_version grant))
        ''download_grant_save_failed'' ''could not consume the download link'') (\<lambda>_.
     tx_bind (tx_store (SaveDelivery consumedDelivery (de_version delivery))
        ''delivery_save_failed'' ''could not update the delivery record'') (\<lambda>_.
     tx_bind (tx_store (Secrets_Delete (ce_keyMaterialID (pp_certificate prep)) SecretPurposeLeafDelivery)
        ''delivery_secret_delete_failed'' ''could not remove the delivery ciphertext'') (\<lambda>_.
     tx_bind (tx_store (InvalidatePrivateGrants (de_id consumedDelivery) now)
        ''delivery_grant_invalidate_failed'' ''could not invalidate remaining private links'') (\<lambda>_.
     tx_bind (appendDistributionAudit (dn_ids env) now meta ''distribution.deliver.private.start''
        (dg_id consumedGrant) ''success'' scope) (\<lambda>_.
     tx_return \<lparr>ct_grant = consumedGrant, ct_delivery = Some consumedDelivery\<rparr>)))))))))"

definition consume_commit ::
  "distribution_env \<Rightarrow> RequestMeta \<Rightarrow> preparedDelivery \<Rightarrow> (ledger, consumedTransfer) tx" where
  "consume_commit env meta prep =
     tx_bind (tx_read (GetGrantForUpdate (pp_tokenHash prep)) download_token_invalid
        ''download_grant_read_failed'' ''could not read the download link'') (\<lambda>grant.
     let now = dn_clock env 1 in
     tx_bind (tx_domain_check (Grant_Validate grant (dg_purpose grant) (dg_certificateID grant)
        (dg_deliveryID grant) now)) (\<lambda>_.
     if dg_purpose grant \<noteq> pp_purpose prep \<or> dg_certificateID grant \<noteq> ce_id (pp_certificate prep)
       then tx_fail (app_error ErrorKindConflict ''download_grant_changed''
         ''the download link changed since it was read'')
     else
       tx_bind (tx_pki (\<lambda>p. leafManagementAuthority p (ce_id (pp_certificate prep)))) (\<lambda>scope.
       if dg_purpose grant \<noteq> GrantPurposeLeafPrivate then consume_public env meta grant now scope
       else consume_private env meta prep grant now scope)))"

definition commitConsumption ::
  "distribution_env \<Rightarrow> RequestMeta \<Rightarrow> preparedDelivery \<Rightarrow> (ledger, consumedTransfer) tx" where
  "commitConsumption env meta prep = uow_write (dn_fate env 0) (consume_commit env meta prep)"

subsection \<open>Calling the sink\<close>

text \<open>The sink is called inside the payload's \<open>Use\<close>; a holder that is already closed is an error that
  is dropped, and then the sink is not called.\<close>

definition invokeSink ::
  "distribution_env \<Rightarrow> FileDescriptor \<Rightarrow> EncodedBundle \<Rightarrow> (delivery_world, sendResult) tx" where
  "invokeSink env descriptor bundle d =
     (case Input_Use (eb_payload bundle) Inr of
        Inl _ \<Rightarrow> (Inr no_result, d)
      | Inr data \<Rightarrow>
          (Inr (case dn_Send env descriptor data of
              Returns outcome sendErr \<Rightarrow> no_result\<lparr>sr_outcome := outcome, sr_sendErr := sendErr\<rparr>
            | Panics v \<Rightarrow> no_result\<lparr>sr_panicked := True, sr_panicVal := v\<rparr>),
           d\<lparr>dw_sent := dw_sent d @ [(descriptor, data)]\<rparr>))"

definition finishObservedAt :: "distribution_env \<Rightarrow> Instant \<Rightarrow> Instant" where
  "finishObservedAt env consumedAt =
     (let observed = dn_clock env 2 in if Before observed consumedAt then consumedAt else observed)"

subsection \<open>Recording the outcome\<close>

definition delivery_revocation :: "Certificate \<Rightarrow> Instant \<Rightarrow> AuthorityID \<Rightarrow> RevocationChange" where
  "delivery_revocation cert at scope =
     \<lparr>rc_IssuerID = ce_issuerCAKeyGenerationID cert, rc_Serial = ce_serial cert, rc_CertificateID = ce_id cert,
      rc_RevokedAt = at, rc_Reason = RevocationReasonUnspecified, rc_Source = RevocationSourceCascade,
      rc_AuthorityID = scope, rc_NeedsReview = False\<rparr>"

definition transfer_failed_meta ::
  "distribution_env \<Rightarrow> RequestMeta \<Rightarrow> GrantID \<Rightarrow> Instant \<Rightarrow> RevocationMeta" where
  "transfer_failed_meta env meta grantID finishedAt =
     \<lparr>rm_Request = meta, rm_ActorKind = ''download_token'', rm_ActorID = grantID, rm_TokenID = grantID,
      rm_Action = ''distribution.deliver.private.failed'', rm_Now = finishedAt, rm_IDs = Some (dn_ids env)\<rparr>"

definition private_outcome_commit ::
  "distribution_env \<Rightarrow> RequestMeta \<Rightarrow> preparedDelivery \<Rightarrow> consumedTransfer \<Rightarrow> sendResult \<Rightarrow> Instant
     \<Rightarrow> (ledger, unit) tx" where
  "private_outcome_commit env meta prep consumed result finishedAt =
     tx_bind (tx_store (GetDeliveryForUpdate (case ct_delivery consumed of None \<Rightarrow> [] | Some d \<Rightarrow> de_id d))
        ''delivery_read_failed'' ''could not read the delivery record'') (\<lambda>delivery.
     tx_bind (tx_pki (\<lambda>p. leafManagementAuthority p (ce_id (pp_certificate prep)))) (\<lambda>scope.
     if \<not> sendResult_failed result then
       tx_bind (tx_domain (Delivery_Complete delivery finishedAt)) (\<lambda>completed.
       tx_bind (tx_store (SaveDelivery completed (de_version delivery))
          ''delivery_save_failed'' ''could not record the delivery completion'') (\<lambda>_.
       appendDistributionAudit (dn_ids env) finishedAt meta ''distribution.deliver.private.completed''
         (dg_id (ct_grant consumed)) ''success'' scope))
     else
       let code = (if sr_panicked result then ''transfer_panic'' else ''transfer_failed'') in
       tx_bind (tx_domain (Delivery_Fail delivery code finishedAt)) (\<lambda>failedDelivery.
       tx_bind (tx_store (SaveDelivery failedDelivery (de_version delivery))
          ''delivery_save_failed'' ''could not record the delivery failure'') (\<lambda>_.
       tx_bind (applyRevocations [delivery_revocation (pp_certificate prep) finishedAt scope]
          (transfer_failed_meta env meta (dg_id (ct_grant consumed)) finishedAt)) (\<lambda>_.
       appendDistributionAudit (dn_ids env) finishedAt meta ''distribution.deliver.private.failed''
         (dg_id (ct_grant consumed)) ''failure'' scope)))))"

definition recordPrivateOutcome ::
  "distribution_env \<Rightarrow> RequestMeta \<Rightarrow> preparedDelivery \<Rightarrow> consumedTransfer \<Rightarrow> sendResult \<Rightarrow> Instant
     \<Rightarrow> (ledger, unit) tx" where
  "recordPrivateOutcome env meta prep consumed result finishedAt =
     uow_write (dn_fate env 1) (private_outcome_commit env meta prep consumed result finishedAt)"

definition recordPublicAudit ::
  "distribution_env \<Rightarrow> RequestMeta \<Rightarrow> preparedDelivery \<Rightarrow> consumedTransfer \<Rightarrow> Instant \<Rightarrow> string \<Rightarrow> string
     \<Rightarrow> (ledger, unit) tx" where
  "recordPublicAudit env meta prep consumed finishedAt action result =
     uow_write (dn_fate env 1)
      (tx_bind (tx_pki (\<lambda>p. leafManagementAuthority p (ce_id (pp_certificate prep)))) (\<lambda>scope.
       appendDistributionAudit (dn_ids env) finishedAt meta action (dg_id (ct_grant consumed)) result scope))"

definition recordPublicFailureAudit where
  "recordPublicFailureAudit env meta prep consumed finishedAt =
     recordPublicAudit env meta prep consumed finishedAt ''distribution.deliver.public.failed'' ''failure''"

definition recordPublicSuccessAudit where
  "recordPublicSuccessAudit env meta prep consumed finishedAt =
     recordPublicAudit env meta prep consumed finishedAt ''distribution.deliver.public.completed'' ''success''"

definition public_event :: "RequestMeta \<Rightarrow> preparedDelivery \<Rightarrow> consumedTransfer \<Rightarrow> string \<Rightarrow> OperationalEvent" where
  "public_event meta prep consumed code =
     \<lparr>oe_Code = code, oe_RequestID = rq_RequestID meta, oe_Stage = ''public_post_process'',
      oe_GrantID = dg_id (ct_grant consumed), oe_DeliveryID = [], oe_CertificateID = ce_id (pp_certificate prep)\<rparr>"

definition record_outcome ::
  "distribution_env \<Rightarrow> RequestMeta \<Rightarrow> preparedDelivery \<Rightarrow> consumedTransfer \<Rightarrow> sendResult \<Rightarrow> Instant
     \<Rightarrow> (delivery_world, unit) tx" where
  "record_outcome env meta prep consumed result finishedAt =
     (if pp_purpose prep = GrantPurposeLeafPrivate then
        tx_bind (tx_try (on_store (recordPrivateOutcome env meta prep consumed result finishedAt))) (\<lambda>r. case r of
          Inr _ \<Rightarrow> tx_return ()
        | Inl postErr \<Rightarrow>
            let code = (if Is_port postErr ErrCommitUnknown
                        then ''distribution_private_postprocess_commit_unknown''
                        else ''distribution_private_postprocess_failed'') in
            tx_bind (FailClosed code) (\<lambda>_.
            tx_fail (App (WrapAppError ErrorKindCommitUnknown code
              ''the private transfer outcome could not be safely recorded'' postErr))))
      else if sendResult_failed result then
        tx_bind (tx_try (on_store (recordPublicFailureAudit env meta prep consumed finishedAt))) (\<lambda>r.
        OperationalRecord (public_event meta prep consumed
          (case r of
             Inl _ \<Rightarrow> ''distribution_public_postprocess_audit_failed''
           | Inr _ \<Rightarrow> if sr_panicked result then ''distribution_public_send_panicked''
                     else ''distribution_public_send_failed'')))
      else
        tx_bind (tx_try (on_store (recordPublicSuccessAudit env meta prep consumed finishedAt))) (\<lambda>r. case r of
          Inl _ \<Rightarrow> OperationalRecord (public_event meta prep consumed ''distribution_public_postprocess_audit_failed'')
        | Inr _ \<Rightarrow> tx_return ()))"

record TransferSummary =
  ts_TokenID :: GrantID
  ts_DeliveryID :: DeliveryID
  ts_Completed :: bool
  ts_BytesWritten :: int64
  ts_FinishedAt :: Instant

text \<open>\<open>meanwhile\<close> is what other requests do to the store while the sink is busy.\<close>

definition sendAndRecord ::
  "distribution_env \<Rightarrow> RequestMeta \<Rightarrow> preparedDelivery \<Rightarrow> consumedTransfer \<Rightarrow> Instant \<Rightarrow> (ledger \<Rightarrow> ledger)
     \<Rightarrow> (delivery_world, TransferSummary) tx" where
  "sendAndRecord env meta prep consumed consumedAt meanwhile =
     tx_bind (invokeSink env \<lparr>fd_ContentType = pp_contentType prep, fd_Filename = pp_filename prep,
        fd_Size = int (Input_Len (eb_payload (pp_bundle prep)))\<rparr> (pp_bundle prep)) (\<lambda>result.
     tx_bind (close_bundle (pp_bundle prep)) (\<lambda>_.
     tx_bind (on_store (\<lambda>w. (Inr (), meanwhile w))) (\<lambda>_.
     let finishedAt = finishObservedAt env consumedAt in
     tx_bind (record_outcome env meta prep consumed result finishedAt) (\<lambda>_.
     if sr_panicked result
       then tx_fail (App (WrapAppError ErrorKindUnavailable ''distribution_send_panicked''
         ''the download transfer failed unexpectedly'' (Opaque (''panic: '' @ sr_panicVal result))))
     else case sr_sendErr result of
       Some sendErr \<Rightarrow> tx_fail (App (WrapAppError ErrorKindUnavailable ''distribution_send_failed''
         ''the download transfer failed'' sendErr))
     | None \<Rightarrow>
         tx_return \<lparr>ts_TokenID = dg_id (ct_grant consumed),
           ts_DeliveryID = (if pp_purpose prep = GrantPurposeLeafPrivate
             then (case ct_delivery consumed of None \<Rightarrow> [] | Some d \<Rightarrow> de_id d) else []),
           ts_Completed = to_Completed (sr_outcome result), ts_BytesWritten = to_BytesWritten (sr_outcome result),
           ts_FinishedAt = finishedAt\<rparr>))))"

subsection \<open>Deliver\<close>

definition release :: "preparedDelivery \<Rightarrow> (delivery_world, 'a) tx \<Rightarrow> (delivery_world, 'a) tx" where
  "release prep m d = (case m d of (r, d') \<Rightarrow> (r, snd (close_bundle (pp_bundle prep) d')))"

definition Deliver ::
  "distribution_env \<Rightarrow> RequestMeta \<Rightarrow> DownloadCommand \<Rightarrow> bool \<Rightarrow> (ledger \<Rightarrow> ledger) \<Rightarrow> (ledger \<Rightarrow> ledger)
     \<Rightarrow> (delivery_world, TransferSummary) tx" where
  "Deliver env meta cmd has_sink while_encoding while_sending =
     (if \<not> has_sink
        then tx_fail (app_error ErrorKindValidation ''download_sink_missing'' ''a download sink is required'')
      else
        tx_bind (tx_guard (DownloadCommand_Validate cmd)) (\<lambda>_.
        tx_bind (tx_lift (toDeliveryFormat (dc_Format cmd))) (\<lambda>format.
        tx_bind (prepare env cmd format (dn_clock env 0)) (\<lambda>prep. release prep
         (tx_bind (on_store (\<lambda>w. (Inr (), while_encoding w))) (\<lambda>_.
          tx_bind (tx_try (on_store (commitConsumption env meta prep))) (\<lambda>r. case r of
            Inl err \<Rightarrow>
              if Is_port err ErrCommitUnknown then
                tx_bind (if pp_purpose prep = GrantPurposeLeafPrivate
                         then FailClosed ''distribution_consume_commit_unknown'' else tx_return ()) (\<lambda>_.
                tx_fail (App (WrapAppError ErrorKindCommitUnknown ''download_commit_unknown''
                  ''the download consumption outcome is unknown'' err)))
              else tx_fail err
          | Inr consumed \<Rightarrow> sendAndRecord env meta prep consumed (dn_clock env 1) while_sending)))))))"

subsection \<open>Recovery after a restart\<close>

definition recoveryBatchSize :: int64 where "recoveryBatchSize = 100"

definition recoveryFailureCode :: string where "recoveryFailureCode = ''interrupted_transfer''"

record RecoveryOutcome =
  ry_Failed :: nat
  ry_Skipped :: nat

definition recovery_meta :: "(nat \<Rightarrow> string) \<Rightarrow> Instant \<Rightarrow> RevocationMeta" where
  "recovery_meta ids now =
     \<lparr>rm_Request = \<lparr>rq_Principal = zero_principal, rq_RequestID = [], rq_ClientIP = None\<rparr>,
      rm_ActorKind = ''system'', rm_ActorID = [], rm_TokenID = [],
      rm_Action = ''distribution.recovery.transfer_failed'', rm_Now = now, rm_IDs = Some ids\<rparr>"

definition interrupted_commit :: "(nat \<Rightarrow> string) \<Rightarrow> DeliveryID \<Rightarrow> Instant \<Rightarrow> (ledger, bool) tx" where
  "interrupted_commit ids deliveryID now =
     tx_bind (tx_try (GetDeliveryForUpdate deliveryID)) (\<lambda>r. case r of
       Inl err \<Rightarrow>
         if Is_port err ErrNotFound then tx_return False
         else tx_fail (storeError err ''recovery_delivery_read_failed'' ''could not read the interrupted delivery'')
     | Inr delivery \<Rightarrow>
         if de_state delivery \<noteq> DeliveryStateTransferring then tx_return False
         else
           tx_bind (tx_store (PKI_GetCertificate (de_certificateID delivery))
              ''recovery_certificate_read_failed'' ''could not read the interrupted delivery's certificate'') (\<lambda>certificate.
           tx_bind (tx_pki (\<lambda>p. leafManagementAuthority p (ce_id certificate))) (\<lambda>scope.
           tx_bind (tx_domain (Delivery_Fail delivery recoveryFailureCode now)) (\<lambda>failedDelivery.
           tx_bind (tx_store (SaveDelivery failedDelivery (de_version delivery))
              ''recovery_delivery_save_failed'' ''could not record the interrupted delivery's failure'') (\<lambda>_.
           tx_bind (tx_store (InvalidatePrivateGrants (de_id delivery) now)
              ''recovery_grant_invalidate_failed'' ''could not invalidate the interrupted delivery's links'') (\<lambda>_.
           tx_bind (applyRevocations [delivery_revocation certificate now scope] (recovery_meta ids now)) (\<lambda>_.
           tx_return True)))))))"

text \<open>The commit of each delivery has its own outcome.\<close>

definition failInterruptedTransfer ::
  "(nat \<Rightarrow> string) \<Rightarrow> (DeliveryID \<Rightarrow> commit_fate) \<Rightarrow> DeliveryID \<Rightarrow> Instant \<Rightarrow> (ledger, bool) tx" where
  "failInterruptedTransfer ids fate deliveryID now = uow_write (fate deliveryID) (interrupted_commit ids deliveryID now)"

text \<open>One pass over a batch: the counts, whether a row was failed, and the error that ended it.\<close>

fun recover_batch ::
  "(nat \<Rightarrow> string) \<Rightarrow> (DeliveryID \<Rightarrow> commit_fate) \<Rightarrow> Instant \<Rightarrow> RecoveryOutcome \<Rightarrow> bool \<Rightarrow> Delivery list
     \<Rightarrow> ledger \<Rightarrow> (RecoveryOutcome \<times> bool \<times> go_error option) \<times> ledger" where
  "recover_batch ids fate now out progressed [] w = ((out, progressed, None), w)"
| "recover_batch ids fate now out progressed (d # ds) w =
     (case failInterruptedTransfer ids fate (de_id d) now w of
        (Inl err, w') \<Rightarrow> ((out, progressed, Some err), w')
      | (Inr failed, w') \<Rightarrow>
          if failed then recover_batch ids fate now (out\<lparr>ry_Failed := ry_Failed out + 1\<rparr>) True ds w'
          else recover_batch ids fate now (out\<lparr>ry_Skipped := ry_Skipped out + 1\<rparr>) progressed ds w')"

text \<open>The endless \<open>for\<close> of the source; \<open>None\<close> would be a recovery that never returns.\<close>

partial_function (option) recover_loop ::
  "(nat \<Rightarrow> string) \<Rightarrow> (DeliveryID \<Rightarrow> commit_fate) \<Rightarrow> Instant \<Rightarrow> RecoveryOutcome \<Rightarrow> ledger
     \<Rightarrow> ((RecoveryOutcome \<times> go_error option) \<times> ledger) option" where
  "recover_loop ids fate now out w =
     (case ListTransferring recoveryBatchSize w of
        (Inl err, w1) \<Rightarrow>
          Some ((out, Some (storeError err ''recovery_list_failed'' ''could not list interrupted transfers'')), w1)
      | (Inr batch, w1) \<Rightarrow>
          if batch = [] then Some ((out, None), w1)
          else
            (case recover_batch ids fate now out False batch w1 of
               ((out', progressed, Some err), w2) \<Rightarrow> Some ((out', Some err), w2)
             | ((out', progressed, None), w2) \<Rightarrow>
                 if \<not> progressed then Some ((out', None), w2) else recover_loop ids fate now out' w2))"

definition RecoverInterruptedTransfers ::
  "(nat \<Rightarrow> string) \<Rightarrow> (DeliveryID \<Rightarrow> commit_fate) \<Rightarrow> Instant \<Rightarrow> ledger
     \<Rightarrow> ((RecoveryOutcome \<times> go_error option) \<times> ledger) option" where
  "RecoverInterruptedTransfers ids fate now w = recover_loop ids fate now \<lparr>ry_Failed = 0, ry_Skipped = 0\<rparr> w"

end
