(* ===== verification/Frames.thy ===== *)
theory Frames
  imports Revocation_Batch Workflow_Store
begin

text \<open>
  What a transaction does not touch. \<open>keeps f m\<close> says that the part \<open>f\<close> of the store is the same
  after \<open>m\<close>, whatever \<open>m\<close> returns; the rules follow the transaction combinators, so a frame of a whole
  operation is proved by applying them.
\<close>

definition keeps :: "('w \<Rightarrow> 'b) \<Rightarrow> ('w, 'a) tx \<Rightarrow> bool" where
  "keeps f m \<longleftrightarrow> (\<forall>w r w'. m w = (r, w') \<longrightarrow> f w' = f w)"

named_theorems keeps_intro \<open>parts of the store a step leaves alone\<close>

lemma keepsD: "keeps f m \<Longrightarrow> m w = (r, w') \<Longrightarrow> f w' = f w"
  by (simp add: keeps_def)

lemma keeps_return [keeps_intro]: "keeps f (tx_return x)"
  by (simp add: keeps_def tx_return_def)

lemma keeps_fail [keeps_intro]: "keeps f (tx_fail e)"
  by (simp add: keeps_def tx_fail_def)

lemma keeps_bind [keeps_intro]: "keeps f m \<Longrightarrow> (\<And>x. keeps f (k x)) \<Longrightarrow> keeps f (tx_bind m k)"
  unfolding keeps_def tx_bind_def by (auto split: prod.splits sum.splits)

lemma keeps_or [keeps_intro]: "keeps f m \<Longrightarrow> keeps f (tx_or m g)"
  unfolding keeps_def tx_or_def by (auto split: prod.splits sum.splits)

lemma keeps_try [keeps_intro]: "keeps f m \<Longrightarrow> keeps f (tx_try m)"
  unfolding keeps_def tx_try_def by (auto split: prod.splits)

lemma keeps_read [keeps_intro]: "keeps f m \<Longrightarrow> keeps f (tx_read m a c d)"
  by (simp add: tx_read_def keeps_or)

lemma keeps_guard [keeps_intro]: "keeps f (tx_guard c)"
  by (cases c) (simp_all add: tx_guard_def keeps_intro)

lemma keeps_lift [keeps_intro]: "keeps f (tx_lift m)"
  by (cases m) (simp_all add: tx_lift_def keeps_intro)

lemma keeps_domain [keeps_intro]: "keeps f (tx_domain m)"
  by (cases m) (simp_all add: tx_domain_def keeps_intro split: option.splits)

lemma keeps_list [keeps_intro]: "(\<And>x. keeps f (m x)) \<Longrightarrow> keeps f (tx_list m xs)"
  by (induction xs) (auto intro: keeps_intro)

lemma keeps_atomically [keeps_intro]: "keeps f m \<Longrightarrow> keeps f (atomically m)"
  unfolding keeps_def atomically_def by (auto split: prod.splits sum.splits)

lemma keeps_found [keeps_intro]: "keeps f (\<lambda>w. found (g w) w)"
  by (auto simp: keeps_def found_def tx_return_def tx_fail_def split: option.splits)

lemma keeps_if [keeps_intro]: "(b \<Longrightarrow> keeps f m) \<Longrightarrow> (\<not> b \<Longrightarrow> keeps f n) \<Longrightarrow> keeps f (if b then m else n)"
  by simp

lemma keeps_sum [keeps_intro]:
  "(\<And>x. keeps f (m x)) \<Longrightarrow> (\<And>y. keeps f (n y)) \<Longrightarrow> keeps f (case s of Inl x \<Rightarrow> m x | Inr y \<Rightarrow> n y)"
  by (cases s) simp_all

lemma keeps_option [keeps_intro]:
  "keeps f m \<Longrightarrow> (\<And>y. keeps f (n y)) \<Longrightarrow> keeps f (case s of None \<Rightarrow> m | Some y \<Rightarrow> n y)"
  by (cases s) simp_all

lemma keeps_prod [keeps_intro]: "(\<And>x y. keeps f (m x y)) \<Longrightarrow> keeps f (case p of (x, y) \<Rightarrow> m x y)"
  by (cases p) simp

lemma keeps_let [keeps_intro]: "(\<And>x. keeps f (m x)) \<Longrightarrow> keeps f (let x = e in m x)"
  by (simp add: Let_def)

subsection \<open>What the revocation batch leaves alone\<close>

text \<open>Everything but revocations, CRL states, jobs, the audit log and the identifier counter.\<close>

definition outside_revocation :: "ledger \<Rightarrow> ledger" where
  "outside_revocation w = w\<lparr>lg_revocationRows := [], lg_crlStates := Map.empty, lg_jobs := [],
     lg_jobByDedup := Map.empty, lg_auditEvents := [], lg_uuids := 0\<rparr>"

lemma outside_updates [simp]:
  "outside_revocation (w\<lparr>lg_revocationRows := a\<rparr>) = outside_revocation w"
  "outside_revocation (w\<lparr>lg_crlStates := b\<rparr>) = outside_revocation w"
  "outside_revocation (w\<lparr>lg_jobs := c\<rparr>) = outside_revocation w"
  "outside_revocation (w\<lparr>lg_jobByDedup := d\<rparr>) = outside_revocation w"
  "outside_revocation (w\<lparr>lg_auditEvents := e\<rparr>) = outside_revocation w"
  "outside_revocation (w\<lparr>lg_uuids := n\<rparr>) = outside_revocation w"
  by (simp_all add: outside_revocation_def)

lemma outside_fields:
  assumes "outside_revocation w' = outside_revocation w"
  shows "lg_deliveries w' = lg_deliveries w" "lg_grants w' = lg_grants w" "lg_grantsByHash w' = lg_grantsByHash w"
    "lg_secrets w' = lg_secrets w" "lg_certificates w' = lg_certificates w" "lg_leafCertRecords w' = lg_leafCertRecords w"
    "lg_series w' = lg_series w" "lg_authorities w' = lg_authorities w" "lg_transitions w' = lg_transitions w"
    "lg_caKeyGenerations w' = lg_caKeyGenerations w" "lg_leafKeyGenerations w' = lg_leafKeyGenerations w"
  using arg_cong [OF assms, of lg_deliveries] arg_cong [OF assms, of lg_grants] arg_cong [OF assms, of lg_grantsByHash]
    arg_cong [OF assms, of lg_secrets] arg_cong [OF assms, of lg_certificates] arg_cong [OF assms, of lg_leafCertRecords]
    arg_cong [OF assms, of lg_seriesRows] arg_cong [OF assms, of lg_authorities] arg_cong [OF assms, of lg_transitionRows]
    arg_cong [OF assms, of lg_caKeyGenerations] arg_cong [OF assms, of lg_leafKeyGenerations]
  by (simp_all add: outside_revocation_def)

lemma outside_steps [keeps_intro]:
  "keeps outside_revocation (FindForUpdate i s)" "keeps outside_revocation (GetStateForUpdate i)"
  "keeps outside_revocation (SaveState st v)" "keeps outside_revocation (GetCAKeyGeneration i)"
  "keeps outside_revocation (Revocations_Insert r)" "keeps outside_revocation (Revocations_Save r v)"
  "keeps outside_revocation (UpsertDemand k kind pv pl)" "keeps outside_revocation (Audit_Append e sc)"
  "keeps outside_revocation (NewUUID ids)"
  by (auto simp: keeps_def FindForUpdate_def GetStateForUpdate_def SaveState_def GetCAKeyGeneration_def found_def
      Revocations_Insert_def Revocations_Save_def UpsertDemand_def Audit_Append_def NewUUID_def tx_return_def
      tx_fail_def Let_def split: option.splits if_splits)

lemma applyIssuerBatch_outside [keeps_intro]: "keeps outside_revocation (applyIssuerBatch ids i cs m)"
  unfolding applyIssuerBatch_def resolveChange_def write_pending_def appendRevocationAudit_def recordCRLDemand_def
  by (intro keeps_intro)

lemma apply_issuers_outside [keeps_intro]: "keeps outside_revocation (apply_issuers ids by m out order)"
  by (induction order arbitrary: out) (auto intro!: keeps_intro)

lemma applyRevocations_outside: "keeps outside_revocation (applyRevocations cs m)"
  unfolding applyRevocations_def by (intro keeps_intro)

end
