(* ===== verification/Key_Handover.thy ===== *)
theory Key_Handover
  imports Distribution_Service Frames
begin

text \<open>
  A private key leaves the server at most once. The consuming commit is the only step that lets the
  sink be called, and it can succeed only while the delivery is pending; whatever other requests,
  recoveries and retries do around it, at most one commit per delivery wins. A transfer that does not
  end well is recorded together with the revocation of the key, or the process is failed closed. A
  restart resolves every interrupted transfer and returns.
\<close>

subsection \<open>The consuming commit\<close>

definition keyed_deliveries :: "ledger \<Rightarrow> bool" where
  "keyed_deliveries w \<longleftrightarrow> distinct (map fst (lg_deliveries w)) \<and> (\<forall>(i, d)\<in>set (lg_deliveries w). de_id d = i)"

lemma keyed_deliveriesD: "keyed_deliveries w \<Longrightarrow> map_of (lg_deliveries w) i = Some d \<Longrightarrow> de_id d = i"
  by (auto simp: keyed_deliveries_def dest!: map_of_SomeD)

lemma set_update_cases: "(i, e) \<in> set (AList.update k v xs) \<Longrightarrow> (i, e) \<in> set xs \<or> i = k \<and> e = v"
  by (induction xs) (auto split: if_splits)

lemma keyed_update:
  assumes "keyed_deliveries w" and "lg_deliveries w' = AList.update (de_id d) d (lg_deliveries w)"
  shows "keyed_deliveries w'"
proof -
  have "(i, e) \<in> set (lg_deliveries w') \<Longrightarrow> de_id e = i" for i e
    using assms set_update_cases [of i e "de_id d" d "lg_deliveries w"] by (auto simp: keyed_deliveries_def)
  then show ?thesis using assms by (auto simp: keyed_deliveries_def distinct_update)
qed

text \<open>Every private link of a delivery is used up or replaced.\<close>

definition links_spent :: "ledger \<Rightarrow> DeliveryID \<Rightarrow> bool" where
  "links_spent w i \<longleftrightarrow> (\<forall>k g. lg_grants w k = Some g \<longrightarrow> dg_deliveryID g = i \<longrightarrow> dg_purpose g = GrantPurposeLeafPrivate
     \<longrightarrow> grant_spent g)"

lemma links_spent_invalidate:
  assumes "now \<noteq> zero_instant"
  shows "links_spent (invalidate_where (\<lambda>g. dg_deliveryID g = i \<and> dg_purpose g = GrantPurposeLeafPrivate) now w) i"
  using assms
  by (auto simp: links_spent_def invalidate_where_def Grant_Invalidate_def grant_spent_def Grant_isConsumed_def
      Grant_isInvalidated_def Instant_IsZero_iff split: option.splits if_splits sum.splits)

definition handed_over :: "Delivery \<Rightarrow> Instant \<Rightarrow> Delivery" where
  "handed_over d now = d\<lparr>de_state := DeliveryStateTransferring, de_consumedAt := now, de_version := Version_Next (de_version d)\<rparr>"

lemma handed_over_id [simp]: "de_id (handed_over d now) = de_id d" "de_state (handed_over d now) = DeliveryStateTransferring"
  by (simp_all add: handed_over_def)

definition private_effect ::
  "ledger \<Rightarrow> ledger \<Rightarrow> preparedDelivery \<Rightarrow> Instant \<Rightarrow> consumedTransfer \<Rightarrow> Delivery \<Rightarrow> bool" where
  "private_effect w w' prep now ct d \<longleftrightarrow>
     map_of (lg_deliveries w) (dg_deliveryID (ct_grant ct)) = Some d
   \<and> de_state d = DeliveryStatePending \<and> now < de_expiresAt d
   \<and> ct_delivery ct = Some (handed_over d now)
   \<and> lg_deliveries w' = AList.update (de_id d) (handed_over d now) (lg_deliveries w)
   \<and> map_of (lg_secrets w') (ce_keyMaterialID (pp_certificate prep), SecretPurposeLeafDelivery) = None
   \<and> (now \<noteq> zero_instant \<longrightarrow> links_spent w' (de_id d))"

lemma appendDistributionAudit_outside [keeps_intro]:
  "keeps outside_revocation (appendDistributionAudit ids now meta action g r scope)"
  unfolding appendDistributionAudit_def tx_store_def by (intro keeps_intro)

lemma consume_private_effect:
  assumes "consume_private env meta prep grant now scope w = (Inr ct, w')"
  shows "\<exists>d. private_effect w w' prep now ct d \<and> dg_purpose (ct_grant ct) = dg_purpose grant"
proof -
  from assms obtain d g w1 where d: "map_of (lg_deliveries w) (dg_deliveryID grant) = Some d"
    "Delivery_CanConsume d now = None" "Delivery_Consume d now = Inr (handed_over d now)"
    and g: "Grant_Consume grant now = Inr g" and ct: "ct = \<lparr>ct_grant = g, ct_delivery = Some (handed_over d now)\<rparr>"
    and w1: "w1 = invalidate_where (\<lambda>g. dg_deliveryID g = de_id d \<and> dg_purpose g = GrantPurposeLeafPrivate) now
      (w\<lparr>lg_grants := (lg_grants w)(dg_id g \<mapsto> g),
         lg_deliveries := AList.update (de_id d) (handed_over d now) (lg_deliveries w),
         lg_secrets := AList.delete (ce_keyMaterialID (pp_certificate prep), SecretPurposeLeafDelivery) (lg_secrets w)\<rparr>)"
    and audit: "appendDistributionAudit (dn_ids env) now meta ''distribution.deliver.private.start'' (dg_id g)
      ''success'' scope w1 = (Inr (), w')"
    unfolding consume_private_def
    by (auto simp: tx_iff handed_over_def Delivery_Consume_def check_then_Inr)
  from keepsD [OF appendDistributionAudit_outside audit]
  have same: "lg_deliveries w' = lg_deliveries w1" "lg_grants w' = lg_grants w1" "lg_secrets w' = lg_secrets w1"
    by (rule outside_fields)+
  have "links_spent w' i = links_spent w1 i" for i by (simp add: links_spent_def same)
  moreover have "dg_deliveryID g = dg_deliveryID grant" "dg_purpose g = dg_purpose grant"
    using g by (auto simp: Grant_Consume_def check_then_Inr)
  moreover have "lg_deliveries w1 = AList.update (de_id d) (handed_over d now) (lg_deliveries w)"
    "map_of (lg_secrets w1) (ce_keyMaterialID (pp_certificate prep), SecretPurposeLeafDelivery) = None"
    by (simp_all add: w1 invalidate_where_def)
  moreover have "now \<noteq> zero_instant \<Longrightarrow> links_spent w1 (de_id d)"
    unfolding w1 by (rule links_spent_invalidate)
  moreover have "de_state d = DeliveryStatePending" "now < de_expiresAt d"
    using d(2) by (auto simp: Delivery_CanConsume_def not_le split: if_splits)
  ultimately show ?thesis using d(1) by (intro exI [of _ d]) (simp add: private_effect_def ct same)
qed

subsection \<open>Deliveries only leave the pending state\<close>

definition settled :: "ledger \<Rightarrow> DeliveryID \<Rightarrow> bool" where
  "settled w i \<longleftrightarrow> (\<exists>d. map_of (lg_deliveries w) i = Some d \<and> de_state d \<noteq> DeliveryStatePending)"

definition stays_settled :: "ledger \<Rightarrow> ledger \<Rightarrow> bool" where
  "stays_settled w w' \<longleftrightarrow> (keyed_deliveries w \<longrightarrow> keyed_deliveries w') \<and> (\<forall>i. settled w i \<longrightarrow> settled w' i)"

lemma stays_settled_refl [simp]: "stays_settled w w"
  by (simp add: stays_settled_def)

lemma stays_settled_same: "lg_deliveries w' = lg_deliveries w \<Longrightarrow> stays_settled w w'"
  by (simp add: stays_settled_def settled_def keyed_deliveries_def)

lemma stays_settled_update:
  assumes "lg_deliveries w' = AList.update (de_id d) d (lg_deliveries w)" and "de_state d \<noteq> DeliveryStatePending"
  shows "stays_settled w w' \<and> settled w' (de_id d)"
  using keyed_update [OF _ assms(1)] assms by (auto simp: stays_settled_def settled_def)

lemma consume_public_settled: "consume_public env meta grant now scope w = (Inr ct, w') \<Longrightarrow>
    ct_delivery ct = None \<and> lg_deliveries w' = lg_deliveries w"
proof -
  assume "consume_public env meta grant now scope w = (Inr ct, w')"
  then obtain g where "ct_delivery ct = None"
    and audit: "appendDistributionAudit (dn_ids env) now meta ''distribution.deliver.public.start'' (dg_id g)
      ''success'' scope (w\<lparr>lg_grants := (lg_grants w)(dg_id g \<mapsto> g)\<rparr>) = (Inr (), w')"
    unfolding consume_public_def by (auto simp: tx_iff)
  with outside_fields(1) [OF keepsD [OF appendDistributionAudit_outside audit]] show ?thesis by simp
qed

lemma consume_commit_settled:
  assumes "consume_commit env meta prep w = (Inr ct, w')"
  shows "case ct_delivery ct of
      None \<Rightarrow> lg_deliveries w' = lg_deliveries w \<and> pp_purpose prep \<noteq> GrantPurposeLeafPrivate
    | Some d' \<Rightarrow> pp_purpose prep = GrantPurposeLeafPrivate
        \<and> (\<exists>d. private_effect w w' prep (dn_clock env 1) ct d \<and> d' = handed_over d (dn_clock env 1))"
proof -
  from assms obtain grant scope where "dg_purpose grant = pp_purpose prep"
    and "if pp_purpose prep \<noteq> GrantPurposeLeafPrivate
       then consume_public env meta grant (dn_clock env 1) scope w = (Inr ct, w')
       else consume_private env meta prep grant (dn_clock env 1) scope w = (Inr ct, w')"
    unfolding consume_commit_def by (fastforce simp: tx_iff Let_def split: if_splits)
  then show ?thesis
    by (cases "pp_purpose prep = GrantPurposeLeafPrivate")
      (auto simp: private_effect_def dest!: consume_public_settled consume_private_effect)
qed

lemma private_effect_settles:
  assumes "private_effect w w' prep now ct d" and "keyed_deliveries w"
  shows "stays_settled w w' \<and> settled w' (de_id d) \<and> \<not> settled w (de_id d)"
  using stays_settled_update [of w' "handed_over d now" w] assms keyed_deliveriesD [OF assms(2)]
  by (auto simp: private_effect_def settled_def)

lemma outside_settled: "keeps outside_revocation m \<Longrightarrow> m w = (r, w') \<Longrightarrow> lg_deliveries w' = lg_deliveries w"
  by (rule outside_fields(1)) (rule keepsD)

lemma Delivery_Complete_state: "Delivery_Complete d at = Inr d' \<Longrightarrow> de_state d' = DeliveryStateServerCompleted \<and> de_id d' = de_id d"
  by (auto simp: Delivery_Complete_def split: if_splits)

lemma Delivery_Fail_state: "Delivery_Fail d code at = Inr d' \<Longrightarrow> de_state d' = DeliveryStateFailed \<and> de_id d' = de_id d
    \<and> de_failureCode d' = code"
  by (auto simp: Delivery_Fail_def split: if_splits)

lemma private_outcome_effect:
  assumes "private_outcome_commit env meta prep consumed result at w = (Inr u, w')"
  shows "\<exists>d d'. map_of (lg_deliveries w) (case ct_delivery consumed of None \<Rightarrow> [] | Some d \<Rightarrow> de_id d) = Some d
    \<and> de_id d' = de_id d \<and> lg_deliveries w' = AList.update (de_id d) d' (lg_deliveries w)
    \<and> (if \<not> sendResult_failed result then de_state d' = DeliveryStateServerCompleted
       else de_state d' = DeliveryStateFailed
         \<and> (\<exists>out w1 w2 scope. applyRevocations [delivery_revocation (pp_certificate prep) at scope]
              (transfer_failed_meta env meta (dg_id (ct_grant consumed)) at) w1 = (Inr out, w2)
            \<and> lg_crlStates w1 = lg_crlStates w \<and> lg_revocationRows w1 = lg_revocationRows w
            \<and> lg_revocationRows w' = lg_revocationRows w2))"
proof -
  let ?i = "case ct_delivery consumed of None \<Rightarrow> [] | Some d \<Rightarrow> de_id d"
  have audit: "lg_deliveries w2 = lg_deliveries w1 \<and> lg_revocationRows w2 = lg_revocationRows w1"
    if "appendDistributionAudit ids now m action g rs scope w1 = (Inr u, w2)" for ids now m action g rs scope u w1 w2
    using that unfolding appendDistributionAudit_def by (auto simp: tx_iff)
  have batch: "lg_deliveries w2 = lg_deliveries w1" if "applyRevocations cs m w1 = (Inr out, w2)" for cs m out w1 w2
    by (rule outside_settled [OF applyRevocations_outside that])
  show ?thesis
  proof (cases "sendResult_failed result")
    case False
    with assms show ?thesis
      unfolding private_outcome_commit_def
      by (auto simp: tx_iff dest!: audit Delivery_Complete_state)
  next
    case True
    let ?code = "if sr_panicked result then ''transfer_panic'' else ''transfer_failed''"
    from True assms obtain d d' scope out w1 w2 where "map_of (lg_deliveries w) ?i = Some d"
      and "Delivery_Fail d ?code at = Inr d'" and w1: "w1 = w\<lparr>lg_deliveries := AList.update (de_id d') d' (lg_deliveries w)\<rparr>"
      and run: "applyRevocations [delivery_revocation (pp_certificate prep) at scope]
        (transfer_failed_meta env meta (dg_id (ct_grant consumed)) at) w1 = (Inr out, w2)"
      and "lg_deliveries w' = lg_deliveries w2" "lg_revocationRows w' = lg_revocationRows w2"
      unfolding private_outcome_commit_def
      by (auto simp: tx_iff Let_def dest!: audit)
    moreover have "lg_deliveries w2 = AList.update (de_id d') d' (lg_deliveries w)"
      using batch [OF run] by (simp add: w1)
    moreover have "\<exists>out w1 w2 scope. applyRevocations [delivery_revocation (pp_certificate prep) at scope]
        (transfer_failed_meta env meta (dg_id (ct_grant consumed)) at) w1 = (Inr out, w2)
      \<and> lg_crlStates w1 = lg_crlStates w \<and> lg_revocationRows w1 = lg_revocationRows w
      \<and> lg_revocationRows w' = lg_revocationRows w2"
      using run \<open>lg_revocationRows w' = lg_revocationRows w2\<close>
      by (intro exI [of _ out] exI [of _ w1] exI [of _ w2] exI [of _ scope]) (simp add: w1)
    ultimately show ?thesis
      using True Delivery_Fail_state [of d ?code at d'] by (intro exI [of _ d] exI [of _ d']) auto
  qed
qed

text \<open>After a batch with one change, the ledger has its row.\<close>

lemma single_change_recorded:
  assumes "applyRevocations [c] m w = (Inr out, w')" and "crl_keyed w"
  shows "lg_revocations w' (change_key c) \<noteq> None"
proof -
  from applyRevocations_effect [OF assms] obtain n g where
    eff: "issuer_effect w w' (rc_IssuerID c) (changes_of [c] (rc_IssuerID c)) n g" by blast
  have c: "changes_of [c] (rc_IssuerID c) = [c]" by (simp add: changes_of_def)
  show ?thesis
  proof (cases "alters w c")
    case True
    with eff c have "written w w' g c" by (simp add: issuer_effect_def)
    then show ?thesis by (auto simp: written_def)
  next
    case False
    with eff c have "lg_revocations w' (rc_IssuerID c, s) = lg_revocations w (rc_IssuerID c, s)" for s
      by (simp add: issuer_effect_def)
    with False show ?thesis by (auto simp: alters_def change_key_def split: option.splits)
  qed
qed

lemma interrupted_commit_effect:
  assumes "interrupted_commit ids i now w = (Inr b, w')"
  shows "if \<not> b then w' = w \<and> (\<forall>d. map_of (lg_deliveries w) i = Some d \<longrightarrow> de_state d \<noteq> DeliveryStateTransferring)
    else \<exists>d d' cert scope out w1. map_of (lg_deliveries w) i = Some d \<and> de_state d = DeliveryStateTransferring
      \<and> map_of (lg_certificates w) (de_certificateID d) = Some cert
      \<and> de_id d' = de_id d \<and> de_state d' = DeliveryStateFailed \<and> de_failureCode d' = recoveryFailureCode
      \<and> lg_deliveries w' = AList.update (de_id d) d' (lg_deliveries w)
      \<and> lg_certificates w' = lg_certificates w \<and> lg_crlStates w1 = lg_crlStates w
      \<and> lg_revocationRows w1 = lg_revocationRows w
      \<and> applyRevocations [delivery_revocation cert now scope] (recovery_meta ids now) w1 = (Inr out, w')"
proof (cases "\<exists>d. map_of (lg_deliveries w) i = Some d \<and> de_state d = DeliveryStateTransferring")
  case False
  with assms show ?thesis
    unfolding interrupted_commit_def
    by (cases "map_of (lg_deliveries w) i")
      (auto simp: tx_iff GetDeliveryForUpdate_def found_def tx_return_def tx_fail_def tx_bind_def tx_try_def split: if_splits)
next
  case True
  then obtain d where d: "map_of (lg_deliveries w) i = Some d" "de_state d = DeliveryStateTransferring" by blast
  then have get: "tx_try (GetDeliveryForUpdate i) w = (Inr (Inr d), w)"
    by (simp add: tx_try_def GetDeliveryForUpdate_def found_def tx_return_def)
  from assms obtain cert scope d' out w1 where cert: "map_of (lg_certificates w) (de_certificateID d) = Some cert"
    and fail: "Delivery_Fail d recoveryFailureCode now = Inr d'"
    and w1: "w1 = invalidate_where (\<lambda>g. dg_deliveryID g = de_id d \<and> dg_purpose g = GrantPurposeLeafPrivate) now
        (w\<lparr>lg_deliveries := AList.update (de_id d') d' (lg_deliveries w)\<rparr>)"
    and run: "applyRevocations [delivery_revocation cert now scope] (recovery_meta ids now) w1 = (Inr out, w')"
    and b: "b"
    unfolding interrupted_commit_def tx_bind_def [of "tx_try (GetDeliveryForUpdate i)"] get
    by (auto simp: d tx_iff PKI_GetCertificate_def)
  note state = Delivery_Fail_state [OF fail]
  note same = outside_fields [OF keepsD [OF applyRevocations_outside run]]
  have "lg_deliveries w' = AList.update (de_id d) d' (lg_deliveries w)" "lg_certificates w' = lg_certificates w"
    "lg_crlStates w1 = lg_crlStates w" "lg_revocationRows w1 = lg_revocationRows w"
    using state by (simp_all add: same w1 invalidate_where_def)
  with b d cert state run show ?thesis by auto
qed

subsection \<open>Any interleaving\<close>

text \<open>One committed or lost transaction. The label is the delivery whose key the winner may now send; any
  prepared payload, however stale, may be committed at any time, and \<open>other\<close> is any other request
  that does not bring a delivery back to pending.\<close>

inductive handover_step :: "ledger \<Rightarrow> DeliveryID option \<Rightarrow> ledger \<Rightarrow> bool" where
  deliver: "commitConsumption env meta prep w = (Inr ct, w') \<Longrightarrow>
    handover_step w (map_option de_id (ct_delivery ct)) w'"
| lost: "commitConsumption env meta prep w = (Inl e, w') \<Longrightarrow> handover_step w None w'"
| recorded: "recordPrivateOutcome env meta prep ct result at w = (r, w') \<Longrightarrow> handover_step w None w'"
| recover: "failInterruptedTransfer ids fate i now w = (rb, w') \<Longrightarrow> handover_step w None w'"
| other: "stays_settled w w' \<Longrightarrow> handover_step w None w'"

inductive handovers :: "ledger \<Rightarrow> DeliveryID option list \<Rightarrow> ledger \<Rightarrow> bool" where
  start: "handovers w [] w"
| more: "handover_step w l v \<Longrightarrow> handovers v ls w' \<Longrightarrow> handovers w (l # ls) w'"

lemma uow_keeps:
  assumes "uow_write fate m w = (r, w')" and "\<And>x v. m w = (Inr x, v) \<Longrightarrow> P v" and "P w"
  shows "P w'"
  using uow_write_store [OF assms(1)] assms(2,3) by auto

lemma consume_commit_stays:
  assumes "consume_commit env meta prep w = (Inr ct, w')" and "keyed_deliveries w"
  shows "stays_settled w w'"
  using consume_commit_settled [OF assms(1)] private_effect_settles [OF _ assms(2)] stays_settled_same
  by (fastforce split: option.splits)

lemma stays_settled_delivery:
  assumes "keyed_deliveries w" and "map_of (lg_deliveries w) i = Some d" and "de_id d' = de_id d"
    and "de_state d' \<noteq> DeliveryStatePending" and "lg_deliveries w' = AList.update (de_id d) d' (lg_deliveries w)"
  shows "stays_settled w w'"
  using stays_settled_update [of w' d' w] assms by simp

lemma handover_step_settled:
  assumes "handover_step w l w'" and "keyed_deliveries w"
  shows "stays_settled w w' \<and> (\<forall>i. l = Some i \<longrightarrow> \<not> settled w i \<and> settled w' i)"
  using assms(1)
proof cases
  case (deliver env meta prep ct)
  then have run: "consume_commit env meta prep w = (Inr ct, w')" by (simp add: commitConsumption_def uow_write_iff)
  from consume_commit_settled [OF run] private_effect_settles [OF _ assms(2)] consume_commit_stays [OF run assms(2)]
  show ?thesis by (fastforce simp: deliver split: option.splits)
next
  case (lost env meta prep e)
  then show ?thesis
    using uow_keeps [of "dn_fate env 0" "consume_commit env meta prep" w _ w' "stays_settled w"]
      consume_commit_stays [OF _ assms(2)] by (fastforce simp: commitConsumption_def)
next
  case (recorded env meta prep ct result at r)
  have "stays_settled w v" if "private_outcome_commit env meta prep ct result at w = (Inr u, v)" for u v
    using private_outcome_effect [OF that] stays_settled_delivery [OF assms(2)] by (fastforce split: if_splits)
  with recorded show ?thesis
    using uow_keeps [of "dn_fate env 1" "private_outcome_commit env meta prep ct result at" w r w' "stays_settled w"]
    by (fastforce simp: recordPrivateOutcome_def)
next
  case (recover ids fate i now rb)
  have "stays_settled w v" if "interrupted_commit ids i now w = (Inr b, v)" for b v
    using interrupted_commit_effect [OF that] stays_settled_delivery [OF assms(2)] by (fastforce split: if_splits)
  with recover show ?thesis
    using uow_keeps [of "fate i" "interrupted_commit ids i now" w rb w' "stays_settled w"]
    by (fastforce simp: failInterruptedTransfer_def)
next
  case other
  then show ?thesis by simp
qed

text \<open>C1. A private key is handed over at most once: in every interleaving of deliveries (with any prepared
  payload, and with commits whose outcome is lost), outcome recordings, recoveries and other
  requests, at most one consuming commit succeeds per delivery, and none once the delivery has left the
  pending state.\<close>

theorem private_key_handed_over_once:
  assumes "handovers w ls w'" and "keyed_deliveries w"
  shows "count_list ls (Some i) + (if settled w i then 1 else 0) \<le> 1
    \<and> (settled w i \<or> Some i \<in> set ls \<longrightarrow> settled w' i)"
  using assms
proof (induction rule: handovers.induct)
  case (start w)
  then show ?case by simp
next
  case (more w l v ls w')
  from handover_step_settled [OF more.hyps(1) more.prems] have st: "stays_settled w v"
    and win: "l = Some i \<Longrightarrow> \<not> settled w i \<and> settled v i" by blast+
  from st more.prems have "keyed_deliveries v" by (simp add: stays_settled_def)
  note IH = more.IH [OF this]
  have "settled w i \<Longrightarrow> settled v i" using st by (simp add: stays_settled_def)
  with IH win show ?case by (auto split: if_splits)
qed

subsection \<open>One request\<close>

lemma prepare_read_reads: "keeps id (prepare_read h part format now)"
proof -
  have pki: "keeps id (tx_pki f)" for f :: "pki_store \<Rightarrow> go_error + 'a"
    by (simp add: keeps_def tx_pki_def tx_lift_def tx_return_def tx_fail_def split: sum.splits)
  have reads: "keeps id (GetGrantForUpdate h)" "keeps id (PKI_GetCertificate c)" "keeps id (GetDeliveryForUpdate i)"
    "keeps id (GetEncrypted k p)" for h c i k p
    by (simp_all add: keeps_def GetGrantForUpdate_def PKI_GetCertificate_def GetDeliveryForUpdate_def GetEncrypted_def
        found_def tx_return_def tx_fail_def split: option.splits)
  show ?thesis
    unfolding prepare_read_def tx_domain_check_def by (intro keeps_intro pki reads)
qed

text \<open>Outside the sink call, nothing is sent.\<close>

lemma quiet_steps:
  "keeps dw_sent (on_store m)" "keeps dw_sent (FailClosed c)" "keeps dw_sent (OperationalRecord e)"
  "keeps dw_sent (close_bundle b)"
  by (auto simp: keeps_def on_store_def FailClosed_def OperationalRecord_def close_bundle_def tx_return_def
      split: prod.splits)

lemma keeps_store: "keeps id m \<Longrightarrow> keeps dw_store (on_store m)"
  by (auto simp: keeps_def on_store_def split: prod.splits)

lemma prepare_quiet: "prepare env cmd format now d = (r, d') \<Longrightarrow> dw_sent d' = dw_sent d \<and> dw_store d' = dw_store d"
proof -
  assume run: "prepare env cmd format now d = (r, d')"
  have sent: "keeps dw_sent (prepare env cmd format now)"
    unfolding prepare_def by (intro keeps_intro quiet_steps)
  have store: "keeps dw_store (prepare env cmd format now)"
    unfolding prepare_def
    by (intro keeps_intro keeps_store prepare_read_reads) (simp add: keeps_def close_bundle_def tx_return_def)
  from keepsD [OF sent run] keepsD [OF store run] show ?thesis ..
qed

lemma record_outcome_quiet: "keeps dw_sent (record_outcome env meta prep ct result at)"
  unfolding record_outcome_def by (intro keeps_intro quiet_steps)

lemma sendAndRecord_sent:
  assumes "sendAndRecord env meta prep ct at g d = (r, d')"
  shows "case Input_Use (eb_payload (pp_bundle prep)) Inr of
      Inl _ \<Rightarrow> dw_sent d' = dw_sent d
    | Inr data \<Rightarrow> \<exists>descr. dw_sent d' = dw_sent d @ [(descr, data)]"
proof -
  let ?descr = "\<lparr>fd_ContentType = pp_contentType prep, fd_Filename = pp_filename prep,
        fd_Size = int (Input_Len (eb_payload (pp_bundle prep)))\<rparr>"
  obtain result d1 where 1: "invokeSink env ?descr (pp_bundle prep) d = (Inr result, d1)"
    by (cases "Input_Use (eb_payload (pp_bundle prep)) Inr") (auto simp: invokeSink_def)
  have "keeps dw_sent (tx_bind (close_bundle (pp_bundle prep)) (\<lambda>_. tx_bind (on_store (\<lambda>w. (Inr (), g w))) (\<lambda>_.
      tx_bind (record_outcome env meta prep ct result (finishObservedAt env at)) (\<lambda>_.
      if sr_panicked result
       then tx_fail (App (WrapAppError ErrorKindUnavailable ''distribution_send_panicked''
         ''the download transfer failed unexpectedly'' (Opaque (''panic: '' @ sr_panicVal result))))
     else case sr_sendErr result of
       Some sendErr \<Rightarrow> tx_fail (App (WrapAppError ErrorKindUnavailable ''distribution_send_failed''
         ''the download transfer failed'' sendErr))
     | None \<Rightarrow>
         tx_return \<lparr>ts_TokenID = dg_id (ct_grant ct),
           ts_DeliveryID = (if pp_purpose prep = GrantPurposeLeafPrivate
             then (case ct_delivery ct of None \<Rightarrow> [] | Some d \<Rightarrow> de_id d) else []),
           ts_Completed = to_Completed (sr_outcome result), ts_BytesWritten = to_BytesWritten (sr_outcome result),
           ts_FinishedAt = finishObservedAt env at\<rparr>))))"
    (is "keeps _ ?rest") by (intro keeps_intro quiet_steps record_outcome_quiet)
  moreover have "?rest d1 = (r, d')"
    using assms unfolding sendAndRecord_def tx_bind_def [of "invokeSink env ?descr (pp_bundle prep)"] 1
    by (simp add: Let_def)
  ultimately have "dw_sent d' = dw_sent d1" by (rule keepsD)
  with 1 show ?thesis by (auto simp: invokeSink_def split: sum.splits)
qed

text \<open>C2. The payload leaves the server only after the consuming commit: a \<open>Deliver\<close> that handed anything
  to the sink did so exactly once, with the prepared payload, after \<open>commitConsumption\<close> succeeded on the
  store as it was once the payload was encoded; for a private key that commit found the delivery
  pending and unexpired, moved it to transferring, deleted the ciphertext and spent every other
  private link.\<close>

theorem deliver_sends_after_consuming:
  assumes run: "Deliver env meta cmd has_sink while_encoding while_sending d = (r, d')"
    and sent: "dw_sent d' \<noteq> dw_sent d"
  shows "\<exists>prep ct w' descr data. commitConsumption env meta prep (while_encoding (dw_store d)) = (Inr ct, w')
    \<and> dw_sent d' = dw_sent d @ [(descr, data)] \<and> Input_Use (eb_payload (pp_bundle prep)) Inr = Inr data
    \<and> (pp_purpose prep = GrantPurposeLeafPrivate \<longrightarrow> (\<exists>del.
         map_of (lg_deliveries (while_encoding (dw_store d))) (dg_deliveryID (ct_grant ct)) = Some del
       \<and> de_state del = DeliveryStatePending \<and> dn_clock env 1 < de_expiresAt del
       \<and> lg_deliveries w' = AList.update (de_id del) (handed_over del (dn_clock env 1))
           (lg_deliveries (while_encoding (dw_store d)))
       \<and> map_of (lg_secrets w') (ce_keyMaterialID (pp_certificate prep), SecretPurposeLeafDelivery) = None
       \<and> (dn_clock env 1 \<noteq> zero_instant \<longrightarrow> links_spent w' (de_id del))))"
proof -
  have quiet: "x = d'" if "tx_fail e d = (r, d')" "x = d" for e x using that by (simp add: tx_fail_def)
  from run sent obtain format prep d1 where prep: "prepare env cmd format (dn_clock env 0) d = (Inr prep, d1)"
    and rel: "release prep (tx_bind (on_store (\<lambda>w. (Inr (), while_encoding w))) (\<lambda>_.
          tx_bind (tx_try (on_store (commitConsumption env meta prep))) (\<lambda>r. case r of
            Inl err \<Rightarrow>
              if Is_port err ErrCommitUnknown then
                tx_bind (if pp_purpose prep = GrantPurposeLeafPrivate
                         then FailClosed ''distribution_consume_commit_unknown'' else tx_return ()) (\<lambda>_.
                tx_fail (App (WrapAppError ErrorKindCommitUnknown ''download_commit_unknown''
                  ''the download consumption outcome is unknown'' err)))
              else tx_fail err
          | Inr consumed \<Rightarrow> sendAndRecord env meta prep consumed (dn_clock env 1) while_sending))) d1 = (r, d')"
    unfolding Deliver_def
    by (auto simp: tx_fail_def tx_bind_def tx_guard_def tx_lift_def tx_return_def dest: prepare_quiet
        split: if_splits option.splits sum.splits prod.splits)
  note same = prepare_quiet [OF prep]
  let ?w = "while_encoding (dw_store d)" and ?d2 = "d1\<lparr>dw_store := while_encoding (dw_store d1)\<rparr>"
  obtain c w' where commit: "commitConsumption env meta prep ?w = (c, w')" by fastforce
  let ?d3 = "?d2\<lparr>dw_store := w'\<rparr>"
  show ?thesis
  proof (cases c)
    case (Inl err)
    then have "dw_sent d' = dw_sent d1"
      using rel commit same
      by (auto simp: release_def close_bundle_def tx_bind_def tx_try_def on_store_def FailClosed_def tx_fail_def
          tx_return_def split: if_splits)
    with sent same show ?thesis by simp
  next
    case (Inr ct)
    then obtain d4 where send: "sendAndRecord env meta prep ct (dn_clock env 1) while_sending ?d3 = (r, d4)"
      and "dw_sent d' = dw_sent d4"
      using rel commit same
      by (auto simp: release_def close_bundle_def tx_bind_def tx_try_def on_store_def tx_return_def split: prod.splits)
    with sendAndRecord_sent [OF send] sent same obtain descr data where out: "dw_sent d' = dw_sent d @ [(descr, data)]"
      "Input_Use (eb_payload (pp_bundle prep)) Inr = Inr data" by (auto split: sum.splits)
    have "consume_commit env meta prep ?w = (Inr ct, w')"
      using commit Inr by (simp add: commitConsumption_def uow_write_iff)
    from consume_commit_settled [OF this]
    have "pp_purpose prep = GrantPurposeLeafPrivate \<longrightarrow> (\<exists>del. private_effect ?w w' prep (dn_clock env 1) ct del)"
      by (auto split: option.splits)
    with commit Inr out show ?thesis unfolding private_effect_def by blast
  qed
qed

subsection \<open>What happened is recorded, or the process stops\<close>

text \<open>The result the code observes of its sink call.\<close>

definition sink_result :: "distribution_env \<Rightarrow> preparedDelivery \<Rightarrow> sendResult" where
  "sink_result env prep = (case Input_Use (eb_payload (pp_bundle prep)) Inr of
     Inl _ \<Rightarrow> no_result
   | Inr data \<Rightarrow>
       (case dn_Send env \<lparr>fd_ContentType = pp_contentType prep, fd_Filename = pp_filename prep,
          fd_Size = int (Input_Len (eb_payload (pp_bundle prep)))\<rparr> data of
          Returns outcome sendErr \<Rightarrow> no_result\<lparr>sr_outcome := outcome, sr_sendErr := sendErr\<rparr>
        | Panics v \<Rightarrow> no_result\<lparr>sr_panicked := True, sr_panicVal := v\<rparr>))"

lemma record_outcome_private:
  assumes "pp_purpose prep = GrantPurposeLeafPrivate" and "record_outcome env meta prep ct result at d = (r, d')"
    and "dw_failClosed d' = dw_failClosed d"
  shows "\<exists>w'. r = Inr () \<and> recordPrivateOutcome env meta prep ct result at (dw_store d) = (Inr (), w')
    \<and> d' = d\<lparr>dw_store := w'\<rparr>"
  using assms
  by (cases "recordPrivateOutcome env meta prep ct result at (dw_store d)")
    (auto simp: record_outcome_def tx_bind_def tx_try_def on_store_def FailClosed_def tx_fail_def tx_return_def Let_def
      split: sum.splits)

text \<open>C3. A private transfer is never left unexplained: once the sink call is over, either the process was
  failed closed, or the delivery is recorded. A transfer that completed is \<open>server_completed\<close>; one that
  failed in any way (a panic, an error, an incomplete write) is \<open>failed\<close> and, in the same commit, the
  certificate's serial is in its issuer's revocation list.\<close>

theorem private_transfer_recorded:
  assumes run: "sendAndRecord env meta prep ct at while_sending d = (r, d')"
    and is_private: "pp_purpose prep = GrantPurposeLeafPrivate" and ct: "ct_delivery ct = Some del"
    and keyed: "keyed_deliveries (while_sending (dw_store d))" "crl_keyed (while_sending (dw_store d))"
  shows "dw_failClosed d' \<noteq> dw_failClosed d \<or>
    (\<exists>row. map_of (lg_deliveries (dw_store d')) (de_id del) = Some row
      \<and> (if sendResult_failed (sink_result env prep)
         then de_state row = DeliveryStateFailed
           \<and> lg_revocations (dw_store d')
               (ce_issuerCAKeyGenerationID (pp_certificate prep), sn_hex (ce_serial (pp_certificate prep))) \<noteq> None
         else de_state row = DeliveryStateServerCompleted))"
proof (cases "dw_failClosed d' = dw_failClosed d")
  case True
  let ?descr = "\<lparr>fd_ContentType = pp_contentType prep, fd_Filename = pp_filename prep,
        fd_Size = int (Input_Len (eb_payload (pp_bundle prep)))\<rparr>" and ?w = "while_sending (dw_store d)"
  let ?result = "sink_result env prep" and ?at = "finishObservedAt env at"
  obtain d1 where sink: "invokeSink env ?descr (pp_bundle prep) d = (Inr ?result, d1)"
    and same: "dw_store d1 = dw_store d" "dw_failClosed d1 = dw_failClosed d"
    by (cases "Input_Use (eb_payload (pp_bundle prep)) Inr") (auto simp: invokeSink_def sink_result_def)
  let ?d2 = "d1\<lparr>dw_closed := dw_closed d1 @ [map_option Input_Close (eb_payload (pp_bundle prep))], dw_store := ?w\<rparr>"
  obtain q d3 where rec: "record_outcome env meta prep ct ?result ?at ?d2 = (q, d3)" by fastforce
  have d': "d' = d3"
    using run unfolding sendAndRecord_def tx_bind_def [of "invokeSink env ?descr (pp_bundle prep)"] sink
    by (auto simp: tx_bind_def close_bundle_def on_store_def tx_return_def tx_fail_def same rec Let_def
        split: sum.splits if_splits option.splits)
  have "dw_failClosed d3 = dw_failClosed ?d2" using True by (simp add: d' same)
  from record_outcome_private [OF is_private rec this] obtain w' where
    "recordPrivateOutcome env meta prep ct ?result ?at ?w = (Inr (), w')" and store: "dw_store d' = w'"
    by (auto simp: d')
  then have commit: "private_outcome_commit env meta prep ct ?result ?at ?w = (Inr (), w')"
    by (simp add: recordPrivateOutcome_def uow_write_iff)
  from private_outcome_effect [OF commit] ct obtain row row' where row: "map_of (lg_deliveries ?w) (de_id del) = Some row"
    "de_id row' = de_id row" "lg_deliveries w' = AList.update (de_id row) row' (lg_deliveries ?w)"
    and effect: "if \<not> sendResult_failed ?result then de_state row' = DeliveryStateServerCompleted
       else de_state row' = DeliveryStateFailed
         \<and> (\<exists>out w1 w2 scope. applyRevocations [delivery_revocation (pp_certificate prep) ?at scope]
              (transfer_failed_meta env meta (dg_id (ct_grant ct)) ?at) w1 = (Inr out, w2)
            \<and> lg_crlStates w1 = lg_crlStates ?w \<and> lg_revocationRows w1 = lg_revocationRows ?w
            \<and> lg_revocationRows w' = lg_revocationRows w2)" by auto
  have "map_of (lg_deliveries w') (de_id del) = Some row'"
    using row keyed_deliveriesD [OF keyed(1) row(1)] by simp
  moreover have "lg_revocations w' (ce_issuerCAKeyGenerationID (pp_certificate prep), sn_hex (ce_serial (pp_certificate prep))) \<noteq> None"
    if "sendResult_failed ?result"
  proof -
    from that effect obtain out w1 w2 scope where
      batch: "applyRevocations [delivery_revocation (pp_certificate prep) ?at scope]
        (transfer_failed_meta env meta (dg_id (ct_grant ct)) ?at) w1 = (Inr out, w2)"
      and "lg_crlStates w1 = lg_crlStates ?w" and rows: "lg_revocationRows w' = lg_revocationRows w2" by auto
    then have "crl_keyed w1" using keyed(2) by (simp add: crl_keyed_def)
    from single_change_recorded [OF batch this] show ?thesis
      by (simp add: change_key_def delivery_revocation_def rows)
  qed
  ultimately show ?thesis using effect by (intro disjI2 exI [of _ row']) (auto simp: store)
qed simp

end
