(* ===== verification/Transfer_Recovery.thy ===== *)
theory Transfer_Recovery
  imports Key_Handover CRL_Demand
begin

text \<open>
  The restart path terminates and leaves nothing open: \<open>RecoverInterruptedTransfers\<close> returns on every
  store, and when it returns without an error every delivery that was transferring has failed with its
  certificate revoked, and every other delivery is as it was.
\<close>

subsection \<open>What the batch of one revocation keeps\<close>

lemma applyRevocations_keyed:
  assumes "applyRevocations cs m w = (Inr out, w')" and "crl_keyed w"
  shows "crl_keyed w'"
proof -
  have "cs_caKeyGenerationID st = i" if "lg_crlStates w' i = Some st" for i st
  proof -
    from applyRevocations_effect [OF assms] obtain n g where "issuer_effect w w' i (changes_of cs i) n g" by blast
    with that obtain s where "lg_crlStates w i = Some s" "st = s \<or> st = BumpRevocationGeneration s"
      by (auto simp: issuer_effect_def split: if_splits)
    with assms(2) show ?thesis by (auto simp: crl_keyed_def)
  qed
  then show ?thesis by (simp add: crl_keyed_def)
qed

lemma applyRevocations_keeps_rows:
  assumes "applyRevocations cs m w = (Inr out, w')" and "crl_keyed w" and "lg_revocations w (i, s) \<noteq> None"
  shows "lg_revocations w' (i, s) \<noteq> None"
proof -
  from applyRevocations_effect [OF assms(1,2)] obtain n g where
    eff: "issuer_effect w w' i (changes_of cs i) n g" by blast
  show ?thesis
  proof (cases "(i, s) \<in> change_key ` set (filter (alters w) (changes_of cs i))")
    case True
    then obtain c where "c \<in> set (filter (alters w) (changes_of cs i))" and key: "change_key c = (i, s)" by auto
    with eff have "written w w' g c" by (simp add: issuer_effect_def)
    then show ?thesis by (auto simp: written_def key)
  next
    case False
    with eff have "lg_revocations w' (i, s) = lg_revocations w (i, s)" unfolding issuer_effect_def by blast
    with assms(3) show ?thesis by simp
  qed
qed

subsection \<open>One delivery\<close>

definition revoked_after_failure :: "ledger \<Rightarrow> Delivery \<Rightarrow> Delivery \<Rightarrow> bool" where
  "revoked_after_failure v d d' \<longleftrightarrow> de_state d' = DeliveryStateFailed \<and> de_failureCode d' = recoveryFailureCode
     \<and> (\<exists>cert. map_of (lg_certificates v) (de_certificateID d) = Some cert
          \<and> lg_revocations v (ce_issuerCAKeyGenerationID cert, sn_hex (ce_serial cert)) \<noteq> None)"

definition recovered :: "ledger \<Rightarrow> ledger \<Rightarrow> bool" where
  "recovered w v \<longleftrightarrow> keyed_deliveries v \<and> crl_keyed v \<and> lg_certificates v = lg_certificates w
     \<and> (\<forall>k. lg_revocations w k \<noteq> None \<longrightarrow> lg_revocations v k \<noteq> None)
     \<and> dom (map_of (lg_deliveries v)) = dom (map_of (lg_deliveries w))
     \<and> (\<forall>i d. map_of (lg_deliveries w) i = Some d \<longrightarrow> (\<exists>d'. map_of (lg_deliveries v) i = Some d'
          \<and> (d' = d \<or> de_state d = DeliveryStateTransferring \<and> revoked_after_failure v d d')))"

lemma recovered_refl: "keyed_deliveries w \<Longrightarrow> crl_keyed w \<Longrightarrow> recovered w w"
  by (simp add: recovered_def)

lemma recovered_trans:
  assumes "recovered u v" and "recovered v w"
  shows "recovered u w"
proof -
  have "\<exists>d'. map_of (lg_deliveries w) i = Some d'
      \<and> (d' = d \<or> de_state d = DeliveryStateTransferring \<and> revoked_after_failure w d d')"
    if "map_of (lg_deliveries u) i = Some d" for i d
  proof -
    from assms(1) that obtain e where e: "map_of (lg_deliveries v) i = Some e"
      "e = d \<or> de_state d = DeliveryStateTransferring \<and> revoked_after_failure v d e" unfolding recovered_def by blast
    from assms(2) e(1) obtain f where f: "map_of (lg_deliveries w) i = Some f"
      "f = e \<or> de_state e = DeliveryStateTransferring \<and> revoked_after_failure w e f" unfolding recovered_def by blast
    have "revoked_after_failure v d e \<Longrightarrow> f = e \<and> revoked_after_failure w d e"
      using f(2) assms(2) by (auto simp: revoked_after_failure_def recovered_def)
    with e f show ?thesis by auto
  qed
  with assms show ?thesis unfolding recovered_def by auto
qed

definition transferring :: "ledger \<Rightarrow> DeliveryID set" where
  "transferring w = {i. \<exists>d. map_of (lg_deliveries w) i = Some d \<and> de_state d = DeliveryStateTransferring}"

lemma finite_transferring [simp]: "finite (transferring w)"
proof -
  have "transferring w \<subseteq> dom (map_of (lg_deliveries w))" by (auto simp: transferring_def)
  then show ?thesis using finite_dom_map_of finite_subset by blast
qed

lemma recovered_shrinks: "recovered w v \<Longrightarrow> transferring v \<subseteq> transferring w"
  unfolding recovered_def transferring_def revoked_after_failure_def by fastforce

lemma failed_transfer_recovered:
  assumes "failInterruptedTransfer ids fate i now w = (Inr b, v)" and "keyed_deliveries w" and "crl_keyed w"
  shows "recovered w v \<and> i \<notin> transferring v \<and> (i \<in> transferring w \<longrightarrow> b)
    \<and> (\<forall>j. j \<noteq> i \<longrightarrow> map_of (lg_deliveries v) j = map_of (lg_deliveries w) j)"
proof -
  from assms(1) have run: "interrupted_commit ids i now w = (Inr b, v)"
    by (simp add: failInterruptedTransfer_def uow_write_iff)
  show ?thesis
  proof (cases b)
    case False
    with interrupted_commit_effect [OF run] recovered_refl [OF assms(2,3)] show ?thesis
      by (auto simp: transferring_def)
  next
    case True
    with interrupted_commit_effect [OF run] obtain d d' cert scope out w1 where
      d: "map_of (lg_deliveries w) i = Some d" "de_state d = DeliveryStateTransferring"
      and cert: "map_of (lg_certificates w) (de_certificateID d) = Some cert"
      and d': "de_id d' = de_id d" "de_state d' = DeliveryStateFailed" "de_failureCode d' = recoveryFailureCode"
      and rows: "lg_deliveries v = AList.update (de_id d) d' (lg_deliveries w)" "lg_certificates v = lg_certificates w"
      and crl: "lg_crlStates w1 = lg_crlStates w"
      and batch: "applyRevocations [delivery_revocation cert now scope] (recovery_meta ids now) w1 = (Inr out, v)"
      and kept: "lg_revocationRows w1 = lg_revocationRows w" by auto
    have id: "de_id d = i" using keyed_deliveriesD [OF assms(2) d(1)] .
    have keyed1: "crl_keyed w1" using assms(3) crl by (simp add: crl_keyed_def)
    have "keyed_deliveries v" using keyed_update [OF assms(2), of v d'] d' rows by simp
    moreover have "crl_keyed v" by (rule applyRevocations_keyed [OF batch keyed1])
    moreover have "lg_revocations w k \<noteq> None \<longrightarrow> lg_revocations v k \<noteq> None" for k
      using applyRevocations_keeps_rows [OF batch keyed1, of "fst k" "snd k"] kept by auto
    moreover have "revoked_after_failure v d d'"
      using single_change_recorded [OF batch keyed1] cert d' rows
      by (auto simp: revoked_after_failure_def change_key_def delivery_revocation_def)
    moreover have new: "map_of (lg_deliveries v) = (map_of (lg_deliveries w))(i \<mapsto> d')" by (simp add: rows id)
    ultimately have "recovered w v" using d rows unfolding recovered_def by auto
    moreover have "i \<notin> transferring v" using new d' by (simp add: transferring_def)
    ultimately show ?thesis using True new by simp
  qed
qed

subsection \<open>A batch and the whole loop\<close>

lemma recover_batch_progress:
  assumes "recover_batch ids fate now out p ds w = ((out', p', None), v)" and "keyed_deliveries w" and "crl_keyed w"
    and "distinct (map de_id ds)" and "\<forall>d\<in>set ds. de_id d \<in> transferring w"
  shows "recovered w v \<and> (\<forall>d\<in>set ds. de_id d \<notin> transferring v) \<and> p' = (p \<or> ds \<noteq> [])"
  using assms
proof (induction ds arbitrary: out p w)
  case Nil
  then show ?case by (simp add: recovered_refl)
next
  case (Cons d ds)
  obtain r w1 where one: "failInterruptedTransfer ids fate (de_id d) now w = (r, w1)" by fastforce
  with Cons.prems(1) obtain b where r: "r = Inr b" by (cases r) auto
  from failed_transfer_recovered [OF one [unfolded r] Cons.prems(2,3)] Cons.prems(5)
  have step: "recovered w w1" "de_id d \<notin> transferring w1" "b"
    "\<And>j. j \<noteq> de_id d \<Longrightarrow> map_of (lg_deliveries w1) j = map_of (lg_deliveries w) j" by auto
  from step(3) r one Cons.prems(1)
  have rest: "recover_batch ids fate now (out\<lparr>ry_Failed := ry_Failed out + 1\<rparr>) True ds w1 = ((out', p', None), v)"
    by simp
  have "de_id e \<in> transferring w1" if "e \<in> set ds" for e
  proof -
    have "de_id e \<noteq> de_id d" using Cons.prems(4) that by (metis distinct.simps(2) image_eqI list.simps(9) set_map)
    with step(4) Cons.prems(5) that show ?thesis by (simp add: transferring_def)
  qed
  with Cons.IH [OF rest] step(1) Cons.prems(4)
  have IH: "recovered w1 v" "\<forall>e\<in>set ds. de_id e \<notin> transferring v" "p'" by (auto simp: recovered_def)
  from recovered_shrinks [OF IH(1)] step(2) have "de_id d \<notin> transferring v" by blast
  with IH recovered_trans [OF step(1) IH(1)] show ?case by simp
qed

lemma sort_key_Nil: "sort_key f xs = [] \<longleftrightarrow> xs = []"
  by (metis length_0_conv length_sort)

lemma listed_batch:
  assumes "ListTransferring recoveryBatchSize w = (Inr batch, w1)" and "keyed_deliveries w"
  shows "w1 = w \<and> distinct (map de_id batch) \<and> (\<forall>d\<in>set batch. de_id d \<in> transferring w)
    \<and> (batch = [] \<longleftrightarrow> transferring w = {})"
proof -
  let ?all = "filter (\<lambda>d. de_state d = DeliveryStateTransferring) (map snd (lg_deliveries w))"
  have batch: "batch = limitDeliveries ?all recoveryBatchSize" and "w1 = w"
    using assms(1) by (auto simp: ListTransferring_def tx_return_def)
  have dist: "distinct (map fst (lg_deliveries w))" and id: "(i, d) \<in> set (lg_deliveries w) \<Longrightarrow> de_id d = i" for i d
    using assms(2) by (auto simp: keyed_deliveries_def)
  have "map (de_id \<circ> snd) (lg_deliveries w) = map fst (lg_deliveries w)" using id by auto
  then have "distinct (map de_id (map snd (lg_deliveries w)))" using dist by (simp only: map_map)
  then have all: "distinct (map de_id ?all)" by (rule distinct_map_filter)
  have sorted: "distinct (map de_id (sort_key de_id ?all))"
    using all by (simp only: distinct_map set_sort distinct_sort)
  have "distinct (map de_id batch)"
    unfolding batch limitDeliveries_def Let_def using sorted by (simp del: filter_map add: take_map [symmetric])
  moreover have sub: "set batch \<subseteq> set ?all"
    unfolding batch limitDeliveries_def Let_def using set_take_subset [of "nat recoveryBatchSize" "sort_key de_id ?all"]
    by (simp del: filter_map)
  moreover have "de_id d \<in> transferring w" if "d \<in> set ?all" for d
    using that id dist by (auto simp: transferring_def)
  moreover have "batch = [] \<longleftrightarrow> ?all = []"
    unfolding batch limitDeliveries_def Let_def recoveryBatchSize_def by (simp del: filter_map add: sort_key_Nil)
  moreover have "transferring w = {} \<longleftrightarrow> ?all = []"
    using id by (auto simp: transferring_def filter_empty_conv dist dest: map_of_SomeD)
  ultimately show ?thesis using \<open>w1 = w\<close> by blast
qed

lemma recover_loop_returns:
  assumes "keyed_deliveries w" and "crl_keyed w"
  shows "\<exists>out' err v. recover_loop ids fate now out w = Some ((out', err), v)
    \<and> (err = None \<longrightarrow> recovered w v \<and> transferring v = {})"
  using assms
proof (induction "card (transferring w)" arbitrary: w out rule: less_induct)
  case less
  obtain r w1 where list: "ListTransferring recoveryBatchSize w = (r, w1)" by fastforce
  then obtain batch where r: "r = Inr batch" by (auto simp: ListTransferring_def tx_return_def)
  note b = listed_batch [OF list [unfolded r] less.prems(1)]
  show ?case
  proof (cases "batch = []")
    case True
    with b list r show ?thesis
      by (subst recover_loop.simps) (simp add: recovered_refl less.prems)
  next
    case False
    obtain out1 p err v where one: "recover_batch ids fate now out False batch w = ((out1, p, err), v)"
      by (cases "recover_batch ids fate now out False batch w") auto
    show ?thesis
    proof (cases err)
      case (Some e)
      with False b list r one show ?thesis by (subst recover_loop.simps) simp
    next
      case None
      from recover_batch_progress [OF one [unfolded None] less.prems] b False
      have step: "recovered w v" "\<forall>d\<in>set batch. de_id d \<notin> transferring v" "p" by auto
      have "transferring v \<subset> transferring w"
        using recovered_shrinks [OF step(1)] step(2) b False by (metis list.set_intros(1) list.exhaust psubsetI)
      then have "card (transferring v) < card (transferring w)" by (simp add: psubset_card_mono)
      from less.hyps [OF this, of out1] step(1) obtain out' err' u where
        rest: "recover_loop ids fate now out1 v = Some ((out', err'), u)"
        "err' = None \<longrightarrow> recovered v u \<and> transferring u = {}" by (auto simp: recovered_def)
      have "recover_loop ids fate now out w = Some ((out', err'), u)"
        using False b list r one None step(3) rest(1) by (subst recover_loop.simps) simp
      with rest(2) recovered_trans [OF step(1)] show ?thesis by blast
    qed
  qed
qed

text \<open>C4. Recovery terminates and is complete: on every store whose rows are filed under their own keys,
  \<open>RecoverInterruptedTransfers\<close> returns, whatever becomes of its commits; when it returns without an error
  every delivery that was transferring is failed as \<open>interrupted_transfer\<close> with its certificate's serial
  in the revocation list, every other delivery is exactly as it was, and none is transferring.\<close>

theorem recovery_resolves_interrupted:
  assumes "keyed_deliveries w" and "crl_keyed w"
  shows "\<exists>out err w'. RecoverInterruptedTransfers ids fate now w = Some ((out, err), w')
    \<and> (err = None \<longrightarrow> (\<forall>i d. map_of (lg_deliveries w) i = Some d \<longrightarrow> (\<exists>d'. map_of (lg_deliveries w') i = Some d'
         \<and> de_state d' \<noteq> DeliveryStateTransferring
         \<and> (if de_state d \<noteq> DeliveryStateTransferring then d' = d
            else de_state d' = DeliveryStateFailed \<and> de_failureCode d' = ''interrupted_transfer''
              \<and> (\<exists>cert. map_of (lg_certificates w) (de_certificateID d) = Some cert
                   \<and> lg_revocations w' (ce_issuerCAKeyGenerationID cert, sn_hex (ce_serial cert)) \<noteq> None)))))"
proof -
  from recover_loop_returns [OF assms] obtain out err v where
    run: "RecoverInterruptedTransfers ids fate now w = Some ((out, err), v)"
    and rec: "err = None \<longrightarrow> recovered w v \<and> transferring v = {}"
    unfolding RecoverInterruptedTransfers_def by blast
  have "\<exists>d'. map_of (lg_deliveries v) i = Some d' \<and> de_state d' \<noteq> DeliveryStateTransferring
      \<and> (d' = d \<or> de_state d = DeliveryStateTransferring \<and> revoked_after_failure v d d')"
    if "err = None" "map_of (lg_deliveries w) i = Some d" for i d
    using rec that unfolding recovered_def transferring_def by blast
  moreover have "err = None \<Longrightarrow> lg_certificates v = lg_certificates w" using rec by (simp add: recovered_def)
  ultimately show ?thesis
    using run by (fastforce simp: revoked_after_failure_def recoveryFailureCode_def)
qed

subsection \<open>A concrete delivery\<close>

definition sample_leaf_record :: LeafCertificateRecord where
  "sample_leaf_record = \<lparr>lr_CertificateID = sample_uuid CHR ''3'', lr_SeriesID = ls_id sample_series,
     lr_LeafKeyGenerationID = kg_id sample_generation, lr_IssuerCACertificateID = sample_uuid CHR ''4'',
     lr_PreviousCertificateID = [], lr_Operation = ''initial'', lr_RenewalCountAtIssue = 0, lr_PolicySnapshotJSON = []\<rparr>"

definition sample_private_grant :: DownloadGrant where
  "sample_private_grant = sample_grant\<lparr>dg_purpose := GrantPurposeLeafPrivate, dg_deliveryID := sample_uuid CHR ''1''\<rparr>"

definition sample_delivery_store :: ledger where
  "sample_delivery_store = sample_ledger\<lparr>
     lg_certificates := [(sample_uuid CHR ''3'', sample_cert CHR ''3'' CHR ''2''),
       (sample_uuid CHR ''4'', sample_cert CHR ''2'' CHR ''2'')],
     lg_leafCertRecords := [sample_uuid CHR ''3'' \<mapsto> sample_leaf_record],
     lg_caCertRecords := [(sample_uuid CHR ''4'', \<lparr>cr_CertificateID = sample_uuid CHR ''4'',
       cr_CAKeyGenerationID = sample_uuid CHR ''2'', cr_IssuerCACertificateID = []\<rparr>)],
     lg_seriesRows := [(ls_id sample_series, sample_series)],
     lg_leafKeyGenerations := [kg_id sample_generation \<mapsto> sample_generation],
     lg_deliveries := [(sample_uuid CHR ''1'', sample_delivery)],
     lg_grants := [sample_uuid CHR ''1'' \<mapsto> sample_private_grant],
     lg_grantsByHash := [TokenHash_Hex sample_token \<mapsto> sample_uuid CHR ''1''],
     lg_secrets := [((sample_uuid CHR ''3'', SecretPurposeLeafDelivery), \<lparr>es_ownerKeyID = sample_uuid CHR ''3'',
       es_purpose = SecretPurposeLeafDelivery, es_formatVersion = 1, es_encryptionGenerationID = [], es_nonce = [],
       es_ciphertext = []\<rparr>)]\<rparr>"

definition sample_dist_env :: "bool \<Rightarrow> distribution_env" where
  "sample_dist_env completes = \<lparr>dn_Hash = (\<lambda>_. Inr sample_token),
     dn_Encode = (\<lambda>_. (NewEncodedBundle ''key'' ''application/x-pem-file'', None)),
     dn_PublicEncode = (\<lambda>_. (NewEncodedBundle ''cert'' ''application/x-pem-file'', None)),
     dn_Send = (\<lambda>_ data. Returns \<lparr>to_BytesWritten = 3, to_FinishedAt = zero_instant, to_Completed = completes\<rparr> None),
     dn_clock = (\<lambda>k. Instant (20 + int k)), dn_ids = (\<lambda>n. sample_uuid CHR ''5''), dn_fate = (\<lambda>_. Committed)\<rparr>"

definition sample_world :: delivery_world where
  "sample_world = \<lparr>dw_store = sample_delivery_store, dw_sent = [], dw_closed = [], dw_failClosed = [], dw_log = []\<rparr>"

definition sample_download :: DownloadCommand where
  "sample_download = \<lparr>dc_RawToken = Some (Input_FromString (replicate 40 CHR ''t'')), dc_Format = DownloadFormatPEM,
     dc_PEMPart = DownloadPartPrivateKey, dc_PKCS12Password = None\<rparr>"

definition sample_prepared :: preparedDelivery where
  "sample_prepared = \<lparr>pp_tokenHash = sample_token, pp_purpose = GrantPurposeLeafPrivate,
     pp_certificate = sample_cert CHR ''3'' CHR ''2'', pp_bundle = NewEncodedBundle ''key'' ''application/x-pem-file'',
     pp_contentType = ''application/x-pem-file'', pp_filename = ''private-key.pem''\<rparr>"

lemma sample_uuid_inject: "sample_uuid c = sample_uuid d \<longleftrightarrow> c = d"
  by (auto simp: sample_uuid_def)

lemma sample_delivery_fields:
  "lg_grantsByHash sample_delivery_store = [TokenHash_Hex sample_token \<mapsto> sample_uuid CHR ''1'']"
  "lg_grants sample_delivery_store = [sample_uuid CHR ''1'' \<mapsto> sample_private_grant]"
  "lg_deliveries sample_delivery_store = [(sample_uuid CHR ''1'', sample_delivery)]"
  "lg_certificates sample_delivery_store = [(sample_uuid CHR ''3'', sample_cert CHR ''3'' CHR ''2''),
       (sample_uuid CHR ''4'', sample_cert CHR ''2'' CHR ''2'')]"
  by (simp_all add: sample_delivery_store_def)

lemma sample_dist_env_fields:
  "dn_clock (sample_dist_env c) k = Instant (20 + int k)" "dn_fate (sample_dist_env c) k = Committed"
  "dn_ids (sample_dist_env c) n = sample_uuid CHR ''5''" "dn_Hash (sample_dist_env c) i = Inr sample_token"
  "dn_Encode (sample_dist_env c) x = (NewEncodedBundle ''key'' ''application/x-pem-file'', None)"
  by (simp_all add: sample_dist_env_def)

lemma sample_rows:
  "dg_purpose sample_private_grant = GrantPurposeLeafPrivate" "dg_certificateID sample_private_grant = sample_uuid CHR ''3''"
  "dg_deliveryID sample_private_grant = sample_uuid CHR ''1''" "dg_id sample_private_grant = sample_uuid CHR ''1''"
  "de_id sample_delivery = sample_uuid CHR ''1''" "ce_id (sample_cert i g) = sample_uuid i"
  "ce_keyMaterialID (sample_cert i g) = sample_uuid i"
  by (simp_all add: sample_private_grant_def sample_grant_def sample_delivery_def sample_cert_def)

lemma sample_consumable:
  "\<exists>g. Grant_Consume sample_private_grant (Instant 21) = Inr g \<and> dg_id g = sample_uuid CHR ''1''"
  "Grant_Validate sample_private_grant GrantPurposeLeafPrivate (sample_uuid CHR ''3'') (sample_uuid CHR ''1'') (Instant 21) = None"
  "Grant_Validate sample_private_grant GrantPurposeLeafPrivate (sample_uuid CHR ''3'') (sample_uuid CHR ''1'') (Instant 20) = None"
  "Delivery_CanConsume sample_delivery (Instant 21) = None" "Delivery_CanConsume sample_delivery (Instant 20) = None"
  "Delivery_Consume sample_delivery (Instant 21) = Inr (handed_over sample_delivery (Instant 21))"
  by (simp_all add: Grant_Consume_def check_then_Inr Grant_Validate_None grant_spent_def Grant_isConsumed_def
      Grant_isInvalidated_def sample_private_grant_def sample_grant_def Instant_IsZero_iff less_Instant_def
      Delivery_CanConsume_def sample_delivery_def less_eq_Instant_def Delivery_Consume_def handed_over_def)

lemma sample_store_reads:
  "leafManagementAuthority (pki_of sample_delivery_store) (sample_uuid CHR ''3'') = Inr (sample_uuid CHR ''2'')"
  by (simp add: leafManagementAuthority_def pki_of_def sample_delivery_store_def PKI_GetLeafCertificateRecord_def
      PKI_GetSeriesForUpdate_def found_def tx_return_def sample_leaf_record_def sample_series_def sample_generation_def
      Let_def sample_publish_simps)

lemma sample_commit:
  "\<exists>ct w'. consume_commit (sample_dist_env c) sample_visitor sample_prepared sample_delivery_store = (Inr ct, w')
     \<and> (\<exists>d. ct_delivery ct = Some d \<and> de_id d = sample_uuid CHR ''1'')"
proof -
  obtain g where g: "Grant_Consume sample_private_grant (Instant 21) = Inr g" "dg_id g = sample_uuid CHR ''1''"
    using sample_consumable(1) by blast
  show ?thesis
    by (simp add: consume_commit_def tx_iff Let_def sample_prepared_def sample_delivery_fields sample_dist_env_fields
        sample_rows sample_consumable g sample_store_reads consume_private_def appendDistributionAudit_def
        AuditScope_Validate_def NewAuthoritiesAuditScope_def sample_publish_simps)
qed

lemma sample_keyed: "keyed_deliveries sample_delivery_store" "crl_keyed sample_delivery_store"
  by (simp_all add: keyed_deliveries_def sample_delivery_fields sample_rows crl_keyed_def sample_delivery_store_def
      sample_ledger_def)

theorem private_key_handed_over_once_witness:
  "\<exists>w'. handovers sample_delivery_store [Some (sample_uuid CHR ''1''), None] w' \<and> settled w' (sample_uuid CHR ''1'')"
proof -
  obtain ct w' d where run: "consume_commit (sample_dist_env True) sample_visitor sample_prepared sample_delivery_store
      = (Inr ct, w')" and d: "ct_delivery ct = Some d" "de_id d = sample_uuid CHR ''1''"
    using sample_commit by blast
  then have "commitConsumption (sample_dist_env True) sample_visitor sample_prepared sample_delivery_store = (Inr ct, w')"
    by (simp add: commitConsumption_def uow_write_iff sample_dist_env_fields)
  from handover_step.deliver [OF this] have "handover_step sample_delivery_store (Some (sample_uuid CHR ''1'')) w'"
    by (simp add: d)
  moreover have "handover_step w' None w'" by (rule handover_step.other) simp
  ultimately have run2: "handovers sample_delivery_store [Some (sample_uuid CHR ''1''), None] w'"
    by (blast intro: handovers.intros)
  from private_key_handed_over_once [OF run2 sample_keyed(1), of "sample_uuid CHR ''1''"] run2 show ?thesis by auto
qed

lemma sample_prepare:
  "prepare (sample_dist_env c) sample_download DeliveryFormatPEM (Instant 20) sample_world = (Inr sample_prepared, sample_world)"
proof -
  have chain: "\<exists>chain. buildChainDER (pki_of sample_delivery_store) (sample_uuid CHR ''3'') = Inr chain"
    by (simp add: buildChainDER_def maxChainDepth_def numeral_eq_Suc pki_of_def PKI_GetLeafCertificateRecord_def
        PKI_GetCACertificateRecord_def PKI_GetCertificate_def found_def tx_return_def sample_delivery_store_def
        sample_leaf_record_def sample_cert_def Let_def sample_publish_simps sample_uuid_inject)
  then obtain chain where "buildChainDER (pki_of sample_delivery_store) (sample_uuid CHR ''3'') = Inr chain" ..
  moreover obtain es where es: "map_of (lg_secrets sample_delivery_store) (sample_uuid CHR ''3'', SecretPurposeLeafDelivery) = Some es"
    by (simp add: sample_delivery_store_def)
  ultimately have "prepare_read sample_token DownloadPartPrivateKey DeliveryFormatPEM (Instant 20) sample_delivery_store
      = (Inr \<lparr>px_grant = sample_private_grant, px_certificate = sample_cert CHR ''3'' CHR ''2'',
          px_leafSecret = Some es, px_chainDER = chain\<rparr>, sample_delivery_store)"
    by (simp add: prepare_read_def tx_iff sample_delivery_fields sample_rows sample_consumable)
  then show ?thesis
    by (simp add: prepare_def tx_bind_def tx_lift_def tx_return_def sample_dist_env_fields on_store_def sample_world_def
        sample_download_def encode_payload_def sample_prepared_def sample_rows fixedFilename_def NewEncodedBundle_def)
qed

lemma sample_download_valid: "DownloadCommand_Validate sample_download = None"
  by (simp add: DownloadCommand_Validate_def sample_download_def validateSecretRuneLength_def Input_IsEmpty_def
      Input_Len_def Input_Use_def Input_FromString_def Input_New_def Input_acquire_def valid_utf8_ascii runes_ascii
      byte_in_def list_all_iff rawTokenMinLength_def rawTokenMaxLength_def and_then_def)

theorem deliver_sends_after_consuming_witness:
  "\<exists>r d' x. Deliver (sample_dist_env True) sample_visitor sample_download True (\<lambda>w. w) (\<lambda>w. w) sample_world = (r, d')
     \<and> dw_sent d' = [x]
     \<and> (\<exists>prep ct w'. commitConsumption (sample_dist_env True) sample_visitor prep sample_delivery_store = (Inr ct, w'))"
proof -
  let ?env = "sample_dist_env True"
  have world: "dw_store sample_world = sample_delivery_store" "dc_Format sample_download = DownloadFormatPEM"
    by (simp_all add: sample_world_def sample_download_def)
  obtain ct w1 where commit: "consume_commit ?env sample_visitor sample_prepared sample_delivery_store = (Inr ct, w1)"
    using sample_commit by blast
  obtain r d1 where send: "sendAndRecord ?env sample_visitor sample_prepared ct (Instant 21) (\<lambda>w. w)
      (sample_world\<lparr>dw_store := w1\<rparr>) = (r, d1)" by fastforce
  have "Input_Use (eb_payload (pp_bundle sample_prepared)) Inr = Inr ''key''"
    by (simp add: sample_prepared_def NewEncodedBundle_def Input_Use_def Input_acquire_def Input_New_def and_then_def)
  with sendAndRecord_sent [OF send] obtain descr where "dw_sent d1 = [(descr, ''key'')]" by (auto simp: sample_world_def)
  moreover have "\<exists>d'. Deliver ?env sample_visitor sample_download True (\<lambda>w. w) (\<lambda>w. w) sample_world = (r, d')
      \<and> dw_sent d' = dw_sent d1"
    using sample_prepare commit send
    by (simp add: Deliver_def sample_download_valid tx_bind_def tx_guard_def tx_lift_def tx_return_def tx_try_def
        on_store_def commitConsumption_def uow_write_def release_def close_bundle_def sample_dist_env_fields world)
  ultimately obtain d' where run: "Deliver ?env sample_visitor sample_download True (\<lambda>w. w) (\<lambda>w. w) sample_world = (r, d')"
    and sent: "dw_sent d' = [(descr, ''key'')]" by auto
  then have "dw_sent d' \<noteq> dw_sent sample_world" by (simp add: sample_world_def)
  from deliver_sends_after_consuming [OF run this] run sent show ?thesis by (auto simp: sample_world_def)
qed

theorem private_transfer_recorded_witness:
  "\<exists>r d'. sendAndRecord (sample_dist_env False) sample_visitor sample_prepared
      \<lparr>ct_grant = sample_private_grant, ct_delivery = Some sample_delivery\<rparr> (Instant 21) (\<lambda>w. w) sample_world = (r, d')
    \<and> (dw_failClosed d' \<noteq> [] \<or> (\<exists>row. map_of (lg_deliveries (dw_store d')) (sample_uuid CHR ''1'') = Some row
      \<and> de_state row = DeliveryStateFailed))"
proof -
  let ?ct = "\<lparr>ct_grant = sample_private_grant, ct_delivery = Some sample_delivery\<rparr>"
  obtain r d' where run: "sendAndRecord (sample_dist_env False) sample_visitor sample_prepared ?ct (Instant 21) (\<lambda>w. w)
      sample_world = (r, d')" by fastforce
  have "sendResult_failed (sink_result (sample_dist_env False) sample_prepared)"
    by (simp add: sink_result_def sample_prepared_def NewEncodedBundle_def Input_Use_def Input_acquire_def Input_New_def
        sample_dist_env_def sendResult_failed_def no_result_def and_then_def)
  with private_transfer_recorded [OF run, of sample_delivery] sample_keyed
  have "dw_failClosed d' \<noteq> [] \<or> (\<exists>row. map_of (lg_deliveries (dw_store d')) (sample_uuid CHR ''1'') = Some row
      \<and> de_state row = DeliveryStateFailed)"
    by (auto simp: sample_prepared_def sample_world_def sample_rows)
  with run show ?thesis by blast
qed

definition sample_interrupted_store :: ledger where
  "sample_interrupted_store = sample_delivery_store\<lparr>lg_deliveries :=
     [(sample_uuid CHR ''1'', sample_delivery\<lparr>de_state := DeliveryStateTransferring\<rparr>)]\<rparr>"

theorem recovery_resolves_interrupted_witness:
  "\<exists>out err w'. RecoverInterruptedTransfers (\<lambda>n. sample_uuid CHR ''5'') (\<lambda>_. Committed) (Instant 30) sample_interrupted_store
     = Some ((out, err), w') \<and> (err = None \<longrightarrow> (\<exists>d. map_of (lg_deliveries w') (sample_uuid CHR ''1'') = Some d
       \<and> de_state d = DeliveryStateFailed))"
proof -
  have "keyed_deliveries sample_interrupted_store" "crl_keyed sample_interrupted_store"
    using sample_keyed(2) by (simp_all add: keyed_deliveries_def sample_interrupted_store_def sample_rows crl_keyed_def)
  from recovery_resolves_interrupted [OF this, of "\<lambda>n. sample_uuid CHR ''5''" "\<lambda>_. Committed" "Instant 30"]
  obtain out err w' where run: "RecoverInterruptedTransfers (\<lambda>n. sample_uuid CHR ''5'') (\<lambda>_. Committed) (Instant 30)
      sample_interrupted_store = Some ((out, err), w')"
    and all: "err = None \<longrightarrow> (\<forall>i d. map_of (lg_deliveries sample_interrupted_store) i = Some d \<longrightarrow>
      (\<exists>d'. map_of (lg_deliveries w') i = Some d' \<and> (if de_state d \<noteq> DeliveryStateTransferring then d' = d
        else de_state d' = DeliveryStateFailed)))" by (metis (no_types, lifting))
  have "map_of (lg_deliveries sample_interrupted_store) (sample_uuid CHR ''1'')
      = Some (sample_delivery\<lparr>de_state := DeliveryStateTransferring\<rparr>)" by (simp add: sample_interrupted_store_def)
  with all have "err = None \<longrightarrow> (\<exists>d. map_of (lg_deliveries w') (sample_uuid CHR ''1'') = Some d
       \<and> de_state d = DeliveryStateFailed)" by fastforce
  with run show ?thesis by blast
qed

end
