(* ===== verification/Signing.thy ===== *)
theory Signing
  imports Service_Base
begin

text \<open>
  \<open>internal/app/service/certificate.go\<close>, the signing step that issuance, authority and TLS services
  share: resolve a key (generate one or reuse a stored one), draw a serial, have the certificate
  signed, and check that what came back is what was asked for. The key engine, the signer and the serial
  generator (\<open>internal/app/port/crypto.go\<close>, \<open>signing.go\<close>) are interfaces of the environment; what they answer
  may depend on how often they were called, so the world records every call. Main property: a
  certificate leaves this step only if it matches the request field by field.
\<close>

subsection \<open>The interfaces\<close>

record KeySpec =
  ks_KeyMaterialID :: KeyMaterialID
  ks_Algorithm :: KeyAlgorithm
  ks_Purpose :: SecretPurpose

record GeneratedKey =
  gk_PublicKey :: PublicKey
  gk_EncryptedSecret :: EncryptedSecret

record CertificateSigningRequest =
  cq_Plan :: IssuancePlan
  cq_CertificateID :: CertificateID
  cq_KeyMaterialID :: KeyMaterialID
  cq_SubjectPublicKey :: PublicKey
  cq_Serial :: SerialNumber
  cq_Kind :: CertificateKind
  cq_CreatedByAccountID :: AccountID
  cq_IssuerCertificate :: "Certificate option"
  cq_CRLDistributionPoints :: "string list"

text \<open>The zero values of the Go structs; a request for a self-signed root carries no issuer certificate.\<close>

definition zero_public_key :: PublicKey where
  "zero_public_key = \<lparr>pk_algorithm = KeyAlgorithmOther [], pk_spki = []\<rparr>"

definition SelfSigned :: "CertificateSigningRequest \<Rightarrow> bool" where
  "SelfSigned r \<longleftrightarrow> (case cq_IssuerCertificate r of None \<Rightarrow> True | Some c \<Rightarrow> ce_id c = [])"

text \<open>The store and every call that reached the engine, the signer and the serial generator.\<close>

record signing_world =
  sg_store :: ledger
  sg_generated :: "KeySpec list"
  sg_signed :: "CertificateSigningRequest list"
  sg_serials :: nat

record crypto_env =
  cy_Generate :: "nat \<Rightarrow> KeySpec \<Rightarrow> go_error + GeneratedKey"
  cy_Sign :: "nat \<Rightarrow> CertificateSigningRequest \<Rightarrow> EncryptedSecret \<Rightarrow> go_error + Certificate"
  cy_NewSerial :: "nat \<Rightarrow> go_error + SerialNumber"

definition Generate :: "('e) crypto_env_scheme \<Rightarrow> KeySpec \<Rightarrow> (signing_world, GeneratedKey) tx" where
  "Generate env spec w =
     (cy_Generate env (length (sg_generated w)) spec, w\<lparr>sg_generated := sg_generated w @ [spec]\<rparr>)"

definition Sign ::
  "('e) crypto_env_scheme \<Rightarrow> CertificateSigningRequest \<Rightarrow> EncryptedSecret \<Rightarrow> (signing_world, Certificate) tx" where
  "Sign env request issuerKey w =
     (cy_Sign env (length (sg_signed w)) request issuerKey, w\<lparr>sg_signed := sg_signed w @ [request]\<rparr>)"

definition NewSerial :: "('e) crypto_env_scheme \<Rightarrow> (signing_world, SerialNumber) tx" where
  "NewSerial env w = (cy_NewSerial env (sg_serials w), w\<lparr>sg_serials := sg_serials w + 1\<rparr>)"

text \<open>A step on the store alone, in its own transaction or as a read.\<close>

definition in_store :: "(ledger, 'a) tx \<Rightarrow> (signing_world, 'a) tx" where
  "in_store m w = (case m (sg_store w) of (r, s) \<Rightarrow> (r, w\<lparr>sg_store := s\<rparr>))"

subsection \<open>The parts of a signature\<close>

text \<open>The next whole second at or after the reading of the clock.\<close>

definition x509NotBefore :: "Instant \<Rightarrow> Instant" where
  "x509NotBefore now =
     (let timestamp = Instant_Time now;
          rounded = timestamp div go_second * go_second in
      NewInstant (if rounded < timestamp then rounded + go_second else rounded))"

record signingKeyRef =
  kr_Fresh :: "KeySpec option"
  kr_Existing :: KeyMaterialID

record preparedCertificate =
  pd_Certificate :: Certificate
  pd_KeyMaterialID :: KeyMaterialID
  pd_GeneratedPublic :: PublicKey
  pd_GeneratedSecret :: "EncryptedSecret option"

definition resolveSigningKey ::
  "('e) crypto_env_scheme \<Rightarrow> signingKeyRef
     \<Rightarrow> (signing_world, KeyMaterialID \<times> PublicKey \<times> EncryptedSecret option) tx" where
  "resolveSigningKey env ref =
     (case kr_Fresh ref of
        Some spec \<Rightarrow>
          tx_bind (tx_or (Generate env spec) (\<lambda>err. App (WrapAppError ErrorKindUnavailable
             ''issuance_key_generate_failed'' ''could not generate a new key'' err))) (\<lambda>generated.
          tx_return (ks_KeyMaterialID spec, gk_PublicKey generated, Some (gk_EncryptedSecret generated)))
      | None \<Rightarrow>
          if kr_Existing ref \<noteq> [] then tx_return (kr_Existing ref, zero_public_key, None)
          else tx_fail (app_error ErrorKindValidation ''issuance_key_ref_missing''
            ''prepareCertificate requires a fresh or existing key reference''))"

definition sameWindow :: "ValidityWindow \<Rightarrow> ValidityWindow \<Rightarrow> bool" where
  "sameWindow a b \<longleftrightarrow> Instant_Equal (notBefore a) (notBefore b) \<and> Instant_Equal (notAfter a) (notAfter b)"

definition sameSubject :: "Subject \<Rightarrow> Subject \<Rightarrow> bool" where
  "sameSubject a b \<longleftrightarrow> su_commonName a = su_commonName b \<and> su_organization a = su_organization b
     \<and> su_organizationalUnit a = su_organizationalUnit b \<and> su_country a = su_country b"

fun san_scan :: "SAN list \<Rightarrow> SAN list \<Rightarrow> bool" where
  "san_scan (a # as) (b # bs) \<longleftrightarrow> san_kind a = san_kind b \<and> san_value a = san_value b \<and> san_scan as bs"
| "san_scan _ _ \<longleftrightarrow> True"

definition sameSANs :: "SAN list \<Rightarrow> SAN list \<Rightarrow> bool" where
  "sameSANs a b \<longleftrightarrow> length a = length b \<and> san_scan a b"

definition mismatch :: "string \<Rightarrow> go_error" where
  "mismatch field = app_error_with ErrorKindUnavailable ''issuance_signed_certificate_mismatch''
     ''the signer returned a certificate that does not match the request'' ''field'' field"

definition verifySignedCertificate :: "CertificateSigningRequest \<Rightarrow> Certificate \<Rightarrow> go_error option" where
  "verifySignedCertificate request cert =
     (let plan = cq_Plan request in
      if ce_id cert \<noteq> cq_CertificateID request then Some (mismatch ''certificate_id'')
      else if ce_keyMaterialID cert \<noteq> cq_KeyMaterialID request then Some (mismatch ''key_material_id'')
      else if \<not> SerialNumber_Equal (ce_serial cert) (cq_Serial request) then Some (mismatch ''serial'')
      else if ce_issuerCAKeyGenerationID cert \<noteq> ip_IssuerKeyGenerationID plan
        then Some (mismatch ''issuer_ca_key_generation_id'')
      else if ce_kind cert \<noteq> cq_Kind request then Some (mismatch ''kind'')
      else if ce_profile cert \<noteq> ip_Profile plan then Some (mismatch ''profile'')
      else if ce_keyAlgorithm cert \<noteq> ip_KeyAlgorithm plan then Some (mismatch ''key_algorithm'')
      else if \<not> sameWindow (ce_validity cert) (ip_Window plan) then Some (mismatch ''validity'')
      else if \<not> sameSubject (ce_subject cert) (ip_Subject plan) then Some (mismatch ''subject'')
      else if \<not> sameSANs (ce_sans cert) (ip_SANs plan) then Some (mismatch ''sans'')
      else if length (ce_der cert) = 0 then Some (mismatch ''der'')
      else None)"

definition signCertificate ::
  "('e) crypto_env_scheme \<Rightarrow> CertificateSigningRequest \<Rightarrow> EncryptedSecret \<Rightarrow> (signing_world, Certificate) tx" where
  "signCertificate env request issuerKey =
     tx_bind (tx_or (Sign env request issuerKey) (\<lambda>err. App (WrapAppError ErrorKindUnavailable
        ''issuance_sign_failed'' ''could not sign the certificate'' err))) (\<lambda>cert.
     tx_bind (tx_guard (verifySignedCertificate request cert)) (\<lambda>_.
     tx_return cert))"

definition newSerial :: "('e) crypto_env_scheme \<Rightarrow> (signing_world, SerialNumber) tx" where
  "newSerial env =
     tx_bind (tx_or (NewSerial env) (\<lambda>err. App (WrapAppError ErrorKindUnavailable
        ''issuance_serial_generate_failed'' ''could not generate a certificate serial'' err))) (\<lambda>serial.
     if SerialNumber_IsZero serial
       then tx_fail (app_error ErrorKindUnavailable ''issuance_serial_generate_failed''
         ''the serial generator produced an empty serial'')
     else tx_return serial)"

definition prepareCertificate ::
  "('e) crypto_env_scheme \<Rightarrow> IssuancePlan \<Rightarrow> signingKeyRef \<Rightarrow> PublicKey \<Rightarrow> CertificateID \<Rightarrow> Certificate option
     \<Rightarrow> EncryptedSecret \<Rightarrow> CertificateKind \<Rightarrow> AccountID \<Rightarrow> string list \<Rightarrow> (signing_world, preparedCertificate) tx" where
  "prepareCertificate env plan ref existingPublicKey certificateID issuerCertificate issuerKey kind createdBy points =
     tx_bind (resolveSigningKey env ref) (\<lambda>(keyMaterialID, publicKey, generatedSecret).
     let subjectPublicKey = (if kr_Fresh ref = None then existingPublicKey else publicKey) in
     tx_bind (newSerial env) (\<lambda>serial.
     tx_bind (signCertificate env
       \<lparr>cq_Plan = plan, cq_CertificateID = certificateID, cq_KeyMaterialID = keyMaterialID,
        cq_SubjectPublicKey = subjectPublicKey, cq_Serial = serial, cq_Kind = kind,
        cq_CreatedByAccountID = createdBy, cq_IssuerCertificate = issuerCertificate,
        cq_CRLDistributionPoints = points\<rparr> issuerKey) (\<lambda>cert.
     tx_return \<lparr>pd_Certificate = cert, pd_KeyMaterialID = keyMaterialID,
        pd_GeneratedPublic = publicKey, pd_GeneratedSecret = generatedSecret\<rparr>)))"

text \<open>\<open>resignWithNewSerial\<close> of \<open>issuance.go\<close>: the same key, a new serial.\<close>

definition resignWithNewSerial ::
  "('e) crypto_env_scheme \<Rightarrow> IssuancePlan \<Rightarrow> CertificateID \<Rightarrow> KeyMaterialID \<Rightarrow> PublicKey \<Rightarrow> CertificateKind
     \<Rightarrow> AccountID \<Rightarrow> Certificate option \<Rightarrow> EncryptedSecret \<Rightarrow> string list \<Rightarrow> (signing_world, Certificate) tx" where
  "resignWithNewSerial env plan certificateID keyMaterialID subjectPublicKey kind createdBy issuerCertificate issuerKey points =
     tx_bind (newSerial env) (\<lambda>serial.
     signCertificate env
       \<lparr>cq_Plan = plan, cq_CertificateID = certificateID, cq_KeyMaterialID = keyMaterialID,
        cq_SubjectPublicKey = subjectPublicKey, cq_Serial = serial, cq_Kind = kind,
        cq_CreatedByAccountID = createdBy, cq_IssuerCertificate = issuerCertificate,
        cq_CRLDistributionPoints = points\<rparr> issuerKey)"

end
