(* ===== verification/Issuance_Input.thy ===== *)
theory Issuance_Input
  imports Service_Base
begin

text \<open>
  What issuance takes in and stores away: the commands of \<open>internal/app/contract/issuance.go\<close> and the
  request halves of \<open>contract/views.go\<close> with their checks, and the normalized input, stored result and
  policy snapshot of \<open>internal/app/service/issuance.go\<close> with the JSON they are written as. A field whose
  Go type is a string enumeration is of the model's enumeration; the empty string of an omitted
  \<open>key_algorithm\<close> is \<open>KeyAlgorithmOther []\<close>. The absolute-URI check of a URI name is a parameter.
\<close>

subsection \<open>Request values\<close>

record SubjectInput =
  si_CommonName :: string
  si_Organization :: string
  si_OrganizationalUnit :: string
  si_Country :: string

definition SubjectInput_Domain :: "SubjectInput \<Rightarrow> domain_error + Subject" where
  "SubjectInput_Domain s = NewSubject \<lparr>suf_CommonName = si_CommonName s, suf_Organization = si_Organization s,
     suf_OrganizationalUnit = si_OrganizationalUnit s, suf_Country = si_Country s\<rparr>"

record SANInput =
  sai_Type :: SANType
  sai_Value :: string

definition SANInput_Domain :: "(string \<Rightarrow> string option) \<Rightarrow> SANInput \<Rightarrow> domain_error + SAN" where
  "SANInput_Domain url s = NewSAN url (sai_Type s) (sai_Value s)"

fun san_inputs_from :: "(string \<Rightarrow> string option) \<Rightarrow> nat \<Rightarrow> SANInput list \<Rightarrow> go_error + SAN list" where
  "san_inputs_from url i [] = Inr []"
| "san_inputs_from url i (item # rest) =
     (case SANInput_Domain url item of
        Inl err \<Rightarrow> Inl (Wrap (''san['' @ decimal_text i @ '']: '') (Domain err))
      | Inr san \<Rightarrow> and_then (san_inputs_from url (Suc i) rest) (\<lambda>sans. Inr (san # sans)))"

definition SANInputs :: "(string \<Rightarrow> string option) \<Rightarrow> SANInput list \<Rightarrow> go_error + SAN list" where
  "SANInputs url inputs = san_inputs_from url 0 inputs"

record ValidityInput =
  vi_Value :: int64
  vi_Unit :: ValidityUnit

definition ValidityInput_Domain :: "ValidityInput \<Rightarrow> domain_error + CalendarValidity" where
  "ValidityInput_Domain v = NewCalendarValidity (vi_Value v) (vi_Unit v)"

subsection \<open>The commands\<close>

definition maxLeafNameLength :: nat where "maxLeafNameLength = 255"
definition maxSANCount :: nat where "maxSANCount = 100"

definition wrap_as :: "ErrorKind \<Rightarrow> string \<Rightarrow> string \<Rightarrow> domain_error \<Rightarrow> go_error" where
  "wrap_as kind code detail d = App (WrapAppError kind code detail (Domain d))"

definition wrap_as_with :: "ErrorKind \<Rightarrow> string \<Rightarrow> string \<Rightarrow> string \<Rightarrow> string \<Rightarrow> domain_error \<Rightarrow> go_error" where
  "wrap_as_with kind code detail field val d =
     App (AppError_WithField (WrapAppError kind code detail (Domain d)) field val)"

definition invalid_id :: "(string \<Rightarrow> domain_error + string) \<Rightarrow> string \<Rightarrow> (domain_error \<Rightarrow> go_error) \<Rightarrow> go_error option" where
  "invalid_id parse raw f = map_option f (err_of (parse raw))"

record IssuanceIssueCommand =
  ii_Name :: string
  ii_AuthorityID :: AuthorityID
  ii_Profile :: CertificateProfile
  ii_Subject :: SubjectInput
  ii_SANs :: "SANInput list"
  ii_KeyAlgorithm :: KeyAlgorithm
  ii_Validity :: "ValidityInput option"
  ii_RotateEvery :: "int64 option"

definition DomainProfile :: "IssuanceIssueCommand \<Rightarrow> go_error + CertificateProfile" where
  "DomainProfile c =
     check_then (map_option (wrap_as_with ErrorKindValidation ''invalid_profile'' ''profile is unsupported''
        ''profile'' (CertificateProfile_text (ii_Profile c))) (CertificateProfile_Validate (ii_Profile c)))
      (Inr (ii_Profile c))"

fun KeyAlgorithm_text :: "KeyAlgorithm \<Rightarrow> string" where
  "KeyAlgorithm_text KeyAlgorithmECDSAP256 = ''ecdsa_p256''"
| "KeyAlgorithm_text KeyAlgorithmECDSAP384 = ''ecdsa_p384''"
| "KeyAlgorithm_text KeyAlgorithmRSA2048 = ''rsa_2048''"
| "KeyAlgorithm_text KeyAlgorithmRSA3072 = ''rsa_3072''"
| "KeyAlgorithm_text KeyAlgorithmRSA4096 = ''rsa_4096''"
| "KeyAlgorithm_text (KeyAlgorithmOther s) = s"

definition optional_algorithm :: "KeyAlgorithm \<Rightarrow> go_error + KeyAlgorithm" where
  "optional_algorithm alg =
     (if KeyAlgorithm_text alg = [] then Inr DefaultKeyAlgorithm
      else check_then (map_option (wrap_as_with ErrorKindValidation ''invalid_key_algorithm''
          ''key_algorithm is unsupported'' ''key_algorithm'' (KeyAlgorithm_text alg)) (KeyAlgorithm_Validate alg))
        (Inr alg))"

definition DomainKeyAlgorithm :: "IssuanceIssueCommand \<Rightarrow> go_error + KeyAlgorithm" where
  "DomainKeyAlgorithm c = optional_algorithm (ii_KeyAlgorithm c)"

definition DomainSANs :: "(string \<Rightarrow> string option) \<Rightarrow> IssuanceIssueCommand \<Rightarrow> go_error + SAN list" where
  "DomainSANs url c = SANInputs url (ii_SANs c)"

text \<open>The pair of value and presence of \<open>DomainRotateEvery\<close> is the option itself.\<close>

definition DomainRotateEvery :: "IssuanceIssueCommand \<Rightarrow> int64 \<times> bool" where
  "DomainRotateEvery c = (case ii_RotateEvery c of None \<Rightarrow> (0, False) | Some n \<Rightarrow> (n, True))"

definition invalid_sans :: "go_error \<Rightarrow> go_error" where
  "invalid_sans err = App (WrapAppError ErrorKindValidation ''invalid_sans'' ''sans are invalid'' err)"

definition invalid_subject :: "domain_error \<Rightarrow> go_error" where
  "invalid_subject = wrap_as ErrorKindValidation ''invalid_subject'' ''subject is invalid''"

definition invalid_validity :: "domain_error \<Rightarrow> go_error" where
  "invalid_validity = wrap_as ErrorKindValidation ''invalid_validity''
     ''validity must have a positive value and a supported unit''"

definition rotate_every_error :: "int64 option \<Rightarrow> go_error option" where
  "rotate_every_error r =
     (case r of None \<Rightarrow> None
      | Some n \<Rightarrow> if n < minRotateEverySetting \<or> n > maxRotateEverySetting
          then Some (app_error ErrorKindValidation ''invalid_rotate_every'' ''rotate_every must be 1..100'')
          else None)"

definition validity_error :: "ValidityInput option \<Rightarrow> go_error option" where
  "validity_error v =
     (case v of None \<Rightarrow> None | Some x \<Rightarrow> map_option invalid_validity (err_of (ValidityInput_Domain x)))"

definition IssueCommand_Validate :: "(string \<Rightarrow> string option) \<Rightarrow> IssuanceIssueCommand \<Rightarrow> go_error option" where
  "IssueCommand_Validate url c =
     (if ii_Name c = [] \<or> length (ii_Name c) > maxLeafNameLength
        then Some (app_error_with ErrorKindValidation ''invalid_name'' ''name must be 1..255 characters''
          ''name'' (ii_Name c))
      else or_else_err (invalid_id ParseAuthorityID (ii_AuthorityID c) (wrap_as_with ErrorKindValidation
          ''invalid_authority_id'' ''authority_id must be a uuid'' ''authority_id'' (ii_AuthorityID c)))
      (case DomainProfile c of
         Inl err \<Rightarrow> Some err
       | Inr profile \<Rightarrow>
           if length (ii_SANs c) > maxSANCount
             then Some (app_error ErrorKindValidation ''too_many_sans'' ''sans must be at most 100 entries'')
           else
             (case DomainSANs url c of
                Inl err \<Rightarrow> Some (invalid_sans err)
              | Inr sans \<Rightarrow>
                  or_else_err (map_option invalid_subject (err_of (SubjectInput_Domain (ii_Subject c))))
                  (or_else_err (map_option (wrap_as ErrorKindValidation ''sans_required_for_profile''
                      ''server_tls/dual require at least one dns or ip san'') (ValidateSANsForProfile profile sans))
                  (or_else_err (err_of (DomainKeyAlgorithm c))
                  (or_else_err (validity_error (ii_Validity c))
                   (rotate_every_error (ii_RotateEvery c))))))))"

record IssuanceRenewCommand =
  rn_SeriesID :: SeriesID
  rn_SourceCertificateID :: CertificateID
  rn_TargetAuthorityID :: AuthorityID
  rn_TransitionID :: TransitionID

definition optional_id :: "(string \<Rightarrow> domain_error + string) \<Rightarrow> string \<Rightarrow> (domain_error \<Rightarrow> go_error) \<Rightarrow> go_error option" where
  "optional_id parse raw f = (if raw \<noteq> [] then invalid_id parse raw f else None)"

definition RenewCommand_Validate :: "IssuanceRenewCommand \<Rightarrow> go_error option" where
  "RenewCommand_Validate c =
     or_else_err (invalid_id ParseSeriesID (rn_SeriesID c)
        (wrap_as ErrorKindValidation ''invalid_series_id'' ''series id must be a uuid''))
     (or_else_err (invalid_id ParseCertificateID (rn_SourceCertificateID c) (wrap_as_with ErrorKindValidation
        ''invalid_source_certificate_id'' ''source_certificate_id must be a uuid''
        ''source_certificate_id'' (rn_SourceCertificateID c)))
     (or_else_err (optional_id ParseAuthorityID (rn_TargetAuthorityID c) (wrap_as_with ErrorKindValidation
        ''invalid_target_authority_id'' ''target_authority_id must be a uuid''
        ''target_authority_id'' (rn_TargetAuthorityID c)))
      (optional_id ParseTransitionID (rn_TransitionID c) (wrap_as_with ErrorKindValidation
        ''invalid_transition_id'' ''transition_id must be a uuid'' ''transition_id'' (rn_TransitionID c)))))"

subsection \<open>The normalized input of a request\<close>

text \<open>Members of an optional string are left out when it is empty.\<close>

definition member :: "string \<Rightarrow> string \<Rightarrow> (string \<times> json) list" where
  "member name s = [(name, JString s)]"

definition member_omitempty :: "string \<Rightarrow> string \<Rightarrow> (string \<times> json) list" where
  "member_omitempty name s = (if s = [] then [] else [(name, JString s)])"

definition subjectForHash :: "Subject \<Rightarrow> json" where
  "subjectForHash s = JObject (member ''common_name'' (su_commonName s)
     @ member_omitempty ''organization'' (su_organization s)
     @ member_omitempty ''organizational_unit'' (su_organizationalUnit s)
     @ member_omitempty ''country'' (su_country s))"

type_synonym hashSAN = "string \<times> string"

definition hash_san :: "SAN \<Rightarrow> hashSAN" where
  "hash_san s = (SANType_text (san_kind s), san_value s)"

fun dedup_sans :: "hashSAN list \<Rightarrow> hashSAN list \<Rightarrow> hashSAN list" where
  "dedup_sans seen [] = []"
| "dedup_sans seen (h # hs) = (if h \<in> set seen then dedup_sans seen hs else h # dedup_sans (h # seen) hs)"

text \<open>\<open>sort.Slice\<close> by type and then value; after deduplication no two entries compare equal. Sorting by
  value first and then, stably, by type is that order.\<close>

definition normalizedSANsForHash :: "SAN list \<Rightarrow> hashSAN list" where
  "normalizedSANsForHash sans = sort_key fst (sort_key snd (dedup_sans [] (map hash_san sans)))"

definition san_json :: "hashSAN \<Rightarrow> json" where
  "san_json h = JObject [(''type'', JString (fst h)), (''value'', JString (snd h))]"

definition sans_member :: "hashSAN list \<Rightarrow> (string \<times> json) list" where
  "sans_member hs = (if hs = [] then [] else [(''sans'', JArray (map san_json hs))])"

definition validity_member :: "ValidityInput option \<Rightarrow> (string \<times> json) list" where
  "validity_member v = (case v of None \<Rightarrow> [] | Some x \<Rightarrow>
     [(''validity'', JObject [(''value'', JNumber (int_text (vi_Value x))), (''unit'', JString (unit_text (vi_Unit x)))])])"

definition issueHashInput :: "IssuanceIssueCommand \<Rightarrow> CertificateProfile \<Rightarrow> Subject \<Rightarrow> SAN list \<Rightarrow> KeyAlgorithm \<Rightarrow> json" where
  "issueHashInput cmd profile subject sans alg = JObject (
     member ''name'' (ii_Name cmd) @ member ''authority_id'' (NormalizeUUID (ii_AuthorityID cmd))
     @ member ''profile'' (CertificateProfile_text profile) @ [(''subject'', subjectForHash subject)]
     @ sans_member (normalizedSANsForHash sans)
     @ member ''key_algorithm'' (KeyAlgorithm_text alg)
     @ validity_member (ii_Validity cmd)
     @ (case ii_RotateEvery cmd of None \<Rightarrow> [] | Some n \<Rightarrow> [(''rotate_every'', JNumber (int_text n))]))"

definition renewHashInput :: "IssuanceRenewCommand \<Rightarrow> json" where
  "renewHashInput cmd = JObject (
     member ''source_certificate_id'' (NormalizeUUID (rn_SourceCertificateID cmd))
     @ (if rn_TargetAuthorityID cmd = [] then [] else member ''target_authority_id'' (NormalizeUUID (rn_TargetAuthorityID cmd)))
     @ (if rn_TransitionID cmd = [] then [] else member ''transition_id'' (NormalizeUUID (rn_TransitionID cmd))))"

subsection \<open>The stored result\<close>

definition issuanceStoredResultSchemaVersion :: int64 where "issuanceStoredResultSchemaVersion = 1"

record storedIssuanceResult =
  st_SchemaVersion :: int64
  st_SeriesID :: string
  st_CertificateID :: string
  st_KeyGenerationID :: string
  st_RenewalCount :: int64
  st_KeyRotated :: bool
  st_DeliveryID :: string

definition zero_stored_result :: storedIssuanceResult where
  "zero_stored_result = \<lparr>st_SchemaVersion = 0, st_SeriesID = [], st_CertificateID = [], st_KeyGenerationID = [],
     st_RenewalCount = 0, st_KeyRotated = False, st_DeliveryID = []\<rparr>"

definition stored_result_json :: "storedIssuanceResult \<Rightarrow> json" where
  "stored_result_json v = JObject ([(''schema_version'', JNumber (int_text (st_SchemaVersion v))),
     (''series_id'', JString (st_SeriesID v)), (''certificate_id'', JString (st_CertificateID v)),
     (''key_generation_id'', JString (st_KeyGenerationID v)),
     (''renewal_count'', JNumber (int_text (st_RenewalCount v))),
     (''key_rotated'', JBool (st_KeyRotated v))] @ member_omitempty ''delivery_id'' (st_DeliveryID v))"

definition decode_bool :: "json \<Rightarrow> bool \<Rightarrow> bool option" where
  "decode_bool v old = (case v of JBool b \<Rightarrow> Some b | JNull \<Rightarrow> Some old | _ \<Rightarrow> None)"

definition stored_result_field :: "string \<Rightarrow> json \<Rightarrow> storedIssuanceResult \<Rightarrow> storedIssuanceResult option" where
  "stored_result_field k v x =
     (if k = ''SCHEMA_VERSION'' then map_option (\<lambda>n. x\<lparr>st_SchemaVersion := n\<rparr>) (decode_int v (st_SchemaVersion x))
      else if k = ''SERIES_ID'' then map_option (\<lambda>s. x\<lparr>st_SeriesID := s\<rparr>) (decode_string v (st_SeriesID x))
      else if k = ''CERTIFICATE_ID'' then map_option (\<lambda>s. x\<lparr>st_CertificateID := s\<rparr>) (decode_string v (st_CertificateID x))
      else if k = ''KEY_GENERATION_ID''
        then map_option (\<lambda>s. x\<lparr>st_KeyGenerationID := s\<rparr>) (decode_string v (st_KeyGenerationID x))
      else if k = ''RENEWAL_COUNT'' then map_option (\<lambda>n. x\<lparr>st_RenewalCount := n\<rparr>) (decode_int v (st_RenewalCount x))
      else if k = ''KEY_ROTATED'' then map_option (\<lambda>b. x\<lparr>st_KeyRotated := b\<rparr>) (decode_bool v (st_KeyRotated x))
      else if k = ''DELIVERY_ID'' then map_option (\<lambda>s. x\<lparr>st_DeliveryID := s\<rparr>) (decode_string v (st_DeliveryID x))
      else Some x)"

definition decodeStoredIssuanceResult :: "OperationRequestResult \<Rightarrow> go_error + storedIssuanceResult" where
  "decodeStoredIssuanceResult stored =
     and_then (DecodeStoredResult (decode_struct stored_result_field) stored zero_stored_result) (\<lambda>v.
       if st_SchemaVersion v \<noteq> issuanceStoredResultSchemaVersion
         then Inl (app_error_with ErrorKindUnavailable ''issuance_stored_result_schema_unsupported''
           ''a stored issuance result carries an unsupported schema_version''
           ''schema_version'' (int_text (st_SchemaVersion v)))
       else Inr v)"

subsection \<open>The policy snapshot of a leaf certificate\<close>

definition leafPolicySnapshotSchemaVersion :: int64 where "leafPolicySnapshotSchemaVersion = 1"

text \<open>The value holds only strings and numbers, so \<open>Marshal\<close> cannot fail on it.\<close>

definition leafPolicySnapshotJSON :: "Certificate \<Rightarrow> SeriesPolicy \<Rightarrow> string" where
  "leafPolicySnapshotJSON cert pol = json_text (JObject (
     [(''schema_version'', JNumber (int_text leafPolicySnapshotSchemaVersion)),
      (''profile'', JString (CertificateProfile_text (ce_profile cert)))]
     @ sans_member (map hash_san (ce_sans cert))
     @ [(''validity'', validity_json \<lparr>vw_Value = cv_value (sp_CertificateValidity pol),
           vw_Unit = unit_text (cv_unit (sp_CertificateValidity pol))\<rparr>),
        (''rotate_every'', JNumber (int_text (sp_RotateEvery pol)))]))"

lemma stored_result_upper:
  "map ascii_upper ''schema_version'' = ''SCHEMA_VERSION''"
  "map ascii_upper ''series_id'' = ''SERIES_ID''"
  "map ascii_upper ''certificate_id'' = ''CERTIFICATE_ID''"
  "map ascii_upper ''key_generation_id'' = ''KEY_GENERATION_ID''"
  "map ascii_upper ''renewal_count'' = ''RENEWAL_COUNT''"
  "map ascii_upper ''key_rotated'' = ''KEY_ROTATED''"
  "map ascii_upper ''delivery_id'' = ''DELIVERY_ID''"
  by code_simp+

lemma stored_result_names:
  "fold_name ''schema_version'' = ''SCHEMA_VERSION''"
  "fold_name ''series_id'' = ''SERIES_ID''"
  "fold_name ''certificate_id'' = ''CERTIFICATE_ID''"
  "fold_name ''key_generation_id'' = ''KEY_GENERATION_ID''"
  "fold_name ''renewal_count'' = ''RENEWAL_COUNT''"
  "fold_name ''key_rotated'' = ''KEY_ROTATED''"
  "fold_name ''delivery_id'' = ''DELIVERY_ID''"
  by (subst fold_name_ascii; simp add: byte_in_def stored_result_upper del: list.map)+

lemma stored_result_utf8:
  "valid_utf8 ''schema_version''" "valid_utf8 ''series_id''" "valid_utf8 ''certificate_id''"
  "valid_utf8 ''key_generation_id''" "valid_utf8 ''renewal_count''" "valid_utf8 ''key_rotated''"
  "valid_utf8 ''delivery_id''"
  by (rule valid_utf8_ascii, simp add: byte_in_def)+

lemma stored_result_back:
  assumes "st_SchemaVersion v = issuanceStoredResultSchemaVersion" and "in_int64 (st_RenewalCount v)"
    and "valid_utf8 (st_SeriesID v)" "valid_utf8 (st_CertificateID v)" "valid_utf8 (st_KeyGenerationID v)"
      "valid_utf8 (st_DeliveryID v)"
    and "or_ResultJSON stored = json_text (stored_result_json v)"
  shows "decodeStoredIssuanceResult stored = Inr v"
proof -
  have one: "in_int64 (1 :: int)" by (simp add: in_int64_def int64_bounds)
  have "clean_json (stored_result_json v)" and "json_depth (stored_result_json v) \<le> maxNestingDepth"
    using assms(3-6) by (auto simp: stored_result_json_def member_omitempty_def stored_result_utf8 maxNestingDepth_def)
  then have "json_parse (json_text (stored_result_json v)) = Some (stored_result_json v)" by (rule json_parse_text)
  moreover have "decode_struct stored_result_field (stored_result_json v) zero_stored_result = Some v"
    using assms(1,2) one
    by (cases v) (simp add: stored_result_json_def stored_result_field_def zero_stored_result_def member_omitempty_def
        stored_result_names decode_bool_def issuanceStoredResultSchemaVersion_def)
  ultimately show ?thesis using assms(1,7)
    by (simp add: decodeStoredIssuanceResult_def DecodeStoredResult_def json_unmarshal_def and_then_Inr)
qed

end
