(* ===== verification/Issuance_Service.thy ===== *)
theory Issuance_Service
  imports Signing Issuance_Input
begin

text \<open>
  \<open>internal/app/service/issuance.go\<close>: the issuing and renewing of leaf certificates. Keys and
  signatures are made outside the transaction; one transaction then re-checks every fact the preparation
  relied on and stores the result, and a preparation found stale is redone, at most five times, with the key it
  already generated. Clock readings are numbered by attempt and by their order in it (attempt 0
  is the lookup of an earlier result); \<open>iu_meanwhile\<close> is what other requests do to the store before a
  transaction of this one begins.
\<close>

record issuance_env = crypto_env +
  iu_authorize :: Authorizer
  iu_ids :: "nat \<Rightarrow> string"
  iu_clock :: "nat \<Rightarrow> nat \<Rightarrow> Instant"
  iu_fate :: "nat \<Rightarrow> nat \<Rightarrow> commit_fate"
  iu_ctxErr :: "nat \<Rightarrow> nat \<Rightarrow> go_error option"
  iu_meanwhile :: "nat \<Rightarrow> nat \<Rightarrow> ledger \<Rightarrow> ledger"
  iu_url :: "string \<Rightarrow> string option"

definition maxSerialAttempts :: nat where "maxSerialAttempts = 5"

definition issuanceOperationIssue :: string where "issuanceOperationIssue = ''issuance.issue''"
definition issuanceOperationRenew :: string where "issuanceOperationRenew = ''issuance.renew''"

record IssuanceDeps = CommonDeps +
  id_KeyEngine :: bool
  id_CertificateSigner :: bool
  id_SerialGenerator :: bool
  id_ProfileValidator :: bool

text \<open>Which of the dependencies are present.\<close>

definition IssuanceDeps_Validate :: "IssuanceDeps \<Rightarrow> go_error option" where
  "IssuanceDeps_Validate d =
     or_else_err (CommonDeps_Validate (CommonDeps.truncate d))
      (firstMissing [\<lparr>rd_Name = ''KeyEngine'', rd_Missing = \<not> id_KeyEngine d\<rparr>,
         \<lparr>rd_Name = ''CertificateSigner'', rd_Missing = \<not> id_CertificateSigner d\<rparr>,
         \<lparr>rd_Name = ''SerialGenerator'', rd_Missing = \<not> id_SerialGenerator d\<rparr>,
         \<lparr>rd_Name = ''ProfileValidator'', rd_Missing = \<not> id_ProfileValidator d\<rparr>])"

subsection \<open>Views\<close>

record DeliveryView =
  dv_ID :: DeliveryID
  dv_CertificateID :: CertificateID
  dv_State :: DeliveryState
  dv_ExpiresAt :: Instant
  dv_ConsumedAt :: "Instant option"
  dv_FinishedAt :: "Instant option"
  dv_FailureCode :: string
  dv_Version :: Version

definition instantPtr :: "Instant \<Rightarrow> Instant option" where
  "instantPtr at = (if Instant_IsZero at then None else Some at)"

definition toDeliveryView :: "Delivery \<Rightarrow> DeliveryView" where
  "toDeliveryView d = \<lparr>dv_ID = de_id d, dv_CertificateID = de_certificateID d, dv_State = de_state d,
     dv_ExpiresAt = de_expiresAt d, dv_ConsumedAt = instantPtr (de_consumedAt d),
     dv_FinishedAt = instantPtr (de_finishedAt d), dv_FailureCode = de_failureCode d, dv_Version = de_version d\<rparr>"

record IssuanceView =
  iv_SeriesID :: SeriesID
  iv_CertificateID :: CertificateID
  iv_KeyGenerationID :: LeafKeyGenerationID
  iv_RenewalCount :: int64
  iv_KeyRotated :: bool
  iv_Delivery :: "DeliveryView option"

definition zero_issuance_view :: IssuanceView where
  "zero_issuance_view = \<lparr>iv_SeriesID = [], iv_CertificateID = [], iv_KeyGenerationID = [], iv_RenewalCount = 0,
     iv_KeyRotated = False, iv_Delivery = None\<rparr>"

definition stored_view :: "storedIssuanceResult \<Rightarrow> DeliveryView option \<Rightarrow> IssuanceView" where
  "stored_view v d = \<lparr>iv_SeriesID = st_SeriesID v, iv_CertificateID = st_CertificateID v,
     iv_KeyGenerationID = st_KeyGenerationID v, iv_RenewalCount = st_RenewalCount v,
     iv_KeyRotated = st_KeyRotated v, iv_Delivery = d\<rparr>"

definition toView :: "storedIssuanceResult \<Rightarrow> (ledger, IssuanceView) tx" where
  "toView v =
     (if st_DeliveryID v \<noteq> []
        then tx_bind (tx_store (GetDeliveryForUpdate (st_DeliveryID v)) ''issuance_replay_delivery_read_failed''
            ''could not read the current delivery status for replay'')
          (\<lambda>delivery. tx_return (stored_view v (Some (toDeliveryView delivery))))
      else tx_return (stored_view v None))"

text \<open>The lookup of an earlier result, in the preparation and in the commit alike.\<close>

definition replay_view :: "OperationRequestKey \<Rightarrow> string \<Rightarrow> (ledger, IssuanceView option) tx" where
  "replay_view key inputHash =
     tx_bind (ReplayStoredResult key inputHash) (\<lambda>stored. case stored of
        None \<Rightarrow> tx_return None
      | Some r \<Rightarrow>
          tx_bind (tx_lift (decodeStoredIssuanceResult r)) (\<lambda>v.
          tx_bind (toView v) (\<lambda>view. tx_return (Some view))))"

subsection \<open>Defaults from the settings\<close>

record resolvedSeriesDefaults =
  dd_Validity :: CalendarValidity
  dd_RotateEvery :: int64
  dd_PrivateDeliverySeconds :: int64
  dd_ServiceURL :: string
  dd_SettingsVersion :: Version

definition settings_not_configured :: go_error where
  "settings_not_configured = app_error ErrorKindConflict ''issuance_settings_not_configured''
     ''installation settings have not been initialized; complete Setup before issuing certificates''"

definition issuance_settings :: "(ledger, Settings) tx" where
  "issuance_settings = tx_read GetSettings settings_not_configured
     ''issuance_settings_read_failed'' ''could not read installation settings''"

text \<open>An omitted validity is the zero validity, an omitted \<open>rotate_every\<close> zero.\<close>

definition resolveSeriesDefaults :: "ValidityInput option \<Rightarrow> int64 option \<Rightarrow> (ledger, resolvedSeriesDefaults) tx" where
  "resolveSeriesDefaults validity rotateEvery =
     tx_bind (case validity of
        None \<Rightarrow> tx_return \<lparr>cv_value = 0, cv_unit = ValidityUnitOther []\<rparr>
      | Some v \<Rightarrow> (case ValidityInput_Domain v of Inl err \<Rightarrow> tx_fail (invalid_validity err) | Inr c \<Rightarrow> tx_return c))
     (\<lambda>given.
     let requested = (case rotateEvery of None \<Rightarrow> 0 | Some n \<Rightarrow> n) in
     tx_bind issuance_settings (\<lambda>settings.
     tx_bind (tx_lift (DecodeSettingsV1 settings)) (\<lambda>snap.
     tx_return \<lparr>dd_Validity = (if CalendarValidity_IsZero given then sv_LeafValidity snap else given),
        dd_RotateEvery = (if requested = 0 then sv_RotateEvery snap else requested),
        dd_PrivateDeliverySeconds = sv_PrivateDeliverySeconds snap, dd_ServiceURL = sv_ServiceURL snap,
        dd_SettingsVersion = se_Version settings\<rparr>)))"

subsection \<open>Shared checks\<close>

text \<open>\<open>errors.Is\<close> with the sentinel of a stale preparation.\<close>

definition errRePrepare :: go_error where
  "errRePrepare = Opaque ''service: prepared issuance is stale, prepare again''"

fun Is_rePrepare :: "go_error \<Rightarrow> bool" where
  "Is_rePrepare (Opaque s) \<longleftrightarrow> Opaque s = errRePrepare"
| "Is_rePrepare (Wrap _ e) \<longleftrightarrow> Is_rePrepare e"
| "Is_rePrepare (App (AppError _ _ _ _ (Some e))) \<longleftrightarrow> Is_rePrepare e"
| "Is_rePrepare _ \<longleftrightarrow> False"

definition settingsUnchanged :: "Version \<Rightarrow> (ledger, unit) tx" where
  "settingsUnchanged prepared =
     tx_bind issuance_settings (\<lambda>settings.
     if se_Version settings \<noteq> prepared then tx_fail errRePrepare else tx_return ())"

definition ensureSerialUnused :: "CAKeyGenerationID \<Rightarrow> SerialNumber \<Rightarrow> (ledger, unit) tx" where
  "ensureSerialUnused issuer serial =
     tx_bind (tx_store (SerialExists issuer serial) ''issuance_serial_check_failed''
        ''could not check serial uniqueness'') (\<lambda>exists.
     if exists then tx_fail errRePrepare else tx_return ())"

definition verifyCASigningKeyLive :: "Authority \<Rightarrow> (ledger, Certificate \<times> CAKeyGeneration) tx" where
  "verifyCASigningKeyLive issuer =
     tx_bind (tx_read (GetCAKeyGeneration (au_keyGenerationID issuer))
        (app_error ErrorKindUnavailable ''issuance_ca_key_generation_not_found''
          ''the issuing authority's CA key generation could not be found'')
        ''issuance_ca_key_generation_read_failed''
        ''could not read the issuing authority's CA key generation'') (\<lambda>generation.
     if \<not> Instant_IsZero (cg_KeyDestroyedAt generation)
       then tx_fail (app_error ErrorKindForbidden ''issuance_ca_key_destroyed''
         ''the issuing authority's signing key has been destroyed'')
     else if cg_AuthorityID generation \<noteq> au_id issuer
       then tx_fail (app_error ErrorKindForbidden ''issuance_ca_key_generation_mismatch''
         ''the CA key generation does not belong to the issuing authority'')
     else
       tx_bind (tx_store (PKI_GetCertificate (au_issuanceCertificateID issuer))
          ''issuance_issuer_certificate_read_failed''
          ''could not read the issuing authority's own certificate'') (\<lambda>caCert.
       if ce_kind caCert \<noteq> CertificateKindCA
         then tx_fail (app_error ErrorKindForbidden ''issuance_issuer_certificate_invalid''
           ''the issuing authority's own certificate is not a CA certificate'')
       else if ce_keyMaterialID caCert \<noteq> cg_KeyMaterialID generation
         then tx_fail (app_error ErrorKindForbidden ''issuance_ca_certificate_key_mismatch''
           ''the issuing authority's certificate does not use its current CA key generation's key material'')
       else
         tx_bind (tx_store (PKI_GetCACertificateRecord (ce_id caCert))
            ''issuance_ca_certificate_record_read_failed''
            ''could not read the issuing authority's CA certificate record'') (\<lambda>caRecord.
         if cr_CAKeyGenerationID caRecord \<noteq> au_keyGenerationID issuer
           then tx_fail (app_error ErrorKindForbidden ''issuance_ca_certificate_generation_mismatch''
             ''the issuing authority's certificate does not belong to its current CA key generation'')
         else tx_return (caCert, generation))))"

definition caSigningSecret :: "Authority \<Rightarrow> (ledger, EncryptedSecret \<times> Certificate) tx" where
  "caSigningSecret issuer =
     tx_bind (verifyCASigningKeyLive issuer) (\<lambda>(caCert, generation).
     let purpose = (if au_kind issuer = AuthorityKindBootstrap then SecretPurposeBootstrapCA
                    else SecretPurposeCASigning) in
     tx_bind (tx_store (GetEncrypted (cg_KeyMaterialID generation) purpose) ''issuance_issuer_secret_read_failed''
        ''could not read the issuing authority's signing key'') (\<lambda>secret.
     tx_return (secret, caCert)))"

definition trim_right_slashes :: "string \<Rightarrow> string" where
  "trim_right_slashes s = rev (dropWhile (\<lambda>c. c = CHR ''/'') (rev s))"

definition leafCRLDistributionPoints :: "string \<Rightarrow> CertificateID \<Rightarrow> go_error + string list" where
  "leafCRLDistributionPoints serviceURL issuerCertificateID =
     (let base = trim_right_slashes (TrimSpace serviceURL) in
      if base = [] then Inl (app_error ErrorKindUnavailable ''issuance_crl_url_unavailable''
        ''installation settings carry no service URL to build a CRL distribution point from'')
      else if issuerCertificateID = [] then Inl (app_error ErrorKindUnavailable ''issuance_crl_url_unavailable''
        ''no issuing CA certificate was selected to build a CRL distribution point from'')
      else Inr [base @ ''/pki/ca-certificates/'' @ issuerCertificateID @ ''/crl.der''])"

definition insertGeneratedKeyMaterial :: "KeyMaterialID \<Rightarrow> PublicKey \<Rightarrow> (ledger, unit) tx" where
  "insertGeneratedKeyMaterial keyMaterialID publicKey =
     tx_store (InsertKeyMaterial \<lparr>km_ID = keyMaterialID, km_PublicKey = publicKey, km_Origin = ''generated'',
        km_CompromisedAt = zero_instant\<rparr>)
       ''issuance_key_material_store_failed'' ''could not store the new key material''"

definition storeFreshKeyAndDelivery ::
  "(nat \<Rightarrow> string) \<Rightarrow> Instant \<Rightarrow> KeyMaterialID \<Rightarrow> EncryptedSecret \<Rightarrow> LeafKeyGenerationID \<Rightarrow> CertificateID \<Rightarrow> int64
     \<Rightarrow> (ledger, Delivery) tx" where
  "storeFreshKeyAndDelivery ids now keyMaterialID secret leafKeyGenerationID certificateID deliverySeconds =
     (if es_ownerKeyID secret \<noteq> keyMaterialID \<or> es_purpose secret \<noteq> SecretPurposeLeafDelivery
        then tx_fail (app_error ErrorKindUnavailable ''issuance_generated_secret_mismatch''
          ''the generated private key does not match the new leaf key material'')
      else
        tx_bind (tx_store (InsertEncrypted secret) ''issuance_secret_store_failed''
           ''could not store the encrypted private key'') (\<lambda>_.
        tx_bind (NewUUID ids) (\<lambda>raw.
        tx_bind (tx_domain (ParseDeliveryID raw)) (\<lambda>deliveryID.
        tx_bind (tx_domain (NewDelivery \<lparr>def_ID = deliveryID, def_LeafKeyGenerationID = leafKeyGenerationID,
            def_CertificateID = certificateID,
            def_ExpiresAt = Instant_Add now (seconds_duration deliverySeconds),
            def_State = DeliveryStatePending, def_ConsumedAt = zero_instant, def_FinishedAt = zero_instant,
            def_FailureCode = [], def_Version = 0\<rparr>)) (\<lambda>delivery.
        tx_bind (tx_store (InsertDelivery delivery) ''issuance_delivery_store_failed''
           ''could not store the delivery record'') (\<lambda>_.
        tx_return delivery))))))"

definition issuance_event ::
  "string \<Rightarrow> Instant \<Rightarrow> MutationMeta \<Rightarrow> string \<Rightarrow> Certificate \<Rightarrow> AuditEvent" where
  "issuance_event i now meta action cert =
     \<lparr>ae_ID = i, ae_OccurredAt = now, ae_ActorKind = ''account'',
      ae_ActorID = Principal_AccountID (rq_Principal meta), ae_TokenID = [], ae_Action = action,
      ae_TargetType = ''certificate'', ae_TargetID = ce_id cert, ae_ClientIP = clientIP (RequestMeta.truncate meta),
      ae_Result = ''success'',
      ae_Details = \<lparr>ad_SchemaVersion = 1, ad_Fields = [''serial'' \<mapsto> sn_hex (ce_serial cert)]\<rparr>\<rparr>"

definition appendIssuanceAudit ::
  "(nat \<Rightarrow> string) \<Rightarrow> Instant \<Rightarrow> MutationMeta \<Rightarrow> string \<Rightarrow> Certificate \<Rightarrow> AuthorityID \<Rightarrow> (ledger, unit) tx" where
  "appendIssuanceAudit ids now meta action cert authorityID =
     tx_bind (NewUUID ids) (\<lambda>i.
     tx_store (Audit_Append (issuance_event i now meta action cert) (NewAuthoritiesAuditScope [authorityID]))
       ''issuance_audit_failed'' ''could not record the issuance audit event'')"

text \<open>\<open>RunWithRetry\<close> around \<open>UnitOfWork.Write\<close>: attempt \<open>k\<close> of the request, try \<open>t\<close> of the retry loop; the view
  the callback leaves behind starts out as the zero value of its type.\<close>

definition one_write ::
  "issuance_env \<Rightarrow> nat \<Rightarrow> (nat \<Rightarrow> (ledger, 'v) tx) \<Rightarrow> signing_world \<times> nat \<times> 'v
     \<Rightarrow> go_error option \<times> signing_world \<times> nat \<times> 'v" where
  "one_write env k body s =
     (case s of (w, t, out) \<Rightarrow>
        (case in_store (\<lambda>l. uow_write (iu_fate env k t) (body t) (iu_meanwhile env k (Suc t) l)) w of
           (Inl e, w') \<Rightarrow> (Some e, w', Suc t, out)
         | (Inr v, w') \<Rightarrow> (None, w', Suc t, v)))"

definition retried_write ::
  "'v \<Rightarrow> issuance_env \<Rightarrow> nat \<Rightarrow> (nat \<Rightarrow> (ledger, 'v) tx) \<Rightarrow> (signing_world, 'v) tx" where
  "retried_write zero env k body w =
     (case RunWithRetry (\<lambda>(_, t, _). iu_ctxErr env k (Suc t)) (one_write env k body) (w, 0, zero) of
        (Some e, w', _) \<Rightarrow> (Inl e, w')
      | (None, w', _, v) \<Rightarrow> (Inr v, w'))"

text \<open>What others did before a read of this request.\<close>

definition others :: "issuance_env \<Rightarrow> nat \<Rightarrow> (signing_world, unit) tx" where
  "others env k = in_store (\<lambda>l. (Inr (), iu_meanwhile env k 0 l))"

definition issuance_canceled :: "issuance_env \<Rightarrow> go_error option" where
  "issuance_canceled env = map_option (\<lambda>e. App (WrapAppError ErrorKindUnavailable ''request_canceled''
     ''the request was canceled before it completed'' e)) (iu_ctxErr env 0 0)"

definition replayBeforePreparation ::
  "issuance_env \<Rightarrow> OperationRequestKey \<Rightarrow> string \<Rightarrow> Principal \<Rightarrow> (ledger, unit) tx
     \<Rightarrow> (signing_world, IssuanceView option) tx" where
  "replayBeforePreparation env reqKey inputHash p authorize =
     tx_bind (others env 0) (\<lambda>_. in_store (
       tx_bind (requireCurrentAuth p (iu_clock env 0 0)) (\<lambda>_.
       tx_bind authorize (\<lambda>_.
       replay_view reqKey inputHash))))"

subsection \<open>Issue: preparation\<close>

definition authorizeIssue :: "issuance_env \<Rightarrow> Principal \<Rightarrow> AuthorityID \<Rightarrow> (ledger, unit) tx" where
  "authorizeIssue env p authorityID =
     tx_guard (iu_authorize env p ActionIssuanceIssue (NewAuthorizationScope [authorityID]))"

record issuePrepared =
  xi_now :: Instant
  xi_policy :: SeriesPolicy
  xi_defaults :: resolvedSeriesDefaults
  xi_plan :: IssuancePlan
  xi_issuerCertificate :: Certificate
  xi_keyMaterialID :: KeyMaterialID
  xi_publicKey :: PublicKey
  xi_generatedSecret :: "EncryptedSecret option"
  xi_crlDistributionPoints :: "string list"
  xi_certificate :: Certificate

definition authority_not_found :: "AuthorityID \<Rightarrow> go_error" where
  "authority_not_found authorityID = app_error_with ErrorKindValidation ''authority_not_found''
     ''authority does not exist'' ''authority_id'' authorityID"

definition read_issuer :: "AuthorityID \<Rightarrow> (ledger, Authority) tx" where
  "read_issuer authorityID = tx_read (GetIssuerForUpdate authorityID) (authority_not_found authorityID)
     ''issuance_authority_read_failed'' ''could not read the issuing authority''"

definition issue_reads ::
  "IssuanceIssueCommand \<Rightarrow> (ledger, Authority \<times> resolvedSeriesDefaults \<times> EncryptedSecret \<times> Certificate \<times> string list) tx" where
  "issue_reads cmd =
     tx_bind (read_issuer (ii_AuthorityID cmd)) (\<lambda>a.
     tx_bind (resolveSeriesDefaults (ii_Validity cmd) (ii_RotateEvery cmd)) (\<lambda>defaults.
     tx_bind (caSigningSecret a) (\<lambda>(secret, issuerCert).
     tx_bind (tx_lift (leafCRLDistributionPoints (dd_ServiceURL defaults) (ce_id issuerCert))) (\<lambda>points.
     tx_return (a, defaults, secret, issuerCert, points)))))"

definition prepareIssue ::
  "issuance_env \<Rightarrow> nat \<Rightarrow> MutationMeta \<Rightarrow> IssuanceIssueCommand \<Rightarrow> IssuanceRequest \<Rightarrow> issuePrepared option
     \<Rightarrow> (signing_world, issuePrepared) tx" where
  "prepareIssue env k meta cmd req reuse =
     (let now = iu_clock env k 0; createdBy = Principal_AccountID (rq_Principal meta) in
      tx_bind (others env k) (\<lambda>_.
      tx_bind (in_store (issue_reads cmd)) (\<lambda>(authority, defaults, issuerSecret, issuerCert, points).
      let pol = \<lparr>sp_RotateEvery = dd_RotateEvery defaults, sp_CertificateValidity = dd_Validity defaults\<rparr> in
      tx_bind (tx_domain_check (SeriesPolicy_Validate pol)) (\<lambda>_.
      tx_bind (tx_domain (PlanLeafWindow pol (x509NotBefore now))) (\<lambda>window.
      tx_bind (tx_domain (PlanIssuance authority (req\<lparr>ir_Window := window\<rparr>) now)) (\<lambda>plan.
      tx_bind (in_store (NewUUID (iu_ids env))) (\<lambda>raw.
      tx_bind (tx_domain (ParseCertificateID raw)) (\<lambda>certificateID.
      let prepared = (\<lambda>keyMaterialID publicKey secret cert.
        \<lparr>xi_now = now, xi_policy = pol, xi_defaults = defaults, xi_plan = plan, xi_issuerCertificate = issuerCert,
         xi_keyMaterialID = keyMaterialID, xi_publicKey = publicKey, xi_generatedSecret = secret,
         xi_crlDistributionPoints = points, xi_certificate = cert\<rparr>) in
      case reuse of
        Some old \<Rightarrow>
          tx_bind (resignWithNewSerial env plan certificateID (xi_keyMaterialID old) (xi_publicKey old)
             CertificateKindLeaf createdBy (Some issuerCert) issuerSecret points) (\<lambda>cert.
          tx_return (prepared (xi_keyMaterialID old) (xi_publicKey old) (xi_generatedSecret old) cert))
      | None \<Rightarrow>
          tx_bind (in_store (NewUUID (iu_ids env))) (\<lambda>rawKey.
          tx_bind (tx_domain (ParseKeyMaterialID rawKey)) (\<lambda>newKeyMaterialID.
          tx_bind (prepareCertificate env plan
             \<lparr>kr_Fresh = Some \<lparr>ks_KeyMaterialID = newKeyMaterialID, ks_Algorithm = ir_KeyAlgorithm req,
                 ks_Purpose = SecretPurposeLeafDelivery\<rparr>, kr_Existing = []\<rparr>
             zero_public_key certificateID (Some issuerCert) issuerSecret CertificateKindLeaf createdBy points)
          (\<lambda>pd. tx_return (prepared (pd_KeyMaterialID pd) (pd_GeneratedPublic pd) (pd_GeneratedSecret pd)
             (pd_Certificate pd)))))))))))))"

subsection \<open>Issue: the commit\<close>

definition leaf_context :: "ValidityWindow \<Rightarrow> IssuerContext" where
  "leaf_context window = \<lparr>ic_RequestedWindow = window, ic_TakeoverConfirmed = False, ic_Intent = IssuanceIntentLeaf\<rparr>"

definition issue_checks :: "IssuanceIssueCommand \<Rightarrow> issuePrepared \<Rightarrow> Instant \<Rightarrow> (ledger, unit) tx" where
  "issue_checks cmd prep commitNow =
     tx_bind (read_issuer (ii_AuthorityID cmd)) (\<lambda>authority.
     if au_keyGenerationID authority \<noteq> ip_IssuerKeyGenerationID (xi_plan prep) then tx_fail errRePrepare
     else
       tx_bind (tx_domain_check (CanIssue authority (leaf_context (ip_Window (xi_plan prep))) commitNow)) (\<lambda>_.
       tx_bind (verifyCASigningKeyLive authority) (\<lambda>_.
       tx_bind (settingsUnchanged (dd_SettingsVersion (xi_defaults prep))) (\<lambda>_.
       ensureSerialUnused (ip_IssuerKeyGenerationID (xi_plan prep)) (ce_serial (xi_certificate prep))))))"

definition leaf_record ::
  "Certificate \<Rightarrow> SeriesID \<Rightarrow> LeafKeyGenerationID \<Rightarrow> CertificateID \<Rightarrow> CertificateID \<Rightarrow> string \<Rightarrow> int64 \<Rightarrow> SeriesPolicy
     \<Rightarrow> LeafCertificateRecord" where
  "leaf_record cert seriesID keyGenID issuerCertID previous operation renewals pol =
     \<lparr>lr_CertificateID = ce_id cert, lr_SeriesID = seriesID, lr_LeafKeyGenerationID = keyGenID,
      lr_IssuerCACertificateID = issuerCertID, lr_PreviousCertificateID = previous, lr_Operation = operation,
      lr_RenewalCountAtIssue = renewals, lr_PolicySnapshotJSON = leafPolicySnapshotJSON cert pol\<rparr>"

definition store_leaf_record :: "LeafCertificateRecord \<Rightarrow> (ledger, unit) tx" where
  "store_leaf_record r = tx_store (InsertLeafCertificateRecord r) ''issuance_leaf_certificate_record_store_failed''
     ''could not store the leaf certificate record''"

definition issue_rows ::
  "issuance_env \<Rightarrow> IssuanceIssueCommand \<Rightarrow> issuePrepared \<Rightarrow> (ledger, SeriesID \<times> LeafKeyGenerationID) tx" where
  "issue_rows env cmd prep =
     (let cert = xi_certificate prep in
      tx_bind (NewUUID (iu_ids env)) (\<lambda>rawSeries.
      tx_bind (tx_domain (ParseSeriesID rawSeries)) (\<lambda>seriesID.
      tx_bind (NewUUID (iu_ids env)) (\<lambda>rawGen.
      tx_bind (tx_domain (ParseLeafKeyGenerationID rawGen)) (\<lambda>leafKeyGenID.
      tx_bind (tx_domain (NewLeafKeyGeneration \<lparr>kgf_ID = leafKeyGenID, kgf_SeriesID = seriesID,
         kgf_KeyMaterialID = xi_keyMaterialID prep, kgf_GenerationNo = 1, kgf_RenewalCount = 0,
         kgf_PriorHistoryUnknown = False, kgf_Custody = KeyCustodyPendingDelivery\<rparr>)) (\<lambda>leafKeyGen.
      let facts = \<lparr>lsf_ID = seriesID, lsf_Name = ii_Name cmd, lsf_Purpose = SeriesPurposeDistributed,
         lsf_ManagementAuthorityID = ii_AuthorityID cmd, lsf_CurrentCertificateID = [],
         lsf_CurrentKeyGenerationID = [], lsf_Policy = xi_policy prep, lsf_Version = 0,
         lsf_ArchivedAt = zero_instant\<rparr> in
      tx_bind (tx_domain (NewLeafSeries facts)) (\<lambda>emptySeries.
      tx_bind (tx_domain (NewLeafSeries (facts\<lparr>lsf_CurrentCertificateID := ce_id cert,
         lsf_CurrentKeyGenerationID := leafKeyGenID\<rparr>))) (\<lambda>series.
      tx_bind (tx_store (InsertSeries emptySeries) ''issuance_series_store_failed'' ''could not store the series'') (\<lambda>_.
      tx_bind (insertGeneratedKeyMaterial (xi_keyMaterialID prep) (xi_publicKey prep)) (\<lambda>_.
      tx_bind (tx_store (InsertLeafKeyGeneration leafKeyGen) ''issuance_leaf_key_generation_store_failed''
         ''could not store the leaf key generation'') (\<lambda>_.
      tx_bind (tx_store (InsertCertificate cert) ''issuance_certificate_store_failed''
         ''could not store the certificate'') (\<lambda>_.
      tx_bind (store_leaf_record (leaf_record cert seriesID leafKeyGenID (ce_id (xi_issuerCertificate prep)) []
         ''initial'' 0 (xi_policy prep))) (\<lambda>_.
      tx_bind (tx_store (SaveSeries series (ls_version emptySeries)) ''issuance_series_link_failed''
         ''could not link the first certificate to the series'') (\<lambda>_.
      tx_return (seriesID, leafKeyGenID)))))))))))))))"

definition issue_commit ::
  "issuance_env \<Rightarrow> MutationMeta \<Rightarrow> IssuanceIssueCommand \<Rightarrow> OperationRequestKey \<Rightarrow> string \<Rightarrow> issuePrepared \<Rightarrow> Instant
     \<Rightarrow> (ledger, IssuanceView) tx" where
  "issue_commit env meta cmd reqKey inputHash prep commitNow =
     tx_bind (issue_checks cmd prep commitNow) (\<lambda>_.
     tx_bind (issue_rows env cmd prep) (\<lambda>(seriesID, leafKeyGenID).
     case xi_generatedSecret prep of
       None \<Rightarrow> tx_fail (app_error ErrorKindUnavailable ''issuance_missing_generated_secret''
         ''a fresh issuance did not produce a key to store'')
     | Some secret \<Rightarrow>
         tx_bind (storeFreshKeyAndDelivery (iu_ids env) commitNow (xi_keyMaterialID prep) secret leafKeyGenID
            (ce_id (xi_certificate prep)) (dd_PrivateDeliverySeconds (xi_defaults prep))) (\<lambda>delivery.
         let view = \<lparr>st_SchemaVersion = issuanceStoredResultSchemaVersion, st_SeriesID = seriesID,
            st_CertificateID = ce_id (xi_certificate prep), st_KeyGenerationID = leafKeyGenID, st_RenewalCount = 0,
            st_KeyRotated = True, st_DeliveryID = de_id delivery\<rparr> in
         tx_bind (StoreRequestResult reqKey inputHash (Inr (stored_result_json view))) (\<lambda>_.
         tx_bind (appendIssuanceAudit (iu_ids env) commitNow meta ''issuance.issue'' (xi_certificate prep)
            (ii_AuthorityID cmd)) (\<lambda>_.
         toView view)))))"

definition commitIssue ::
  "issuance_env \<Rightarrow> nat \<Rightarrow> MutationMeta \<Rightarrow> IssuanceIssueCommand \<Rightarrow> OperationRequestKey \<Rightarrow> string \<Rightarrow> issuePrepared \<Rightarrow> nat
     \<Rightarrow> (ledger, IssuanceView) tx" where
  "commitIssue env k meta cmd reqKey inputHash prep t =
     tx_bind (requireCurrentAuth (rq_Principal meta) (iu_clock env k (2 * t + 1))) (\<lambda>_.
     tx_bind (authorizeIssue env (rq_Principal meta) (ii_AuthorityID cmd)) (\<lambda>_.
     tx_bind (replay_view reqKey inputHash) (\<lambda>earlier. case earlier of
       Some v \<Rightarrow> tx_return v
     | None \<Rightarrow> issue_commit env meta cmd reqKey inputHash prep (iu_clock env k (2 * t + 2)))))"

definition serial_exhausted :: go_error where
  "serial_exhausted = app_error ErrorKindConflict ''issuance_serial_exhausted''
     ''could not obtain a unique serial after repeated signing attempts''"

fun issue_attempts ::
  "issuance_env \<Rightarrow> MutationMeta \<Rightarrow> IssuanceIssueCommand \<Rightarrow> IssuanceRequest \<Rightarrow> OperationRequestKey \<Rightarrow> string
     \<Rightarrow> nat \<Rightarrow> nat \<Rightarrow> issuePrepared option \<Rightarrow> (signing_world, IssuanceView) tx" where
  "issue_attempts env meta cmd req reqKey inputHash 0 k reuse = tx_fail serial_exhausted"
| "issue_attempts env meta cmd req reqKey inputHash (Suc n) k reuse =
     tx_bind (prepareIssue env k meta cmd req reuse) (\<lambda>prep.
     tx_bind (tx_try (retried_write zero_issuance_view env k (commitIssue env k meta cmd reqKey inputHash prep))) (\<lambda>r. case r of
       Inl err \<Rightarrow>
         if Is_rePrepare err then issue_attempts env meta cmd req reqKey inputHash n (Suc k) (Some prep)
         else tx_fail err
     | Inr v \<Rightarrow> tx_return v))"

definition issue_requires_admin :: "string \<Rightarrow> go_error" where
  "issue_requires_admin detail = app_error ErrorKindForbidden ''issuance_requires_admin'' detail"

definition Issue ::
  "issuance_env \<Rightarrow> MutationMeta \<Rightarrow> IssuanceIssueCommand \<Rightarrow> (signing_world, IssuanceView) tx" where
  "Issue env meta cmd =
     tx_bind (tx_guard (IssueCommand_Validate (iu_url env) cmd)) (\<lambda>_.
     if \<not> IsAdmin (rq_Principal meta)
       then tx_fail (issue_requires_admin ''issuing a certificate requires an administrator session'')
     else
       tx_bind (tx_lift (DomainProfile cmd)) (\<lambda>profile.
       tx_bind (tx_lift (map_sum invalid_subject id (SubjectInput_Domain (ii_Subject cmd)))) (\<lambda>subject.
       tx_bind (tx_lift (map_sum invalid_sans id (DomainSANs (iu_url env) cmd))) (\<lambda>sans.
       tx_bind (tx_lift (DomainKeyAlgorithm cmd)) (\<lambda>keyAlgorithm.
       tx_bind (tx_lift (InputHash issuanceOperationIssue
          [(''authority_id'', NormalizeUUID (ii_AuthorityID cmd))]
          (Inr (issueHashInput cmd profile subject sans keyAlgorithm)))) (\<lambda>inputHash.
       tx_bind (tx_lift (RequestKey meta issuanceOperationIssue)) (\<lambda>reqKey.
       tx_bind (tx_guard (iu_authorize env (rq_Principal meta) ActionIssuanceIssue
          (NewAuthorizationScope [ii_AuthorityID cmd]))) (\<lambda>_.
       tx_bind (tx_guard (issuance_canceled env)) (\<lambda>_.
       tx_bind (replayBeforePreparation env reqKey inputHash (rq_Principal meta)
          (authorizeIssue env (rq_Principal meta) (ii_AuthorityID cmd))) (\<lambda>earlier. case earlier of
         Some v \<Rightarrow> tx_return v
       | None \<Rightarrow>
           issue_attempts env meta cmd \<lparr>ir_Profile = profile, ir_Subject = subject, ir_SANs = sans,
             ir_KeyAlgorithm = keyAlgorithm, ir_Window = zero_window\<rparr> reqKey inputHash maxSerialAttempts 1 None))))))))))"

end
