(* ===== verification/Renewal_Service.thy ===== *)
theory Renewal_Service
  imports Issuance_Service
begin

text \<open>
  \<open>Renew\<close> of \<open>internal/app/service/issuance.go\<close>: the next certificate of a series, on the same key until
  the series' rotation policy calls for a new one. The preparation decides and signs outside the
  transaction; the commit re-reads the series, the issuer, the key and the revocation state under lock.
\<close>

definition series_not_found :: "SeriesID \<Rightarrow> go_error" where
  "series_not_found seriesID = app_error_with ErrorKindValidation ''series_not_found'' ''series does not exist''
     ''series_id'' seriesID"

definition read_series :: "SeriesID \<Rightarrow> (ledger, SeriesSnapshot) tx" where
  "read_series seriesID = tx_read (PKI_GetSeriesForUpdate seriesID) (series_not_found seriesID)
     ''issuance_series_read_failed'' ''could not read the series''"

definition authorize_series :: "issuance_env \<Rightarrow> Principal \<Rightarrow> SeriesSnapshot \<Rightarrow> (ledger, unit) tx" where
  "authorize_series env p snapshot = tx_guard (iu_authorize env p ActionIssuanceRenew
     (NewAuthorizationScope [ls_managementAuthorityID (sn_Series snapshot)]))"

definition authorizeRenew :: "issuance_env \<Rightarrow> Principal \<Rightarrow> SeriesID \<Rightarrow> (ledger, unit) tx" where
  "authorizeRenew env p seriesID = tx_bind (read_series seriesID) (authorize_series env p)"

record renewPrepared =
  xr_now :: Instant
  xr_snapshot :: SeriesSnapshot
  xr_targetAuthorityID :: AuthorityID
  xr_targetIssuerKeyID :: CAKeyGenerationID
  xr_issuerCertificate :: Certificate
  xr_renewalPlan :: RenewalPlan
  xr_plan :: IssuancePlan
  xr_keyRotated :: bool
  xr_keyMaterialID :: KeyMaterialID
  xr_publicKey :: PublicKey
  xr_generatedSecret :: "EncryptedSecret option"
  xr_deliverySeconds :: int64
  xr_settingsVersion :: Version
  xr_crlDistributionPoints :: "string list"
  xr_sourceCertificate :: Certificate
  xr_certificate :: Certificate

subsection \<open>Preparation\<close>

text \<open>What the read transaction of the preparation gathers.\<close>

record renew_rows =
  rw_snapshot :: SeriesSnapshot
  rw_currentCert :: Certificate
  rw_currentPublicKey :: PublicKey
  rw_keyCompromised :: bool
  rw_revoked :: bool
  rw_targetAuthorityID :: AuthorityID
  rw_targetIssuer :: Authority
  rw_issuerSecret :: EncryptedSecret
  rw_issuerCert :: Certificate
  rw_defaults :: resolvedSeriesDefaults
  rw_points :: "string list"

definition series_archived :: go_error where
  "series_archived = app_error ErrorKindConflict ''series_archived'' ''series is archived''"

definition source_mismatch :: go_error where
  "source_mismatch = app_error ErrorKindConflict ''source_certificate_mismatch''
     ''source_certificate_id does not match the series' current certificate''"

definition version_mismatch :: go_error where
  "version_mismatch = app_error ErrorKindConflict ''version_mismatch''
     ''series has moved on since expected_version was read''"

definition read_target :: "AuthorityID \<Rightarrow> (ledger, Authority) tx" where
  "read_target authorityID = tx_read (GetIssuerForUpdate authorityID)
     (app_error ErrorKindValidation ''authority_not_found'' ''target authority does not exist'')
     ''issuance_authority_read_failed'' ''could not read the target authority''"

text \<open>Whether a revocation row exists; any other answer of the ledger is an error.\<close>

definition is_revoked :: "CAKeyGenerationID \<Rightarrow> SerialNumber \<Rightarrow> (ledger, bool) tx" where
  "is_revoked issuer serial =
     tx_bind (tx_try (FindForUpdate issuer serial)) (\<lambda>r. case r of
       Inr _ \<Rightarrow> tx_return True
     | Inl err \<Rightarrow>
         if Is_port err ErrNotFound then tx_return False
         else tx_fail (storeError err ''issuance_revocation_read_failed''
           ''could not check the current certificate's revocation state''))"

definition read_key_material :: "KeyMaterialID \<Rightarrow> (ledger, KeyMaterial) tx" where
  "read_key_material i = tx_store (GetKeyMaterial i) ''issuance_key_material_read_failed''
     ''could not read the current key material''"

definition renew_reads :: "issuance_env \<Rightarrow> MutationMeta \<Rightarrow> IssuanceRenewCommand \<Rightarrow> (ledger, renew_rows) tx" where
  "renew_reads env meta cmd =
     tx_bind (read_series (rn_SeriesID cmd)) (\<lambda>snapshot.
     let series = sn_Series snapshot in
     tx_bind (authorize_series env (rq_Principal meta) snapshot) (\<lambda>_.
     if LeafSeries_IsArchived series then tx_fail series_archived
     else if ls_currentCertificateID series \<noteq> rn_SourceCertificateID cmd then tx_fail source_mismatch
     else
       tx_bind (tx_read (PKI_GetCertificate (rn_SourceCertificateID cmd))
          (app_error ErrorKindValidation ''certificate_not_found'' ''source certificate does not exist'')
          ''issuance_certificate_read_failed'' ''could not read the current certificate'') (\<lambda>cert.
       tx_bind (read_key_material (kg_keyMaterialID (sn_CurrentKeyGeneration snapshot))) (\<lambda>material.
       tx_bind (is_revoked (ce_issuerCAKeyGenerationID cert) (ce_serial cert)) (\<lambda>revoked.
       let targetAuthorityID = (if rn_TargetAuthorityID cmd = [] then ls_managementAuthorityID series
                                else rn_TargetAuthorityID cmd) in
       tx_bind (read_target targetAuthorityID) (\<lambda>issuer.
       tx_bind (caSigningSecret issuer) (\<lambda>(secret, issuerCACert).
       tx_bind (resolveSeriesDefaults None None) (\<lambda>defaults.
       tx_bind (tx_lift (leafCRLDistributionPoints (dd_ServiceURL defaults) (ce_id issuerCACert))) (\<lambda>points.
       tx_return \<lparr>rw_snapshot = snapshot, rw_currentCert = cert, rw_currentPublicKey = km_PublicKey material,
         rw_keyCompromised = (\<not> Instant_IsZero (km_CompromisedAt material)), rw_revoked = revoked,
         rw_targetAuthorityID = targetAuthorityID, rw_targetIssuer = issuer, rw_issuerSecret = secret,
         rw_issuerCert = issuerCACert, rw_defaults = defaults, rw_points = points\<rparr>)))))))))"

definition renewal_facts :: "renew_rows \<Rightarrow> ValidityWindow \<Rightarrow> RenewalFacts" where
  "renewal_facts rows policyWindow =
     (let generation = sn_CurrentKeyGeneration (rw_snapshot rows) in
      \<lparr>rf_CurrentGeneration = generation, rf_TargetIssuerID = rw_targetAuthorityID rows,
       rf_TargetIssuerWindow = au_certificateWindow (rw_targetIssuer rows), rf_RequestedWindow = policyWindow,
       rf_KeyReadyForRenewal = (\<not> rw_revoked rows \<and> \<not> rw_keyCompromised rows
         \<and> kg_custody generation = KeyCustodyClientHeld),
       rf_IsEmergencyReissue = False,
       rf_NextKeyGenerationNo = wrap64 (kg_generationNo generation + 1)\<rparr>)"

definition renewal_issuance_plan :: "renew_rows \<Rightarrow> RenewalPlan \<Rightarrow> IssuancePlan" where
  "renewal_issuance_plan rows plan =
     (let cert = rw_currentCert rows; issuer = rw_targetIssuer rows in
      \<lparr>ip_Profile = ce_profile cert, ip_Subject = ce_subject cert, ip_SANs = ce_sans cert,
       ip_KeyAlgorithm = ce_keyAlgorithm cert, ip_Window = rp_Window plan,
       ip_IssuerAuthorityID = au_id issuer, ip_IssuerKeyGenerationID = au_keyGenerationID issuer\<rparr>)"

text \<open>The two facts and the plan, without I/O.\<close>

definition plan_renewal :: "renew_rows \<Rightarrow> Version \<Rightarrow> Instant \<Rightarrow> (signing_world, RenewalPlan) tx" where
  "plan_renewal rows expectedVersion now =
     (let series = sn_Series (rw_snapshot rows) in
      if ls_version series \<noteq> expectedVersion then tx_fail version_mismatch
      else
        tx_bind (tx_domain (PlanWindow (ls_policy series) (x509NotBefore now))) (\<lambda>policyWindow.
        tx_bind (tx_domain_check (CanIssue (rw_targetIssuer rows) (leaf_context policyWindow) now)) (\<lambda>_.
        tx_domain (PlanRenewal series (renewal_facts rows policyWindow) now))))"

definition renewal_prepared ::
  "renew_rows \<Rightarrow> Instant \<Rightarrow> RenewalPlan \<Rightarrow> KeyMaterialID \<Rightarrow> PublicKey \<Rightarrow> EncryptedSecret option \<Rightarrow> Certificate \<Rightarrow> renewPrepared" where
  "renewal_prepared rows now plan keyMaterialID publicKey secret cert =
     \<lparr>xr_now = now, xr_snapshot = rw_snapshot rows, xr_targetAuthorityID = rw_targetAuthorityID rows,
      xr_targetIssuerKeyID = au_keyGenerationID (rw_targetIssuer rows), xr_issuerCertificate = rw_issuerCert rows,
      xr_renewalPlan = plan, xr_plan = renewal_issuance_plan rows plan,
      xr_keyRotated = (rp_Action plan = RenewalActionRotateKey), xr_keyMaterialID = keyMaterialID,
      xr_publicKey = publicKey, xr_generatedSecret = secret,
      xr_deliverySeconds = dd_PrivateDeliverySeconds (rw_defaults rows),
      xr_settingsVersion = dd_SettingsVersion (rw_defaults rows), xr_crlDistributionPoints = rw_points rows,
      xr_sourceCertificate = rw_currentCert rows, xr_certificate = cert\<rparr>"

definition renewal_key_ref ::
  "issuance_env \<Rightarrow> renew_rows \<Rightarrow> bool \<Rightarrow> (signing_world, signingKeyRef \<times> PublicKey) tx" where
  "renewal_key_ref env rows rotated =
     (if rotated then
        tx_bind (in_store (NewUUID (iu_ids env))) (\<lambda>raw.
        tx_bind (tx_domain (ParseKeyMaterialID raw)) (\<lambda>newKeyMaterialID.
        tx_return (\<lparr>kr_Fresh = Some \<lparr>ks_KeyMaterialID = newKeyMaterialID,
            ks_Algorithm = ce_keyAlgorithm (rw_currentCert rows), ks_Purpose = SecretPurposeLeafDelivery\<rparr>,
          kr_Existing = []\<rparr>, zero_public_key)))
      else tx_return (\<lparr>kr_Fresh = None,
            kr_Existing = kg_keyMaterialID (sn_CurrentKeyGeneration (rw_snapshot rows))\<rparr>, rw_currentPublicKey rows))"

definition prepareRenew ::
  "issuance_env \<Rightarrow> nat \<Rightarrow> MutationMeta \<Rightarrow> IssuanceRenewCommand \<Rightarrow> Version \<Rightarrow> renewPrepared option
     \<Rightarrow> (signing_world, renewPrepared) tx" where
  "prepareRenew env k meta cmd expectedVersion reuse =
     (let now = iu_clock env k 0; createdBy = Principal_AccountID (rq_Principal meta) in
      tx_bind (others env k) (\<lambda>_.
      tx_bind (in_store (renew_reads env meta cmd)) (\<lambda>rows.
      tx_bind (plan_renewal rows expectedVersion now) (\<lambda>plan.
      let rotated = (rp_Action plan = RenewalActionRotateKey);
          signing = renewal_issuance_plan rows plan in
      tx_bind (in_store (NewUUID (iu_ids env))) (\<lambda>raw.
      tx_bind (tx_domain (ParseCertificateID raw)) (\<lambda>certificateID.
      if (case reuse of None \<Rightarrow> False | Some old \<Rightarrow> xr_keyRotated old = rotated) then
        (let old = the reuse in
         tx_bind (resignWithNewSerial env signing certificateID (xr_keyMaterialID old) (xr_publicKey old)
            CertificateKindLeaf createdBy (Some (rw_issuerCert rows)) (rw_issuerSecret rows) (rw_points rows)) (\<lambda>cert.
         tx_return (renewal_prepared rows now plan (xr_keyMaterialID old) (xr_publicKey old)
            (xr_generatedSecret old) cert)))
      else
        tx_bind (renewal_key_ref env rows rotated) (\<lambda>(ref, existingPublicKey).
        tx_bind (prepareCertificate env signing ref existingPublicKey certificateID (Some (rw_issuerCert rows))
           (rw_issuerSecret rows) CertificateKindLeaf createdBy (rw_points rows)) (\<lambda>pd.
        tx_return (renewal_prepared rows now plan (pd_KeyMaterialID pd)
           (if rotated then pd_GeneratedPublic pd else existingPublicKey) (pd_GeneratedSecret pd)
           (pd_Certificate pd))))))))))"

subsection \<open>The commit\<close>

definition ensureKeyStillRenewable :: "renewPrepared \<Rightarrow> (ledger, unit) tx" where
  "ensureKeyStillRenewable prep =
     tx_bind (read_key_material (kg_keyMaterialID (sn_CurrentKeyGeneration (xr_snapshot prep)))) (\<lambda>material.
     if \<not> Instant_IsZero (km_CompromisedAt material)
       then tx_fail (app_error ErrorKindForbidden ''issuance_key_compromised''
         ''the current key was reported compromised and cannot be renewed on the ordinary path'')
     else
       tx_bind (is_revoked (ce_issuerCAKeyGenerationID (xr_sourceCertificate prep)) (ce_serial (xr_sourceCertificate prep)))
       (\<lambda>revoked.
       if revoked then tx_fail (app_error ErrorKindForbidden ''issuance_source_certificate_revoked''
         ''the certificate being renewed was revoked and cannot be renewed on the ordinary path'')
       else tx_return ()))"

definition renew_checks ::
  "IssuanceRenewCommand \<Rightarrow> Version \<Rightarrow> renewPrepared \<Rightarrow> SeriesSnapshot \<Rightarrow> Instant \<Rightarrow> (ledger, Authority) tx" where
  "renew_checks cmd expectedVersion prep snapshot commitNow =
     (let series = sn_Series snapshot; prepared = sn_CurrentKeyGeneration (xr_snapshot prep) in
      if LeafSeries_IsArchived series then tx_fail series_archived
      else if ls_version series \<noteq> expectedVersion then tx_fail version_mismatch
      else if ls_currentCertificateID series \<noteq> rn_SourceCertificateID cmd then tx_fail source_mismatch
      else if kg_id (sn_CurrentKeyGeneration snapshot) \<noteq> kg_id prepared
            \<or> kg_custody (sn_CurrentKeyGeneration snapshot) \<noteq> kg_custody prepared
        then tx_fail errRePrepare
      else
        tx_bind (read_target (xr_targetAuthorityID prep)) (\<lambda>targetIssuer.
        if au_keyGenerationID targetIssuer \<noteq> xr_targetIssuerKeyID prep then tx_fail errRePrepare
        else
          tx_bind (tx_domain_check (CanIssue targetIssuer (leaf_context (ip_Window (xr_plan prep))) commitNow)) (\<lambda>_.
          tx_bind (verifyCASigningKeyLive targetIssuer) (\<lambda>_.
          tx_bind (if \<not> xr_keyRotated prep then ensureKeyStillRenewable prep else tx_return ()) (\<lambda>_.
          tx_bind (settingsUnchanged (xr_settingsVersion prep)) (\<lambda>_.
          tx_bind (ensureSerialUnused (ip_IssuerKeyGenerationID (xr_plan prep)) (ce_serial (xr_certificate prep))) (\<lambda>_.
          tx_return targetIssuer)))))))"

text \<open>The key generation the new certificate belongs to: a new one, or the current one counted up.\<close>

definition rotated_generation ::
  "issuance_env \<Rightarrow> renewPrepared \<Rightarrow> LeafSeries \<Rightarrow> (ledger, LeafKeyGenerationID) tx" where
  "rotated_generation env prep series =
     tx_bind (NewUUID (iu_ids env)) (\<lambda>raw.
     tx_bind (tx_domain (ParseLeafKeyGenerationID raw)) (\<lambda>newGenID.
     tx_bind (tx_domain (NewLeafKeyGeneration \<lparr>kgf_ID = newGenID, kgf_SeriesID = ls_id series,
        kgf_KeyMaterialID = xr_keyMaterialID prep, kgf_GenerationNo = rp_NextKeyGenerationNo (xr_renewalPlan prep),
        kgf_RenewalCount = rp_NextRenewalCount (xr_renewalPlan prep), kgf_PriorHistoryUnknown = False,
        kgf_Custody = KeyCustodyPendingDelivery\<rparr>)) (\<lambda>newGen.
     tx_bind (tx_store (InsertLeafKeyGeneration newGen) ''issuance_leaf_key_generation_store_failed''
        ''could not store the rotated leaf key generation'') (\<lambda>_.
     tx_return newGenID))))"

definition reused_generation ::
  "renewPrepared \<Rightarrow> LeafKeyGeneration \<Rightarrow> (ledger, LeafKeyGenerationID) tx" where
  "reused_generation prep generation =
     tx_bind (tx_domain (NewLeafKeyGeneration \<lparr>kgf_ID = kg_id generation, kgf_SeriesID = kg_seriesID generation,
        kgf_KeyMaterialID = kg_keyMaterialID generation, kgf_GenerationNo = kg_generationNo generation,
        kgf_RenewalCount = rp_NextRenewalCount (xr_renewalPlan prep),
        kgf_PriorHistoryUnknown = kg_priorHistoryUnknown generation,
        kgf_Custody = kg_custody generation\<rparr>)) (\<lambda>updatedGen.
     tx_bind (tx_store (SaveLeafKeyGeneration updatedGen) ''issuance_leaf_key_generation_save_failed''
        ''could not update the leaf key generation'') (\<lambda>_.
     tx_return (rp_KeyGenerationID (xr_renewalPlan prep))))"

definition renew_rows_stored ::
  "issuance_env \<Rightarrow> IssuanceRenewCommand \<Rightarrow> Version \<Rightarrow> renewPrepared \<Rightarrow> SeriesSnapshot \<Rightarrow> Instant
     \<Rightarrow> (ledger, LeafKeyGenerationID \<times> DeliveryID) tx" where
  "renew_rows_stored env cmd expectedVersion prep snapshot commitNow =
     (let cert = xr_certificate prep; series = sn_Series snapshot; plan = xr_renewalPlan prep in
      tx_bind (if xr_keyRotated prep then
          (case xr_generatedSecret prep of
             None \<Rightarrow> tx_fail (app_error ErrorKindUnavailable ''issuance_missing_generated_secret''
               ''a key rotation did not produce a key to store'')
           | Some _ \<Rightarrow> insertGeneratedKeyMaterial (xr_keyMaterialID prep) (xr_publicKey prep))
        else tx_return ()) (\<lambda>_.
      tx_bind (tx_store (InsertCertificate cert) ''issuance_certificate_store_failed''
         ''could not store the renewed certificate'') (\<lambda>_.
      tx_bind (if xr_keyRotated prep then rotated_generation env prep series
         else reused_generation prep (sn_CurrentKeyGeneration snapshot)) (\<lambda>leafKeyGenID.
      tx_bind (store_leaf_record (leaf_record cert (ls_id series) leafKeyGenID (ce_id (xr_issuerCertificate prep))
         (rn_SourceCertificateID cmd) (if xr_keyRotated prep then ''rekey'' else ''renew'')
         (rp_NextRenewalCount plan) (ls_policy series))) (\<lambda>_.
      tx_bind (tx_domain (NewLeafSeries \<lparr>lsf_ID = ls_id series, lsf_Name = ls_name series,
         lsf_Purpose = ls_purpose series, lsf_ManagementAuthorityID = ls_managementAuthorityID series,
         lsf_CurrentCertificateID = ce_id cert, lsf_CurrentKeyGenerationID = leafKeyGenID,
         lsf_Policy = ls_policy series, lsf_Version = Version_Next (ls_version series),
         lsf_ArchivedAt = ls_archivedAt series\<rparr>)) (\<lambda>updatedSeries.
      tx_bind (tx_store (SaveSeries updatedSeries expectedVersion) ''issuance_series_save_failed''
         ''could not update the series'') (\<lambda>_.
      tx_bind (if xr_keyRotated prep
         then tx_bind (storeFreshKeyAndDelivery (iu_ids env) commitNow (xr_keyMaterialID prep)
            (the (xr_generatedSecret prep)) leafKeyGenID (ce_id cert) (xr_deliverySeconds prep))
            (\<lambda>delivery. tx_return (de_id delivery))
         else tx_return []) (\<lambda>deliveryID.
      tx_return (leafKeyGenID, deliveryID)))))))))"

definition renew_commit ::
  "issuance_env \<Rightarrow> MutationMeta \<Rightarrow> IssuanceRenewCommand \<Rightarrow> OperationRequestKey \<Rightarrow> string \<Rightarrow> Version
     \<Rightarrow> renewPrepared \<Rightarrow> SeriesSnapshot \<Rightarrow> Instant \<Rightarrow> (ledger, IssuanceView) tx" where
  "renew_commit env meta cmd reqKey inputHash expectedVersion prep snapshot commitNow =
     tx_bind (renew_checks cmd expectedVersion prep snapshot commitNow) (\<lambda>targetIssuer.
     tx_bind (renew_rows_stored env cmd expectedVersion prep snapshot commitNow) (\<lambda>(leafKeyGenID, deliveryID).
     let view = \<lparr>st_SchemaVersion = issuanceStoredResultSchemaVersion, st_SeriesID = ls_id (sn_Series snapshot),
        st_CertificateID = ce_id (xr_certificate prep), st_KeyGenerationID = leafKeyGenID,
        st_RenewalCount = rp_NextRenewalCount (xr_renewalPlan prep), st_KeyRotated = xr_keyRotated prep,
        st_DeliveryID = deliveryID\<rparr> in
     tx_bind (StoreRequestResult reqKey inputHash (Inr (stored_result_json view))) (\<lambda>_.
     tx_bind (appendIssuanceAudit (iu_ids env) commitNow meta ''issuance.renew'' (xr_certificate prep)
        (au_id targetIssuer)) (\<lambda>_.
     toView view))))"

definition commitRenew ::
  "issuance_env \<Rightarrow> nat \<Rightarrow> MutationMeta \<Rightarrow> IssuanceRenewCommand \<Rightarrow> OperationRequestKey \<Rightarrow> string \<Rightarrow> Version
     \<Rightarrow> renewPrepared \<Rightarrow> nat \<Rightarrow> (ledger, IssuanceView) tx" where
  "commitRenew env k meta cmd reqKey inputHash expectedVersion prep t =
     tx_bind (read_series (rn_SeriesID cmd)) (\<lambda>snapshot.
     tx_bind (requireCurrentAuth (rq_Principal meta) (iu_clock env k (2 * t + 1))) (\<lambda>_.
     tx_bind (authorize_series env (rq_Principal meta) snapshot) (\<lambda>_.
     tx_bind (replay_view reqKey inputHash) (\<lambda>earlier. case earlier of
       Some v \<Rightarrow> tx_return v
     | None \<Rightarrow> renew_commit env meta cmd reqKey inputHash expectedVersion prep snapshot
                 (iu_clock env k (2 * t + 2))))))"

subsection \<open>Renew\<close>

fun renew_attempts ::
  "issuance_env \<Rightarrow> MutationMeta \<Rightarrow> IssuanceRenewCommand \<Rightarrow> Version \<Rightarrow> OperationRequestKey \<Rightarrow> string
     \<Rightarrow> nat \<Rightarrow> nat \<Rightarrow> renewPrepared option \<Rightarrow> (signing_world, IssuanceView) tx" where
  "renew_attempts env meta cmd expectedVersion reqKey inputHash 0 k reuse = tx_fail serial_exhausted"
| "renew_attempts env meta cmd expectedVersion reqKey inputHash (Suc n) k reuse =
     tx_bind (prepareRenew env k meta cmd expectedVersion reuse) (\<lambda>prep.
     tx_bind (tx_try (retried_write zero_issuance_view env k (commitRenew env k meta cmd reqKey inputHash expectedVersion prep))) (\<lambda>r.
     case r of
       Inl err \<Rightarrow>
         if Is_rePrepare err
           then renew_attempts env meta cmd expectedVersion reqKey inputHash n (Suc k) (Some prep)
         else tx_fail err
     | Inr v \<Rightarrow> tx_return v))"

definition Renew ::
  "issuance_env \<Rightarrow> MutationMeta \<Rightarrow> IssuanceRenewCommand \<Rightarrow> (signing_world, IssuanceView) tx" where
  "Renew env meta cmd =
     tx_bind (tx_guard (RenewCommand_Validate cmd)) (\<lambda>_.
     if \<not> IsAdmin (rq_Principal meta)
       then tx_fail (issue_requires_admin ''renewing a certificate requires an administrator session'')
     else
       tx_bind (tx_lift (RequireExpectedVersion meta)) (\<lambda>expectedVersion.
       tx_bind (tx_lift (InputHash issuanceOperationRenew [(''series_id'', NormalizeUUID (rn_SeriesID cmd))]
          (Inr (renewHashInput cmd)))) (\<lambda>inputHash.
       tx_bind (tx_lift (RequestKey meta issuanceOperationRenew)) (\<lambda>reqKey.
       tx_bind (tx_guard (issuance_canceled env)) (\<lambda>_.
       tx_bind (replayBeforePreparation env reqKey inputHash (rq_Principal meta)
          (authorizeRenew env (rq_Principal meta) (rn_SeriesID cmd))) (\<lambda>earlier. case earlier of
         Some v \<Rightarrow> tx_return v
       | None \<Rightarrow> renew_attempts env meta cmd expectedVersion reqKey inputHash maxSerialAttempts 1 None))))))"

end
