(* ===== verification/Issuance_Effects.thy ===== *)
theory Issuance_Effects
  imports Renewal_Service Frames
begin

text \<open>
  What the steps of issuance and renewal do: which calls reach the key engine and the signer, what a signature
  that passed the check looks like, and what each stage of the two commits found and stored.
\<close>

subsection \<open>Reads of the store\<close>

lemma keeps_domain_check [keeps_intro]: "keeps f (tx_domain_check c)"
  by (simp add: tx_domain_check_def keeps_intro)

lemma keeps_tx_store [keeps_intro]: "keeps f m \<Longrightarrow> keeps f (tx_store m c d)"
  by (simp add: tx_store_def keeps_intro)

lemma store_reads:
  "keeps id (GetIssuerForUpdate a)" "keeps id (GetCAKeyGeneration g)" "keeps id (PKI_GetCertificate c)"
  "keeps id (PKI_GetCACertificateRecord c)" "keeps id (GetEncrypted k p)" "keeps id GetSettings"
  "keeps id (PKI_GetSeriesForUpdate s)" "keeps id (GetKeyMaterial k)" "keeps id (FindForUpdate i n)"
  "keeps id (Requests_Find q)" "keeps id (GetDeliveryForUpdate d)" "keeps id (SerialExists i n)"
  "keeps id (GetAccountForUpdate acc)" "keeps id (GetSessionForUpdate ses)"
  by (simp_all add: keeps_def GetIssuerForUpdate_def GetCAKeyGeneration_def PKI_GetCertificate_def
      PKI_GetCACertificateRecord_def GetEncrypted_def GetSettings_def PKI_GetSeriesForUpdate_def GetKeyMaterial_def
      FindForUpdate_def Requests_Find_def GetDeliveryForUpdate_def SerialExists_def GetAccountForUpdate_def
      GetSessionForUpdate_def found_def tx_return_def tx_fail_def split: option.splits if_splits)

lemma credential_reads: "keeps id (requireCurrentAuth p now)"
  unfolding requireCurrentAuth_def by (intro keeps_intro store_reads)

lemma signing_reads: "keeps id (verifyCASigningKeyLive a)" "keeps id (caSigningSecret a)" "keeps id issuance_settings"
  unfolding verifyCASigningKeyLive_def caSigningSecret_def issuance_settings_def
  by (intro keeps_intro store_reads)+

lemma defaults_reads: "keeps id (resolveSeriesDefaults v r)"
  unfolding resolveSeriesDefaults_def by (intro keeps_intro signing_reads)

lemma replay_reads: "keeps id (replay_view key h)"
  unfolding replay_view_def ReplayStoredResult_def toView_def by (intro keeps_intro store_reads)

lemma issue_reads_reads: "keeps id (issue_reads cmd)"
  unfolding issue_reads_def read_issuer_def by (intro keeps_intro store_reads defaults_reads signing_reads)

lemma is_revoked_reads: "keeps id (is_revoked i s)"
  unfolding is_revoked_def by (intro keeps_intro store_reads)

lemma renew_reads_reads: "keeps id (renew_reads env meta cmd)"
  unfolding renew_reads_def read_series_def authorize_series_def read_key_material_def read_target_def
  by (intro keeps_intro store_reads defaults_reads signing_reads is_revoked_reads)

lemma idD: "keeps id m \<Longrightarrow> m w = (r, w') \<Longrightarrow> w' = w"
  using keepsD [of id] by fastforce

text \<open>Checks at the front of an operation, run.\<close>

lemma bind_front:
  "tx_bind (tx_guard c) f w = (case c of Some e \<Rightarrow> (Inl e, w) | None \<Rightarrow> f () w)"
  "tx_bind (tx_lift m) g w = (case m of Inl e \<Rightarrow> (Inl e, w) | Inr x \<Rightarrow> g x w)"
  by (cases c; simp add: tx_bind_def tx_guard_def tx_return_def tx_fail_def)
    (cases m; simp add: tx_bind_def tx_lift_def tx_return_def tx_fail_def)

subsection \<open>Calls of the interfaces\<close>

text \<open>The calls made so far, and the store.\<close>

definition calls :: "signing_world \<Rightarrow> KeySpec list \<times> CertificateSigningRequest list" where
  "calls w = (sg_generated w, sg_signed w)"

lemma in_store_calls [keeps_intro]: "keeps calls (in_store m)" "keeps sg_generated (in_store m)"
  "keeps sg_signed (in_store m)"
  by (auto simp: keeps_def in_store_def calls_def split: prod.splits)

lemma in_store_iff [tx_iff]:
  "in_store m w = (Inr x, w') \<longleftrightarrow> (\<exists>s. m (sg_store w) = (Inr x, s) \<and> w' = w\<lparr>sg_store := s\<rparr>)"
  by (auto simp: in_store_def split: prod.splits)

lemma in_store_reads: "keeps id m \<Longrightarrow> keeps sg_store (in_store m)"
  by (auto simp: keeps_def in_store_def split: prod.splits)

lemma crypto_store [keeps_intro]:
  "keeps sg_store (Generate env spec)" "keeps sg_store (Sign env q k)" "keeps sg_store (NewSerial env)"
  by (auto simp: keeps_def Generate_def Sign_def NewSerial_def)

lemma crypto_generated [keeps_intro]: "keeps sg_generated (Sign env q k)" "keeps sg_generated (NewSerial env)"
  by (auto simp: keeps_def Sign_def NewSerial_def)

lemma resign_frame [keeps_intro]:
  "keeps sg_store (resignWithNewSerial env plan i k pk kind by ic key points)"
  "keeps sg_generated (resignWithNewSerial env plan i k pk kind by ic key points)"
  unfolding resignWithNewSerial_def signCertificate_def newSerial_def by (intro keeps_intro)+

lemma prepare_frame [keeps_intro]:
  "keeps sg_store (prepareCertificate env plan ref pk i ic key kind by points)"
  unfolding prepareCertificate_def resolveSigningKey_def signCertificate_def newSerial_def by (intro keeps_intro)

text \<open>One call of the key engine when a fresh key is asked for, none otherwise.\<close>

lemma resolve_generates:
  "resolveSigningKey env ref w = (r, w') \<Longrightarrow>
     sg_generated w' = sg_generated w @ (case kr_Fresh ref of None \<Rightarrow> [] | Some spec \<Rightarrow> [spec])"
  by (auto simp: resolveSigningKey_def tx_bind_def tx_or_def Generate_def tx_return_def tx_fail_def
      split: option.splits sum.splits if_splits prod.splits)

lemma prepare_generates:
  assumes "prepareCertificate env plan ref pk i ic key kind by points w = (r, w')"
  shows "sg_generated w' = sg_generated w @ (case kr_Fresh ref of None \<Rightarrow> [] | Some spec \<Rightarrow> [spec])"
proof (cases "resolveSigningKey env ref w")
  case (Pair q w1)
  have rest: "keeps sg_generated (newSerial env)" "keeps sg_generated (signCertificate env req key)" for req
    unfolding newSerial_def signCertificate_def by (intro keeps_intro)+
  define tail where "tail = (\<lambda>(keyMaterialID, publicKey, generatedSecret).
     let subjectPublicKey = (if kr_Fresh ref = None then pk else publicKey) in
     tx_bind (newSerial env) (\<lambda>serial.
     tx_bind (signCertificate env
       \<lparr>cq_Plan = plan, cq_CertificateID = i, cq_KeyMaterialID = keyMaterialID,
        cq_SubjectPublicKey = subjectPublicKey, cq_Serial = serial, cq_Kind = kind,
        cq_CreatedByAccountID = by, cq_IssuerCertificate = ic,
        cq_CRLDistributionPoints = points\<rparr> key) (\<lambda>cert.
     tx_return \<lparr>pd_Certificate = cert, pd_KeyMaterialID = keyMaterialID,
        pd_GeneratedPublic = publicKey, pd_GeneratedSecret = generatedSecret\<rparr>)))"
  have tail: "keeps sg_generated (tail x)" for x
    unfolding tail_def Let_def by (cases x) (auto intro!: keeps_intro rest)
  have "prepareCertificate env plan ref pk i ic key kind by points = tx_bind (resolveSigningKey env ref) tail"
    by (simp add: prepareCertificate_def tail_def)
  with assms Pair have "(case q of Inl e \<Rightarrow> (Inl e, w1) | Inr x \<Rightarrow> tail x w1) = (r, w')"
    by (simp add: tx_bind_def [of "resolveSigningKey env ref"])
  then have "sg_generated w' = sg_generated w1" by (cases q) (auto dest: keepsD [OF tail])
  with resolve_generates [OF Pair] show ?thesis by simp
qed

text \<open>At most one signature.\<close>

lemma sign_grows: "signCertificate env req key w = (r, w') \<Longrightarrow> sg_signed w' = sg_signed w @ [req]"
  by (auto simp: signCertificate_def tx_bind_def tx_or_def Sign_def tx_guard_def tx_return_def tx_fail_def
      split: option.splits sum.splits prod.splits)

subsection \<open>What a checked signature is\<close>

definition matches :: "CertificateSigningRequest \<Rightarrow> Certificate \<Rightarrow> bool" where
  "matches q c \<longleftrightarrow> ce_id c = cq_CertificateID q \<and> ce_keyMaterialID c = cq_KeyMaterialID q
     \<and> ce_serial c = cq_Serial q
     \<and> ce_issuerCAKeyGenerationID c = ip_IssuerKeyGenerationID (cq_Plan q) \<and> ce_kind c = cq_Kind q
     \<and> ce_profile c = ip_Profile (cq_Plan q) \<and> ce_keyAlgorithm c = ip_KeyAlgorithm (cq_Plan q)
     \<and> ce_validity c = ip_Window (cq_Plan q) \<and> ce_subject c = ip_Subject (cq_Plan q)
     \<and> ce_sans c = ip_SANs (cq_Plan q) \<and> ce_der c \<noteq> []"

lemma san_scan_iff: "length as = length bs \<Longrightarrow> san_scan as bs \<longleftrightarrow> as = bs"
  by (induction as bs rule: list_induct2) auto

lemma same_iff [simp]:
  "sameWindow a b \<longleftrightarrow> a = b" "sameSubject x y \<longleftrightarrow> x = y" "sameSANs as bs \<longleftrightarrow> as = bs"
  by (auto simp: sameWindow_def sameSubject_def sameSANs_def san_scan_iff intro: ValidityWindow.equality Subject.equality)

lemma verifySigned_None: "verifySignedCertificate q c = None \<longleftrightarrow> matches q c"
  by (auto simp: verifySignedCertificate_def matches_def Let_def)

lemma sign_matches: "signCertificate env q key w = (Inr c, w') \<Longrightarrow> matches q c"
  by (auto simp: signCertificate_def tx_iff verifySigned_None)

subsection \<open>What the preparation of an issue returns\<close>

text \<open>The store apart from the counter of generated identifiers.\<close>

definition rows :: "signing_world \<Rightarrow> ledger" where
  "rows w = (sg_store w)\<lparr>lg_uuids := 0\<rparr>"

lemma uuid_rows [keeps_intro]: "keeps rows (in_store (NewUUID ids))" "keeps sg_generated (in_store (NewUUID ids))"
  by (auto simp: keeps_def rows_def in_store_def NewUUID_def tx_return_def)

lemma rows_of_store: "keeps sg_store m \<Longrightarrow> keeps rows m"
  by (simp add: keeps_def rows_def)

lemma prepareCertificate_result:
  assumes "prepareCertificate env plan ref pk i ic key kind by points w = (Inr pd, w')"
  shows "\<exists>q. matches q (pd_Certificate pd) \<and> cq_Plan q = plan \<and> cq_CertificateID q = i \<and> cq_Kind q = kind
    \<and> cq_KeyMaterialID q = pd_KeyMaterialID pd
    \<and> (case kr_Fresh ref of None \<Rightarrow> pd_KeyMaterialID pd = kr_Existing ref \<and> pd_GeneratedSecret pd = None
        | Some spec \<Rightarrow> pd_KeyMaterialID pd = ks_KeyMaterialID spec)"
  using assms
  by (fastforce simp: prepareCertificate_def resolveSigningKey_def tx_iff Let_def dest!: sign_matches
      split: option.splits if_splits)

lemma resign_result:
  assumes "resignWithNewSerial env plan i k pk kind by ic key points w = (Inr c, w')"
  shows "\<exists>q. matches q c \<and> cq_Plan q = plan \<and> cq_CertificateID q = i \<and> cq_Kind q = kind \<and> cq_KeyMaterialID q = k"
  using assms by (fastforce simp: resignWithNewSerial_def tx_iff dest!: sign_matches)

text \<open>Whose key it is: the pair is what the engine answered for a key of exactly this material, algorithm and purpose,
  and the certificate is what the signer answered to a request for that public key, with the issuer's secret \<open>sk\<close>.\<close>

definition generated_for ::
  "('e) crypto_env_scheme \<Rightarrow> KeyMaterialID \<Rightarrow> KeyAlgorithm \<Rightarrow> SecretPurpose \<Rightarrow> PublicKey \<Rightarrow> EncryptedSecret \<Rightarrow> bool" where
  "generated_for env k alg purpose pk sec \<longleftrightarrow> (\<exists>n gk. cy_Generate env n
       \<lparr>ks_KeyMaterialID = k, ks_Algorithm = alg, ks_Purpose = purpose\<rparr> = Inr gk
     \<and> pk = gk_PublicKey gk \<and> sec = gk_EncryptedSecret gk)"

definition signed_with :: "('e) crypto_env_scheme \<Rightarrow> PublicKey \<Rightarrow> EncryptedSecret \<Rightarrow> Certificate \<Rightarrow> bool" where
  "signed_with env pk sk c \<longleftrightarrow> (\<exists>n q. cy_Sign env n q sk = Inr c \<and> cq_SubjectPublicKey q = pk \<and> matches q c)"

lemma sign_signed:
  "signCertificate env q key w = (Inr c, w') \<Longrightarrow> cq_SubjectPublicKey q = pk \<Longrightarrow> signed_with env pk key c"
  by (auto simp: signCertificate_def Sign_def tx_iff verifySigned_None signed_with_def)

lemma resign_signed:
  "resignWithNewSerial env plan i k pk kind by ic key points w = (Inr c, w') \<Longrightarrow> signed_with env pk key c"
  by (auto simp: resignWithNewSerial_def tx_iff intro!: sign_signed)

lemma resolve_fresh:
  "resolveSigningKey env \<lparr>kr_Fresh = Some \<lparr>ks_KeyMaterialID = k, ks_Algorithm = alg, ks_Purpose = purpose\<rparr>,
       kr_Existing = e\<rparr> w = (Inr (m, pk, sec), w')
     \<Longrightarrow> m = k \<and> (\<exists>s. sec = Some s \<and> generated_for env k alg purpose pk s)"
  by (auto simp: resolveSigningKey_def Generate_def tx_iff generated_for_def)

lemma prepareCertificate_signed:
  assumes "prepareCertificate env plan \<lparr>kr_Fresh = Some \<lparr>ks_KeyMaterialID = k, ks_Algorithm = alg, ks_Purpose = purpose\<rparr>,
       kr_Existing = e\<rparr> pk i ic key kind by points w = (Inr pd, w')"
  shows "signed_with env (pd_GeneratedPublic pd) key (pd_Certificate pd)
    \<and> (\<exists>s. pd_GeneratedSecret pd = Some s \<and> generated_for env k alg purpose (pd_GeneratedPublic pd) s)"
  using assms
  by (auto simp: prepareCertificate_def tx_iff Let_def dest!: resolve_fresh intro!: sign_signed split: prod.splits)

text \<open>The certificate of a preparation carries exactly the plan it was made for.\<close>

definition prepared_for :: "IssuancePlan \<Rightarrow> KeyMaterialID \<Rightarrow> Certificate \<Rightarrow> bool" where
  "prepared_for plan k c \<longleftrightarrow> canonical_uuid (ce_id c) \<and> ce_keyMaterialID c = k \<and> ce_kind c = CertificateKindLeaf
     \<and> ce_issuerCAKeyGenerationID c = ip_IssuerKeyGenerationID plan \<and> ce_profile c = ip_Profile plan
     \<and> ce_keyAlgorithm c = ip_KeyAlgorithm plan \<and> ce_validity c = ip_Window plan
     \<and> ce_subject c = ip_Subject plan \<and> ce_sans c = ip_SANs plan \<and> ce_der c \<noteq> []"

lemma matches_prepared:
  "matches q c \<Longrightarrow> cq_Plan q = plan \<Longrightarrow> cq_Kind q = CertificateKindLeaf \<Longrightarrow> cq_KeyMaterialID q = k
     \<Longrightarrow> canonical_uuid (cq_CertificateID q) \<Longrightarrow> prepared_for plan k c"
  by (auto simp: matches_def prepared_for_def)

lemma prepareIssue_result:
  assumes "prepareIssue env k meta cmd req reuse w = (Inr prep, w')"
  shows "prepared_for (xi_plan prep) (xi_keyMaterialID prep) (xi_certificate prep)
    \<and> SeriesPolicy_Validate (xi_policy prep) = None
    \<and> (\<exists>a window. PlanLeafWindow (xi_policy prep) (x509NotBefore (iu_clock env k 0)) = Inr window
         \<and> PlanIssuance a (req\<lparr>ir_Window := window\<rparr>) (iu_clock env k 0) = Inr (xi_plan prep))"
proof -
  from assms obtain w1 a d secret ic points w2 window plan w3 raw w4 where
    steps: "others env k w = (Inr (), w1)"
      "in_store (issue_reads cmd) w1 = (Inr (a, d, secret, ic, points), w2)"
      "SeriesPolicy_Validate \<lparr>sp_RotateEvery = dd_RotateEvery d, sp_CertificateValidity = dd_Validity d\<rparr> = None"
      "PlanLeafWindow \<lparr>sp_RotateEvery = dd_RotateEvery d, sp_CertificateValidity = dd_Validity d\<rparr>
         (x509NotBefore (iu_clock env k 0)) = Inr window"
      "PlanIssuance a (req\<lparr>ir_Window := window\<rparr>) (iu_clock env k 0) = Inr plan"
      "canonical_uuid raw"
    and rest: "(case reuse of
        Some old \<Rightarrow> \<exists>cert. resignWithNewSerial env plan raw (xi_keyMaterialID old) (xi_publicKey old)
             CertificateKindLeaf (Principal_AccountID (rq_Principal meta)) (Some ic) secret points w3 = (Inr cert, w')
          \<and> xi_keyMaterialID prep = xi_keyMaterialID old \<and> xi_certificate prep = cert
      | None \<Rightarrow> \<exists>spec pd. prepareCertificate env plan \<lparr>kr_Fresh = Some spec, kr_Existing = []\<rparr> zero_public_key raw
             (Some ic) secret CertificateKindLeaf (Principal_AccountID (rq_Principal meta)) points w4 = (Inr pd, w')
          \<and> xi_keyMaterialID prep = pd_KeyMaterialID pd \<and> xi_certificate prep = pd_Certificate pd)"
    and plan: "xi_plan prep = plan" "xi_policy prep = \<lparr>sp_RotateEvery = dd_RotateEvery d, sp_CertificateValidity = dd_Validity d\<rparr>"
    by (fastforce simp: prepareIssue_def tx_iff Let_def success_iff split: option.splits prod.splits)
  have "prepared_for (xi_plan prep) (xi_keyMaterialID prep) (xi_certificate prep)"
  proof (cases reuse)
    case None
    with rest plan(1) \<open>canonical_uuid raw\<close> show ?thesis
      by (auto dest!: prepareCertificate_result intro!: matches_prepared)
  next
    case (Some old)
    with rest plan(1) \<open>canonical_uuid raw\<close> show ?thesis
      by (auto dest!: resign_result intro!: matches_prepared)
  qed
  with steps plan show ?thesis by auto
qed

text \<open>\<open>adds_at_most f n m\<close>: \<open>m\<close> adds at most \<open>n\<close> entries to the log \<open>f\<close> of calls.\<close>

definition adds_at_most :: "(signing_world \<Rightarrow> 'b list) \<Rightarrow> nat \<Rightarrow> (signing_world, 'a) tx \<Rightarrow> bool" where
  "adds_at_most f n m \<longleftrightarrow> (\<forall>w r w'. m w = (r, w') \<longrightarrow>
     (\<exists>new. f w' = f w @ new \<and> length new \<le> n))"

lemma adds_at_mostD:
  "adds_at_most f n m \<Longrightarrow> m w = (r, w') \<Longrightarrow> \<exists>new. f w' = f w @ new \<and> length new \<le> n"
  by (simp add: adds_at_most_def)

lemma adds_none: "keeps f m \<Longrightarrow> adds_at_most f n m"
  by (auto simp: adds_at_most_def keeps_def)

lemma adds_weaken: "adds_at_most f n m \<Longrightarrow> n \<le> k \<Longrightarrow> adds_at_most f k m"
  by (auto simp: adds_at_most_def) (meson order_trans)

lemma adds_bind:
  assumes "adds_at_most f i m" and "\<And>x. adds_at_most f j (g x)" and "i + j \<le> n"
  shows "adds_at_most f n (tx_bind m g)"
  unfolding adds_at_most_def
proof (intro allI impI)
  fix w r w' assume run: "tx_bind m g w = (r, w')"
  obtain q w1 where m: "m w = (q, w1)" by (cases "m w")
  with assms(1) obtain xs where xs: "f w1 = f w @ xs" "length xs \<le> i"
    using adds_at_mostD by blast
  show "\<exists>new. f w' = f w @ new \<and> length new \<le> n"
  proof (cases q)
    case (Inl e)
    with run m xs assms(3) show ?thesis by (auto simp: tx_bind_def)
  next
    case (Inr x)
    with run m have "g x w1 = (r, w')" by (simp add: tx_bind_def)
    then obtain ys where "f w' = f w1 @ ys" "length ys \<le> j"
      using adds_at_mostD [OF assms(2)] by blast
    with xs assms(3) show ?thesis by (intro exI [of _ "xs @ ys"]) simp
  qed
qed

lemma adds_quiet: "keeps f m \<Longrightarrow> (\<And>x. adds_at_most f n (g x)) \<Longrightarrow> adds_at_most f n (tx_bind m g)"
  by (rule adds_bind [where i = 0 and j = n]) (auto intro: adds_none)

lemma adds_then_quiet: "adds_at_most f n m \<Longrightarrow> (\<And>x. keeps f (g x)) \<Longrightarrow> adds_at_most f n (tx_bind m g)"
  by (rule adds_bind [where i = n and j = 0]) (auto intro: adds_none)

lemma prepareCertificate_adds: "adds_at_most sg_generated 1 (prepareCertificate env plan ref pk i ic key kind by points)"
  unfolding adds_at_most_def by (auto dest!: prepare_generates split: option.splits)

lemma prepareIssue_adds: "adds_at_most sg_generated (case reuse of None \<Rightarrow> 1 | Some _ \<Rightarrow> 0) (prepareIssue env k meta cmd req reuse)"
proof (cases reuse)
  case None
  show ?thesis
    unfolding prepareIssue_def Let_def others_def None option.case
    by (intro adds_quiet keeps_intro, simp only: split: prod.splits, intro allI impI,
      intro adds_quiet adds_then_quiet prepareCertificate_adds; intro keeps_intro)
next
  case (Some old)
  show ?thesis
    unfolding prepareIssue_def Let_def others_def Some option.case by (intro adds_none keeps_intro)
qed

lemma retried_write_calls:
  assumes "retried_write zero env k body w = (r, w')"
  shows "calls w' = calls w"
proof -
  have one: "calls (fst (snd (one_write env k body s))) = calls (fst s)" for s
    by (auto simp: one_write_def in_store_def calls_def split: prod.splits sum.splits)
  have "calls (fst (snd (retry_loop n ctx (one_write env k body) le s))) = calls (fst s)" for n ctx le s
  proof (induction n arbitrary: s le)
    case (Suc n)
    obtain e s' where "one_write env k body s = (e, s')" by (cases "one_write env k body s")
    with one [of s] Suc.IH show ?case by (auto split: option.splits)
  qed simp
  from this [of maxPreparationAttempts "\<lambda>(_, t, _). iu_ctxErr env k (Suc t)" None "(w, 0, zero)"] assms show ?thesis
    by (auto simp: retried_write_def RunWithRetry_def split: prod.splits option.splits)
qed

lemma crypto_signed [keeps_intro]: "keeps sg_signed (Generate env spec)" "keeps sg_signed (NewSerial env)"
  by (auto simp: keeps_def Generate_def NewSerial_def)

lemma sign_adds: "adds_at_most sg_signed 1 (signCertificate env q key)"
  unfolding adds_at_most_def by (auto dest!: sign_grows)

lemma resign_signs: "adds_at_most sg_signed 1 (resignWithNewSerial env plan i k pk kind by ic key points)"
  unfolding resignWithNewSerial_def newSerial_def by (intro adds_quiet sign_adds; intro keeps_intro)

lemma prepareCertificate_signs: "adds_at_most sg_signed 1 (prepareCertificate env plan ref pk i ic key kind by points)"
  unfolding prepareCertificate_def resolveSigningKey_def newSerial_def Let_def
  by (intro adds_quiet, intro keeps_intro, simp only: split: prod.splits, intro allI impI,
    intro adds_quiet adds_then_quiet sign_adds; intro keeps_intro)

lemma prepareIssue_signs: "adds_at_most sg_signed 1 (prepareIssue env k meta cmd req reuse)"
proof (cases reuse)
  case None
  show ?thesis
    unfolding prepareIssue_def Let_def others_def None option.case
    by (intro adds_quiet keeps_intro, simp only: split: prod.splits, intro allI impI,
      intro adds_quiet adds_then_quiet prepareCertificate_signs; intro keeps_intro)
next
  case (Some old)
  show ?thesis
    unfolding prepareIssue_def Let_def others_def Some option.case
    by (intro adds_quiet keeps_intro, simp only: split: prod.splits, intro allI impI,
      intro adds_quiet adds_then_quiet resign_signs; intro keeps_intro)
qed

lemma retry_loop_done: "retry_loop n ctx att le s = (None, s') \<Longrightarrow> \<exists>s0. att s0 = (None, s')"
  by (induction n arbitrary: s le) (auto split: option.splits prod.splits if_splits)

text \<open>A write that returned a view ran its body on some store and committed it.\<close>

lemma retried_write_committed:
  assumes "retried_write zero env k body w = (Inr v, w')"
  shows "\<exists>t s. body t s = (Inr v, sg_store w')"
proof -
  from assms obtain t where "RunWithRetry (\<lambda>(_, t, _). iu_ctxErr env k (Suc t)) (one_write env k body)
      (w, 0, zero) = (None, w', t, v)"
    by (auto simp: retried_write_def split: prod.splits option.splits)
  then obtain s0 where one: "one_write env k body s0 = (None, w', t, v)"
    by (auto simp: RunWithRetry_def dest: retry_loop_done)
  obtain x u o' where s0: "s0 = (x, u, o')" by (cases s0)
  from one s0 have "uow_write (iu_fate env k u) (body u) (iu_meanwhile env k (Suc u) (sg_store x)) = (Inr v, sg_store w')"
    by (auto simp: one_write_def in_store_def split: prod.splits sum.splits)
  then have "body u (iu_meanwhile env k (Suc u) (sg_store x)) = (Inr v, sg_store w')" by (simp add: uow_write_iff)
  then show ?thesis by blast
qed

end
