(* ===== verification/Issuance_Commits.thy ===== *)
theory Issuance_Commits
  imports Issuance_Effects
begin

text \<open>
  The two commits of issuance, stage by stage: what each found in the store it met, and the store it left.
\<close>

subsection \<open>The issuer, the settings and the serial\<close>

definition live_issuer :: "ledger \<Rightarrow> Authority \<Rightarrow> bool" where
  "live_issuer w a \<longleftrightarrow> (\<exists>g c r. lg_caKeyGenerations w (au_keyGenerationID a) = Some g
     \<and> cg_KeyDestroyedAt g = zero_instant \<and> cg_AuthorityID g = au_id a
     \<and> map_of (lg_certificates w) (au_issuanceCertificateID a) = Some c \<and> ce_kind c = CertificateKindCA
     \<and> ce_keyMaterialID c = cg_KeyMaterialID g
     \<and> map_of (lg_caCertRecords w) (ce_id c) = Some r \<and> cr_CAKeyGenerationID r = au_keyGenerationID a)"

definition serial_unused :: "ledger \<Rightarrow> CAKeyGenerationID \<Rightarrow> SerialNumber \<Rightarrow> bool" where
  "serial_unused w issuer serial \<longleftrightarrow>
     (\<forall>c\<in>snd ` set (lg_certificates w). ce_issuerCAKeyGenerationID c = issuer \<longrightarrow> ce_serial c \<noteq> serial)
     \<and> lg_revocations w (issuer, sn_hex serial) = None"

lemma verifyCA_effect: "verifyCASigningKeyLive a w = (Inr x, w') \<Longrightarrow> w' = w \<and> live_issuer w a"
  by (auto simp: verifyCASigningKeyLive_def tx_iff live_issuer_def Instant_IsZero_iff split: if_splits)

text \<open>The stored secret an authority signs with.\<close>

definition signing_secret :: "ledger \<Rightarrow> Authority \<Rightarrow> EncryptedSecret \<Rightarrow> bool" where
  "signing_secret w a sk \<longleftrightarrow> (\<exists>g. lg_caKeyGenerations w (au_keyGenerationID a) = Some g
     \<and> map_of (lg_secrets w) (cg_KeyMaterialID g, if au_kind a = AuthorityKindBootstrap then SecretPurposeBootstrapCA
          else SecretPurposeCASigning) = Some sk)"

lemma caSigningSecret_effect:
  "caSigningSecret a w = (Inr (sk, c), w') \<Longrightarrow> w' = w \<and> live_issuer w a \<and> signing_secret w a sk"
  by (auto simp: caSigningSecret_def verifyCASigningKeyLive_def GetEncrypted_def tx_iff live_issuer_def signing_secret_def
      Instant_IsZero_iff split: if_splits)

lemma settingsUnchanged_effect:
  "settingsUnchanged v w = (Inr u, w') \<Longrightarrow> w' = w \<and> (\<exists>s. lg_settings w = Some s \<and> se_Version s = v)"
  by (auto simp: settingsUnchanged_def issuance_settings_def tx_iff split: if_splits)

lemma ensureSerialUnused_effect: "ensureSerialUnused i s w = (Inr u, w') \<Longrightarrow> w' = w \<and> serial_unused w i s"
  by (auto simp: ensureSerialUnused_def SerialExists_def tx_iff serial_unused_def issued_by_def list_ex_iff
      split: if_splits)

lemma issue_checks_effect:
  assumes "issue_checks cmd prep now w = (Inr u, w')"
  shows "w' = w \<and> (\<exists>a. map_of (lg_authorities w) (ii_AuthorityID cmd) = Some a
     \<and> au_keyGenerationID a = ip_IssuerKeyGenerationID (xi_plan prep)
     \<and> CanIssue a (leaf_context (ip_Window (xi_plan prep))) now = None \<and> live_issuer w a)
   \<and> (\<exists>s. lg_settings w = Some s \<and> se_Version s = dd_SettingsVersion (xi_defaults prep))
   \<and> serial_unused w (ip_IssuerKeyGenerationID (xi_plan prep)) (ce_serial (xi_certificate prep))"
  using assms
  by (auto simp: issue_checks_def read_issuer_def tx_iff split: if_splits
      dest!: verifyCA_effect settingsUnchanged_effect ensureSerialUnused_effect)

subsection \<open>The rows of a new series\<close>

definition first_generation :: "SeriesID \<Rightarrow> LeafKeyGenerationID \<Rightarrow> KeyMaterialID \<Rightarrow> LeafKeyGeneration" where
  "first_generation ser gen k = \<lparr>kg_id = gen, kg_seriesID = ser, kg_keyMaterialID = k, kg_generationNo = 1,
     kg_renewalCount = 0, kg_priorHistoryUnknown = False, kg_custody = KeyCustodyPendingDelivery\<rparr>"

definition first_series ::
  "IssuanceIssueCommand \<Rightarrow> SeriesPolicy \<Rightarrow> SeriesID \<Rightarrow> LeafKeyGenerationID \<Rightarrow> CertificateID \<Rightarrow> LeafSeries" where
  "first_series cmd pol ser gen cert = \<lparr>ls_id = ser, ls_name = ii_Name cmd, ls_purpose = SeriesPurposeDistributed,
     ls_managementAuthorityID = ii_AuthorityID cmd, ls_currentCertificateID = cert,
     ls_currentKeyGenerationID = gen, ls_policy = pol, ls_version = 0, ls_archivedAt = zero_instant\<rparr>"

definition new_material :: "KeyMaterialID \<Rightarrow> PublicKey \<Rightarrow> KeyMaterial" where
  "new_material k pk = \<lparr>km_ID = k, km_PublicKey = pk, km_Origin = ''generated'', km_CompromisedAt = zero_instant\<rparr>"

definition with_certificate :: "Certificate \<Rightarrow> LeafCertificateRecord \<Rightarrow> ledger \<Rightarrow> ledger" where
  "with_certificate c r w = w\<lparr>lg_certificates := AList.update (ce_id c) c (lg_certificates w),
     lg_certificatesByDER := (lg_certificatesByDER w)(fp_hex (NewFingerprint (ce_der c)) \<mapsto> ce_id c),
     lg_leafCertRecords := (lg_leafCertRecords w)(ce_id c \<mapsto> r)\<rparr>"

definition with_material :: "KeyMaterial \<Rightarrow> ledger \<Rightarrow> ledger" where
  "with_material m w = w\<lparr>lg_keyMaterials := (lg_keyMaterials w)(km_ID m \<mapsto> m),
     lg_keyMaterialsBySPKI := (lg_keyMaterialsBySPKI w)(fp_hex (PublicKey_Fingerprint (km_PublicKey m)) \<mapsto> km_ID m)\<rparr>"

lemma issue_rows_effect:
  assumes "issue_rows env cmd prep w = (Inr (ser, gen), w')"
  defines "c \<equiv> xi_certificate prep" and "k \<equiv> xi_keyMaterialID prep"
  shows "canonical_uuid ser \<and> canonical_uuid gen \<and> SeriesPolicy_Validate (xi_policy prep) = None
    \<and> lg_series w ser = None \<and> lg_keyMaterials w k = None \<and> lg_leafKeyGenerations w gen = None
    \<and> map_of (lg_certificates w) (ce_id c) = None \<and> lg_leafCertRecords w (ce_id c) = None
    \<and> w' = with_certificate c (leaf_record c ser gen (ce_id (xi_issuerCertificate prep)) [] ''initial'' 0 (xi_policy prep))
        (with_material (new_material k (xi_publicKey prep))
          (w\<lparr>lg_uuids := Suc (Suc (lg_uuids w)),
             lg_seriesRows := AList.update ser (first_series cmd (xi_policy prep) ser gen (ce_id c)) (lg_seriesRows w),
             lg_leafKeyGenerations := (lg_leafKeyGenerations w)(gen \<mapsto> first_generation ser gen k)\<rparr>))"
  using assms(1) unfolding c_def k_def
  by (auto simp: issue_rows_def insertGeneratedKeyMaterial_def store_leaf_record_def leaf_record_def tx_iff Let_def
      success_iff NewLeafSeries_def NewLeafKeyGeneration_def with_certificate_def with_material_def new_material_def
      first_series_def first_generation_def split: if_splits)

lemma fresh_key_effect:
  assumes "storeFreshKeyAndDelivery ids now k secret gen cert secs w = (Inr d, w')"
  shows "es_ownerKeyID secret = k \<and> es_purpose secret = SecretPurposeLeafDelivery
    \<and> map_of (lg_secrets w) (k, SecretPurposeLeafDelivery) = None \<and> map_of (lg_deliveries w) (de_id d) = None
    \<and> canonical_uuid (de_id d) \<and> de_leafKeyGenerationID d = gen \<and> de_certificateID d = cert
    \<and> de_state d = DeliveryStatePending \<and> de_expiresAt d = Instant_Add now (seconds_duration secs)
    \<and> w' = w\<lparr>lg_secrets := AList.update (k, SecretPurposeLeafDelivery) secret (lg_secrets w),
         lg_deliveries := AList.update (de_id d) d (lg_deliveries w), lg_uuids := Suc (lg_uuids w)\<rparr>"
  using assms
  by (auto simp: storeFreshKeyAndDelivery_def tx_iff success_iff NewDelivery_def secret_key_def split: if_splits)

lemma store_result_effect:
  "StoreRequestResult key h (Inr j) w = (Inr u, w') \<longleftrightarrow> lg_requestResults w key = None
     \<and> w' = w\<lparr>lg_requestResults := (lg_requestResults w)(key \<mapsto>
         \<lparr>or_InputHash = h, or_ResultCertificateID = [], or_ResultJSON = json_text j\<rparr>)\<rparr>"
  by (auto simp: StoreRequestResult_def tx_iff)

lemma issuance_audit_effect:
  "appendIssuanceAudit ids now meta action c a w = (Inr u, w') \<Longrightarrow>
     w' = w\<lparr>lg_uuids := Suc (lg_uuids w), lg_auditEvents := lg_auditEvents w @
       [(issuance_event (ids (lg_uuids w)) now meta action c, NewAuthoritiesAuditScope [a])]\<rparr>"
  by (auto simp: appendIssuanceAudit_def tx_iff)

lemma toView_effect:
  "toView v w = (Inr view, w') \<longleftrightarrow> w' = w \<and> (if st_DeliveryID v = [] then view = stored_view v None
     else (\<exists>d. map_of (lg_deliveries w) (st_DeliveryID v) = Some d \<and> view = stored_view v (Some (toDeliveryView d))))"
  by (auto simp: toView_def tx_iff)

end
