(* ===== verification/Issuance_Interleaving.thy ===== *)
theory Issuance_Interleaving
  imports Issuance_Effects
begin

text \<open>
  The store an issuance commits on. Between the reads of a request and its commit other requests run;
  \<open>seen env l s\<close> says that the store \<open>s\<close> came about from \<open>l\<close> by what others did (and by identifiers this
  request drew from the generator) and by nothing else. A request leaves no trace before its commit: every
  step of a preparation, and every write that did not commit, stays within \<open>seen\<close>.
\<close>

inductive seen :: "issuance_env \<Rightarrow> ledger \<Rightarrow> ledger \<Rightarrow> bool" for env l where
  seen_start: "seen env l l"
| seen_others: "seen env l s \<Longrightarrow> seen env l (iu_meanwhile env k t s)"
| seen_drawn: "seen env l s \<Longrightarrow> seen env l (s\<lparr>lg_uuids := n\<rparr>)"

text \<open>The store of one commit: the \<open>t\<close>-th write of the \<open>k\<close>-th attempt runs on \<open>s\<close>, which is a store seen before
  with what others committed up to that write.\<close>

definition commit_try :: "issuance_env \<Rightarrow> ledger \<Rightarrow> nat \<Rightarrow> nat \<Rightarrow> ledger \<Rightarrow> bool" where
  "commit_try env l k t s \<longleftrightarrow> (\<exists>s0. seen env l s0 \<and> s = iu_meanwhile env k (Suc t) s0)"

lemma commit_try_seen: "commit_try env l k t s \<Longrightarrow> seen env l s"
  by (auto simp: commit_try_def intro: seen_others)

text \<open>With nobody else around, only the counter of identifiers moves.\<close>

lemma seen_quiet:
  "seen env l s \<Longrightarrow> (\<And>k t x. iu_meanwhile env k t x = x) \<Longrightarrow> s\<lparr>lg_uuids := 0\<rparr> = l\<lparr>lg_uuids := 0\<rparr>"
  by (induction rule: seen.induct) simp_all

definition traceless :: "issuance_env \<Rightarrow> (signing_world, 'a) tx \<Rightarrow> bool" where
  "traceless env m \<longleftrightarrow> (\<forall>l w r w'. m w = (r, w') \<longrightarrow> seen env l (sg_store w) \<longrightarrow> seen env l (sg_store w'))"

named_theorems traceless_intro \<open>steps that leave no trace in the store\<close>

lemma tracelessD: "traceless env m \<Longrightarrow> m w = (r, w') \<Longrightarrow> seen env l (sg_store w) \<Longrightarrow> seen env l (sg_store w')"
  by (simp add: traceless_def)

lemma traceless_keeps: "keeps sg_store m \<Longrightarrow> traceless env m"
  unfolding traceless_def keeps_def by metis

lemma traceless_bind [traceless_intro]:
  "traceless env m \<Longrightarrow> (\<And>x. traceless env (f x)) \<Longrightarrow> traceless env (tx_bind m f)"
  unfolding traceless_def tx_bind_def by (auto split: prod.splits sum.splits)

lemma traceless_crypto [traceless_intro]:
  "traceless env (resignWithNewSerial e plan i k pk kind by ic key points)"
  "traceless env (prepareCertificate e plan ref pk i ic key kind by points)"
  by (intro traceless_keeps keeps_intro)+

lemma traceless_values [traceless_intro]:
  "traceless env (tx_return x)" "traceless env (tx_fail e)" "traceless env (tx_guard c)" "traceless env (tx_lift s)"
  "traceless env (tx_domain d)" "traceless env (tx_domain_check q)"
  by (intro traceless_keeps keeps_intro)+

lemma traceless_reads: "keeps id m \<Longrightarrow> traceless env (in_store m)"
  by (rule traceless_keeps) (rule in_store_reads)

lemma traceless_uuid [traceless_intro]: "traceless env (in_store (NewUUID ids))"
  by (auto simp: traceless_def in_store_def NewUUID_def tx_return_def intro: seen_drawn)

lemma traceless_others [traceless_intro]: "traceless env (others env k)"
  by (auto simp: traceless_def others_def in_store_def intro: seen_others)

lemma traceless_if [traceless_intro]: "traceless env m \<Longrightarrow> traceless env n \<Longrightarrow> traceless env (if b then m else n)"
  by simp

lemma traceless_prod [traceless_intro]: "(\<And>a b. traceless env (f a b)) \<Longrightarrow> traceless env (case p of (a, b) \<Rightarrow> f a b)"
  by (cases p) simp

lemma traceless_option [traceless_intro]:
  "traceless env n \<Longrightarrow> (\<And>x. traceless env (f x)) \<Longrightarrow> traceless env (case q of None \<Rightarrow> n | Some x \<Rightarrow> f x)"
  by (cases q) simp_all

subsection \<open>Preparations\<close>

lemma prepareIssue_traceless: "traceless env (prepareIssue env k meta cmd req reuse)"
  unfolding prepareIssue_def Let_def by (intro traceless_intro traceless_reads issue_reads_reads)

lemma prepareRenew_traceless: "traceless env (prepareRenew env k meta cmd ver reuse)"
  unfolding prepareRenew_def Let_def plan_renewal_def renewal_key_ref_def
  by (intro traceless_intro traceless_reads renew_reads_reads)

lemma replayBefore_traceless: "keeps id a \<Longrightarrow> traceless env (replayBeforePreparation env key h p a)"
  unfolding replayBeforePreparation_def
  by (intro traceless_intro traceless_reads keeps_intro credential_reads replay_reads)

subsection \<open>Writes\<close>

lemma one_write_seen:
  assumes "one_write env k body s = (o', w', t', v')" and "seen env l (sg_store (fst s))"
  shows "case o' of
      None \<Rightarrow> (\<exists>t s. commit_try env l k t s \<and> body t s = (Inr v', sg_store w'))
    | Some e \<Rightarrow> e = Port ErrCommitUnknown \<or> seen env l (sg_store w')"
proof -
  obtain w t v where s: "s = (w, t, v)" by (cases s)
  let ?l = "iu_meanwhile env k (Suc t) (sg_store w)"
  have mine: "commit_try env l k t ?l" using assms(2) s by (auto simp: commit_try_def)
  then have start: "seen env l ?l" by (rule commit_try_seen)
  obtain r l' where run: "uow_write (iu_fate env k t) (body t) ?l = (r, l')"
    by (cases "uow_write (iu_fate env k t) (body t) ?l")
  show ?thesis
  proof (cases r)
    case (Inl e)
    with assms(1) s run have "o' = Some e" "sg_store w' = l'" by (auto simp: one_write_def in_store_def)
    with uow_write_store [OF run] Inl start show ?thesis by auto
  next
    case (Inr x)
    with run have "body t ?l = (Inr x, l')" by (simp add: uow_write_iff)
    moreover from assms(1) s run Inr have "o' = None" "sg_store w' = l'" "v' = x" by (auto simp: one_write_def in_store_def)
    ultimately show ?thesis using mine by auto
  qed
qed

lemma commit_unknown_not_retried: "\<not> retryablePreparation (Port ErrCommitUnknown)"
  by (simp add: retryablePreparation_def)

lemma retry_seen:
  assumes "retry_loop n ctx (one_write env k body) le s = (o', w', t', v')" and "seen env l (sg_store (fst s))"
  shows "case o' of
      None \<Rightarrow> (\<exists>t s. commit_try env l k t s \<and> body t s = (Inr v', sg_store w'))
    | Some e \<Rightarrow> e = Port ErrCommitUnknown \<or> seen env l (sg_store w')"
  using assms
proof (induction n arbitrary: s le)
  case (Suc n)
  show ?case
  proof (cases "ctx s")
    case None
    obtain q w1 t1 v1 where one: "one_write env k body s = (q, w1, t1, v1)" by (cases "one_write env k body s")
    note step = one_write_seen [OF one Suc.prems(2)]
    show ?thesis
    proof (cases "\<exists>e. q = Some e \<and> retryablePreparation e")
      case True
      then obtain e where q: "q = Some e" "retryablePreparation e" by blast
      with Suc.prems(1) None one have "retry_loop n ctx (one_write env k body) (Some e) (w1, t1, v1) = (o', w', t', v')"
        by simp
      moreover have "seen env l (sg_store w1)" using step q commit_unknown_not_retried by auto
      ultimately show ?thesis using Suc.IH by simp
    next
      case False
      with Suc.prems(1) None one have o: "o' = q" "w' = w1" "v' = v1" by (auto split: option.splits if_splits)
      from step show ?thesis unfolding o .
    qed
  next
    case (Some e)
    with Suc.prems show ?thesis by auto
  qed
qed auto

lemma retried_write_seen:
  assumes "retried_write zero env k body w = (r, w')" and "seen env l (sg_store w)"
  shows "case r of
      Inr v \<Rightarrow> (\<exists>t s. commit_try env l k t s \<and> body t s = (Inr v, sg_store w'))
    | Inl e \<Rightarrow> e = Port ErrCommitUnknown \<or> seen env l (sg_store w')"
proof -
  obtain o' w1 t1 v1 where loop: "RunWithRetry (\<lambda>(_, t, _). iu_ctxErr env k (Suc t)) (one_write env k body)
      (w, 0, zero) = (o', w1, t1, v1)"
    by (cases "RunWithRetry (\<lambda>(_, t, _). iu_ctxErr env k (Suc t)) (one_write env k body) (w, 0, zero)")
  from retry_seen [OF loop [unfolded RunWithRetry_def]] assms(2)
  have "case o' of None \<Rightarrow> (\<exists>t s. commit_try env l k t s \<and> body t s = (Inr v1, sg_store w1))
    | Some e \<Rightarrow> e = Port ErrCommitUnknown \<or> seen env l (sg_store w1)" by simp
  moreover from assms(1) loop have "w' = w1 \<and> r = (case o' of None \<Rightarrow> Inr v1 | Some e \<Rightarrow> Inl e)"
    by (auto simp: retried_write_def split: option.splits)
  ultimately show ?thesis by (cases o') auto
qed

lemma stale_seen:
  "retried_write zero env k body w = (Inl e, w') \<Longrightarrow> Is_rePrepare e \<Longrightarrow> seen env l (sg_store w) \<Longrightarrow> seen env l (sg_store w')"
  by (drule retried_write_seen) auto

end
