(* ===== verification/Issue_Safety.thy ===== *)
theory Issue_Safety
  imports Issuance_Commits Issuance_Interleaving
begin

text \<open>
  Issuing a leaf certificate, end to end: whatever other requests commit in between, an \<open>Issue\<close> that
  returns a view either replayed the stored result of the same request, or stored one new certificate
  whose issuer may issue it at that moment, under a serial nobody used, with its key waiting for a single
  delivery. However often the preparation is redone, one key is generated.
\<close>

subsection \<open>One commit\<close>

definition fresh_issue ::
  "IssuanceIssueCommand \<Rightarrow> Instant \<Rightarrow> Certificate \<Rightarrow> PublicKey \<Rightarrow> EncryptedSecret \<Rightarrow> ledger \<Rightarrow> IssuanceView \<Rightarrow> ledger \<Rightarrow> bool" where
  "fresh_issue cmd now c pk secret s v s' \<longleftrightarrow> ce_id c = iv_CertificateID v \<and> ce_kind c = CertificateKindLeaf
     \<and> (\<exists>a. map_of (lg_authorities s) (ii_AuthorityID cmd) = Some a \<and> live_issuer s a
          \<and> CanIssue a (leaf_context (ce_validity c)) now = None
          \<and> ce_issuerCAKeyGenerationID c = au_keyGenerationID a
          \<and> serial_unused s (au_keyGenerationID a) (ce_serial c))
     \<and> map_of (lg_certificates s) (ce_id c) = None
     \<and> lg_certificates s' = AList.update (ce_id c) c (lg_certificates s)
     \<and> lg_series s (iv_SeriesID v) = None
     \<and> (\<exists>pol. SeriesPolicy_Validate pol = None \<and> lg_series s' = (lg_series s)(iv_SeriesID v \<mapsto>
           first_series cmd pol (iv_SeriesID v) (iv_KeyGenerationID v) (ce_id c)))
     \<and> lg_leafKeyGenerations s (iv_KeyGenerationID v) = None
     \<and> lg_leafKeyGenerations s' = (lg_leafKeyGenerations s)(iv_KeyGenerationID v \<mapsto>
           first_generation (iv_SeriesID v) (iv_KeyGenerationID v) (ce_keyMaterialID c))
     \<and> map_of (lg_secrets s) (ce_keyMaterialID c, SecretPurposeLeafDelivery) = None
     \<and> es_ownerKeyID secret = ce_keyMaterialID c \<and> es_purpose secret = SecretPurposeLeafDelivery
     \<and> lg_secrets s' = AList.update (ce_keyMaterialID c, SecretPurposeLeafDelivery) secret (lg_secrets s)
     \<and> lg_keyMaterials s (ce_keyMaterialID c) = None
     \<and> lg_keyMaterials s' = (lg_keyMaterials s)(ce_keyMaterialID c \<mapsto> new_material (ce_keyMaterialID c) pk)
     \<and> (\<exists>d. map_of (lg_deliveries s) (de_id d) = None \<and> lg_deliveries s' = AList.update (de_id d) d (lg_deliveries s)
          \<and> de_state d = DeliveryStatePending \<and> de_certificateID d = ce_id c
          \<and> de_leafKeyGenerationID d = iv_KeyGenerationID v \<and> iv_Delivery v = Some (toDeliveryView d))
     \<and> lg_authorities s' = lg_authorities s \<and> lg_caKeyGenerations s' = lg_caKeyGenerations s
     \<and> lg_revocationRows s' = lg_revocationRows s \<and> lg_crlStates s' = lg_crlStates s"

text \<open>The row the commit leaves for a repeated request.\<close>

definition issued_result :: "IssuanceView \<Rightarrow> DeliveryID \<Rightarrow> storedIssuanceResult" where
  "issued_result v d = \<lparr>st_SchemaVersion = issuanceStoredResultSchemaVersion, st_SeriesID = iv_SeriesID v,
     st_CertificateID = iv_CertificateID v, st_KeyGenerationID = iv_KeyGenerationID v,
     st_RenewalCount = iv_RenewalCount v, st_KeyRotated = iv_KeyRotated v, st_DeliveryID = d\<rparr>"

lemma issue_commit_effect:
  assumes run: "issue_commit env meta cmd key h prep now w = (Inr v, w')"
    and prep: "prepared_for (xi_plan prep) (xi_keyMaterialID prep) (xi_certificate prep)"
    and sec: "xi_generatedSecret prep = Some secret"
  shows "fresh_issue cmd now (xi_certificate prep) (xi_publicKey prep) secret w v w' \<and> lg_requestResults w key = None
    \<and> (\<exists>d. map_of (lg_deliveries w') d \<noteq> None \<and> canonical_uuid d
         \<and> lg_requestResults w' key = Some \<lparr>or_InputHash = h, or_ResultCertificateID = [],
             or_ResultJSON = json_text (stored_result_json (issued_result v d))\<rparr>)
    \<and> canonical_uuid (iv_SeriesID v) \<and> canonical_uuid (iv_KeyGenerationID v) \<and> canonical_uuid (iv_CertificateID v)
    \<and> iv_RenewalCount v = 0"
proof -
  let ?c = "xi_certificate prep"
  from run obtain w0 ser gen w1 d w2 w3 w4 where checks: "issue_checks cmd prep now w = (Inr (), w0)"
    and rows0: "issue_rows env cmd prep w0 = (Inr (ser, gen), w1)"
    and key: "storeFreshKeyAndDelivery (iu_ids env) now (xi_keyMaterialID prep) secret gen (ce_id ?c)
        (dd_PrivateDeliverySeconds (xi_defaults prep)) w1 = (Inr d, w2)"
    and res: "StoreRequestResult key h (Inr (stored_result_json \<lparr>st_SchemaVersion = issuanceStoredResultSchemaVersion,
        st_SeriesID = ser, st_CertificateID = ce_id ?c, st_KeyGenerationID = gen, st_RenewalCount = 0,
        st_KeyRotated = True, st_DeliveryID = de_id d\<rparr>)) w2 = (Inr (), w3)"
    and audit: "appendIssuanceAudit (iu_ids env) now meta ''issuance.issue'' ?c (ii_AuthorityID cmd) w3 = (Inr (), w4)"
    and view: "toView \<lparr>st_SchemaVersion = issuanceStoredResultSchemaVersion,
        st_SeriesID = ser, st_CertificateID = ce_id ?c, st_KeyGenerationID = gen, st_RenewalCount = 0,
        st_KeyRotated = True, st_DeliveryID = de_id d\<rparr> w4 = (Inr v, w')"
    by (auto simp: issue_commit_def tx_bind_iff Let_def tx_fail_iff sec split: option.splits prod.splits)
  from issue_checks_effect [OF checks] have "w0 = w" by simp
  with rows0 have rows: "issue_rows env cmd prep w = (Inr (ser, gen), w1)" by simp
  note row = issue_rows_effect [OF rows]
  note fresh = fresh_key_effect [OF key]
  note stored = res [unfolded store_result_effect]
  note audited = issuance_audit_effect [OF audit]
  from fresh have "de_id d \<noteq> []" by (auto simp: canonical_uuid_def)
  with view audited stored fresh have v: "w' = w4"
    "v = stored_view \<lparr>st_SchemaVersion = issuanceStoredResultSchemaVersion,
        st_SeriesID = ser, st_CertificateID = ce_id ?c, st_KeyGenerationID = gen, st_RenewalCount = 0,
        st_KeyRotated = True, st_DeliveryID = de_id d\<rparr> (Some (toDeliveryView d))"
    by (auto simp: toView_effect update_conv')
  from issue_checks_effect [OF checks] prep have issuer: "\<exists>a. map_of (lg_authorities w) (ii_AuthorityID cmd) = Some a
      \<and> live_issuer w a \<and> CanIssue a (leaf_context (ce_validity ?c)) now = None
      \<and> ce_issuerCAKeyGenerationID ?c = au_keyGenerationID a \<and> serial_unused w (au_keyGenerationID a) (ce_serial ?c)"
    by (auto simp: prepared_for_def)
  have "fresh_issue cmd now ?c (xi_publicKey prep) secret w v w'"
    unfolding fresh_issue_def
    using issuer prep row fresh stored audited v(2)
    by (auto simp: v(1) prepared_for_def stored_view_def with_certificate_def with_material_def new_material_def)
  moreover have "iv_SeriesID v = ser" "iv_KeyGenerationID v = gen" "iv_CertificateID v = ce_id ?c"
    "iv_RenewalCount v = 0" "iv_KeyRotated v" by (simp_all add: v(2) stored_view_def)
  ultimately show ?thesis
    using row fresh stored audited prep
    by (auto simp: v(1) issued_result_def prepared_for_def with_certificate_def with_material_def update_conv')
qed

subsection \<open>Replays\<close>

definition replayed :: "OperationRequestKey \<Rightarrow> string \<Rightarrow> ledger \<Rightarrow> IssuanceView \<Rightarrow> bool" where
  "replayed key h s v \<longleftrightarrow> (\<exists>row st. lg_requestResults s key = Some row \<and> or_InputHash row = h
     \<and> decodeStoredIssuanceResult row = Inr st \<and> toView st s = (Inr v, s))"

lemma Replay_found:
  assumes "ReplayStoredResult key h s = (Inr q, s1)"
  shows "s1 = s \<and> (case q of None \<Rightarrow> lg_requestResults s key = None
    | Some row \<Rightarrow> lg_requestResults s key = Some row \<and> or_InputHash row = h)"
proof -
  have "h \<noteq> []" using assms by (auto simp: ReplayStoredResult_def tx_iff split: if_splits)
  note eq = assms [unfolded Replay_result [OF this]]
  show ?thesis
  proof (cases "lg_requestResults s key")
    case None
    with eq have "q = None" "s1 = s" by simp_all
    with None show ?thesis by simp
  next
    case (Some row)
    with eq have "or_InputHash row = h" "q = Some row" "s1 = s" by (simp_all split: if_splits)
    with Some show ?thesis by simp
  qed
qed

lemma replay_view_effect:
  assumes "replay_view key h s = (Inr r, s')"
  shows "s' = s \<and> (case r of None \<Rightarrow> lg_requestResults s key = None | Some v \<Rightarrow> replayed key h s v)"
proof -
  from assms obtain q s1 where q: "ReplayStoredResult key h s = (Inr q, s1)"
    and rest: "(case q of None \<Rightarrow> tx_return None | Some row \<Rightarrow> tx_bind (tx_lift (decodeStoredIssuanceResult row))
        (\<lambda>v. tx_bind (toView v) (\<lambda>view. tx_return (Some view)))) s1 = (Inr r, s')"
    by (auto simp: replay_view_def tx_bind_iff)
  note found = Replay_found [OF q]
  show ?thesis
  proof (cases q)
    case None
    with rest found show ?thesis by (auto simp: tx_return_iff)
  next
    case (Some row)
    with rest obtain st v where st: "decodeStoredIssuanceResult row = Inr st" "toView st s1 = (Inr v, s')" "r = Some v"
      by (auto simp: tx_bind_iff tx_lift_iff tx_return_iff)
    then have "s' = s1" by (simp add: toView_effect)
    with st found Some show ?thesis by (auto simp: replayed_def)
  qed
qed

lemma commitIssue_cases:
  assumes "commitIssue env k meta cmd key h prep t s = (Inr v, s')"
  shows "replayed key h s v \<and> s' = s
    \<or> lg_requestResults s key = None \<and> issue_commit env meta cmd key h prep (iu_clock env k (2 * t + 2)) s = (Inr v, s')"
proof -
  from assms obtain e s1 where e: "replay_view key h s = (Inr e, s1)"
    and rest: "(case e of Some v \<Rightarrow> tx_return v
      | None \<Rightarrow> issue_commit env meta cmd key h prep (iu_clock env k (2 * t + 2))) s1 = (Inr v, s')"
    by (auto simp: commitIssue_def tx_bind_iff requireCurrentAuth_iff authorizeIssue_def tx_guard_iff simp del: add_2_eq_Suc')
  from replay_view_effect [OF e] rest show ?thesis by (cases e) (auto simp: tx_return_iff)
qed

subsection \<open>The key of a leaf\<close>

text \<open>A new pair for the certificate \<open>c\<close>: the engine's answer for its key material and algorithm, for delivery, and
  the certificate signed for that public key with the stored signing key of the named authority, which was live.\<close>

definition leaf_pair ::
  "issuance_env \<Rightarrow> ledger \<Rightarrow> AuthorityID \<Rightarrow> Certificate \<Rightarrow> PublicKey \<Rightarrow> EncryptedSecret \<Rightarrow> bool" where
  "leaf_pair env l i c pk sec \<longleftrightarrow>
     generated_for env (ce_keyMaterialID c) (ce_keyAlgorithm c) SecretPurposeLeafDelivery pk sec
     \<and> (\<exists>s a sk. seen env l s \<and> map_of (lg_authorities s) i = Some a
          \<and> au_keyGenerationID a = ce_issuerCAKeyGenerationID c \<and> live_issuer s a \<and> signing_secret s a sk
          \<and> signed_with env pk sk c)"

lemma PlanIssuance_fields:
  "PlanIssuance a req now = Inr p \<Longrightarrow> ip_Profile p = ir_Profile req \<and> ip_Subject p = ir_Subject req
     \<and> ip_SANs p = ir_SANs req \<and> ip_KeyAlgorithm p = ir_KeyAlgorithm req \<and> ip_Window p = ir_Window req
     \<and> ip_IssuerKeyGenerationID p = au_keyGenerationID a"
  by (auto simp: PlanIssuance_def planIssuance_def check_then_Inr)

definition issue_pair :: "issuance_env \<Rightarrow> ledger \<Rightarrow> IssuanceIssueCommand \<Rightarrow> KeyAlgorithm \<Rightarrow> issuePrepared \<Rightarrow> bool" where
  "issue_pair env l cmd alg p \<longleftrightarrow> ce_keyMaterialID (xi_certificate p) = xi_keyMaterialID p
     \<and> ce_keyAlgorithm (xi_certificate p) = alg
     \<and> (\<exists>sec. xi_generatedSecret p = Some sec
          \<and> leaf_pair env l (ii_AuthorityID cmd) (xi_certificate p) (xi_publicKey p) sec)"

lemma issue_reads_issuer:
  "issue_reads cmd w = (Inr (a, d, sk, ic, points), w') \<Longrightarrow>
     map_of (lg_authorities w) (ii_AuthorityID cmd) = Some a \<and> live_issuer w a \<and> signing_secret w a sk"
  by (auto simp: issue_reads_def read_issuer_def GetIssuerForUpdate_def tx_iff dest!: caSigningSecret_effect
      idD [OF defaults_reads])

lemma prepareIssue_pair:
  assumes run: "prepareIssue env k meta cmd req reuse w = (Inr prep, w')"
    and start: "seen env l (sg_store w)" and old: "\<And>q. reuse = Some q \<Longrightarrow> issue_pair env l cmd (ir_KeyAlgorithm req) q"
  shows "issue_pair env l cmd (ir_KeyAlgorithm req) prep"
proof -
  let ?by = "Principal_AccountID (rq_Principal meta)"
  from run obtain w1 a d secret ic points w2 pol window plan w3 raw w4 where
    others: "others env k w = (Inr (), w1)"
    and reads: "issue_reads cmd (sg_store w1) = (Inr (a, d, secret, ic, points), w2)"
    and plan: "PlanIssuance a (req\<lparr>ir_Window := window\<rparr>) (iu_clock env k 0) = Inr plan"
    and rest: "(case reuse of
        Some q \<Rightarrow> \<exists>cert. resignWithNewSerial env plan raw (xi_keyMaterialID q) (xi_publicKey q)
             CertificateKindLeaf ?by (Some ic) secret points w3 = (Inr cert, w')
          \<and> xi_keyMaterialID prep = xi_keyMaterialID q \<and> xi_certificate prep = cert
          \<and> xi_publicKey prep = xi_publicKey q \<and> xi_generatedSecret prep = xi_generatedSecret q
      | None \<Rightarrow> \<exists>m pd. prepareCertificate env plan \<lparr>kr_Fresh = Some \<lparr>ks_KeyMaterialID = m,
             ks_Algorithm = ir_KeyAlgorithm req, ks_Purpose = SecretPurposeLeafDelivery\<rparr>, kr_Existing = []\<rparr>
             zero_public_key raw (Some ic) secret CertificateKindLeaf ?by points w4 = (Inr pd, w')
          \<and> xi_keyMaterialID prep = pd_KeyMaterialID pd \<and> xi_certificate prep = pd_Certificate pd
          \<and> xi_publicKey prep = pd_GeneratedPublic pd \<and> xi_generatedSecret prep = pd_GeneratedSecret pd)"
    by (fastforce simp: prepareIssue_def tx_iff Let_def in_store_iff split: option.splits prod.splits)
  have "seen env l (sg_store w1)" by (rule tracelessD [OF traceless_others others start])
  note issuer = this issue_reads_issuer [OF reads]
  from PlanIssuance_fields [OF plan] have p: "ip_KeyAlgorithm plan = ir_KeyAlgorithm req"
    "ip_IssuerKeyGenerationID plan = au_keyGenerationID a" by simp_all
  show ?thesis
  proof (cases reuse)
    case None
    with rest obtain m pd where pd: "prepareCertificate env plan \<lparr>kr_Fresh = Some \<lparr>ks_KeyMaterialID = m,
             ks_Algorithm = ir_KeyAlgorithm req, ks_Purpose = SecretPurposeLeafDelivery\<rparr>, kr_Existing = []\<rparr>
             zero_public_key raw (Some ic) secret CertificateKindLeaf ?by points w4 = (Inr pd, w')"
      and prep: "xi_keyMaterialID prep = pd_KeyMaterialID pd" "xi_certificate prep = pd_Certificate pd"
        "xi_publicKey prep = pd_GeneratedPublic pd" "xi_generatedSecret prep = pd_GeneratedSecret pd" by auto
    from prepareCertificate_result [OF pd] have "pd_KeyMaterialID pd = m" "ce_keyMaterialID (pd_Certificate pd) = m"
      "ce_keyAlgorithm (pd_Certificate pd) = ip_KeyAlgorithm plan"
      "ce_issuerCAKeyGenerationID (pd_Certificate pd) = ip_IssuerKeyGenerationID plan"
      by (auto simp: matches_def)
    with prepareCertificate_signed [OF pd] issuer p show ?thesis
      unfolding issue_pair_def leaf_pair_def prep by auto
  next
    case (Some q)
    with rest obtain c where sign: "resignWithNewSerial env plan raw (xi_keyMaterialID q) (xi_publicKey q)
             CertificateKindLeaf ?by (Some ic) secret points w3 = (Inr c, w')"
      and prep: "xi_keyMaterialID prep = xi_keyMaterialID q" "xi_certificate prep = c"
        "xi_publicKey prep = xi_publicKey q" "xi_generatedSecret prep = xi_generatedSecret q" by auto
    from resign_result [OF sign] have "ce_keyMaterialID c = xi_keyMaterialID q" "ce_keyAlgorithm c = ip_KeyAlgorithm plan"
      "ce_issuerCAKeyGenerationID c = ip_IssuerKeyGenerationID plan" by (auto simp: matches_def)
    with resign_signed [OF sign] old [OF Some] issuer p show ?thesis
      unfolding issue_pair_def leaf_pair_def prep by (auto, blast)
  qed
qed

subsection \<open>All attempts\<close>

lemma issue_attempts_result:
  assumes "issue_attempts env meta cmd req key h n k reuse w = (Inr v, w')" and "seen env l (sg_store w)"
    and "\<And>q. reuse = Some q \<Longrightarrow> issue_pair env l cmd (ir_KeyAlgorithm req) q"
  shows "\<exists>w1 w2 reuse' kk prep t s. prepareIssue env kk meta cmd req reuse' w1 = (Inr prep, w2)
    \<and> issue_pair env l cmd (ir_KeyAlgorithm req) prep \<and> commit_try env l kk t s \<and> commitIssue env kk meta cmd key h prep t s = (Inr v, sg_store w')"
  using assms
proof (induction n arbitrary: k reuse w)
  case (Suc n)
  then obtain prep w1 r w2 where prep: "prepareIssue env k meta cmd req reuse w = (Inr prep, w1)"
    and wr: "retried_write zero_issuance_view env k (commitIssue env k meta cmd key h prep) w1 = (r, w2)"
    and rest: "(case r of
       Inl err \<Rightarrow> if Is_rePrepare err then issue_attempts env meta cmd req key h n (Suc k) (Some prep) else tx_fail err
     | Inr v \<Rightarrow> tx_return v) w2 = (Inr v, w')"
    by (auto simp: tx_bind_iff tx_try_iff)
  have pair: "issue_pair env l cmd (ir_KeyAlgorithm req) prep"
    by (rule prepareIssue_pair [OF prep Suc.prems(2)]) (rule Suc.prems(3))
  from tracelessD [OF prepareIssue_traceless prep Suc.prems(2)] have w1: "seen env l (sg_store w1)" .
  show ?case
  proof (cases r)
    case (Inl e)
    with rest have again: "issue_attempts env meta cmd req key h n (Suc k) (Some prep) w2 = (Inr v, w')"
      and "Is_rePrepare e" by (auto simp: tx_fail_iff split: if_splits)
    with wr Inl w1 have "seen env l (sg_store w2)" by (auto dest: stale_seen)
    with again show ?thesis using pair by (intro Suc.IH) auto
  next
    case (Inr v')
    with rest have "v' = v" "w2 = w'" by (auto simp: tx_return_iff)
    with retried_write_seen [OF wr w1] Inr
    have "\<exists>t s. commit_try env l k t s \<and> commitIssue env k meta cmd key h prep t s = (Inr v, sg_store w')" by simp
    with prep pair show ?thesis by blast
  qed
qed (simp add: tx_fail_iff)

lemma retried_write_quiet: "keeps sg_generated (retried_write zero env k body)" "keeps sg_signed (retried_write zero env k body)"
  by (auto simp: keeps_def dest!: retried_write_calls simp: calls_def)

lemma issue_attempts_keys:
  "adds_at_most sg_generated (case reuse of None \<Rightarrow> 1 | Some _ \<Rightarrow> 0) (issue_attempts env meta cmd req key h n k reuse)"
proof (induction n arbitrary: k reuse)
  case 0
  show ?case by (simp add: adds_none keeps_fail)
next
  case (Suc n)
  have tail: "adds_at_most sg_generated 0 (case r of
       Inl err \<Rightarrow> if Is_rePrepare err then issue_attempts env meta cmd req key h n (Suc k) (Some prep) else tx_fail err
     | Inr v \<Rightarrow> tx_return v)" for r prep
    using Suc [where k = "Suc k" and reuse = "Some prep"] by (cases r) (auto intro: adds_none keeps_intro)
  show ?case
    unfolding issue_attempts.simps
    by (rule adds_bind [OF prepareIssue_adds, where j = 0], rule adds_quiet)
      (use tail in \<open>auto intro!: keeps_try retried_write_quiet\<close>)
qed

lemma issue_attempts_signatures: "adds_at_most sg_signed n (issue_attempts env meta cmd req key h n k reuse)"
proof (induction n arbitrary: k reuse)
  case 0
  show ?case by (simp add: adds_none keeps_fail)
next
  case (Suc n)
  have tail: "adds_at_most sg_signed n (case r of
       Inl err \<Rightarrow> if Is_rePrepare err then issue_attempts env meta cmd req key h n (Suc k) (Some prep) else tx_fail err
     | Inr v \<Rightarrow> tx_return v)" for r prep
    using Suc [where k = "Suc k" and reuse = "Some prep"] by (cases r) (auto intro: adds_none keeps_intro)
  show ?case
    unfolding issue_attempts.simps
    by (rule adds_bind [OF prepareIssue_signs, where j = n], rule adds_quiet)
      (use tail in \<open>auto intro!: keeps_try retried_write_quiet\<close>)
qed

lemma replayBefore_calls:
  "keeps sg_generated (replayBeforePreparation env key h p a)" "keeps sg_signed (replayBeforePreparation env key h p a)"
  unfolding replayBeforePreparation_def others_def by (intro keeps_intro)+

lemma log_bound:
  "adds_at_most f n m \<Longrightarrow> length (f (snd (m w))) \<le> length (f w) + n"
  by (cases "m w") (auto dest: adds_at_mostD)

text \<open>C7. One request, one key: whatever it returns, and however often a serial collision or a moved
  issuer forces it to prepare again, \<open>Issue\<close> has at most one key pair generated, and asks for at most
  \<open>maxSerialAttempts\<close> signatures.\<close>

theorem issue_one_key:
  "length (sg_generated (snd (Issue env meta cmd w))) \<le> length (sg_generated w) + 1
   \<and> length (sg_signed (snd (Issue env meta cmd w))) \<le> length (sg_signed w) + maxSerialAttempts"
proof
  have "adds_at_most sg_generated 1 (issue_attempts env meta cmd req key h n k None)" for req key h n k
    using issue_attempts_keys [of None] by simp
  then have "adds_at_most sg_generated 1 (Issue env meta cmd)"
    unfolding Issue_def
    by (intro adds_quiet adds_none [OF keeps_fail] keeps_intro replayBefore_calls)
      (auto split: option.splits intro!: adds_quiet keeps_intro replayBefore_calls intro: adds_none)
  then show "length (sg_generated (snd (Issue env meta cmd w))) \<le> length (sg_generated w) + 1" by (rule log_bound)
  have "adds_at_most sg_signed maxSerialAttempts (Issue env meta cmd)"
    unfolding Issue_def
    by (intro adds_quiet keeps_intro replayBefore_calls)
      (auto split: option.splits intro!: adds_quiet keeps_intro replayBefore_calls issue_attempts_signatures intro: adds_none)
  then show "length (sg_signed (snd (Issue env meta cmd w))) \<le> length (sg_signed w) + maxSerialAttempts"
    by (rule log_bound)
qed

subsection \<open>What Issue returns\<close>

text \<open>The key and the input hash of a request, and the request itself in the domain's terms.\<close>

definition issue_request ::
  "(string \<Rightarrow> string option) \<Rightarrow> MutationMeta \<Rightarrow> IssuanceIssueCommand \<Rightarrow> IssuanceRequest \<Rightarrow> OperationRequestKey \<Rightarrow> string \<Rightarrow> bool" where
  "issue_request url meta cmd req key h \<longleftrightarrow> IsAdmin (rq_Principal meta) \<and> DomainProfile cmd = Inr (ir_Profile req)
     \<and> SubjectInput_Domain (ii_Subject cmd) = Inr (ir_Subject req) \<and> DomainSANs url cmd = Inr (ir_SANs req)
     \<and> DomainKeyAlgorithm cmd = Inr (ir_KeyAlgorithm req) \<and> ir_Window req = zero_window
     \<and> InputHash issuanceOperationIssue [(''authority_id'', NormalizeUUID (ii_AuthorityID cmd))]
         (Inr (issueHashInput cmd (ir_Profile req) (ir_Subject req) (ir_SANs req) (ir_KeyAlgorithm req))) = Inr h
     \<and> RequestKey meta issuanceOperationIssue = Inr key"

lemma issue_request_unique:
  assumes "issue_request url meta cmd req key h" "issue_request url meta cmd req' key' h'"
  shows "req' = req \<and> key' = key \<and> h' = h"
  using assms by (auto simp: issue_request_def intro!: IssuanceRequest.equality)

text \<open>Past the admission, \<open>Issue\<close> looks for an earlier result and then makes its attempts.\<close>

lemma Issue_admitted:
  assumes "Issue env meta cmd w = (r, w')"
  shows "(\<exists>e. r = Inl e) \<and> w' = w
    \<or> (\<exists>req key h. issue_request (iu_url env) meta cmd req key h
       \<and> tx_bind (replayBeforePreparation env key h (rq_Principal meta)
            (authorizeIssue env (rq_Principal meta) (ii_AuthorityID cmd))) (\<lambda>earlier. case earlier of
           Some v \<Rightarrow> tx_return v
         | None \<Rightarrow> issue_attempts env meta cmd req key h maxSerialAttempts 1 None) w = (r, w'))"
proof (cases "\<exists>e. r = Inl e \<and> w' = w")
  case False
  note front = bind_front tx_fail_def
  from False assms have v: "IssueCommand_Validate (iu_url env) cmd = None" and admin: "IsAdmin (rq_Principal meta)"
    by (auto simp: Issue_def front split: option.splits if_splits)
  from False assms v admin obtain profile subject sans alg where
    parts: "DomainProfile cmd = Inr profile" "SubjectInput_Domain (ii_Subject cmd) = Inr subject"
      "DomainSANs (iu_url env) cmd = Inr sans" "DomainKeyAlgorithm cmd = Inr alg"
    by (cases "DomainProfile cmd"; cases "SubjectInput_Domain (ii_Subject cmd)"; cases "DomainSANs (iu_url env) cmd";
        cases "DomainKeyAlgorithm cmd") (auto simp: Issue_def front)
  let ?req = "\<lparr>ir_Profile = profile, ir_Subject = subject, ir_SANs = sans, ir_KeyAlgorithm = alg, ir_Window = zero_window\<rparr>"
  let ?hash = "InputHash issuanceOperationIssue [(''authority_id'', NormalizeUUID (ii_AuthorityID cmd))]
     (Inr (issueHashInput cmd profile subject sans alg))"
  from False assms v admin parts obtain h key where hk: "?hash = Inr h" "RequestKey meta issuanceOperationIssue = Inr key"
    by (cases ?hash; cases "RequestKey meta issuanceOperationIssue") (auto simp: Issue_def front)
  from False assms v admin parts hk have
    "tx_bind (replayBeforePreparation env key h (rq_Principal meta)
        (authorizeIssue env (rq_Principal meta) (ii_AuthorityID cmd))) (\<lambda>earlier. case earlier of
       Some v \<Rightarrow> tx_return v
     | None \<Rightarrow> issue_attempts env meta cmd ?req key h maxSerialAttempts 1 None) w = (r, w')"
    by (auto simp: Issue_def front simp del: One_nat_def split: option.splits)
  moreover have "issue_request (iu_url env) meta cmd ?req key h"
    using admin parts hk by (simp add: issue_request_def)
  ultimately show ?thesis by blast
qed blast

lemma issue_sound_aux:
  assumes "Issue env meta cmd w = (Inr v, w')"
  shows "\<exists>req key h s. issue_request (iu_url env) meta cmd req key h \<and> seen env (sg_store w) s
    \<and> (replayed key h s v \<and> sg_store w' = s
       \<or> lg_requestResults s key = None
         \<and> (\<exists>c k t pk sec. commit_try env (sg_store w) k t s
           \<and> fresh_issue cmd (iu_clock env k (2 * t + 2)) c pk sec s v (sg_store w')
           \<and> leaf_pair env (sg_store w) (ii_AuthorityID cmd) c pk sec
           \<and> ce_subject c = ir_Subject req \<and> ce_sans c = ir_SANs req \<and> ce_profile c = ir_Profile req
           \<and> ce_keyAlgorithm c = ir_KeyAlgorithm req)
         \<and> canonical_uuid (iv_SeriesID v) \<and> canonical_uuid (iv_KeyGenerationID v) \<and> canonical_uuid (iv_CertificateID v)
         \<and> iv_RenewalCount v = 0
         \<and> (\<exists>d. map_of (lg_deliveries (sg_store w')) d \<noteq> None \<and> canonical_uuid d
              \<and> lg_requestResults (sg_store w') key = Some \<lparr>or_InputHash = h, or_ResultCertificateID = [],
                or_ResultJSON = json_text (stored_result_json (issued_result v d))\<rparr>))"
proof -
  from Issue_admitted [OF assms] obtain req key h where req: "issue_request (iu_url env) meta cmd req key h"
    and run: "tx_bind (replayBeforePreparation env key h (rq_Principal meta)
            (authorizeIssue env (rq_Principal meta) (ii_AuthorityID cmd))) (\<lambda>earlier. case earlier of
           Some v \<Rightarrow> tx_return v
         | None \<Rightarrow> issue_attempts env meta cmd req key h maxSerialAttempts 1 None) w = (Inr v, w')"
    by auto
  from run obtain e w1 where e: "replayBeforePreparation env key h (rq_Principal meta)
        (authorizeIssue env (rq_Principal meta) (ii_AuthorityID cmd)) w = (Inr e, w1)"
    and rest: "(case e of Some v \<Rightarrow> tx_return v
       | None \<Rightarrow> issue_attempts env meta cmd req key h maxSerialAttempts 1 None) w1 = (Inr v, w')"
    by (auto simp: tx_bind_iff)
  have "keeps id (authorizeIssue env (rq_Principal meta) (ii_AuthorityID cmd))"
    unfolding authorizeIssue_def by (rule keeps_guard)
  from tracelessD [OF replayBefore_traceless [OF this] e seen_start]
  have w1: "seen env (sg_store w) (sg_store w1)" .
  show ?thesis
  proof (cases e)
    case (Some v')
    with rest have "v' = v" "w' = w1" by (simp_all add: tx_return_iff)
    with e Some have "\<exists>s. replay_view key h s = (Inr (Some v), sg_store w')"
      by (auto simp: replayBeforePreparation_def tx_bind_iff in_store_iff)
    then obtain s where "replay_view key h s = (Inr (Some v), sg_store w')" ..
    from replay_view_effect [OF this] have "replayed key h s v" "sg_store w' = s" by simp_all
    with req w1 \<open>w' = w1\<close> show ?thesis by blast
  next
    case None
    with rest have "issue_attempts env meta cmd req key h maxSerialAttempts 1 None w1 = (Inr v, w')" by simp
    from issue_attempts_result [OF this w1] obtain w2 w3 reuse k prep t s
      where prep: "prepareIssue env k meta cmd req reuse w2 = (Inr prep, w3)" and s: "commit_try env (sg_store w) k t s"
      and commit: "commitIssue env k meta cmd key h prep t s = (Inr v, sg_store w')"
      and pair: "issue_pair env (sg_store w) cmd (ir_KeyAlgorithm req) prep"
      by auto
    note p = prepareIssue_result [OF prep]
    from commitIssue_cases [OF commit] show ?thesis
    proof
      assume "replayed key h s v \<and> sg_store w' = s"
      with req commit_try_seen [OF s] show ?thesis by blast
    next
      assume fresh: "lg_requestResults s key = None
        \<and> issue_commit env meta cmd key h prep (iu_clock env k (2 * t + 2)) s = (Inr v, sg_store w')"
      from p have "ce_subject (xi_certificate prep) = ir_Subject req" "ce_sans (xi_certificate prep) = ir_SANs req"
        "ce_profile (xi_certificate prep) = ir_Profile req" "ce_keyAlgorithm (xi_certificate prep) = ir_KeyAlgorithm req"
        by (auto simp: prepared_for_def dest!: PlanIssuance_fields)
      from pair obtain sec where sec: "xi_generatedSecret prep = Some sec"
        and leaf: "leaf_pair env (sg_store w) (ii_AuthorityID cmd) (xi_certificate prep) (xi_publicKey prep) sec"
        by (auto simp: issue_pair_def)
      note done_now = issue_commit_effect [OF conjunct2 [OF fresh] conjunct1 [OF p] sec]
      show ?thesis
        using req s commit_try_seen [OF s] done_now leaf fresh \<open>ce_subject (xi_certificate prep) = ir_Subject req\<close>
          \<open>ce_sans (xi_certificate prep) = ir_SANs req\<close> \<open>ce_profile (xi_certificate prep) = ir_Profile req\<close>
          \<open>ce_keyAlgorithm (xi_certificate prep) = ir_KeyAlgorithm req\<close> by blast
    qed
  qed
qed

subsection \<open>A repeated request\<close>

lemma hex_digit_ascii: "isLowerHexDigit c \<Longrightarrow> byte_in 0 127 c"
  by (auto simp: isLowerHexDigit_def byte_in_def less_eq_char_def)

lemma canonical_utf8: "canonical_uuid s \<Longrightarrow> valid_utf8 s"
proof (rule valid_utf8_ascii)
  assume s: "canonical_uuid s"
  have "byte_in 0 127 (s ! i)" if "i < length s" for i
  proof (cases "separator_index i")
    case True
    with s that have "s ! i = CHR ''-''" by (simp add: canonical_uuid_def)
    then show ?thesis by (simp add: byte_in_def)
  next
    case False
    with s that have "isLowerHexDigit (s ! i)" by (simp add: canonical_uuid_def)
    then show ?thesis by (rule hex_digit_ascii)
  qed
  then show "list_all (byte_in 0 127) s" by (simp add: list_all_length)
qed

text \<open>The identifiers of a view, without the delivery, which is read anew on every replay.\<close>

definition view_ids :: "IssuanceView \<Rightarrow> SeriesID \<times> CertificateID \<times> LeafKeyGenerationID \<times> int64 \<times> bool" where
  "view_ids v = (iv_SeriesID v, iv_CertificateID v, iv_KeyGenerationID v, iv_RenewalCount v, iv_KeyRotated v)"

definition stored_ids :: "storedIssuanceResult \<Rightarrow> SeriesID \<times> CertificateID \<times> LeafKeyGenerationID \<times> int64 \<times> bool" where
  "stored_ids v = (st_SeriesID v, st_CertificateID v, st_KeyGenerationID v, st_RenewalCount v, st_KeyRotated v)"

lemma toView_ids: "toView st s = (Inr v, s') \<Longrightarrow> view_ids v = stored_ids st"
  by (auto simp: toView_effect view_ids_def stored_ids_def stored_view_def split: if_splits)

lemma issued_result_back:
  assumes "canonical_uuid (iv_SeriesID v)" "canonical_uuid (iv_KeyGenerationID v)" "canonical_uuid (iv_CertificateID v)"
    "in_int64 (iv_RenewalCount v)" "valid_utf8 d"
  shows "decodeStoredIssuanceResult \<lparr>or_InputHash = h, or_ResultCertificateID = [],
      or_ResultJSON = json_text (stored_result_json (issued_result v d))\<rparr> = Inr (issued_result v d)"
  using assms by (intro stored_result_back) (simp_all add: issued_result_def canonical_utf8)

text \<open>A later result for the same key and hash carries the same identifiers.\<close>

definition leaves_result :: "OperationRequestKey \<Rightarrow> string \<Rightarrow> IssuanceView \<Rightarrow> ledger \<Rightarrow> bool" where
  "leaves_result key h v s \<longleftrightarrow> (\<exists>row st. lg_requestResults s key = Some row \<and> or_InputHash row = h
     \<and> decodeStoredIssuanceResult row = Inr st \<and> stored_ids st = view_ids v)"

lemma replayed_leaves: "replayed key h s v \<Longrightarrow> leaves_result key h v s"
  by (auto simp: replayed_def leaves_result_def dest!: toView_ids)

lemma leaves_replayed:
  "leaves_result key h v s \<Longrightarrow> lg_requestResults s2 key = lg_requestResults s key \<Longrightarrow> replayed key h s2 v2
     \<Longrightarrow> view_ids v2 = view_ids v"
  by (auto simp: replayed_def leaves_result_def dest!: toView_ids)

lemma Issue_leaves_result:
  assumes "Issue env meta cmd w = (Inr v, w')" and req: "issue_request (iu_url env) meta cmd req key h"
  shows "leaves_result key h v (sg_store w')"
proof -
  from issue_sound_aux [OF assms(1)] obtain req' key' h' s where
    r: "issue_request (iu_url env) meta cmd req' key' h'"
    and cases: "replayed key' h' s v \<and> sg_store w' = s
       \<or> (canonical_uuid (iv_SeriesID v) \<and> canonical_uuid (iv_KeyGenerationID v) \<and> canonical_uuid (iv_CertificateID v)
         \<and> iv_RenewalCount v = 0 \<and> (\<exists>d. canonical_uuid d
              \<and> lg_requestResults (sg_store w') key' = Some \<lparr>or_InputHash = h', or_ResultCertificateID = [],
                or_ResultJSON = json_text (stored_result_json (issued_result v d))\<rparr>))"
    by blast
  from issue_request_unique [OF req r] have [simp]: "key' = key" "h' = h" by simp_all
  from cases show ?thesis
  proof (elim disjE conjE exE)
    assume "replayed key' h' s v" "sg_store w' = s"
    then show ?thesis by (simp add: replayed_leaves)
  next
    fix d assume c: "canonical_uuid (iv_SeriesID v)" "canonical_uuid (iv_KeyGenerationID v)"
      "canonical_uuid (iv_CertificateID v)" "iv_RenewalCount v = 0" "canonical_uuid d"
      "lg_requestResults (sg_store w') key' = Some \<lparr>or_InputHash = h', or_ResultCertificateID = [],
                or_ResultJSON = json_text (stored_result_json (issued_result v d))\<rparr>"
    have "in_int64 0" by (simp add: in_int64_def int64_bounds)
    with c have "decodeStoredIssuanceResult \<lparr>or_InputHash = h, or_ResultCertificateID = [],
      or_ResultJSON = json_text (stored_result_json (issued_result v d))\<rparr> = Inr (issued_result v d)"
      by (intro issued_result_back) (simp_all add: canonical_utf8)
    with c(6) show ?thesis by (simp add: leaves_result_def stored_ids_def view_ids_def issued_result_def)
  qed
qed

lemma issue_result_is_kept:
  assumes first: "Issue env meta cmd w = (Inr v, w')" and req: "issue_request (iu_url env) meta cmd req key h"
    and kept: "lg_requestResults s2 key = lg_requestResults (sg_store w') key"
    and look: "replay_view key h s2 = (Inr e, s3)"
  shows "\<exists>v2. e = Some v2 \<and> view_ids v2 = view_ids v \<and> s3 = s2"
proof -
  note left = Issue_leaves_result [OF first req]
  from left kept have "lg_requestResults s2 key \<noteq> None" by (auto simp: leaves_result_def)
  with replay_view_effect [OF look] obtain v2 where "e = Some v2" "replayed key h s2 v2" "s3 = s2"
    by (cases e) auto
  with leaves_replayed [OF left kept] show ?thesis by blast
qed

text \<open>C5. What a successful \<open>Issue\<close> did: on a store that came about from the one it started on by what
  other requests committed in between and by nothing of its own, it replayed, for the command's key and input
  hash, an earlier result and left that store alone, or, no result being stored, it stored exactly one new leaf
  certificate with the requested subject, names, profile and algorithm. The store is then the one some commit \<open>t\<close> of
  some attempt \<open>k\<close> ran on, and by the clock reading that very commit took after it had locked the issuer (reading
  \<open>2 * t + 2\<close> of the attempt; \<open>0\<close> is the one of its preparation and \<open>2 * t + 1\<close> the one of the session check) the named
  authority may issue the certificate's window, with a live CA key, under a serial that no certificate and no
  revocation of that issuer has. The certificate is current in a new series, with a single pending delivery; its
  key pair is the engine's answer for exactly this key material and algorithm, stored encrypted for delivery, and the
  certificate is signed for that public key with the stored key of the named authority; authorities, CA keys,
  revocations and CRLs are untouched.\<close>

theorem issue_sound:
  assumes "Issue env meta cmd w = (Inr v, w')"
  shows "\<exists>req key h s. issue_request (iu_url env) meta cmd req key h \<and> seen env (sg_store w) s
    \<and> (replayed key h s v \<and> sg_store w' = s
       \<or> lg_requestResults s key = None
         \<and> (\<exists>c k t pk sec. commit_try env (sg_store w) k t s
           \<and> fresh_issue cmd (iu_clock env k (2 * t + 2)) c pk sec s v (sg_store w')
           \<and> leaf_pair env (sg_store w) (ii_AuthorityID cmd) c pk sec
           \<and> ce_subject c = ir_Subject req \<and> ce_sans c = ir_SANs req \<and> ce_profile c = ir_Profile req
           \<and> ce_keyAlgorithm c = ir_KeyAlgorithm req))"
  using issue_sound_aux [OF assms] by blast

lemma lookup_only:
  assumes look: "\<And>s e s3. replay_view key h s = (Inr e, s3) \<Longrightarrow> s = s2 \<Longrightarrow> \<exists>v2. e = Some v2 \<and> P v2"
    and s2: "s2 = iu_meanwhile env 0 0 (sg_store w)"
    and auth: "keeps id a"
    and run: "tx_bind (replayBeforePreparation env key h p a) (\<lambda>earlier. case earlier of
           Some v \<Rightarrow> tx_return v | None \<Rightarrow> rest) w = (r, w')"
  shows "calls w' = calls w \<and> sg_store w' = s2 \<and> (\<forall>v2. r = Inr v2 \<longrightarrow> P v2)"
proof -
  let ?body = "tx_bind (requireCurrentAuth p (iu_clock env 0 0)) (\<lambda>_. tx_bind a (\<lambda>_. replay_view key h))"
  have reads: "keeps id ?body" by (intro keeps_intro credential_reads auth replay_reads)
  obtain q s3 where body: "?body s2 = (q, s3)" by (cases "?body s2")
  with reads have s3: "s3 = s2" by (rule idD)
  have probe: "replayBeforePreparation env key h p a w = (q, w\<lparr>sg_store := s2\<rparr>)"
    using body by (simp add: replayBeforePreparation_def others_def tx_bind_def [of "in_store _"] in_store_def s2 s3 [unfolded s2])
  show ?thesis
  proof (cases q)
    case (Inl e)
    with run probe show ?thesis by (auto simp: tx_bind_def calls_def)
  next
    case (Inr e)
    with body obtain s where found: "replay_view key h s = (Inr e, s3)" by (auto simp: tx_bind_iff)
    then have "s = s2" using replay_view_effect s3 by fastforce
    with look [OF found] obtain v2 where "e = Some v2" "P v2" by blast
    with run probe Inr show ?thesis by (auto simp: tx_bind_def tx_return_def calls_def)
  qed
qed

text \<open>C6. Issuing is idempotent: once \<open>Issue\<close> has returned a view, repeating the request while its result
  is in the store generates no key, asks for no signature and stores nothing, whether it is answered or refused,
  and every answer names the same series, certificate and key generation as the first.\<close>

theorem issue_idempotent:
  assumes first: "Issue env meta cmd w = (Inr v, w')"
    and req: "issue_request (iu_url env) meta cmd req key h"
    and url: "iu_url env2 = iu_url env"
    and kept: "lg_requestResults (iu_meanwhile env2 0 0 (sg_store w2)) key = lg_requestResults (sg_store w') key"
    and again: "Issue env2 meta cmd w2 = (r, w2')"
  shows "calls w2' = calls w2
    \<and> sg_store w2' \<in> {sg_store w2, iu_meanwhile env2 0 0 (sg_store w2)}
    \<and> (\<forall>v2. r = Inr v2 \<longrightarrow> view_ids v2 = view_ids v)"
  using Issue_admitted [OF again]
proof (elim disjE exE conjE)
  fix req' key' h' assume r': "issue_request (iu_url env2) meta cmd req' key' h'"
    and run: "tx_bind (replayBeforePreparation env2 key' h' (rq_Principal meta)
            (authorizeIssue env2 (rq_Principal meta) (ii_AuthorityID cmd))) (\<lambda>earlier. case earlier of
           Some v \<Rightarrow> tx_return v
         | None \<Rightarrow> issue_attempts env2 meta cmd req' key' h' maxSerialAttempts 1 None) w2 = (r, w2')"
  from issue_request_unique [OF req r' [unfolded url]] have "key' = key" "h' = h" by simp_all
  note run = run [unfolded this]
  have "keeps id (authorizeIssue env2 (rq_Principal meta) (ii_AuthorityID cmd))"
    unfolding authorizeIssue_def by (rule keeps_guard)
  from lookup_only [OF _ refl this run, where P = "\<lambda>v2. view_ids v2 = view_ids v"]
    issue_result_is_kept [OF first req kept]
  show ?thesis by blast
qed auto

end
