(* ===== verification/Issuance_Samples.thy ===== *)
theory Issuance_Samples
  imports Issue_Safety
begin

text \<open>
  A concrete installation in which a request to issue succeeds: one intermediate authority with a live
  key, the factory settings, an administrator's session, and a signer that answers what it is asked. It
  shows that the theorems on issuance speak of runs that happen.
\<close>

definition sample_ca :: Authority where
  "sample_ca = sample_authority\<lparr>au_certificateWindow :=
     \<lparr>notBefore = Instant 10, notAfter = Instant 1000000000000000\<rparr>\<rparr>"

definition sample_ca_cert :: Certificate where
  "sample_ca_cert = sample_cert CHR ''c'' CHR ''b''"

definition sample_ca_secret :: EncryptedSecret where
  "sample_ca_secret = \<lparr>es_ownerKeyID = sample_uuid CHR ''c'', es_purpose = SecretPurposeCASigning,
     es_formatVersion = 1, es_encryptionGenerationID = [], es_nonce = [], es_ciphertext = []\<rparr>"

definition sample_installation :: ledger where
  "sample_installation = sample_login_store\<lparr>
     lg_caKeyGenerations := [sample_uuid CHR ''d'' \<mapsto> \<lparr>cg_ID = sample_uuid CHR ''d'', cg_AuthorityID = sample_uuid CHR ''a'',
       cg_KeyMaterialID = sample_uuid CHR ''c'', cg_GenerationNo = 1, cg_KeyDestroyedAt = zero_instant\<rparr>],
     lg_authorities := [(sample_uuid CHR ''a'', sample_ca)],
     lg_certificates := [(sample_uuid CHR ''c'', sample_ca_cert)],
     lg_caCertRecords := [(sample_uuid CHR ''c'', \<lparr>cr_CertificateID = sample_uuid CHR ''c'',
       cr_CAKeyGenerationID = sample_uuid CHR ''d'', cr_IssuerCACertificateID = []\<rparr>)],
     lg_secrets := [((sample_uuid CHR ''c'', SecretPurposeCASigning), sample_ca_secret)],
     lg_settings := Some \<lparr>se_SchemaVersion = settingsSchemaVersionV1,
       se_SettingsJSON = json_text (wire_json (wire_of sample_settings)), se_Version = 1, se_UpdatedBy = []\<rparr>\<rparr>"

definition sample_key :: "KeySpec \<Rightarrow> GeneratedKey" where
  "sample_key spec = \<lparr>gk_PublicKey = \<lparr>pk_algorithm = ks_Algorithm spec, pk_spki = ''k''\<rparr>,
     gk_EncryptedSecret = sample_ca_secret\<lparr>es_ownerKeyID := ks_KeyMaterialID spec, es_purpose := ks_Purpose spec\<rparr>\<rparr>"

definition sample_signature :: "CertificateSigningRequest \<Rightarrow> Certificate" where
  "sample_signature q = \<lparr>ce_id = cq_CertificateID q, ce_der = ''der'', ce_keyMaterialID = cq_KeyMaterialID q,
     ce_issuerCAKeyGenerationID = ip_IssuerKeyGenerationID (cq_Plan q), ce_serial = cq_Serial q,
     ce_validity = ip_Window (cq_Plan q), ce_subject = ip_Subject (cq_Plan q), ce_sans = ip_SANs (cq_Plan q),
     ce_kind = cq_Kind q, ce_profile = ip_Profile (cq_Plan q), ce_keyAlgorithm = ip_KeyAlgorithm (cq_Plan q),
     ce_origin = CertificateOriginGenerated, ce_createdByAccountID = cq_CreatedByAccountID q, ce_version = 0\<rparr>"

definition sample_issuance_env :: issuance_env where
  "sample_issuance_env = \<lparr>cy_Generate = (\<lambda>_ spec. Inr (sample_key spec)), cy_Sign = (\<lambda>_ q _. Inr (sample_signature q)),
     cy_NewSerial = (\<lambda>_. Inr (SerialNumber ''7'')),
     iu_authorize = (\<lambda>_ _ _. None), iu_ids = (\<lambda>_. sample_uuid CHR ''5''), iu_clock = (\<lambda>_ _. Instant 20),
     iu_fate = (\<lambda>_ _. Committed), iu_ctxErr = (\<lambda>_ _. None), iu_meanwhile = (\<lambda>_ _ l. l), iu_url = (\<lambda>_. None)\<rparr>"

definition sample_issue :: IssuanceIssueCommand where
  "sample_issue = \<lparr>ii_Name = ''web'', ii_AuthorityID = sample_uuid CHR ''a'', ii_Profile = CertificateProfileClientMTLS,
     ii_Subject = \<lparr>si_CommonName = ''web'', si_Organization = [], si_OrganizationalUnit = [], si_Country = []\<rparr>,
     ii_SANs = [], ii_KeyAlgorithm = KeyAlgorithmECDSAP256,
     ii_Validity = Some \<lparr>vi_Value = 1, vi_Unit = ValidityUnitDays\<rparr>, ii_RotateEvery = None\<rparr>"

definition sample_issue_meta :: MutationMeta where
  "sample_issue_meta = \<lparr>rq_Principal = sample_operator, rq_RequestID = [], rq_ClientIP = None,
     mm_ExpectedVersion = None, mm_IdempotencyKey = sample_uuid CHR ''9''\<rparr>"

definition sample_world :: signing_world where
  "sample_world = \<lparr>sg_store = sample_installation, sg_generated = [], sg_signed = [], sg_serials = 0\<rparr>"

lemma sample_issuance_simps [simp]:
  "iu_authorize sample_issuance_env p a s = None" "iu_ids sample_issuance_env = (\<lambda>_. sample_uuid CHR ''5'')"
  "iu_clock sample_issuance_env k t = Instant 20" "iu_fate sample_issuance_env k t = Committed"
  "iu_ctxErr sample_issuance_env k t = None" "iu_meanwhile sample_issuance_env k t l = l"
  "iu_url sample_issuance_env = (\<lambda>_. None)" "cy_Generate sample_issuance_env n spec = Inr (sample_key spec)"
  "cy_Sign sample_issuance_env n q key = Inr (sample_signature q)"
  "cy_NewSerial sample_issuance_env n = Inr (SerialNumber ''7'')"
  by (simp_all add: sample_issuance_env_def)

lemma sample_auth_now:
  "lg_accounts s = lg_accounts sample_installation \<Longrightarrow> lg_sessions s = lg_sessions sample_installation
     \<Longrightarrow> requireCurrentAuth sample_operator (Instant 20) s = (Inr (), s)"
proof -
  assume rows: "lg_accounts s = lg_accounts sample_installation" "lg_sessions s = lg_sessions sample_installation"
  have add: "Instant_Add (Instant 10) (Duration 3600000000) = Instant 3600000010"
    by (simp add: Instant_Add_def wrap64_id int64_bounds)
  show ?thesis
    by (simp add: requireCurrentAuth_iff rows sample_installation_def sample_login_store_def ValidateAt_None
        session_facts_def sample_account_def sample_session_def less_Instant_def add SessionIdleTimeout_def
        NewDuration_def go_hour_def go_div_nonneg)
qed

lemma sample_issue_request:
  "\<exists>key h. issue_request (iu_url sample_issuance_env) sample_issue_meta sample_issue
     \<lparr>ir_Profile = CertificateProfileClientMTLS,
        ir_Subject = \<lparr>su_commonName = ''web'', su_organization = [], su_organizationalUnit = [], su_country = []\<rparr>,
        ir_SANs = [], ir_KeyAlgorithm = KeyAlgorithmECDSAP256, ir_Window = zero_window\<rparr> key h \<and> h \<noteq> []"
proof -
  have "canonical_uuid (sample_uuid CHR ''9'')" by code_simp
  then have "parseIdempotencyKey (sample_uuid CHR ''9'') = Inr (sample_uuid CHR ''9'')"
    by (simp add: parseIdempotencyKey_Inr)
  then have key: "\<exists>key. RequestKey sample_issue_meta issuanceOperationIssue = Inr key"
    by (simp add: RequestKey_def RequireIdempotencyKey_def sample_issue_meta_def and_then_Inr)
  have hash: "sha256_hex t \<noteq> []" for t using length_sha256_hex [of t] by fastforce
  have subject: "SubjectInput_Domain (ii_Subject sample_issue) =
      Inr \<lparr>su_commonName = ''web'', su_organization = [], su_organizationalUnit = [], su_country = []\<rparr>"
    by (rule returnsD) code_simp
  show ?thesis using key
    by (simp add: issue_request_def subject) (simp add: sample_issue_meta_def sample_issue_def DomainProfile_def
      DomainSANs_def SANInputs_def DomainKeyAlgorithm_def optional_algorithm_def InputHash_def
      issuanceOperationIssue_def hash)
qed

text \<open>The rows, whatever identifiers were drawn.\<close>

lemma sample_installed [simp]:
  "map_of (lg_authorities sample_installation) (sample_uuid CHR ''a'') = Some sample_ca"
  "lg_caKeyGenerations sample_installation (sample_uuid CHR ''d'') = Some \<lparr>cg_ID = sample_uuid CHR ''d'',
     cg_AuthorityID = sample_uuid CHR ''a'', cg_KeyMaterialID = sample_uuid CHR ''c'', cg_GenerationNo = 1,
     cg_KeyDestroyedAt = zero_instant\<rparr>"
  "lg_certificates sample_installation = [(sample_uuid CHR ''c'', sample_ca_cert)]"
  "map_of (lg_caCertRecords sample_installation) (sample_uuid CHR ''c'') = Some \<lparr>cr_CertificateID = sample_uuid CHR ''c'',
     cr_CAKeyGenerationID = sample_uuid CHR ''d'', cr_IssuerCACertificateID = []\<rparr>"
  "lg_secrets sample_installation = [((sample_uuid CHR ''c'', SecretPurposeCASigning), sample_ca_secret)]"
  "lg_settings sample_installation = Some \<lparr>se_SchemaVersion = settingsSchemaVersionV1,
     se_SettingsJSON = json_text (wire_json (wire_of sample_settings)), se_Version = 1, se_UpdatedBy = []\<rparr>"
  "lg_requestResults sample_installation = Map.empty" "lg_series sample_installation = Map.empty"
  "lg_keyMaterials sample_installation = Map.empty" "lg_keyMaterialsBySPKI sample_installation = Map.empty"
  "lg_leafKeyGenerations sample_installation = Map.empty" "lg_certificatesByDER sample_installation = Map.empty"
  "lg_leafCertRecords sample_installation = Map.empty" "lg_deliveries sample_installation = []"
  "lg_revocationRows sample_installation = []" "lg_uuids sample_installation = 0"
  by (simp_all add: sample_installation_def sample_login_store_def newState_def)

lemma sample_ca_simps [simp]:
  "au_id sample_ca = sample_uuid CHR ''a''" "au_keyGenerationID sample_ca = sample_uuid CHR ''d''"
  "au_issuanceCertificateID sample_ca = sample_uuid CHR ''c''" "au_kind sample_ca = AuthorityKindIntermediate"
  "ce_id sample_ca_cert = sample_uuid CHR ''c''" "ce_kind sample_ca_cert = CertificateKindCA"
  "ce_keyMaterialID sample_ca_cert = sample_uuid CHR ''c''"
  "ce_issuerCAKeyGenerationID sample_ca_cert = sample_uuid CHR ''b''" "ce_serial sample_ca_cert = SerialNumber ''1''"
  by (simp_all add: sample_ca_def sample_authority_def sample_ca_cert_def sample_cert_def)

lemma sample_ids [simp]:
  "ParseCertificateID (sample_uuid CHR ''5'') = Inr (sample_uuid CHR ''5'')"
  "ParseKeyMaterialID (sample_uuid CHR ''5'') = Inr (sample_uuid CHR ''5'')"
  "ParseSeriesID (sample_uuid CHR ''5'') = Inr (sample_uuid CHR ''5'')"
  "ParseLeafKeyGenerationID (sample_uuid CHR ''5'') = Inr (sample_uuid CHR ''5'')"
  "ParseDeliveryID (sample_uuid CHR ''5'') = Inr (sample_uuid CHR ''5'')"
  "ParseAuthorityID (sample_uuid CHR ''a'') = Inr (sample_uuid CHR ''a'')"
  "SerialNumber_IsZero (SerialNumber ''7'') = False"
  by (simp_all add: ParseID_Inr) code_simp

lemmas run_defs = tx_bind_def tx_return_def tx_fail_def tx_or_def tx_read_def tx_store_def tx_lift_def tx_guard_def
  tx_domain_def tx_domain_check_def tx_try_def found_def insert_row_def save_row_def

lemma sample_key_live:
  "verifyCASigningKeyLive sample_ca (sample_installation\<lparr>lg_uuids := n\<rparr>)
     = (Inr (sample_ca_cert, the (lg_caKeyGenerations sample_installation (sample_uuid CHR ''d''))),
        sample_installation\<lparr>lg_uuids := n\<rparr>)"
  by (simp add: verifyCASigningKeyLive_def run_defs GetCAKeyGeneration_def PKI_GetCertificate_def
      PKI_GetCACertificateRecord_def Instant_IsZero_iff)

lemma sample_settings_read:
  "issuance_settings (sample_installation\<lparr>lg_uuids := n\<rparr>)
     = (Inr (the (lg_settings sample_installation)), sample_installation\<lparr>lg_uuids := n\<rparr>)"
  by (simp add: issuance_settings_def run_defs GetSettings_def)

definition sample_defaults :: resolvedSeriesDefaults where
  "sample_defaults = \<lparr>dd_Validity = \<lparr>cv_value = 1, cv_unit = ValidityUnitDays\<rparr>, dd_RotateEvery = 3,
     dd_PrivateDeliverySeconds = 3600, dd_ServiceURL = ''https://ca.example'', dd_SettingsVersion = 1\<rparr>"

lemma sample_reads:
  "\<exists>points. issue_reads sample_issue sample_installation
     = (Inr (sample_ca, sample_defaults, sample_ca_secret, sample_ca_cert, points), sample_installation)"
proof -
  have same: "sample_installation\<lparr>lg_uuids := lg_uuids sample_installation\<rparr> = sample_installation" by simp
  note live = sample_key_live [of "lg_uuids sample_installation", unfolded same]
    and set = sample_settings_read [of "lg_uuids sample_installation", unfolded same]
  have validity: "ValidityInput_Domain \<lparr>vi_Value = 1, vi_Unit = ValidityUnitDays\<rparr>
      = Inr \<lparr>cv_value = 1, cv_unit = ValidityUnitDays\<rparr>"
    "\<not> CalendarValidity_IsZero \<lparr>cv_value = 1, cv_unit = ValidityUnitDays\<rparr>"
    by (rule returnsD, code_simp) code_simp
  have "trim_right_slashes (TrimSpace ''https://ca.example'') \<noteq> []" "sample_uuid CHR ''c'' \<noteq> []" by code_simp+
  then obtain points where points: "leafCRLDistributionPoints ''https://ca.example'' (sample_uuid CHR ''c'') = Inr points"
    by (simp add: leafCRLDistributionPoints_def)
  have "resolveSeriesDefaults (Some \<lparr>vi_Value = 1, vi_Unit = ValidityUnitDays\<rparr>) None sample_installation
      = (Inr sample_defaults, sample_installation)"
    by (simp add: resolveSeriesDefaults_def run_defs set validity sample_settings_decoded sample_defaults_def)
      (simp add: sample_settings_def)
  moreover have "caSigningSecret sample_ca sample_installation = (Inr (sample_ca_secret, sample_ca_cert), sample_installation)"
    by (simp add: caSigningSecret_def run_defs live GetEncrypted_def)
  moreover have url: "dd_ServiceURL sample_defaults = ''https://ca.example''" by (simp add: sample_defaults_def)
  ultimately show ?thesis using points
    by (simp add: issue_reads_def read_issuer_def run_defs GetIssuerForUpdate_def sample_issue_def url)
qed

definition sample_leaf_window :: ValidityWindow where
  "sample_leaf_window = \<lparr>notBefore = Instant 1000000, notAfter = Instant 86401000000\<rparr>"

lemma sample_window_planned:
  "PlanLeafWindow \<lparr>sp_RotateEvery = 3, sp_CertificateValidity = \<lparr>cv_value = 1, cv_unit = ValidityUnitDays\<rparr>\<rparr>
     (x509NotBefore (Instant 20)) = Inr sample_leaf_window"
  by (rule returnsD) code_simp

lemma sample_ca_issues: "CanIssue sample_ca (leaf_context sample_leaf_window) (Instant 20) = None"
  by code_simp

abbreviation (input) sample_request_of :: IssuanceRequest where
  "sample_request_of \<equiv> \<lparr>ir_Profile = CertificateProfileClientMTLS,
        ir_Subject = \<lparr>su_commonName = ''web'', su_organization = [], su_organizationalUnit = [], su_country = []\<rparr>,
        ir_SANs = [], ir_KeyAlgorithm = KeyAlgorithmECDSAP256, ir_Window = zero_window\<rparr>"

definition sample_leaf_plan :: IssuancePlan where
  "sample_leaf_plan = \<lparr>ip_Profile = CertificateProfileClientMTLS,
     ip_Subject = \<lparr>su_commonName = ''web'', su_organization = [], su_organizationalUnit = [], su_country = []\<rparr>,
     ip_SANs = [], ip_KeyAlgorithm = KeyAlgorithmECDSAP256, ip_Window = sample_leaf_window,
     ip_IssuerAuthorityID = sample_uuid CHR ''a'', ip_IssuerKeyGenerationID = sample_uuid CHR ''d''\<rparr>"

lemma sample_planned:
  "PlanIssuance sample_ca \<lparr>ir_Profile = CertificateProfileClientMTLS,
     ir_Subject = \<lparr>su_commonName = ''web'', su_organization = [], su_organizationalUnit = [], su_country = []\<rparr>,
     ir_SANs = [], ir_KeyAlgorithm = KeyAlgorithmECDSAP256, ir_Window = sample_leaf_window\<rparr> (Instant 20) = Inr sample_leaf_plan"
  by (rule returnsD) code_simp

lemma sample_signature_ok: "verifySignedCertificate q (sample_signature q) = None"
  by (simp add: verifySignedCertificate_def sample_signature_def SerialNumber_Equal_def sameWindow_def sameSubject_def
      sameSANs_def Instant_Equal_def san_scan_iff Let_def)

lemma sample_issue_prepares:
  "\<exists>prep w. prepareIssue sample_issuance_env k sample_issue_meta sample_issue sample_request_of None sample_world
     = (Inr prep, w) \<and> sg_store w = sample_installation\<lparr>lg_uuids := 2\<rparr> \<and> xi_plan prep = sample_leaf_plan
     \<and> xi_defaults prep = sample_defaults \<and> xi_keyMaterialID prep = sample_uuid CHR ''5''
     \<and> xi_policy prep = \<lparr>sp_RotateEvery = 3, sp_CertificateValidity = \<lparr>cv_value = 1, cv_unit = ValidityUnitDays\<rparr>\<rparr>
     \<and> ce_id (xi_certificate prep) = sample_uuid CHR ''5'' \<and> ce_serial (xi_certificate prep) = SerialNumber ''7''
     \<and> xi_generatedSecret prep = Some (sample_ca_secret\<lparr>es_ownerKeyID := sample_uuid CHR ''5'',
          es_purpose := SecretPurposeLeafDelivery\<rparr>)"
proof -
  obtain points where reads: "issue_reads sample_issue sample_installation
     = (Inr (sample_ca, sample_defaults, sample_ca_secret, sample_ca_cert, points), sample_installation)"
    using sample_reads by blast
  have pol: "\<lparr>sp_RotateEvery = dd_RotateEvery sample_defaults, sp_CertificateValidity = dd_Validity sample_defaults\<rparr>
      = \<lparr>sp_RotateEvery = 3, sp_CertificateValidity = \<lparr>cv_value = 1, cv_unit = ValidityUnitDays\<rparr>\<rparr>"
    "SeriesPolicy_Validate \<lparr>sp_RotateEvery = 3, sp_CertificateValidity = \<lparr>cv_value = 1, cv_unit = ValidityUnitDays\<rparr>\<rparr> = None"
    by (simp add: sample_defaults_def) code_simp
  show ?thesis
    by (simp add: prepareIssue_def Let_def run_defs others_def in_store_def reads sample_world_def pol sample_window_planned
        sample_planned NewUUID_def prepareCertificate_def resolveSigningKey_def Generate_def
        newSerial_def NewSerial_def signCertificate_def Sign_def sample_signature_ok)
      (simp add: sample_signature_def sample_key_def numeral_2_eq_2)
qed

lemma sample_issue_commits:
  assumes "xi_plan prep = sample_leaf_plan" "xi_defaults prep = sample_defaults" "xi_keyMaterialID prep = sample_uuid CHR ''5''"
    "xi_policy prep = \<lparr>sp_RotateEvery = 3, sp_CertificateValidity = \<lparr>cv_value = 1, cv_unit = ValidityUnitDays\<rparr>\<rparr>"
    "ce_id (xi_certificate prep) = sample_uuid CHR ''5''" "ce_serial (xi_certificate prep) = SerialNumber ''7''"
    "xi_generatedSecret prep = Some (sample_ca_secret\<lparr>es_ownerKeyID := sample_uuid CHR ''5'',
          es_purpose := SecretPurposeLeafDelivery\<rparr>)"
    and h: "h \<noteq> []"
  shows "\<exists>v s. commitIssue sample_issuance_env k sample_issue_meta sample_issue key h prep t
    (sample_installation\<lparr>lg_uuids := 2\<rparr>) = (Inr v, s)"
proof -
  let ?s = "sample_installation\<lparr>lg_uuids := 2\<rparr>"
  let ?pol = "\<lparr>sp_RotateEvery = 3, sp_CertificateValidity = \<lparr>cv_value = 1, cv_unit = ValidityUnitDays\<rparr>\<rparr>"
  note prep = assms(1-7)
  have auth: "requireCurrentAuth (rq_Principal sample_issue_meta) (Instant 20) ?s = (Inr (), ?s)"
    by (simp add: sample_issue_meta_def sample_auth_now)
  have replay: "replay_view key h ?s = (Inr None, ?s)"
    using h by (simp add: replay_view_def Replay_result run_defs)
  have plan: "ip_Window sample_leaf_plan = sample_leaf_window" "ip_IssuerKeyGenerationID sample_leaf_plan = sample_uuid CHR ''d''"
    "dd_SettingsVersion sample_defaults = 1" "ii_AuthorityID sample_issue = sample_uuid CHR ''a''"
    "ii_Name sample_issue = ''web''" "dd_PrivateDeliverySeconds sample_defaults = 3600"
    by (simp_all add: sample_leaf_plan_def sample_defaults_def sample_issue_def)
  have checks: "issue_checks sample_issue prep (Instant 20) ?s = (Inr (), ?s)"
    by (simp add: issue_checks_def read_issuer_def run_defs GetIssuerForUpdate_def prep plan sample_ca_issues
        sample_key_live settingsUnchanged_def sample_settings_read ensureSerialUnused_def SerialExists_def issued_by_def
        SerialNumber_Equal_def)
  have pol: "SeriesPolicy_Validate ?pol = None" and expiry: "\<not> Instant_IsZero (Instant_Add (Instant 20) (seconds_duration 3600))"
    by code_simp+
  have some: "sample_uuid c \<noteq> []" "sample_uuid CHR ''5'' \<noteq> sample_uuid CHR ''c''" "\<not> maxSeriesNameLength < 3" for c
    by (simp_all add: sample_uuid_def maxSeriesNameLength_def)
  have scope: "AuditScope_Validate (NewAuthoritiesAuditScope [sample_uuid CHR ''a'']) = None"
    by (simp add: AuditScope_Validate_def NewAuthoritiesAuditScope_def ParseID_Inr some)
  show ?thesis
    by (simp add: commitIssue_def run_defs auth authorizeIssue_def replay issue_commit_def checks issue_rows_def Let_def
      NewUUID_def prep plan pol NewLeafKeyGeneration_def NewLeafSeries_def InsertSeries_def insertGeneratedKeyMaterial_def
      InsertKeyMaterial_def InsertLeafKeyGeneration_def InsertCertificate_def store_leaf_record_def leaf_record_def
      InsertLeafCertificateRecord_def SaveSeries_def storeFreshKeyAndDelivery_def InsertEncrypted_def secret_key_def
      NewDelivery_def InsertDelivery_def StoreRequestResult_def InsertResult_def appendIssuanceAudit_def Audit_Append_def
      toView_def GetDeliveryForUpdate_def check_then_def expiry some scope numeral_3_eq_3 [symmetric])
qed

lemma sample_issue_runs: "\<exists>v w. Issue sample_issuance_env sample_issue_meta sample_issue sample_world = (Inr v, w)"
proof -
  obtain key h where r: "issue_request (iu_url sample_issuance_env) sample_issue_meta sample_issue sample_request_of key h"
    and h: "h \<noteq> []" using sample_issue_request by blast
  obtain prep w where prepare: "prepareIssue sample_issuance_env 1 sample_issue_meta sample_issue sample_request_of None
      sample_world = (Inr prep, w)" and w: "sg_store w = sample_installation\<lparr>lg_uuids := 2\<rparr>"
    and prep: "xi_plan prep = sample_leaf_plan" "xi_defaults prep = sample_defaults" "xi_keyMaterialID prep = sample_uuid CHR ''5''"
    "xi_policy prep = \<lparr>sp_RotateEvery = 3, sp_CertificateValidity = \<lparr>cv_value = 1, cv_unit = ValidityUnitDays\<rparr>\<rparr>"
    "ce_id (xi_certificate prep) = sample_uuid CHR ''5''" "ce_serial (xi_certificate prep) = SerialNumber ''7''"
    "xi_generatedSecret prep = Some (sample_ca_secret\<lparr>es_ownerKeyID := sample_uuid CHR ''5'',
          es_purpose := SecretPurposeLeafDelivery\<rparr>)"
    using sample_issue_prepares [of 1] by blast
  obtain v s where commit: "commitIssue sample_issuance_env 1 sample_issue_meta sample_issue key h prep 0
    (sample_installation\<lparr>lg_uuids := 2\<rparr>) = (Inr v, s)" using sample_issue_commits [OF prep h] by blast
  have "retried_write zero_issuance_view sample_issuance_env 1 (commitIssue sample_issuance_env 1 sample_issue_meta sample_issue key h prep) w
      = (Inr v, w\<lparr>sg_store := s\<rparr>)"
    using commit
    by (simp add: retried_write_def RunWithRetry_def one_write_def in_store_def uow_write_def w
        maxPreparationAttempts_def numeral_eq_Suc)
  moreover have "replayBeforePreparation sample_issuance_env key h sample_operator
      (authorizeIssue sample_issuance_env sample_operator (sample_uuid CHR ''a'')) sample_world = (Inr None, sample_world)"
    using h by (simp add: replayBeforePreparation_def others_def in_store_def run_defs sample_world_def sample_auth_now
        authorizeIssue_def replay_view_def Replay_result)
  moreover have "IssueCommand_Validate (\<lambda>_. None) sample_issue = None" by code_simp
  moreover have "rq_Principal sample_issue_meta = sample_operator" "ii_AuthorityID sample_issue = sample_uuid CHR ''a''"
    by (simp_all add: sample_issue_meta_def sample_issue_def)
  ultimately show ?thesis using r [unfolded issue_request_def]
    by (simp add: Issue_def bind_front issuance_canceled_def)
      (simp add: run_defs maxSerialAttempts_def numeral_eq_Suc prepare [unfolded One_nat_def])
qed

theorem issue_sound_witness:
  "\<exists>v w. Issue sample_issuance_env sample_issue_meta sample_issue sample_world = (Inr v, w)
     \<and> (\<exists>c pk sec s. fresh_issue sample_issue (Instant 20) c pk sec s v (sg_store w))"
proof -
  obtain v w where run: "Issue sample_issuance_env sample_issue_meta sample_issue sample_world = (Inr v, w)"
    using sample_issue_runs by blast
  from issue_sound [OF run, unfolded sample_issuance_simps] obtain key h s where s: "seen sample_issuance_env (sg_store sample_world) s"
    and result: "replayed key h s v \<or> (\<exists>c pk sec. fresh_issue sample_issue (Instant 20) c pk sec s v (sg_store w))"
    by blast
  have "s\<lparr>lg_uuids := 0\<rparr> = sample_installation\<lparr>lg_uuids := 0\<rparr>"
    using seen_quiet [OF s] by (simp add: sample_world_def)
  from arg_cong [where f = lg_requestResults, OF this] have "lg_requestResults s = Map.empty" by simp
  with result have "\<exists>c pk sec. fresh_issue sample_issue (Instant 20) c pk sec s v (sg_store w)" by (auto simp: replayed_def)
  with run show ?thesis by blast
qed

theorem issue_idempotent_witness:
  "\<exists>v w r w2. Issue sample_issuance_env sample_issue_meta sample_issue sample_world = (Inr v, w)
     \<and> Issue sample_issuance_env sample_issue_meta sample_issue w = (r, w2) \<and> calls w2 = calls w"
proof -
  obtain v w where run: "Issue sample_issuance_env sample_issue_meta sample_issue sample_world = (Inr v, w)"
    using sample_issue_runs by blast
  obtain key h where r: "issue_request (iu_url sample_issuance_env) sample_issue_meta sample_issue sample_request_of key h"
    using sample_issue_request by blast
  obtain q w2 where again: "Issue sample_issuance_env sample_issue_meta sample_issue w = (q, w2)"
    by (cases "Issue sample_issuance_env sample_issue_meta sample_issue w")
  from issue_idempotent [OF run r refl _ again] have "calls w2 = calls w" by simp
  with run again show ?thesis by blast
qed

end
