(* ===== verification/Renew_Safety.thy ===== *)
theory Renew_Safety
  imports Issue_Safety
begin

text \<open>
  Renewing a leaf certificate, end to end. Rows of the store are protected by optimistic versions: others who
  change a series or its current key change the version of the series, except for the custody of the key, which
  the commit compares itself. Under that contract a successful \<open>Renew\<close> continued exactly the series, key
  and certificate its caller saw.
\<close>

text \<open>The contract of the other writers, on the stores that can come about while the request runs.\<close>

definition optimistic :: "issuance_env \<Rightarrow> ledger \<Rightarrow> bool" where
  "optimistic env l \<longleftrightarrow> (\<forall>s1 s2 i x y. seen env l s1 \<longrightarrow> seen env l s2 \<longrightarrow> lg_series s1 i = Some x \<longrightarrow> lg_series s2 i = Some y
     \<longrightarrow> ls_version x = ls_version y \<longrightarrow> x = y \<and> (\<forall>g h.
       lg_leafKeyGenerations s1 (ls_currentKeyGenerationID x) = Some g \<longrightarrow>
       lg_leafKeyGenerations s2 (ls_currentKeyGenerationID x) = Some h \<longrightarrow> h\<lparr>kg_custody := kg_custody g\<rparr> = g))"

lemma optimisticD:
  assumes "optimistic env l" "seen env l s1" "seen env l s2" "lg_series s1 i = Some x" "lg_series s2 i = Some y"
    and "ls_version x = ls_version y"
  shows "x = y"
    and "lg_leafKeyGenerations s1 (ls_currentKeyGenerationID x) = Some g \<Longrightarrow>
      lg_leafKeyGenerations s2 (ls_currentKeyGenerationID y) = Some h \<Longrightarrow> h\<lparr>kg_custody := kg_custody g\<rparr> = g"
proof -
  show "x = y" using assms unfolding optimistic_def by blast
  then show "lg_leafKeyGenerations s1 (ls_currentKeyGenerationID x) = Some g \<Longrightarrow>
      lg_leafKeyGenerations s2 (ls_currentKeyGenerationID y) = Some h \<Longrightarrow> h\<lparr>kg_custody := kg_custody g\<rparr> = g"
    using assms unfolding optimistic_def by blast
qed

text \<open>When nobody else writes, the contract holds.\<close>

lemma optimistic_alone:
  assumes "\<And>k t x. iu_meanwhile env k t x = x"
  shows "optimistic env l"
proof -
  have "lg_series s = lg_series l \<and> lg_leafKeyGenerations s = lg_leafKeyGenerations l" if "seen env l s" for s
  proof -
    from seen_quiet [OF that assms] have eq: "s\<lparr>lg_uuids := 0\<rparr> = l\<lparr>lg_uuids := 0\<rparr>" .
    from arg_cong [where f = lg_series, OF eq] arg_cong [where f = lg_leafKeyGenerations, OF eq] show ?thesis by simp
  qed
  then show ?thesis by (auto simp: optimistic_def)
qed

subsection \<open>What a preparation decided\<close>

definition renewal_target :: "IssuanceRenewCommand \<Rightarrow> LeafSeries \<Rightarrow> AuthorityID" where
  "renewal_target cmd ser =
     (if rn_TargetAuthorityID cmd = [] then ls_managementAuthorityID ser else rn_TargetAuthorityID cmd)"

text \<open>The current key of a series: its generation, stored under the identifier the series names.\<close>

definition current_key :: "ledger \<Rightarrow> LeafSeries \<Rightarrow> LeafKeyGeneration \<Rightarrow> bool" where
  "current_key s ser g \<longleftrightarrow> lg_leafKeyGenerations s (ls_currentKeyGenerationID ser) = Some g"

definition same_identity :: "IssuancePlan \<Rightarrow> Certificate \<Rightarrow> bool" where
  "same_identity plan src \<longleftrightarrow> ip_Subject plan = ce_subject src \<and> ip_SANs plan = ce_sans src
     \<and> ip_Profile plan = ce_profile src \<and> ip_KeyAlgorithm plan = ce_keyAlgorithm src"

definition renewal_decision :: "LeafSeries \<Rightarrow> LeafKeyGeneration \<Rightarrow> renewPrepared \<Rightarrow> bool" where
  "renewal_decision ser g p \<longleftrightarrow> kg_custody g = KeyCustodyClientHeld \<and> kg_seriesID g = ls_id ser
     \<and> kg_id g = ls_currentKeyGenerationID ser
     \<and> (if xr_keyRotated p
          then sp_RotateEvery (ls_policy ser) \<le> wrap64 (kg_renewalCount g + 1)
            \<and> rp_NextRenewalCount (xr_renewalPlan p) = 0
            \<and> rp_NextKeyGenerationNo (xr_renewalPlan p) = wrap64 (kg_generationNo g + 1)
          else wrap64 (kg_renewalCount g + 1) < sp_RotateEvery (ls_policy ser)
            \<and> rp_NextRenewalCount (xr_renewalPlan p) = wrap64 (kg_renewalCount g + 1)
            \<and> rp_KeyGenerationID (xr_renewalPlan p) = kg_id g
            \<and> xr_keyMaterialID p = kg_keyMaterialID g)"

definition renewal_ready :: "issuance_env \<Rightarrow> ledger \<Rightarrow> IssuanceRenewCommand \<Rightarrow> Version \<Rightarrow> renewPrepared \<Rightarrow> bool" where
  "renewal_ready env l cmd ver p \<longleftrightarrow> (\<exists>s0. seen env l s0
     \<and> lg_series s0 (rn_SeriesID cmd) = Some (sn_Series (xr_snapshot p))
     \<and> current_key s0 (sn_Series (xr_snapshot p)) (sn_CurrentKeyGeneration (xr_snapshot p))
     \<and> map_of (lg_certificates s0) (rn_SourceCertificateID cmd) = Some (xr_sourceCertificate p))
   \<and> ls_version (sn_Series (xr_snapshot p)) = ver
   \<and> xr_targetAuthorityID p = renewal_target cmd (sn_Series (xr_snapshot p))
   \<and> ip_IssuerKeyGenerationID (xr_plan p) = xr_targetIssuerKeyID p
   \<and> same_identity (xr_plan p) (xr_sourceCertificate p)
   \<and> prepared_for (xr_plan p) (xr_keyMaterialID p) (xr_certificate p)
   \<and> renewal_decision (sn_Series (xr_snapshot p)) (sn_CurrentKeyGeneration (xr_snapshot p)) p"

lemma series_read:
  "PKI_GetSeriesForUpdate i w = (Inr sn, w') \<longleftrightarrow> w' = w \<and> lg_series w i = Some (sn_Series sn)
     \<and> (if ls_currentKeyGenerationID (sn_Series sn) = [] then sn_CurrentKeyGeneration sn = zero_key_generation
        else current_key w (sn_Series sn) (sn_CurrentKeyGeneration sn))"
  by (cases sn) (auto simp: PKI_GetSeriesForUpdate_def current_key_def tx_return_def tx_fail_def split: option.splits)

lemma renew_reads_result:
  assumes "renew_reads env meta cmd w = (Inr rr, w')"
  shows "w' = w \<and> lg_series w (rn_SeriesID cmd) = Some (sn_Series (rw_snapshot rr))
    \<and> (if ls_currentKeyGenerationID (sn_Series (rw_snapshot rr)) = []
        then sn_CurrentKeyGeneration (rw_snapshot rr) = zero_key_generation
        else current_key w (sn_Series (rw_snapshot rr)) (sn_CurrentKeyGeneration (rw_snapshot rr)))
    \<and> map_of (lg_certificates w) (rn_SourceCertificateID cmd) = Some (rw_currentCert rr)
    \<and> rw_targetAuthorityID rr = renewal_target cmd (sn_Series (rw_snapshot rr))"
  using idD [OF renew_reads_reads assms] assms
  by (auto simp: renew_reads_def read_series_def tx_iff series_read renewal_target_def Let_def authorize_series_def
      read_key_material_def read_target_def
      dest!: idD [OF is_revoked_reads] idD [OF signing_reads(2)] idD [OF defaults_reads]
      split: if_splits prod.splits)

lemma plan_renewal_result:
  assumes "plan_renewal rr ver now w = (Inr p, w')"
  shows "w' = w \<and> ls_version (sn_Series (rw_snapshot rr)) = ver
    \<and> (\<exists>window. PlanRenewal (sn_Series (rw_snapshot rr)) (renewal_facts rr window) now = Inr p)"
  using assms by (auto simp: plan_renewal_def tx_iff Let_def split: if_splits)

lemma plan_renewal_decides:
  assumes "PlanRenewal ser (renewal_facts rr window) now = Inr p" and ser: "ser = sn_Series (rw_snapshot rr)"
    and g: "g = sn_CurrentKeyGeneration (rw_snapshot rr)"
  shows "kg_custody g = KeyCustodyClientHeld \<and> kg_seriesID g = ls_id ser \<and> kg_id g = ls_currentKeyGenerationID ser
    \<and> (if rp_Action p = RenewalActionRotateKey
        then sp_RotateEvery (ls_policy ser) \<le> wrap64 (kg_renewalCount g + 1) \<and> rp_NextRenewalCount p = 0
          \<and> rp_NextKeyGenerationNo p = wrap64 (kg_generationNo g + 1)
        else wrap64 (kg_renewalCount g + 1) < sp_RotateEvery (ls_policy ser)
          \<and> rp_NextRenewalCount p = wrap64 (kg_renewalCount g + 1) \<and> rp_KeyGenerationID p = kg_id g)"
  using assms(1) unfolding ser g
  by (auto simp: PlanRenewal_def Let_def success_iff renewal_facts_def split: if_splits)

text \<open>A preparation is ready; one that reuses an earlier ready preparation stays on its key.\<close>

lemma prepareRenew_result:
  assumes run: "prepareRenew env k meta cmd ver reuse w = (Inr prep, w')"
    and start: "seen env l (sg_store w)" and contract: "optimistic env l"
    and old: "\<And>q. reuse = Some q \<Longrightarrow> renewal_ready env l cmd ver q"
  shows "renewal_ready env l cmd ver prep"
proof -
  let ?by = "Principal_AccountID (rq_Principal meta)"
  from run [unfolded prepareRenew_def Let_def] obtain w1 rr w2 plan w3 raw w4 where
    others: "others env k w = (Inr (), w1)" and reads: "in_store (renew_reads env meta cmd) w1 = (Inr rr, w2)"
    and plan: "plan_renewal rr ver (iu_clock env k 0) w2 = (Inr plan, w3)" and raw: "canonical_uuid raw"
    and rest: "(if case reuse of None \<Rightarrow> False | Some old \<Rightarrow> xr_keyRotated old = (rp_Action plan = RenewalActionRotateKey)
      then tx_bind (resignWithNewSerial env (renewal_issuance_plan rr plan) raw (xr_keyMaterialID (the reuse))
             (xr_publicKey (the reuse)) CertificateKindLeaf ?by (Some (rw_issuerCert rr)) (rw_issuerSecret rr) (rw_points rr))
           (\<lambda>cert. tx_return (renewal_prepared rr (iu_clock env k 0) plan (xr_keyMaterialID (the reuse))
              (xr_publicKey (the reuse)) (xr_generatedSecret (the reuse)) cert))
      else tx_bind (renewal_key_ref env rr (rp_Action plan = RenewalActionRotateKey)) (\<lambda>(ref, pk).
           tx_bind (prepareCertificate env (renewal_issuance_plan rr plan) ref pk raw (Some (rw_issuerCert rr))
             (rw_issuerSecret rr) CertificateKindLeaf ?by (rw_points rr))
           (\<lambda>pd. tx_return (renewal_prepared rr (iu_clock env k 0) plan (pd_KeyMaterialID pd)
             (if rp_Action plan = RenewalActionRotateKey then pd_GeneratedPublic pd else pk)
             (pd_GeneratedSecret pd) (pd_Certificate pd))))) w4 = (Inr prep, w')"
    by (auto simp: tx_iff ParseID_Inr)
  define ser where "ser = sn_Series (rw_snapshot rr)"
  define g where "g = sn_CurrentKeyGeneration (rw_snapshot rr)"
  have s1: "seen env l (sg_store w1)" by (rule tracelessD [OF traceless_others others start])
  from reads have "renew_reads env meta cmd (sg_store w1) = (Inr rr, sg_store w2)" by (auto simp: in_store_iff)
  note read = renew_reads_result [OF this]
  from plan_renewal_result [OF plan] obtain window where ver: "ls_version ser = ver"
    and planned: "PlanRenewal ser (renewal_facts rr window) (iu_clock env k 0) = Inr plan" by (auto simp: ser_def)
  note decides = plan_renewal_decides [OF planned ser_def g_def]
  have key: "current_key (sg_store w1) ser g"
    using read decides by (auto simp: ser_def g_def zero_key_generation_def split: if_splits)
  let ?plan = "renewal_issuance_plan rr plan" and ?rot = "rp_Action plan = RenewalActionRotateKey"
  have ready: "renewal_ready env l cmd ver (renewal_prepared rr now plan k pk sec c)"
    if "prepared_for ?plan k c" and "\<not> ?rot \<Longrightarrow> k = kg_keyMaterialID g" for now k pk sec c
    using that s1 read key ver decides
    unfolding renewal_ready_def renewal_decision_def same_identity_def
    by (auto simp: renewal_prepared_def renewal_issuance_plan_def Let_def ser_def g_def)
  show ?thesis
  proof (cases "case reuse of None \<Rightarrow> False | Some old \<Rightarrow> xr_keyRotated old = ?rot")
    case True
    then obtain q where q: "reuse = Some q" "xr_keyRotated q = ?rot" by (auto split: option.splits)
    from old [OF q(1)] obtain s0 where s0: "seen env l s0" "lg_series s0 (rn_SeriesID cmd) = Some (sn_Series (xr_snapshot q))"
      "current_key s0 (sn_Series (xr_snapshot q)) (sn_CurrentKeyGeneration (xr_snapshot q))"
      and v: "ls_version (sn_Series (xr_snapshot q)) = ver"
      and d: "renewal_decision (sn_Series (xr_snapshot q)) (sn_CurrentKeyGeneration (xr_snapshot q)) q"
      unfolding renewal_ready_def by blast
    have "lg_series (sg_store w1) (rn_SeriesID cmd) = Some ser" using read by (simp add: ser_def)
    from optimisticD(2) [OF contract s0(1) s1 s0(2) this, unfolded v ver, OF refl] s0(3) key
    have "g\<lparr>kg_custody := kg_custody (sn_CurrentKeyGeneration (xr_snapshot q))\<rparr> = sn_CurrentKeyGeneration (xr_snapshot q)"
      by (simp add: current_key_def)
    from arg_cong [where f = kg_keyMaterialID, OF this]
    have "kg_keyMaterialID g = kg_keyMaterialID (sn_CurrentKeyGeneration (xr_snapshot q))" by simp
    with d q(2) have k: "\<not> ?rot \<Longrightarrow> xr_keyMaterialID q = kg_keyMaterialID g" by (simp add: renewal_decision_def)
    from rest True q(1) obtain c where
      "resignWithNewSerial env ?plan raw (xr_keyMaterialID q) (xr_publicKey q) CertificateKindLeaf ?by
         (Some (rw_issuerCert rr)) (rw_issuerSecret rr) (rw_points rr) w4 = (Inr c, w')"
      and prep: "prep = renewal_prepared rr (iu_clock env k 0) plan (xr_keyMaterialID q) (xr_publicKey q) (xr_generatedSecret q) c"
      by (auto simp: tx_iff)
    from resign_result [OF this(1)] raw have "prepared_for ?plan (xr_keyMaterialID q) c"
      by (auto intro!: matches_prepared)
    then show ?thesis unfolding prep by (rule ready) (rule k)
  next
    case False
    with rest obtain ref pk w5 pd pk2 where
      ref: "renewal_key_ref env rr ?rot w4 = (Inr (ref, pk), w5)"
      and pd: "prepareCertificate env ?plan ref pk raw (Some (rw_issuerCert rr)) (rw_issuerSecret rr)
         CertificateKindLeaf ?by (rw_points rr) w5 = (Inr pd, w')"
      and prep: "prep = renewal_prepared rr (iu_clock env k 0) plan (pd_KeyMaterialID pd) pk2 (pd_GeneratedSecret pd)
         (pd_Certificate pd)"
      by (auto simp: tx_iff)
    note result = prepareCertificate_result [OF pd]
    from result raw have "prepared_for ?plan (pd_KeyMaterialID pd) (pd_Certificate pd)"
      by (auto intro!: matches_prepared)
    moreover have "pd_KeyMaterialID pd = kg_keyMaterialID g" if "\<not> ?rot"
    proof -
      from ref that have "ref = \<lparr>kr_Fresh = None, kr_Existing = kg_keyMaterialID g\<rparr>"
        by (auto simp: renewal_key_ref_def tx_iff g_def)
      with result show ?thesis by auto
    qed
    ultimately show ?thesis unfolding prep by (rule ready)
  qed
qed

text \<open>The certificate is signed for the public key with the stored signing key of the authority it names, which was
  live; a rotated key pair is the engine's answer for the new key material, for delivery.\<close>

definition certified :: "issuance_env \<Rightarrow> ledger \<Rightarrow> PublicKey \<Rightarrow> Certificate \<Rightarrow> bool" where
  "certified env l pk c \<longleftrightarrow> (\<exists>s i a sk. seen env l s \<and> map_of (lg_authorities s) i = Some a \<and> live_issuer s a
     \<and> au_keyGenerationID a = ce_issuerCAKeyGenerationID c \<and> signing_secret s a sk \<and> signed_with env pk sk c)"

definition rotated_pair :: "issuance_env \<Rightarrow> renewPrepared \<Rightarrow> bool" where
  "rotated_pair env p \<longleftrightarrow> (\<exists>sec alg. xr_generatedSecret p = Some sec
     \<and> generated_for env (xr_keyMaterialID p) alg SecretPurposeLeafDelivery (xr_publicKey p) sec)"

definition renewal_pair :: "issuance_env \<Rightarrow> ledger \<Rightarrow> renewPrepared \<Rightarrow> bool" where
  "renewal_pair env l p \<longleftrightarrow> certified env l (xr_publicKey p) (xr_certificate p)
     \<and> (xr_keyRotated p \<longrightarrow> rotated_pair env p)"

lemma renew_reads_target:
  "renew_reads env meta cmd w = (Inr rr, w') \<Longrightarrow> \<exists>i. map_of (lg_authorities w) i = Some (rw_targetIssuer rr)
     \<and> live_issuer w (rw_targetIssuer rr) \<and> signing_secret w (rw_targetIssuer rr) (rw_issuerSecret rr)"
  by (auto simp: renew_reads_def read_series_def tx_iff series_read Let_def authorize_series_def
      read_key_material_def read_target_def GetIssuerForUpdate_def
      dest!: idD [OF is_revoked_reads] caSigningSecret_effect idD [OF defaults_reads] split: if_splits prod.splits)

lemma prepareRenew_pair:
  assumes run: "prepareRenew env k meta cmd ver reuse w = (Inr prep, w')"
    and start: "seen env l (sg_store w)" and old: "\<And>q. reuse = Some q \<Longrightarrow> renewal_pair env l q"
  shows "renewal_pair env l prep"
proof -
  let ?by = "Principal_AccountID (rq_Principal meta)"
  from run [unfolded prepareRenew_def Let_def] obtain w1 rr w2 plan w3 raw w4 where
    others: "others env k w = (Inr (), w1)" and reads: "in_store (renew_reads env meta cmd) w1 = (Inr rr, w2)"
    and rest: "(if case reuse of None \<Rightarrow> False | Some old \<Rightarrow> xr_keyRotated old = (rp_Action plan = RenewalActionRotateKey)
      then tx_bind (resignWithNewSerial env (renewal_issuance_plan rr plan) raw (xr_keyMaterialID (the reuse))
             (xr_publicKey (the reuse)) CertificateKindLeaf ?by (Some (rw_issuerCert rr)) (rw_issuerSecret rr) (rw_points rr))
           (\<lambda>cert. tx_return (renewal_prepared rr (iu_clock env k 0) plan (xr_keyMaterialID (the reuse))
              (xr_publicKey (the reuse)) (xr_generatedSecret (the reuse)) cert))
      else tx_bind (renewal_key_ref env rr (rp_Action plan = RenewalActionRotateKey)) (\<lambda>(ref, pk).
           tx_bind (prepareCertificate env (renewal_issuance_plan rr plan) ref pk raw (Some (rw_issuerCert rr))
             (rw_issuerSecret rr) CertificateKindLeaf ?by (rw_points rr))
           (\<lambda>pd. tx_return (renewal_prepared rr (iu_clock env k 0) plan (pd_KeyMaterialID pd)
             (if rp_Action plan = RenewalActionRotateKey then pd_GeneratedPublic pd else pk)
             (pd_GeneratedSecret pd) (pd_Certificate pd))))) w4 = (Inr prep, w')"
    by (auto simp: tx_iff)
  let ?plan = "renewal_issuance_plan rr plan" and ?rot = "rp_Action plan = RenewalActionRotateKey"
  have s1: "seen env l (sg_store w1)" by (rule tracelessD [OF traceless_others others start])
  from reads have "renew_reads env meta cmd (sg_store w1) = (Inr rr, sg_store w2)" by (auto simp: in_store_iff)
  note target = s1 renew_reads_target [OF this]
  have issuer: "ip_IssuerKeyGenerationID ?plan = au_keyGenerationID (rw_targetIssuer rr)"
    by (simp add: renewal_issuance_plan_def Let_def)
  have cert: "certified env l pk c" if "signed_with env pk (rw_issuerSecret rr) c"
    "ce_issuerCAKeyGenerationID c = ip_IssuerKeyGenerationID ?plan" for pk c
    using that target issuer unfolding certified_def by auto
  show ?thesis
  proof (cases "case reuse of None \<Rightarrow> False | Some old \<Rightarrow> xr_keyRotated old = ?rot")
    case True
    with rest obtain q c where q: "reuse = Some q" "xr_keyRotated q = ?rot"
      and sign: "resignWithNewSerial env ?plan raw (xr_keyMaterialID q) (xr_publicKey q) CertificateKindLeaf ?by
         (Some (rw_issuerCert rr)) (rw_issuerSecret rr) (rw_points rr) w4 = (Inr c, w')"
      and prep: "prep = renewal_prepared rr (iu_clock env k 0) plan (xr_keyMaterialID q) (xr_publicKey q) (xr_generatedSecret q) c"
      by (auto simp: tx_iff split: option.splits)
    have "ce_issuerCAKeyGenerationID c = ip_IssuerKeyGenerationID ?plan"
      using resign_result [OF sign] by (auto simp: matches_def)
    with cert [OF resign_signed [OF sign]] old [OF q(1)] q(2) show ?thesis
      by (auto simp: prep renewal_prepared_def renewal_pair_def rotated_pair_def)
  next
    case False
    with rest obtain ref pk w5 pd where
      ref: "renewal_key_ref env rr ?rot w4 = (Inr (ref, pk), w5)"
      and pd: "prepareCertificate env ?plan ref pk raw (Some (rw_issuerCert rr)) (rw_issuerSecret rr)
         CertificateKindLeaf ?by (rw_points rr) w5 = (Inr pd, w')"
      and prep: "prep = renewal_prepared rr (iu_clock env k 0) plan (pd_KeyMaterialID pd)
         (if ?rot then pd_GeneratedPublic pd else pk) (pd_GeneratedSecret pd) (pd_Certificate pd)"
      by (auto simp: tx_iff)
    have gen: "ce_issuerCAKeyGenerationID (pd_Certificate pd) = ip_IssuerKeyGenerationID ?plan"
      using prepareCertificate_result [OF pd] by (auto simp: matches_def)
    show ?thesis
    proof (cases ?rot)
      case True
      with ref obtain m where m: "ref = \<lparr>kr_Fresh = Some \<lparr>ks_KeyMaterialID = m,
            ks_Algorithm = ce_keyAlgorithm (rw_currentCert rr), ks_Purpose = SecretPurposeLeafDelivery\<rparr>, kr_Existing = []\<rparr>"
        by (auto simp: renewal_key_ref_def tx_iff)
      have "pd_KeyMaterialID pd = m" using prepareCertificate_result [OF pd] m by auto
      with True cert gen prepareCertificate_signed [OF pd [unfolded m]] show ?thesis
        by (auto simp: prep renewal_prepared_def renewal_pair_def rotated_pair_def)
    next
      case no_rot: False
      with ref have "kr_Fresh ref = None" by (auto simp: renewal_key_ref_def tx_iff)
      with pd have "signed_with env pk (rw_issuerSecret rr) (pd_Certificate pd)"
        by (auto simp: prepareCertificate_def tx_iff Let_def intro!: sign_signed split: prod.splits)
      with no_rot cert gen show ?thesis by (auto simp: prep renewal_prepared_def renewal_pair_def)
    qed
  qed
qed

subsection \<open>The commit\<close>

lemma is_revoked_result: "is_revoked i n w = (Inr b, w') \<Longrightarrow> w' = w \<and> (b \<longleftrightarrow> lg_revocations w (i, sn_hex n) \<noteq> None)"
  by (auto simp: is_revoked_def tx_iff FindForUpdate_def found_def tx_return_def tx_fail_def
      split: option.splits if_splits)

text \<open>The key may still be renewed: not reported compromised, and its certificate not revoked.\<close>

definition key_renewable :: "ledger \<Rightarrow> KeyMaterialID \<Rightarrow> Certificate \<Rightarrow> bool" where
  "key_renewable s k src \<longleftrightarrow> (\<exists>m. lg_keyMaterials s k = Some m \<and> km_CompromisedAt m = zero_instant)
     \<and> lg_revocations s (ce_issuerCAKeyGenerationID src, sn_hex (ce_serial src)) = None"

lemma ensureKeyStillRenewable_effect:
  "ensureKeyStillRenewable prep w = (Inr u, w') \<Longrightarrow> w' = w
     \<and> key_renewable w (kg_keyMaterialID (sn_CurrentKeyGeneration (xr_snapshot prep))) (xr_sourceCertificate prep)"
  by (auto simp: ensureKeyStillRenewable_def read_key_material_def tx_iff key_renewable_def Instant_IsZero_iff
      split: if_splits dest!: is_revoked_result)

lemma renew_checks_effect:
  assumes "renew_checks cmd ver prep sn now w = (Inr a, w')"
  shows "w' = w \<and> \<not> LeafSeries_IsArchived (sn_Series sn) \<and> ls_version (sn_Series sn) = ver
    \<and> ls_currentCertificateID (sn_Series sn) = rn_SourceCertificateID cmd
    \<and> kg_id (sn_CurrentKeyGeneration sn) = kg_id (sn_CurrentKeyGeneration (xr_snapshot prep))
    \<and> kg_custody (sn_CurrentKeyGeneration sn) = kg_custody (sn_CurrentKeyGeneration (xr_snapshot prep))
    \<and> map_of (lg_authorities w) (xr_targetAuthorityID prep) = Some a
    \<and> au_keyGenerationID a = xr_targetIssuerKeyID prep
    \<and> CanIssue a (leaf_context (ip_Window (xr_plan prep))) now = None \<and> live_issuer w a
    \<and> (\<not> xr_keyRotated prep \<longrightarrow>
        key_renewable w (kg_keyMaterialID (sn_CurrentKeyGeneration (xr_snapshot prep))) (xr_sourceCertificate prep))
    \<and> (\<exists>s. lg_settings w = Some s \<and> se_Version s = xr_settingsVersion prep)
    \<and> serial_unused w (ip_IssuerKeyGenerationID (xr_plan prep)) (ce_serial (xr_certificate prep))"
  using assms unfolding renew_checks_def Let_def
  by (cases "xr_keyRotated prep")
    (auto simp: read_target_def tx_iff split: if_splits
      dest!: verifyCA_effect settingsUnchanged_effect ensureSerialUnused_effect ensureKeyStillRenewable_effect)

text \<open>The key generation of the new certificate: a new one, or the current one counted up.\<close>

definition next_generation :: "LeafSeries \<Rightarrow> LeafKeyGeneration \<Rightarrow> renewPrepared \<Rightarrow> LeafKeyGenerationID \<Rightarrow> LeafKeyGeneration" where
  "next_generation ser g p i =
     (if xr_keyRotated p then (first_generation (ls_id ser) i (xr_keyMaterialID p))
        \<lparr>kg_generationNo := rp_NextKeyGenerationNo (xr_renewalPlan p), kg_renewalCount := rp_NextRenewalCount (xr_renewalPlan p)\<rparr>
      else g\<lparr>kg_renewalCount := rp_NextRenewalCount (xr_renewalPlan p)\<rparr>)"

lemma rotated_effect:
  assumes "rotated_generation env p ser w = (Inr i, w')" and "xr_keyRotated p"
  shows "canonical_uuid i \<and> lg_leafKeyGenerations w i = None
    \<and> w' = w\<lparr>lg_uuids := Suc (lg_uuids w),
         lg_leafKeyGenerations := (lg_leafKeyGenerations w)(i \<mapsto> next_generation ser g p i)\<rparr>"
  using assms by (auto simp: rotated_generation_def tx_iff ParseID_Inr NewLeafKeyGeneration_def success_iff
      next_generation_def first_generation_def split: if_splits)

lemma reused_effect:
  assumes "reused_generation p g w = (Inr i, w')" and "\<not> xr_keyRotated p"
  shows "i = rp_KeyGenerationID (xr_renewalPlan p) \<and> lg_leafKeyGenerations w (kg_id g) \<noteq> None
    \<and> w' = w\<lparr>lg_leafKeyGenerations := (lg_leafKeyGenerations w)(kg_id g \<mapsto> next_generation ser g p i)\<rparr>"
  using assms by (cases g) (auto simp: reused_generation_def tx_iff NewLeafKeyGeneration_def success_iff
      next_generation_def split: if_splits)

text \<open>What the rows of a renewal are, and what stays.\<close>

definition renewed_rows :: "renewPrepared \<Rightarrow> LeafSeries \<Rightarrow> LeafKeyGeneration \<Rightarrow> LeafKeyGenerationID \<Rightarrow> ledger \<Rightarrow> ledger \<Rightarrow> bool" where
  "renewed_rows p ser g i s s' \<longleftrightarrow> map_of (lg_certificates s) (ce_id (xr_certificate p)) = None
     \<and> lg_certificates s' = AList.update (ce_id (xr_certificate p)) (xr_certificate p) (lg_certificates s)
     \<and> lg_leafKeyGenerations s' = (lg_leafKeyGenerations s)(kg_id (next_generation ser g p i) \<mapsto> next_generation ser g p i)
     \<and> lg_series s' = (lg_series s)(ls_id ser \<mapsto> ser\<lparr>ls_currentCertificateID := ce_id (xr_certificate p),
          ls_currentKeyGenerationID := i, ls_version := Version_Next (ls_version ser)\<rparr>)
     \<and> lg_authorities s' = lg_authorities s \<and> lg_caKeyGenerations s' = lg_caKeyGenerations s
     \<and> lg_revocationRows s' = lg_revocationRows s \<and> lg_crlStates s' = lg_crlStates s
     \<and> (if xr_keyRotated p
          then canonical_uuid i \<and> lg_leafKeyGenerations s i = None \<and> lg_keyMaterials s (xr_keyMaterialID p) = None
            \<and> lg_keyMaterials s' = (lg_keyMaterials s)(xr_keyMaterialID p \<mapsto>
                new_material (xr_keyMaterialID p) (xr_publicKey p))
            \<and> (\<exists>d. map_of (lg_deliveries s) (de_id d) = None
                 \<and> lg_deliveries s' = AList.update (de_id d) d (lg_deliveries s)
                 \<and> de_state d = DeliveryStatePending \<and> de_leafKeyGenerationID d = i
                 \<and> de_certificateID d = ce_id (xr_certificate p))
            \<and> (\<exists>secret. xr_generatedSecret p = Some secret \<and> es_ownerKeyID secret = xr_keyMaterialID p \<and> es_purpose secret = SecretPurposeLeafDelivery
                 \<and> lg_secrets s' = AList.update (xr_keyMaterialID p, SecretPurposeLeafDelivery) secret (lg_secrets s))
          else i = rp_KeyGenerationID (xr_renewalPlan p) \<and> lg_keyMaterials s' = lg_keyMaterials s
            \<and> lg_deliveries s' = lg_deliveries s \<and> lg_secrets s' = lg_secrets s)"

lemma renew_rows_effect:
  assumes run: "renew_rows_stored env cmd ver p sn now w = (Inr (i, d), w')"
  shows "renewed_rows p (sn_Series sn) (sn_CurrentKeyGeneration sn) i w w' \<and> lg_requestResults w' = lg_requestResults w
    \<and> (if xr_keyRotated p then canonical_uuid d \<and> map_of (lg_deliveries w') d \<noteq> None else d = [])"
proof (cases "xr_keyRotated p")
  case True
  note eff = rotated_effect [OF _ True]
  from run True obtain secret where secret: "xr_generatedSecret p = Some secret"
    unfolding renew_rows_stored_def Let_def by (auto simp: tx_iff split: option.splits)
  from run True show ?thesis unfolding renew_rows_stored_def Let_def secret
    by (auto simp: secret tx_iff insertGeneratedKeyMaterial_def store_leaf_record_def new_material_def leaf_record_def NewLeafSeries_def success_iff
        renewed_rows_def next_generation_def first_generation_def dest!: eff fresh_key_effect split: if_splits)
next
  case False
  note eff = reused_effect [OF _ False, where ser = "sn_Series sn"]
  from run False show ?thesis unfolding renew_rows_stored_def Let_def
    by (auto simp: tx_iff store_leaf_record_def leaf_record_def NewLeafSeries_def success_iff renewed_rows_def
        next_generation_def dest!: eff split: if_splits)
qed

lemma renew_commit_effect:
  assumes run: "renew_commit env meta cmd key h ver p sn now w = (Inr v, w')"
  shows "(\<exists>a. renew_checks cmd ver p sn now w = (Inr a, w))
    \<and> renewed_rows p (sn_Series sn) (sn_CurrentKeyGeneration sn) (iv_KeyGenerationID v) w w'
    \<and> iv_CertificateID v = ce_id (xr_certificate p) \<and> iv_KeyRotated v = xr_keyRotated p
    \<and> iv_RenewalCount v = rp_NextRenewalCount (xr_renewalPlan p) \<and> iv_SeriesID v = ls_id (sn_Series sn)"
proof -
  from run obtain a w0 i d w1 w2 w3 where checks: "renew_checks cmd ver p sn now w = (Inr a, w0)"
    and stored: "renew_rows_stored env cmd ver p sn now w0 = (Inr (i, d), w1)"
    and result: "StoreRequestResult key h (Inr (stored_result_json \<lparr>st_SchemaVersion = issuanceStoredResultSchemaVersion,
        st_SeriesID = ls_id (sn_Series sn), st_CertificateID = ce_id (xr_certificate p), st_KeyGenerationID = i,
        st_RenewalCount = rp_NextRenewalCount (xr_renewalPlan p), st_KeyRotated = xr_keyRotated p,
        st_DeliveryID = d\<rparr>)) w1 = (Inr (), w2)"
    and audit: "appendIssuanceAudit (iu_ids env) now meta ''issuance.renew'' (xr_certificate p) (au_id a) w2 = (Inr (), w3)"
    and view: "toView \<lparr>st_SchemaVersion = issuanceStoredResultSchemaVersion,
        st_SeriesID = ls_id (sn_Series sn), st_CertificateID = ce_id (xr_certificate p), st_KeyGenerationID = i,
        st_RenewalCount = rp_NextRenewalCount (xr_renewalPlan p), st_KeyRotated = xr_keyRotated p,
        st_DeliveryID = d\<rparr> w3 = (Inr v, w')"
    unfolding renew_commit_def Let_def by (auto simp: tx_bind_iff split: prod.splits)
  from renew_checks_effect [OF checks] have w0: "w0 = w" by simp
  from view have v: "iv_SeriesID v = ls_id (sn_Series sn)" "iv_CertificateID v = ce_id (xr_certificate p)"
    "iv_KeyGenerationID v = i" "iv_RenewalCount v = rp_NextRenewalCount (xr_renewalPlan p)"
    "iv_KeyRotated v = xr_keyRotated p" and w': "w' = w3"
    by (auto simp: toView_effect stored_view_def split: if_splits)
  from renew_rows_effect [OF stored] w0
  have "renewed_rows p (sn_Series sn) (sn_CurrentKeyGeneration sn) i w w1" by simp
  then have "renewed_rows p (sn_Series sn) (sn_CurrentKeyGeneration sn) i w w'"
    using result issuance_audit_effect [OF audit] w'
    by (auto simp: store_result_effect renewed_rows_def)
  with checks w0 v show ?thesis by auto
qed

lemma commitRenew_cases:
  assumes "commitRenew env k meta cmd key h ver p t s = (Inr v, s')"
  shows "replayed key h s v \<and> s' = s
    \<or> lg_requestResults s key = None \<and> (\<exists>sn. PKI_GetSeriesForUpdate (rn_SeriesID cmd) s = (Inr sn, s)
        \<and> renew_commit env meta cmd key h ver p sn (iu_clock env k (2 * t + 2)) s = (Inr v, s'))"
proof -
  from assms obtain sn e s1 where sn: "PKI_GetSeriesForUpdate (rn_SeriesID cmd) s = (Inr sn, s)"
    and e: "replay_view key h s = (Inr e, s1)"
    and rest: "(case e of Some v \<Rightarrow> tx_return v
      | None \<Rightarrow> renew_commit env meta cmd key h ver p sn (iu_clock env k (2 * t + 2))) s1 = (Inr v, s')"
    by (auto simp: commitRenew_def read_series_def authorize_series_def tx_iff series_read simp del: add_2_eq_Suc')
  from replay_view_effect [OF e] rest sn show ?thesis by (cases e) (auto simp: tx_return_iff)
qed

subsection \<open>One renewal\<close>

text \<open>What a renewal stored, on the store it committed on: under the version the caller expected and on the
  certificate the caller named, one new certificate by an issuer that may issue it.\<close>

definition fresh_renewal ::
  "IssuanceRenewCommand \<Rightarrow> Version \<Rightarrow> Instant \<Rightarrow> Certificate \<Rightarrow> Certificate \<Rightarrow> PublicKey \<Rightarrow> EncryptedSecret \<Rightarrow> ledger \<Rightarrow> IssuanceView \<Rightarrow> ledger \<Rightarrow> bool" where
  "fresh_renewal cmd ver now src c pk sec s v s' \<longleftrightarrow> (\<exists>ser g a. lg_series s (rn_SeriesID cmd) = Some ser
     \<and> \<not> LeafSeries_IsArchived ser \<and> ls_version ser = ver \<and> ls_currentCertificateID ser = rn_SourceCertificateID cmd
     \<and> current_key s ser g \<and> kg_custody g = KeyCustodyClientHeld
     \<and> map_of (lg_authorities s) (renewal_target cmd ser) = Some a \<and> live_issuer s a
     \<and> CanIssue a (leaf_context (ce_validity c)) now = None
     \<and> ce_issuerCAKeyGenerationID c = au_keyGenerationID a \<and> serial_unused s (au_keyGenerationID a) (ce_serial c)
     \<and> ce_id c = iv_CertificateID v \<and> ce_kind c = CertificateKindLeaf \<and> map_of (lg_certificates s) (ce_id c) = None
     \<and> ce_subject c = ce_subject src \<and> ce_sans c = ce_sans src \<and> ce_profile c = ce_profile src
     \<and> ce_keyAlgorithm c = ce_keyAlgorithm src
     \<and> lg_certificates s' = AList.update (ce_id c) c (lg_certificates s)
     \<and> lg_series s' = (lg_series s)(ls_id ser \<mapsto> ser\<lparr>ls_currentCertificateID := ce_id c,
          ls_currentKeyGenerationID := iv_KeyGenerationID v, ls_version := Version_Next (ls_version ser)\<rparr>)
     \<and> lg_authorities s' = lg_authorities s \<and> lg_caKeyGenerations s' = lg_caKeyGenerations s
     \<and> lg_revocationRows s' = lg_revocationRows s \<and> lg_crlStates s' = lg_crlStates s
     \<and> (if iv_KeyRotated v
          then sp_RotateEvery (ls_policy ser) \<le> wrap64 (kg_renewalCount g + 1)
            \<and> lg_leafKeyGenerations s (iv_KeyGenerationID v) = None \<and> lg_keyMaterials s (ce_keyMaterialID c) = None
            \<and> lg_leafKeyGenerations s' = (lg_leafKeyGenerations s)(iv_KeyGenerationID v \<mapsto>
                (first_generation (ls_id ser) (iv_KeyGenerationID v) (ce_keyMaterialID c))
                  \<lparr>kg_generationNo := wrap64 (kg_generationNo g + 1)\<rparr>)
            \<and> (\<exists>d. map_of (lg_deliveries s) (de_id d) = None \<and> lg_deliveries s' = AList.update (de_id d) d (lg_deliveries s)
                 \<and> de_state d = DeliveryStatePending \<and> de_leafKeyGenerationID d = iv_KeyGenerationID v
                 \<and> de_certificateID d = ce_id c)
            \<and> es_ownerKeyID sec = ce_keyMaterialID c \<and> es_purpose sec = SecretPurposeLeafDelivery
            \<and> lg_secrets s' = AList.update (ce_keyMaterialID c, SecretPurposeLeafDelivery) sec (lg_secrets s)
            \<and> lg_keyMaterials s' = (lg_keyMaterials s)(ce_keyMaterialID c \<mapsto> new_material (ce_keyMaterialID c) pk)
          else wrap64 (kg_renewalCount g + 1) < sp_RotateEvery (ls_policy ser)
            \<and> iv_KeyGenerationID v = kg_id g \<and> ce_keyMaterialID c = kg_keyMaterialID g
            \<and> key_renewable s (kg_keyMaterialID g) src
            \<and> lg_leafKeyGenerations s' = (lg_leafKeyGenerations s)(kg_id g \<mapsto>
                g\<lparr>kg_renewalCount := wrap64 (kg_renewalCount g + 1)\<rparr>)
            \<and> lg_deliveries s' = lg_deliveries s \<and> lg_secrets s' = lg_secrets s \<and> lg_keyMaterials s' = lg_keyMaterials s))"

lemma renew_commit_fresh:
  assumes run: "renew_commit env meta cmd key h ver p sn now s = (Inr v, s')"
    and sn: "PKI_GetSeriesForUpdate (rn_SeriesID cmd) s = (Inr sn, s)"
    and ready: "renewal_ready env l cmd ver p" and s: "seen env l s" and contract: "optimistic env l"
    and sec: "xr_keyRotated p \<Longrightarrow> xr_generatedSecret p = Some sec"
  shows "fresh_renewal cmd ver now (xr_sourceCertificate p) (xr_certificate p) (xr_publicKey p) sec s v s'"
proof -
  let ?ser = "sn_Series sn" and ?g = "sn_CurrentKeyGeneration sn"
  let ?prev = "sn_Series (xr_snapshot p)" and ?pg = "sn_CurrentKeyGeneration (xr_snapshot p)"
  note eff = renew_commit_effect [OF run]
  then obtain a where "renew_checks cmd ver p sn now s = (Inr a, s)" by blast
  note checks = renew_checks_effect [OF this]
  from ready obtain s0 where s0: "seen env l s0" "lg_series s0 (rn_SeriesID cmd) = Some ?prev" "current_key s0 ?prev ?pg"
    and r: "ls_version ?prev = ver" "xr_targetAuthorityID p = renewal_target cmd ?prev"
      "ip_IssuerKeyGenerationID (xr_plan p) = xr_targetIssuerKeyID p" "same_identity (xr_plan p) (xr_sourceCertificate p)"
      "prepared_for (xr_plan p) (xr_keyMaterialID p) (xr_certificate p)" "renewal_decision ?prev ?pg p"
    unfolding renewal_ready_def by blast
  from sn have ser: "lg_series s (rn_SeriesID cmd) = Some ?ser" by (simp add: series_read)
  from checks r(1) have same_ver: "ls_version ?prev = ls_version ?ser" by simp
  from optimisticD(1) [OF contract s0(1) s s0(2) ser same_ver] have eq: "?prev = ?ser" .
  have key: "current_key s ?ser ?g"
    using sn checks r(6) by (auto simp: series_read renewal_decision_def zero_key_generation_def split: if_splits)
  have "?g\<lparr>kg_custody := kg_custody ?pg\<rparr> = ?pg"
    by (rule optimisticD(2) [OF contract s0(1) s s0(2) ser same_ver])
      (use s0(3) key in \<open>simp_all add: current_key_def\<close>)
  moreover have "kg_custody ?g = kg_custody ?pg" using checks by simp
  ultimately have g: "?pg = ?g" by (metis LeafKeyGeneration.surjective LeafKeyGeneration.update_convs(7))
  note plan = r [unfolded eq g same_identity_def prepared_for_def renewal_decision_def]
  note found = checks [unfolded g plan(1)]
  from eff have rr: "renewed_rows p ?ser ?g (iv_KeyGenerationID v) s s'"
    and v: "ce_id (xr_certificate p) = iv_CertificateID v" "xr_keyRotated p = iv_KeyRotated v" by simp_all
  note stored = rr [unfolded renewed_rows_def next_generation_def first_generation_def]
  show ?thesis unfolding fresh_renewal_def first_generation_def
  proof (intro exI [of _ ?ser] exI [of _ ?g] exI [of _ a])
  qed (use plan found stored v ser key sec in \<open>(simp split: if_splits; blast)\<close>)
qed

subsection \<open>Renew\<close>

lemma renew_attempts_result:
  assumes "renew_attempts env meta cmd ver key h n k reuse w = (Inr v, w')" and "seen env l (sg_store w)"
    and "optimistic env l" and "\<And>q. reuse = Some q \<Longrightarrow> renewal_ready env l cmd ver q \<and> renewal_pair env l q"
  shows "\<exists>kk prep t s. renewal_ready env l cmd ver prep \<and> renewal_pair env l prep \<and> commit_try env l kk t s
    \<and> commitRenew env kk meta cmd key h ver prep t s = (Inr v, sg_store w')"
  using assms
proof (induction n arbitrary: k reuse w)
  case (Suc n)
  then obtain prep w1 r w2 where prep: "prepareRenew env k meta cmd ver reuse w = (Inr prep, w1)"
    and wr: "retried_write zero_issuance_view env k (commitRenew env k meta cmd key h ver prep) w1 = (r, w2)"
    and rest: "(case r of
       Inl err \<Rightarrow> if Is_rePrepare err then renew_attempts env meta cmd ver key h n (Suc k) (Some prep) else tx_fail err
     | Inr v \<Rightarrow> tx_return v) w2 = (Inr v, w')"
    by (auto simp: tx_bind_iff tx_try_iff)
  have ready: "renewal_ready env l cmd ver prep"
    by (rule prepareRenew_result [OF prep Suc.prems(2,3)]) (use Suc.prems(4) in blast)
  have pair: "renewal_pair env l prep"
    by (rule prepareRenew_pair [OF prep Suc.prems(2)]) (use Suc.prems(4) in blast)
  from tracelessD [OF prepareRenew_traceless prep Suc.prems(2)] have w1: "seen env l (sg_store w1)" .
  show ?case
  proof (cases r)
    case (Inl e)
    with rest have again: "renew_attempts env meta cmd ver key h n (Suc k) (Some prep) w2 = (Inr v, w')"
      and "Is_rePrepare e" by (auto simp: tx_fail_iff split: if_splits)
    with wr Inl w1 have "seen env l (sg_store w2)" by (auto dest: stale_seen)
    with again show ?thesis using Suc.prems(3) ready pair by (intro Suc.IH) auto
  next
    case (Inr v')
    with rest have "v' = v" "w2 = w'" by (auto simp: tx_return_iff)
    with retried_write_seen [OF wr w1] Inr
    have "\<exists>t s. commit_try env l k t s \<and> commitRenew env k meta cmd key h ver prep t s = (Inr v, sg_store w')" by simp
    with ready pair show ?thesis by blast
  qed
qed (simp add: tx_fail_iff)

definition renew_request ::
  "MutationMeta \<Rightarrow> IssuanceRenewCommand \<Rightarrow> Version \<Rightarrow> OperationRequestKey \<Rightarrow> string \<Rightarrow> bool" where
  "renew_request meta cmd ver key h \<longleftrightarrow> IsAdmin (rq_Principal meta) \<and> RequireExpectedVersion meta = Inr ver
     \<and> InputHash issuanceOperationRenew [(''series_id'', NormalizeUUID (rn_SeriesID cmd))] (Inr (renewHashInput cmd)) = Inr h
     \<and> RequestKey meta issuanceOperationRenew = Inr key"

text \<open>C8. What a successful \<open>Renew\<close> did, when other requests respect the versions of the rows they change: on
  a store that came about from the one it started on only by what others committed, it replayed the result of
  the same request, or it continued the very series version and certificate the caller named. Then one new leaf
  certificate of the same subject, names, profile and algorithm is stored, signed with the stored key of its issuer,
  and the series points to it at the next version. The store is the one some commit \<open>t\<close> of some attempt \<open>k\<close> ran on, and
  by the clock reading that commit took after it had locked the issuer (\<open>2 * t + 2\<close>, not the preparation's \<open>0\<close>) the
  target authority may issue the window, with a live CA key, under an unused serial. Below the rotation limit it is on the current key, which is in the client's hands, not reported
  compromised, and its certificate not revoked, and nothing is handed out; at the limit it is on a
  new key generation with the next number, a counter at zero and one pending delivery, whose key pair is the engine's
  answer for the new key material and is stored encrypted for delivery.\<close>

theorem renew_sound:
  assumes run: "Renew env meta cmd w = (Inr v, w')" and contract: "optimistic env (sg_store w)"
  shows "\<exists>ver key h s. renew_request meta cmd ver key h \<and> seen env (sg_store w) s
    \<and> (replayed key h s v \<and> sg_store w' = s
       \<or> lg_requestResults s key = None \<and> (\<exists>c src s0 k t pk sec. commit_try env (sg_store w) k t s
           \<and> fresh_renewal cmd ver (iu_clock env k (2 * t + 2)) src c pk sec s v (sg_store w')
           \<and> seen env (sg_store w) s0 \<and> map_of (lg_certificates s0) (rn_SourceCertificateID cmd) = Some src
           \<and> certified env (sg_store w) pk c \<and> (iv_KeyRotated v \<longrightarrow>
               (\<exists>alg. generated_for env (ce_keyMaterialID c) alg SecretPurposeLeafDelivery pk sec))))"
proof -
  from run obtain ver key h e w1 where req: "renew_request meta cmd ver key h"
    and e: "replayBeforePreparation env key h (rq_Principal meta)
        (authorizeRenew env (rq_Principal meta) (rn_SeriesID cmd)) w = (Inr e, w1)"
    and rest: "(case e of Some v \<Rightarrow> tx_return v
       | None \<Rightarrow> renew_attempts env meta cmd ver key h maxSerialAttempts 1 None) w1 = (Inr v, w')"
    unfolding Renew_def by (auto simp: tx_iff renew_request_def split: if_splits simp del: One_nat_def)
  have "keeps id (authorizeRenew env (rq_Principal meta) (rn_SeriesID cmd))"
    unfolding authorizeRenew_def read_series_def authorize_series_def by (intro keeps_intro store_reads)
  from tracelessD [OF replayBefore_traceless [OF this] e seen_start] have w1: "seen env (sg_store w) (sg_store w1)" .
  show ?thesis
  proof (cases e)
    case (Some v')
    with rest have "v' = v" "w' = w1" by (simp_all add: tx_return_iff)
    with e Some have "\<exists>s. replay_view key h s = (Inr (Some v), sg_store w')"
      by (auto simp: replayBeforePreparation_def tx_bind_iff in_store_iff)
    then obtain s where "replay_view key h s = (Inr (Some v), sg_store w')" ..
    from replay_view_effect [OF this] have "replayed key h s v" "sg_store w' = s" by simp_all
    with req w1 \<open>w' = w1\<close> show ?thesis by blast
  next
    case None
    with rest have "renew_attempts env meta cmd ver key h maxSerialAttempts 1 None w1 = (Inr v, w')" by simp
    from renew_attempts_result [OF this w1 contract] obtain k prep t s
      where ready: "renewal_ready env (sg_store w) cmd ver prep" and s: "commit_try env (sg_store w) k t s"
      and pair: "renewal_pair env (sg_store w) prep"
      and commit: "commitRenew env k meta cmd key h ver prep t s = (Inr v, sg_store w')" by auto
    from ready obtain s0 where "seen env (sg_store w) s0"
      "map_of (lg_certificates s0) (rn_SourceCertificateID cmd) = Some (xr_sourceCertificate prep)"
      unfolding renewal_ready_def by blast
    note seen_s = commit_try_seen [OF s]
    from pair obtain sec where sec: "xr_keyRotated prep \<Longrightarrow> xr_generatedSecret prep = Some sec"
      and cert: "certified env (sg_store w) (xr_publicKey prep) (xr_certificate prep)"
      and made: "xr_keyRotated prep \<Longrightarrow> \<exists>alg. generated_for env (xr_keyMaterialID prep) alg SecretPurposeLeafDelivery
        (xr_publicKey prep) sec"
      unfolding renewal_pair_def rotated_pair_def by blast
    have key: "ce_keyMaterialID (xr_certificate prep) = xr_keyMaterialID prep"
      using ready by (simp add: renewal_ready_def prepared_for_def)
    from commitRenew_cases [OF commit] show ?thesis
    proof
      assume "replayed key h s v \<and> sg_store w' = s"
      with req seen_s show ?thesis by blast
    next
      assume "lg_requestResults s key = None \<and> (\<exists>sn. PKI_GetSeriesForUpdate (rn_SeriesID cmd) s = (Inr sn, s)
        \<and> renew_commit env meta cmd key h ver prep sn (iu_clock env k (2 * t + 2)) s = (Inr v, sg_store w'))"
      then obtain sn where new: "lg_requestResults s key = None" "PKI_GetSeriesForUpdate (rn_SeriesID cmd) s = (Inr sn, s)"
        and done_now: "renew_commit env meta cmd key h ver prep sn (iu_clock env k (2 * t + 2)) s = (Inr v, sg_store w')"
        by blast
      have "iv_KeyRotated v = xr_keyRotated prep" using renew_commit_effect [OF done_now] by simp
      with made key have "iv_KeyRotated v \<longrightarrow>
          (\<exists>alg. generated_for env (ce_keyMaterialID (xr_certificate prep)) alg SecretPurposeLeafDelivery (xr_publicKey prep) sec)"
        by simp
      with req seen_s s new(1) cert \<open>seen env (sg_store w) s0\<close>
        \<open>map_of (lg_certificates s0) (rn_SourceCertificateID cmd) = Some (xr_sourceCertificate prep)\<close>
        renew_commit_fresh [OF done_now new(2) ready seen_s contract sec] show ?thesis by blast
    qed
  qed
qed

end
