(* ===== verification/Renewal_Samples.thy ===== *)
theory Renewal_Samples
  imports Renew_Safety Issuance_Samples
begin

text \<open>
  The installation of \<open>Issuance_Samples\<close> with one series, whose key the client holds: a request to renew it
  succeeds on the same key.
\<close>

definition sample_client_series :: LeafSeries where
  "sample_client_series = \<lparr>ls_id = sample_uuid CHR ''3'', ls_name = ''web'', ls_purpose = SeriesPurposeDistributed,
     ls_managementAuthorityID = sample_uuid CHR ''a'', ls_currentCertificateID = sample_uuid CHR ''6'',
     ls_currentKeyGenerationID = sample_uuid CHR ''4'',
     ls_policy = \<lparr>sp_RotateEvery = 3, sp_CertificateValidity = \<lparr>cv_value = 1, cv_unit = ValidityUnitDays\<rparr>\<rparr>,
     ls_version = 7, ls_archivedAt = zero_instant\<rparr>"

definition sample_client_key :: LeafKeyGeneration where
  "sample_client_key = \<lparr>kg_id = sample_uuid CHR ''4'', kg_seriesID = sample_uuid CHR ''3'',
     kg_keyMaterialID = sample_uuid CHR ''e'', kg_generationNo = 1, kg_renewalCount = 0,
     kg_priorHistoryUnknown = False, kg_custody = KeyCustodyClientHeld\<rparr>"

definition sample_client_cert :: Certificate where
  "sample_client_cert = \<lparr>ce_id = sample_uuid CHR ''6'', ce_der = ''old'', ce_keyMaterialID = sample_uuid CHR ''e'',
     ce_issuerCAKeyGenerationID = sample_uuid CHR ''d'', ce_serial = SerialNumber ''2'', ce_validity = sample_window,
     ce_subject = \<lparr>su_commonName = ''web'', su_organization = [], su_organizationalUnit = [], su_country = []\<rparr>,
     ce_sans = [], ce_kind = CertificateKindLeaf, ce_profile = CertificateProfileClientMTLS,
     ce_keyAlgorithm = KeyAlgorithmECDSAP256, ce_origin = CertificateOriginGenerated,
     ce_createdByAccountID = [], ce_version = 0\<rparr>"

definition sample_client_material :: KeyMaterial where
  "sample_client_material = new_material (sample_uuid CHR ''e'') \<lparr>pk_algorithm = KeyAlgorithmECDSAP256, pk_spki = ''s''\<rparr>"

definition sample_client_store :: ledger where
  "sample_client_store = sample_installation\<lparr>
     lg_seriesRows := [(sample_uuid CHR ''3'', sample_client_series)],
     lg_leafKeyGenerations := [sample_uuid CHR ''4'' \<mapsto> sample_client_key],
     lg_keyMaterials := [sample_uuid CHR ''e'' \<mapsto> sample_client_material],
     lg_certificates := [(sample_uuid CHR ''c'', sample_ca_cert), (sample_uuid CHR ''6'', sample_client_cert)]\<rparr>"

definition sample_renew :: IssuanceRenewCommand where
  "sample_renew = \<lparr>rn_SeriesID = sample_uuid CHR ''3'', rn_SourceCertificateID = sample_uuid CHR ''6'',
     rn_TargetAuthorityID = [], rn_TransitionID = []\<rparr>"

definition sample_renew_meta :: MutationMeta where
  "sample_renew_meta = sample_issue_meta\<lparr>mm_ExpectedVersion := Some 7\<rparr>"

definition sample_client_world :: signing_world where
  "sample_client_world = \<lparr>sg_store = sample_client_store, sg_generated = [], sg_signed = [], sg_serials = 0\<rparr>"

lemma sample_digit_ids [simp]:
  "sample_uuid a = sample_uuid b \<longleftrightarrow> a = b" "sample_uuid a \<noteq> []"
  by (auto simp: sample_uuid_def numeral_eq_Suc)

text \<open>The rows the renewal reads, whatever identifiers were drawn.\<close>

lemma sample_client_rows [simp]:
  "map_of (lg_authorities sample_client_store) (sample_uuid CHR ''a'') = Some sample_ca"
  "lg_series sample_client_store = [sample_uuid CHR ''3'' \<mapsto> sample_client_series]"
  "lg_leafKeyGenerations sample_client_store = [sample_uuid CHR ''4'' \<mapsto> sample_client_key]"
  "lg_keyMaterials sample_client_store = [sample_uuid CHR ''e'' \<mapsto> sample_client_material]"
  "lg_certificates sample_client_store = [(sample_uuid CHR ''c'', sample_ca_cert), (sample_uuid CHR ''6'', sample_client_cert)]"
  "lg_caKeyGenerations sample_client_store = lg_caKeyGenerations sample_installation"
  "lg_caCertRecords sample_client_store = lg_caCertRecords sample_installation"
  "lg_secrets sample_client_store = lg_secrets sample_installation"
  "lg_settings sample_client_store = lg_settings sample_installation"
  "lg_requestResults sample_client_store = Map.empty" "lg_certificatesByDER sample_client_store = Map.empty"
  "lg_leafCertRecords sample_client_store = Map.empty" "lg_revocationRows sample_client_store = []"
  "lg_uuids sample_client_store = 0" "lg_accounts sample_client_store = lg_accounts sample_installation"
  "lg_sessions sample_client_store = lg_sessions sample_installation"
  by (simp_all add: sample_client_store_def)

lemma sample_client_simps [simp]:
  "ls_id sample_client_series = sample_uuid CHR ''3''" "ls_name sample_client_series = ''web''"
  "ls_purpose sample_client_series = SeriesPurposeDistributed"
  "ls_managementAuthorityID sample_client_series = sample_uuid CHR ''a''"
  "ls_currentCertificateID sample_client_series = sample_uuid CHR ''6''"
  "ls_currentKeyGenerationID sample_client_series = sample_uuid CHR ''4''"
  "ls_policy sample_client_series = \<lparr>sp_RotateEvery = 3, sp_CertificateValidity = \<lparr>cv_value = 1, cv_unit = ValidityUnitDays\<rparr>\<rparr>"
  "ls_version sample_client_series = 7" "\<not> LeafSeries_IsArchived sample_client_series"
  "kg_id sample_client_key = sample_uuid CHR ''4''" "kg_seriesID sample_client_key = sample_uuid CHR ''3''"
  "kg_keyMaterialID sample_client_key = sample_uuid CHR ''e''" "kg_custody sample_client_key = KeyCustodyClientHeld"
  "ce_issuerCAKeyGenerationID sample_client_cert = sample_uuid CHR ''d''" "ce_serial sample_client_cert = SerialNumber ''2''"
  "km_CompromisedAt sample_client_material = zero_instant"
  by (simp_all add: sample_client_series_def sample_client_key_def sample_client_cert_def sample_client_material_def
      new_material_def LeafSeries_IsArchived_def Instant_IsZero_iff)

lemma sample_client_live:
  "verifyCASigningKeyLive sample_ca (sample_client_store\<lparr>lg_uuids := n\<rparr>)
     = (Inr (sample_ca_cert, the (lg_caKeyGenerations sample_installation (sample_uuid CHR ''d''))),
        sample_client_store\<lparr>lg_uuids := n\<rparr>)"
  by (simp add: verifyCASigningKeyLive_def run_defs GetCAKeyGeneration_def PKI_GetCertificate_def
      PKI_GetCACertificateRecord_def Instant_IsZero_iff)

lemma sample_client_settings:
  "issuance_settings (sample_client_store\<lparr>lg_uuids := n\<rparr>)
     = (Inr (the (lg_settings sample_installation)), sample_client_store\<lparr>lg_uuids := n\<rparr>)"
  by (simp add: issuance_settings_def run_defs GetSettings_def)

lemma sample_renew_reads:
  "\<exists>rr. renew_reads sample_issuance_env sample_renew_meta sample_renew sample_client_store = (Inr rr, sample_client_store)
     \<and> rw_snapshot rr = \<lparr>sn_Series = sample_client_series, sn_CurrentKeyGeneration = sample_client_key\<rparr>
     \<and> rw_currentCert rr = sample_client_cert \<and> \<not> rw_keyCompromised rr \<and> \<not> rw_revoked rr
     \<and> rw_targetAuthorityID rr = sample_uuid CHR ''a'' \<and> rw_targetIssuer rr = sample_ca
     \<and> dd_SettingsVersion (rw_defaults rr) = 1"
proof -
  have same: "sample_client_store\<lparr>lg_uuids := lg_uuids sample_client_store\<rparr> = sample_client_store"
    by (simp add: sample_client_store_def)
  note live = sample_client_live [of "lg_uuids sample_client_store", unfolded same]
    and set = sample_client_settings [of "lg_uuids sample_client_store", unfolded same]
  have "trim_right_slashes (TrimSpace ''https://ca.example'') \<noteq> []" by code_simp
  then obtain points where points: "leafCRLDistributionPoints ''https://ca.example'' (sample_uuid CHR ''c'') = Inr points"
    by (simp add: leafCRLDistributionPoints_def)
  have "CalendarValidity_IsZero \<lparr>cv_value = 0, cv_unit = ValidityUnitOther []\<rparr>" by code_simp
  then have "\<exists>d. resolveSeriesDefaults None None sample_client_store = (Inr d, sample_client_store)
      \<and> dd_ServiceURL d = ''https://ca.example'' \<and> dd_SettingsVersion d = 1"
    by (simp add: resolveSeriesDefaults_def run_defs set sample_settings_decoded) (simp add: sample_settings_def)
  moreover have "caSigningSecret sample_ca sample_client_store = (Inr (sample_ca_secret, sample_ca_cert), sample_client_store)"
    by (simp add: caSigningSecret_def run_defs live GetEncrypted_def)
  ultimately show ?thesis using points
    by (auto simp: renew_reads_def read_series_def PKI_GetSeriesForUpdate_def authorize_series_def run_defs sample_renew_def
        PKI_GetCertificate_def read_key_material_def GetKeyMaterial_def is_revoked_def FindForUpdate_def Let_def
        read_target_def GetIssuerForUpdate_def Instant_IsZero_iff)
qed

definition sample_reuse :: RenewalPlan where
  "sample_reuse = \<lparr>rp_Action = RenewalActionReuseKey, rp_NextRenewalCount = 1, rp_KeyGenerationID = sample_uuid CHR ''4'',
     rp_NextKeyGenerationNo = 0, rp_TargetIssuerID = sample_uuid CHR ''a'', rp_Window = sample_leaf_window\<rparr>"

lemma sample_reuse_simps [simp]:
  "rp_Action sample_reuse = RenewalActionReuseKey" "rp_NextRenewalCount sample_reuse = 1"
  "rp_KeyGenerationID sample_reuse = sample_uuid CHR ''4''" "rp_Window sample_reuse = sample_leaf_window"
  by (simp_all add: sample_reuse_def)

lemma sample_renewal_planned:
  assumes "rw_snapshot rr = \<lparr>sn_Series = sample_client_series, sn_CurrentKeyGeneration = sample_client_key\<rparr>"
    "\<not> rw_keyCompromised rr" "\<not> rw_revoked rr" "rw_targetAuthorityID rr = sample_uuid CHR ''a''" "rw_targetIssuer rr = sample_ca"
  shows "plan_renewal rr 7 (Instant 20) w = (Inr sample_reuse, w)"
proof -
  have window: "PlanWindow \<lparr>sp_RotateEvery = 3, sp_CertificateValidity = \<lparr>cv_value = 1, cv_unit = ValidityUnitDays\<rparr>\<rparr>
     (x509NotBefore (Instant 20)) = Inr sample_leaf_window"
    by (rule returnsD) code_simp
  have "PlanRenewal sample_client_series \<lparr>rf_CurrentGeneration = sample_client_key, rf_TargetIssuerID = sample_uuid CHR ''a'',
      rf_TargetIssuerWindow = au_certificateWindow sample_ca, rf_RequestedWindow = sample_leaf_window,
      rf_KeyReadyForRenewal = True, rf_IsEmergencyReissue = False,
      rf_NextKeyGenerationNo = wrap64 (kg_generationNo sample_client_key + 1)\<rparr> (Instant 20) = Inr sample_reuse"
    by (rule returnsD) code_simp
  then show ?thesis
    by (simp add: plan_renewal_def run_defs Let_def assms renewal_facts_def window sample_ca_issues)
qed

lemma sample_renew_prepares:
  "\<exists>prep w. prepareRenew sample_issuance_env k sample_renew_meta sample_renew 7 None sample_client_world
     = (Inr prep, w) \<and> sg_store w = sample_client_store\<lparr>lg_uuids := 1\<rparr>
     \<and> xr_snapshot prep = \<lparr>sn_Series = sample_client_series, sn_CurrentKeyGeneration = sample_client_key\<rparr>
     \<and> xr_targetAuthorityID prep = sample_uuid CHR ''a'' \<and> xr_targetIssuerKeyID prep = sample_uuid CHR ''d''
     \<and> xr_renewalPlan prep = sample_reuse \<and> \<not> xr_keyRotated prep \<and> xr_settingsVersion prep = 1
     \<and> xr_sourceCertificate prep = sample_client_cert
     \<and> ip_Window (xr_plan prep) = sample_leaf_window \<and> ip_IssuerKeyGenerationID (xr_plan prep) = sample_uuid CHR ''d''
     \<and> ce_id (xr_certificate prep) = sample_uuid CHR ''5'' \<and> ce_serial (xr_certificate prep) = SerialNumber ''7''"
proof -
  obtain rr where reads: "renew_reads sample_issuance_env sample_renew_meta sample_renew sample_client_store
      = (Inr rr, sample_client_store)"
    and rr: "rw_snapshot rr = \<lparr>sn_Series = sample_client_series, sn_CurrentKeyGeneration = sample_client_key\<rparr>"
      "\<not> rw_keyCompromised rr" "\<not> rw_revoked rr" "rw_targetAuthorityID rr = sample_uuid CHR ''a''" "rw_targetIssuer rr = sample_ca"
    and more: "rw_currentCert rr = sample_client_cert" "dd_SettingsVersion (rw_defaults rr) = 1"
    using sample_renew_reads by auto
  note plan = sample_renewal_planned [OF rr]
  show ?thesis
    by (simp add: prepareRenew_def Let_def run_defs others_def in_store_def reads sample_client_world_def plan
        NewUUID_def renewal_key_ref_def rr prepareCertificate_def resolveSigningKey_def
        newSerial_def NewSerial_def signCertificate_def Sign_def sample_signature_ok)
      (simp add: sample_signature_def renewal_prepared_def renewal_issuance_plan_def Let_def rr more)
qed

text \<open>The commit: the current key counts one renewal more.\<close>

lemma sample_renew_commits:
  assumes prep: "xr_snapshot prep = \<lparr>sn_Series = sample_client_series, sn_CurrentKeyGeneration = sample_client_key\<rparr>"
      "xr_targetAuthorityID prep = sample_uuid CHR ''a''" "xr_targetIssuerKeyID prep = sample_uuid CHR ''d''"
      "xr_renewalPlan prep = sample_reuse" "\<not> xr_keyRotated prep" "xr_settingsVersion prep = 1"
      "xr_sourceCertificate prep = sample_client_cert"
      "ip_Window (xr_plan prep) = sample_leaf_window" "ip_IssuerKeyGenerationID (xr_plan prep) = sample_uuid CHR ''d''"
      "ce_id (xr_certificate prep) = sample_uuid CHR ''5''" "ce_serial (xr_certificate prep) = SerialNumber ''7''"
    and h: "h \<noteq> []"
  shows "\<exists>v s. commitRenew sample_issuance_env k sample_renew_meta sample_renew key h 7 prep t
    (sample_client_store\<lparr>lg_uuids := 1\<rparr>) = (Inr v, s)"
proof -
  let ?s = "sample_client_store\<lparr>lg_uuids := Suc 0\<rparr>"
  have auth: "requireCurrentAuth (rq_Principal sample_renew_meta) (Instant 20) ?s = (Inr (), ?s)"
    by (simp add: sample_renew_meta_def sample_issue_meta_def sample_auth_now)
  have replay: "replay_view key h ?s = (Inr None, ?s)"
    using h by (simp add: replay_view_def Replay_result run_defs)
  have cmd: "rn_SeriesID sample_renew = sample_uuid CHR ''3''" "rn_SourceCertificateID sample_renew = sample_uuid CHR ''6''"
    by (simp_all add: sample_renew_def)
  have checks: "renew_checks sample_renew 7 prep \<lparr>sn_Series = sample_client_series, sn_CurrentKeyGeneration = sample_client_key\<rparr>
      (Instant 20) ?s = (Inr sample_ca, ?s)"
    by (simp add: renew_checks_def Let_def read_target_def run_defs GetIssuerForUpdate_def prep cmd sample_ca_issues
        sample_client_live settingsUnchanged_def sample_client_settings ensureSerialUnused_def SerialExists_def issued_by_def
        SerialNumber_Equal_def ensureKeyStillRenewable_def read_key_material_def GetKeyMaterial_def is_revoked_def
        FindForUpdate_def Instant_IsZero_iff)
  have gen: "kg_generationNo sample_client_key = 1" "kg_priorHistoryUnknown sample_client_key = False"
    "SeriesPolicy_Validate \<lparr>sp_RotateEvery = 3, sp_CertificateValidity = \<lparr>cv_value = 1, cv_unit = ValidityUnitDays\<rparr>\<rparr> = None"
    "ls_archivedAt sample_client_series = zero_instant" "\<not> maxSeriesNameLength < 3"
    by (simp add: sample_client_key_def, simp add: sample_client_key_def, code_simp)
      (simp_all add: sample_client_series_def maxSeriesNameLength_def)
  have ids: "ParseSeriesID (sample_uuid CHR ''3'') = Inr (sample_uuid CHR ''3'')"
    "ParseLeafKeyGenerationID (sample_uuid CHR ''4'') = Inr (sample_uuid CHR ''4'')"
    "ParseKeyMaterialID (sample_uuid CHR ''e'') = Inr (sample_uuid CHR ''e'')"
    by (simp_all add: ParseID_Inr)
  have scope: "AuditScope_Validate (NewAuthoritiesAuditScope [sample_uuid CHR ''a'']) = None"
    by (simp add: AuditScope_Validate_def NewAuthoritiesAuditScope_def ParseID_Inr)
  have series: "read_series (sample_uuid CHR ''3'') ?s
      = (Inr \<lparr>sn_Series = sample_client_series, sn_CurrentKeyGeneration = sample_client_key\<rparr>, ?s)"
    by (simp add: read_series_def PKI_GetSeriesForUpdate_def run_defs cmd)
  show ?thesis
    by (simp add: commitRenew_def series run_defs auth authorize_series_def replay renew_commit_def checks renew_rows_stored_def
      Let_def prep cmd reused_generation_def NewLeafKeyGeneration_def SaveLeafKeyGeneration_def replace_row_def
      NewLeafSeries_def InsertCertificate_def store_leaf_record_def leaf_record_def gen ids
      InsertLeafCertificateRecord_def SaveSeries_def StoreRequestResult_def InsertResult_def appendIssuanceAudit_def
      Audit_Append_def NewUUID_def toView_def check_then_def scope numeral_3_eq_3 [symmetric])
qed

lemma sample_renew_request: "\<exists>key h. renew_request sample_renew_meta sample_renew 7 key h \<and> h \<noteq> []"
proof -
  have "canonical_uuid (sample_uuid CHR ''9'')" by code_simp
  then have "parseIdempotencyKey (sample_uuid CHR ''9'') = Inr (sample_uuid CHR ''9'')"
    by (simp add: parseIdempotencyKey_Inr)
  then have key: "\<exists>key. RequestKey sample_renew_meta issuanceOperationRenew = Inr key"
    by (simp add: RequestKey_def RequireIdempotencyKey_def sample_renew_meta_def sample_issue_meta_def and_then_Inr)
  have hash: "sha256_hex t \<noteq> []" for t using length_sha256_hex [of t] by fastforce
  have admin: "IsAdmin sample_operator" by code_simp
  show ?thesis using key
    by (simp add: renew_request_def) (simp add: sample_renew_meta_def sample_issue_meta_def admin
      RequireExpectedVersion_def InputHash_def issuanceOperationRenew_def hash)
qed

lemma sample_renew_runs: "\<exists>v w. Renew sample_issuance_env sample_renew_meta sample_renew sample_client_world = (Inr v, w)"
proof -
  obtain key h where r: "renew_request sample_renew_meta sample_renew 7 key h" and h: "h \<noteq> []"
    using sample_renew_request by blast
  obtain prep w where prepare: "prepareRenew sample_issuance_env 1 sample_renew_meta sample_renew 7 None
      sample_client_world = (Inr prep, w)" and w: "sg_store w = sample_client_store\<lparr>lg_uuids := 1\<rparr>"
    and prep: "xr_snapshot prep = \<lparr>sn_Series = sample_client_series, sn_CurrentKeyGeneration = sample_client_key\<rparr>"
      "xr_targetAuthorityID prep = sample_uuid CHR ''a''" "xr_targetIssuerKeyID prep = sample_uuid CHR ''d''"
      "xr_renewalPlan prep = sample_reuse" "\<not> xr_keyRotated prep" "xr_settingsVersion prep = 1"
      "xr_sourceCertificate prep = sample_client_cert"
      "ip_Window (xr_plan prep) = sample_leaf_window" "ip_IssuerKeyGenerationID (xr_plan prep) = sample_uuid CHR ''d''"
      "ce_id (xr_certificate prep) = sample_uuid CHR ''5''" "ce_serial (xr_certificate prep) = SerialNumber ''7''"
    using sample_renew_prepares [of 1] by blast
  obtain v s where commit: "commitRenew sample_issuance_env 1 sample_renew_meta sample_renew key h 7 prep 0
    (sample_client_store\<lparr>lg_uuids := 1\<rparr>) = (Inr v, s)" using sample_renew_commits [OF prep h] by blast
  have "retried_write zero_issuance_view sample_issuance_env 1 (commitRenew sample_issuance_env 1 sample_renew_meta sample_renew key h 7 prep) w
      = (Inr v, w\<lparr>sg_store := s\<rparr>)"
    using commit
    by (simp add: retried_write_def RunWithRetry_def one_write_def in_store_def uow_write_def w
        maxPreparationAttempts_def numeral_eq_Suc)
  moreover have "authorizeRenew sample_issuance_env sample_operator (sample_uuid CHR ''3'') sample_client_store
      = (Inr (), sample_client_store)"
    by (simp add: authorizeRenew_def read_series_def PKI_GetSeriesForUpdate_def run_defs authorize_series_def)
  then have "replayBeforePreparation sample_issuance_env key h sample_operator
      (authorizeRenew sample_issuance_env sample_operator (sample_uuid CHR ''3'')) sample_client_world
        = (Inr None, sample_client_world)"
    using h by (simp add: replayBeforePreparation_def others_def in_store_def run_defs sample_client_world_def
        sample_auth_now replay_view_def Replay_result)
  moreover have "RenewCommand_Validate sample_renew = None" by code_simp
  moreover have "rq_Principal sample_renew_meta = sample_operator" "rn_SeriesID sample_renew = sample_uuid CHR ''3''"
    by (simp_all add: sample_renew_meta_def sample_issue_meta_def sample_renew_def)
  ultimately show ?thesis using r [unfolded renew_request_def]
    by (simp add: Renew_def bind_front issuance_canceled_def)
      (simp add: run_defs maxSerialAttempts_def numeral_eq_Suc prepare [unfolded One_nat_def])
qed

theorem renew_sound_witness:
  "\<exists>v w. Renew sample_issuance_env sample_renew_meta sample_renew sample_client_world = (Inr v, w)
     \<and> (\<exists>c src pk sec s. fresh_renewal sample_renew 7 (Instant 20) src c pk sec s v (sg_store w))"
proof -
  obtain v w where run: "Renew sample_issuance_env sample_renew_meta sample_renew sample_client_world = (Inr v, w)"
    using sample_renew_runs by blast
  have alone: "optimistic sample_issuance_env (sg_store sample_client_world)" by (rule optimistic_alone) simp
  from renew_sound [OF run alone, unfolded sample_issuance_simps] obtain ver key h s where r: "renew_request sample_renew_meta sample_renew ver key h"
    and s: "seen sample_issuance_env (sg_store sample_client_world) s"
    and result: "replayed key h s v \<or> (\<exists>c src pk sec. fresh_renewal sample_renew ver (Instant 20) src c pk sec s v (sg_store w))"
    by blast
  have "s\<lparr>lg_uuids := 0\<rparr> = sample_client_store\<lparr>lg_uuids := 0\<rparr>"
    using seen_quiet [OF s] by (simp add: sample_client_world_def)
  from arg_cong [where f = lg_requestResults, OF this] have "lg_requestResults s = Map.empty" by simp
  with result have "\<exists>c src pk sec. fresh_renewal sample_renew ver (Instant 20) src c pk sec s v (sg_store w)" by (auto simp: replayed_def)
  moreover from r have "ver = 7" by (simp add: renew_request_def RequireExpectedVersion_def sample_renew_meta_def)
  ultimately show ?thesis using run by blast
qed

end
