(* ===== verification/Authority_Input.thy ===== *)
theory Authority_Input
  imports Issuance_Service
begin

text \<open>
  \<open>internal/app/contract/authority.go\<close>: the commands on authorities and their validation, the view they answer
  with, and the JSON of \<open>service/authority.go\<close> that is hashed and stored for a repeated request to create.
\<close>

subsection \<open>Views\<close>

record AuthorityView =
  av_ID :: AuthorityID
  av_Kind :: AuthorityKind
  av_Name :: string
  av_ManagementParentID :: "AuthorityID option"
  av_IssuanceState :: IssuanceState
  av_IssuanceCertificateID :: "CertificateID option"
  av_KeyGenerationID :: CAKeyGenerationID
  av_KeyAvailable :: bool
  av_Affected :: bool
  av_NotAfter :: Instant
  av_ArchivedAt :: "Instant option"
  av_Version :: Version
  av_CreatedAt :: Instant

definition stringPtr :: "string \<Rightarrow> string option" where
  "stringPtr s = (if s = [] then None else Some s)"

definition toAuthorityView :: "Authority \<Rightarrow> Instant \<Rightarrow> AuthorityView" where
  "toAuthorityView a createdAt = \<lparr>av_ID = au_id a, av_Kind = au_kind a, av_Name = au_name a,
     av_ManagementParentID = stringPtr (au_managementParentID a), av_IssuanceState = au_issuanceState a,
     av_IssuanceCertificateID = stringPtr (au_issuanceCertificateID a), av_KeyGenerationID = au_keyGenerationID a,
     av_KeyAvailable = au_keyAvailable a, av_Affected = au_affected a,
     av_NotAfter = notAfter (au_certificateWindow a), av_ArchivedAt = instantPtr (au_archivedAt a),
     av_Version = au_version a, av_CreatedAt = createdAt\<rparr>"

subsection \<open>Commands\<close>

record AuthorityCreateCommand =
  acr_Kind :: AuthorityKind
  acr_Name :: string
  acr_ParentAuthorityID :: AuthorityID
  acr_Subject :: SubjectInput
  acr_KeyAlgorithm :: KeyAlgorithm
  acr_Validity :: "ValidityInput option"

definition DomainKind :: "AuthorityCreateCommand \<Rightarrow> go_error + AuthorityKind" where
  "DomainKind c =
     (let kind = acr_Kind c in
      check_then (map_option (wrap_as_with ErrorKindValidation ''invalid_kind'' ''kind is unsupported''
         ''kind'' (AuthorityKind_text kind)) (AuthorityKind_Validate kind))
      (if kind = AuthorityKindBootstrap
         then Inl (app_error_with ErrorKindValidation ''invalid_kind'' ''kind must be root or intermediate''
           ''kind'' (AuthorityKind_text kind))
       else Inr kind))"

definition create_algorithm :: "AuthorityCreateCommand \<Rightarrow> go_error + KeyAlgorithm" where
  "create_algorithm c = optional_algorithm (acr_KeyAlgorithm c)"

definition DomainSubject :: "AuthorityCreateCommand \<Rightarrow> domain_error + Subject" where
  "DomainSubject c = SubjectInput_Domain (acr_Subject c)"

definition maxCreateAuthorityNameLength :: nat where "maxCreateAuthorityNameLength = 255"

definition authority_name_error :: "string \<Rightarrow> go_error option" where
  "authority_name_error name =
     (if name = [] \<or> length name > maxCreateAuthorityNameLength
        then Some (app_error_with ErrorKindValidation ''invalid_name'' ''name must be 1..255 characters'' ''name'' name)
      else None)"

text \<open>An intermediate names its parent, a root names none.\<close>

definition parent_error :: "AuthorityKind \<Rightarrow> AuthorityID \<Rightarrow> go_error option" where
  "parent_error kind parent =
     (if kind = AuthorityKindIntermediate
        then invalid_id ParseAuthorityID parent (wrap_as_with ErrorKindValidation ''invalid_parent_authority_id''
          ''intermediate authority requires a valid parent_authority_id'' ''parent_authority_id'' parent)
      else if kind = AuthorityKindRoot \<and> parent \<noteq> []
        then Some (app_error_with ErrorKindValidation ''unexpected_parent_authority_id''
          ''root authority must not have a parent_authority_id'' ''parent_authority_id'' parent)
      else None)"

definition CreateCommand_Validate :: "AuthorityCreateCommand \<Rightarrow> go_error option" where
  "CreateCommand_Validate c =
     (case DomainKind c of
        Inl err \<Rightarrow> Some err
      | Inr kind \<Rightarrow>
          or_else_err (authority_name_error (acr_Name c))
          (or_else_err (parent_error kind (acr_ParentAuthorityID c))
          (or_else_err (map_option invalid_subject (err_of (DomainSubject c)))
          (or_else_err (err_of (create_algorithm c))
           (validity_error (acr_Validity c))))))"

definition invalid_authority_id :: "AuthorityID \<Rightarrow> go_error option" where
  "invalid_authority_id i = invalid_id ParseAuthorityID i
     (wrap_as ErrorKindValidation ''invalid_authority_id'' ''authority id must be a uuid'')"

record AuthorityRenameCommand =
  arn_AuthorityID :: AuthorityID
  arn_Name :: string

definition RenameCommand_Validate :: "AuthorityRenameCommand \<Rightarrow> go_error option" where
  "RenameCommand_Validate c =
     or_else_err (invalid_authority_id (arn_AuthorityID c)) (authority_name_error (arn_Name c))"

record AuthoritySetIssuanceStateCommand =
  asi_AuthorityID :: AuthorityID
  asi_State :: IssuanceState

definition invalid_state :: "IssuanceState \<Rightarrow> go_error" where
  "invalid_state s = app_error_with ErrorKindValidation ''invalid_state'' ''state must be enabled or stopped''
     ''state'' (IssuanceState_text s)"

definition DomainState :: "AuthoritySetIssuanceStateCommand \<Rightarrow> go_error + IssuanceState" where
  "DomainState c =
     (if asi_State c = IssuanceStateEnabled \<or> asi_State c = IssuanceStateStopped then Inr (asi_State c)
      else Inl (invalid_state (asi_State c)))"

definition SetIssuanceStateCommand_Validate :: "AuthoritySetIssuanceStateCommand \<Rightarrow> go_error option" where
  "SetIssuanceStateCommand_Validate c =
     or_else_err (invalid_authority_id (asi_AuthorityID c)) (err_of (DomainState c))"

text \<open>\<open>contract/revocation.go\<close>; a justification is measured in characters, not bytes.\<close>

definition maxJustificationLength :: nat where "maxJustificationLength = 4096"

definition validateJustification :: "string \<Rightarrow> bool \<Rightarrow> go_error option" where
  "validateJustification justification is_required =
     (if justification = [] then
        (if is_required then Some (app_error ErrorKindValidation ''justification_required''
           ''justification must not be empty'') else None)
      else if length (runes justification) > maxJustificationLength
        then Some (app_error ErrorKindValidation ''justification_too_long'' ''justification must be at most 4096 characters'')
      else None)"

record AuthorityDestroyKeyCommand =
  adk_AuthorityID :: AuthorityID
  adk_KeyGenerationID :: CAKeyGenerationID
  adk_Justification :: string

definition DestroyKeyCommand_Validate :: "AuthorityDestroyKeyCommand \<Rightarrow> go_error option" where
  "DestroyKeyCommand_Validate c =
     or_else_err (invalid_authority_id (adk_AuthorityID c))
     (or_else_err (invalid_id ParseCAKeyGenerationID (adk_KeyGenerationID c) (wrap_as_with ErrorKindValidation
        ''invalid_key_generation_id'' ''key_generation_id must be a uuid'' ''key_generation_id'' (adk_KeyGenerationID c)))
      (validateJustification (adk_Justification c) True))"

text \<open>\<open>AuthorityArchiveCommand\<close> has the one field \<open>AuthorityID\<close>.\<close>

definition ArchiveCommand_Validate :: "AuthorityID \<Rightarrow> go_error option" where
  "ArchiveCommand_Validate authorityID = invalid_authority_id authorityID"

subsection \<open>The normalized input and the stored result of a creation\<close>

definition authorityOperationCreate :: string where "authorityOperationCreate = ''authority.create''"

definition authorityCreateHashInput :: "AuthorityCreateCommand \<Rightarrow> Subject \<Rightarrow> KeyAlgorithm \<Rightarrow> json" where
  "authorityCreateHashInput cmd subject alg = JObject (
     member ''kind'' (AuthorityKind_text (acr_Kind cmd)) @ member ''name'' (acr_Name cmd)
     @ member_omitempty ''parent_authority_id'' (NormalizeUUID (acr_ParentAuthorityID cmd))
     @ [(''subject'', subjectForHash subject)] @ member ''key_algorithm'' (KeyAlgorithm_text alg)
     @ validity_member (acr_Validity cmd))"

definition authorityStoredResultSchemaVersion :: int64 where "authorityStoredResultSchemaVersion = 1"

record storedAuthorityCreateResult =
  sa_SchemaVersion :: int64
  sa_AuthorityID :: string

definition stored_authority_json :: "storedAuthorityCreateResult \<Rightarrow> json" where
  "stored_authority_json v = JObject [(''schema_version'', JNumber (int_text (sa_SchemaVersion v))),
     (''authority_id'', JString (sa_AuthorityID v))]"

definition stored_authority_field :: "string \<Rightarrow> json \<Rightarrow> storedAuthorityCreateResult \<Rightarrow> storedAuthorityCreateResult option" where
  "stored_authority_field k v x =
     (if k = ''SCHEMA_VERSION'' then map_option (\<lambda>n. x\<lparr>sa_SchemaVersion := n\<rparr>) (decode_int v (sa_SchemaVersion x))
      else if k = ''AUTHORITY_ID'' then map_option (\<lambda>s. x\<lparr>sa_AuthorityID := s\<rparr>) (decode_string v (sa_AuthorityID x))
      else Some x)"

definition decodeStoredAuthorityResult :: "OperationRequestResult \<Rightarrow> go_error + storedAuthorityCreateResult" where
  "decodeStoredAuthorityResult stored =
     and_then (DecodeStoredResult (decode_struct stored_authority_field) stored
        \<lparr>sa_SchemaVersion = 0, sa_AuthorityID = []\<rparr>) (\<lambda>v.
       if sa_SchemaVersion v \<noteq> authorityStoredResultSchemaVersion
         then Inl (app_error_with ErrorKindUnavailable ''authority_stored_result_schema_unsupported''
           ''a stored authority creation result carries an unsupported schema_version''
           ''schema_version'' (int_text (sa_SchemaVersion v)))
       else Inr v)"

end
