(* ===== verification/Authority_Service.thy ===== *)
theory Authority_Service
  imports Authority_Input
begin

text \<open>
  \<open>internal/app/service/authority.go\<close>: renaming an authority, enabling and stopping issuance, destroying its
  key and archiving it. Each is one transaction: the session, the row under lock, the authorization for the
  authority the row names, the expected version, the domain rule, the save and the audit row. Destroying and
  archiving first gather the closure facts from the certificates and the CRL state. The clock is read
  for the session (reading 1) and once more (reading 2).
\<close>

record AuthorityDeps = CommonDeps +
  dy_KeyEngine :: bool
  dy_CertificateSigner :: bool
  dy_SerialGenerator :: bool
  dy_ProfileValidator :: bool

definition AuthorityDeps_Validate :: "AuthorityDeps \<Rightarrow> go_error option" where
  "AuthorityDeps_Validate d =
     or_else_err (CommonDeps_Validate (CommonDeps.truncate d))
      (firstMissing [\<lparr>rd_Name = ''KeyEngine'', rd_Missing = \<not> dy_KeyEngine d\<rparr>,
         \<lparr>rd_Name = ''CertificateSigner'', rd_Missing = \<not> dy_CertificateSigner d\<rparr>,
         \<lparr>rd_Name = ''SerialGenerator'', rd_Missing = \<not> dy_SerialGenerator d\<rparr>,
         \<lparr>rd_Name = ''ProfileValidator'', rd_Missing = \<not> dy_ProfileValidator d\<rparr>])"

definition authority_requires_admin :: "string \<Rightarrow> go_error" where
  "authority_requires_admin detail = app_error ErrorKindForbidden ''authority_requires_admin'' detail"

definition authority_version_conflict :: go_error where
  "authority_version_conflict = app_error ErrorKindConflict ''authority_version_conflict''
     ''authority has changed since this request was prepared''"

definition read_authority :: "AuthorityID \<Rightarrow> (ledger, Authority) tx" where
  "read_authority authorityID = tx_read (GetIssuerForUpdate authorityID) (authority_not_found authorityID)
     ''authority_read_failed'' ''could not read the authority''"

text \<open>What the four methods do before they decide: the row at the expected version, and its scope.\<close>

definition open_authority ::
  "issuance_env \<Rightarrow> Principal \<Rightarrow> Action \<Rightarrow> AuthorityID \<Rightarrow> Version \<Rightarrow> (ledger, Authority \<times> AuthorityID) tx" where
  "open_authority env p action authorityID expectedVersion =
     tx_bind (requireCurrentAuth p (iu_clock env 0 1)) (\<lambda>_.
     tx_bind (read_authority authorityID) (\<lambda>authority.
     tx_bind (tx_lift (authorityScopeFromRow authority)) (\<lambda>scope.
     tx_bind (tx_guard (iu_authorize env p action (NewAuthorizationScope [scope]))) (\<lambda>_.
     if au_version authority \<noteq> expectedVersion then tx_fail authority_version_conflict
     else tx_return (authority, scope)))))"

definition authority_event ::
  "string \<Rightarrow> Instant \<Rightarrow> MutationMeta \<Rightarrow> string \<Rightarrow> AuthorityID \<Rightarrow> (string \<rightharpoonup> string) \<Rightarrow> AuditEvent" where
  "authority_event i now meta action authorityID details =
     \<lparr>ae_ID = i, ae_OccurredAt = now, ae_ActorKind = ''account'',
      ae_ActorID = Principal_AccountID (rq_Principal meta), ae_TokenID = [], ae_Action = action,
      ae_TargetType = ''authority'', ae_TargetID = authorityID, ae_ClientIP = clientIP (RequestMeta.truncate meta),
      ae_Result = ''success'', ae_Details = \<lparr>ad_SchemaVersion = 1, ad_Fields = details\<rparr>\<rparr>"

definition append_authority_audit ::
  "issuance_env \<Rightarrow> Instant \<Rightarrow> MutationMeta \<Rightarrow> string \<Rightarrow> AuthorityID \<Rightarrow> (string \<rightharpoonup> string) \<Rightarrow> AuthorityID \<Rightarrow> string
     \<Rightarrow> (ledger, unit) tx" where
  "append_authority_audit env now meta action target details scope detail =
     tx_bind (NewUUID (iu_ids env)) (\<lambda>i.
     tx_store (Audit_Append (authority_event i now meta action target details) (NewAuthoritiesAuditScope [scope]))
       ''authority_audit_failed'' detail)"

definition save_authority :: "Authority \<Rightarrow> Version \<Rightarrow> string \<Rightarrow> (ledger, unit) tx" where
  "save_authority a expectedVersion detail =
     tx_store (SaveAuthority a expectedVersion) ''authority_save_failed'' detail"

text \<open>One \<open>UnitOfWork.Write\<close>; others may have changed the store before it begins.\<close>

definition authority_write :: "issuance_env \<Rightarrow> (ledger, 'a) tx \<Rightarrow> (ledger, 'a) tx" where
  "authority_write env body l = uow_write (iu_fate env 0 0) body (iu_meanwhile env 0 1 l)"

text \<open>What every mutation checks before its transaction.\<close>

definition admin_version :: "MutationMeta \<Rightarrow> string \<Rightarrow> (ledger, Version) tx" where
  "admin_version meta detail =
     (if \<not> IsAdmin (rq_Principal meta) then tx_fail (authority_requires_admin detail)
      else tx_lift (RequireExpectedVersion meta))"

subsection \<open>Rename\<close>

definition rename_commit ::
  "issuance_env \<Rightarrow> MutationMeta \<Rightarrow> AuthorityRenameCommand \<Rightarrow> Version \<Rightarrow> (ledger, AuthorityView) tx" where
  "rename_commit env meta cmd expectedVersion =
     tx_bind (open_authority env (rq_Principal meta) ActionAuthorityRename (arn_AuthorityID cmd) expectedVersion)
     (\<lambda>(authority, scope).
     tx_bind (tx_domain (Rename authority (AuthorityPolicy (arn_Name cmd)))) (\<lambda>renamed.
     tx_bind (save_authority renamed expectedVersion ''could not save the authority'') (\<lambda>_.
     tx_bind (append_authority_audit env (iu_clock env 0 2) meta ''authority.rename'' (arn_AuthorityID cmd) Map.empty
        scope ''could not record the rename audit event'') (\<lambda>_.
     tx_return (toAuthorityView renamed zero_instant)))))"

definition Authority_Rename ::
  "issuance_env \<Rightarrow> MutationMeta \<Rightarrow> AuthorityRenameCommand \<Rightarrow> (ledger, AuthorityView) tx" where
  "Authority_Rename env meta cmd =
     tx_bind (tx_guard (RenameCommand_Validate cmd)) (\<lambda>_.
     tx_bind (admin_version meta ''renaming an authority requires an administrator session'') (\<lambda>expectedVersion.
     authority_write env (rename_commit env meta cmd expectedVersion)))"

subsection \<open>SetIssuanceState\<close>

definition next_issuance_state :: "IssuanceState \<Rightarrow> Authority \<Rightarrow> (ledger, Authority) tx" where
  "next_issuance_state target authority =
     (if target = IssuanceStateEnabled then tx_domain (Enable authority)
      else if target = IssuanceStateStopped then tx_domain (StopIssuance authority)
      else tx_fail (app_error ErrorKindValidation ''invalid_state'' ''state must be enabled or stopped''))"

definition set_state_commit ::
  "issuance_env \<Rightarrow> MutationMeta \<Rightarrow> AuthorityID \<Rightarrow> IssuanceState \<Rightarrow> Version \<Rightarrow> (ledger, AuthorityView) tx" where
  "set_state_commit env meta authorityID target expectedVersion =
     tx_bind (open_authority env (rq_Principal meta) ActionAuthoritySetIssuanceState authorityID expectedVersion)
     (\<lambda>(authority, scope).
     tx_bind (next_issuance_state target authority) (\<lambda>changed.
     tx_bind (save_authority changed expectedVersion ''could not save the authority'') (\<lambda>_.
     tx_bind (append_authority_audit env (iu_clock env 0 2) meta ''authority.set_issuance_state'' authorityID
        [''state'' \<mapsto> IssuanceState_text target] scope ''could not record the issuance-state audit event'') (\<lambda>_.
     tx_return (toAuthorityView changed zero_instant)))))"

definition SetIssuanceState ::
  "issuance_env \<Rightarrow> MutationMeta \<Rightarrow> AuthoritySetIssuanceStateCommand \<Rightarrow> (ledger, AuthorityView) tx" where
  "SetIssuanceState env meta cmd =
     tx_bind (tx_guard (SetIssuanceStateCommand_Validate cmd)) (\<lambda>_.
     if \<not> IsAdmin (rq_Principal meta)
       then tx_fail (authority_requires_admin ''changing issuance state requires an administrator session'')
     else
       tx_bind (tx_lift (DomainState cmd)) (\<lambda>target.
       tx_bind (tx_lift (RequireExpectedVersion meta)) (\<lambda>expectedVersion.
       authority_write env (set_state_commit env meta (asi_AuthorityID cmd) target expectedVersion))))"

subsection \<open>Closure facts\<close>

text \<open>The loop over the certificates the key signed: how many depend on the authority, up to the first that has
  not expired, and whether there was none.\<close>

fun closure_scan :: "CertificateID \<Rightarrow> Instant \<Rightarrow> Certificate list \<Rightarrow> nat \<Rightarrow> nat \<times> bool" where
  "closure_scan own now [] n = (n, True)"
| "closure_scan own now (c # cs) n =
     (if ce_id c = own then closure_scan own now cs n
      else if \<not> Certificate_IsExpiredAt c now then (Suc n, False)
      else closure_scan own now cs (Suc n))"

definition isHistoryOnlyCA :: "Authority \<Rightarrow> (ledger, bool) tx" where
  "isHistoryOnlyCA authority =
     (if au_keyAvailable authority then tx_return False
      else
        tx_bind (GetCAKeyGeneration (au_keyGenerationID authority)) (\<lambda>generation.
        if \<not> Instant_IsZero (cg_KeyDestroyedAt generation) then tx_return False
        else
          tx_bind (GetKeyMaterial (cg_KeyMaterialID generation)) (\<lambda>material.
          tx_return (km_Origin material = ''imported''))))"

definition crl_complete :: "CAKeyGenerationID \<Rightarrow> (ledger, bool) tx" where
  "crl_complete issuer =
     tx_bind (tx_try (GetStateForUpdate issuer)) (\<lambda>r. case r of
       Inl err \<Rightarrow>
         if Is_port err ErrNotFound then tx_return False
         else tx_fail (storeError err ''authority_closure_crl_state_read_failed''
           ''could not read the authority's CRL state'')
     | Inr state \<Rightarrow>
         tx_return (cs_publishedDocumentID state \<noteq> [] \<and> cs_publishedGeneration state \<ge> cs_revocationGeneration state))"

definition authorityClosureFacts :: "Authority \<Rightarrow> Instant \<Rightarrow> (ledger, ClosureFacts) tx" where
  "authorityClosureFacts authority now =
     tx_bind (tx_store (ListCertificatesByIssuer (au_keyGenerationID authority))
        ''authority_closure_certificates_read_failed'' ''could not read certificates signed by the authority'')
     (\<lambda>certificates.
     let (dependentCount, expired) = closure_scan (au_issuanceCertificateID authority) now certificates 0;
         facts = (\<lambda>published. \<lparr>cf_AllDependentCertificatesExpired = expired, cf_RequiredCRLsPublished = published\<rparr>) in
     tx_bind (tx_store (isHistoryOnlyCA authority) ''authority_closure_key_material_read_failed''
        ''could not determine the authority's key custody'') (\<lambda>historyOnly.
     if historyOnly then tx_return (facts True)
     else if dependentCount = 0 then tx_return (facts True)
     else tx_bind (crl_complete (au_keyGenerationID authority)) (\<lambda>published. tx_return (facts published))))"

subsection \<open>DestroyKey\<close>

definition generation_mismatch :: "string \<Rightarrow> go_error" where
  "generation_mismatch detail = app_error ErrorKindConflict ''authority_key_generation_mismatch'' detail"

definition signing_purpose :: "Authority \<Rightarrow> SecretPurpose" where
  "signing_purpose authority =
     (if au_kind authority = AuthorityKindBootstrap then SecretPurposeBootstrapCA else SecretPurposeCASigning)"

definition read_generation :: "Authority \<Rightarrow> CAKeyGenerationID \<Rightarrow> (ledger, CAKeyGeneration) tx" where
  "read_generation authority keyGenerationID =
     (if au_keyGenerationID authority \<noteq> keyGenerationID
        then tx_fail (generation_mismatch ''the requested key generation is not the authority's current generation'')
      else
        tx_bind (tx_read (GetCAKeyGeneration keyGenerationID)
           (app_error ErrorKindValidation ''authority_key_generation_not_found''
             ''the requested CA key generation does not exist'')
           ''authority_key_generation_read_failed'' ''could not read the CA key generation'') (\<lambda>generation.
        if cg_AuthorityID generation \<noteq> au_id authority
          then tx_fail (generation_mismatch ''the requested key generation belongs to another authority'')
        else if \<not> Instant_IsZero (cg_KeyDestroyedAt generation)
          then tx_fail (app_error ErrorKindConflict ''authority_key_generation_destroyed''
            ''the requested CA key generation has already been destroyed'')
        else tx_return generation))"

definition destroy_commit ::
  "issuance_env \<Rightarrow> MutationMeta \<Rightarrow> AuthorityDestroyKeyCommand \<Rightarrow> Version \<Rightarrow> (ledger, AuthorityView) tx" where
  "destroy_commit env meta cmd expectedVersion =
     (let now = iu_clock env 0 2 in
      tx_bind (open_authority env (rq_Principal meta) ActionAuthorityDestroyKey (adk_AuthorityID cmd) expectedVersion)
      (\<lambda>(authority, scope).
      tx_bind (read_generation authority (adk_KeyGenerationID cmd)) (\<lambda>generation.
      tx_bind (authorityClosureFacts authority now) (\<lambda>closure.
      tx_bind (tx_domain (DestroyKey authority closure now)) (\<lambda>destroyed.
      tx_bind (tx_store (SaveCAKeyGeneration (generation\<lparr>cg_KeyDestroyedAt := now\<rparr>))
         ''authority_key_generation_save_failed'' ''could not record CA key destruction'') (\<lambda>_.
      tx_bind (tx_store (Secrets_Delete (cg_KeyMaterialID generation) (signing_purpose authority))
         ''authority_secret_delete_failed'' ''could not delete the CA signing secret'') (\<lambda>_.
      tx_bind (save_authority destroyed expectedVersion ''could not record authority key availability'') (\<lambda>_.
      tx_bind (append_authority_audit env now meta ''authority.destroy_key'' (au_id authority)
         [''key_generation_id'' \<mapsto> adk_KeyGenerationID cmd, ''justification'' \<mapsto> adk_Justification cmd] scope
         ''could not record the key destruction audit event'') (\<lambda>_.
      tx_return (toAuthorityView destroyed zero_instant))))))))))"

definition Authority_DestroyKey ::
  "issuance_env \<Rightarrow> MutationMeta \<Rightarrow> AuthorityDestroyKeyCommand \<Rightarrow> (ledger, AuthorityView) tx" where
  "Authority_DestroyKey env meta cmd =
     tx_bind (tx_guard (DestroyKeyCommand_Validate cmd)) (\<lambda>_.
     tx_bind (admin_version meta ''destroying an authority key requires an administrator session'') (\<lambda>expectedVersion.
     authority_write env (destroy_commit env meta cmd expectedVersion)))"

subsection \<open>Archive\<close>

definition archive_commit ::
  "issuance_env \<Rightarrow> MutationMeta \<Rightarrow> AuthorityID \<Rightarrow> Version \<Rightarrow> (ledger, AuthorityView) tx" where
  "archive_commit env meta authorityID expectedVersion =
     (let now = iu_clock env 0 2 in
      tx_bind (open_authority env (rq_Principal meta) ActionAuthorityArchive authorityID expectedVersion)
      (\<lambda>(authority, scope).
      tx_bind (authorityClosureFacts authority now) (\<lambda>closure.
      tx_bind (tx_domain (Archive authority closure now)) (\<lambda>archived.
      tx_bind (save_authority archived expectedVersion ''could not archive the authority'') (\<lambda>_.
      tx_bind (append_authority_audit env now meta ''authority.archive'' (au_id authority) Map.empty scope
         ''could not record the authority archive audit event'') (\<lambda>_.
      tx_return (toAuthorityView archived zero_instant)))))))"

definition Authority_Archive ::
  "issuance_env \<Rightarrow> MutationMeta \<Rightarrow> AuthorityID \<Rightarrow> (ledger, AuthorityView) tx" where
  "Authority_Archive env meta authorityID =
     tx_bind (tx_guard (ArchiveCommand_Validate authorityID)) (\<lambda>_.
     tx_bind (admin_version meta ''archiving an authority requires an administrator session'') (\<lambda>expectedVersion.
     authority_write env (archive_commit env meta authorityID expectedVersion)))"

end
