(* ===== verification/Authority_Create.thy ===== *)
theory Authority_Create
  imports Authority_Service
begin

text \<open>
  \<open>Create\<close> of \<open>internal/app/service/authority.go\<close>: a new root or intermediate authority. The key is generated and
  the certificate signed outside the transaction (by the parent, or by the new key itself for a root); one
  transaction re-checks the parent, the settings and the serial and stores key material, authority, secret,
  key generation, certificate, CRL state, result and audit row. A stale preparation is redone with
  the same authority, key generation and key.
\<close>

record authorityCreatePrepared =
  xa_now :: Instant
  xa_kind :: AuthorityKind
  xa_validity :: CalendarValidity
  xa_settingsVersion :: "Version option"
  xa_parentAuthorityID :: AuthorityID
  xa_issuerCertificate :: "Certificate option"
  xa_plan :: IssuancePlan
  xa_authorityID :: AuthorityID
  xa_keyGenerationID :: CAKeyGenerationID
  xa_keyMaterialID :: KeyMaterialID
  xa_publicKey :: PublicKey
  xa_generatedSecret :: "EncryptedSecret option"
  xa_certificate :: Certificate

subsection \<open>Replay\<close>

text \<open>A replayed creation answers with the row as it is now.\<close>

definition stored_authority_view :: "storedAuthorityCreateResult \<Rightarrow> (ledger, AuthorityView) tx" where
  "stored_authority_view v =
     tx_bind (tx_store (GetIssuerForUpdate (sa_AuthorityID v)) ''authority_replay_read_failed''
        ''could not read the current authority for replay'') (\<lambda>authority.
     tx_return (toAuthorityView authority zero_instant))"

definition replay_create :: "OperationRequestKey \<Rightarrow> string \<Rightarrow> (ledger, AuthorityView option) tx" where
  "replay_create key inputHash =
     tx_bind (ReplayStoredResult key inputHash) (\<lambda>stored. case stored of
        None \<Rightarrow> tx_return None
      | Some r \<Rightarrow>
          tx_bind (tx_lift (decodeStoredAuthorityResult r)) (\<lambda>v.
          tx_bind (stored_authority_view v) (\<lambda>view. tx_return (Some view))))"

definition authorizeCreate :: "issuance_env \<Rightarrow> Principal \<Rightarrow> AuthorityID list \<Rightarrow> (ledger, unit) tx" where
  "authorizeCreate env p scope = tx_guard (iu_authorize env p ActionAuthorityCreate (NewAuthorizationScope scope))"

definition replayCreateBeforePreparation ::
  "issuance_env \<Rightarrow> OperationRequestKey \<Rightarrow> string \<Rightarrow> Principal \<Rightarrow> AuthorityID list
     \<Rightarrow> (signing_world, AuthorityView option) tx" where
  "replayCreateBeforePreparation env reqKey inputHash p scope =
     tx_bind (others env 0) (\<lambda>_. in_store (
       tx_bind (requireCurrentAuth p (iu_clock env 0 0)) (\<lambda>_.
       tx_bind (authorizeCreate env p scope) (\<lambda>_.
       replay_create reqKey inputHash))))"

subsection \<open>Preparation\<close>

definition resolveAuthorityCreateValidity ::
  "AuthorityKind \<Rightarrow> ValidityInput option \<Rightarrow> (ledger, CalendarValidity \<times> Version option) tx" where
  "resolveAuthorityCreateValidity kind requested =
     (case requested of
        Some r \<Rightarrow> (case ValidityInput_Domain r of
            Inl err \<Rightarrow> tx_fail (invalid_validity err)
          | Inr v \<Rightarrow> tx_return (v, None))
      | None \<Rightarrow>
          tx_bind (tx_read GetSettings (app_error ErrorKindConflict ''authority_settings_not_configured''
             ''installation settings have not been initialized; complete Setup before creating an authority'')
             ''authority_settings_read_failed'' ''could not read installation settings'') (\<lambda>settings.
          tx_bind (tx_lift (DecodeSettingsV1 settings)) (\<lambda>snap.
          if kind = AuthorityKindRoot then tx_return (sv_RootValidity snap, Some (se_Version settings))
          else if kind = AuthorityKindIntermediate
            then tx_return (sv_IntermediateValidity snap, Some (se_Version settings))
          else tx_fail (app_error ErrorKindValidation ''invalid_kind'' ''kind is unsupported''))))"

definition parent_not_found :: "AuthorityID \<Rightarrow> go_error" where
  "parent_not_found parentID = app_error_with ErrorKindValidation ''authority_parent_not_found''
     ''parent authority does not exist'' ''parent_authority_id'' parentID"

definition read_parent :: "AuthorityID \<Rightarrow> (ledger, Authority) tx" where
  "read_parent parentID = tx_read (GetIssuerForUpdate parentID) (parent_not_found parentID)
     ''authority_parent_read_failed'' ''could not read the parent authority''"

text \<open>The read transaction: the validity, and for an intermediate its parent with the parent's key and
  certificate.\<close>

definition create_reads ::
  "AuthorityKind \<Rightarrow> AuthorityCreateCommand
     \<Rightarrow> (ledger, CalendarValidity \<times> Version option \<times> (Authority \<times> EncryptedSecret \<times> Certificate) option) tx" where
  "create_reads kind cmd =
     tx_bind (resolveAuthorityCreateValidity kind (acr_Validity cmd)) (\<lambda>(validity, settingsVersion).
     if kind = AuthorityKindIntermediate then
       tx_bind (read_parent (acr_ParentAuthorityID cmd)) (\<lambda>p.
       tx_bind (caSigningSecret p) (\<lambda>(secret, cert).
       tx_return (validity, settingsVersion, Some (p, secret, cert))))
     else tx_return (validity, settingsVersion, None))"

text \<open>The identifiers of the new authority: those of the earlier preparation, or fresh ones.\<close>

definition create_ids ::
  "issuance_env \<Rightarrow> authorityCreatePrepared option \<Rightarrow> (signing_world, AuthorityID \<times> CAKeyGenerationID \<times> KeyMaterialID) tx" where
  "create_ids env reuse =
     (case reuse of
        Some old \<Rightarrow> tx_return (xa_authorityID old, xa_keyGenerationID old, xa_keyMaterialID old)
      | None \<Rightarrow>
          tx_bind (in_store (NewUUID (iu_ids env))) (\<lambda>rawAuthority.
          tx_bind (tx_domain (ParseAuthorityID rawAuthority)) (\<lambda>authorityID.
          tx_bind (in_store (NewUUID (iu_ids env))) (\<lambda>rawGeneration.
          tx_bind (tx_domain (ParseCAKeyGenerationID rawGeneration)) (\<lambda>keyGenID.
          tx_bind (in_store (NewUUID (iu_ids env))) (\<lambda>rawMaterial.
          tx_bind (tx_domain (ParseKeyMaterialID rawMaterial)) (\<lambda>keyMaterialID.
          tx_return (authorityID, keyGenID, keyMaterialID))))))))"

text \<open>An intermediate is planned by its parent's issuing rule, a root names itself as its issuer.\<close>

definition create_plan ::
  "Authority option \<Rightarrow> Subject \<Rightarrow> KeyAlgorithm \<Rightarrow> ValidityWindow \<Rightarrow> AuthorityID \<Rightarrow> CAKeyGenerationID \<Rightarrow> Instant
     \<Rightarrow> (signing_world, IssuancePlan) tx" where
  "create_plan parent subject alg window authorityID keyGenID now =
     (case parent of
        Some p \<Rightarrow> tx_domain (PlanSubordinateCAIssuance p
          \<lparr>ir_Profile = CertificateProfileOther [], ir_Subject = subject, ir_SANs = [], ir_KeyAlgorithm = alg,
           ir_Window = window\<rparr> now)
      | None \<Rightarrow>
          if su_commonName subject = []
            then tx_fail (app_error ErrorKindValidation ''invalid_subject'' ''subject common name must be set'')
          else
            tx_bind (tx_domain_check (KeyAlgorithm_Validate alg)) (\<lambda>_.
            tx_return \<lparr>ip_Profile = CertificateProfileOther [], ip_Subject = subject, ip_SANs = [],
              ip_KeyAlgorithm = alg, ip_Window = window, ip_IssuerAuthorityID = authorityID,
              ip_IssuerKeyGenerationID = keyGenID\<rparr>))"

text \<open>A root's certificate is signed with the key generated in the same step; a fresh key reference always
  yields a secret.\<close>

definition self_signed ::
  "issuance_env \<Rightarrow> IssuancePlan \<Rightarrow> KeyMaterialID \<Rightarrow> KeyAlgorithm \<Rightarrow> CertificateID \<Rightarrow> AccountID
     \<Rightarrow> (signing_world, PublicKey \<times> EncryptedSecret option \<times> Certificate) tx" where
  "self_signed env plan keyMaterialID alg certificateID createdBy =
     tx_bind (resolveSigningKey env \<lparr>kr_Fresh = Some \<lparr>ks_KeyMaterialID = keyMaterialID, ks_Algorithm = alg,
        ks_Purpose = SecretPurposeCASigning\<rparr>, kr_Existing = []\<rparr>) (\<lambda>(_, publicKey, generatedSecret).
     tx_bind (newSerial env) (\<lambda>serial.
     tx_bind (signCertificate env
       \<lparr>cq_Plan = plan, cq_CertificateID = certificateID, cq_KeyMaterialID = keyMaterialID,
        cq_SubjectPublicKey = publicKey, cq_Serial = serial, cq_Kind = CertificateKindCA,
        cq_CreatedByAccountID = createdBy, cq_IssuerCertificate = None, cq_CRLDistributionPoints = []\<rparr>
       (the generatedSecret)) (\<lambda>cert.
     tx_return (publicKey, generatedSecret, cert))))"

definition create_key ::
  "issuance_env \<Rightarrow> (Authority \<times> EncryptedSecret \<times> Certificate) option \<Rightarrow> authorityCreatePrepared option
     \<Rightarrow> IssuancePlan \<Rightarrow> KeyMaterialID \<Rightarrow> KeyAlgorithm \<Rightarrow> CertificateID \<Rightarrow> AccountID
     \<Rightarrow> (signing_world, PublicKey \<times> EncryptedSecret option \<times> Certificate) tx" where
  "create_key env parent reuse plan keyMaterialID alg certificateID createdBy =
     (case reuse of
        Some old \<Rightarrow>
          tx_bind (resignWithNewSerial env plan certificateID keyMaterialID (xa_publicKey old) CertificateKindCA
             createdBy (map_option (snd \<circ> snd) parent)
             (case parent of None \<Rightarrow> the (xa_generatedSecret old) | Some (_, secret, _) \<Rightarrow> secret) []) (\<lambda>cert.
          tx_return (xa_publicKey old, xa_generatedSecret old, cert))
      | None \<Rightarrow>
          (case parent of
             Some (_, secret, issuerCert) \<Rightarrow>
               tx_bind (prepareCertificate env plan \<lparr>kr_Fresh = Some \<lparr>ks_KeyMaterialID = keyMaterialID,
                   ks_Algorithm = alg, ks_Purpose = SecretPurposeCASigning\<rparr>, kr_Existing = []\<rparr>
                  zero_public_key certificateID (Some issuerCert) secret CertificateKindCA createdBy []) (\<lambda>pd.
               tx_return (pd_GeneratedPublic pd, pd_GeneratedSecret pd, pd_Certificate pd))
           | None \<Rightarrow> self_signed env plan keyMaterialID alg certificateID createdBy))"

definition prepareCreate ::
  "issuance_env \<Rightarrow> nat \<Rightarrow> MutationMeta \<Rightarrow> AuthorityCreateCommand \<Rightarrow> AuthorityKind \<Rightarrow> Subject \<Rightarrow> KeyAlgorithm
     \<Rightarrow> authorityCreatePrepared option \<Rightarrow> (signing_world, authorityCreatePrepared) tx" where
  "prepareCreate env k meta cmd kind subject alg reuse =
     (let now = iu_clock env k 0 in
      tx_bind (others env k) (\<lambda>_.
      tx_bind (in_store (create_reads kind cmd)) (\<lambda>(validity, settingsVersion, parent).
      tx_bind (tx_domain (Window validity (x509NotBefore now))) (\<lambda>window.
      tx_bind (create_ids env reuse) (\<lambda>(authorityID, keyGenID, keyMaterialID).
      tx_bind (create_plan (map_option fst parent) subject alg window authorityID keyGenID now) (\<lambda>plan.
      tx_bind (in_store (NewUUID (iu_ids env))) (\<lambda>raw.
      tx_bind (tx_domain (ParseCertificateID raw)) (\<lambda>certificateID.
      tx_bind (create_key env parent reuse plan keyMaterialID alg certificateID
         (Principal_AccountID (rq_Principal meta))) (\<lambda>(publicKey, generatedSecret, cert).
      tx_return \<lparr>xa_now = now, xa_kind = kind, xa_validity = validity, xa_settingsVersion = settingsVersion,
        xa_parentAuthorityID = (case parent of None \<Rightarrow> [] | Some (p, _) \<Rightarrow> au_id p),
        xa_issuerCertificate = map_option (snd \<circ> snd) parent, xa_plan = plan, xa_authorityID = authorityID,
        xa_keyGenerationID = keyGenID, xa_keyMaterialID = keyMaterialID, xa_publicKey = publicKey,
        xa_generatedSecret = generatedSecret, xa_certificate = cert\<rparr>)))))))))"

subsection \<open>The commit\<close>

definition subordinate_context :: "ValidityWindow \<Rightarrow> IssuerContext" where
  "subordinate_context window = \<lparr>ic_RequestedWindow = window, ic_TakeoverConfirmed = False,
     ic_Intent = IssuanceIntentSubordinateCA\<rparr>"

text \<open>The parent may still sign the prepared certificate.\<close>

definition create_parent_check :: "authorityCreatePrepared \<Rightarrow> Instant \<Rightarrow> (ledger, unit) tx" where
  "create_parent_check prep commitNow =
     (if xa_kind prep = AuthorityKindIntermediate then
        tx_bind (read_parent (xa_parentAuthorityID prep)) (\<lambda>parent.
        if au_keyGenerationID parent \<noteq> ip_IssuerKeyGenerationID (xa_plan prep) then tx_fail errRePrepare
        else
          tx_bind (tx_domain_check (CanIssue parent (subordinate_context (ip_Window (xa_plan prep))) commitNow)) (\<lambda>_.
          tx_bind (verifyCASigningKeyLive parent) (\<lambda>_. tx_return ())))
      else tx_return ())"

definition create_checks :: "authorityCreatePrepared \<Rightarrow> Instant \<Rightarrow> (ledger, EncryptedSecret) tx" where
  "create_checks prep commitNow =
     tx_bind (create_parent_check prep commitNow) (\<lambda>_.
     tx_bind (case xa_settingsVersion prep of None \<Rightarrow> tx_return () | Some v \<Rightarrow> settingsUnchanged v) (\<lambda>_.
     tx_bind (ensureSerialUnused (ip_IssuerKeyGenerationID (xa_plan prep)) (ce_serial (xa_certificate prep))) (\<lambda>_.
     case xa_generatedSecret prep of
       None \<Rightarrow> tx_fail (app_error ErrorKindUnavailable ''authority_missing_generated_secret''
         ''authority creation did not produce a key to store'')
     | Some secret \<Rightarrow> tx_return secret)))"

definition create_facts :: "authorityCreatePrepared \<Rightarrow> string \<Rightarrow> AuthorityFacts" where
  "create_facts prep name =
     \<lparr>auf_ID = xa_authorityID prep, auf_Kind = xa_kind prep, auf_Name = name,
      auf_ManagementParentID = xa_parentAuthorityID prep, auf_IssuanceState = IssuanceStateInventory,
      auf_IssuanceCertificateID = [], auf_KeyGenerationID = xa_keyGenerationID prep, auf_KeyAvailable = True,
      auf_Affected = False, auf_PendingTakeover = False, auf_CertificateWindow = zero_window,
      auf_ArchivedAt = zero_instant, auf_Version = 0\<rparr>"

definition create_crl_facts :: "CAKeyGenerationID \<Rightarrow> CRLStateFacts" where
  "create_crl_facts keyGenID =
     \<lparr>csf_CAKeyGenerationID = keyGenID, csf_MaxReservedNumber = CRLNumber [], csf_RevocationGeneration = 0,
      csf_PublishedDocumentID = [], csf_PublishedNumber = CRLNumber [], csf_PublishedGeneration = 0,
      csf_NextPublishAt = zero_instant, csf_PublicationState = PublicationStateInactive,
      csf_SigningCACertificateID = [], csf_Version = 0\<rparr>"

definition create_rows ::
  "AuthorityCreateCommand \<Rightarrow> authorityCreatePrepared \<Rightarrow> EncryptedSecret \<Rightarrow> (ledger, Authority) tx" where
  "create_rows cmd prep secret =
     (let cert = xa_certificate prep; facts = create_facts prep (acr_Name cmd) in
      tx_bind (tx_store (InsertKeyMaterial \<lparr>km_ID = xa_keyMaterialID prep, km_PublicKey = xa_publicKey prep,
         km_Origin = ''generated'', km_CompromisedAt = zero_instant\<rparr>)
        ''authority_key_material_store_failed'' ''could not store the new key material'') (\<lambda>_.
      tx_bind (tx_domain (NewAuthority facts)) (\<lambda>pendingAuthority.
      tx_bind (tx_store (InsertAuthority pendingAuthority) ''authority_store_failed'' ''could not store the authority'') (\<lambda>_.
      tx_bind (tx_store (InsertEncrypted secret) ''authority_secret_store_failed''
         ''could not store the encrypted CA key'') (\<lambda>_.
      tx_bind (tx_store (InsertKeyGeneration \<lparr>cg_ID = xa_keyGenerationID prep, cg_AuthorityID = xa_authorityID prep,
         cg_KeyMaterialID = xa_keyMaterialID prep, cg_GenerationNo = 1, cg_KeyDestroyedAt = zero_instant\<rparr>)
         ''authority_key_generation_store_failed'' ''could not store the CA key generation'') (\<lambda>_.
      tx_bind (tx_store (InsertCertificate cert) ''authority_certificate_store_failed''
         ''could not store the certificate'') (\<lambda>_.
      tx_bind (tx_store (InsertCACertificateRecord \<lparr>cr_CertificateID = ce_id cert,
         cr_CAKeyGenerationID = xa_keyGenerationID prep,
         cr_IssuerCACertificateID = (if xa_kind prep = AuthorityKindIntermediate
           then (case xa_issuerCertificate prep of None \<Rightarrow> [] | Some c \<Rightarrow> ce_id c) else [])\<rparr>)
         ''authority_ca_certificate_record_store_failed'' ''could not store the CA certificate record'') (\<lambda>_.
      tx_bind (tx_domain (NewAuthority (facts\<lparr>auf_IssuanceCertificateID := ce_id cert,
         auf_CertificateWindow := ce_validity cert\<rparr>))) (\<lambda>authority.
      tx_bind (tx_store (SaveAuthority authority (au_version pendingAuthority)) ''authority_certificate_link_failed''
         ''could not link the CA certificate to its authority'') (\<lambda>_.
      tx_bind (tx_domain (NewCRLState (create_crl_facts (xa_keyGenerationID prep)))) (\<lambda>crlState.
      tx_bind (tx_store (SaveState crlState 0) ''authority_crl_state_store_failed'' ''could not store the CRL state'') (\<lambda>_.
      tx_return authority))))))))))))"

definition create_commit ::
  "issuance_env \<Rightarrow> MutationMeta \<Rightarrow> AuthorityCreateCommand \<Rightarrow> OperationRequestKey \<Rightarrow> string
     \<Rightarrow> authorityCreatePrepared \<Rightarrow> Instant \<Rightarrow> Instant \<Rightarrow> (ledger, AuthorityView) tx" where
  "create_commit env meta cmd reqKey inputHash prep checkedAt storedAt =
     tx_bind (create_checks prep checkedAt) (\<lambda>secret.
     tx_bind (create_rows cmd prep secret) (\<lambda>authority.
     tx_bind (StoreRequestResult reqKey inputHash (Inr (stored_authority_json
        \<lparr>sa_SchemaVersion = authorityStoredResultSchemaVersion, sa_AuthorityID = xa_authorityID prep\<rparr>))) (\<lambda>_.
     tx_bind (append_authority_audit env storedAt meta ''authority.create'' (xa_authorityID prep)
        [''kind'' \<mapsto> AuthorityKind_text (xa_kind prep)] (xa_authorityID prep)
        ''could not record the authority audit event'') (\<lambda>_.
     tx_return (toAuthorityView authority storedAt)))))"

text \<open>Try \<open>t\<close> of attempt \<open>k\<close> takes its readings of the clock from three on: for the session, for the parent
  and for the stored rows.\<close>

definition commitCreate ::
  "issuance_env \<Rightarrow> nat \<Rightarrow> MutationMeta \<Rightarrow> AuthorityCreateCommand \<Rightarrow> OperationRequestKey \<Rightarrow> string
     \<Rightarrow> authorityCreatePrepared \<Rightarrow> nat \<Rightarrow> (ledger, AuthorityView) tx" where
  "commitCreate env k meta cmd reqKey inputHash prep t =
     tx_bind (requireCurrentAuth (rq_Principal meta) (iu_clock env k (3 * t + 1))) (\<lambda>_.
     tx_bind (authorizeCreate env (rq_Principal meta)
        (if xa_kind prep = AuthorityKindIntermediate then [xa_parentAuthorityID prep] else [])) (\<lambda>_.
     tx_bind (replay_create reqKey inputHash) (\<lambda>earlier. case earlier of
       Some v \<Rightarrow> tx_return v
     | None \<Rightarrow> create_commit env meta cmd reqKey inputHash prep (iu_clock env k (3 * t + 2)) (iu_clock env k (3 * t + 3)))))"

subsection \<open>Create\<close>

definition zero_authority_view :: AuthorityView where
  "zero_authority_view = \<lparr>av_ID = [], av_Kind = AuthorityKindOther [], av_Name = [], av_ManagementParentID = None,
     av_IssuanceState = IssuanceStateOther [], av_IssuanceCertificateID = None, av_KeyGenerationID = [],
     av_KeyAvailable = False, av_Affected = False, av_NotAfter = zero_instant, av_ArchivedAt = None,
     av_Version = 0, av_CreatedAt = zero_instant\<rparr>"

fun create_attempts ::
  "issuance_env \<Rightarrow> MutationMeta \<Rightarrow> AuthorityCreateCommand \<Rightarrow> AuthorityKind \<Rightarrow> Subject \<Rightarrow> KeyAlgorithm
     \<Rightarrow> OperationRequestKey \<Rightarrow> string \<Rightarrow> nat \<Rightarrow> nat \<Rightarrow> authorityCreatePrepared option
     \<Rightarrow> (signing_world, AuthorityView) tx" where
  "create_attempts env meta cmd kind subject alg reqKey inputHash 0 k reuse =
     tx_fail (app_error ErrorKindConflict ''authority_serial_exhausted''
       ''could not obtain a unique serial after repeated signing attempts'')"
| "create_attempts env meta cmd kind subject alg reqKey inputHash (Suc n) k reuse =
     tx_bind (prepareCreate env k meta cmd kind subject alg reuse) (\<lambda>prep.
     tx_bind (tx_try (retried_write zero_authority_view env k (commitCreate env k meta cmd reqKey inputHash prep)))
     (\<lambda>r. case r of
       Inl err \<Rightarrow>
         if Is_rePrepare err
           then create_attempts env meta cmd kind subject alg reqKey inputHash n (Suc k) (Some prep)
         else tx_fail err
     | Inr v \<Rightarrow> tx_return v))"

definition create_scope :: "AuthorityKind \<Rightarrow> AuthorityCreateCommand \<Rightarrow> AuthorityID list" where
  "create_scope kind cmd = (if kind = AuthorityKindIntermediate then [acr_ParentAuthorityID cmd] else [])"

definition Create ::
  "issuance_env \<Rightarrow> MutationMeta \<Rightarrow> AuthorityCreateCommand \<Rightarrow> (signing_world, AuthorityView) tx" where
  "Create env meta cmd =
     tx_bind (tx_guard (CreateCommand_Validate cmd)) (\<lambda>_.
     if \<not> IsAdmin (rq_Principal meta)
       then tx_fail (authority_requires_admin ''creating an authority requires an administrator session'')
     else
       tx_bind (tx_lift (DomainKind cmd)) (\<lambda>kind.
       tx_bind (tx_lift (map_sum invalid_subject id (DomainSubject cmd))) (\<lambda>subject.
       tx_bind (tx_lift (create_algorithm cmd)) (\<lambda>alg.
       tx_bind (tx_lift (InputHash authorityOperationCreate [] (Inr (authorityCreateHashInput cmd subject alg))))
       (\<lambda>inputHash.
       tx_bind (tx_lift (RequestKey meta authorityOperationCreate)) (\<lambda>reqKey.
       tx_bind (tx_guard (iu_authorize env (rq_Principal meta) ActionAuthorityCreate
          (NewAuthorizationScope (create_scope kind cmd)))) (\<lambda>_.
       tx_bind (tx_guard (issuance_canceled env)) (\<lambda>_.
       tx_bind (replayCreateBeforePreparation env reqKey inputHash (rq_Principal meta) (create_scope kind cmd))
       (\<lambda>earlier. case earlier of
         Some v \<Rightarrow> tx_return v
       | None \<Rightarrow> create_attempts env meta cmd kind subject alg reqKey inputHash maxSerialAttempts 1 None)))))))))"

end
