(* ===== verification/Authority_Effects.thy ===== *)
theory Authority_Effects
  imports Authority_Create Issuance_Commits
begin

text \<open>
  What the operations on a stored authority find and leave behind. Seen through the table of
  authorities, the service is the machine \<open>authority_step\<close> of the domain: every request applies one step to the row it
  names, or nothing. The closure facts are exactly the state of the certificates and of the CRL.
\<close>

lemma open_authority_effect:
  assumes "open_authority env p action i ver w = (Inr (a, scope), w')"
  shows "w' = w \<and> map_of (lg_authorities w) i = Some a \<and> scope = au_id a \<and> au_version a = ver
    \<and> iu_authorize env p action (NewAuthorizationScope [au_id a]) = None"
  using assms
  by (auto simp: open_authority_def read_authority_def GetIssuerForUpdate_def authorityScopeFromRow_def tx_iff Let_def
      split: if_splits dest!: idD [OF credential_reads(1)])

lemma save_authority_effect:
  "save_authority a ver d w = (Inr u, w') \<Longrightarrow>
     (\<exists>old. map_of (lg_authorities w) (au_id a) = Some old \<and> au_version old = ver)
     \<and> w' = w\<lparr>lg_authorities := AList.update (au_id a) a (lg_authorities w)\<rparr>"
  by (auto simp: save_authority_def SaveAuthority_def tx_iff)

lemma append_authority_effect:
  "append_authority_audit env now meta action i details scope d w = (Inr u, w') \<Longrightarrow>
     w' = w\<lparr>lg_uuids := Suc (lg_uuids w), lg_auditEvents := lg_auditEvents w @
       [(authority_event (iu_ids env (lg_uuids w)) now meta action i details, NewAuthoritiesAuditScope [scope])]\<rparr>"
  by (auto simp: append_authority_audit_def Audit_Append_def NewUUID_def tx_iff split: option.splits)

subsection \<open>Closure facts\<close>

lemma closure_scan_expired:
  "snd (closure_scan own now cs n) \<longleftrightarrow> (\<forall>c\<in>set cs. ce_id c \<noteq> own \<longrightarrow> Certificate_IsExpiredAt c now)"
  by (induction cs arbitrary: n) auto

lemma closure_scan_none: "fst (closure_scan own now cs n) = n \<longleftrightarrow> (\<forall>c\<in>set cs. ce_id c = own)"
proof -
  have le: "n \<le> fst (closure_scan own now cs n)" for cs n by (induction cs arbitrary: n) (auto intro: Suc_leD)
  have "fst (closure_scan own now cs (Suc n)) \<noteq> n" for cs n using le [of "Suc n" cs] by auto
  then show ?thesis by (induction cs arbitrary: n) auto
qed

text \<open>The certificates that depend on an authority: signed by its key, other than its own.\<close>

definition dependents :: "ledger \<Rightarrow> Authority \<Rightarrow> Certificate set" where
  "dependents w a = {c \<in> snd ` set (lg_certificates w). ce_issuerCAKeyGenerationID c = au_keyGenerationID a
     \<and> ce_id c \<noteq> au_issuanceCertificateID a}"

definition history_only :: "ledger \<Rightarrow> Authority \<Rightarrow> bool" where
  "history_only w a \<longleftrightarrow> \<not> au_keyAvailable a \<and> (\<exists>g m. lg_caKeyGenerations w (au_keyGenerationID a) = Some g
     \<and> cg_KeyDestroyedAt g = zero_instant \<and> lg_keyMaterials w (cg_KeyMaterialID g) = Some m \<and> km_Origin m = ''imported'')"

definition crl_published :: "ledger \<Rightarrow> CAKeyGenerationID \<Rightarrow> bool" where
  "crl_published w i \<longleftrightarrow> (\<exists>s. lg_crlStates w i = Some s \<and> cs_publishedDocumentID s \<noteq> []
     \<and> cs_revocationGeneration s \<le> cs_publishedGeneration s)"

lemma isHistoryOnlyCA_effect: "isHistoryOnlyCA a w = (Inr b, w') \<Longrightarrow> w' = w \<and> (b \<longleftrightarrow> history_only w a)"
  by (auto simp: isHistoryOnlyCA_def history_only_def GetCAKeyGeneration_def GetKeyMaterial_def tx_iff Instant_IsZero_iff
      split: if_splits)

lemma crl_complete_effect: "crl_complete i w = (Inr b, w') \<Longrightarrow> w' = w \<and> (b \<longleftrightarrow> crl_published w i)"
  by (auto simp: crl_complete_def crl_published_def GetStateForUpdate_def found_def tx_try_def tx_bind_def tx_return_def
      tx_fail_def split: option.splits if_splits)

lemma closure_facts_effect:
  assumes "authorityClosureFacts a now w = (Inr facts, w')"
  shows "w' = w \<and> (cf_AllDependentCertificatesExpired facts \<longleftrightarrow> (\<forall>c\<in>dependents w a. Certificate_IsExpiredAt c now))
    \<and> (cf_RequiredCRLsPublished facts \<longleftrightarrow> history_only w a \<or> dependents w a = {} \<or> crl_published w (au_keyGenerationID a))"
proof -
  let ?cs = "filter (\<lambda>c. ce_issuerCAKeyGenerationID c = au_keyGenerationID a) (map snd (lg_certificates w))"
  obtain n e where scan: "closure_scan (au_issuanceCertificateID a) now (sort_key ce_id ?cs) 0 = (n, e)" by fastforce
  have e: "e \<longleftrightarrow> (\<forall>c\<in>dependents w a. Certificate_IsExpiredAt c now)"
    using closure_scan_expired [of "au_issuanceCertificateID a" now "sort_key ce_id ?cs" 0] unfolding scan
    by (auto simp: dependents_def)
  have n: "n = 0 \<longleftrightarrow> dependents w a = {}"
    using closure_scan_none [of "au_issuanceCertificateID a" now "sort_key ce_id ?cs" 0] unfolding scan
    by (auto simp: dependents_def)
  from assms show ?thesis
    by (auto simp: authorityClosureFacts_def ListCertificatesByIssuer_def tx_iff scan e n Let_def
        dest!: isHistoryOnlyCA_effect crl_complete_effect split: if_splits)
qed

end
