(* ===== verification/Authority_Refinement.thy ===== *)
theory Authority_Refinement
  imports Authority_Effects
begin

text \<open>
  The four operations on a stored authority against the domain machine: seen through the table of authorities, a
  request is one \<open>authority_step\<close> of the row it names, at the version the caller expected, or nothing.
\<close>

datatype authority_request =
    RequestRename AuthorityRenameCommand
  | RequestState AuthoritySetIssuanceStateCommand
  | RequestDestroyKey AuthorityDestroyKeyCommand
  | RequestArchive AuthorityID

fun serve :: "issuance_env \<Rightarrow> MutationMeta \<Rightarrow> authority_request \<Rightarrow> (ledger, AuthorityView) tx" where
  "serve env meta (RequestRename c) = Authority_Rename env meta c"
| "serve env meta (RequestState c) = SetIssuanceState env meta c"
| "serve env meta (RequestDestroyKey c) = Authority_DestroyKey env meta c"
| "serve env meta (RequestArchive i) = Authority_Archive env meta i"

fun named :: "authority_request \<Rightarrow> AuthorityID" where
  "named (RequestRename c) = arn_AuthorityID c"
| "named (RequestState c) = asi_AuthorityID c"
| "named (RequestDestroyKey c) = adk_AuthorityID c"
| "named (RequestArchive i) = i"

text \<open>The steps of the machine a request stands for.\<close>

fun requested :: "authority_request \<Rightarrow> authority_op \<Rightarrow> bool" where
  "requested (RequestRename c) x \<longleftrightarrow> x = OpRename (AuthorityPolicy (arn_Name c))"
| "requested (RequestState c) x \<longleftrightarrow> asi_State c = IssuanceStateEnabled \<and> x = OpEnable
     \<or> asi_State c = IssuanceStateStopped \<and> x = OpStopIssuance"
| "requested (RequestDestroyKey _) x \<longleftrightarrow> (\<exists>f now. x = OpDestroyKey f now)"
| "requested (RequestArchive _) x \<longleftrightarrow> (\<exists>f now. x = OpArchive f now)"

type_synonym authority_table = "AuthorityID \<rightharpoonup> Authority"

abbreviation table :: "ledger \<Rightarrow> authority_table" where
  "table w \<equiv> map_of (lg_authorities w)"

definition table_step ::
  "MutationMeta \<Rightarrow> authority_request \<Rightarrow> authority_table \<Rightarrow> AuthorityView \<Rightarrow> authority_table \<Rightarrow> bool" where
  "table_step meta rq t v t' \<longleftrightarrow> (\<exists>a x a'. t (named rq) = Some a \<and> RequireExpectedVersion meta = Inr (au_version a)
     \<and> requested rq x \<and> authority_step a x = Inr a' \<and> t' = t(au_id a \<mapsto> a') \<and> v = toAuthorityView a' zero_instant)"

lemma table_stepI:
  assumes "authority_step a x = Inr a'" and "t (named rq) = Some a" and "RequireExpectedVersion meta = Inr (au_version a)"
    and "requested rq x" and "t' = t(au_id a \<mapsto> a')" and "v = toAuthorityView a' zero_instant"
  shows "table_step meta rq t v t'"
  using assms unfolding table_step_def by blast

text \<open>The body of the transaction.\<close>

lemma authority_saved:
  assumes "authority_step a x = Inr a'" and "save_authority a' ver d w = (Inr u, w')"
  shows "table w' = (table w)(au_id a \<mapsto> a')"
proof -
  have "au_id a' = au_id a" using authority_step_identity [OF assms(1)] by (simp add: authority_identity_def)
  with save_authority_effect [OF assms(2)] show ?thesis by (auto simp: update_conv')
qed

lemma rename_commit_steps:
  assumes run: "rename_commit env meta c ver w = (Inr v, w')" and ver: "RequireExpectedVersion meta = Inr ver"
  shows "table_step meta (RequestRename c) (table w) v (table w')"
proof -
  from run obtain a sc w1 a' w2 w3 where o: "open_authority env (rq_Principal meta) ActionAuthorityRename (arn_AuthorityID c) ver w
      = (Inr (a, sc), w1)" and x: "authority_step a (OpRename (AuthorityPolicy (arn_Name c))) = Inr a'"
    and s: "save_authority a' ver ''could not save the authority'' w1 = (Inr (), w2)"
    and e: "append_authority_audit env (iu_clock env 0 2) meta ''authority.rename'' (arn_AuthorityID c) Map.empty
        sc ''could not record the rename audit event'' w2 = (Inr (), w3)"
    and v: "v = toAuthorityView a' zero_instant" "w' = w3"
    by (auto simp: rename_commit_def tx_iff)
  from authority_saved [OF x s] open_authority_effect [OF o] append_authority_effect [OF e] v ver
  show ?thesis by (intro table_stepI [OF x]) auto
qed

lemma set_state_commit_steps:
  assumes run: "set_state_commit env meta (asi_AuthorityID c) (asi_State c) ver w = (Inr v, w')"
    and ver: "RequireExpectedVersion meta = Inr ver"
  shows "table_step meta (RequestState c) (table w) v (table w')"
proof -
  from run obtain a sc w1 a' w2 w3 w4 where o: "open_authority env (rq_Principal meta) ActionAuthoritySetIssuanceState
      (asi_AuthorityID c) ver w = (Inr (a, sc), w1)" and n: "next_issuance_state (asi_State c) a w1 = (Inr a', w2)"
    and s: "save_authority a' ver ''could not save the authority'' w2 = (Inr (), w3)"
    and e: "append_authority_audit env (iu_clock env 0 2) meta ''authority.set_issuance_state'' (asi_AuthorityID c)
        [''state'' \<mapsto> IssuanceState_text (asi_State c)] sc ''could not record the issuance-state audit event'' w3 = (Inr (), w4)"
    and v: "v = toAuthorityView a' zero_instant" "w' = w4"
    by (auto simp: set_state_commit_def tx_iff)
  from n obtain x where w2: "w2 = w1" and x: "authority_step a x = Inr a'" "requested (RequestState c) x"
    by (auto simp: next_issuance_state_def tx_iff split: if_splits)
  from authority_saved [OF x(1) s] open_authority_effect [OF o] append_authority_effect [OF e] w2 v ver x(2)
  show ?thesis by (intro table_stepI [OF x(1)]) (auto simp del: requested.simps)
qed

lemma archive_commit_steps:
  assumes run: "archive_commit env meta i ver w = (Inr v, w')" and ver: "RequireExpectedVersion meta = Inr ver"
  shows "table_step meta (RequestArchive i) (table w) v (table w')"
proof -
  from run obtain a sc w1 f w2 a' w3 w4 where o: "open_authority env (rq_Principal meta) ActionAuthorityArchive i ver w
      = (Inr (a, sc), w1)" and f: "authorityClosureFacts a (iu_clock env 0 2) w1 = (Inr f, w2)"
    and x: "authority_step a (OpArchive f (iu_clock env 0 2)) = Inr a'"
    and s: "save_authority a' ver ''could not archive the authority'' w2 = (Inr (), w3)"
    and e: "append_authority_audit env (iu_clock env 0 2) meta ''authority.archive'' (au_id a) Map.empty sc
        ''could not record the authority archive audit event'' w3 = (Inr (), w4)"
    and v: "v = toAuthorityView a' zero_instant" "w' = w4"
    by (auto simp: archive_commit_def tx_iff Let_def)
  from authority_saved [OF x s] open_authority_effect [OF o] conjunct1 [OF closure_facts_effect [OF f]] append_authority_effect [OF e] v ver
  show ?thesis by (intro table_stepI [OF x]) auto
qed

text \<open>Destroying a key: what it required, and every row it changed.\<close>

definition key_destroyed ::
  "Authority \<Rightarrow> AuthorityDestroyKeyCommand \<Rightarrow> Instant \<Rightarrow> ledger \<Rightarrow> ledger \<Rightarrow> bool" where
  "key_destroyed a c now w w' \<longleftrightarrow> (\<exists>g. map_of (lg_authorities w) (adk_AuthorityID c) = Some a
     \<and> au_keyGenerationID a = adk_KeyGenerationID c \<and> au_keyAvailable a \<and> au_issuanceState a \<noteq> IssuanceStateEnabled
     \<and> (\<forall>d\<in>dependents w a. Certificate_IsExpiredAt d now)
     \<and> (dependents w a \<noteq> {} \<longrightarrow> crl_published w (au_keyGenerationID a))
     \<and> lg_caKeyGenerations w (au_keyGenerationID a) = Some g \<and> cg_KeyDestroyedAt g = zero_instant
     \<and> cg_AuthorityID g = au_id a
     \<and> lg_caKeyGenerations w' = (lg_caKeyGenerations w)(cg_ID g \<mapsto> g\<lparr>cg_KeyDestroyedAt := now\<rparr>)
     \<and> lg_secrets w' = AList.delete (cg_KeyMaterialID g, signing_purpose a) (lg_secrets w)
     \<and> lg_authorities w' = AList.update (au_id a)
          (a\<lparr>au_keyAvailable := False, au_version := Version_Next (au_version a)\<rparr>) (lg_authorities w)
     \<and> lg_certificates w' = lg_certificates w \<and> lg_keyMaterials w' = lg_keyMaterials w
     \<and> lg_crlStates w' = lg_crlStates w \<and> lg_revocationRows w' = lg_revocationRows w
     \<and> lg_requestResults w' = lg_requestResults w)"

lemma destroy_commit_effect:
  assumes run: "destroy_commit env meta c ver w = (Inr v, w')"
  shows "\<exists>a f. au_version a = ver \<and> key_destroyed a c (iu_clock env 0 2) w w'
    \<and> authority_step a (OpDestroyKey f (iu_clock env 0 2)) = Inr (a\<lparr>au_keyAvailable := False, au_version := Version_Next (au_version a)\<rparr>)
    \<and> v = toAuthorityView (a\<lparr>au_keyAvailable := False, au_version := Version_Next (au_version a)\<rparr>) zero_instant"
proof -
  let ?now = "iu_clock env 0 2"
  from run obtain a sc w1 g w2 f w3 a' w4 w5 w6 w7 where
    o: "open_authority env (rq_Principal meta) ActionAuthorityDestroyKey (adk_AuthorityID c) ver w = (Inr (a, sc), w1)"
    and g: "read_generation a (adk_KeyGenerationID c) w1 = (Inr g, w2)"
    and f: "authorityClosureFacts a ?now w2 = (Inr f, w3)"
    and x: "authority_step a (OpDestroyKey f ?now) = Inr a'"
    and k: "SaveCAKeyGeneration (g\<lparr>cg_KeyDestroyedAt := ?now\<rparr>) w3 = (Inr (), w4)"
    and d: "Secrets_Delete (cg_KeyMaterialID g) (signing_purpose a) w4 = (Inr (), w5)"
    and s: "save_authority a' ver ''could not record authority key availability'' w5 = (Inr (), w6)"
    and e: "append_authority_audit env ?now meta ''authority.destroy_key'' (au_id a)
         [''key_generation_id'' \<mapsto> adk_KeyGenerationID c, ''justification'' \<mapsto> adk_Justification c] sc
         ''could not record the key destruction audit event'' w6 = (Inr (), w7)"
    and v: "v = toAuthorityView a' zero_instant" "w' = w7"
    by (auto simp: destroy_commit_def tx_iff Let_def)
  note opened = open_authority_effect [OF o]
  from g have gen: "w2 = w1" "au_keyGenerationID a = adk_KeyGenerationID c" "lg_caKeyGenerations w1 (au_keyGenerationID a) = Some g"
    "cg_AuthorityID g = au_id a" "cg_KeyDestroyedAt g = zero_instant"
    by (auto simp: read_generation_def GetCAKeyGeneration_def tx_iff Instant_IsZero_iff split: if_splits)
  from x have can: "CanDestroyKey a f ?now = None"
    and a': "a' = a\<lparr>au_keyAvailable := False, au_version := Version_Next (au_version a)\<rparr>"
    by (auto simp: DestroyKey_def check_then_def split: option.splits)
  from can have "au_keyAvailable a" "au_issuanceState a \<noteq> IssuanceStateEnabled"
    "cf_AllDependentCertificatesExpired f" "cf_RequiredCRLsPublished f"
    by (auto simp: CanDestroyKey_def split: if_splits)
  with opened gen closure_facts_effect [OF f] k d save_authority_effect [OF s] append_authority_effect [OF e] v a'
  have "key_destroyed a c ?now w w'"
    by (auto simp: key_destroyed_def history_only_def SaveCAKeyGeneration_def Secrets_Delete_def tx_iff
        split: option.splits if_splits)
  with opened x v a' show ?thesis by blast
qed

end
