(* ===== verification/Authority_Safety.thy ===== *)
theory Authority_Safety
  imports Authority_Refinement Issue_Safety
begin

text \<open>
  What the authority service promises: it implements the domain machine on the table of authorities, a key is
  destroyed only when nothing depends on it any more, and no issuance signs with it afterwards.
\<close>

subsection \<open>Refinement of the authority machine\<close>

lemma serve_cases:
  assumes "serve env meta rq l = (r, l')"
  shows "(\<exists>e. r = Inl e \<and> l' = l) \<or> (\<exists>body. authority_write env body l = (r, l')
    \<and> (\<forall>w v w'. body w = (Inr v, w') \<longrightarrow> table_step meta rq (table w) v (table w')))"
proof -
  note front = tx_bind_def tx_guard_def tx_lift_def tx_fail_def tx_return_def admin_version_def
  show ?thesis
  proof (cases rq)
    case (RequestRename c)
    with assms show ?thesis using rename_commit_steps
      by (auto simp: Authority_Rename_def front split: option.splits sum.splits if_splits; blast)
  next
    case (RequestState c)
    have state: "DomainState c = Inr t \<longleftrightarrow> t = asi_State c \<and> (t = IssuanceStateEnabled \<or> t = IssuanceStateStopped)" for t
      by (auto simp: DomainState_def)
    from RequestState assms show ?thesis using set_state_commit_steps
      by (auto simp: SetIssuanceState_def front state split: option.splits sum.splits if_splits; blast)
  next
    case (RequestDestroyKey c)
    have steps: "table_step meta rq (table w) v (table w')"
      if run: "destroy_commit env meta c ver w = (Inr v, w')" and ver: "RequireExpectedVersion meta = Inr ver" for ver w v w'
    proof -
      from destroy_commit_effect [OF run] obtain a f where "au_version a = ver" "key_destroyed a c (iu_clock env 0 2) w w'"
        and x: "authority_step a (OpDestroyKey f (iu_clock env 0 2))
          = Inr (a\<lparr>au_keyAvailable := False, au_version := Version_Next (au_version a)\<rparr>)"
        and "v = toAuthorityView (a\<lparr>au_keyAvailable := False, au_version := Version_Next (au_version a)\<rparr>) zero_instant" by blast
      then show ?thesis using ver RequestDestroyKey by (intro table_stepI [OF x]) (auto simp: key_destroyed_def update_conv')
    qed
    from RequestDestroyKey assms show ?thesis using steps
      by (auto simp: Authority_DestroyKey_def front split: option.splits sum.splits if_splits; blast)
  next
    case (RequestArchive i)
    with assms show ?thesis using archive_commit_steps
      by (auto simp: Authority_Archive_def front split: option.splits sum.splits if_splits; blast)
  qed
qed

text \<open>C12. The service refines the domain machine. Whatever a request to rename an authority, to enable or stop it, to
  destroy its key or to archive it answers, the table of authorities either is as others left it, and the answer is an
  error, or exactly the row the request names took one step of \<open>authority_step\<close>, the one
  requested, from the version the caller expected; the answer is then the view of the new row, or that the outcome of
  the commit is unknown.\<close>

theorem authority_service_refines:
  "case serve env meta rq l of (r, l') \<Rightarrow>
     (\<exists>e. r = Inl e \<and> (table l' = table l \<or> table l' = table (iu_meanwhile env 0 1 l)))
   \<or> (\<exists>v. table_step meta rq (table (iu_meanwhile env 0 1 l)) v (table l') \<and> (r = Inr v \<or> r = Inl (Port ErrCommitUnknown)))"
proof -
  obtain r l' where run: "serve env meta rq l = (r, l')" by (cases "serve env meta rq l")
  from serve_cases [OF run] show ?thesis
  proof
    assume "\<exists>e. r = Inl e \<and> l' = l"
    then show ?thesis unfolding run by auto
  next
    assume "\<exists>body. authority_write env body l = (r, l')
      \<and> (\<forall>w v w'. body w = (Inr v, w') \<longrightarrow> table_step meta rq (table w) v (table w'))"
    then obtain body where wr: "uow_write (iu_fate env 0 0) body (iu_meanwhile env 0 1 l) = (r, l')"
      and steps: "\<And>w v w'. body w = (Inr v, w') \<Longrightarrow> table_step meta rq (table w) v (table w')"
      by (auto simp: authority_write_def)
    show ?thesis
    proof (cases "\<exists>x. body (iu_meanwhile env 0 1 l) = (Inr x, l') \<and> (r = Inr x \<or> r = Inl (Port ErrCommitUnknown))")
      case True
      then show ?thesis unfolding run using steps by auto
    next
      case False
      with uow_write_store [OF wr] have "l' = iu_meanwhile env 0 1 l" by blast
      moreover from False wr have "\<exists>e. r = Inl e"
        by (cases r) (auto simp: uow_write_iff)
      ultimately show ?thesis unfolding run by auto
    qed
  qed
qed

subsection \<open>A destroyed key\<close>

text \<open>C11. Destroying a key. When \<open>DestroyKey\<close> succeeds, the requested generation was the current one of an authority that
  does not issue and had its key; every certificate the key had signed, the authority's own apart, was expired at
  that moment; if there was any, the published CRL covered every recorded revocation. The generation then carries the
  time of its destruction, the encrypted key is deleted, the authority has no key at its next version, and
  certificates, key materials, revocations and CRL state are as before.\<close>

theorem destroy_key_sound:
  assumes "Authority_DestroyKey env meta c l = (Inr v, l')"
  shows "\<exists>a. key_destroyed a c (iu_clock env 0 2) (iu_meanwhile env 0 1 l) l' \<and> RequireExpectedVersion meta = Inr (au_version a)
    \<and> IsAdmin (rq_Principal meta)
    \<and> v = toAuthorityView (a\<lparr>au_keyAvailable := False, au_version := Version_Next (au_version a)\<rparr>) zero_instant"
proof -
  from assms obtain ver where "IsAdmin (rq_Principal meta)" "RequireExpectedVersion meta = Inr ver"
    and "destroy_commit env meta c ver (iu_meanwhile env 0 1 l) = (Inr v, l')"
    by (auto simp: Authority_DestroyKey_def admin_version_def authority_write_def tx_iff split: if_splits)
  with destroy_commit_effect [of env meta c ver "iu_meanwhile env 0 1 l" v l'] show ?thesis by blast
qed

definition generation_destroyed :: "ledger \<Rightarrow> CAKeyGenerationID \<Rightarrow> bool" where
  "generation_destroyed w i \<longleftrightarrow> (\<exists>g. lg_caKeyGenerations w i = Some g \<and> cg_KeyDestroyedAt g \<noteq> zero_instant)"

text \<open>The store itself keeps a mark of destruction.\<close>

lemma destruction_is_final:
  "SaveCAKeyGeneration g w = (r, w') \<Longrightarrow> generation_destroyed w i \<Longrightarrow> generation_destroyed w' i"
  by (auto simp: SaveCAKeyGeneration_def generation_destroyed_def tx_fail_def tx_return_def Instant_IsZero_iff
      split: option.splits if_splits)




end
