(* ===== verification/Create_Safety.thy ===== *)
theory Create_Safety
  imports Authority_Safety
begin

text \<open>
  Creating an authority, end to end: what a preparation is good for, what the commit checks and stores, and that
  a creation that succeeded either replayed its result or made one new authority that cannot issue yet.
\<close>

subsection \<open>Preparation\<close>

lemma validity_reads: "keeps id (resolveAuthorityCreateValidity kind v)"
  unfolding resolveAuthorityCreateValidity_def by (intro keeps_intro store_reads)

lemma create_reads_reads: "keeps id (create_reads kind cmd)"
  unfolding create_reads_def read_parent_def by (intro keeps_intro store_reads signing_reads validity_reads)

lemma replay_create_reads: "keeps id (replay_create key h)"
  unfolding replay_create_def stored_authority_view_def ReplayStoredResult_def by (intro keeps_intro store_reads)

lemma self_signed_traceless [traceless_intro]: "traceless env (self_signed env plan k alg i by)"
  unfolding self_signed_def resolveSigningKey_def newSerial_def signCertificate_def by (intro traceless_keeps keeps_intro)

lemma prepareCreate_traceless: "traceless env (prepareCreate env k meta cmd kind subject alg reuse)"
  unfolding prepareCreate_def Let_def create_ids_def create_plan_def create_key_def
  by (intro traceless_intro traceless_reads create_reads_reads)

text \<open>The certificate of a preparation is a CA certificate for its key, by its issuer; a root is its own issuer.\<close>

definition ca_certificate :: "IssuancePlan \<Rightarrow> KeyMaterialID \<Rightarrow> Certificate \<Rightarrow> bool" where
  "ca_certificate plan k c \<longleftrightarrow> canonical_uuid (ce_id c) \<and> ce_keyMaterialID c = k \<and> ce_kind c = CertificateKindCA
     \<and> ce_issuerCAKeyGenerationID c = ip_IssuerKeyGenerationID plan \<and> ce_validity c = ip_Window plan
     \<and> ce_keyAlgorithm c = ip_KeyAlgorithm plan \<and> ce_subject c = ip_Subject plan \<and> ce_sans c = ip_SANs plan
     \<and> ce_der c \<noteq> []"

lemma matches_ca:
  "matches q c \<Longrightarrow> cq_Plan q = plan \<Longrightarrow> cq_Kind q = CertificateKindCA \<Longrightarrow> cq_KeyMaterialID q = k
     \<Longrightarrow> canonical_uuid (cq_CertificateID q) \<Longrightarrow> ca_certificate plan k c"
  by (auto simp: matches_def ca_certificate_def)

text \<open>The parent is the authority the caller named, as some store of the request had it, and \<open>sk\<close> its signing key.\<close>

definition named_parent ::
  "issuance_env \<Rightarrow> ledger \<Rightarrow> AuthorityID \<Rightarrow> AuthorityID \<Rightarrow> CAKeyGenerationID \<Rightarrow> EncryptedSecret \<Rightarrow> bool" where
  "named_parent env l i parent g sk \<longleftrightarrow> (\<exists>s p. seen env l s \<and> map_of (lg_authorities s) i = Some p
     \<and> parent = au_id p \<and> g = au_keyGenerationID p \<and> live_issuer s p \<and> signing_secret s p sk)"

text \<open>The key pair of a preparation is the engine's answer for this key material, and its certificate is signed for
  that public key with \<open>sk\<close>.\<close>

definition own_key :: "issuance_env \<Rightarrow> KeyAlgorithm \<Rightarrow> authorityCreatePrepared \<Rightarrow> EncryptedSecret \<Rightarrow> EncryptedSecret \<Rightarrow> bool" where
  "own_key env alg p sec sk \<longleftrightarrow> xa_generatedSecret p = Some sec
     \<and> generated_for env (xa_keyMaterialID p) alg SecretPurposeCASigning (xa_publicKey p) sec
     \<and> signed_with env (xa_publicKey p) sk (xa_certificate p)"

definition create_ready ::
  "issuance_env \<Rightarrow> ledger \<Rightarrow> AuthorityCreateCommand \<Rightarrow> AuthorityKind \<Rightarrow> Subject \<Rightarrow> KeyAlgorithm \<Rightarrow> authorityCreatePrepared \<Rightarrow> bool" where
  "create_ready env l cmd kind subject alg p \<longleftrightarrow> xa_kind p = kind \<and> canonical_uuid (xa_authorityID p)
     \<and> canonical_uuid (xa_keyGenerationID p) \<and> canonical_uuid (xa_keyMaterialID p)
     \<and> ip_Subject (xa_plan p) = subject \<and> ip_KeyAlgorithm (xa_plan p) = alg \<and> ip_SANs (xa_plan p) = []
     \<and> (\<exists>sec sk. own_key env alg p sec sk
          \<and> (if kind = AuthorityKindIntermediate
               then named_parent env l (acr_ParentAuthorityID cmd) (xa_parentAuthorityID p)
                 (ip_IssuerKeyGenerationID (xa_plan p)) sk
               else ip_IssuerKeyGenerationID (xa_plan p) = xa_keyGenerationID p \<and> xa_parentAuthorityID p = [] \<and> sk = sec))
     \<and> ca_certificate (xa_plan p) (xa_keyMaterialID p) (xa_certificate p)"

lemma create_reads_result:
  "create_reads kind cmd w = (Inr (v, ver, parent), w') \<Longrightarrow> (case parent of
       None \<Rightarrow> kind \<noteq> AuthorityKindIntermediate
     | Some (p, sk, _) \<Rightarrow> kind = AuthorityKindIntermediate \<and> map_of (lg_authorities w) (acr_ParentAuthorityID cmd) = Some p
         \<and> live_issuer w p \<and> signing_secret w p sk)"
  by (cases parent) (auto simp: create_reads_def read_parent_def GetIssuerForUpdate_def tx_iff split: if_splits prod.splits
      dest!: idD [OF validity_reads] caSigningSecret_effect)

lemma create_ids_result:
  assumes "create_ids env reuse w = (Inr (a, g, m), w')"
    and "\<And>q. reuse = Some q \<Longrightarrow> create_ready env l cmd kind subject alg q"
  shows "canonical_uuid a \<and> canonical_uuid g \<and> canonical_uuid m"
  using assms by (cases reuse) (auto simp: create_ids_def tx_iff ParseID_Inr create_ready_def)

lemma create_plan_result:
  "create_plan parent subject alg window a g now w = (Inr plan, w') \<Longrightarrow>
     ip_Subject plan = subject \<and> ip_KeyAlgorithm plan = alg \<and> ip_SANs plan = [] \<and> ip_Window plan = window
     \<and> ip_IssuerKeyGenerationID plan = (case parent of None \<Rightarrow> g | Some p \<Rightarrow> au_keyGenerationID p)"
  by (auto simp: create_plan_def PlanSubordinateCAIssuance_def planIssuance_def check_then_def tx_iff
      split: option.splits if_splits)

lemma create_key_result:
  assumes "create_key env parent reuse plan k alg i by w = (Inr (pk, sec, c), w')" and "canonical_uuid i"
    and "\<And>q. reuse = Some q \<Longrightarrow> \<exists>s. xa_generatedSecret q = Some s
      \<and> generated_for env k alg SecretPurposeCASigning (xa_publicKey q) s"
  shows "ca_certificate plan k c \<and> (\<exists>s. sec = Some s \<and> generated_for env k alg SecretPurposeCASigning pk s
    \<and> signed_with env pk (case parent of None \<Rightarrow> s | Some (_, sk, _) \<Rightarrow> sk) c)"
proof (cases reuse)
  case (Some old)
  with assms(1) obtain ic where run: "resignWithNewSerial env plan i k (xa_publicKey old) CertificateKindCA by ic
      (case parent of None \<Rightarrow> the (xa_generatedSecret old) | Some (_, sk, _) \<Rightarrow> sk) [] w = (Inr c, w')"
    and same: "pk = xa_publicKey old" "sec = xa_generatedSecret old"
    by (auto simp: create_key_def tx_iff)
  from resign_result [OF run] assms(2) have "ca_certificate plan k c" by (auto intro!: matches_ca)
  with assms(3) [OF Some] resign_signed [OF run] same show ?thesis by (auto split: option.splits)
next
  case fresh: None
  show ?thesis
  proof (cases parent)
    case None
    with assms(1) fresh have run: "self_signed env plan k alg i by w = (Inr (pk, sec, c), w')" by (simp add: create_key_def)
    then have "ca_certificate plan k c" using assms(2)
      by (auto simp: self_signed_def tx_iff dest!: sign_matches intro!: matches_ca split: prod.splits)
    moreover from run have "\<exists>s. sec = Some s \<and> generated_for env k alg SecretPurposeCASigning pk s \<and> signed_with env pk s c"
      by (auto simp: self_signed_def tx_iff dest!: resolve_fresh intro!: sign_signed split: prod.splits)
    ultimately show ?thesis using None by simp
  next
    case (Some x)
    obtain p secret ic where x: "x = (p, secret, ic)" by (cases x)
    from assms(1) fresh Some x obtain pd where pd: "prepareCertificate env plan \<lparr>kr_Fresh = Some \<lparr>ks_KeyMaterialID = k,
        ks_Algorithm = alg, ks_Purpose = SecretPurposeCASigning\<rparr>, kr_Existing = []\<rparr> zero_public_key i (Some ic) secret
        CertificateKindCA by [] w = (Inr pd, w')" and c: "c = pd_Certificate pd" "pk = pd_GeneratedPublic pd" "sec = pd_GeneratedSecret pd"
      by (auto simp: create_key_def tx_iff)
    from prepareCertificate_result [OF pd] assms(2) have "ca_certificate plan k (pd_Certificate pd)"
      by (auto intro!: matches_ca)
    with prepareCertificate_signed [OF pd] show ?thesis by (auto simp: c Some x)
  qed
qed

lemma prepareCreate_result:
  assumes run: "prepareCreate env k meta cmd kind subject alg reuse w = (Inr prep, w')"
    and start: "seen env l (sg_store w)" and old: "\<And>q. reuse = Some q \<Longrightarrow> create_ready env l cmd kind subject alg q"
  shows "create_ready env l cmd kind subject alg prep"
proof -
  from run [unfolded prepareCreate_def Let_def] obtain w0 v ver parent w2 window a g m w3 w4 plan w5 raw w6 pk sec c where
    others: "others env k w = (Inr (), w0)" and reads: "create_reads kind cmd (sg_store w0) = (Inr (v, ver, parent), w2)"
    and ids: "create_ids env reuse w3 = (Inr (a, g, m), w4)"
    and plan: "create_plan (map_option fst parent) subject alg window a g (iu_clock env k 0) w4 = (Inr plan, w5)"
    and raw: "canonical_uuid raw"
    and key: "create_key env parent reuse plan m alg raw (Principal_AccountID (rq_Principal meta)) w6 = (Inr (pk, sec, c), w')"
    and prep: "xa_kind prep = kind" "xa_authorityID prep = a" "xa_keyGenerationID prep = g" "xa_keyMaterialID prep = m"
      "xa_plan prep = plan" "xa_certificate prep = c" "xa_publicKey prep = pk" "xa_generatedSecret prep = sec"
      "xa_parentAuthorityID prep = (case parent of None \<Rightarrow> [] | Some (p, _) \<Rightarrow> au_id p)"
    by (auto simp: tx_bind_iff tx_domain_iff tx_return_iff in_store_iff ParseID_Inr split: prod.splits)
  have "seen env l (sg_store w0)" by (rule tracelessD [OF traceless_others others start])
  note parent = create_reads_result [OF reads] this
  have "m = xa_keyMaterialID q" if "reuse = Some q" for q using ids that by (simp add: create_ids_def tx_iff)
  with old have "\<exists>s. xa_generatedSecret q = Some s \<and> generated_for env m alg SecretPurposeCASigning (xa_publicKey q) s"
    if "reuse = Some q" for q using that by (auto simp: create_ready_def own_key_def)
  note made = create_key_result [OF key raw this]
  from parent create_ids_result [OF ids old] create_plan_result [OF plan] made
  show ?thesis unfolding create_ready_def named_parent_def own_key_def prep by (cases parent) (auto, blast)
qed

subsection \<open>The commit\<close>

lemma create_checks_effect:
  assumes "create_checks p now w = (Inr sec, w')"
  shows "w' = w \<and> xa_generatedSecret p = Some sec
    \<and> serial_unused w (ip_IssuerKeyGenerationID (xa_plan p)) (ce_serial (xa_certificate p))
    \<and> (xa_kind p = AuthorityKindIntermediate \<longrightarrow> (\<exists>a. map_of (lg_authorities w) (xa_parentAuthorityID p) = Some a
        \<and> au_keyGenerationID a = ip_IssuerKeyGenerationID (xa_plan p)
        \<and> CanIssue a (subordinate_context (ip_Window (xa_plan p))) now = None \<and> live_issuer w a))"
  using assms
  by (auto simp: create_checks_def create_parent_check_def read_parent_def GetIssuerForUpdate_def tx_iff
      split: if_splits option.splits dest!: verifyCA_effect settingsUnchanged_effect ensureSerialUnused_effect)

text \<open>The rows of a new authority: not issuing, with its key.\<close>

definition new_authority ::
  "AuthorityKind \<Rightarrow> string \<Rightarrow> AuthorityID \<Rightarrow> AuthorityID \<Rightarrow> CAKeyGenerationID \<Rightarrow> Certificate \<Rightarrow> Authority" where
  "new_authority kind name i parent g c = \<lparr>au_id = i, au_kind = kind, au_name = name, au_managementParentID = parent,
     au_issuanceState = IssuanceStateInventory, au_issuanceCertificateID = ce_id c, au_keyGenerationID = g,
     au_keyAvailable = True, au_affected = False, au_pendingTakeover = False, au_certificateWindow = ce_validity c,
     au_archivedAt = zero_instant, au_version = 0\<rparr>"

definition new_generation :: "CAKeyGenerationID \<Rightarrow> AuthorityID \<Rightarrow> KeyMaterialID \<Rightarrow> CAKeyGeneration" where
  "new_generation g i m = \<lparr>cg_ID = g, cg_AuthorityID = i, cg_KeyMaterialID = m, cg_GenerationNo = 1,
     cg_KeyDestroyedAt = zero_instant\<rparr>"

definition authority_rows ::
  "authorityCreatePrepared \<Rightarrow> EncryptedSecret \<Rightarrow> Authority \<Rightarrow> ledger \<Rightarrow> ledger \<Rightarrow> bool" where
  "authority_rows p sec a w w' \<longleftrightarrow>
     map_of (lg_authorities w) (xa_authorityID p) = None
     \<and> map_of (lg_authorities w') = (map_of (lg_authorities w))(xa_authorityID p \<mapsto> a)
     \<and> lg_caKeyGenerations w (xa_keyGenerationID p) = None
     \<and> lg_caKeyGenerations w' = (lg_caKeyGenerations w)(xa_keyGenerationID p \<mapsto>
          new_generation (xa_keyGenerationID p) (xa_authorityID p) (xa_keyMaterialID p))
     \<and> lg_keyMaterials w (xa_keyMaterialID p) = None
     \<and> lg_keyMaterials w' = (lg_keyMaterials w)(xa_keyMaterialID p \<mapsto> new_material (xa_keyMaterialID p) (xa_publicKey p))
     \<and> map_of (lg_certificates w) (ce_id (xa_certificate p)) = None
     \<and> lg_certificates w' = AList.update (ce_id (xa_certificate p)) (xa_certificate p) (lg_certificates w)
     \<and> map_of (lg_secrets w) (secret_key sec) = None
     \<and> lg_secrets w' = AList.update (secret_key sec) sec (lg_secrets w)
     \<and> (\<exists>st. lg_crlStates w' = (lg_crlStates w)(xa_keyGenerationID p \<mapsto> st) \<and> cs_revocationGeneration st = 0
          \<and> cs_publishedDocumentID st = [] \<and> cs_publicationState st = PublicationStateInactive)
     \<and> lg_series w' = lg_series w \<and> lg_revocationRows w' = lg_revocationRows w \<and> lg_deliveries w' = lg_deliveries w
     \<and> lg_settings w' = lg_settings w"

lemma create_rows_effect:
  assumes "create_rows cmd p sec w = (Inr a, w')"
  shows "authority_rows p sec a w w' \<and> a = new_authority (xa_kind p) (acr_Name cmd) (xa_authorityID p)
    (xa_parentAuthorityID p) (xa_keyGenerationID p) (xa_certificate p)"
proof -
  let ?c = "xa_certificate p" and ?i = "xa_authorityID p" and ?g = "xa_keyGenerationID p" and ?m = "xa_keyMaterialID p"
  from assms obtain pending w1 w2 w3 w4 w5 w6 w7 st where
    material: "InsertKeyMaterial (new_material ?m (xa_publicKey p)) w = (Inr (), w1)"
    and pending: "NewAuthority (create_facts p (acr_Name cmd)) = Inr pending"
    and authority: "InsertAuthority pending w1 = (Inr (), w2)"
    and secret: "InsertEncrypted sec w2 = (Inr (), w3)"
    and generation: "InsertKeyGeneration (new_generation ?g ?i ?m) w3 = (Inr (), w4)"
    and cert: "InsertCertificate ?c w4 = (Inr (), w5)"
    and rec: "\<exists>r. InsertCACertificateRecord r w5 = (Inr (), w6)"
    and new: "NewAuthority (create_facts p (acr_Name cmd)\<lparr>auf_IssuanceCertificateID := ce_id ?c,
        auf_CertificateWindow := ce_validity ?c\<rparr>) = Inr a"
    and linked: "SaveAuthority a (au_version pending) w6 = (Inr (), w7)"
    and st: "NewCRLState (create_crl_facts ?g) = Inr st" and state: "SaveState st 0 w7 = (Inr (), w')"
    by (simp add: create_rows_def Let_def tx_bind_iff tx_store_iff tx_domain_iff tx_return_iff new_material_def
        new_generation_def) blast
  have a: "a = new_authority (xa_kind p) (acr_Name cmd) ?i (xa_parentAuthorityID p) ?g ?c"
    using new by (simp add: success_iff create_facts_def new_authority_def authority_of_facts_def)
  have id: "au_id pending = ?i" "au_id a = ?i"
    using pending unfolding a by (simp_all add: success_iff create_facts_def new_authority_def authority_of_facts_def)
  have crl: "cs_caKeyGenerationID st = ?g" "cs_revocationGeneration st = 0" "cs_publishedDocumentID st = []"
    "cs_publicationState st = PublicationStateInactive"
    using st by (auto simp: NewCRLState_def success_iff create_crl_facts_def split: if_splits)
  from material have w1: "lg_keyMaterials w ?m = None \<and> w1 = with_material (new_material ?m (xa_publicKey p)) w"
    by (auto simp: InsertKeyMaterial_def tx_iff new_material_def with_material_def)
  from authority id have w2: "map_of (lg_authorities w1) ?i = None
      \<and> w2 = w1\<lparr>lg_authorities := AList.update ?i pending (lg_authorities w1)\<rparr>"
    by (auto simp: InsertAuthority_def tx_iff)
  from secret have w3: "map_of (lg_secrets w2) (secret_key sec) = None
      \<and> w3 = w2\<lparr>lg_secrets := AList.update (secret_key sec) sec (lg_secrets w2)\<rparr>"
    by (auto simp: InsertEncrypted_def tx_iff)
  from generation have w4: "lg_caKeyGenerations w3 ?g = None
      \<and> w4 = w3\<lparr>lg_caKeyGenerations := (lg_caKeyGenerations w3)(?g \<mapsto> new_generation ?g ?i ?m)\<rparr>"
    by (auto simp: InsertKeyGeneration_def tx_iff new_generation_def)
  from cert have w5: "map_of (lg_certificates w4) (ce_id ?c) = None
      \<and> w5 = w4\<lparr>lg_certificates := AList.update (ce_id ?c) ?c (lg_certificates w4),
           lg_certificatesByDER := (lg_certificatesByDER w4)(fp_hex (NewFingerprint (ce_der ?c)) \<mapsto> ce_id ?c)\<rparr>"
    by (auto simp: InsertCertificate_def tx_iff Let_def)
  from rec obtain rs where w6: "w6 = w5\<lparr>lg_caCertRecords := rs\<rparr>"
    by (auto simp: InsertCACertificateRecord_def tx_iff)
  from linked id have w7: "w7 = w6\<lparr>lg_authorities := AList.update ?i a (lg_authorities w6)\<rparr>"
    by (auto simp: SaveAuthority_def tx_iff)
  from state crl have w8: "w' = w7\<lparr>lg_crlStates := (lg_crlStates w7)(?g \<mapsto> st)\<rparr>"
    by (auto simp: SaveState_iff)
  show ?thesis using w1 w2 w3 w4 w5 crl
    by (auto simp: authority_rows_def w8 w7 w6 a [symmetric] with_material_def new_material_def update_conv')
qed

subsection \<open>Create\<close>

text \<open>What a creation stored, on the store it committed on.\<close>

definition may_certify :: "ledger \<Rightarrow> Instant \<Rightarrow> authorityCreatePrepared \<Rightarrow> bool" where
  "may_certify s now p \<longleftrightarrow> serial_unused s (ce_issuerCAKeyGenerationID (xa_certificate p)) (ce_serial (xa_certificate p))
     \<and> (if xa_kind p = AuthorityKindIntermediate then (\<exists>a. map_of (lg_authorities s) (xa_parentAuthorityID p) = Some a
          \<and> live_issuer s a \<and> ce_issuerCAKeyGenerationID (xa_certificate p) = au_keyGenerationID a
          \<and> CanIssue a (subordinate_context (ce_validity (xa_certificate p))) now = None)
        else ce_issuerCAKeyGenerationID (xa_certificate p) = xa_keyGenerationID p)"

definition fresh_authority ::
  "AuthorityCreateCommand \<Rightarrow> authorityCreatePrepared \<Rightarrow> Instant \<Rightarrow> Instant \<Rightarrow> ledger \<Rightarrow> AuthorityView \<Rightarrow> ledger \<Rightarrow> bool" where
  "fresh_authority cmd p now stored s v s' \<longleftrightarrow> may_certify s now p
     \<and> (\<exists>a sec. xa_generatedSecret p = Some sec \<and> a = new_authority (xa_kind p) (acr_Name cmd) (xa_authorityID p) (xa_parentAuthorityID p)
            (xa_keyGenerationID p) (xa_certificate p)
          \<and> authority_rows p sec a s s' \<and> v = toAuthorityView a stored)"

definition create_request ::
  "MutationMeta \<Rightarrow> AuthorityCreateCommand \<Rightarrow> Subject \<Rightarrow> KeyAlgorithm \<Rightarrow> OperationRequestKey \<Rightarrow> string \<Rightarrow> bool" where
  "create_request meta cmd subject alg key h \<longleftrightarrow> IsAdmin (rq_Principal meta) \<and> CreateCommand_Validate cmd = None
     \<and> DomainSubject cmd = Inr subject \<and> create_algorithm cmd = Inr alg
     \<and> InputHash authorityOperationCreate [] (Inr (authorityCreateHashInput cmd subject alg)) = Inr h
     \<and> RequestKey meta authorityOperationCreate = Inr key"

definition replayed_authority :: "OperationRequestKey \<Rightarrow> string \<Rightarrow> ledger \<Rightarrow> AuthorityView \<Rightarrow> bool" where
  "replayed_authority key h s v \<longleftrightarrow> (\<exists>row st a. lg_requestResults s key = Some row \<and> or_InputHash row = h
     \<and> decodeStoredAuthorityResult row = Inr st \<and> map_of (lg_authorities s) (sa_AuthorityID st) = Some a
     \<and> v = toAuthorityView a zero_instant)"

lemma replay_create_effect:
  assumes "replay_create key h s = (Inr e, s1)"
  shows "s1 = s \<and> (case e of None \<Rightarrow> lg_requestResults s key = None | Some v \<Rightarrow> replayed_authority key h s v)"
proof -
  from assms obtain q s2 where q: "ReplayStoredResult key h s = (Inr q, s2)"
    and rest: "(case q of None \<Rightarrow> tx_return None | Some r \<Rightarrow> tx_bind (tx_lift (decodeStoredAuthorityResult r)) (\<lambda>v.
          tx_bind (stored_authority_view v) (\<lambda>view. tx_return (Some view)))) s2 = (Inr e, s1)"
    by (auto simp: replay_create_def tx_bind_iff)
  from Replay_found [OF q] rest show ?thesis
    by (cases q) (auto simp: tx_iff stored_authority_view_def GetIssuerForUpdate_def replayed_authority_def)
qed

lemma create_commit_fresh:
  assumes run: "create_commit env meta cmd key h p now t s = (Inr v, s')"
    and ready: "create_ready env l cmd kind subject alg p"
  shows "fresh_authority cmd p now t s v s'"
proof -
  let ?a = "new_authority (xa_kind p) (acr_Name cmd) (xa_authorityID p) (xa_parentAuthorityID p) (xa_keyGenerationID p)
    (xa_certificate p)"
  from run obtain sec s1 a s2 s3 s4 where checks: "create_checks p now s = (Inr sec, s1)"
    and stored: "create_rows cmd p sec s1 = (Inr a, s2)"
    and result: "StoreRequestResult key h (Inr (stored_authority_json \<lparr>sa_SchemaVersion = authorityStoredResultSchemaVersion,
        sa_AuthorityID = xa_authorityID p\<rparr>)) s2 = (Inr (), s3)"
    and audit: "append_authority_audit env t meta ''authority.create'' (xa_authorityID p)
        [''kind'' \<mapsto> AuthorityKind_text (xa_kind p)] (xa_authorityID p) ''could not record the authority audit event'' s3
        = (Inr (), s4)"
    and v: "v = toAuthorityView a t" "s' = s4"
    by (auto simp: create_commit_def tx_bind_iff tx_return_iff)
  note found = create_checks_effect [OF checks]
  from create_rows_effect [OF stored] found
  have "a = ?a" "xa_generatedSecret p = Some sec" "authority_rows p sec ?a s s2" by auto
  moreover from result append_authority_effect [OF audit] v(2)
  have "authority_rows p sec ?a s s' = authority_rows p sec ?a s s2"
    by (auto simp: store_result_effect authority_rows_def)
  moreover have "may_certify s now p"
    using found ready by (auto simp: may_certify_def create_ready_def ca_certificate_def)
  ultimately show ?thesis using v(1) by (auto simp: fresh_authority_def)
qed

lemma commitCreate_cases:
  assumes "commitCreate env k meta cmd key h p t s = (Inr v, s')"
  shows "replayed_authority key h s v \<and> s' = s
    \<or> lg_requestResults s key = None
      \<and> create_commit env meta cmd key h p (iu_clock env k (3 * t + 2)) (iu_clock env k (3 * t + 3)) s = (Inr v, s')"
proof -
  from assms obtain e s1 where e: "replay_create key h s = (Inr e, s1)"
    and rest: "(case e of Some v \<Rightarrow> tx_return v
      | None \<Rightarrow> create_commit env meta cmd key h p (iu_clock env k (3 * t + 2)) (iu_clock env k (3 * t + 3))) s1 = (Inr v, s')"
    by (auto simp: commitCreate_def authorizeCreate_def tx_bind_iff tx_guard_iff simp del: add_2_eq_Suc'
        dest!: idD [OF credential_reads(1)])
  from replay_create_effect [OF e] rest show ?thesis by (cases e) (auto simp: tx_return_iff)
qed

lemma create_attempts_result:
  assumes "create_attempts env meta cmd kind subject alg key h n k reuse w = (Inr v, w')" and "seen env l (sg_store w)"
    and "\<And>q. reuse = Some q \<Longrightarrow> create_ready env l cmd kind subject alg q"
  shows "\<exists>kk prep t s. create_ready env l cmd kind subject alg prep \<and> commit_try env l kk t s
    \<and> commitCreate env kk meta cmd key h prep t s = (Inr v, sg_store w')"
  using assms
proof (induction n arbitrary: k reuse w)
  case (Suc n)
  then obtain prep w1 r w2 where prep: "prepareCreate env k meta cmd kind subject alg reuse w = (Inr prep, w1)"
    and wr: "retried_write zero_authority_view env k (commitCreate env k meta cmd key h prep) w1 = (r, w2)"
    and rest: "(case r of
       Inl err \<Rightarrow> if Is_rePrepare err then create_attempts env meta cmd kind subject alg key h n (Suc k) (Some prep)
         else tx_fail err
     | Inr v \<Rightarrow> tx_return v) w2 = (Inr v, w')"
    by (auto simp: tx_bind_iff tx_try_iff)
  have ready: "create_ready env l cmd kind subject alg prep"
    by (rule prepareCreate_result [OF prep Suc.prems(2)]) (rule Suc.prems(3))
  from tracelessD [OF prepareCreate_traceless prep Suc.prems(2)] have w1: "seen env l (sg_store w1)" .
  show ?case
  proof (cases r)
    case (Inl e)
    with rest have again: "create_attempts env meta cmd kind subject alg key h n (Suc k) (Some prep) w2 = (Inr v, w')"
      and "Is_rePrepare e" by (auto simp: tx_fail_iff split: if_splits)
    with wr Inl w1 have "seen env l (sg_store w2)" by (auto dest: stale_seen)
    with again show ?thesis using ready by (intro Suc.IH) auto
  next
    case (Inr v')
    with rest have "v' = v" "w2 = w'" by (auto simp: tx_return_iff)
    with retried_write_seen [OF wr w1] Inr
    have "\<exists>t s. commit_try env l k t s \<and> commitCreate env k meta cmd key h prep t s = (Inr v, sg_store w')" by simp
    with ready show ?thesis by blast
  qed
qed (simp add: tx_fail_iff)

text \<open>C9. What a successful \<open>Create\<close> did: on a store that came about from the one it started on only by what others
  committed, it replayed the result of the same request, with the authority as it is now, or it stored one new
  authority under fresh identifiers: a CA certificate with the requested subject and algorithm under an unused
  serial, signed by the authority's own new key for a root, and for an intermediate by the named parent, whose key
  is live and whose rules admit a subordinate CA with that period by the clock reading the storing commit \<open>t\<close> of
  attempt \<open>k\<close> took after it had locked the parent (\<open>3 * t + 2\<close>; \<open>0\<close> is the preparation's, \<open>3 * t + 1\<close> the session
  check's, \<open>3 * t + 3\<close> the stored rows'); its key generation, its key material, an empty CRL state, and as its
  encrypted CA key the very secret the engine answered, with the public key of the material, for exactly this key
  material, algorithm and the CA signing purpose. The new authority is in the inventory state: no
  certificate can be issued under it, at any time, until it is enabled.\<close>

theorem create_sound:
  assumes run: "Create env meta cmd w = (Inr v, w')"
  shows "\<exists>subject alg key h s. create_request meta cmd subject alg key h \<and> seen env (sg_store w) s
    \<and> (replayed_authority key h s v \<and> sg_store w' = s
       \<or> lg_requestResults s key = None
         \<and> (\<exists>p k t. create_ready env (sg_store w) cmd (acr_Kind cmd) subject alg p \<and> commit_try env (sg_store w) k t s
             \<and> fresh_authority cmd p (iu_clock env k (3 * t + 2)) (iu_clock env k (3 * t + 3)) s v (sg_store w')
             \<and> (\<exists>a. map_of (lg_authorities (sg_store w')) (av_ID v) = Some a \<and> (\<forall>ctx t. CanIssue a ctx t \<noteq> None))))"
proof -
  have kind: "DomainKind cmd = Inr x \<Longrightarrow> x = acr_Kind cmd" for x
    by (auto simp: DomainKind_def Let_def check_then_def split: option.splits if_splits)
  have mapped: "map_sum f id m = Inr x \<longleftrightarrow> m = Inr x" for f :: "domain_error \<Rightarrow> go_error" and m x by (cases m) auto
  from run obtain subject alg key h e w1 where req: "create_request meta cmd subject alg key h"
    and e: "replayCreateBeforePreparation env key h (rq_Principal meta) (create_scope (acr_Kind cmd) cmd) w = (Inr e, w1)"
    and rest: "(case e of Some v \<Rightarrow> tx_return v
       | None \<Rightarrow> create_attempts env meta cmd (acr_Kind cmd) subject alg key h maxSerialAttempts 1 None) w1 = (Inr v, w')"
    unfolding Create_def create_request_def
    by (auto simp: tx_bind_iff tx_guard_iff tx_lift_iff tx_fail_iff mapped dest!: kind split: if_splits sum.splits
        simp del: One_nat_def)
  have "traceless env (replayCreateBeforePreparation env key h p sc)" for p sc
    unfolding replayCreateBeforePreparation_def authorizeCreate_def
    by (intro traceless_intro traceless_reads keeps_intro credential_reads replay_create_reads)
  from tracelessD [OF this e seen_start] have w1: "seen env (sg_store w) (sg_store w1)" .
  show ?thesis
  proof (cases e)
    case (Some v')
    with rest have "v' = v" "w' = w1" by (simp_all add: tx_return_iff)
    with e Some have "\<exists>s. replay_create key h s = (Inr (Some v), sg_store w')"
      by (auto simp: replayCreateBeforePreparation_def tx_bind_iff in_store_iff)
    then obtain s where "replay_create key h s = (Inr (Some v), sg_store w')" ..
    from replay_create_effect [OF this] have "replayed_authority key h s v" "sg_store w' = s" by simp_all
    with req w1 \<open>w' = w1\<close> show ?thesis by blast
  next
    case None
    with rest have "create_attempts env meta cmd (acr_Kind cmd) subject alg key h maxSerialAttempts 1 None w1 = (Inr v, w')"
      by simp
    from create_attempts_result [OF this w1] obtain k p t s
      where ready: "create_ready env (sg_store w) cmd (acr_Kind cmd) subject alg p" and s: "commit_try env (sg_store w) k t s"
      and commit: "commitCreate env k meta cmd key h p t s = (Inr v, sg_store w')" by auto
    from commitCreate_cases [OF commit] show ?thesis
    proof
      assume "replayed_authority key h s v \<and> sg_store w' = s"
      with req commit_try_seen [OF s] show ?thesis by blast
    next
      assume new: "lg_requestResults s key = None \<and> create_commit env meta cmd key h p (iu_clock env k (3 * t + 2))
        (iu_clock env k (3 * t + 3)) s = (Inr v, sg_store w')"
      then have fresh: "fresh_authority cmd p (iu_clock env k (3 * t + 2)) (iu_clock env k (3 * t + 3)) s v (sg_store w')"
        using create_commit_fresh [OF _ ready] by blast
      then obtain a where "map_of (lg_authorities (sg_store w')) (av_ID v) = Some a" "au_issuanceState a = IssuanceStateInventory"
        by (auto simp: fresh_authority_def authority_rows_def new_authority_def toAuthorityView_def)
      moreover from this have "CanIssue a ctx t \<noteq> None" for ctx t by (auto simp: success_iff)
      ultimately show ?thesis using req s commit_try_seen [OF s] new ready fresh by blast
    qed
  qed
qed

end
