(* ===== verification/Authority_Samples.thy ===== *)
theory Authority_Samples
  imports Create_Safety Issuance_Samples
begin

text \<open>
  The installation of \<open>Issuance_Samples\<close> with its authority stopped: its key, which signed no other
  certificate, can be destroyed; and a new root can be created beside it.
\<close>

definition sample_stopped_ca :: Authority where
  "sample_stopped_ca = sample_ca\<lparr>au_issuanceState := IssuanceStateStopped, au_version := 4\<rparr>"

definition sample_stopped :: ledger where
  "sample_stopped = sample_installation\<lparr>lg_authorities := [(sample_uuid CHR ''a'', sample_stopped_ca)]\<rparr>"

definition sample_destroy :: AuthorityDestroyKeyCommand where
  "sample_destroy = \<lparr>adk_AuthorityID = sample_uuid CHR ''a'', adk_KeyGenerationID = sample_uuid CHR ''d'',
     adk_Justification = ''retired''\<rparr>"

definition sample_destroy_meta :: MutationMeta where
  "sample_destroy_meta = sample_issue_meta\<lparr>mm_ExpectedVersion := Some 4\<rparr>"

lemma sample_uuids [simp]: "sample_uuid a = sample_uuid b \<longleftrightarrow> a = b" "sample_uuid a \<noteq> []"
  by (auto simp: sample_uuid_def numeral_eq_Suc)

lemma sample_stopped_simps [simp]:
  "au_id sample_stopped_ca = sample_uuid CHR ''a''" "au_keyGenerationID sample_stopped_ca = sample_uuid CHR ''d''"
  "au_issuanceCertificateID sample_stopped_ca = sample_uuid CHR ''c''" "au_version sample_stopped_ca = 4"
  "au_keyAvailable sample_stopped_ca" "au_issuanceState sample_stopped_ca = IssuanceStateStopped"
  "au_kind sample_stopped_ca = AuthorityKindIntermediate"
  by (simp_all add: sample_stopped_ca_def sample_ca_def sample_authority_def)

lemma sample_stopped_rows [simp]:
  "lg_authorities sample_stopped = [(sample_uuid CHR ''a'', sample_stopped_ca)]"
  "lg_caKeyGenerations sample_stopped = lg_caKeyGenerations sample_installation"
  "lg_certificates sample_stopped = lg_certificates sample_installation"
  "lg_secrets sample_stopped = lg_secrets sample_installation"
  "lg_accounts sample_stopped = lg_accounts sample_installation"
  "lg_sessions sample_stopped = lg_sessions sample_installation"
  by (simp_all add: sample_stopped_def)

lemma sample_destroys: "\<exists>v s. Authority_DestroyKey sample_issuance_env sample_destroy_meta sample_destroy sample_stopped = (Inr v, s)"
proof -
  have valid: "DestroyKeyCommand_Validate sample_destroy = None" by code_simp
  have admin: "admin_version sample_destroy_meta d w = (Inr 4, w)" for d w
    by (simp add: admin_version_def RequireExpectedVersion_def sample_destroy_meta_def run_defs) code_simp
  have cmd: "adk_AuthorityID sample_destroy = sample_uuid CHR ''a''" "adk_KeyGenerationID sample_destroy = sample_uuid CHR ''d''"
    "rq_Principal sample_destroy_meta = sample_operator"
    by (simp_all add: sample_destroy_def sample_destroy_meta_def sample_issue_meta_def)
  have auth: "requireCurrentAuth sample_operator (Instant 20) sample_stopped = (Inr (), sample_stopped)"
    by (rule sample_auth_now) simp_all
  have closure: "authorityClosureFacts sample_stopped_ca (Instant 20) sample_stopped
      = (Inr \<lparr>cf_AllDependentCertificatesExpired = True, cf_RequiredCRLsPublished = True\<rparr>, sample_stopped)"
    by (simp add: authorityClosureFacts_def ListCertificatesByIssuer_def run_defs isHistoryOnlyCA_def)
  have scope: "AuditScope_Validate (NewAuthoritiesAuditScope [sample_uuid CHR ''a'']) = None"
    by (simp add: AuditScope_Validate_def NewAuthoritiesAuditScope_def ParseID_Inr)
  show ?thesis
    by (simp add: Authority_DestroyKey_def bind_front valid)
      (simp add: run_defs admin authority_write_def uow_write_def destroy_commit_def Let_def cmd open_authority_def auth
      read_authority_def GetIssuerForUpdate_def authorityScopeFromRow_def read_generation_def GetCAKeyGeneration_def
      Instant_IsZero_iff closure DestroyKey_def CanDestroyKey_def check_then_def SaveCAKeyGeneration_def Secrets_Delete_def
      save_authority_def SaveAuthority_def append_authority_audit_def Audit_Append_def NewUUID_def scope)
qed

theorem destroy_key_sound_witness:
  "\<exists>v s. Authority_DestroyKey sample_issuance_env sample_destroy_meta sample_destroy sample_stopped = (Inr v, s)
     \<and> (\<exists>a. key_destroyed a sample_destroy (Instant 20) sample_stopped s)"
proof -
  obtain v s where run: "Authority_DestroyKey sample_issuance_env sample_destroy_meta sample_destroy sample_stopped = (Inr v, s)"
    using sample_destroys by blast
  from destroy_key_sound [OF run] have "\<exists>a. key_destroyed a sample_destroy (Instant 20) sample_stopped s" by auto
  with run show ?thesis by blast
qed


subsection \<open>A new root\<close>

definition sample_create :: AuthorityCreateCommand where
  "sample_create = \<lparr>acr_Kind = AuthorityKindRoot, acr_Name = ''root'', acr_ParentAuthorityID = [],
     acr_Subject = \<lparr>si_CommonName = ''root'', si_Organization = [], si_OrganizationalUnit = [], si_Country = []\<rparr>,
     acr_KeyAlgorithm = KeyAlgorithmECDSAP256, acr_Validity = Some \<lparr>vi_Value = 1, vi_Unit = ValidityUnitDays\<rparr>\<rparr>"

abbreviation (input) sample_root_subject :: Subject where
  "sample_root_subject \<equiv> \<lparr>su_commonName = ''root'', su_organization = [], su_organizationalUnit = [], su_country = []\<rparr>"

lemma sample_create_simps [simp]:
  "acr_Kind sample_create = AuthorityKindRoot" "acr_Name sample_create = ''root''"
  "acr_Validity sample_create = Some \<lparr>vi_Value = 1, vi_Unit = ValidityUnitDays\<rparr>"
  "create_scope AuthorityKindRoot sample_create = []" "rq_Principal sample_issue_meta = sample_operator"
  by (simp_all add: sample_create_def create_scope_def sample_issue_meta_def)

lemma sample_create_request:
  "\<exists>key h. RequestKey sample_issue_meta authorityOperationCreate = Inr key
     \<and> InputHash authorityOperationCreate [] (Inr (authorityCreateHashInput sample_create sample_root_subject
          KeyAlgorithmECDSAP256)) = Inr h \<and> h \<noteq> []"
proof -
  have "canonical_uuid (sample_uuid CHR ''9'')" by code_simp
  then have "parseIdempotencyKey (sample_uuid CHR ''9'') = Inr (sample_uuid CHR ''9'')"
    by (simp add: parseIdempotencyKey_Inr)
  then have "\<exists>key. RequestKey sample_issue_meta authorityOperationCreate = Inr key"
    by (simp add: RequestKey_def RequireIdempotencyKey_def sample_issue_meta_def and_then_Inr)
  moreover have "sha256_hex t \<noteq> []" for t using length_sha256_hex [of t] by fastforce
  ultimately show ?thesis by (simp add: InputHash_def authorityOperationCreate_def)
qed

lemma sample_no_five [simp]:
  "lg_crlStates sample_installation = Map.empty" "map_of (lg_authorities sample_installation) (sample_uuid CHR ''5'') = None"
  "lg_caKeyGenerations sample_installation (sample_uuid CHR ''5'') = None"
  "map_of (lg_caCertRecords sample_installation) (sample_uuid CHR ''5'') = None"
  by (simp_all add: sample_installation_def sample_login_store_def newState_def)

lemma sample_root_ids [simp]:
  "ParseCAKeyGenerationID (sample_uuid CHR ''5'') = Inr (sample_uuid CHR ''5'')"
  "ParseAuthorityID (sample_uuid CHR ''5'') = Inr (sample_uuid CHR ''5'')"
  by (simp_all add: ParseID_Inr)

lemma sample_create_prepares:
  "\<exists>prep w. prepareCreate sample_issuance_env k sample_issue_meta sample_create AuthorityKindRoot sample_root_subject
       KeyAlgorithmECDSAP256 None sample_world = (Inr prep, w)
     \<and> sg_store w = sample_installation\<lparr>lg_uuids := 4\<rparr> \<and> xa_kind prep = AuthorityKindRoot
     \<and> xa_settingsVersion prep = None \<and> xa_parentAuthorityID prep = [] \<and> xa_authorityID prep = sample_uuid CHR ''5''
     \<and> xa_keyGenerationID prep = sample_uuid CHR ''5'' \<and> xa_keyMaterialID prep = sample_uuid CHR ''5''
     \<and> ip_IssuerKeyGenerationID (xa_plan prep) = sample_uuid CHR ''5''
     \<and> ce_id (xa_certificate prep) = sample_uuid CHR ''5'' \<and> ce_serial (xa_certificate prep) = SerialNumber ''7''
     \<and> xa_generatedSecret prep = Some (sample_ca_secret\<lparr>es_ownerKeyID := sample_uuid CHR ''5'',
          es_purpose := SecretPurposeCASigning\<rparr>)"
proof -
  have validity: "ValidityInput_Domain \<lparr>vi_Value = 1, vi_Unit = ValidityUnitDays\<rparr>
      = Inr \<lparr>cv_value = 1, cv_unit = ValidityUnitDays\<rparr>" by (rule returnsD) code_simp
  have window: "Window \<lparr>cv_value = 1, cv_unit = ValidityUnitDays\<rparr> (x509NotBefore (Instant 20)) = Inr sample_leaf_window"
    by (rule returnsD) code_simp
  show ?thesis
    by (simp add: prepareCreate_def Let_def run_defs others_def in_store_def create_reads_def
        resolveAuthorityCreateValidity_def validity window sample_world_def create_ids_def NewUUID_def create_plan_def
        create_key_def self_signed_def resolveSigningKey_def Generate_def newSerial_def NewSerial_def signCertificate_def
        Sign_def sample_signature_ok)
      (simp add: sample_signature_def sample_key_def numeral_eq_Suc)
qed

lemma sample_create_commits:
  assumes prep: "xa_kind prep = AuthorityKindRoot" "xa_settingsVersion prep = None" "xa_parentAuthorityID prep = []"
      "xa_authorityID prep = sample_uuid CHR ''5''" "xa_keyGenerationID prep = sample_uuid CHR ''5''"
      "xa_keyMaterialID prep = sample_uuid CHR ''5''" "ip_IssuerKeyGenerationID (xa_plan prep) = sample_uuid CHR ''5''"
      "ce_id (xa_certificate prep) = sample_uuid CHR ''5''" "ce_serial (xa_certificate prep) = SerialNumber ''7''"
      "xa_generatedSecret prep = Some (sample_ca_secret\<lparr>es_ownerKeyID := sample_uuid CHR ''5'',
          es_purpose := SecretPurposeCASigning\<rparr>)"
    and h: "h \<noteq> []"
  shows "\<exists>v s. commitCreate sample_issuance_env k sample_issue_meta sample_create key h prep t
    (sample_installation\<lparr>lg_uuids := 4\<rparr>) = (Inr v, s)"
proof -
  let ?s = "sample_installation\<lparr>lg_uuids := 4\<rparr>"
  have auth: "requireCurrentAuth sample_operator (Instant 20) ?s = (Inr (), ?s)"
    by (simp add: sample_auth_now)
  have replay: "replay_create key h ?s = (Inr None, ?s)"
    using h by (simp add: replay_create_def Replay_result run_defs)
  have checks: "create_checks prep (Instant 20) ?s = (Inr (sample_ca_secret\<lparr>es_ownerKeyID := sample_uuid CHR ''5'',
          es_purpose := SecretPurposeCASigning\<rparr>), ?s)"
    by (simp add: create_checks_def create_parent_check_def run_defs prep ensureSerialUnused_def SerialExists_def
        issued_by_def SerialNumber_Equal_def)
  have scope: "AuditScope_Validate (NewAuthoritiesAuditScope [sample_uuid CHR ''5'']) = None"
    by (simp add: AuditScope_Validate_def NewAuthoritiesAuditScope_def ParseID_Inr)
  have facts: "\<exists>a. NewAuthority (create_facts prep ''root''\<lparr>auf_IssuanceCertificateID := i, auf_CertificateWindow := win\<rparr>)
      = Inr a \<and> au_id a = sample_uuid CHR ''5'' \<and> au_version a = 0" for i win
    by (simp add: NewAuthority_Inr authority_ok_def authority_of_facts_def create_facts_def prep)
  from facts [where i = "[]" and win = zero_window] obtain a where a: "NewAuthority (create_facts prep ''root'') = Inr a"
    "au_id a = sample_uuid CHR ''5''" "au_version a = 0" by (auto simp: create_facts_def)
  from facts [where i = "sample_uuid CHR ''5''" and win = "ce_validity (xa_certificate prep)"] obtain b where b:
    "NewAuthority (create_facts prep ''root''\<lparr>auf_IssuanceCertificateID := sample_uuid CHR ''5'',
       auf_CertificateWindow := ce_validity (xa_certificate prep)\<rparr>) = Inr b" "au_id b = sample_uuid CHR ''5''" by blast
  show ?thesis
    by (simp add: commitCreate_def run_defs auth authorizeCreate_def prep replay create_commit_def checks create_rows_def
      Let_def a b InsertKeyMaterial_def InsertAuthority_def InsertEncrypted_def
      secret_key_def InsertKeyGeneration_def InsertCertificate_def InsertCACertificateRecord_def SaveAuthority_def
      NewCRLState_def create_crl_facts_def check_then_def SaveState_def StoreRequestResult_def InsertResult_def
      append_authority_audit_def Audit_Append_def NewUUID_def scope)
qed

lemma sample_create_runs: "\<exists>v w. Create sample_issuance_env sample_issue_meta sample_create sample_world = (Inr v, w)"
proof -
  obtain key h where key: "RequestKey sample_issue_meta authorityOperationCreate = Inr key"
    and hash: "InputHash authorityOperationCreate [] (Inr (authorityCreateHashInput sample_create sample_root_subject
          KeyAlgorithmECDSAP256)) = Inr h" and h: "h \<noteq> []"
    using sample_create_request by blast
  obtain prep w where prepare: "prepareCreate sample_issuance_env 1 sample_issue_meta sample_create AuthorityKindRoot
      sample_root_subject KeyAlgorithmECDSAP256 None sample_world = (Inr prep, w)"
    and w: "sg_store w = sample_installation\<lparr>lg_uuids := 4\<rparr>"
    and prep: "xa_kind prep = AuthorityKindRoot" "xa_settingsVersion prep = None" "xa_parentAuthorityID prep = []"
      "xa_authorityID prep = sample_uuid CHR ''5''" "xa_keyGenerationID prep = sample_uuid CHR ''5''"
      "xa_keyMaterialID prep = sample_uuid CHR ''5''" "ip_IssuerKeyGenerationID (xa_plan prep) = sample_uuid CHR ''5''"
      "ce_id (xa_certificate prep) = sample_uuid CHR ''5''" "ce_serial (xa_certificate prep) = SerialNumber ''7''"
      "xa_generatedSecret prep = Some (sample_ca_secret\<lparr>es_ownerKeyID := sample_uuid CHR ''5'',
          es_purpose := SecretPurposeCASigning\<rparr>)"
    using sample_create_prepares [of 1] by blast
  obtain v s where commit: "commitCreate sample_issuance_env 1 sample_issue_meta sample_create key h prep 0
    (sample_installation\<lparr>lg_uuids := 4\<rparr>) = (Inr v, s)" using sample_create_commits [OF prep h] by blast
  have "retried_write zero_authority_view sample_issuance_env 1
      (commitCreate sample_issuance_env 1 sample_issue_meta sample_create key h prep) w = (Inr v, w\<lparr>sg_store := s\<rparr>)"
    using commit
    by (simp add: retried_write_def RunWithRetry_def one_write_def in_store_def uow_write_def w
        maxPreparationAttempts_def numeral_eq_Suc)
  moreover have "replayCreateBeforePreparation sample_issuance_env key h sample_operator [] sample_world
      = (Inr None, sample_world)"
    using h by (simp add: replayCreateBeforePreparation_def others_def in_store_def run_defs sample_world_def sample_auth_now
        authorizeCreate_def replay_create_def Replay_result)
  moreover have "CreateCommand_Validate sample_create = None" by code_simp
  moreover have "IsAdmin sample_operator" by code_simp
  moreover have "DomainKind sample_create = Inr AuthorityKindRoot" by (simp add: DomainKind_def check_then_def)
  moreover have "DomainSubject sample_create = Inr sample_root_subject" by (rule returnsD) code_simp
  moreover have "create_algorithm sample_create = Inr KeyAlgorithmECDSAP256"
    by (simp add: create_algorithm_def sample_create_def optional_algorithm_def check_then_def)
  ultimately show ?thesis using key hash
    by (simp add: Create_def bind_front issuance_canceled_def)
      (simp add: run_defs maxSerialAttempts_def numeral_eq_Suc prepare [unfolded One_nat_def])
qed

theorem create_sound_witness:
  "\<exists>v w. Create sample_issuance_env sample_issue_meta sample_create sample_world = (Inr v, w)
     \<and> (\<exists>p s. fresh_authority sample_create p (Instant 20) (Instant 20) s v (sg_store w))"
proof -
  obtain v w where run: "Create sample_issuance_env sample_issue_meta sample_create sample_world = (Inr v, w)"
    using sample_create_runs by blast
  from create_sound [OF run, unfolded sample_issuance_simps] obtain key h s where s: "seen sample_issuance_env (sg_store sample_world) s"
    and result: "replayed_authority key h s v \<or> (\<exists>p. fresh_authority sample_create p (Instant 20) (Instant 20) s v (sg_store w))"
    by blast
  have "s\<lparr>lg_uuids := 0\<rparr> = sample_installation\<lparr>lg_uuids := 0\<rparr>"
    using seen_quiet [OF s] by (simp add: sample_world_def)
  from arg_cong [where f = lg_requestResults, OF this] have "lg_requestResults s = Map.empty" by simp
  with result have "\<exists>p. fresh_authority sample_create p (Instant 20) (Instant 20) s v (sg_store w)" by (auto simp: replayed_authority_def)
  with run show ?thesis by blast
qed

end
