(* ===== verification/Query_Input.thy ===== *)
theory Query_Input
  imports Authority_Input
begin

text \<open>
  \<open>internal/app/contract/query.go\<close>: the filters of the list and get queries and their validation. A filter that
  may be absent is an option, as it is a pointer in the code.
\<close>

definition or_none :: "('a \<Rightarrow> domain_error option) \<Rightarrow> 'a option \<Rightarrow> go_error option" where
  "or_none check x = Option.bind x (\<lambda>v. map_option from_domain (check v))"

definition requireNoDomainError :: "domain_error + 'a \<Rightarrow> go_error option" where
  "requireNoDomainError r = map_option from_domain (err_of r)"

subsection \<open>Pages and searches\<close>

definition defaultPageLimit :: int64 where "defaultPageLimit = 50"
definition maxPageLimit :: int64 where "maxPageLimit = 200"
definition maxSearchLength :: nat where "maxSearchLength = 255"

record PageRequest =
  pq_Cursor :: string
  pq_Limit :: int64

definition normalized :: "PageRequest \<Rightarrow> go_error + PageRequest" where
  "normalized p =
     (if length (pq_Cursor p) > 4096
        then Inl (app_error ErrorKindValidation ''cursor_invalid'' ''cursor is too long'')
      else
        let limit = (if pq_Limit p = 0 then defaultPageLimit else pq_Limit p) in
        if limit < 1 \<or> limit > maxPageLimit
          then Inl (app_error ErrorKindValidation ''limit_invalid'' ''limit must be between 1 and 200'')
        else Inr \<lparr>pq_Cursor = pq_Cursor p, pq_Limit = limit\<rparr>)"

definition validateSearch :: "string \<Rightarrow> go_error option" where
  "validateSearch search =
     (if length search > maxSearchLength
        then Some (app_error ErrorKindValidation ''search_too_long'' ''q must be at most 255 characters'') else None)"

record 'a Page =
  pg_Items :: "'a list"
  pg_NextCursor :: "string option"

subsection \<open>Queries\<close>

record AuthorityListQuery =
  alq_Search :: string
  alq_Page :: PageRequest

definition AuthorityListQuery_Validate :: "AuthorityListQuery \<Rightarrow> go_error option" where
  "AuthorityListQuery_Validate q = or_else_err (validateSearch (alq_Search q)) (err_of (normalized (alq_Page q)))"

definition AuthorityGetQuery_Validate :: "AuthorityID \<Rightarrow> go_error option" where
  "AuthorityGetQuery_Validate i = requireNoDomainError (ParseAuthorityID i)"

record SeriesListQuery =
  slq_Search :: string
  slq_AuthorityID :: "AuthorityID option"
  slq_Page :: PageRequest

definition SeriesListQuery_Validate :: "SeriesListQuery \<Rightarrow> go_error option" where
  "SeriesListQuery_Validate q =
     or_else_err (validateSearch (slq_Search q))
     (or_else_err (or_none (err_of \<circ> ParseAuthorityID) (slq_AuthorityID q)) (err_of (normalized (slq_Page q))))"

definition SeriesGetQuery_Validate :: "SeriesID \<Rightarrow> go_error option" where
  "SeriesGetQuery_Validate i = requireNoDomainError (ParseSeriesID i)"

record CertificateListQuery =
  clq_Search :: string
  clq_AuthorityID :: "AuthorityID option"
  clq_ExpiresBefore :: "Instant option"
  clq_Revoked :: "bool option"
  clq_Affected :: "bool option"
  clq_Page :: PageRequest

definition CertificateListQuery_Validate :: "CertificateListQuery \<Rightarrow> go_error option" where
  "CertificateListQuery_Validate q =
     or_else_err (validateSearch (clq_Search q))
     (or_else_err (or_none (err_of \<circ> ParseAuthorityID) (clq_AuthorityID q)) (err_of (normalized (clq_Page q))))"

definition CertificateGetQuery_Validate :: "CertificateID \<Rightarrow> go_error option" where
  "CertificateGetQuery_Validate i = requireNoDomainError (ParseCertificateID i)"

record RevocationListQuery =
  rlq_Search :: string
  rlq_AuthorityID :: "AuthorityID option"
  rlq_SerialHex :: string
  rlq_Page :: PageRequest

definition RevocationListQuery_Validate :: "RevocationListQuery \<Rightarrow> go_error option" where
  "RevocationListQuery_Validate q =
     or_else_err (validateSearch (rlq_Search q))
     (or_else_err (or_none (err_of \<circ> ParseAuthorityID) (rlq_AuthorityID q))
     (or_else_err (if rlq_SerialHex q \<noteq> [] then map_option from_domain (err_of (ParseSerialNumber (rlq_SerialHex q))) else None)
      (err_of (normalized (rlq_Page q)))))"

definition RevocationGetQuery_Validate :: "RevocationID \<Rightarrow> go_error option" where
  "RevocationGetQuery_Validate i = requireNoDomainError (ParseRevocationID i)"

record TransitionListQuery =
  tlq_Search :: string
  tlq_Page :: PageRequest

definition TransitionListQuery_Validate :: "TransitionListQuery \<Rightarrow> go_error option" where
  "TransitionListQuery_Validate q = or_else_err (validateSearch (tlq_Search q)) (err_of (normalized (tlq_Page q)))"

definition TransitionGetQuery_Validate :: "TransitionID \<Rightarrow> go_error option" where
  "TransitionGetQuery_Validate i = requireNoDomainError (ParseTransitionID i)"

text \<open>\<open>ImportListQuery\<close> and \<open>JobListQuery\<close> have the page as their one field.\<close>

definition ImportListQuery_Validate :: "PageRequest \<Rightarrow> go_error option" where
  "ImportListQuery_Validate p = err_of (normalized p)"

definition ImportGetQuery_Validate :: "string \<Rightarrow> go_error option" where
  "ImportGetQuery_Validate i =
     (if length i \<noteq> 36 then Some (app_error ErrorKindValidation ''import_id_invalid'' ''import id must be a uuid'') else None)"

definition JobListQuery_Validate :: "PageRequest \<Rightarrow> go_error option" where
  "JobListQuery_Validate p = err_of (normalized p)"

definition JobGetQuery_Validate :: "JobID \<Rightarrow> go_error option" where
  "JobGetQuery_Validate i = requireNoDomainError (ParseJobID i)"

record AuditFilter =
  af_From :: "Instant option"
  af_Until :: "Instant option"
  af_AccountID :: "AccountID option"
  af_AuthorityID :: "AuthorityID option"
  af_CertificateID :: "CertificateID option"
  af_Action :: string
  af_ClientIP :: string
  af_Result :: "string option"

definition maxAuditActionLength :: nat where "maxAuditActionLength = 255"

definition range_error :: "Instant option \<Rightarrow> Instant option \<Rightarrow> go_error option" where
  "range_error lower upper =
     (case (lower, upper) of
        (Some f, Some u) \<Rightarrow>
          if Before u f then Some (app_error ErrorKindValidation ''audit_range_invalid'' ''until must not be before from'') else None
      | _ \<Rightarrow> None)"

definition AuditFilter_validate :: "AuditFilter \<Rightarrow> go_error option" where
  "AuditFilter_validate f =
     or_else_err (range_error (af_From f) (af_Until f))
     (or_else_err (or_none (err_of \<circ> ParseAccountID) (af_AccountID f))
     (or_else_err (or_none (err_of \<circ> ParseAuthorityID) (af_AuthorityID f))
     (or_else_err (or_none (err_of \<circ> ParseCertificateID) (af_CertificateID f))
     (or_else_err (if length (af_Action f) > maxAuditActionLength
        then Some (app_error ErrorKindValidation ''audit_action_too_long'' ''action must be at most 255 characters'') else None)
     (case af_Result f of
        None \<Rightarrow> None
      | Some r \<Rightarrow> if r = ''success'' \<or> r = ''failure'' then None
          else Some (app_error ErrorKindValidation ''audit_result_invalid'' ''result must be success or failure''))))))"

record AuditListQuery =
  adq_Filter :: AuditFilter
  adq_Page :: PageRequest

definition AuditListQuery_Validate :: "AuditListQuery \<Rightarrow> go_error option" where
  "AuditListQuery_Validate q = or_else_err (AuditFilter_validate (adq_Filter q)) (err_of (normalized (adq_Page q)))"

datatype AuditExportFormat = AuditExportFormatJSON | AuditExportFormatCSV | AuditExportFormatOther string

fun AuditExportFormat_Validate :: "AuditExportFormat \<Rightarrow> domain_error option" where
  "AuditExportFormat_Validate (AuditExportFormatOther _) =
     Some (Wrapped ErrInvalidValue ''unsupported audit export format'')"
| "AuditExportFormat_Validate _ = None"

record AuditExportQuery =
  aeq_Filter :: AuditFilter
  aeq_Format :: AuditExportFormat

definition AuditExportQuery_Validate :: "AuditExportQuery \<Rightarrow> go_error option" where
  "AuditExportQuery_Validate q =
     or_else_err (AuditFilter_validate (aeq_Filter q)) (map_option from_domain (AuditExportFormat_Validate (aeq_Format q)))"

definition GetCRLStatusQuery_Validate :: "CAKeyGenerationID \<Rightarrow> go_error option" where
  "GetCRLStatusQuery_Validate i = requireNoDomainError (ParseCAKeyGenerationID i)"

definition ReadPublicCAQuery_Validate :: "AuthorityID \<Rightarrow> go_error option" where
  "ReadPublicCAQuery_Validate i = requireNoDomainError (ParseAuthorityID i)"

lemma normalized_limit: "normalized p = Inr q \<Longrightarrow> 1 \<le> pq_Limit q \<and> pq_Limit q \<le> 200 \<and> pq_Cursor q = pq_Cursor p"
  by (auto simp: normalized_def maxPageLimit_def Let_def split: if_splits)

end
