(* ===== verification/Query_Store.thy ===== *)
theory Query_Store
  imports Query_Input "HOL-Library.Sublist"
begin

text \<open>
  The read side of the store (\<open>internal/app/port/queries.go\<close>, \<open>internal/app/porttest/queries.go\<close>): listings that are
  narrowed to a scope, filtered, sorted by identifier and cut into pages, and lookups that answer not-found alike for
  what does not exist and for what the reader may not see. Import batches are not tables of the model. \<open>lower\<close> is
  \<open>strings.ToLower\<close>, whose tables of letters outside ASCII are not modelled.
\<close>

subsection \<open>Scopes\<close>

record QueryScope =
  qs_All :: bool
  qs_AuthorityIDs :: "AuthorityID list"
  qs_Public :: bool

definition visible :: "QueryScope \<Rightarrow> AuthorityID \<Rightarrow> bool" where
  "visible scope authorityID \<longleftrightarrow> qs_All scope \<or> authorityID \<in> set (qs_AuthorityIDs scope)"

definition visibleAll :: "QueryScope \<Rightarrow> AuthorityID list \<Rightarrow> bool" where
  "visibleAll scope authorityIDs \<longleftrightarrow> qs_All scope \<or> (authorityIDs \<noteq> [] \<and> list_all (visible scope) authorityIDs)"

definition certificateAuthority :: "ledger \<Rightarrow> CertificateID \<Rightarrow> AuthorityID" where
  "certificateAuthority w i =
     (case lg_leafCertRecords w i of
        Some leaf \<Rightarrow> (case lg_series w (lr_SeriesID leaf) of Some s \<Rightarrow> ls_managementAuthorityID s | None \<Rightarrow> [])
      | None \<Rightarrow>
          (case map_of (lg_caCertRecords w) i of
             Some ca \<Rightarrow> (case lg_caKeyGenerations w (cr_CAKeyGenerationID ca) of Some g \<Rightarrow> cg_AuthorityID g | None \<Rightarrow> [])
           | None \<Rightarrow> []))"

definition issuerAuthority :: "ledger \<Rightarrow> CAKeyGenerationID \<Rightarrow> AuthorityID" where
  "issuerAuthority w issuer = (case lg_caKeyGenerations w issuer of Some g \<Rightarrow> cg_AuthorityID g | None \<Rightarrow> [])"

subsection \<open>Paging\<close>

definition paginate :: "'a list \<Rightarrow> PageRequest \<Rightarrow> ('a \<Rightarrow> string) \<Rightarrow> 'a Page" where
  "paginate items page keyOf =
     (let limit = (if pq_Limit page \<le> 0 then 50 else pq_Limit page);
          rest = (if pq_Cursor page \<noteq> [] then dropWhile (\<lambda>x. keyOf x \<le> pq_Cursor page) items else items)
      in if limit < int (length rest)
           then let out = take (nat limit) rest in \<lparr>pg_Items = out, pg_NextCursor = Some (keyOf (last out))\<rparr>
         else \<lparr>pg_Items = rest, pg_NextCursor = None\<rparr>)"

definition matchesSearch :: "(string \<Rightarrow> string) \<Rightarrow> string \<Rightarrow> string \<Rightarrow> bool" where
  "matchesSearch lower search v \<longleftrightarrow> search = [] \<or> sublist (lower search) (lower v)"

subsection \<open>Authorities, series, certificates\<close>

definition visible_authorities :: "(string \<Rightarrow> string) \<Rightarrow> string \<Rightarrow> QueryScope \<Rightarrow> ledger \<Rightarrow> Authority list" where
  "visible_authorities lower search scope w =
     sort_key au_id (map snd (filter (\<lambda>(i, a). visible scope i \<and> matchesSearch lower search (au_name a)) (lg_authorities w)))"

definition Query_ListAuthorities ::
  "(string \<Rightarrow> string) \<Rightarrow> AuthorityListQuery \<Rightarrow> QueryScope \<Rightarrow> (ledger, Authority Page) tx" where
  "Query_ListAuthorities lower query scope w =
     tx_return (paginate (visible_authorities lower (alq_Search query) scope w) (alq_Page query) au_id) w"

definition Query_GetAuthority :: "AuthorityID \<Rightarrow> QueryScope \<Rightarrow> (ledger, Authority) tx" where
  "Query_GetAuthority i scope w = found (if visible scope i then map_of (lg_authorities w) i else None) w"

definition series_snapshot :: "ledger \<Rightarrow> LeafSeries \<Rightarrow> SeriesSnapshot" where
  "series_snapshot w s = \<lparr>sn_Series = s, sn_CurrentKeyGeneration =
     (case lg_leafKeyGenerations w (ls_currentKeyGenerationID s) of Some g \<Rightarrow> g | None \<Rightarrow> zero_key_generation)\<rparr>"

definition visible_series :: "(string \<Rightarrow> string) \<Rightarrow> SeriesListQuery \<Rightarrow> QueryScope \<Rightarrow> ledger \<Rightarrow> SeriesSnapshot list" where
  "visible_series lower query scope w =
     sort_key (ls_id \<circ> sn_Series) (map (series_snapshot w) (filter (\<lambda>s.
         visible scope (ls_managementAuthorityID s) \<and> matchesSearch lower (slq_Search query) (ls_name s)
         \<and> (\<forall>a. slq_AuthorityID query = Some a \<longrightarrow> ls_managementAuthorityID s = a)) (map snd (lg_seriesRows w))))"

definition Query_ListSeries ::
  "(string \<Rightarrow> string) \<Rightarrow> SeriesListQuery \<Rightarrow> QueryScope \<Rightarrow> (ledger, SeriesSnapshot Page) tx" where
  "Query_ListSeries lower query scope w =
     tx_return (paginate (visible_series lower query scope w) (slq_Page query) (ls_id \<circ> sn_Series)) w"

definition Query_GetSeries :: "SeriesID \<Rightarrow> QueryScope \<Rightarrow> (ledger, SeriesSnapshot) tx" where
  "Query_GetSeries i scope w =
     found (case lg_series w i of
         Some s \<Rightarrow> if visible scope (ls_managementAuthorityID s) then Some (series_snapshot w s) else None
       | None \<Rightarrow> None) w"

record QueriedCertificate =
  qc_Certificate :: Certificate
  qc_SeriesID :: "SeriesID option"
  qc_Revoked :: bool
  qc_Affected :: bool
  qc_Delivery :: "Delivery option"

definition queried :: "ledger \<Rightarrow> Certificate \<Rightarrow> QueriedCertificate" where
  "queried w c = \<lparr>qc_Certificate = c,
     qc_SeriesID = map_option lr_SeriesID (lg_leafCertRecords w (ce_id c)),
     qc_Revoked = (lg_revocations w (ce_issuerCAKeyGenerationID c, sn_hex (ce_serial c)) \<noteq> None),
     qc_Affected = list_ex (\<lambda>((_, certificate), _). certificate = ce_id c) (lg_impacts w),
     qc_Delivery = find (\<lambda>d. de_certificateID d = ce_id c) (map snd (lg_deliveries w))\<rparr>"

text \<open>A filter that is not given lets everything pass.\<close>

definition passes :: "'a option \<Rightarrow> ('a \<Rightarrow> bool) \<Rightarrow> bool" where
  "passes wanted check = (case wanted of None \<Rightarrow> True | Some x \<Rightarrow> check x)"

definition lists_certificate ::
  "(string \<Rightarrow> string) \<Rightarrow> CertificateListQuery \<Rightarrow> QueryScope \<Rightarrow> ledger \<Rightarrow> CertificateID \<times> Certificate \<Rightarrow> bool" where
  "lists_certificate lower query scope w = (\<lambda>(i, c).
     visible scope (certificateAuthority w i)
     \<and> passes (clq_AuthorityID query) (\<lambda>a. certificateAuthority w i = a)
     \<and> matchesSearch lower (clq_Search query) (su_commonName (ce_subject c))
     \<and> passes (clq_ExpiresBefore query) (\<lambda>limit. Before (notAfter (ce_validity c)) limit)
     \<and> passes (clq_Revoked query) (\<lambda>b. qc_Revoked (queried w c) = b)
     \<and> passes (clq_Affected query) (\<lambda>b. qc_Affected (queried w c) = b))"

definition certificate_id :: "QueriedCertificate \<Rightarrow> CertificateID" where
  "certificate_id q = ce_id (qc_Certificate q)"

definition visible_certificates ::
  "(string \<Rightarrow> string) \<Rightarrow> CertificateListQuery \<Rightarrow> QueryScope \<Rightarrow> ledger \<Rightarrow> QueriedCertificate list" where
  "visible_certificates lower query scope w =
     sort_key certificate_id (map (queried w \<circ> snd) (filter (lists_certificate lower query scope w) (lg_certificates w)))"

definition Query_ListCertificates ::
  "(string \<Rightarrow> string) \<Rightarrow> CertificateListQuery \<Rightarrow> QueryScope \<Rightarrow> (ledger, QueriedCertificate Page) tx" where
  "Query_ListCertificates lower query scope w =
     tx_return (paginate (visible_certificates lower query scope w) (clq_Page query) certificate_id) w"

definition Query_GetCertificate :: "CertificateID \<Rightarrow> QueryScope \<Rightarrow> (ledger, QueriedCertificate) tx" where
  "Query_GetCertificate i scope w =
     found (if visible scope (certificateAuthority w i) then map_option (queried w) (map_of (lg_certificates w) i) else None) w"

subsection \<open>Revocations, transitions, jobs\<close>

text \<open>\<open>strings.EqualFold\<close> against a serial, whose text is lower-case hexadecimal: no letter of it folds with
  anything but its own upper case.\<close>

definition equal_fold_hex :: "string \<Rightarrow> string \<Rightarrow> bool" where
  "equal_fold_hex hex s \<longleftrightarrow> hex = map ascii_lower s"

definition lists_revocation ::
  "(string \<Rightarrow> string) \<Rightarrow> RevocationListQuery \<Rightarrow> QueryScope \<Rightarrow> ledger \<Rightarrow> (CAKeyGenerationID \<times> string) \<times> Revocation \<Rightarrow> bool" where
  "lists_revocation lower query scope w = (\<lambda>((issuer, _), r).
     visible scope (issuerAuthority w issuer)
     \<and> passes (rlq_AuthorityID query) (\<lambda>a. issuerAuthority w issuer = a)
     \<and> (rlq_SerialHex query = [] \<or> equal_fold_hex (sn_hex (rv_serial r)) (rlq_SerialHex query))
     \<and> matchesSearch lower (rlq_Search query) (sn_hex (rv_serial r)))"

definition visible_revocations ::
  "(string \<Rightarrow> string) \<Rightarrow> RevocationListQuery \<Rightarrow> QueryScope \<Rightarrow> ledger \<Rightarrow> Revocation list" where
  "visible_revocations lower query scope w =
     sort_key rv_id (map snd (filter (lists_revocation lower query scope w) (lg_revocationRows w)))"

definition Query_ListRevocations ::
  "(string \<Rightarrow> string) \<Rightarrow> RevocationListQuery \<Rightarrow> QueryScope \<Rightarrow> (ledger, Revocation Page) tx" where
  "Query_ListRevocations lower query scope w =
     tx_return (paginate (visible_revocations lower query scope w) (rlq_Page query) rv_id) w"

definition Query_GetRevocation :: "RevocationID \<Rightarrow> QueryScope \<Rightarrow> (ledger, Revocation) tx" where
  "Query_GetRevocation i scope w =
     found (case find (\<lambda>(_, r). rv_id r = i) (lg_revocationRows w) of
         None \<Rightarrow> None
       | Some ((issuer, _), r) \<Rightarrow> if visible scope (issuerAuthority w issuer) then Some r else None) w"

definition transitionScopes :: "Transition \<Rightarrow> AuthorityID list" where
  "transitionScopes t = tr_sourceAuthorityID t #
     (if tr_targetAuthorityID t \<noteq> [] \<and> tr_targetAuthorityID t \<noteq> tr_sourceAuthorityID t then [tr_targetAuthorityID t] else [])"

definition visible_transitions :: "(string \<Rightarrow> string) \<Rightarrow> string \<Rightarrow> QueryScope \<Rightarrow> ledger \<Rightarrow> Transition list" where
  "visible_transitions lower search scope w =
     sort_key tr_id (filter (\<lambda>t. visibleAll scope (transitionScopes t) \<and> matchesSearch lower search (tr_reason t))
       (map snd (lg_transitionRows w)))"

definition Query_ListTransitions ::
  "(string \<Rightarrow> string) \<Rightarrow> TransitionListQuery \<Rightarrow> QueryScope \<Rightarrow> (ledger, Transition Page) tx" where
  "Query_ListTransitions lower query scope w =
     tx_return (paginate (visible_transitions lower (tlq_Search query) scope w) (tlq_Page query) tr_id) w"

record QueriedTransition =
  qt_Transition :: Transition
  qt_Impacts :: "TransitionImpact list"

definition impacts_of :: "TransitionID \<Rightarrow> ledger \<Rightarrow> TransitionImpact list" where
  "impacts_of i w = sort_key ti_certificateID (map snd (filter (\<lambda>((t, _), _). t = i) (lg_impacts w)))"

definition Query_GetTransition :: "TransitionID \<Rightarrow> QueryScope \<Rightarrow> (ledger, QueriedTransition) tx" where
  "Query_GetTransition i scope w =
     found (case lg_transitions w i of
         Some t \<Rightarrow> if visibleAll scope (transitionScopes t)
           then Some \<lparr>qt_Transition = t, qt_Impacts = impacts_of i w\<rparr> else None
       | None \<Rightarrow> None) w"

definition listed_jobs :: "QueryScope \<Rightarrow> ledger \<Rightarrow> Job list" where
  "listed_jobs scope w = (if qs_Public scope then [] else sort_key jb_ID (map snd (lg_jobs w)))"

definition Query_ListJobs :: "PageRequest \<Rightarrow> QueryScope \<Rightarrow> (ledger, Job Page) tx" where
  "Query_ListJobs page scope w =
     tx_return (if qs_Public scope then \<lparr>pg_Items = [], pg_NextCursor = None\<rparr>
       else paginate (sort_key jb_ID (map snd (lg_jobs w))) page jb_ID) w"

definition Query_GetJob :: "JobID \<Rightarrow> QueryScope \<Rightarrow> (ledger, Job) tx" where
  "Query_GetJob i scope w = found (if qs_Public scope then None else map_of (lg_jobs w) i) w"

subsection \<open>Audit events\<close>

record AuditEventView =
  aw_ID :: string
  aw_OccurredAt :: Instant
  aw_ActorKind :: string
  aw_ActorID :: string
  aw_TokenID :: string
  aw_Action :: string
  aw_TargetType :: string
  aw_TargetID :: string
  aw_ClientIP :: string
  aw_Result :: string
  aw_Details :: AuditDetails
  aw_AuthorityIDs :: "AuthorityID list"

definition auditMatches :: "AuditFilter \<Rightarrow> AuditEvent \<times> AuditScope \<Rightarrow> bool" where
  "auditMatches f = (\<lambda>(e, scope).
     passes (af_From f) (\<lambda>lo. \<not> Before (ae_OccurredAt e) lo)
     \<and> passes (af_Until f) (\<lambda>hi. \<not> Before hi (ae_OccurredAt e))
     \<and> passes (af_AccountID f) (\<lambda>a. ae_ActorKind e = ''account'' \<and> ae_ActorID e = a)
     \<and> passes (af_AuthorityID f) (\<lambda>a. a \<in> set (as_authorityIDs scope))
     \<and> passes (af_CertificateID f) (\<lambda>c. ae_TargetID e = c)
     \<and> (af_Action f = [] \<or> ae_Action e = af_Action f)
     \<and> (af_ClientIP f = [] \<or> ae_ClientIP e = af_ClientIP f)
     \<and> passes (af_Result f) (\<lambda>r. ae_Result e = r))"

definition auditVisible :: "QueryScope \<Rightarrow> AuditScope \<Rightarrow> bool" where
  "auditVisible scope row_scope =
     (case as_kind row_scope of
        AuditScopeInstallation \<Rightarrow> qs_All scope
      | AuditScopeAuthorities \<Rightarrow> visibleAll scope (as_authorityIDs row_scope)
      | AuditScopeOther _ \<Rightarrow> False)"

definition auditEventView :: "AuditEvent \<times> AuditScope \<Rightarrow> AuditEventView" where
  "auditEventView = (\<lambda>(e, scope). \<lparr>aw_ID = ae_ID e, aw_OccurredAt = ae_OccurredAt e, aw_ActorKind = ae_ActorKind e,
     aw_ActorID = ae_ActorID e, aw_TokenID = ae_TokenID e, aw_Action = ae_Action e, aw_TargetType = ae_TargetType e,
     aw_TargetID = ae_TargetID e, aw_ClientIP = ae_ClientIP e, aw_Result = ae_Result e, aw_Details = ae_Details e,
     aw_AuthorityIDs = as_authorityIDs scope\<rparr>)"

definition auditViews :: "AuditFilter \<Rightarrow> QueryScope \<Rightarrow> ledger \<Rightarrow> AuditEventView list" where
  "auditViews f scope w =
     sort_key aw_ID (map auditEventView (filter (\<lambda>row. auditVisible scope (snd row) \<and> auditMatches f row) (lg_auditEvents w)))"

definition Query_ListAudit :: "AuditListQuery \<Rightarrow> QueryScope \<Rightarrow> (ledger, AuditEventView Page) tx" where
  "Query_ListAudit query scope w = tx_return (paginate (auditViews (adq_Filter query) scope w) (adq_Page query) aw_ID) w"

text \<open>The iterator of an export: the events of one reading, and how many have been handed out.\<close>

record auditIterator =
  ai_items :: "AuditEventView list"
  ai_index :: nat
  ai_closed :: bool

definition IterateAudit :: "AuditExportQuery \<Rightarrow> QueryScope \<Rightarrow> (ledger, auditIterator) tx" where
  "IterateAudit query scope w =
     tx_return \<lparr>ai_items = auditViews (aeq_Filter query) scope w, ai_index = 0, ai_closed = False\<rparr> w"

definition Iterator_Next :: "bool \<Rightarrow> auditIterator \<Rightarrow> bool \<times> auditIterator" where
  "Iterator_Next ctx_done it =
     (if ai_closed it \<or> ctx_done \<or> ai_index it \<ge> length (ai_items it) then (False, it)
      else (True, it\<lparr>ai_index := Suc (ai_index it)\<rparr>))"

definition zero_audit_view :: AuditEventView where
  "zero_audit_view = \<lparr>aw_ID = [], aw_OccurredAt = zero_instant, aw_ActorKind = [], aw_ActorID = [], aw_TokenID = [],
     aw_Action = [], aw_TargetType = [], aw_TargetID = [], aw_ClientIP = [], aw_Result = [],
     aw_Details = \<lparr>ad_SchemaVersion = 0, ad_Fields = Map.empty\<rparr>, aw_AuthorityIDs = []\<rparr>"

definition Iterator_Event :: "auditIterator \<Rightarrow> AuditEventView" where
  "Iterator_Event it =
     (if ai_index it = 0 \<or> ai_index it > length (ai_items it) then zero_audit_view
      else ai_items it ! (ai_index it - 1))"

definition Iterator_Close :: "auditIterator \<Rightarrow> auditIterator" where
  "Iterator_Close it = it\<lparr>ai_closed := True\<rparr>"

subsection \<open>CRL states and public certificates\<close>

definition Query_GetCRLStatus :: "CAKeyGenerationID \<Rightarrow> QueryScope \<Rightarrow> (ledger, CRLState) tx" where
  "Query_GetCRLStatus i scope w = found (if visible scope (issuerAuthority w i) then lg_crlStates w i else None) w"

definition Query_ReadPublicCA :: "AuthorityID \<Rightarrow> QueryScope \<Rightarrow> (ledger, Certificate) tx" where
  "Query_ReadPublicCA i scope w =
     found (if \<not> qs_Public scope \<and> \<not> visible scope i then None
       else (case map_of (lg_authorities w) i of
           None \<Rightarrow> None
         | Some a \<Rightarrow> if au_issuanceCertificateID a = [] then None
             else map_of (lg_certificates w) (au_issuanceCertificateID a))) w"

end
