(* ===== verification/Query_Paging.thy ===== *)
theory Query_Paging
  imports Query_Store
begin

text \<open>
  Following the cursors of a listing. \<open>walk_listing\<close> asks for page after page until one has no next cursor, as the
  callers of the listings do; \<open>paged_listing\<close> is what a listing promises for that, and each listing of the store is an
  instance. The loop is given fuel, one more page than there are rows is always enough.
\<close>

fun walk_listing ::
  "nat \<Rightarrow> (PageRequest \<Rightarrow> (ledger, 'r Page) tx) \<Rightarrow> ('r list \<Rightarrow> 'x list) \<Rightarrow> int64 \<Rightarrow> string \<Rightarrow> (ledger, 'x list) tx" where
  "walk_listing 0 fetch pick limit cursor = tx_fail (Opaque ''the listing did not end'')"
| "walk_listing (Suc n) fetch pick limit cursor =
     tx_bind (fetch \<lparr>pq_Cursor = cursor, pq_Limit = limit\<rparr>) (\<lambda>page.
     case pg_NextCursor page of
       None \<Rightarrow> tx_return (pick (pg_Items page))
     | Some c \<Rightarrow> tx_bind (walk_listing n fetch pick limit c) (\<lambda>rest. tx_return (pick (pg_Items page) @ rest)))"

subsection \<open>One page\<close>

definition rows_after :: "('a \<Rightarrow> string) \<Rightarrow> string \<Rightarrow> 'a list \<Rightarrow> 'a list" where
  "rows_after key cursor items = dropWhile (\<lambda>x. key x \<le> cursor) items"

lemma rows_after_first: "[] \<notin> key ` set items \<Longrightarrow> rows_after key [] items = items"
  by (cases items) (auto simp: rows_after_def)

lemma paginate_rows:
  assumes "[] \<notin> key ` set items" and "lim = (if pq_Limit p \<le> 0 then 50 else pq_Limit p)"
  defines "rest \<equiv> rows_after key (pq_Cursor p) items"
  shows "paginate items p key = (if lim < int (length rest)
    then \<lparr>pg_Items = take (nat lim) rest, pg_NextCursor = Some (key (last (take (nat lim) rest)))\<rparr>
    else \<lparr>pg_Items = rest, pg_NextCursor = None\<rparr>)"
  using assms rows_after_first [of key items]
  by (auto simp: paginate_def Let_def rows_after_def)

text \<open>In a list sorted by distinct keys, what follows the key of a row is what follows the row.\<close>

lemma rows_after_row:
  assumes "sorted (map key items)" and "distinct (map key items)" and "items = before @ x # after"
  shows "rows_after key (key x) items = after"
proof -
  have le: "\<forall>y\<in>set (before @ [x]). key y \<le> key x" and gt: "\<forall>y\<in>set after. key x < key y"
    using assms by (auto simp: sorted_append less_le)
  have "rows_after key (key x) ((before @ [x]) @ after) = rows_after key (key x) after"
    unfolding rows_after_def by (rule dropWhile_append2) (use le in auto)
  moreover have "rows_after key (key x) after = after"
    using gt by (cases after) (auto simp: rows_after_def)
  ultimately show ?thesis using assms(3) by simp
qed

lemma rows_after_page:
  assumes "sorted (map key items)" and "distinct (map key items)" and "0 < n" and "n < length (rows_after key c items)"
  shows "rows_after key (key (last (take n (rows_after key c items)))) items = drop n (rows_after key c items)"
proof -
  let ?rest = "rows_after key c items"
  have split: "takeWhile (\<lambda>x. key x \<le> c) items @ ?rest = items" by (simp add: rows_after_def)
  have "?rest = take (n - 1) ?rest @ ?rest ! (n - 1) # drop n ?rest"
    using assms(3,4) id_take_nth_drop [of "n - 1" ?rest] by simp
  moreover have "last (take n ?rest) = ?rest ! (n - 1)"
    using assms(3,4) by (subst last_conv_nth) auto
  moreover from calculation(1) split
  have "items = (takeWhile (\<lambda>x. key x \<le> c) items @ take (n - 1) ?rest) @ ?rest ! (n - 1) # drop n ?rest" by simp
  from rows_after_row [OF assms(1,2) this] have "rows_after key (key (?rest ! (n - 1))) items = drop n ?rest" .
  ultimately show ?thesis by simp
qed

subsection \<open>The contract of a listing\<close>

definition ids_ok :: "string list \<Rightarrow> bool" where
  "ids_ok ids \<longleftrightarrow> distinct ids \<and> [] \<notin> set ids"

locale paged_listing =
  fixes fetch :: "'q \<Rightarrow> QueryScope \<Rightarrow> PageRequest \<Rightarrow> (ledger, 'r Page) tx"
    and listed :: "'q \<Rightarrow> QueryScope \<Rightarrow> ledger \<Rightarrow> 'r list"
    and key :: "'r \<Rightarrow> string"
    and ids :: "ledger \<Rightarrow> string list"
  assumes fetch_page: "fetch q s p w = tx_return (paginate (listed q s w) p key) w"
    and listed_sorted: "sorted (map key (listed q s w))"
    and listed_ids: "ids_ok (ids w) \<Longrightarrow> ids_ok (map key (listed q s w))"
begin

lemma walk_from:
  assumes "ids_ok (ids w)" and "length (rows_after key c (listed q s w)) < n"
    and pick: "\<And>a b. pick (a @ b) = pick a @ pick b"
  shows "walk_listing n (fetch q s) pick limit c w = (Inr (pick (rows_after key c (listed q s w))), w)"
  using assms(2)
proof (induction n arbitrary: c)
  case 0
  then show ?case by simp
next
  case (Suc n)
  let ?items = "listed q s w" and ?rest = "rows_after key c (listed q s w)"
  define lim where "lim = (if limit \<le> 0 then 50 else limit)"
  let ?k = "nat lim"
  have ok: "[] \<notin> key ` set ?items" "distinct (map key ?items)"
    using listed_ids [OF assms(1), of q s] by (auto simp: ids_ok_def)
  have page: "fetch q s \<lparr>pq_Cursor = c, pq_Limit = limit\<rparr> w = (Inr (if lim < int (length ?rest)
      then \<lparr>pg_Items = take ?k ?rest, pg_NextCursor = Some (key (last (take ?k ?rest)))\<rparr>
      else \<lparr>pg_Items = ?rest, pg_NextCursor = None\<rparr>), w)"
    using paginate_rows [OF ok(1), of lim "\<lparr>pq_Cursor = c, pq_Limit = limit\<rparr>"] lim_def
    by (simp add: fetch_page tx_return_def)
  show ?case
  proof (cases "lim < int (length ?rest)")
    case False
    then show ?thesis by (simp add: tx_bind_def page tx_return_def)
  next
    case True
    then have k: "0 < ?k" "?k < length ?rest" by (auto simp: lim_def split: if_splits)
    have next_rows: "rows_after key (key (last (take ?k ?rest))) ?items = drop ?k ?rest"
      using rows_after_page [OF listed_sorted ok(2) k] .
    then have "length (rows_after key (key (last (take ?k ?rest))) ?items) < n" using Suc.prems k by simp
    from Suc.IH [OF this] have rest: "walk_listing n (fetch q s) pick limit (key (last (take ?k ?rest))) w
      = (Inr (pick (drop ?k ?rest)), w)" by (simp only: next_rows)
    have "pick ?rest = pick (take ?k ?rest) @ pick (drop ?k ?rest)" by (simp flip: pick)
    with True rest show ?thesis by (simp add: tx_bind_def page tx_return_def)
  qed
qed

lemma walk_all:
  assumes "ids_ok (ids w)" and "length (listed q s w) < n" and "\<And>a b. pick (a @ b) = pick a @ pick b"
  shows "walk_listing n (fetch q s) pick limit [] w = (Inr (pick (listed q s w)), w)"
proof -
  have "[] \<notin> key ` set (listed q s w)" using listed_ids [OF assms(1), of q s] by (auto simp: ids_ok_def)
  with walk_from [OF assms(1) _ assms(3), of "[]" q s n] assms(2) show ?thesis by (simp add: rows_after_first)
qed

text \<open>Every row the reader may see comes exactly once, whatever the limit, and the walk ends.\<close>

lemma walked:
  assumes "ids_ok (ids w)"
  shows "(\<forall>n > length (listed q s w). walk_listing n (fetch q s) id limit [] w = (Inr (listed q s w), w))
    \<and> distinct (map key (listed q s w))"
proof (intro conjI allI impI)
  fix n assume "length (listed q s w) < n"
  from walk_all [OF assms this, of id limit] show "walk_listing n (fetch q s) id limit [] w = (Inr (listed q s w), w)" by simp
next
  show "distinct (map key (listed q s w))" using listed_ids [OF assms, of q s] by (simp add: ids_ok_def)
qed

end

lemma ids_ok_listing:
  assumes "ids_ok (map (f \<circ> g) rows)"
  shows "ids_ok (map f (sort_key f (map g (filter P rows))))"
  using assms by (auto simp: ids_ok_def distinct_map inj_on_def)

lemma ids_ok_sub: "ids_ok (map f rows) \<Longrightarrow> ids_ok (map f (sort_key f (filter P rows)))"
  using ids_ok_listing [of f id rows P] by simp

lemma sort_key_sorted: "sorted (map f (sort_key f xs))"
  by simp

subsection \<open>The listings of the store\<close>

text \<open>What the tables promise: the identifiers of their rows are distinct and not empty.\<close>

abbreviation authority_ids :: "ledger \<Rightarrow> string list" where
  "authority_ids w \<equiv> map (au_id \<circ> snd) (lg_authorities w)"

abbreviation series_ids :: "ledger \<Rightarrow> string list" where
  "series_ids w \<equiv> map (ls_id \<circ> snd) (lg_seriesRows w)"

abbreviation certificate_ids :: "ledger \<Rightarrow> string list" where
  "certificate_ids w \<equiv> map (ce_id \<circ> snd) (lg_certificates w)"

abbreviation revocation_ids :: "ledger \<Rightarrow> string list" where
  "revocation_ids w \<equiv> map (rv_id \<circ> snd) (lg_revocationRows w)"

abbreviation transition_ids :: "ledger \<Rightarrow> string list" where
  "transition_ids w \<equiv> map (tr_id \<circ> snd) (lg_transitionRows w)"

abbreviation job_ids :: "ledger \<Rightarrow> string list" where
  "job_ids w \<equiv> map (jb_ID \<circ> snd) (lg_jobs w)"

abbreviation audit_ids :: "ledger \<Rightarrow> string list" where
  "audit_ids w \<equiv> map (ae_ID \<circ> fst) (lg_auditEvents w)"

interpretation authority_listing: paged_listing
    "\<lambda>q s p. Query_ListAuthorities lower (q\<lparr>alq_Page := p\<rparr>) s"
    "\<lambda>q. visible_authorities lower (alq_Search q)" au_id authority_ids for lower
  by unfold_locales (simp_all add: Query_ListAuthorities_def visible_authorities_def ids_ok_listing del: map_map)

lemma series_snapshot_id: "ls_id \<circ> sn_Series \<circ> series_snapshot w = ls_id"
  by (auto simp: series_snapshot_def)

interpretation series_listing: paged_listing
    "\<lambda>q s p. Query_ListSeries lower (q\<lparr>slq_Page := p\<rparr>) s"
    "visible_series lower" "ls_id \<circ> sn_Series" series_ids for lower
proof (unfold_locales, goal_cases)
  case (1 q s p w)
  show ?case by (simp add: Query_ListSeries_def visible_series_def)
next
  case (2 q s w)
  show ?case unfolding visible_series_def by (rule sort_key_sorted)
next
  case (3 w q s)
  then have "ids_ok (map (ls_id \<circ> sn_Series \<circ> series_snapshot w) (map snd (lg_seriesRows w)))"
    unfolding series_snapshot_id by simp
  then show ?case unfolding visible_series_def by (rule ids_ok_listing)
qed

interpretation certificate_listing: paged_listing
    "\<lambda>q s p. Query_ListCertificates lower (q\<lparr>clq_Page := p\<rparr>) s"
    "visible_certificates lower" certificate_id certificate_ids for lower
proof (unfold_locales, goal_cases)
  case (1 q s p w)
  show ?case
    by (simp add: Query_ListCertificates_def visible_certificates_def lists_certificate_def)
next
  case (2 q s w)
  show ?case unfolding visible_certificates_def by (rule sort_key_sorted)
next
  case (3 w q s)
  have "certificate_id \<circ> (queried w \<circ> snd) = (ce_id \<circ> snd :: CertificateID \<times> Certificate \<Rightarrow> CertificateID)"
    by (auto simp: certificate_id_def queried_def)
  with 3 show ?case unfolding visible_certificates_def by (intro ids_ok_listing) simp
qed

interpretation revocation_listing: paged_listing
    "\<lambda>q s p. Query_ListRevocations lower (q\<lparr>rlq_Page := p\<rparr>) s"
    "visible_revocations lower" rv_id revocation_ids for lower
  by unfold_locales
    (simp_all add: Query_ListRevocations_def visible_revocations_def lists_revocation_def ids_ok_listing del: map_map)

interpretation transition_listing: paged_listing
    "\<lambda>q s p. Query_ListTransitions lower (q\<lparr>tlq_Page := p\<rparr>) s"
    "\<lambda>q. visible_transitions lower (tlq_Search q)" tr_id transition_ids for lower
  by unfold_locales (simp_all add: Query_ListTransitions_def visible_transitions_def ids_ok_sub flip: map_map)

interpretation job_listing: paged_listing
    "\<lambda>(q::unit) s p. Query_ListJobs p s" "\<lambda>q. listed_jobs" jb_ID job_ids
proof (unfold_locales, goal_cases)
  case (1 q s p w)
  show ?case by (simp add: Query_ListJobs_def listed_jobs_def paginate_def Let_def)
next
  case (2 q s w)
  show ?case by (simp add: listed_jobs_def)
next
  case (3 w q s)
  then show ?case using ids_ok_sub [of jb_ID "map snd (lg_jobs w)" "\<lambda>_. True"]
    by (simp add: listed_jobs_def ids_ok_def)
qed

interpretation audit_listing: paged_listing
    "\<lambda>q s p. Query_ListAudit (q\<lparr>adq_Page := p\<rparr>) s"
    "\<lambda>q. auditViews (adq_Filter q)" aw_ID audit_ids
proof (unfold_locales, goal_cases)
  case (1 q s p w)
  show ?case by (simp add: Query_ListAudit_def)
next
  case (2 q s w)
  show ?case unfolding auditViews_def by (rule sort_key_sorted)
next
  case (3 w q s)
  have "aw_ID \<circ> auditEventView = ae_ID \<circ> fst" by (auto simp: auditEventView_def)
  with 3 show ?case unfolding auditViews_def by (intro ids_ok_listing) simp
qed

end
