(* ===== verification/Transition_Input.thy ===== *)
theory Transition_Input
  imports Authority_Input
begin

text \<open>
  \<open>internal/app/contract/transition.go\<close>: the commands on transitions and their validation, and the views they answer
  with. A mode or an action of the wire is the domain's own value, unsupported texts included, so \<open>Domain()\<close>
  only validates it.
\<close>

definition ModeInput_Domain :: "TransitionMode \<Rightarrow> domain_error + TransitionMode" where
  "ModeInput_Domain m = check_then (TransitionMode_Validate m) (Inr m)"

definition maxTransitionReasonLength :: nat where "maxTransitionReasonLength = 4096"

definition parse_error :: "(string \<Rightarrow> domain_error + string) \<Rightarrow> string \<Rightarrow> go_error option" where
  "parse_error parse s = map_option from_domain (err_of (parse s))"

text \<open>An identifier the command may leave out.\<close>

definition parse_error_unless_empty :: "(string \<Rightarrow> domain_error + string) \<Rightarrow> string \<Rightarrow> go_error option" where
  "parse_error_unless_empty parse s = (if s \<noteq> [] then parse_error parse s else None)"

record TransitionCreateCommand =
  tcc_SourceAuthorityID :: AuthorityID
  tcc_TargetAuthorityID :: AuthorityID
  tcc_Mode :: TransitionMode
  tcc_Reason :: string

definition TransitionCreate_Validate :: "TransitionCreateCommand \<Rightarrow> go_error option" where
  "TransitionCreate_Validate c =
     or_else_err (parse_error ParseAuthorityID (tcc_SourceAuthorityID c))
     (or_else_err (parse_error_unless_empty ParseAuthorityID (tcc_TargetAuthorityID c))
     (or_else_err (map_option from_domain (err_of (ModeInput_Domain (tcc_Mode c))))
     (if tcc_Reason c = [] then Some (app_error ErrorKindValidation ''reason_required'' ''reason must not be empty'')
      else if length (tcc_Reason c) > maxTransitionReasonLength
        then Some (app_error ErrorKindValidation ''reason_too_long'' ''reason must be at most 4096 characters'')
      else None)))"

record TransitionSetTargetCommand =
  tst_TransitionID :: TransitionID
  tst_TargetAuthorityID :: AuthorityID

definition TransitionSetTarget_Validate :: "TransitionSetTargetCommand \<Rightarrow> go_error option" where
  "TransitionSetTarget_Validate c =
     or_else_err (parse_error ParseTransitionID (tst_TransitionID c))
       (parse_error ParseAuthorityID (tst_TargetAuthorityID c))"

definition ActionInput_Domain :: "DeploymentAction \<Rightarrow> domain_error + DeploymentAction" where
  "ActionInput_Domain a = check_then (DeploymentAction_Validate a) (Inr a)"

definition maxTargetLabelLength :: nat where "maxTargetLabelLength = 255"

record TransitionConfirmDeploymentCommand =
  tcd_TransitionID :: TransitionID
  tcd_TargetLabel :: string
  tcd_CertificateID :: CertificateID
  tcd_Action :: DeploymentAction

definition TransitionConfirm_Validate :: "TransitionConfirmDeploymentCommand \<Rightarrow> go_error option" where
  "TransitionConfirm_Validate c =
     or_else_err (parse_error ParseTransitionID (tcd_TransitionID c))
     (or_else_err (if tcd_TargetLabel c = [] \<or> length (tcd_TargetLabel c) > maxTargetLabelLength
        then Some (app_error ErrorKindValidation ''target_label_invalid'' ''target_label must be 1..255 characters'') else None)
     (or_else_err (parse_error_unless_empty ParseCertificateID (tcd_CertificateID c))
      (map_option from_domain (err_of (ActionInput_Domain (tcd_Action c))))))"

text \<open>\<open>TransitionCompleteCommand\<close> has the one field \<open>TransitionID\<close>.\<close>

definition TransitionComplete_Validate :: "TransitionID \<Rightarrow> go_error option" where
  "TransitionComplete_Validate i = parse_error ParseTransitionID i"

subsection \<open>Views\<close>

fun TransitionMode_text :: "TransitionMode \<Rightarrow> string" where
  "TransitionMode_text TransitionModeNormal = ''normal''"
| "TransitionMode_text TransitionModeEmergency = ''emergency''"
| "TransitionMode_text (TransitionModeOther s) = s"

fun TransitionStateViewOf :: "TransitionState \<Rightarrow> string" where
  "TransitionStateViewOf TransitionStateInProgress = ''in_progress''"
| "TransitionStateViewOf TransitionStateExternallyCompleted = ''externally_completed''"
| "TransitionStateViewOf TransitionStateClosed = ''closed''"
| "TransitionStateViewOf (TransitionStateOther s) = s"

fun NewDeploymentActionView :: "DeploymentAction \<Rightarrow> string" where
  "NewDeploymentActionView DeploymentActionTrustAdded = ''trust_added''"
| "NewDeploymentActionView DeploymentActionCertificateInstalled = ''certificate_installed''"
| "NewDeploymentActionView DeploymentActionTrustRemoved = ''trust_removed''"
| "NewDeploymentActionView (DeploymentActionOther s) = s"

record DeploymentView =
  dw_ID :: string
  dw_TargetLabel :: string
  dw_CertificateID :: "CertificateID option"
  dw_Action :: string
  dw_ConfirmedAt :: Instant
  dw_ConfirmedBy :: AccountID

record ImpactView =
  iw_CertificateID :: CertificateID
  iw_ReplacementCertificateID :: "CertificateID option"
  iw_ReissuedAt :: "Instant option"

record TransitionView =
  tw_ID :: TransitionID
  tw_SourceAuthorityID :: AuthorityID
  tw_TargetAuthorityID :: "AuthorityID option"
  tw_Mode :: TransitionMode
  tw_State :: string
  tw_ExternalTransitionComplete :: bool
  tw_CAPublicationClosed :: bool
  tw_Impacts :: "ImpactView list"
  tw_Version :: Version
  tw_CreatedAt :: Instant

end
