(* ===== verification/Transition_Service.thy ===== *)
theory Transition_Service
  imports Transition_Input Query_Paging
begin

text \<open>
  \<open>internal/app/service/transition.go\<close>: reporting the replacement of a CA, choosing its successor, confirming
  deployments, completing and closing. Each is one transaction. An emergency report also stops every managed descendant,
  records each leaf certificate of the family as an impact and revokes an intermediate's own certificate under its
  parent. The clock is read for the session (reading 1) and once more (reading 2). \<open>tn_pages\<close> is the fuel of
  the loop over the certificate listing.
\<close>

record transition_env =
  tn_authorize :: Authorizer
  tn_ids :: "nat \<Rightarrow> string"
  tn_clock :: "nat \<Rightarrow> Instant"
  tn_fate :: commit_fate
  tn_lower :: "string \<Rightarrow> string"
  tn_pages :: nat

text \<open>\<open>TransitionDeps\<close> is \<open>CommonDeps\<close>.\<close>

definition TransitionDeps_Validate :: "CommonDeps \<Rightarrow> go_error option" where
  "TransitionDeps_Validate d = CommonDeps_Validate d"

definition transitionScope :: "Transition \<Rightarrow> AuthorityID list" where
  "transitionScope t = tr_sourceAuthorityID t #
     (if tr_targetAuthorityID t \<noteq> [] then [tr_targetAuthorityID t] else [])"

definition toImpactView :: "TransitionImpact \<Rightarrow> ImpactView" where
  "toImpactView i = \<lparr>iw_CertificateID = ti_certificateID i,
     iw_ReplacementCertificateID = (if Impact_IsResolved i then Some (ti_replacementCertificateID i) else None),
     iw_ReissuedAt = (if Impact_IsResolved i then Some (ti_reissuedAt i) else None)\<rparr>"

definition transition_view :: "Transition \<Rightarrow> TransitionImpact list \<Rightarrow> TransitionView" where
  "transition_view t impacts = \<lparr>tw_ID = tr_id t, tw_SourceAuthorityID = tr_sourceAuthorityID t,
     tw_TargetAuthorityID = (if tr_targetAuthorityID t \<noteq> [] then Some (tr_targetAuthorityID t) else None),
     tw_Mode = tr_mode t, tw_State = TransitionStateViewOf (tr_state t),
     tw_ExternalTransitionComplete = (IsExternallyCompleted t \<or> IsClosed t), tw_CAPublicationClosed = IsClosed t,
     tw_Impacts = map toImpactView impacts, tw_Version = tr_version t, tw_CreatedAt = tr_reportedAt t\<rparr>"

definition toTransitionView :: "Transition \<Rightarrow> (ledger, TransitionView) tx" where
  "toTransitionView t =
     tx_bind (tx_store (ListImpacts (tr_id t)) ''transition_impacts_read_failed''
        ''could not read the transition's impact list'') (\<lambda>impacts.
     tx_return (transition_view t impacts))"

subsection \<open>Shared steps\<close>

definition transition_requires_admin :: "string \<Rightarrow> go_error" where
  "transition_requires_admin detail = app_error ErrorKindForbidden ''transition_requires_admin'' detail"

definition transition_event ::
  "string \<Rightarrow> Instant \<Rightarrow> MutationMeta \<Rightarrow> string \<Rightarrow> TransitionID \<Rightarrow> (string \<rightharpoonup> string) \<Rightarrow> AuditEvent" where
  "transition_event i now meta action transitionID details =
     \<lparr>ae_ID = i, ae_OccurredAt = now, ae_ActorKind = ''account'',
      ae_ActorID = Principal_AccountID (rq_Principal meta), ae_TokenID = [], ae_Action = action,
      ae_TargetType = ''transition'', ae_TargetID = transitionID, ae_ClientIP = clientIP (RequestMeta.truncate meta),
      ae_Result = ''success'', ae_Details = \<lparr>ad_SchemaVersion = 1, ad_Fields = details\<rparr>\<rparr>"

definition dedupAuthorityIDs :: "AuthorityID list \<Rightarrow> AuthorityID list" where
  "dedupAuthorityIDs ids = unique_ids [] (filter (\<lambda>i. i \<noteq> []) ids)"

definition append_transition_audit ::
  "transition_env \<Rightarrow> Instant \<Rightarrow> MutationMeta \<Rightarrow> string \<Rightarrow> TransitionID \<Rightarrow> (string \<rightharpoonup> string) \<Rightarrow> AuthorityID list \<Rightarrow> string
     \<Rightarrow> (ledger, unit) tx" where
  "append_transition_audit env now meta action transitionID details scope detail =
     tx_bind (NewUUID (tn_ids env)) (\<lambda>i.
     tx_store (Audit_Append (transition_event i now meta action transitionID details)
         (NewAuthoritiesAuditScope (dedupAuthorityIDs scope)))
       ''transition_audit_failed'' detail)"

definition read_source :: "AuthorityID \<Rightarrow> (ledger, Authority) tx" where
  "read_source i = tx_read (GetIssuerForUpdate i)
     (app_error_with ErrorKindValidation ''transition_source_not_found'' ''source authority does not exist'' ''authority_id'' i)
     ''transition_source_read_failed'' ''could not read the source authority''"

definition read_target :: "AuthorityID \<Rightarrow> (ledger, Authority) tx" where
  "read_target i = tx_read (GetIssuerForUpdate i)
     (app_error_with ErrorKindValidation ''transition_target_not_found'' ''target authority does not exist'' ''authority_id'' i)
     ''transition_target_read_failed'' ''could not read the target authority''"

definition read_transition :: "TransitionID \<Rightarrow> (ledger, Transition) tx" where
  "read_transition i = tx_read (Transitions_GetForUpdate i)
     (app_error_with ErrorKindValidation ''transition_not_found'' ''transition does not exist'' ''transition_id'' i)
     ''transition_read_failed'' ''could not read the transition''"

definition save_transition :: "Transition \<Rightarrow> Version \<Rightarrow> (ledger, unit) tx" where
  "save_transition t expectedVersion =
     tx_store (Transitions_Save t expectedVersion) ''transition_save_failed'' ''could not save the transition''"

definition transition_version_check :: "Transition \<Rightarrow> Version \<Rightarrow> (ledger, unit) tx" where
  "transition_version_check t expectedVersion =
     (if tr_version t \<noteq> expectedVersion
        then tx_fail (app_error ErrorKindConflict ''transition_version_conflict''
          ''transition has changed since this request was prepared'')
      else tx_return ())"

definition transition_authorize :: "transition_env \<Rightarrow> Principal \<Rightarrow> Action \<Rightarrow> AuthorityID list \<Rightarrow> (ledger, unit) tx" where
  "transition_authorize env p action scope = tx_guard (tn_authorize env p action (NewAuthorizationScope scope))"

text \<open>What every mutation of a stored transition checks before its transaction.\<close>

definition transition_admin_version :: "MutationMeta \<Rightarrow> string \<Rightarrow> (ledger, Version) tx" where
  "transition_admin_version meta detail =
     (if \<not> IsAdmin (rq_Principal meta) then tx_fail (transition_requires_admin detail)
      else tx_lift (RequireExpectedVersion meta))"

text \<open>The row under lock, the authorization for its authorities, its version: confirming, completing and closing
  begin so.\<close>

definition open_transition ::
  "transition_env \<Rightarrow> Principal \<Rightarrow> Action \<Rightarrow> TransitionID \<Rightarrow> Version \<Rightarrow> (ledger, Transition) tx" where
  "open_transition env p action i expectedVersion =
     tx_bind (requireCurrentAuth p (tn_clock env 1)) (\<lambda>_.
     tx_bind (read_transition i) (\<lambda>t.
     tx_bind (transition_authorize env p action (transitionScope t)) (\<lambda>_.
     tx_bind (transition_version_check t expectedVersion) (\<lambda>_.
     tx_return t))))"

subsection \<open>Create\<close>

definition stopIssuanceIfEnabled :: "Authority \<Rightarrow> (ledger, Authority \<times> bool) tx" where
  "stopIssuanceIfEnabled authority =
     (if Authority_IsArchived authority \<or> au_issuanceState authority \<noteq> IssuanceStateEnabled
        then tx_return (authority, False)
      else
        tx_bind (tx_domain (StopIssuance authority)) (\<lambda>stopped.
        tx_bind (tx_store (SaveAuthority stopped (au_version authority)) ''transition_authority_stop_failed''
           ''could not stop the authority's issuance'') (\<lambda>_.
        tx_return (stopped, True))))"

definition collectLeafCertificateIDs :: "transition_env \<Rightarrow> AuthorityID \<Rightarrow> (ledger, CertificateID list) tx" where
  "collectLeafCertificateIDs env authorityID =
     walk_listing (tn_pages env)
       (\<lambda>page. tx_store (Query_ListCertificates (tn_lower env)
            \<lparr>clq_Search = [], clq_AuthorityID = Some authorityID, clq_ExpiresBefore = None, clq_Revoked = None,
             clq_Affected = None, clq_Page = page\<rparr> \<lparr>qs_All = True, qs_AuthorityIDs = [], qs_Public = False\<rparr>)
          ''transition_impact_certificates_read_failed'' ''could not list certificates for the affected authority'')
       (\<lambda>items. map certificate_id (filter (\<lambda>item. qc_SeriesID item \<noteq> None) items)) 200 []"

definition emergencyBlockAndImpact ::
  "transition_env \<Rightarrow> Authority \<Rightarrow> (ledger, AuthorityID list \<times> CertificateID list) tx" where
  "emergencyBlockAndImpact env source =
     tx_bind (tx_store (ListAffectedDescendants (au_id source)) ''transition_descendants_read_failed''
        ''could not list the source authority's managed descendants'') (\<lambda>descendants.
     tx_bind (tx_list stopIssuanceIfEnabled descendants) (\<lambda>_.
     tx_bind (tx_list (\<lambda>a. collectLeafCertificateIDs env (au_id a)) (source # descendants)) (\<lambda>leafIDs.
     tx_return (map au_id descendants, concat leafIDs))))"

definition recordImpacts :: "TransitionID \<Rightarrow> CertificateID list \<Rightarrow> (ledger, unit list) tx" where
  "recordImpacts transitionID certificateIDs =
     tx_list (\<lambda>certificate.
       tx_bind (tx_domain (NewTransitionImpact \<lparr>tif_TransitionID = transitionID, tif_CertificateID = certificate,
          tif_ReplacementCertificateID = [], tif_ReissuedAt = zero_instant\<rparr>)) (\<lambda>impact.
       tx_store (AddImpact impact) ''transition_impact_store_failed'' ''could not record a transition impact''))
     certificateIDs"

definition revokeUnderParent ::
  "transition_env \<Rightarrow> MutationMeta \<Rightarrow> Authority \<Rightarrow> Instant \<Rightarrow> (ledger, AuthorityID) tx" where
  "revokeUnderParent env meta source now =
     tx_bind (tx_store (PKI_GetCertificate (au_issuanceCertificateID source)) ''transition_source_certificate_read_failed''
        ''could not read the source authority's own certificate'') (\<lambda>sourceCert.
     tx_bind (tx_store (PKI_GetCACertificateRecord (au_issuanceCertificateID source)) ''transition_source_ca_record_read_failed''
        ''could not read the source authority's CA certificate record'') (\<lambda>sourceRecord.
     if cr_IssuerCACertificateID sourceRecord = []
       then tx_fail (app_error ErrorKindUnavailable ''transition_source_has_no_issuer''
         ''an intermediate authority's own certificate must have an issuer to revoke it under'')
     else
       tx_bind (tx_store (PKI_GetCACertificateRecord (cr_IssuerCACertificateID sourceRecord))
          ''transition_parent_ca_record_read_failed'' ''could not read the parent CA certificate record'') (\<lambda>parentRecord.
       tx_bind (tx_store (GetCAKeyGeneration (cr_CAKeyGenerationID parentRecord))
          ''transition_parent_key_generation_read_failed'' ''could not read the parent CA key generation'') (\<lambda>parentGeneration.
       tx_bind (applyRevocations
          [\<lparr>rc_IssuerID = cr_CAKeyGenerationID parentRecord, rc_Serial = ce_serial sourceCert,
            rc_CertificateID = au_issuanceCertificateID source, rc_RevokedAt = now,
            rc_Reason = RevocationReasonCACompromise, rc_Source = RevocationSourceCascade,
            rc_AuthorityID = cg_AuthorityID parentGeneration, rc_NeedsReview = False\<rparr>]
          \<lparr>rm_Request = RequestMeta.truncate meta, rm_ActorKind = ''account'',
           rm_ActorID = Principal_AccountID (rq_Principal meta), rm_TokenID = [],
           rm_Action = ''transition.emergency_parent_revoke'', rm_Now = now, rm_IDs = Some (tn_ids env)\<rparr>) (\<lambda>_.
       tx_return (cg_AuthorityID parentGeneration))))))"

text \<open>The additions of an emergency: what it touched, and which certificates it affects.\<close>

definition emergency_additions ::
  "transition_env \<Rightarrow> MutationMeta \<Rightarrow> TransitionMode \<Rightarrow> Authority \<Rightarrow> Instant \<Rightarrow> (ledger, AuthorityID list \<times> CertificateID list) tx" where
  "emergency_additions env meta mode source now =
     (if mode \<noteq> TransitionModeEmergency then tx_return ([], [])
      else
        tx_bind (emergencyBlockAndImpact env source) (\<lambda>(touched, leafIDs).
        if au_kind source \<noteq> AuthorityKindIntermediate then tx_return (touched, leafIDs)
        else
          tx_bind (revokeUnderParent env meta source now) (\<lambda>parent.
          tx_return (touched @ (if parent \<noteq> [] then [parent] else []), leafIDs))))"

definition insert_transition ::
  "transition_env \<Rightarrow> MutationMeta \<Rightarrow> TransitionCreateCommand \<Rightarrow> TransitionMode \<Rightarrow> Instant \<Rightarrow> Authority \<Rightarrow> (ledger, Transition) tx" where
  "insert_transition env meta cmd mode now source =
     tx_bind (NewUUID (tn_ids env)) (\<lambda>i.
     tx_bind (tx_domain (ParseTransitionID i)) (\<lambda>transitionID.
     tx_bind (tx_domain (NewTransition \<lparr>trf_ID = transitionID, trf_SourceAuthorityID = au_id source,
         trf_TargetAuthorityID = tcc_TargetAuthorityID cmd, trf_Mode = mode, trf_State = TransitionStateInProgress,
         trf_ReportedBy = Principal_AccountID (rq_Principal meta), trf_ReportedAt = now,
         trf_Reason = tcc_Reason cmd, trf_Version = 0\<rparr>)) (\<lambda>transition.
     tx_bind (tx_store (Transitions_Insert transition) ''transition_store_failed'' ''could not store the transition'') (\<lambda>_.
     tx_return transition))))"

text \<open>The target authority, when the report already names one.\<close>

definition read_optional_target :: "AuthorityID \<Rightarrow> (ledger, AuthorityID list) tx" where
  "read_optional_target i =
     (if i = [] then tx_return []
      else tx_bind (read_target i) (\<lambda>target. tx_return (if au_id target \<noteq> [] then [au_id target] else [])))"

definition transition_create_commit ::
  "transition_env \<Rightarrow> MutationMeta \<Rightarrow> TransitionCreateCommand \<Rightarrow> TransitionMode \<Rightarrow> (ledger, TransitionView) tx" where
  "transition_create_commit env meta cmd mode =
     tx_bind (requireCurrentAuth (rq_Principal meta) (tn_clock env 1)) (\<lambda>_.
     tx_bind (read_source (tcc_SourceAuthorityID cmd)) (\<lambda>source.
     tx_bind (read_optional_target (tcc_TargetAuthorityID cmd)) (\<lambda>target.
     tx_bind (transition_authorize env (rq_Principal meta) ActionTransitionCreate (au_id source # target)) (\<lambda>_.
     let now = tn_clock env 2 in
     tx_bind (stopIssuanceIfEnabled source) (\<lambda>_.
     tx_bind (emergency_additions env meta mode source now) (\<lambda>(touched, leafIDs).
     tx_bind (insert_transition env meta cmd mode now source) (\<lambda>transition.
     tx_bind (recordImpacts (tr_id transition) leafIDs) (\<lambda>_.
     tx_bind (append_transition_audit env now meta ''transition.create'' (tr_id transition)
        [''mode'' \<mapsto> TransitionMode_text mode] (au_id source # touched @ target)
        ''could not record the transition audit event'') (\<lambda>_.
     toTransitionView transition)))))))))"

definition TransitionService_Create ::
  "transition_env \<Rightarrow> MutationMeta \<Rightarrow> TransitionCreateCommand \<Rightarrow> (ledger, TransitionView) tx" where
  "TransitionService_Create env meta cmd =
     tx_bind (tx_guard (TransitionCreate_Validate cmd)) (\<lambda>_.
     if \<not> IsAdmin (rq_Principal meta)
       then tx_fail (transition_requires_admin ''reporting a CA transition requires an administrator session'')
     else
       tx_bind (tx_lift (map_sum Domain id (ModeInput_Domain (tcc_Mode cmd)))) (\<lambda>mode.
       uow_write (tn_fate env) (transition_create_commit env meta cmd mode)))"

subsection \<open>SetTarget\<close>

definition set_target_commit ::
  "transition_env \<Rightarrow> MutationMeta \<Rightarrow> TransitionSetTargetCommand \<Rightarrow> Version \<Rightarrow> (ledger, TransitionView) tx" where
  "set_target_commit env meta cmd expectedVersion =
     tx_bind (requireCurrentAuth (rq_Principal meta) (tn_clock env 1)) (\<lambda>_.
     tx_bind (read_transition (tst_TransitionID cmd)) (\<lambda>t.
     tx_bind (read_target (tst_TargetAuthorityID cmd)) (\<lambda>target.
     tx_bind (transition_authorize env (rq_Principal meta) ActionTransitionSetTarget (transitionScope t @ [au_id target])) (\<lambda>_.
     tx_bind (transition_version_check t expectedVersion) (\<lambda>_.
     tx_bind (tx_domain (SetTarget t (au_id target))) (\<lambda>changed.
     tx_bind (save_transition changed expectedVersion) (\<lambda>_.
     tx_bind (append_transition_audit env (tn_clock env 2) meta ''transition.set_target'' (tst_TransitionID cmd) Map.empty
        (transitionScope changed) ''could not record the set-target audit event'') (\<lambda>_.
     toTransitionView changed))))))))"

definition TransitionService_SetTarget ::
  "transition_env \<Rightarrow> MutationMeta \<Rightarrow> TransitionSetTargetCommand \<Rightarrow> (ledger, TransitionView) tx" where
  "TransitionService_SetTarget env meta cmd =
     tx_bind (tx_guard (TransitionSetTarget_Validate cmd)) (\<lambda>_.
     tx_bind (transition_admin_version meta ''changing a transition's target requires an administrator session'') (\<lambda>expectedVersion.
     uow_write (tn_fate env) (set_target_commit env meta cmd expectedVersion)))"

subsection \<open>ConfirmDeployment\<close>

definition confirm_commit ::
  "transition_env \<Rightarrow> MutationMeta \<Rightarrow> TransitionConfirmDeploymentCommand \<Rightarrow> DeploymentAction \<Rightarrow> Version \<Rightarrow> (ledger, DeploymentView) tx" where
  "confirm_commit env meta cmd action expectedVersion =
     (let now = tn_clock env 2 in
      tx_bind (open_transition env (rq_Principal meta) ActionTransitionConfirmDeployment (tcd_TransitionID cmd) expectedVersion) (\<lambda>t.
      tx_bind (tx_domain_check (ConfirmDeployment t)) (\<lambda>_.
      tx_bind (tx_domain (NewDeploymentConfirmation \<lparr>dcf_TransitionID = tcd_TransitionID cmd,
         dcf_CertificateID = tcd_CertificateID cmd, dcf_TargetLabel = tcd_TargetLabel cmd, dcf_Action = action,
         dcf_ConfirmedBy = Principal_AccountID (rq_Principal meta), dcf_ConfirmedAt = now\<rparr>)) (\<lambda>confirmation.
      tx_bind (tx_store (AddDeploymentConfirmation confirmation) ''transition_confirmation_store_failed''
         ''could not record the deployment confirmation'') (\<lambda>_.
      tx_bind (append_transition_audit env now meta ''transition.confirm_deployment'' (tcd_TransitionID cmd)
         [''action'' \<mapsto> NewDeploymentActionView action] (transitionScope t)
         ''could not record the confirm-deployment audit event'') (\<lambda>_.
      tx_bind (NewUUID (tn_ids env)) (\<lambda>i.
      tx_return \<lparr>dw_ID = i, dw_TargetLabel = dc_targetLabel confirmation,
        dw_CertificateID = stringPtr (dc_certificateID confirmation),
        dw_Action = NewDeploymentActionView (dc_action confirmation), dw_ConfirmedAt = dc_confirmedAt confirmation,
        dw_ConfirmedBy = dc_confirmedBy confirmation\<rparr>)))))))"

definition TransitionService_ConfirmDeployment ::
  "transition_env \<Rightarrow> MutationMeta \<Rightarrow> TransitionConfirmDeploymentCommand \<Rightarrow> (ledger, DeploymentView) tx" where
  "TransitionService_ConfirmDeployment env meta cmd =
     tx_bind (tx_guard (TransitionConfirm_Validate cmd)) (\<lambda>_.
     tx_bind (transition_admin_version meta ''confirming a transition deployment requires an administrator session'')
     (\<lambda>expectedVersion.
     tx_bind (tx_lift (map_sum Domain id (ActionInput_Domain (tcd_Action cmd)))) (\<lambda>action.
     uow_write (tn_fate env) (confirm_commit env meta cmd action expectedVersion))))"

subsection \<open>Complete\<close>

text \<open>The loop over the impacts, up to the first that is still open.\<close>

fun impacts_addressed :: "Instant \<Rightarrow> TransitionImpact list \<Rightarrow> (ledger, bool) tx" where
  "impacts_addressed now [] = tx_return True"
| "impacts_addressed now (i # is) =
     (if Impact_IsResolved i then impacts_addressed now is
      else
        tx_bind (tx_try (PKI_GetCertificate (ti_certificateID i))) (\<lambda>r. case r of
          Inl err \<Rightarrow>
            if Is_port err ErrNotFound then impacts_addressed now is
            else tx_fail (storeError err ''transition_impact_certificate_read_failed''
              ''could not read an impacted certificate'')
        | Inr c \<Rightarrow> if \<not> Certificate_IsExpiredAt c now then tx_return False else impacts_addressed now is))"

definition gatherClosureFacts :: "TransitionID \<Rightarrow> Instant \<Rightarrow> (ledger, TransitionClosureFacts) tx" where
  "gatherClosureFacts transitionID now =
     tx_bind (tx_store (ListImpacts transitionID) ''transition_impacts_read_failed''
        ''could not read the transition's impact list'') (\<lambda>impacts.
     tx_bind (impacts_addressed now impacts) (\<lambda>addressed.
     tx_bind (tx_store (ListDeploymentConfirmations transitionID) ''transition_confirmations_read_failed''
        ''could not read the transition's deployment confirmations'') (\<lambda>confirmations.
     tx_return \<lparr>tcf_AllImpactsAddressed = addressed, tcf_ManualDeploymentConfirmed = (confirmations \<noteq> [])\<rparr>)))"

definition complete_commit ::
  "transition_env \<Rightarrow> MutationMeta \<Rightarrow> TransitionID \<Rightarrow> Version \<Rightarrow> (ledger, TransitionView) tx" where
  "complete_commit env meta i expectedVersion =
     (let now = tn_clock env 2 in
      tx_bind (open_transition env (rq_Principal meta) ActionTransitionComplete i expectedVersion) (\<lambda>t.
      tx_bind (gatherClosureFacts (tr_id t) now) (\<lambda>facts.
      tx_bind (tx_domain (Transition_Complete t facts)) (\<lambda>changed.
      tx_bind (save_transition changed expectedVersion) (\<lambda>_.
      tx_bind (append_transition_audit env now meta ''transition.complete'' i Map.empty (transitionScope t)
         ''could not record the complete audit event'') (\<lambda>_.
      toTransitionView changed))))))"

definition TransitionService_Complete ::
  "transition_env \<Rightarrow> MutationMeta \<Rightarrow> TransitionID \<Rightarrow> (ledger, TransitionView) tx" where
  "TransitionService_Complete env meta i =
     tx_bind (tx_guard (TransitionComplete_Validate i)) (\<lambda>_.
     tx_bind (transition_admin_version meta ''completing a transition requires an administrator session'') (\<lambda>expectedVersion.
     uow_write (tn_fate env) (complete_commit env meta i expectedVersion)))"

subsection \<open>Close\<close>

definition read_closing_source :: "AuthorityID \<Rightarrow> (ledger, Authority) tx" where
  "read_closing_source i = tx_read (GetIssuerForUpdate i)
     (app_error ErrorKindUnavailable ''transition_source_missing'' ''the transition's source authority could not be found'')
     ''transition_source_read_failed'' ''could not read the source authority''"

definition read_closing_state :: "CAKeyGenerationID \<Rightarrow> (ledger, CRLState) tx" where
  "read_closing_state i = tx_read (GetStateForUpdate i)
     (app_error ErrorKindUnavailable ''transition_source_crl_state_missing'' ''the source authority has no CRL state'')
     ''transition_source_crl_state_read_failed'' ''could not read the source authority's CRL state''"

definition close_commit ::
  "transition_env \<Rightarrow> MutationMeta \<Rightarrow> TransitionID \<Rightarrow> Version \<Rightarrow> (ledger, TransitionView) tx" where
  "close_commit env meta i expectedVersion =
     tx_bind (open_transition env (rq_Principal meta) ActionTransitionClose i expectedVersion) (\<lambda>t.
     tx_bind (read_closing_source (tr_sourceAuthorityID t)) (\<lambda>source.
     tx_bind (read_closing_state (au_keyGenerationID source)) (\<lambda>state.
     tx_bind (tx_domain (Transition_Close t
        (TransitionTerminationFacts (cs_publicationState state = PublicationStateClosed)))) (\<lambda>changed.
     tx_bind (save_transition changed expectedVersion) (\<lambda>_.
     tx_bind (append_transition_audit env (tn_clock env 2) meta ''transition.close'' i Map.empty
        (transitionScope t @ [au_id source]) ''could not record the close audit event'') (\<lambda>_.
     toTransitionView changed))))))"

definition TransitionService_Close ::
  "transition_env \<Rightarrow> MutationMeta \<Rightarrow> TransitionID \<Rightarrow> (ledger, TransitionView) tx" where
  "TransitionService_Close env meta i =
     tx_bind (tx_domain_check (err_of (ParseTransitionID i))) (\<lambda>_.
     tx_bind (transition_admin_version meta ''closing a transition requires an administrator session'') (\<lambda>expectedVersion.
     uow_write (tn_fate env) (close_commit env meta i expectedVersion)))"

end
