(* ===== verification/Transition_Safety.thy ===== *)
theory Transition_Safety
  imports Transition_Service Key_Handover
begin

text \<open>
  What an emergency report contains: the family of the reported authority, itself and every managed descendant, stops
  issuing in the very transaction that stores the transition; each leaf certificate of the family becomes an impact of
  it, and of the revocations only the one of an intermediate's own certificate is new.
\<close>

subsection \<open>Stopping a set of authorities\<close>

definition stopped :: "Authority \<Rightarrow> Authority" where
  "stopped a = (if Authority_IsArchived a \<or> au_issuanceState a \<noteq> IssuanceStateEnabled then a
     else a\<lparr>au_issuanceState := IssuanceStateStopped, au_version := Version_Next (au_version a)\<rparr>)"

lemma stopped_fields [simp]:
  "au_id (stopped a) = au_id a" "au_managementParentID (stopped a) = au_managementParentID a" "stopped (stopped a) = stopped a"
  by (simp_all add: stopped_def Authority_IsArchived_def)

lemma stopped_refuses: "CanIssue (stopped a) ctx now \<noteq> None"
  by (auto simp: stopped_def success_iff Authority_IsArchived_def)

text \<open>The authorities of the store, by identifier.\<close>

definition authority_rows_ok :: "ledger \<Rightarrow> bool" where
  "authority_rows_ok w \<longleftrightarrow> distinct (map fst (lg_authorities w)) \<and> (\<forall>(i, a)\<in>set (lg_authorities w). au_id a = i)
     \<and> [] \<notin> fst ` set (lg_authorities w)"

definition with_stopped :: "AuthorityID set \<Rightarrow> (AuthorityID \<rightharpoonup> Authority) \<Rightarrow> AuthorityID \<rightharpoonup> Authority" where
  "with_stopped ids t = (\<lambda>i. map_option (if i \<in> ids then stopped else id) (t i))"

lemma with_stopped_more: "with_stopped b (with_stopped a t) = with_stopped (a \<union> b) t"
  by (auto simp: with_stopped_def fun_eq_iff option.map_comp comp_def option.map_ident id_def)

lemma with_stopped_none [simp]: "with_stopped {} t = t"
  by (simp add: with_stopped_def option.map_id)

lemma authority_row:
  assumes "authority_rows_ok w" and "map_of (lg_authorities w) i = Some a"
  shows "au_id a = i" "i \<noteq> []"
  using assms map_of_SomeD [OF assms(2)] by (force simp: authority_rows_ok_def)+

lemma stop_effect:
  assumes run: "stopIssuanceIfEnabled a w = (Inr r, w')" and ok: "authority_rows_ok w"
    and row: "map_of (lg_authorities w) (au_id a) = Some a"
  shows "w' = w\<lparr>lg_authorities := lg_authorities w'\<rparr> \<and> authority_rows_ok w'
    \<and> map_of (lg_authorities w') = with_stopped {au_id a} (map_of (lg_authorities w))"
proof (cases "Authority_IsArchived a \<or> au_issuanceState a \<noteq> IssuanceStateEnabled")
  case True
  then have "stopped a = a" by (simp add: stopped_def)
  with True run row ok show ?thesis
    by (auto simp: stopIssuanceIfEnabled_def tx_return_iff with_stopped_def fun_eq_iff option.map_id split: if_splits)
next
  case False
  then have "StopIssuance a = Inr (stopped a)" by (simp add: StopIssuance_def stopped_def)
  with False run have w': "w' = w\<lparr>lg_authorities := AList.update (au_id a) (stopped a) (lg_authorities w)\<rparr>"
    by (auto simp: stopIssuanceIfEnabled_def tx_iff SaveAuthority_def)
  have "au_id a \<noteq> []" using authority_row [OF ok row] by simp
  with ok have "authority_rows_ok w'"
    unfolding w' authority_rows_ok_def
    by (auto simp: distinct_update image_iff dest!: set_update_cases)
  moreover have "map_of (lg_authorities w') = with_stopped {au_id a} (map_of (lg_authorities w))"
    using row by (auto simp: w' update_conv' with_stopped_def fun_eq_iff option.map_id)
  ultimately show ?thesis by (simp add: w')
qed

lemma stop_all_effect:
  assumes "tx_list stopIssuanceIfEnabled ds w = (Inr r, w')" and "authority_rows_ok w"
    and "\<forall>d\<in>set ds. map_of (lg_authorities w) (au_id d) = Some d" and "distinct (map au_id ds)"
  shows "w' = w\<lparr>lg_authorities := lg_authorities w'\<rparr> \<and> authority_rows_ok w'
    \<and> map_of (lg_authorities w') = with_stopped (au_id ` set ds) (map_of (lg_authorities w))"
  using assms
proof (induction ds arbitrary: w r)
  case Nil
  then show ?case by (simp add: tx_return_iff)
next
  case (Cons d ds)
  from Cons.prems(1) obtain x w1 ys where one: "stopIssuanceIfEnabled d w = (Inr x, w1)"
    and rest: "tx_list stopIssuanceIfEnabled ds w1 = (Inr ys, w')" by (auto simp: tx_iff)
  have row: "map_of (lg_authorities w) (au_id d) = Some d" using Cons.prems(3) by simp
  note eff = stop_effect [OF one Cons.prems(2) row]
  have "map_of (lg_authorities w1) (au_id e) = Some e" if "e \<in> set ds" for e
  proof -
    have "au_id e \<noteq> au_id d" using that Cons.prems(4) by (auto simp: image_iff)
    with that Cons.prems(3) eff show ?thesis by (simp add: with_stopped_def)
  qed
  then have kept: "\<forall>e\<in>set ds. map_of (lg_authorities w1) (au_id e) = Some e" by blast
  from eff have ok: "authority_rows_ok w1" by simp
  from Cons.prems(4) have "distinct (map au_id ds)" by simp
  note tail = Cons.IH [OF rest ok kept this]
  from eff tail obtain l m where "w1 = w\<lparr>lg_authorities := l\<rparr>" "w' = w1\<lparr>lg_authorities := m\<rparr>" by blast
  then have "w' = w\<lparr>lg_authorities := lg_authorities w'\<rparr>" by simp
  with tail eff show ?case by (simp add: with_stopped_more)
qed

subsection \<open>The family\<close>

definition family :: "ledger \<Rightarrow> AuthorityID \<Rightarrow> AuthorityID set" where
  "family w root = insert root (au_id ` {a. descends_from (map snd (lg_authorities w)) root a})"

lemma row_of_member:
  "authority_rows_ok w \<Longrightarrow> a \<in> set (map snd (lg_authorities w)) \<Longrightarrow> map_of (lg_authorities w) (au_id a) = Some a"
  by (auto simp: authority_rows_ok_def)

lemma stored_row: "map_of (lg_authorities w) i = Some a \<Longrightarrow> a \<in> set (map snd (lg_authorities w))"
  by (drule map_of_SomeD) force

text \<open>Who descends from whom depends on the identifiers and parents alone.\<close>

lemma descends_transfer:
  assumes "descends_from as root a" and "\<And>x. x \<in> set as \<Longrightarrow> \<exists>y\<in>set bs. au_id y = au_id x \<and> au_managementParentID y = au_managementParentID x"
  shows "\<exists>b. descends_from bs root b \<and> au_id b = au_id a"
  using assms(1)
proof induction
  case (child a)
  with assms(2) show ?case by (metis descends_from.child)
next
  case (below b a)
  then obtain b' y where "descends_from bs root b'" "au_id b' = au_id b" "y \<in> set bs" "au_id y = au_id a"
    "au_managementParentID y = au_id b" using assms(2) by metis
  then show ?case by (metis descends_from.below)
qed

lemma stopped_rows:
  assumes "authority_rows_ok w" and "authority_rows_ok w1" and "map_of (lg_authorities w1) = with_stopped s (map_of (lg_authorities w))"
  shows "x \<in> set (map snd (lg_authorities w)) \<Longrightarrow>
      \<exists>y\<in>set (map snd (lg_authorities w1)). au_id y = au_id x \<and> au_managementParentID y = au_managementParentID x"
    and "y \<in> set (map snd (lg_authorities w1)) \<Longrightarrow>
      \<exists>x\<in>set (map snd (lg_authorities w)). au_id x = au_id y \<and> au_managementParentID x = au_managementParentID y"
proof -
  assume "x \<in> set (map snd (lg_authorities w))"
  then have "map_of (lg_authorities w1) (au_id x) = Some ((if au_id x \<in> s then stopped else id) x)"
    using row_of_member [OF assms(1)] assms(3) by (simp add: with_stopped_def)
  from stored_row [OF this]
  show "\<exists>y\<in>set (map snd (lg_authorities w1)). au_id y = au_id x \<and> au_managementParentID y = au_managementParentID x"
    by (rule bexI [rotated]) simp
next
  assume "y \<in> set (map snd (lg_authorities w1))"
  then have "with_stopped s (map_of (lg_authorities w)) (au_id y) = Some y"
    using row_of_member [OF assms(2)] assms(3) by simp
  then obtain x where x: "map_of (lg_authorities w) (au_id y) = Some x" and "y = (if au_id y \<in> s then stopped else id) x"
    by (auto simp: with_stopped_def)
  then have "au_id x = au_id y \<and> au_managementParentID x = au_managementParentID y"
    by (cases "au_id y \<in> s") auto
  with stored_row [OF x]
  show "\<exists>x\<in>set (map snd (lg_authorities w)). au_id x = au_id y \<and> au_managementParentID x = au_managementParentID y"
    by (rule bexI [rotated])
qed

lemma family_stopped:
  assumes "authority_rows_ok w" and "authority_rows_ok w1" and "map_of (lg_authorities w1) = with_stopped s (map_of (lg_authorities w))"
  shows "family w1 root = family w root"
proof -
  have "\<exists>b. descends_from (map snd (lg_authorities w1)) root b \<and> au_id b = au_id a"
    if "descends_from (map snd (lg_authorities w)) root a" for a
    using descends_transfer [OF that stopped_rows(1) [OF assms]] .
  moreover have "\<exists>b. descends_from (map snd (lg_authorities w)) root b \<and> au_id b = au_id a"
    if "descends_from (map snd (lg_authorities w1)) root a" for a
    using descends_transfer [OF that stopped_rows(2) [OF assms]] .
  moreover have "x \<in> au_id ` {a. descends_from as root a} \<longleftrightarrow> (\<exists>a. descends_from as root a \<and> au_id a = x)" for x as by auto
  ultimately have "x \<in> au_id ` {a. descends_from (map snd (lg_authorities w1)) root a}
      \<longleftrightarrow> x \<in> au_id ` {a. descends_from (map snd (lg_authorities w)) root a}" for x by blast
  then show ?thesis unfolding family_def by blast
qed

lemma family_row:
  assumes "authority_rows_ok w" and "map_of (lg_authorities w) root = Some a" and "i \<in> family w root"
  shows "\<exists>b. map_of (lg_authorities w) i = Some b"
  using assms row_of_member [OF assms(1)] by (auto simp: family_def dest!: descends_from_row)

text \<open>The rows the store answers for the descendants are theirs, and with the root they are the family.\<close>

lemma listed_descendants:
  assumes "ListAffectedDescendants root w = (Inr ds, w')" and "authority_rows_ok w"
  shows "w' = w \<and> distinct (map au_id ds) \<and> (\<forall>d\<in>set ds. map_of (lg_authorities w) (au_id d) = Some d)
    \<and> insert root (au_id ` set ds) = family w root"
proof -
  let ?as = "map snd (lg_authorities w)"
  have ids: "map au_id ?as = map fst (lg_authorities w)" using assms(2) by (auto simp: authority_rows_ok_def)
  have dist: "distinct (map au_id ?as)" unfolding ids using assms(2) by (simp add: authority_rows_ok_def)
  have ds: "w' = w" "ds = sort_key au_id (descend ?as [root] {root} [])"
    using assms(1) by (auto simp: ListAffectedDescendants_def tx_return_def simp del: descend.simps)
  note exact = descendants_exact_rows [OF dist refl, of root]
  have found: "set ds = {a. descends_from ?as root a \<and> au_id a \<noteq> root}"
    using exact by (auto simp: ds(2) simp del: descend.simps)
  moreover have "distinct (map au_id ds)" using exact by (simp add: ds(2) distinct_map del: descend.simps)
  moreover have "map_of (lg_authorities w) (au_id d) = Some d" if "d \<in> set ds" for d
    using that found row_of_member [OF assms(2)] by (auto dest: descends_from_row)
  ultimately show ?thesis using ds(1) by (auto simp: family_def image_iff)
qed

subsection \<open>The leaf certificates of an authority\<close>

definition managed_leaf :: "ledger \<Rightarrow> AuthorityID \<Rightarrow> CertificateID \<Rightarrow> bool" where
  "managed_leaf w a c \<longleftrightarrow> map_of (lg_certificates w) c \<noteq> None
     \<and> (\<exists>r s. lg_leafCertRecords w c = Some r \<and> lg_series w (lr_SeriesID r) = Some s \<and> ls_managementAuthorityID s = a)"

definition certificate_rows_ok :: "ledger \<Rightarrow> bool" where
  "certificate_rows_ok w \<longleftrightarrow> distinct (map fst (lg_certificates w)) \<and> (\<forall>(i, c)\<in>set (lg_certificates w). ce_id c = i)
     \<and> [] \<notin> fst ` set (lg_certificates w)"

lemma walk_store:
  assumes "\<And>p. \<exists>x. f p w = (Inr x, w)"
  shows "walk_listing n (\<lambda>p. tx_store (f p) code detail) pick limit c w = walk_listing n f pick limit c w"
proof (induction n arbitrary: c)
  case (Suc n)
  obtain x where "f \<lparr>pq_Cursor = c, pq_Limit = limit\<rparr> w = (Inr x, w)" using assms by blast
  with Suc show ?case by (simp add: tx_bind_def tx_store_def tx_or_def tx_return_def split: option.splits)
qed simp

lemma queried_row: "certificate_id (queried w c) = ce_id c" "qc_SeriesID (queried w c) = None \<longleftrightarrow> lg_leafCertRecords w (ce_id c) = None"
  by (simp_all add: certificate_id_def queried_def)

lemma collect_effect:
  assumes "certificate_rows_ok w" and "length (lg_certificates w) < tn_pages env" and "a \<noteq> []"
  shows "\<exists>cs. collectLeafCertificateIDs env a w = (Inr cs, w) \<and> (\<forall>c. c \<in> set cs \<longleftrightarrow> managed_leaf w a c)"
proof -
  let ?q = "\<lparr>clq_Search = [], clq_AuthorityID = Some a, clq_ExpiresBefore = None, clq_Revoked = None,
     clq_Affected = None, clq_Page = undefined\<rparr>" and ?s = "\<lparr>qs_All = True, qs_AuthorityIDs = [], qs_Public = False\<rparr>"
  let ?pick = "\<lambda>items. map certificate_id (filter (\<lambda>item. qc_SeriesID item \<noteq> None) items)"
  let ?rows = "visible_certificates (tn_lower env) ?q ?s w"
  have ids: "ids_ok (certificate_ids w)"
  proof -
    have same: "certificate_ids w = map fst (lg_certificates w)" using assms(1) by (auto simp: certificate_rows_ok_def)
    show ?thesis unfolding same using assms(1) by (simp add: ids_ok_def certificate_rows_ok_def)
  qed
  have short: "length ?rows < tn_pages env"
    using le_less_trans [OF length_filter_le assms(2)] by (simp add: visible_certificates_def)
  have "walk_listing (tn_pages env) (\<lambda>p. Query_ListCertificates (tn_lower env) (?q\<lparr>clq_Page := p\<rparr>) ?s) ?pick 200 [] w
      = (Inr (?pick ?rows), w)"
    by (rule certificate_listing.walk_all [OF ids short]) simp
  then have "collectLeafCertificateIDs env a w = (Inr (?pick ?rows), w)"
    unfolding collectLeafCertificateIDs_def
    by (subst walk_store) (simp_all add: Query_ListCertificates_def tx_return_def)
  moreover have "c \<in> set (?pick ?rows) \<longleftrightarrow> managed_leaf w a c" for c
  proof -
    have listed: "lists_certificate (tn_lower env) ?q ?s w x \<longleftrightarrow> certificateAuthority w (fst x) = a" for x
      by (auto simp: lists_certificate_def visible_def matchesSearch_def passes_def)
    have picked: "c \<in> set (map f (filter p (sort_key f (map g (filter r xs))))) \<longleftrightarrow> (\<exists>x\<in>set xs. r x \<and> p (g x) \<and> c = f (g x))"
      for f :: "QueriedCertificate \<Rightarrow> string" and p r and g :: "CertificateID \<times> Certificate \<Rightarrow> QueriedCertificate" and xs
      by auto
    have "c \<in> set (?pick ?rows) \<longleftrightarrow> (\<exists>x\<in>set (lg_certificates w). certificateAuthority w (fst x) = a
        \<and> lg_leafCertRecords w (ce_id (snd x)) \<noteq> None \<and> c = ce_id (snd x))"
      unfolding visible_certificates_def listed
      by (simp only: picked queried_row comp_apply)
    also have "\<dots> \<longleftrightarrow> map_of (lg_certificates w) c \<noteq> None \<and> certificateAuthority w c = a \<and> lg_leafCertRecords w c \<noteq> None"
      using assms(1) by (fastforce simp: certificate_rows_ok_def map_of_eq_None_iff)
    also have "\<dots> \<longleftrightarrow> managed_leaf w a c"
      using assms(3) by (auto simp: managed_leaf_def certificateAuthority_def split: option.splits)
    finally show ?thesis .
  qed
  ultimately show ?thesis by blast
qed

lemma tx_list_reads:
  assumes "\<forall>x\<in>set xs. \<exists>y. f x w = (Inr y, w) \<and> (\<forall>c. c \<in> set y \<longleftrightarrow> q x c)"
  shows "\<exists>ys. tx_list f xs w = (Inr ys, w) \<and> (\<forall>c. c \<in> set (concat ys) \<longleftrightarrow> (\<exists>x\<in>set xs. q x c))"
  using assms
proof (induction xs)
  case Nil
  show ?case by (simp add: tx_return_def)
next
  case (Cons x xs)
  then obtain y ys where "f x w = (Inr y, w)" "\<forall>c. c \<in> set y \<longleftrightarrow> q x c" "tx_list f xs w = (Inr ys, w)"
    "\<forall>c. c \<in> set (concat ys) \<longleftrightarrow> (\<exists>x\<in>set xs. q x c)" by auto
  then show ?case by (intro exI [of _ "y # ys"]) (simp add: tx_bind_def tx_return_def)
qed

lemma block_effect:
  assumes run: "emergencyBlockAndImpact env src w = (Inr (touched, leafs), w')"
    and ok: "authority_rows_ok w" "certificate_rows_ok w" and pages: "length (lg_certificates w) < tn_pages env"
    and src: "au_id src \<noteq> []"
  shows "w' = w\<lparr>lg_authorities := lg_authorities w'\<rparr> \<and> authority_rows_ok w'
    \<and> (\<exists>ids. insert (au_id src) ids = family w (au_id src)
         \<and> map_of (lg_authorities w') = with_stopped ids (map_of (lg_authorities w)))
    \<and> (\<forall>c. c \<in> set leafs \<longleftrightarrow> (\<exists>a\<in>family w (au_id src). managed_leaf w a c))"
proof -
  from run obtain ds w1 r w2 ls where ds: "ListAffectedDescendants (au_id src) w = (Inr ds, w1)"
    and stops: "tx_list stopIssuanceIfEnabled ds w1 = (Inr r, w2)"
    and leafs: "tx_list (\<lambda>a. collectLeafCertificateIDs env (au_id a)) (src # ds) w2 = (Inr ls, w')" "leafs = concat ls"
    by (auto simp: emergencyBlockAndImpact_def tx_bind_iff tx_store_iff tx_return_iff)
  note listed = listed_descendants [OF ds ok(1)]
  then have w1: "w1 = w" and d: "distinct (map au_id ds)" "\<forall>d\<in>set ds. map_of (lg_authorities w) (au_id d) = Some d"
    and fam: "insert (au_id src) (au_id ` set ds) = family w (au_id src)" by simp_all
  note eff = stop_all_effect [OF stops [unfolded w1] ok(1) d(2,1)]
  then obtain l where w2: "w2 = w\<lparr>lg_authorities := l\<rparr>" by blast
  have cert: "certificate_rows_ok w2" "length (lg_certificates w2) < tn_pages env"
    using ok(2) pages by (simp_all add: w2 certificate_rows_ok_def)
  have id: "au_id a \<noteq> []" if "a \<in> set (src # ds)" for a
    using that src d(2) authority_row(2) [OF ok(1)] by (metis set_ConsD)
  have "\<forall>a\<in>set (src # ds). \<exists>cs. collectLeafCertificateIDs env (au_id a) w2 = (Inr cs, w2)
      \<and> (\<forall>c. c \<in> set cs \<longleftrightarrow> managed_leaf w2 (au_id a) c)"
    using collect_effect [OF cert id] by blast
  from tx_list_reads [where q = "\<lambda>a. managed_leaf w2 (au_id a)" and f = "\<lambda>a. collectLeafCertificateIDs env (au_id a)", OF this]
    leafs have w': "w' = w2"
    and all: "\<forall>c. c \<in> set leafs \<longleftrightarrow> (\<exists>a\<in>set (src # ds). managed_leaf w2 (au_id a) c)" by auto
  have "managed_leaf w2 = managed_leaf w" by (intro ext) (simp add: managed_leaf_def w2)
  with all have "\<forall>c. c \<in> set leafs \<longleftrightarrow> (\<exists>a\<in>family w (au_id src). managed_leaf w a c)" by (simp add: fam [symmetric])
  with eff fam w' show ?thesis by blast
qed

subsection \<open>Impacts and the revocation\<close>

definition open_impact :: "TransitionID \<Rightarrow> CertificateID \<Rightarrow> TransitionImpact" where
  "open_impact i c = \<lparr>ti_transitionID = i, ti_certificateID = c, ti_replacementCertificateID = [], ti_reissuedAt = zero_instant\<rparr>"

lemma impacts_effect:
  assumes "recordImpacts i cs w = (Inr r, w')"
  shows "w' = w\<lparr>lg_impacts := lg_impacts w'\<rparr>
    \<and> (\<forall>k. map_of (lg_impacts w') k = (if fst k = i \<and> snd k \<in> set cs then Some (open_impact i (snd k)) else map_of (lg_impacts w) k))"
  using assms
proof (induction cs arbitrary: w r)
  case Nil
  then show ?case by (simp add: recordImpacts_def tx_return_iff)
next
  case (Cons c cs)
  from Cons.prems obtain w1 r1 where w1: "w1 = w\<lparr>lg_impacts := AList.update (i, c) (open_impact i c) (lg_impacts w)\<rparr>"
    and rest: "recordImpacts i cs w1 = (Inr r1, w')"
    by (auto simp: recordImpacts_def tx_iff NewTransitionImpact_def success_iff AddImpact_def impact_key_def open_impact_def)
  from Cons.IH [OF rest] obtain m where w': "w' = w1\<lparr>lg_impacts := m\<rparr>" by blast
  have "w' = w\<lparr>lg_impacts := lg_impacts w'\<rparr>" by (simp add: w' w1)
  moreover have "map_of (lg_impacts w') k = (if fst k = i \<and> snd k \<in> set (c # cs) then Some (open_impact i (snd k))
      else map_of (lg_impacts w) k)" for k
    using Cons.IH [OF rest] by (cases k) (auto simp: w1 update_conv')
  ultimately show ?case by blast
qed

text \<open>The serial of an intermediate's own certificate under the key that issued it.\<close>

definition own_serial :: "ledger \<Rightarrow> Authority \<Rightarrow> CAKeyGenerationID \<times> string \<Rightarrow> bool" where
  "own_serial w a k \<longleftrightarrow> (\<exists>c r p. map_of (lg_certificates w) (au_issuanceCertificateID a) = Some c
     \<and> map_of (lg_caCertRecords w) (au_issuanceCertificateID a) = Some r
     \<and> map_of (lg_caCertRecords w) (cr_IssuerCACertificateID r) = Some p
     \<and> k = (cr_CAKeyGenerationID p, sn_hex (ce_serial c)))"

text \<open>The serial is revoked; a row that is new gives the compromise as its reason and the instant of the report.\<close>

definition revoked_as_compromised :: "Instant \<Rightarrow> ledger \<Rightarrow> ledger \<Rightarrow> CAKeyGenerationID \<times> string \<Rightarrow> bool" where
  "revoked_as_compromised now w w' k \<longleftrightarrow> (\<exists>r. lg_revocations w' k = Some r
     \<and> (lg_revocations w k = None \<longrightarrow> rv_reason r = RevocationReasonCACompromise \<and> rv_revokedAt r = now))"

lemma single_change_as_given:
  assumes "applyRevocations [c] m w = (Inr out, w')" and "crl_keyed w"
  shows "\<exists>r. lg_revocations w' (change_key c) = Some r
    \<and> (lg_revocations w (change_key c) = None \<longrightarrow> rv_reason r = rc_Reason c \<and> rv_revokedAt r = rc_RevokedAt c)"
proof (cases "lg_revocations w (change_key c)")
  case (Some e)
  with single_change_recorded [OF assms] show ?thesis by auto
next
  case None
  then have "alters w c" by (simp add: alters_def)
  moreover from applyRevocations_effect [OF assms] obtain n g where
    "issuer_effect w w' (rc_IssuerID c) (changes_of [c] (rc_IssuerID c)) n g" by blast
  ultimately have "written w w' g c" by (simp add: issuer_effect_def changes_of_def)
  with None show ?thesis by (auto simp: written_def)
qed

lemma revoke_effect:
  assumes run: "revokeUnderParent env meta src now w = (Inr p, w')" and keyed: "crl_keyed w"
  shows "outside_revocation w' = outside_revocation w \<and> (\<exists>k. own_serial w src k \<and> revoked_as_compromised now w w' k
    \<and> (\<forall>x. x \<noteq> k \<longrightarrow> lg_revocations w' x = lg_revocations w x))"
proof -
  from run obtain c r pr owner out where rows: "map_of (lg_certificates w) (au_issuanceCertificateID src) = Some c"
    "map_of (lg_caCertRecords w) (au_issuanceCertificateID src) = Some r"
    "map_of (lg_caCertRecords w) (cr_IssuerCACertificateID r) = Some pr"
    and batch: "applyRevocations
          [\<lparr>rc_IssuerID = cr_CAKeyGenerationID pr, rc_Serial = ce_serial c,
            rc_CertificateID = au_issuanceCertificateID src, rc_RevokedAt = now,
            rc_Reason = RevocationReasonCACompromise, rc_Source = RevocationSourceCascade,
            rc_AuthorityID = owner, rc_NeedsReview = False\<rparr>]
          \<lparr>rm_Request = RequestMeta.truncate meta, rm_ActorKind = ''account'',
           rm_ActorID = Principal_AccountID (rq_Principal meta), rm_TokenID = [],
           rm_Action = ''transition.emergency_parent_revoke'', rm_Now = now, rm_IDs = Some (tn_ids env)\<rparr> w = (Inr out, w')"
      (is "applyRevocations [?c] ?m w = _")
    by (auto simp: revokeUnderParent_def tx_iff PKI_GetCertificate_def PKI_GetCACertificateRecord_def GetCAKeyGeneration_def
        split: if_splits)
  let ?k = "change_key ?c"
  have "own_serial w src ?k" using rows by (auto simp: own_serial_def change_key_def)
  moreover have "revoked_as_compromised now w w' ?k"
    using single_change_as_given [OF batch keyed] by (simp add: revoked_as_compromised_def)
  moreover have "lg_revocations w' x = lg_revocations w x" if "x \<noteq> ?k" for x
  proof -
    from applyRevocations_effect [OF batch keyed] obtain n gen where
      "issuer_effect w w' (fst x) (changes_of [?c] (fst x)) n gen" by blast
    then have "x \<notin> change_key ` set (filter (alters w) (changes_of [?c] (fst x))) \<longrightarrow> lg_revocations w' x = lg_revocations w x"
      by (cases x) (simp add: issuer_effect_def)
    with that show ?thesis by (auto simp: changes_of_def split: if_splits)
  qed
  ultimately show ?thesis using keepsD [OF applyRevocations_outside batch] by blast
qed

text \<open>What the emergency additions do to a store whose reported authority is already stopped.\<close>

lemma outside_more:
  assumes "outside_revocation w' = outside_revocation w"
  shows "lg_impacts w' = lg_impacts w" "lg_transitionRows w' = lg_transitionRows w" "lg_authorities w' = lg_authorities w"
  using arg_cong [OF assms, of lg_impacts] arg_cong [OF assms, of lg_transitionRows] arg_cong [OF assms, of lg_authorities]
  by (simp_all add: outside_revocation_def)

definition own_revoked :: "Instant \<Rightarrow> ledger \<Rightarrow> Authority \<Rightarrow> ledger \<Rightarrow> bool" where
  "own_revoked now w a w' \<longleftrightarrow> (if au_kind a = AuthorityKindIntermediate
     then \<exists>k. own_serial w a k \<and> revoked_as_compromised now w w' k \<and> (\<forall>x. x \<noteq> k \<longrightarrow> lg_revocations w' x = lg_revocations w x)
     else lg_revocations w' = lg_revocations w)"

lemma additions_effect:
  assumes run: "emergency_additions env meta TransitionModeEmergency src now w = (Inr (touched, leafs), w')"
    and ok: "authority_rows_ok w" "certificate_rows_ok w" "crl_keyed w" and pages: "length (lg_certificates w) < tn_pages env"
    and src: "au_id src \<noteq> []"
  shows "(\<exists>ids. insert (au_id src) ids = family w (au_id src)
         \<and> map_of (lg_authorities w') = with_stopped ids (map_of (lg_authorities w)))
    \<and> (\<forall>c. c \<in> set leafs \<longleftrightarrow> (\<exists>a\<in>family w (au_id src). managed_leaf w a c))
    \<and> lg_impacts w' = lg_impacts w \<and> lg_transitionRows w' = lg_transitionRows w \<and> own_revoked now w src w'"
proof -
  from run obtain tl w1 where block: "emergencyBlockAndImpact env src w = (Inr tl, w1)"
    and rest: "(case tl of (touched, leafIDs) \<Rightarrow> if au_kind src \<noteq> AuthorityKindIntermediate then tx_return (touched, leafIDs)
        else tx_bind (revokeUnderParent env meta src now) (\<lambda>parent.
          tx_return (touched @ (if parent \<noteq> [] then [parent] else []), leafIDs))) w1 = (Inr (touched, leafs), w')"
    by (auto simp: emergency_additions_def tx_bind_iff)
  obtain t1 l1 where tl: "tl = (t1, l1)" by (cases tl)
  from rest tl have l1: "l1 = leafs" by (auto simp: tx_iff split: if_splits)
  note eff = block_effect [OF block [unfolded tl l1] ok(1,2) pages src]
  then obtain l where w1: "w1 = w\<lparr>lg_authorities := l\<rparr>" by blast
  have keyed: "crl_keyed w1" using ok(3) by (simp add: crl_keyed_def w1)
  show ?thesis
  proof (cases "au_kind src = AuthorityKindIntermediate")
    case False
    with rest tl have "w' = w1" by (auto simp: tx_return_iff)
    with eff False show ?thesis by (simp add: w1 own_revoked_def)
  next
    case True
    with rest tl obtain p where "revokeUnderParent env meta src now w1 = (Inr p, w')" by (auto simp: tx_iff)
    from revoke_effect [OF this keyed] have out: "outside_revocation w' = outside_revocation w1"
      and rev: "\<exists>k. own_serial w1 src k \<and> revoked_as_compromised now w1 w' k \<and> (\<forall>x. x \<noteq> k \<longrightarrow> lg_revocations w' x = lg_revocations w1 x)"
      by blast+
    have "own_serial w1 src = own_serial w src" by (intro ext) (simp add: own_serial_def w1)
    with rev True have "own_revoked now w src w'" by (simp add: own_revoked_def revoked_as_compromised_def w1)
    with eff outside_more [OF out] show ?thesis by (simp add: w1)
  qed
qed

text \<open>What follows the additions: the transition and its impacts are stored, and nothing else is touched.\<close>

lemma store_report:
  assumes ins: "insert_transition env meta cmd mode now src w = (Inr t, w1)"
    and imp: "recordImpacts (tr_id t) leafs w1 = (Inr r, w2)"
    and audit: "append_transition_audit env now meta action (tr_id t) details scope detail w2 = (Inr u, w3)"
    and view: "toTransitionView t w3 = (Inr v, w')"
  shows "lg_authorities w' = lg_authorities w \<and> lg_revocations w' = lg_revocations w \<and> tw_ID v = tr_id t
    \<and> lg_transitions w (tr_id t) = None \<and> lg_transitionRows w' = AList.update (tr_id t) t (lg_transitionRows w)
    \<and> IsInProgress t \<and> tr_mode t = mode \<and> tr_sourceAuthorityID t = au_id src
    \<and> (\<forall>i c. map_of (lg_impacts w') (i, c) =
         (if i = tr_id t \<and> c \<in> set leafs then Some (open_impact i c) else map_of (lg_impacts w) (i, c)))"
proof -
  from ins have t: "lg_transitions w (tr_id t) = None" "IsInProgress t" "tr_mode t = mode"
    "tr_sourceAuthorityID t = au_id src"
    "\<exists>n. w1 = w\<lparr>lg_uuids := n, lg_transitionRows := AList.update (tr_id t) t (lg_transitionRows w)\<rparr>"
    by (auto simp: insert_transition_def tx_iff NewTransition_def success_iff Transitions_Insert_def IsInProgress_def)
  then obtain n where w1: "w1 = w\<lparr>lg_uuids := n, lg_transitionRows := AList.update (tr_id t) t (lg_transitionRows w)\<rparr>"
    by blast
  note impacts = impacts_effect [OF imp]
  then obtain m where w2: "w2 = w1\<lparr>lg_impacts := m\<rparr>" by blast
  from audit obtain n2 ev where w3: "w3 = w2\<lparr>lg_uuids := n2, lg_auditEvents := ev\<rparr>"
    by (auto simp: append_transition_audit_def tx_iff)
  from view have v: "w' = w3" "tw_ID v = tr_id t"
    by (auto simp: toTransitionView_def tx_iff ListImpacts_def transition_view_def)
  show ?thesis using t(1-4) impacts by (simp add: v w3 w2 w1)
qed

text \<open>The reads before the first change leave the store alone; then the reported authority is stopped.\<close>

lemma report_begins:
  assumes run: "transition_create_commit env meta cmd mode w = (Inr v, w')"
  obtains src target stop w1 add w2 t w3 where "map_of (lg_authorities w) (tcc_SourceAuthorityID cmd) = Some src"
    and "stopIssuanceIfEnabled src w = (Inr stop, w1)"
    and "emergency_additions env meta mode src (tn_clock env 2) w1 = (Inr add, w2)"
    and "insert_transition env meta cmd mode (tn_clock env 2) src w2 = (Inr t, w3)"
    and "\<exists>r w4 u w5. recordImpacts (tr_id t) (snd add) w3 = (Inr r, w4)
      \<and> append_transition_audit env (tn_clock env 2) meta ''transition.create'' (tr_id t)
          [''mode'' \<mapsto> TransitionMode_text mode] (au_id src # fst add @ target)
          ''could not record the transition audit event'' w4 = (Inr u, w5)
      \<and> toTransitionView t w5 = (Inr v, w')"
proof -
  from run obtain a0 src a1 target a2 a3 stop w1 add w2 t w3 r w4 u w5 where
    session: "requireCurrentAuth (rq_Principal meta) (tn_clock env 1) w = (Inr (), a0)"
    and read: "read_source (tcc_SourceAuthorityID cmd) a0 = (Inr src, a1)"
    and other: "read_optional_target (tcc_TargetAuthorityID cmd) a1 = (Inr target, a2)"
    and allowed: "transition_authorize env (rq_Principal meta) ActionTransitionCreate (au_id src # target) a2 = (Inr (), a3)"
    and stop0: "stopIssuanceIfEnabled src a3 = (Inr stop, w1)"
    and rest: "emergency_additions env meta mode src (tn_clock env 2) w1 = (Inr add, w2)"
      "insert_transition env meta cmd mode (tn_clock env 2) src w2 = (Inr t, w3)"
      "recordImpacts (tr_id t) (snd add) w3 = (Inr r, w4)"
      "append_transition_audit env (tn_clock env 2) meta ''transition.create'' (tr_id t)
        [''mode'' \<mapsto> TransitionMode_text mode] (au_id src # fst add @ target)
        ''could not record the transition audit event'' w4 = (Inr u, w5)"
      "toTransitionView t w5 = (Inr v, w')"
    unfolding transition_create_commit_def Let_def
    by (auto simp: tx_bind_iff split: prod.splits)
  have "a0 = w" using session by (simp add: requireCurrentAuth_iff)
  with read have src: "map_of (lg_authorities w) (tcc_SourceAuthorityID cmd) = Some src" and "a1 = w"
    by (auto simp: read_source_def GetIssuerForUpdate_def tx_iff)
  with other have "a2 = w"
    by (auto simp: read_optional_target_def read_target_def GetIssuerForUpdate_def tx_iff split: if_splits)
  with allowed stop0 have stop: "stopIssuanceIfEnabled src w = (Inr stop, w1)" by (simp add: transition_authorize_def tx_iff)
  show ?thesis by (rule that [OF src stop rest(1,2)]) (use rest in blast)
qed

text \<open>C22. An emergency report contains the compromise in its own transaction: with the transition it stores, in
  progress and naming the reported authority, every authority of the family, the reported one and everything managed
  below it at any depth, is stopped unless it was not issuing anyway, so that no certificate can be issued under any of
  them, while no other authority changes; the impacts of the transition are exactly the leaf certificates managed by the
  family, none resolved; and at most one revocation changes, that of an intermediate's own certificate under the key
  that issued it, which the ledger then has, with reason CA compromise at the instant of the report when it is new: no
  leaf is revoked.\<close>

theorem emergency_report_contains:
  assumes run: "TransitionService_Create env meta cmd w = (Inr v, w')"
    and mode: "ModeInput_Domain (tcc_Mode cmd) = Inr TransitionModeEmergency"
    and ok: "authority_rows_ok w" "certificate_rows_ok w" "crl_keyed w" and pages: "length (lg_certificates w) < tn_pages env"
  shows "\<exists>src t. map_of (lg_authorities w) (tcc_SourceAuthorityID cmd) = Some src
    \<and> (\<forall>i. i \<notin> family w (tcc_SourceAuthorityID cmd) \<longrightarrow> map_of (lg_authorities w') i = map_of (lg_authorities w) i)
    \<and> (\<forall>i\<in>family w (tcc_SourceAuthorityID cmd). \<exists>a b. map_of (lg_authorities w) i = Some a
         \<and> map_of (lg_authorities w') i = Some b \<and> b = stopped a \<and> (\<forall>ctx now. CanIssue b ctx now \<noteq> None))
    \<and> lg_transitions w (tw_ID v) = None \<and> lg_transitions w' = (lg_transitions w)(tw_ID v \<mapsto> t)
    \<and> IsInProgress t \<and> tr_mode t = TransitionModeEmergency \<and> tr_sourceAuthorityID t = tcc_SourceAuthorityID cmd
    \<and> (\<forall>i c. map_of (lg_impacts w') (i, c) =
         (if i = tw_ID v \<and> (\<exists>a\<in>family w (tcc_SourceAuthorityID cmd). managed_leaf w a c) then Some (open_impact i c)
          else map_of (lg_impacts w) (i, c)))
    \<and> own_revoked (tn_clock env 2) w src w'"
proof -
  from run have "transition_create_commit env meta cmd TransitionModeEmergency w = (Inr v, w')"
    by (auto simp: TransitionService_Create_def tx_iff mode uow_write_iff split: if_splits)
  then obtain src target stop w1 touched leafs w2 t w3 where
    src: "map_of (lg_authorities w) (tcc_SourceAuthorityID cmd) = Some src"
    and stop: "stopIssuanceIfEnabled src w = (Inr stop, w1)"
    and add: "emergency_additions env meta TransitionModeEmergency src (tn_clock env 2) w1 = (Inr (touched, leafs), w2)"
    and ins: "insert_transition env meta cmd TransitionModeEmergency (tn_clock env 2) src w2 = (Inr t, w3)"
    and rest: "\<exists>r w4 u w5. recordImpacts (tr_id t) leafs w3 = (Inr r, w4)
      \<and> append_transition_audit env (tn_clock env 2) meta ''transition.create'' (tr_id t)
          [''mode'' \<mapsto> TransitionMode_text TransitionModeEmergency] (au_id src # touched @ target)
          ''could not record the transition audit event'' w4 = (Inr u, w5)
      \<and> toTransitionView t w5 = (Inr v, w')"
    by (rule report_begins) (metis prod.collapse)
  have id: "au_id src = tcc_SourceAuthorityID cmd" "au_id src \<noteq> []" using authority_row [OF ok(1) src] by simp_all
  from src id have row: "map_of (lg_authorities w) (au_id src) = Some src" by simp
  note stopped1 = stop_effect [OF stop ok(1) row]
  then obtain l where w1: "w1 = w\<lparr>lg_authorities := l\<rparr>" by blast
  have fam: "family w1 (au_id src) = family w (au_id src)" using family_stopped [OF ok(1)] stopped1 by blast
  have same: "managed_leaf w1 = managed_leaf w" "own_revoked now w1 src = own_revoked now w src" for now
    by (intro ext; simp add: managed_leaf_def own_revoked_def revoked_as_compromised_def own_serial_def w1)+
  have ok1: "authority_rows_ok w1" "certificate_rows_ok w1" "crl_keyed w1" "length (lg_certificates w1) < tn_pages env"
    using stopped1 ok pages by (simp_all add: w1 certificate_rows_ok_def crl_keyed_def)
  note eff = additions_effect [OF add ok1 id(2), unfolded fam same]
  then have auth: "map_of (lg_authorities w2) = with_stopped (family w (au_id src)) (map_of (lg_authorities w))"
    using stopped1 with_stopped_more [of _ "{au_id src}"] by (metis Un_insert_left sup_bot_left)
  have final: "lg_authorities w' = lg_authorities w2 \<and> lg_revocations w' = lg_revocations w2 \<and> tw_ID v = tr_id t
    \<and> lg_transitions w2 (tr_id t) = None \<and> lg_transitionRows w' = AList.update (tr_id t) t (lg_transitionRows w2)
    \<and> IsInProgress t \<and> tr_mode t = TransitionModeEmergency \<and> tr_sourceAuthorityID t = au_id src
    \<and> (\<forall>i c. map_of (lg_impacts w') (i, c) =
         (if i = tr_id t \<and> c \<in> set leafs then Some (open_impact i c) else map_of (lg_impacts w2) (i, c)))"
    using rest store_report [OF ins] by blast
  have "\<exists>a b. map_of (lg_authorities w) i = Some a \<and> map_of (lg_authorities w') i = Some b
      \<and> b = stopped a \<and> (\<forall>ctx now. CanIssue b ctx now \<noteq> None)" if i: "i \<in> family w (au_id src)" for i
  proof -
    from family_row [OF ok(1) row i] obtain a where "map_of (lg_authorities w) i = Some a" by blast
    with i stopped_refuses show ?thesis by (simp add: final auth with_stopped_def)
  qed
  moreover have "map_of (lg_authorities w') i = map_of (lg_authorities w) i" if "i \<notin> family w (au_id src)" for i
    using that by (simp add: final auth with_stopped_def option.map_id)
  moreover have "lg_transitions w (tr_id t) = None \<and> lg_transitions w' = (lg_transitions w)(tr_id t \<mapsto> t)"
    using eff final by (simp add: update_conv' w1)
  moreover have "lg_revocations w' = lg_revocations w2" using final by blast
  then have "own_revoked (tn_clock env 2) w src w'"
    using eff unfolding own_revoked_def revoked_as_compromised_def by (elim conjE) (simp only:)
  moreover have "map_of (lg_impacts w') (i, c) = (if i = tr_id t \<and> (\<exists>a\<in>family w (au_id src). managed_leaf w a c)
      then Some (open_impact i c) else map_of (lg_impacts w) (i, c))" for i c
  proof -
    from eff have "c \<in> set leafs \<longleftrightarrow> (\<exists>a\<in>family w (au_id src). managed_leaf w a c)" by blast
    moreover from eff have "lg_impacts w2 = lg_impacts w" by (simp add: w1)
    moreover from final have "map_of (lg_impacts w') (i, c)
        = (if i = tr_id t \<and> c \<in> set leafs then Some (open_impact i c) else map_of (lg_impacts w2) (i, c))" by blast
    ultimately show ?thesis by (simp only:)
  qed
  ultimately show ?thesis using src final by (intro exI [of _ src] exI [of _ t]) (simp add: id)
qed

subsection \<open>Completing and closing a stored transition\<close>

lemma opened_transition:
  assumes "open_transition env p action i ver w = (Inr t, w')"
  shows "w' = w \<and> lg_transitions w i = Some t \<and> tr_version t = ver"
  using assms by (auto simp: open_transition_def requireCurrentAuth_iff read_transition_def Transitions_GetForUpdate_def
      transition_authorize_def transition_version_check_def tx_iff split: if_splits)

definition addressed :: "ledger \<Rightarrow> Instant \<Rightarrow> TransitionImpact \<Rightarrow> bool" where
  "addressed w now m \<longleftrightarrow> Impact_IsResolved m
     \<or> (\<forall>c. map_of (lg_certificates w) (ti_certificateID m) = Some c \<longrightarrow> Certificate_IsExpiredAt c now)"

lemma impacts_addressed_exact:
  "impacts_addressed now ms w = (Inr b, w') \<longleftrightarrow> w' = w \<and> b = list_all (addressed w now) ms"
proof (induction ms)
  case (Cons m ms)
  then show ?case
    by (cases "map_of (lg_certificates w) (ti_certificateID m)")
      (auto simp: addressed_def tx_iff tx_bind_def tx_try_def PKI_GetCertificate_def found_def tx_return_def tx_fail_def)
qed (auto simp: tx_return_iff)

definition advanced :: "Transition \<Rightarrow> TransitionState \<Rightarrow> Transition" where
  "advanced t s = t\<lparr>tr_state := s, tr_version := Version_Next (tr_version t)\<rparr>"

text \<open>A transition leaves the progress state only for a caller who names its version, with a successor, with every
  impact reissued or its certificate expired or gone by the transaction's own clock, and after a confirmed deployment.\<close>

theorem complete_sound:
  assumes "TransitionService_Complete env meta i w = (Inr v, w')"
  shows "\<exists>t. lg_transitions w i = Some t \<and> RequireExpectedVersion meta = Inr (tr_version t) \<and> IsInProgress t
    \<and> tr_targetAuthorityID t \<noteq> [] \<and> list_all (addressed w (tn_clock env 2)) (impacts_of (tr_id t) w)
    \<and> (\<exists>c\<in>set (lg_deploymentConfirmations w). dc_transitionID c = tr_id t)
    \<and> lg_transitions w' = (lg_transitions w)(tr_id t \<mapsto> advanced t TransitionStateExternallyCompleted)
    \<and> lg_impacts w' = lg_impacts w \<and> lg_authorities w' = lg_authorities w"
proof -
  from assms obtain ver where ver: "RequireExpectedVersion meta = Inr ver"
    and commit: "complete_commit env meta i ver w = (Inr v, w')"
    by (auto simp: TransitionService_Complete_def transition_admin_version_def tx_iff uow_write_iff split: if_splits)
  then obtain t facts t' w1 w2 w3 u where opened: "open_transition env (rq_Principal meta) ActionTransitionComplete i ver w = (Inr t, w1)"
    and facts: "gatherClosureFacts (tr_id t) (tn_clock env 2) w1 = (Inr facts, w2)"
    and t': "Transition_Complete t facts = Inr t'" and save: "save_transition t' ver w2 = (Inr (), w3)"
    and rest: "tx_bind (append_transition_audit env (tn_clock env 2) meta ''transition.complete'' i Map.empty (transitionScope t)
         ''could not record the complete audit event'') (\<lambda>_. toTransitionView t') w3 = (Inr v, w')"
    unfolding complete_commit_def Let_def by (auto simp: tx_bind_iff tx_domain_iff)
  note o = opened_transition [OF opened]
  have f: "w2 = w1" "tcf_AllImpactsAddressed facts = list_all (addressed w1 (tn_clock env 2)) (impacts_of (tr_id t) w1)"
    "tcf_ManualDeploymentConfirmed facts \<longleftrightarrow> (\<exists>c\<in>set (lg_deploymentConfirmations w1). dc_transitionID c = tr_id t)"
    using facts by (auto simp: gatherClosureFacts_def tx_iff ListImpacts_def ListDeploymentConfirmations_def
        impacts_addressed_exact impacts_of_def filter_empty_conv)
  from t' have c: "IsInProgress t" "tr_targetAuthorityID t \<noteq> []" "tcf_AllImpactsAddressed facts"
    "tcf_ManualDeploymentConfirmed facts" "t' = advanced t TransitionStateExternallyCompleted"
    by (auto simp: Transition_Complete_def advanced_def split: if_splits)
  from save have w3: "w3 = w2\<lparr>lg_transitionRows := AList.update (tr_id t') t' (lg_transitionRows w2)\<rparr>"
    by (auto simp: save_transition_def Transitions_Save_def tx_iff)
  have "lg_transitionRows w' = lg_transitionRows w3 \<and> lg_impacts w' = lg_impacts w3 \<and> lg_authorities w' = lg_authorities w3"
    using rest by (auto simp: append_transition_audit_def toTransitionView_def ListImpacts_def tx_iff)
  moreover have "tr_id t' = tr_id t" by (simp add: c(5) advanced_def)
  ultimately show ?thesis using ver o f c by (intro exI [of _ t]) (simp add: w3 update_conv')
qed

text \<open>It is closed only once it was completed and the publication of the source authority's CRL has ended.\<close>

theorem close_sound:
  assumes "TransitionService_Close env meta i w = (Inr v, w')"
  shows "\<exists>t src st. lg_transitions w i = Some t \<and> RequireExpectedVersion meta = Inr (tr_version t)
    \<and> \<not> IsInProgress t \<and> \<not> IsClosed t \<and> map_of (lg_authorities w) (tr_sourceAuthorityID t) = Some src
    \<and> lg_crlStates w (au_keyGenerationID src) = Some st \<and> cs_publicationState st = PublicationStateClosed
    \<and> lg_transitions w' = (lg_transitions w)(tr_id t \<mapsto> advanced t TransitionStateClosed)
    \<and> lg_impacts w' = lg_impacts w \<and> lg_authorities w' = lg_authorities w"
proof -
  from assms obtain ver where ver: "RequireExpectedVersion meta = Inr ver"
    and commit: "close_commit env meta i ver w = (Inr v, w')"
    by (auto simp: TransitionService_Close_def transition_admin_version_def tx_iff uow_write_iff split: if_splits)
  then obtain t src st t' w1 w2 w3 w4 where opened: "open_transition env (rq_Principal meta) ActionTransitionClose i ver w = (Inr t, w1)"
    and src: "read_closing_source (tr_sourceAuthorityID t) w1 = (Inr src, w2)"
    and st: "read_closing_state (au_keyGenerationID src) w2 = (Inr st, w3)"
    and t': "Transition_Close t (TransitionTerminationFacts (cs_publicationState st = PublicationStateClosed)) = Inr t'"
    and save: "save_transition t' ver w3 = (Inr (), w4)"
    and rest: "tx_bind (append_transition_audit env (tn_clock env 2) meta ''transition.close'' i Map.empty
        (transitionScope t @ [au_id src]) ''could not record the close audit event'') (\<lambda>_. toTransitionView t') w4 = (Inr v, w')"
    unfolding close_commit_def by (auto simp: tx_bind_iff tx_domain_iff)
  note o = opened_transition [OF opened]
  have r: "w3 = w" "map_of (lg_authorities w) (tr_sourceAuthorityID t) = Some src" "lg_crlStates w (au_keyGenerationID src) = Some st"
    using o src st by (auto simp: read_closing_source_def read_closing_state_def GetIssuerForUpdate_def GetStateForUpdate_def tx_iff)
  from t' have c: "\<not> IsInProgress t" "\<not> IsClosed t" "cs_publicationState st = PublicationStateClosed"
    "t' = advanced t TransitionStateClosed"
    by (auto simp: Transition_Close_def advanced_def split: if_splits)
  from save have w4: "w4 = w3\<lparr>lg_transitionRows := AList.update (tr_id t') t' (lg_transitionRows w3)\<rparr>"
    by (auto simp: save_transition_def Transitions_Save_def tx_iff)
  have "lg_transitionRows w' = lg_transitionRows w4 \<and> lg_impacts w' = lg_impacts w4 \<and> lg_authorities w' = lg_authorities w4"
    using rest by (auto simp: append_transition_audit_def toTransitionView_def ListImpacts_def tx_iff)
  moreover have "tr_id t' = tr_id t" by (simp add: c(4) advanced_def)
  ultimately show ?thesis using ver o r c by (intro exI [of _ t] exI [of _ src] exI [of _ st]) (simp add: w4 update_conv')
qed

end
