(* ===== verification/Transition_Samples.thy ===== *)
theory Transition_Samples
  imports Transition_Safety Renewal_Samples
begin

text \<open>
  The installation of \<open>Renewal_Samples\<close> under a root: its authority is an intermediate managed by the root and has one
  leaf certificate. The root is reported compromised.
\<close>

definition sample_root_ca :: Authority where
  "sample_root_ca = sample_ca\<lparr>au_id := sample_uuid CHR ''e'', au_kind := AuthorityKindRoot, au_managementParentID := []\<rparr>"

definition sample_child_ca :: Authority where
  "sample_child_ca = sample_ca\<lparr>au_managementParentID := sample_uuid CHR ''e''\<rparr>"

definition sample_leaf_record :: LeafCertificateRecord where
  "sample_leaf_record = leaf_record sample_client_cert (sample_uuid CHR ''3'') (sample_uuid CHR ''4'') (sample_uuid CHR ''c'') []
     ''initial'' 0 (ls_policy sample_client_series)"

definition sample_hierarchy :: ledger where
  "sample_hierarchy = sample_client_store\<lparr>
     lg_authorities := [(sample_uuid CHR ''a'', sample_child_ca), (sample_uuid CHR ''e'', sample_root_ca)],
     lg_leafCertRecords := [sample_uuid CHR ''6'' \<mapsto> sample_leaf_record]\<rparr>"

definition sample_transition_env :: transition_env where
  "sample_transition_env = \<lparr>tn_authorize = (\<lambda>_ _ _. None), tn_ids = (\<lambda>_. sample_uuid CHR ''5''), tn_clock = (\<lambda>_. Instant 20),
     tn_fate = Committed, tn_lower = id, tn_pages = 3\<rparr>"

definition sample_report :: TransitionCreateCommand where
  "sample_report = \<lparr>tcc_SourceAuthorityID = sample_uuid CHR ''e'', tcc_TargetAuthorityID = [],
     tcc_Mode = TransitionModeEmergency, tcc_Reason = ''leaked''\<rparr>"

lemma sample_transition_simps [simp]:
  "tn_authorize sample_transition_env p a s = None" "tn_ids sample_transition_env n = sample_uuid CHR ''5''"
  "tn_clock sample_transition_env n = Instant 20" "tn_fate sample_transition_env = Committed"
  "tn_pages sample_transition_env = 3"
  "tcc_SourceAuthorityID sample_report = sample_uuid CHR ''e''" "tcc_TargetAuthorityID sample_report = []"
  "tcc_Mode sample_report = TransitionModeEmergency" "tcc_Reason sample_report = ''leaked''"
  by (simp_all add: sample_transition_env_def sample_report_def)

lemma sample_hierarchy_rows [simp]:
  "lg_authorities sample_hierarchy = [(sample_uuid CHR ''a'', sample_child_ca), (sample_uuid CHR ''e'', sample_root_ca)]"
  "lg_leafCertRecords sample_hierarchy = [sample_uuid CHR ''6'' \<mapsto> sample_leaf_record]"
  "lg_certificates sample_hierarchy = lg_certificates sample_client_store"
  "lg_series sample_hierarchy = lg_series sample_client_store"
  "lg_accounts sample_hierarchy = lg_accounts sample_installation" "lg_sessions sample_hierarchy = lg_sessions sample_installation"
  "lg_crlStates sample_hierarchy = Map.empty" "lg_impacts sample_hierarchy = []" "lg_transitionRows sample_hierarchy = []"
  by (simp_all add: sample_hierarchy_def)
    (simp_all add: sample_client_store_def sample_installation_def sample_login_store_def newState_def)

lemma sample_members [simp]:
  "au_id sample_root_ca = sample_uuid CHR ''e''" "au_kind sample_root_ca = AuthorityKindRoot"
  "au_managementParentID sample_root_ca = []" "au_id sample_child_ca = sample_uuid CHR ''a''"
  "au_managementParentID sample_child_ca = sample_uuid CHR ''e''" "au_issuanceState sample_root_ca = IssuanceStateEnabled"
  "au_issuanceState sample_child_ca = IssuanceStateEnabled" "\<not> Authority_IsArchived sample_root_ca"
  "\<not> Authority_IsArchived sample_child_ca" "lr_SeriesID sample_leaf_record = sample_uuid CHR ''3''"
  "ce_id sample_client_cert = sample_uuid CHR ''6''"
  by (simp_all add: sample_root_ca_def sample_child_ca_def sample_ca_def sample_authority_def Authority_IsArchived_def
      Instant_IsZero_iff sample_leaf_record_def leaf_record_def sample_client_cert_def)

lemma sample_hierarchy_ok:
  "authority_rows_ok sample_hierarchy" "certificate_rows_ok sample_hierarchy" "crl_keyed sample_hierarchy"
  by (simp_all add: authority_rows_ok_def certificate_rows_ok_def crl_keyed_def sample_digit_ids(2) [THEN not_sym])

lemma sample_stops:
  "stopIssuanceIfEnabled sample_root_ca sample_hierarchy = (Inr (stopped sample_root_ca, True),
     sample_hierarchy\<lparr>lg_authorities := [(sample_uuid CHR ''a'', sample_child_ca), (sample_uuid CHR ''e'', stopped sample_root_ca)]\<rparr>)"
  by (simp add: stopIssuanceIfEnabled_def StopIssuance_def stopped_def run_defs SaveAuthority_def)

lemma sample_leafs:
  assumes "lg_certificates w = lg_certificates sample_client_store" "lg_leafCertRecords w = [sample_uuid CHR ''6'' \<mapsto> sample_leaf_record]"
    "lg_series w = lg_series sample_client_store" "lg_caCertRecords w = lg_caCertRecords sample_client_store"
    "lg_caKeyGenerations w = lg_caKeyGenerations sample_client_store"
  shows "collectLeafCertificateIDs sample_transition_env (sample_uuid CHR ''e'') w = (Inr [], w)"
    "collectLeafCertificateIDs sample_transition_env (sample_uuid CHR ''a'') w = (Inr [sample_uuid CHR ''6''], w)"
  using assms
  by (simp_all add: collectLeafCertificateIDs_def numeral_eq_Suc run_defs Query_ListCertificates_def paginate_def Let_def
      visible_certificates_def lists_certificate_def visible_def passes_def matchesSearch_def certificateAuthority_def
      queried_def certificate_id_def)

lemma sample_family_listed:
  assumes "lg_authorities w = [(sample_uuid CHR ''a'', sample_child_ca), (sample_uuid CHR ''e'', stopped sample_root_ca)]"
  shows "ListAffectedDescendants (sample_uuid CHR ''e'') w = (Inr [sample_child_ca], w)"
  using assms by (simp add: ListAffectedDescendants_def tx_return_def)

lemma sample_blocks:
  assumes w: "w = sample_hierarchy\<lparr>lg_authorities := [(sample_uuid CHR ''a'', sample_child_ca),
      (sample_uuid CHR ''e'', stopped sample_root_ca)]\<rparr>"
  shows "\<exists>l. emergencyBlockAndImpact sample_transition_env sample_root_ca w
    = (Inr ([sample_uuid CHR ''a''], [sample_uuid CHR ''6'']), w\<lparr>lg_authorities := l\<rparr>)"
proof -
  have rows: "lg_authorities w = [(sample_uuid CHR ''a'', sample_child_ca), (sample_uuid CHR ''e'', stopped sample_root_ca)]"
    by (simp add: w)
  let ?l = "[(sample_uuid CHR ''a'', stopped sample_child_ca), (sample_uuid CHR ''e'', stopped sample_root_ca)]"
  have stop: "stopIssuanceIfEnabled sample_child_ca w = (Inr (stopped sample_child_ca, True), w\<lparr>lg_authorities := ?l\<rparr>)"
    using rows by (simp add: stopIssuanceIfEnabled_def StopIssuance_def stopped_def run_defs SaveAuthority_def)
  note leafs = sample_leafs [of "w\<lparr>lg_authorities := ?l\<rparr>"]
  have "lg_caCertRecords w = lg_caCertRecords sample_client_store" "lg_caKeyGenerations w = lg_caKeyGenerations sample_client_store"
    "lg_leafCertRecords w = [sample_uuid CHR ''6'' \<mapsto> sample_leaf_record]" "lg_series w = lg_series sample_client_store"
    "lg_certificates w = lg_certificates sample_client_store"
    unfolding w by (simp_all add: sample_hierarchy_def)
  then show ?thesis
    by (intro exI [of _ ?l]) (simp add: emergencyBlockAndImpact_def run_defs sample_family_listed [OF rows] stop leafs)
qed

lemma sample_report_runs:
  "\<exists>v w. TransitionService_Create sample_transition_env sample_issue_meta sample_report sample_hierarchy = (Inr v, w)"
proof -
  have ids: "ParseAuthorityID (sample_uuid CHR ''e'') = Inr (sample_uuid CHR ''e'')"
    "ParseTransitionID (sample_uuid CHR ''5'') = Inr (sample_uuid CHR ''5'')"
    "ParseCertificateID (sample_uuid CHR ''6'') = Inr (sample_uuid CHR ''6'')"
    "ParseAccountID (sample_uuid CHR ''1'') = Inr (sample_uuid CHR ''1'')"
    by (simp_all add: ParseID_Inr)
  have valid: "TransitionCreate_Validate sample_report = None"
    by (simp add: TransitionCreate_Validate_def parse_error_def parse_error_unless_empty_def ModeInput_Domain_def
        check_then_def maxTransitionReasonLength_def ids)
  have admin: "IsAdmin (rq_Principal sample_issue_meta)" by (simp add: sample_issue_meta_def)
  have who: "rq_Principal sample_issue_meta = sample_operator" by (simp add: sample_issue_meta_def)
  have auth: "requireCurrentAuth sample_operator (Instant 20) sample_hierarchy = (Inr (), sample_hierarchy)"
    by (rule sample_auth_now) simp_all
  have scope: "AuditScope_Validate (NewAuthoritiesAuditScope (dedupAuthorityIDs [sample_uuid CHR ''e'', sample_uuid CHR ''a''])) = None"
    by (simp add: AuditScope_Validate_def NewAuthoritiesAuditScope_def ParseID_Inr dedupAuthorityIDs_def)
  let ?w1 = "sample_hierarchy\<lparr>lg_authorities := [(sample_uuid CHR ''a'', sample_child_ca), (sample_uuid CHR ''e'', stopped sample_root_ca)]\<rparr>"
  from sample_blocks [OF refl] obtain l where block: "emergencyBlockAndImpact sample_transition_env sample_root_ca ?w1
    = (Inr ([sample_uuid CHR ''a''], [sample_uuid CHR ''6'']), ?w1\<lparr>lg_authorities := l\<rparr>)" by blast
  let ?w2 = "sample_hierarchy\<lparr>lg_authorities := l\<rparr>"
  obtain t where insert: "insert_transition sample_transition_env sample_issue_meta sample_report TransitionModeEmergency
      (Instant 20) sample_root_ca ?w2
      = (Inr t, ?w2\<lparr>lg_uuids := Suc (lg_uuids sample_hierarchy), lg_transitionRows := [(sample_uuid CHR ''5'', t)]\<rparr>)" "tr_id t = sample_uuid CHR ''5''"
    by (simp add: insert_transition_def run_defs NewUUID_def ids NewTransition_def check_then_def Instant_IsZero_iff
        zero_instant_def Transitions_Insert_def who)
  have "\<exists>v w. transition_create_commit sample_transition_env sample_issue_meta sample_report TransitionModeEmergency
      sample_hierarchy = (Inr v, w)"
    by (simp add: transition_create_commit_def run_defs who auth read_source_def GetIssuerForUpdate_def read_optional_target_def
        transition_authorize_def sample_stops emergency_additions_def block insert recordImpacts_def NewUUID_def ids
        NewTransitionImpact_def check_then_def AddImpact_def impact_key_def
        append_transition_audit_def Audit_Append_def scope toTransitionView_def ListImpacts_def Let_def)
  then show ?thesis
    by (simp add: TransitionService_Create_def bind_front valid admin)
      (simp add: run_defs ModeInput_Domain_def check_then_def uow_write_def split: prod.splits; fastforce)
qed

theorem emergency_report_contains_witness:
  "\<exists>v w t a. TransitionService_Create sample_transition_env sample_issue_meta sample_report sample_hierarchy = (Inr v, w)
     \<and> lg_transitions w (tw_ID v) = Some t \<and> tr_mode t = TransitionModeEmergency
     \<and> map_of (lg_impacts w) (tw_ID v, sample_uuid CHR ''6'') \<noteq> None
     \<and> map_of (lg_authorities w) (sample_uuid CHR ''a'') = Some a \<and> (\<forall>ctx now. CanIssue a ctx now \<noteq> None)"
proof -
  obtain v w where run: "TransitionService_Create sample_transition_env sample_issue_meta sample_report sample_hierarchy = (Inr v, w)"
    using sample_report_runs by blast
  have mode: "ModeInput_Domain (tcc_Mode sample_report) = Inr TransitionModeEmergency"
    by (simp add: ModeInput_Domain_def check_then_def)
  have "descends_from (map snd (lg_authorities sample_hierarchy)) (sample_uuid CHR ''e'') sample_child_ca"
    by (rule descends_from.child) simp_all
  then have child: "sample_uuid CHR ''a'' \<in> family sample_hierarchy (sample_uuid CHR ''e'')" by (force simp: family_def)
  moreover have "managed_leaf sample_hierarchy (sample_uuid CHR ''a'') (sample_uuid CHR ''6'')"
    by (simp add: managed_leaf_def)
  ultimately have leaf: "\<exists>a\<in>family sample_hierarchy (sample_uuid CHR ''e''). managed_leaf sample_hierarchy a (sample_uuid CHR ''6'')"
    by blast
  have "length (lg_certificates sample_hierarchy) < tn_pages sample_transition_env" by simp
  from emergency_report_contains [OF run mode sample_hierarchy_ok this] child leaf run show ?thesis
    by (simp del: not_None_eq) (metis fun_upd_same option.distinct(1))
qed

end
