(* ===== verification/Spec2Isabelle.thy ===== *)
theory Spec2Isabelle
  imports Prelude Go_Int Go_Bytes Domain_Errors SHA256 Values Instants Secrets Machines Authority
    Calendar Series Netip Certificate Revocation CRL_State Delivery Transition TLS_Change Identity
    App_Errors Issuer_Chain Principals Tx Go_Format Go_JSON Ledger_Store PKI_Store Workflow_Store Requests
    Settings_Codec Secret_Input Access Auth_Service Identity_Service Revocation_Batch Import_Order Import_History
    Service_Base CRL_Service CRL_Demand Distribution_Service Frames Key_Handover Transfer_Recovery
    Signing Issuance_Input Issuance_Service Renewal_Service Issuance_Effects Issuance_Commits Issuance_Interleaving
    Issue_Safety Issuance_Samples Renew_Safety Renewal_Samples
    Authority_Input Authority_Service Authority_Create Authority_Effects Authority_Refinement Authority_Safety Create_Safety
    Authority_Samples Query_Input Query_Store Query_Paging Transition_Input Transition_Service Transition_Safety
    Transition_Samples
begin

text \<open>
  Verification of cert-me, a private certificate authority with a web console (Go, \<open>src/\<close>).

  The program. Administrators run certificate authorities (a tree of roots, intermediates and a bootstrap
  CA), issue leaf certificates in renewable series, hand each private key out exactly once, revoke
  certificates and publish CRLs. The code has four layers. \<open>internal/domain\<close> holds the rules: values
  and state machines without I/O. \<open>internal/app/contract\<close> and \<open>internal/app/port\<close> hold commands,
  errors, principals and the interfaces of the store and of the cryptographic services.
  \<open>internal/app/service\<close> runs one use case per method: check the principal, read the rows under
  lock, apply the domain rule, save with the expected version, append an audit event, all in one
  transaction of the unit of work. \<open>internal/storage\<close>, \<open>internal/cryptoengine\<close> and \<open>cmd\<close> bind
  these to SQL databases, cryptography and a process. \<open>internal/app/porttest\<close> is the in-memory
  store, the executable specification of the repositories the services rely on.

  How the model corresponds to the code. A Go struct is a record with a two-letter field prefix (\<open>Authority\<close>
  has \<open>au_id\<close>, \<open>au_version\<close>, ...), a string enumeration a datatype with one constructor per constant
  and \<open>...Other\<close> for any other string. Integers are HOL integers with \<open>wrap64\<close> written where the code
  computes in \<open>int64\<close>; SHA-256 computes on 32-bit words. A Go string is a list of bytes. A function
  returning \<open>(T, error)\<close> is a value of \<open>error + T\<close>, one returning only \<open>error\<close> an option. A pointer
  receiver that is mutated is a function to the new value. Code inside a transaction is a \<open>('w, 'a) tx\<close>
  (theory \<open>Tx\<close>): a function from the store to a result and a store; \<open>atomically\<close> is
  \<open>UnitOfWork.Write\<close>, which rolls back on error. The store is the record \<open>ledger\<close>, one field per
  table. Clock readings are numbered in the order the code takes them (\<open>clock 0\<close>, \<open>clock 1\<close>, ...),
  generated identifiers by the counter \<open>lg_uuids\<close>. The authorizer, the password hasher, the token
  codec, the CRL signer and the request context are arguments of the operations that use them.
\<close>

section \<open>The theories\<close>

text \<open>
  \<^bold>\<open>Foundations.\<close> \<open>Prelude\<close>: sums as results, \<open>check_then\<close>, the rule collection
  \<open>success_iff\<close> (when an operation succeeds and with what). \<open>Go_Int\<close>, \<open>Go_Bytes\<close>, \<open>Go_Format\<close>,
  \<open>Go_JSON\<close>, \<open>SHA256\<close>, \<open>Calendar\<close>, \<open>Netip\<close>: what the code uses of Go's standard library (64-bit
  integers, UTF-8, decimal text, \<open>encoding/json\<close>, \<open>crypto/sha256\<close>, \<open>time\<close>, \<open>net/netip\<close>).
  \<open>Machines\<close>: the contract of a stored aggregate as a locale (\<open>versioned_machine\<close>: an operation
  refuses, or returns the value with the next version and the same identity; \<open>lifecycle_machine\<close>:
  a rank only rises; \<open>one_shot\<close>: a step succeeds at most once), interpreted on the step function of each domain machine.

  \<^bold>\<open>Domain rules\<close> (\<open>internal/domain\<close>). \<open>Domain_Errors\<close> (errors.go), \<open>Values\<close>, \<open>Instants\<close>,
  \<open>Secrets\<close> (values.go), \<open>Authority\<close> (authority.go), \<open>Series\<close> (series.go), \<open>Certificate\<close>
  (certificate.go), \<open>Revocation\<close> and \<open>CRL_State\<close> (revocation.go), \<open>Delivery\<close> (delivery.go),
  \<open>Transition\<close> (transition.go), \<open>TLS_Change\<close> (tls.go), \<open>Identity\<close> (identity.go). Each has the
  constructors with their checks, every operation, its success conditions (\<open>success_iff\<close>), and the
  invariants over arbitrary sequences of operations: an affected authority never issues, CRL
  numbers and published generations never go back, a delivery and a grant are consumed at
  most once, a renewal never exceeds the CA window, a password reset cuts off every session.

  \<^bold>\<open>Contracts.\<close> \<open>App_Errors\<close> (contract/errors.go, port/errors.go, service/retry.go): error kinds and
  the preparation retry. \<open>Principals\<close> (contract/meta.go, parse.go). \<open>Access\<close> (port/services.go,
  service/deps.go): actions, authorization scopes, missing dependencies. \<open>Secret_Input\<close>
  (secret/input.go): secret bytes borrowed by readers and wiped when the last one is done, as
  a step relation over readers and the owner.

  \<^bold>\<open>The store\<close> (\<open>internal/app/porttest\<close>). \<open>Tx\<close>, \<open>Ledger_Store\<close>, \<open>PKI_Store\<close>, \<open>Workflow_Store\<close>:
  the tables and their operations. The locale \<open>versioned_table\<close> of \<open>PKI_Store\<close> states what
  optimistic locking promises a caller, and is interpreted on every table with versions.

  \<^bold>\<open>Services\<close> (\<open>internal/app/service\<close>). \<open>Issuer_Chain\<close> (chain.go, scope.go), \<open>Requests\<close>
  (request.go: idempotency), \<open>Settings_Codec\<close> (settings.go), \<open>Auth_Service\<close> (auth.go, preauth.go),
  \<open>Identity_Service\<close> (identity.go), \<open>Revocation_Batch\<close> (revocations.go), \<open>Service_Base\<close>
  (what the services share: unit of work with a commit of unknown outcome, domain checks), \<open>CRL_Service\<close>
  (crl.go), \<open>Distribution_Service\<close> (distribution.go, deliver_postprocess.go, recovery.go),
  \<open>Import_Order\<close> and \<open>Import_History\<close> (parts of importing.go). \<open>CRL_Demand\<close> composes the batch, the CRL
  service and the job table: whatever these do, in whatever order, a CA key whose published CRL is
  behind its revocation list has an open job. \<open>Frames\<close> proves which fields of the store an operation
  leaves alone. \<open>Key_Handover\<close> composes prepare, the consuming commit, the sink and the recording of
  the outcome: a private key leaves the server at most once, only after its consumption is
  committed, and a transfer that failed revokes the certificate. \<open>Transfer_Recovery\<close> adds the restart: the
  recovery loop returns, and no transfer it can read stays half done.

  \<open>Signing\<close> (certificate.go, the interfaces of port/crypto.go and port/signing.go) resolves a key, draws a
  serial, signs, and checks the signature against the request; \<open>Issuance_Input\<close> (contract/issuance.go,
  the JSON of issuance.go) holds commands, input hashes and stored results; \<open>Issuance_Service\<close> and
  \<open>Renewal_Service\<close> (issuance.go) are \<open>Issue\<close> and \<open>Renew\<close>: preparation outside the transaction, commit inside,
  up to five attempts. Their world \<open>signing_world\<close> adds to the store the log of calls to the key engine and
  the signer. \<open>Issuance_Effects\<close> (what a preparation returns and how often it calls), \<open>Issuance_Commits\<close>
  (what each stage of a commit found and stored) and \<open>Issuance_Interleaving\<close> (a request leaves no trace
  before its commit) carry \<open>Issue_Safety\<close>: one key per request, a stored certificate is one the issuer may
  issue at the commit, repeating a request is harmless. \<open>Renew_Safety\<close> does the
  same for \<open>Renew\<close>, under the contract that other requests respect the versions of the rows they change.
  \<open>Issuance_Samples\<close> and \<open>Renewal_Samples\<close> run both on a concrete installation.

  \<open>Authority_Input\<close> (contract/authority.go), \<open>Authority_Service\<close> and \<open>Authority_Create\<close> (service/authority.go)
  are the operations on authorities. \<open>Authority_Effects\<close> says what they find and store, the closure facts included;
  \<open>Authority_Refinement\<close> and \<open>Authority_Safety\<close> show that the service refines the domain machine on the table of
  authorities, when a key may be destroyed, and, together with \<open>Issue_Safety\<close>, that a destroyed key signs
  nothing; \<open>Create_Safety\<close> does for \<open>Create\<close> what \<open>Issue_Safety\<close> does for \<open>Issue\<close>. \<open>Authority_Samples\<close> runs them.

  Lemma groups. \<open>tx_iff\<close> rewrites "this transaction step returned this" to the conditions under
  which it does, so an operation unfolds to its branches; \<open>..._effect\<close> and \<open>..._steps\<close> lemmas state
  what a successful operation did, \<open>..._keeps...\<close> lemmas that it keeps an invariant, \<open>..._reads\<close>
  lemmas that it left the store alone.
\<close>

section \<open>Bounds and fuel\<close>

text \<open>
  \<open>chain_loop\<close> is bounded by the code's own \<open>maxChainDepth\<close> (16), \<open>retry_loop\<close> by its three attempts,
  \<open>issue_attempts\<close> and \<open>renew_attempts\<close> by the code's \<open>maxSerialAttempts\<close> (5).
  \<open>order_passes\<close> (the code's outer \<open>for len(remaining) > 0\<close>) is given one pass more than there are items:
  a pass that resolves nothing ends the loop and every other pass removes an item. \<open>descend\<close> carries
  its termination proof (unvisited rows shrink). \<open>recover_loop\<close> is the code's endless \<open>for\<close> as a partial
  function; \<open>Transfer_Recovery\<close> proves that it returns. The JSON reader takes the length of its input plus
  one as fuel, since each call consumes a byte, and refuses nesting deeper than 10000 as
  \<open>encoding/json\<close> does. The store's own identifiers keep twelve hexadecimal digits of a counter, so
  statements about new jobs assume fewer than \<open>jobs_bound\<close> (2 to the power 48) jobs. Optimistic-lock versions wrap
  at 64 bits like the code's.
\<close>

section \<open>Not modelled\<close>

text \<open>
  Cryptography (\<open>cryptoengine\<close>, \<open>cryptoformats\<close>, \<open>authcrypto\<close>) calls Go's crypto packages and is a
  parameter. The SQL store sends text to a database; the in-memory store stands for the repositories.
  Process start-up, HTTP and file locks are I/O. Generated views and read-only queries carry no state.
  Reissue, UpdateSeries and ArchiveSeries have commands but no implementation in the source. The view a write
  leaves behind starts as the zero view, which a cancelled loop returns as well. The transition, TLS, maintenance and settings services
  are orchestrations over the modelled rules and tables; they are the next parts of the development,
  as are the migration engine's statement splitter and journal.
\<close>

end
